(* ===== verification/Prelude.thy ===== *)
theory Prelude
  imports Main "HOL-Library.Word" "HOL-Library.AList" "HOL-Library.Multiset" "HOL-Library.List_Lexorder"
    "HOL-Library.Char_ord"
begin

text \<open>
  Shared vocabulary of the development: Go slices, Go maps, Go results, the removal idioms the
  controller uses on slices, stable sorting, and the collections of facts the component
  theories feed to the simplifier.

  A Go slice that the code distinguishes from \<open>nil\<close> is a \<open>'a list option\<close>; \<open>slice\<close> reads
  it where only its elements matter. A Go map is an association list with distinct keys: its
  order stands for the order a \<open>range\<close> statement happens to visit the keys in, so a theorem
  about every such list is a theorem about every iteration order. A function result with an error is a sum,
  \<open>Inl\<close> for the error.
\<close>

named_theorems gomap_simps "how lookups see updates and deletions of a Go map"
named_theorems inv_intros "preservation of the components' invariants"

section \<open>Slices\<close>

type_synonym bytes = string

definition slice :: "'a list option \<Rightarrow> 'a list" where
  "slice xs = (case xs of None \<Rightarrow> [] | Some ys \<Rightarrow> ys)"

lemma slice_simps [simp]: "slice None = []" "slice (Some ys) = ys"
  by (simp_all add: slice_def)

text \<open>The position of the first element that satisfies a test, as the loops \<open>for i := range xs\<close> with a
  \<open>break\<close> find it.\<close>

fun first_index :: "('a \<Rightarrow> bool) \<Rightarrow> 'a list \<Rightarrow> nat option" where
  "first_index p [] = None"
| "first_index p (x # xs) = (if p x then Some 0 else map_option Suc (first_index p xs))"

lemma first_index_None_iff [simp]: "first_index p xs = None \<longleftrightarrow> (\<forall>x \<in> set xs. \<not> p x)"
  by (induction xs) auto

lemma first_index_SomeD:
  "first_index p xs = Some i \<Longrightarrow> i < length xs \<and> p (xs ! i) \<and> (\<forall>j < i. \<not> p (xs ! j))"
proof (induction xs arbitrary: i)
  case (Cons x xs)
  then show ?case
    by (auto split: if_splits simp: less_Suc_eq_0_disj)
qed simp

text \<open>
  The idiom \<open>s[i] = s[len(s)-1]; s = s[:len(s)-1]\<close>: the element at \<open>i\<close> is overwritten
  by the last one and the slice loses its last position.
\<close>

definition swap_remove_at :: "nat \<Rightarrow> 'a list \<Rightarrow> 'a list" where
  "swap_remove_at i xs = take (length xs - 1) (xs[i := xs ! (length xs - 1)])"

definition swap_remove_first :: "('a \<Rightarrow> bool) \<Rightarrow> 'a list \<Rightarrow> 'a list" where
  "swap_remove_first p xs = (case first_index p xs of None \<Rightarrow> xs | Some i \<Rightarrow> swap_remove_at i xs)"

lemma length_swap_remove_at: "length (swap_remove_at i xs) = length xs - 1"
  by (simp add: swap_remove_at_def)

lemma mset_swap_remove_at:
  assumes "i < length xs"
  shows "mset (swap_remove_at i xs) = mset xs - {#xs ! i#}"
proof -
  obtain ys y where xs: "xs = ys @ [y]"
    using assms by (cases xs rule: rev_cases) auto
  show ?thesis
  proof (cases "i = length ys")
    case True
    then show ?thesis by (simp add: xs swap_remove_at_def nth_append)
  next
    case False
    with assms xs have i: "i < length ys" by simp
    then have "swap_remove_at i xs = ys[i := y]"
      by (simp add: xs swap_remove_at_def nth_append list_update_append)
    moreover have "mset (ys[i := y]) = add_mset y (mset ys - {#ys ! i#})"
      using i by (rule mset_update)
    moreover have "ys ! i \<in># mset ys" using i by simp
    ultimately show ?thesis using i by (simp add: xs nth_append)
  qed
qed

lemma mset_swap_remove_eq [simp]:
  "mset (swap_remove_first ((=) k) xs) = mset xs - {#k#}"
proof (cases "first_index ((=) k) xs")
  case None
  then have k: "k \<notin># mset xs" by auto
  show ?thesis
    unfolding swap_remove_first_def None using k by (simp add: diff_single_trivial)
next
  case (Some i)
  then show ?thesis
    by (auto simp: swap_remove_first_def mset_swap_remove_at dest: first_index_SomeD)
qed

lemma distinct_mset_diff:
  assumes "distinct xs" and "mset ys = mset xs - A"
  shows "distinct ys"
proof -
  have le: "count (mset ys) a \<le> 1" for a
    using assms by (simp add: distinct_count_atmost_1)
  show ?thesis
    unfolding distinct_count_atmost_1
  proof
    fix a
    show "count (mset ys) a = (if a \<in> set ys then 1 else 0)"
    proof (cases "a \<in> set ys")
      case True
      then have "1 \<le> count (mset ys) a"
        by (metis One_nat_def Suc_leI count_greater_zero_iff set_mset_mset)
      then have "count (mset ys) a = 1" by (rule le_antisym [OF le])
      with True show ?thesis by simp
    qed (simp add: count_eq_zero_iff)
  qed
qed

lemma set_swap_remove_eq: "distinct xs \<Longrightarrow> set (swap_remove_first ((=) k) xs) = set xs - {k}"
proof -
  assume d: "distinct xs"
  then have d': "distinct (swap_remove_first ((=) k) xs)"
    by (rule distinct_mset_diff) (rule mset_swap_remove_eq)
  have "mset_set (set (swap_remove_first ((=) k) xs)) = mset_set (set xs) - {#k#}"
    using d d' by (simp add: mset_set_set)
  also have "\<dots> = mset_set (set xs - {k})"
    by (cases "k \<in> set xs") (simp_all add: mset_set_Diff diff_single_trivial)
  finally show ?thesis by (simp add: mset_set_eq_iff)
qed

lemma swap_remove_notin: "k \<notin> set xs \<Longrightarrow> swap_remove_first ((=) k) xs = xs"
proof -
  assume "k \<notin> set xs"
  then have "first_index ((=) k) xs = None" by auto
  then show ?thesis by (simp add: swap_remove_first_def del: first_index_None_iff)
qed

lemma swap_remove_head: "swap_remove_first ((=) k) (k # xs) = (if xs = [] then [] else last xs # butlast xs)"
  by (cases xs rule: rev_cases)
    (simp_all add: swap_remove_first_def swap_remove_at_def nth_append nth_Cons')

text \<open>Removing an element other than the first leaves the first where it is.\<close>

lemma swap_remove_keeps_hd:
  assumes "k \<noteq> x"
  shows "\<exists>ys. swap_remove_first ((=) k) (x # xs) = x # ys"
proof (cases "first_index ((=) k) xs")
  case (Some i)
  then have "i < length xs" by (auto dest: first_index_SomeD)
  then have "length xs \<noteq> 0" by auto
  then obtain n where n: "length xs = Suc n" by (cases "length xs") auto
  show ?thesis using assms Some n by (simp add: swap_remove_first_def swap_remove_at_def)
next
  case None
  then show ?thesis using assms
    by (simp add: swap_remove_first_def del: first_index_None_iff)
qed

section \<open>Go maps\<close>

text \<open>The expression \<open>m[k]\<close>, which yields the zero value when the key is absent.\<close>

definition lookup_default :: "'v \<Rightarrow> ('k \<times> 'v) list \<Rightarrow> 'k \<Rightarrow> 'v" where
  "lookup_default d al k = (case map_of al k of None \<Rightarrow> d | Some v \<Rightarrow> v)"

lemma lookup_default_update [simp, gomap_simps]:
  "lookup_default d (AList.update k v al) k' = (if k' = k then v else lookup_default d al k')"
  by (simp add: lookup_default_def update_conv)

lemma lookup_default_delete [simp, gomap_simps]:
  "lookup_default d (AList.delete k al) k' = (if k' = k then d else lookup_default d al k')"
  by (simp add: lookup_default_def delete_conv)

lemma lookup_default_Nil [simp]: "lookup_default d [] k = d"
  by (simp add: lookup_default_def)

lemmas map_of_update [gomap_simps] = update_conv
lemmas map_of_delete [gomap_simps] = delete_conv

lemma lookup_default_absent: "k \<notin> fst ` set al \<Longrightarrow> lookup_default d al k = d"
  by (simp add: lookup_default_def map_of_eq_None_iff [THEN iffD2])

lemma lookup_default_mem: "distinct (map fst al) \<Longrightarrow> (k, v) \<in> set al \<Longrightarrow> lookup_default d al k = v"
  by (simp add: lookup_default_def)

section \<open>Strings\<close>

text \<open>\<open>strings.Split(s, sep)\<close> for a separator of one character.\<close>

fun go_split :: "char \<Rightarrow> string \<Rightarrow> string list" where
  "go_split sep [] = [[]]"
| "go_split sep (c # s) =
     (if c = sep then [] # go_split sep s
      else (case go_split sep s of [] \<Rightarrow> [[c]] | w # ws \<Rightarrow> (c # w) # ws))"

lemma go_split_notin: "sep \<notin> set s \<Longrightarrow> go_split sep s = [s]"
  by (induction s) auto

lemma go_split_append: "sep \<notin> set s \<Longrightarrow> go_split sep (s @ sep # t) = s # go_split sep t"
  by (induction s) auto

lemma go_split_not_Nil [simp]: "go_split sep s \<noteq> []"
  by (induction s) (auto split: list.splits)

lemma go_split_two: "sep \<in> set s \<Longrightarrow> \<exists>a b ws. go_split sep s = a # b # ws"
proof (induction s)
  case (Cons c s)
  show ?case
  proof (cases "c = sep")
    case True
    then show ?thesis by (cases "go_split sep s") simp_all
  next
    case False
    with Cons obtain a b ws where "go_split sep s = a # b # ws" by auto
    with False show ?thesis by simp
  qed
qed simp

lemma append_sep_inject:
  "sep \<notin> set a \<Longrightarrow> sep \<notin> set a' \<Longrightarrow> a @ sep # b = a' @ sep # b' \<longleftrightarrow> a = a' \<and> b = b'"
  by (induction a arbitrary: a') (case_tac a'; auto)+

text \<open>\<open>strings.HasPrefix\<close> (with the prefix first) and \<open>strings.Contains\<close>.\<close>

definition has_prefix :: "string \<Rightarrow> string \<Rightarrow> bool" where
  "has_prefix p s \<longleftrightarrow> take (length p) s = p"

fun contains_text :: "string \<Rightarrow> string \<Rightarrow> bool" where
  "contains_text [] sub = (sub = [])"
| "contains_text (c # s) sub = (has_prefix sub (c # s) \<or> contains_text s sub)"

lemma has_prefix_append [simp]: "has_prefix p (p @ s)"
  by (simp add: has_prefix_def)

lemma has_prefix_cons [simp]: "has_prefix (p @ [c]) (p @ c # s)"
  by (simp add: has_prefix_def)

text \<open>\<open>strings.EqualFold\<close> on ASCII strings.\<close>

definition fold_char :: "char \<Rightarrow> char" where
  "fold_char c = (if of_char c \<ge> (65::nat) \<and> of_char c \<le> (90::nat) then char_of (of_char c + 32 :: nat) else c)"

definition equal_fold :: "string \<Rightarrow> string \<Rightarrow> bool" where
  "equal_fold s t = (map fold_char s = map fold_char t)"

end
