(* ===== verification/Api_Types.thy ===== *)
theory Api_Types
  imports Prelude
begin

text \<open>
  The API objects of the controller (api/v1beta1): the profile specification with its helm charts,
  policy and kustomization references, the ClusterSummary with its per feature and per
  release status, ClusterConfiguration, and the accessors the API package defines on them.

  One record per Go struct, one field per Go field, in the order of the source; a field
  carries a prefix for its struct. Structs of Kubernetes (object metadata, references) have
  the fields the controller reads. Fields whose type belongs to libsveltos and that the
  controller only stores, copies and compares (label selectors, parts of health checks,
  patches and drift exclusions) hold their serialised form. Go pointers are options, strings of a closed
  enumeration are datatypes, time stamps are integers.
\<close>

section \<open>Kubernetes types\<close>

type_synonym serialized = string
type_synonym time = int
type_synonym duration = int

record object_reference =
  ref_Kind :: string
  ref_Namespace :: string
  ref_Name :: string
  ref_APIVersion :: string

record gvk =
  gvk_Group :: string
  gvk_Version :: string
  gvk_Kind :: string

record secret_reference =
  sec_Name :: string
  sec_Namespace :: string

record owner_reference =
  own_APIVersion :: string
  own_Kind :: string
  own_Name :: string
  own_UID :: string

record object_meta =
  om_Name :: string
  om_Namespace :: string
  om_UID :: string
  om_Labels :: "(string \<times> string) list"
  om_Annotations :: "(string \<times> string) list"
  om_Finalizers :: "string list"
  om_OwnerReferences :: "owner_reference list"
  om_DeletionTimestamp :: "time option"
  om_Generation :: int
  om_CreationTimestamp :: time

datatype int_or_string = IntVal int | StrVal string

section \<open>Enumerations\<close>

datatype cluster_type = ClusterTypeCapi | ClusterTypeSveltos

datatype feature_id = FeatureHelm | FeatureResources | FeatureKustomize

datatype feature_status =
    FeatureStatusProvisioning
  | FeatureStatusProvisioned
  | FeatureStatusFailed
  | FeatureStatusFailedNonRetriable
  | FeatureStatusRemoving
  | FeatureStatusAgentRemoving
  | FeatureStatusRemoved
  | FeatureStatusBlocked

datatype sync_mode =
    SyncModeOneTime
  | SyncModeContinuous
  | SyncModeContinuousWithDriftDetection
  | SyncModeDryRun

datatype deployment_type = DeploymentTypeLocal | DeploymentTypeRemote

datatype helm_chart_action = HelmChartActionInstall | HelmChartActionUninstall

datatype post_render_strategy =
  PostRenderStrategyCombined | PostRenderStrategySeparate | PostRenderStrategyNoHooks

datatype existing_crds_policy =
  ExistingCRDsPolicySkip | ExistingCRDsPolicyFail | ExistingCRDsPolicyOverwrite

datatype cosign_provider = CosignProviderPublicKey | CosignProviderKeyless

datatype stop_matching_behavior = WithdrawPolicies | LeavePolicies

datatype helm_chart_status = HelmChartStatusManaging | HelmChartStatusConflict

definition ClusterProfileKind :: string where "ClusterProfileKind = ''ClusterProfile''"
definition ProfileKind :: string where "ProfileKind = ''Profile''"
definition ClusterSummaryKind :: string where "ClusterSummaryKind = ''ClusterSummary''"
definition ClusterNameLabel :: string where
  "ClusterNameLabel = ''projectsveltos.io/cluster-name''"
definition ClusterTypeLabel :: string where
  "ClusterTypeLabel = ''projectsveltos.io/cluster-type''"
definition ProfilePausedAnnotation :: string where
  "ProfilePausedAnnotation = ''profile.projectsveltos.io/paused''"
definition ProfileRedeployAnnotation :: string where
  "ProfileRedeployAnnotation = ''profile.projectsveltos.io/redeploy''"
definition Api_Group :: string where "Api_Group = ''config.projectsveltos.io''"

lemma profile_kinds_differ [simp]: "ClusterProfileKind \<noteq> ProfileKind" "ProfileKind \<noteq> ClusterProfileKind"
  by (simp_all add: ClusterProfileKind_def ProfileKind_def)

section \<open>The profile specification\<close>

record value_from =
  vf_Namespace :: string
  vf_Name :: string
  vf_Kind :: string
  vf_Optional :: bool

record registry_credentials_config =
  rcc_CredentialsSecretRef :: "secret_reference option"
  rcc_Key :: string
  rcc_CASecretRef :: "secret_reference option"
  rcc_InsecureSkipTLSVerify :: bool
  rcc_PlainHTTP :: bool

record helm_install_options =
  hio_CreateNamespace :: "bool option"
  hio_Replace :: "bool option"
  hio_DisableHooks :: bool
  hio_TakeOwnership :: bool
  hio_ExistingCRDs :: "existing_crds_policy option"
  hio_RecoverAfterConsecutiveFailures :: int

record helm_upgrade_options =
  huo_Force :: bool
  huo_ResetValues :: bool
  huo_ReuseValues :: bool
  huo_ResetThenReuseValues :: bool
  huo_Recreate :: bool
  huo_MaxHistory :: int
  huo_CleanupOnFail :: bool
  huo_SubNotes :: bool
  huo_UpgradeCRDs :: bool
  huo_DisableHooks :: bool
  huo_TakeOwnership :: bool

record helm_uninstall_options =
  hno_KeepHistory :: bool
  hno_DeletionPropagation :: string
  hno_DisableHooks :: bool

record helm_options =
  ho_SkipCRDs :: bool
  ho_SkipSchemaValidation :: bool
  ho_Wait :: bool
  ho_WaitForJobs :: bool
  ho_Timeout :: "duration option"
  ho_DisableHooks :: bool
  ho_DisableOpenAPIValidation :: bool
  ho_Atomic :: bool
  ho_DependencyUpdate :: bool
  ho_Labels :: "(string \<times> string) list"
  ho_EnableClientCache :: bool
  ho_Description :: string
  ho_PassCredentialsAll :: bool
  ho_RunTests :: bool
  ho_PostRenderStrategy :: "post_render_strategy option"
  ho_InstallOptions :: helm_install_options
  ho_UpgradeOptions :: helm_upgrade_options
  ho_UninstallOptions :: helm_uninstall_options

record oidc_identity_matcher =
  oidc_Issuer :: string
  oidc_Subject :: string

record cosign_verification =
  cv_Provider :: cosign_provider
  cv_SecretRef :: "secret_reference option"
  cv_MatchOIDCIdentity :: "oidc_identity_matcher list"

record provenance_verification =
  pv_KeyringSecretRef :: secret_reference

record helm_chart =
  hc_RepositoryURL :: string
  hc_RepositoryName :: string
  hc_ChartName :: string
  hc_ChartVersion :: string
  hc_ReleaseName :: string
  hc_ReleaseNamespace :: string
  hc_Values :: string
  hc_ValuesFrom :: "value_from list"
  hc_HelmChartAction :: helm_chart_action
  hc_Options :: "helm_options option"
  hc_RegistryCredentialsConfig :: "registry_credentials_config option"
  hc_SignatureVerification :: "cosign_verification option"
  hc_ProvenanceVerification :: "provenance_verification option"

record remote_kustomize_url =
  rku_URL :: string
  rku_Interval :: "duration option"
  rku_SecretRef :: "secret_reference option"
  rku_InsecureSkipTLSVerify :: bool
  rku_PlainHTTP :: bool

record kustomization_ref =
  kr_Namespace :: string
  kr_Name :: string
  kr_Kind :: string
  kr_Path :: string
  kr_Components :: "string list"
  kr_Optional :: bool
  kr_TargetNamespace :: string
  kr_DeploymentType :: deployment_type
  kr_Values :: "(string \<times> string) list"
  kr_ValuesFrom :: "value_from list"
  kr_Tier :: int
  kr_SkipNamespaceCreation :: bool
  kr_Force :: bool
  kr_RemoteURL :: "remote_kustomize_url option"

record template_resource_ref =
  trr_Resource :: object_reference
  trr_Identifier :: string
  trr_Optional :: bool
  trr_IgnoreStatusChanges :: bool
  trr_WatchFields :: "string list"

record remote_url =
  ru_URL :: string
  ru_Interval :: "duration option"
  ru_SecretRef :: "secret_reference option"
  ru_Template :: bool
  ru_InsecureSkipTLSVerify :: bool
  ru_PlainHTTP :: bool

record policy_ref =
  pr_Namespace :: string
  pr_Name :: string
  pr_Kind :: string
  pr_Path :: string
  pr_DeploymentType :: deployment_type
  pr_Optional :: bool
  pr_Tier :: int
  pr_SkipNamespaceCreation :: bool
  pr_Force :: bool
  pr_RemoteURL :: "remote_url option"

record clusters_info =
  cl_Hash :: "bytes option"
  cl_Clusters :: "object_reference list"

record health_monitoring =
  hm_Enabled :: bool
  hm_DefaultChecks :: "bool option"
  hm_HealthChecks :: "string list"

text \<open>Checks, patches and drift exclusions are structs of libsveltos: the fields the controller sorts by or tests, and the rest.\<close>

record validate_health =
  vh_Name :: string
  vh_FeatureID :: feature_id
  vh_Check :: serialized

record patch =
  pt_Target :: "serialized option"
  pt_Patch :: string

record patch_selector =
  psel_Group :: string
  psel_Version :: string
  psel_Kind :: string
  psel_Namespace :: string
  psel_Name :: string

record drift_exclusion =
  dx_Paths :: "string list"
  dx_Target :: "patch_selector option"

record profile_spec =
  ps_ClusterSelector :: serialized
  ps_ClusterRefs :: "object_reference list"
  ps_SetRefs :: "string list"
  ps_SyncMode :: sync_mode
  ps_Tier :: int
  ps_ContinueOnConflict :: bool
  ps_ContinueOnError :: bool
  ps_MaxUpdate :: "int_or_string option"
  ps_StopMatchingBehavior :: stop_matching_behavior
  ps_Reloader :: bool
  ps_TemplateResourceRefs :: "template_resource_ref list"
  ps_DependsOn :: "string list"
  ps_TransitionFrom :: "string list"
  ps_PolicyRefs :: "policy_ref list option"
  ps_HelmCharts :: "helm_chart list option"
  ps_KustomizationRefs :: "kustomization_ref list option"
  ps_PreDeployChecks :: "validate_health list"
  ps_ValidateHealths :: "validate_health list"
  ps_HealthMonitoring :: "health_monitoring option"
  ps_Patches :: "patch list"
  ps_PatchesFrom :: "value_from list"
  ps_DriftExclusions :: "drift_exclusion list option"
  ps_MaxConsecutiveFailures :: "64 word option"
  ps_PreDeleteChecks :: "validate_health list"
  ps_PostDeleteChecks :: "validate_health list"
  ps_ExtraLabels :: "(string \<times> string) list"
  ps_ExtraAnnotations :: "(string \<times> string) list"

section \<open>The status of profiles\<close>

record failed_cluster =
  fc_ClusterRef :: object_reference
  fc_FailureMessage :: string
  fc_LastFailureTime :: "time option"

record profile_status =
  pst_MatchingClusterRefs :: "object_reference list"
  pst_UpdatingClusters :: clusters_info
  pst_UpdatedClusters :: clusters_info
  pst_FailedClusters :: "failed_cluster list"
  pst_DependenciesHash :: "bytes option"
  pst_ReconciliationSuspended :: bool
  pst_SuspensionReason :: "string option"

text \<open>ClusterProfile and Profile have the same fields; \<open>prof_Kind\<close> tells them apart.\<close>

record profile =
  prof_Kind :: string
  prof_Meta :: object_meta
  prof_Spec :: profile_spec
  prof_Status :: profile_status

section \<open>ClusterSummary\<close>

record drifted_resource_ref =
  dr_Group :: string
  dr_Kind :: string
  dr_Namespace :: string
  dr_Name :: string
  dr_HelmReleaseNamespace :: string
  dr_HelmReleaseName :: string
  dr_DetectedTime :: time

record drift_history =
  dh_LastDetectedTime :: time
  dh_Resources :: "drifted_resource_ref list"
  dh_Truncated :: bool

text \<open>The status of a feature summary is the empty string, \<open>None\<close>, until one is set.\<close>

record feature_summary =
  fs_FeatureID :: feature_id
  fs_Hash :: "bytes option"
  fs_ConsecutiveFailures :: "64 word"
  fs_Status :: "feature_status option"
  fs_FailureReason :: "string option"
  fs_FailureMessage :: "string option"
  fs_DeployedGroupVersionKind :: "string list"
  fs_LastAppliedTime :: "time option"
  fs_ResourceSummaryDeployed :: "bool option"
  fs_DriftHistory :: "drift_history option"

record helm_chart_summary =
  hs_ReleaseName :: string
  hs_ReleaseNamespace :: string
  hs_Status :: helm_chart_status
  hs_ValuesHash :: "bytes option"
  hs_PatchesHash :: "bytes option"
  hs_ConflictMessage :: string
  hs_FailureMessage :: "string option"
  hs_ChartName :: string
  hs_RepositoryName :: string
  hs_RepoURL :: string
  hs_ChartVersion :: string
  hs_CredentialsSecretRef :: "secret_reference option"
  hs_LatestVersion :: "string option"
  hs_LatestPatchVersion :: "string option"
  hs_LastCheckedTime :: "time option"
  hs_NeedsRedeploy :: bool
  hs_AppliedContentHash :: "bytes option"
  hs_StagedContentHash :: "bytes option"

record cluster_summary_spec =
  css_ClusterNamespace :: string
  css_ClusterName :: string
  css_ClusterType :: cluster_type
  css_ClusterProfileSpec :: profile_spec

record feature_deployment_info =
  fdi_FeatureID :: feature_id
  fdi_DeployedGroupVersionKind :: "string list"

record cluster_summary_status =
  cst_Dependencies :: "string option"
  cst_FeatureSummaries :: "feature_summary list"
  cst_DeployedGVKs :: "feature_deployment_info list"
  cst_HelmReleaseSummaries :: "helm_chart_summary list"
  cst_NextReconcileTime :: "time option"
  cst_FailureMessage :: "string option"
  cst_ReconciliationSuspended :: bool
  cst_SuspensionReason :: "string option"

record cluster_summary =
  cs_Meta :: object_meta
  cs_Spec :: cluster_summary_spec
  cs_Status :: cluster_summary_status

abbreviation cs_Name :: "cluster_summary \<Rightarrow> string" where
  "cs_Name cs \<equiv> om_Name (cs_Meta cs)"

abbreviation cs_Namespace :: "cluster_summary \<Rightarrow> string" where
  "cs_Namespace cs \<equiv> om_Namespace (cs_Meta cs)"

abbreviation cs_ProfileSpec :: "cluster_summary \<Rightarrow> profile_spec" where
  "cs_ProfileSpec cs \<equiv> css_ClusterProfileSpec (cs_Spec cs)"

abbreviation cs_HelmCharts :: "cluster_summary \<Rightarrow> helm_chart list" where
  "cs_HelmCharts cs \<equiv> slice (ps_HelmCharts (cs_ProfileSpec cs))"

abbreviation cs_FeatureSummaries :: "cluster_summary \<Rightarrow> feature_summary list" where
  "cs_FeatureSummaries cs \<equiv> cst_FeatureSummaries (cs_Status cs)"

abbreviation cs_HelmReleaseSummaries :: "cluster_summary \<Rightarrow> helm_chart_summary list" where
  "cs_HelmReleaseSummaries cs \<equiv> cst_HelmReleaseSummaries (cs_Status cs)"

section \<open>ClusterConfiguration\<close>

record chart_resource =
  ch_RepoURL :: string
  ch_ReleaseName :: string
  ch_Namespace :: string
  ch_ChartVersion :: string
  ch_AppVersion :: string
  ch_Icon :: string
  ch_LastAppliedTime :: "time option"

record deployed_resource =
  dpr_Name :: string
  dpr_Namespace :: string
  dpr_Group :: string
  dpr_Kind :: string
  dpr_Version :: string
  dpr_LastAppliedTime :: "time option"
  dpr_DeploymentType :: "deployment_type option"

record feature =
  ft_FeatureID :: feature_id
  ft_Resources :: "deployed_resource list"
  ft_Charts :: "chart_resource list"

record profile_resource =
  pres_ProfileName :: string
  pres_Features :: "feature list"

record cluster_profile_resource =
  cpres_ClusterProfileName :: string
  cpres_Features :: "feature list"

record cluster_configuration_status =
  ccst_ClusterProfileResources :: "cluster_profile_resource list"
  ccst_ProfileResources :: "profile_resource list"

record cluster_configuration =
  cc_Meta :: object_meta
  cc_Status :: cluster_configuration_status

definition GetClusterConfigurationSectionIndex ::
    "cluster_configuration \<Rightarrow> string \<Rightarrow> string \<Rightarrow> nat option" where
  "GetClusterConfigurationSectionIndex cc profileKind profileName =
     (if profileKind = ClusterProfileKind
      then first_index (\<lambda>r. cpres_ClusterProfileName r = profileName) (ccst_ClusterProfileResources (cc_Status cc))
      else first_index (\<lambda>r. pres_ProfileName r = profileName) (ccst_ProfileResources (cc_Status cc)))"

section \<open>Zero values\<close>

text \<open>The objects Go code starts from: every field has its zero value, or the default the API server fills in
  for an enumeration.\<close>

definition zero_object_meta :: object_meta where
  "zero_object_meta = \<lparr>om_Name = [], om_Namespace = [], om_UID = [], om_Labels = [], om_Annotations = [],
     om_Finalizers = [], om_OwnerReferences = [], om_DeletionTimestamp = None, om_Generation = 0,
     om_CreationTimestamp = 0\<rparr>"

definition zero_helm_chart :: helm_chart where
  "zero_helm_chart = \<lparr>hc_RepositoryURL = [], hc_RepositoryName = [], hc_ChartName = [], hc_ChartVersion = [],
     hc_ReleaseName = [], hc_ReleaseNamespace = [], hc_Values = [], hc_ValuesFrom = [],
     hc_HelmChartAction = HelmChartActionInstall, hc_Options = None, hc_RegistryCredentialsConfig = None,
     hc_SignatureVerification = None, hc_ProvenanceVerification = None\<rparr>"

definition zero_profile_spec :: profile_spec where
  "zero_profile_spec = \<lparr>ps_ClusterSelector = [], ps_ClusterRefs = [], ps_SetRefs = [],
     ps_SyncMode = SyncModeContinuous, ps_Tier = 0, ps_ContinueOnConflict = False,
     ps_ContinueOnError = False, ps_MaxUpdate = None, ps_StopMatchingBehavior = WithdrawPolicies,
     ps_Reloader = False, ps_TemplateResourceRefs = [], ps_DependsOn = [], ps_TransitionFrom = [],
     ps_PolicyRefs = None, ps_HelmCharts = None, ps_KustomizationRefs = None, ps_PreDeployChecks = [],
     ps_ValidateHealths = [], ps_HealthMonitoring = None, ps_Patches = [], ps_PatchesFrom = [],
     ps_DriftExclusions = None, ps_MaxConsecutiveFailures = None, ps_PreDeleteChecks = [],
     ps_PostDeleteChecks = [], ps_ExtraLabels = [], ps_ExtraAnnotations = []\<rparr>"

definition zero_feature_summary :: "feature_id \<Rightarrow> feature_summary" where
  "zero_feature_summary f = \<lparr>fs_FeatureID = f, fs_Hash = None, fs_ConsecutiveFailures = 0, fs_Status = None,
     fs_FailureReason = None, fs_FailureMessage = None, fs_DeployedGroupVersionKind = [],
     fs_LastAppliedTime = None, fs_ResourceSummaryDeployed = None, fs_DriftHistory = None\<rparr>"

definition zero_helm_chart_summary :: helm_chart_summary where
  "zero_helm_chart_summary = \<lparr>hs_ReleaseName = [], hs_ReleaseNamespace = [],
     hs_Status = HelmChartStatusManaging, hs_ValuesHash = None, hs_PatchesHash = None,
     hs_ConflictMessage = [], hs_FailureMessage = None, hs_ChartName = [], hs_RepositoryName = [],
     hs_RepoURL = [], hs_ChartVersion = [], hs_CredentialsSecretRef = None, hs_LatestVersion = None,
     hs_LatestPatchVersion = None, hs_LastCheckedTime = None, hs_NeedsRedeploy = False,
     hs_AppliedContentHash = None, hs_StagedContentHash = None\<rparr>"

definition zero_cluster_summary_status :: cluster_summary_status where
  "zero_cluster_summary_status = \<lparr>cst_Dependencies = None, cst_FeatureSummaries = [], cst_DeployedGVKs = [],
     cst_HelmReleaseSummaries = [], cst_NextReconcileTime = None, cst_FailureMessage = None,
     cst_ReconciliationSuspended = False, cst_SuspensionReason = None\<rparr>"

definition zero_cluster_summary :: cluster_summary where
  "zero_cluster_summary = \<lparr>cs_Meta = zero_object_meta,
     cs_Spec = \<lparr>css_ClusterNamespace = [], css_ClusterName = [], css_ClusterType = ClusterTypeCapi,
       css_ClusterProfileSpec = zero_profile_spec\<rparr>,
     cs_Status = zero_cluster_summary_status\<rparr>"

lemmas zero_defs = zero_object_meta_def zero_helm_chart_def zero_profile_spec_def zero_feature_summary_def
  zero_helm_chart_summary_def zero_cluster_summary_status_def zero_cluster_summary_def

section \<open>Sample objects\<close>

text \<open>Small concrete objects for the witnesses: a ClusterSummary of cluster \<open>c\<close> in namespace \<open>ns\<close> that lists
  some charts.\<close>

definition sample_chart :: "string \<Rightarrow> helm_chart" where
  "sample_chart n = zero_helm_chart\<lparr>hc_ReleaseName := n, hc_ReleaseNamespace := ''rel''\<rparr>"

definition sample_cs :: "string \<Rightarrow> helm_chart list \<Rightarrow> cluster_summary" where
  "sample_cs n charts = zero_cluster_summary
     \<lparr>cs_Meta := zero_object_meta\<lparr>om_Name := n, om_Namespace := ''ns''\<rparr>,
      cs_Spec := \<lparr>css_ClusterNamespace = ''ns'', css_ClusterName = ''c'', css_ClusterType = ClusterTypeCapi,
        css_ClusterProfileSpec = zero_profile_spec\<lparr>ps_HelmCharts := Some charts\<rparr>\<rparr>\<rparr>"

lemma sample_chart_simps [simp]:
  "hc_ReleaseName (sample_chart n) = n" "hc_ReleaseNamespace (sample_chart n) = ''rel''"
  by (simp_all add: sample_chart_def)

lemma sample_cs_simps [simp]:
  "cs_Name (sample_cs n charts) = n" "cs_Namespace (sample_cs n charts) = ''ns''"
  "cs_HelmCharts (sample_cs n charts) = charts"
  "css_ClusterNamespace (cs_Spec (sample_cs n charts)) = ''ns''"
  "css_ClusterName (cs_Spec (sample_cs n charts)) = ''c''"
  "css_ClusterType (cs_Spec (sample_cs n charts)) = ClusterTypeCapi"
  "ps_SyncMode (cs_ProfileSpec (sample_cs n charts)) = SyncModeContinuous"
  "cs_Status (sample_cs n charts) = zero_cluster_summary_status"
  by (simp_all add: sample_cs_def zero_defs)

end
