(* ===== verification/Chart_Manager.thy ===== *)
theory Chart_Manager
  imports Api_Types
begin

text \<open>
  The chart manager (controllers/chartmanager/chartmanager.go): which ClusterSummary manages
  which helm release of which managed cluster, and the chart versions known for clusters in
  pull mode.

  The state keeps, per cluster and per release, the ClusterSummaries that want the release in
  the order of their registration; the first is the manager. \<open>registrants\<close> reads one such queue,
  and each operation is described by what it does to the queues. The record of the manager singleton
  carries the two maps; the mutex is not modelled, every operation runs under it as one step.
\<close>

section \<open>State\<close>

type_synonym chart_map = "(string \<times> (string \<times> string list) list) list"
type_synonym version_map = "(string \<times> (string \<times> string) list) list"

record chart_manager =
  perClusterChartMap :: chart_map
  perClusterChartVersionMap :: version_map

record helm_release_info =
  hri_Namespace :: string
  hri_Name :: string

definition new_chart_manager :: chart_manager where
  "new_chart_manager = \<lparr>perClusterChartMap = [], perClusterChartVersionMap = []\<rparr>"

section \<open>Keys\<close>

definition getClusterKey :: "string \<Rightarrow> string \<Rightarrow> cluster_type \<Rightarrow> string" where
  "getClusterKey clusterNamespace clusterName clusterType =
     (let prefix = (if clusterType = ClusterTypeSveltos then ''sveltos'' else ''capi'')
      in prefix @ CHR ''/'' # clusterNamespace @ CHR ''/'' # clusterName)"

definition GetReleaseKey :: "string \<Rightarrow> string \<Rightarrow> string" where
  "GetReleaseKey releaseNamespace releaseName = releaseNamespace @ CHR ''/'' # releaseName"

definition getClusterSummaryKey :: "string \<Rightarrow> string" where
  "getClusterSummaryKey clusterSummaryName = clusterSummaryName"

text \<open>\<open>None\<close> is the index-out-of-range panic of \<open>info[1]\<close>.\<close>

definition getReleaseInfoFromKey :: "string \<Rightarrow> helm_release_info option" where
  "getReleaseInfoFromKey releaseKey =
     (case go_split (CHR ''/'') releaseKey of
        ns # n # _ \<Rightarrow> Some \<lparr>hri_Namespace = ns, hri_Name = n\<rparr>
      | _ \<Rightarrow> None)"

definition cs_ClusterKey :: "cluster_summary \<Rightarrow> string" where
  "cs_ClusterKey cs = getClusterKey (css_ClusterNamespace (cs_Spec cs)) (css_ClusterName (cs_Spec cs))
     (css_ClusterType (cs_Spec cs))"

definition chart_ReleaseKey :: "helm_chart \<Rightarrow> string" where
  "chart_ReleaseKey chart = GetReleaseKey (hc_ReleaseNamespace chart) (hc_ReleaseName chart)"

section \<open>Entries\<close>

definition registrants :: "chart_manager \<Rightarrow> string \<Rightarrow> string \<Rightarrow> string list" where
  "registrants m ck rk = lookup_default [] (lookup_default [] (perClusterChartMap m) ck) rk"

definition releases :: "chart_manager \<Rightarrow> string \<Rightarrow> string list" where
  "releases m ck = map fst (lookup_default [] (perClusterChartMap m) ck)"

definition put_registrants :: "string \<Rightarrow> string \<Rightarrow> string list \<Rightarrow> chart_manager \<Rightarrow> chart_manager" where
  "put_registrants ck rk xs m = m\<lparr>perClusterChartMap :=
     AList.update ck (AList.update rk xs (lookup_default [] (perClusterChartMap m) ck)) (perClusterChartMap m)\<rparr>"

definition addClusterEntry :: "string \<Rightarrow> chart_manager \<Rightarrow> chart_manager" where
  "addClusterEntry clusterKey m =
     (if map_of (perClusterChartMap m) clusterKey = None
      then m\<lparr>perClusterChartMap := AList.update clusterKey [] (perClusterChartMap m)\<rparr> else m)"

definition addReleaseEntry :: "string \<Rightarrow> string \<Rightarrow> chart_manager \<Rightarrow> chart_manager" where
  "addReleaseEntry clusterKey releaseKey m =
     (let m = addClusterEntry clusterKey m in
      if map_of (lookup_default [] (perClusterChartMap m) clusterKey) releaseKey = None
      then put_registrants clusterKey releaseKey [] m else m)"

definition isClusterSummaryAlreadyRegistered :: "string list \<Rightarrow> string \<Rightarrow> bool" where
  "isClusterSummaryAlreadyRegistered clusterSummaries clusterSummaryKey =
     list_ex (\<lambda>cs. cs = clusterSummaryKey) clusterSummaries"

definition addClusterSummaryEntry :: "string \<Rightarrow> string \<Rightarrow> string \<Rightarrow> chart_manager \<Rightarrow> chart_manager" where
  "addClusterSummaryEntry clusterKey releaseKey clusterSummaryKey m =
     (let m = addReleaseEntry clusterKey releaseKey m in
      if isClusterSummaryAlreadyRegistered (registrants m clusterKey releaseKey) clusterSummaryKey then m
      else put_registrants clusterKey releaseKey
             (registrants m clusterKey releaseKey @ [clusterSummaryKey]) m)"

definition removeClusterSummaryFromChartRegistration ::
    "string \<Rightarrow> string \<Rightarrow> string \<Rightarrow> chart_manager \<Rightarrow> chart_manager" where
  "removeClusterSummaryFromChartRegistration clusterKey releaseKey clusterSummaryKey m =
     (if clusterSummaryKey \<in> set (registrants m clusterKey releaseKey)
      then put_registrants clusterKey releaseKey
             (swap_remove_first ((=) clusterSummaryKey) (registrants m clusterKey releaseKey)) m
      else m)"

definition setChartVersion :: "string \<Rightarrow> string \<Rightarrow> string \<Rightarrow> chart_manager \<Rightarrow> chart_manager" where
  "setChartVersion clusterKey releaseKey version m = m\<lparr>perClusterChartVersionMap :=
     AList.update clusterKey
       (AList.update releaseKey version (lookup_default [] (perClusterChartVersionMap m) clusterKey))
       (perClusterChartVersionMap m)\<rparr>"

definition getChartVersion :: "string \<Rightarrow> string \<Rightarrow> chart_manager \<Rightarrow> string option" where
  "getChartVersion clusterKey releaseKey m =
     (case map_of (perClusterChartVersionMap m) clusterKey of
        Some charts \<Rightarrow> map_of charts releaseKey
      | None \<Rightarrow> None)"

section \<open>Operations\<close>

definition RegisterClusterSummaryForCharts :: "cluster_summary \<Rightarrow> chart_manager \<Rightarrow> chart_manager" where
  "RegisterClusterSummaryForCharts clusterSummary m =
     (if cs_HelmCharts clusterSummary = [] then m
      else
        let clusterKey = cs_ClusterKey clusterSummary;
            clusterSummaryKey = getClusterSummaryKey (cs_Name clusterSummary)
        in fold (\<lambda>chart m.
             let releaseKey = chart_ReleaseKey chart in
             addClusterSummaryEntry clusterKey releaseKey clusterSummaryKey
               (addReleaseEntry clusterKey releaseKey (addClusterEntry clusterKey m)))
           (cs_HelmCharts clusterSummary) m)"

definition RegisterVersionForChart ::
    "string \<Rightarrow> string \<Rightarrow> helm_chart \<Rightarrow> chart_manager \<Rightarrow> chart_manager" where
  "RegisterVersionForChart clusterNamespace clusterName chart m =
     setChartVersion (getClusterKey clusterNamespace clusterName ClusterTypeSveltos)
       (chart_ReleaseKey chart) (hc_ChartVersion chart) m"

definition GetVersionForChart :: "string \<Rightarrow> string \<Rightarrow> helm_chart \<Rightarrow> chart_manager \<Rightarrow> string" where
  "GetVersionForChart clusterNamespace clusterName chart m =
     (case getChartVersion (getClusterKey clusterNamespace clusterName ClusterTypeSveltos)
             (chart_ReleaseKey chart) m of
        None \<Rightarrow> '''' | Some version \<Rightarrow> version)"

definition UnregisterVersionForChart ::
    "string \<Rightarrow> string \<Rightarrow> string \<Rightarrow> string \<Rightarrow> chart_manager \<Rightarrow> chart_manager" where
  "UnregisterVersionForChart clusterNamespace clusterName releaseNamespace releaseName m =
     (let clusterKey = getClusterKey clusterNamespace clusterName ClusterTypeSveltos;
          releaseKey = GetReleaseKey releaseNamespace releaseName
      in case map_of (perClusterChartVersionMap m) clusterKey of
           None \<Rightarrow> m
         | Some charts \<Rightarrow>
             let charts = AList.delete releaseKey charts;
                 vm = AList.update clusterKey charts (perClusterChartVersionMap m)
             in m\<lparr>perClusterChartVersionMap :=
                  (if charts = [] then AList.delete clusterKey vm else vm)\<rparr>)"

definition SetManagerForChart :: "cluster_summary \<Rightarrow> helm_chart \<Rightarrow> chart_manager \<Rightarrow> chart_manager" where
  "SetManagerForChart clusterSummary chart m =
     (let clusterKey = cs_ClusterKey clusterSummary;
          clusterSummaryKey = getClusterSummaryKey (cs_Name clusterSummary);
          releaseKey = chart_ReleaseKey chart;
          m = addReleaseEntry clusterKey releaseKey (addClusterEntry clusterKey m);
          m = removeClusterSummaryFromChartRegistration clusterKey releaseKey clusterSummaryKey m
      in put_registrants clusterKey releaseKey
           (clusterSummaryKey # registrants m clusterKey releaseKey) m)"

definition UnregisterClusterSummaryForChart ::
    "cluster_summary \<Rightarrow> helm_chart \<Rightarrow> chart_manager \<Rightarrow> chart_manager" where
  "UnregisterClusterSummaryForChart clusterSummary chart m =
     removeClusterSummaryFromChartRegistration (cs_ClusterKey clusterSummary) (chart_ReleaseKey chart)
       (getClusterSummaryKey (cs_Name clusterSummary)) m"

definition cleanRegistrations :: "cluster_summary \<Rightarrow> bool \<Rightarrow> chart_manager \<Rightarrow> chart_manager" where
  "cleanRegistrations clusterSummary remove_all m =
     (let clusterKey = cs_ClusterKey clusterSummary;
          clusterSummaryKey = getClusterSummaryKey (cs_Name clusterSummary);
          currentReferencedReleases =
            (if remove_all then [] else map chart_ReleaseKey (cs_HelmCharts clusterSummary))
      in fold (\<lambda>releaseKey m.
           if releaseKey \<in> set currentReferencedReleases then m
           else removeClusterSummaryFromChartRegistration clusterKey releaseKey clusterSummaryKey m)
         (releases m clusterKey) m)"

definition RemoveStaleRegistrations :: "cluster_summary \<Rightarrow> chart_manager \<Rightarrow> chart_manager" where
  "RemoveStaleRegistrations clusterSummary m =
     (if ps_SyncMode (cs_ProfileSpec clusterSummary) = SyncModeDryRun then m
      else cleanRegistrations clusterSummary False m)"

definition RemoveAllRegistrations :: "cluster_summary \<Rightarrow> chart_manager \<Rightarrow> chart_manager" where
  "RemoveAllRegistrations clusterSummary m = cleanRegistrations clusterSummary True m"

section \<open>Queries\<close>

definition isCurrentlyManager :: "string \<Rightarrow> string \<Rightarrow> string \<Rightarrow> chart_manager \<Rightarrow> bool" where
  "isCurrentlyManager clusterKey releaseKey clusterSummaryKey m =
     (case map_of (perClusterChartMap m) clusterKey of
        None \<Rightarrow> False
      | Some charts \<Rightarrow>
          (case map_of charts releaseKey of
             None \<Rightarrow> False
           | Some [] \<Rightarrow> False
           | Some (cs # _) \<Rightarrow> cs = clusterSummaryKey))"

definition IsChartManaged ::
    "string \<Rightarrow> string \<Rightarrow> cluster_type \<Rightarrow> helm_chart \<Rightarrow> chart_manager \<Rightarrow> bool" where
  "IsChartManaged clusterNamespace clusterName clusterType chart m =
     (case map_of (perClusterChartMap m) (getClusterKey clusterNamespace clusterName clusterType) of
        None \<Rightarrow> False
      | Some charts \<Rightarrow>
          (case map_of charts (chart_ReleaseKey chart) of
             None \<Rightarrow> False
           | Some clusterSummaries \<Rightarrow> clusterSummaries \<noteq> []))"

definition CanManageChart :: "cluster_summary \<Rightarrow> helm_chart \<Rightarrow> chart_manager \<Rightarrow> bool" where
  "CanManageChart clusterSummary chart m =
     (if \<not> IsChartManaged (css_ClusterNamespace (cs_Spec clusterSummary))
            (css_ClusterName (cs_Spec clusterSummary)) (css_ClusterType (cs_Spec clusterSummary)) chart m
      then True
      else isCurrentlyManager (cs_ClusterKey clusterSummary) (chart_ReleaseKey chart)
             (getClusterSummaryKey (cs_Name clusterSummary)) m)"

definition GetManagerForChart ::
    "string \<Rightarrow> string \<Rightarrow> cluster_type \<Rightarrow> helm_chart \<Rightarrow> chart_manager \<Rightarrow> string + string" where
  "GetManagerForChart clusterNamespace clusterName clusterType chart m =
     (let clusterKey = getClusterKey clusterNamespace clusterName clusterType;
          err = ''no ClusterSummary manging helm chart '' @ hc_ChartName chart @ '' (release '' @
                hc_ReleaseName chart @ '')''
      in case map_of (perClusterChartMap m) clusterKey of
           None \<Rightarrow> Inl err
         | Some charts \<Rightarrow>
             (case map_of charts (chart_ReleaseKey chart) of
                None \<Rightarrow> Inl err
              | Some [] \<Rightarrow> Inl err
              | Some (cs # _) \<Rightarrow> Inr cs))"

definition GetRegisteredChartsCount :: "cluster_summary \<Rightarrow> chart_manager \<Rightarrow> nat" where
  "GetRegisteredChartsCount clusterSummary m =
     (let clusterKey = cs_ClusterKey clusterSummary;
          clusterSummaryKey = getClusterSummaryKey (cs_Name clusterSummary)
      in fold (\<lambda>releaseKey count.
           if clusterSummaryKey \<in> set (registrants m clusterKey releaseKey) then count + 1 else count)
         (releases m clusterKey) 0)"

text \<open>The releases a ClusterSummary manages, one entry per occurrence of its key; \<open>None\<close> if a release
  key makes \<open>getReleaseInfoFromKey\<close> panic.\<close>

definition managedReleaseKeys :: "cluster_summary \<Rightarrow> chart_manager \<Rightarrow> string list" where
  "managedReleaseKeys clusterSummary m =
     (let clusterKey = cs_ClusterKey clusterSummary;
          clusterSummaryKey = getClusterSummaryKey (cs_Name clusterSummary)
      in concat (map (\<lambda>releaseKey. concat (map (\<lambda>csKey.
           if csKey = clusterSummaryKey \<and> isCurrentlyManager clusterKey releaseKey clusterSummaryKey m
           then [releaseKey] else []) (registrants m clusterKey releaseKey))) (releases m clusterKey)))"

definition GetManagedHelmReleases ::
    "cluster_summary \<Rightarrow> chart_manager \<Rightarrow> helm_release_info list option" where
  "GetManagedHelmReleases clusterSummary m =
     those (map getReleaseInfoFromKey (managedReleaseKeys clusterSummary m))"

definition GetRegisteredClusterSummariesForChart ::
    "string \<Rightarrow> string \<Rightarrow> cluster_type \<Rightarrow> helm_chart \<Rightarrow> chart_manager \<Rightarrow> string list" where
  "GetRegisteredClusterSummariesForChart clusterNamespace clusterName clusterType chart m =
     registrants m (getClusterKey clusterNamespace clusterName clusterType) (chart_ReleaseKey chart)"

definition GetNumberOfRegisteredClusterSummariesForChart ::
    "string \<Rightarrow> string \<Rightarrow> cluster_type \<Rightarrow> helm_chart \<Rightarrow> chart_manager \<Rightarrow> nat" where
  "GetNumberOfRegisteredClusterSummariesForChart clusterNamespace clusterName clusterType chart m =
     length (registrants m (getClusterKey clusterNamespace clusterName clusterType) (chart_ReleaseKey chart))"

definition GetRegisteredClusterSummaries ::
    "string \<Rightarrow> string \<Rightarrow> cluster_type \<Rightarrow> chart_manager \<Rightarrow> string list" where
  "GetRegisteredClusterSummaries clusterNamespace clusterName clusterType m =
     (let clusterKey = getClusterKey clusterNamespace clusterName clusterType
      in map fst (fold (\<lambda>releaseKey acc.
           fold (\<lambda>cs acc. AList.update cs True acc) (registrants m clusterKey releaseKey) acc)
         (releases m clusterKey) []))"

section \<open>Rebuilding the state when the controller starts\<close>

definition addSummaries ::
    "(helm_chart_status \<Rightarrow> bool) \<Rightarrow> cluster_summary \<Rightarrow> chart_manager \<Rightarrow> chart_manager" where
  "addSummaries sel clusterSummary m =
     (let clusterKey = cs_ClusterKey clusterSummary;
          clusterSummaryKey = getClusterSummaryKey (cs_Name clusterSummary)
      in fold (\<lambda>summary m.
           if sel (hs_Status summary) then
             let releaseKey = GetReleaseKey (hs_ReleaseNamespace summary) (hs_ReleaseName summary) in
             addClusterSummaryEntry clusterKey releaseKey clusterSummaryKey
               (addReleaseEntry clusterKey releaseKey (addClusterEntry clusterKey m))
           else m)
         (cs_HelmReleaseSummaries clusterSummary) m)"

definition addManagers :: "cluster_summary \<Rightarrow> chart_manager \<Rightarrow> chart_manager" where
  "addManagers = addSummaries (\<lambda>st. st = HelmChartStatusManaging)"

definition addNonManagers :: "cluster_summary \<Rightarrow> chart_manager \<Rightarrow> chart_manager" where
  "addNonManagers = addSummaries (\<lambda>st. st \<noteq> HelmChartStatusManaging)"

definition rebuildRegistrations ::
    "'e + cluster_summary list \<Rightarrow> chart_manager \<Rightarrow> 'e option \<times> chart_manager" where
  "rebuildRegistrations listed m =
     (case listed of
        Inl err \<Rightarrow> (Some err, m)
      | Inr items \<Rightarrow> (None, fold addNonManagers items (fold addManagers items m)))"

definition walkClusterConfigurationCharts :: "string \<Rightarrow> feature \<Rightarrow> chart_manager \<Rightarrow> chart_manager" where
  "walkClusterConfigurationCharts clusterKey f m =
     fold (\<lambda>c. setChartVersion clusterKey (GetReleaseKey (ch_Namespace c) (ch_ReleaseName c)) (ch_ChartVersion c))
       (ft_Charts f) m"

definition walkClusterConfigurationFeature ::
    "string \<Rightarrow> feature list \<Rightarrow> chart_manager \<Rightarrow> chart_manager" where
  "walkClusterConfigurationFeature clusterKey features m =
     fold (walkClusterConfigurationCharts clusterKey) features m"

definition parseClusterType :: "string \<Rightarrow> cluster_type option" where
  "parseClusterType raw =
     (if equal_fold raw ''Capi'' then Some ClusterTypeCapi
      else if equal_fold raw ''Sveltos'' then Some ClusterTypeSveltos
      else None)"

definition addHelmVersions :: "cluster_configuration \<Rightarrow> chart_manager \<Rightarrow> chart_manager" where
  "addHelmVersions cc m =
     (case map_of (om_Labels (cc_Meta cc)) ClusterNameLabel of
        None \<Rightarrow> m
      | Some clusterName \<Rightarrow>
          (case map_of (om_Labels (cc_Meta cc)) ClusterTypeLabel of
             None \<Rightarrow> m
           | Some rawValueClusterType \<Rightarrow>
               (case parseClusterType rawValueClusterType of
                  None \<Rightarrow> m
                | Some clusterType \<Rightarrow>
                    let clusterKey = getClusterKey (om_Namespace (cc_Meta cc)) clusterName clusterType;
                        m = fold (\<lambda>r. walkClusterConfigurationFeature clusterKey (cpres_Features r))
                              (ccst_ClusterProfileResources (cc_Status cc)) m
                    in fold (\<lambda>r. walkClusterConfigurationFeature clusterKey (pres_Features r))
                         (ccst_ProfileResources (cc_Status cc)) m)))"

definition rebuildChartVersions ::
    "'e + cluster_configuration list \<Rightarrow> chart_manager \<Rightarrow> 'e option \<times> chart_manager" where
  "rebuildChartVersions listed m =
     (case listed of
        Inl err \<Rightarrow> (Some err, m)
      | Inr items \<Rightarrow> (None, fold addHelmVersions items m))"

text \<open>The singleton: \<open>None\<close> is the nil pointer; a failed rebuild leaves it nil, so that the next caller retries.
  The result pairs what is returned with the new value of the global.\<close>

definition GetChartManagerInstance ::
    "'e + cluster_summary list \<Rightarrow> 'e + cluster_configuration list \<Rightarrow> chart_manager option \<Rightarrow>
     ('e + chart_manager) \<times> chart_manager option" where
  "GetChartManagerInstance listedCS listedCC managerInstance =
     (case managerInstance of
        Some m \<Rightarrow> (Inr m, Some m)
      | None \<Rightarrow>
          (case rebuildRegistrations listedCS new_chart_manager of
             (Some err, _) \<Rightarrow> (Inl err, None)
           | (None, m) \<Rightarrow>
               (case rebuildChartVersions listedCC m of
                  (Some err, _) \<Rightarrow> (Inl err, None)
                | (None, m) \<Rightarrow> (Inr m, Some m))))"

section \<open>What each entry operation does to the queues\<close>

definition enqueue :: "string \<Rightarrow> string list \<Rightarrow> string list" where
  "enqueue cs xs = (if cs \<in> set xs then xs else xs @ [cs])"

named_theorems queue_simps "the queues after an operation of the chart manager"

lemma registrants_put [queue_simps]:
  "registrants (put_registrants ck rk xs m) ck' rk' =
     (if ck' = ck \<and> rk' = rk then xs else registrants m ck' rk')"
  by (simp add: registrants_def put_registrants_def)

lemma registrants_addClusterEntry [queue_simps]:
  "registrants (addClusterEntry ck m) = registrants m"
  by (intro ext) (simp add: addClusterEntry_def registrants_def lookup_default_def update_conv)

lemma registrants_addReleaseEntry [queue_simps]:
  "registrants (addReleaseEntry ck rk m) = registrants m"
proof -
  have "registrants m ck rk = []"
    if "map_of (lookup_default [] (perClusterChartMap (addClusterEntry ck m)) ck) rk = None"
    using that by (metis registrants_addClusterEntry registrants_def lookup_default_def option.simps(4))
  then show ?thesis
    by (intro ext) (simp add: addReleaseEntry_def Let_def queue_simps)
qed

lemma registrants_addClusterSummaryEntry [queue_simps]:
  "registrants (addClusterSummaryEntry ck rk cs m) ck' rk' =
     (if ck' = ck \<and> rk' = rk then enqueue cs (registrants m ck rk) else registrants m ck' rk')"
  by (auto simp: addClusterSummaryEntry_def enqueue_def Let_def queue_simps
      isClusterSummaryAlreadyRegistered_def list_ex_iff)

lemma registrants_remove [queue_simps]:
  "registrants (removeClusterSummaryFromChartRegistration ck rk cs m) ck' rk' =
     (if ck' = ck \<and> rk' = rk then swap_remove_first ((=) cs) (registrants m ck rk)
      else registrants m ck' rk')"
  by (simp add: removeClusterSummaryFromChartRegistration_def queue_simps swap_remove_notin)

lemma enqueue_idem [simp]: "enqueue cs (enqueue cs xs) = enqueue cs xs"
  by (simp add: enqueue_def)

lemma set_enqueue [simp]: "set (enqueue cs xs) = insert cs (set xs)"
  by (auto simp: enqueue_def)

lemma distinct_enqueue [simp]: "distinct (enqueue cs xs) = distinct xs"
  by (simp add: enqueue_def)

lemma hd_enqueue: "xs \<noteq> [] \<Longrightarrow> hd (enqueue cs xs) = hd xs"
  by (simp add: enqueue_def)

lemma releases_put [queue_simps]:
  "releases (put_registrants ck rk xs m) ck' =
     (if ck' = ck then map fst (AList.update rk xs (lookup_default [] (perClusterChartMap m) ck))
      else releases m ck')"
  by (simp add: releases_def put_registrants_def)

lemma releases_addClusterEntry [queue_simps]: "releases (addClusterEntry ck m) = releases m"
  by (intro ext) (simp add: addClusterEntry_def releases_def lookup_default_def update_conv)

lemma registrants_not_released: "rk \<notin> set (releases m ck) \<Longrightarrow> registrants m ck rk = []"
  by (simp add: releases_def registrants_def lookup_default_absent)

section \<open>The invariant\<close>

text \<open>The keys of the Go maps are distinct, every release key has the form \<open>namespace/name\<close>,
  and no ClusterSummary is registered twice for a release.\<close>

definition chart_inv :: "chart_manager \<Rightarrow> bool" where
  "chart_inv m \<longleftrightarrow>
     distinct (map fst (perClusterChartMap m)) \<and>
     (\<forall>ck. distinct (releases m ck) \<and> (\<forall>rk \<in> set (releases m ck). CHR ''/'' \<in> set rk)) \<and>
     (\<forall>ck rk. distinct (registrants m ck rk))"

lemma chart_inv_new [inv_intros]: "chart_inv new_chart_manager"
  by (simp add: chart_inv_def new_chart_manager_def releases_def registrants_def)

lemma chart_inv_put [inv_intros]:
  assumes "chart_inv m" "CHR ''/'' \<in> set rk" "distinct xs"
  shows "chart_inv (put_registrants ck rk xs m)"
proof -
  have "distinct (map fst (perClusterChartMap (put_registrants ck rk xs m)))"
    using assms(1) by (simp add: put_registrants_def chart_inv_def distinct_update)
  moreover have "distinct (releases (put_registrants ck rk xs m) ck')" for ck'
    using assms(1) unfolding releases_put
    by (simp add: chart_inv_def releases_def distinct_update)
  moreover have "\<forall>rk' \<in> set (releases (put_registrants ck rk xs m) ck'). CHR ''/'' \<in> set rk'" for ck'
    using assms(1,2) unfolding releases_put by (auto simp: update_keys chart_inv_def releases_def)
  ultimately show ?thesis
    using assms(1,3) unfolding chart_inv_def by (simp add: queue_simps)
qed

lemma chart_inv_addClusterEntry [inv_intros]: "chart_inv m \<Longrightarrow> chart_inv (addClusterEntry ck m)"
  unfolding chart_inv_def registrants_addClusterEntry releases_addClusterEntry
  by (simp add: addClusterEntry_def distinct_update)

lemma chart_inv_addReleaseEntry [inv_intros]:
  "chart_inv m \<Longrightarrow> CHR ''/'' \<in> set rk \<Longrightarrow> chart_inv (addReleaseEntry ck rk m)"
  by (simp add: addReleaseEntry_def Let_def inv_intros)

lemma chart_inv_addClusterSummaryEntry [inv_intros]:
  assumes "chart_inv m" "CHR ''/'' \<in> set rk"
  shows "chart_inv (addClusterSummaryEntry ck rk cs m)"
proof -
  have "distinct (registrants m ck rk)" using assms(1) by (simp add: chart_inv_def)
  then show ?thesis using assms
    by (auto simp: addClusterSummaryEntry_def Let_def queue_simps list_ex_iff
        isClusterSummaryAlreadyRegistered_def intro!: inv_intros)
qed

lemma chart_inv_remove [inv_intros]:
  assumes "chart_inv m"
  shows "chart_inv (removeClusterSummaryFromChartRegistration ck rk cs m)"
proof (cases "cs \<in> set (registrants m ck rk)")
  case True
  then have "rk \<in> set (releases m ck)" using registrants_not_released by fastforce
  then have "CHR ''/'' \<in> set rk" using assms by (auto simp: chart_inv_def)
  moreover have "distinct (swap_remove_first ((=) cs) (registrants m ck rk))"
    by (rule distinct_mset_diff [OF _ mset_swap_remove_eq]) (use assms in \<open>simp add: chart_inv_def\<close>)
  ultimately show ?thesis
    using assms by (simp add: removeClusterSummaryFromChartRegistration_def chart_inv_put)
qed (simp add: assms removeClusterSummaryFromChartRegistration_def)

lemma chart_inv_fold [inv_intros]:
  "(\<And>x m. x \<in> set xs \<Longrightarrow> chart_inv m \<Longrightarrow> chart_inv (f x m)) \<Longrightarrow> chart_inv m \<Longrightarrow> chart_inv (fold f xs m)"
  by (induction xs arbitrary: m) auto

lemma GetReleaseKey_sep [simp]: "CHR ''/'' \<in> set (GetReleaseKey ns n)"
  by (simp add: GetReleaseKey_def)

lemma chart_ReleaseKey_sep [simp]: "CHR ''/'' \<in> set (chart_ReleaseKey c)"
  by (simp add: chart_ReleaseKey_def)

lemma chart_inv_Register [inv_intros]: "chart_inv m \<Longrightarrow> chart_inv (RegisterClusterSummaryForCharts cs m)"
  by (auto simp: RegisterClusterSummaryForCharts_def Let_def intro!: inv_intros)

lemma chart_inv_SetManager [inv_intros]:
  assumes "chart_inv m"
  shows "chart_inv (SetManagerForChart cs chart m)"
proof -
  let ?ck = "cs_ClusterKey cs" and ?rk = "chart_ReleaseKey chart"
  let ?m = "removeClusterSummaryFromChartRegistration ?ck ?rk (cs_Name cs)
              (addReleaseEntry ?ck ?rk (addClusterEntry ?ck m))"
  have d: "distinct (registrants m ?ck ?rk)" using assms by (simp add: chart_inv_def)
  have "chart_inv ?m" using assms by (auto intro!: inv_intros)
  moreover have "distinct (cs_Name cs # registrants ?m ?ck ?rk)"
    using d distinct_mset_diff [OF d mset_swap_remove_eq] by (simp add: queue_simps set_swap_remove_eq)
  ultimately show ?thesis
    by (simp add: SetManagerForChart_def Let_def getClusterSummaryKey_def chart_inv_put)
qed

lemma chart_inv_Unregister [inv_intros]:
  "chart_inv m \<Longrightarrow> chart_inv (UnregisterClusterSummaryForChart cs chart m)"
  by (simp add: UnregisterClusterSummaryForChart_def inv_intros)

lemma chart_inv_clean [inv_intros]: "chart_inv m \<Longrightarrow> chart_inv (cleanRegistrations cs all m)"
  by (auto simp: cleanRegistrations_def Let_def intro!: inv_intros)

lemma chart_inv_RemoveStale [inv_intros]: "chart_inv m \<Longrightarrow> chart_inv (RemoveStaleRegistrations cs m)"
  by (simp add: RemoveStaleRegistrations_def inv_intros)

lemma chart_inv_RemoveAll [inv_intros]: "chart_inv m \<Longrightarrow> chart_inv (RemoveAllRegistrations cs m)"
  by (simp add: RemoveAllRegistrations_def inv_intros)

lemma chart_inv_addSummaries [inv_intros]: "chart_inv m \<Longrightarrow> chart_inv (addSummaries sel cs m)"
  by (auto simp: addSummaries_def Let_def intro!: inv_intros)

lemma chart_inv_rebuild [inv_intros]: "chart_inv m \<Longrightarrow> chart_inv (snd (rebuildRegistrations r m))"
  by (auto simp: rebuildRegistrations_def addManagers_def addNonManagers_def split: sum.splits
      intro!: inv_intros)

lemma chart_inv_versions [simp]:
  "chart_inv (m\<lparr>perClusterChartVersionMap := v\<rparr>) = chart_inv m"
  by (simp add: chart_inv_def releases_def registrants_def)

section \<open>Functional behaviour\<close>

definition manager :: "chart_manager \<Rightarrow> string \<Rightarrow> string \<Rightarrow> string option" where
  "manager m ck rk = (case registrants m ck rk of [] \<Rightarrow> None | cs # _ \<Rightarrow> Some cs)"

lemma manager_Some_iff: "manager m ck rk = Some cs \<longleftrightarrow> (\<exists>ys. registrants m ck rk = cs # ys)"
  by (auto simp: manager_def split: list.splits)

lemma manager_hd: "registrants m ck rk \<noteq> [] \<Longrightarrow> hd (registrants m ck rk) = cs \<Longrightarrow> manager m ck rk = Some cs"
  by (cases "registrants m ck rk") (simp_all add: manager_def)

lemma set_singleton_hd: "set xs = {x} \<Longrightarrow> xs \<noteq> []" "set xs = {x} \<Longrightarrow> hd xs = x"
  by (cases xs; auto)+

lemma isCurrentlyManager_iff: "isCurrentlyManager ck rk cs m \<longleftrightarrow> manager m ck rk = Some cs"
  by (simp add: isCurrentlyManager_def manager_def registrants_def lookup_default_def
      split: option.splits list.splits)

lemma IsChartManaged_iff:
  "IsChartManaged ns n ct chart m \<longleftrightarrow> registrants m (getClusterKey ns n ct) (chart_ReleaseKey chart) \<noteq> []"
  by (simp add: IsChartManaged_def registrants_def lookup_default_def split: option.splits)

lemma CanManageChart_iff:
  "CanManageChart cs chart m \<longleftrightarrow>
     manager m (cs_ClusterKey cs) (chart_ReleaseKey chart) \<in> {None, Some (cs_Name cs)}"
  by (auto simp: CanManageChart_def IsChartManaged_iff isCurrentlyManager_iff getClusterSummaryKey_def
      manager_def simp flip: cs_ClusterKey_def split: list.splits)

lemma GetManagerForChart_manager:
  "GetManagerForChart ns n ct chart m = Inr cs \<longleftrightarrow>
     manager m (getClusterKey ns n ct) (chart_ReleaseKey chart) = Some cs"
  by (simp add: GetManagerForChart_def Let_def manager_def registrants_def lookup_default_def
      split: option.splits list.splits)

lemma registrants_fold_add:
  "registrants (fold (\<lambda>x m. if p x then addClusterSummaryEntry K (f x) cs
       (addReleaseEntry K (f x) (addClusterEntry K m)) else m) xs m) ck rk =
     (if ck = K \<and> (\<exists>x \<in> set xs. p x \<and> f x = rk) then enqueue cs (registrants m ck rk)
      else registrants m ck rk)"
  by (induction xs arbitrary: m) (auto simp: queue_simps)

lemma registrants_Register [queue_simps]:
  "registrants (RegisterClusterSummaryForCharts cs m) ck rk =
     (if ck = cs_ClusterKey cs \<and> rk \<in> chart_ReleaseKey ` set (cs_HelmCharts cs)
      then enqueue (cs_Name cs) (registrants m ck rk) else registrants m ck rk)"
  using registrants_fold_add [of "\<lambda>_. True" "cs_ClusterKey cs" chart_ReleaseKey "cs_Name cs"
      "cs_HelmCharts cs" m ck rk]
  by (auto simp: RegisterClusterSummaryForCharts_def Let_def getClusterSummaryKey_def)

lemma registrants_SetManager [queue_simps]:
  "registrants (SetManagerForChart cs chart m) ck rk =
     (if ck = cs_ClusterKey cs \<and> rk = chart_ReleaseKey chart
      then cs_Name cs # swap_remove_first ((=) (cs_Name cs)) (registrants m ck rk)
      else registrants m ck rk)"
  by (auto simp: SetManagerForChart_def Let_def getClusterSummaryKey_def queue_simps)

lemma registrants_Unregister [queue_simps]:
  "registrants (UnregisterClusterSummaryForChart cs chart m) ck rk =
     (if ck = cs_ClusterKey cs \<and> rk = chart_ReleaseKey chart
      then swap_remove_first ((=) (cs_Name cs)) (registrants m ck rk) else registrants m ck rk)"
  by (auto simp: UnregisterClusterSummaryForChart_def getClusterSummaryKey_def queue_simps)

lemma registrants_fold_remove:
  "distinct xs \<Longrightarrow>
   registrants (fold (\<lambda>x m. if x \<in> R then m else removeClusterSummaryFromChartRegistration K x cs m) xs m) ck rk =
     (if ck = K \<and> rk \<in> set xs - R then swap_remove_first ((=) cs) (registrants m ck rk)
      else registrants m ck rk)"
  by (induction xs arbitrary: m) (auto simp: queue_simps)

lemma registrants_clean [queue_simps]:
  assumes "chart_inv m"
  shows "registrants (cleanRegistrations cs all m) ck rk =
     (if ck = cs_ClusterKey cs \<and> (all \<or> rk \<notin> chart_ReleaseKey ` set (cs_HelmCharts cs))
      then swap_remove_first ((=) (cs_Name cs)) (registrants m ck rk) else registrants m ck rk)"
proof -
  have "distinct (releases m (cs_ClusterKey cs))" using assms by (simp add: chart_inv_def)
  from registrants_fold_remove [OF this,
      of "if all then {} else chart_ReleaseKey ` set (cs_HelmCharts cs)" "cs_ClusterKey cs" "cs_Name cs" m ck rk]
  show ?thesis
    using registrants_not_released [of rk m ck]
    by (cases all) (auto simp: cleanRegistrations_def Let_def getClusterSummaryKey_def swap_remove_notin)
qed

lemma registrants_RemoveStale [queue_simps]:
  "chart_inv m \<Longrightarrow> registrants (RemoveStaleRegistrations cs m) ck rk =
     (if ps_SyncMode (cs_ProfileSpec cs) \<noteq> SyncModeDryRun \<and> ck = cs_ClusterKey cs \<and>
         rk \<notin> chart_ReleaseKey ` set (cs_HelmCharts cs)
      then swap_remove_first ((=) (cs_Name cs)) (registrants m ck rk) else registrants m ck rk)"
  by (simp add: RemoveStaleRegistrations_def queue_simps)

lemma registrants_RemoveAll [queue_simps]:
  "chart_inv m \<Longrightarrow> registrants (RemoveAllRegistrations cs m) ck rk =
     (if ck = cs_ClusterKey cs then swap_remove_first ((=) (cs_Name cs)) (registrants m ck rk)
      else registrants m ck rk)"
  by (simp add: RemoveAllRegistrations_def queue_simps)

lemma registrants_addSummaries [queue_simps]:
  "registrants (addSummaries sel cs m) ck rk =
     (if ck = cs_ClusterKey cs \<and>
         (\<exists>s \<in> set (cs_HelmReleaseSummaries cs). sel (hs_Status s) \<and>
            GetReleaseKey (hs_ReleaseNamespace s) (hs_ReleaseName s) = rk)
      then enqueue (cs_Name cs) (registrants m ck rk) else registrants m ck rk)"
  unfolding addSummaries_def Let_def getClusterSummaryKey_def
  by (subst registrants_fold_add) simp

lemma registrants_versions [queue_simps, simp]:
  "registrants (m\<lparr>perClusterChartVersionMap := v\<rparr>) = registrants m"
  by (intro ext) (simp add: registrants_def)

section \<open>Histories\<close>

text \<open>The operations that change the state, as the reconcilers call them, and the states they reach from
  the one the controller builds when it starts.\<close>

datatype chart_op =
    OpRegister cluster_summary
  | OpSetManager cluster_summary helm_chart
  | OpUnregister cluster_summary helm_chart
  | OpRemoveStale cluster_summary
  | OpRemoveAll cluster_summary
  | OpRegisterVersion string string helm_chart
  | OpUnregisterVersion string string string string

primrec apply_op :: "chart_op \<Rightarrow> chart_manager \<Rightarrow> chart_manager" where
  "apply_op (OpRegister cs) m = RegisterClusterSummaryForCharts cs m"
| "apply_op (OpSetManager cs chart) m = SetManagerForChart cs chart m"
| "apply_op (OpUnregister cs chart) m = UnregisterClusterSummaryForChart cs chart m"
| "apply_op (OpRemoveStale cs) m = RemoveStaleRegistrations cs m"
| "apply_op (OpRemoveAll cs) m = RemoveAllRegistrations cs m"
| "apply_op (OpRegisterVersion ns n chart) m = RegisterVersionForChart ns n chart m"
| "apply_op (OpUnregisterVersion ns n rns rn) m = UnregisterVersionForChart ns n rns rn m"

inductive chart_reachable :: "chart_manager \<Rightarrow> bool" where
  started: "GetChartManagerInstance (Inr css :: string + _) (Inr ccs) None = (Inr m, Some m) \<Longrightarrow>
    chart_reachable m"
| operated: "chart_reachable m \<Longrightarrow> chart_reachable (apply_op op m)"

lemma setChartVersion_registry [simp]:
  "chart_inv (setChartVersion ck rk v m) = chart_inv m"
  "registrants (setChartVersion ck rk v m) = registrants m"
  by (simp_all add: setChartVersion_def)

lemma walk_registry:
  "chart_inv (walkClusterConfigurationFeature ck fs m) = chart_inv m \<and>
   registrants (walkClusterConfigurationFeature ck fs m) = registrants m"
proof -
  have "chart_inv (fold (\<lambda>c. setChartVersion ck (k c) (v c)) cs m) = chart_inv m \<and>
        registrants (fold (\<lambda>c. setChartVersion ck (k c) (v c)) cs m) = registrants m"
    for cs :: "chart_resource list" and k v m
    by (induction cs arbitrary: m) auto
  then show ?thesis unfolding walkClusterConfigurationFeature_def
    by (induction fs arbitrary: m) (auto simp: walkClusterConfigurationCharts_def)
qed

lemma addHelmVersions_registry [simp]:
  "chart_inv (addHelmVersions cc m) = chart_inv m"
  "registrants (addHelmVersions cc m) = registrants m"
proof -
  have *: "chart_inv (fold (\<lambda>r. walkClusterConfigurationFeature ck (g r)) rs m) = chart_inv m \<and>
        registrants (fold (\<lambda>r. walkClusterConfigurationFeature ck (g r)) rs m) = registrants m"
    for ck g m and rs :: "'z list"
    by (induction rs arbitrary: m) (auto simp: walk_registry)
  show "chart_inv (addHelmVersions cc m) = chart_inv m"
    by (simp add: addHelmVersions_def Let_def * split: option.splits)
  show "registrants (addHelmVersions cc m) = registrants m"
    by (simp add: addHelmVersions_def Let_def * split: option.splits)
qed

lemma rebuildChartVersions_registry:
  "chart_inv (snd (rebuildChartVersions r m)) = chart_inv m"
  "registrants (snd (rebuildChartVersions r m)) = registrants m"
proof -
  have "chart_inv (fold addHelmVersions cs m) = chart_inv m \<and>
        registrants (fold addHelmVersions cs m) = registrants m" for cs
    by (induction cs arbitrary: m) auto
  then show "chart_inv (snd (rebuildChartVersions r m)) = chart_inv m"
    "registrants (snd (rebuildChartVersions r m)) = registrants m"
    by (auto simp: rebuildChartVersions_def split: sum.splits)
qed

lemma GetChartManagerInstance_started:
  assumes "GetChartManagerInstance (Inr css :: 'e + _) (Inr ccs) None = (Inr m, g)"
  shows "registrants m = registrants (fold addNonManagers css (fold addManagers css new_chart_manager))"
    and "chart_inv m"
proof -
  let ?r = "fold addNonManagers css (fold addManagers css new_chart_manager)"
  have m: "m = snd (rebuildChartVersions (Inr ccs :: 'e + _) ?r)"
    using assms by (auto simp: GetChartManagerInstance_def rebuildRegistrations_def
        rebuildChartVersions_def)
  show "registrants m = registrants ?r" by (simp add: m rebuildChartVersions_registry)
  have "chart_inv (snd (rebuildRegistrations (Inr css :: 'e + _) new_chart_manager))"
    by (intro inv_intros)
  then show "chart_inv m"
    by (simp add: m rebuildChartVersions_registry rebuildRegistrations_def)
qed

lemma chart_inv_apply_op [inv_intros]: "chart_inv m \<Longrightarrow> chart_inv (apply_op op m)"
  by (cases op) (auto simp: RegisterVersionForChart_def UnregisterVersionForChart_def Let_def
      split: option.splits intro: inv_intros)

lemma chart_reachable_inv: "chart_reachable m \<Longrightarrow> chart_inv m"
  by (induction rule: chart_reachable.induct)
    (auto intro: inv_intros dest: GetChartManagerInstance_started(2))

section \<open>Properties\<close>

lemma those_map_Some: "(\<And>x. x \<in> set xs \<Longrightarrow> f x \<noteq> None) \<Longrightarrow> those (map f xs) = Some (map (the \<circ> f) xs)"
proof (induction xs)
  case (Cons a xs)
  then obtain y where "f a = Some y" by fastforce
  with Cons show ?case by simp
qed simp

lemma getReleaseInfoFromKey_defined: "CHR ''/'' \<in> set rk \<Longrightarrow> getReleaseInfoFromKey rk \<noteq> None"
  using go_split_two [of "CHR ''/''" rk] by (auto simp: getReleaseInfoFromKey_def)

lemma concat_map_single:
  "distinct xs \<Longrightarrow> concat (map (\<lambda>x. if x = a \<and> p then [y] else []) xs) = (if a \<in> set xs \<and> p then [y] else [])"
  by (induction xs) auto

lemma concat_map_filter: "concat (map (\<lambda>x. if p x then [x] else []) xs) = filter p xs"
  by (induction xs) auto

lemma managedReleaseKeys_eq:
  assumes "chart_inv m"
  shows "managedReleaseKeys cs m =
    filter (\<lambda>rk. manager m (cs_ClusterKey cs) rk = Some (cs_Name cs)) (releases m (cs_ClusterKey cs))"
proof -
  have "concat (map (\<lambda>csKey. if csKey = cs_Name cs \<and> isCurrentlyManager (cs_ClusterKey cs) rk (cs_Name cs) m
          then [rk] else []) (registrants m (cs_ClusterKey cs) rk)) =
        (if manager m (cs_ClusterKey cs) rk = Some (cs_Name cs) then [rk] else [])" for rk
    using assms by (subst concat_map_single)
      (auto simp: chart_inv_def isCurrentlyManager_iff manager_Some_iff)
  then show ?thesis
    by (simp add: managedReleaseKeys_def Let_def getClusterSummaryKey_def concat_map_filter)
qed

text \<open>C1. Exclusive management. In every state the controller can reach, a release some ClusterSummary is
  registered for has exactly one manager: one registered name for which \<open>CanManageChart\<close>
  answers yes, every other ClusterSummary of that cluster being refused, and \<open>GetManagerForChart\<close> names it.\<close>

theorem chart_management_exclusive:
  assumes "chart_reachable m" "IsChartManaged ns n ct chart m"
  shows "\<exists>!name. (\<forall>cs. cs_ClusterKey cs = getClusterKey ns n ct \<longrightarrow>
                  (CanManageChart cs chart m \<longleftrightarrow> cs_Name cs = name)) \<and>
            name \<in> set (GetRegisteredClusterSummariesForChart ns n ct chart m) \<and>
            GetManagerForChart ns n ct chart m = Inr name"
proof -
  obtain name where name: "manager m (getClusterKey ns n ct) (chart_ReleaseKey chart) = Some name"
    using assms(2)
    by (cases "registrants m (getClusterKey ns n ct) (chart_ReleaseKey chart)")
      (simp_all add: IsChartManaged_iff manager_def)
  then have "name \<in> set (GetRegisteredClusterSummariesForChart ns n ct chart m)"
    by (auto simp: manager_Some_iff GetRegisteredClusterSummariesForChart_def)
  then show ?thesis using name
    by (intro ex1I [of _ name]) (auto simp: CanManageChart_iff GetManagerForChart_manager)
qed

lemma GetManagedHelmReleases_eq:
  assumes "chart_inv m"
  shows "GetManagedHelmReleases cs m =
      Some (map (the \<circ> getReleaseInfoFromKey)
        (filter (\<lambda>rk. manager m (cs_ClusterKey cs) rk = Some (cs_Name cs)) (releases m (cs_ClusterKey cs))))"
  using assms unfolding GetManagedHelmReleases_def managedReleaseKeys_eq [OF assms]
  by (intro those_map_Some getReleaseInfoFromKey_defined) (auto simp: chart_inv_def)

lemma GetRegisteredChartsCount_eq:
  assumes "chart_inv m"
  shows "GetRegisteredChartsCount cs m = card {rk. cs_Name cs \<in> set (registrants m (cs_ClusterKey cs) rk)}"
proof -
  let ?reg = "\<lambda>rk. cs_Name cs \<in> set (registrants m (cs_ClusterKey cs) rk)"
  have count: "fold (\<lambda>rk c. if p rk then c + 1 else c) xs c = c + length (filter p xs)"
    for p and xs :: "string list" and c :: nat by (induction xs arbitrary: c) auto
  have "{rk. ?reg rk} = set (filter ?reg (releases m (cs_ClusterKey cs)))"
    using registrants_not_released by fastforce
  moreover have "distinct (filter ?reg (releases m (cs_ClusterKey cs)))"
    using assms by (simp add: chart_inv_def)
  ultimately have "card {rk. ?reg rk} = length (filter ?reg (releases m (cs_ClusterKey cs)))"
    by (metis distinct_card)
  then show ?thesis
    by (simp add: GetRegisteredChartsCount_def Let_def getClusterSummaryKey_def
        count [of ?reg, simplified])
qed

text \<open>C27. Registrations are a set per release in every reachable state: no ClusterSummary is queued twice, so its
  number of registered charts counts releases, and \<open>GetManagedHelmReleases\<close> never
  panics on a release key and lists exactly the releases the ClusterSummary manages.\<close>

theorem managed_releases_exact:
  assumes "chart_reachable m"
  shows "distinct (registrants m ck rk) \<and>
    GetManagedHelmReleases cs m =
      Some (map (the \<circ> getReleaseInfoFromKey)
        (filter (\<lambda>rk. manager m (cs_ClusterKey cs) rk = Some (cs_Name cs)) (releases m (cs_ClusterKey cs)))) \<and>
    GetRegisteredChartsCount cs m =
      card {rk. cs_Name cs \<in> set (registrants m (cs_ClusterKey cs) rk)}"
  using chart_reachable_inv [OF assms]
  by (simp add: GetManagedHelmReleases_eq GetRegisteredChartsCount_eq chart_inv_def)

text \<open>The operations that can take a release away from its manager: the manager's own unregistration or
  clean-up, and another ClusterSummary being set as manager.\<close>

fun challenges :: "string \<Rightarrow> string \<Rightarrow> string \<Rightarrow> chart_op \<Rightarrow> bool" where
  "challenges ck rk name (OpSetManager cs chart) =
     (cs_ClusterKey cs = ck \<and> chart_ReleaseKey chart = rk \<and> cs_Name cs \<noteq> name)"
| "challenges ck rk name (OpUnregister cs chart) =
     (cs_ClusterKey cs = ck \<and> chart_ReleaseKey chart = rk \<and> cs_Name cs = name)"
| "challenges ck rk name (OpRemoveStale cs) =
     (cs_ClusterKey cs = ck \<and> cs_Name cs = name \<and> rk \<notin> chart_ReleaseKey ` set (cs_HelmCharts cs) \<and>
      ps_SyncMode (cs_ProfileSpec cs) \<noteq> SyncModeDryRun)"
| "challenges ck rk name (OpRemoveAll cs) = (cs_ClusterKey cs = ck \<and> cs_Name cs = name)"
| "challenges ck rk name _ = False"

lemma manager_stable_step:
  assumes "chart_inv m" "manager m ck rk = Some name" "\<not> challenges ck rk name op"
  shows "manager (apply_op op m) ck rk = Some name"
proof -
  obtain ys where ys: "registrants m ck rk = name # ys" using assms(2) by (auto simp: manager_Some_iff)
  have keep: "\<exists>zs. swap_remove_first ((=) k) (name # ys) = name # zs" if "k \<noteq> name" for k
    using that by (rule swap_remove_keeps_hd)
  show ?thesis
    unfolding manager_Some_iff
    using assms(1,3) ys keep
    by (cases op)
      (auto simp: queue_simps enqueue_def RegisterVersionForChart_def UnregisterVersionForChart_def Let_def
        split: option.splits)
qed

text \<open>C5. Stability. Whatever the reconcilers of other ClusterSummaries do, and whatever the manager registers
  itself, the first ClusterSummary registered for a release keeps managing it: over any
  sequence of operations none of which challenges it (its own unregistration or clean-up of the
  release, or an explicit \<open>SetManagerForChart\<close> for another) it remains the manager.\<close>

theorem first_registrant_keeps_management:
  assumes "chart_reachable m" "manager m ck rk = Some name"
    and "\<forall>op \<in> set ops. \<not> challenges ck rk name op"
  shows "manager (fold apply_op ops m) ck rk = Some name"
  using assms
proof (induction ops arbitrary: m)
  case (Cons op ops)
  then have "manager (apply_op op m) ck rk = Some name"
    by (auto intro: manager_stable_step chart_reachable_inv)
  with Cons show ?case by (auto intro: chart_reachable.operated)
qed simp

text \<open>Registration. After a ClusterSummary registers, each release of its helm charts has it in the queue,
  at the end when it was not there yet, so the present manager of a managed release does not change and an
  unmanaged release gets it as manager; all other queues are untouched.\<close>

theorem register_outcome:
  "registrants (RegisterClusterSummaryForCharts cs m) ck rk =
     (if ck = cs_ClusterKey cs \<and> rk \<in> chart_ReleaseKey ` set (cs_HelmCharts cs)
      then (if cs_Name cs \<in> set (registrants m ck rk) then registrants m ck rk
            else registrants m ck rk @ [cs_Name cs])
      else registrants m ck rk)"
  by (simp add: queue_simps enqueue_def)

text \<open>Stale registrations. Outside DryRun, after \<open>RegisterClusterSummaryForCharts\<close> and
  \<open>RemoveStaleRegistrations\<close> a ClusterSummary is registered in its cluster for exactly the releases
  its spec lists; every other ClusterSummary keeps all its registrations.\<close>

theorem stale_registrations_removed:
  assumes "chart_reachable m" "ps_SyncMode (cs_ProfileSpec cs) \<noteq> SyncModeDryRun"
    and "m' = RemoveStaleRegistrations cs (RegisterClusterSummaryForCharts cs m)"
  shows "{rk. cs_Name cs \<in> set (registrants m' (cs_ClusterKey cs) rk)} =
           chart_ReleaseKey ` set (cs_HelmCharts cs) \<and>
    (\<forall>other ck rk. other \<noteq> cs_Name cs \<or> ck \<noteq> cs_ClusterKey cs \<longrightarrow>
       (other \<in> set (registrants m' ck rk) \<longleftrightarrow> other \<in> set (registrants m ck rk)))"
proof -
  have inv: "chart_inv m" using assms(1) by (rule chart_reachable_inv)
  then have d: "distinct (registrants m ck rk)" for ck rk by (simp add: chart_inv_def)
  have "registrants m' ck rk =
     (if ck = cs_ClusterKey cs
      then if rk \<in> chart_ReleaseKey ` set (cs_HelmCharts cs) then enqueue (cs_Name cs) (registrants m ck rk)
           else swap_remove_first ((=) (cs_Name cs)) (registrants m ck rk)
      else registrants m ck rk)" for ck rk
    using assms(2) inv by (simp add: assms(3) queue_simps inv_intros)
  then show ?thesis by (auto simp: set_swap_remove_eq [OF d])
qed

text \<open>Taking over. After \<open>SetManagerForChart\<close> the ClusterSummary manages the release, no other one does,
  and the set of the others that are queued is unchanged.\<close>

theorem set_manager_outcome:
  assumes "chart_reachable m" "m' = SetManagerForChart cs chart m"
  shows "(\<forall>other. cs_ClusterKey other = cs_ClusterKey cs \<longrightarrow>
            (CanManageChart other chart m' \<longleftrightarrow> cs_Name other = cs_Name cs)) \<and>
    set (registrants m' (cs_ClusterKey cs) (chart_ReleaseKey chart)) =
      insert (cs_Name cs) (set (registrants m (cs_ClusterKey cs) (chart_ReleaseKey chart)))"
proof -
  have "distinct (registrants m (cs_ClusterKey cs) (chart_ReleaseKey chart))"
    using chart_reachable_inv [OF assms(1)] by (simp add: chart_inv_def)
  then show ?thesis
    by (auto simp: assms(2) CanManageChart_iff manager_def queue_simps set_swap_remove_eq)
qed

text \<open>Handover. When the manager of a release unregisters while others wait, the manager becomes the one
  that registered last, not the next in line: the queue loses its head to its last element.\<close>

theorem handover_goes_to_last_registrant:
  assumes "registrants m (cs_ClusterKey cs) (chart_ReleaseKey chart) = cs_Name cs # waiting"
    and "waiting \<noteq> []"
  shows "registrants (UnregisterClusterSummaryForChart cs chart m) (cs_ClusterKey cs) (chart_ReleaseKey chart) =
           last waiting # butlast waiting \<and>
    manager (UnregisterClusterSummaryForChart cs chart m) (cs_ClusterKey cs) (chart_ReleaseKey chart) =
           Some (last waiting)"
  using assms by (simp add: queue_simps swap_remove_head manager_def)

lemma registrants_fold_addSummaries:
  "set (registrants (fold (addSummaries sel) items m) ck rk) =
     set (registrants m ck rk) \<union>
     {cs_Name cs | cs s. cs \<in> set items \<and> cs_ClusterKey cs = ck \<and> s \<in> set (cs_HelmReleaseSummaries cs) \<and>
        sel (hs_Status s) \<and> GetReleaseKey (hs_ReleaseNamespace s) (hs_ReleaseName s) = rk}"
proof (induction items arbitrary: m)
  case (Cons c items)
  show ?case by (auto simp: Cons queue_simps)
qed simp

lemma if_value_cases: "(if P then x else y) = y \<or> (if P then x else y) = x"
  by (cases P) simp_all

lemma hd_fold_addSummaries:
  "registrants m ck rk \<noteq> [] \<Longrightarrow>
   registrants (fold (addSummaries sel) items m) ck rk \<noteq> [] \<and>
   hd (registrants (fold (addSummaries sel) items m) ck rk) = hd (registrants m ck rk)"
proof (induction items arbitrary: m)
  case (Cons c items)
  have ne: "enqueue (cs_Name c) (registrants m ck rk) \<noteq> []"
    by (simp add: enqueue_def Cons.prems)
  have "registrants (addSummaries sel c m) ck rk = registrants m ck rk \<or>
      registrants (addSummaries sel c m) ck rk = enqueue (cs_Name c) (registrants m ck rk)"
    unfolding registrants_addSummaries [of sel c m ck rk] by (rule if_value_cases)
  then have "registrants (addSummaries sel c m) ck rk \<noteq> [] \<and>
      hd (registrants (addSummaries sel c m) ck rk) = hd (registrants m ck rk)"
    using hd_enqueue [OF Cons.prems, of "cs_Name c"] Cons.prems ne by metis
  with Cons.IH [of "addSummaries sel c m"] show ?case by simp
qed simp

text \<open>The ClusterSummaries of a cluster whose status reports a release, with a status that is selected.\<close>

definition reporters :: "(helm_chart_status \<Rightarrow> bool) \<Rightarrow> cluster_summary list \<Rightarrow> string \<Rightarrow> string \<Rightarrow> string set" where
  "reporters sel items ck rk =
     cs_Name ` set (filter (\<lambda>cs. cs_ClusterKey cs = ck \<and>
       (\<exists>s \<in> set (cs_HelmReleaseSummaries cs). sel (hs_Status s) \<and>
          GetReleaseKey (hs_ReleaseNamespace s) (hs_ReleaseName s) = rk)) items)"

lemma set_fold_addSummaries:
  "set (registrants (fold (addSummaries sel) items m) ck rk) =
     set (registrants m ck rk) \<union> reporters sel items ck rk"
  unfolding registrants_fold_addSummaries reporters_def by auto

lemma reporters_Un:
  "reporters sel items ck rk \<union> reporters (\<lambda>s. \<not> sel s) items ck rk = reporters (\<lambda>_. True) items ck rk"
  unfolding reporters_def image_Un [symmetric] by (rule arg_cong [where f = "\<lambda>A. cs_Name ` A"]) auto

text \<open>C21. Restart. The registry rebuilt when the controller starts gives each release whose status says
  Managing in one ClusterSummary of the cluster to that ClusterSummary, wherever it
  stands in the list of the API server and whoever else is waiting; every ClusterSummary that reports the release is queued.\<close>

theorem restart_restores_managers:
  assumes "GetChartManagerInstance (Inr css :: string + _) (Inr ccs) None = (Inr m, g)"
    and "reporters (\<lambda>st. st = HelmChartStatusManaging) css ck rk = {name}"
  shows "manager m ck rk = Some name \<and> set (registrants m ck rk) = reporters (\<lambda>_. True) css ck rk"
proof -
  let ?m1 = "fold addManagers css new_chart_manager"
  have m: "registrants m = registrants (fold addNonManagers css ?m1)"
    using assms(1) by (rule GetChartManagerInstance_started(1))
  have empty: "registrants new_chart_manager ck rk = []"
    by (simp add: new_chart_manager_def registrants_def)
  have set1: "set (registrants ?m1 ck rk) = {name}"
    unfolding addManagers_def set_fold_addSummaries empty assms(2) by simp
  note hd1 = set_singleton_hd [OF this]
  have "registrants m ck rk \<noteq> []" "hd (registrants m ck rk) = name"
    unfolding m addNonManagers_def
    using hd_fold_addSummaries [OF hd1(1), of "\<lambda>st. st \<noteq> HelmChartStatusManaging" css]
    unfolding hd1(2) by blast+
  then have "manager m ck rk = Some name" by (rule manager_hd)
  moreover have "set (registrants m ck rk) = reporters (\<lambda>_. True) css ck rk"
    unfolding m addNonManagers_def addManagers_def set_fold_addSummaries empty
    using reporters_Un [of "\<lambda>st. st = HelmChartStatusManaging"] by (simp only: list.set Un_empty_left)
  ultimately show ?thesis ..
qed

section \<open>Witnesses\<close>

text \<open>A registry in which \<open>a\<close> manages release \<open>r\<close> of cluster \<open>c\<close> and \<open>b\<close> and \<open>d\<close> wait for it.\<close>

definition sample_a :: cluster_summary where "sample_a = sample_cs ''a'' [sample_chart ''r'']"
definition sample_b :: cluster_summary where "sample_b = sample_cs ''b'' [sample_chart ''r'']"
definition sample_d :: cluster_summary where "sample_d = sample_cs ''d'' [sample_chart ''r'']"

definition sample_registry :: chart_manager where
  "sample_registry = fold apply_op [OpRegister sample_a, OpRegister sample_b, OpRegister sample_d] new_chart_manager"

abbreviation "sample_ck \<equiv> getClusterKey ''ns'' ''c'' ClusterTypeCapi"
abbreviation "sample_rk \<equiv> chart_ReleaseKey (sample_chart ''r'')"

lemma sample_ClusterKey [simp]:
  "cs_ClusterKey (sample_cs n charts) = sample_ck" "cs_ClusterKey sample_a = sample_ck"
  "cs_ClusterKey sample_b = sample_ck" "cs_ClusterKey sample_d = sample_ck"
  by (simp_all add: cs_ClusterKey_def sample_a_def sample_b_def sample_d_def)

lemma chart_reachable_new: "chart_reachable new_chart_manager"
  by (rule chart_reachable.started [of "[]" "[]"])
    (simp add: GetChartManagerInstance_def rebuildRegistrations_def rebuildChartVersions_def)

lemma chart_reachable_fold: "chart_reachable m \<Longrightarrow> chart_reachable (fold apply_op ops m)"
  by (induction ops arbitrary: m) (auto intro: chart_reachable.operated)

lemma sample_registry_reachable: "chart_reachable sample_registry"
  unfolding sample_registry_def by (intro chart_reachable_fold chart_reachable_new)

lemma registrants_new [simp]: "registrants new_chart_manager ck rk = []"
  by (simp add: new_chart_manager_def registrants_def)

lemma sample_registrants: "registrants sample_registry sample_ck sample_rk = [''a'', ''b'', ''d'']"
  by (simp add: sample_registry_def sample_a_def sample_b_def sample_d_def queue_simps enqueue_def)

theorem chart_management_exclusive_witness:
  "\<exists>!name. (\<forall>cs. cs_ClusterKey cs = sample_ck \<longrightarrow>
       (CanManageChart cs (sample_chart ''r'') sample_registry \<longleftrightarrow> cs_Name cs = name)) \<and>
     name \<in> set (GetRegisteredClusterSummariesForChart ''ns'' ''c'' ClusterTypeCapi (sample_chart ''r'') sample_registry) \<and>
     GetManagerForChart ''ns'' ''c'' ClusterTypeCapi (sample_chart ''r'') sample_registry = Inr name"
  by (rule chart_management_exclusive [OF sample_registry_reachable])
    (simp add: IsChartManaged_iff sample_registrants)

theorem managed_releases_exact_witness:
  "GetRegisteredChartsCount sample_a sample_registry =
     card {rk. cs_Name sample_a \<in> set (registrants sample_registry sample_ck rk)}"
  using managed_releases_exact [OF sample_registry_reachable, of sample_ck sample_rk sample_a] by simp

theorem first_registrant_keeps_management_witness:
  "manager (fold apply_op [OpRemoveAll sample_b, OpRegister sample_b, OpRemoveStale sample_a] sample_registry)
     sample_ck sample_rk = Some ''a''"
  by (rule first_registrant_keeps_management [OF sample_registry_reachable])
    (simp_all add: manager_def sample_registrants, simp_all add: sample_a_def sample_b_def)

theorem stale_registrations_removed_witness:
  "{rk. cs_Name sample_a \<in> set (registrants
      (RemoveStaleRegistrations sample_a (RegisterClusterSummaryForCharts sample_a sample_registry)) sample_ck rk)} =
   {sample_rk}"
  using stale_registrations_removed [OF sample_registry_reachable _ refl, of sample_a]
  by (simp add: sample_a_def)

theorem set_manager_outcome_witness:
  "CanManageChart sample_d (sample_chart ''r'') (SetManagerForChart sample_d (sample_chart ''r'') sample_registry)"
  using set_manager_outcome [OF sample_registry_reachable refl, of sample_d "sample_chart ''r''"] by blast

theorem handover_goes_to_last_registrant_witness:
  "manager (UnregisterClusterSummaryForChart sample_a (sample_chart ''r'') sample_registry) sample_ck sample_rk =
     Some ''d''"
  using handover_goes_to_last_registrant [of sample_registry sample_a "sample_chart ''r''" "[''b'', ''d'']"]
  by (simp add: sample_registrants) (simp add: sample_a_def)

definition sample_running :: "string \<Rightarrow> helm_chart_status \<Rightarrow> cluster_summary" where
  "sample_running n st = (sample_cs n [])\<lparr>cs_Status := zero_cluster_summary_status
     \<lparr>cst_HelmReleaseSummaries := [zero_helm_chart_summary
        \<lparr>hs_ReleaseName := ''r'', hs_ReleaseNamespace := ''rel'', hs_Status := st\<rparr>]\<rparr>\<rparr>"

theorem restart_restores_managers_witness:
  "\<exists>m g. GetChartManagerInstance
      (Inr [sample_running ''a'' HelmChartStatusConflict, sample_running ''b'' HelmChartStatusManaging] :: string + _)
      (Inr []) None = (Inr m, g) \<and> manager m sample_ck sample_rk = Some ''b''"
proof -
  let ?css = "[sample_running ''a'' HelmChartStatusConflict, sample_running ''b'' HelmChartStatusManaging]"
  obtain m where m: "GetChartManagerInstance (Inr ?css :: string + _) (Inr []) None = (Inr m, Some m)"
    by (simp add: GetChartManagerInstance_def rebuildRegistrations_def rebuildChartVersions_def)
  have "reporters (\<lambda>st. st = HelmChartStatusManaging) ?css sample_ck sample_rk = {''b''}"
    by (simp add: reporters_def sample_running_def zero_defs sample_cs_def cs_ClusterKey_def
        chart_ReleaseKey_def sample_chart_def)
  from restart_restores_managers [OF m this] m show ?thesis by blast
qed

end
