(* ===== verification/Feature_Status.thy ===== *)
theory Feature_Status
  imports Api_Types
begin

text \<open>
  The status of the features of a ClusterSummary: the setters of its scope
  (pkg/scope/clustersummary.go), the status update of the deployer with its count of
  consecutive failures, and the decisions the reconciler takes from it
  (controllers/clustersummary_deployer.go, clustersummary_controller.go, utils.go).

  A scope wraps the ClusterSummary it works on, so a scope operation is a function from
  ClusterSummary to ClusterSummary. The loops over the feature summaries with a
  \<open>return\<close> at the first match are \<open>update_feature\<close>; those that append a new summary when none matches
  are \<open>upsert_feature\<close>. Metrics, events and logs are left out.
\<close>

section \<open>Finding, changing and adding a feature summary\<close>

fun update_feature :: "feature_id \<Rightarrow> (feature_summary \<Rightarrow> feature_summary) \<Rightarrow>
    feature_summary list \<Rightarrow> feature_summary list" where
  "update_feature f g [] = []"
| "update_feature f g (s # ss) = (if fs_FeatureID s = f then g s # ss else s # update_feature f g ss)"

definition upsert_feature :: "feature_id \<Rightarrow> (feature_summary \<Rightarrow> feature_summary) \<Rightarrow> feature_summary \<Rightarrow>
    feature_summary list \<Rightarrow> feature_summary list" where
  "upsert_feature f g new ss =
     (if list_ex (\<lambda>s. fs_FeatureID s = f) ss then update_feature f g ss else ss @ [new])"

definition with_features ::
    "(feature_summary list \<Rightarrow> feature_summary list) \<Rightarrow> cluster_summary \<Rightarrow> cluster_summary" where
  "with_features h cs = cs\<lparr>cs_Status := (cs_Status cs)
     \<lparr>cst_FeatureSummaries := h (cst_FeatureSummaries (cs_Status cs))\<rparr>\<rparr>"

definition getFeatureSummaryForFeatureID :: "cluster_summary \<Rightarrow> feature_id \<Rightarrow> feature_summary option" where
  "getFeatureSummaryForFeatureID cs fID = List.find (\<lambda>s. fs_FeatureID s = fID) (cs_FeatureSummaries cs)"

section \<open>The scope of a ClusterSummary\<close>

definition IsContinuousWithDriftDetection :: "cluster_summary \<Rightarrow> bool" where
  "IsContinuousWithDriftDetection cs \<longleftrightarrow>
     ps_SyncMode (cs_ProfileSpec cs) = SyncModeContinuousWithDriftDetection"

definition IsContinuousSync :: "cluster_summary \<Rightarrow> bool" where
  "IsContinuousSync cs \<longleftrightarrow> ps_SyncMode (cs_ProfileSpec cs) = SyncModeContinuous \<or>
     ps_SyncMode (cs_ProfileSpec cs) = SyncModeContinuousWithDriftDetection"

definition IsOneTimeSync :: "cluster_summary \<Rightarrow> bool" where
  "IsOneTimeSync cs \<longleftrightarrow> ps_SyncMode (cs_ProfileSpec cs) = SyncModeOneTime"

definition IsDryRunSync :: "cluster_summary \<Rightarrow> bool" where
  "IsDryRunSync cs \<longleftrightarrow> ps_SyncMode (cs_ProfileSpec cs) = SyncModeDryRun"

definition SetFeatureStatus ::
    "feature_id \<Rightarrow> feature_status \<Rightarrow> bytes option \<Rightarrow> bool option \<Rightarrow> cluster_summary \<Rightarrow> cluster_summary" where
  "SetFeatureStatus featureID status hash failed cs = with_features (upsert_feature featureID
     (\<lambda>s. let s = s\<lparr>fs_Status := Some status, fs_Hash := hash\<rparr> in
        if ps_SyncMode (cs_ProfileSpec cs) \<noteq> SyncModeDryRun then
          (case failed of
             None \<Rightarrow> s
           | Some True \<Rightarrow> s\<lparr>fs_ConsecutiveFailures := fs_ConsecutiveFailures s + 1\<rparr>
           | Some False \<Rightarrow> s\<lparr>fs_ConsecutiveFailures := 0\<rparr>)
        else s)
     ((zero_feature_summary featureID)\<lparr>fs_Status := Some status, fs_Hash := hash,
        fs_ConsecutiveFailures := (if failed = Some True then 1 else 0)\<rparr>)) cs"

definition ResetConsecutiveFailures :: "feature_id \<Rightarrow> cluster_summary \<Rightarrow> cluster_summary" where
  "ResetConsecutiveFailures featureID =
     with_features (update_feature featureID (\<lambda>s. s\<lparr>fs_ConsecutiveFailures := 0\<rparr>))"

definition SetDependenciesMessage :: "string option \<Rightarrow> cluster_summary \<Rightarrow> cluster_summary" where
  "SetDependenciesMessage message cs = cs\<lparr>cs_Status := (cs_Status cs)\<lparr>cst_Dependencies := message\<rparr>\<rparr>"

definition SetFailureMessage :: "feature_id \<Rightarrow> string option \<Rightarrow> cluster_summary \<Rightarrow> cluster_summary" where
  "SetFailureMessage featureID failureMessage = with_features (upsert_feature featureID
     (\<lambda>s. s\<lparr>fs_FailureMessage := failureMessage\<rparr>)
     ((zero_feature_summary featureID)\<lparr>fs_FailureMessage := failureMessage\<rparr>))"

definition SetFailureReason :: "feature_id \<Rightarrow> string option \<Rightarrow> cluster_summary \<Rightarrow> cluster_summary" where
  "SetFailureReason featureID failureReason = with_features (upsert_feature featureID
     (\<lambda>s. s\<lparr>fs_FailureReason := failureReason\<rparr>)
     ((zero_feature_summary featureID)\<lparr>fs_FailureReason := failureReason\<rparr>))"

definition SetLastAppliedTime :: "feature_id \<Rightarrow> time option \<Rightarrow> cluster_summary \<Rightarrow> cluster_summary" where
  "SetLastAppliedTime featureID lastAppliedTime = with_features (upsert_feature featureID
     (\<lambda>s. s\<lparr>fs_LastAppliedTime := lastAppliedTime\<rparr>)
     ((zero_feature_summary featureID)\<lparr>fs_LastAppliedTime := lastAppliedTime\<rparr>))"

definition ShouldRemoveResourceSummary :: "feature_id \<Rightarrow> cluster_summary \<Rightarrow> bool" where
  "ShouldRemoveResourceSummary featureID cs =
     (case getFeatureSummaryForFeatureID cs featureID of
        None \<Rightarrow> False
      | Some s \<Rightarrow> fs_ResourceSummaryDeployed s = None \<or> fs_ResourceSummaryDeployed s = Some True)"

definition SetResourceSummaryDeployed :: "feature_id \<Rightarrow> bool \<Rightarrow> cluster_summary \<Rightarrow> cluster_summary" where
  "SetResourceSummaryDeployed featureID deployed =
     with_features (update_feature featureID (\<lambda>s. s\<lparr>fs_ResourceSummaryDeployed := Some deployed\<rparr>))"

section \<open>Status queries of the reconciler\<close>

definition isFeatureStatusPresent :: "cluster_summary \<Rightarrow> feature_id \<Rightarrow> bool" where
  "isFeatureStatusPresent cs f \<longleftrightarrow> getFeatureSummaryForFeatureID cs f \<noteq> None"

definition has_status :: "cluster_summary \<Rightarrow> feature_id \<Rightarrow> feature_status \<Rightarrow> bool" where
  "has_status cs f st =
     (case getFeatureSummaryForFeatureID cs f of None \<Rightarrow> False | Some s \<Rightarrow> fs_Status s = Some st)"

definition isFeatureDeployed :: "cluster_summary \<Rightarrow> feature_id \<Rightarrow> bool" where
  "isFeatureDeployed cs f = has_status cs f FeatureStatusProvisioned"

definition isFeatureFailedWithNonRetriableError :: "cluster_summary \<Rightarrow> feature_id \<Rightarrow> bool" where
  "isFeatureFailedWithNonRetriableError cs f = has_status cs f FeatureStatusFailedNonRetriable"

definition isFeatureRemoved :: "cluster_summary \<Rightarrow> feature_id \<Rightarrow> bool" where
  "isFeatureRemoved cs f = has_status cs f FeatureStatusRemoved"

definition isFeatureWaitingForAgentRemoval :: "cluster_summary \<Rightarrow> feature_id \<Rightarrow> bool" where
  "isFeatureWaitingForAgentRemoval cs f = has_status cs f FeatureStatusAgentRemoving"

definition getHash :: "cluster_summary \<Rightarrow> feature_id \<Rightarrow> bytes option" where
  "getHash cs f = (case getFeatureSummaryForFeatureID cs f of None \<Rightarrow> None | Some s \<Rightarrow> fs_Hash s)"

definition getConsecutiveFailures :: "cluster_summary \<Rightarrow> feature_id \<Rightarrow> 64 word" where
  "getConsecutiveFailures cs f =
     (case getFeatureSummaryForFeatureID cs f of None \<Rightarrow> 0 | Some s \<Rightarrow> fs_ConsecutiveFailures s)"

definition getMaxConsecutiveFailures :: "cluster_summary \<Rightarrow> 64 word" where
  "getMaxConsecutiveFailures cs =
     fold (\<lambda>s maxVal. if maxVal < fs_ConsecutiveFailures s then fs_ConsecutiveFailures s else maxVal)
       (cs_FeatureSummaries cs) 0"

definition maxNumberOfConsecutiveFailureReached :: "cluster_summary \<Rightarrow> feature_id \<Rightarrow> bool" where
  "maxNumberOfConsecutiveFailureReached cs f =
     (case ps_MaxConsecutiveFailures (cs_ProfileSpec cs) of
        None \<Rightarrow> False
      | Some maxFailures \<Rightarrow> maxFailures \<le> getConsecutiveFailures cs f)"

section \<open>Updating the status of a feature\<close>

definition updateFeatureStatus ::
    "time \<Rightarrow> feature_id \<Rightarrow> feature_status option \<Rightarrow> bytes option \<Rightarrow> string option \<Rightarrow>
     cluster_summary \<Rightarrow> cluster_summary" where
  "updateFeatureStatus now featureID status hash statusError cs =
     (case status of
        None \<Rightarrow> cs
      | Some st \<Rightarrow>
          if st = FeatureStatusProvisioned \<or> st = FeatureStatusRemoved then
            SetLastAppliedTime featureID (Some now)
              (SetFailureMessage featureID None
                (SetFeatureStatus featureID st hash (Some False) cs))
          else if st = FeatureStatusFailed \<or> st = FeatureStatusFailedNonRetriable then
            (let cs = SetFeatureStatus featureID st hash (Some True) cs;
                 cs = (case statusError of None \<Rightarrow> cs | Some err \<Rightarrow> SetFailureMessage featureID (Some err) cs)
             in SetLastAppliedTime featureID (Some now) cs)
          else SetFeatureStatus featureID st hash None cs)"

definition markMaxConsecutiveFailuresReached ::
    "time \<Rightarrow> feature_id \<Rightarrow> bytes option \<Rightarrow> cluster_summary \<Rightarrow> cluster_summary" where
  "markMaxConsecutiveFailuresReached now f currentHash =
     updateFeatureStatus now f (Some FeatureStatusFailedNonRetriable) currentHash
       (Some ''the maximum number of consecutive errors has been reached'')"

definition markUndeployFailureRetriable ::
    "time \<Rightarrow> feature_id \<Rightarrow> string \<Rightarrow> cluster_summary \<Rightarrow> cluster_summary" where
  "markUndeployFailureRetriable now featureID failureErr cs =
     SetFailureMessage featureID (Some failureErr)
       (updateFeatureStatus now featureID (Some FeatureStatusRemoving) None (Some failureErr) cs)"

text \<open>Whether a feature is listed in the spec: the code tests the slice against \<open>nil\<close> here.\<close>

definition spec_mentions :: "cluster_summary \<Rightarrow> feature_id \<Rightarrow> bool" where
  "spec_mentions cs f =
     (case f of
        FeatureHelm \<Rightarrow> ps_HelmCharts (cs_ProfileSpec cs) \<noteq> None
      | FeatureResources \<Rightarrow> ps_PolicyRefs (cs_ProfileSpec cs) \<noteq> None
      | FeatureKustomize \<Rightarrow> ps_KustomizationRefs (cs_ProfileSpec cs) \<noteq> None)"

text \<open>And here its length.\<close>

definition spec_lists :: "cluster_summary \<Rightarrow> feature_id \<Rightarrow> bool" where
  "spec_lists cs f =
     (case f of
        FeatureHelm \<Rightarrow> slice (ps_HelmCharts (cs_ProfileSpec cs)) \<noteq> []
      | FeatureResources \<Rightarrow> slice (ps_PolicyRefs (cs_ProfileSpec cs)) \<noteq> []
      | FeatureKustomize \<Rightarrow> slice (ps_KustomizationRefs (cs_ProfileSpec cs)) \<noteq> [])"

definition setFailureMessage :: "string \<Rightarrow> cluster_summary \<Rightarrow> cluster_summary" where
  "setFailureMessage failureMessage cs =
     fold (\<lambda>f cs. if spec_mentions cs f then SetFailureMessage f (Some failureMessage) cs else cs)
       [FeatureHelm, FeatureResources, FeatureKustomize] cs"

definition resetFeatureStatus :: "feature_status \<Rightarrow> cluster_summary \<Rightarrow> cluster_summary" where
  "resetFeatureStatus status cs =
     fold (\<lambda>f cs. if spec_mentions cs f then SetFeatureStatus f status None None cs else cs)
       [FeatureHelm, FeatureResources, FeatureKustomize] cs"

definition resetFeatureStatusToProvisioning :: "cluster_summary \<Rightarrow> cluster_summary" where
  "resetFeatureStatusToProvisioning = with_features (map (\<lambda>s.
     if fs_Status s = Some FeatureStatusProvisioned
     then s\<lparr>fs_Status := Some FeatureStatusProvisioning\<rparr> else s))"

definition anyFeatureNeedsResourceSummaryRemoval :: "cluster_summary \<Rightarrow> bool" where
  "anyFeatureNeedsResourceSummaryRemoval cs =
     list_ex (\<lambda>f. ShouldRemoveResourceSummary f cs) [FeatureHelm, FeatureResources, FeatureKustomize]"

definition markResourceSummaryRemovedForAllFeatures :: "cluster_summary \<Rightarrow> cluster_summary" where
  "markResourceSummaryRemovedForAllFeatures =
     fold (\<lambda>f. SetResourceSummaryDeployed f False) [FeatureHelm, FeatureResources, FeatureKustomize]"

section \<open>Decisions\<close>

definition shouldRedeploy :: "cluster_summary \<Rightarrow> feature_id \<Rightarrow> bool \<Rightarrow> bool" where
  "shouldRedeploy cs f isConfigSame =
     (if IsDryRunSync cs then True
      else
        let deployed = isFeatureDeployed cs f;
            isErrorNonRetriable = (if \<not> deployed then isFeatureFailedWithNonRetriableError cs f else False)
        in if isErrorNonRetriable \<and> isConfigSame then False
           else if deployed \<and> isConfigSame then False
           else True)"

definition shouldReconcile :: "cluster_summary \<Rightarrow> bool" where
  "shouldReconcile cs =
     (if ps_SyncMode (cs_ProfileSpec cs) = SyncModeContinuous \<or>
         ps_SyncMode (cs_ProfileSpec cs) = SyncModeContinuousWithDriftDetection then True
      else if ps_SyncMode (cs_ProfileSpec cs) = SyncModeDryRun then True
      else if spec_lists cs FeatureResources \<and> \<not> isFeatureDeployed cs FeatureResources then True
      else if spec_lists cs FeatureHelm \<and> \<not> isFeatureDeployed cs FeatureHelm then True
      else if spec_lists cs FeatureKustomize \<and> \<not> isFeatureDeployed cs FeatureKustomize then True
      else False)"

definition isCluterSummaryProvisioned :: "cluster_summary \<Rightarrow> bool" where
  "isCluterSummaryProvisioned cs =
     (if list_ex (\<lambda>s. fs_Status s \<noteq> Some FeatureStatusProvisioned) (cs_FeatureSummaries cs) then False
      else
        let deployed = (\<lambda>f. list_ex (\<lambda>s. fs_FeatureID s = f) (cs_FeatureSummaries cs))
        in if spec_lists cs FeatureHelm \<and> \<not> deployed FeatureHelm then False
           else if spec_lists cs FeatureResources \<and> \<not> deployed FeatureResources then False
           else if spec_lists cs FeatureKustomize \<and> \<not> deployed FeatureKustomize then False
           else True)"

text \<open>What the lookups of the cluster and of the owning profile answer. \<open>GetProfileOwnerAndTier\<close> has no
  owner when the profile is gone.\<close>

datatype cluster_lookup = ClusterFound | ClusterNotFound | ClusterLookupError

definition canRemoveFinalizer ::
    "cluster_lookup \<Rightarrow> string + profile option \<Rightarrow> cluster_summary \<Rightarrow> bool" where
  "canRemoveFinalizer cluster owner cs =
     (if om_DeletionTimestamp (cs_Meta cs) = None then False
      else case cluster of
        ClusterNotFound \<Rightarrow> True
      | ClusterLookupError \<Rightarrow> False
      | ClusterFound \<Rightarrow>
          if IsDryRunSync cs then
            (case owner of
               Inl _ \<Rightarrow> False
             | Inr None \<Rightarrow> False
             | Inr (Some p) \<Rightarrow> om_DeletionTimestamp (prof_Meta p) \<noteq> None)
          else list_all (\<lambda>s. fs_Status s = Some FeatureStatusRemoved) (cs_FeatureSummaries cs))"

section \<open>What the setters do to the summary of each feature\<close>

named_theorems status_simps "feature summaries after a status operation"

lemma find_update_feature:
  assumes "\<And>s. fs_FeatureID (g s) = fs_FeatureID s"
  shows "List.find (\<lambda>s. fs_FeatureID s = f') (update_feature f g ss) =
    (if f' = f then map_option g (List.find (\<lambda>s. fs_FeatureID s = f) ss)
     else List.find (\<lambda>s. fs_FeatureID s = f') ss)"
  using assms by (induction ss) auto

lemma find_append: "List.find p (xs @ ys) = (case List.find p xs of None \<Rightarrow> List.find p ys | Some x \<Rightarrow> Some x)"
  by (induction xs) auto

lemma find_None_list_ex: "List.find p xs = None \<longleftrightarrow> \<not> list_ex p xs"
  by (auto simp: find_None_iff list_ex_iff)

lemma find_upsert_feature:
  assumes "\<And>s. fs_FeatureID (g s) = fs_FeatureID s" "fs_FeatureID new = f"
  shows "List.find (\<lambda>s. fs_FeatureID s = f') (upsert_feature f g new ss) =
    (if f' = f then Some (case List.find (\<lambda>s. fs_FeatureID s = f) ss of None \<Rightarrow> new | Some s \<Rightarrow> g s)
     else List.find (\<lambda>s. fs_FeatureID s = f') ss)"
proof (cases "list_ex (\<lambda>s. fs_FeatureID s = f) ss")
  case True
  then obtain s where "List.find (\<lambda>s. fs_FeatureID s = f) ss = Some s"
    by (metis find_None_list_ex not_None_eq)
  with True show ?thesis
    by (simp add: upsert_feature_def find_update_feature [OF assms(1)])
next
  case False
  then have "List.find (\<lambda>s. fs_FeatureID s = f) ss = None" by (simp add: find_None_list_ex)
  with False assms(2) show ?thesis
    by (auto simp: upsert_feature_def find_append split: option.splits)
qed

lemma getFeatureSummary_with_features:
  "getFeatureSummaryForFeatureID (with_features h cs) f = List.find (\<lambda>s. fs_FeatureID s = f) (h (cs_FeatureSummaries cs))"
  by (simp add: getFeatureSummaryForFeatureID_def with_features_def)

lemma with_features_frame [simp]:
  "cs_Meta (with_features h cs) = cs_Meta cs" "cs_Spec (with_features h cs) = cs_Spec cs"
  "cs_FeatureSummaries (with_features h cs) = h (cs_FeatureSummaries cs)"
  "cst_HelmReleaseSummaries (cs_Status (with_features h cs)) = cst_HelmReleaseSummaries (cs_Status cs)"
  by (simp_all add: with_features_def)

lemma zero_feature_summary_simps [simp]:
  "fs_FeatureID (zero_feature_summary f) = f" "fs_Hash (zero_feature_summary f) = None"
  "fs_ConsecutiveFailures (zero_feature_summary f) = 0" "fs_Status (zero_feature_summary f) = None"
  "fs_FailureMessage (zero_feature_summary f) = None"
  by (simp_all add: zero_feature_summary_def)

lemma getFeatureSummary_SetFeatureStatus [status_simps]:
  "getFeatureSummaryForFeatureID (SetFeatureStatus f st hash failed cs) f' =
    (if f' = f then Some (case getFeatureSummaryForFeatureID cs f of
        None \<Rightarrow> (zero_feature_summary f)\<lparr>fs_Status := Some st, fs_Hash := hash,
          fs_ConsecutiveFailures := (if failed = Some True then 1 else 0)\<rparr>
      | Some s \<Rightarrow> s\<lparr>fs_Status := Some st, fs_Hash := hash, fs_ConsecutiveFailures :=
          (if IsDryRunSync cs \<or> failed = None then fs_ConsecutiveFailures s
           else if failed = Some True then fs_ConsecutiveFailures s + 1 else 0)\<rparr>)
     else getFeatureSummaryForFeatureID cs f')"
  unfolding SetFeatureStatus_def getFeatureSummary_with_features
  by (subst find_upsert_feature)
    (auto simp: Let_def getFeatureSummaryForFeatureID_def IsDryRunSync_def split: option.splits bool.splits)

lemma getFeatureSummary_SetFailureMessage [status_simps]:
  "getFeatureSummaryForFeatureID (SetFailureMessage f msg cs) f' =
    (if f' = f then Some ((case getFeatureSummaryForFeatureID cs f of
        None \<Rightarrow> zero_feature_summary f | Some s \<Rightarrow> s)\<lparr>fs_FailureMessage := msg\<rparr>)
     else getFeatureSummaryForFeatureID cs f')"
  unfolding SetFailureMessage_def getFeatureSummary_with_features
  by (subst find_upsert_feature) (auto simp: getFeatureSummaryForFeatureID_def split: option.splits)

lemma getFeatureSummary_SetLastAppliedTime [status_simps]:
  "getFeatureSummaryForFeatureID (SetLastAppliedTime f t cs) f' =
    (if f' = f then Some ((case getFeatureSummaryForFeatureID cs f of
        None \<Rightarrow> zero_feature_summary f | Some s \<Rightarrow> s)\<lparr>fs_LastAppliedTime := t\<rparr>)
     else getFeatureSummaryForFeatureID cs f')"
  unfolding SetLastAppliedTime_def getFeatureSummary_with_features
  by (subst find_upsert_feature) (auto simp: getFeatureSummaryForFeatureID_def split: option.splits)

lemma getFeatureSummary_ResetConsecutiveFailures [status_simps]:
  "getFeatureSummaryForFeatureID (ResetConsecutiveFailures f cs) f' =
    (if f' = f then map_option (\<lambda>s. s\<lparr>fs_ConsecutiveFailures := 0\<rparr>) (getFeatureSummaryForFeatureID cs f)
     else getFeatureSummaryForFeatureID cs f')"
  unfolding ResetConsecutiveFailures_def getFeatureSummary_with_features
  by (subst find_update_feature) (auto simp: getFeatureSummaryForFeatureID_def)

lemma setters_frame [simp]:
  "cs_Spec (SetFeatureStatus f st h b cs) = cs_Spec cs" "cs_Meta (SetFeatureStatus f st h b cs) = cs_Meta cs"
  "cs_Spec (SetFailureMessage f m cs) = cs_Spec cs" "cs_Meta (SetFailureMessage f m cs) = cs_Meta cs"
  "cs_Spec (SetLastAppliedTime f t cs) = cs_Spec cs" "cs_Meta (SetLastAppliedTime f t cs) = cs_Meta cs"
  "cs_Spec (ResetConsecutiveFailures f cs) = cs_Spec cs" "cs_Meta (ResetConsecutiveFailures f cs) = cs_Meta cs"
  "cs_HelmReleaseSummaries (SetFeatureStatus f st h b cs) = cs_HelmReleaseSummaries cs"
  "cs_HelmReleaseSummaries (SetFailureMessage f m cs) = cs_HelmReleaseSummaries cs"
  "cs_HelmReleaseSummaries (SetLastAppliedTime f t cs) = cs_HelmReleaseSummaries cs"
  "cs_HelmReleaseSummaries (ResetConsecutiveFailures f cs) = cs_HelmReleaseSummaries cs"
  by (simp_all add: SetFeatureStatus_def SetFailureMessage_def SetLastAppliedTime_def ResetConsecutiveFailures_def)

lemma IsDryRunSync_spec: "cs_Spec cs = cs_Spec cs' \<Longrightarrow> IsDryRunSync cs = IsDryRunSync cs'"
  by (simp add: IsDryRunSync_def)

text \<open>Feature identifiers stay distinct.\<close>

definition features_wf :: "cluster_summary \<Rightarrow> bool" where
  "features_wf cs \<longleftrightarrow> distinct (map fs_FeatureID (cs_FeatureSummaries cs))"

lemma map_id_update_feature:
  "(\<And>s. fs_FeatureID (g s) = fs_FeatureID s) \<Longrightarrow> map fs_FeatureID (update_feature f g ss) = map fs_FeatureID ss"
  by (induction ss) auto

lemma features_wf_upsert [inv_intros]:
  "features_wf cs \<Longrightarrow> (\<And>s. fs_FeatureID (g s) = fs_FeatureID s) \<Longrightarrow> fs_FeatureID new = f \<Longrightarrow>
   features_wf (with_features (upsert_feature f g new) cs)"
  by (auto simp: features_wf_def upsert_feature_def map_id_update_feature list_ex_iff)

lemma features_wf_updateFeatureStatus [inv_intros]:
  assumes "features_wf cs"
  shows "features_wf (updateFeatureStatus now f st h e cs)"
proof -
  have "features_wf (SetFeatureStatus f' st' h' b cs')" if "features_wf cs'" for f' st' h' b cs'
    unfolding SetFeatureStatus_def using that
    by (rule features_wf_upsert) (auto simp: Let_def split: option.splits bool.splits)
  moreover have "features_wf (SetFailureMessage f' m cs')" if "features_wf cs'" for f' m cs'
    unfolding SetFailureMessage_def using that by (rule features_wf_upsert) auto
  moreover have "features_wf (SetLastAppliedTime f' t cs')" if "features_wf cs'" for f' t cs'
    unfolding SetLastAppliedTime_def using that by (rule features_wf_upsert) auto
  ultimately show ?thesis using assms
    by (auto simp: updateFeatureStatus_def Let_def split: option.splits)
qed

lemma updateFeatureStatus_frame [simp]:
  "cs_Spec (updateFeatureStatus now f st h e cs) = cs_Spec cs"
  "cs_Meta (updateFeatureStatus now f st h e cs) = cs_Meta cs"
  "cs_HelmReleaseSummaries (updateFeatureStatus now f st h e cs) = cs_HelmReleaseSummaries cs"
  by (auto simp: updateFeatureStatus_def Let_def split: option.splits)

lemma IsDryRunSync_updateFeatureStatus [simp]:
  "IsDryRunSync (updateFeatureStatus now f st h e cs) = IsDryRunSync cs"
  by (rule IsDryRunSync_spec) simp

definition is_success :: "feature_status \<Rightarrow> bool" where
  "is_success st \<longleftrightarrow> st = FeatureStatusProvisioned \<or> st = FeatureStatusRemoved"

definition is_failure :: "feature_status \<Rightarrow> bool" where
  "is_failure st \<longleftrightarrow> st = FeatureStatusFailed \<or> st = FeatureStatusFailedNonRetriable"

lemma updateFeatureStatus_other [status_simps]:
  "g \<noteq> f \<Longrightarrow> getFeatureSummaryForFeatureID (updateFeatureStatus now f st h e cs) g =
     getFeatureSummaryForFeatureID cs g"
  by (auto simp: updateFeatureStatus_def Let_def status_simps split: option.splits)

lemma updateFeatureStatus_status [status_simps]:
  "has_status (updateFeatureStatus now f (Some st) h e cs) f st' \<longleftrightarrow> st' = st"
  "getHash (updateFeatureStatus now f (Some st) h e cs) f = h"
  by (auto simp: updateFeatureStatus_def Let_def has_status_def getHash_def status_simps split: option.splits)

lemma updateFeatureStatus_failures [status_simps]:
  "\<not> IsDryRunSync cs \<Longrightarrow>
   getConsecutiveFailures (updateFeatureStatus now f (Some st) h e cs) f =
     (if is_success st then 0
      else if is_failure st then getConsecutiveFailures cs f + 1
      else getConsecutiveFailures cs f)"
  by (auto simp: updateFeatureStatus_def Let_def getConsecutiveFailures_def is_success_def is_failure_def
      status_simps split: option.splits)

lemma updateFeatureStatus_message:
  "(case getFeatureSummaryForFeatureID (updateFeatureStatus now f (Some st) h e cs) f of
      None \<Rightarrow> False
    | Some s \<Rightarrow> (is_success st \<longrightarrow> fs_FailureMessage s = None) \<and>
        (is_failure st \<longrightarrow> e \<noteq> None \<longrightarrow> fs_FailureMessage s = e) \<and>
        (is_success st \<or> is_failure st \<longrightarrow> fs_LastAppliedTime s = Some now))"
  by (auto simp: updateFeatureStatus_def Let_def is_success_def is_failure_def status_simps split: option.splits)

section \<open>Properties\<close>

text \<open>A status update records exactly the new status and hash of its feature and clears the failure message on
  success or sets it on failure, and it touches no other feature and nothing outside
  the feature summaries.\<close>

theorem status_update_outcome:
  "cs' = updateFeatureStatus now f (Some st) hash err cs \<Longrightarrow>
   has_status cs' f st \<and> getHash cs' f = hash \<and>
   (\<exists>s. getFeatureSummaryForFeatureID cs' f = Some s \<and>
      (is_success st \<longrightarrow> fs_FailureMessage s = None) \<and>
      (is_failure st \<and> err \<noteq> None \<longrightarrow> fs_FailureMessage s = err)) \<and>
   (\<forall>g. g \<noteq> f \<longrightarrow> getFeatureSummaryForFeatureID cs' g = getFeatureSummaryForFeatureID cs g) \<and>
   cs_Spec cs' = cs_Spec cs \<and> cs_Meta cs' = cs_Meta cs \<and>
   cs_HelmReleaseSummaries cs' = cs_HelmReleaseSummaries cs"
  using updateFeatureStatus_message [where now = now and f = f and st = st and h = hash and e = err and cs = cs]
  by (auto simp: status_simps split: option.splits)

text \<open>One recorded status update, and the number of failures of a feature since its last success.\<close>

record status_event =
  se_Feature :: feature_id
  se_Status :: feature_status
  se_Hash :: "bytes option"
  se_Error :: "string option"
  se_Time :: time

definition apply_event :: "status_event \<Rightarrow> cluster_summary \<Rightarrow> cluster_summary" where
  "apply_event e = updateFeatureStatus (se_Time e) (se_Feature e) (Some (se_Status e)) (se_Hash e) (se_Error e)"

fun failures_since :: "feature_id \<Rightarrow> nat \<Rightarrow> status_event list \<Rightarrow> nat" where
  "failures_since f n [] = n"
| "failures_since f n (e # es) =
     failures_since f
       (if se_Feature e \<noteq> f then n
        else if is_success (se_Status e) then 0
        else if is_failure (se_Status e) then n + 1 else n) es"

lemma apply_event_failures:
  "\<not> IsDryRunSync cs \<Longrightarrow> getConsecutiveFailures (apply_event e cs) f =
     (if se_Feature e \<noteq> f then getConsecutiveFailures cs f
      else if is_success (se_Status e) then 0
      else if is_failure (se_Status e) then getConsecutiveFailures cs f + 1
      else getConsecutiveFailures cs f)"
  by (cases "se_Feature e = f")
    (simp_all add: apply_event_def status_simps, simp add: getConsecutiveFailures_def status_simps)

lemma apply_event_dryrun [simp]: "IsDryRunSync (apply_event e cs) = IsDryRunSync cs"
  by (simp add: apply_event_def)


text \<open>In DryRun the code means not to count failures, and an existing summary keeps its counter; but the first failed
  update of a feature that has no summary yet records one failure.\<close>

theorem dryrun_first_failure_counted:
  "IsDryRunSync cs \<Longrightarrow>
   getConsecutiveFailures (SetFeatureStatus f FeatureStatusFailed hash (Some True) cs) f =
     (if isFeatureStatusPresent cs f then getConsecutiveFailures cs f else 1)"
  by (auto simp: getConsecutiveFailures_def status_simps isFeatureStatusPresent_def split: option.splits)

lemma find_distinct_mem:
  "distinct (map k xs) \<Longrightarrow> List.find (\<lambda>s. k s = v) xs = Some s \<longleftrightarrow> s \<in> set xs \<and> k s = v"
  by (induction xs) (auto simp: image_iff)

lemma features_wf_find:
  "features_wf cs \<Longrightarrow> getFeatureSummaryForFeatureID cs f = Some s \<longleftrightarrow>
     s \<in> set (cs_FeatureSummaries cs) \<and> fs_FeatureID s = f"
  unfolding features_wf_def getFeatureSummaryForFeatureID_def by (rule find_distinct_mem)

lemma has_status_find: "has_status cs f st \<longleftrightarrow>
    (\<exists>s. getFeatureSummaryForFeatureID cs f = Some s \<and> fs_Status s = Some st)"
  by (auto simp: has_status_def split: option.splits)

lemma all_features: "(\<forall>f. Q f) \<longleftrightarrow> Q FeatureHelm \<and> Q FeatureResources \<and> Q FeatureKustomize"
  by (rule iffI, simp, rule allI, case_tac f, simp_all)

lemma isCluterSummaryProvisioned_iff:
  assumes "features_wf cs"
  shows "isCluterSummaryProvisioned cs \<longleftrightarrow>
    (\<forall>f. spec_lists cs f \<or> isFeatureStatusPresent cs f \<longrightarrow> isFeatureDeployed cs f)"
proof -
  have present: "list_ex (\<lambda>s. fs_FeatureID s = f) (cs_FeatureSummaries cs) \<longleftrightarrow> isFeatureStatusPresent cs f" for f
    by (simp add: isFeatureStatusPresent_def getFeatureSummaryForFeatureID_def find_None_list_ex)
  have all: "(\<forall>s \<in> set (cs_FeatureSummaries cs). fs_Status s = Some FeatureStatusProvisioned) \<longleftrightarrow>
      (\<forall>f. isFeatureStatusPresent cs f \<longrightarrow> isFeatureDeployed cs f)"
  proof (intro iffI allI impI ballI)
    fix f assume *: "\<forall>s \<in> set (cs_FeatureSummaries cs). fs_Status s = Some FeatureStatusProvisioned"
      and "isFeatureStatusPresent cs f"
    then obtain s where s: "getFeatureSummaryForFeatureID cs f = Some s"
      by (auto simp: isFeatureStatusPresent_def)
    with * show "isFeatureDeployed cs f"
      using features_wf_find [OF assms] by (auto simp: isFeatureDeployed_def has_status_find)
  next
    fix s assume *: "\<forall>f. isFeatureStatusPresent cs f \<longrightarrow> isFeatureDeployed cs f"
      and "s \<in> set (cs_FeatureSummaries cs)"
    then have s: "getFeatureSummaryForFeatureID cs (fs_FeatureID s) = Some s"
      using features_wf_find [OF assms] by blast
    with * have "isFeatureDeployed cs (fs_FeatureID s)" by (auto simp: isFeatureStatusPresent_def)
    with s show "fs_Status s = Some FeatureStatusProvisioned"
      by (simp add: isFeatureDeployed_def has_status_def)
  qed
  have dep: "isFeatureDeployed cs f \<Longrightarrow> isFeatureStatusPresent cs f" for f
    by (auto simp: isFeatureDeployed_def has_status_find isFeatureStatusPresent_def)
  have listed: "(\<forall>f. spec_lists cs f \<longrightarrow> isFeatureStatusPresent cs f) \<longleftrightarrow>
      (spec_lists cs FeatureHelm \<longrightarrow> isFeatureStatusPresent cs FeatureHelm) \<and>
      (spec_lists cs FeatureResources \<longrightarrow> isFeatureStatusPresent cs FeatureResources) \<and>
      (spec_lists cs FeatureKustomize \<longrightarrow> isFeatureStatusPresent cs FeatureKustomize)"
    by (rule all_features)
  have "isCluterSummaryProvisioned cs \<longleftrightarrow>
      (\<forall>s \<in> set (cs_FeatureSummaries cs). fs_Status s = Some FeatureStatusProvisioned) \<and>
      (\<forall>f. spec_lists cs f \<longrightarrow> isFeatureStatusPresent cs f)"
    unfolding isCluterSummaryProvisioned_def Let_def present listed by (simp add: list_ex_iff)
  also have "\<dots> \<longleftrightarrow> (\<forall>f. spec_lists cs f \<or> isFeatureStatusPresent cs f \<longrightarrow> isFeatureDeployed cs f)"
    unfolding all using dep by blast
  finally show ?thesis .
qed

text \<open>A ClusterSummary counts as provisioned exactly when each feature its spec lists, and each feature its status
  still shows, is Provisioned; a one-time ClusterSummary in that state is not reconciled again, and it stops counting
  as provisioned as soon as any feature gets another status.\<close>

theorem provisioned_iff:
  "features_wf cs \<Longrightarrow>
   (isCluterSummaryProvisioned cs \<longleftrightarrow>
      (\<forall>f. spec_lists cs f \<or> isFeatureStatusPresent cs f \<longrightarrow> isFeatureDeployed cs f)) \<and>
   (isCluterSummaryProvisioned cs \<and> IsOneTimeSync cs \<longrightarrow> \<not> shouldReconcile cs) \<and>
   (st \<noteq> FeatureStatusProvisioned \<longrightarrow>
      \<not> isCluterSummaryProvisioned (updateFeatureStatus now f (Some st) h e cs))"
proof (intro conjI impI)
  assume wf: "features_wf cs"
  show "isCluterSummaryProvisioned cs \<longleftrightarrow>
      (\<forall>f. spec_lists cs f \<or> isFeatureStatusPresent cs f \<longrightarrow> isFeatureDeployed cs f)"
    using wf by (rule isCluterSummaryProvisioned_iff)
  then show "isCluterSummaryProvisioned cs \<and> IsOneTimeSync cs \<Longrightarrow> \<not> shouldReconcile cs"
    by (auto simp: shouldReconcile_def IsOneTimeSync_def)
  assume st: "st \<noteq> FeatureStatusProvisioned"
  let ?cs = "updateFeatureStatus now f (Some st) h e cs"
  have "has_status ?cs f st" "\<not> isFeatureDeployed ?cs f"
    using st by (auto simp: status_simps isFeatureDeployed_def)
  then have "isFeatureStatusPresent ?cs f \<and> \<not> isFeatureDeployed ?cs f"
    by (auto simp: has_status_find isFeatureStatusPresent_def)
  then show "\<not> isCluterSummaryProvisioned ?cs"
    using isCluterSummaryProvisioned_iff [OF features_wf_updateFeatureStatus [OF wf]] by blast
qed

section \<open>Witnesses\<close>

lemma sample_cs_no_features [simp]:
  "getFeatureSummaryForFeatureID (sample_cs n charts) f = None" "features_wf (sample_cs n charts)"
  by (simp_all add: getFeatureSummaryForFeatureID_def features_wf_def sample_cs_def zero_defs)

lemma sample_cs_not_dryrun [simp]: "\<not> IsDryRunSync (sample_cs n charts)"
  by (simp add: IsDryRunSync_def)

theorem status_update_outcome_witness:
  "getHash (updateFeatureStatus 7 FeatureHelm (Some FeatureStatusFailed) (Some ''h'') (Some ''boom'') (sample_cs ''a'' []))
     FeatureHelm = Some ''h''"
  using status_update_outcome [OF refl, of 7 FeatureHelm FeatureStatusFailed "Some ''h''" "Some ''boom''" "sample_cs ''a'' []"]
  by simp


definition sample_dryrun :: cluster_summary where
  "sample_dryrun = zero_cluster_summary\<lparr>cs_Spec := \<lparr>css_ClusterNamespace = [], css_ClusterName = [],
     css_ClusterType = ClusterTypeCapi,
     css_ClusterProfileSpec = zero_profile_spec\<lparr>ps_SyncMode := SyncModeDryRun\<rparr>\<rparr>\<rparr>"

theorem dryrun_first_failure_counted_witness:
  "getConsecutiveFailures (SetFeatureStatus FeatureHelm FeatureStatusFailed None (Some True) sample_dryrun) FeatureHelm = 1"
  using dryrun_first_failure_counted [of sample_dryrun FeatureHelm None]
  by (simp add: IsDryRunSync_def sample_dryrun_def isFeatureStatusPresent_def getFeatureSummaryForFeatureID_def zero_defs)

theorem provisioned_iff_witness:
  "\<not> isCluterSummaryProvisioned
     (updateFeatureStatus 1 FeatureHelm (Some FeatureStatusRemoving) None None (sample_cs ''a'' []))"
  using provisioned_iff [of "sample_cs ''a'' []" FeatureStatusRemoving 1 FeatureHelm None None] by simp

end
