(* ===== verification/Feature_Deployer.thy ===== *)
theory Feature_Deployer
  imports Chart_Manager Feature_Status
begin

text \<open>
  Deploying and removing one feature of a ClusterSummary (controllers/clustersummary_deployer.go):
  \<open>deployFeature\<close>, \<open>undeployFeature\<close> and what they call, in the order of the code, with the
  extra steps for clusters in pull mode.

  The worker pool (libsveltos deployer), the pull mode store (libsveltos pullmode), the cluster
  proxy and the hash of the feature handler are outside the module: \<open>deploy_env\<close> holds
  what each of them answers during one call; each is asked at most once per call. What the call does to them is
  the trace \<open>dst_Ops\<close>. An error is its message and the error types that \<open>errors.As\<close> or the API
  predicates find in its chain.
\<close>

section \<open>Errors, answers of the environment, state\<close>

datatype err_class =
    NonRetriableError | HandOverError | TemplateInstantiationError | WaitForProfileProcessingError
  | HealthCheckError | ForbiddenError | NotFoundError | ProcessingMismatch | ActionNotSetToDeploy | ConflictError
  | ErrReleaseNotFound | DryRunReconciliationError

record dep_error =
  err_Msg :: string
  err_Chain :: "err_class list"

definition errors_As :: "dep_error \<Rightarrow> err_class \<Rightarrow> bool" where
  "errors_As e c \<longleftrightarrow> c \<in> set (err_Chain e)"

definition plain_error :: "string \<Rightarrow> dep_error" where
  "plain_error msg = \<lparr>err_Msg = msg, err_Chain = []\<rparr>"

datatype result_status = Res_Deployed | Res_Failed | Res_InProgress | Res_Removed | Res_Unavailable

record deployer_result =
  dres_ResultStatus :: result_status
  dres_Err :: "dep_error option"

record agent_status =
  ags_DeploymentStatus :: "feature_status option"
  ags_FailureMessage :: "string option"
  ags_DeployedGroupVersionKind :: "string list"

record deploy_env =
  env_now :: time
  env_inProgress :: bool
  env_currentHash :: "bytes option \<times> dep_error option"
  env_pullMode :: "dep_error + bool"
  env_result :: deployer_result
  env_deploy :: "dep_error option"
  env_chartManager :: "dep_error + chart_manager"
  env_beingProvisioned :: bool
  env_beingRemoved :: bool
  env_requestorHash :: "dep_error + bytes option"
  env_deploymentStatus :: "agent_status option \<times> dep_error option"
  env_removeStatus :: "dep_error + agent_status option"
  env_sourceActive :: "dep_error + bool"
  env_terminate :: "dep_error option"
  env_requeueChallengers :: "dep_error + bool"
  env_confirmApplied :: "dep_error option"
  env_normalizeGVK :: "string \<Rightarrow> string"

datatype deployer_op =
    OpCleanupEntries bool
  | OpDeploy bool "bytes option"
  | OpTerminateTracking
  | OpInvalidateOnAuthError

record dep_state =
  dst_CS :: cluster_summary
  dst_Ops :: "deployer_op list"

type_synonym dep_outcome = "dep_error option \<times> dep_state"

definition do_op :: "deployer_op \<Rightarrow> dep_state \<Rightarrow> dep_state" where
  "do_op a s = s\<lparr>dst_Ops := dst_Ops s @ [a]\<rparr>"

definition on_cs :: "(cluster_summary \<Rightarrow> cluster_summary) \<Rightarrow> dep_state \<Rightarrow> dep_state" where
  "on_cs g s = s\<lparr>dst_CS := g (dst_CS s)\<rparr>"

definition set_status :: "deploy_env \<Rightarrow> feature_id \<Rightarrow> feature_status \<Rightarrow> bytes option \<Rightarrow>
    dep_error option \<Rightarrow> dep_state \<Rightarrow> dep_state" where
  "set_status env f st hash err =
     on_cs (updateFeatureStatus (env_now env) f (Some st) hash (map_option err_Msg err))"

definition feature_name :: "feature_id \<Rightarrow> string" where
  "feature_name f = (case f of FeatureHelm \<Rightarrow> ''Helm'' | FeatureResources \<Rightarrow> ''Resources''
     | FeatureKustomize \<Rightarrow> ''Kustomize'')"

definition convertResultStatus :: "deployer_result \<Rightarrow> feature_status option" where
  "convertResultStatus result =
     (case dres_ResultStatus result of
        Res_Deployed \<Rightarrow> Some FeatureStatusProvisioned
      | Res_Failed \<Rightarrow> Some FeatureStatusFailed
      | Res_InProgress \<Rightarrow> Some FeatureStatusProvisioning
      | Res_Removed \<Rightarrow> Some FeatureStatusRemoved
      | Res_Unavailable \<Rightarrow> None)"

section \<open>Deploying\<close>

definition helmConflictResolved :: "deploy_env \<Rightarrow> cluster_summary \<Rightarrow> bool" where
  "helmConflictResolved env cs =
     (let conflicted = filter (\<lambda>s. hs_Status s = HelmChartStatusConflict) (cs_HelmReleaseSummaries cs)
      in if conflicted = [] then False
         else case env_chartManager env of
           Inl _ \<Rightarrow> False
         | Inr chartMgr \<Rightarrow> list_all (\<lambda>s. CanManageChart cs
             (zero_helm_chart\<lparr>hc_ReleaseNamespace := hs_ReleaseNamespace s, hc_ReleaseName := hs_ReleaseName s\<rparr>)
             chartMgr) conflicted)"

definition handleDeployerError :: "deploy_env \<Rightarrow> dep_error \<Rightarrow> feature_id \<Rightarrow> bytes option \<Rightarrow> dep_state \<Rightarrow>
    bool \<times> dep_outcome" where
  "handleDeployerError env deployerError f currentHash s =
     (let s = do_op OpInvalidateOnAuthError s in
      if errors_As deployerError NonRetriableError then
        (True, None, set_status env f FeatureStatusFailedNonRetriable currentHash (Some deployerError) s)
      else if errors_As deployerError TemplateInstantiationError then
        (True, None, set_status env f FeatureStatusFailedNonRetriable currentHash (Some deployerError) s)
      else if errors_As deployerError HealthCheckError then
        (if maxNumberOfConsecutiveFailureReached (dst_CS s) f
         then (True, None, on_cs (markMaxConsecutiveFailuresReached (env_now env) f currentHash) s)
         else (True, Some deployerError, s))
      else if maxNumberOfConsecutiveFailureReached (dst_CS s) f then
        (True, None, on_cs (markMaxConsecutiveFailuresReached (env_now env) f currentHash) s)
      else (False, Some deployerError, s))"

definition unique_list :: "string list \<Rightarrow> string list" where
  "unique_list input = fold (\<lambda>x acc. if x \<in> set acc then acc else acc @ [x]) input []"

definition getDeployedGroupVersionKinds :: "deploy_env \<Rightarrow> cluster_summary \<Rightarrow> feature_id \<Rightarrow> string list" where
  "getDeployedGroupVersionKinds env cs f =
     map (env_normalizeGVK env)
       ((case getFeatureSummaryForFeatureID cs f of None \<Rightarrow> [] | Some s \<Rightarrow> fs_DeployedGroupVersionKind s) @
        (case List.find (\<lambda>i. fdi_FeatureID i = f) (cst_DeployedGVKs (cs_Status cs)) of
           None \<Rightarrow> [] | Some i \<Rightarrow> fdi_DeployedGroupVersionKind i))"

fun set_deployed_gvks :: "feature_id \<Rightarrow> string list \<Rightarrow> feature_deployment_info list \<Rightarrow>
    feature_deployment_info list" where
  "set_deployed_gvks f gvks [] = [\<lparr>fdi_FeatureID = f, fdi_DeployedGroupVersionKind = gvks\<rparr>]"
| "set_deployed_gvks f gvks (i # is) =
     (if fdi_FeatureID i = f then i\<lparr>fdi_DeployedGroupVersionKind := gvks\<rparr> # is
      else i # set_deployed_gvks f gvks is)"

definition proceesAgentDeploymentStatus :: "deploy_env \<Rightarrow> feature_id \<Rightarrow> dep_state \<Rightarrow>
    (feature_status option \<times> bool) \<times> dep_state" where
  "proceesAgentDeploymentStatus env f s =
     (let status = fst (env_deploymentStatus env);
          err = snd (env_deploymentStatus env);
          s = (case status of
                 None \<Rightarrow> s
               | Some st \<Rightarrow> on_cs (\<lambda>cs. cs\<lparr>cs_Status := (cs_Status cs)\<lparr>cst_DeployedGVKs := set_deployed_gvks f
                   (unique_list (unique_list (getDeployedGroupVersionKinds env cs f) @ ags_DeployedGroupVersionKind st))
                   (cst_DeployedGVKs (cs_Status cs))\<rparr>\<rparr>) s);
          failure = (case status of None \<Rightarrow> None | Some st \<Rightarrow> ags_FailureMessage st);
          record_failure = (\<lambda>s. case failure of None \<Rightarrow> s | Some msg \<Rightarrow> on_cs (SetFailureMessage f (Some msg)) s);
          answer = (case status of None \<Rightarrow> None | Some st \<Rightarrow> ags_DeploymentStatus st)
      in case err of
           None \<Rightarrow> ((answer, False), record_failure s)
         | Some e \<Rightarrow>
             if errors_As e ProcessingMismatch then ((Some FeatureStatusProvisioning, True), record_failure s)
             else if errors_As e ActionNotSetToDeploy then ((answer, False), do_op OpTerminateTracking s)
             else ((answer, False), on_cs (SetFailureMessage f (Some (err_Msg e))) s))"

definition handlePullModeProvisioned :: "deploy_env \<Rightarrow> feature_id \<Rightarrow> bytes option \<Rightarrow> dep_state \<Rightarrow> dep_outcome" where
  "handlePullModeProvisioned env f currentHash s =
     (let finish = (\<lambda>s.
            let s = set_status env f FeatureStatusProvisioned currentHash None s;
                s = on_cs (SetLastAppliedTime f (Some (env_now env)) \<circ> SetFailureMessage f None) s
            in (env_terminate env, do_op OpTerminateTracking s))
      in if f = FeatureHelm then
           (case env_requeueChallengers env of
              Inl err \<Rightarrow> (Some err, s)
            | Inr True \<Rightarrow> (Some (plain_error
                ''helm charts yielded to lower-tier profiles; redeploying without yielded charts''),
                do_op OpTerminateTracking s)
            | Inr False \<Rightarrow>
                (case env_confirmApplied env of Some err \<Rightarrow> (Some err, s) | None \<Rightarrow> finish s))
         else finish s)"

definition queue_deploy :: "deploy_env \<Rightarrow> bool \<Rightarrow> bytes option \<Rightarrow> dep_state \<Rightarrow> dep_state" where
  "queue_deploy env cleanup hash = do_op (OpDeploy cleanup hash)"

definition proceedDeployingFeatureInPullMode :: "deploy_env \<Rightarrow> feature_id \<Rightarrow> bool \<Rightarrow> bytes option \<Rightarrow>
    dep_state \<Rightarrow> dep_outcome" where
  "proceedDeployingFeatureInPullMode env f isConfigSame currentHash s =
     (let queue = (\<lambda>s. let s = queue_deploy env False currentHash s in
            case env_deploy env of
              Some err \<Rightarrow> (Some err, s)
            | None \<Rightarrow> (Some (plain_error ''request to deploy queued''), s));
          proceed = (\<lambda>isConfigSame.
            let agent = (if isConfigSame then proceesAgentDeploymentStatus env f s else ((None, False), s));
                pullmodeStatus = fst (fst agent);
                isProcessingMismatch = snd (fst agent);
                s = snd agent
            in case pullmodeStatus of
                 None \<Rightarrow> queue (set_status env f FeatureStatusProvisioning currentHash None s)
               | Some st \<Rightarrow>
                   if st = FeatureStatusProvisioned then handlePullModeProvisioned env f currentHash s
                   else if st = FeatureStatusProvisioning then
                     (let s = set_status env f st currentHash None s in
                      if isProcessingMismatch then
                        (Some \<lparr>err_Msg = ''ConfigurationGroup generation or requestor hash not yet processed by agent'',
                           err_Chain = [HealthCheckError]\<rparr>, s)
                      else (Some (plain_error ''agent is provisioning the content''), s))
                   else if st = FeatureStatusFailed then
                     (if maxNumberOfConsecutiveFailureReached (dst_CS s) f then
                        (env_terminate env, do_op OpTerminateTracking
                          (set_status env f FeatureStatusFailedNonRetriable currentHash
                            (Some (plain_error ''the maximum number of consecutive errors has been reached'')) s))
                      else queue (set_status env f st currentHash None s))
                   else queue s)
      in if isConfigSame then
           (case env_requestorHash env of
              Inl err \<Rightarrow> if errors_As err NotFoundError then proceed True else (Some err, s)
            | Inr pullmodeHash \<Rightarrow> proceed (pullmodeHash = currentHash))
         else proceed False)"

definition proceedDeployingFeature :: "deploy_env \<Rightarrow> feature_id \<Rightarrow> bool \<Rightarrow> bool \<Rightarrow> bytes option \<Rightarrow>
    dep_state \<Rightarrow> dep_outcome" where
  "proceedDeployingFeature env f isPullMode isConfigSame currentHash s =
     (let deployerStatus = (if isConfigSame then convertResultStatus (env_result env) else None);
          deployerError = (if isConfigSame then dres_Err (env_result env) else None);
          queue = (\<lambda>st s. let s = queue_deploy env False currentHash s in
            case env_deploy env of
              Some err \<Rightarrow> (Some err, set_status env f st currentHash (Some err) s)
            | None \<Rightarrow> (Some (plain_error ''request is queued''), s))
      in case deployerStatus of
           Some st \<Rightarrow>
             if st = FeatureStatusProvisioned then
               (if isPullMode then
                  proceedDeployingFeatureInPullMode env f isConfigSame currentHash
                    (set_status env f FeatureStatusProvisioning currentHash deployerError s)
                else if isFeatureDeployed (dst_CS s) f \<and> getHash (dst_CS s) f = currentHash then (None, s)
                else (None, set_status env f st currentHash deployerError s))
             else
               (let s = set_status env f st currentHash deployerError s;
                    continue = (\<lambda>s. if st = FeatureStatusProvisioning
                      then (Some (plain_error ''feature is still being provisioned''), s) else queue st s)
                in case deployerError of
                     None \<Rightarrow> continue s
                   | Some e \<Rightarrow>
                       if f = FeatureHelm \<and> errors_As e NonRetriableError \<and> helmConflictResolved env (dst_CS s) then
                         (Some (plain_error ''helm conflict resolved, requeuing''),
                          set_status env f FeatureStatusProvisioning currentHash None s)
                       else
                         (let handled = handleDeployerError env e f currentHash s;
                              shouldReturn = fst handled
                          in if shouldReturn then snd handled else continue (snd (snd handled))))
         | None \<Rightarrow>
             if isPullMode \<and> env_beingProvisioned env then
               proceedDeployingFeatureInPullMode env f isConfigSame currentHash s
             else queue FeatureStatusProvisioning
                    (set_status env f FeatureStatusProvisioning currentHash None s))"

definition deployFeature :: "deploy_env \<Rightarrow> feature_id \<Rightarrow> cluster_summary \<Rightarrow> dep_outcome" where
  "deployFeature env f cs =
     (let s = \<lparr>dst_CS = cs, dst_Ops = [OpCleanupEntries True]\<rparr> in
      if env_inProgress env then
        (Some (plain_error (''cleanup of '' @ feature_name f @ '' still in progress. Wait before redeploying'')), s)
      else
        let currentHash = fst (env_currentHash env);
            hashErr = snd (env_currentHash env);
            go = (let isConfigSame = (getHash cs f = currentHash);
                      s = (if isConfigSame then s else on_cs (ResetConsecutiveFailures f) s)
                  in case env_pullMode env of
                       Inl err \<Rightarrow> (Some err, s)
                     | Inr isPullMode \<Rightarrow>
                         if \<not> shouldRedeploy (dst_CS s) f isConfigSame then (None, s)
                         else proceedDeployingFeature env f isPullMode isConfigSame currentHash s)
        in case hashErr of
             Some err \<Rightarrow>
               if \<not> errors_As err NonRetriableError \<and> \<not> errors_As err NotFoundError
               then (Some err, set_status env f FeatureStatusFailed None (Some err) s)
               else go
           | None \<Rightarrow> go)"

section \<open>Removing\<close>

definition cleanPreviousActiveTracking :: "deploy_env \<Rightarrow> dep_state \<Rightarrow> dep_outcome" where
  "cleanPreviousActiveTracking env s =
     (case env_sourceActive env of
        Inl err \<Rightarrow> if errors_As err NotFoundError then (None, s) else (Some err, s)
      | Inr True \<Rightarrow> (Some (plain_error ''provisioning ConfigurationGroup (active source) was still present''),
          do_op OpTerminateTracking s)
      | Inr False \<Rightarrow> (None, s))"

definition processUndeployResultInPullMode :: "deploy_env \<Rightarrow> feature_id \<Rightarrow> dep_state \<Rightarrow> dep_outcome" where
  "processUndeployResultInPullMode env f s =
     (let queue = (\<lambda>s. let s = queue_deploy env True None s in
            case env_deploy env of
              Some err \<Rightarrow> (Some err, s)
            | None \<Rightarrow> (Some (plain_error ''cleanup request is queued''), s))
      in case env_removeStatus env of
           Inl err \<Rightarrow>
             if errors_As err NotFoundError \<and> isFeatureWaitingForAgentRemoval (dst_CS s) f
             then (None, set_status env f FeatureStatusRemoved None None s)
             else (Some err, on_cs (SetFailureMessage f (Some (err_Msg err))) s)
         | Inr (Some agentStatus) \<Rightarrow>
             if ags_DeploymentStatus agentStatus = Some FeatureStatusRemoved then
               (let s = do_op OpTerminateTracking s in
                case env_terminate env of
                  Some err \<Rightarrow> (Some err, s)
                | None \<Rightarrow> (None, set_status env f FeatureStatusRemoved None None s))
             else (case ags_FailureMessage agentStatus of
                 Some msg \<Rightarrow> queue (on_cs (SetFailureMessage f (Some msg)) s)
               | None \<Rightarrow> (None, set_status env f FeatureStatusAgentRemoving None None s))
         | Inr None \<Rightarrow> queue (set_status env f FeatureStatusRemoving None None s))"

definition processUndeployResult :: "deploy_env \<Rightarrow> feature_id \<Rightarrow> bool \<Rightarrow> dep_state \<Rightarrow> dep_outcome" where
  "processUndeployResult env f isPullMode s =
     (let err = dres_Err (env_result env);
          is_err = (\<lambda>c. case err of None \<Rightarrow> False | Some e \<Rightarrow> errors_As e c);
          retriable = (\<lambda>s. case err of None \<Rightarrow> s
             | Some e \<Rightarrow> on_cs (markUndeployFailureRetriable (env_now env) f (err_Msg e)) s);
          queue = (\<lambda>st s. let s = queue_deploy env True None s in
            case env_deploy env of
              Some e \<Rightarrow> (Some e, set_status env f st None (Some e) s)
            | None \<Rightarrow> (Some (plain_error ''cleanup request is queued''), s))
      in case convertResultStatus (env_result env) of
           Some st \<Rightarrow>
             if st = FeatureStatusProvisioning then
               (Some (plain_error ''feature is still being removed''),
                set_status env f FeatureStatusRemoving None err s)
             else
               (let s = do_op OpInvalidateOnAuthError s in
                if is_err ForbiddenError then (None, retriable s)
                else if is_err HandOverError then
                  (err, on_cs (\<lambda>cs. cs\<lparr>cs_Status := (cs_Status cs)
                     \<lparr>cst_NextReconcileTime := Some (env_now env + 60)\<rparr>\<rparr>) s)
                else if is_err WaitForProfileProcessingError then (err, s)
                else if is_err NonRetriableError then (err, retriable s)
                else if is_err TemplateInstantiationError then (err, retriable s)
                else if st = FeatureStatusRemoved then
                  (if isPullMode then processUndeployResultInPullMode env f s
                   else (None, set_status env f st None None s))
                else queue st (set_status env f st None err s))
         | None \<Rightarrow>
             if isPullMode \<and> isFeatureWaitingForAgentRemoval (dst_CS s) f \<and> env_beingRemoved env
             then processUndeployResultInPullMode env f s
             else queue FeatureStatusRemoving (set_status env f FeatureStatusRemoving None None s))"

definition undeployFeature :: "deploy_env \<Rightarrow> feature_id \<Rightarrow> cluster_summary \<Rightarrow> dep_outcome" where
  "undeployFeature env f cs =
     (let s = \<lparr>dst_CS = cs, dst_Ops = [OpCleanupEntries False]\<rparr> in
      if env_inProgress env then
        (Some (plain_error (''deploying '' @ feature_name f @ '' still in progress. Wait before cleanup'')), s)
      else if isFeatureRemoved cs f then (None, s)
      else case env_pullMode env of
        Inl err \<Rightarrow> (Some err, s)
      | Inr isPullMode \<Rightarrow>
          if isPullMode then
            (let cleaned = cleanPreviousActiveTracking env s in
             case fst cleaned of
               Some err \<Rightarrow> cleaned
             | None \<Rightarrow> processUndeployResult env f isPullMode (snd cleaned))
          else processUndeployResult env f isPullMode s)"

section \<open>The trace of a call\<close>

lemma dep_state_simps [simp]:
  "dst_Ops (do_op a s) = dst_Ops s @ [a]" "dst_CS (do_op a s) = dst_CS s"
  "dst_Ops (on_cs g s) = dst_Ops s" "dst_CS (on_cs g s) = g (dst_CS s)"
  "dst_Ops (set_status env f st h e s) = dst_Ops s"
  "dst_CS (set_status env f st h e s) = updateFeatureStatus (env_now env) f (Some st) h (map_option err_Msg e) (dst_CS s)"
  "dst_Ops (queue_deploy env c h s) = dst_Ops s @ [OpDeploy c h]" "dst_CS (queue_deploy env c h s) = dst_CS s"
  by (simp_all add: do_op_def on_cs_def set_status_def queue_deploy_def)

text \<open>Each lemma bounds the calls a function makes by any set that holds them.\<close>

named_theorems ops_bounds

lemma ops_agent_status [ops_bounds]:
  "set (dst_Ops s) \<subseteq> B \<Longrightarrow> OpTerminateTracking \<in> B \<Longrightarrow>
   set (dst_Ops (snd (proceesAgentDeploymentStatus env f s))) \<subseteq> B"
  by (simp add: proceesAgentDeploymentStatus_def Let_def split: option.splits)

lemma ops_pull_mode_provisioned [ops_bounds]:
  "set (dst_Ops s) \<subseteq> B \<Longrightarrow> OpTerminateTracking \<in> B \<Longrightarrow>
   set (dst_Ops (snd (handlePullModeProvisioned env f h s))) \<subseteq> B"
  by (simp add: handlePullModeProvisioned_def Let_def split: option.splits sum.splits bool.splits)

lemma ops_pull_mode [ops_bounds]:
  "set (dst_Ops s) \<subseteq> B \<Longrightarrow> OpTerminateTracking \<in> B \<Longrightarrow> OpDeploy False h \<in> B \<Longrightarrow>
   set (dst_Ops (snd (proceedDeployingFeatureInPullMode env f same h s))) \<subseteq> B"
  by (simp add: proceedDeployingFeatureInPullMode_def Let_def ops_bounds split: option.splits sum.splits)

lemma ops_handleDeployerError [ops_bounds]:
  "set (dst_Ops s) \<subseteq> B \<Longrightarrow> OpInvalidateOnAuthError \<in> B \<Longrightarrow>
   set (dst_Ops (snd (snd (handleDeployerError env e f h s)))) \<subseteq> B"
  by (simp add: handleDeployerError_def Let_def)

lemma ops_proceed [ops_bounds]:
  "set (dst_Ops s) \<subseteq> B \<Longrightarrow> OpTerminateTracking \<in> B \<Longrightarrow> OpDeploy False h \<in> B \<Longrightarrow>
   OpInvalidateOnAuthError \<in> B \<Longrightarrow>
   set (dst_Ops (snd (proceedDeployingFeature env f pm same h s))) \<subseteq> B"
  by (simp add: proceedDeployingFeature_def Let_def ops_bounds split: option.splits)

lemma ops_cleanPrevious [ops_bounds]:
  "set (dst_Ops s) \<subseteq> B \<Longrightarrow> OpTerminateTracking \<in> B \<Longrightarrow>
   set (dst_Ops (snd (cleanPreviousActiveTracking env s))) \<subseteq> B"
  by (simp add: cleanPreviousActiveTracking_def split: sum.splits bool.splits)

lemma ops_undeploy_pull_mode [ops_bounds]:
  "set (dst_Ops s) \<subseteq> B \<Longrightarrow> OpTerminateTracking \<in> B \<Longrightarrow> OpDeploy True None \<in> B \<Longrightarrow>
   set (dst_Ops (snd (processUndeployResultInPullMode env f s))) \<subseteq> B"
  by (simp add: processUndeployResultInPullMode_def Let_def split: option.splits sum.splits)

lemma ops_undeploy [ops_bounds]:
  "set (dst_Ops s) \<subseteq> B \<Longrightarrow> OpTerminateTracking \<in> B \<Longrightarrow> OpDeploy True None \<in> B \<Longrightarrow>
   OpInvalidateOnAuthError \<in> B \<Longrightarrow>
   set (dst_Ops (snd (processUndeployResult env f pm s))) \<subseteq> B"
  by (simp add: processUndeployResult_def Let_def ops_bounds split: option.splits)

section \<open>Properties\<close>

lemma ops_deployFeature_idle:
  "set (dst_Ops (snd (deployFeature env f cs))) \<subseteq>
     {OpCleanupEntries True, OpTerminateTracking, OpDeploy False (fst (env_currentHash env)), OpInvalidateOnAuthError}"
  by (simp add: deployFeature_def Let_def ops_bounds split: option.splits sum.splits)

lemma ops_undeployFeature_idle:
  "set (dst_Ops (snd (undeployFeature env f cs))) \<subseteq>
     {OpCleanupEntries False, OpTerminateTracking, OpDeploy True None, OpInvalidateOnAuthError}"
  by (simp add: undeployFeature_def Let_def ops_bounds split: option.splits sum.splits)


text \<open>The feature is being deployed with configuration \<open>h\<close> and has failed \<open>n\<close> times in a row; and it has failed for
  good.\<close>

definition failing :: "feature_id \<Rightarrow> bytes option \<Rightarrow> 64 word \<Rightarrow> nat \<Rightarrow> cluster_summary \<Rightarrow> bool" where
  "failing f h maxf n cs \<longleftrightarrow> \<not> IsDryRunSync cs \<and> ps_MaxConsecutiveFailures (cs_ProfileSpec cs) = Some maxf \<and>
     getHash cs f = h \<and> getConsecutiveFailures cs f = of_nat n \<and> n < unat maxf \<and>
     \<not> isFeatureDeployed cs f \<and> \<not> isFeatureFailedWithNonRetriableError cs f"

definition failed_for_good :: "feature_id \<Rightarrow> bytes option \<Rightarrow> cluster_summary \<Rightarrow> bool" where
  "failed_for_good f h cs \<longleftrightarrow> \<not> IsDryRunSync cs \<and> getHash cs f = h \<and> isFeatureFailedWithNonRetriableError cs f"

text \<open>An environment in which every attempt to deploy fails with an error that may be retried.\<close>

definition failing_env :: "deploy_env \<Rightarrow> bytes option \<Rightarrow> dep_error \<Rightarrow> bool" where
  "failing_env env h e \<longleftrightarrow> \<not> env_inProgress env \<and> env_currentHash env = (h, None) \<and> env_pullMode env = Inr False \<and>
     env_result env = \<lparr>dres_ResultStatus = Res_Failed, dres_Err = Some e\<rparr> \<and> env_deploy env = None \<and>
     \<not> errors_As e NonRetriableError \<and> \<not> errors_As e TemplateInstantiationError \<and> \<not> errors_As e HealthCheckError"

lemma failing_step:
  assumes "failing_env env h e" "failing f h maxf n cs"
  shows "if Suc n < unat maxf
    then failing f h maxf (Suc n) (dst_CS (snd (deployFeature env f cs))) \<and>
         OpDeploy False h \<in> set (dst_Ops (snd (deployFeature env f cs)))
    else failed_for_good f h (dst_CS (snd (deployFeature env f cs))) \<and>
         OpDeploy False h \<notin> set (dst_Ops (snd (deployFeature env f cs)))"
proof -
  let ?s0 = "\<lparr>dst_CS = cs, dst_Ops = [OpCleanupEntries True]\<rparr>"
  let ?s1 = "set_status env f FeatureStatusFailed h (Some e) ?s0"
  have n: "n < unat maxf" and fails: "getConsecutiveFailures cs f = of_nat n"
    and spec: "ps_MaxConsecutiveFailures (cs_ProfileSpec cs) = Some maxf" and dry: "\<not> IsDryRunSync cs"
    using assms(2) by (simp_all add: failing_def)
  have "unat (of_nat (Suc n) :: 64 word) = Suc n"
    using n unsigned_less [of maxf, where ?'a = nat] by (simp only: unat_of_nat) (rule mod_less, simp)
  then have cmp: "maxf \<le> 1 + of_nat n \<longleftrightarrow> \<not> Suc n < unat maxf"
    by (simp add: word_le_nat_alt not_less)
  have max: "maxNumberOfConsecutiveFailureReached (dst_CS ?s1) f \<longleftrightarrow> \<not> Suc n < unat maxf"
    using spec dry fails cmp
    by (simp add: maxNumberOfConsecutiveFailureReached_def status_simps is_success_def is_failure_def add.commute)
  have "deployFeature env f cs = proceedDeployingFeature env f False True h ?s0"
    using assms by (simp add: deployFeature_def failing_env_def failing_def shouldRedeploy_def Let_def)
  also have "\<dots> = (if Suc n < unat maxf
      then (Some (plain_error ''request is queued''), queue_deploy env False h (do_op OpInvalidateOnAuthError ?s1))
      else (None, on_cs (markMaxConsecutiveFailuresReached (env_now env) f h) (do_op OpInvalidateOnAuthError ?s1)))"
    using assms(1) max
    by (simp add: proceedDeployingFeature_def failing_env_def convertResultStatus_def handleDeployerError_def Let_def)
  finally have eq: "deployFeature env f cs = \<dots>" .
  show ?thesis
    unfolding eq using assms(2) dry fails spec
    by (simp add: failing_def failed_for_good_def markMaxConsecutiveFailuresReached_def status_simps
        isFeatureDeployed_def isFeatureFailedWithNonRetriableError_def is_success_def is_failure_def add.commute)
qed

lemma failed_for_good_step:
  assumes "failing_env env h e" "failed_for_good f h cs"
  shows "deployFeature env f cs = (None, \<lparr>dst_CS = cs, dst_Ops = [OpCleanupEntries True]\<rparr>)"
  using assms by (auto simp: deployFeature_def failing_env_def failed_for_good_def shouldRedeploy_def Let_def
      isFeatureDeployed_def isFeatureFailedWithNonRetriableError_def has_status_def split: option.splits)

text \<open>Repeated reconciliations: the ClusterSummary after \<open>k\<close> calls, and how many of them queued a deployment.\<close>

fun reconcile_times :: "deploy_env \<Rightarrow> feature_id \<Rightarrow> nat \<Rightarrow> cluster_summary \<Rightarrow> cluster_summary \<times> nat" where
  "reconcile_times env f 0 cs = (cs, 0)"
| "reconcile_times env f (Suc k) cs =
     (let s = snd (deployFeature env f cs);
          rest = reconcile_times env f k (dst_CS s)
      in (fst rest, (if \<exists>h. OpDeploy False h \<in> set (dst_Ops s) then 1 else 0) + snd rest))"

lemma failed_for_good_times:
  "failing_env env h e \<Longrightarrow> failed_for_good f h cs \<Longrightarrow> reconcile_times env f k cs = (cs, 0)"
  by (induction k arbitrary: cs) (simp_all add: failed_for_good_step)

text \<open>C30. The limit on consecutive failures bounds the retries. A feature that fails every time with an error that may be
  retried, with \<open>MaxConsecutiveFailures = m\<close> and \<open>n < m\<close> failures so far, is redeployed
  \<open>m - n - 1\<close> more times however often it is reconciled; after \<open>m - n\<close> reconciliations it is
  FailedNonRetriable and stays so until its configuration changes.\<close>

theorem retries_bounded:
  assumes "failing_env env h e" "failing f h maxf n cs"
  shows "snd (reconcile_times env f k cs) = min k (unat maxf - n - 1) \<and>
    (unat maxf - n \<le> k \<longrightarrow> failed_for_good f h (fst (reconcile_times env f k cs)))"
  using assms(2)
proof (induction k arbitrary: n cs)
  case 0
  then show ?case by (simp add: failing_def)
next
  case (Suc k)
  let ?s = "snd (deployFeature env f cs)"
  have n: "n < unat maxf" using Suc.prems by (simp add: failing_def)
  have only: "OpDeploy False h' \<in> set (dst_Ops ?s) \<Longrightarrow> h' = h" for h'
    using ops_deployFeature_idle [of env f cs] assms(1) by (auto simp: failing_env_def)
  show ?case
  proof (cases "Suc n < unat maxf")
    case True
    then have step: "failing f h maxf (Suc n) (dst_CS ?s)" "OpDeploy False h \<in> set (dst_Ops ?s)"
      using failing_step [OF assms(1) Suc.prems] by simp_all
    show ?thesis using Suc.IH [OF step(1)] step(2) True by (auto simp: Let_def min_def)
  next
    case False
    then have step: "failed_for_good f h (dst_CS ?s)" "OpDeploy False h \<notin> set (dst_Ops ?s)"
      using failing_step [OF assms(1) Suc.prems] by simp_all
    have "reconcile_times env f k (dst_CS ?s) = (dst_CS ?s, 0)"
      using assms(1) step(1) by (rule failed_for_good_times)
    then show ?thesis using step only False n by (auto simp: Let_def)
  qed
qed

lemma deployFeature_settled:
  assumes "\<not> IsDryRunSync cs" "getHash cs f = h" "isFeatureDeployed cs f"
    and "\<not> env_inProgress env" "env_currentHash env = (h, None)" "env_pullMode env = Inr pm"
  shows "deployFeature env f cs = (None, \<lparr>dst_CS = cs, dst_Ops = [OpCleanupEntries True]\<rparr>)"
  using assms by (simp add: deployFeature_def shouldRedeploy_def Let_def)

text \<open>Success settles. When the worker reports the current configuration as deployed, on a cluster not in pull mode,
  \<open>deployFeature\<close> returns without error, the feature is Provisioned with that hash and no failures, no work is queued, and
  every later call in which the configuration hash is unchanged leaves the ClusterSummary as it is.\<close>

theorem success_settles:
  assumes "\<not> IsDryRunSync cs" "getHash cs f = h" "\<not> isFeatureFailedWithNonRetriableError cs f"
    and "\<not> env_inProgress env" "env_currentHash env = (h, None)" "env_pullMode env = Inr False"
    and "env_result env = \<lparr>dres_ResultStatus = Res_Deployed, dres_Err = None\<rparr>"
    and "\<not> env_inProgress env'" "env_currentHash env' = (h, None)" "env_pullMode env' = Inr False"
    and "\<not> isFeatureDeployed cs f"
  shows "\<exists>cs'. deployFeature env f cs = (None, \<lparr>dst_CS = cs', dst_Ops = [OpCleanupEntries True]\<rparr>) \<and>
    isFeatureDeployed cs' f \<and> getHash cs' f = h \<and> getConsecutiveFailures cs' f = 0 \<and>
    deployFeature env' f cs' = (None, \<lparr>dst_CS = cs', dst_Ops = [OpCleanupEntries True]\<rparr>)"
proof -
  let ?cs = "updateFeatureStatus (env_now env) f (Some FeatureStatusProvisioned) h None cs"
  have "deployFeature env f cs = (None, \<lparr>dst_CS = ?cs, dst_Ops = [OpCleanupEntries True]\<rparr>)"
    using assms(1-7,11)
    by (simp add: deployFeature_def shouldRedeploy_def proceedDeployingFeature_def convertResultStatus_def
        set_status_def on_cs_def Let_def)
  moreover have "isFeatureDeployed ?cs f" "getHash ?cs f = h" "getConsecutiveFailures ?cs f = 0"
    using assms(1) by (simp_all add: isFeatureDeployed_def status_simps is_success_def)
  moreover from this have "deployFeature env' f ?cs = (None, \<lparr>dst_CS = ?cs, dst_Ops = [OpCleanupEntries True]\<rparr>)"
    using assms(1,8-10) by (intro deployFeature_settled) simp_all
  ultimately show ?thesis by blast
qed

text \<open>One non-retriable failure is counted twice: the caller records it as Failed and \<open>handleDeployerError\<close>
  records it again as FailedNonRetriable, so the counter grows by two.\<close>

theorem nonretriable_failure_counted_twice:
  assumes "\<not> IsDryRunSync cs" "getHash cs f = h" "\<not> isFeatureFailedWithNonRetriableError cs f"
    and "\<not> isFeatureDeployed cs f" "f \<noteq> FeatureHelm"
    and "\<not> env_inProgress env" "env_currentHash env = (h, None)" "env_pullMode env = Inr pm"
    and "env_result env = \<lparr>dres_ResultStatus = Res_Failed, dres_Err = Some e\<rparr>" "errors_As e NonRetriableError"
    and "s = snd (deployFeature env f cs)"
  shows "getConsecutiveFailures (dst_CS s) f = getConsecutiveFailures cs f + 2 \<and>
    isFeatureFailedWithNonRetriableError (dst_CS s) f"
  using assms
  by (simp add: deployFeature_def shouldRedeploy_def proceedDeployingFeature_def convertResultStatus_def
      handleDeployerError_def Let_def status_simps is_success_def is_failure_def
      isFeatureFailedWithNonRetriableError_def)

lemma undeploy_pull_mode_removed:
  assumes "isFeatureRemoved (dst_CS (snd (processUndeployResultInPullMode env f s))) f"
    and "\<not> isFeatureRemoved (dst_CS s) f"
  shows "(\<exists>ag. env_removeStatus env = Inr (Some ag) \<and> ags_DeploymentStatus ag = Some FeatureStatusRemoved) \<or>
    (\<exists>e. env_removeStatus env = Inl e \<and> errors_As e NotFoundError \<and>
       isFeatureWaitingForAgentRemoval (dst_CS s) f)"
proof -
  have msg: "isFeatureRemoved (SetFailureMessage f m cs) f \<Longrightarrow> isFeatureRemoved cs f" for m cs
    by (auto simp: isFeatureRemoved_def has_status_def status_simps split: option.splits)
  show ?thesis
    using assms
    by (auto simp: processUndeployResultInPullMode_def Let_def isFeatureRemoved_def [of "updateFeatureStatus _ _ _ _ _ _"]
        status_simps dest: msg split: sum.splits option.splits if_splits)
qed

text \<open>In pull mode a feature becomes Removed only on the word of the agent: \<open>undeployFeature\<close> sets that status only
  when the agent reports the removal, or when its ConfigurationGroup is gone after the feature had reached
  AgentRemoving. A missing ConfigurationGroup in any other state is an error, not a removal.\<close>

theorem removed_only_by_agent:
  assumes "env_pullMode env = Inr True" "\<not> isFeatureRemoved cs f"
    and "isFeatureRemoved (dst_CS (snd (undeployFeature env f cs))) f"
  shows "(\<exists>ag. env_removeStatus env = Inr (Some ag) \<and> ags_DeploymentStatus ag = Some FeatureStatusRemoved) \<or>
    (\<exists>e. env_removeStatus env = Inl e \<and> errors_As e NotFoundError \<and> isFeatureWaitingForAgentRemoval cs f)"
proof -
  have msg: "isFeatureRemoved (SetFailureMessage f m cs) f \<Longrightarrow> isFeatureRemoved cs f" for m cs
    by (auto simp: isFeatureRemoved_def has_status_def status_simps split: option.splits)
  have retriable: "\<not> isFeatureRemoved (markUndeployFailureRetriable now f m cs) f" for now m cs
    by (auto simp: markUndeployFailureRetriable_def isFeatureRemoved_def status_simps
        has_status_def split: option.splits)
       (auto simp: updateFeatureStatus_def status_simps split: option.splits)
  have clean: "dst_CS (snd (cleanPreviousActiveTracking env s)) = dst_CS s" for s
    by (simp add: cleanPreviousActiveTracking_def split: sum.splits bool.splits)
  have other: "isFeatureRemoved (cs\<lparr>cs_Status := cs_Status cs\<lparr>cst_NextReconcileTime := t\<rparr>\<rparr>) f = isFeatureRemoved cs f" for t
    by (simp add: isFeatureRemoved_def has_status_def getFeatureSummaryForFeatureID_def)
  have "isFeatureRemoved (dst_CS (snd (processUndeployResult env f True s))) f \<Longrightarrow>
      dst_CS s = cs \<Longrightarrow> ?thesis" for s
    using assms(2) undeploy_pull_mode_removed [of env f s]
      undeploy_pull_mode_removed [of env f "do_op OpInvalidateOnAuthError s"]
    by (auto simp: processUndeployResult_def Let_def retriable other
        isFeatureRemoved_def [of "updateFeatureStatus _ _ _ _ _ _"] status_simps
        convertResultStatus_def split: option.splits if_splits result_status.splits)
  then show ?thesis
    using assms by (auto simp: undeployFeature_def Let_def clean split: if_splits option.splits)
qed

section \<open>Witnesses\<close>

definition sample_error :: dep_error where "sample_error = plain_error ''boom''"

definition sample_env :: deploy_env where
  "sample_env = \<lparr>env_now = 100, env_inProgress = False, env_currentHash = (Some ''h'', None), env_pullMode = Inr False,
     env_result = \<lparr>dres_ResultStatus = Res_Failed, dres_Err = Some sample_error\<rparr>, env_deploy = None,
     env_chartManager = Inr new_chart_manager, env_beingProvisioned = False, env_beingRemoved = False,
     env_requestorHash = Inr None, env_deploymentStatus = (None, None), env_removeStatus = Inr None,
     env_sourceActive = Inr False, env_terminate = None, env_requeueChallengers = Inr False,
     env_confirmApplied = None, env_normalizeGVK = id\<rparr>"

definition sample_deploying :: cluster_summary where
  "sample_deploying = updateFeatureStatus 0 FeatureResources (Some FeatureStatusProvisioning) (Some ''h'') None
     (zero_cluster_summary\<lparr>cs_Spec := \<lparr>css_ClusterNamespace = ''ns'', css_ClusterName = ''c'',
        css_ClusterType = ClusterTypeSveltos,
        css_ClusterProfileSpec = zero_profile_spec\<lparr>ps_MaxConsecutiveFailures := Some 3\<rparr>\<rparr>\<rparr>)"

lemma sample_deploying_simps [simp]:
  "\<not> IsDryRunSync sample_deploying" "getHash sample_deploying FeatureResources = Some ''h''"
  "\<not> isFeatureDeployed sample_deploying FeatureResources" "\<not> isFeatureRemoved sample_deploying FeatureResources"
  "\<not> isFeatureFailedWithNonRetriableError sample_deploying FeatureResources"
  "getConsecutiveFailures sample_deploying FeatureResources = 0"
  "ps_MaxConsecutiveFailures (cs_ProfileSpec sample_deploying) = Some 3"
  by (simp_all add: sample_deploying_def status_simps isFeatureDeployed_def isFeatureRemoved_def
      isFeatureFailedWithNonRetriableError_def IsDryRunSync_def updateFeatureStatus_failures)
    (simp_all add: zero_defs updateFeatureStatus_def SetFeatureStatus_def getConsecutiveFailures_def
      getFeatureSummaryForFeatureID_def with_features_def upsert_feature_def)


theorem retries_bounded_witness:
  "snd (reconcile_times sample_env FeatureResources 10 sample_deploying) = 2 \<and>
   isFeatureFailedWithNonRetriableError (fst (reconcile_times sample_env FeatureResources 10 sample_deploying)) FeatureResources"
  using retries_bounded [of sample_env "Some ''h''" sample_error FeatureResources 3 0 sample_deploying 10]
  by (simp add: failing_env_def failing_def failed_for_good_def sample_env_def sample_error_def plain_error_def errors_As_def)

theorem success_settles_witness:
  "\<exists>cs'. isFeatureDeployed cs' FeatureResources \<and>
     deployFeature sample_env FeatureResources cs' = (None, \<lparr>dst_CS = cs', dst_Ops = [OpCleanupEntries True]\<rparr>)"
  using success_settles [of sample_deploying FeatureResources "Some ''h''"
      "sample_env\<lparr>env_result := \<lparr>dres_ResultStatus = Res_Deployed, dres_Err = None\<rparr>\<rparr>" sample_env]
  by (auto simp: sample_env_def)

theorem nonretriable_failure_counted_twice_witness:
  "getConsecutiveFailures (dst_CS (snd (deployFeature
      (sample_env\<lparr>env_result := \<lparr>dres_ResultStatus = Res_Failed,
         dres_Err = Some \<lparr>err_Msg = ''no'', err_Chain = [NonRetriableError]\<rparr>\<rparr>\<rparr>) FeatureResources sample_deploying)))
     FeatureResources = 2"
  using nonretriable_failure_counted_twice [of sample_deploying FeatureResources "Some ''h''"
      "sample_env\<lparr>env_result := \<lparr>dres_ResultStatus = Res_Failed,
         dres_Err = Some \<lparr>err_Msg = ''no'', err_Chain = [NonRetriableError]\<rparr>\<rparr>\<rparr>" False
      "\<lparr>err_Msg = ''no'', err_Chain = [NonRetriableError]\<rparr>", OF _ _ _ _ _ _ _ _ _ _ refl]
  by (simp add: sample_env_def errors_As_def)

theorem removed_only_by_agent_witness:
  "\<exists>env cs. isFeatureRemoved (dst_CS (snd (undeployFeature env FeatureResources cs))) FeatureResources \<and>
     (\<exists>ag. env_removeStatus env = Inr (Some ag) \<and> ags_DeploymentStatus ag = Some FeatureStatusRemoved)"
proof -
  let ?env = "sample_env\<lparr>env_pullMode := Inr True,
    env_result := \<lparr>dres_ResultStatus = Res_Removed, dres_Err = None\<rparr>,
    env_removeStatus := Inr (Some \<lparr>ags_DeploymentStatus = Some FeatureStatusRemoved, ags_FailureMessage = None,
      ags_DeployedGroupVersionKind = []\<rparr>)\<rparr>"
  have removed: "isFeatureRemoved (dst_CS (snd (undeployFeature ?env FeatureResources sample_deploying))) FeatureResources"
    by (simp add: undeployFeature_def cleanPreviousActiveTracking_def processUndeployResult_def Let_def
        convertResultStatus_def processUndeployResultInPullMode_def sample_env_def status_simps
        isFeatureRemoved_def [of "updateFeatureStatus _ _ _ _ _ _"])
  have "\<exists>ag. env_removeStatus ?env = Inr (Some ag) \<and> ags_DeploymentStatus ag = Some FeatureStatusRemoved"
    using removed_only_by_agent [OF _ _ removed] by (simp add: sample_env_def)
  with removed show ?thesis by blast
qed

end
