(* ===== verification/License_Manager.thy ===== *)
theory License_Manager
  imports Api_Types
begin

text \<open>
  The license manager (controllers/license_manager.go) and the decision whether a cluster may run in
  pull mode (\<open>grantsPullModeEligibility\<close> of controllers/clustersummary_controller.go).

  The manager keeps pull mode clusters and ClusterPromotions in the order they were seen, each with a map that
  tells duplicates. Both collections obey one contract, the locale \<open>slot_registry\<close>: a
  registered key holds the slot given by its position, and only the first \<open>x\<close> slots are licensed.
  The result of verifying a license comes from outside the module and is a record.
\<close>

section \<open>State\<close>

record namespaced_name =
  nn_Namespace :: string
  nn_Name :: string

record license_manager =
  lm_clusters :: "namespaced_name list"
  lm_clusterpromotions :: "namespaced_name list"
  lm_clusterMap :: "(namespaced_name \<times> unit) list"
  lm_clusterPromotionMap :: "(namespaced_name \<times> unit) list"

abbreviation nname :: "string \<Rightarrow> string \<Rightarrow> namespaced_name" where
  "nname ns n \<equiv> \<lparr>nn_Namespace = ns, nn_Name = n\<rparr>"

definition NewLicenseManager :: license_manager where
  "NewLicenseManager = \<lparr>lm_clusters = [], lm_clusterpromotions = [], lm_clusterMap = [], lm_clusterPromotionMap = []\<rparr>"

section \<open>Operations\<close>

text \<open>The loop that cuts the first matching element out of a slice.\<close>

fun cut_first :: "('a \<Rightarrow> bool) \<Rightarrow> 'a list \<Rightarrow> 'a list" where
  "cut_first p [] = []"
| "cut_first p (x # xs) = (if p x then xs else x # cut_first p xs)"

definition AddCluster :: "string \<Rightarrow> string \<Rightarrow> license_manager \<Rightarrow> license_manager" where
  "AddCluster namespace name m =
     (case map_of (lm_clusterMap m) (nname namespace name) of
        Some _ \<Rightarrow> m
      | None \<Rightarrow> m\<lparr>lm_clusterMap := AList.update (nname namespace name) () (lm_clusterMap m),
                lm_clusters := lm_clusters m @ [nname namespace name]\<rparr>)"

definition RemoveCluster :: "string \<Rightarrow> string \<Rightarrow> license_manager \<Rightarrow> license_manager" where
  "RemoveCluster namespace name m =
     (case map_of (lm_clusterMap m) (nname namespace name) of
        None \<Rightarrow> m
      | Some _ \<Rightarrow> m\<lparr>lm_clusters :=
            cut_first (\<lambda>c. nn_Name c = name \<and> nn_Namespace c = namespace) (lm_clusters m),
          lm_clusterMap := AList.delete (nname namespace name) (lm_clusterMap m)\<rparr>)"

definition in_top :: "namespaced_name list \<Rightarrow> string \<Rightarrow> string \<Rightarrow> int \<Rightarrow> bool" where
  "in_top entries namespace name x =
     (if x > int (length entries) then True
      else list_ex (\<lambda>c. nn_Name c = name \<and> nn_Namespace c = namespace) (take (nat x) entries))"

definition IsClusterInTopX :: "string \<Rightarrow> string \<Rightarrow> int \<Rightarrow> license_manager \<Rightarrow> bool" where
  "IsClusterInTopX namespace name x m = in_top (lm_clusters m) namespace name x"

definition AddClusterPromotion :: "string \<Rightarrow> license_manager \<Rightarrow> license_manager" where
  "AddClusterPromotion name m =
     (case map_of (lm_clusterPromotionMap m) (nname [] name) of
        Some _ \<Rightarrow> m
      | None \<Rightarrow> m\<lparr>lm_clusterPromotionMap := AList.update (nname [] name) () (lm_clusterPromotionMap m),
                lm_clusterpromotions := lm_clusterpromotions m @ [nname [] name]\<rparr>)"

definition RemoveClusterPromotion :: "string \<Rightarrow> string \<Rightarrow> license_manager \<Rightarrow> license_manager" where
  "RemoveClusterPromotion namespace name m =
     (case map_of (lm_clusterPromotionMap m) (nname [] name) of
        None \<Rightarrow> m
      | Some _ \<Rightarrow> m\<lparr>lm_clusterpromotions :=
            cut_first (\<lambda>c. nn_Name c = name \<and> nn_Namespace c = namespace) (lm_clusterpromotions m),
          lm_clusterPromotionMap := AList.delete (nname [] name) (lm_clusterPromotionMap m)\<rparr>)"

definition IsClusterPromotionInTopX :: "string \<Rightarrow> string \<Rightarrow> int \<Rightarrow> license_manager \<Rightarrow> bool" where
  "IsClusterPromotionInTopX namespace name x m = in_top (lm_clusterpromotions m) namespace name x"

text \<open>A verified license: \<open>lic_HasPullMode\<close> is the answer of \<open>HasFeature(FeaturePullMode)\<close>.\<close>

datatype license_plan = PlanEnterprise | PlanEnterprisePlus | PlanOther string

record license_payload =
  lic_HasPullMode :: bool
  lic_Plan :: license_plan
  lic_MaxClusters :: int

record license_result =
  lic_IsValid :: bool
  lic_IsInGracePeriod :: bool
  lic_Payload :: "license_payload option"

definition grantsPullModeEligibility :: "license_result \<Rightarrow> string \<Rightarrow> string \<Rightarrow> license_manager \<Rightarrow> bool" where
  "grantsPullModeEligibility result clusterNamespace clusterName m =
     (if lic_IsValid result \<or> lic_IsInGracePeriod result then
        (case lic_Payload result of
           None \<Rightarrow> False
         | Some payload \<Rightarrow>
             if \<not> lic_HasPullMode payload then False
             else if lic_Plan payload \<noteq> PlanEnterprisePlus \<and> lic_Plan payload \<noteq> PlanEnterprise then False
             else if lic_MaxClusters payload = 0 then True
             else IsClusterInTopX clusterNamespace clusterName (lic_MaxClusters payload) m)
      else IsClusterInTopX clusterNamespace clusterName 2 m)"

section \<open>The contract of a slot registry\<close>

datatype 'k slot_op = SlotAdd 'k | SlotRemove 'k

locale slot_registry =
  fixes entries :: "'s \<Rightarrow> 'k list"
    and add :: "'k \<Rightarrow> 's \<Rightarrow> 's"
    and remove :: "'k \<Rightarrow> 's \<Rightarrow> 's"
    and inv :: "'s \<Rightarrow> bool"
  assumes inv_distinct: "inv s \<Longrightarrow> distinct (entries s)"
    and inv_add: "inv s \<Longrightarrow> inv (add k s)"
    and inv_remove: "inv s \<Longrightarrow> inv (remove k s)"
    and entries_add: "inv s \<Longrightarrow> entries (add k s) = (if k \<in> set (entries s) then entries s else entries s @ [k])"
    and entries_remove: "inv s \<Longrightarrow> entries (remove k s) = remove1 k (entries s)"
begin

fun slot_step :: "'k slot_op \<Rightarrow> 's \<Rightarrow> 's" where
  "slot_step (SlotAdd k) s = add k s"
| "slot_step (SlotRemove k) s = remove k s"

lemma inv_step: "inv s \<Longrightarrow> inv (slot_step op s)"
  by (cases op) (simp_all add: inv_add inv_remove)

lemma take_remove1_subset: "k \<noteq> k' \<Longrightarrow> k \<in> set (take x ys) \<Longrightarrow> k \<in> set (take x (remove1 k' ys))"
proof (induction ys arbitrary: x)
  case (Cons y ys)
  show ?case
  proof (cases x)
    case (Suc x')
    have "k \<in> set (take x' ys) \<Longrightarrow> k \<in> set (take (Suc x') ys)" by (metis le_SucI le_refl set_take_subset_set_take subsetD)
    with Cons Suc show ?thesis by auto
  qed (use Cons in simp)
qed simp

lemma slot_kept:
  assumes "inv s" "k \<in> set (take x (entries s))" "op \<noteq> SlotRemove k"
  shows "k \<in> set (take x (entries (slot_step op s)))"
proof (cases op)
  case (SlotAdd k')
  then show ?thesis using assms by (auto simp: entries_add)
next
  case (SlotRemove k')
  then show ?thesis using assms by (auto simp: entries_remove intro: take_remove1_subset)
qed

lemma slot_kept_fold:
  "inv s \<Longrightarrow> k \<in> set (take x (entries s)) \<Longrightarrow> SlotRemove k \<notin> set ops \<Longrightarrow>
   k \<in> set (take x (entries (fold slot_step ops s)))"
  by (induction ops arbitrary: s) (auto simp: slot_kept inv_step)

lemma slots_limited: "inv s \<Longrightarrow> card {k \<in> set (entries s). k \<in> set (take x (entries s))} = min x (length (entries s))"
proof -
  assume "inv s"
  have "{k \<in> set (entries s). k \<in> set (take x (entries s))} = set (take x (entries s))"
    by (auto dest: in_set_takeD)
  then show ?thesis using inv_distinct [OF \<open>inv s\<close>] by (simp add: distinct_card min.commute)
qed

end

section \<open>Both collections obey it\<close>

definition clusters_inv :: "license_manager \<Rightarrow> bool" where
  "clusters_inv m \<longleftrightarrow> distinct (lm_clusters m) \<and> dom (map_of (lm_clusterMap m)) = set (lm_clusters m)"

definition promotions_inv :: "license_manager \<Rightarrow> bool" where
  "promotions_inv m \<longleftrightarrow> distinct (lm_clusterpromotions m) \<and>
     dom (map_of (lm_clusterPromotionMap m)) = set (lm_clusterpromotions m) \<and>
     (\<forall>k \<in> set (lm_clusterpromotions m). nn_Namespace k = [])"

definition add_cluster_key :: "namespaced_name \<Rightarrow> license_manager \<Rightarrow> license_manager" where
  "add_cluster_key k = AddCluster (nn_Namespace k) (nn_Name k)"

definition remove_cluster_key :: "namespaced_name \<Rightarrow> license_manager \<Rightarrow> license_manager" where
  "remove_cluster_key k = RemoveCluster (nn_Namespace k) (nn_Name k)"

lemma nname_eta [simp]: "nname (nn_Namespace k) (nn_Name k) = k"
  by simp

lemma cut_first_eq: "(\<And>x. p x \<longleftrightarrow> x = k) \<Longrightarrow> cut_first p xs = remove1 k xs"
  by (induction xs) auto

lemma nname_match: "nn_Name c = nn_Name k \<and> nn_Namespace c = nn_Namespace k \<longleftrightarrow> c = (k :: namespaced_name)"
  by auto

lemma cut_first_nname:
  "cut_first (\<lambda>c. nn_Name c = nn_Name k \<and> nn_Namespace c = nn_Namespace k) xs = remove1 k (xs :: namespaced_name list)"
  by (rule cut_first_eq) (rule nname_match)

lemma map_of_dom: "dom (map_of al) = A \<Longrightarrow> map_of al k = None \<longleftrightarrow> k \<notin> A"
  by auto

lemma lm_clusters_add:
  "clusters_inv m \<Longrightarrow> lm_clusters (add_cluster_key k m) =
     (if k \<in> set (lm_clusters m) then lm_clusters m else lm_clusters m @ [k])"
  by (auto simp: add_cluster_key_def AddCluster_def clusters_inv_def split: option.splits)

lemma lm_clusters_remove:
  "clusters_inv m \<Longrightarrow> lm_clusters (remove_cluster_key k m) = remove1 k (lm_clusters m)"
  using map_of_dom [of "lm_clusterMap m" "set (lm_clusters m)" k]
  by (auto simp: remove_cluster_key_def RemoveCluster_def clusters_inv_def cut_first_nname remove1_idem
      split: option.splits)

interpretation pull_slots: slot_registry lm_clusters add_cluster_key remove_cluster_key clusters_inv
proof unfold_locales
  fix m :: license_manager and k
  assume inv: "clusters_inv m"
  then show "distinct (lm_clusters m)" by (simp add: clusters_inv_def)
  show "lm_clusters (add_cluster_key k m) =
      (if k \<in> set (lm_clusters m) then lm_clusters m else lm_clusters m @ [k])"
    using inv by (rule lm_clusters_add)
  show "lm_clusters (remove_cluster_key k m) = remove1 k (lm_clusters m)"
    using inv by (rule lm_clusters_remove)
  show "clusters_inv (add_cluster_key k m)"
    using inv by (auto simp: clusters_inv_def add_cluster_key_def AddCluster_def update_conv split: option.splits)
  show "clusters_inv (remove_cluster_key k m)"
    using inv by (auto simp: clusters_inv_def remove_cluster_key_def RemoveCluster_def delete_conv cut_first_nname
        set_remove1_eq split: option.splits if_splits)
qed

definition add_promotion_key :: "string \<Rightarrow> license_manager \<Rightarrow> license_manager" where
  "add_promotion_key name = AddClusterPromotion name"

definition remove_promotion_key :: "string \<Rightarrow> license_manager \<Rightarrow> license_manager" where
  "remove_promotion_key name = RemoveClusterPromotion [] name"

definition promotion_names :: "license_manager \<Rightarrow> string list" where
  "promotion_names m = map nn_Name (lm_clusterpromotions m)"

lemma promotion_mem:
  "promotions_inv m \<Longrightarrow> name \<in> set (promotion_names m) \<longleftrightarrow> nname [] name \<in> set (lm_clusterpromotions m)"
proof
  assume inv: "promotions_inv m" and "name \<in> set (promotion_names m)"
  then obtain k where k: "k \<in> set (lm_clusterpromotions m)" "nn_Name k = name"
    by (auto simp: promotion_names_def)
  moreover from inv k have "nn_Namespace k = []" by (simp add: promotions_inv_def)
  ultimately have "k = nname [] name" by simp
  with k show "nname [] name \<in> set (lm_clusterpromotions m)" by simp
next
  assume "nname [] name \<in> set (lm_clusterpromotions m)"
  then have "nn_Name (nname [] name) \<in> nn_Name ` set (lm_clusterpromotions m)" by (rule imageI)
  then show "name \<in> set (promotion_names m)" by (simp add: promotion_names_def)
qed

lemma map_nn_Name_remove1:
  "\<forall>k \<in> set xs. nn_Namespace k = [] \<Longrightarrow> map nn_Name (remove1 (nname [] name) xs) = remove1 name (map nn_Name xs)"
  by (induction xs) auto

lemma promotions_distinct: "promotions_inv m \<Longrightarrow> distinct (promotion_names m)"
  by (auto simp: promotions_inv_def promotion_names_def distinct_map inj_on_def)

lemma cut_first_promotion:
  "cut_first (\<lambda>c. nn_Name c = name \<and> nn_Namespace c = []) xs = remove1 (nname [] name) (xs :: namespaced_name list)"
  using cut_first_nname [of "nname [] name"] by simp

interpretation promotion_slots: slot_registry promotion_names add_promotion_key remove_promotion_key promotions_inv
proof unfold_locales
  fix m :: license_manager and name
  assume inv: "promotions_inv m"
  then show "distinct (promotion_names m)" by (rule promotions_distinct)
  show "promotion_names (add_promotion_key name m) =
      (if name \<in> set (promotion_names m) then promotion_names m else promotion_names m @ [name])"
    using inv promotion_mem [OF inv, of name]
    by (auto simp: add_promotion_key_def AddClusterPromotion_def promotion_names_def promotions_inv_def
        split: option.splits)
  show "promotion_names (remove_promotion_key name m) = remove1 name (promotion_names m)"
    using inv promotion_mem [OF inv, of name]
    by (auto simp: remove_promotion_key_def RemoveClusterPromotion_def promotion_names_def promotions_inv_def
        cut_first_promotion map_nn_Name_remove1 remove1_idem split: option.splits)
  show "promotions_inv (add_promotion_key name m)"
    using inv by (auto simp: promotions_inv_def add_promotion_key_def AddClusterPromotion_def update_conv
        split: option.splits)
  show "promotions_inv (remove_promotion_key name m)"
    using inv by (auto simp: promotions_inv_def remove_promotion_key_def RemoveClusterPromotion_def delete_conv
        cut_first_promotion set_remove1_eq dest: notin_set_remove1 split: option.splits if_splits)
qed

section \<open>Properties\<close>

lemma in_top_registered:
  "nname ns n \<in> set entries \<Longrightarrow> in_top entries ns n x \<longleftrightarrow> nname ns n \<in> set (take (nat x) entries)"
  by (auto simp: in_top_def list_ex_iff nname_match [of _ "nname ns n", simplified])

text \<open>Slots are limited. Without a valid license exactly \<open>min 2 n\<close> of the \<open>n\<close> registered pull mode
  clusters are eligible, and with a license for \<open>max\<close> clusters exactly \<open>min max n\<close>.\<close>

theorem eligible_clusters_limited:
  assumes "clusters_inv m"
    and "limit = (if lic_IsValid result \<or> lic_IsInGracePeriod result
                  then case lic_Payload result of Some p \<Rightarrow> nat (lic_MaxClusters p) | None \<Rightarrow> 0 else 2)"
    and "lic_IsValid result \<or> lic_IsInGracePeriod result \<Longrightarrow>
           \<exists>p. lic_Payload result = Some p \<and> lic_HasPullMode p \<and> lic_Plan p = PlanEnterprise \<and> 0 < lic_MaxClusters p"
  shows "card {k \<in> set (lm_clusters m). grantsPullModeEligibility result (nn_Namespace k) (nn_Name k) m} =
           min limit (length (lm_clusters m))"
proof -
  have "grantsPullModeEligibility result (nn_Namespace k) (nn_Name k) m \<longleftrightarrow> k \<in> set (take limit (lm_clusters m))"
    if "k \<in> set (lm_clusters m)" for k
    using assms(2,3) that in_top_registered [of "nn_Namespace k" "nn_Name k" "lm_clusters m"]
    by (auto simp: grantsPullModeEligibility_def IsClusterInTopX_def split: option.splits)
  then have "{k \<in> set (lm_clusters m). grantsPullModeEligibility result (nn_Namespace k) (nn_Name k) m} =
      {k \<in> set (lm_clusters m). k \<in> set (take limit (lm_clusters m))}" by blast
  then show ?thesis using pull_slots.slots_limited [OF assms(1), of limit] by simp
qed

text \<open>Slots are stable. A registered cluster that is among the first \<open>x\<close> stays among them whatever other
  clusters come and go, until it is itself removed.\<close>

theorem cluster_slot_stable:
  assumes "clusters_inv m" "nname ns n \<in> set (lm_clusters m)" "IsClusterInTopX ns n x m"
    and "SlotRemove (nname ns n) \<notin> set ops"
  shows "IsClusterInTopX ns n x (fold pull_slots.slot_step ops m)"
proof -
  have "nname ns n \<in> set (take (nat x) (lm_clusters m))"
    using assms(2,3) by (simp add: IsClusterInTopX_def in_top_registered)
  then have "nname ns n \<in> set (take (nat x) (lm_clusters (fold pull_slots.slot_step ops m)))"
    using assms(1,4) by (intro pull_slots.slot_kept_fold)
  then show ?thesis
    using in_top_registered [OF in_set_takeD] by (simp add: IsClusterInTopX_def)
qed

text \<open>A ClusterPromotion must be removed with the empty namespace it was added with: removing it with any
  other namespace forgets it in the map but leaves it in the list, where it keeps its slot, and adding it again lists it twice.\<close>

lemma promotion_removed_with_namespace_leaks:
  assumes "promotions_inv m" "nname [] name \<in> set (lm_clusterpromotions m)" "namespace \<noteq> []"
  shows "lm_clusterpromotions (RemoveClusterPromotion namespace name m) = lm_clusterpromotions m \<and>
    \<not> promotions_inv (RemoveClusterPromotion namespace name m) \<and>
    lm_clusterpromotions (AddClusterPromotion name (RemoveClusterPromotion namespace name m)) =
      lm_clusterpromotions m @ [nname [] name]"
proof -
  have "cut_first (\<lambda>c. nn_Name c = name \<and> nn_Namespace c = namespace) xs = xs"
    if "\<forall>k \<in> set xs. nn_Namespace k = []" for xs :: "namespaced_name list"
    using that assms(3) by (induction xs) auto
  then have cut: "cut_first (\<lambda>c. nn_Name c = name \<and> nn_Namespace c = namespace) (lm_clusterpromotions m) =
      lm_clusterpromotions m"
    using assms(1) by (simp add: promotions_inv_def)
  have "nname [] name \<in> dom (map_of (lm_clusterPromotionMap m))"
    using assms(1,2) by (simp add: promotions_inv_def)
  then obtain u where "map_of (lm_clusterPromotionMap m) (nname [] name) = Some u" by blast
  moreover have "nname [] name \<notin> dom (map_of (AList.delete (nname [] name) (lm_clusterPromotionMap m)))"
    by (simp add: delete_conv')
  ultimately show ?thesis using assms(2) cut
    by (auto simp: RemoveClusterPromotion_def AddClusterPromotion_def promotions_inv_def delete_conv)
qed

section \<open>Witnesses\<close>

definition sample_licensed :: license_manager where
  "sample_licensed = AddCluster ''ns'' ''c'' (AddCluster ''ns'' ''b'' (AddCluster ''ns'' ''a'' NewLicenseManager))"

lemma sample_licensed_simps [simp]:
  "clusters_inv sample_licensed" "lm_clusters sample_licensed = [nname ''ns'' ''a'', nname ''ns'' ''b'', nname ''ns'' ''c'']"
  by (auto simp: sample_licensed_def AddCluster_def NewLicenseManager_def clusters_inv_def)

theorem eligible_clusters_limited_witness:
  "card {k \<in> set (lm_clusters sample_licensed).
     grantsPullModeEligibility \<lparr>lic_IsValid = False, lic_IsInGracePeriod = False, lic_Payload = None\<rparr>
       (nn_Namespace k) (nn_Name k) sample_licensed} = 2"
  using eligible_clusters_limited [of sample_licensed 2
      "\<lparr>lic_IsValid = False, lic_IsInGracePeriod = False, lic_Payload = None\<rparr>"] by simp

theorem cluster_slot_stable_witness:
  "IsClusterInTopX ''ns'' ''b'' 2 (fold pull_slots.slot_step
     [SlotRemove (nname ''ns'' ''a''), SlotAdd (nname ''ns'' ''e'')] sample_licensed)"
  using cluster_slot_stable [of sample_licensed "''ns''" "''b''" 2
      "[SlotRemove (nname ''ns'' ''a''), SlotAdd (nname ''ns'' ''e'')]"]
  by (simp add: IsClusterInTopX_def in_top_def)

end
