(* ===== verification/Cluster_Selection.thy ===== *)
theory Cluster_Selection
  imports Api_Types
begin

text \<open>
  Which of the clusters that match a Set or ClusterSet are selected (controllers/set_utils.go):
  \<open>pruneConnectionDownClusters\<close>, \<open>selectClusters\<close> and \<open>selectMoreClusters\<close>.

  The connection state of a SveltosCluster comes from the API server: \<open>lookup\<close> answers with an error
  or with whether the connection is down. Go maps with object references as keys are used as sets.
\<close>

section \<open>State and operations\<close>

record set_status =
  sst_MatchingClusterRefs :: "object_reference list"
  sst_SelectedClusterRefs :: "object_reference list option"

type_synonym connection_lookup = "string \<Rightarrow> string \<Rightarrow> string + bool"

definition is_sveltos_cluster :: "object_reference \<Rightarrow> bool" where
  "is_sveltos_cluster ref \<longleftrightarrow> ref_Kind ref = ''SveltosCluster''"

fun pruneConnectionDownClusters ::
    "connection_lookup \<Rightarrow> object_reference list \<Rightarrow> string + object_reference list" where
  "pruneConnectionDownClusters lookup [] = Inr []"
| "pruneConnectionDownClusters lookup (cluster # clusters) =
     (let rest = (\<lambda>keep. case pruneConnectionDownClusters lookup clusters of
            Inl err \<Rightarrow> Inl err | Inr result \<Rightarrow> Inr (keep @ result))
      in if is_sveltos_cluster cluster then
           (case lookup (ref_Namespace cluster) (ref_Name cluster) of
              Inl err \<Rightarrow> Inl err
            | Inr down \<Rightarrow> if down then rest [] else rest [cluster])
         else rest [cluster])"

fun select_loop :: "nat \<Rightarrow> object_reference list \<Rightarrow> object_reference list \<Rightarrow> object_reference list \<Rightarrow>
    object_reference list" where
  "select_loop maxReplicas current [] selected = selected"
| "select_loop maxReplicas current (cluster # clusters) selected =
     (if cluster \<notin> set current then
        (let selected = selected @ [cluster] in
         if length selected = maxReplicas then selected
         else select_loop maxReplicas current clusters selected)
      else select_loop maxReplicas current clusters selected)"

definition selectMoreClusters :: "nat \<Rightarrow> object_reference list \<Rightarrow> set_status \<Rightarrow> set_status" where
  "selectMoreClusters maxReplicas healthyMatchingClusters status =
     (if sst_SelectedClusterRefs status \<noteq> None \<and> maxReplicas \<le> length (slice (sst_SelectedClusterRefs status))
      then status
      else
        let selected = select_loop maxReplicas (slice (sst_SelectedClusterRefs status)) healthyMatchingClusters
              (slice (sst_SelectedClusterRefs status))
        in status\<lparr>sst_SelectedClusterRefs :=
             (if selected = [] then sst_SelectedClusterRefs status else Some selected)\<rparr>)"

definition selectClusters :: "connection_lookup \<Rightarrow> nat \<Rightarrow> set_status \<Rightarrow> string option \<times> set_status" where
  "selectClusters lookup maxReplicas status =
     (case pruneConnectionDownClusters lookup (sst_MatchingClusterRefs status) of
        Inl err \<Rightarrow> (Some err, status)
      | Inr healthyMatchingClusters \<Rightarrow>
          let currentSelectedClusters =
                filter (\<lambda>c. c \<in> set healthyMatchingClusters) (slice (sst_SelectedClusterRefs status));
              status = status\<lparr>sst_SelectedClusterRefs := Some currentSelectedClusters\<rparr>
          in if length currentSelectedClusters = maxReplicas then (None, status)
             else if maxReplicas = 0 then (None, status\<lparr>sst_SelectedClusterRefs := None\<rparr>)
             else if length currentSelectedClusters > maxReplicas then
               (None, status\<lparr>sst_SelectedClusterRefs := Some (take (maxReplicas - 1) currentSelectedClusters)\<rparr>)
             else (None, selectMoreClusters maxReplicas healthyMatchingClusters status))"

section \<open>Lemmas\<close>

lemma prune_ok:
  "pruneConnectionDownClusters lookup cs = Inr hs \<Longrightarrow>
   hs = filter (\<lambda>c. \<not> is_sveltos_cluster c \<or> lookup (ref_Namespace c) (ref_Name c) = Inr False) cs"
  by (induction cs arbitrary: hs) (auto simp: Let_def split: if_splits sum.splits)

lemma select_loop_spec:
  assumes "length selected < maxReplicas"
  shows "select_loop maxReplicas current clusters selected =
    selected @ take (maxReplicas - length selected) (filter (\<lambda>c. c \<notin> set current) clusters)"
  using assms
proof (induction clusters arbitrary: selected)
  case (Cons c cs)
  show ?case
  proof (cases "c \<in> set current")
    case False
    show ?thesis
    proof (cases "length selected + 1 = maxReplicas")
      case True
      then show ?thesis using False by auto
    next
      case F2: False
      with Cons.prems have lt: "length (selected @ [c]) < maxReplicas" by simp
      then obtain k where k: "maxReplicas - length selected = Suc k"
        by (metis Suc_diff_Suc Cons.prems)
      then have k': "maxReplicas - Suc (length selected) = k" by simp
      have "select_loop maxReplicas current (c # cs) selected =
          select_loop maxReplicas current cs (selected @ [c])"
        using False F2 by (simp add: Let_def)
      also have "\<dots> = (selected @ [c]) @ take (maxReplicas - length (selected @ [c])) (filter (\<lambda>c. c \<notin> set current) cs)"
        using lt by (rule Cons.IH)
      finally show ?thesis using False k k' by simp
    qed
  qed (use Cons in simp)
qed simp

section \<open>Properties\<close>

text \<open>The number of replicas the code selects among \<open>healthy\<close> clusters of which \<open>current\<close> are selected
  already.\<close>

definition selected_count :: "nat \<Rightarrow> nat \<Rightarrow> nat \<Rightarrow> nat" where
  "selected_count maxReplicas healthy current =
     (if maxReplicas < current then maxReplicas - 1 else min maxReplicas healthy)"

lemma selectClusters_ok:
  assumes "pruneConnectionDownClusters lookup (sst_MatchingClusterRefs status) = Inr healthy"
    and "cur = filter (\<lambda>c. c \<in> set healthy) (slice (sst_SelectedClusterRefs status))"
  shows "slice (sst_SelectedClusterRefs (snd (selectClusters lookup maxReplicas status))) =
    (if maxReplicas < length cur then take (maxReplicas - 1) cur
     else cur @ take (maxReplicas - length cur) (filter (\<lambda>c. c \<notin> set cur) healthy))"
proof (cases "length cur < maxReplicas")
  case True
  then show ?thesis
    using assms by (auto simp: selectClusters_def Let_def selectMoreClusters_def select_loop_spec)
qed (use assms in \<open>auto simp: selectClusters_def Let_def\<close>)

text \<open>After a successful selection the selected clusters are healthy matching clusters without repetition; those
  selected before that are still healthy and matching come first, in their order; and unless too many were
  selected none of them is dropped and there are as many as
  \<open>MaxReplicas\<close> and the healthy clusters allow.\<close>

theorem selection_outcome:
  assumes "pruneConnectionDownClusters lookup (sst_MatchingClusterRefs status) = Inr healthy"
    and "distinct (sst_MatchingClusterRefs status)" "distinct (slice (sst_SelectedClusterRefs status))"
    and "cur = filter (\<lambda>c. c \<in> set healthy) (slice (sst_SelectedClusterRefs status))"
    and "sel = slice (sst_SelectedClusterRefs (snd (selectClusters lookup maxReplicas status)))"
  shows "set sel \<subseteq> set healthy \<and> distinct sel \<and> take (length cur) sel = take (length sel) cur \<and>
    length sel = selected_count maxReplicas (length healthy) (length cur)"
proof -
  have healthy: "distinct healthy" using prune_ok [OF assms(1)] assms(2) by simp
  have cur: "distinct cur" "set cur \<subseteq> set healthy" using assms(3,4) by auto
  let ?new = "filter (\<lambda>c. c \<notin> set cur) healthy"
  have "set (filter (\<lambda>c. c \<in> set cur) healthy) = set cur" using cur(2) by auto
  then have "length (filter (\<lambda>c. c \<in> set cur) healthy) = length cur"
    using healthy cur(1) by (metis distinct_card distinct_filter)
  then have len: "length healthy = length cur + length ?new"
    using sum_length_filter_compl [of "\<lambda>c. c \<in> set cur" healthy] by simp
  have sel: "sel = (if maxReplicas < length cur then take (maxReplicas - 1) cur
     else cur @ take (maxReplicas - length cur) ?new)"
    unfolding assms(5) using assms(1,4) by (rule selectClusters_ok)
  have "distinct sel" unfolding sel using healthy cur(1)
    by (auto dest: in_set_takeD)
  moreover have "set sel \<subseteq> set healthy" unfolding sel using cur(2) by (auto dest: in_set_takeD)
  moreover have "take (length cur) sel = take (length sel) cur"
    unfolding sel by (simp add: min_def)
  moreover have "length sel = selected_count maxReplicas (length healthy) (length cur)"
  proof -
    have "length sel = (if maxReplicas < length cur then min (length cur) (maxReplicas - 1)
        else length cur + min (length ?new) (maxReplicas - length cur))"
      by (simp add: sel)
    then show ?thesis unfolding selected_count_def using len by (auto split: if_splits)
  qed
  ultimately show ?thesis by blast
qed

text \<open>When more clusters are selected than \<open>MaxReplicas\<close>, the code keeps one fewer than
  \<open>MaxReplicas\<close> although enough healthy clusters are there; it takes a second run to fill the last slot, and that run may
  pick another cluster than the one dropped.\<close>

theorem scale_down_drops_one_too_many:
  assumes "pruneConnectionDownClusters lookup (sst_MatchingClusterRefs status) = Inr healthy"
    and "distinct (sst_MatchingClusterRefs status)" "distinct (slice (sst_SelectedClusterRefs status))"
    and "set (slice (sst_SelectedClusterRefs status)) \<subseteq> set healthy"
    and "0 < maxReplicas" "maxReplicas < length (slice (sst_SelectedClusterRefs status))"
    and "status' = snd (selectClusters lookup maxReplicas status)"
  shows "length (slice (sst_SelectedClusterRefs status')) = maxReplicas - 1 \<and>
    length (slice (sst_SelectedClusterRefs (snd (selectClusters lookup maxReplicas status')))) = maxReplicas"
proof -
  let ?cur = "slice (sst_SelectedClusterRefs status)"
  have f: "filter (\<lambda>c. c \<in> set healthy) ?cur = ?cur" using assms(4) by (simp add: filter_id_conv subset_iff)
  have sel: "slice (sst_SelectedClusterRefs status') = take (maxReplicas - 1) ?cur"
    using selectClusters_ok [OF assms(1) refl, of maxReplicas] assms(6) by (simp add: assms(7) f)
  have m: "sst_MatchingClusterRefs status' = sst_MatchingClusterRefs status"
    using assms(1,5,6) by (auto simp: assms(7) selectClusters_def f Let_def)
  have p: "pruneConnectionDownClusters lookup (sst_MatchingClusterRefs status') = Inr healthy"
    using assms(1) m by simp
  have d: "distinct (slice (sst_SelectedClusterRefs status'))" using assms(3) sel by simp
  have sub: "set (slice (sst_SelectedClusterRefs status')) \<subseteq> set healthy"
    using assms(4) by (auto simp: sel dest: in_set_takeD)
  have "length ?cur \<le> length healthy"
    using assms(3,4) prune_ok [OF assms(1)] assms(2)
    by (metis card_mono distinct_card distinct_filter finite_set)
  moreover have "filter (\<lambda>c. c \<in> set healthy) (slice (sst_SelectedClusterRefs status')) =
      slice (sst_SelectedClusterRefs status')"
    using sub by (simp add: filter_id_conv subset_iff)
  ultimately show ?thesis
    using selection_outcome [OF p _ d refl refl, of maxReplicas] assms(2,5,6) m sel
    by (simp add: selected_count_def)
qed

section \<open>Witnesses\<close>

definition sample_cluster :: "string \<Rightarrow> object_reference" where
  "sample_cluster n = \<lparr>ref_Kind = ''SveltosCluster'', ref_Namespace = ''ns'', ref_Name = n, ref_APIVersion = ''v1''\<rparr>"

definition sample_set_status :: set_status where
  "sample_set_status = \<lparr>sst_MatchingClusterRefs = map sample_cluster [''a'', ''b'', ''c''],
     sst_SelectedClusterRefs = Some (map sample_cluster [''b'', ''a'', ''c''])\<rparr>"

theorem selection_outcome_witness:
  "length (slice (sst_SelectedClusterRefs (snd (selectClusters (\<lambda>_ n. Inr (n = ''a'')) 5 sample_set_status)))) = 2"
  using selection_outcome [of "\<lambda>_ n. Inr (n = ''a'')" sample_set_status "map sample_cluster [''b'', ''c'']",
      OF _ _ _ refl refl, of 5]
  by (simp add: sample_set_status_def sample_cluster_def is_sveltos_cluster_def selected_count_def)

theorem scale_down_drops_one_too_many_witness:
  "length (slice (sst_SelectedClusterRefs (snd (selectClusters (\<lambda>_ _. Inr False) 2 sample_set_status)))) = 1"
  using scale_down_drops_one_too_many [of "\<lambda>_ _. Inr False" sample_set_status "map sample_cluster [''a'', ''b'', ''c'']" 2,
      OF _ _ _ _ _ _ refl]
  by (simp add: sample_set_status_def sample_cluster_def is_sveltos_cluster_def)

end
