(* ===== verification/Health_Monitoring.thy ===== *)
theory Health_Monitoring
  imports Api_Types "HOL-Library.Product_Lexorder"
begin

text \<open>
  The health of a cluster (lib/healthmonitoring/healthmonitoring.go): the join of the
  ClusterSummaries with health monitoring enabled and the HealthCheckReports of the cluster.

  The package is pure, and so is the model: one definition per function. The resource collector
  keeps a map and the order of insertion of its keys; here it is an association list in that
  order. \<open>sort.SliceStable\<close> is \<open>sort_key\<close>, which is stable too; the comparison is a
  lexicographic key.
\<close>

section \<open>Data\<close>

datatype health_state =
  StateNotEnabled | StateNoData | StateHealthy | StateSuspended | StateProgressing | StateDegraded

datatype health_status =
    HealthStatusHealthy | HealthStatusProgressing | HealthStatusDegraded | HealthStatusSuspended
  | HealthStatusOther string

record summary_input =
  si_Summary :: object_reference
  si_Profile :: object_reference
  si_Enabled :: bool
  si_ListedChecks :: "string list"
  si_GeneratedCheck :: string

record resource_input =
  ri_ObjectRef :: object_reference
  ri_Status :: health_status
  ri_Message :: string

record report_input =
  rep_HealthCheckName :: string
  rep_Resources :: "resource_input list"

record profile_health =
  ph_Profile :: object_reference
  ph_Summary :: object_reference
  ph_State :: health_state

record unhealthy_resource =
  ur_ObjectRef :: object_reference
  ur_Status :: health_status
  ur_Message :: string
  ur_Profiles :: "object_reference list"
  ur_HealthCheckName :: string

record cluster_health =
  ch_State :: health_state
  ch_Profiles :: "profile_health list"
  ch_Resources :: "unhealthy_resource list"

section \<open>States\<close>

definition StateOf :: "health_status \<Rightarrow> health_state" where
  "StateOf status =
     (case status of
        HealthStatusHealthy \<Rightarrow> StateHealthy
      | HealthStatusSuspended \<Rightarrow> StateSuspended
      | HealthStatusProgressing \<Rightarrow> StateProgressing
      | HealthStatusDegraded \<Rightarrow> StateDegraded
      | HealthStatusOther _ \<Rightarrow> StateNoData)"

definition statesBestToWorst :: "health_state list" where
  "statesBestToWorst =
     [StateNotEnabled, StateNoData, StateHealthy, StateSuspended, StateProgressing, StateDegraded]"

definition severity :: "health_state \<Rightarrow> nat" where
  "severity state = (case first_index ((=) state) statesBestToWorst of Some i \<Rightarrow> i | None \<Rightarrow> 0)"

definition WorstState :: "health_state \<Rightarrow> health_state \<Rightarrow> health_state" where
  "WorstState a b = (if severity b > severity a then b else a)"

section \<open>The inputs\<close>

definition HealthMonitoringClusterSummaryUIDLabel :: string where
  "HealthMonitoringClusterSummaryUIDLabel = ''projectsveltos.io/health-monitoring-clustersummary-uid''"
definition HealthMonitoringClusterSummaryNamespaceAnnotation :: string where
  "HealthMonitoringClusterSummaryNamespaceAnnotation =
     ''projectsveltos.io/health-monitoring-clustersummary-namespace''"
definition HealthMonitoringClusterSummaryNameAnnotation :: string where
  "HealthMonitoringClusterSummaryNameAnnotation = ''projectsveltos.io/health-monitoring-clustersummary-name''"

definition Api_GroupVersion :: string where
  "Api_GroupVersion = ''config.projectsveltos.io/v1beta1''"

definition GeneratedCheckOwner :: "object_meta \<Rightarrow> object_reference option" where
  "GeneratedCheckOwner obj =
     (if map_of (om_Labels obj) HealthMonitoringClusterSummaryUIDLabel = None then None
      else
        let namespace = lookup_default [] (om_Annotations obj) HealthMonitoringClusterSummaryNamespaceAnnotation;
            name = lookup_default [] (om_Annotations obj) HealthMonitoringClusterSummaryNameAnnotation
        in if namespace = [] \<or> name = [] then None
           else Some \<lparr>ref_Kind = ClusterSummaryKind, ref_Namespace = namespace, ref_Name = name,
                  ref_APIVersion = Api_GroupVersion\<rparr>)"

text \<open>\<open>profileRef\<close> is the answer of \<open>GetProfileRef\<close>, which parses the owner references.\<close>

definition NewSummaryInput ::
    "string + object_reference \<Rightarrow> cluster_summary \<Rightarrow> string \<Rightarrow> string + summary_input" where
  "NewSummaryInput profileRef clusterSummary generatedCheck =
     (case profileRef of
        Inl err \<Rightarrow> Inl err
      | Inr ref \<Rightarrow>
          let ref = (if ref_Kind ref = ProfileKind then ref\<lparr>ref_Namespace := cs_Namespace clusterSummary\<rparr> else ref);
              input = \<lparr>si_Summary = \<lparr>ref_Kind = ClusterSummaryKind, ref_Namespace = cs_Namespace clusterSummary,
                         ref_Name = cs_Name clusterSummary, ref_APIVersion = Api_GroupVersion\<rparr>,
                       si_Profile = ref, si_Enabled = False, si_ListedChecks = [],
                       si_GeneratedCheck = generatedCheck\<rparr>
          in case ps_HealthMonitoring (cs_ProfileSpec clusterSummary) of
               None \<Rightarrow> Inr input
             | Some hm \<Rightarrow>
                 if \<not> hm_Enabled hm then Inr input
                 else Inr (input\<lparr>si_Enabled := True, si_ListedChecks :=
                   (if ref_Kind ref = ClusterProfileKind then hm_HealthChecks hm else [])\<rparr>))"

definition enabledSummaries :: "summary_input list \<Rightarrow> summary_input list" where
  "enabledSummaries summaries = filter si_Enabled summaries"

definition uniqueNames :: "string list \<Rightarrow> string list" where
  "uniqueNames names = fold (\<lambda>name unique. if name \<in> set unique then unique else unique @ [name]) names []"

definition check_names :: "summary_input \<Rightarrow> string list" where
  "check_names s = uniqueNames (if si_GeneratedCheck s \<noteq> [] then si_GeneratedCheck s # si_ListedChecks s
     else si_ListedChecks s)"

definition ownersByCheck :: "summary_input list \<Rightarrow> (string \<times> nat list) list" where
  "ownersByCheck summaries =
     fold (\<lambda>i owners. fold (\<lambda>name owners. AList.update name (lookup_default [] owners name @ [i]) owners)
         (check_names (summaries ! i)) owners)
       [0..<length summaries] []"

definition owningProfiles :: "profile_health list \<Rightarrow> nat list \<Rightarrow> object_reference list" where
  "owningProfiles profiles indexes = map (\<lambda>i. ph_Profile (profiles ! i)) indexes"

definition sortedByHealthCheckName :: "report_input list \<Rightarrow> report_input list" where
  "sortedByHealthCheckName reports = sort_key rep_HealthCheckName reports"

section \<open>The resource collector\<close>

type_synonym resource_key = "string \<times> string \<times> string \<times> string"
type_synonym resource_collector = "(resource_key \<times> unhealthy_resource) list"

definition resource_key :: "object_reference \<Rightarrow> resource_key" where
  "resource_key ref = (ref_APIVersion ref, ref_Kind ref, ref_Namespace ref, ref_Name ref)"

definition containsRef :: "object_reference list \<Rightarrow> object_reference \<Rightarrow> bool" where
  "containsRef refs ref = list_ex (\<lambda>r. ref_Kind r = ref_Kind ref \<and> ref_Namespace r = ref_Namespace ref \<and>
     ref_Name r = ref_Name ref) refs"

definition newUnhealthyResource :: "resource_input \<Rightarrow> object_reference list \<Rightarrow> string \<Rightarrow> unhealthy_resource" where
  "newUnhealthyResource resource profiles healthCheckName =
     \<lparr>ur_ObjectRef = ri_ObjectRef resource, ur_Status = ri_Status resource, ur_Message = ri_Message resource,
      ur_Profiles = profiles, ur_HealthCheckName = (if profiles = [] then healthCheckName else [])\<rparr>"

definition merge_profiles :: "object_reference list \<Rightarrow> unhealthy_resource \<Rightarrow> unhealthy_resource" where
  "merge_profiles profiles entry =
     fold (\<lambda>p e. if containsRef (ur_Profiles e) p then e else e\<lparr>ur_Profiles := ur_Profiles e @ [p]\<rparr>) profiles entry"

definition merge_unhealthy ::
    "resource_input \<Rightarrow> object_reference list \<Rightarrow> string \<Rightarrow> unhealthy_resource \<Rightarrow> unhealthy_resource" where
  "merge_unhealthy resource profiles healthCheckName existing =
     (let existingOwned = ur_Profiles existing \<noteq> [];
          owned = profiles \<noteq> []
      in merge_profiles profiles
           (if owned \<and> \<not> existingOwned then newUnhealthyResource resource profiles healthCheckName
            else if \<not> owned \<and> existingOwned then existing
            else if severity (StateOf (ri_Status resource)) > severity (StateOf (ur_Status existing)) then
              (let e = existing\<lparr>ur_Status := ri_Status resource, ur_Message := ri_Message resource\<rparr>
               in if \<not> owned then e\<lparr>ur_HealthCheckName := healthCheckName\<rparr> else e)
            else existing))"

definition collector_add ::
    "resource_input \<Rightarrow> object_reference list \<Rightarrow> string \<Rightarrow> resource_collector \<Rightarrow> resource_collector" where
  "collector_add resource profiles healthCheckName c =
     (let key = resource_key (ri_ObjectRef resource) in
      AList.update key
        (case map_of c key of
           None \<Rightarrow> newUnhealthyResource resource profiles healthCheckName
         | Some existing \<Rightarrow> merge_unhealthy resource profiles healthCheckName existing) c)"

definition resource_order :: "unhealthy_resource \<Rightarrow> bool \<times> int \<times> string \<times> string \<times> string" where
  "resource_order r = (ur_Profiles r = [], - int (severity (StateOf (ur_Status r))),
     ref_Kind (ur_ObjectRef r), ref_Namespace (ur_ObjectRef r), ref_Name (ur_ObjectRef r))"

definition collector_sorted :: "resource_collector \<Rightarrow> unhealthy_resource list" where
  "collector_sorted c = sort_key resource_order (map snd c)"

section \<open>The join\<close>

definition report_state :: "report_input \<Rightarrow> health_state" where
  "report_state report = fold (\<lambda>r s. WorstState s (StateOf (ri_Status r))) (rep_Resources report) StateHealthy"

definition report_step ::
    "(string \<times> nat list) list \<Rightarrow> report_input \<Rightarrow> profile_health list \<times> resource_collector \<Rightarrow>
     profile_health list \<times> resource_collector" where
  "report_step owners report st =
     (let owning = lookup_default [] owners (rep_HealthCheckName report);
          profiles = fst st;
          collector = fold (\<lambda>r c. if ri_Status r \<noteq> HealthStatusHealthy
              then collector_add r (owningProfiles profiles owning) (rep_HealthCheckName report) c else c)
            (rep_Resources report) (snd st);
          profiles = fold (\<lambda>i ps. ps[i := (ps ! i)\<lparr>ph_State := WorstState (ph_State (ps ! i)) (report_state report)\<rparr>])
            owning profiles
      in (profiles, collector))"

definition Evaluate :: "summary_input list \<Rightarrow> report_input list \<Rightarrow> cluster_health" where
  "Evaluate summaries reports =
     (let enabled = enabledSummaries summaries in
      if enabled = [] \<and> reports = [] then
        \<lparr>ch_State = StateNotEnabled, ch_Profiles = [], ch_Resources = []\<rparr>
      else
        let profiles = map (\<lambda>s. \<lparr>ph_Profile = si_Profile s, ph_Summary = si_Summary s, ph_State = StateNoData\<rparr>) enabled;
            owners = ownersByCheck enabled;
            joined = fold (report_step owners) (sortedByHealthCheckName reports) (profiles, []);
            profiles = fst joined;
            resources = collector_sorted (snd joined);
            state = (if reports \<noteq> [] then StateHealthy else StateNoData);
            state = fold (\<lambda>p s. WorstState s (ph_State p)) profiles state;
            state = fold (\<lambda>r s. WorstState s (StateOf (ur_Status r))) resources state
        in \<lparr>ch_State = state, ch_Profiles = profiles, ch_Resources = resources\<rparr>)"

section \<open>The worst of a list of states\<close>

lemma severity_simps [simp]:
  "severity StateNotEnabled = 0" "severity StateNoData = 1" "severity StateHealthy = 2"
  "severity StateSuspended = 3" "severity StateProgressing = 4" "severity StateDegraded = 5"
  by (simp_all add: severity_def statesBestToWorst_def)

lemma severity_inject: "severity a = severity b \<longleftrightarrow> a = b"
  by (cases a; cases b) simp_all

lemma severity_WorstState: "severity (WorstState a b) = max (severity a) (severity b)"
  by (simp add: WorstState_def)

lemma worst_le_iff:
  "severity (fold (\<lambda>x s. WorstState s (g x)) xs s0) \<le> n \<longleftrightarrow>
     severity s0 \<le> n \<and> (\<forall>x \<in> set xs. severity (g x) \<le> n)"
  by (induction xs arbitrary: s0) (auto simp: severity_WorstState)

lemma severity_StateOf_healthy: "severity (StateOf st) \<le> 2 \<longleftrightarrow> st = HealthStatusHealthy \<or> (\<exists>x. st = HealthStatusOther x)"
  by (cases st) (simp_all add: StateOf_def)

section \<open>Who owns a check\<close>

lemma set_uniqueNames: "set (uniqueNames names) = set names"
proof -
  have "set (fold (\<lambda>name unique. if name \<in> set unique then unique else unique @ [name]) names acc) =
      set acc \<union> set names" for acc
    by (induction names arbitrary: acc) auto
  then show ?thesis by (simp add: uniqueNames_def)
qed

lemma lookup_owners_step:
  "lookup_default [] (fold (\<lambda>name owners. AList.update name (lookup_default [] owners name @ [i]) owners) names owners) c = [] \<longleftrightarrow>
     lookup_default [] owners c = [] \<and> c \<notin> set names"
  by (induction names arbitrary: owners) auto

definition claimed :: "summary_input list \<Rightarrow> string \<Rightarrow> bool" where
  "claimed summaries check \<longleftrightarrow> (\<exists>s \<in> set summaries. check \<in> set (check_names s))"

lemma ownersByCheck_claimed: "lookup_default [] (ownersByCheck summaries) check \<noteq> [] \<longleftrightarrow> claimed summaries check"
proof -
  have "lookup_default [] (fold (\<lambda>i owners. fold (\<lambda>name owners. AList.update name (lookup_default [] owners name @ [i]) owners)
         (check_names (summaries ! i)) owners) is owners) check = [] \<longleftrightarrow>
      lookup_default [] owners check = [] \<and> (\<forall>i \<in> set is. check \<notin> set (check_names (summaries ! i)))" for "is" owners
    by (induction "is" arbitrary: owners) (auto simp: lookup_owners_step)
  note none = this [of "[0..<length summaries]" "[]"]
  have "(\<forall>i \<in> set [0..<length summaries]. check \<notin> set (check_names (summaries ! i))) \<longleftrightarrow>
      (\<forall>s \<in> set summaries. check \<notin> set (check_names s))"
    by (auto simp: all_set_conv_all_nth)
  then show ?thesis unfolding ownersByCheck_def claimed_def none by simp
qed

section \<open>What the collector holds\<close>

text \<open>The calls of \<open>add\<close> the join makes, in order: the resource, the owning profiles and the check.\<close>

type_synonym added = "resource_input \<times> object_reference list \<times> string"

definition collect :: "added list \<Rightarrow> resource_collector \<Rightarrow> resource_collector" where
  "collect adds c = fold (\<lambda>(r, ps, n). collector_add r ps n) adds c"

definition adds_of :: "object_reference list \<Rightarrow> (string \<times> nat list) list \<Rightarrow> report_input \<Rightarrow> added list" where
  "adds_of refs owners report = map (\<lambda>r. (r, map (\<lambda>i. refs ! i) (lookup_default [] owners (rep_HealthCheckName report)),
     rep_HealthCheckName report)) (filter (\<lambda>r. ri_Status r \<noteq> HealthStatusHealthy) (rep_Resources report))"

definition added_key :: "added \<Rightarrow> resource_key" where
  "added_key a = resource_key (ri_ObjectRef (fst a))"

definition relevant :: "('a \<Rightarrow> bool) \<Rightarrow> 'a list \<Rightarrow> 'a list" where
  "relevant owned as = (if list_ex owned as then filter owned as else as)"

abbreviation owned_add :: "added \<Rightarrow> bool" where "owned_add a \<equiv> fst (snd a) \<noteq> []"

text \<open>An entry stands for the calls made with its key: it is owned when one of them was, and its status is the
  worst among the relevant ones.\<close>

definition stands_for :: "unhealthy_resource \<Rightarrow> resource_key \<Rightarrow> added list \<Rightarrow> bool" where
  "stands_for e k as \<longleftrightarrow> resource_key (ur_ObjectRef e) = k \<and> (ur_Profiles e \<noteq> [] \<longleftrightarrow> list_ex owned_add as) \<and>
     (\<exists>a \<in> set (relevant owned_add as). ri_Status (fst a) = ur_Status e) \<and>
     (\<forall>a \<in> set (relevant owned_add as). severity (StateOf (ri_Status (fst a))) \<le> severity (StateOf (ur_Status e)))"

lemma merge_profiles_fields:
  "ur_ObjectRef (merge_profiles ps e) = ur_ObjectRef e" "ur_Status (merge_profiles ps e) = ur_Status e"
  "ur_Profiles (merge_profiles ps e) = [] \<longleftrightarrow> ur_Profiles e = [] \<and> ps = []"
proof -
  show "ur_ObjectRef (merge_profiles ps e) = ur_ObjectRef e" "ur_Status (merge_profiles ps e) = ur_Status e"
    by (induction ps arbitrary: e) (auto simp: merge_profiles_def)
  have grows: "ur_Profiles e \<noteq> [] \<Longrightarrow> ur_Profiles (merge_profiles ps e) \<noteq> []" for ps e
    by (induction ps arbitrary: e) (auto simp: merge_profiles_def)
  show "ur_Profiles (merge_profiles ps e) = [] \<longleftrightarrow> ur_Profiles e = [] \<and> ps = []"
  proof (cases ps)
    case (Cons q qs)
    let ?e = "if containsRef (ur_Profiles e) q then e else e\<lparr>ur_Profiles := ur_Profiles e @ [q]\<rparr>"
    have "ur_Profiles ?e \<noteq> []" by (auto simp: containsRef_def)
    moreover have "merge_profiles ps e = merge_profiles qs ?e" by (simp add: Cons merge_profiles_def)
    ultimately show ?thesis using grows Cons by simp
  qed (simp add: merge_profiles_def)
qed

lemma stands_for_new:
  "stands_for (newUnhealthyResource r ps n) (resource_key (ri_ObjectRef r)) [(r, ps, n)]"
  by (auto simp: stands_for_def newUnhealthyResource_def relevant_def)

lemma stands_for_merge:
  assumes "stands_for e k as" "resource_key (ri_ObjectRef r) = k" "as \<noteq> []"
  shows "stands_for (merge_unhealthy r ps n e) k (as @ [(r, ps, n)])"
proof (cases "ps \<noteq> [] \<and> ur_Profiles e = []")
  case True
  then show ?thesis using assms
    by (auto simp: stands_for_def merge_unhealthy_def Let_def merge_profiles_fields newUnhealthyResource_def
        relevant_def list_ex_iff)
next
  case False
  show ?thesis
  proof (cases "ps = [] \<and> ur_Profiles e \<noteq> []")
    case True
    then have ex: "list_ex owned_add as" using assms(1) by (simp add: stands_for_def)
    with True have rel: "relevant owned_add (as @ [(r, ps, n)]) = relevant owned_add as"
      by (simp add: relevant_def)
    have "list_ex owned_add (as @ [(r, ps, n)])" using ex by simp
    then show ?thesis using assms True
      unfolding stands_for_def rel
      by (simp add: merge_unhealthy_def Let_def merge_profiles_fields)
  next
    case F2: False
    then have same: "ps \<noteq> [] \<longleftrightarrow> list_ex owned_add as" "ur_Profiles e \<noteq> [] \<longleftrightarrow> list_ex owned_add as"
      using False assms(1) by (auto simp: stands_for_def)
    then have rel: "relevant owned_add (as @ [(r, ps, n)]) = relevant owned_add as @ [(r, ps, n)]"
      by (auto simp: relevant_def)
    have "list_ex owned_add (as @ [(r, ps, n)]) \<longleftrightarrow> list_ex owned_add as" using same by auto
    then show ?thesis using assms False F2 same
      unfolding stands_for_def rel
      by (auto simp: merge_unhealthy_def Let_def merge_profiles_fields)
  qed
qed

lemma collect_stands_for:
  "case map_of (collect as []) k of
     None \<Rightarrow> filter (\<lambda>a. added_key a = k) as = []
   | Some e \<Rightarrow> filter (\<lambda>a. added_key a = k) as \<noteq> [] \<and> stands_for e k (filter (\<lambda>a. added_key a = k) as)"
proof (induction as rule: rev_induct)
  case Nil
  show ?case by (simp add: collect_def)
next
  case (snoc a as)
  obtain r ps n where a: "a = (r, ps, n)" by (cases a)
  have step: "collect (as @ [(r, ps, n)]) [] = collector_add r ps n (collect as [])" by (simp add: collect_def)
  show ?case
  proof (cases "added_key a = k")
    case False
    then show ?thesis using snoc
      by (simp add: step collector_add_def Let_def update_conv added_key_def a split: option.splits)
  next
    case True
    then have k: "resource_key (ri_ObjectRef r) = k" by (simp add: added_key_def a)
    show ?thesis
    proof (cases "map_of (collect as []) k")
      case None
      then show ?thesis using snoc True k stands_for_new [of r ps n]
        by (simp add: step collector_add_def Let_def update_conv a)
    next
      case (Some e)
      then have "stands_for e k (filter (\<lambda>a. added_key a = k) as)" "filter (\<lambda>a. added_key a = k) as \<noteq> []"
        using snoc by simp_all
      from stands_for_merge [OF this(1) k this(2), of ps n] Some True k show ?thesis
        by (simp add: step collector_add_def Let_def update_conv a)
    qed
  qed
qed

lemma distinct_collect: "distinct (map fst (collect as []))"
proof -
  have "distinct (map fst c) \<Longrightarrow> distinct (map fst (collect as c))" for c
    by (induction as arbitrary: c) (auto simp: collect_def collector_add_def Let_def distinct_update)
  then show ?thesis by simp
qed

lemma report_step_collects:
  "map ph_Profile (fst (fold (report_step owners) reps (profiles, c))) = map ph_Profile profiles \<and>
   snd (fold (report_step owners) reps (profiles, c)) =
     collect (concat (map (adds_of (map ph_Profile profiles) owners) reps)) c"
  if owners: "\<forall>name. \<forall>i \<in> set (lookup_default [] owners name). i < length profiles"
  using owners
proof (induction reps arbitrary: profiles c)
  case Nil
  show ?case by (simp add: collect_def)
next
  case (Cons rep reps)
  let ?own = "lookup_default [] owners (rep_HealthCheckName rep)"
  have upd: "map ph_Profile (ps[i := (ps ! i)\<lparr>ph_State := st\<rparr>]) = map ph_Profile ps" for ps i st
    by (cases "i < length ps") (simp_all add: map_update list_update_same_conv list_update_beyond)
  have keep: "map ph_Profile (fold (\<lambda>i ps. ps[i := (ps ! i)\<lparr>ph_State := g ps i\<rparr>]) is ps) = map ph_Profile ps"
    for g "is" and ps :: "profile_health list"
    by (induction "is" arbitrary: ps) (auto simp: upd)
  have one: "fold (\<lambda>r c. if ri_Status r \<noteq> HealthStatusHealthy then collector_add r ps n c else c) rs c =
      collect (map (\<lambda>r. (r, ps, n)) (filter (\<lambda>r. ri_Status r \<noteq> HealthStatusHealthy) rs)) c" for ps n rs c
    by (induction rs arbitrary: c) (auto simp: collect_def)
  have refs: "owningProfiles profiles ?own = map (\<lambda>i. map ph_Profile profiles ! i) ?own"
    using Cons.prems by (simp add: owningProfiles_def)
  let ?st = "report_step owners rep (profiles, c)"
  have fst: "map ph_Profile (fst ?st) = map ph_Profile profiles"
    by (simp add: report_step_def Let_def keep)
  then have len: "length (fst ?st) = length profiles" by (metis length_map)
  have snd: "snd ?st = collect (adds_of (map ph_Profile profiles) owners rep) c"
    by (simp add: report_step_def Let_def one refs adds_of_def)
  have "fold (report_step owners) (rep # reps) (profiles, c) =
      fold (report_step owners) reps (fst ?st, snd ?st)" by simp
  then show ?case
    using Cons.IH [of "fst ?st" "snd ?st"] Cons.prems fst snd len by (simp add: collect_def)
qed

section \<open>Properties\<close>

text \<open>The unhealthy resources of the reports, each with the HealthCheck that reports it.\<close>

definition unhealthy_reports :: "report_input list \<Rightarrow> (resource_input \<times> string) list" where
  "unhealthy_reports reports = concat (map (\<lambda>rep. map (\<lambda>r. (r, rep_HealthCheckName rep))
     (filter (\<lambda>r. ri_Status r \<noteq> HealthStatusHealthy) (rep_Resources rep))) reports)"

definition report_key :: "resource_input \<times> string \<Rightarrow> resource_key" where
  "report_key u = resource_key (ri_ObjectRef (fst u))"

lemma set_unhealthy_reports_sorted: "set (unhealthy_reports (sortedByHealthCheckName reports)) = set (unhealthy_reports reports)"
  by (simp add: unhealthy_reports_def sortedByHealthCheckName_def)

lemma ownersByCheck_bounded:
  "\<forall>name. \<forall>i \<in> set (lookup_default [] (ownersByCheck summaries) name). i < length summaries"
proof -
  have inner: "(\<forall>name. \<forall>j \<in> set (lookup_default [] owners name). j < n) \<Longrightarrow> i < n \<Longrightarrow>
      (\<forall>name. \<forall>j \<in> set (lookup_default [] (fold (\<lambda>name owners. AList.update name
         (lookup_default [] owners name @ [i]) owners) names owners) name). j < n)" for names owners i and n :: nat
  proof (induction names arbitrary: owners)
    case (Cons a names)
    then have "\<forall>name. \<forall>j \<in> set (lookup_default [] (AList.update a (lookup_default [] owners a @ [i]) owners) name). j < n"
      by auto
    from Cons.IH [OF this Cons.prems(2)] show ?case by simp
  qed simp
  have "(\<forall>name. \<forall>j \<in> set (lookup_default [] owners name). j < n) \<Longrightarrow> \<forall>i \<in> set is. i < n \<Longrightarrow>
      (\<forall>name. \<forall>j \<in> set (lookup_default [] (fold (\<lambda>i owners. fold (\<lambda>name owners. AList.update name
         (lookup_default [] owners name @ [i]) owners) (check_names (summaries ! i)) owners) is owners) name). j < n)"
    for "is" owners and n :: nat
  proof (induction "is" arbitrary: owners)
    case (Cons i "is")
    then have "i < n" "\<forall>i \<in> set is. i < n" by simp_all
    from Cons.IH [OF inner [OF Cons.prems(1) this(1)] this(2)] show ?case by simp
  qed simp
  from this [of "[]" "length summaries" "[0..<length summaries]"] show ?thesis by (simp add: ownersByCheck_def)
qed

definition zero_profiles :: "summary_input list \<Rightarrow> profile_health list" where
  "zero_profiles enabled =
     map (\<lambda>s. \<lparr>ph_Profile = si_Profile s, ph_Summary = si_Summary s, ph_State = StateNoData\<rparr>) enabled"

definition add_of :: "summary_input list \<Rightarrow> resource_input \<times> string \<Rightarrow> added" where
  "add_of enabled u = (fst u, map (\<lambda>i. map ph_Profile (zero_profiles enabled) ! i)
      (lookup_default [] (ownersByCheck enabled) (snd u)), snd u)"

definition evaluate_adds :: "summary_input list \<Rightarrow> report_input list \<Rightarrow> added list" where
  "evaluate_adds enabled reports = map (add_of enabled) (unhealthy_reports (sortedByHealthCheckName reports))"

lemma collected:
  "snd (fold (report_step (ownersByCheck enabled)) (sortedByHealthCheckName reports) (zero_profiles enabled, [])) =
     collect (evaluate_adds enabled reports) []"
proof -
  have "concat (map (adds_of refs owners) reps) =
      map (\<lambda>u. (fst u, map (\<lambda>i. refs ! i) (lookup_default [] owners (snd u)), snd u)) (unhealthy_reports reps)" for refs owners reps
    by (induction reps) (auto simp: adds_of_def unhealthy_reports_def)
  moreover have "\<forall>name. \<forall>i \<in> set (lookup_default [] (ownersByCheck enabled) name). i < length (zero_profiles enabled)"
    using ownersByCheck_bounded [of enabled] by (simp add: zero_profiles_def)
  ultimately show ?thesis using report_step_collects [of "ownersByCheck enabled" "zero_profiles enabled"]
    by (simp add: evaluate_adds_def add_of_def [abs_def])
qed

lemma ch_Resources_Evaluate:
  "ch_Resources (Evaluate summaries reports) =
     collector_sorted (collect (evaluate_adds (enabledSummaries summaries) reports) [])"
proof (cases "enabledSummaries summaries = [] \<and> reports = []")
  case True
  then show ?thesis
    by (simp add: Evaluate_def evaluate_adds_def unhealthy_reports_def sortedByHealthCheckName_def
        collect_def collector_sorted_def)
next
  case False
  show ?thesis
    unfolding Evaluate_def Let_def if_not_P [OF False] zero_profiles_def [symmetric] collected by simp
qed

lemma set_relevant: "set (relevant p as) = {a \<in> set as. (\<exists>b \<in> set as. p b) \<longrightarrow> p a}"
  by (auto simp: relevant_def list_ex_iff)

lemma set_relevant_image:
  "set as = F ` set us \<Longrightarrow> (\<And>u. p (F u) \<longleftrightarrow> q u) \<Longrightarrow> set (relevant p as) = F ` set (relevant q us)"
  unfolding set_relevant by auto

lemma stands_for_reports:
  assumes "stands_for e k (filter (\<lambda>a. added_key a = k) (evaluate_adds enabled reports))"
    and "us = filter (\<lambda>u. report_key u = k) (unhealthy_reports reports)"
  shows "(ur_Profiles e \<noteq> [] \<longleftrightarrow> (\<exists>u \<in> set us. claimed enabled (snd u))) \<and>
    (\<exists>u \<in> set (relevant (claimed enabled \<circ> snd) us). ri_Status (fst u) = ur_Status e) \<and>
    (\<forall>u \<in> set (relevant (claimed enabled \<circ> snd) us).
       severity (StateOf (ri_Status (fst u))) \<le> severity (StateOf (ur_Status e)))"
proof -
  let ?F = "add_of enabled"
  have F: "added_key (?F u) = report_key u" "owned_add (?F u) \<longleftrightarrow> claimed enabled (snd u)" "fst (?F u) = fst u" for u
    using ownersByCheck_claimed [of enabled "snd u"] by (auto simp: added_key_def report_key_def add_of_def)
  have as: "set (filter (\<lambda>a. added_key a = k) (evaluate_adds enabled reports)) = ?F ` set us"
    unfolding evaluate_adds_def assms(2) filter_map set_map comp_def F(1) set_filter
      set_unhealthy_reports_sorted by (rule refl)
  have rel: "set (relevant owned_add (filter (\<lambda>a. added_key a = k) (evaluate_adds enabled reports))) =
      ?F ` set (relevant (claimed enabled \<circ> snd) us)"
    using as by (rule set_relevant_image) (simp add: F(2))
  have owned: "list_ex owned_add (filter (\<lambda>a. added_key a = k) (evaluate_adds enabled reports)) \<longleftrightarrow>
      (\<exists>u \<in> set us. claimed enabled (snd u))"
    unfolding list_ex_iff as using F(2) by auto
  show ?thesis using assms(1) unfolding stands_for_def rel owned using F(3) by auto
qed

lemma listed_resources:
  assumes "h = Evaluate summaries reports"
  shows "distinct (map (\<lambda>e. resource_key (ur_ObjectRef e)) (ch_Resources h)) \<and>
    (\<lambda>e. resource_key (ur_ObjectRef e)) ` set (ch_Resources h) = report_key ` set (unhealthy_reports reports) \<and>
    (\<forall>e \<in> set (ch_Resources h).
       let us = filter (\<lambda>u. report_key u = resource_key (ur_ObjectRef e)) (unhealthy_reports reports);
           owned = (\<lambda>u. claimed (enabledSummaries summaries) (snd u))
       in (ur_Profiles e \<noteq> [] \<longleftrightarrow> (\<exists>u \<in> set us. owned u)) \<and>
          (\<exists>u \<in> set (relevant owned us). ri_Status (fst u) = ur_Status e) \<and>
          (\<forall>u \<in> set (relevant owned us).
             severity (StateOf (ri_Status (fst u))) \<le> severity (StateOf (ur_Status e))))"
proof -
  let ?en = "enabledSummaries summaries"
  let ?c = "collect (evaluate_adds ?en reports) []"
  let ?key = "\<lambda>e. resource_key (ur_ObjectRef e)"
  have res: "mset (ch_Resources h) = mset (map snd ?c)"
    unfolding assms ch_Resources_Evaluate by (simp add: collector_sorted_def)
  have entry: "stands_for e k (filter (\<lambda>a. added_key a = k) (evaluate_adds ?en reports))" if "(k, e) \<in> set ?c" for k e
    using collect_stands_for [where as = "evaluate_adds ?en reports" and k = k] map_of_is_SomeI [OF distinct_collect that] by simp
  then have key: "?key e = k" if "(k, e) \<in> set ?c" for k e using that by (auto simp: stands_for_def)
  then have keys: "map ?key (map snd ?c) = map fst ?c" by (auto simp: case_prod_unfold)
  have d: "distinct (map ?key (ch_Resources h))"
    using distinct_collect keys res by (metis mset_eq_imp_distinct_iff mset_map)
  have dom: "set (map fst ?c) = added_key ` set (evaluate_adds ?en reports)"
  proof (intro set_eqI)
    fix k
    have "map_of ?c k = None \<longleftrightarrow> filter (\<lambda>a. added_key a = k) (evaluate_adds ?en reports) = []"
      using collect_stands_for [where as = "evaluate_adds ?en reports" and k = k] by (cases "map_of ?c k") simp_all
    also have "\<dots> \<longleftrightarrow> k \<notin> added_key ` set (evaluate_adds ?en reports)"
      unfolding filter_empty_conv by blast
    finally show "k \<in> set (map fst ?c) \<longleftrightarrow> k \<in> added_key ` set (evaluate_adds ?en reports)"
      by (simp add: map_of_eq_None_iff)
  qed
  have "?key ` set (ch_Resources h) = set (map ?key (map snd ?c))"
    using res by (metis list.set_map mset_eq_setD)
  also have "\<dots> = set (map fst ?c)" by (simp only: keys)
  also have "\<dots> = added_key ` set (evaluate_adds ?en reports)" by (rule dom)
  also have "\<dots> = report_key ` set (unhealthy_reports reports)"
    unfolding evaluate_adds_def set_map set_unhealthy_reports_sorted
    by (simp add: image_image added_key_def report_key_def add_of_def)
  finally have img: "?key ` set (ch_Resources h) = report_key ` set (unhealthy_reports reports)" .
  have "stands_for e (?key e) (filter (\<lambda>a. added_key a = ?key e) (evaluate_adds ?en reports))"
    if "e \<in> set (ch_Resources h)" for e
  proof -
    have "e \<in> set (map snd ?c)" using that res by (metis mset_eq_setD)
    then obtain k where "(k, e) \<in> set ?c" by auto
    with entry key show ?thesis by blast
  qed
  from stands_for_reports [OF this refl] d img show ?thesis by (simp add: Let_def comp_def)
qed

text \<open>The listed resources are the unhealthy ones, once each. Every resource some report gives an unhealthy status is
  listed exactly once; it is owned when a profile owns one of the checks that report it; and its
  status is the worst one among the reports that count, the owned ones when there are any.\<close>

theorem listed_resources_exact:
  assumes "h = Evaluate summaries reports"
  shows "distinct (map (\<lambda>e. resource_key (ur_ObjectRef e)) (ch_Resources h)) \<and>
    (\<lambda>e. resource_key (ur_ObjectRef e)) ` set (ch_Resources h) = report_key ` set (unhealthy_reports reports) \<and>
    (\<forall>e \<in> set (ch_Resources h).
       let us = filter (\<lambda>u. report_key u = resource_key (ur_ObjectRef e)) (unhealthy_reports reports);
           owned = (\<lambda>u. claimed (enabledSummaries summaries) (snd u))
       in (ur_Profiles e \<noteq> [] \<longleftrightarrow> (\<exists>u \<in> set us. owned u)) \<and>
          (\<exists>u \<in> set (relevant owned us). ri_Status (fst u) = ur_Status e) \<and>
          (\<forall>u \<in> set (relevant owned us).
             severity (StateOf (ri_Status (fst u))) \<le> severity (StateOf (ur_Status e))))"
  using assms by (rule listed_resources)

lemma report_step_states:
  "(\<forall>p \<in> set ps. severity (ph_State p) \<le> n) \<Longrightarrow> (\<forall>rep \<in> set reps. severity (report_state rep) \<le> n) \<Longrightarrow>
   (\<forall>p \<in> set (fst (fold (report_step owners) reps (ps, c))). severity (ph_State p) \<le> n)"
proof (induction reps arbitrary: ps c)
  case (Cons rep reps)
  have upd: "\<forall>p \<in> set (fold (\<lambda>i ps. ps[i := (ps ! i)\<lparr>ph_State := WorstState (ph_State (ps ! i)) (report_state rep)\<rparr>]) is qs).
      severity (ph_State p) \<le> n"
    if "\<forall>p \<in> set qs. severity (ph_State p) \<le> n" for "is" and qs :: "profile_health list"
    using that
  proof (induction "is" arbitrary: qs)
    case (Cons i "is")
    have "\<forall>p \<in> set (qs[i := (qs ! i)\<lparr>ph_State := WorstState (ph_State (qs ! i)) (report_state rep)\<rparr>]).
        severity (ph_State p) \<le> n"
    proof (cases "i < length qs")
      case True
      then have "severity (ph_State (qs ! i)) \<le> n" using Cons.prems by simp
      then show ?thesis using Cons.prems \<open>\<forall>rep \<in> set (rep # reps). severity (report_state rep) \<le> n\<close>
        by (auto simp: severity_WorstState dest!: set_update_subset_insert [THEN subsetD])
    qed (use Cons.prems in \<open>simp add: list_update_beyond\<close>)
    from Cons.IH [OF this] show ?case by simp
  qed simp
  have "\<forall>p \<in> set (fst (report_step owners rep (ps, c))). severity (ph_State p) \<le> n"
    using upd [OF Cons.prems(1)] by (simp add: report_step_def Let_def)
  from Cons.IH [OF this, of "snd (report_step owners rep (ps, c))"] Cons.prems(2) show ?case by simp
qed simp

lemma listed_status_reported:
  "e \<in> set (ch_Resources (Evaluate summaries reports)) \<Longrightarrow>
   \<exists>u \<in> set (unhealthy_reports reports). ri_Status (fst u) = ur_Status e"
  using listed_resources [OF refl, of summaries reports] unfolding Let_def set_relevant set_filter by blast

text \<open>A cluster is Healthy exactly when it has a report and every resource of every report is Healthy, and
  NotEnabled exactly when nothing is monitored and nothing reported, provided the
  reports use the four known statuses.\<close>

theorem cluster_state_healthy_iff:
  assumes known: "\<forall>rep \<in> set reports. \<forall>r \<in> set (rep_Resources rep). \<forall>x. ri_Status r \<noteq> HealthStatusOther x"
  shows "(ch_State (Evaluate summaries reports) = StateHealthy \<longleftrightarrow>
      reports \<noteq> [] \<and> (\<forall>rep \<in> set reports. \<forall>r \<in> set (rep_Resources rep). ri_Status r = HealthStatusHealthy)) \<and>
    (ch_State (Evaluate summaries reports) = StateNotEnabled \<longleftrightarrow> enabledSummaries summaries = [] \<and> reports = [])"
proof (cases "enabledSummaries summaries = [] \<and> reports = []")
  case True
  then show ?thesis by (simp add: Evaluate_def)
next
  case False
  let ?h = "Evaluate summaries reports"
  let ?s0 = "if reports \<noteq> [] then StateHealthy else StateNoData"
  let ?s1 = "fold (\<lambda>p s. WorstState s (ph_State p)) (ch_Profiles ?h) ?s0"
  have state: "ch_State ?h = fold (\<lambda>r s. WorstState s (StateOf (ur_Status r))) (ch_Resources ?h) ?s1"
    and profiles: "ch_Profiles ?h = fst (fold (report_step (ownersByCheck (enabledSummaries summaries)))
        (sortedByHealthCheckName reports) (zero_profiles (enabledSummaries summaries), []))"
    unfolding Evaluate_def Let_def if_not_P [OF False] zero_profiles_def [symmetric] by simp_all
  have le: "severity (ch_State ?h) \<le> n \<longleftrightarrow> severity ?s0 \<le> n \<and>
      (\<forall>p \<in> set (ch_Profiles ?h). severity (ph_State p) \<le> n) \<and>
      (\<forall>r \<in> set (ch_Resources ?h). severity (StateOf (ur_Status r)) \<le> n)" for n
    unfolding state worst_le_iff by blast
  have ne: "ch_State ?h \<noteq> StateNotEnabled" using le [of 0] by (auto split: if_splits)
  have healthy: "ch_State ?h = StateHealthy \<longleftrightarrow> severity (ch_State ?h) \<le> 2 \<and> \<not> severity (ch_State ?h) \<le> 1"
    by (cases "ch_State ?h") simp_all
  have none: "ch_Resources ?h = [] \<longleftrightarrow> unhealthy_reports reports = []"
    using listed_resources [OF refl, of summaries reports] by (metis image_is_empty set_empty)
  have bad: "\<not> severity (StateOf (ur_Status e)) \<le> 2" if "e \<in> set (ch_Resources ?h)" for e
    using listed_status_reported [OF that] known by (auto simp: unhealthy_reports_def severity_StateOf_healthy)
  have reports_state: "unhealthy_reports reports = [] \<Longrightarrow> rep \<in> set reports \<Longrightarrow> severity (report_state rep) \<le> 2" for rep
    unfolding report_state_def worst_le_iff severity_StateOf_healthy
    by (auto simp: unhealthy_reports_def filter_empty_conv)
  have prof: "unhealthy_reports reports = [] \<Longrightarrow> p \<in> set (ch_Profiles ?h) \<Longrightarrow> severity (ph_State p) \<le> 2" for p
    using report_step_states [of "zero_profiles (enabledSummaries summaries)" 2 "sortedByHealthCheckName reports"]
      reports_state unfolding profiles by (auto simp: zero_profiles_def sortedByHealthCheckName_def)
  have le1: "unhealthy_reports reports = [] \<Longrightarrow> reports = [] \<Longrightarrow> severity (ch_State ?h) \<le> 1"
    using none report_step_states [of "zero_profiles (enabledSummaries summaries)" 1 "[]"]
    unfolding le profiles by (auto simp: zero_profiles_def sortedByHealthCheckName_def)
  have "severity (ch_State ?h) \<le> 2 \<longleftrightarrow> unhealthy_reports reports = []"
    using none bad prof unfolding le [of 2] by (cases "ch_Resources ?h") auto
  moreover have "\<not> severity (ch_State ?h) \<le> 1" if "reports \<noteq> []" using that unfolding le by simp
  ultimately have "ch_State ?h = StateHealthy \<longleftrightarrow> reports \<noteq> [] \<and> unhealthy_reports reports = []"
    using le1 unfolding healthy by blast
  then show ?thesis using ne False by (auto simp: unhealthy_reports_def filter_empty_conv)
qed

text \<open>The outcome does not depend on the order in which the reports are passed, as long as no two of them
  belong to the same HealthCheck.\<close>

theorem evaluate_order_independent:
  assumes "mset reports = mset reports'" "distinct (map rep_HealthCheckName reports)"
  shows "Evaluate summaries reports = Evaluate summaries reports'"
proof -
  have "inj_on rep_HealthCheckName (set reports)" using assms(2) by (simp add: distinct_map)
  then have "sortedByHealthCheckName reports = sortedByHealthCheckName reports'"
    unfolding sortedByHealthCheckName_def using assms(1)
    by (intro sort_key_inj_key_eq) simp_all
  moreover have "reports = [] \<longleftrightarrow> reports' = []" using assms(1) by (metis mset_zero_iff)
  ultimately show ?thesis by (simp add: Evaluate_def Let_def)
qed

section \<open>Witnesses\<close>

definition sample_ref :: "string \<Rightarrow> string \<Rightarrow> object_reference" where
  "sample_ref k n = \<lparr>ref_Kind = k, ref_Namespace = ''ns'', ref_Name = n, ref_APIVersion = ''v1''\<rparr>"

definition sample_resource :: "string \<Rightarrow> health_status \<Rightarrow> resource_input" where
  "sample_resource n st = \<lparr>ri_ObjectRef = sample_ref ''Deployment'' n, ri_Status = st, ri_Message = []\<rparr>"

definition sample_reports :: "report_input list" where
  "sample_reports =
     [\<lparr>rep_HealthCheckName = ''b'', rep_Resources = [sample_resource ''x'' HealthStatusDegraded]\<rparr>,
      \<lparr>rep_HealthCheckName = ''a'', rep_Resources = [sample_resource ''x'' HealthStatusSuspended]\<rparr>]"

definition sample_summaries :: "summary_input list" where
  "sample_summaries = [\<lparr>si_Summary = sample_ref ''ClusterSummary'' ''s'', si_Profile = sample_ref ''ClusterProfile'' ''p'',
     si_Enabled = True, si_ListedChecks = [], si_GeneratedCheck = ''a''\<rparr>]"

text \<open>The resource \<open>x\<close> is Suspended for the check the profile owns and Degraded for one nobody owns: Suspended
  counts.\<close>

theorem listed_resources_exact_witness:
  "ur_Status ` set (ch_Resources (Evaluate sample_summaries sample_reports)) = {HealthStatusSuspended}"
proof -
  have us: "unhealthy_reports sample_reports =
      [(sample_resource ''x'' HealthStatusDegraded, ''b''), (sample_resource ''x'' HealthStatusSuspended, ''a'')]"
    by (simp add: unhealthy_reports_def sample_reports_def sample_resource_def)
  have cl: "claimed (enabledSummaries sample_summaries) c \<longleftrightarrow> c = ''a''" for c
    by (simp add: claimed_def enabledSummaries_def sample_summaries_def check_names_def uniqueNames_def)
  note ex = listed_resources_exact [OF refl, of sample_summaries sample_reports]
  have "ur_Status e = HealthStatusSuspended"
    if e: "e \<in> set (ch_Resources (Evaluate sample_summaries sample_reports))" for e
  proof -
    have "resource_key (ur_ObjectRef e) = resource_key (sample_ref ''Deployment'' ''x'')"
      using ex e by (auto simp: us report_key_def sample_resource_def)
    with ex e show "ur_Status e = HealthStatusSuspended"
      by (auto simp: us cl relevant_def report_key_def sample_resource_def Let_def)
  qed
  then have "ur_Status ` set (ch_Resources (Evaluate sample_summaries sample_reports)) \<subseteq> {HealthStatusSuspended}"
    by blast
  moreover have "set (ch_Resources (Evaluate sample_summaries sample_reports)) \<noteq> {}"
    using ex by (auto simp: us)
  ultimately show ?thesis by (simp only: subset_singleton_iff image_is_empty) blast
qed

theorem cluster_state_healthy_iff_witness:
  "ch_State (Evaluate sample_summaries [\<lparr>rep_HealthCheckName = ''a'',
     rep_Resources = [sample_resource ''x'' HealthStatusHealthy]\<rparr>]) = StateHealthy"
  using cluster_state_healthy_iff [of "[\<lparr>rep_HealthCheckName = ''a'',
     rep_Resources = [sample_resource ''x'' HealthStatusHealthy]\<rparr>]" sample_summaries]
  by (simp add: sample_resource_def)

theorem evaluate_order_independent_witness:
  "Evaluate sample_summaries sample_reports = Evaluate sample_summaries (rev sample_reports)"
  by (rule evaluate_order_independent) (simp_all add: sample_reports_def)

end
