(* ===== verification/Object_Set.thy ===== *)
theory Object_Set
  imports Api_Types
begin

text \<open>
  The interface of the reference sets the controllers keep, \<open>libsveltosset.Set\<close>. The
  library is not part of the repository, so every model that uses such a set takes its operations as
  a record \<open>'s set_ops\<close>, and the results about it hold for any record that satisfies
  the contract \<open>object_set\<close>: insertion and removal of one reference, membership, a duplicate free listing in an
  order the caller cannot rely on, and the difference of two sets.

  The Go sets are pointers that operations change in place; each is reached through one map entry, so
  the models store the updated set back under its key.
\<close>

record 's set_ops =
  so_empty :: 's
  so_insert :: "object_reference \<Rightarrow> 's \<Rightarrow> 's"
  so_erase :: "object_reference \<Rightarrow> 's \<Rightarrow> 's"
  so_has :: "'s \<Rightarrow> object_reference \<Rightarrow> bool"
  so_items :: "'s \<Rightarrow> object_reference list"
  so_difference :: "'s \<Rightarrow> 's \<Rightarrow> object_reference list"

definition so_len :: "'s set_ops \<Rightarrow> 's \<Rightarrow> nat" where
  "so_len ops s = length (so_items ops s)"

locale object_set =
  fixes ops :: "'s set_ops"
  assumes items_empty [simp]: "set (so_items ops (so_empty ops)) = {}"
    and items_insert [simp]: "set (so_items ops (so_insert ops x s)) = insert x (set (so_items ops s))"
    and items_erase [simp]: "set (so_items ops (so_erase ops x s)) = set (so_items ops s) - {x}"
    and has_iff [simp]: "so_has ops s x \<longleftrightarrow> x \<in> set (so_items ops s)"
    and items_distinct [simp]: "distinct (so_items ops s)"
    and set_difference [simp]: "set (so_difference ops s t) = set (so_items ops s) - set (so_items ops t)"
begin

abbreviation elems :: "'s \<Rightarrow> object_reference set" where
  "elems s \<equiv> set (so_items ops s)"

lemma len_zero_iff [simp]: "so_len ops s = 0 \<longleftrightarrow> elems s = {}"
  by (simp add: so_len_def)

lemma items_empty_Nil [simp]: "so_items ops (so_empty ops) = []"
  using items_empty by blast

lemma items_erase_Nil [simp]: "so_items ops (so_erase ops x s) = [] \<longleftrightarrow> elems s \<subseteq> {x}"
proof -
  have "so_items ops (so_erase ops x s) = [] \<longleftrightarrow> elems (so_erase ops x s) = {}" by (rule set_empty [symmetric])
  then show ?thesis by (simp only: items_erase Diff_eq_empty_iff)
qed

lemma elems_fold_insert: "elems (fold (so_insert ops) xs s) = set xs \<union> elems s"
  by (induction xs arbitrary: s) auto

lemma len_card: "so_len ops s = card (elems s)"
  by (simp add: so_len_def distinct_card)

lemma elems_fold_insert_map: "elems (fold (\<lambda>x. so_insert ops (f x)) xs s) = f ` set xs \<union> elems s"
  by (induction xs arbitrary: s) auto

end

text \<open>A set kept as the list of its elements in the order of their insertion.\<close>

definition list_set_ops :: "object_reference list set_ops" where
  "list_set_ops = \<lparr>so_empty = [], so_insert = (\<lambda>x s. if x \<in> set s then s else s @ [x]),
     so_erase = (\<lambda>x s. filter (\<lambda>y. y \<noteq> x) s), so_has = (\<lambda>s x. x \<in> set s), so_items = remdups,
     so_difference = (\<lambda>s t. filter (\<lambda>x. x \<notin> set t) (remdups s))\<rparr>"

interpretation list_object_set: object_set list_set_ops
  by unfold_locales (auto simp: list_set_ops_def)

end
