(* ===== verification/Dependency_Manager.thy ===== *)
theory Dependency_Manager
  imports Object_Set "HOL-Library.Product_Lexorder"
begin

text \<open>
  The dependency manager (controllers/dependencymanager/manager.go): on which clusters a profile must be
  deployed because other profiles depend on it.

  The state maps a prerequisite profile to clusters, and a cluster to the dependents that ask for the
  prerequisite there. \<open>needs\<close> reads it as a relation between the three, and \<open>UpdateDependencies\<close>
  is shown to replace the rows of one dependent. The maps nested in Go structs are shared references there: every
  function that changes one writes it back under its key, so a value model reads the same. A nil map and
  an empty map are one value here, since no branch on nil differs from the branch on an empty map.

  Profiles in the API server are a store indexed by kind, namespace and name. sha256 and
  render.AsCode come from outside and are the functions \<open>sha\<close> and \<open>asCode\<close>.
\<close>

section \<open>State\<close>

type_synonym requesting_profiles = "(object_reference \<times> bool) list"
type_synonym cluster_deployments = "(object_reference \<times> requesting_profiles) list"
type_synonym profile_deployments = "(object_reference \<times> cluster_deployments) list"

record 's dependency_manager =
  profileClusterRequests :: profile_deployments
  profilePrerequisites :: "(object_reference \<times> 's) list"
  profileToBeUpdated :: "(object_reference \<times> bool) list"
  dm_enabled :: bool
  dm_initialized :: bool

definition InitializeManagerInstance :: "bool \<Rightarrow> 's dependency_manager" where
  "InitializeManagerInstance enabled = \<lparr>profileClusterRequests = [], profilePrerequisites = [],
     profileToBeUpdated = [], dm_enabled = enabled, dm_initialized = \<not> enabled\<rparr>"

text \<open>\<open>GetManagerInstance\<close> on the singleton, which is \<open>None\<close> before the initialisation.\<close>

definition GetManagerInstance :: "'s dependency_manager option \<Rightarrow> string + 's dependency_manager" where
  "GetManagerInstance managerInstance =
     (case managerInstance of
        None \<Rightarrow> Inl ''dependency manager not initialized yet''
      | Some m \<Rightarrow> if \<not> dm_initialized m then Inl ''dependency manager not initialized yet'' else Inr m)"

section \<open>The nested maps\<close>

definition addDependent :: "object_reference \<Rightarrow> requesting_profiles \<Rightarrow> requesting_profiles" where
  "addDependent dependent rp = AList.update dependent True rp"

definition removeRequestingDependent :: "object_reference \<Rightarrow> requesting_profiles \<Rightarrow> requesting_profiles" where
  "removeRequestingDependent dependent rp = AList.delete dependent rp"

definition addCluster :: "object_reference \<Rightarrow> cluster_deployments \<Rightarrow> cluster_deployments" where
  "addCluster cluster cd = (if map_of cd cluster = None then AList.update cluster [] cd else cd)"

definition hasCluster :: "object_reference \<Rightarrow> cluster_deployments \<Rightarrow> bool" where
  "hasCluster cluster cd \<longleftrightarrow> map_of cd cluster \<noteq> None"

definition getRequestingProfiles :: "object_reference \<Rightarrow> cluster_deployments \<Rightarrow> requesting_profiles" where
  "getRequestingProfiles cluster cd = lookup_default [] cd cluster"

definition setRequestingProfiles ::
    "object_reference \<Rightarrow> requesting_profiles \<Rightarrow> cluster_deployments \<Rightarrow> cluster_deployments" where
  "setRequestingProfiles cluster dependents cd = AList.update cluster dependents cd"

definition addProfile :: "object_reference \<Rightarrow> cluster_deployments \<Rightarrow> profile_deployments \<Rightarrow> profile_deployments" where
  "addProfile profile deployments pd = AList.update profile deployments pd"

definition removeProfile :: "object_reference \<Rightarrow> profile_deployments \<Rightarrow> profile_deployments" where
  "removeProfile profile pd = AList.delete profile pd"

definition hasProfile :: "object_reference \<Rightarrow> profile_deployments \<Rightarrow> bool" where
  "hasProfile profile pd \<longleftrightarrow> map_of pd profile \<noteq> None"

definition getClusterDeployments :: "object_reference \<Rightarrow> profile_deployments \<Rightarrow> cluster_deployments" where
  "getClusterDeployments profile pd = lookup_default [] pd profile"

lemmas dep_map_defs = addDependent_def removeRequestingDependent_def addCluster_def hasCluster_def
  getRequestingProfiles_def setRequestingProfiles_def addProfile_def removeProfile_def hasProfile_def
  getClusterDeployments_def

section \<open>Operations\<close>

definition mark_to_be_updated :: "object_reference \<Rightarrow> 's dependency_manager \<Rightarrow> 's dependency_manager" where
  "mark_to_be_updated profile m =
     m\<lparr>profileToBeUpdated := AList.update profile True (profileToBeUpdated m)\<rparr>"

definition GetClusterDeployments :: "object_reference \<Rightarrow> 's dependency_manager \<Rightarrow> object_reference list option" where
  "GetClusterDeployments profile m =
     (if \<not> dm_enabled m then None
      else Some (map fst (getClusterDeployments profile (profileClusterRequests m))))"

definition registerProfileClusterDependency :: "object_reference \<Rightarrow> object_reference \<Rightarrow> object_reference \<Rightarrow>
    's dependency_manager \<Rightarrow> 's dependency_manager" where
  "registerProfileClusterDependency prerequisite cluster dependent m =
     (let clusterDeployments = getClusterDeployments prerequisite (profileClusterRequests m);
          m = (if \<not> hasCluster cluster clusterDeployments then mark_to_be_updated prerequisite m else m);
          clusterDeployments = addCluster cluster clusterDeployments;
          requestingProfiles = addDependent dependent (getRequestingProfiles cluster clusterDeployments);
          clusterDeployments = setRequestingProfiles cluster requestingProfiles clusterDeployments;
          m = (if hasProfile prerequisite (profileClusterRequests m) then mark_to_be_updated prerequisite m else m)
      in m\<lparr>profileClusterRequests := addProfile prerequisite clusterDeployments (profileClusterRequests m)\<rparr>)"

definition scheduleProfileDeploymentToClusters :: "object_reference \<Rightarrow> object_reference \<Rightarrow>
    object_reference list \<Rightarrow> 's dependency_manager \<Rightarrow> 's dependency_manager" where
  "scheduleProfileDeploymentToClusters prerequisite dependent matchingClusters m =
     fold (\<lambda>cluster. registerProfileClusterDependency prerequisite cluster dependent) matchingClusters m"

text \<open>The loop of \<open>removeDependent\<close> over the clusters of the prerequisite; the flag tells whether one was deleted.\<close>

definition removeDependent_step :: "object_reference \<Rightarrow> (object_reference \<times> bool) list \<Rightarrow>
    object_reference \<times> requesting_profiles \<Rightarrow> cluster_deployments \<times> bool \<Rightarrow> cluster_deployments \<times> bool" where
  "removeDependent_step dependent excludeClusters entry acc =
     (if map_of excludeClusters (fst entry) \<noteq> None then acc
      else let requestingProfiles = removeRequestingDependent dependent (snd entry) in
        if requestingProfiles = [] then (AList.delete (fst entry) (fst acc), True)
        else (AList.update (fst entry) requestingProfiles (fst acc), snd acc))"

definition removeDependent :: "object_reference \<Rightarrow> object_reference \<Rightarrow> (object_reference \<times> bool) list \<Rightarrow>
    's dependency_manager \<Rightarrow> 's dependency_manager" where
  "removeDependent prerequisite dependent excludeClusters m =
     (if profileClusterRequests m = [] then m
      else let clusterDeployments = getClusterDeployments prerequisite (profileClusterRequests m);
               loop = fold (removeDependent_step dependent excludeClusters) clusterDeployments
                        (clusterDeployments, False);
               m = (if snd loop then mark_to_be_updated prerequisite m else m)
      in if fst loop = [] then
           m\<lparr>profileClusterRequests := removeProfile prerequisite (profileClusterRequests m)\<rparr>
         else m\<lparr>profileClusterRequests := addProfile prerequisite (fst loop) (profileClusterRequests m)\<rparr>)"

definition cleanStaleDependencies :: "'s set_ops \<Rightarrow> object_reference \<Rightarrow> 's \<Rightarrow> object_reference list \<Rightarrow>
    's dependency_manager \<Rightarrow> 's dependency_manager" where
  "cleanStaleDependencies ops dependent currentDependencies matchingClusters m =
     (let matchingClustersMap = fold (\<lambda>mc. AList.update mc True) matchingClusters [];
          m = fold (\<lambda>item. removeDependent item dependent matchingClustersMap)
                (so_items ops currentDependencies) m
      in case map_of (profilePrerequisites m) dependent of
           None \<Rightarrow> m
         | Some previousDependencies \<Rightarrow>
             fold (\<lambda>stalePrerequisite. removeDependent stalePrerequisite dependent [])
               (so_difference ops previousDependencies currentDependencies) m)"

definition UpdateDependencies :: "'s set_ops \<Rightarrow> object_reference \<Rightarrow> object_reference list \<Rightarrow>
    object_reference list \<Rightarrow> 's dependency_manager \<Rightarrow> 's dependency_manager" where
  "UpdateDependencies ops dependent matchingClusters prerequisites m =
     (if \<not> dm_enabled m then m
      else
        let m = fold (\<lambda>prerequisite. scheduleProfileDeploymentToClusters prerequisite dependent matchingClusters)
                  prerequisites m;
            currentDependencies = fold (so_insert ops) prerequisites (so_empty ops);
            m = cleanStaleDependencies ops dependent currentDependencies matchingClusters m;
            m = (if map_of (profilePrerequisites m) dependent = None
                 then m\<lparr>profilePrerequisites := AList.update dependent (so_empty ops) (profilePrerequisites m)\<rparr>
                 else m)
        in fold (\<lambda>prerequisite m. m\<lparr>profilePrerequisites := AList.update dependent
             (so_insert ops prerequisite (lookup_default (so_empty ops) (profilePrerequisites m) dependent))
             (profilePrerequisites m)\<rparr>) prerequisites m)"

definition getPrerequesites :: "string \<Rightarrow> string \<Rightarrow> string list \<Rightarrow> object_reference list" where
  "getPrerequesites kind namespace dependsOn = map (\<lambda>name. \<lparr>ref_Kind = kind, ref_Namespace = namespace,
     ref_Name = name, ref_APIVersion = ''config.projectsveltos.io/v1beta1''\<rparr>) dependsOn"

section \<open>Publishing the hash of the clusters\<close>

definition ref_less_key :: "object_reference \<Rightarrow> string \<times> string \<times> string" where
  "ref_less_key r = (ref_Kind r, ref_Namespace r, ref_Name r)"

definition calculateHash :: "(string \<Rightarrow> bytes) \<Rightarrow> (nat \<Rightarrow> string) \<Rightarrow> cluster_deployments \<Rightarrow> bytes option" where
  "calculateHash sha asCode data =
     (if data = [] then None
      else let keys = sort_key ref_less_key (map fst data)
           in Some (sha (fold (\<lambda>k config. config @ asCode k) [0..<length keys] [])))"

type_synonym profile_store = "string \<times> string \<times> string \<Rightarrow> profile option"

text \<open>Which calls to the API server fail, by the object they are for.\<close>

record api_faults =
  af_Get :: "string \<times> string \<times> string \<Rightarrow> bool"
  af_Update :: "string \<times> string \<times> string \<Rightarrow> bool"

definition updateProfileStatus :: "(string \<Rightarrow> bytes) \<Rightarrow> (nat \<Rightarrow> string) \<Rightarrow> api_faults \<Rightarrow>
    string \<times> string \<times> string \<Rightarrow> cluster_deployments \<Rightarrow> profile_store \<Rightarrow> bool \<times> profile_store" where
  "updateProfileStatus sha asCode faults key clusters store =
     (if af_Get faults key then (False, store)
      else case store key of
        None \<Rightarrow> (True, store)
      | Some currentProfile \<Rightarrow>
          if om_DeletionTimestamp (prof_Meta currentProfile) \<noteq> None then (True, store)
          else if af_Update faults key then (False, store)
          else (True, store(key := Some (currentProfile\<lparr>prof_Status :=
             (prof_Status currentProfile)\<lparr>pst_DependenciesHash := calculateHash sha asCode clusters\<rparr>\<rparr>))))"

definition updateProfile :: "(string \<Rightarrow> bytes) \<Rightarrow> (nat \<Rightarrow> string) \<Rightarrow> api_faults \<Rightarrow>
    object_reference \<Rightarrow> cluster_deployments \<Rightarrow> profile_store \<Rightarrow> bool \<times> profile_store" where
  "updateProfile sha asCode faults profile =
     updateProfileStatus sha asCode faults (ProfileKind, ref_Namespace profile, ref_Name profile)"

definition updateClusterProfile :: "(string \<Rightarrow> bytes) \<Rightarrow> (nat \<Rightarrow> string) \<Rightarrow> api_faults \<Rightarrow>
    object_reference \<Rightarrow> cluster_deployments \<Rightarrow> profile_store \<Rightarrow> bool \<times> profile_store" where
  "updateClusterProfile sha asCode faults clusterProfile =
     updateProfileStatus sha asCode faults (ClusterProfileKind, [], ref_Name clusterProfile)"

text \<open>The first component of the result tells whether the returned error is nil.\<close>

definition updateProfileInstance :: "(string \<Rightarrow> bytes) \<Rightarrow> (nat \<Rightarrow> string) \<Rightarrow> api_faults \<Rightarrow>
    object_reference \<Rightarrow> cluster_deployments \<Rightarrow> profile_store \<Rightarrow> bool \<times> profile_store" where
  "updateProfileInstance sha asCode faults profile clusters store =
     (if ref_Kind profile = ProfileKind then updateProfile sha asCode faults profile clusters store
      else updateClusterProfile sha asCode faults profile clusters store)"

text \<open>One iteration of the loop of \<open>updateProfiles\<close>. \<open>during\<close> is what the other goroutines do to
  the manager after the API calls, before the lock is taken again.\<close>

definition updateProfiles_round :: "(string \<Rightarrow> bytes) \<Rightarrow> (nat \<Rightarrow> string) \<Rightarrow> api_faults \<Rightarrow>
    ('s dependency_manager \<Rightarrow> 's dependency_manager) \<Rightarrow> 's dependency_manager \<times> profile_store \<Rightarrow>
    's dependency_manager \<times> profile_store" where
  "updateProfiles_round sha asCode faults during ms =
     (let m = fst ms;
          toUpdate = map fst (profileToBeUpdated m);
          clustersByProfile = map (\<lambda>profile. (profile, getClusterDeployments profile (profileClusterRequests m))) toUpdate;
          calls = fold (\<lambda>profile acc.
            let r = updateProfileInstance sha asCode faults profile
                      (lookup_default [] clustersByProfile profile) (snd acc)
            in if fst r then (fst acc @ [profile], snd r) else (fst acc, snd r)) toUpdate ([], snd ms);
          m = during m
      in (m\<lparr>profileToBeUpdated := fold AList.delete (fst calls) (profileToBeUpdated m)\<rparr>, snd calls))"

text \<open>The predicate under which a status update of a profile triggers its reconciliation
  (controllers/clusterprofile_predicates.go).\<close>

definition getDependenciesHash :: "profile \<Rightarrow> bytes option" where
  "getDependenciesHash p = pst_DependenciesHash (prof_Status p)"

definition DependenciesHashChanged :: "profile \<Rightarrow> profile \<Rightarrow> bool" where
  "DependenciesHashChanged objectOld objectNew \<longleftrightarrow>
     slice (getDependenciesHash objectOld) \<noteq> slice (getDependenciesHash objectNew)"

section \<open>Rebuilding the state when the controller starts\<close>

definition rebuildStateWith :: "'s set_ops \<Rightarrow> (profile \<Rightarrow> object_reference) \<Rightarrow> (profile \<Rightarrow> object_reference list) \<Rightarrow>
    profile list \<Rightarrow> 's dependency_manager \<Rightarrow> 's dependency_manager" where
  "rebuildStateWith ops ref_of prereqs_of items m =
     fold (\<lambda>p m. if ps_DependsOn (prof_Spec p) = [] then m
       else UpdateDependencies ops (ref_of p) (pst_MatchingClusterRefs (prof_Status p)) (prereqs_of p) m) items m"

definition profile_ref :: "profile \<Rightarrow> object_reference" where
  "profile_ref p = \<lparr>ref_Kind = ProfileKind, ref_Namespace = om_Namespace (prof_Meta p),
     ref_Name = om_Name (prof_Meta p), ref_APIVersion = ''config.projectsveltos.io/v1beta1''\<rparr>"

definition cluster_profile_ref :: "profile \<Rightarrow> object_reference" where
  "cluster_profile_ref p = \<lparr>ref_Kind = ClusterProfileKind, ref_Namespace = [],
     ref_Name = om_Name (prof_Meta p), ref_APIVersion = ''config.projectsveltos.io/v1beta1''\<rparr>"

definition rebuildStateWithProfiles :: "'s set_ops \<Rightarrow> 'e + profile list \<Rightarrow> 's dependency_manager \<Rightarrow>
    bool \<times> 's dependency_manager" where
  "rebuildStateWithProfiles ops listed m =
     (case listed of
        Inl _ \<Rightarrow> (False, m)
      | Inr items \<Rightarrow> (True, rebuildStateWith ops profile_ref
          (\<lambda>p. getPrerequesites ProfileKind (om_Namespace (prof_Meta p)) (ps_DependsOn (prof_Spec p))) items m))"

definition rebuildStateWithClusterProfiles :: "'s set_ops \<Rightarrow> 'e + profile list \<Rightarrow> 's dependency_manager \<Rightarrow>
    bool \<times> 's dependency_manager" where
  "rebuildStateWithClusterProfiles ops listed m =
     (case listed of
        Inl _ \<Rightarrow> (False, m)
      | Inr items \<Rightarrow> (True, rebuildStateWith ops cluster_profile_ref
          (\<lambda>p. getPrerequesites ClusterProfileKind [] (ps_DependsOn (prof_Spec p))) items m))"

text \<open>The retry loop, over the answers the two list calls get in each attempt; \<open>None\<close> while no attempt has
  succeeded.\<close>

fun rebuild_attempts :: "'s set_ops \<Rightarrow> (('e + profile list) \<times> ('e + profile list)) list \<Rightarrow>
    's dependency_manager \<Rightarrow> 's dependency_manager option" where
  "rebuild_attempts ops [] m = None"
| "rebuild_attempts ops (answers # rest) m =
     (let profiles = rebuildStateWithProfiles ops (fst answers) m in
      if \<not> fst profiles then rebuild_attempts ops rest (snd profiles)
      else let clusterProfiles = rebuildStateWithClusterProfiles ops (snd answers) (snd profiles) in
        if \<not> fst clusterProfiles then rebuild_attempts ops rest (snd clusterProfiles)
        else Some (snd clusterProfiles))"

definition rebuildState :: "'s set_ops \<Rightarrow> (string \<Rightarrow> bytes) \<Rightarrow> (nat \<Rightarrow> string) \<Rightarrow> api_faults \<Rightarrow>
    (('e + profile list) \<times> ('e + profile list)) list \<Rightarrow> 's dependency_manager \<times> profile_store \<Rightarrow>
    ('s dependency_manager \<times> profile_store) option" where
  "rebuildState ops sha asCode faults attempts ms =
     (case rebuild_attempts ops attempts (fst ms) of
        None \<Rightarrow> None
      | Some m \<Rightarrow>
          let loop = fold (\<lambda>profile acc.
                let r = updateProfileInstance sha asCode faults profile
                          (getClusterDeployments profile (profileClusterRequests (fst acc))) (snd acc)
                in ((if fst r then (fst acc)\<lparr>profileToBeUpdated := AList.delete profile (profileToBeUpdated (fst acc))\<rparr>
                     else fst acc), snd r))
                (map fst (profileToBeUpdated m)) (m, snd ms)
          in Some ((fst loop)\<lparr>dm_initialized := True\<rparr>, snd loop))"

section \<open>The relation behind the nested maps\<close>

abbreviation clusters_of :: "'s dependency_manager \<Rightarrow> object_reference \<Rightarrow> cluster_deployments" where
  "clusters_of m p \<equiv> getClusterDeployments p (profileClusterRequests m)"

text \<open>Prerequisite \<open>p\<close> must be deployed on cluster \<open>c\<close> because of dependent \<open>d\<close>.\<close>

definition needs :: "'s dependency_manager \<Rightarrow> object_reference \<Rightarrow> object_reference \<Rightarrow> object_reference \<Rightarrow> bool" where
  "needs m p c d \<longleftrightarrow> map_of (lookup_default [] (clusters_of m p) c) d \<noteq> None"

definition dirty :: "'s dependency_manager \<Rightarrow> object_reference \<Rightarrow> bool" where
  "dirty m p \<longleftrightarrow> map_of (profileToBeUpdated m) p \<noteq> None"

definition requests_wf :: "'s dependency_manager \<Rightarrow> bool" where
  "requests_wf m \<longleftrightarrow> (\<forall>p. distinct (map fst (clusters_of m p)) \<and>
     (\<forall>c rp. map_of (clusters_of m p) c = Some rp \<longrightarrow> rp \<noteq> []))"

text \<open>What the other fields of the manager are.\<close>

named_theorems dep_frame

lemma mark_frame [dep_frame]:
  "profileClusterRequests (mark_to_be_updated q m) = profileClusterRequests m"
  "profilePrerequisites (mark_to_be_updated q m) = profilePrerequisites m"
  "dm_enabled (mark_to_be_updated q m) = dm_enabled m" "dm_initialized (mark_to_be_updated q m) = dm_initialized m"
  "dirty (mark_to_be_updated q m) p \<longleftrightarrow> p = q \<or> dirty m p"
  by (simp_all add: mark_to_be_updated_def dirty_def update_conv) auto

lemma register_frame [dep_frame]:
  "profilePrerequisites (registerProfileClusterDependency p c d m) = profilePrerequisites m"
  "dm_enabled (registerProfileClusterDependency p c d m) = dm_enabled m"
  by (simp_all add: registerProfileClusterDependency_def Let_def dep_frame)

lemma remove_frame [dep_frame]:
  "profilePrerequisites (removeDependent p d ex m) = profilePrerequisites m"
  "dm_enabled (removeDependent p d ex m) = dm_enabled m"
  by (simp_all add: removeDependent_def Let_def dep_frame)

lemma fold_frame:
  assumes "\<And>x m. f (g x m) = f m"
  shows "f (fold g xs m) = f m"
  using assms by (induction xs arbitrary: m) auto

lemma dirty_requests_update [simp]: "dirty (m\<lparr>profileClusterRequests := r\<rparr>) p = dirty m p"
  by (simp add: dirty_def)

lemma register_clusters:
  "clusters_of (registerProfileClusterDependency p c d m) p' =
     (if p' = p then AList.update c (AList.update d True (lookup_default [] (clusters_of m p) c))
        (addCluster c (clusters_of m p)) else clusters_of m p')"
  by (simp add: registerProfileClusterDependency_def Let_def dep_frame getClusterDeployments_def addProfile_def
      setRequestingProfiles_def getRequestingProfiles_def addDependent_def addCluster_def lookup_default_def update_conv
      split: option.splits)

lemma register_needs:
  "needs (registerProfileClusterDependency p c d m) p' c' d' \<longleftrightarrow>
     (p' = p \<and> c' = c \<and> d' = d) \<or> needs m p' c' d'"
  by (auto simp: needs_def register_clusters addCluster_def update_conv lookup_default_def split: option.splits)

lemma register_wf: "requests_wf m \<Longrightarrow> requests_wf (registerProfileClusterDependency p c d m)"
  unfolding requests_wf_def
proof (intro allI conjI impI)
  fix q c' rp
  assume wf: "\<forall>p. distinct (map fst (clusters_of m p)) \<and>
     (\<forall>c rp. map_of (clusters_of m p) c = Some rp \<longrightarrow> rp \<noteq> [])"
  then have "distinct (map fst (clusters_of m q))" by blast
  then show "distinct (map fst (clusters_of (registerProfileClusterDependency p c d m) q))"
    by (auto simp: register_clusters addCluster_def intro!: distinct_update)
  assume "map_of (clusters_of (registerProfileClusterDependency p c d m) q) c' = Some rp"
  then have "rp = AList.update d True (lookup_default [] (clusters_of m p) c) \<or> map_of (clusters_of m q) c' = Some rp"
    by (auto simp: register_clusters addCluster_def update_conv split: if_splits)
  moreover have "AList.update d True ys \<noteq> []" for ys :: requesting_profiles by (cases ys) auto
  ultimately show "rp \<noteq> []" using wf by metis
qed

lemma register_dirty: "dirty (registerProfileClusterDependency p c d m) q \<longleftrightarrow> q = p \<or> dirty m q"
proof -
  have "hasProfile p (profileClusterRequests m) \<or> \<not> hasCluster c (clusters_of m p)"
    by (simp add: hasProfile_def hasCluster_def getClusterDeployments_def lookup_default_def split: option.split)
  then show ?thesis
    by (auto simp: registerProfileClusterDependency_def Let_def dep_frame)
qed

section \<open>Removing a dependent\<close>

definition survivors :: "object_reference \<Rightarrow> (object_reference \<times> bool) list \<Rightarrow> object_reference \<Rightarrow>
    requesting_profiles \<Rightarrow> requesting_profiles option" where
  "survivors d ex c rp = (if map_of ex c \<noteq> None then Some rp
     else if AList.delete d rp = [] then None else Some (AList.delete d rp))"

lemma remove_loop_map_of:
  assumes "distinct (map fst es)" and "map_of cd c = map_of es c \<or> map_of es c = None"
  shows "map_of (fst (fold (removeDependent_step d ex) es (cd, b))) c =
    (case map_of es c of None \<Rightarrow> map_of cd c | Some rp \<Rightarrow> survivors d ex c rp)"
  using assms
proof (induction es arbitrary: cd b)
  case (Cons e es)
  obtain k rp where e: "e = (k, rp)" by (cases e)
  obtain cd' b' where step: "removeDependent_step d ex e (cd, b) = (cd', b')"
    by (cases "removeDependent_step d ex e (cd, b)")
  have cd': "map_of cd' c = (if c = k then (if map_of ex k \<noteq> None then map_of cd c else survivors d ex k rp)
      else map_of cd c)"
    using step by (auto simp: e removeDependent_step_def removeRequestingDependent_def survivors_def Let_def
        update_conv delete_conv split: if_splits)
  have dist: "distinct (map fst es)" and k: "map_of es k = None"
    using Cons.prems(1) by (auto simp: e map_of_eq_None_iff)
  have "map_of cd' c = map_of es c \<or> map_of es c = None"
    using Cons.prems(2) cd' k by (auto simp: e split: if_splits)
  from Cons.IH [OF dist this, of b'] show ?case
    using step cd' k Cons.prems(2) by (auto simp: e survivors_def split: option.splits)
qed simp

lemma remove_loop_distinct:
  "distinct (map fst cd) \<Longrightarrow> distinct (map fst (fst (fold (removeDependent_step d ex) es (cd, b))))"
proof (induction es arbitrary: cd b)
  case (Cons e es)
  obtain cd' b' where step: "removeDependent_step d ex e (cd, b) = (cd', b')"
    by (cases "removeDependent_step d ex e (cd, b)")
  have "distinct (map fst cd')"
    using Cons.prems step by (auto simp: removeDependent_step_def Let_def distinct_delete intro: distinct_update split: if_splits)
  from Cons.IH [OF this] show ?case using step by simp
qed simp

lemma remove_loop_flag:
  "snd (fold (removeDependent_step d ex) es (cd, b)) \<longleftrightarrow>
     b \<or> (\<exists>e \<in> set es. survivors d ex (fst e) (snd e) = None)"
proof (induction es arbitrary: cd b)
  case (Cons e es)
  obtain cd' b' where step: "removeDependent_step d ex e (cd, b) = (cd', b')"
    by (cases "removeDependent_step d ex e (cd, b)")
  have "b' \<longleftrightarrow> b \<or> survivors d ex (fst e) (snd e) = None"
    using step by (auto simp: removeDependent_step_def removeRequestingDependent_def survivors_def Let_def split: if_splits)
  with Cons.IH [of cd' b'] step show ?case by auto
qed simp

lemma remove_clusters:
  assumes "requests_wf m"
  shows "map_of (clusters_of (removeDependent p d ex m) p') c =
    (if p' = p then (case map_of (clusters_of m p) c of None \<Rightarrow> None | Some rp \<Rightarrow> survivors d ex c rp)
     else map_of (clusters_of m p') c)"
    and "distinct (map fst (clusters_of (removeDependent p d ex m) p'))"
proof -
  have dist: "distinct (map fst (clusters_of m q))" for q using assms by (simp add: requests_wf_def)
  let ?loop = "fold (removeDependent_step d ex) (clusters_of m p) (clusters_of m p, False)"
  have result: "clusters_of (removeDependent p d ex m) p' = (if p' = p then fst ?loop else clusters_of m p')"
    by (simp add: removeDependent_def Let_def dep_frame getClusterDeployments_def addProfile_def removeProfile_def)
  have loop: "map_of (fst ?loop) c =
      (case map_of (clusters_of m p) c of None \<Rightarrow> None | Some rp \<Rightarrow> survivors d ex c rp)"
    using remove_loop_map_of [OF dist, of "clusters_of m p" c p d ex False] by (auto split: option.splits)
  show "map_of (clusters_of (removeDependent p d ex m) p') c =
    (if p' = p then (case map_of (clusters_of m p) c of None \<Rightarrow> None | Some rp \<Rightarrow> survivors d ex c rp)
     else map_of (clusters_of m p') c)"
    by (simp add: result loop)
  show "distinct (map fst (clusters_of (removeDependent p d ex m) p'))"
    by (simp add: result dist remove_loop_distinct)
qed

lemma remove_needs:
  assumes "requests_wf m"
  shows "needs (removeDependent p d ex m) p' c d' \<longleftrightarrow>
     needs m p' c d' \<and> \<not> (p' = p \<and> d' = d \<and> map_of ex c = None)"
proof -
  have "AList.delete d rp = [] \<Longrightarrow> d' \<noteq> d \<Longrightarrow> map_of rp d' = None" for rp :: requesting_profiles
    using delete_conv [of d rp d'] by simp
  then show ?thesis
    unfolding needs_def lookup_default_def remove_clusters(1) [OF assms] survivors_def
    by (auto simp: delete_conv split: option.splits if_splits)
qed

lemma remove_wf:
  assumes "requests_wf m"
  shows "requests_wf (removeDependent p d ex m)"
  unfolding requests_wf_def
proof (intro allI conjI impI)
  fix q show "distinct (map fst (clusters_of (removeDependent p d ex m) q))"
    by (rule remove_clusters(2) [OF assms])
next
  fix q c rp
  assume "map_of (clusters_of (removeDependent p d ex m) q) c = Some rp"
  then show "rp \<noteq> []"
    using assms unfolding remove_clusters(1) [OF assms] survivors_def requests_wf_def
    by (auto split: option.splits if_splits)
qed

text \<open>A profile that an operation does not mark keeps its clusters.\<close>

definition cluster_keys :: "'s dependency_manager \<Rightarrow> object_reference \<Rightarrow> object_reference set" where
  "cluster_keys m p = fst ` set (clusters_of m p)"

definition keeps_unmarked :: "'s dependency_manager \<Rightarrow> 's dependency_manager \<Rightarrow> bool" where
  "keeps_unmarked m m' \<longleftrightarrow> (\<forall>p. \<not> dirty m' p \<longrightarrow> \<not> dirty m p \<and> cluster_keys m' p = cluster_keys m p)"

lemma keeps_refl [simp]: "keeps_unmarked m m" by (simp add: keeps_unmarked_def)

lemma keeps_trans: "keeps_unmarked m m' \<Longrightarrow> keeps_unmarked m' m'' \<Longrightarrow> keeps_unmarked m m''"
  unfolding keeps_unmarked_def by metis

lemma register_keeps: "keeps_unmarked m (registerProfileClusterDependency p c d m)"
  by (simp add: keeps_unmarked_def register_dirty cluster_keys_def register_clusters)

lemma remove_dirty:
  "dirty (removeDependent p d ex m) q \<longleftrightarrow> dirty m q \<or>
     q = p \<and> snd (fold (removeDependent_step d ex) (clusters_of m p) (clusters_of m p, False))"
proof (cases "profileClusterRequests m = []")
  case True
  then show ?thesis by (simp add: removeDependent_def getClusterDeployments_def)
next
  case False
  then show ?thesis by (auto simp: removeDependent_def Let_def dep_frame)
qed

lemma remove_keeps:
  assumes "requests_wf m"
  shows "keeps_unmarked m (removeDependent p d ex m)"
  unfolding keeps_unmarked_def
proof (intro allI impI conjI)
  fix q
  assume q: "\<not> dirty (removeDependent p d ex m) q"
  let ?loop = "fold (removeDependent_step d ex) (clusters_of m p) (clusters_of m p, False)"
  note mark = remove_dirty [of p d ex m q]
  from q mark show "\<not> dirty m q" by simp
  have "map_of (clusters_of (removeDependent p d ex m) q) c = None \<longleftrightarrow> map_of (clusters_of m q) c = None" for c
  proof (cases "q = p")
    case True
    with q mark have "\<not> snd ?loop" by simp
    then have "survivors d ex c' rp \<noteq> None" if "(c', rp) \<in> set (clusters_of m p)" for c' rp
      using that by (force simp: remove_loop_flag)
    then have "survivors d ex c rp \<noteq> None" if "map_of (clusters_of m p) c = Some rp" for rp
      using that by (auto dest: map_of_SomeD)
    then show ?thesis unfolding remove_clusters(1) [OF assms] using True by (auto split: option.splits)
  qed (simp add: remove_clusters(1) [OF assms])
  then show "cluster_keys (removeDependent p d ex m) q = cluster_keys m q"
    by (auto simp: cluster_keys_def map_of_eq_None_iff)
qed

section \<open>Sequences of registrations and removals\<close>

text \<open>Both loops of \<open>UpdateDependencies\<close> are folds of one of the two operations; \<open>request_step\<close>
  collects what carries through a fold.\<close>

definition request_step :: "object_reference set \<Rightarrow> ('s dependency_manager \<Rightarrow> 's dependency_manager) \<Rightarrow> bool" where
  "request_step P g \<longleftrightarrow> (\<forall>m. requests_wf m \<longrightarrow> requests_wf (g m) \<and> keeps_unmarked m (g m) \<and>
     profilePrerequisites (g m) = profilePrerequisites m \<and> dm_enabled (g m) = dm_enabled m \<and>
     (\<forall>p. dirty (g m) p \<longrightarrow> dirty m p \<or> p \<in> P))"

lemma request_stepD:
  assumes "request_step P g" "requests_wf m"
  shows "requests_wf (g m)" "keeps_unmarked m (g m)" "profilePrerequisites (g m) = profilePrerequisites m"
    "dm_enabled (g m) = dm_enabled m" "dirty (g m) p \<Longrightarrow> dirty m p \<or> p \<in> P"
  using assms unfolding request_step_def by blast+

lemma request_step_register: "p \<in> P \<Longrightarrow> request_step P (registerProfileClusterDependency p c d)"
  by (auto simp: request_step_def register_wf register_keeps dep_frame register_dirty)

lemma request_step_remove: "p \<in> P \<Longrightarrow> request_step P (removeDependent p d ex)"
  by (auto simp: request_step_def remove_wf remove_keeps dep_frame remove_dirty)

lemma request_step_comp:
  fixes g h :: "'s dependency_manager \<Rightarrow> 's dependency_manager"
  assumes "request_step P g" "request_step P h"
  shows "request_step P (\<lambda>m. h (g m))"
  unfolding request_step_def
proof (intro allI impI)
  fix m :: "'s dependency_manager" assume wf: "requests_wf m"
  note g = request_stepD [OF assms(1) wf]
  note h = request_stepD [OF assms(2) g(1)]
  show "requests_wf (h (g m)) \<and> keeps_unmarked m (h (g m)) \<and>
     profilePrerequisites (h (g m)) = profilePrerequisites m \<and> dm_enabled (h (g m)) = dm_enabled m \<and>
     (\<forall>p. dirty (h (g m)) p \<longrightarrow> dirty m p \<or> p \<in> P)"
    using g h by (auto intro: keeps_trans)
qed

lemma request_step_fold:
  "(\<And>x. x \<in> set xs \<Longrightarrow> request_step P (g x)) \<Longrightarrow> request_step P (fold g xs)"
proof (induction xs)
  case (Cons x xs)
  have "request_step P (\<lambda>m. fold g xs (g x m))" by (rule request_step_comp) (use Cons in auto)
  then show ?case by (simp add: comp_def)
qed (simp add: request_step_def)

lemma schedule_fold_def: "scheduleProfileDeploymentToClusters p d cs =
    fold (\<lambda>c. registerProfileClusterDependency p c d) cs"
  by (rule ext) (simp add: scheduleProfileDeploymentToClusters_def)

lemma request_step_schedule: "p \<in> P \<Longrightarrow> request_step P (scheduleProfileDeploymentToClusters p d cs)"
  unfolding schedule_fold_def by (rule request_step_fold) (rule request_step_register)

lemma schedule_needs:
  "needs (scheduleProfileDeploymentToClusters p d cs m) p' c' d' \<longleftrightarrow>
     (p' = p \<and> c' \<in> set cs \<and> d' = d) \<or> needs m p' c' d'"
  unfolding schedule_fold_def by (induction cs arbitrary: m) (auto simp: register_needs)

lemma schedule_all_needs:
  "needs (fold (\<lambda>p. scheduleProfileDeploymentToClusters p d cs) ps m) p' c' d' \<longleftrightarrow>
     (p' \<in> set ps \<and> c' \<in> set cs \<and> d' = d) \<or> needs m p' c' d'"
  by (induction ps arbitrary: m) (auto simp: schedule_needs)

lemma remove_all_needs:
  "requests_wf m \<Longrightarrow> needs (fold (\<lambda>p. removeDependent p d ex) ps m) p' c' d' \<longleftrightarrow>
     needs m p' c' d' \<and> \<not> (p' \<in> set ps \<and> d' = d \<and> map_of ex c' = None)"
  by (induction ps arbitrary: m) (auto simp: remove_needs remove_wf)

lemma matching_map: "map_of (fold (\<lambda>mc. AList.update mc True) cs al) c = None \<longleftrightarrow>
    c \<notin> set cs \<and> map_of al c = None"
  by (induction cs arbitrary: al) (auto simp: update_conv)

section \<open>UpdateDependencies replaces the rows of one dependent\<close>

context object_set
begin

definition dep_inv :: "'s dependency_manager \<Rightarrow> bool" where
  "dep_inv m \<longleftrightarrow> requests_wf m \<and>
     (\<forall>p c d. needs m p c d \<longrightarrow> p \<in> elems (lookup_default (so_empty ops) (profilePrerequisites m) d))"

lemma record_prerequisites:
  fixes m :: "'s dependency_manager" and ps d
  defines "m' \<equiv> fold (\<lambda>prerequisite m. m\<lparr>profilePrerequisites := AList.update d
        (so_insert ops prerequisite (lookup_default (so_empty ops) (profilePrerequisites m) d))
        (profilePrerequisites m)\<rparr>) ps m"
  shows "profileClusterRequests m' = profileClusterRequests m" "profileToBeUpdated m' = profileToBeUpdated m"
    "dm_enabled m' = dm_enabled m"
    "elems (lookup_default (so_empty ops) (profilePrerequisites m') e) =
       (if e = d then set ps else {}) \<union> elems (lookup_default (so_empty ops) (profilePrerequisites m) e)"
  unfolding m'_def by (induction ps arbitrary: m) auto

lemma create_prerequisites:
  fixes m :: "'s dependency_manager" and d
  defines "m' \<equiv> if map_of (profilePrerequisites m) d = None
        then m\<lparr>profilePrerequisites := AList.update d (so_empty ops) (profilePrerequisites m)\<rparr> else m"
  shows "profileClusterRequests m' = profileClusterRequests m" "profileToBeUpdated m' = profileToBeUpdated m"
    "dm_enabled m' = dm_enabled m"
    "elems (lookup_default (so_empty ops) (profilePrerequisites m') e) =
       elems (lookup_default (so_empty ops) (profilePrerequisites m) e)"
  unfolding m'_def by (auto simp: lookup_default_def update_conv)

lemma stale_needs:
  assumes wf: "requests_wf m"
    and inv: "\<And>p c. needs m p c d \<Longrightarrow> p \<in> elems cur \<or> p \<in> elems (lookup_default (so_empty ops) (profilePrerequisites m) d)"
  shows "needs (cleanStaleDependencies ops d cur cs m) p c e \<longleftrightarrow>
      needs m p c e \<and> \<not> (e = d \<and> (p \<notin> elems cur \<or> c \<notin> set cs))"
proof -
  let ?map = "fold (\<lambda>mc. AList.update mc True) cs []"
  let ?m1 = "fold (\<lambda>item. removeDependent item d ?map) (so_items ops cur) m"
  have "request_step UNIV (fold (\<lambda>item. removeDependent item d ?map) (so_items ops cur))"
    by (rule request_step_fold) (simp add: request_step_remove)
  note m1 = request_stepD(1,3) [OF this wf]
  have n1: "needs ?m1 p c e \<longleftrightarrow> needs m p c e \<and> \<not> (p \<in> elems cur \<and> e = d \<and> c \<notin> set cs)"
    using remove_all_needs [OF wf, of d ?map "so_items ops cur" p c e] by (simp add: matching_map)
  show ?thesis
  proof (cases "map_of (profilePrerequisites m) d")
    case None
    then have "needs m p c d \<Longrightarrow> p \<in> elems cur" using inv [of p c] by (simp add: lookup_default_def)
    then show ?thesis using n1 None m1(2) by (auto simp: cleanStaleDependencies_def Let_def)
  next
    case (Some prev)
    have "needs (cleanStaleDependencies ops d cur cs m) p c e \<longleftrightarrow>
        needs ?m1 p c e \<and> \<not> (p \<in> elems prev - elems cur \<and> e = d)"
      using remove_all_needs [OF m1(1), of d "[]" "so_difference ops prev cur" p c e] Some m1(2)
      by (simp add: cleanStaleDependencies_def Let_def)
    then show ?thesis using n1 Some inv [of p c] by (auto simp: lookup_default_def)
  qed
qed

lemma request_step_clean:
  "request_step (elems cur \<union> elems (lookup_default (so_empty ops) (profilePrerequisites m0) d))
     (\<lambda>m. if profilePrerequisites m = profilePrerequisites m0 then cleanStaleDependencies ops d cur cs m else m)"
    (is "request_step ?P _")
  unfolding request_step_def
proof (intro allI impI)
  fix m :: "'s dependency_manager"
  assume wf: "requests_wf m"
  define g :: "'s dependency_manager \<Rightarrow> 's dependency_manager" where "g = fold (\<lambda>item. removeDependent item d (fold (\<lambda>mc. AList.update mc True) cs [])) (so_items ops cur)"
  define h :: "'s dependency_manager \<Rightarrow> 's dependency_manager" where "h = (case map_of (profilePrerequisites m0) d of None \<Rightarrow> (\<lambda>m. m)
    | Some prev \<Rightarrow> fold (\<lambda>p. removeDependent p d []) (so_difference ops prev cur))"
  have g: "request_step ?P g"
    unfolding g_def by (rule request_step_fold, rule request_step_remove) simp
  have h: "request_step ?P h"
  proof (cases "map_of (profilePrerequisites m0) d")
    case (Some prev)
    show ?thesis unfolding h_def Some option.case
      by (rule request_step_fold, rule request_step_remove) (simp add: Some lookup_default_def)
  qed (simp add: h_def request_step_def)
  have "cleanStaleDependencies ops d cur cs m = h (g m)" if "profilePrerequisites m = profilePrerequisites m0"
    using that request_stepD(3) [OF g wf]
    by (simp add: cleanStaleDependencies_def g_def h_def Let_def split: option.split)
  moreover note request_stepD [OF request_step_comp [OF g h] wf]
  ultimately show "requests_wf (if profilePrerequisites m = profilePrerequisites m0 then cleanStaleDependencies ops d cur cs m else m) \<and>
      keeps_unmarked m (if profilePrerequisites m = profilePrerequisites m0 then cleanStaleDependencies ops d cur cs m else m) \<and>
      profilePrerequisites (if profilePrerequisites m = profilePrerequisites m0 then cleanStaleDependencies ops d cur cs m else m) =
        profilePrerequisites m \<and>
      dm_enabled (if profilePrerequisites m = profilePrerequisites m0 then cleanStaleDependencies ops d cur cs m else m) = dm_enabled m \<and>
      (\<forall>p. dirty (if profilePrerequisites m = profilePrerequisites m0 then cleanStaleDependencies ops d cur cs m else m) p \<longrightarrow>
        dirty m p \<or> p \<in> ?P)"
    using wf by auto
qed

lemma update_dependencies:
  fixes m :: "'s dependency_manager" and d cs ps
  assumes en: "dm_enabled m" and inv: "dep_inv m"
  defines "m' \<equiv> UpdateDependencies ops d cs ps m"
  shows "needs m' p c e \<longleftrightarrow> (if e = d then p \<in> set ps \<and> c \<in> set cs else needs m p c e)"
    and "dep_inv m'" and "keeps_unmarked m m'" and "dm_enabled m'"
    and "dirty m' q \<Longrightarrow> dirty m q \<or> q \<in> set ps \<or> q \<in> elems (lookup_default (so_empty ops) (profilePrerequisites m) d)"
    and "elems (lookup_default (so_empty ops) (profilePrerequisites m') e) =
       (if e = d then set ps else {}) \<union> elems (lookup_default (so_empty ops) (profilePrerequisites m) e)"
proof -
  define m1 where "m1 = fold (\<lambda>p. scheduleProfileDeploymentToClusters p d cs) ps m"
  define cur where "cur = fold (so_insert ops) ps (so_empty ops)"
  define m2 where "m2 = cleanStaleDependencies ops d cur cs m1"
  define m3 where "m3 = (if map_of (profilePrerequisites m2) d = None
        then m2\<lparr>profilePrerequisites := AList.update d (so_empty ops) (profilePrerequisites m2)\<rparr> else m2)"
  have m': "m' = fold (\<lambda>prerequisite m. m\<lparr>profilePrerequisites := AList.update d
        (so_insert ops prerequisite (lookup_default (so_empty ops) (profilePrerequisites m) d))
        (profilePrerequisites m)\<rparr>) ps m3"
    using en by (simp add: m'_def UpdateDependencies_def Let_def m1_def cur_def m2_def m3_def)
  have cur: "elems cur = set ps" by (simp add: cur_def elems_fold_insert)
  have wf: "requests_wf m" using inv by (simp add: dep_inv_def)
  have "request_step (set ps) (fold (\<lambda>p. scheduleProfileDeploymentToClusters p d cs) ps)"
    by (rule request_step_fold) (rule request_step_schedule)
  note m1 = request_stepD [OF this wf, folded m1_def]
  note m2 = request_stepD [OF request_step_clean [of cur m1 d cs] m1(1), simplified, folded m2_def]
  note m3 = create_prerequisites [of m2 d, folded m3_def]
  note m4 = record_prerequisites [where d = d and ps = ps and m = m3, folded m']
  have same: "needs m' = needs m2" "requests_wf m' = requests_wf m2" "keeps_unmarked m1 m' = keeps_unmarked m1 m2"
    by (intro ext) (simp_all add: needs_def requests_wf_def keeps_unmarked_def dirty_def cluster_keys_def m3 m4)
  have n1: "needs m1 p c e \<longleftrightarrow> (p \<in> set ps \<and> c \<in> set cs \<and> e = d) \<or> needs m p c e" for p c e
    unfolding m1_def by (rule schedule_all_needs)
  have "needs m1 p c d \<Longrightarrow> p \<in> elems cur \<or>
      p \<in> elems (lookup_default (so_empty ops) (profilePrerequisites m1) d)" for p c
    using inv n1 [of p c d] by (auto simp: cur m1(3) dep_inv_def)
  from stale_needs [OF m1(1) this] have n2: "needs m2 p c e \<longleftrightarrow>
      needs m1 p c e \<and> \<not> (e = d \<and> (p \<notin> set ps \<or> c \<notin> set cs))" for p c e
    by (simp add: m2_def cur)
  show n': "needs m' p c e \<longleftrightarrow> (if e = d then p \<in> set ps \<and> c \<in> set cs else needs m p c e)" for p c e
    using n1 [of p c e] n2 [of p c e] same(1) by auto
  have "p \<in> elems (lookup_default (so_empty ops) (profilePrerequisites m') e)" if "needs m' p c e" for p c e
    using that inv n' [of p c e] by (auto simp: m4(4) m3(4) m2(3) m1(3) dep_inv_def split: if_splits)
  then show "dep_inv m'" using m2(1) same(2) by (simp add: dep_inv_def)
  show "keeps_unmarked m m'" using m1(2) m2(2) same(3) keeps_trans by blast
  show "dm_enabled m'" using en m1(4) m2(4) m3(3) m4(3) by simp
  have "dirty m' q = dirty m2 q" by (simp add: dirty_def m3 m4)
  then show "dirty m' q \<Longrightarrow> dirty m q \<or> q \<in> set ps \<or>
      q \<in> elems (lookup_default (so_empty ops) (profilePrerequisites m) d)"
    using m1(5) m2(5) by (auto simp: cur m1(3))
  show "elems (lookup_default (so_empty ops) (profilePrerequisites m') e) =
       (if e = d then set ps else {}) \<union> elems (lookup_default (so_empty ops) (profilePrerequisites m) e)"
    by (simp add: m4(4) m3(4) m2(3) m1(3))
qed

lemma dep_inv_initial: "dep_inv (InitializeManagerInstance enabled)"
  by (simp add: dep_inv_def requests_wf_def needs_def InitializeManagerInstance_def getClusterDeployments_def)

lemma cluster_keys_needs:
  assumes "dep_inv m"
  shows "c \<in> cluster_keys m p \<longleftrightarrow> (\<exists>d. needs m p c d)"
proof -
  have "rp \<noteq> []" if "map_of (clusters_of m p) c = Some rp" for rp
    using assms that unfolding dep_inv_def requests_wf_def by blast
  then have "map_of (clusters_of m p) c \<noteq> None \<longleftrightarrow> (\<exists>d. needs m p c d)"
    by (force simp: needs_def lookup_default_def neq_Nil_conv split: option.splits)
  then show ?thesis by (auto simp: cluster_keys_def map_of_eq_None_iff)
qed

end

section \<open>Histories of updates\<close>

text \<open>A history lists calls of \<open>UpdateDependencies\<close>: the dependent, its matching clusters, its prerequisites.
  \<open>map_of (rev us) d\<close> is the latest call for \<open>d\<close>.\<close>

type_synonym dep_call = "object_reference \<times> object_reference list \<times> object_reference list"

definition run_updates :: "'s set_ops \<Rightarrow> dep_call list \<Rightarrow> 's dependency_manager \<Rightarrow> 's dependency_manager" where
  "run_updates ops us m = fold (\<lambda>(d, cs, ps). UpdateDependencies ops d cs ps) us m"

lemma run_updates_append: "run_updates ops (us @ vs) m = run_updates ops vs (run_updates ops us m)"
  by (simp add: run_updates_def)

context object_set
begin

lemma run_updates_inv:
  assumes "dm_enabled m" "dep_inv m"
  shows "dm_enabled (run_updates ops us m) \<and> dep_inv (run_updates ops us m) \<and>
    keeps_unmarked m (run_updates ops us m) \<and>
    (\<forall>p c d. needs (run_updates ops us m) p c d \<longleftrightarrow> (case map_of (rev us) d of
       Some (cs, ps) \<Rightarrow> p \<in> set ps \<and> c \<in> set cs | None \<Rightarrow> needs m p c d))"
proof (induction us rule: rev_induct)
  case (snoc u us)
  obtain d cs ps where u: "u = (d, cs, ps)" by (cases u)
  let ?m = "run_updates ops us m"
  have run: "run_updates ops (us @ [u]) m = UpdateDependencies ops d cs ps ?m"
    by (simp add: run_updates_def u)
  from snoc have en: "dm_enabled ?m" and inv: "dep_inv ?m" by blast+
  note upd = update_dependencies [OF en inv, of d cs ps]
  have n: "needs (UpdateDependencies ops d cs ps ?m) p c e \<longleftrightarrow> (case map_of (rev (us @ [u])) e of
       Some (cs, ps) \<Rightarrow> p \<in> set ps \<and> c \<in> set cs | None \<Rightarrow> needs m p c e)" for p c e
    using snoc upd(1) by (simp add: u)
  from upd(3) snoc have "keeps_unmarked m (UpdateDependencies ops d cs ps ?m)" by (blast intro: keeps_trans)
  with upd n run show ?case by simp
qed (use assms in \<open>simp add: run_updates_def\<close>)

lemma history_clusters:
  fixes us p c
  defines "m \<equiv> run_updates ops us (InitializeManagerInstance True)"
  shows "distinct (slice (GetClusterDeployments p m))"
    and "c \<in> set (slice (GetClusterDeployments p m)) \<longleftrightarrow>
      (\<exists>d cs ps. map_of (rev us) d = Some (cs, ps) \<and> p \<in> set ps \<and> c \<in> set cs)"
proof -
  have en: "dm_enabled (InitializeManagerInstance True :: 's dependency_manager)"
    by (simp add: InitializeManagerInstance_def)
  note r = run_updates_inv [OF en dep_inv_initial, of us, folded m_def]
  have init: "\<not> needs (InitializeManagerInstance True :: 's dependency_manager) p c d" for d
    by (simp add: needs_def InitializeManagerInstance_def getClusterDeployments_def)
  have get: "slice (GetClusterDeployments p m) = map fst (clusters_of m p)"
    using r by (simp add: GetClusterDeployments_def)
  show "distinct (slice (GetClusterDeployments p m))"
    unfolding get using r by (simp add: dep_inv_def requests_wf_def)
  have "c \<in> set (slice (GetClusterDeployments p m)) \<longleftrightarrow> (\<exists>d. needs m p c d)"
    unfolding get using cluster_keys_needs [of m c p] r by (simp add: cluster_keys_def)
  also have "\<dots> \<longleftrightarrow> (\<exists>d cs ps. map_of (rev us) d = Some (cs, ps) \<and> p \<in> set ps \<and> c \<in> set cs)"
  proof -
    have "needs m p c d \<longleftrightarrow> (\<exists>cs ps. map_of (rev us) d = Some (cs, ps) \<and> p \<in> set ps \<and> c \<in> set cs)" for d
      using r init by (cases "map_of (rev us) d") auto
    then show "(\<exists>d. needs m p c d) \<longleftrightarrow>
        (\<exists>d cs ps. map_of (rev us) d = Some (cs, ps) \<and> p \<in> set ps \<and> c \<in> set cs)" by simp
  qed
  finally show "c \<in> set (slice (GetClusterDeployments p m)) \<longleftrightarrow>
      (\<exists>d cs ps. map_of (rev us) d = Some (cs, ps) \<and> p \<in> set ps \<and> c \<in> set cs)" .
qed

end

text \<open>C6. A profile is to be deployed on exactly the clusters its dependents need it on. After any history of
  \<open>UpdateDependencies\<close> calls, \<open>GetClusterDeployments p\<close> lists, once each, the clusters \<open>c\<close> for which some
  dependent \<open>d\<close> named \<open>p\<close> as a prerequisite and matched \<open>c\<close> in its latest call; earlier calls leave
  no trace.\<close>

theorem cluster_deployments_exact:
  assumes "object_set ops"
  shows "distinct (slice (GetClusterDeployments p (run_updates ops us (InitializeManagerInstance True)))) \<and>
    (c \<in> set (slice (GetClusterDeployments p (run_updates ops us (InitializeManagerInstance True)))) \<longleftrightarrow>
      (\<exists>d cs ps. map_of (rev us) d = Some (cs, ps) \<and> p \<in> set ps \<and> c \<in> set cs))"
  using object_set.history_clusters [OF assms] by blast

section \<open>The rebuilt state\<close>

definition rebuild_history :: "profile list \<Rightarrow> profile list \<Rightarrow> dep_call list" where
  "rebuild_history profiles clusterProfiles =
     map (\<lambda>p. (profile_ref p, pst_MatchingClusterRefs (prof_Status p),
            getPrerequesites ProfileKind (om_Namespace (prof_Meta p)) (ps_DependsOn (prof_Spec p))))
       (filter (\<lambda>p. ps_DependsOn (prof_Spec p) \<noteq> []) profiles) @
     map (\<lambda>p. (cluster_profile_ref p, pst_MatchingClusterRefs (prof_Status p),
            getPrerequesites ClusterProfileKind [] (ps_DependsOn (prof_Spec p))))
       (filter (\<lambda>p. ps_DependsOn (prof_Spec p) \<noteq> []) clusterProfiles)"

lemma rebuildStateWith_run:
  "rebuildStateWith ops ref_of prereqs_of items m = run_updates ops
     (map (\<lambda>p. (ref_of p, pst_MatchingClusterRefs (prof_Status p), prereqs_of p))
       (filter (\<lambda>p. ps_DependsOn (prof_Spec p) \<noteq> []) items)) m"
  by (induction items arbitrary: m) (simp_all add: rebuildStateWith_def run_updates_def)

lemma rebuild_attempts_run:
  assumes "list_all (\<lambda>a. isl (fst a)) failed"
  shows "rebuild_attempts ops (failed @ [(Inr profiles, Inr clusterProfiles)]) m =
     Some (run_updates ops (rebuild_history profiles clusterProfiles) m)"
  using assms
proof (induction failed)
  case Nil
  then show ?case
    by (simp add: rebuildStateWithProfiles_def rebuildStateWithClusterProfiles_def rebuildStateWith_run
        rebuild_history_def run_updates_append)
next
  case (Cons a failed)
  then show ?case by (cases "fst a") (auto simp: rebuildStateWithProfiles_def)
qed

lemma rebuild_loop_requests:
  "profileClusterRequests (fst (fold (\<lambda>profile acc.
      let r = updateProfileInstance sha asCode faults profile
                (getClusterDeployments profile (profileClusterRequests (fst acc))) (snd acc)
      in ((if fst r then (fst acc)\<lparr>profileToBeUpdated := AList.delete profile (profileToBeUpdated (fst acc))\<rparr>
           else fst acc), snd r)) ps acc)) = profileClusterRequests (fst acc) \<and>
   dm_enabled (fst (fold (\<lambda>profile acc.
      let r = updateProfileInstance sha asCode faults profile
                (getClusterDeployments profile (profileClusterRequests (fst acc))) (snd acc)
      in ((if fst r then (fst acc)\<lparr>profileToBeUpdated := AList.delete profile (profileToBeUpdated (fst acc))\<rparr>
           else fst acc), snd r)) ps acc)) = dm_enabled (fst acc)"
  by (induction ps arbitrary: acc) (simp_all add: Let_def)

lemma profile_ref_inject:
  "profile_ref p = profile_ref q \<longleftrightarrow> (om_Namespace (prof_Meta p), om_Name (prof_Meta p)) =
     (om_Namespace (prof_Meta q), om_Name (prof_Meta q))"
  "cluster_profile_ref p = cluster_profile_ref q \<longleftrightarrow> om_Name (prof_Meta p) = om_Name (prof_Meta q)"
  "profile_ref p \<noteq> cluster_profile_ref q" "cluster_profile_ref q \<noteq> profile_ref p"
  by (auto simp: profile_ref_def cluster_profile_ref_def)

lemma distinct_map_filter_inj:
  assumes "distinct (map f xs)" "\<And>x y. g x = g y \<Longrightarrow> f x = f y"
  shows "distinct (map g (filter P xs))"
  using assms unfolding distinct_map inj_on_def distinct_filter by (metis (no_types, lifting) distinct_filter filter_is_subset subsetD)

lemma rebuild_history_distinct:
  assumes "distinct (map (\<lambda>p. (om_Namespace (prof_Meta p), om_Name (prof_Meta p))) profiles)"
    and "distinct (map (\<lambda>p. om_Name (prof_Meta p)) clusterProfiles)"
  shows "distinct (map fst (rebuild_history profiles clusterProfiles))"
proof -
  have "distinct (map profile_ref (filter (\<lambda>p. ps_DependsOn (prof_Spec p) \<noteq> []) profiles))"
    using assms(1) by (rule distinct_map_filter_inj) (simp add: profile_ref_inject)
  moreover have "distinct (map cluster_profile_ref (filter (\<lambda>p. ps_DependsOn (prof_Spec p) \<noteq> []) clusterProfiles))"
    using assms(2) by (rule distinct_map_filter_inj) (simp add: profile_ref_inject)
  ultimately show ?thesis
    by (auto simp: rebuild_history_def comp_def profile_ref_inject)
qed

lemma rebuild_history_latest:
  assumes "distinct (map fst us)"
  shows "(\<exists>d cs ps. map_of (rev us) d = Some (cs, ps) \<and> q \<in> set ps \<and> c \<in> set cs) \<longleftrightarrow>
    (\<exists>(d, cs, ps) \<in> set us. q \<in> set ps \<and> c \<in> set cs)"
proof -
  have "distinct (map fst (rev us))" using assms by (simp flip: rev_map)
  then have "map_of (rev us) d = Some (cs, ps) \<longleftrightarrow> (d, cs, ps) \<in> set us" for d cs ps
    using map_of_eq_Some_iff [of "rev us" d "(cs, ps)"] by simp
  then show ?thesis by auto
qed

lemma rebuild_history_mem:
  "(\<exists>(d, cs, ps) \<in> set (rebuild_history profiles clusterProfiles). q \<in> set ps \<and> c \<in> set cs) \<longleftrightarrow>
     (\<exists>p \<in> set profiles. c \<in> set (pst_MatchingClusterRefs (prof_Status p)) \<and>
        q \<in> set (getPrerequesites ProfileKind (om_Namespace (prof_Meta p)) (ps_DependsOn (prof_Spec p)))) \<or>
     (\<exists>p \<in> set clusterProfiles. c \<in> set (pst_MatchingClusterRefs (prof_Status p)) \<and>
        q \<in> set (getPrerequesites ClusterProfileKind [] (ps_DependsOn (prof_Spec p))))"
proof -
  have none: "getPrerequesites k ns [] = []" for k ns by (simp add: getPrerequesites_def)
  have part: "(\<exists>(d, cs, ps) \<in> set (map (\<lambda>p. (f p, g p, getPrerequesites k (h p) (ps_DependsOn (prof_Spec p))))
        (filter (\<lambda>p. ps_DependsOn (prof_Spec p) \<noteq> []) xs)). q \<in> set ps \<and> c \<in> set cs) \<longleftrightarrow>
      (\<exists>p \<in> set xs. c \<in> set (g p) \<and> q \<in> set (getPrerequesites k (h p) (ps_DependsOn (prof_Spec p))))"
    for f :: "profile \<Rightarrow> object_reference" and g h k xs
    by (induction xs) (auto simp: none)
  show ?thesis
    unfolding rebuild_history_def set_append bex_Un part ..
qed

text \<open>A restart recovers the deployments. When the controller starts, once the lists of Profiles and
  ClusterProfiles have been read (after any number of failed attempts), the manager is initialised and
  \<open>GetClusterDeployments q\<close> lists exactly the clusters matched by a listed profile that depends on
  \<open>q\<close>, a Profile on Profiles of its namespace and a ClusterProfile on ClusterProfiles.\<close>

theorem rebuild_exact:
  assumes "object_set ops" and "list_all (\<lambda>a. isl (fst a)) failed"
    and "distinct (map (\<lambda>p. (om_Namespace (prof_Meta p), om_Name (prof_Meta p))) profiles)"
    and "distinct (map (\<lambda>p. om_Name (prof_Meta p)) clusterProfiles)"
  shows "\<exists>m store'. rebuildState ops sha asCode faults (failed @ [(Inr profiles, Inr clusterProfiles)])
        (InitializeManagerInstance True, store) = Some (m, store') \<and> dm_initialized m \<and>
     (\<forall>q c. c \<in> set (slice (GetClusterDeployments q m)) \<longleftrightarrow>
       (\<exists>p \<in> set profiles. c \<in> set (pst_MatchingClusterRefs (prof_Status p)) \<and>
          q \<in> set (getPrerequesites ProfileKind (om_Namespace (prof_Meta p)) (ps_DependsOn (prof_Spec p)))) \<or>
       (\<exists>p \<in> set clusterProfiles. c \<in> set (pst_MatchingClusterRefs (prof_Status p)) \<and>
          q \<in> set (getPrerequesites ClusterProfileKind [] (ps_DependsOn (prof_Spec p)))))"
proof -
  define m0 where "m0 = run_updates ops (rebuild_history profiles clusterProfiles) (InitializeManagerInstance True)"
  obtain m store' where r: "rebuildState ops sha asCode faults (failed @ [(Inr profiles, Inr clusterProfiles)])
        (InitializeManagerInstance True, store) = Some (m, store')"
    and m: "dm_initialized m" "profileClusterRequests m = profileClusterRequests m0" "dm_enabled m = dm_enabled m0"
    unfolding rebuildState_def fst_conv snd_conv rebuild_attempts_run [OF assms(2)] option.case m0_def [symmetric]
    by (simp add: Let_def rebuild_loop_requests [unfolded Let_def])
  have "GetClusterDeployments q m = GetClusterDeployments q m0" for q
    by (simp add: GetClusterDeployments_def m)
  then have "c \<in> set (slice (GetClusterDeployments q m)) \<longleftrightarrow>
      (\<exists>(d, cs, ps) \<in> set (rebuild_history profiles clusterProfiles). q \<in> set ps \<and> c \<in> set cs)" for q c
    by (simp only: m0_def object_set.history_clusters(2) [OF assms(1)]
        rebuild_history_latest [OF rebuild_history_distinct [OF assms(3,4)]])
  then show ?thesis
    using r m(1) unfolding rebuild_history_mem by blast
qed

section \<open>Publishing\<close>

definition profile_key :: "object_reference \<Rightarrow> string \<times> string \<times> string" where
  "profile_key p = (if ref_Kind p = ProfileKind then (ProfileKind, ref_Namespace p, ref_Name p)
     else (ClusterProfileKind, [], ref_Name p))"

text \<open>The references \<open>getPrerequesites\<close> builds for a Profile or a ClusterProfile.\<close>

definition prerequisite_ref :: "object_reference \<Rightarrow> bool" where
  "prerequisite_ref p \<longleftrightarrow> p \<in> set (getPrerequesites ProfileKind (ref_Namespace p) [ref_Name p]) \<or>
     p \<in> set (getPrerequesites ClusterProfileKind [] [ref_Name p])"

lemma profile_key_inject:
  "prerequisite_ref p \<Longrightarrow> prerequisite_ref q \<Longrightarrow> profile_key p = profile_key q \<longleftrightarrow> p = q"
  by (cases p; cases q) (auto simp: prerequisite_ref_def profile_key_def getPrerequesites_def)

text \<open>The object of \<open>p\<close>, unless it is gone or being deleted, carries the hash of these clusters.\<close>

definition published :: "(string \<Rightarrow> bytes) \<Rightarrow> (nat \<Rightarrow> string) \<Rightarrow> profile_store \<Rightarrow> object_reference \<Rightarrow>
    cluster_deployments \<Rightarrow> bool" where
  "published sha asCode store p clusters \<longleftrightarrow> (case store (profile_key p) of
     None \<Rightarrow> True
   | Some prof \<Rightarrow> om_DeletionTimestamp (prof_Meta prof) \<noteq> None \<or>
       pst_DependenciesHash (prof_Status prof) = calculateHash sha asCode clusters)"

lemma updateProfileInstance_key:
  "updateProfileInstance sha asCode faults p clusters store =
     updateProfileStatus sha asCode faults (profile_key p) clusters store"
  by (simp add: updateProfileInstance_def updateProfile_def updateClusterProfile_def profile_key_def)

lemma updateProfileInstance_store:
  fixes sha asCode faults p clusters
  defines "r \<equiv> \<lambda>store. updateProfileInstance sha asCode faults p clusters store"
  shows "k \<noteq> profile_key p \<Longrightarrow> snd (r store) k = store k"
    and "fst (r store) \<Longrightarrow> published sha asCode (snd (r store)) p clusters"
    and "published sha asCode store p clusters \<Longrightarrow> published sha asCode (snd (r store)) p clusters"
  by (auto simp: r_def updateProfileInstance_key updateProfileStatus_def published_def split: option.splits if_splits)

lemma calculateHash_by_length: "length data = length data' \<Longrightarrow> calculateHash sha asCode data = calculateHash sha asCode data'"
  by (cases data; cases data') (simp_all add: calculateHash_def)

text \<open>The calls of one round.\<close>

definition round_calls :: "(string \<Rightarrow> bytes) \<Rightarrow> (nat \<Rightarrow> string) \<Rightarrow> api_faults \<Rightarrow> (object_reference \<Rightarrow> cluster_deployments) \<Rightarrow>
    object_reference list \<Rightarrow> object_reference list \<times> profile_store \<Rightarrow> object_reference list \<times> profile_store" where
  "round_calls sha asCode faults clusters toUpdate = fold (\<lambda>profile acc.
     let r = updateProfileInstance sha asCode faults profile (clusters profile) (snd acc)
     in if fst r then (fst acc @ [profile], snd r) else (fst acc, snd r)) toUpdate"

lemma round_calls_snoc:
  "round_calls sha asCode faults clusters (ps @ [p]) acc =
     (let acc' = round_calls sha asCode faults clusters ps acc;
          r = updateProfileInstance sha asCode faults p (clusters p) (snd acc')
      in if fst r then (fst acc' @ [p], snd r) else (fst acc', snd r))"
  by (simp add: round_calls_def Let_def)

lemma round_calls_published:
  assumes "\<forall>p \<in> set ps. prerequisite_ref p" "prerequisite_ref q"
    and "q \<notin> set ps \<Longrightarrow> published sha asCode store q (clusters q)"
    and "q \<in> set (fst (round_calls sha asCode faults clusters ps ([], store))) \<or> q \<notin> set ps"
  shows "published sha asCode (snd (round_calls sha asCode faults clusters ps ([], store))) q (clusters q)"
  using assms
proof (induction ps rule: rev_induct)
  case (snoc p ps)
  let ?acc = "round_calls sha asCode faults clusters ps ([], store)"
  let ?r = "updateProfileInstance sha asCode faults p (clusters p) (snd ?acc)"
  have result: "snd (round_calls sha asCode faults clusters (ps @ [p]) ([], store)) = snd ?r"
    by (simp add: round_calls_snoc Let_def)
  show ?case
  proof (cases "fst ?r \<and> q = p")
    case True
    then show ?thesis unfolding result by (simp add: updateProfileInstance_store(2))
  next
    case False
    then have "q \<in> set (fst ?acc) \<or> q \<notin> set ps \<and> q \<noteq> p"
      using snoc.prems(4) by (auto simp: round_calls_snoc Let_def split: if_splits)
    moreover have "q \<in> set (fst ?acc) \<Longrightarrow> q \<in> set ps"
      unfolding round_calls_def by (induction ps rule: rev_induct) (auto simp: Let_def split: if_splits)
    ultimately have "published sha asCode (snd ?acc) q (clusters q)"
      using snoc by auto
    moreover have "snd ?r (profile_key q) = snd ?acc (profile_key q)" if "q \<noteq> p"
      using snoc.prems(1,2) that by (intro updateProfileInstance_store(1)) (simp add: profile_key_inject)
    ultimately show ?thesis
      unfolding result using updateProfileInstance_store(3) [of sha asCode "snd ?acc" p "clusters p" faults]
      by (cases "q = p") (simp_all add: published_def)
  qed
qed (simp add: round_calls_def)

lemma lookup_snapshot:
  "p \<in> set ps \<Longrightarrow> lookup_default d (map (\<lambda>p. (p, f p)) ps) p = f p"
  by (induction ps) (auto simp: lookup_default_def)

lemma updateProfiles_round_calls:
  "updateProfiles_round sha asCode faults during (m, store) =
     (let calls = round_calls sha asCode faults (clusters_of m) (map fst (profileToBeUpdated m)) ([], store)
      in ((during m)\<lparr>profileToBeUpdated := fold AList.delete (fst calls) (profileToBeUpdated (during m))\<rparr>, snd calls))"
proof -
  have "fold (\<lambda>profile acc. let r = updateProfileInstance sha asCode faults profile
          (lookup_default [] (map (\<lambda>p. (p, clusters_of m p)) ps) profile) (snd acc)
        in if fst r then (fst acc @ [profile], snd r) else (fst acc, snd r)) ps ([], store) =
      round_calls sha asCode faults (clusters_of m) ps ([], store)" for ps
    unfolding round_calls_def by (rule fold_cong) (simp_all add: lookup_snapshot)
  from this [unfolded Let_def] show ?thesis
    unfolding updateProfiles_round_def Let_def fst_conv snd_conv by (simp only:)
qed

lemma dirty_after_delete:
  "map_of (fold AList.delete xs al) p = (if p \<in> set xs then None else map_of al p)"
  by (induction xs arbitrary: al) (auto simp: delete_conv)

text \<open>Histories in which the publishing rounds take their turn: one step is a call of
  \<open>UpdateDependencies\<close> or a whole round.\<close>

datatype dep_event =
    DepUpdate object_reference "object_reference list" "object_reference list"
  | DepRound api_faults

definition dep_event_step :: "'s set_ops \<Rightarrow> (string \<Rightarrow> bytes) \<Rightarrow> (nat \<Rightarrow> string) \<Rightarrow> dep_event \<Rightarrow>
    's dependency_manager \<times> profile_store \<Rightarrow> 's dependency_manager \<times> profile_store" where
  "dep_event_step ops sha asCode e ms = (case e of
     DepUpdate d cs ps \<Rightarrow> (UpdateDependencies ops d cs ps (fst ms), snd ms)
   | DepRound faults \<Rightarrow> updateProfiles_round sha asCode faults (\<lambda>m. m) ms)"

definition dep_event_ok :: "dep_event \<Rightarrow> bool" where
  "dep_event_ok e = (case e of DepUpdate d cs ps \<Rightarrow> list_all prerequisite_ref ps | DepRound _ \<Rightarrow> True)"

definition publish_inv :: "(string \<Rightarrow> bytes) \<Rightarrow> (nat \<Rightarrow> string) \<Rightarrow> 's dependency_manager \<times> profile_store \<Rightarrow> bool" where
  "publish_inv sha asCode ms \<longleftrightarrow>
     (\<forall>p. (dirty (fst ms) p \<longrightarrow> prerequisite_ref p) \<and>
       (prerequisite_ref p \<and> \<not> dirty (fst ms) p \<longrightarrow> published sha asCode (snd ms) p (clusters_of (fst ms) p)))"

lemma published_same_keys:
  assumes "published sha asCode store p cd" "fst ` set cd = fst ` set cd'" "distinct (map fst cd)" "distinct (map fst cd')"
  shows "published sha asCode store p cd'"
proof -
  have "length (map fst cd) = length (map fst cd')"
    using assms(2) distinct_card [OF assms(3)] distinct_card [OF assms(4)] by simp
  then have "calculateHash sha asCode cd = calculateHash sha asCode cd'"
    by (intro calculateHash_by_length) simp
  then show ?thesis using assms(1) by (simp add: published_def split: option.splits)
qed

context object_set
begin

lemma round_publish_inv:
  assumes "publish_inv sha asCode (m, store)"
  shows "publish_inv sha asCode (updateProfiles_round sha asCode faults (\<lambda>m. m) (m, store))"
proof -
  let ?ps = "map fst (profileToBeUpdated m)"
  let ?calls = "round_calls sha asCode faults (clusters_of m) ?ps ([], store)"
  have ps: "q \<in> set ?ps \<longleftrightarrow> dirty m q" for q by (auto simp: dirty_def map_of_eq_None_iff)
  then have wf: "\<forall>q \<in> set ?ps. prerequisite_ref q" using assms by (auto simp: publish_inv_def)
  have "published sha asCode (snd ?calls) q (clusters_of m q)"
    if "prerequisite_ref q" "q \<in> set (fst ?calls) \<or> \<not> dirty m q" for q
    using that assms ps [of q] by (intro round_calls_published [OF wf]) (auto simp: publish_inv_def)
  then show ?thesis
    using assms by (auto simp: updateProfiles_round_calls Let_def publish_inv_def dirty_def dirty_after_delete)
qed

lemma update_publish_inv:
  assumes en: "dm_enabled m" and inv: "dep_inv m" and pub: "publish_inv sha asCode (m, store)"
    and ps: "list_all prerequisite_ref ps"
    and known: "\<And>p d. p \<in> elems (lookup_default (so_empty ops) (profilePrerequisites m) d) \<Longrightarrow> prerequisite_ref p"
  shows "publish_inv sha asCode (UpdateDependencies ops d cs ps m, store)"
  unfolding publish_inv_def fst_conv snd_conv
proof (intro allI conjI impI)
  let ?m = "UpdateDependencies ops d cs ps m"
  note upd = update_dependencies [OF en inv, of d cs ps]
  fix p
  show "dirty ?m p \<Longrightarrow> prerequisite_ref p"
    using upd(5) [of p] pub ps known [of p d] by (auto simp: publish_inv_def list_all_iff)
  assume p: "prerequisite_ref p \<and> \<not> dirty ?m p"
  then have old: "\<not> dirty m p" and keys: "fst ` set (clusters_of m p) = fst ` set (clusters_of ?m p)"
    using upd(3) by (simp_all add: keeps_unmarked_def cluster_keys_def)
  have "published sha asCode store p (clusters_of m p)"
    using p old pub by (simp add: publish_inv_def)
  moreover note keys
  moreover have "distinct (map fst (clusters_of m p))" "distinct (map fst (clusters_of ?m p))"
    using inv upd(2) by (simp_all add: dep_inv_def requests_wf_def)
  ultimately show "published sha asCode store p (clusters_of ?m p)"
    by (rule published_same_keys)
qed

lemma event_invariants:
  assumes "dm_enabled (fst ms)" "dep_inv (fst ms)" "publish_inv sha asCode ms" "dep_event_ok e"
    and "\<And>p d. p \<in> elems (lookup_default (so_empty ops) (profilePrerequisites (fst ms)) d) \<Longrightarrow> prerequisite_ref p"
  defines "ms' \<equiv> dep_event_step ops sha asCode e ms"
  shows "dm_enabled (fst ms')" "dep_inv (fst ms')" "publish_inv sha asCode ms'"
    and "\<And>p d. p \<in> elems (lookup_default (so_empty ops) (profilePrerequisites (fst ms')) d) \<Longrightarrow> prerequisite_ref p"
proof -
  obtain m store where ms: "ms = (m, store)" by (cases ms)
  have all: "dm_enabled (fst ms') \<and> dep_inv (fst ms') \<and> publish_inv sha asCode ms' \<and>
    (\<forall>p d. p \<in> elems (lookup_default (so_empty ops) (profilePrerequisites (fst ms')) d) \<longrightarrow> prerequisite_ref p)"
  proof (cases e)
    case (DepUpdate d cs ps)
    have ms': "ms' = (UpdateDependencies ops d cs ps m, store)"
      by (simp add: ms'_def dep_event_step_def DepUpdate ms)
    have ps: "list_all prerequisite_ref ps" using assms(4) by (simp add: dep_event_ok_def DepUpdate)
    note upd = update_dependencies [OF assms(1,2) [unfolded ms fst_conv], of d cs ps]
    have "publish_inv sha asCode ms'"
      unfolding ms' using assms(1,2,3,5) ps by (intro update_publish_inv) (simp_all add: ms)
    then show ?thesis
      using upd(2,4,6) ps assms(5) unfolding ms' fst_conv ms by (auto simp: list_all_iff split: if_splits)
  next
    case (DepRound faults)
    have ms': "ms' = updateProfiles_round sha asCode faults (\<lambda>m. m) (m, store)"
      by (simp add: ms'_def dep_event_step_def DepRound ms)
    have same: "dm_enabled (fst ms') = dm_enabled m" "dep_inv (fst ms') = dep_inv m"
      "profilePrerequisites (fst ms') = profilePrerequisites m"
      by (simp_all add: ms' updateProfiles_round_calls Let_def dep_inv_def requests_wf_def needs_def)
    show ?thesis
      using same assms(1,2,5) round_publish_inv [OF assms(3) [unfolded ms], of faults] by (simp add: ms ms')
  qed
  then show "dm_enabled (fst ms')" "dep_inv (fst ms')" "publish_inv sha asCode ms'"
    "\<And>p d. p \<in> elems (lookup_default (so_empty ops) (profilePrerequisites (fst ms')) d) \<Longrightarrow> prerequisite_ref p"
    by blast+
qed

lemma history_published:
  assumes "list_all dep_event_ok es"
    and "\<And>k prof. store k = Some prof \<Longrightarrow> pst_DependenciesHash (prof_Status prof) = None"
  shows "publish_inv sha asCode (fold (dep_event_step ops sha asCode) es (InitializeManagerInstance True, store))"
proof -
  have step: "publish_inv sha asCode (fold (dep_event_step ops sha asCode) es ms)"
    if "list_all dep_event_ok es" "dm_enabled (fst ms)" "dep_inv (fst ms)" "publish_inv sha asCode ms"
      "\<And>p d. p \<in> elems (lookup_default (so_empty ops) (profilePrerequisites (fst ms)) d) \<Longrightarrow> prerequisite_ref p"
    for ms es
    using that
  proof (induction es arbitrary: ms)
    case (Cons e es)
    from Cons.prems(1) have e: "dep_event_ok e" and es: "list_all dep_event_ok es" by simp_all
    note inv = event_invariants [OF Cons.prems(2,3,4) e Cons.prems(5)]
    show ?case using Cons.IH [OF es inv(1-3) inv(4)] by simp
  qed simp
  have "published sha asCode store p []" for p
    using assms(2) by (auto simp: published_def calculateHash_def split: option.split)
  then have init: "publish_inv sha asCode (InitializeManagerInstance True, store)"
    by (simp add: publish_inv_def dirty_def InitializeManagerInstance_def getClusterDeployments_def)
  show ?thesis
    by (rule step [OF assms(1) _ _ init])
      (use dep_inv_initial [of True] in \<open>simp_all add: InitializeManagerInstance_def\<close>)
qed

end

text \<open>Every prerequisite learns about its clusters. After any history of \<open>UpdateDependencies\<close> calls and
  publishing rounds, API failures included, each prerequisite is either still waiting to be
  published, or its DependenciesHash is the hash of the clusters it is needed on now (unless the object is gone or
  being deleted). So a failed update is retried and none is dropped, as long as no other call comes between the API
  calls of a round and its end.\<close>

theorem unpublished_stays_pending:
  assumes "object_set ops" and "list_all dep_event_ok es" and "prerequisite_ref p"
    and "\<And>k prof. store k = Some prof \<Longrightarrow> pst_DependenciesHash (prof_Status prof) = None"
    and "fold (dep_event_step ops sha asCode) es (InitializeManagerInstance True, store) = (m, store')"
    and "store' (profile_key p) = Some prof" and "om_DeletionTimestamp (prof_Meta prof) = None"
  shows "map_of (profileToBeUpdated m) p \<noteq> None \<or>
     pst_DependenciesHash (prof_Status prof) = calculateHash sha asCode (getClusterDeployments p (profileClusterRequests m))"
proof -
  have "publish_inv sha asCode (m, store')"
    using object_set.history_published [OF assms(1,2), of store sha asCode] assms(4,5) by simp
  then show ?thesis
    using assms(3,6,7) by (auto simp: publish_inv_def dirty_def published_def)
qed

section \<open>Two ways to miss a change\<close>

text \<open>The hash of a set of clusters depends on the number of clusters only, not on which they are. When the
  clusters of a prerequisite change and their number does not, publishing the new hash leaves the
  status as it was, and the predicate on its update does not trigger a
  reconciliation.\<close>

theorem same_count_not_reconciled:
  assumes "length clusters' = length clusters"
    and "store (profile_key p) = Some prof" and "om_DeletionTimestamp (prof_Meta prof) = None"
    and "\<not> af_Get faults (profile_key p)" and "\<not> af_Update faults (profile_key p)"
  shows "\<exists>old new.
    snd (updateProfileInstance sha asCode faults p clusters store) (profile_key p) = Some old \<and>
    snd (updateProfileInstance sha asCode faults p clusters'
      (snd (updateProfileInstance sha asCode faults p clusters store))) (profile_key p) = Some new \<and>
    \<not> DependenciesHashChanged old new"
  using assms calculateHash_by_length [OF assms(1), of sha asCode]
  by (simp add: updateProfileInstance_key updateProfileStatus_def DependenciesHashChanged_def getDependenciesHash_def)

text \<open>A change that arrives while a round of updates is in flight is lost. If a dependent comes to need
  \<open>p\<close> on one more cluster after the API calls of the round and before the round takes the lock
  again, the round clears the mark of \<open>p\<close> that this change had set: \<open>p\<close> is no longer
  pending, and its object keeps the hash of the clusters from before the change.\<close>

theorem concurrent_change_lost:
  assumes "object_set ops" and "m = run_updates ops us (InitializeManagerInstance True)"
    and "profileToBeUpdated m = [(p, True)]" and "c \<notin> set (slice (GetClusterDeployments p m))"
    and "store (profile_key p) = Some prof" and "om_DeletionTimestamp (prof_Meta prof) = None"
    and "\<not> af_Get faults (profile_key p)" and "\<not> af_Update faults (profile_key p)"
    and "updateProfiles_round sha asCode faults (UpdateDependencies ops d [c] [p]) (m, store) = (m', store')"
  shows "c \<in> set (slice (GetClusterDeployments p m')) \<and> map_of (profileToBeUpdated m') p = None \<and>
    map_option getDependenciesHash (store' (profile_key p)) =
      Some (calculateHash sha asCode (getClusterDeployments p (profileClusterRequests m)))"
proof -
  let ?m = "UpdateDependencies ops d [c] [p] m"
  have run: "?m = run_updates ops (us @ [(d, [c], [p])]) (InitializeManagerInstance True)"
    by (simp add: run_updates_append assms(2)) (simp add: run_updates_def)
  have m': "m' = ?m\<lparr>profileToBeUpdated := AList.delete p (profileToBeUpdated ?m)\<rparr>"
    and store': "store' = snd (updateProfileInstance sha asCode faults p (clusters_of m p) store)"
    using assms(3,5-9) by (auto simp: updateProfiles_round_calls round_calls_def Let_def updateProfileInstance_key
        updateProfileStatus_def)
  have "GetClusterDeployments p m' = GetClusterDeployments p ?m" by (simp add: m' GetClusterDeployments_def)
  moreover have "c \<in> set (slice (GetClusterDeployments p ?m))"
    unfolding run object_set.history_clusters(2) [OF assms(1)] by (intro exI [of _ d]) simp
  ultimately have "c \<in> set (slice (GetClusterDeployments p m'))" by simp
  moreover have "map_of (profileToBeUpdated m') p = None" by (simp add: m' delete_conv)
  ultimately show ?thesis
    using assms(5-8) by (simp add: store' updateProfileInstance_key updateProfileStatus_def getDependenciesHash_def)
qed

section \<open>Witnesses\<close>

definition sample_prereq :: "string \<Rightarrow> object_reference" where
  "sample_prereq n = \<lparr>ref_Kind = ''ClusterProfile'', ref_Namespace = [], ref_Name = n,
     ref_APIVersion = ''config.projectsveltos.io/v1beta1''\<rparr>"

definition sample_cluster_ref :: "string \<Rightarrow> object_reference" where
  "sample_cluster_ref n = \<lparr>ref_Kind = ''Cluster'', ref_Namespace = ''ns'', ref_Name = n, ref_APIVersion = ''v1''\<rparr>"

definition sample_profile :: "string \<Rightarrow> string list \<Rightarrow> object_reference list \<Rightarrow> profile" where
  "sample_profile n deps clusters = \<lparr>prof_Kind = ''ClusterProfile'', prof_Meta = zero_object_meta\<lparr>om_Name := n\<rparr>,
     prof_Spec = zero_profile_spec\<lparr>ps_DependsOn := deps\<rparr>,
     prof_Status = \<lparr>pst_MatchingClusterRefs = clusters, pst_UpdatingClusters = \<lparr>cl_Hash = None, cl_Clusters = []\<rparr>,
       pst_UpdatedClusters = \<lparr>cl_Hash = None, cl_Clusters = []\<rparr>, pst_FailedClusters = [],
       pst_DependenciesHash = None, pst_ReconciliationSuspended = False, pst_SuspensionReason = None\<rparr>\<rparr>"

definition sample_store :: profile_store where
  "sample_store = (\<lambda>k. if k = (ClusterProfileKind, [], ''p'') then Some (sample_profile ''p'' [] []) else None)"

definition no_faults :: api_faults where
  "no_faults = \<lparr>af_Get = (\<lambda>_. False), af_Update = (\<lambda>_. False)\<rparr>"

lemmas sample_dep_defs = sample_prereq_def sample_cluster_ref_def sample_profile_def sample_store_def no_faults_def
  zero_defs

theorem cluster_deployments_exact_witness:
  "sample_cluster_ref ''b'' \<in> set (slice (GetClusterDeployments (sample_prereq ''p'') (run_updates list_set_ops
      [(sample_prereq ''d'', [sample_cluster_ref ''a''], [sample_prereq ''p'']),
       (sample_prereq ''d'', [sample_cluster_ref ''b''], [sample_prereq ''p''])] (InitializeManagerInstance True)))) \<and>
   sample_cluster_ref ''a'' \<notin> set (slice (GetClusterDeployments (sample_prereq ''p'') (run_updates list_set_ops
      [(sample_prereq ''d'', [sample_cluster_ref ''a''], [sample_prereq ''p'']),
       (sample_prereq ''d'', [sample_cluster_ref ''b''], [sample_prereq ''p''])] (InitializeManagerInstance True))))"
  by (simp add: cluster_deployments_exact [OF list_object_set.object_set_axioms])
    (auto simp: sample_dep_defs)

theorem rebuild_exact_witness:
  "\<exists>m store'. rebuildState list_set_ops (\<lambda>x. x) (\<lambda>_. ''k'') no_faults
      [(Inl (), Inr []), (Inr [], Inr [sample_profile ''d'' [''p''] [sample_cluster_ref ''a'']])]
      (InitializeManagerInstance True, sample_store) = Some (m, store') \<and> dm_initialized m \<and>
    sample_cluster_ref ''a'' \<in> set (slice (GetClusterDeployments (sample_prereq ''p'') m))"
  using rebuild_exact [OF list_object_set.object_set_axioms, of "[(Inl (), Inr [])]" "[]"
      "[sample_profile ''d'' [''p''] [sample_cluster_ref ''a'']]" "\<lambda>x. x" "\<lambda>_. ''k''" no_faults sample_store]
  by (auto simp: sample_dep_defs getPrerequesites_def ClusterProfileKind_def)

lemma sample_events_state:
  "snd (fold (dep_event_step list_set_ops (\<lambda>x. x) (\<lambda>_. ''k''))
      [DepUpdate (sample_prereq ''d'') [sample_cluster_ref ''a''] [sample_prereq ''p''], DepRound no_faults]
      (InitializeManagerInstance True, sample_store)) (profile_key (sample_prereq ''p'')) =
   Some ((sample_profile ''p'' [] [])\<lparr>prof_Status :=
     (prof_Status (sample_profile ''p'' [] []))\<lparr>pst_DependenciesHash := Some ''k''\<rparr>\<rparr>)"
  by code_simp

theorem unpublished_stays_pending_witness:
  "\<exists>m store'. fold (dep_event_step list_set_ops (\<lambda>x. x) (\<lambda>_. ''k''))
      [DepUpdate (sample_prereq ''d'') [sample_cluster_ref ''a''] [sample_prereq ''p''], DepRound no_faults]
      (InitializeManagerInstance True, sample_store) = (m, store') \<and>
    (map_of (profileToBeUpdated m) (sample_prereq ''p'') \<noteq> None \<or>
     Some ''k'' = calculateHash (\<lambda>x. x) (\<lambda>_. ''k'')
       (getClusterDeployments (sample_prereq ''p'') (profileClusterRequests m)))"
proof -
  let ?es = "[DepUpdate (sample_prereq ''d'') [sample_cluster_ref ''a''] [sample_prereq ''p''], DepRound no_faults]"
  obtain m store' where run: "fold (dep_event_step list_set_ops (\<lambda>x. x) (\<lambda>_. ''k'')) ?es
      (InitializeManagerInstance True, sample_store) = (m, store')" by (metis surj_pair)
  have ok: "list_all dep_event_ok ?es" "prerequisite_ref (sample_prereq ''p'')"
    by (simp_all add: dep_event_ok_def prerequisite_ref_def getPrerequesites_def sample_prereq_def ClusterProfileKind_def)
  have fresh: "sample_store k = Some prof \<Longrightarrow> pst_DependenciesHash (prof_Status prof) = None" for k prof
    by (auto simp: sample_store_def sample_profile_def split: if_splits)
  note st = sample_events_state [unfolded run, simplified snd_conv]
  from unpublished_stays_pending [OF list_object_set.object_set_axioms ok fresh run st]
  show ?thesis using run by (simp add: sample_profile_def zero_object_meta_def)
qed

theorem same_count_not_reconciled_witness:
  "\<exists>old new.
    snd (updateProfileInstance (\<lambda>x. x) (\<lambda>_. ''k'') no_faults (sample_prereq ''p'')
      [(sample_cluster_ref ''a'', [])] sample_store) (profile_key (sample_prereq ''p'')) = Some old \<and>
    snd (updateProfileInstance (\<lambda>x. x) (\<lambda>_. ''k'') no_faults (sample_prereq ''p'') [(sample_cluster_ref ''b'', [])]
      (snd (updateProfileInstance (\<lambda>x. x) (\<lambda>_. ''k'') no_faults (sample_prereq ''p'')
        [(sample_cluster_ref ''a'', [])] sample_store))) (profile_key (sample_prereq ''p'')) = Some new \<and>
    \<not> DependenciesHashChanged old new"
  by (rule same_count_not_reconciled [where prof = "sample_profile ''p'' [] []"])
    (simp_all add: sample_store_def sample_profile_def no_faults_def profile_key_def sample_prereq_def
      ClusterProfileKind_def ProfileKind_def zero_object_meta_def)

theorem concurrent_change_lost_witness:
  "\<exists>m m' store'. m = run_updates list_set_ops [(sample_prereq ''d'', [sample_cluster_ref ''a''], [sample_prereq ''p''])]
        (InitializeManagerInstance True) \<and>
    updateProfiles_round (\<lambda>x. x) (\<lambda>_. ''k'') no_faults
      (UpdateDependencies list_set_ops (sample_prereq ''e'') [sample_cluster_ref ''b''] [sample_prereq ''p''])
      (m, sample_store) = (m', store') \<and>
    sample_cluster_ref ''b'' \<in> set (slice (GetClusterDeployments (sample_prereq ''p'') m')) \<and>
    map_of (profileToBeUpdated m') (sample_prereq ''p'') = None"
proof -
  define m where "m = run_updates list_set_ops [(sample_prereq ''d'', [sample_cluster_ref ''a''], [sample_prereq ''p''])]
        (InitializeManagerInstance True)"
  obtain m' store' where run: "updateProfiles_round (\<lambda>x. x) (\<lambda>_. ''k'') no_faults
      (UpdateDependencies list_set_ops (sample_prereq ''e'') [sample_cluster_ref ''b''] [sample_prereq ''p''])
      (m, sample_store) = (m', store')" by (metis surj_pair)
  have "profileToBeUpdated m = [(sample_prereq ''p'', True)]" unfolding m_def by code_simp
  moreover have "sample_cluster_ref ''b'' \<notin> set (slice (GetClusterDeployments (sample_prereq ''p'') m))"
    unfolding m_def by code_simp
  moreover have "sample_store (profile_key (sample_prereq ''p'')) = Some (sample_profile ''p'' [] [])"
    "om_DeletionTimestamp (prof_Meta (sample_profile ''p'' [] [])) = None"
    by (simp_all add: sample_dep_defs profile_key_def ClusterProfileKind_def ProfileKind_def)
  ultimately show ?thesis
    using concurrent_change_lost [OF list_object_set.object_set_axioms m_def, of "sample_prereq ''p''"
        "sample_cluster_ref ''b''" sample_store "sample_profile ''p'' [] []" no_faults "\<lambda>x. x" "\<lambda>_. ''k''"
        "sample_prereq ''e''" m' store'] run m_def
    by (auto simp: no_faults_def)
qed

end
