(* ===== verification/Watchers.thy ===== *)
theory Watchers
  imports Object_Set
begin

text \<open>
  The watchers on the management cluster (controllers/clustersummary_watchers.go): which resource types are
  watched, which ClusterSummaries asked for it, and which of them an event is for.

  The manager keeps, for KustomizationRefs, PolicyRefs and TemplateResourceRefs, the ClusterSummaries
  requesting each type (\<open>requestors\<close>) and those interested in each resource (\<open>interested\<close>;
  TemplateResourceRefs have one map for all changes and one that ignores status changes). The Go
  code panics when such a map is asked for \<open>FeatureHelm\<close>: those functions return an option. The
  calls that need the API server (building a lister for a type, instantiating the namespace and the name of a
  reference, splitting an API version) are the answers in a \<open>watch_env\<close>.
\<close>

section \<open>State\<close>

record 's watch_manager =
  wm_watchers :: "(gvk \<times> unit) list"
  requestorForMgmtResourcesKustomizeRef :: "(gvk \<times> 's) list"
  requestorForMgmtResourcesPolicyRef :: "(gvk \<times> 's) list"
  mgmtResourcesWatchedKustomizeRef :: "(object_reference \<times> 's) list"
  mgmtResourcesWatchedPolicyRef :: "(object_reference \<times> 's) list"
  requestorForTemplateResourceRefs :: "(gvk \<times> 's) list"
  templateResourceRefsWatched :: "(object_reference \<times> 's) list"
  templateResourceRefsWatchedIgnoreStatus :: "(object_reference \<times> 's) list"

text \<open>\<open>we_getNamespace\<close> and \<open>we_getName\<close> get the namespace, name and type of the cluster and the field to
  instantiate; they return a value and an error, as the Go functions do.\<close>

record watch_env =
  we_ParseAPIVersion :: "string \<Rightarrow> string \<times> string"
  we_getListerWatcher :: "gvk \<Rightarrow> string option"
  we_getNamespace :: "string \<Rightarrow> string \<Rightarrow> string \<Rightarrow> cluster_type \<Rightarrow> string \<times> string option"
  we_getName :: "string \<Rightarrow> string \<Rightarrow> string \<Rightarrow> cluster_type \<Rightarrow> string \<times> string option"

definition initializeManager :: "'s watch_manager" where
  "initializeManager = \<lparr>wm_watchers = [], requestorForMgmtResourcesKustomizeRef = [],
     requestorForMgmtResourcesPolicyRef = [], mgmtResourcesWatchedKustomizeRef = [],
     mgmtResourcesWatchedPolicyRef = [], requestorForTemplateResourceRefs = [],
     templateResourceRefsWatched = [], templateResourceRefsWatchedIgnoreStatus = []\<rparr>"

definition resource_gvk :: "watch_env \<Rightarrow> object_reference \<Rightarrow> gvk" where
  "resource_gvk env resource = \<lparr>gvk_Group = fst (we_ParseAPIVersion env (ref_APIVersion resource)),
     gvk_Version = snd (we_ParseAPIVersion env (ref_APIVersion resource)), gvk_Kind = ref_Kind resource\<rparr>"

definition watch_consumer :: "cluster_summary \<Rightarrow> object_reference" where
  "watch_consumer clusterSummary = \<lparr>ref_Kind = ClusterSummaryKind, ref_Namespace = cs_Namespace clusterSummary,
     ref_Name = cs_Name clusterSummary, ref_APIVersion = Api_Group\<rparr>"

definition getTemplateResourceNamespace ::
    "watch_env \<Rightarrow> cluster_summary \<Rightarrow> template_resource_ref \<Rightarrow> string \<times> string option" where
  "getTemplateResourceNamespace env cs ref = we_getNamespace env (css_ClusterNamespace (cs_Spec cs))
     (css_ClusterName (cs_Spec cs)) (ref_Namespace (trr_Resource ref)) (css_ClusterType (cs_Spec cs))"

definition getTemplateResourceName ::
    "watch_env \<Rightarrow> cluster_summary \<Rightarrow> template_resource_ref \<Rightarrow> string \<times> string option" where
  "getTemplateResourceName env cs ref = we_getName env (css_ClusterNamespace (cs_Spec cs))
     (css_ClusterName (cs_Spec cs)) (ref_Name (trr_Resource ref)) (css_ClusterType (cs_Spec cs))"

section \<open>The maps of a feature\<close>

definition getGVKMapForFeatureID :: "feature_id \<Rightarrow> 's watch_manager \<Rightarrow> (gvk \<times> 's) list option" where
  "getGVKMapForFeatureID fID m = (case fID of
     FeatureKustomize \<Rightarrow> Some (requestorForMgmtResourcesKustomizeRef m)
   | FeatureResources \<Rightarrow> Some (requestorForMgmtResourcesPolicyRef m)
   | FeatureHelm \<Rightarrow> None)"

definition getGVKMapEntryForFeatureID :: "'s set_ops \<Rightarrow> gvk \<Rightarrow> feature_id \<Rightarrow> 's watch_manager \<Rightarrow>
    ('s \<times> 's watch_manager) option" where
  "getGVKMapEntryForFeatureID ops g fID m = (case fID of
     FeatureKustomize \<Rightarrow> (case map_of (requestorForMgmtResourcesKustomizeRef m) g of
         Some s \<Rightarrow> Some (s, m)
       | None \<Rightarrow> Some (so_empty ops, m\<lparr>requestorForMgmtResourcesKustomizeRef :=
           AList.update g (so_empty ops) (requestorForMgmtResourcesKustomizeRef m)\<rparr>))
   | FeatureResources \<Rightarrow> (case map_of (requestorForMgmtResourcesPolicyRef m) g of
         Some s \<Rightarrow> Some (s, m)
       | None \<Rightarrow> Some (so_empty ops, m\<lparr>requestorForMgmtResourcesPolicyRef :=
           AList.update g (so_empty ops) (requestorForMgmtResourcesPolicyRef m)\<rparr>))
   | FeatureHelm \<Rightarrow> None)"

text \<open>What changing the set behind the returned pointer does to the map it came from.\<close>

definition putGVKSet :: "gvk \<Rightarrow> feature_id \<Rightarrow> 's \<Rightarrow> 's watch_manager \<Rightarrow> 's watch_manager" where
  "putGVKSet g fID s m = (case fID of
     FeatureKustomize \<Rightarrow> m\<lparr>requestorForMgmtResourcesKustomizeRef :=
       AList.update g s (requestorForMgmtResourcesKustomizeRef m)\<rparr>
   | FeatureResources \<Rightarrow> m\<lparr>requestorForMgmtResourcesPolicyRef :=
       AList.update g s (requestorForMgmtResourcesPolicyRef m)\<rparr>
   | FeatureHelm \<Rightarrow> m)"

definition setGVKMapEntryForFeatureID :: "'s set_ops \<Rightarrow> gvk \<Rightarrow> feature_id \<Rightarrow> 's \<Rightarrow> 's watch_manager \<Rightarrow>
    's watch_manager option" where
  "setGVKMapEntryForFeatureID ops g fID currentSet m = (case fID of
     FeatureKustomize \<Rightarrow> Some (if so_len ops currentSet \<noteq> 0
       then m\<lparr>requestorForMgmtResourcesKustomizeRef :=
         AList.update g currentSet (requestorForMgmtResourcesKustomizeRef m)\<rparr>
       else m\<lparr>requestorForMgmtResourcesKustomizeRef :=
         AList.delete g (requestorForMgmtResourcesKustomizeRef m)\<rparr>)
   | FeatureResources \<Rightarrow> Some (if so_len ops currentSet \<noteq> 0
       then m\<lparr>requestorForMgmtResourcesPolicyRef :=
         AList.update g currentSet (requestorForMgmtResourcesPolicyRef m)\<rparr>
       else m\<lparr>requestorForMgmtResourcesKustomizeRef :=
         AList.delete g (requestorForMgmtResourcesKustomizeRef m)\<rparr>)
   | FeatureHelm \<Rightarrow> None)"

definition getResourceMapForFeatureID :: "feature_id \<Rightarrow> 's watch_manager \<Rightarrow> (object_reference \<times> 's) list option" where
  "getResourceMapForFeatureID fID m = (case fID of
     FeatureKustomize \<Rightarrow> Some (mgmtResourcesWatchedKustomizeRef m)
   | FeatureResources \<Rightarrow> Some (mgmtResourcesWatchedPolicyRef m)
   | FeatureHelm \<Rightarrow> None)"

definition getResourceMapEntryForFeatureID :: "'s set_ops \<Rightarrow> object_reference \<Rightarrow> feature_id \<Rightarrow> 's watch_manager \<Rightarrow>
    ('s \<times> 's watch_manager) option" where
  "getResourceMapEntryForFeatureID ops resource fID m = (case fID of
     FeatureKustomize \<Rightarrow> (case map_of (mgmtResourcesWatchedKustomizeRef m) resource of
         Some s \<Rightarrow> Some (s, m)
       | None \<Rightarrow> Some (so_empty ops, m\<lparr>mgmtResourcesWatchedKustomizeRef :=
           AList.update resource (so_empty ops) (mgmtResourcesWatchedKustomizeRef m)\<rparr>))
   | FeatureResources \<Rightarrow> (case map_of (mgmtResourcesWatchedPolicyRef m) resource of
         Some s \<Rightarrow> Some (s, m)
       | None \<Rightarrow> Some (so_empty ops, m\<lparr>mgmtResourcesWatchedPolicyRef :=
           AList.update resource (so_empty ops) (mgmtResourcesWatchedPolicyRef m)\<rparr>))
   | FeatureHelm \<Rightarrow> None)"

definition putResourceSet :: "object_reference \<Rightarrow> feature_id \<Rightarrow> 's \<Rightarrow> 's watch_manager \<Rightarrow> 's watch_manager" where
  "putResourceSet resource fID s m = (case fID of
     FeatureKustomize \<Rightarrow> m\<lparr>mgmtResourcesWatchedKustomizeRef :=
       AList.update resource s (mgmtResourcesWatchedKustomizeRef m)\<rparr>
   | FeatureResources \<Rightarrow> m\<lparr>mgmtResourcesWatchedPolicyRef :=
       AList.update resource s (mgmtResourcesWatchedPolicyRef m)\<rparr>
   | FeatureHelm \<Rightarrow> m)"

definition setResourceMapEntryForFeatureID :: "'s set_ops \<Rightarrow> object_reference \<Rightarrow> feature_id \<Rightarrow> 's \<Rightarrow>
    's watch_manager \<Rightarrow> 's watch_manager option" where
  "setResourceMapEntryForFeatureID ops resource fID currentSet m = (case fID of
     FeatureKustomize \<Rightarrow> Some (m\<lparr>mgmtResourcesWatchedKustomizeRef :=
       (if so_len ops currentSet \<noteq> 0
        then AList.update resource currentSet (mgmtResourcesWatchedKustomizeRef m)
        else AList.delete resource (mgmtResourcesWatchedKustomizeRef m))\<rparr>)
   | FeatureResources \<Rightarrow> Some (m\<lparr>mgmtResourcesWatchedPolicyRef :=
       (if so_len ops currentSet \<noteq> 0
        then AList.update resource currentSet (mgmtResourcesWatchedPolicyRef m)
        else AList.delete resource (mgmtResourcesWatchedPolicyRef m))\<rparr>)
   | FeatureHelm \<Rightarrow> None)"

section \<open>Operations\<close>

definition canStopWatcher :: "'s set_ops \<Rightarrow> gvk \<Rightarrow> 's watch_manager \<Rightarrow> bool" where
  "canStopWatcher ops g m =
     (let unused = (\<lambda>al. case map_of al g of None \<Rightarrow> True | Some requestors \<Rightarrow> so_len ops requestors = 0)
      in if \<not> unused (requestorForMgmtResourcesKustomizeRef m) then False
         else if \<not> unused (requestorForMgmtResourcesPolicyRef m) then False
         else if \<not> unused (requestorForTemplateResourceRefs m) then False
         else True)"

definition startWatcher :: "watch_env \<Rightarrow> gvk \<Rightarrow> 's watch_manager \<Rightarrow> string option \<times> 's watch_manager" where
  "startWatcher env g m =
     (case map_of (wm_watchers m) g of
        Some _ \<Rightarrow> (None, m)
      | None \<Rightarrow>
          (case we_getListerWatcher env g of
             Some err \<Rightarrow> (Some err, m)
           | None \<Rightarrow> (None, m\<lparr>wm_watchers := AList.update g () (wm_watchers m)\<rparr>)))"

definition startWatcherForMgmtResource :: "'s set_ops \<Rightarrow> watch_env \<Rightarrow> gvk \<Rightarrow> object_reference \<Rightarrow>
    cluster_summary \<Rightarrow> feature_id \<Rightarrow> 's watch_manager \<Rightarrow> (string option \<times> 's watch_manager) option" where
  "startWatcherForMgmtResource ops env g resource clusterSummary fID m =
     (let consumer = watch_consumer clusterSummary;
          started = startWatcher env g m
      in case fst started of
           Some err \<Rightarrow> Some (Some err, snd started)
         | None \<Rightarrow>
             Option.bind (getGVKMapEntryForFeatureID ops g fID (snd started)) (\<lambda>(gvkSet, m).
               let m = putGVKSet g fID (so_insert ops consumer gvkSet) m in
               Option.bind (getResourceMapEntryForFeatureID ops resource fID m) (\<lambda>(resourceSet, m).
                 Some (None, putResourceSet resource fID (so_insert ops consumer resourceSet) m))))"

text \<open>The two buckets of a TemplateResourceRef: \<open>move_bucket\<close> erases the consumer from one and inserts it into
  the other.\<close>

definition erase_bucket :: "'s set_ops \<Rightarrow> object_reference \<Rightarrow> object_reference \<Rightarrow>
    (object_reference \<times> 's) list \<Rightarrow> (object_reference \<times> 's) list" where
  "erase_bucket ops consumer resource al =
     (case map_of al resource of None \<Rightarrow> al | Some s \<Rightarrow> AList.update resource (so_erase ops consumer s) al)"

definition insert_bucket :: "'s set_ops \<Rightarrow> object_reference \<Rightarrow> 'k \<Rightarrow> ('k \<times> 's) list \<Rightarrow> ('k \<times> 's) list" where
  "insert_bucket ops consumer key al =
     (let al = (if map_of al key = None then AList.update key (so_empty ops) al else al)
      in AList.update key (so_insert ops consumer (lookup_default (so_empty ops) al key)) al)"

definition startWatcherForTemplateResourceRef :: "'s set_ops \<Rightarrow> watch_env \<Rightarrow> gvk \<Rightarrow> template_resource_ref \<Rightarrow>
    cluster_summary \<Rightarrow> 's watch_manager \<Rightarrow> string option \<times> 's watch_manager" where
  "startWatcherForTemplateResourceRef ops env g ref clusterSummary m =
     (let consumer = watch_consumer clusterSummary;
          namespace = getTemplateResourceNamespace env clusterSummary ref
      in case snd namespace of
           Some err \<Rightarrow> (Some err, m)
         | None \<Rightarrow>
             let name = getTemplateResourceName env clusterSummary ref in
             (case snd name of
                Some err \<Rightarrow> (Some err, m)
              | None \<Rightarrow>
                  let resource = (trr_Resource ref)\<lparr>ref_Namespace := fst namespace, ref_Name := fst name\<rparr>;
                      started = startWatcher env g m;
                      m = snd started
                  in case fst started of
                       Some err \<Rightarrow> (Some err, m)
                     | None \<Rightarrow>
                         let m = m\<lparr>requestorForTemplateResourceRefs :=
                               insert_bucket ops consumer g (requestorForTemplateResourceRefs m)\<rparr>
                         in if trr_IgnoreStatusChanges ref then
                              (None, m\<lparr>templateResourceRefsWatched :=
                                   erase_bucket ops consumer resource (templateResourceRefsWatched m),
                                 templateResourceRefsWatchedIgnoreStatus :=
                                   insert_bucket ops consumer resource (templateResourceRefsWatchedIgnoreStatus m)\<rparr>)
                            else
                              (None, m\<lparr>templateResourceRefsWatchedIgnoreStatus :=
                                   erase_bucket ops consumer resource (templateResourceRefsWatchedIgnoreStatus m),
                                 templateResourceRefsWatched :=
                                   insert_bucket ops consumer resource (templateResourceRefsWatched m)\<rparr>)))"

definition stop_if_unused :: "'s set_ops \<Rightarrow> gvk \<Rightarrow> 's watch_manager \<Rightarrow> 's watch_manager" where
  "stop_if_unused ops g m =
     (if canStopWatcher ops g m then m\<lparr>wm_watchers := AList.delete g (wm_watchers m)\<rparr> else m)"

text \<open>The bodies of the two loops of \<open>stopStaleWatchForMgmtResource\<close>.\<close>

definition stop_gvk :: "'s set_ops \<Rightarrow> object_reference \<Rightarrow> (gvk \<times> bool) list \<Rightarrow> feature_id \<Rightarrow> gvk \<Rightarrow>
    's watch_manager \<Rightarrow> 's watch_manager option" where
  "stop_gvk ops consumer currentGVKs fId g m =
     (if lookup_default False currentGVKs g then Some m
      else Option.bind (getGVKMapEntryForFeatureID ops g fId m) (\<lambda>(s, m).
        let s = so_erase ops consumer s; m = putGVKSet g fId s m in
        Option.bind (setGVKMapEntryForFeatureID ops g fId s m) (\<lambda>m. Some (stop_if_unused ops g m))))"

definition stop_resource :: "'s set_ops \<Rightarrow> object_reference \<Rightarrow> (object_reference \<times> bool) list \<Rightarrow> feature_id \<Rightarrow>
    object_reference \<Rightarrow> 's watch_manager \<Rightarrow> 's watch_manager option" where
  "stop_resource ops consumer currentResources fId resource m =
     (if map_of currentResources resource \<noteq> None then Some m
      else Option.bind (getResourceMapEntryForFeatureID ops resource fId m) (\<lambda>(s, m).
        let s = so_erase ops consumer s; m = putResourceSet resource fId s m in
        setResourceMapEntryForFeatureID ops resource fId s m))"

definition stopStaleWatchForMgmtResource :: "'s set_ops \<Rightarrow> watch_env \<Rightarrow> (object_reference \<times> bool) list \<Rightarrow>
    cluster_summary \<Rightarrow> feature_id \<Rightarrow> 's watch_manager \<Rightarrow> 's watch_manager option" where
  "stopStaleWatchForMgmtResource ops env currentResources clusterSummary fId m =
     (let consumer = watch_consumer clusterSummary;
          currentGVKs = fold (\<lambda>entry. AList.update (resource_gvk env (fst entry)) True) currentResources []
      in Option.bind (getGVKMapForFeatureID fId m) (\<lambda>gvkMap.
         Option.bind (fold (\<lambda>g om. Option.bind om (stop_gvk ops consumer currentGVKs fId g)) (map fst gvkMap) (Some m)) (\<lambda>m.
         Option.bind (getResourceMapForFeatureID fId m) (\<lambda>resourceMap.
         fold (\<lambda>resource om. Option.bind om (stop_resource ops consumer currentResources fId resource))
           (map fst resourceMap) (Some m)))))"

text \<open>The references the ClusterSummary still lists, instantiated in place, and the types and resources
  they stand for.\<close>

definition current_template_refs :: "watch_env \<Rightarrow> cluster_summary \<Rightarrow>
    template_resource_ref list \<times> (gvk \<times> bool) list \<times> (object_reference \<times> bool) list" where
  "current_template_refs env cs = fold (\<lambda>ref (refs, gvks, resources).
     let namespace = getTemplateResourceNamespace env cs ref;
         ref1 = ref\<lparr>trr_Resource := (trr_Resource ref)\<lparr>ref_Namespace := fst namespace\<rparr>\<rparr>
     in if snd namespace \<noteq> None then (refs @ [ref1], gvks, resources)
        else let name = getTemplateResourceName env cs ref1;
                 resource = (trr_Resource ref1)\<lparr>ref_Name := fst name\<rparr>
          in (refs @ [ref1\<lparr>trr_Resource := resource\<rparr>], AList.update (resource_gvk env resource) True gvks,
              AList.update resource True resources))
     (ps_TemplateResourceRefs (cs_ProfileSpec cs)) ([], [], [])"

definition stop_template_gvk :: "'s set_ops \<Rightarrow> object_reference \<Rightarrow> (gvk \<times> bool) list \<Rightarrow> gvk \<Rightarrow>
    's watch_manager \<Rightarrow> 's watch_manager" where
  "stop_template_gvk ops consumer currentGVKs g m =
     (if lookup_default False currentGVKs g then m
      else let requestors = so_erase ops consumer (lookup_default (so_empty ops) (requestorForTemplateResourceRefs m) g)
        in stop_if_unused ops g (m\<lparr>requestorForTemplateResourceRefs :=
             AList.update g requestors (requestorForTemplateResourceRefs m)\<rparr>))"

text \<open>The loop that cleans one bucket.\<close>

definition clean_bucket :: "'s set_ops \<Rightarrow> object_reference \<Rightarrow> (object_reference \<times> bool) list \<Rightarrow>
    (object_reference \<times> 's) list \<Rightarrow> (object_reference \<times> 's) list" where
  "clean_bucket ops consumer currentResources al = fold (\<lambda>resource al.
     if map_of currentResources resource \<noteq> None then al
     else let s = so_erase ops consumer (lookup_default (so_empty ops) al resource) in
       if so_len ops s = 0 then AList.delete resource al else AList.update resource s al)
     (map fst al) al"

definition stopStaleWatchForTemplateResourceRef :: "'s set_ops \<Rightarrow> watch_env \<Rightarrow> cluster_summary \<Rightarrow> bool \<Rightarrow>
    's watch_manager \<Rightarrow> 's watch_manager \<times> cluster_summary" where
  "stopStaleWatchForTemplateResourceRef ops env clusterSummary remove_all m =
     (let consumer = watch_consumer clusterSummary;
          current = (if \<not> remove_all then current_template_refs env clusterSummary
                     else (ps_TemplateResourceRefs (cs_ProfileSpec clusterSummary), [], []));
          currentGVKs = fst (snd current);
          currentResources = snd (snd current);
          clusterSummary = clusterSummary\<lparr>cs_Spec := (cs_Spec clusterSummary)\<lparr>css_ClusterProfileSpec :=
            (cs_ProfileSpec clusterSummary)\<lparr>ps_TemplateResourceRefs := fst current\<rparr>\<rparr>\<rparr>;
          m = fold (stop_template_gvk ops consumer currentGVKs) (map fst (requestorForTemplateResourceRefs m)) m
      in (m\<lparr>templateResourceRefsWatched := clean_bucket ops consumer currentResources (templateResourceRefsWatched m),
            templateResourceRefsWatchedIgnoreStatus :=
              clean_bucket ops consumer currentResources (templateResourceRefsWatchedIgnoreStatus m)\<rparr>,
          clusterSummary))"

section \<open>Events\<close>

text \<open>The consumers an event is delivered to, in the order of the calls of \<open>notifyConsumer\<close>.\<close>

definition react :: "'s set_ops \<Rightarrow> int option \<Rightarrow> object_reference \<Rightarrow> int \<Rightarrow> 's watch_manager \<Rightarrow>
    object_reference list" where
  "react ops oldGeneration ref newGeneration m =
     (let notify = (\<lambda>al. case map_of al ref of None \<Rightarrow> [] | Some v \<Rightarrow> so_items ops v)
      in notify (mgmtResourcesWatchedKustomizeRef m) @
         notify (mgmtResourcesWatchedPolicyRef m) @
         notify (templateResourceRefsWatched m) @
         (if oldGeneration = None \<or> oldGeneration \<noteq> Some newGeneration
          then notify (templateResourceRefsWatchedIgnoreStatus m) else []))"

text \<open>An object as the store sees it: its reference and its generation; \<open>None\<close> is a value that
  is not an \<open>Unstructured\<close>. The store keeps generations and hands each event to the handler.\<close>

type_synonym discarding_store = "(object_reference \<times> int) list"
type_synonym store_object = "(object_reference \<times> int) option"
type_synonym handler_call = "int option \<times> object_reference \<times> int"

definition ds_Add :: "store_object \<Rightarrow> discarding_store \<Rightarrow> handler_call list \<times> discarding_store" where
  "ds_Add obj s = (case obj of
     None \<Rightarrow> ([], s)
   | Some (ref, gen) \<Rightarrow> ([(None, ref, gen)], AList.update ref gen s))"

definition ds_Update :: "store_object \<Rightarrow> discarding_store \<Rightarrow> handler_call list \<times> discarding_store" where
  "ds_Update obj s = (case obj of
     None \<Rightarrow> ([], s)
   | Some (ref, gen) \<Rightarrow>
       ((case map_of s ref of
           Some oldGeneration \<Rightarrow> [(Some oldGeneration, ref, gen)]
         | None \<Rightarrow> [(None, ref, gen)]), AList.update ref gen s))"

definition ds_Delete :: "store_object \<Rightarrow> discarding_store \<Rightarrow> handler_call list \<times> discarding_store" where
  "ds_Delete obj s = (case obj of
     None \<Rightarrow> ([], s)
   | Some (ref, gen) \<Rightarrow> ([(None, ref, gen)], AList.delete ref s))"

definition ds_Replace :: "store_object list \<Rightarrow> discarding_store \<Rightarrow> handler_call list \<times> discarding_store" where
  "ds_Replace objs s = fold (\<lambda>obj (calls, s). let r = ds_Add obj s in (calls @ fst r, snd r)) objs ([], s)"

section \<open>What the maps say\<close>

datatype watch_source = ByKustomization | ByPolicy | ByTemplate

datatype watch_bucket = KustomizationBucket | PolicyBucket | TemplateBucket | TemplateIgnoreStatusBucket

fun bucket_source :: "watch_bucket \<Rightarrow> watch_source" where
  "bucket_source KustomizationBucket = ByKustomization"
| "bucket_source PolicyBucket = ByPolicy"
| "bucket_source TemplateBucket = ByTemplate"
| "bucket_source TemplateIgnoreStatusBucket = ByTemplate"

definition feature_bucket :: "feature_id \<Rightarrow> watch_bucket" where
  "feature_bucket f = (if f = FeatureKustomize then KustomizationBucket else PolicyBucket)"

definition source_map :: "watch_source \<Rightarrow> 's watch_manager \<Rightarrow> (gvk \<times> 's) list" where
  "source_map src m = (case src of
     ByKustomization \<Rightarrow> requestorForMgmtResourcesKustomizeRef m
   | ByPolicy \<Rightarrow> requestorForMgmtResourcesPolicyRef m
   | ByTemplate \<Rightarrow> requestorForTemplateResourceRefs m)"

definition bucket_map :: "watch_bucket \<Rightarrow> 's watch_manager \<Rightarrow> (object_reference \<times> 's) list" where
  "bucket_map b m = (case b of
     KustomizationBucket \<Rightarrow> mgmtResourcesWatchedKustomizeRef m
   | PolicyBucket \<Rightarrow> mgmtResourcesWatchedPolicyRef m
   | TemplateBucket \<Rightarrow> templateResourceRefsWatched m
   | TemplateIgnoreStatusBucket \<Rightarrow> templateResourceRefsWatchedIgnoreStatus m)"

definition requestors :: "'s set_ops \<Rightarrow> 's watch_manager \<Rightarrow> watch_source \<Rightarrow> gvk \<Rightarrow> object_reference set" where
  "requestors ops m src g = set (so_items ops (lookup_default (so_empty ops) (source_map src m) g))"

definition interested :: "'s set_ops \<Rightarrow> 's watch_manager \<Rightarrow> watch_bucket \<Rightarrow> object_reference \<Rightarrow> object_reference set" where
  "interested ops m b r = set (so_items ops (lookup_default (so_empty ops) (bucket_map b m) r))"

definition watching :: "'s watch_manager \<Rightarrow> gvk \<Rightarrow> bool" where
  "watching m g \<longleftrightarrow> map_of (wm_watchers m) g \<noteq> None"

lemma all_sources: "(\<forall>src. P src) \<longleftrightarrow> P ByKustomization \<and> P ByPolicy \<and> P ByTemplate"
  by (metis watch_source.exhaust)

lemma all_buckets: "(\<forall>b. P b) \<longleftrightarrow> P KustomizationBucket \<and> P PolicyBucket \<and> P TemplateBucket \<and>
    P TemplateIgnoreStatusBucket"
  by (metis watch_bucket.exhaust)

lemma bucket_source_feature: "bucket_source (feature_bucket f) = (if f = FeatureKustomize then ByKustomization else ByPolicy)"
  by (simp add: feature_bucket_def)

lemmas watch_views = requestors_def interested_def source_map_def bucket_map_def watching_def

text \<open>One iteration of the loop over types, and the whole loop. A PolicyRef clean-up that leaves a type without
  requestors also empties the KustomizationRef requestors of that type.\<close>

definition stopped_requestors :: "feature_id \<Rightarrow> object_reference \<Rightarrow> (watch_source \<Rightarrow> gvk \<Rightarrow> object_reference set) \<Rightarrow>
    watch_source \<Rightarrow> gvk \<Rightarrow> object_reference set" where
  "stopped_requestors f c R src g =
     (if src = bucket_source (feature_bucket f) then R src g - {c}
      else if src = ByKustomization \<and> R ByPolicy g - {c} = {} then
        (if f = FeatureResources then {} else R src g)
      else R src g)"

context object_set
begin

lemma elems_lookup_update: "elems (lookup_default (so_empty ops) (AList.update k s al) k') =
    (if k' = k then elems s else elems (lookup_default (so_empty ops) al k'))"
  by simp

lemma elems_insert_bucket: "elems (lookup_default (so_empty ops) (insert_bucket ops c k al) k') =
    (if k' = k then insert c (elems (lookup_default (so_empty ops) al k)) else elems (lookup_default (so_empty ops) al k'))"
  by (simp add: insert_bucket_def Let_def lookup_default_def update_conv split: option.split)

lemma elems_erase_bucket: "elems (lookup_default (so_empty ops) (erase_bucket ops c k al) k') =
    (if k' = k then elems (lookup_default (so_empty ops) al k) - {c} else elems (lookup_default (so_empty ops) al k'))"
  by (simp add: erase_bucket_def lookup_default_def update_conv split: option.split)

lemma elems_clean_bucket: "elems (lookup_default (so_empty ops) (clean_bucket ops c cur al) k) =
    (if map_of cur k \<noteq> None then elems (lookup_default (so_empty ops) al k)
     else elems (lookup_default (so_empty ops) al k) - {c})"
proof -
  define step where "step = (\<lambda>resource al.
     if map_of cur resource \<noteq> None then al
     else let s = so_erase ops c (lookup_default (so_empty ops) al resource) in
       if so_len ops s = 0 then AList.delete resource al else AList.update resource s al)"
  have step: "elems (lookup_default (so_empty ops) (step r al) k) = (if r = k \<and> map_of cur k = None
      then elems (lookup_default (so_empty ops) al k) - {c} else elems (lookup_default (so_empty ops) al k))" for r al
    by (auto simp: step_def Let_def)
  have loop: "elems (lookup_default (so_empty ops) (fold step rs al) k) = (if k \<in> set rs \<and> map_of cur k = None
      then elems (lookup_default (so_empty ops) al k) - {c} else elems (lookup_default (so_empty ops) al k))" for rs al
    by (induction rs arbitrary: al) (auto simp: step)
  have "elems (lookup_default (so_empty ops) al k) = {}" if "k \<notin> set (map fst al)"
    using that by (simp add: lookup_default_absent)
  then show ?thesis
    using loop [of "map fst al" al] by (auto simp: clean_bucket_def step_def)
qed

lemma canStop_iff: "canStopWatcher ops g m \<longleftrightarrow> (\<forall>src. requestors ops m src g = {})"
  by (simp add: canStopWatcher_def all_sources watch_views lookup_default_def Let_def split: option.split)

lemma startWatcher_view:
  "requestors ops (snd (startWatcher env g m)) = requestors ops m"
  "interested ops (snd (startWatcher env g m)) = interested ops m"
  "fst (startWatcher env g m) = None \<Longrightarrow> watching (snd (startWatcher env g m)) g' \<longleftrightarrow> g' = g \<or> watching m g'"
  "fst (startWatcher env g m) = Some err \<Longrightarrow> snd (startWatcher env g m) = m"
  "source_map src (snd (startWatcher env g m)) = source_map src m"
  by (auto simp: startWatcher_def watch_views fun_eq_iff update_conv split: option.splits watch_source.splits
      watch_bucket.splits)

lemma start_mgmt_view:
  assumes "startWatcherForMgmtResource ops env g r cs f m = Some (None, m')"
  shows "f \<noteq> FeatureHelm"
    and "requestors ops m' src g' = (if src = bucket_source (feature_bucket f) \<and> g' = g
       then insert (watch_consumer cs) (requestors ops m src g) else requestors ops m src g')"
    and "interested ops m' b r' = (if b = feature_bucket f \<and> r' = r
       then insert (watch_consumer cs) (interested ops m b r) else interested ops m b r')"
    and "watching m' g' \<longleftrightarrow> g' = g \<or> watching m g'"
    and "map_of (requestorForMgmtResourcesPolicyRef m') g' \<noteq> None \<longleftrightarrow>
       (f = FeatureResources \<and> g' = g) \<or> map_of (requestorForMgmtResourcesPolicyRef m) g' \<noteq> None"
proof -
  define m1 where "m1 = snd (startWatcher env g m)"
  have ok: "fst (startWatcher env g m) = None"
    using assms by (auto simp: startWatcherForMgmtResource_def Let_def split: option.splits)
  note v = startWatcher_view [where env = env and g = g and m = m, folded m1_def]
  have def: "Option.bind (getGVKMapEntryForFeatureID ops g f m1) (\<lambda>(gvkSet, m).
       Option.bind (getResourceMapEntryForFeatureID ops r f (putGVKSet g f (so_insert ops (watch_consumer cs) gvkSet) m))
         (\<lambda>(resourceSet, m). Some (None :: string option, putResourceSet r f (so_insert ops (watch_consumer cs) resourceSet) m)))
     = Some (None, m')"
    using assms ok by (simp add: startWatcherForMgmtResource_def Let_def m1_def)
  note defs = def getGVKMapEntryForFeatureID_def putGVKSet_def getResourceMapEntryForFeatureID_def putResourceSet_def
  show f: "f \<noteq> FeatureHelm" using def by (auto simp: getGVKMapEntryForFeatureID_def)
  have 1: "requestors ops m' src g' = (if src = bucket_source (feature_bucket f) \<and> g' = g
       then insert (watch_consumer cs) (requestors ops m1 src g) else requestors ops m1 src g')"
    using def f by (cases f; cases src) (auto simp: defs watch_views feature_bucket_def lookup_default_def update_conv
        split: option.splits)
  have 2: "interested ops m' b r' = (if b = feature_bucket f \<and> r' = r
       then insert (watch_consumer cs) (interested ops m1 b r) else interested ops m1 b r')"
    using def f by (cases f; cases b) (auto simp: defs watch_views feature_bucket_def lookup_default_def update_conv
        split: option.splits)
  have 3: "wm_watchers m' = wm_watchers m1"
    using def f by (cases f) (auto simp: defs split: option.splits)
  have 4: "map_of (requestorForMgmtResourcesPolicyRef m') g' \<noteq> None \<longleftrightarrow>
       (f = FeatureResources \<and> g' = g) \<or> map_of (requestorForMgmtResourcesPolicyRef m1) g' \<noteq> None"
    using def f by (cases f) (auto simp: defs update_conv split: option.splits)
  show "requestors ops m' src g' = (if src = bucket_source (feature_bucket f) \<and> g' = g
       then insert (watch_consumer cs) (requestors ops m src g) else requestors ops m src g')"
    using 1 v(1) by simp
  show "interested ops m' b r' = (if b = feature_bucket f \<and> r' = r
       then insert (watch_consumer cs) (interested ops m b r) else interested ops m b r')"
    using 2 v(2) by simp
  show "watching m' g' \<longleftrightarrow> g' = g \<or> watching m g'"
    using 3 v(3) [OF ok] by (simp add: watching_def)
  show "map_of (requestorForMgmtResourcesPolicyRef m') g' \<noteq> None \<longleftrightarrow>
       (f = FeatureResources \<and> g' = g) \<or> map_of (requestorForMgmtResourcesPolicyRef m) g' \<noteq> None"
    using 4 v(5) [of ByPolicy] by (simp add: source_map_def)
qed

text \<open>The resource a successful start for a TemplateResourceRef registers.\<close>

lemma start_template_view:
  assumes "startWatcherForTemplateResourceRef ops env g ref cs m = (None, m')"
  defines "r \<equiv> (trr_Resource ref)\<lparr>ref_Namespace := fst (getTemplateResourceNamespace env cs ref),
       ref_Name := fst (getTemplateResourceName env cs ref)\<rparr>"
  shows "requestors ops m' src g' = (if src = ByTemplate \<and> g' = g
       then insert (watch_consumer cs) (requestors ops m src g) else requestors ops m src g')"
    and "interested ops m' b r' = (
       if b = (if trr_IgnoreStatusChanges ref then TemplateIgnoreStatusBucket else TemplateBucket) \<and> r' = r
       then insert (watch_consumer cs) (interested ops m b r)
       else if b = (if trr_IgnoreStatusChanges ref then TemplateBucket else TemplateIgnoreStatusBucket) \<and> r' = r
       then interested ops m b r - {watch_consumer cs} else interested ops m b r')"
    and "watching m' g' \<longleftrightarrow> g' = g \<or> watching m g'"
    and "requestorForMgmtResourcesPolicyRef m' = requestorForMgmtResourcesPolicyRef m"
proof -
  define m1 where "m1 = snd (startWatcher env g m)"
  have ok: "fst (startWatcher env g m) = None"
    and def: "(let m2 = m1\<lparr>requestorForTemplateResourceRefs :=
           insert_bucket ops (watch_consumer cs) g (requestorForTemplateResourceRefs m1)\<rparr>
       in if trr_IgnoreStatusChanges ref then
            m2\<lparr>templateResourceRefsWatched := erase_bucket ops (watch_consumer cs) r (templateResourceRefsWatched m2),
              templateResourceRefsWatchedIgnoreStatus :=
                insert_bucket ops (watch_consumer cs) r (templateResourceRefsWatchedIgnoreStatus m2)\<rparr>
          else
            m2\<lparr>templateResourceRefsWatchedIgnoreStatus :=
                erase_bucket ops (watch_consumer cs) r (templateResourceRefsWatchedIgnoreStatus m2),
              templateResourceRefsWatched := insert_bucket ops (watch_consumer cs) r (templateResourceRefsWatched m2)\<rparr>)
       = m'"
    using assms(1) by (auto simp: startWatcherForTemplateResourceRef_def Let_def r_def m1_def
        split: option.splits if_splits)
  note v = startWatcher_view [where env = env and g = g and m = m, folded m1_def]
  have "requestors ops m' src g' = (if src = ByTemplate \<and> g' = g
       then insert (watch_consumer cs) (requestors ops m1 src g) else requestors ops m1 src g')"
    unfolding def [symmetric] Let_def
    by (cases src) (simp_all add: requestors_def source_map_def elems_insert_bucket)
  then show "requestors ops m' src g' = (if src = ByTemplate \<and> g' = g
       then insert (watch_consumer cs) (requestors ops m src g) else requestors ops m src g')" by (simp add: v)
  have "interested ops m' b r' = (
       if b = (if trr_IgnoreStatusChanges ref then TemplateIgnoreStatusBucket else TemplateBucket) \<and> r' = r
       then insert (watch_consumer cs) (interested ops m1 b r)
       else if b = (if trr_IgnoreStatusChanges ref then TemplateBucket else TemplateIgnoreStatusBucket) \<and> r' = r
       then interested ops m1 b r - {watch_consumer cs} else interested ops m1 b r')"
    unfolding def [symmetric] Let_def
    by (cases b) (simp_all add: interested_def bucket_map_def elems_insert_bucket elems_erase_bucket)
  then show "interested ops m' b r' = (
       if b = (if trr_IgnoreStatusChanges ref then TemplateIgnoreStatusBucket else TemplateBucket) \<and> r' = r
       then insert (watch_consumer cs) (interested ops m b r)
       else if b = (if trr_IgnoreStatusChanges ref then TemplateBucket else TemplateIgnoreStatusBucket) \<and> r' = r
       then interested ops m b r - {watch_consumer cs} else interested ops m b r')" by (simp add: v)
  have "wm_watchers m' = wm_watchers m1" unfolding def [symmetric] Let_def by simp
  then show "watching m' g' \<longleftrightarrow> g' = g \<or> watching m g'" using v(3) [OF ok] by (simp add: watching_def)
  have "requestorForMgmtResourcesPolicyRef m' = requestorForMgmtResourcesPolicyRef m1"
    unfolding def [symmetric] Let_def by simp
  then show "requestorForMgmtResourcesPolicyRef m' = requestorForMgmtResourcesPolicyRef m"
    using v(5) [of ByPolicy] by (simp add: source_map_def)
qed

lemma stop_if_unused_view:
  "requestors ops (stop_if_unused ops g m) = requestors ops m"
  "interested ops (stop_if_unused ops g m) = interested ops m"
  "watching (stop_if_unused ops g m) g' \<longleftrightarrow> watching m g' \<and> \<not> (g' = g \<and> (\<forall>src. requestors ops m src g = {}))"
  "source_map src (stop_if_unused ops g m) = source_map src m" "bucket_map b (stop_if_unused ops g m) = bucket_map b m"
  unfolding stop_if_unused_def canStop_iff
  by (auto simp: watch_views fun_eq_iff delete_conv split: watch_source.splits watch_bucket.splits)

lemma get_entry_view:
  assumes "getGVKMapEntryForFeatureID ops g f m = Some (s, m1)"
  shows "elems s = requestors ops m (bucket_source (feature_bucket f)) g" and "requestors ops m1 = requestors ops m"
proof -
  have "s = lookup_default (so_empty ops) (source_map (bucket_source (feature_bucket f)) m) g"
    using assms by (cases f)
      (auto simp: getGVKMapEntryForFeatureID_def feature_bucket_def source_map_def lookup_default_def split: option.splits)
  then show "elems s = requestors ops m (bucket_source (feature_bucket f)) g" by (simp add: requestors_def)
  have "lookup_default (so_empty ops) (source_map src m1) g' = lookup_default (so_empty ops) (source_map src m) g'" for src g'
    using assms by (cases f; cases src)
      (auto simp: getGVKMapEntryForFeatureID_def source_map_def lookup_default_def update_conv
        split: option.splits if_splits)
  then show "requestors ops m1 = requestors ops m" by (simp add: fun_eq_iff requestors_def)
qed

lemma set_entry_view:
  assumes "setGVKMapEntryForFeatureID ops g f s (putGVKSet g f s m1) = Some m2"
  shows "requestors ops m2 src g' = (if g' = g then
      (if src = bucket_source (feature_bucket f) then elems s
       else if src = ByKustomization \<and> elems s = {} then {} else requestors ops m1 src g)
    else requestors ops m1 src g')"
  using assms by (cases f; cases src)
    (auto simp: setGVKMapEntryForFeatureID_def putGVKSet_def feature_bucket_def requestors_def source_map_def
      split: if_splits)

lemma stop_gvk_view:
  assumes "stop_gvk ops c cur f g m = Some m'" and "f \<noteq> FeatureHelm"
  shows "requestors ops m' src g' = (if g' = g \<and> \<not> lookup_default False cur g
      then stopped_requestors f c (requestors ops m) src g else requestors ops m src g')"
    and "interested ops m' = interested ops m" and "bucket_map b m' = bucket_map b m"
    and "watching m' g' \<longleftrightarrow> watching m g' \<and>
      \<not> (g' = g \<and> \<not> lookup_default False cur g \<and> (\<forall>src. requestors ops m' src g = {}))"
    and "map_of (requestorForMgmtResourcesPolicyRef m') g' \<noteq> None \<Longrightarrow>
      g' = g \<and> f = FeatureResources \<or> map_of (requestorForMgmtResourcesPolicyRef m) g' \<noteq> None"
proof -
  have "(requestors ops m' src g' = (if g' = g \<and> \<not> lookup_default False cur g
      then stopped_requestors f c (requestors ops m) src g else requestors ops m src g')) \<and>
    interested ops m' = interested ops m \<and> bucket_map b m' = bucket_map b m \<and>
    (watching m' g' \<longleftrightarrow> watching m g' \<and>
      \<not> (g' = g \<and> \<not> lookup_default False cur g \<and> (\<forall>src. requestors ops m' src g = {}))) \<and>
    (map_of (requestorForMgmtResourcesPolicyRef m') g' \<noteq> None \<longrightarrow>
      g' = g \<and> f = FeatureResources \<or> map_of (requestorForMgmtResourcesPolicyRef m) g' \<noteq> None)"
  proof (cases "lookup_default False cur g")
    case True
    then show ?thesis using assms by (auto simp: stop_gvk_def)
  next
    case False
    obtain s m1 where s: "getGVKMapEntryForFeatureID ops g f m = Some (s, m1)"
      and r: "Option.bind (setGVKMapEntryForFeatureID ops g f (so_erase ops c s) (putGVKSet g f (so_erase ops c s) m1))
        (\<lambda>m. Some (stop_if_unused ops g m)) = Some m'"
      using assms(1) False by (auto simp: stop_gvk_def Let_def bind_eq_Some_conv)
    obtain m2 where m2: "setGVKMapEntryForFeatureID ops g f (so_erase ops c s) (putGVKSet g f (so_erase ops c s) m1) = Some m2"
      and m': "m' = stop_if_unused ops g m2"
      using r by (auto simp: bind_eq_Some_conv)
    note defs = getGVKMapEntryForFeatureID_def setGVKMapEntryForFeatureID_def putGVKSet_def
    have R: "requestors ops m2 src g' = (if g' = g
      then stopped_requestors f c (requestors ops m) src g else requestors ops m src g')"
      using assms(2) by (cases f)
        (simp_all add: set_entry_view [OF m2] get_entry_view [OF s] stopped_requestors_def feature_bucket_def)
    have B: "bucket_map b m2 = bucket_map b m" for b
      using s m2 assms(2) by (cases f; cases b) (auto simp: defs bucket_map_def split: option.splits if_splits)
    have W: "wm_watchers m2 = wm_watchers m"
      using s m2 assms(2) by (cases f) (auto simp: defs split: option.splits if_splits)
    have P: "map_of (requestorForMgmtResourcesPolicyRef m2) g' \<noteq> None \<Longrightarrow>
      g' = g \<and> f = FeatureResources \<or> map_of (requestorForMgmtResourcesPolicyRef m) g' \<noteq> None"
      using s m2 assms(2) by (cases f) (auto simp: defs update_conv split: option.splits if_splits)
    note v = stop_if_unused_view [where g = g and m = m2, folded m']
    have I: "interested ops m' = interested ops m" by (simp add: fun_eq_iff interested_def v(5) B)
    show ?thesis
      using False R B W P v(1,3,4,5) I v(4) [of ByPolicy] by (simp add: watching_def source_map_def)
  qed
  then show "requestors ops m' src g' = (if g' = g \<and> \<not> lookup_default False cur g
      then stopped_requestors f c (requestors ops m) src g else requestors ops m src g')"
    "interested ops m' = interested ops m" "bucket_map b m' = bucket_map b m"
    "watching m' g' \<longleftrightarrow> watching m g' \<and>
      \<not> (g' = g \<and> \<not> lookup_default False cur g \<and> (\<forall>src. requestors ops m' src g = {}))"
    "map_of (requestorForMgmtResourcesPolicyRef m') g' \<noteq> None \<Longrightarrow>
      g' = g \<and> f = FeatureResources \<or> map_of (requestorForMgmtResourcesPolicyRef m) g' \<noteq> None"
    by blast+
qed

lemma stop_resource_view:
  assumes "stop_resource ops c cur f r m = Some m'" and "f \<noteq> FeatureHelm"
  shows "interested ops m' b r' = (if b = feature_bucket f \<and> r' = r \<and> map_of cur r = None
      then interested ops m b r - {c} else interested ops m b r')"
    and "requestors ops m' = requestors ops m" and "watching m' = watching m" and "source_map src m' = source_map src m"
proof -
  note defs = stop_resource_def getResourceMapEntryForFeatureID_def putResourceSet_def setResourceMapEntryForFeatureID_def
  show "interested ops m' b r' = (if b = feature_bucket f \<and> r' = r \<and> map_of cur r = None
      then interested ops m b r - {c} else interested ops m b r')"
    using assms by (cases f; cases b) (auto simp: defs Let_def watch_views feature_bucket_def lookup_default_def
        update_conv delete_conv split: option.splits if_splits)
  have S: "source_map src m' = source_map src m" for src
    using assms by (cases f; cases src) (auto simp: defs Let_def source_map_def split: option.splits if_splits)
  then show "source_map src m' = source_map src m" .
  show "requestors ops m' = requestors ops m" by (simp add: fun_eq_iff requestors_def S)
  have "wm_watchers m' = wm_watchers m"
    using assms by (cases f) (auto simp: defs Let_def split: option.splits if_splits)
  then show "watching m' = watching m" by (simp add: fun_eq_iff watching_def)
qed

text \<open>A loop whose body may panic.\<close>

lemma fold_bind_None [simp]: "fold (\<lambda>x om. Option.bind om (step x)) xs None = None"
  by (induction xs) auto

lemma fold_bind_inv:
  assumes "fold (\<lambda>x om. Option.bind om (step x)) xs (Some m) = Some m'" and "I m"
    and "\<And>x m m'. x \<in> set xs \<Longrightarrow> step x m = Some m' \<Longrightarrow> I m \<Longrightarrow> I m'"
  shows "I m'"
  using assms
proof (induction xs arbitrary: m)
  case (Cons x xs)
  then obtain m1 where m1: "step x m = Some m1" by (cases "step x m") auto
  show ?case
  proof (rule Cons.IH)
    show "fold (\<lambda>x om. Option.bind om (step x)) xs (Some m1) = Some m'" using Cons.prems(1) m1 by simp
    show "I m1" by (rule Cons.prems(3) [OF _ m1 Cons.prems(2)]) simp
    show "I m'" if "x \<in> set xs" "step x m = Some m'" "I m" for x m m'
      by (rule Cons.prems(3) [OF _ that(2,3)]) (use that(1) in simp)
  qed
qed simp

definition live_exact :: "'s watch_manager \<Rightarrow> bool" where
  "live_exact m \<longleftrightarrow> (\<forall>g. watching m g \<longleftrightarrow> (\<exists>src. requestors ops m src g \<noteq> {}))"

lemma stop_gvk_live:
  assumes "stop_gvk ops c cur f g m = Some m'" "f \<noteq> FeatureHelm" "live_exact m"
  shows "live_exact m'"
  unfolding live_exact_def
proof
  fix g'
  note v = stop_gvk_view [OF assms(1,2)]
  show "watching m' g' \<longleftrightarrow> (\<exists>src. requestors ops m' src g' \<noteq> {})"
  proof (cases "g' = g \<and> \<not> lookup_default False cur g")
    case True
    have "requestors ops m' src g' \<subseteq> requestors ops m src g'" for src
      using v(1) [of src g'] by (auto simp: stopped_requestors_def)
    then show ?thesis using True v(4) [of g'] assms(3) unfolding live_exact_def by blast
  next
    case False
    then show ?thesis using v(1) [of _ g'] v(4) [of g'] assms(3) unfolding live_exact_def by auto
  qed
qed

lemma stop_gvks_source:
  assumes "fold (\<lambda>g om. Option.bind om (stop_gvk ops c cur f g)) ks (Some m) = Some m'" "f \<noteq> FeatureHelm"
  shows "requestors ops m' (bucket_source (feature_bucket f)) g =
    (if g \<in> set ks \<and> \<not> lookup_default False cur g then requestors ops m (bucket_source (feature_bucket f)) g - {c}
     else requestors ops m (bucket_source (feature_bucket f)) g)"
  using assms
proof (induction ks arbitrary: m)
  case (Cons k ks)
  then obtain m1 where m1: "stop_gvk ops c cur f k m = Some m1" by (cases "stop_gvk ops c cur f k m") auto
  have "fold (\<lambda>g om. Option.bind om (stop_gvk ops c cur f g)) ks (Some m1) = Some m'" using Cons.prems(1) m1 by simp
  from Cons.IH [OF this Cons.prems(2)] stop_gvk_view(1) [OF m1 Cons.prems(2)]
  show ?case by (auto simp: stopped_requestors_def)
qed simp

lemma current_gvks:
  "lookup_default False (fold (\<lambda>entry. AList.update (resource_gvk env (fst entry)) True) cur al) g \<longleftrightarrow>
     (\<exists>r. map_of cur r \<noteq> None \<and> resource_gvk env r = g) \<or> lookup_default False al g"
proof -
  have "lookup_default False (fold (\<lambda>entry. AList.update (resource_gvk env (fst entry)) True) cur al) g \<longleftrightarrow>
     (\<exists>e \<in> set cur. resource_gvk env (fst e) = g) \<or> lookup_default False al g"
    by (induction cur arbitrary: al) auto
  also have "(\<exists>e \<in> set cur. resource_gvk env (fst e) = g) \<longleftrightarrow> (\<exists>r \<in> fst ` set cur. resource_gvk env r = g)" by simp
  finally show ?thesis by (auto simp: map_of_eq_None_iff Bex_def)
qed

lemma stop_mgmt_view:
  assumes "stopStaleWatchForMgmtResource ops env cur cs f m = Some m'"
  defines "c \<equiv> watch_consumer cs"
  defines "wanted \<equiv> \<lambda>g. \<exists>r. map_of cur r \<noteq> None \<and> resource_gvk env r = g"
  shows "f \<noteq> FeatureHelm"
    and "interested ops m' b r = (if b = feature_bucket f \<and> map_of cur r = None then interested ops m b r - {c}
      else interested ops m b r)"
    and "requestors ops m' (bucket_source (feature_bucket f)) g = (if wanted g
      then requestors ops m (bucket_source (feature_bucket f)) g else requestors ops m (bucket_source (feature_bucket f)) g - {c})"
    and "src \<noteq> bucket_source (feature_bucket f) \<Longrightarrow> requestors ops m' src g = requestors ops m src g \<or>
      f = FeatureResources \<and> src = ByKustomization \<and> requestors ops m' src g = {} \<and>
      map_of (requestorForMgmtResourcesPolicyRef m) g \<noteq> None"
    and "live_exact m \<Longrightarrow> live_exact m'"
    and "map_of (requestorForMgmtResourcesPolicyRef m') g \<noteq> None \<Longrightarrow> map_of (requestorForMgmtResourcesPolicyRef m) g \<noteq> None"
proof -
  define gvks where "gvks = fold (\<lambda>entry. AList.update (resource_gvk env (fst entry)) True) cur []"
  have wanted: "lookup_default False gvks g \<longleftrightarrow> wanted g" for g
    unfolding gvks_def wanted_def by (simp add: current_gvks)
  obtain gm m1 rm where gm: "getGVKMapForFeatureID f m = Some gm"
    and m1: "fold (\<lambda>g om. Option.bind om (stop_gvk ops c gvks f g)) (map fst gm) (Some m) = Some m1"
    and rm: "getResourceMapForFeatureID f m1 = Some rm"
    and m': "fold (\<lambda>r om. Option.bind om (stop_resource ops c cur f r)) (map fst rm) (Some m1) = Some m'"
    using assms(1) by (auto simp: stopStaleWatchForMgmtResource_def Let_def c_def gvks_def bind_eq_Some_conv)
  show f: "f \<noteq> FeatureHelm" using gm by (auto simp: getGVKMapForFeatureID_def)
  have gm': "gm = source_map (bucket_source (feature_bucket f)) m"
    using gm f by (cases f) (auto simp: getGVKMapForFeatureID_def feature_bucket_def source_map_def)
  have rm': "rm = bucket_map (feature_bucket f) m1"
    using rm f by (cases f) (auto simp: getResourceMapForFeatureID_def feature_bucket_def bucket_map_def)
  have I1: "interested ops m1 = interested ops m"
    by (rule fold_bind_inv [OF m1, of "\<lambda>m1. interested ops m1 = interested ops m"]) (simp_all add: stop_gvk_view(2) f)
  have S2: "requestors ops m' = requestors ops m1 \<and> watching m' = watching m1 \<and> source_map ByPolicy m' = source_map ByPolicy m1"
    by (rule fold_bind_inv [OF m', of "\<lambda>m'. requestors ops m' = requestors ops m1 \<and> watching m' = watching m1 \<and>
        source_map ByPolicy m' = source_map ByPolicy m1"]) (simp_all add: stop_resource_view(2-4) f)
  have L1: "live_exact m1" if "live_exact m"
    by (rule fold_bind_inv [where I = live_exact, OF m1 that]) (rule stop_gvk_live [OF _ f])
  show "live_exact m'" if "live_exact m" using L1 [OF that] S2 by (simp add: live_exact_def)
  have P1: "map_of (requestorForMgmtResourcesPolicyRef m1) g \<noteq> None \<longrightarrow> map_of (requestorForMgmtResourcesPolicyRef m) g \<noteq> None" for g
  proof (rule fold_bind_inv [OF m1, of "\<lambda>m1. map_of (requestorForMgmtResourcesPolicyRef m1) g \<noteq> None \<longrightarrow>
        map_of (requestorForMgmtResourcesPolicyRef m) g \<noteq> None"], simp, intro impI)
    fix x ma mb
    assume x: "x \<in> set (map fst gm)" and s: "stop_gvk ops c gvks f x ma = Some mb"
      and i: "map_of (requestorForMgmtResourcesPolicyRef ma) g \<noteq> None \<longrightarrow> map_of (requestorForMgmtResourcesPolicyRef m) g \<noteq> None"
      and n: "map_of (requestorForMgmtResourcesPolicyRef mb) g \<noteq> None"
    from stop_gvk_view(5) [OF s f n] consider "g = x" "f = FeatureResources" | "map_of (requestorForMgmtResourcesPolicyRef ma) g \<noteq> None" by blast
    then show "map_of (requestorForMgmtResourcesPolicyRef m) g \<noteq> None"
    proof cases
      case 1
      then have "g \<in> set (map fst (requestorForMgmtResourcesPolicyRef m))"
        using x unfolding gm' by (simp add: feature_bucket_def source_map_def)
      then show ?thesis by (auto simp: map_of_eq_None_iff)
    qed (use i in blast)
  qed
  then show "map_of (requestorForMgmtResourcesPolicyRef m') g \<noteq> None \<Longrightarrow> map_of (requestorForMgmtResourcesPolicyRef m) g \<noteq> None"
    using S2 by (simp add: source_map_def)
  have absent: "requestors ops m (bucket_source (feature_bucket f)) g = {}" if "g \<notin> set (map fst gm)" for g
    using that unfolding gm' by (simp add: requestors_def lookup_default_absent)
  show "requestors ops m' (bucket_source (feature_bucket f)) g = (if wanted g
      then requestors ops m (bucket_source (feature_bucket f)) g else requestors ops m (bucket_source (feature_bucket f)) g - {c})"
    using stop_gvks_source [OF m1 f, of g] absent [of g] S2 wanted [of g] by auto
  show "requestors ops m' src g = requestors ops m src g \<or>
      f = FeatureResources \<and> src = ByKustomization \<and> requestors ops m' src g = {} \<and>
      map_of (requestorForMgmtResourcesPolicyRef m) g \<noteq> None"
    if src: "src \<noteq> bucket_source (feature_bucket f)"
  proof -
    define I where "I = (\<lambda>mb. requestors ops mb src g = requestors ops m src g \<or>
      f = FeatureResources \<and> src = ByKustomization \<and> requestors ops mb src g = {} \<and>
      map_of (requestorForMgmtResourcesPolicyRef m) g \<noteq> None)"
    have "I m1"
    proof (rule fold_bind_inv [OF m1])
      fix x ma mb
      assume x: "x \<in> set (map fst gm)" and s: "stop_gvk ops c gvks f x ma = Some mb" and i: "I ma"
      have key: "map_of (requestorForMgmtResourcesPolicyRef m) x \<noteq> None" if "f = FeatureResources"
        using x that unfolding gm' by (auto simp: feature_bucket_def source_map_def map_of_eq_None_iff)
      show "I mb"
        using i src stop_gvk_view(1) [OF s f, of src g] key
        by (cases "g = x") (auto simp: I_def stopped_requestors_def split: if_splits)
    qed (simp add: I_def)
    then show ?thesis using S2 by (simp add: I_def)
  qed
  have loop: "interested ops m' b r = (if b = feature_bucket f \<and> r \<in> set rs \<and> map_of cur r = None
      then interested ops m1 b r - {c} else interested ops m1 b r)"
    if "fold (\<lambda>r om. Option.bind om (stop_resource ops c cur f r)) rs (Some m1) = Some m'" for rs m1 b r
    using that
  proof (induction rs arbitrary: m1)
    case (Cons k rs)
    then obtain m2 where m2: "stop_resource ops c cur f k m1 = Some m2" by (cases "stop_resource ops c cur f k m1") auto
    then have "fold (\<lambda>r om. Option.bind om (stop_resource ops c cur f r)) rs (Some m2) = Some m'" using Cons.prems by simp
    from Cons.IH [OF this] stop_resource_view(1) [OF m2 f] show ?case by auto
  qed simp
  have "interested ops m1 (feature_bucket f) r = {}" if "r \<notin> set (map fst rm)" for r
    using that unfolding rm' by (simp add: interested_def lookup_default_absent)
  then show "interested ops m' b r = (if b = feature_bucket f \<and> map_of cur r = None then interested ops m b r - {c}
      else interested ops m b r)"
    using loop [OF m', of b r] I1 by auto
qed

lemma stop_template_gvk_view:
  "requestors ops (stop_template_gvk ops c cur g m) src g' =
     (if src = ByTemplate \<and> g' = g \<and> \<not> lookup_default False cur g then requestors ops m src g - {c}
      else requestors ops m src g')"
  "interested ops (stop_template_gvk ops c cur g m) = interested ops m"
  "watching (stop_template_gvk ops c cur g m) g' \<longleftrightarrow> watching m g' \<and> \<not> (g' = g \<and> \<not> lookup_default False cur g \<and>
     (\<forall>src. requestors ops (stop_template_gvk ops c cur g m) src g = {}))"
  "requestorForMgmtResourcesPolicyRef (stop_template_gvk ops c cur g m) = requestorForMgmtResourcesPolicyRef m"
proof -
  define m1 where "m1 = m\<lparr>requestorForTemplateResourceRefs := AList.update g
      (so_erase ops c (lookup_default (so_empty ops) (requestorForTemplateResourceRefs m) g))
      (requestorForTemplateResourceRefs m)\<rparr>"
  have def: "stop_template_gvk ops c cur g m = (if lookup_default False cur g then m else stop_if_unused ops g m1)"
    by (simp add: stop_template_gvk_def m1_def Let_def)
  have R: "requestors ops m1 src g' = (if src = ByTemplate \<and> g' = g then requestors ops m src g - {c}
      else requestors ops m src g')" for src g'
    by (cases src) (simp_all add: requestors_def source_map_def m1_def)
  have I: "interested ops m1 = interested ops m"
    by (simp add: fun_eq_iff interested_def bucket_map_def m1_def split: watch_bucket.split)
  have O: "wm_watchers m1 = wm_watchers m" "requestorForMgmtResourcesPolicyRef m1 = requestorForMgmtResourcesPolicyRef m"
    by (simp_all add: m1_def)
  note v = stop_if_unused_view [where g = g and m = m1]
  show "requestors ops (stop_template_gvk ops c cur g m) src g' =
     (if src = ByTemplate \<and> g' = g \<and> \<not> lookup_default False cur g then requestors ops m src g - {c}
      else requestors ops m src g')"
    by (simp add: def v R)
  show "interested ops (stop_template_gvk ops c cur g m) = interested ops m" by (simp add: def v I)
  show "watching (stop_template_gvk ops c cur g m) g' \<longleftrightarrow> watching m g' \<and> \<not> (g' = g \<and> \<not> lookup_default False cur g \<and>
     (\<forall>src. requestors ops (stop_template_gvk ops c cur g m) src g = {}))"
    using v(1,3) by (simp add: def) (simp add: watching_def O)
  show "requestorForMgmtResourcesPolicyRef (stop_template_gvk ops c cur g m) = requestorForMgmtResourcesPolicyRef m"
    using v(4) [of ByPolicy] by (simp add: def source_map_def O)
qed

lemma stop_template_gvk_live: "live_exact m \<Longrightarrow> live_exact (stop_template_gvk ops c cur g m)"
  unfolding live_exact_def
proof
  fix g'
  assume live: "\<forall>g. watching m g \<longleftrightarrow> (\<exists>src. requestors ops m src g \<noteq> {})"
  note v = stop_template_gvk_view(1,3) [where c = c and cur = cur and g = g and m = m]
  have "requestors ops (stop_template_gvk ops c cur g m) src g' \<subseteq> requestors ops m src g'" for src
    using v(1) [of src g'] by auto
  moreover have "requestors ops (stop_template_gvk ops c cur g m) src g' = requestors ops m src g'"
    if "\<not> (g' = g \<and> \<not> lookup_default False cur g)" for src using v(1) [of src g'] that by auto
  ultimately show "watching (stop_template_gvk ops c cur g m) g' \<longleftrightarrow>
      (\<exists>src. requestors ops (stop_template_gvk ops c cur g m) src g' \<noteq> {})"
    using v(2) [of g'] live by blast
qed

lemma stop_template_gvks_view:
  fixes ks c cur m
  defines "m' \<equiv> fold (stop_template_gvk ops c cur) ks m"
  shows "requestors ops m' src g = (if src = ByTemplate \<and> g \<in> set ks \<and> \<not> lookup_default False cur g
      then requestors ops m src g - {c} else requestors ops m src g)"
    and "interested ops m' = interested ops m" and "live_exact m \<Longrightarrow> live_exact m'"
    and "requestorForMgmtResourcesPolicyRef m' = requestorForMgmtResourcesPolicyRef m"
  unfolding m'_def by (induction ks arbitrary: m) (auto simp: stop_template_gvk_view stop_template_gvk_live)

lemma current_template_refs_gvks:
  "lookup_default False (fst (snd (current_template_refs env cs))) g \<longleftrightarrow>
     (\<exists>r. map_of (snd (snd (current_template_refs env cs))) r \<noteq> None \<and> resource_gvk env r = g)"
proof -
  define body where "body = (\<lambda>ref (refs, gvks, resources).
     let namespace = getTemplateResourceNamespace env cs ref;
         ref1 = ref\<lparr>trr_Resource := (trr_Resource ref)\<lparr>ref_Namespace := fst namespace\<rparr>\<rparr>
     in if snd namespace \<noteq> None then (refs @ [ref1], gvks, resources)
        else let name = getTemplateResourceName env cs ref1;
                 resource = (trr_Resource ref1)\<lparr>ref_Name := fst name\<rparr>
          in (refs @ [ref1\<lparr>trr_Resource := resource\<rparr>], AList.update (resource_gvk env resource) True gvks,
              AList.update resource True resources))"
  define ok where "ok = (\<lambda>acc :: template_resource_ref list \<times> (gvk \<times> bool) list \<times> (object_reference \<times> bool) list.
    \<forall>g. lookup_default False (fst (snd acc)) g \<longleftrightarrow> (\<exists>r. map_of (snd (snd acc)) r \<noteq> None \<and> resource_gvk env r = g))"
  have step: "ok (body ref acc)" if "ok acc" for ref acc
  proof (cases acc)
    case (fields refs gvks resources)
    have keys: "map_of (AList.update x True al) r \<noteq> None \<longleftrightarrow> r = x \<or> map_of al r \<noteq> None"
      for x r :: object_reference and al by (auto simp: update_conv)
    have upd: "ok (refs', AList.update (resource_gvk env x) True gvks, AList.update x True resources)" for x refs'
      using that unfolding fields ok_def fst_conv snd_conv keys by auto
    have "ok (refs', gvks, resources)" for refs' using that unfolding fields ok_def by simp
    with upd show ?thesis unfolding fields body_def Let_def by simp
  qed
  have loop: "ok acc \<Longrightarrow> ok (fold body xs acc)" for xs acc
    by (induction xs arbitrary: acc) (simp_all add: step)
  have "ok (fold body (ps_TemplateResourceRefs (cs_ProfileSpec cs)) ([], [], []))"
    by (rule loop) (simp add: ok_def)
  then show ?thesis unfolding ok_def current_template_refs_def body_def by blast
qed

lemma stop_template_view:
  fixes env cs remove_all m
  defines "m' \<equiv> fst (stopStaleWatchForTemplateResourceRef ops env cs remove_all m)"
  defines "cur \<equiv> if remove_all then [] else snd (snd (current_template_refs env cs))"
  defines "c \<equiv> watch_consumer cs"
  shows "interested ops m' b r = (if b \<in> {TemplateBucket, TemplateIgnoreStatusBucket} \<and> map_of cur r = None
      then interested ops m b r - {c} else interested ops m b r)"
    and "requestors ops m' src g = (if src = ByTemplate \<and> \<not> (\<exists>r. map_of cur r \<noteq> None \<and> resource_gvk env r = g)
      then requestors ops m src g - {c} else requestors ops m src g)"
    and "live_exact m \<Longrightarrow> live_exact m'"
    and "requestorForMgmtResourcesPolicyRef m' = requestorForMgmtResourcesPolicyRef m"
proof -
  define gvks where "gvks = (if remove_all then [] else fst (snd (current_template_refs env cs)))"
  define m1 where "m1 = fold (stop_template_gvk ops c gvks) (map fst (requestorForTemplateResourceRefs m)) m"
  have m': "m' = m1\<lparr>templateResourceRefsWatched := clean_bucket ops c cur (templateResourceRefsWatched m1),
            templateResourceRefsWatchedIgnoreStatus := clean_bucket ops c cur (templateResourceRefsWatchedIgnoreStatus m1)\<rparr>"
    by (simp add: m'_def stopStaleWatchForTemplateResourceRef_def Let_def m1_def gvks_def cur_def c_def)
  note v = stop_template_gvks_view [where ks = "map fst (requestorForTemplateResourceRefs m)" and c = c and cur = gvks
      and m = m, folded m1_def]
  have gvks: "lookup_default False gvks g \<longleftrightarrow> (\<exists>r. map_of cur r \<noteq> None \<and> resource_gvk env r = g)" for g
    unfolding gvks_def cur_def using current_template_refs_gvks by (simp split: if_split)
  have absent: "requestors ops m ByTemplate g = {}" if "g \<notin> set (map fst (requestorForTemplateResourceRefs m))"
    using that by (simp add: requestors_def source_map_def lookup_default_absent)
  have R: "requestors ops m' = requestors ops m1"
    by (simp add: m' fun_eq_iff requestors_def source_map_def split: watch_source.split)
  show "requestors ops m' src g = (if src = ByTemplate \<and> \<not> (\<exists>r. map_of cur r \<noteq> None \<and> resource_gvk env r = g)
      then requestors ops m src g - {c} else requestors ops m src g)"
    unfolding R gvks [symmetric] v(1) [of src g]
    by (cases "src = ByTemplate"; cases "g \<in> set (map fst (requestorForTemplateResourceRefs m))") (simp_all add: absent)
  have "interested ops m' b r = (if b \<in> {TemplateBucket, TemplateIgnoreStatusBucket} \<and> map_of cur r = None
      then interested ops m1 b r - {c} else interested ops m1 b r)"
    by (cases b) (simp_all add: m' interested_def bucket_map_def elems_clean_bucket)
  then show "interested ops m' b r = (if b \<in> {TemplateBucket, TemplateIgnoreStatusBucket} \<and> map_of cur r = None
      then interested ops m b r - {c} else interested ops m b r)" by (simp add: v)
  have W: "watching m' = watching m1" by (simp add: m' fun_eq_iff watching_def)
  show "live_exact m \<Longrightarrow> live_exact m'" using v(3) by (simp add: live_exact_def R W)
  show "requestorForMgmtResourcesPolicyRef m' = requestorForMgmtResourcesPolicyRef m" using v(4) by (simp add: m')
qed

end

section \<open>Histories\<close>

datatype watch_op =
    StartMgmt gvk object_reference cluster_summary feature_id
  | StartTemplate gvk template_resource_ref cluster_summary
  | StopMgmt "(object_reference \<times> bool) list" cluster_summary feature_id
  | StopTemplate cluster_summary bool

text \<open>The state after a call; \<open>None\<close> is a panic. A start that returns an error is a step too.\<close>

definition watch_step :: "'s set_ops \<Rightarrow> watch_env \<Rightarrow> watch_op \<Rightarrow> 's watch_manager \<Rightarrow> 's watch_manager option" where
  "watch_step ops env a m = (case a of
     StartMgmt g r cs f \<Rightarrow> map_option snd (startWatcherForMgmtResource ops env g r cs f m)
   | StartTemplate g ref cs \<Rightarrow> Some (snd (startWatcherForTemplateResourceRef ops env g ref cs m))
   | StopMgmt cur cs f \<Rightarrow> stopStaleWatchForMgmtResource ops env cur cs f m
   | StopTemplate cs remove_all \<Rightarrow> Some (fst (stopStaleWatchForTemplateResourceRef ops env cs remove_all m)))"

definition watch_run :: "'s set_ops \<Rightarrow> watch_env \<Rightarrow> watch_op list \<Rightarrow> 's watch_manager \<Rightarrow> 's watch_manager option" where
  "watch_run ops env as m = fold (\<lambda>a om. Option.bind om (watch_step ops env a)) as (Some m)"

text \<open>The callers pass the type of the resource; \<open>K\<close> and \<open>P\<close> are the types watched for
  KustomizationRefs and for PolicyRefs.\<close>

definition watch_op_ok :: "watch_env \<Rightarrow> gvk set \<Rightarrow> gvk set \<Rightarrow> watch_op \<Rightarrow> bool" where
  "watch_op_ok env K P a = (case a of
     StartMgmt g r cs f \<Rightarrow> g = resource_gvk env r \<and> (f = FeatureKustomize \<longrightarrow> g \<in> K) \<and> (f = FeatureResources \<longrightarrow> g \<in> P)
   | StartTemplate g ref cs \<Rightarrow> g = resource_gvk env (trr_Resource ref)
   | _ \<Rightarrow> True)"

lemma start_mgmt_error:
  "startWatcherForMgmtResource ops env g r cs f m = Some (Some err, m') \<Longrightarrow> m' = m"
  by (auto simp: startWatcherForMgmtResource_def startWatcher_def Let_def bind_eq_Some_conv split: option.splits)

lemma start_template_error:
  "startWatcherForTemplateResourceRef ops env g ref cs m = (Some err, m') \<Longrightarrow> m' = m"
  by (auto simp: startWatcherForTemplateResourceRef_def startWatcher_def Let_def split: option.splits if_splits)

context object_set
begin

text \<open>Who is interested in a resource has requested its type, and the requests stay apart.\<close>

definition watch_inv :: "watch_env \<Rightarrow> gvk set \<Rightarrow> gvk set \<Rightarrow> 's watch_manager \<Rightarrow> bool" where
  "watch_inv env K P m \<longleftrightarrow>
     (\<forall>b r. interested ops m b r \<subseteq> requestors ops m (bucket_source b) (resource_gvk env r)) \<and>
     (\<forall>g. requestors ops m ByKustomization g \<noteq> {} \<longrightarrow> g \<in> K) \<and>
     (\<forall>g. map_of (requestorForMgmtResourcesPolicyRef m) g \<noteq> None \<longrightarrow> g \<in> P)"

lemma start_mgmt_live:
  assumes "startWatcherForMgmtResource ops env g r cs f m = Some (None, m')" "live_exact m"
  shows "live_exact m'"
proof -
  note v = start_mgmt_view(2,4) [OF assms(1)]
  show ?thesis
    unfolding live_exact_def
  proof
    fix g'
    show "watching m' g' \<longleftrightarrow> (\<exists>src. requestors ops m' src g' \<noteq> {})"
      using v(1) [of _ g'] v(2) [of g'] assms(2) unfolding live_exact_def by (cases "g' = g") auto
  qed
qed

lemma start_template_live:
  assumes "startWatcherForTemplateResourceRef ops env g ref cs m = (None, m')" "live_exact m"
  shows "live_exact m'"
proof -
  note v = start_template_view(1,3) [OF assms(1)]
  show ?thesis
    unfolding live_exact_def
  proof
    fix g'
    show "watching m' g' \<longleftrightarrow> (\<exists>src. requestors ops m' src g' \<noteq> {})"
      using v(1) [of _ g'] v(2) [of g'] assms(2) unfolding live_exact_def by (cases "g' = g") auto
  qed
qed

lemma watch_step_live:
  assumes "watch_step ops env a m = Some m'" "live_exact m"
  shows "live_exact m'"
proof (cases a)
  case (StartMgmt g r cs f)
  with assms(1) obtain e where "startWatcherForMgmtResource ops env g r cs f m = Some (e, m')"
    by (auto simp: watch_step_def)
  then show ?thesis using assms(2) by (cases e) (auto dest: start_mgmt_error start_mgmt_live)
next
  case (StartTemplate g ref cs)
  with assms(1) obtain e where "startWatcherForTemplateResourceRef ops env g ref cs m = (e, m')"
    by (cases "startWatcherForTemplateResourceRef ops env g ref cs m") (auto simp: watch_step_def)
  then show ?thesis using assms(2) by (cases e) (auto dest: start_template_error start_template_live)
next
  case (StopMgmt cur cs f)
  with assms show ?thesis by (auto simp: watch_step_def dest: stop_mgmt_view(5))
next
  case (StopTemplate cs remove_all)
  with assms show ?thesis by (auto simp: watch_step_def intro: stop_template_view(3))
qed

lemma watch_inv_start_mgmt:
  assumes "startWatcherForMgmtResource ops env g r cs f m = Some (None, m')" "watch_inv env K P m"
    "watch_op_ok env K P (StartMgmt g r cs f)"
  shows "watch_inv env K P m'"
proof -
  note v = start_mgmt_view [OF assms(1)]
  have g: "g = resource_gvk env r" and K: "f = FeatureKustomize \<Longrightarrow> g \<in> K" and P: "f = FeatureResources \<Longrightarrow> g \<in> P"
    using assms(3) by (auto simp: watch_op_ok_def)
  show ?thesis
    unfolding watch_inv_def
  proof (intro conjI allI impI)
    fix b r'
    have "interested ops m b r' \<subseteq> requestors ops m (bucket_source b) (resource_gvk env r')"
      using assms(2) by (simp add: watch_inv_def)
    then show "interested ops m' b r' \<subseteq> requestors ops m' (bucket_source b) (resource_gvk env r')"
      unfolding v(2,3) g by auto
  next
    fix g' assume "requestors ops m' ByKustomization g' \<noteq> {}"
    then show "g' \<in> K" using v(1) K assms(2) unfolding v(2)
      by (auto simp: watch_inv_def bucket_source_feature split: if_splits)
  next
    fix g' assume "map_of (requestorForMgmtResourcesPolicyRef m') g' \<noteq> None"
    then show "g' \<in> P" using P assms(2) unfolding v(5) by (auto simp: watch_inv_def)
  qed
qed

lemma watch_inv_start_template:
  assumes "startWatcherForTemplateResourceRef ops env g ref cs m = (None, m')" "watch_inv env K P m"
    "watch_op_ok env K P (StartTemplate g ref cs)"
  shows "watch_inv env K P m'"
proof -
  note v = start_template_view [OF assms(1)]
  have g: "resource_gvk env (trr_Resource ref\<lparr>ref_Namespace := ns, ref_Name := n\<rparr>) = g" for ns n
    using assms(3) by (simp add: watch_op_ok_def resource_gvk_def)
  have inv: "interested ops m b r' \<subseteq> requestors ops m (bucket_source b) (resource_gvk env r')" for b r'
    using assms(2) by (simp add: watch_inv_def)
  have "interested ops m' b r' \<subseteq> requestors ops m' (bucket_source b) (resource_gvk env r')" for b r'
    using inv [of b r'] unfolding v(1,2) by (cases b) (auto simp: g)
  then show ?thesis
    using assms(2) v(1) [of ByKustomization] v(4) by (simp add: watch_inv_def)
qed

lemma watch_inv_stop_mgmt:
  assumes "stopStaleWatchForMgmtResource ops env cur cs f m = Some m'" "watch_inv env K P m" "K \<inter> P = {}"
  shows "watch_inv env K P m'"
proof -
  note v = stop_mgmt_view [OF assms(1)]
  have inv: "interested ops m b r \<subseteq> requestors ops m (bucket_source b) (resource_gvk env r)" for b r
    using assms(2) by (simp add: watch_inv_def)
  have other: "requestors ops m' src g = requestors ops m src g" if src: "src \<noteq> bucket_source (feature_bucket f)" for src g
  proof (rule ccontr)
    assume "requestors ops m' src g \<noteq> requestors ops m src g"
    with v(4) [OF src, of g] have "requestors ops m ByKustomization g \<noteq> {}"
      "map_of (requestorForMgmtResourcesPolicyRef m) g \<noteq> None" by auto
    with assms(2) have "g \<in> K" "g \<in> P" unfolding watch_inv_def by blast+
    with assms(3) show False by blast
  qed
  have sub: "requestors ops m' src g \<subseteq> requestors ops m src g" for src g
    using v(3) [of g] other [of src g] by (cases "src = bucket_source (feature_bucket f)") (auto split: if_splits)
  have "interested ops m' b r \<subseteq> requestors ops m' (bucket_source b) (resource_gvk env r)" for b r
  proof (cases "bucket_source b = bucket_source (feature_bucket f)")
    case True
    then have b: "b = feature_bucket f" using v(1) by (cases b) (auto simp: feature_bucket_def split: if_splits)
    show ?thesis
    proof (cases "map_of cur r = None")
      case True
      then show ?thesis using inv [of b r] unfolding v(2,3) b by (simp add: subset_iff)
    next
      case False
      then have "\<exists>r'. map_of cur r' \<noteq> None \<and> resource_gvk env r' = resource_gvk env r" by blast
      then show ?thesis using inv [of b r] False unfolding v(2,3) b by (auto simp del: not_None_eq)
    qed
  next
    case False
    then have "b \<noteq> feature_bucket f" by auto
    then show ?thesis using inv [of b r] v(2) [of b r] other [OF False] by simp
  qed
  then show ?thesis
    using assms(2) v(6) sub unfolding watch_inv_def by (metis bot.extremum_uniqueI)
qed

lemma watch_inv_stop_template:
  assumes "watch_inv env K P m"
  shows "watch_inv env K P (fst (stopStaleWatchForTemplateResourceRef ops env cs remove_all m))"
proof -
  let ?m = "fst (stopStaleWatchForTemplateResourceRef ops env cs remove_all m)"
  note v = stop_template_view [where env = env and cs = cs and remove_all = remove_all and m = m]
  have inv: "interested ops m b r \<subseteq> requestors ops m (bucket_source b) (resource_gvk env r)" for b r
    using assms by (simp add: watch_inv_def)
  have "interested ops ?m b r \<subseteq> requestors ops ?m (bucket_source b) (resource_gvk env r)" for b r
  proof (cases "map_of (if remove_all then [] else snd (snd (current_template_refs env cs))) r = None")
    case True
    then show ?thesis using inv [of b r] unfolding v(1,2) by (cases b) (simp_all add: subset_iff)
  next
    case False
    then have "\<exists>r'. map_of (if remove_all then [] else snd (snd (current_template_refs env cs))) r' \<noteq> None \<and>
        resource_gvk env r' = resource_gvk env r" by blast
    then show ?thesis using inv [of b r] False unfolding v(1,2) by (cases b) (auto simp del: not_None_eq)
  qed
  then show ?thesis using assms by (simp add: watch_inv_def v(2,4))
qed

lemma watch_step_inv:
  assumes "watch_step ops env a m = Some m'" "watch_inv env K P m" "watch_op_ok env K P a" "K \<inter> P = {}"
  shows "watch_inv env K P m'"
proof (cases a)
  case (StartMgmt g r cs f)
  with assms(1) obtain e where "startWatcherForMgmtResource ops env g r cs f m = Some (e, m')"
    by (auto simp: watch_step_def)
  then show ?thesis using assms(2,3) StartMgmt
    by (cases e) (auto dest: start_mgmt_error watch_inv_start_mgmt)
next
  case (StartTemplate g ref cs)
  with assms(1) obtain e where "startWatcherForTemplateResourceRef ops env g ref cs m = (e, m')"
    by (cases "startWatcherForTemplateResourceRef ops env g ref cs m") (auto simp: watch_step_def)
  then show ?thesis using assms(2,3) StartTemplate
    by (cases e) (auto dest: start_template_error watch_inv_start_template)
next
  case (StopMgmt cur cs f)
  with assms show ?thesis by (auto simp: watch_step_def dest: watch_inv_stop_mgmt)
next
  case (StopTemplate cs remove_all)
  with assms show ?thesis by (auto simp: watch_step_def intro: watch_inv_stop_template)
qed

lemma initial_views: "requestors ops initializeManager src g = {}" "interested ops initializeManager b r = {}"
  "\<not> watching initializeManager g"
  by (cases src; cases b; simp add: watch_views initializeManager_def)+

lemma watch_run_live:
  assumes "watch_run ops env as initializeManager = Some m"
  shows "live_exact m"
proof (rule fold_bind_inv [where I = live_exact, OF assms [unfolded watch_run_def]])
  show "live_exact initializeManager" by (simp add: live_exact_def initial_views)
qed (rule watch_step_live)

lemma watch_run_inv:
  assumes "watch_run ops env as m0 = Some m" "list_all (watch_op_ok env K P) as" "K \<inter> P = {}" "watch_inv env K P m0"
  shows "watch_inv env K P m"
  using assms(1) unfolding watch_run_def
  by (rule fold_bind_inv [where I = "watch_inv env K P"])
    (use assms in \<open>auto simp: list_all_iff intro: watch_step_inv\<close>)

lemma initial_inv: "watch_inv env K P initializeManager"
  by (simp add: watch_inv_def initial_views) (simp add: initializeManager_def)

lemma set_react: "set (react ops old r gen m) = interested ops m KustomizationBucket r \<union> interested ops m PolicyBucket r \<union>
    interested ops m TemplateBucket r \<union>
    (if old = Some gen then {} else interested ops m TemplateIgnoreStatusBucket r)"
proof -
  have items: "set (case map_of al r of None \<Rightarrow> [] | Some v \<Rightarrow> so_items ops v) =
      elems (lookup_default (so_empty ops) al r)" for al :: "(object_reference \<times> 's) list"
    by (simp add: lookup_default_def split: option.split)
  show ?thesis
  proof (cases "old = Some gen")
    case True
    then have n: "\<not> (old = None \<or> old \<noteq> Some gen)" by simp
    show ?thesis
      unfolding react_def Let_def if_not_P [OF n] if_P [OF True] set_append items interested_def bucket_map_def
      by (simp add: Un_assoc)
  next
    case False
    then have n: "old = None \<or> old \<noteq> Some gen" by simp
    show ?thesis
      unfolding react_def Let_def if_P [OF n] if_not_P [OF False] set_append items interested_def bucket_map_def
      by (simp add: Un_assoc)
  qed
qed

end

text \<open>A clean-up call that takes a consumer off a resource.\<close>

definition drops_interest :: "watch_op \<Rightarrow> object_reference \<Rightarrow> feature_id \<Rightarrow> object_reference \<Rightarrow> bool" where
  "drops_interest a c f r = (case a of
     StopMgmt cur cs f' \<Rightarrow> f' = f \<and> watch_consumer cs = c \<and> map_of cur r = None
   | _ \<Rightarrow> False)"

context object_set
begin

lemma watch_step_keeps_interest:
  assumes "watch_step ops env a m = Some m'" "c \<in> interested ops m (feature_bucket f) r" "f \<noteq> FeatureHelm"
    "\<not> drops_interest a c f r"
  shows "c \<in> interested ops m' (feature_bucket f) r"
proof (cases a)
  case (StartMgmt g r' cs f')
  with assms(1) obtain e where e: "startWatcherForMgmtResource ops env g r' cs f' m = Some (e, m')"
    by (auto simp: watch_step_def)
  then show ?thesis using assms(2)
    by (cases e) (auto simp: start_mgmt_view(3) dest: start_mgmt_error)
next
  case (StartTemplate g ref cs)
  with assms(1) obtain e where e: "startWatcherForTemplateResourceRef ops env g ref cs m = (e, m')"
    by (cases "startWatcherForTemplateResourceRef ops env g ref cs m") (auto simp: watch_step_def)
  then show ?thesis using assms(2)
    by (cases e) (auto simp: start_template_view(2) feature_bucket_def dest: start_template_error)
next
  case (StopMgmt cur cs f')
  then have s: "stopStaleWatchForMgmtResource ops env cur cs f' m = Some m'" using assms(1) by (simp add: watch_step_def)
  have "feature_bucket f = feature_bucket f' \<Longrightarrow> f = f'"
    using stop_mgmt_view(1) [OF s] assms(3) by (cases f; cases f') (auto simp: feature_bucket_def)
  then show ?thesis using assms(2,4) StopMgmt unfolding stop_mgmt_view(2) [OF s] by (auto simp: drops_interest_def)
next
  case (StopTemplate cs remove_all)
  with assms show ?thesis by (auto simp: watch_step_def stop_template_view(1) feature_bucket_def)
qed

lemma watch_run_keeps_interest:
  assumes "watch_run ops env as m = Some m'" "c \<in> interested ops m (feature_bucket f) r" "f \<noteq> FeatureHelm"
    "\<not> list_ex (\<lambda>a. drops_interest a c f r) as"
  shows "c \<in> interested ops m' (feature_bucket f) r"
  using assms(1) unfolding watch_run_def
  by (rule fold_bind_inv [where I = "\<lambda>m. c \<in> interested ops m (feature_bucket f) r"])
    (use assms in \<open>auto simp: list_ex_iff intro: watch_step_keeps_interest\<close>)

lemma registered_live:
  assumes "watch_run ops env as1 initializeManager = Some m1"
    and "startWatcherForMgmtResource ops env g r cs f m1 = Some (None, m2)"
    and "watch_run ops env as2 m2 = Some m"
    and "list_all (watch_op_ok env K P) (as1 @ StartMgmt g r cs f # as2)" "K \<inter> P = {}"
    and "\<not> list_ex (\<lambda>a. drops_interest a (watch_consumer cs) f r) as2"
  shows "watch_consumer cs \<in> set (react ops old r gen m)" and "map_of (wm_watchers m) g \<noteq> None"
proof -
  have ok: "list_all (watch_op_ok env K P) as1" "watch_op_ok env K P (StartMgmt g r cs f)" "list_all (watch_op_ok env K P) as2"
    using assms(4) by simp_all
  have f: "f \<noteq> FeatureHelm" by (rule start_mgmt_view(1) [OF assms(2)])
  have "watch_consumer cs \<in> interested ops m2 (feature_bucket f) r" by (simp add: start_mgmt_view(3) [OF assms(2)])
  from watch_run_keeps_interest [OF assms(3) this f assms(6)]
  have c: "watch_consumer cs \<in> interested ops m (feature_bucket f) r" .
  then show "watch_consumer cs \<in> set (react ops old r gen m)"
    by (auto simp: set_react feature_bucket_def split: if_splits)
  have "watch_step ops env (StartMgmt g r cs f) m1 = Some m2" using assms(2) by (simp add: watch_step_def)
  then have run: "watch_run ops env (as1 @ StartMgmt g r cs f # as2) initializeManager = Some m"
    using assms(1,3) by (simp add: watch_run_def)
  have "g = resource_gvk env r" using ok(2) by (simp add: watch_op_ok_def)
  moreover have "watch_inv env K P m" by (rule watch_run_inv [OF run assms(4,5) initial_inv])
  ultimately have "requestors ops m (bucket_source (feature_bucket f)) g \<noteq> {}"
    using c unfolding watch_inv_def by blast
  then show "map_of (wm_watchers m) g \<noteq> None"
    using watch_run_live [OF run] unfolding live_exact_def watching_def by blast
qed

end

text \<open>The manager watches exactly what somebody asked for. After any history of starts and clean-ups
  (failed starts included) there is a watcher for a type exactly when \<open>canStopWatcher\<close> is false for it, that is, when
  some ClusterSummary is registered for the type: no watcher is leaked, and none is missing for a registered type.\<close>

theorem watchers_exact:
  assumes "object_set ops" and "watch_run ops env as initializeManager = Some m"
  shows "map_of (wm_watchers m) g \<noteq> None \<longleftrightarrow> \<not> canStopWatcher ops g m"
proof -
  note live = object_set.watch_run_live [OF assms]
  show ?thesis
    using live unfolding object_set.live_exact_def [OF assms(1)] object_set.canStop_iff [OF assms(1)] watching_def by simp
qed

text \<open>C26. A registered ClusterSummary hears of its resource. Once \<open>startWatcherForMgmtResource\<close> has succeeded, then
  after any further calls in which the ClusterSummary does not drop the resource, every event of the resource
  is delivered to it and the type of the resource is being watched, provided no type is watched both
  for a KustomizationRef and for a PolicyRef.\<close>

theorem registered_consumer_notified:
  assumes "object_set ops" and "K \<inter> P = {}"
    and "watch_run ops env as1 initializeManager = Some m1"
    and "startWatcherForMgmtResource ops env g r cs f m1 = Some (None, m2)"
    and "watch_run ops env as2 m2 = Some m"
    and "list_all (watch_op_ok env K P) (as1 @ StartMgmt g r cs f # as2)"
    and "\<not> list_ex (\<lambda>a. drops_interest a (watch_consumer cs) f r) as2"
  shows "watch_consumer cs \<in> set (react ops old r gen m) \<and> map_of (wm_watchers m) g \<noteq> None"
  using object_set.registered_live [OF assms(1,3-6,2,7)] by blast

text \<open>A clean-up removes exactly what it says. After \<open>stopStaleWatchForMgmtResource\<close> the ClusterSummary is
  no longer registered, through this feature, for a resource outside \<open>currentResources\<close>, and every other registration
  on every resource is what it was.\<close>

theorem stop_outcome:
  assumes "object_set ops" and "stopStaleWatchForMgmtResource ops env cur cs f m = Some m'"
  shows "interested ops m' b r = (if b = feature_bucket f \<and> map_of cur r = None
    then interested ops m b r - {watch_consumer cs} else interested ops m b r)"
  by (rule object_set.stop_mgmt_view(2) [OF assms])

section \<open>A clean-up that stops somebody else's watcher\<close>

context object_set
begin

lemma one_policy_requestor_stop:
  assumes "requestorForMgmtResourcesPolicyRef m = [(g, s)]" "elems s \<subseteq> {watch_consumer cs}"
    and "requestors ops m ByTemplate g = {}"
    and "stopStaleWatchForMgmtResource ops env [] cs FeatureResources m = Some m'"
  shows "\<not> watching m' g"
proof -
  obtain m1 rs where m1: "stop_gvk ops (watch_consumer cs) [] FeatureResources g m = Some m1"
    and m': "fold (\<lambda>r om. Option.bind om (stop_resource ops (watch_consumer cs) [] FeatureResources r)) rs (Some m1) = Some m'"
    using assms(1,4) by (auto simp: stopStaleWatchForMgmtResource_def getGVKMapForFeatureID_def Let_def bind_eq_Some_conv)
  have "requestors ops m ByPolicy g \<subseteq> {watch_consumer cs}"
    using assms(1,2) by (simp add: requestors_def source_map_def lookup_default_def)
  then have "requestors ops m1 src g = {}" for src
    using stop_gvk_view(1) [OF m1, of src g] assms(3)
    by (cases src) (auto simp: stopped_requestors_def feature_bucket_def)
  then have "\<not> watching m1 g" using stop_gvk_view(4) [OF m1, of g] by simp
  moreover have "watching m' = watching m1"
    by (rule fold_bind_inv [OF m', of "\<lambda>m'. watching m' = watching m1"]) (simp_all add: stop_resource_view(3))
  ultimately show ?thesis by simp
qed

end

text \<open>Without that proviso an update is missed. Two ClusterSummaries watch a resource of one type, the first for a
  KustomizationRef, the second for a PolicyRef. When the second one cleans up, the watcher of the type is
  stopped, although the first ClusterSummary is still registered and would be notified of its resource.\<close>

theorem policy_cleanup_stops_kustomize_watcher:
  assumes "object_set ops" and "we_getListerWatcher env (resource_gvk env r) = None"
    and "watch_consumer cs2 \<noteq> watch_consumer cs1" and "resource_gvk env r' = resource_gvk env r"
    and "watch_run ops env [StartMgmt (resource_gvk env r) r cs1 FeatureKustomize,
           StartMgmt (resource_gvk env r) r' cs2 FeatureResources, StopMgmt [] cs2 FeatureResources] initializeManager = Some m"
  shows "watch_consumer cs1 \<in> set (react ops old r gen m) \<and> map_of (wm_watchers m) (resource_gvk env r) = None"
proof -
  let ?g = "resource_gvk env r"
  obtain e1 m1 e2 m2 where m1: "startWatcherForMgmtResource ops env ?g r cs1 FeatureKustomize initializeManager = Some (e1, m1)"
    and m2: "startWatcherForMgmtResource ops env ?g r' cs2 FeatureResources m1 = Some (e2, m2)"
    and m: "stopStaleWatchForMgmtResource ops env [] cs2 FeatureResources m2 = Some m"
    using assms(5) by (auto simp: watch_run_def watch_step_def bind_eq_Some_conv)
  have e1: "e1 = None" and P1: "requestorForMgmtResourcesPolicyRef m1 = []"
    using m1 assms(2) by (auto simp: startWatcherForMgmtResource_def startWatcher_def initializeManager_def Let_def
        getGVKMapEntryForFeatureID_def putGVKSet_def getResourceMapEntryForFeatureID_def putResourceSet_def)
  have "watching m1 ?g" using object_set.start_mgmt_view(4) [OF assms(1) m1 [unfolded e1]] by simp
  then have e2: "e2 = None" and P2: "requestorForMgmtResourcesPolicyRef m2 = [(?g, so_insert ops (watch_consumer cs2) (so_empty ops))]"
    using m2 P1 by (auto simp: startWatcherForMgmtResource_def startWatcher_def watching_def Let_def
        getGVKMapEntryForFeatureID_def putGVKSet_def getResourceMapEntryForFeatureID_def putResourceSet_def
        split: option.splits)
  note v1 = object_set.start_mgmt_view [OF assms(1) m1 [unfolded e1]]
  note v2 = object_set.start_mgmt_view [OF assms(1) m2 [unfolded e2]]
  have "requestors ops m2 ByTemplate ?g = {}"
    by (simp add: v1(2) v2(2) feature_bucket_def object_set.initial_views [OF assms(1)])
  then have "\<not> watching m ?g"
    using object_set.one_policy_requestor_stop [OF assms(1) P2 _ _ m] by (simp add: object_set.items_insert [OF assms(1)]
        object_set.items_empty [OF assms(1)])
  then have "map_of (wm_watchers m) ?g = None" unfolding watching_def by blast
  moreover have "watch_consumer cs1 \<in> interested ops m KustomizationBucket r"
    by (simp add: object_set.stop_mgmt_view(2) [OF assms(1) m] v2(3) v1(3) feature_bucket_def)
  ultimately show ?thesis
    by (simp add: object_set.set_react [OF assms(1)])
qed

section \<open>Events that only change the status\<close>

datatype store_event =
    EvAdd store_object
  | EvUpdate store_object
  | EvDelete store_object
  | EvReplace "store_object list"

definition store_step :: "store_event \<Rightarrow> discarding_store \<Rightarrow> handler_call list \<times> discarding_store" where
  "store_step e s = (case e of
     EvAdd obj \<Rightarrow> ds_Add obj s | EvUpdate obj \<Rightarrow> ds_Update obj s | EvDelete obj \<Rightarrow> ds_Delete obj s
   | EvReplace objs \<Rightarrow> ds_Replace objs s)"

definition deliver :: "'s set_ops \<Rightarrow> 's watch_manager \<Rightarrow> handler_call list \<Rightarrow> object_reference list" where
  "deliver ops m calls = concat (map (\<lambda>(old, ref, gen). react ops old ref gen m) calls)"

text \<open>The generation an object was last reported with, unless it was deleted since.\<close>

fun reported :: "store_event \<Rightarrow> object_reference \<Rightarrow> int option \<Rightarrow> int option" where
  "reported (EvAdd (Some (r', gen))) r old = (if r' = r then Some gen else old)"
| "reported (EvUpdate (Some (r', gen))) r old = (if r' = r then Some gen else old)"
| "reported (EvDelete (Some (r', gen))) r old = (if r' = r then None else old)"
| "reported (EvReplace objs) r old =
     fold (\<lambda>obj old. case obj of Some (r', gen) \<Rightarrow> if r' = r then Some gen else old | None \<Rightarrow> old) objs old"
| "reported _ r old = old"

lemma ds_Replace_state: "snd (ds_Replace objs s) = fold (\<lambda>obj s. snd (ds_Add obj s)) objs s"
proof -
  have "snd (fold (\<lambda>obj (calls, s). let r = ds_Add obj s in (calls @ fst r, snd r)) objs (calls, s)) =
      fold (\<lambda>obj s. snd (ds_Add obj s)) objs s" for calls
    by (induction objs arbitrary: calls s) (simp_all add: Let_def)
  then show ?thesis by (simp add: ds_Replace_def)
qed

lemma store_step_reported: "map_of (snd (store_step e s)) r = reported e r (map_of s r)"
proof (cases e)
  case (EvReplace objs)
  have "map_of (fold (\<lambda>obj s. snd (ds_Add obj s)) objs s) r =
      fold (\<lambda>obj old. case obj of Some (r', gen) \<Rightarrow> if r' = r then Some gen else old | None \<Rightarrow> old) objs (map_of s r)"
    by (induction objs arbitrary: s) (auto simp: ds_Add_def update_conv split: option.splits)
  then show ?thesis by (simp add: EvReplace store_step_def ds_Replace_state)
qed (auto simp: store_step_def ds_Add_def ds_Update_def ds_Delete_def update_conv delete_conv split: option.splits)

lemma store_run_reported: "map_of (fold (\<lambda>e s. snd (store_step e s)) es s) r = fold (\<lambda>e. reported e r) es (map_of s r)"
  by (induction es arbitrary: s) (simp_all add: store_step_reported)

text \<open>ClusterSummaries that ignore status changes are spared exactly those. When an object is updated after any
  history of events, the update goes to everybody registered for the object through the other three maps, and to
  those ignoring status changes exactly when the generation differs from the one last reported (or the object is
  new).\<close>

theorem update_delivery:
  assumes "object_set ops"
  shows "set (deliver ops m (fst (store_step (EvUpdate (Some (r, gen))) (fold (\<lambda>e s. snd (store_step e s)) es [])))) =
    interested ops m KustomizationBucket r \<union> interested ops m PolicyBucket r \<union> interested ops m TemplateBucket r \<union>
    (if fold (\<lambda>e. reported e r) es None = Some gen then {} else interested ops m TemplateIgnoreStatusBucket r)"
proof -
  let ?s = "fold (\<lambda>e s. snd (store_step e s)) es []"
  have known: "map_of ?s r = fold (\<lambda>e. reported e r) es None" using store_run_reported [of es "[]" r] by simp
  show ?thesis
  proof (cases "map_of ?s r")
    case None
    then show ?thesis using known
      by (simp add: store_step_def ds_Update_def deliver_def object_set.set_react [OF assms])
  next
    case (Some old)
    have known': "fold (\<lambda>e. reported e r) es None = Some old" using known Some by simp
    show ?thesis using Some
      by (simp add: store_step_def ds_Update_def deliver_def object_set.set_react [OF assms] known')
  qed
qed

section \<open>Witnesses\<close>

definition sample_watch_env :: watch_env where
  "sample_watch_env = \<lparr>we_ParseAPIVersion = (\<lambda>v. ([], v)), we_getListerWatcher = (\<lambda>_. None),
     we_getNamespace = (\<lambda>_ _ ns _. (ns, None)), we_getName = (\<lambda>_ _ n _. (n, None))\<rparr>"

definition sample_resource :: "string \<Rightarrow> object_reference" where
  "sample_resource n = \<lparr>ref_Kind = ''ConfigMap'', ref_Namespace = ''ns'', ref_Name = n, ref_APIVersion = ''v1''\<rparr>"

abbreviation sample_gvk :: gvk where
  "sample_gvk \<equiv> resource_gvk sample_watch_env (sample_resource ''a'')"

definition sample_watch_history :: "watch_op list" where
  "sample_watch_history = [StartMgmt sample_gvk (sample_resource ''a'') (sample_cs ''one'' []) FeatureKustomize,
     StartMgmt sample_gvk (sample_resource ''b'') (sample_cs ''two'' []) FeatureResources,
     StopMgmt [] (sample_cs ''two'' []) FeatureResources]"

lemma sample_watch_state:
  "\<exists>m. watch_run list_set_ops sample_watch_env sample_watch_history initializeManager = Some m"
proof -
  have "watch_run list_set_ops sample_watch_env sample_watch_history initializeManager \<noteq> None" by code_simp
  then show ?thesis by blast
qed

theorem watchers_exact_witness:
  "\<exists>m. watch_run list_set_ops sample_watch_env sample_watch_history initializeManager = Some m \<and>
     (map_of (wm_watchers m) sample_gvk \<noteq> None \<longleftrightarrow> \<not> canStopWatcher list_set_ops sample_gvk m)"
  using sample_watch_state watchers_exact [OF list_object_set.object_set_axioms] by blast

theorem registered_consumer_notified_witness:
  "\<exists>m. startWatcherForMgmtResource list_set_ops sample_watch_env sample_gvk (sample_resource ''a'')
       (sample_cs ''one'' []) FeatureKustomize initializeManager = Some (None, m) \<and>
     watch_consumer (sample_cs ''one'' []) \<in> set (react list_set_ops None (sample_resource ''a'') 1 m) \<and>
     map_of (wm_watchers m) sample_gvk \<noteq> None"
proof -
  obtain m where m: "startWatcherForMgmtResource list_set_ops sample_watch_env sample_gvk (sample_resource ''a'')
       (sample_cs ''one'' []) FeatureKustomize initializeManager = Some (None, m)"
    by (simp add: startWatcherForMgmtResource_def startWatcher_def initializeManager_def sample_watch_env_def
        getGVKMapEntryForFeatureID_def putGVKSet_def getResourceMapEntryForFeatureID_def putResourceSet_def Let_def)
  then show ?thesis
    using registered_consumer_notified [OF list_object_set.object_set_axioms, of "{sample_gvk}" "{}" sample_watch_env "[]"
        initializeManager sample_gvk "sample_resource ''a''" "sample_cs ''one'' []" FeatureKustomize m "[]" m None 1]
    by (simp add: watch_run_def watch_op_ok_def)
qed

theorem stop_outcome_witness:
  "\<exists>m. stopStaleWatchForMgmtResource list_set_ops sample_watch_env [] (sample_cs ''one'' []) FeatureKustomize
       initializeManager = Some m \<and>
     watch_consumer (sample_cs ''one'' []) \<notin> interested list_set_ops m KustomizationBucket (sample_resource ''a'')"
proof -
  obtain m where m: "stopStaleWatchForMgmtResource list_set_ops sample_watch_env [] (sample_cs ''one'' []) FeatureKustomize
       initializeManager = Some m"
    by (simp add: stopStaleWatchForMgmtResource_def getGVKMapForFeatureID_def getResourceMapForFeatureID_def initializeManager_def)
  then show ?thesis
    using stop_outcome [OF list_object_set.object_set_axioms m, of KustomizationBucket "sample_resource ''a''"]
    by (simp add: feature_bucket_def)
qed

theorem policy_cleanup_stops_kustomize_watcher_witness:
  "\<exists>m. watch_run list_set_ops sample_watch_env sample_watch_history initializeManager = Some m \<and>
     watch_consumer (sample_cs ''one'' []) \<in> set (react list_set_ops None (sample_resource ''a'') 1 m) \<and>
     map_of (wm_watchers m) sample_gvk = None"
proof -
  obtain m where m: "watch_run list_set_ops sample_watch_env sample_watch_history initializeManager = Some m"
    using sample_watch_state by blast
  have "watch_consumer (sample_cs ''two'' []) \<noteq> watch_consumer (sample_cs ''one'' [])"
    "we_getListerWatcher sample_watch_env sample_gvk = None"
    "resource_gvk sample_watch_env (sample_resource ''b'') = sample_gvk"
    by (simp_all add: watch_consumer_def sample_watch_env_def resource_gvk_def sample_resource_def)
  with policy_cleanup_stops_kustomize_watcher [OF list_object_set.object_set_axioms, of sample_watch_env
      "sample_resource ''a''" "sample_cs ''two'' []" "sample_cs ''one'' []" "sample_resource ''b''" m None 1] m
  show ?thesis by (auto simp: sample_watch_history_def)
qed

theorem update_delivery_witness:
  "set (deliver list_set_ops initializeManager (fst (store_step (EvUpdate (Some (sample_resource ''a'', 1))) []))) = {}"
  using update_delivery [OF list_object_set.object_set_axioms, of initializeManager "sample_resource ''a''" 1 "[]"]
  by (simp add: object_set.initial_views [OF list_object_set.object_set_axioms])

end
