(* ===== verification/Cluster_Ops.thy ===== *)
theory Cluster_Ops
  imports Api_Types
begin

text \<open>
  Finding and naming the ClusterSummary of a profile and a cluster (lib/clusterops), the answers of the API server, and
  the owner of a ClusterSummary (api/v1beta1). The API server is a parameter: \<open>summary_lister\<close> is the answer to a
  list call with the given options.
\<close>

section \<open>Answers of the API server\<close>

datatype api_error = ApiNotFound | ApiError string

definition err_text :: "api_error \<Rightarrow> string" where
  "err_text e = (case e of ApiNotFound \<Rightarrow> ''not found'' | ApiError msg \<Rightarrow> msg)"

datatype list_option = MatchingLabels "(string \<times> string) list" | InNamespace string

type_synonym summary_lister = "list_option list \<Rightarrow> api_error + cluster_summary list"

section \<open>The store of the API server\<close>

definition option_matches :: "list_option \<Rightarrow> cluster_summary \<Rightarrow> bool" where
  "option_matches opt cs =
     (case opt of
        InNamespace ns \<Rightarrow> cs_Namespace cs = ns
      | MatchingLabels ls \<Rightarrow> list_all (\<lambda>(k, v). map_of (om_Labels (cs_Meta cs)) k = Some v) ls)"

text \<open>A list call answers with the objects of the store that match all its options.\<close>

locale summary_store =
  fixes answer :: "cluster_summary list \<Rightarrow> summary_lister"
  assumes answer: "answer store opts = Inr (filter (\<lambda>cs. list_all (\<lambda>opt. option_matches opt cs) opts) store)"
begin

lemma answer_subset: "answer store opts = Inr css \<Longrightarrow> set css \<subseteq> set store"
  by (auto simp: answer)

end

definition list_store :: "cluster_summary list \<Rightarrow> summary_lister" where
  "list_store store opts = Inr (filter (\<lambda>cs. list_all (\<lambda>opt. option_matches opt cs) opts) store)"

interpretation list_summary_store: summary_store list_store
  by unfold_locales (simp add: list_store_def)

section \<open>Finding and naming ClusterSummaries (lib/clusterops)\<close>

definition ClusterProfileLabelName :: string where
  "ClusterProfileLabelName = ''projectsveltos.io/cluster-profile-name''"
definition ProfileLabelName :: string where
  "ProfileLabelName = ''projectsveltos.io/profile-name''"

definition cluster_type_text :: "cluster_type \<Rightarrow> string" where
  "cluster_type_text t = (case t of ClusterTypeCapi \<Rightarrow> ''Capi'' | ClusterTypeSveltos \<Rightarrow> ''Sveltos'')"

definition GetClusterSummary :: "summary_lister \<Rightarrow> string \<Rightarrow> string \<Rightarrow> string \<Rightarrow> string \<Rightarrow> cluster_type \<Rightarrow>
    api_error + cluster_summary" where
  "GetClusterSummary lister profileKind profileName clusterNamespace clusterName clusterType =
     (let profileLabel = (if profileKind = ProfileKind then ProfileLabelName else ClusterProfileLabelName)
      in case lister [InNamespace clusterNamespace, MatchingLabels
               [(profileLabel, profileName), (ClusterNameLabel, clusterName),
                (ClusterTypeLabel, cluster_type_text clusterType)]] of
           Inl err \<Rightarrow> Inl err
         | Inr [] \<Rightarrow> Inl ApiNotFound
         | Inr [cs] \<Rightarrow> Inr cs
         | Inr _ \<Rightarrow> Inl (ApiError (''more than one clustersummary found for cluster '' @ clusterNamespace @ ''/'' @
             clusterName @ '' created by '' @ profileKind @ '' '' @ profileName)))"

definition GetPrefix :: "cluster_type \<Rightarrow> string" where
  "GetPrefix t = (if t = ClusterTypeSveltos then ''sveltos'' else ''capi'')"

definition GetClusterSummaryName :: "string \<Rightarrow> string \<Rightarrow> string \<Rightarrow> bool \<Rightarrow> string" where
  "GetClusterSummaryName profileKind profileName clusterName isSveltosCluster =
     (let prefix = GetPrefix (if isSveltosCluster then ClusterTypeSveltos else ClusterTypeCapi)
      in if profileKind = ClusterProfileKind then profileName @ ''-'' @ prefix @ ''-'' @ clusterName
         else ''p--'' @ profileName @ ''-'' @ prefix @ ''-'' @ clusterName)"

text \<open>\<open>strings.ToLower\<close> of the cluster type.\<close>

definition GetClusterReportName :: "string \<Rightarrow> string \<Rightarrow> string \<Rightarrow> cluster_type \<Rightarrow> string" where
  "GetClusterReportName profileKind profileName clusterName clusterType =
     (let prefix = (if profileKind = ProfileKind then ''p--'' else [])
      in prefix @ profileName @ ''--'' @ map fold_char (cluster_type_text clusterType) @ ''--'' @ clusterName)"

section \<open>The profile that owns a ClusterSummary\<close>

text \<open>\<open>group_of\<close> is the group \<open>schema.ParseGroupVersion\<close> finds in an API version, \<open>None\<close> its error.\<close>

definition config_group :: string where
  "config_group = ''config.projectsveltos.io''"

fun owner_reference_of :: "(string \<Rightarrow> string option) \<Rightarrow> owner_reference list \<Rightarrow> api_error + owner_reference" where
  "owner_reference_of group_of [] = Inl (ApiError ''(Cluster)Profile owner not found'')"
| "owner_reference_of group_of (ref # refs) =
     (if own_Kind ref \<noteq> ClusterProfileKind \<and> own_Kind ref \<noteq> ProfileKind then owner_reference_of group_of refs
      else case group_of (own_APIVersion ref) of
        None \<Rightarrow> Inl (ApiError ''unexpected GroupVersion string'')
      | Some g \<Rightarrow> if g = config_group then Inr ref else owner_reference_of group_of refs)"

definition GetProfileOwnerReference :: "(string \<Rightarrow> string option) \<Rightarrow> cluster_summary \<Rightarrow> api_error + owner_reference" where
  "GetProfileOwnerReference group_of cs = owner_reference_of group_of (om_OwnerReferences (cs_Meta cs))"

text \<open>\<open>get_profile kind namespace name\<close> is the answer to the get call; the namespace is empty for a ClusterProfile. The result is
  the owner and its tier, \<open>None\<close> when there is none or it is gone.\<close>

fun owner_and_tier :: "(string \<Rightarrow> string option) \<Rightarrow> (string \<Rightarrow> string \<Rightarrow> string \<Rightarrow> api_error + profile) \<Rightarrow> string \<Rightarrow>
    owner_reference list \<Rightarrow> api_error + (profile \<times> int) option" where
  "owner_and_tier group_of get_profile namespace [] = Inr None"
| "owner_and_tier group_of get_profile namespace (ref # refs) =
     (case group_of (own_APIVersion ref) of
        None \<Rightarrow> Inl (ApiError ''unexpected GroupVersion string'')
      | Some g \<Rightarrow>
          if g \<noteq> config_group then owner_and_tier group_of get_profile namespace refs
          else if own_Kind ref = ClusterProfileKind \<or> own_Kind ref = ProfileKind then
            (case get_profile (own_Kind ref) (if own_Kind ref = ProfileKind then namespace else []) (own_Name ref) of
               Inl ApiNotFound \<Rightarrow> Inr None
             | Inl err \<Rightarrow> Inl err
             | Inr p \<Rightarrow> Inr (Some (p, ps_Tier (prof_Spec p))))
          else owner_and_tier group_of get_profile namespace refs)"

definition GetProfileOwnerAndTier :: "(string \<Rightarrow> string option) \<Rightarrow>
    (string \<Rightarrow> string \<Rightarrow> string \<Rightarrow> api_error + profile) \<Rightarrow> cluster_summary \<Rightarrow> api_error + (profile \<times> int) option" where
  "GetProfileOwnerAndTier group_of get_profile cs =
     owner_and_tier group_of get_profile (cs_Namespace cs) (om_OwnerReferences (cs_Meta cs))"

end
