(* ===== verification/Rollout.thy ===== *)
theory Rollout
  imports Object_Set Feature_Status Cluster_Ops
begin

text \<open>
  The rollout of a ClusterProfile or Profile to its matching clusters (controllers/profile_utils.go with the
  status helpers of pkg/scope/clusterprofile.go): which ClusterSummaries a reconciliation creates, patches and
  deletes, and how the field MaxUpdate limits the clusters being updated at a time.

  A pass works on the profile object, whose status it changes, and on the API server. The
  answers of the API server and of libsveltos are a \<open>rollout_env\<close>; the writes a pass issues are collected in the
  order it issues them. The functions that may fail return the error as an option, or as the left value of a sum.
\<close>

section \<open>The environment of a pass\<close>

text \<open>\<open>re_CeilPercent p n\<close> is \<open>math.Ceil(percent.Percent(p, n))\<close>. \<open>re_Create\<close> and \<open>re_Update\<close>
  tell whether a write fails.\<close>

record rollout_env =
  re_IsClusterReady :: "object_reference \<Rightarrow> api_error + bool"
  re_IsClusterPaused :: "string \<Rightarrow> string \<Rightarrow> cluster_type \<Rightarrow> api_error + bool"
  re_GetClusterType :: "object_reference \<Rightarrow> cluster_type"
  re_ListSummaries :: "list_option list \<Rightarrow> api_error + cluster_summary list"
  re_AddLabel :: "string \<Rightarrow> string \<Rightarrow> (string \<times> string) list \<Rightarrow> (string \<times> string) list"
  re_ServiceAccountNameLabel :: string
  re_ServiceAccountNamespaceLabel :: string
  re_SveltosAPIVersion :: string
  re_CeilPercent :: "int \<Rightarrow> nat \<Rightarrow> int"
  re_SpecHash :: "profile_spec \<Rightarrow> bytes"
  re_Create :: "cluster_summary \<Rightarrow> api_error option"
  re_Update :: "cluster_summary \<Rightarrow> api_error option"
  re_Now :: time

datatype rollout_write =
    WCreate cluster_summary
  | WUpdate cluster_summary
  | WDelete cluster_summary

abbreviation prof_Name :: "profile \<Rightarrow> string" where
  "prof_Name p \<equiv> om_Name (prof_Meta p)"

abbreviation matching_refs :: "profile \<Rightarrow> object_reference list" where
  "matching_refs p \<equiv> pst_MatchingClusterRefs (prof_Status p)"

abbreviation updating_refs :: "profile \<Rightarrow> object_reference list" where
  "updating_refs p \<equiv> cl_Clusters (pst_UpdatingClusters (prof_Status p))"

abbreviation updated_refs :: "profile \<Rightarrow> object_reference list" where
  "updated_refs p \<equiv> cl_Clusters (pst_UpdatedClusters (prof_Status p))"

definition on_status :: "(profile_status \<Rightarrow> profile_status) \<Rightarrow> profile \<Rightarrow> profile" where
  "on_status g p = p\<lparr>prof_Status := g (prof_Status p)\<rparr>"

section \<open>The status helpers of the scope\<close>

definition same_ref :: "object_reference \<Rightarrow> object_reference \<Rightarrow> bool" where
  "same_ref a b \<longleftrightarrow> ref_Namespace a = ref_Namespace b \<and> ref_Name a = ref_Name b \<and> ref_Kind a = ref_Kind b \<and>
     ref_APIVersion a = ref_APIVersion b"

fun set_failed :: "object_reference \<Rightarrow> string \<Rightarrow> time \<Rightarrow> failed_cluster list \<Rightarrow> failed_cluster list" where
  "set_failed cluster msg now [] =
     [\<lparr>fc_ClusterRef = cluster, fc_FailureMessage = msg, fc_LastFailureTime = Some now\<rparr>]"
| "set_failed cluster msg now (fc # fcs) =
     (if same_ref (fc_ClusterRef fc) cluster
      then fc\<lparr>fc_FailureMessage := msg, fc_LastFailureTime := Some now\<rparr> # fcs
      else fc # set_failed cluster msg now fcs)"

definition SetFailedClusters :: "object_reference \<Rightarrow> string \<Rightarrow> time \<Rightarrow> profile \<Rightarrow> profile" where
  "SetFailedClusters cluster msg now =
     on_status (\<lambda>st. st\<lparr>pst_FailedClusters := set_failed cluster msg now (pst_FailedClusters st)\<rparr>)"

fun clear_failed :: "object_reference \<Rightarrow> failed_cluster list \<Rightarrow> failed_cluster list" where
  "clear_failed cluster [] = []"
| "clear_failed cluster (fc # fcs) =
     (if same_ref (fc_ClusterRef fc) cluster then fcs else fc # clear_failed cluster fcs)"

definition ClearFailedClusters :: "object_reference \<Rightarrow> profile \<Rightarrow> profile" where
  "ClearFailedClusters cluster =
     on_status (\<lambda>st. st\<lparr>pst_FailedClusters := clear_failed cluster (pst_FailedClusters st)\<rparr>)"

definition SetMatchingClusterRefs :: "object_reference list \<Rightarrow> profile \<Rightarrow> profile" where
  "SetMatchingClusterRefs refs = on_status (\<lambda>st. st\<lparr>pst_MatchingClusterRefs := refs\<rparr>)"

section \<open>MaxUpdate\<close>

text \<open>\<open>strings.ReplaceAll\<close> of the two characters \<open>%s\<close> by nothing.\<close>

fun drop_percent_s :: "string \<Rightarrow> string" where
  "drop_percent_s (c # d # s) =
     (if c = CHR ''%'' \<and> d = CHR ''s'' then drop_percent_s s else c # drop_percent_s (d # s))"
| "drop_percent_s s = s"

text \<open>\<open>fmt.Sscanf(s, "%d", &n)\<close>: an optional sign and the longest run of digits, after blanks; \<open>None\<close>
  is its error, also for a number beyond 64 bits.\<close>

definition digit_value :: "char \<Rightarrow> int" where
  "digit_value c = int (of_char c) - 48"

definition is_digit :: "char \<Rightarrow> bool" where
  "is_digit c \<longleftrightarrow> (48::nat) \<le> of_char c \<and> of_char c \<le> (57::nat)"

definition sscanf_d :: "string \<Rightarrow> int option" where
  "sscanf_d s =
     (let s = dropWhile (\<lambda>c. c = CHR '' '') s;
          neg = (case s of c # _ \<Rightarrow> c = CHR ''-'' | [] \<Rightarrow> False);
          s = (case s of c # r \<Rightarrow> if c = CHR ''-'' \<or> c = CHR ''+'' then r else s | [] \<Rightarrow> s);
          ds = takeWhile is_digit s;
          n = fold (\<lambda>d n. 10 * n + digit_value d) ds 0;
          n = (if neg then - n else n)
      in if ds = [] then None else if n < - (2 ^ 63) \<or> n \<ge> 2 ^ 63 then None else Some n)"

definition getMaxUpdate :: "rollout_env \<Rightarrow> profile \<Rightarrow> int" where
  "getMaxUpdate env p =
     (case ps_MaxUpdate (prof_Spec p) of
        None \<Rightarrow> 0
      | Some (IntVal n) \<Rightarrow> n
      | Some (StrVal s) \<Rightarrow>
          (case sscanf_d (drop_percent_s s) of
             None \<Rightarrow> 0
           | Some maxUpdateInt \<Rightarrow> re_CeilPercent env maxUpdateInt (length (matching_refs p))))"

section \<open>One ClusterSummary\<close>

definition getClusterSummaryAnnotations ::
    "(string \<times> string) list \<Rightarrow> (string \<times> string) list \<Rightarrow> (string \<times> string) list" where
  "getClusterSummaryAnnotations profileAnnotations clusterSummaryAnnotations =
     (let annotations = fold (\<lambda>(k, v). AList.update k v) profileAnnotations [] in
      if map_of annotations ProfileRedeployAnnotation \<noteq> None then annotations
      else case map_of clusterSummaryAnnotations ProfileRedeployAnnotation of
        Some v \<Rightarrow> AList.update ProfileRedeployAnnotation v annotations
      | None \<Rightarrow> annotations)"

definition go_map_equal :: "('k \<times> 'v) list \<Rightarrow> ('k \<times> 'v) list \<Rightarrow> bool" where
  "go_map_equal a b \<longleftrightarrow> set (map fst a) = set (map fst b) \<and> list_all (\<lambda>k. map_of a k = map_of b k) (map fst a)"

definition on_labels :: "((string \<times> string) list \<Rightarrow> (string \<times> string) list) \<Rightarrow> cluster_summary \<Rightarrow> cluster_summary" where
  "on_labels g cs = cs\<lparr>cs_Meta := (cs_Meta cs)\<lparr>om_Labels := g (om_Labels (cs_Meta cs))\<rparr>\<rparr>"

definition addClusterSummaryLabels :: "rollout_env \<Rightarrow> profile \<Rightarrow> object_reference \<Rightarrow> cluster_summary \<Rightarrow>
    cluster_summary" where
  "addClusterSummaryLabels env p cluster cs =
     (let add = re_AddLabel env;
          cs = on_labels (if prof_Kind p = ClusterProfileKind
                 then add ClusterProfileLabelName (prof_Name p)
                 else add ProfileLabelName (prof_Name p)) cs;
          cs = on_labels (add ClusterNameLabel (ref_Name cluster)) cs;
          cs = on_labels (add ClusterTypeLabel (cluster_type_text
                 (if ref_APIVersion cluster = re_SveltosAPIVersion env then ClusterTypeSveltos else ClusterTypeCapi))) cs;
          copy = (\<lambda>l cs. case map_of (om_Labels (prof_Meta p)) l of None \<Rightarrow> cs | Some v \<Rightarrow> on_labels (add l v) cs)
      in copy (re_ServiceAccountNamespaceLabel env) (copy (re_ServiceAccountNameLabel env) cs))"

definition set_annotations :: "(string \<times> string) list \<Rightarrow> cluster_summary \<Rightarrow> cluster_summary" where
  "set_annotations a cs = cs\<lparr>cs_Meta := (cs_Meta cs)\<lparr>om_Annotations := a\<rparr>\<rparr>"

text \<open>The result is the ClusterSummary, the write and the error of the write, if there is one.\<close>

definition updateClusterSummary :: "rollout_env \<Rightarrow> profile \<Rightarrow> cluster_summary \<Rightarrow> object_reference \<Rightarrow>
    cluster_summary \<times> rollout_write list \<times> api_error option" where
  "updateClusterSummary env p cs cluster =
     (if ps_SyncMode (prof_Spec p) = SyncModeOneTime then (cs, [], None)
      else
        let annotations = getClusterSummaryAnnotations (om_Annotations (prof_Meta p)) (om_Annotations (cs_Meta cs)) in
        if prof_Spec p = cs_ProfileSpec cs \<and> go_map_equal annotations (om_Annotations (cs_Meta cs)) then (cs, [], None)
        else
          let cs = set_annotations annotations cs;
              cs = cs\<lparr>cs_Spec := (cs_Spec cs)\<lparr>css_ClusterProfileSpec := prof_Spec p,
                     css_ClusterType := re_GetClusterType env cluster\<rparr>\<rparr>;
              cs = addClusterSummaryLabels env p cluster cs
          in (cs, [WUpdate cs], re_Update env cs))"

definition createClusterSummary :: "rollout_env \<Rightarrow> profile \<Rightarrow> object_reference \<Rightarrow>
    rollout_write list \<times> api_error option" where
  "createClusterSummary env p cluster =
     (let name = GetClusterSummaryName (prof_Kind p) (prof_Name p) (ref_Name cluster)
                   (ref_APIVersion cluster = re_SveltosAPIVersion env);
          cs = \<lparr>cs_Meta = zero_object_meta\<lparr>om_Name := name, om_Namespace := ref_Namespace cluster,
                  om_Labels := om_Labels (prof_Meta p), om_Annotations := om_Annotations (prof_Meta p),
                  om_OwnerReferences := [\<lparr>own_APIVersion = ''config.projectsveltos.io/v1beta1'',
                    own_Kind = prof_Kind p, own_Name = prof_Name p, own_UID = om_UID (prof_Meta p)\<rparr>]\<rparr>,
                cs_Spec = \<lparr>css_ClusterNamespace = ref_Namespace cluster, css_ClusterName = ref_Name cluster,
                  css_ClusterType = re_GetClusterType env cluster, css_ClusterProfileSpec = prof_Spec p\<rparr>,
                cs_Status = zero_cluster_summary_status\<rparr>;
          cs = set_annotations (om_Annotations (prof_Meta p)) (addClusterSummaryLabels env p cluster cs)
      in ([WCreate cs], re_Create env cs))"

datatype patch_error = ClusterSummaryDeletedError string | PatchError api_error

definition patch_error_text :: "patch_error \<Rightarrow> string" where
  "patch_error_text e = (case e of ClusterSummaryDeletedError msg \<Rightarrow> msg | PatchError err \<Rightarrow> err_text err)"

definition patchClusterSummary :: "rollout_env \<Rightarrow> profile \<Rightarrow> object_reference \<Rightarrow>
    rollout_write list \<times> patch_error option" where
  "patchClusterSummary env p cluster =
     (case GetClusterSummary (re_ListSummaries env) (prof_Kind p) (prof_Name p) (ref_Namespace cluster) (ref_Name cluster)
             (re_GetClusterType env cluster) of
        Inl ApiNotFound \<Rightarrow>
          (let r = createClusterSummary env p cluster in (fst r, map_option PatchError (snd r)))
      | Inl err \<Rightarrow> ([], Some (PatchError err))
      | Inr cs \<Rightarrow>
          if om_DeletionTimestamp (cs_Meta cs) \<noteq> None then
            ([], Some (ClusterSummaryDeletedError
              (''ClusterSummary '' @ cs_Namespace cs @ ''/'' @ cs_Name cs @ '' being deleted'')))
          else let r = updateClusterSummary env p cs cluster in
            (fst (snd r), map_option PatchError (snd (snd r))))"

section \<open>One pass over the matching clusters\<close>

datatype update_outcome = UpdateDone | UpdateThrottled | UpdateIgnored

definition updateClusterSummaryInstanceForCluster :: "'s set_ops \<Rightarrow> rollout_env \<Rightarrow> object_reference \<Rightarrow>
    's \<Rightarrow> profile \<Rightarrow> (patch_error + update_outcome) \<times> rollout_write list \<times> profile" where
  "updateClusterSummaryInstanceForCluster ops env cluster updatingClusters p =
     (case re_IsClusterReady env cluster of
        Inl ApiNotFound \<Rightarrow> (Inr UpdateIgnored, [], p)
      | Inl err \<Rightarrow> (Inl (PatchError err), [], p)
      | Inr ready \<Rightarrow>
          if \<not> ready then (Inr UpdateIgnored, [], p)
          else
            let maxUpdate = getMaxUpdate env p;
                proceed = (
                  if maxUpdate \<noteq> 0 \<and> \<not> so_has ops updatingClusters cluster \<and>
                     int (so_len ops updatingClusters) \<ge> maxUpdate
                  then (Inr UpdateThrottled, [], p)
                  else let r = patchClusterSummary env p cluster in
                    case snd r of
                      Some err \<Rightarrow> (Inl err, fst r, SetFailedClusters cluster (patch_error_text err) (re_Now env) p)
                    | None \<Rightarrow> (Inr UpdateDone, fst r, ClearFailedClusters cluster p))
            in if maxUpdate \<noteq> 0 then
                 (case re_IsClusterPaused env (ref_Namespace cluster) (ref_Name cluster) (re_GetClusterType env cluster) of
                    Inl err \<Rightarrow> (Inl (PatchError err), [], p)
                  | Inr True \<Rightarrow> (Inr UpdateIgnored, [], p)
                  | Inr False \<Rightarrow> proceed)
               else proceed)"

definition reviseUpdatedAndUpdatingClusters :: "'s set_ops \<Rightarrow> profile \<Rightarrow> profile" where
  "reviseUpdatedAndUpdatingClusters ops p =
     (let matchingCluster = fold (so_insert ops) (matching_refs p) (so_empty ops);
          keep = filter (so_has ops matchingCluster)
      in on_status (\<lambda>st. st\<lparr>
           pst_UpdatedClusters := (pst_UpdatedClusters st)\<lparr>cl_Clusters := keep (cl_Clusters (pst_UpdatedClusters st))\<rparr>,
           pst_UpdatingClusters := (pst_UpdatingClusters st)\<lparr>cl_Clusters := keep (cl_Clusters (pst_UpdatingClusters st))\<rparr>\<rparr>) p)"

definition add_updated :: "object_reference \<Rightarrow> profile \<Rightarrow> profile" where
  "add_updated cluster = on_status (\<lambda>st. st\<lparr>pst_UpdatedClusters := (pst_UpdatedClusters st)
     \<lparr>cl_Clusters := cl_Clusters (pst_UpdatedClusters st) @ [cluster]\<rparr>\<rparr>)"

text \<open>The walk of \<open>reviseUpdatingClusterList\<close>: it returns the error, the
  clusters kept, the profile and whether a ClusterSummary is gone.\<close>

fun revise_loop :: "'s set_ops \<Rightarrow> rollout_env \<Rightarrow> 's \<Rightarrow> object_reference list \<Rightarrow>
    object_reference list \<Rightarrow> bool \<Rightarrow> profile \<Rightarrow> api_error option \<times> object_reference list \<times> bool \<times> profile" where
  "revise_loop ops env updatedClusters [] updating deleted p = (None, updating, deleted, p)"
| "revise_loop ops env updatedClusters (cluster # clusters) updating deleted p =
     (case GetClusterSummary (re_ListSummaries env) (prof_Kind p) (prof_Name p) (ref_Namespace cluster) (ref_Name cluster)
             (re_GetClusterType env cluster) of
        Inl ApiNotFound \<Rightarrow> revise_loop ops env updatedClusters clusters updating True p
      | Inl err \<Rightarrow> (Some err, updating, deleted, p)
      | Inr cs \<Rightarrow>
          if isCluterSummaryProvisioned cs then
            revise_loop ops env updatedClusters clusters updating deleted
              (if \<not> so_has ops updatedClusters cluster then add_updated cluster p else p)
          else if getMaxUpdate env p \<noteq> 0 then
            (case re_IsClusterPaused env (ref_Namespace cluster) (ref_Name cluster) (re_GetClusterType env cluster) of
               Inl (ApiError msg) \<Rightarrow> (Some (ApiError msg), updating, deleted, p)
             | Inl ApiNotFound \<Rightarrow> revise_loop ops env updatedClusters clusters (updating @ [cluster]) deleted p
             | Inr True \<Rightarrow> revise_loop ops env updatedClusters clusters updating deleted p
             | Inr False \<Rightarrow> revise_loop ops env updatedClusters clusters (updating @ [cluster]) deleted p)
          else revise_loop ops env updatedClusters clusters (updating @ [cluster]) deleted p)"

definition set_updating :: "object_reference list \<Rightarrow> profile \<Rightarrow> profile" where
  "set_updating refs = on_status (\<lambda>st. st\<lparr>pst_UpdatingClusters := (pst_UpdatingClusters st)\<lparr>cl_Clusters := refs\<rparr>\<rparr>)"

text \<open>The errors a pass ends with; the fourth one carries the number of clusters the message reports.\<close>

datatype rollout_error =
    RevisionFailed api_error
  | DeletedOutOfBand
  | UpdateFailed patch_error
  | NotAllClustersUpdated nat
  | SummariesBeingDeleted

definition reviseUpdatingClusterList :: "'s set_ops \<Rightarrow> rollout_env \<Rightarrow> bytes option \<Rightarrow>
    profile \<Rightarrow> rollout_error option \<times> profile" where
  "reviseUpdatingClusterList ops env currentHash p =
     (if cl_Hash (pst_UpdatingClusters (prof_Status p)) \<noteq> currentHash then (None, p)
      else
        let updatedClusters = fold (so_insert ops) (updated_refs p) (so_empty ops)
        in case revise_loop ops env updatedClusters (updating_refs p) [] False p of
             (Some err, _, _, p) \<Rightarrow> (Some (RevisionFailed err), p)
           | (None, updatingClusters, deleted, p) \<Rightarrow>
               (if deleted then Some DeletedOutOfBand else None,
                set_updating updatingClusters p))"

definition getUpdatedAndUpdatingClusters :: "'s set_ops \<Rightarrow> profile \<Rightarrow> 's \<times> 's" where
  "getUpdatedAndUpdatingClusters ops p =
     (fold (so_insert ops) (updated_refs p) (so_empty ops), fold (so_insert ops) (updating_refs p) (so_empty ops))"

record 's rollout_acc =
  ra_Profile :: profile
  ra_Updating :: 's
  ra_Skipped :: bool
  ra_Deleted :: bool
  ra_Writes :: "rollout_write list"

fun update_loop :: "'s set_ops \<Rightarrow> rollout_env \<Rightarrow> 's \<Rightarrow> object_reference list \<Rightarrow> 's rollout_acc \<Rightarrow>
    patch_error option \<times> 's rollout_acc" where
  "update_loop ops env updatedClusters [] acc = (None, acc)"
| "update_loop ops env updatedClusters (cluster # clusters) acc =
     (if so_has ops updatedClusters cluster then update_loop ops env updatedClusters clusters acc
      else
        let r = updateClusterSummaryInstanceForCluster ops env cluster (ra_Updating acc) (ra_Profile acc);
            acc = acc\<lparr>ra_Profile := snd (snd r), ra_Writes := ra_Writes acc @ fst (snd r)\<rparr>
        in case fst r of
             Inl (ClusterSummaryDeletedError _) \<Rightarrow>
               update_loop ops env updatedClusters clusters (acc\<lparr>ra_Deleted := True\<rparr>)
           | Inl err \<Rightarrow> (Some err, acc)
           | Inr UpdateThrottled \<Rightarrow> update_loop ops env updatedClusters clusters (acc\<lparr>ra_Skipped := True\<rparr>)
           | Inr UpdateIgnored \<Rightarrow> update_loop ops env updatedClusters clusters acc
           | Inr UpdateDone \<Rightarrow>
               update_loop ops env updatedClusters clusters
                 (if \<not> so_has ops (ra_Updating acc) cluster then
                    acc\<lparr>ra_Updating := so_insert ops cluster (ra_Updating acc),
                        ra_Profile := set_updating (updating_refs (ra_Profile acc) @ [cluster]) (ra_Profile acc)\<rparr>
                  else acc))"

definition no_clusters :: clusters_info where
  "no_clusters = \<lparr>cl_Hash = None, cl_Clusters = []\<rparr>"

definition updateClusterSummaries :: "'s set_ops \<Rightarrow> rollout_env \<Rightarrow> profile \<Rightarrow>
    rollout_error option \<times> rollout_write list \<times> profile" where
  "updateClusterSummaries ops env p =
     (let currentHash = Some (re_SpecHash env (prof_Spec p));
          p = (if cl_Hash (pst_UpdatedClusters (prof_Status p)) \<noteq> currentHash then
                 on_status (\<lambda>st. st\<lparr>pst_UpdatedClusters := \<lparr>cl_Hash = currentHash, cl_Clusters = []\<rparr>\<rparr>) p
               else p);
          p = reviseUpdatedAndUpdatingClusters ops p
      in case reviseUpdatingClusterList ops env currentHash p of
           (Some err, p) \<Rightarrow> (Some err, [], p)
         | (None, p) \<Rightarrow>
             let sets = getUpdatedAndUpdatingClusters ops p;
                 loop = update_loop ops env (fst sets) (matching_refs p) \<lparr>ra_Profile = p, ra_Updating = snd sets,
                   ra_Skipped = False, ra_Deleted = False, ra_Writes = []\<rparr>;
                 acc = snd loop
             in case fst loop of
                  Some err \<Rightarrow> (Some (UpdateFailed err), ra_Writes acc, ra_Profile acc)
                | None \<Rightarrow>
                    let p = on_status (\<lambda>st. st\<lparr>pst_UpdatingClusters := (pst_UpdatingClusters st)\<lparr>cl_Hash := currentHash\<rparr>\<rparr>)
                          (ra_Profile acc)
                    in if ra_Skipped acc then (Some (NotAllClustersUpdated (length (updating_refs p))), ra_Writes acc, p)
                       else if ra_Deleted acc then
                         (Some SummariesBeingDeleted, ra_Writes acc, p)
                       else (None, ra_Writes acc, on_status (\<lambda>st. st\<lparr>pst_UpdatedClusters := no_clusters,
                              pst_UpdatingClusters := no_clusters\<rparr>) p))"

section \<open>How a pass changes the profile\<close>

text \<open>A pass leaves the specification, the metadata and the matching clusters of the profile as they are.\<close>

definition same_rollout :: "profile \<Rightarrow> profile \<Rightarrow> bool" where
  "same_rollout p q \<longleftrightarrow> prof_Kind q = prof_Kind p \<and> prof_Meta q = prof_Meta p \<and> prof_Spec q = prof_Spec p \<and>
     matching_refs q = matching_refs p"

lemma same_rollout_refl [simp]: "same_rollout p p"
  by (simp add: same_rollout_def)

lemma same_rollout_trans: "same_rollout p q \<Longrightarrow> same_rollout q r \<Longrightarrow> same_rollout p r"
  by (simp add: same_rollout_def)

lemma same_rollout_maxUpdate: "same_rollout p q \<Longrightarrow> getMaxUpdate env q = getMaxUpdate env p"
proof -
  assume "same_rollout p q"
  then have e: "prof_Spec q = prof_Spec p" "matching_refs q = matching_refs p" by (simp_all add: same_rollout_def)
  show ?thesis by (simp only: getMaxUpdate_def e)
qed

lemma status_setters [simp]:
  "same_rollout p (SetFailedClusters c msg now p)" "same_rollout p (ClearFailedClusters c p)"
  "same_rollout p (set_updating refs p)"
  "pst_UpdatingClusters (prof_Status (SetFailedClusters c msg now p)) = pst_UpdatingClusters (prof_Status p)"
  "pst_UpdatedClusters (prof_Status (SetFailedClusters c msg now p)) = pst_UpdatedClusters (prof_Status p)"
  "pst_UpdatingClusters (prof_Status (ClearFailedClusters c p)) = pst_UpdatingClusters (prof_Status p)"
  "pst_UpdatedClusters (prof_Status (ClearFailedClusters c p)) = pst_UpdatedClusters (prof_Status p)"
  "pst_UpdatingClusters (prof_Status (set_updating refs p)) =
     (pst_UpdatingClusters (prof_Status p))\<lparr>cl_Clusters := refs\<rparr>"
  "pst_UpdatedClusters (prof_Status (set_updating refs p)) = pst_UpdatedClusters (prof_Status p)"
  by (simp_all add: same_rollout_def SetFailedClusters_def ClearFailedClusters_def set_updating_def on_status_def)

lemma patchClusterSummary_writes:
  "length (fst (patchClusterSummary env p c)) \<le> 1"
  "snd (patchClusterSummary env p c) = Some (ClusterSummaryDeletedError msg) \<Longrightarrow> fst (patchClusterSummary env p c) = []"
  by (auto simp: patchClusterSummary_def createClusterSummary_def updateClusterSummary_def Let_def
      split: sum.splits api_error.splits if_splits)

text \<open>What one call for a cluster does, in the terms the loop over the clusters needs.\<close>

lemma update_instance_step:
  assumes "updateClusterSummaryInstanceForCluster ops env c U p = (r, w, q)"
  shows "same_rollout p q" and "pst_UpdatingClusters (prof_Status q) = pst_UpdatingClusters (prof_Status p)"
    and "pst_UpdatedClusters (prof_Status q) = pst_UpdatedClusters (prof_Status p)"
    and "length w \<le> 1"
    and "w \<noteq> [] \<or> r = Inr UpdateDone \<Longrightarrow> getMaxUpdate env p = 0 \<or> so_has ops U c \<or> int (so_len ops U) < getMaxUpdate env p"
    and "r = Inr UpdateThrottled \<Longrightarrow> w = [] \<and> \<not> so_has ops U c \<and> int (so_len ops U) \<ge> getMaxUpdate env p"
    and "r = Inr UpdateIgnored \<Longrightarrow> w = []"
    and "r = Inl (ClusterSummaryDeletedError msg) \<Longrightarrow> w = []"
  using assms patchClusterSummary_writes [of env p c]
  by (auto simp: updateClusterSummaryInstanceForCluster_def Let_def
      split: sum.splits api_error.splits if_splits bool.splits option.splits)

lemma elems_of_refs:
  assumes "object_set ops"
  shows "set (so_items ops (fold (so_insert ops) refs (so_empty ops))) = set refs"
  using object_set.elems_fold_insert [OF assms, of refs "so_empty ops"] object_set.items_empty [OF assms] by simp

lemma so_len_card:
  assumes "object_set ops"
  shows "so_len ops s = card (set (so_items ops s))"
  by (rule object_set.len_card [OF assms])

text \<open>The loop over the matching clusters: it keeps the list of the profile and the set it works with equal, it issues
  at most one write for a cluster, and only for a cluster that was already counted or that the limit leaves room for.\<close>

definition rollout_inv :: "'s set_ops \<Rightarrow> rollout_env \<Rightarrow> profile \<Rightarrow> int \<Rightarrow> object_reference set \<Rightarrow> 's rollout_acc \<Rightarrow> bool" where
  "rollout_inv ops env p limit seen acc \<longleftrightarrow>
     same_rollout p (ra_Profile acc) \<and> finite seen \<and>
     set (updating_refs (ra_Profile acc)) = set (so_items ops (ra_Updating acc)) \<and>
     length (ra_Writes acc) \<le> card (set (so_items ops (ra_Updating acc)) \<inter> seen) \<and>
     int (card (set (so_items ops (ra_Updating acc)))) \<le> limit"

lemma rollout_inv_seen:
  assumes "rollout_inv ops env p limit seen acc"
  shows "rollout_inv ops env p limit (insert c seen) acc"
proof -
  have "card (set (so_items ops (ra_Updating acc)) \<inter> seen) \<le> card (set (so_items ops (ra_Updating acc)) \<inter> insert c seen)"
    by (rule card_mono) auto
  with assms show ?thesis by (simp add: rollout_inv_def)
qed

lemma card_Int_insert:
  assumes "finite A" "c \<in> A" "c \<notin> B"
  shows "card (A \<inter> insert c B) = Suc (card (A \<inter> B))"
  using assms by simp

lemma update_loop_inv:
  fixes ops :: "'s set_ops"
  assumes ops: "object_set ops" and limit: "getMaxUpdate env p \<le> limit" and M: "getMaxUpdate env p \<noteq> 0"
  shows "rollout_inv ops env p limit seen acc \<Longrightarrow> distinct clusters \<Longrightarrow> set clusters \<inter> seen = {} \<Longrightarrow>
     update_loop ops env updated clusters acc = (res, acc') \<Longrightarrow>
     same_rollout p (ra_Profile acc') \<and>
     set (updating_refs (ra_Profile acc')) = set (so_items ops (ra_Updating acc')) \<and>
     int (length (ra_Writes acc')) \<le> limit \<and> int (card (set (so_items ops (ra_Updating acc')))) \<le> limit"
proof (induction clusters arbitrary: seen acc)
  case Nil
  have "card (set (so_items ops (ra_Updating acc)) \<inter> seen) \<le> card (set (so_items ops (ra_Updating acc)))"
    by (rule card_mono) auto
  with Nil show ?case by (auto simp: rollout_inv_def)
next
  case (Cons c clusters)
  let ?U = "set (so_items ops (ra_Updating acc))"
  note has = object_set.has_iff [OF ops] and ins = object_set.items_insert [OF ops]
  have c: "c \<notin> seen" "c \<notin> set clusters" "distinct clusters" "set clusters \<inter> insert c seen = {}"
    using Cons.prems by auto
  note IH = Cons.IH [OF _ c(3,4)]
  show ?case
  proof (cases "so_has ops updated c")
    case True
    with Cons.prems have "update_loop ops env updated clusters acc = (res, acc')" by simp
    then show ?thesis by (rule IH [OF rollout_inv_seen [OF Cons.prems(1)]])
  next
    case False
    obtain r w q where step: "updateClusterSummaryInstanceForCluster ops env c (ra_Updating acc) (ra_Profile acc) = (r, w, q)"
      by (cases "updateClusterSummaryInstanceForCluster ops env c (ra_Updating acc) (ra_Profile acc)") auto
    note s = update_instance_step [OF step]
    let ?acc = "acc\<lparr>ra_Profile := q, ra_Writes := ra_Writes acc @ w\<rparr>"
    from Cons.prems(1) have I: "same_rollout p (ra_Profile acc)" "finite seen"
      "set (updating_refs (ra_Profile acc)) = ?U" "length (ra_Writes acc) \<le> card (?U \<inter> seen)" "int (card ?U) \<le> limit"
      by (simp_all add: rollout_inv_def)
    have q: "same_rollout p q" using I(1) s(1) by (rule same_rollout_trans)
    have qU: "set (updating_refs q) = ?U" using s(2) I(3) by simp
    have mx: "getMaxUpdate env (ra_Profile acc) = getMaxUpdate env p" using I(1) by (rule same_rollout_maxUpdate)
    have room: "c \<in> ?U \<or> int (card ?U) < getMaxUpdate env p" if "w \<noteq> [] \<or> r = Inr UpdateDone"
      using s(5) [OF that] M by (simp add: mx has so_len_card [OF ops])
    have finU: "finite ?U" by simp
    have quiet: "rollout_inv ops env p limit (insert c seen) ?acc" if "w = []"
      by (rule rollout_inv_seen) (use that I q qU in \<open>simp add: rollout_inv_def\<close>)
    have bound: "int (length (ra_Writes acc @ w)) \<le> limit"
    proof (cases "w = []")
      case True
      have "card (?U \<inter> seen) \<le> card ?U" by (rule card_mono) auto
      with True I(4,5) show ?thesis by simp
    next
      case False
      have "card (?U \<inter> seen) < card ?U \<or> int (card (?U \<inter> seen)) < getMaxUpdate env p"
      proof (cases "c \<in> ?U")
        case True
        then have "?U \<inter> seen \<subset> ?U" using c(1) by blast
        then show ?thesis using psubset_card_mono [OF finU] by blast
      next
        case notU: False
        have "card (?U \<inter> seen) \<le> card ?U" by (rule card_mono) auto
        with room False notU show ?thesis by fastforce
      qed
      with I(4,5) s(4) limit show ?thesis by auto
    qed
    have done_inv: "rollout_inv ops env p limit (insert c seen)
        (if \<not> so_has ops (ra_Updating ?acc) c then
           ?acc\<lparr>ra_Updating := so_insert ops c (ra_Updating ?acc),
                ra_Profile := set_updating (updating_refs (ra_Profile ?acc) @ [c]) (ra_Profile ?acc)\<rparr> else ?acc)"
      if "r = Inr UpdateDone"
    proof (cases "c \<in> ?U")
      case True
      then have "card (?U \<inter> insert c seen) = Suc (card (?U \<inter> seen))" by (rule card_Int_insert [OF finU _ c(1)])
      with True I q qU s(4) show ?thesis by (simp add: rollout_inv_def has)
    next
      case notU: False
      have "card (insert c ?U \<inter> insert c seen) = Suc (card (insert c ?U \<inter> seen))"
        by (rule card_Int_insert) (use c(1) in auto)
      also have "insert c ?U \<inter> seen = ?U \<inter> seen" using c(1) by blast
      finally have w: "card (insert c ?U \<inter> insert c seen) = Suc (card (?U \<inter> seen))" .
      have "int (card (insert c ?U)) \<le> limit" using notU room that limit by simp
      with notU I q qU s(4) w show ?thesis
        by (simp add: rollout_inv_def has ins same_rollout_trans [OF q])
    qed
    show ?thesis
    proof (cases r)
      case (Inl e)
      show ?thesis
      proof (cases e)
        case (ClusterSummaryDeletedError msg)
        then have w: "w = []" using s(8) Inl by simp
        have "update_loop ops env updated clusters (?acc\<lparr>ra_Deleted := True\<rparr>) = (res, acc')"
          using Cons.prems(4) False step Inl ClusterSummaryDeletedError by (simp add: Let_def)
        then show ?thesis by (rule IH [rotated]) (use quiet [OF w] in \<open>simp add: rollout_inv_def\<close>)
      next
        case (PatchError err)
        have "acc' = ?acc" using Cons.prems(4) False step Inl PatchError by (simp add: Let_def)
        then show ?thesis using bound I q qU by simp
      qed
    next
      case (Inr out)
      show ?thesis
      proof (cases out)
        case UpdateDone
        have "update_loop ops env updated clusters (if \<not> so_has ops (ra_Updating ?acc) c then
           ?acc\<lparr>ra_Updating := so_insert ops c (ra_Updating ?acc),
                ra_Profile := set_updating (updating_refs (ra_Profile ?acc) @ [c]) (ra_Profile ?acc)\<rparr> else ?acc) = (res, acc')"
          using Cons.prems(4) False step Inr UpdateDone
          by (cases "so_has ops (ra_Updating acc) c") (simp_all add: Let_def)
        then show ?thesis by (rule IH [rotated]) (rule done_inv, simp add: Inr UpdateDone)
      next
        case UpdateThrottled
        then have w: "w = []" using s(6) Inr by simp
        have "update_loop ops env updated clusters (?acc\<lparr>ra_Skipped := True\<rparr>) = (res, acc')"
          using Cons.prems(4) False step Inr UpdateThrottled by (simp add: Let_def)
        then show ?thesis by (rule IH [rotated]) (use quiet [OF w] in \<open>simp add: rollout_inv_def\<close>)
      next
        case UpdateIgnored
        then have w: "w = []" using s(7) Inr by simp
        have "update_loop ops env updated clusters ?acc = (res, acc')"
          using Cons.prems(4) False step Inr UpdateIgnored by (simp add: Let_def)
        then show ?thesis by (rule IH [rotated]) (rule quiet [OF w])
      qed
    qed
  qed
qed

lemma revise_loop_updating:
  "revise_loop ops env updated clusters updating deleted p = (res, refs, gone, q) \<Longrightarrow>
     set refs \<subseteq> set updating \<union> set clusters \<and> same_rollout p q \<and>
     pst_UpdatingClusters (prof_Status q) = pst_UpdatingClusters (prof_Status p)"
proof (induction clusters arbitrary: updating deleted p)
  case (Cons c clusters)
  let ?p = "add_updated c p"
  have p: "same_rollout p ?p" "pst_UpdatingClusters (prof_Status ?p) = pst_UpdatingClusters (prof_Status p)"
    by (simp_all add: same_rollout_def on_status_def add_updated_def)
  define Q where "Q \<longleftrightarrow> ?case"
  have skip: Q if "revise_loop ops env updated clusters updating d p = (res, refs, gone, q)" for d
    using Cons.IH [OF that] by (auto simp: Q_def)
  have move: Q if "revise_loop ops env updated clusters updating d ?p = (res, refs, gone, q)" for d
    using Cons.IH [OF that] p same_rollout_trans [OF p(1)] by (auto simp: Q_def)
  have keep: Q if "revise_loop ops env updated clusters (updating @ [c]) d p = (res, refs, gone, q)" for d
    using Cons.IH [OF that] by (auto simp: Q_def)
  have stop: Q if "refs = updating" "q = p"
    using that by (auto simp: Q_def)
  from Cons.prems have Q
    by (auto split: sum.splits api_error.splits if_splits bool.splits intro: skip move keep stop)
  then show ?case by (simp add: Q_def)
qed simp

lemma reviseUpdatingClusterList_updating:
  assumes "reviseUpdatingClusterList ops env h p = (res, q)"
  shows "set (updating_refs q) \<subseteq> set (updating_refs p)" and "same_rollout p q"
proof -
  let ?u = "fold (so_insert ops) (updated_refs p) (so_empty ops)"
  obtain err refs gone q' where r: "revise_loop ops env ?u (updating_refs p) [] False p = (err, refs, gone, q')"
    by (cases "revise_loop ops env ?u (updating_refs p) [] False p") auto
  note l = revise_loop_updating [OF r]
  have s: "same_rollout p (set_updating refs q')"
    by (rule same_rollout_trans [of p q']) (use l in simp_all)
  show "set (updating_refs q) \<subseteq> set (updating_refs p)" and "same_rollout p q"
    using assms r l s by (auto simp: reviseUpdatingClusterList_def Let_def split: if_splits option.splits)
qed

section \<open>A pass respects MaxUpdate\<close>

text \<open>The profile the loop over the matching clusters starts with, and the error that keeps it from starting.\<close>

definition pass_start :: "'s set_ops \<Rightarrow> rollout_env \<Rightarrow> profile \<Rightarrow> rollout_error option \<times> profile" where
  "pass_start ops env p =
     (let currentHash = Some (re_SpecHash env (prof_Spec p));
          p = (if cl_Hash (pst_UpdatedClusters (prof_Status p)) \<noteq> currentHash then
                 on_status (\<lambda>st. st\<lparr>pst_UpdatedClusters := \<lparr>cl_Hash = currentHash, cl_Clusters = []\<rparr>\<rparr>) p
               else p)
      in reviseUpdatingClusterList ops env currentHash (reviseUpdatedAndUpdatingClusters ops p))"

definition start_acc :: "'s set_ops \<Rightarrow> profile \<Rightarrow> 's rollout_acc" where
  "start_acc ops p = \<lparr>ra_Profile = p, ra_Updating = fold (so_insert ops) (updating_refs p) (so_empty ops),
     ra_Skipped = False, ra_Deleted = False, ra_Writes = []\<rparr>"

definition pass_end :: "rollout_env \<Rightarrow> profile \<Rightarrow> 's rollout_acc \<Rightarrow> profile" where
  "pass_end env p acc = on_status (\<lambda>st. st\<lparr>pst_UpdatingClusters := (pst_UpdatingClusters st)
     \<lparr>cl_Hash := Some (re_SpecHash env (prof_Spec p))\<rparr>\<rparr>) (ra_Profile acc)"

lemma updateClusterSummaries_pass:
  "updateClusterSummaries ops env p = (case pass_start ops env p of
     (Some err, p1) \<Rightarrow> (Some err, [], p1)
   | (None, p1) \<Rightarrow>
       (let loop = update_loop ops env (fold (so_insert ops) (updated_refs p1) (so_empty ops)) (matching_refs p1)
                     (start_acc ops p1);
            acc = snd loop; q = pass_end env p acc
        in case fst loop of
             Some err \<Rightarrow> (Some (UpdateFailed err), ra_Writes acc, ra_Profile acc)
           | None \<Rightarrow> if ra_Skipped acc then (Some (NotAllClustersUpdated (length (updating_refs q))), ra_Writes acc, q)
                     else if ra_Deleted acc then (Some SummariesBeingDeleted, ra_Writes acc, q)
                     else (None, ra_Writes acc, on_status (\<lambda>st. st\<lparr>pst_UpdatedClusters := no_clusters,
                              pst_UpdatingClusters := no_clusters\<rparr>) q)))"
  by (simp add: updateClusterSummaries_def pass_start_def start_acc_def pass_end_def getUpdatedAndUpdatingClusters_def
      on_status_def Let_def split: option.splits prod.splits)

lemma reviseUpdatedAndUpdating_refs:
  assumes "object_set ops"
  shows "updating_refs (reviseUpdatedAndUpdatingClusters ops p) = filter (\<lambda>c. c \<in> set (matching_refs p)) (updating_refs p)"
    and "updated_refs (reviseUpdatedAndUpdatingClusters ops p) = filter (\<lambda>c. c \<in> set (matching_refs p)) (updated_refs p)"
    and "cl_Hash (pst_UpdatingClusters (prof_Status (reviseUpdatedAndUpdatingClusters ops p))) =
      cl_Hash (pst_UpdatingClusters (prof_Status p))"
    and "cl_Hash (pst_UpdatedClusters (prof_Status (reviseUpdatedAndUpdatingClusters ops p))) =
      cl_Hash (pst_UpdatedClusters (prof_Status p))"
    and "same_rollout p (reviseUpdatedAndUpdatingClusters ops p)"
proof -
  have "so_has ops (fold (so_insert ops) (matching_refs p) (so_empty ops)) = (\<lambda>c. c \<in> set (matching_refs p))"
    by (rule ext) (simp add: object_set.has_iff [OF assms] elems_of_refs [OF assms])
  then show "updating_refs (reviseUpdatedAndUpdatingClusters ops p) =
      filter (\<lambda>c. c \<in> set (matching_refs p)) (updating_refs p)"
    and "updated_refs (reviseUpdatedAndUpdatingClusters ops p) =
      filter (\<lambda>c. c \<in> set (matching_refs p)) (updated_refs p)"
    by (simp_all add: reviseUpdatedAndUpdatingClusters_def on_status_def Let_def)
qed (simp_all add: reviseUpdatedAndUpdatingClusters_def on_status_def same_rollout_def Let_def)

lemma pass_start_updating:
  assumes ops: "object_set ops" and start: "pass_start ops env p = (res, p1)"
  shows "set (updating_refs p1) \<subseteq> set (updating_refs p)" and "same_rollout p p1"
proof -
  define p0 where "p0 = (if cl_Hash (pst_UpdatedClusters (prof_Status p)) \<noteq> Some (re_SpecHash env (prof_Spec p)) then
     on_status (\<lambda>st. st\<lparr>pst_UpdatedClusters := \<lparr>cl_Hash = Some (re_SpecHash env (prof_Spec p)), cl_Clusters = []\<rparr>\<rparr>) p
     else p)"
  have p0: "same_rollout p p0" "updating_refs p0 = updating_refs p"
    by (auto simp: p0_def same_rollout_def on_status_def)
  have r: "reviseUpdatingClusterList ops env (Some (re_SpecHash env (prof_Spec p)))
      (reviseUpdatedAndUpdatingClusters ops p0) = (res, p1)"
    using start by (simp add: pass_start_def p0_def Let_def)
  show "set (updating_refs p1) \<subseteq> set (updating_refs p)"
    using reviseUpdatingClusterList_updating(1) [OF r] reviseUpdatedAndUpdating_refs(1) [OF ops, of p0] p0(2) by auto
  show "same_rollout p p1"
    by (rule same_rollout_trans [OF p0(1)], rule same_rollout_trans [OF reviseUpdatedAndUpdating_refs(5) [OF ops]])
      (rule reviseUpdatingClusterList_updating(2) [OF r])
qed


section \<open>A rollout completes\<close>

text \<open>A cluster that is ready, not paused and whose ClusterSummary, if there is one, is not being deleted.\<close>

definition usable_cluster :: "rollout_env \<Rightarrow> profile \<Rightarrow> object_reference \<Rightarrow> bool" where
  "usable_cluster env p c \<longleftrightarrow>
     re_IsClusterReady env c = Inr True \<and>
     re_IsClusterPaused env (ref_Namespace c) (ref_Name c) (re_GetClusterType env c) = Inr False \<and>
     (case GetClusterSummary (re_ListSummaries env) (prof_Kind p) (prof_Name p) (ref_Namespace c) (ref_Name c) (re_GetClusterType env c) of
        Inl e \<Rightarrow> e = ApiNotFound
      | Inr cs \<Rightarrow> om_DeletionTimestamp (cs_Meta cs) = None)"

definition summary_provisioned :: "rollout_env \<Rightarrow> profile \<Rightarrow> object_reference \<Rightarrow> bool" where
  "summary_provisioned env p c \<longleftrightarrow>
     (case GetClusterSummary (re_ListSummaries env) (prof_Kind p) (prof_Name p) (ref_Namespace c) (ref_Name c) (re_GetClusterType env c) of
        Inl e \<Rightarrow> False
      | Inr cs \<Rightarrow> isCluterSummaryProvisioned cs)"

text \<open>A pass in good conditions: the matching clusters are usable, the writes succeed, and every cluster a previous pass for
  the same specification started to update is provisioned by now.\<close>

definition good_pass :: "rollout_env \<Rightarrow> bytes \<Rightarrow> int \<Rightarrow> profile \<Rightarrow> bool" where
  "good_pass env h M p \<longleftrightarrow>
     re_SpecHash env (prof_Spec p) = h \<and> getMaxUpdate env p = M \<and>
     list_all (usable_cluster env p) (matching_refs p) \<and>
     (\<forall>cs. re_Create env cs = None \<and> re_Update env cs = None) \<and>
     (cl_Hash (pst_UpdatingClusters (prof_Status p)) = Some h \<longrightarrow>
        list_all (\<lambda>c. c \<in> set (matching_refs p) \<longrightarrow> summary_provisioned env p c) (updating_refs p))"

definition hash_current :: "bytes \<Rightarrow> profile \<Rightarrow> bool" where
  "hash_current h p \<longleftrightarrow> cl_Hash (pst_UpdatingClusters (prof_Status p)) = Some h \<and>
     cl_Hash (pst_UpdatedClusters (prof_Status p)) = Some h"

definition not_started :: "profile \<Rightarrow> object_reference set" where
  "not_started p = set (matching_refs p) - set (updated_refs p) - set (updating_refs p)"

lemma usable_same_rollout: "same_rollout p q \<Longrightarrow> usable_cluster env q c = usable_cluster env p c"
  by (simp add: same_rollout_def usable_cluster_def)

lemma update_instance_good:
  assumes "usable_cluster env p c" and "\<And>cs. re_Create env cs = None" and "\<And>cs. re_Update env cs = None"
    and "updateClusterSummaryInstanceForCluster ops env c U p = (r, w, q)" and "getMaxUpdate env p \<noteq> 0"
  shows "r = Inr (if \<not> so_has ops U c \<and> int (so_len ops U) \<ge> getMaxUpdate env p then UpdateThrottled else UpdateDone)"
proof -
  have "snd (patchClusterSummary env p c) = None"
    using assms(1-3) by (auto simp: usable_cluster_def patchClusterSummary_def updateClusterSummary_def Let_def
        createClusterSummary_def split: sum.splits)
  then show ?thesis
    using assms by (auto simp: updateClusterSummaryInstanceForCluster_def usable_cluster_def Let_def split: if_splits)
qed

text \<open>The loop in good conditions: nothing fails; a cluster is passed over only if it is updated already, or if
  the limit is reached, and then for good.\<close>

lemma update_loop_good:
  fixes ops :: "'s set_ops"
  assumes ops: "object_set ops" and M: "getMaxUpdate env p = M" "M \<noteq> 0"
    and w: "\<And>cs. re_Create env cs = None" "\<And>cs. re_Update env cs = None"
  shows "list_all (usable_cluster env p) clusters \<Longrightarrow> same_rollout p (ra_Profile acc) \<Longrightarrow>
    update_loop ops env upd clusters acc = (res, acc') \<Longrightarrow>
    res = None \<and> ra_Deleted acc' = ra_Deleted acc \<and> same_rollout p (ra_Profile acc') \<and>
    (set (updating_refs (ra_Profile acc)) = set (so_items ops (ra_Updating acc)) \<longrightarrow>
       set (updating_refs (ra_Profile acc')) = set (so_items ops (ra_Updating acc'))) \<and>
    pst_UpdatedClusters (prof_Status (ra_Profile acc')) = pst_UpdatedClusters (prof_Status (ra_Profile acc)) \<and>
    set (so_items ops (ra_Updating acc')) \<subseteq>
      set (so_items ops (ra_Updating acc)) \<union> (set clusters - set (so_items ops upd)) \<and>
    (int (card (set (so_items ops (ra_Updating acc)))) \<ge> M \<longrightarrow>
       set (so_items ops (ra_Updating acc')) = set (so_items ops (ra_Updating acc))) \<and>
    (ra_Skipped acc' \<longrightarrow> ra_Skipped acc \<or>
       int (card (set (so_items ops (ra_Updating acc')))) \<ge> M \<and>
       \<not> set clusters \<subseteq> set (so_items ops upd) \<union> set (so_items ops (ra_Updating acc')))"
proof (induction clusters arbitrary: acc)
  case (Cons c clusters)
  let ?U = "set (so_items ops (ra_Updating acc))"
  note has = object_set.has_iff [OF ops] and ins = object_set.items_insert [OF ops]
  have us: "list_all (usable_cluster env p) clusters" "usable_cluster env p c" using Cons.prems(1) by simp_all
  show ?case
  proof (cases "so_has ops upd c")
    case True
    with Cons.prems(3) have "update_loop ops env upd clusters acc = (res, acc')" by simp
    from Cons.IH [OF us(1) Cons.prems(2) this] show ?thesis using True by (auto simp: has)
  next
    case False
    obtain r ws q where step: "updateClusterSummaryInstanceForCluster ops env c (ra_Updating acc) (ra_Profile acc) = (r, ws, q)"
      by (cases "updateClusterSummaryInstanceForCluster ops env c (ra_Updating acc) (ra_Profile acc)") auto
    note s = update_instance_step(1-3) [OF step]
    have mx: "getMaxUpdate env (ra_Profile acc) = M" using same_rollout_maxUpdate [OF Cons.prems(2)] M(1) by simp
    have r: "r = Inr (if c \<notin> ?U \<and> int (card ?U) \<ge> M then UpdateThrottled else UpdateDone)"
      using update_instance_good [OF _ w step] us(2) usable_same_rollout [OF Cons.prems(2)] M(2)
      by (simp add: mx has so_len_card [OF ops])
    let ?acc = "acc\<lparr>ra_Profile := q, ra_Writes := ra_Writes acc @ ws\<rparr>"
    have q: "same_rollout p q" by (rule same_rollout_trans [OF Cons.prems(2) s(1)])
    show ?thesis
    proof (cases "c \<notin> ?U \<and> int (card ?U) \<ge> M")
      case True
      have "update_loop ops env upd clusters (?acc\<lparr>ra_Skipped := True\<rparr>) = (res, acc')"
        using Cons.prems(3) False step r True by (simp add: Let_def)
      from Cons.IH [OF us(1) _ this] q s(2,3) True False show ?thesis by (auto simp: has)
    next
      case go: False
      show ?thesis
      proof (cases "c \<in> ?U")
        case True
        have "update_loop ops env upd clusters ?acc = (res, acc')"
          using Cons.prems(3) False step r go True by (simp add: Let_def has)
        from Cons.IH [OF us(1) _ this] q s(2,3) show ?thesis by auto
      next
        case notU: False
        let ?acc2 = "?acc\<lparr>ra_Updating := so_insert ops c (ra_Updating acc),
                          ra_Profile := set_updating (updating_refs q @ [c]) q\<rparr>"
        have "update_loop ops env upd clusters ?acc2 = (res, acc')"
          using Cons.prems(3) False step r go notU by (simp add: Let_def has)
        from Cons.IH [OF us(1) _ this] q s(2,3) notU go False same_rollout_trans [OF q] show ?thesis
          by (auto simp: ins has)
      qed
    qed
  qed
qed simp

lemma revise_loop_good:
  assumes "list_all (summary_provisioned env p) clusters"
  shows "revise_loop ops env upd clusters refs gone p =
     (None, refs, gone, fold add_updated (filter (\<lambda>c. \<not> so_has ops upd c) clusters) p)"
  using assms
proof (induction clusters arbitrary: p)
  case (Cons c clusters)
  have "summary_provisioned env (add_updated c p) = summary_provisioned env p"
    by (rule ext) (simp add: summary_provisioned_def add_updated_def on_status_def)
  with Cons.prems have all: "list_all (summary_provisioned env p) clusters"
    "list_all (summary_provisioned env (add_updated c p)) clusters" by simp_all
  from Cons.prems obtain cs where "GetClusterSummary (re_ListSummaries env) (prof_Kind p) (prof_Name p) (ref_Namespace c) (ref_Name c)
      (re_GetClusterType env c) = Inr cs" "isCluterSummaryProvisioned cs"
    by (auto simp: summary_provisioned_def split: sum.splits)
  then show ?case using Cons.IH [OF all(1)] Cons.IH [OF all(2)] by simp
qed simp

lemma fold_add_updated:
  "updated_refs (fold add_updated cs p) = updated_refs p @ cs"
  "cl_Hash (pst_UpdatedClusters (prof_Status (fold add_updated cs p))) = cl_Hash (pst_UpdatedClusters (prof_Status p))"
  by (induction cs arbitrary: p) (simp_all add: add_updated_def on_status_def)

lemma provisioned_same_rollout: "same_rollout p q \<Longrightarrow> summary_provisioned env q c = summary_provisioned env p c"
  by (simp add: same_rollout_def summary_provisioned_def)

lemma pass_start_good:
  assumes ops: "object_set ops" and good: "good_pass env h M p" and start: "pass_start ops env p = (res, p1)"
  shows "res = None" and "cl_Hash (pst_UpdatedClusters (prof_Status p1)) = Some h"
    and "set (updating_refs p1) \<subseteq> set (matching_refs p)"
    and "hash_current h p \<Longrightarrow> set (updating_refs p1) = {} \<and> set (matching_refs p) - set (updated_refs p1) = not_started p"
proof -
  have h: "re_SpecHash env (prof_Spec p) = h" using good by (simp add: good_pass_def)
  define p0 where "p0 = (if cl_Hash (pst_UpdatedClusters (prof_Status p)) \<noteq> Some h then
     on_status (\<lambda>st. st\<lparr>pst_UpdatedClusters := \<lparr>cl_Hash = Some h, cl_Clusters = []\<rparr>\<rparr>) p else p)"
  define p' where "p' = reviseUpdatedAndUpdatingClusters ops p0"
  have p0: "same_rollout p p0" "pst_UpdatingClusters (prof_Status p0) = pst_UpdatingClusters (prof_Status p)"
    "cl_Hash (pst_UpdatedClusters (prof_Status p0)) = Some h" "hash_current h p \<Longrightarrow> p0 = p"
    by (auto simp: p0_def same_rollout_def on_status_def hash_current_def)
  note rev = reviseUpdatedAndUpdating_refs [OF ops, of p0, folded p'_def]
  have p': "same_rollout p p'" by (rule same_rollout_trans [OF p0(1) rev(5)])
  have m0: "matching_refs p0 = matching_refs p" using p0(1) by (simp add: same_rollout_def)
  have r: "reviseUpdatingClusterList ops env (Some h) p' = (res, p1)"
    using start by (simp add: pass_start_def p0_def p'_def h Let_def)
  have "res = None \<and> cl_Hash (pst_UpdatedClusters (prof_Status p1)) = Some h \<and>
    set (updating_refs p1) \<subseteq> set (matching_refs p) \<and>
    (hash_current h p \<longrightarrow> set (updating_refs p1) = {} \<and> set (matching_refs p) - set (updated_refs p1) = not_started p)"
  proof (cases "cl_Hash (pst_UpdatingClusters (prof_Status p)) = Some h")
    case False
    then have "res = None" "p1 = p'"
      using r rev(3) p0(2) by (simp_all add: reviseUpdatingClusterList_def)
    with False show ?thesis using rev(1,4) p0(3) m0 by (auto simp: hash_current_def)
  next
    case True
    let ?u = "fold (so_insert ops) (updated_refs p') (so_empty ops)"
    have "list_all (summary_provisioned env p') (updating_refs p')"
      using good True p0(2) m0
      by (auto simp: good_pass_def list_all_iff rev(1) provisioned_same_rollout [OF p'])
    note l = revise_loop_good [OF this, of ops ?u "[]" False]
    define new where "new = filter (\<lambda>c. \<not> so_has ops ?u c) (updating_refs p')"
    have p1: "res = None" "p1 = set_updating [] (fold add_updated new p')"
      using r l True rev(3) p0(2) by (simp_all add: reviseUpdatingClusterList_def new_def)
    have new: "set new = set (updating_refs p') - set (updated_refs p')"
      by (auto simp: new_def object_set.has_iff [OF ops] elems_of_refs [OF ops])
    have "set (matching_refs p) - set (updated_refs p1) = not_started p" if "hash_current h p"
      using new p0(4) [OF that] by (auto simp: p1(2) fold_add_updated rev(1,2) not_started_def)
    then show ?thesis using p1 rev(4) p0(3) by (simp add: fold_add_updated)
  qed
  then show "res = None" and "cl_Hash (pst_UpdatedClusters (prof_Status p1)) = Some h"
    and "set (updating_refs p1) \<subseteq> set (matching_refs p)"
    and "hash_current h p \<Longrightarrow> set (updating_refs p1) = {} \<and> set (matching_refs p) - set (updated_refs p1) = not_started p"
    by simp_all
qed

text \<open>A pass in good conditions that does not complete the rollout starts at least \<open>M\<close> clusters that were not started.\<close>

lemma good_pass_progress:
  assumes ops: "object_set ops" and good: "good_pass env h M p" and M: "0 < M"
    and run: "updateClusterSummaries ops env p = (Some err, w, q)"
  shows "same_rollout p q" and "hash_current h q" and "not_started q \<noteq> {}"
    and "int (card (not_started q)) + M \<le> int (card (if hash_current h p then not_started p else set (matching_refs p)))"
proof -
  obtain res p1 where start: "pass_start ops env p = (res, p1)" by (cases "pass_start ops env p")
  note s = pass_start_good [OF ops good start]
  note p1 = pass_start_updating(2) [OF ops start]
  let ?u = "fold (so_insert ops) (updated_refs p1) (so_empty ops)"
  have g: "getMaxUpdate env p = M" "re_SpecHash env (prof_Spec p) = h"
    "\<And>cs. re_Create env cs = None" "\<And>cs. re_Update env cs = None"
    "list_all (usable_cluster env p) (matching_refs p1)"
    using good p1 by (simp_all add: good_pass_def same_rollout_def)
  obtain e acc where loop: "update_loop ops env ?u (matching_refs p1) (start_acc ops p1) = (e, acc)"
    by (cases "update_loop ops env ?u (matching_refs p1) (start_acc ops p1)")
  have m1: "matching_refs p1 = matching_refs p" using p1 by (simp add: same_rollout_def)
  have M0: "M \<noteq> 0" using M by simp
  let ?U = "set (so_items ops (ra_Updating acc))"
  have acc: "same_rollout p (ra_Profile (start_acc ops p1))" "ra_Skipped (start_acc ops p1) = False"
    "ra_Deleted (start_acc ops p1) = False" "ra_Profile (start_acc ops p1) = p1"
    "set (so_items ops (ra_Updating (start_acc ops p1))) = set (updating_refs p1)"
    using p1 by (simp_all add: start_acc_def elems_of_refs [OF ops])
  note L = update_loop_good [OF ops g(1) M0 g(3,4,5) acc(1) loop, unfolded acc elems_of_refs [OF ops] m1]
  have same: "same_rollout p (ra_Profile acc)" "set (updating_refs (ra_Profile acc)) = ?U"
    "updated_refs (ra_Profile acc) = updated_refs p1" "cl_Hash (pst_UpdatedClusters (prof_Status (ra_Profile acc))) = Some h"
    using L s(2) by simp_all
  have e: "e = None" using L by simp
  have "ra_Skipped acc \<and> q = pass_end env p acc"
    using run start loop s(1) e L
    by (simp add: updateClusterSummaries_pass Let_def split: if_splits)
  then have q: "q = pass_end env p acc" and skipped: "ra_Skipped acc" by simp_all
  show "same_rollout p q" and "hash_current h q"
    using same g(2) by (simp_all add: q pass_end_def on_status_def same_rollout_def hash_current_def)
  define base where "base = set (matching_refs p) - set (updated_refs p1)"
  have rest: "not_started q = base - ?U"
    using same by (auto simp: not_started_def q pass_end_def on_status_def same_rollout_def base_def)
  have full: "M \<le> int (card ?U)" and open_set: "\<not> set (matching_refs p) \<subseteq> set (updated_refs p1) \<union> ?U"
    using L skipped by simp_all
  show "not_started q \<noteq> {}" using open_set by (auto simp: rest base_def)
  have fin: "finite ?U" "finite base" by (simp_all add: base_def)
  show "int (card (not_started q)) + M \<le> int (card (if hash_current h p then not_started p else set (matching_refs p)))"
  proof (cases "hash_current h p")
    case True
    then have "?U \<subseteq> base" "base = not_started p" using L s(4) by (auto simp: base_def)
    then show ?thesis
      using True full fin card_mono [of base ?U] by (simp add: rest card_Diff_subset)
  next
    case False
    have U: "?U \<subseteq> set (matching_refs p)" using L s(3) by auto
    have "card (base - ?U) \<le> card (set (matching_refs p) - ?U)"
      by (rule card_mono) (auto simp: base_def)
    then show ?thesis
      using False full fin U card_mono [of "set (matching_refs p)" ?U] by (simp add: rest card_Diff_subset)
  qed
qed

text \<open>The passes of a rollout, each in its own environment, until one returns without an error.\<close>

fun rollout_passes :: "'s set_ops \<Rightarrow> rollout_env list \<Rightarrow> profile \<Rightarrow> bool" where
  "rollout_passes ops [] p = False"
| "rollout_passes ops (env # envs) p =
     (case updateClusterSummaries ops env p of
        (None, _, _) \<Rightarrow> True
      | (Some _, _, q) \<Rightarrow> rollout_passes ops envs q)"

text \<open>Every pass that is needed meets good conditions.\<close>

fun good_passes :: "'s set_ops \<Rightarrow> rollout_env list \<Rightarrow> bytes \<Rightarrow> int \<Rightarrow> profile \<Rightarrow> bool" where
  "good_passes ops [] h M p = True"
| "good_passes ops (env # envs) h M p =
     (good_pass env h M p \<and>
      (case updateClusterSummaries ops env p of
         (None, _, _) \<Rightarrow> True
       | (Some _, _, q) \<Rightarrow> good_passes ops envs h M q))"

lemma rollout_passes_complete:
  assumes ops: "object_set ops" and M: "0 < M"
  shows "good_passes ops envs h M p \<Longrightarrow> envs \<noteq> [] \<Longrightarrow>
     int (card (if hash_current h p then not_started p else set (matching_refs p))) \<le> M * int (length envs) \<Longrightarrow>
     rollout_passes ops envs p"
proof (induction envs arbitrary: p)
  case (Cons e envs)
  obtain env where e: "e = env" by simp
  obtain res w q where run: "updateClusterSummaries ops env p = (res, w, q)"
    by (cases "updateClusterSummaries ops env p") auto
  show ?case
  proof (cases res)
    case None
    then show ?thesis by (simp add: e run)
  next
    case (Some err)
    have good: "good_pass env h M p" "good_passes ops envs h M q" using Cons.prems(1) by (simp_all add: e run Some)
    note g = good_pass_progress [OF ops good(1) M run [unfolded Some]]
    have pos: "0 < card (not_started q)" using g(3) by (simp add: card_gt_0_iff not_started_def)
    have left: "int (card (not_started q)) \<le> M * int (length envs)"
      using g(4) Cons.prems(3) by (simp add: distrib_left)
    with pos have "envs \<noteq> []" by auto
    then show ?thesis using Cons.IH [OF good(2)] g(2) left by (simp add: e run Some)
  qed
qed simp


section \<open>The hypotheses can hold\<close>

definition sample_ref :: "string \<Rightarrow> object_reference" where
  "sample_ref n = \<lparr>ref_Kind = ''Cluster'', ref_Namespace = ''ns'', ref_Name = n, ref_APIVersion = ''v1''\<rparr>"

text \<open>A ClusterProfile with MaxUpdate 1 and two matching clusters, none of them updated.\<close>

definition sample_profile :: profile where
  "sample_profile = \<lparr>prof_Kind = ClusterProfileKind, prof_Meta = zero_object_meta\<lparr>om_Name := ''p''\<rparr>,
     prof_Spec = zero_profile_spec\<lparr>ps_MaxUpdate := Some (IntVal 1)\<rparr>,
     prof_Status = \<lparr>pst_MatchingClusterRefs = [sample_ref ''a'', sample_ref ''b''], pst_UpdatingClusters = no_clusters,
       pst_UpdatedClusters = no_clusters, pst_FailedClusters = [], pst_DependenciesHash = None,
       pst_ReconciliationSuspended = False, pst_SuspensionReason = None\<rparr>\<rparr>"

text \<open>Ready clusters; those named in \<open>created\<close> have a ClusterSummary.\<close>

definition sample_env :: "string list \<Rightarrow> rollout_env" where
  "sample_env created = \<lparr>re_IsClusterReady = (\<lambda>_. Inr True), re_IsClusterPaused = (\<lambda>_ _ _. Inr False),
     re_GetClusterType = (\<lambda>_. ClusterTypeCapi),
     re_ListSummaries = (\<lambda>opts. Inr (case opts of
         [_, MatchingLabels ls] \<Rightarrow> map (\<lambda>n. zero_cluster_summary) (filter (\<lambda>n. map_of ls ClusterNameLabel = Some n) created)
       | _ \<Rightarrow> [])),
     re_AddLabel = AList.update, re_ServiceAccountNameLabel = ''sa'',
     re_ServiceAccountNamespaceLabel = ''sans'', re_SveltosAPIVersion = ''sveltos'', re_CeilPercent = (\<lambda>p n. p * int n),
     re_SpecHash = (\<lambda>_. ''h''), re_Create = (\<lambda>_. None), re_Update = (\<lambda>_. None), re_Now = 0\<rparr>"

lemmas sample_rollout_defs = GetClusterSummary_def ClusterNameLabel_def ClusterTypeLabel_def ClusterProfileLabelName_def
  ProfileLabelName_def sample_env_def sample_profile_def no_clusters_def on_status_def
  reviseUpdatedAndUpdatingClusters_def reviseUpdatingClusterList_def list_set_ops_def getUpdatedAndUpdatingClusters_def
  updateClusterSummaryInstanceForCluster_def patchClusterSummary_def createClusterSummary_def getMaxUpdate_def
  set_updating_def ClearFailedClusters_def sample_ref_def so_len_def zero_profile_spec_def Let_def


lemma sample_first_pass:
  "fst (updateClusterSummaries list_set_ops (sample_env []) sample_profile) = Some (NotAllClustersUpdated 1)"
  by (simp add: updateClusterSummaries_def sample_rollout_defs)

lemma sample_first_pass_profile:
  "snd (snd (updateClusterSummaries list_set_ops (sample_env []) sample_profile)) =
     sample_profile\<lparr>prof_Status := prof_Status sample_profile
       \<lparr>pst_UpdatingClusters := \<lparr>cl_Hash = Some ''h'', cl_Clusters = [sample_ref ''a'']\<rparr>,
        pst_UpdatedClusters := \<lparr>cl_Hash = Some ''h'', cl_Clusters = []\<rparr>\<rparr>\<rparr>"
  by (simp add: updateClusterSummaries_def sample_rollout_defs)


end
