(* ===== verification/Cluster_Configuration.thy ===== *)
theory Cluster_Configuration
  imports Feature_Deployer Rollout
begin

text \<open>
  The ClusterConfigurations (controllers/profile_utils.go, lib/clusterops/clusterconfiguration.go): one object for each managed cluster, which
  every profile that matches the cluster owns, with a section of its own for what it deployed there.

  The state is the list of ClusterConfigurations of the API server. An update replaces the metadata of an object and a status update
  its status: the status is a subresource. \<open>config_env\<close> holds the faults of the calls, by the attempt of
  \<open>retry.RetryOnConflict\<close>, and the owner reference functions of cluster-api.
\<close>

section \<open>Retries\<close>

text \<open>\<open>RetryOnConflict\<close> of client-go with \<open>DefaultRetry\<close>, five attempts: it calls again after a conflict and returns every
  other answer, and the last one when the attempts are used up.\<close>

fun retry_on_conflict :: "nat \<Rightarrow> nat \<Rightarrow> (nat \<Rightarrow> 's \<Rightarrow> dep_error option \<times> 's) \<Rightarrow> 's \<Rightarrow> dep_error option \<times> 's" where
  "retry_on_conflict 0 attempt f s = (None, s)"
| "retry_on_conflict (Suc n) attempt f s =
     (case f attempt s of
        (None, s) \<Rightarrow> (None, s)
      | (Some e, s) \<Rightarrow>
          if errors_As e ConflictError \<and> n > 0 then retry_on_conflict n (Suc attempt) f s else (Some e, s))"

definition RetryOnConflict :: "(nat \<Rightarrow> 's \<Rightarrow> dep_error option \<times> 's) \<Rightarrow> 's \<Rightarrow> dep_error option \<times> 's" where
  "RetryOnConflict f s = retry_on_conflict 5 0 f s"

lemma retry_invariant:
  assumes "\<And>i s r s'. f i s = (r, s') \<Longrightarrow> I s \<Longrightarrow> I s'" and "RetryOnConflict f s = (r, s')" and "I s"
  shows "I s'"
proof -
  have "retry_on_conflict n i f s = (r, s') \<Longrightarrow> I s \<Longrightarrow> I s'" for n i s
    by (induction n arbitrary: i s) (auto split: prod.splits option.splits if_splits dest: assms(1))
  then show ?thesis using assms(2,3) unfolding RetryOnConflict_def by blast
qed

text \<open>The answer of a retried function is the answer of one of its attempts.\<close>

lemma retry_last:
  assumes "\<And>i s r s'. f i s = (r, s') \<Longrightarrow> I s \<Longrightarrow> I s'" and "RetryOnConflict f s = (r, s')" and "I s"
  shows "\<exists>i v. I v \<and> f i v = (r, s')"
proof -
  have "retry_on_conflict (Suc n) i f s = (r, s') \<Longrightarrow> I s \<Longrightarrow> \<exists>i v. I v \<and> f i v = (r, s')" for n i s
  proof (induction n arbitrary: i s)
    case 0
    then show ?case by (auto split: prod.splits option.splits if_splits)
  next
    case (Suc n)
    obtain q v where q: "f i s = (q, v)" by fastforce
    from assms(1) [OF q] Suc.prems(2) have "I v" by blast
    show ?case
    proof (cases "q \<noteq> None \<and> errors_As (the q) ConflictError")
      case True
      then have "retry_on_conflict (Suc n) (Suc i) f v = (r, s')"
        using Suc.prems(1) q by (auto split: option.splits)
      from Suc.IH [OF this \<open>I v\<close>] show ?thesis .
    next
      case False
      then have "(r, s') = (q, v)" using Suc.prems(1) q by (auto split: option.splits)
      with q Suc.prems(2) show ?thesis by blast
    qed
  qed
  from this [of 4 0 s] assms(2,3) show ?thesis by (simp add: RetryOnConflict_def eval_nat_numeral)
qed

lemma retry_no_conflict:
  "f 0 s = (r, s') \<Longrightarrow> (\<And>e. r = Some e \<Longrightarrow> \<not> errors_As e ConflictError) \<Longrightarrow> RetryOnConflict f s = (r, s')"
  by (cases r) (simp_all add: RetryOnConflict_def eval_nat_numeral)

section \<open>The API server\<close>

definition config_key :: "cluster_configuration \<Rightarrow> string \<times> string" where
  "config_key cc = (om_Namespace (cc_Meta cc), om_Name (cc_Meta cc))"

abbreviation cc_owners :: "cluster_configuration \<Rightarrow> owner_reference list" where
  "cc_owners cc \<equiv> om_OwnerReferences (cc_Meta cc)"

record config_env =
  cfe_Get :: "nat \<Rightarrow> string \<times> string \<Rightarrow> dep_error option"
  cfe_Update :: "nat \<Rightarrow> string \<times> string \<Rightarrow> dep_error option"
  cfe_StatusUpdate :: "nat \<Rightarrow> string \<times> string \<Rightarrow> dep_error option"
  cfe_Delete :: "nat \<Rightarrow> string \<times> string \<Rightarrow> dep_error option"
  cfe_Create :: "string \<times> string \<Rightarrow> dep_error option"
  cfe_List :: "dep_error option"
  cfe_GetClusterType :: "object_reference \<Rightarrow> cluster_type"
  cfe_Owned :: "owner_reference list \<Rightarrow> owner_reference \<Rightarrow> bool"
  cfe_EnsureOwnerRef :: "owner_reference list \<Rightarrow> owner_reference \<Rightarrow> owner_reference list"
  cfe_RemoveOwnerRef :: "owner_reference list \<Rightarrow> owner_reference \<Rightarrow> owner_reference list"

type_synonym configs = "cluster_configuration list"

definition config_not_found :: dep_error where
  "config_not_found = \<lparr>err_Msg = ''not found'', err_Chain = [NotFoundError]\<rparr>"

definition config_at :: "configs \<Rightarrow> string \<times> string \<Rightarrow> cluster_configuration option" where
  "config_at store key = List.find (\<lambda>cc. config_key cc = key) store"

definition getClusterConfiguration :: "config_env \<Rightarrow> nat \<Rightarrow> string \<times> string \<Rightarrow> configs \<Rightarrow>
    dep_error + cluster_configuration" where
  "getClusterConfiguration env attempt key store =
     (case cfe_Get env attempt key of
        Some e \<Rightarrow> Inl e
      | None \<Rightarrow> (case config_at store key of None \<Rightarrow> Inl config_not_found | Some cc \<Rightarrow> Inr cc))"

definition on_config :: "string \<times> string \<Rightarrow> (cluster_configuration \<Rightarrow> cluster_configuration) \<Rightarrow> configs \<Rightarrow> configs" where
  "on_config key g store = map (\<lambda>cc. if config_key cc = key then g cc else cc) store"

definition write_config :: "dep_error option \<Rightarrow> string \<times> string \<Rightarrow> (configs \<Rightarrow> configs) \<Rightarrow> configs \<Rightarrow> dep_error option \<times> configs" where
  "write_config fault key write store =
     (case fault of
        Some e \<Rightarrow> (Some e, store)
      | None \<Rightarrow> if config_at store key = None then (Some config_not_found, store) else (None, write store))"

definition update_config :: "config_env \<Rightarrow> nat \<Rightarrow> cluster_configuration \<Rightarrow> configs \<Rightarrow> dep_error option \<times> configs" where
  "update_config env attempt cc = write_config (cfe_Update env attempt (config_key cc)) (config_key cc)
     (on_config (config_key cc) (\<lambda>x. x\<lparr>cc_Meta := cc_Meta cc\<rparr>))"

definition update_config_status :: "config_env \<Rightarrow> nat \<Rightarrow> cluster_configuration \<Rightarrow> configs \<Rightarrow> dep_error option \<times> configs" where
  "update_config_status env attempt cc = write_config (cfe_StatusUpdate env attempt (config_key cc)) (config_key cc)
     (on_config (config_key cc) (\<lambda>x. x\<lparr>cc_Status := cc_Status cc\<rparr>))"

definition delete_config :: "config_env \<Rightarrow> nat \<Rightarrow> cluster_configuration \<Rightarrow> configs \<Rightarrow> dep_error option \<times> configs" where
  "delete_config env attempt cc = write_config (cfe_Delete env attempt (config_key cc)) (config_key cc)
     (filter (\<lambda>x. config_key x \<noteq> config_key cc))"

definition set_owners :: "owner_reference list \<Rightarrow> cluster_configuration \<Rightarrow> cluster_configuration" where
  "set_owners refs cc = cc\<lparr>cc_Meta := (cc_Meta cc)\<lparr>om_OwnerReferences := refs\<rparr>\<rparr>"

definition profile_owner_ref :: "profile \<Rightarrow> owner_reference" where
  "profile_owner_ref p = \<lparr>own_APIVersion = ''config.projectsveltos.io/v1beta1'', own_Kind = prof_Kind p,
     own_Name = prof_Name p, own_UID = om_UID (prof_Meta p)\<rparr>"

section \<open>Adding a profile\<close>

text \<open>The fetcher: the first attempt works on the object at hand, later ones on a fresh copy.\<close>

definition clusterConfigurationFetcher :: "config_env \<Rightarrow> cluster_configuration \<Rightarrow> nat \<Rightarrow> configs \<Rightarrow>
    dep_error + cluster_configuration" where
  "clusterConfigurationFetcher env clusterConfiguration attempt store =
     (if attempt = 0 then Inr clusterConfiguration
      else getClusterConfiguration env attempt (config_key clusterConfiguration) store)"

text \<open>The result holds the object in memory after the call: its first attempt changes it.\<close>

definition updateClusterConfigurationOwnerReferences :: "config_env \<Rightarrow> profile \<Rightarrow> cluster_configuration \<Rightarrow> configs \<Rightarrow>
    cluster_configuration \<times> dep_error option \<times> configs" where
  "updateClusterConfigurationOwnerReferences env p clusterConfiguration store =
     (let ownerRef = profile_owner_ref p in
      if cfe_Owned env (cc_owners clusterConfiguration) ownerRef then (clusterConfiguration, None, store)
      else
        let ensure = (\<lambda>cc. set_owners (cfe_EnsureOwnerRef env (cc_owners cc) ownerRef) cc)
        in (ensure clusterConfiguration,
            RetryOnConflict (\<lambda>attempt store.
              case clusterConfigurationFetcher env clusterConfiguration attempt store of
                Inl e \<Rightarrow> (Some e, store)
              | Inr current \<Rightarrow> update_config env attempt (ensure current) store) store))"

definition has_section :: "profile \<Rightarrow> cluster_configuration \<Rightarrow> bool" where
  "has_section p cc \<longleftrightarrow>
     (if prof_Kind p = ClusterProfileKind
      then list_ex (\<lambda>cpr. cpres_ClusterProfileName cpr = prof_Name p) (ccst_ClusterProfileResources (cc_Status cc))
      else list_ex (\<lambda>cpr. pres_ProfileName cpr = prof_Name p) (ccst_ProfileResources (cc_Status cc)))"

definition add_section :: "profile \<Rightarrow> cluster_configuration \<Rightarrow> cluster_configuration" where
  "add_section p cc = cc\<lparr>cc_Status :=
     (if prof_Kind p = ClusterProfileKind
      then (cc_Status cc)\<lparr>ccst_ClusterProfileResources := ccst_ClusterProfileResources (cc_Status cc) @
        [\<lparr>cpres_ClusterProfileName = prof_Name p, cpres_Features = []\<rparr>]\<rparr>
      else (cc_Status cc)\<lparr>ccst_ProfileResources := ccst_ProfileResources (cc_Status cc) @
        [\<lparr>pres_ProfileName = prof_Name p, pres_Features = []\<rparr>]\<rparr>)\<rparr>"

definition updateClusterConfigurationProfileResources :: "config_env \<Rightarrow> profile \<Rightarrow> cluster_configuration \<Rightarrow> configs \<Rightarrow>
    dep_error option \<times> configs" where
  "updateClusterConfigurationProfileResources env p clusterConfiguration =
     RetryOnConflict (\<lambda>attempt store.
       case clusterConfigurationFetcher env clusterConfiguration attempt store of
         Inl e \<Rightarrow> (Some e, store)
       | Inr current \<Rightarrow>
           if has_section p current then (None, store)
           else update_config_status env attempt (add_section p current) store)"

definition updateClusterConfigurationWithProfile :: "config_env \<Rightarrow> profile \<Rightarrow> cluster_configuration \<Rightarrow> configs \<Rightarrow>
    dep_error option \<times> configs" where
  "updateClusterConfigurationWithProfile env p clusterConfiguration store =
     (case updateClusterConfigurationOwnerReferences env p clusterConfiguration store of
        (_, Some e, store) \<Rightarrow> (Some e, store)
      | (clusterConfiguration, None, store) \<Rightarrow> updateClusterConfigurationProfileResources env p clusterConfiguration store)"

definition getClusterConfigurationName :: "string \<Rightarrow> cluster_type \<Rightarrow> string" where
  "getClusterConfigurationName clusterName clusterType = map fold_char (cluster_type_text clusterType) @ ''--'' @ clusterName"

definition zero_configuration_status :: cluster_configuration_status where
  "zero_configuration_status = \<lparr>ccst_ClusterProfileResources = [], ccst_ProfileResources = []\<rparr>"

definition createClusterConfiguration :: "config_env \<Rightarrow> object_reference \<Rightarrow> configs \<Rightarrow>
    (dep_error + cluster_configuration) \<times> configs" where
  "createClusterConfiguration env cluster store =
     (let clusterType = cfe_GetClusterType env cluster;
          clusterConfigurationName = getClusterConfigurationName (ref_Name cluster) clusterType;
          clusterConfiguration = \<lparr>cc_Meta = zero_object_meta\<lparr>om_Namespace := ref_Namespace cluster,
              om_Name := clusterConfigurationName,
              om_Labels := [(ClusterNameLabel, ref_Name cluster), (ClusterTypeLabel, cluster_type_text clusterType)]\<rparr>,
            cc_Status = zero_configuration_status\<rparr>;
          key = (ref_Namespace cluster, clusterConfigurationName)
      in case cfe_Create env key of
           Some e \<Rightarrow> (Inl e, store)
         | None \<Rightarrow>
             if config_at store key = None then (Inr clusterConfiguration, store @ [clusterConfiguration])
             else (getClusterConfiguration env 0 key store, store))"

fun update_configurations :: "config_env \<Rightarrow> profile \<Rightarrow> object_reference list \<Rightarrow> configs \<Rightarrow> dep_error option \<times> configs" where
  "update_configurations env p [] store = (None, store)"
| "update_configurations env p (cluster # clusters) store =
     (case createClusterConfiguration env cluster store of
        (Inl e, store) \<Rightarrow> (Some e, store)
      | (Inr clusterConfiguration, store) \<Rightarrow>
          (case updateClusterConfigurationWithProfile env p clusterConfiguration store of
             (Some e, store) \<Rightarrow> (Some e, store)
           | (None, store) \<Rightarrow> update_configurations env p clusters store))"

definition updateClusterConfigurations :: "config_env \<Rightarrow> profile \<Rightarrow> configs \<Rightarrow> dep_error option \<times> configs" where
  "updateClusterConfigurations env p store = update_configurations env p (matching_refs p) store"

section \<open>Removing a profile\<close>

definition cleanClusterConfigurationOwnerReferences :: "config_env \<Rightarrow> profile \<Rightarrow> cluster_configuration \<Rightarrow> configs \<Rightarrow>
    dep_error option \<times> configs" where
  "cleanClusterConfigurationOwnerReferences env p clusterConfiguration =
     (let ownerRef = profile_owner_ref p in
      RetryOnConflict (\<lambda>attempt store.
        case getClusterConfiguration env attempt (config_key clusterConfiguration) store of
          Inl e \<Rightarrow> (if errors_As e NotFoundError then None else Some e, store)
        | Inr current \<Rightarrow>
            if \<not> cfe_Owned env (cc_owners current) ownerRef then (None, store)
            else
              let current = set_owners (cfe_RemoveOwnerRef env (cc_owners current) ownerRef) current in
              if cc_owners current = [] then delete_config env attempt current store
              else update_config env attempt current store))"

definition remove_section :: "profile \<Rightarrow> cluster_configuration \<Rightarrow> cluster_configuration" where
  "remove_section p cc = cc\<lparr>cc_Status :=
     (if prof_Kind p = ClusterProfileKind
      then (cc_Status cc)\<lparr>ccst_ClusterProfileResources :=
        swap_remove_first (\<lambda>cpr. cpres_ClusterProfileName cpr = prof_Name p) (ccst_ClusterProfileResources (cc_Status cc))\<rparr>
      else (cc_Status cc)\<lparr>ccst_ProfileResources :=
        swap_remove_first (\<lambda>cpr. pres_ProfileName cpr = prof_Name p) (ccst_ProfileResources (cc_Status cc))\<rparr>)\<rparr>"

text \<open>\<open>cleanClusterProfileResources\<close> and \<open>cleanProfileResources\<close> are the two cases of \<open>remove_section\<close>.\<close>

definition clean_resources :: "config_env \<Rightarrow> nat \<Rightarrow> profile \<Rightarrow> cluster_configuration \<Rightarrow> configs \<Rightarrow> dep_error option \<times> configs" where
  "clean_resources env attempt p current store =
     (if has_section p current then update_config_status env attempt (remove_section p current) store else (None, store))"

definition cleanClusterConfigurationProfileResources :: "config_env \<Rightarrow> profile \<Rightarrow> cluster_configuration \<Rightarrow> configs \<Rightarrow>
    dep_error option \<times> configs" where
  "cleanClusterConfigurationProfileResources env p clusterConfiguration =
     RetryOnConflict (\<lambda>attempt store.
       case getClusterConfiguration env attempt (config_key clusterConfiguration) store of
         Inl e \<Rightarrow> (if errors_As e NotFoundError then None else Some e, store)
       | Inr current \<Rightarrow> clean_resources env attempt p current store)"

definition cleanClusterConfiguration :: "config_env \<Rightarrow> profile \<Rightarrow> cluster_configuration \<Rightarrow> configs \<Rightarrow> dep_error option \<times> configs" where
  "cleanClusterConfiguration env p clusterConfiguration store =
     (case cleanClusterConfigurationOwnerReferences env p clusterConfiguration store of
        (Some e, store) \<Rightarrow> (Some e, store)
      | (None, store) \<Rightarrow> cleanClusterConfigurationProfileResources env p clusterConfiguration store)"

definition configuration_info :: "string \<Rightarrow> string \<Rightarrow> string" where
  "configuration_info namespace clusterConfigurationName = namespace @ ''--'' @ clusterConfigurationName"

definition matching_infos :: "config_env \<Rightarrow> profile \<Rightarrow> string list" where
  "matching_infos env p = map (\<lambda>ref. configuration_info (ref_Namespace ref)
     (getClusterConfigurationName (ref_Name ref) (cfe_GetClusterType env ref))) (matching_refs p)"

fun clean_configurations :: "config_env \<Rightarrow> profile \<Rightarrow> configs \<Rightarrow> configs \<Rightarrow> dep_error option \<times> configs" where
  "clean_configurations env p [] store = (None, store)"
| "clean_configurations env p (cc # ccs) store =
     (if configuration_info (om_Namespace (cc_Meta cc)) (om_Name (cc_Meta cc)) \<in> set (matching_infos env p)
      then clean_configurations env p ccs store
      else if ps_SyncMode (prof_Spec p) = SyncModeDryRun then clean_configurations env p ccs store
      else case cleanClusterConfiguration env p cc store of
        (Some e, store) \<Rightarrow> if errors_As e NotFoundError then clean_configurations env p ccs store else (Some e, store)
      | (None, store) \<Rightarrow> clean_configurations env p ccs store)"

definition cleanClusterConfigurations :: "config_env \<Rightarrow> profile \<Rightarrow> configs \<Rightarrow> dep_error option \<times> configs" where
  "cleanClusterConfigurations env p store =
     (case cfe_List env of
        Some e \<Rightarrow> (Some e, store)
      | None \<Rightarrow> clean_configurations env p
          (if prof_Kind p = ProfileKind then filter (\<lambda>cc. om_Namespace (cc_Meta cc) = om_Namespace (prof_Meta p)) store else store)
          store)"

section \<open>What a profile deployed\<close>

definition set_feature :: "feature_id \<Rightarrow> deployed_resource list option \<Rightarrow> chart_resource list option \<Rightarrow> feature \<Rightarrow> feature" where
  "set_feature featureID policyDeployed chartDeployed f =
     (let f = (case policyDeployed of None \<Rightarrow> f | Some rs \<Rightarrow> f\<lparr>ft_Resources := rs\<rparr>)
      in case chartDeployed of None \<Rightarrow> f | Some cs \<Rightarrow> f\<lparr>ft_Charts := cs\<rparr>)"

definition put_feature :: "feature_id \<Rightarrow> deployed_resource list option \<Rightarrow> chart_resource list option \<Rightarrow> feature list \<Rightarrow> feature list" where
  "put_feature featureID policyDeployed chartDeployed fs =
     (case first_index (\<lambda>f. ft_FeatureID f = featureID) fs of
        Some i \<Rightarrow> fs[i := set_feature featureID policyDeployed chartDeployed (fs ! i)]
      | None \<Rightarrow> fs @ [\<lparr>ft_FeatureID = featureID, ft_Resources = slice policyDeployed, ft_Charts = slice chartDeployed\<rparr>])"

text \<open>Both write the owner references as well, in the object only: the call is a status update.\<close>

definition updateClusterProfileResources :: "config_env \<Rightarrow> nat \<Rightarrow> owner_reference \<Rightarrow> cluster_configuration \<Rightarrow> nat \<Rightarrow> feature_id \<Rightarrow>
    deployed_resource list option \<Rightarrow> chart_resource list option \<Rightarrow> configs \<Rightarrow> dep_error option \<times> configs" where
  "updateClusterProfileResources env attempt profileRef cc index featureID policyDeployed chartDeployed =
     (let rs = ccst_ClusterProfileResources (cc_Status cc);
          r = rs ! index;
          cc = cc\<lparr>cc_Status := (cc_Status cc)\<lparr>ccst_ClusterProfileResources :=
            rs[index := r\<lparr>cpres_Features := put_feature featureID policyDeployed chartDeployed (cpres_Features r)\<rparr>]\<rparr>\<rparr>
      in update_config_status env attempt (set_owners (cfe_EnsureOwnerRef env (cc_owners cc) profileRef) cc))"

definition updateProfileResources :: "config_env \<Rightarrow> nat \<Rightarrow> owner_reference \<Rightarrow> cluster_configuration \<Rightarrow> nat \<Rightarrow> feature_id \<Rightarrow>
    deployed_resource list option \<Rightarrow> chart_resource list option \<Rightarrow> configs \<Rightarrow> dep_error option \<times> configs" where
  "updateProfileResources env attempt profileRef cc index featureID policyDeployed chartDeployed =
     (let rs = ccst_ProfileResources (cc_Status cc);
          r = rs ! index;
          cc = cc\<lparr>cc_Status := (cc_Status cc)\<lparr>ccst_ProfileResources :=
            rs[index := r\<lparr>pres_Features := put_feature featureID policyDeployed chartDeployed (pres_Features r)\<rparr>]\<rparr>\<rparr>
      in update_config_status env attempt (set_owners (cfe_EnsureOwnerRef env (cc_owners cc) profileRef) cc))"

text \<open>\<open>objectRefToOwnerRef\<close> copies the reference; its two flags are false. The reference is an owner reference here.\<close>

definition UpdateClusterConfiguration :: "config_env \<Rightarrow> bool \<Rightarrow> bool \<Rightarrow> string \<Rightarrow> string \<Rightarrow> cluster_type \<Rightarrow> owner_reference \<Rightarrow> feature_id \<Rightarrow>
    deployed_resource list option \<Rightarrow> chart_resource list option \<Rightarrow> configs \<Rightarrow> dep_error option \<times> configs" where
  "UpdateClusterConfiguration env isDryRun clean clusterNamespace clusterName clusterType profileRef featureID policyDeployed
     chartDeployed store =
     (if isDryRun then (None, store)
      else RetryOnConflict (\<lambda>attempt store.
        case getClusterConfiguration env attempt (clusterNamespace, getClusterConfigurationName clusterName clusterType) store of
          Inl e \<Rightarrow> (if errors_As e NotFoundError \<and> clean then None else Some e, store)
        | Inr cc \<Rightarrow>
            (case GetClusterConfigurationSectionIndex cc (own_Kind profileRef) (own_Name profileRef) of
               None \<Rightarrow> (Some (plain_error ''section not present in clusterConfiguration''), store)
             | Some index \<Rightarrow>
                 if own_Kind profileRef = ClusterProfileKind
                 then updateClusterProfileResources env attempt profileRef cc index featureID policyDeployed chartDeployed store
                 else updateProfileResources env attempt profileRef cc index featureID policyDeployed chartDeployed store)) store)"

section \<open>Owner references\<close>

text \<open>What cluster-api promises of its owner reference functions. \<open>same\<close> relates the references with the same owner, \<open>one_each\<close> holds of
  lists with one reference for each owner.\<close>

locale owner_references =
  fixes owned :: "owner_reference list \<Rightarrow> owner_reference \<Rightarrow> bool"
    and ensure :: "owner_reference list \<Rightarrow> owner_reference \<Rightarrow> owner_reference list"
    and remove :: "owner_reference list \<Rightarrow> owner_reference \<Rightarrow> owner_reference list"
    and same :: "owner_reference \<Rightarrow> owner_reference \<Rightarrow> bool"
    and one_each :: "owner_reference list \<Rightarrow> bool"
  assumes empty_one_each: "one_each []"
    and owned_empty: "\<not> owned [] r"
    and ensure_owned: "owned (ensure refs r) r' \<longleftrightarrow> owned refs r' \<or> same r r'"
    and ensure_wf: "one_each refs \<Longrightarrow> one_each (ensure refs r)"
    and remove_owned: "one_each refs \<Longrightarrow> owned (remove refs r) r' \<longleftrightarrow> owned refs r' \<and> \<not> same r r'"
    and remove_wf: "one_each refs \<Longrightarrow> one_each (remove refs r)"
    and same_refl: "same r r"
begin

lemma others_keep: "one_each refs \<Longrightarrow> owned refs r' \<Longrightarrow> \<not> same r r' \<Longrightarrow> remove refs r \<noteq> [] \<and> owned (remove refs r) r'"
  using remove_owned owned_empty by metis

lemma gone: "one_each refs \<Longrightarrow> \<not> owned (remove refs r) r"
  by (simp add: remove_owned same_refl)

end

definition owner_id :: "owner_reference \<Rightarrow> string \<times> string \<times> string" where
  "owner_id r = (own_APIVersion r, own_Kind r, own_Name r)"

definition list_owned :: "owner_reference list \<Rightarrow> owner_reference \<Rightarrow> bool" where
  "list_owned refs r \<longleftrightarrow> owner_id r \<in> set (map owner_id refs)"

definition list_ensure :: "owner_reference list \<Rightarrow> owner_reference \<Rightarrow> owner_reference list" where
  "list_ensure refs r = (case first_index (\<lambda>x. owner_id x = owner_id r) refs of None \<Rightarrow> refs @ [r] | Some i \<Rightarrow> refs[i := r])"

definition list_remove :: "owner_reference list \<Rightarrow> owner_reference \<Rightarrow> owner_reference list" where
  "list_remove refs r = filter (\<lambda>x. owner_id x \<noteq> owner_id r) refs"

definition same_owner :: "owner_reference \<Rightarrow> owner_reference \<Rightarrow> bool" where
  "same_owner r r' \<longleftrightarrow> owner_id r = owner_id r'"

definition owners_wf :: "owner_reference list \<Rightarrow> bool" where
  "owners_wf refs \<longleftrightarrow> distinct (map owner_id refs)"

lemma ids_ensure:
  "map owner_id (list_ensure refs r) = (if list_owned refs r then map owner_id refs else map owner_id refs @ [owner_id r])"
proof (cases "first_index (\<lambda>x. owner_id x = owner_id r) refs")
  case None
  then show ?thesis using None [unfolded first_index_None_iff] None
    by (auto simp: list_ensure_def list_owned_def image_iff simp del: first_index_None_iff)
next
  case (Some i)
  have i: "i < length refs" "owner_id (refs ! i) = owner_id r" using first_index_SomeD [OF Some] by auto
  then have "owner_id r \<in> set (map owner_id refs)" by (metis image_eqI list.set_map nth_mem)
  then show ?thesis using Some i by (simp add: list_ensure_def list_owned_def map_update list_update_same_conv)
qed

interpretation list_owner_references: owner_references list_owned list_ensure list_remove same_owner owners_wf
proof unfold_locales
  fix refs r r'
  show "list_owned (list_ensure refs r) r' \<longleftrightarrow> list_owned refs r' \<or> same_owner r r'"
    unfolding list_owned_def [of "list_ensure refs r"] ids_ensure by (auto simp: list_owned_def same_owner_def)
  show "owners_wf (list_ensure refs r)" if "owners_wf refs"
    using that unfolding owners_wf_def ids_ensure by (auto simp: list_owned_def)
  show "list_owned (list_remove refs r) r' \<longleftrightarrow> list_owned refs r' \<and> \<not> same_owner r r'" if "owners_wf refs"
    by (auto simp: list_owned_def list_remove_def same_owner_def)
  show "owners_wf (list_remove refs r)" if "owners_wf refs"
    using that by (simp add: owners_wf_def list_remove_def distinct_map_filter)
qed (simp_all add: owners_wf_def list_owned_def same_owner_def)

section \<open>The store after each call\<close>

definition config_quiet :: "config_env \<Rightarrow> bool" where
  "config_quiet env \<longleftrightarrow> (\<forall>i k. cfe_Get env i k = None \<and> cfe_Update env i k = None \<and> cfe_StatusUpdate env i k = None \<and>
     cfe_Delete env i k = None) \<and> (\<forall>k. cfe_Create env k = None) \<and> cfe_List env = None"

lemma config_quietD:
  assumes "config_quiet env"
  shows "cfe_Get env i k = None" "cfe_Update env i k = None" "cfe_StatusUpdate env i k = None" "cfe_Delete env i k = None"
    "cfe_Create env k = None" "cfe_List env = None"
  using assms by (cases k; simp add: config_quiet_def)+

lemma config_at_key: "config_at store k = Some cc \<Longrightarrow> config_key cc = k"
  by (auto simp: config_at_def find_Some_iff)

lemma config_at_mem: "distinct (map config_key store) \<Longrightarrow> config_at store k = Some cc \<longleftrightarrow> cc \<in> set store \<and> config_key cc = k"
  by (induction store) (auto simp: config_at_def)

lemma config_at_filter: "config_at (filter (\<lambda>x. config_key x \<noteq> k) store) = (config_at store)(k := None)"
  by (rule ext, induction store) (auto simp: config_at_def)

lemma config_at_append: "config_at store (config_key cc) = None \<Longrightarrow> config_at (store @ [cc]) = (config_at store)(config_key cc \<mapsto> cc)"
  by (rule ext, induction store) (auto simp: config_at_def split: if_splits)

lemma config_key_simps [simp]:
  "config_key (set_owners refs cc) = config_key cc" "config_key (cc\<lparr>cc_Status := st\<rparr>) = config_key cc"
  "config_key (add_section p cc) = config_key cc" "config_key (remove_section p cc) = config_key cc"
  by (simp_all add: config_key_def set_owners_def add_section_def remove_section_def)

lemma on_config_updates:
  assumes "config_at store k = Some cc" and "config_key (g cc) = k" and "\<And>x. config_key x = k \<Longrightarrow> config_key (g x) = k"
  shows "config_at (on_config k g store) = (config_at store)(k \<mapsto> g cc)"
    "map config_key (on_config k g store) = map config_key store"
proof -
  show "map config_key (on_config k g store) = map config_key store" using assms(3) by (auto simp: on_config_def)
  have at: "config_at (on_config k g ccs) k' = (if k' = k then map_option g (config_at ccs k) else config_at ccs k')" for ccs k'
  proof (induction ccs)
    case (Cons x xs)
    then show ?case
      using assms(3) [of x] by (cases "config_key x = k") (auto simp: config_at_def on_config_def)
  qed (simp add: config_at_def on_config_def)
  show "config_at (on_config k g store) = (config_at store)(k \<mapsto> g cc)"
    by (rule ext) (simp add: at assms(1))
qed

lemma update_quiet:
  assumes "config_quiet env" and "config_at store (config_key cc) = Some cc"
  shows "config_key cc' = config_key cc \<Longrightarrow> cc_Status cc' = cc_Status cc \<Longrightarrow>
      \<exists>store'. update_config env i cc' store = (None, store') \<and> config_at store' = (config_at store)(config_key cc \<mapsto> cc') \<and>
        map config_key store' = map config_key store"
    "cc_Meta cc' = cc_Meta cc \<Longrightarrow>
      \<exists>store'. update_config_status env i cc' store = (None, store') \<and> config_at store' = (config_at store)(config_key cc \<mapsto> cc') \<and>
        map config_key store' = map config_key store"
proof -
  assume a: "config_key cc' = config_key cc" "cc_Status cc' = cc_Status cc"
  have g: "config_key (x\<lparr>cc_Meta := cc_Meta cc'\<rparr>) = config_key cc" for x using a(1) by (simp add: config_key_def)
  have "cc\<lparr>cc_Meta := cc_Meta cc'\<rparr> = cc'" using a(2) by (cases cc; cases cc') simp
  then show "\<exists>store'. update_config env i cc' store = (None, store') \<and> config_at store' = (config_at store)(config_key cc \<mapsto> cc') \<and>
        map config_key store' = map config_key store"
    using on_config_updates [OF assms(2), of "\<lambda>x. x\<lparr>cc_Meta := cc_Meta cc'\<rparr>", OF g g] assms a(1)
    by (simp add: update_config_def write_config_def config_quietD)
next
  assume a: "cc_Meta cc' = cc_Meta cc"
  then have k: "config_key cc' = config_key cc" by (simp add: config_key_def)
  have "cc\<lparr>cc_Status := cc_Status cc'\<rparr> = cc'" using a by (cases cc; cases cc') simp
  then show "\<exists>store'. update_config_status env i cc' store = (None, store') \<and> config_at store' = (config_at store)(config_key cc \<mapsto> cc') \<and>
        map config_key store' = map config_key store"
    using on_config_updates [OF assms(2), of "\<lambda>x. x\<lparr>cc_Status := cc_Status cc'\<rparr>"] assms k
    by (simp add: update_config_status_def write_config_def config_quietD)
qed

section \<open>Joining\<close>

definition joined :: "config_env \<Rightarrow> profile \<Rightarrow> cluster_configuration \<Rightarrow> cluster_configuration" where
  "joined env p cc =
     (let cc = (if cfe_Owned env (cc_owners cc) (profile_owner_ref p) then cc
                else set_owners (cfe_EnsureOwnerRef env (cc_owners cc) (profile_owner_ref p)) cc)
      in if has_section p cc then cc else add_section p cc)"

lemma joined_key [simp]: "config_key (joined env p cc) = config_key cc"
  by (simp add: joined_def Let_def)

lemma owner_update_quiet:
  assumes "config_quiet env" and "config_at store (config_key cc) = Some cc"
    and cc': "cc' = (if cfe_Owned env (cc_owners cc) (profile_owner_ref p) then cc
           else set_owners (cfe_EnsureOwnerRef env (cc_owners cc) (profile_owner_ref p)) cc)"
  shows "\<exists>store'. updateClusterConfigurationOwnerReferences env p cc store = (cc', None, store') \<and>
    map config_key store' = map config_key store \<and> config_at store' = (config_at store)(config_key cc \<mapsto> cc')"
proof (cases "cfe_Owned env (cc_owners cc) (profile_owner_ref p)")
  case True
  then show ?thesis using assms by (auto simp: updateClusterConfigurationOwnerReferences_def Let_def)
next
  case False
  with cc' have e: "cc' = set_owners (cfe_EnsureOwnerRef env (cc_owners cc) (profile_owner_ref p)) cc" by simp
  then have "config_key cc' = config_key cc" by simp
  moreover have "cc_Status cc' = cc_Status cc" using e by (simp add: set_owners_def)
  ultimately obtain v where v: "update_config env 0 cc' store = (None, v)"
    "config_at v = (config_at store)(config_key cc \<mapsto> cc')" "map config_key v = map config_key store"
    using update_quiet(1) [OF assms(1,2)] by blast
  have "updateClusterConfigurationOwnerReferences env p cc store = (cc', None, v)"
    using False v(1) e
    by (auto simp: updateClusterConfigurationOwnerReferences_def Let_def clusterConfigurationFetcher_def intro!: retry_no_conflict)
  then show ?thesis using v by simp
qed

lemma section_update_quiet:
  assumes "config_quiet env" and "config_at store (config_key cc) = Some cc"
  shows "\<exists>store'. updateClusterConfigurationProfileResources env p cc store = (None, store') \<and>
    map config_key store' = map config_key store \<and>
    config_at store' = (config_at store)(config_key cc \<mapsto> (if has_section p cc then cc else add_section p cc))"
proof (cases "has_section p cc")
  case True
  then have "updateClusterConfigurationProfileResources env p cc store = (None, store)"
    unfolding updateClusterConfigurationProfileResources_def
    by (intro retry_no_conflict) (simp_all add: clusterConfigurationFetcher_def)
  then show ?thesis using assms(2) True by (simp add: map_upd_triv)
next
  case False
  have "cc_Meta (add_section p cc) = cc_Meta cc" by (simp add: add_section_def)
  from update_quiet(2) [OF assms this] obtain v where v: "update_config_status env 0 (add_section p cc) store = (None, v)"
    "config_at v = (config_at store)(config_key cc \<mapsto> add_section p cc)" "map config_key v = map config_key store" by blast
  then have "updateClusterConfigurationProfileResources env p cc store = (None, v)"
    unfolding updateClusterConfigurationProfileResources_def using False
    by (intro retry_no_conflict) (simp_all add: clusterConfigurationFetcher_def)
  then show ?thesis using v False by simp
qed

lemma update_with_profile_quiet:
  assumes "config_quiet env" and "config_at store (config_key cc) = Some cc"
  shows "\<exists>store'. updateClusterConfigurationWithProfile env p cc store = (None, store') \<and>
    map config_key store' = map config_key store \<and> config_at store' = (config_at store)(config_key cc \<mapsto> joined env p cc)"
proof -
  define cc' where "cc' = (if cfe_Owned env (cc_owners cc) (profile_owner_ref p) then cc
      else set_owners (cfe_EnsureOwnerRef env (cc_owners cc) (profile_owner_ref p)) cc)"
  obtain v where v: "updateClusterConfigurationOwnerReferences env p cc store = (cc', None, v)"
    "map config_key v = map config_key store" "config_at v = (config_at store)(config_key cc \<mapsto> cc')"
    using owner_update_quiet [OF assms cc'_def] by blast
  have k: "config_key cc' = config_key cc" by (simp add: cc'_def)
  with v(3) have "config_at v (config_key cc') = Some cc'" by simp
  from section_update_quiet [OF assms(1) this, of p] v k show ?thesis
    by (auto simp: updateClusterConfigurationWithProfile_def joined_def cc'_def [symmetric] Let_def)
qed

definition cluster_key :: "config_env \<Rightarrow> object_reference \<Rightarrow> string \<times> string" where
  "cluster_key env ref = (ref_Namespace ref, getClusterConfigurationName (ref_Name ref) (cfe_GetClusterType env ref))"

lemma create_quiet:
  assumes "config_quiet env"
  shows "\<exists>cc store'. createClusterConfiguration env cluster store = (Inr cc, store') \<and> config_key cc = cluster_key env cluster \<and>
    config_at store' = (config_at store)(cluster_key env cluster \<mapsto> cc) \<and>
    (\<forall>x. config_at store (cluster_key env cluster) = Some x \<longrightarrow> cc = x) \<and>
    (config_at store (cluster_key env cluster) = None \<longrightarrow> cc_owners cc = [] \<and> cc_Status cc = zero_configuration_status) \<and>
    (distinct (map config_key store) \<longrightarrow> distinct (map config_key store'))"
proof (cases "config_at store (cluster_key env cluster)")
  case None
  define cc where "cc = \<lparr>cc_Meta = zero_object_meta\<lparr>om_Namespace := ref_Namespace cluster, om_Name := snd (cluster_key env cluster),
      om_Labels := [(ClusterNameLabel, ref_Name cluster),
        (ClusterTypeLabel, cluster_type_text (cfe_GetClusterType env cluster))]\<rparr>, cc_Status = zero_configuration_status\<rparr>"
  have k: "config_key cc = cluster_key env cluster" by (simp add: cc_def config_key_def cluster_key_def)
  have run: "createClusterConfiguration env cluster store = (Inr cc, store @ [cc])"
    using None by (simp add: createClusterConfiguration_def Let_def cluster_key_def config_quietD [OF assms] cc_def)
  have new: "cluster_key env cluster \<notin> config_key ` set store" using None
    by (auto simp: config_at_def find_None_iff)
  show ?thesis using run k None config_at_append [of store cc] new by (auto simp: cc_def zero_object_meta_def)
next
  case (Some x)
  have "createClusterConfiguration env cluster store = (Inr x, store)" using Some
    by (simp add: createClusterConfiguration_def Let_def cluster_key_def [symmetric] config_quietD [OF assms] getClusterConfiguration_def)
  then show ?thesis using Some config_at_key [OF Some] by (simp add: map_upd_triv)
qed

section \<open>Leaving\<close>

definition left_by :: "config_env \<Rightarrow> profile \<Rightarrow> cluster_configuration \<Rightarrow> cluster_configuration option" where
  "left_by env p cc =
     (let refs = (if cfe_Owned env (cc_owners cc) (profile_owner_ref p)
                  then cfe_RemoveOwnerRef env (cc_owners cc) (profile_owner_ref p) else cc_owners cc)
      in if cfe_Owned env (cc_owners cc) (profile_owner_ref p) \<and> refs = [] then None
         else let cc = set_owners refs cc in Some (if has_section p cc then remove_section p cc else cc))"

lemma set_owners_simps [simp]: "set_owners (cc_owners cc) cc = cc" "cc_owners (set_owners refs cc) = refs"
  by (simp_all add: set_owners_def)

lemma clean_quiet:
  assumes "config_quiet env" and "distinct (map config_key store)"
  shows "\<exists>store'. cleanClusterConfiguration env p cc0 store = (None, store') \<and> distinct (map config_key store') \<and>
    config_at store' = (config_at store)(config_key cc0 := Option.bind (config_at store (config_key cc0)) (left_by env p))"
proof (cases "config_at store (config_key cc0)")
  case None
  have absent: "getClusterConfiguration env i (config_key cc0) store = Inl config_not_found" for i
    using None by (simp add: getClusterConfiguration_def config_quietD [OF assms(1)])
  have "cleanClusterConfigurationOwnerReferences env p cc0 store = (None, store)"
    "cleanClusterConfigurationProfileResources env p cc0 store = (None, store)"
    unfolding cleanClusterConfigurationOwnerReferences_def cleanClusterConfigurationProfileResources_def Let_def
    by (intro retry_no_conflict; simp add: absent config_not_found_def errors_As_def)+
  then have "cleanClusterConfiguration env p cc0 store = (None, store)" by (simp add: cleanClusterConfiguration_def)
  then show ?thesis using None assms(2) by (simp add: fun_upd_idem)
next
  case (Some cc)
  define k where "k = config_key cc0"
  have key: "config_key cc = k" using config_at_key [OF Some] by (simp add: k_def)
  have got: "getClusterConfiguration env i k store = Inr cc" for i
    using Some by (simp add: getClusterConfiguration_def config_quietD [OF assms(1)] k_def)
  define refs where "refs = (if cfe_Owned env (cc_owners cc) (profile_owner_ref p)
      then cfe_RemoveOwnerRef env (cc_owners cc) (profile_owner_ref p) else cc_owners cc)"
  define cc' where "cc' = set_owners refs cc"
  have stored: "config_at store (config_key cc) = Some cc" using Some key by (simp add: k_def)
  have key': "config_key cc' = config_key cc" by (simp add: cc'_def)
  have owners': "cc_owners cc' = refs" by (simp add: cc'_def set_owners_def)
  show ?thesis
  proof (cases "cfe_Owned env (cc_owners cc) (profile_owner_ref p) \<and> refs = []")
    case True
    define v where "v = filter (\<lambda>x. config_key x \<noteq> config_key cc') store"
    have last: "cfe_RemoveOwnerRef env (cc_owners cc) (profile_owner_ref p) = []" using True by (auto simp: refs_def split: if_splits)
    have "cleanClusterConfigurationOwnerReferences env p cc0 store = (None, v)"
      unfolding cleanClusterConfigurationOwnerReferences_def Let_def k_def [symmetric] using True stored key
      by (intro retry_no_conflict)
        (simp_all add: got last delete_config_def write_config_def config_quietD [OF assms(1)] v_def cc'_def)
    moreover have v: "config_at v = (config_at store)(k := None)" "distinct (map config_key v)"
      using config_at_filter [of k store] key key' assms(2) by (simp_all add: v_def distinct_map_filter)
    moreover have "cleanClusterConfigurationProfileResources env p cc0 v = (None, v)"
      unfolding cleanClusterConfigurationProfileResources_def k_def [symmetric] using v(1)
      by (intro retry_no_conflict)
        (simp_all add: getClusterConfiguration_def config_quietD [OF assms(1)] config_not_found_def errors_As_def)
    moreover have "left_by env p cc = None" using True last by (simp add: left_by_def Let_def)
    ultimately show ?thesis using Some by (simp add: cleanClusterConfiguration_def k_def)
  next
    case False
    have "cc_Status cc' = cc_Status cc" by (simp add: cc'_def set_owners_def)
    then obtain u where u: "update_config env 0 cc' store = (None, u)" "config_at u = (config_at store)(k \<mapsto> cc')"
      "map config_key u = map config_key store"
      using update_quiet(1) [OF assms(1) stored key', of 0] key by auto
    define v where "v = (if cfe_Owned env (cc_owners cc) (profile_owner_ref p) then u else store)"
    have v: "cleanClusterConfigurationOwnerReferences env p cc0 store = (None, v)"
      unfolding cleanClusterConfigurationOwnerReferences_def Let_def k_def [symmetric] using False u(1) owners'
      by (intro retry_no_conflict) (auto simp: got refs_def cc'_def v_def)
    have same: "cc' = cc" if "\<not> cfe_Owned env (cc_owners cc) (profile_owner_ref p)" using that by (simp add: cc'_def refs_def)
    have v': "config_at v = (config_at store)(k \<mapsto> cc')" "map config_key v = map config_key store"
      using u(2,3) same Some by (auto simp: v_def k_def map_upd_triv)
    define r where "r = (if has_section p cc' then remove_section p cc' else cc')"
    have stored': "config_at v (config_key cc') = Some cc'" using v'(1) key key' by simp
    have meta: "cc_Meta (remove_section p cc') = cc_Meta cc'" by (simp add: remove_section_def)
    obtain w where w: "update_config_status env 0 (remove_section p cc') v = (None, w)"
      "config_at w = (config_at v)(k \<mapsto> remove_section p cc')" "map config_key w = map config_key v"
      using update_quiet(2) [OF assms(1) stored' meta, of 0] key key' by auto
    have "cleanClusterConfigurationProfileResources env p cc0 v = (None, if has_section p cc' then w else v)"
      unfolding cleanClusterConfigurationProfileResources_def k_def [symmetric] using w(1) stored' key key'
      by (intro retry_no_conflict)
        (simp_all add: getClusterConfiguration_def config_quietD [OF assms(1)] clean_resources_def)
    moreover have "left_by env p cc = Some r" using False by (simp add: left_by_def Let_def refs_def cc'_def r_def)
    ultimately show ?thesis using v v' w Some assms(2)
      by (auto simp: cleanClusterConfiguration_def k_def [symmetric] r_def)
  qed
qed

section \<open>The configurations follow the matches\<close>

definition sections_wf :: "profile \<Rightarrow> cluster_configuration \<Rightarrow> bool" where
  "sections_wf p cc \<longleftrightarrow>
     (if prof_Kind p = ClusterProfileKind then distinct (map cpres_ClusterProfileName (ccst_ClusterProfileResources (cc_Status cc)))
      else distinct (map pres_ProfileName (ccst_ProfileResources (cc_Status cc))))"

definition config_member :: "config_env \<Rightarrow> profile \<Rightarrow> cluster_configuration \<Rightarrow> bool" where
  "config_member env p cc \<longleftrightarrow> cfe_Owned env (cc_owners cc) (profile_owner_ref p) \<and> has_section p cc"

definition configs_ok :: "(owner_reference list \<Rightarrow> bool) \<Rightarrow> profile \<Rightarrow> configs \<Rightarrow> bool" where
  "configs_ok one_each p store \<longleftrightarrow> distinct (map config_key store) \<and> (\<forall>cc \<in> set store. one_each (cc_owners cc) \<and> sections_wf p cc)"

lemma configs_ok_at: "configs_ok one_each p store \<longleftrightarrow> distinct (map config_key store) \<and>
    (\<forall>k cc. config_at store k = Some cc \<longrightarrow> one_each (cc_owners cc) \<and> sections_wf p cc)"
proof (cases "distinct (map config_key store)")
  case True
  then show ?thesis unfolding configs_ok_def by (metis config_at_mem)
qed (simp add: configs_ok_def)

lemma swap_remove_none_left:
  assumes "distinct (map f xs)" and "x \<in> set (swap_remove_first (\<lambda>x. f x = n) xs)"
  shows "f x \<noteq> n"
proof (cases "first_index (\<lambda>x. f x = n) xs")
  case None
  then show ?thesis using assms(2) by (simp add: swap_remove_first_def del: first_index_None_iff) (use None in auto)
next
  case (Some i)
  then have i: "i < length xs" "f (xs ! i) = n" by (auto dest: first_index_SomeD)
  have "x \<in># mset xs - {#xs ! i#}" using assms(2) Some mset_swap_remove_at [OF i(1)]
    by (metis option.simps(5) set_mset_mset swap_remove_first_def)
  moreover have "distinct xs" using assms(1) by (simp add: distinct_map)
  ultimately have "x \<in> set xs" "x \<noteq> xs ! i"
    by (auto dest: in_diffD simp: in_diff_count distinct_count_atmost_1 split: if_splits)
  then show ?thesis using i assms(1) by (metis (mono_tags, lifting) distinct_map inj_onD nth_mem)
qed

lemma section_simps [simp]:
  "has_section p (add_section p cc)" "cc_owners (add_section p cc) = cc_owners cc" "cc_owners (remove_section p cc) = cc_owners cc"
  "has_section p (set_owners refs cc) = has_section p cc" "sections_wf p (set_owners refs cc) = sections_wf p cc"
  by (simp_all add: has_section_def add_section_def remove_section_def sections_wf_def set_owners_def)

lemma add_section_wf: "sections_wf p cc \<Longrightarrow> \<not> has_section p cc \<Longrightarrow> sections_wf p (add_section p cc)"
  by (auto simp: sections_wf_def has_section_def add_section_def list_ex_iff split: if_splits)

lemma remove_section_gone: "sections_wf p cc \<Longrightarrow> \<not> has_section p (remove_section p cc)"
  by (auto simp: sections_wf_def has_section_def remove_section_def list_ex_iff dest: swap_remove_none_left split: if_splits)

lemma joined_facts:
  assumes "owner_references (cfe_Owned env) (cfe_EnsureOwnerRef env) (cfe_RemoveOwnerRef env) same one_each"
  shows "config_member env p (joined env p cc)"
    "cfe_Owned env (cc_owners cc) r \<Longrightarrow> cfe_Owned env (cc_owners (joined env p cc)) r"
    "has_section p cc \<Longrightarrow> has_section p (joined env p cc)"
    "one_each (cc_owners cc) \<Longrightarrow> sections_wf p cc \<Longrightarrow> one_each (cc_owners (joined env p cc)) \<and> sections_wf p (joined env p cc)"
  using owner_references.ensure_owned [OF assms] owner_references.ensure_wf [OF assms] owner_references.same_refl [OF assms]
    add_section_wf [of p]
  by (auto simp: joined_def Let_def config_member_def)

lemma left_facts:
  assumes "owner_references (cfe_Owned env) (cfe_EnsureOwnerRef env) (cfe_RemoveOwnerRef env) same one_each"
    and "one_each (cc_owners cc)" and "sections_wf p cc"
  shows "left_by env p cc = Some cc' \<Longrightarrow> \<not> cfe_Owned env (cc_owners cc') (profile_owner_ref p) \<and> \<not> has_section p cc'"
    "cfe_Owned env (cc_owners cc) r \<Longrightarrow> \<not> same (profile_owner_ref p) r \<Longrightarrow>
       \<exists>cc'. left_by env p cc = Some cc' \<and> cfe_Owned env (cc_owners cc') r"
  using owner_references.gone [OF assms(1,2)] owner_references.others_keep [OF assms(1,2)] remove_section_gone [of p] assms(3)
  by (auto simp: left_by_def Let_def split: if_splits)

lemma update_configurations_quiet:
  assumes "config_quiet env" and laws: "owner_references (cfe_Owned env) (cfe_EnsureOwnerRef env) (cfe_RemoveOwnerRef env) same one_each"
    and "configs_ok one_each p store"
  shows "\<exists>s'. update_configurations env p refs store = (None, s') \<and> configs_ok one_each p s' \<and>
    (\<forall>ref \<in> set refs. \<exists>cc. config_at s' (cluster_key env ref) = Some cc \<and> config_member env p cc) \<and>
    (\<forall>k cc. config_at store k = Some cc \<longrightarrow> (\<exists>cc'. config_at s' k = Some cc' \<and>
       (\<forall>r. cfe_Owned env (cc_owners cc) r \<longrightarrow> cfe_Owned env (cc_owners cc') r) \<and> (has_section p cc \<longrightarrow> has_section p cc')))"
  using assms(3)
proof (induction refs arbitrary: store)
  case (Cons ref refs)
  obtain cc v where v: "createClusterConfiguration env ref store = (Inr cc, v)" "config_key cc = cluster_key env ref"
    "config_at v = (config_at store)(cluster_key env ref \<mapsto> cc)"
    "\<forall>x. config_at store (cluster_key env ref) = Some x \<longrightarrow> cc = x"
    "config_at store (cluster_key env ref) = None \<longrightarrow> cc_owners cc = [] \<and> cc_Status cc = zero_configuration_status"
    "distinct (map config_key v)"
    using create_quiet [OF assms(1), of ref store] Cons.prems by (auto simp: configs_ok_def)
  have cc: "one_each (cc_owners cc)" "sections_wf p cc"
  proof -
    have "one_each (cc_owners cc) \<and> sections_wf p cc"
    proof (cases "config_at store (cluster_key env ref)")
      case None
      then show ?thesis using v(5) owner_references.empty_one_each [OF laws] by (simp add: sections_wf_def zero_configuration_status_def)
    next
      case (Some x)
      then show ?thesis using v(4) Cons.prems unfolding configs_ok_at by blast
    qed
    then show "one_each (cc_owners cc)" "sections_wf p cc" by simp_all
  qed
  have "config_at v (config_key cc) = Some cc" using v(2,3) by simp
  from update_with_profile_quiet [OF assms(1) this, of p] obtain u where
    u: "updateClusterConfigurationWithProfile env p cc v = (None, u)" "map config_key u = map config_key v"
      "config_at u = (config_at v)(cluster_key env ref \<mapsto> joined env p cc)" using v(2) by auto
  note j = joined_facts [OF laws, where p = p and cc = cc]
  have ok: "configs_ok one_each p u"
    using Cons.prems v(3,6) u(2,3) j(4) cc by (simp add: configs_ok_at)
  obtain s' where s': "update_configurations env p refs u = (None, s')" "configs_ok one_each p s'"
    "\<forall>ref \<in> set refs. \<exists>cc. config_at s' (cluster_key env ref) = Some cc \<and> config_member env p cc"
    and grows: "\<forall>k cc. config_at u k = Some cc \<longrightarrow> (\<exists>cc'. config_at s' k = Some cc' \<and>
       (\<forall>r. cfe_Owned env (cc_owners cc) r \<longrightarrow> cfe_Owned env (cc_owners cc') r) \<and> (has_section p cc \<longrightarrow> has_section p cc'))"
    using Cons.IH [OF ok] by blast
  obtain cc1 where "config_at s' (cluster_key env ref) = Some cc1" "config_member env p cc1"
    using grows [rule_format, of "cluster_key env ref" "joined env p cc"] u(3) j(1) by (auto simp: config_member_def)
  moreover have "\<exists>y. config_at s' k = Some y \<and> (\<forall>r. cfe_Owned env (cc_owners x) r \<longrightarrow> cfe_Owned env (cc_owners y) r) \<and>
      (has_section p x \<longrightarrow> has_section p y)" if x: "config_at store k = Some x" for k x
  proof (cases "k = cluster_key env ref")
    case True
    then have "x = cc" using x v(4) by simp
    then show ?thesis using grows [rule_format, of k "joined env p cc"] u(3) True j(2,3) by fastforce
  next
    case False
    then show ?thesis using grows [rule_format, of k x] u(3) v(3) x by simp
  qed
  moreover have "update_configurations env p (ref # refs) store = (None, s')" using v(1) u(1) s'(1) by simp
  ultimately show ?case using s'(2,3) by (intro exI [of _ s']) auto
qed simp

lemma clean_configurations_quiet:
  assumes "config_quiet env" and "ps_SyncMode (prof_Spec p) \<noteq> SyncModeDryRun"
    and "distinct (map config_key ccs)" and "distinct (map config_key store)"
  shows "\<exists>s'. clean_configurations env p ccs store = (None, s') \<and> distinct (map config_key s') \<and>
    (\<forall>k. config_at s' k = (if \<exists>cc \<in> set ccs. config_key cc = k \<and> configuration_info (fst k) (snd k) \<notin> set (matching_infos env p)
       then Option.bind (config_at store k) (left_by env p) else config_at store k))"
  using assms(3,4)
proof (induction ccs arbitrary: store)
  case (Cons cc ccs)
  define stays where "stays \<longleftrightarrow> configuration_info (om_Namespace (cc_Meta cc)) (om_Name (cc_Meta cc)) \<in> set (matching_infos env p)"
  obtain v where v: "cleanClusterConfiguration env p cc store = (None, v)" "distinct (map config_key v)"
    "config_at v = (config_at store)(config_key cc := Option.bind (config_at store (config_key cc)) (left_by env p))"
    using clean_quiet [OF assms(1) Cons.prems(2)] by blast
  define u where "u = (if stays then store else v)"
  have d: "distinct (map config_key ccs)" "distinct (map config_key u)" "config_key cc \<notin> config_key ` set ccs"
    using Cons.prems v(2) by (auto simp: u_def)
  have run: "clean_configurations env p (cc # ccs) store = clean_configurations env p ccs u"
    using v(1) assms(2) by (simp add: stays_def u_def)
  obtain s' where s': "clean_configurations env p ccs u = (None, s')" "distinct (map config_key s')"
    "\<forall>k. config_at s' k = (if \<exists>cc \<in> set ccs. config_key cc = k \<and> configuration_info (fst k) (snd k) \<notin> set (matching_infos env p)
       then Option.bind (config_at u k) (left_by env p) else config_at u k)" using Cons.IH [OF d(1,2)] by blast
  have "config_at s' k = (if \<exists>x \<in> set (cc # ccs). config_key x = k \<and> configuration_info (fst k) (snd k) \<notin> set (matching_infos env p)
       then Option.bind (config_at store k) (left_by env p) else config_at store k)" for k
  proof (cases "k = config_key cc")
    case True
    then have "\<not> (\<exists>x \<in> set ccs. config_key x = k)" using d(3) by (metis image_eqI)
    then show ?thesis using s'(3) [rule_format, of k] v(3) True by (auto simp: u_def stays_def config_key_def)
  next
    case False
    then show ?thesis using s'(3) [rule_format, of k] v(3) by (auto simp: u_def)
  qed
  then show ?case using run s'(1,2) by simp
qed simp

definition in_scope :: "profile \<Rightarrow> cluster_configuration \<Rightarrow> bool" where
  "in_scope p cc \<longleftrightarrow> prof_Kind p = ProfileKind \<longrightarrow> om_Namespace (cc_Meta cc) = om_Namespace (prof_Meta p)"

lemma clean_all_quiet:
  assumes "config_quiet env" and "ps_SyncMode (prof_Spec p) \<noteq> SyncModeDryRun" and "distinct (map config_key store)"
  shows "\<exists>s'. cleanClusterConfigurations env p store = (None, s') \<and> distinct (map config_key s') \<and>
    (\<forall>k. config_at s' k = (case config_at store k of
        None \<Rightarrow> None
      | Some cc \<Rightarrow> if in_scope p cc \<and> configuration_info (fst k) (snd k) \<notin> set (matching_infos env p) then left_by env p cc else Some cc))"
proof -
  define ccs where "ccs = filter (in_scope p) store"
  have "distinct (map config_key ccs)" using assms(3) by (simp add: ccs_def distinct_map_filter)
  then obtain s' where s': "clean_configurations env p ccs store = (None, s')" "distinct (map config_key s')"
    "\<forall>k. config_at s' k = (if \<exists>cc \<in> set ccs. config_key cc = k \<and> configuration_info (fst k) (snd k) \<notin> set (matching_infos env p)
       then Option.bind (config_at store k) (left_by env p) else config_at store k)"
    using clean_configurations_quiet [OF assms(1,2) _ assms(3)] by blast
  have "in_scope p = (if prof_Kind p = ProfileKind then (\<lambda>cc. om_Namespace (cc_Meta cc) = om_Namespace (prof_Meta p)) else (\<lambda>_. True))"
    by (rule ext) (simp add: in_scope_def)
  then have run: "cleanClusterConfigurations env p store = (None, s')"
    using s'(1) by (simp add: cleanClusterConfigurations_def config_quietD [OF assms(1)] ccs_def split: if_splits)
  have "(\<exists>cc \<in> set ccs. config_key cc = k) \<longleftrightarrow> (\<exists>cc. config_at store k = Some cc \<and> in_scope p cc)" for k
    using config_at_mem [OF assms(3)] by (auto simp: ccs_def)
  then show ?thesis using run s'(2,3) by (intro exI [of _ s']) (auto split: option.splits)
qed


definition sample_config_env :: config_env where
  "sample_config_env = \<lparr>cfe_Get = (\<lambda>_ _. None), cfe_Update = (\<lambda>_ _. None), cfe_StatusUpdate = (\<lambda>_ _. None),
     cfe_Delete = (\<lambda>_ _. None), cfe_Create = (\<lambda>_. None), cfe_List = None, cfe_GetClusterType = (\<lambda>_. ClusterTypeCapi),
     cfe_Owned = list_owned, cfe_EnsureOwnerRef = list_ensure, cfe_RemoveOwnerRef = list_remove\<rparr>"

definition sample_other_owner :: owner_reference where
  "sample_other_owner = \<lparr>own_APIVersion = ''config.projectsveltos.io/v1beta1'', own_Kind = ProfileKind, own_Name = ''q'', own_UID = []\<rparr>"

definition sample_config :: "string \<Rightarrow> owner_reference list \<Rightarrow> cluster_configuration" where
  "sample_config cluster owners = \<lparr>cc_Meta = zero_object_meta\<lparr>om_Namespace := ''ns'', om_Name := ''capi--'' @ cluster,
       om_OwnerReferences := owners\<rparr>,
     cc_Status = \<lparr>ccst_ClusterProfileResources = [\<lparr>cpres_ClusterProfileName = ''p'', cpres_Features = []\<rparr>], ccst_ProfileResources = []\<rparr>\<rparr>"

lemma sample_config_laws:
  "owner_references (cfe_Owned sample_config_env) (cfe_EnsureOwnerRef sample_config_env) (cfe_RemoveOwnerRef sample_config_env)
     same_owner owners_wf" "config_quiet sample_config_env"
  using list_owner_references.owner_references_axioms by (simp_all add: sample_config_env_def config_quiet_def)


end
