(* ===== verification/Profile_Cleanup.thy ===== *)
theory Profile_Cleanup
  imports Rollout
begin

text \<open>
  What a reconciliation removes (controllers/profile_utils.go): the ClusterSummaries of the clusters that no longer match and the ClusterReports;
  and what keeps a profile that is being deleted from losing its finalizer. In DryRun mode nothing is deleted: the ClusterSummaries are emptied
  instead. The writes are collected in the order they are issued, and an error ends the function that meets it.
\<close>

section \<open>Reading\<close>

definition getClusterSummaryListOptions :: "profile \<Rightarrow> list_option list" where
  "getClusterSummaryListOptions p =
     (if prof_Kind p = ClusterProfileKind then [MatchingLabels [(ClusterProfileLabelName, prof_Name p)]]
      else if prof_Kind p = ProfileKind then
        [MatchingLabels [(ProfileLabelName, prof_Name p)], InNamespace (om_Namespace (prof_Meta p))]
      else [])"

text \<open>The ClusterReport of a cluster, and the answer of the API server to its creation.\<close>

record cluster_report =
  cr_Meta :: object_meta
  cr_ClusterNamespace :: string
  cr_ClusterName :: string

datatype create_answer = Created | AlreadyExists | CreateFailed api_error

datatype cleanup_write =
    SummaryWrite rollout_write
  | CreateReport cluster_report
  | DeleteReport cluster_report

text \<open>The environment of a cleanup. The first argument of \<open>ce_ListSummaries\<close> is the position of the call: the API server may
  answer a later list call differently.\<close>

record cleanup_env =
  ce_Rollout :: rollout_env
  ce_ListSummaries :: "nat \<Rightarrow> list_option list \<Rightarrow> api_error + cluster_summary list"
  ce_ListReports :: "list_option list \<Rightarrow> api_error + cluster_report list"
  ce_GetByName :: "string \<Rightarrow> string \<Rightarrow> api_error + cluster_summary"
  ce_Delete :: "cluster_summary \<Rightarrow> api_error option"
  ce_CreateReport :: "cluster_report \<Rightarrow> create_answer"
  ce_DeleteReport :: "cluster_report \<Rightarrow> api_error option"
  ce_IsOwnedByProfile :: "cluster_summary \<Rightarrow> profile \<Rightarrow> bool"
  ce_ClusterGVK :: "string \<times> string"
  ce_SveltosClusterKind :: string

definition getClusterObjectReferenceFromClusterSummary :: "cleanup_env \<Rightarrow> cluster_summary \<Rightarrow> object_reference" where
  "getClusterObjectReferenceFromClusterSummary env cs =
     (let cluster = \<lparr>ref_Kind = fst (ce_ClusterGVK env), ref_Namespace = css_ClusterNamespace (cs_Spec cs),
            ref_Name = css_ClusterName (cs_Spec cs), ref_APIVersion = snd (ce_ClusterGVK env)\<rparr>
      in if css_ClusterType (cs_Spec cs) = ClusterTypeSveltos
         then cluster\<lparr>ref_Kind := ce_SveltosClusterKind env, ref_APIVersion := re_SveltosAPIVersion (ce_Rollout env)\<rparr>
         else cluster)"

text \<open>The walk of \<open>getPausedClustersBlockingDeletion\<close>; \<open>Inr None\<close> is the nil slice.\<close>

fun paused_clusters :: "cleanup_env \<Rightarrow> cluster_summary list \<Rightarrow> object_reference list \<Rightarrow>
    api_error + object_reference list option" where
  "paused_clusters env [] paused = Inr (Some paused)"
| "paused_clusters env (cs # css) paused =
     (case re_IsClusterPaused (ce_Rollout env) (css_ClusterNamespace (cs_Spec cs)) (css_ClusterName (cs_Spec cs))
             (css_ClusterType (cs_Spec cs)) of
        Inl ApiNotFound \<Rightarrow> Inr None
      | Inl err \<Rightarrow> Inl err
      | Inr False \<Rightarrow> Inr None
      | Inr True \<Rightarrow> paused_clusters env css (paused @ [getClusterObjectReferenceFromClusterSummary env cs]))"

definition getPausedClustersBlockingDeletion :: "cleanup_env \<Rightarrow> nat \<Rightarrow> profile \<Rightarrow>
    api_error + object_reference list option" where
  "getPausedClustersBlockingDeletion env now p =
     (case ce_ListSummaries env now (getClusterSummaryListOptions p) of
        Inl err \<Rightarrow> Inl err
      | Inr css \<Rightarrow> paused_clusters env css [])"

text \<open>The clusters of the \<open>WaitingForPausedClustersError\<close>, \<open>None\<close> when there is no such error.\<close>

definition getWaitingForPausedClustersError :: "cleanup_env \<Rightarrow> nat \<Rightarrow> profile \<Rightarrow> object_reference list option" where
  "getWaitingForPausedClustersError env now p =
     (case getPausedClustersBlockingDeletion env now p of
        Inl err \<Rightarrow> None
      | Inr paused \<Rightarrow> if slice paused = [] then None else paused)"

definition allClusterSummariesGone :: "cleanup_env \<Rightarrow> nat \<Rightarrow> profile \<Rightarrow> bool" where
  "allClusterSummariesGone env now p =
     (case ce_ListSummaries env now (getClusterSummaryListOptions p) of
        Inl err \<Rightarrow> False
      | Inr css \<Rightarrow> css = [])"

definition canRemoveProfileFinalizer :: "cleanup_env \<Rightarrow> nat \<Rightarrow> profile \<Rightarrow> bool" where
  "canRemoveProfileFinalizer = allClusterSummariesGone"

section \<open>Reports\<close>

definition createClusterReport :: "cleanup_env \<Rightarrow> profile \<Rightarrow> object_reference \<Rightarrow> cleanup_write list \<times> api_error option" where
  "createClusterReport env p cluster =
     (let clusterType = re_GetClusterType (ce_Rollout env) cluster;
          lbls = [(ClusterNameLabel, ref_Name cluster), (ClusterTypeLabel, cluster_type_text clusterType)];
          lbls = (if prof_Kind p = ClusterProfileKind
                  then AList.update ClusterProfileLabelName (prof_Name p) lbls
                  else AList.update ProfileLabelName (prof_Name p) lbls);
          report = \<lparr>cr_Meta = zero_object_meta\<lparr>om_Namespace := ref_Namespace cluster,
                       om_Name := GetClusterReportName (prof_Kind p) (prof_Name p) (ref_Name cluster) clusterType,
                       om_Labels := lbls,
                       om_OwnerReferences := [\<lparr>own_APIVersion = ''config.projectsveltos.io/v1beta1'',
                         own_Kind = prof_Kind p, own_Name = prof_Name p, own_UID = om_UID (prof_Meta p)\<rparr>]\<rparr>,
                    cr_ClusterNamespace = ref_Namespace cluster, cr_ClusterName = ref_Name cluster\<rparr>
      in ([CreateReport report],
          case ce_CreateReport env report of Created \<Rightarrow> None | AlreadyExists \<Rightarrow> None | CreateFailed err \<Rightarrow> Some err))"

fun createClusterReports :: "cleanup_env \<Rightarrow> profile \<Rightarrow> object_reference list \<Rightarrow> cleanup_write list \<times> api_error option" where
  "createClusterReports env p [] = ([], None)"
| "createClusterReports env p (cluster # clusters) =
     (let r = createClusterReport env p cluster in
      case snd r of
        Some err \<Rightarrow> r
      | None \<Rightarrow> let rs = createClusterReports env p clusters in (fst r @ fst rs, snd rs))"

fun delete_reports :: "cleanup_env \<Rightarrow> cluster_report list \<Rightarrow> cleanup_write list \<times> api_error option" where
  "delete_reports env [] = ([], None)"
| "delete_reports env (cr # crs) =
     (case ce_DeleteReport env cr of
        Some (ApiError msg) \<Rightarrow> ([DeleteReport cr], Some (ApiError msg))
      | _ \<Rightarrow> let rs = delete_reports env crs in (DeleteReport cr # fst rs, snd rs))"

abbreviation IsDryRunSync :: "profile \<Rightarrow> bool" where
  "IsDryRunSync p \<equiv> ps_SyncMode (prof_Spec p) = SyncModeDryRun"

definition cleanClusterReports :: "cleanup_env \<Rightarrow> profile \<Rightarrow> cleanup_write list \<times> api_error option" where
  "cleanClusterReports env p =
     (if IsDryRunSync p then ([], None)
      else
        let opts = (if prof_Kind p = ClusterProfileKind
                    then [MatchingLabels [(ClusterProfileLabelName, prof_Name p)]]
                    else [MatchingLabels [(ProfileLabelName, prof_Name p)],
                          InNamespace (om_Namespace (prof_Meta p))])
        in case ce_ListReports env opts of
             Inl err \<Rightarrow> ([], Some err)
           | Inr crs \<Rightarrow> delete_reports env crs)"

definition updateClusterReports :: "cleanup_env \<Rightarrow> profile \<Rightarrow> cleanup_write list \<times> api_error option" where
  "updateClusterReports env p =
     (if IsDryRunSync p then createClusterReports env p (matching_refs p) else cleanClusterReports env p)"

section \<open>ClusterSummaries of clusters that stopped matching\<close>

definition getClusterInfo :: "string \<Rightarrow> string \<Rightarrow> cluster_type \<Rightarrow> string" where
  "getClusterInfo clusterNamespace clusterName clusterType =
     cluster_type_text clusterType @ ''-'' @ clusterNamespace @ ''-'' @ clusterName"

definition set_sync_mode :: "sync_mode \<Rightarrow> cluster_summary \<Rightarrow> cluster_summary" where
  "set_sync_mode m cs = cs\<lparr>cs_Spec := (cs_Spec cs)\<lparr>css_ClusterProfileSpec := (css_ClusterProfileSpec (cs_Spec cs))
     \<lparr>ps_SyncMode := m\<rparr>\<rparr>\<rparr>"

definition clear_refs :: "cluster_summary \<Rightarrow> cluster_summary" where
  "clear_refs cs = cs\<lparr>cs_Spec := (cs_Spec cs)\<lparr>css_ClusterProfileSpec := (css_ClusterProfileSpec (cs_Spec cs))
     \<lparr>ps_HelmCharts := None, ps_PolicyRefs := None, ps_KustomizationRefs := None\<rparr>\<rparr>\<rparr>"

definition clearClusterSummaryRefs :: "cleanup_env \<Rightarrow> cluster_summary \<Rightarrow> sync_mode \<Rightarrow>
    cleanup_write list \<times> api_error option" where
  "clearClusterSummaryRefs env clusterSummary syncMode =
     (case ce_GetByName env (cs_Namespace clusterSummary) (cs_Name clusterSummary) of
        Inl err \<Rightarrow> ([], Some err)
      | Inr cs \<Rightarrow>
          if ps_HelmCharts (cs_ProfileSpec cs) = None \<and> ps_PolicyRefs (cs_ProfileSpec cs) = None \<and>
             ps_KustomizationRefs (cs_ProfileSpec cs) = None \<and> ps_SyncMode (cs_ProfileSpec cs) = syncMode
          then ([], None)
          else let cs = set_sync_mode syncMode (clear_refs cs)
            in ([SummaryWrite (WUpdate cs)], re_Update (ce_Rollout env) cs))"

definition updateClusterSummarySyncMode :: "cleanup_env \<Rightarrow> cluster_summary \<Rightarrow> sync_mode \<Rightarrow>
    cleanup_write list \<times> api_error option" where
  "updateClusterSummarySyncMode env clusterSummary syncMode =
     (if ps_SyncMode (cs_ProfileSpec clusterSummary) = syncMode then ([], None)
      else case ce_GetByName env (cs_Namespace clusterSummary) (cs_Name clusterSummary) of
        Inl ApiNotFound \<Rightarrow> ([], None)
      | Inl err \<Rightarrow> ([], Some err)
      | Inr _ \<Rightarrow> let cs = set_sync_mode syncMode clusterSummary
                in ([SummaryWrite (WUpdate cs)], re_Update (ce_Rollout env) cs))"

text \<open>One listed ClusterSummary. The result is the writes, whether a ClusterSummary that must go was found, and the error.\<close>

definition clean_summary :: "cleanup_env \<Rightarrow> string set \<Rightarrow> profile \<Rightarrow> cluster_summary \<Rightarrow>
    cleanup_write list \<times> bool \<times> api_error option" where
  "clean_summary env matching p cs =
     (if ce_IsOwnedByProfile env cs p \<and>
         getClusterInfo (css_ClusterNamespace (cs_Spec cs)) (css_ClusterName (cs_Spec cs)) (css_ClusterType (cs_Spec cs))
           \<notin> matching
      then
        let clusterRef = getClusterObjectReferenceFromClusterSummary env cs in
        if IsDryRunSync p then
          (let c = clearClusterSummaryRefs env cs (ps_SyncMode (prof_Spec p)) in
           if snd c \<noteq> None then (fst c, False, snd c)
           else let r = createClusterReport env p clusterRef in (fst c @ fst r, False, snd r))
        else
          (let u = updateClusterSummary (ce_Rollout env) p cs clusterRef;
               cs = fst u; w = map SummaryWrite (fst (snd u)) in
           if snd (snd u) \<noteq> None then (w, False, snd (snd u))
           else
             let w = w @ [SummaryWrite (WDelete cs)] in
             if ce_Delete env cs \<noteq> None then (w, True, ce_Delete env cs)
             else let m = updateClusterSummarySyncMode env cs (ps_SyncMode (prof_Spec p)) in (w @ fst m, True, snd m))
      else
        let m = updateClusterSummarySyncMode env cs (ps_SyncMode (prof_Spec p)) in (fst m, False, snd m))"

fun clean_summaries :: "cleanup_env \<Rightarrow> string set \<Rightarrow> profile \<Rightarrow> cluster_summary list \<Rightarrow>
    cleanup_write list \<times> bool \<times> api_error option" where
  "clean_summaries env matching p [] = ([], False, None)"
| "clean_summaries env matching p (cs # css) =
     (let r = clean_summary env matching p cs in
      if snd (snd r) \<noteq> None then r
      else let rs = clean_summaries env matching p css in
        (fst r @ fst rs, fst (snd r) \<or> fst (snd rs), snd (snd rs)))"

datatype cleanup_error = ClusterSummariesStillPresent | CleanupFailed api_error

definition cleanClusterSummaries :: "cleanup_env \<Rightarrow> nat \<Rightarrow> profile \<Rightarrow> cleanup_write list \<times> cleanup_error option" where
  "cleanClusterSummaries env now p =
     (let matching = set (map (\<lambda>reference. getClusterInfo (ref_Namespace reference) (ref_Name reference)
             (re_GetClusterType (ce_Rollout env) reference)) (matching_refs p));
          opts = (if prof_Kind p = ClusterProfileKind
                  then [MatchingLabels [(ClusterProfileLabelName, prof_Name p)]]
                  else [MatchingLabels [(ProfileLabelName, prof_Name p)],
                        InNamespace (om_Namespace (prof_Meta p))])
      in case ce_ListSummaries env now opts of
           Inl err \<Rightarrow> ([], Some (CleanupFailed err))
         | Inr css \<Rightarrow>
             let r = clean_summaries env matching p css in
             (fst r, case snd (snd r) of
                Some err \<Rightarrow> Some (CleanupFailed err)
              | None \<Rightarrow> if fst (snd r) then Some ClusterSummariesStillPresent else None))"

section \<open>What is deleted\<close>

definition deleted_summaries :: "cleanup_write list \<Rightarrow> (string \<times> string) list" where
  "deleted_summaries ws = concat (map (\<lambda>w. case w of SummaryWrite (WDelete cs) \<Rightarrow> [(cs_Namespace cs, cs_Name cs)] | _ \<Rightarrow> []) ws)"

lemma deleted_summaries_simps [simp]:
  "deleted_summaries [] = []"
  "deleted_summaries (a @ b) = deleted_summaries a @ deleted_summaries b"
  "deleted_summaries (SummaryWrite (WDelete cs) # ws) = (cs_Namespace cs, cs_Name cs) # deleted_summaries ws"
  "deleted_summaries (SummaryWrite (WUpdate cs) # ws) = deleted_summaries ws"
  "deleted_summaries (SummaryWrite (WCreate cs) # ws) = deleted_summaries ws"
  "deleted_summaries (CreateReport cr # ws) = deleted_summaries ws"
  "deleted_summaries (DeleteReport cr # ws) = deleted_summaries ws"
  by (simp_all add: deleted_summaries_def)

definition matching_keys :: "cleanup_env \<Rightarrow> profile \<Rightarrow> string set" where
  "matching_keys env p = set (map (\<lambda>reference. getClusterInfo (ref_Namespace reference) (ref_Name reference)
     (re_GetClusterType (ce_Rollout env) reference)) (matching_refs p))"

definition summary_key :: "cluster_summary \<Rightarrow> string" where
  "summary_key cs = getClusterInfo (css_ClusterNamespace (cs_Spec cs)) (css_ClusterName (cs_Spec cs))
     (css_ClusterType (cs_Spec cs))"

definition stale_summary :: "cleanup_env \<Rightarrow> profile \<Rightarrow> cluster_summary \<Rightarrow> bool" where
  "stale_summary env p cs \<longleftrightarrow> ce_IsOwnedByProfile env cs p \<and> summary_key cs \<notin> matching_keys env p"

definition clean_options :: "cleanup_env \<Rightarrow> profile \<Rightarrow> list_option list" where
  "clean_options env p = (if prof_Kind p = ClusterProfileKind
     then [MatchingLabels [(ClusterProfileLabelName, prof_Name p)]]
     else [MatchingLabels [(ProfileLabelName, prof_Name p)], InNamespace (om_Namespace (prof_Meta p))])"

lemma addClusterSummaryLabels_name:
  "cs_Name (addClusterSummaryLabels env p c cs) = cs_Name cs"
  "cs_Namespace (addClusterSummaryLabels env p c cs) = cs_Namespace cs"
  by (simp_all add: addClusterSummaryLabels_def on_labels_def Let_def split: option.splits)

lemma updateClusterSummary_name:
  "cs_Name (fst (updateClusterSummary env p cs c)) = cs_Name cs"
  "cs_Namespace (fst (updateClusterSummary env p cs c)) = cs_Namespace cs"
  by (simp_all add: updateClusterSummary_def Let_def addClusterSummaryLabels_name set_annotations_def)

lemma no_deletions:
  "deleted_summaries (fst (updateClusterSummarySyncMode env cs m)) = []"
  "deleted_summaries (fst (clearClusterSummaryRefs env cs m)) = []"
  "deleted_summaries (fst (createClusterReport env p c)) = []"
  "deleted_summaries (map SummaryWrite (fst (snd (updateClusterSummary renv p cs c)))) = []"
  by (auto simp: updateClusterSummarySyncMode_def clearClusterSummaryRefs_def createClusterReport_def
      updateClusterSummary_def Let_def split: sum.splits api_error.splits)

lemma clean_summary_deletes:
  assumes "\<not> IsDryRunSync p" and "clean_summary env (matching_keys env p) p cs = (ws, found, err)"
  shows "deleted_summaries ws = [] \<and> (err = None \<longrightarrow> \<not> stale_summary env p cs \<and> \<not> found) \<or>
     stale_summary env p cs \<and> found \<and> deleted_summaries ws = [(cs_Namespace cs, cs_Name cs)]"
  using assms
  by (auto simp: clean_summary_def stale_summary_def summary_key_def Let_def no_deletions updateClusterSummary_name
      simp del: not_None_eq split: if_splits)

lemma clean_summaries_deletes:
  assumes "\<not> IsDryRunSync p"
  shows "clean_summaries env (matching_keys env p) p css = (ws, found, err) \<Longrightarrow>
    \<exists>n. deleted_summaries ws = take n (map (\<lambda>cs. (cs_Namespace cs, cs_Name cs)) (filter (stale_summary env p) css)) \<and>
      (err = None \<longrightarrow> length (filter (stale_summary env p) css) \<le> n \<and> (found \<longleftrightarrow> list_ex (stale_summary env p) css))"
proof (induction css arbitrary: ws found err)
  case (Cons cs css)
  obtain ws1 found1 err1 where one: "clean_summary env (matching_keys env p) p cs = (ws1, found1, err1)"
    by (cases "clean_summary env (matching_keys env p) p cs") auto
  obtain ws2 found2 err2 where rest: "clean_summaries env (matching_keys env p) p css = (ws2, found2, err2)"
    by (cases "clean_summaries env (matching_keys env p) p css") auto
  let ?keys = "\<lambda>css. map (\<lambda>cs. (cs_Namespace cs, cs_Name cs)) (filter (stale_summary env p) css)"
  note del = clean_summary_deletes [OF assms one]
  from Cons.IH [OF rest] obtain n where n: "deleted_summaries ws2 = take n (?keys css)"
    "err2 = None \<longrightarrow> length (filter (stale_summary env p) css) \<le> n \<and> (found2 \<longleftrightarrow> list_ex (stale_summary env p) css)"
    by auto
  show ?case
  proof (cases err1)
    case None
    with Cons.prems one rest have ws: "ws = ws1 @ ws2" "err = err2" "found \<longleftrightarrow> found1 \<or> found2" by auto
    show ?thesis
    proof (cases "stale_summary env p cs")
      case True
      with del None have "found1" "deleted_summaries ws1 = [(cs_Namespace cs, cs_Name cs)]" by auto
      with True ws n show ?thesis by (intro exI [of _ "Suc n"]) auto
    next
      case False
      with del None have "\<not> found1" "deleted_summaries ws1 = []" by auto
      with False ws n show ?thesis by (intro exI [of _ n]) auto
    qed
  next
    case (Some e)
    with Cons.prems one have ws: "ws = ws1" "err = Some e" by auto
    from del Some have "deleted_summaries ws1 = [] \<or>
        stale_summary env p cs \<and> deleted_summaries ws1 = [(cs_Namespace cs, cs_Name cs)]" by auto
    then show ?thesis
    proof
      assume "deleted_summaries ws1 = []"
      with ws show ?thesis by (intro exI [of _ 0]) simp
    next
      assume "stale_summary env p cs \<and> deleted_summaries ws1 = [(cs_Namespace cs, cs_Name cs)]"
      with ws show ?thesis by (intro exI [of _ 1]) simp
    qed
  qed
qed simp

text \<open>Outside DryRun mode the cleanup deletes ClusterSummaries in the order the API server lists them, only such as the profile
  owns and whose cluster is none of the matching ones, and all of them unless a call fails; it tells its caller to come back exactly
  when there was one.\<close>

theorem cleanup_deletes_stale:
  assumes "\<not> IsDryRunSync p" and "ce_ListSummaries env now (clean_options env p) = Inr css"
  shows "\<exists>n. deleted_summaries (fst (cleanClusterSummaries env now p)) =
       take n (map (\<lambda>cs. (cs_Namespace cs, cs_Name cs)) (filter (stale_summary env p) css)) \<and>
     (n < length (filter (stale_summary env p) css) \<longrightarrow>
        (\<exists>err. snd (cleanClusterSummaries env now p) = Some (CleanupFailed err))) \<and>
     (snd (cleanClusterSummaries env now p) = Some ClusterSummariesStillPresent \<longrightarrow> list_ex (stale_summary env p) css) \<and>
     (snd (cleanClusterSummaries env now p) = None \<longrightarrow> \<not> list_ex (stale_summary env p) css)"
proof -
  obtain ws found err where r: "clean_summaries env (matching_keys env p) p css = (ws, found, err)"
    by (cases "clean_summaries env (matching_keys env p) p css") auto
  have c: "cleanClusterSummaries env now p = (ws, case err of Some err \<Rightarrow> Some (CleanupFailed err)
      | None \<Rightarrow> if found then Some ClusterSummariesStillPresent else None)"
    using assms(2) r by (simp add: cleanClusterSummaries_def clean_options_def matching_keys_def Let_def)
  from clean_summaries_deletes [OF assms(1) r] obtain n where
    "deleted_summaries ws = take n (map (\<lambda>cs. (cs_Namespace cs, cs_Name cs)) (filter (stale_summary env p) css))"
    "err = None \<longrightarrow> length (filter (stale_summary env p) css) \<le> n \<and> (found \<longleftrightarrow> list_ex (stale_summary env p) css)"
    by auto
  then show ?thesis
    by (intro exI [of _ n]) (cases err; simp add: c)
qed

lemma dry_run_deletes_nothing:
  assumes "IsDryRunSync p"
  shows "deleted_summaries (fst (clean_summaries env keys p css)) = []"
proof (induction css)
  case (Cons cs css)
  have "deleted_summaries (fst (clean_summary env keys p cs)) = []"
    using assms by (simp add: clean_summary_def Let_def no_deletions)
  with Cons show ?case by (simp add: Let_def)
qed simp

definition deleted_reports :: "cleanup_write list \<Rightarrow> cluster_report list" where
  "deleted_reports ws = concat (map (\<lambda>w. case w of DeleteReport cr \<Rightarrow> [cr] | _ \<Rightarrow> []) ws)"

lemma createClusterReport_deletes_none: "deleted_reports (fst (createClusterReport env p c)) = []"
  by (simp add: deleted_reports_def createClusterReport_def Let_def)

lemma createClusterReports_deletes_none: "deleted_reports (fst (createClusterReports env p cs)) = []"
proof (induction cs)
  case (Cons c cs)
  have "deleted_reports (xs @ ys) = deleted_reports xs @ deleted_reports ys" for xs ys
    by (simp add: deleted_reports_def)
  with Cons show ?case
    by (cases "snd (createClusterReport env p c)") (simp_all add: createClusterReport_deletes_none Let_def)
qed (simp add: deleted_reports_def)

text \<open>A reconciliation in DryRun mode deletes neither a ClusterSummary nor a ClusterReport, whatever the API server answers:
  a cluster that stops matching only has its ClusterSummary emptied.\<close>

theorem dry_run_deletes_no_object:
  "IsDryRunSync p \<Longrightarrow> deleted_summaries (fst (cleanClusterSummaries env now p)) = [] \<and>
     deleted_reports (fst (updateClusterReports env p)) = [] \<and> fst (cleanClusterReports env p) = []"
  by (simp add: cleanClusterSummaries_def Let_def dry_run_deletes_nothing updateClusterReports_def
      cleanClusterReports_def createClusterReports_deletes_none deleted_reports_def [of "[]"] split: sum.splits)

lemma cluster_type_text_dash: "CHR ''-'' \<notin> set (cluster_type_text t)"
  by (cases t) (simp_all add: cluster_type_text_def)

lemma cluster_type_text_inject: "cluster_type_text t = cluster_type_text t' \<longleftrightarrow> t = t'"
  by (cases t; cases t') (simp_all add: cluster_type_text_def)

text \<open>The keys by which the cleanup recognises the matching clusters do not tell apart the cluster \<open>a-b/c\<close> from \<open>a/b-c\<close>:
  the ClusterSummary of a cluster that stopped matching survives the cleanup, which reports success, when such another cluster matches.\<close>

theorem cleanup_key_collision:
  assumes "re_GetClusterType (ce_Rollout env) r = t" and "matching_refs p = [r]"
    and "ref_Namespace r = a" and "ref_Name r = b @ ''-'' @ c"
    and "css_ClusterNamespace (cs_Spec cs) = a @ ''-'' @ b" and "css_ClusterName (cs_Spec cs) = c"
    and "css_ClusterType (cs_Spec cs) = t" and "ps_SyncMode (cs_ProfileSpec cs) = ps_SyncMode (prof_Spec p)"
    and "ce_ListSummaries env now (clean_options env p) = Inr [cs]"
  shows "cleanClusterSummaries env now p = ([], None)"
  using assms by (simp add: cleanClusterSummaries_def clean_options_def getClusterInfo_def clean_summary_def
      updateClusterSummarySyncMode_def Let_def)

text \<open>C6. Where the namespaces hold no hyphen the keys identify the cluster.\<close>

theorem cluster_key_injective:
  assumes "CHR ''-'' \<notin> set ns" and "CHR ''-'' \<notin> set ns'"
  shows "getClusterInfo ns n t = getClusterInfo ns' n' t' \<longleftrightarrow> ns = ns' \<and> n = n' \<and> t = t'"
  using append_sep_inject [OF assms, of n n']
    append_sep_inject [OF cluster_type_text_dash cluster_type_text_dash, of t "ns @ ''-'' @ n" t' "ns' @ ''-'' @ n'"]
  by (auto simp: getClusterInfo_def cluster_type_text_inject)

section \<open>The hypotheses can hold\<close>

text \<open>The API server lists the ClusterSummaries \<open>css\<close>, all owned by the profile.\<close>

definition sample_cleanup_env :: "cluster_summary list \<Rightarrow> cleanup_env" where
  "sample_cleanup_env css = \<lparr>ce_Rollout = sample_env [], ce_ListSummaries = (\<lambda>_ _. Inr css),
     ce_ListReports = (\<lambda>_. Inr []), ce_GetByName = (\<lambda>_ _. Inl ApiNotFound), ce_Delete = (\<lambda>_. None),
     ce_CreateReport = (\<lambda>_. Created), ce_DeleteReport = (\<lambda>_. None),
     ce_IsOwnedByProfile = (\<lambda>_ _. True), ce_ClusterGVK = (''Cluster'', ''v1''), ce_SveltosClusterKind = ''SveltosCluster''\<rparr>"

definition sample_dash_ref :: object_reference where
  "sample_dash_ref = (sample_ref ''b-c'')\<lparr>ref_Namespace := ''a''\<rparr>"

definition sample_dash_summary :: cluster_summary where
  "sample_dash_summary = (sample_cs ''s'' [])\<lparr>cs_Spec := \<lparr>css_ClusterNamespace = ''a-b'', css_ClusterName = ''c'',
     css_ClusterType = ClusterTypeCapi, css_ClusterProfileSpec = prof_Spec sample_profile\<rparr>\<rparr>"

theorem cleanup_deletes_stale_witness:
  "\<exists>n. deleted_summaries (fst (cleanClusterSummaries (sample_cleanup_env [sample_cs ''x'' []]) 0 sample_profile)) =
     take n [(''ns'', ''x'')]"
proof -
  have "stale_summary (sample_cleanup_env [sample_cs ''x'' []]) sample_profile (sample_cs ''x'' [])"
    by (simp add: stale_summary_def sample_cleanup_env_def summary_key_def matching_keys_def getClusterInfo_def
        sample_rollout_defs cluster_type_text_def)
  then show ?thesis
    using cleanup_deletes_stale [of sample_profile "sample_cleanup_env [sample_cs ''x'' []]" 0 "[sample_cs ''x'' []]"]
    by (auto simp: sample_cleanup_env_def sample_profile_def zero_profile_spec_def)
qed

theorem dry_run_deletes_no_object_witness:
  "deleted_summaries (fst (cleanClusterSummaries (sample_cleanup_env [sample_cs ''x'' []]) 0
     (sample_profile\<lparr>prof_Spec := zero_profile_spec\<lparr>ps_SyncMode := SyncModeDryRun\<rparr>\<rparr>))) = []"
  using dry_run_deletes_no_object [of "sample_profile\<lparr>prof_Spec := zero_profile_spec\<lparr>ps_SyncMode := SyncModeDryRun\<rparr>\<rparr>"]
  by simp

theorem cleanup_key_collision_witness:
  "cleanClusterSummaries (sample_cleanup_env [sample_dash_summary]) 0
     (SetMatchingClusterRefs [sample_dash_ref] sample_profile) = ([], None)"
  by (rule cleanup_key_collision [where r = sample_dash_ref and a = "''a''" and b = "''b''" and c = "''c''" and t = ClusterTypeCapi
        and cs = sample_dash_summary])
    (simp_all add: sample_cleanup_env_def sample_dash_ref_def sample_dash_summary_def SetMatchingClusterRefs_def
      sample_rollout_defs)

end
