(* ===== verification/Reconcile_Maps.thy ===== *)
theory Reconcile_Maps
  imports Object_Set Feature_Status Cluster_Ops
begin

text \<open>
  What wakes a ClusterSummary up: the resources it references (getCurrentReferences of
  controllers/clustersummary_controller.go, controllers/flux_source.go), the maps from references and clusters to
  ClusterSummaries, the requests the watches derive from them (controllers/clustersummary_transformations.go), and
  the cool-down that delays the next reconciliation.

  The sets of references are those of the interface \<open>object_set\<close>. The Go constants of Flux and of libsveltos, the
  templates that name references and the configuration of drift detection are a \<open>ref_env\<close>.
\<close>

section \<open>References\<close>

record ref_env =
  rf_Namespace :: "string \<Rightarrow> string \<Rightarrow> string \<Rightarrow> cluster_type \<Rightarrow> string + string"
  rf_Name :: "string \<Rightarrow> string \<Rightarrow> string \<Rightarrow> cluster_type \<Rightarrow> string + string"
  rf_SecretKind :: string
  rf_ConfigMapKind :: string
  rf_GitRepositoryKind :: string
  rf_OCIRepositoryKind :: string
  rf_BucketKind :: string
  rf_FluxVersion :: string
  rf_CAPIKind :: string
  rf_CAPIVersion :: string
  rf_SveltosClusterKind :: string
  rf_SveltosVersion :: string
  rf_DriftDetectionConfigMap :: string
  rf_SveltosNamespace :: string

text \<open>\<open>strings.SplitN(s, sep, 2)\<close>: the parts before and after the first separator.\<close>

fun split_once :: "string \<Rightarrow> string \<Rightarrow> (string \<times> string) option" where
  "split_once sep [] = (if sep = [] then Some ([], []) else None)"
| "split_once sep (c # s) =
     (if take (length sep) (c # s) = sep then Some ([], drop (length sep) (c # s))
      else map_option (\<lambda>(a, b). (c # a, b)) (split_once sep s))"

text \<open>\<open>strings.Join\<close> with a separator of one character.\<close>

fun go_join :: "char \<Rightarrow> string list \<Rightarrow> string" where
  "go_join sep [] = []"
| "go_join sep [w] = w"
| "go_join sep (w # v # ws) = w @ sep # go_join sep (v # ws)"

definition to_lower :: "string \<Rightarrow> string" where
  "to_lower = map fold_char"

definition isReferencingFluxSource :: "helm_chart \<Rightarrow> bool" where
  "isReferencingFluxSource hc =
     (let lowerRepoURL = to_lower (hc_RepositoryURL hc)
      in has_prefix ''gitrepository://'' lowerRepoURL \<or> has_prefix ''ocirepository://'' lowerRepoURL \<or>
         has_prefix ''bucket://'' lowerRepoURL)"

definition getReferencedFluxSourceFromURL :: "ref_env \<Rightarrow> helm_chart \<Rightarrow> string + object_reference \<times> string" where
  "getReferencedFluxSourceFromURL env hc =
     (let incorrect = ''incorrect format: '' @ hc_RepositoryURL hc @
            ''. Expected format sourceKind://sourceNamespace/sourceName/sourcePath''
      in case split_once ''://'' (hc_RepositoryURL hc) of
           None \<Rightarrow> Inl incorrect
         | Some (sourceKind, rest) \<Rightarrow>
             let remainingParts = go_split (CHR ''/'') rest in
             if length remainingParts < 3 then Inl incorrect
             else
               let kind = to_lower sourceKind;
                   ref = \<lparr>ref_Kind = [], ref_Namespace = remainingParts ! 0, ref_Name = remainingParts ! 1,
                     ref_APIVersion = []\<rparr>;
                   ref = (if kind = to_lower (rf_GitRepositoryKind env)
                          then ref\<lparr>ref_Kind := rf_GitRepositoryKind env, ref_APIVersion := rf_FluxVersion env\<rparr>
                          else if kind = to_lower (rf_OCIRepositoryKind env)
                          then ref\<lparr>ref_Kind := rf_OCIRepositoryKind env, ref_APIVersion := rf_FluxVersion env\<rparr>
                          else if kind = to_lower (rf_BucketKind env)
                          then ref\<lparr>ref_Kind := rf_BucketKind env, ref_APIVersion := rf_FluxVersion env\<rparr>
                          else ref)
               in Inr (ref, go_join (CHR ''/'') (drop 2 remainingParts)))"

definition core_version :: string where
  "core_version = ''v1''"

text \<open>The namespace and the name of one reference of a ClusterSummary.\<close>

definition instantiate_ref :: "ref_env \<Rightarrow> cluster_summary \<Rightarrow> string \<Rightarrow> string \<Rightarrow> string + string \<times> string" where
  "instantiate_ref env cs namespace name =
     (case rf_Namespace env (css_ClusterNamespace (cs_Spec cs)) (css_ClusterName (cs_Spec cs)) namespace
             (css_ClusterType (cs_Spec cs)) of
        Inl err \<Rightarrow> Inl err
      | Inr ns \<Rightarrow>
          (case rf_Name env (css_ClusterNamespace (cs_Spec cs)) (css_ClusterName (cs_Spec cs)) name
                  (css_ClusterType (cs_Spec cs)) of
             Inl err \<Rightarrow> Inl err
           | Inr n \<Rightarrow> Inr (ns, n)))"

text \<open>The values referenced by a helm chart, by a kustomization and by the patches are collected the same way.\<close>

fun value_refs :: "'s set_ops \<Rightarrow> ref_env \<Rightarrow> cluster_summary \<Rightarrow> value_from list \<Rightarrow> 's \<Rightarrow> string + 's" where
  "value_refs ops env cs [] acc = Inr acc"
| "value_refs ops env cs (v # vs) acc =
     (case instantiate_ref env cs (vf_Namespace v) (vf_Name v) of
        Inl err \<Rightarrow> Inl err
      | Inr (ns, n) \<Rightarrow> value_refs ops env cs vs (so_insert ops \<lparr>ref_Kind = vf_Kind v, ref_Namespace = ns,
          ref_Name = n, ref_APIVersion = core_version\<rparr> acc))"

definition getKustomizationValueFrom :: "'s set_ops \<Rightarrow> ref_env \<Rightarrow> cluster_summary \<Rightarrow> kustomization_ref \<Rightarrow> string + 's" where
  "getKustomizationValueFrom ops env cs kr = value_refs ops env cs (kr_ValuesFrom kr) (so_empty ops)"

definition getHelmChartValueFrom :: "'s set_ops \<Rightarrow> ref_env \<Rightarrow> cluster_summary \<Rightarrow> helm_chart \<Rightarrow> string + 's" where
  "getHelmChartValueFrom ops env cs hc = value_refs ops env cs (hc_ValuesFrom hc) (so_empty ops)"

definition getPatchesFrom :: "'s set_ops \<Rightarrow> ref_env \<Rightarrow> cluster_summary \<Rightarrow> string + 's" where
  "getPatchesFrom ops env cs = value_refs ops env cs (ps_PatchesFrom (cs_ProfileSpec cs)) (so_empty ops)"

text \<open>The API version and the kind, \<open>None\<close> for a kind the controller does not know.\<close>

definition getPolicyRefGroupVersionKind :: "ref_env \<Rightarrow> policy_ref \<Rightarrow> (string \<times> string) option" where
  "getPolicyRefGroupVersionKind env ref =
     (if pr_Kind ref = rf_SecretKind env \<or> pr_Kind ref = rf_ConfigMapKind env then Some (core_version, pr_Kind ref)
      else if pr_Kind ref = rf_GitRepositoryKind env then Some (rf_FluxVersion env, pr_Kind ref)
      else if pr_Kind ref = rf_BucketKind env \<or> pr_Kind ref = rf_OCIRepositoryKind env
      then Some (rf_FluxVersion env, pr_Kind ref)
      else None)"

fun policy_references :: "'s set_ops \<Rightarrow> ref_env \<Rightarrow> cluster_summary \<Rightarrow> policy_ref list \<Rightarrow> 's \<Rightarrow> string + 's" where
  "policy_references ops env cs [] acc = Inr acc"
| "policy_references ops env cs (pr # prs) acc =
     (case instantiate_ref env cs (pr_Namespace pr) (pr_Name pr) of
        Inl err \<Rightarrow> Inl err
      | Inr (ns, n) \<Rightarrow>
          let gvk = (case getPolicyRefGroupVersionKind env pr of None \<Rightarrow> ([], []) | Some g \<Rightarrow> g)
          in policy_references ops env cs prs (so_insert ops \<lparr>ref_Kind = snd gvk, ref_Namespace = ns, ref_Name = n,
               ref_APIVersion = fst gvk\<rparr> acc))"

definition getPolicyRefReferences :: "'s set_ops \<Rightarrow> ref_env \<Rightarrow> cluster_summary \<Rightarrow> string + 's" where
  "getPolicyRefReferences ops env cs =
     policy_references ops env cs (slice (ps_PolicyRefs (cs_ProfileSpec cs))) (so_empty ops)"

text \<open>\<open>Set.Append\<close>: the elements of the other set are inserted.\<close>

definition set_append :: "'s set_ops \<Rightarrow> 's \<Rightarrow> 's \<Rightarrow> 's" where
  "set_append ops other s = fold (so_insert ops) (so_items ops other) s"

definition kustomization_version :: "ref_env \<Rightarrow> kustomization_ref \<Rightarrow> string" where
  "kustomization_version env kr =
     (if kr_Kind kr = rf_GitRepositoryKind env then rf_FluxVersion env
      else if kr_Kind kr = rf_OCIRepositoryKind env then rf_FluxVersion env
      else if kr_Kind kr = rf_BucketKind env then rf_FluxVersion env
      else core_version)"

fun kustomization_references :: "'s set_ops \<Rightarrow> ref_env \<Rightarrow> cluster_summary \<Rightarrow> kustomization_ref list \<Rightarrow> 's \<Rightarrow>
    string + 's" where
  "kustomization_references ops env cs [] acc = Inr acc"
| "kustomization_references ops env cs (kr # krs) acc =
     (case instantiate_ref env cs (kr_Namespace kr) (kr_Name kr) of
        Inl err \<Rightarrow> Inl err
      | Inr (ns, n) \<Rightarrow>
          let acc = so_insert ops \<lparr>ref_Kind = kr_Kind kr, ref_Namespace = ns, ref_Name = n,
                ref_APIVersion = kustomization_version env kr\<rparr> acc
          in case getKustomizationValueFrom ops env cs kr of
               Inl err \<Rightarrow> if kr_Optional kr then kustomization_references ops env cs krs acc else Inl err
             | Inr values \<Rightarrow> kustomization_references ops env cs krs (set_append ops values acc))"

definition getKustomizationRefReferences :: "'s set_ops \<Rightarrow> ref_env \<Rightarrow> cluster_summary \<Rightarrow> string + 's" where
  "getKustomizationRefReferences ops env cs =
     kustomization_references ops env cs (slice (ps_KustomizationRefs (cs_ProfileSpec cs))) (so_empty ops)"

fun helm_references :: "'s set_ops \<Rightarrow> ref_env \<Rightarrow> cluster_summary \<Rightarrow> helm_chart list \<Rightarrow> 's \<Rightarrow> string + 's" where
  "helm_references ops env cs [] acc = Inr acc"
| "helm_references ops env cs (hc # hcs) acc =
     (case (if isReferencingFluxSource hc then map_sum id (Some \<circ> fst) (getReferencedFluxSourceFromURL env hc)
            else Inr None) of
        Inl err \<Rightarrow> Inl err
      | Inr source \<Rightarrow>
          let acc = (case source of None \<Rightarrow> acc | Some ref \<Rightarrow> so_insert ops ref acc) in
          (case getHelmChartValueFrom ops env cs hc of
             Inl err \<Rightarrow> Inl err
           | Inr values \<Rightarrow> helm_references ops env cs hcs (set_append ops values acc)))"

definition getHelmChartsReferences :: "'s set_ops \<Rightarrow> ref_env \<Rightarrow> cluster_summary \<Rightarrow> string + 's" where
  "getHelmChartsReferences ops env cs =
     helm_references ops env cs (slice (ps_HelmCharts (cs_ProfileSpec cs))) (so_empty ops)"

definition getCurrentReferences :: "'s set_ops \<Rightarrow> ref_env \<Rightarrow> cluster_summary \<Rightarrow> string + 's" where
  "getCurrentReferences ops env cs =
     (case getPolicyRefReferences ops env cs of
        Inl err \<Rightarrow> Inl err
      | Inr s \<Rightarrow>
          (case getKustomizationRefReferences ops env cs of
             Inl err \<Rightarrow> Inl err
           | Inr k \<Rightarrow>
               (case getHelmChartsReferences ops env cs of
                  Inl err \<Rightarrow> Inl err
                | Inr h \<Rightarrow>
                    (case getPatchesFrom ops env cs of
                       Inl err \<Rightarrow> Inl err
                     | Inr p \<Rightarrow> Inr (set_append ops p (set_append ops h (set_append ops k s)))))))"

section \<open>The maps of the reconciler\<close>

text \<open>The position of a ClusterSummary among the requests: namespace and name.\<close>

type_synonym request = "string \<times> string"

record cooldown =
  cd_Until :: time
  cd_Generation :: int

record 's reconciler =
  rc_ReferenceMap :: "(object_reference \<times> 's) list"
  rc_ClusterMap :: "(object_reference \<times> 's) list"
  rc_DeletedInstances :: "(request \<times> time) list"
  rc_NextReconcileTimes :: "(request \<times> cooldown) list"

definition new_reconciler :: "'s reconciler" where
  "new_reconciler = \<lparr>rc_ReferenceMap = [], rc_ClusterMap = [], rc_DeletedInstances = [], rc_NextReconcileTimes = []\<rparr>"

text \<open>\<open>getClusterMapForEntry\<close> and \<open>getReferenceMapForEntry\<close> enter an empty set under a new key.\<close>

definition map_for_entry :: "'s set_ops \<Rightarrow> object_reference \<Rightarrow> (object_reference \<times> 's) list \<Rightarrow>
    's \<times> (object_reference \<times> 's) list" where
  "map_for_entry ops entry m =
     (case map_of m entry of None \<Rightarrow> (so_empty ops, AList.update entry (so_empty ops) m) | Some s \<Rightarrow> (s, m))"

definition insert_consumer :: "'s set_ops \<Rightarrow> object_reference \<Rightarrow> object_reference \<Rightarrow> (object_reference \<times> 's) list \<Rightarrow>
    (object_reference \<times> 's) list" where
  "insert_consumer ops consumer entry m =
     (let r = map_for_entry ops entry m in AList.update entry (so_insert ops consumer (fst r)) (snd r))"

text \<open>One step of the loop that erases a consumer everywhere and drops the entries that become empty.\<close>

definition erase_consumer :: "'s set_ops \<Rightarrow> object_reference \<Rightarrow> object_reference \<Rightarrow> (object_reference \<times> 's) list \<Rightarrow>
    (object_reference \<times> 's) list" where
  "erase_consumer ops consumer k m =
     (let l = so_erase ops consumer (lookup_default (so_empty ops) m k)
      in if so_len ops l = 0 then AList.delete k m else AList.update k l m)"

definition cluster_summary_ref :: "cluster_summary \<Rightarrow> object_reference" where
  "cluster_summary_ref cs = \<lparr>ref_Kind = ''ClusterSummary'', ref_Namespace = cs_Namespace cs, ref_Name = cs_Name cs,
     ref_APIVersion = ''config.projectsveltos.io/v1beta1''\<rparr>"

definition cluster_info :: "ref_env \<Rightarrow> cluster_summary \<Rightarrow> object_reference" where
  "cluster_info env cs =
     (let kind_version = (if css_ClusterType (cs_Spec cs) = ClusterTypeSveltos
            then (rf_SveltosClusterKind env, rf_SveltosVersion env) else (rf_CAPIKind env, rf_CAPIVersion env))
      in \<lparr>ref_Kind = fst kind_version, ref_Namespace = css_ClusterNamespace (cs_Spec cs),
          ref_Name = css_ClusterName (cs_Spec cs), ref_APIVersion = snd kind_version\<rparr>)"

definition updateMaps :: "'s set_ops \<Rightarrow> ref_env \<Rightarrow> cluster_summary \<Rightarrow> 's reconciler \<Rightarrow> string option \<times> 's reconciler" where
  "updateMaps ops env cs r =
     (if ps_SyncMode (cs_ProfileSpec cs) = SyncModeOneTime then (None, r)
      else case getCurrentReferences ops env cs of
        Inl err \<Rightarrow> (Some err, r)
      | Inr currentReferences \<Rightarrow>
          let currentReferences =
                (if IsContinuousWithDriftDetection cs \<and> rf_DriftDetectionConfigMap env \<noteq> []
                 then so_insert ops \<lparr>ref_Kind = rf_ConfigMapKind env, ref_Namespace = rf_SveltosNamespace env,
                        ref_Name = rf_DriftDetectionConfigMap env, ref_APIVersion = core_version\<rparr> currentReferences
                 else currentReferences);
              consumer = cluster_summary_ref cs;
              r = r\<lparr>rc_ClusterMap := insert_consumer ops consumer (cluster_info env cs) (rc_ClusterMap r)\<rparr>;
              r = r\<lparr>rc_ReferenceMap := fold (erase_consumer ops consumer) (map fst (rc_ReferenceMap r)) (rc_ReferenceMap r)\<rparr>
          in (None, r\<lparr>rc_ReferenceMap :=
                fold (insert_consumer ops consumer) (so_items ops currentReferences) (rc_ReferenceMap r)\<rparr>))"

definition cleanMaps :: "'s set_ops \<Rightarrow> cluster_summary \<Rightarrow> 's reconciler \<Rightarrow> 's reconciler" where
  "cleanMaps ops cs r =
     (let consumer = cluster_summary_ref cs;
          erase = map (\<lambda>(k, s). (k, so_erase ops consumer s))
      in r\<lparr>rc_ClusterMap := erase (rc_ClusterMap r), rc_ReferenceMap := erase (rc_ReferenceMap r),
           rc_DeletedInstances := AList.delete (cs_Namespace cs, cs_Name cs) (rc_DeletedInstances r)\<rparr>)"

text \<open>\<open>refreshInternalState\<close> after the registrations are removed. It builds both keys in its own way.\<close>

definition refresh_cluster_map :: "'s set_ops \<Rightarrow> ref_env \<Rightarrow> cluster_summary \<Rightarrow> 's reconciler \<Rightarrow> 's reconciler" where
  "refresh_cluster_map ops env cs r =
     (let kind_version = (case css_ClusterType (cs_Spec cs) of
            ClusterTypeSveltos \<Rightarrow> (cluster_type_text ClusterTypeSveltos, rf_SveltosVersion env)
          | ClusterTypeCapi \<Rightarrow> (rf_CAPIKind env, rf_CAPIVersion env));
          clusterInfo = \<lparr>ref_Kind = fst kind_version, ref_Namespace = css_ClusterNamespace (cs_Spec cs),
            ref_Name = css_ClusterName (cs_Spec cs), ref_APIVersion = snd kind_version\<rparr>;
          clusterSummaryInfo = \<lparr>ref_Kind = ClusterProfileKind, ref_Namespace = cs_Namespace cs, ref_Name = cs_Name cs,
            ref_APIVersion = ''config.projectsveltos.io/v1beta1''\<rparr>
      in r\<lparr>rc_ClusterMap := insert_consumer ops clusterSummaryInfo clusterInfo (rc_ClusterMap r)\<rparr>)"

text \<open>The requests for an object whose key is \<open>key\<close>.\<close>

definition consumer_requests :: "'s set_ops \<Rightarrow> 's \<Rightarrow> request list" where
  "consumer_requests ops s = map (\<lambda>c. (ref_Namespace c, ref_Name c)) (so_items ops s)"

definition requeueClusterSummaryForReference :: "'s set_ops \<Rightarrow> object_reference \<Rightarrow> 's reconciler \<Rightarrow>
    request list \<times> 's reconciler" where
  "requeueClusterSummaryForReference ops key r =
     (let e = map_for_entry ops key (rc_ReferenceMap r)
      in (consumer_requests ops (fst e), r\<lparr>rc_ReferenceMap := snd e\<rparr>))"

definition requeueClusterSummaryForACluster :: "'s set_ops \<Rightarrow> object_reference \<Rightarrow> 's reconciler \<Rightarrow>
    request list \<times> 's reconciler" where
  "requeueClusterSummaryForACluster ops clusterInfo r =
     (let e = map_for_entry ops clusterInfo (rc_ClusterMap r)
      in (consumer_requests ops (fst e), r\<lparr>rc_ClusterMap := snd e\<rparr>))"

section \<open>The cool-down\<close>

definition deleteRequeueAfter :: time where "deleteRequeueAfter = 10"
definition normalRequeueAfter :: time where "normalRequeueAfter = 10"

definition request_of :: "cluster_summary \<Rightarrow> request" where
  "request_of cs = (cs_Namespace cs, cs_Name cs)"

text \<open>The zero \<open>time.Time\<close>, January 1 of year 1, in seconds since 1970.\<close>

definition zero_time :: time where
  "zero_time = - 62135596800"

definition set_next_time :: "time option \<Rightarrow> cluster_summary \<Rightarrow> cluster_summary" where
  "set_next_time t cs = cs\<lparr>cs_Status := (cs_Status cs)\<lparr>cst_NextReconcileTime := t\<rparr>\<rparr>"

definition setNextReconcileTime :: "time \<Rightarrow> time \<Rightarrow> cluster_summary \<Rightarrow> 's reconciler \<Rightarrow> cluster_summary \<times> 's reconciler" where
  "setNextReconcileTime now d cs r =
     (let nextTime = now + d
      in (set_next_time (Some nextTime) cs, r\<lparr>rc_NextReconcileTimes := AList.update (request_of cs)
            \<lparr>cd_Until = nextTime, cd_Generation = om_Generation (cs_Meta cs)\<rparr> (rc_NextReconcileTimes r)\<rparr>))"

definition remainingCooldown :: "time \<Rightarrow> cluster_summary \<Rightarrow> request \<Rightarrow> 's reconciler \<Rightarrow> time" where
  "remainingCooldown now cs req r =
     (let requeueAfter = normalRequeueAfter;
          requeueAfter = (case cst_NextReconcileTime (cs_Status cs) of
              None \<Rightarrow> requeueAfter
            | Some nrt \<Rightarrow> if nrt - now > 0 then nrt - now else requeueAfter)
      in case map_of (rc_NextReconcileTimes r) req of
           None \<Rightarrow> requeueAfter
         | Some cd \<Rightarrow> if cd_Until cd - now > requeueAfter then cd_Until cd - now else requeueAfter)"

definition updateDeletedInstancs :: "time \<Rightarrow> cluster_summary \<Rightarrow> 's reconciler \<Rightarrow> 's reconciler" where
  "updateDeletedInstancs now cs r =
     r\<lparr>rc_DeletedInstances := AList.update (request_of cs) now (rc_DeletedInstances r),
       rc_NextReconcileTimes := AList.delete (request_of cs) (rc_NextReconcileTimes r)\<rparr>"

definition skipReconciliation :: "time \<Rightarrow> cluster_summary \<Rightarrow> request \<Rightarrow> 's reconciler \<Rightarrow>
    bool \<times> cluster_summary \<times> 's reconciler" where
  "skipReconciliation now cs req r =
     (if om_DeletionTimestamp (cs_Meta cs) \<noteq> None \<and>
         \<not> now > lookup_default zero_time (rc_DeletedInstances r) req + deleteRequeueAfter
      then (True, cs, r)
      else case map_of (rc_NextReconcileTimes r) req of
        Some cd \<Rightarrow>
          if cd_Generation cd < om_Generation (cs_Meta cs) then
            (False, set_next_time None cs, r\<lparr>rc_NextReconcileTimes := AList.delete req (rc_NextReconcileTimes r)\<rparr>)
          else if now < cd_Until cd then (True, cs, r)
          else (False, set_next_time None cs, r\<lparr>rc_NextReconcileTimes := AList.delete req (rc_NextReconcileTimes r)\<rparr>)
      | None \<Rightarrow>
          (case cst_NextReconcileTime (cs_Status cs) of
             Some t \<Rightarrow>
               if now < t then
                 (True, cs, r\<lparr>rc_NextReconcileTimes := AList.update req
                    \<lparr>cd_Until = t, cd_Generation = om_Generation (cs_Meta cs)\<rparr> (rc_NextReconcileTimes r)\<rparr>)
               else (False, set_next_time None cs, r)
           | None \<Rightarrow> (False, set_next_time None cs, r)))"

section \<open>The cool-down is honoured\<close>

definition with_generation :: "int \<Rightarrow> cluster_summary \<Rightarrow> cluster_summary" where
  "with_generation g cs = cs\<lparr>cs_Meta := (cs_Meta cs)\<lparr>om_Generation := g\<rparr>\<rparr>"

lemma setters_status [simp]:
  "cst_NextReconcileTime (cs_Status (set_next_time t cs)) = t" "cs_Meta (set_next_time t cs) = cs_Meta cs"
  "cs_Status (with_generation g cs) = cs_Status cs" "om_Generation (cs_Meta (with_generation g cs)) = g"
  "om_DeletionTimestamp (cs_Meta (with_generation g cs)) = om_DeletionTimestamp (cs_Meta cs)"
  by (simp_all add: set_next_time_def with_generation_def)

lemma skip_not_deleted:
  assumes "om_DeletionTimestamp (cs_Meta cs) = None"
  shows "fst (skipReconciliation t cs req r) \<longleftrightarrow> (case map_of (rc_NextReconcileTimes r) req of
      Some cd \<Rightarrow> \<not> cd_Generation cd < om_Generation (cs_Meta cs) \<and> t < cd_Until cd
    | None \<Rightarrow> (case cst_NextReconcileTime (cs_Status cs) of None \<Rightarrow> False | Some n \<Rightarrow> t < n))"
  using assms by (auto simp: skipReconciliation_def split: option.splits)


section \<open>The maps are exact\<close>

definition consumers :: "'s set_ops \<Rightarrow> (object_reference \<times> 's) list \<Rightarrow> object_reference \<Rightarrow> object_reference set" where
  "consumers ops m k = set (so_items ops (lookup_default (so_empty ops) m k))"

lemma map_for_entry_lookup:
  "lookup_default (so_empty ops) (snd (map_for_entry ops entry m)) k = lookup_default (so_empty ops) m k"
  "fst (map_for_entry ops entry m) = lookup_default (so_empty ops) m entry"
  by (auto simp: map_for_entry_def lookup_default_def update_conv split: option.splits)

context object_set
begin

lemma consumers_insert:
  "consumers ops (insert_consumer ops c entry m) k = consumers ops m k \<union> (if k = entry then {c} else {})"
  by (simp add: consumers_def insert_consumer_def Let_def map_for_entry_lookup)

lemma consumers_fold_insert:
  "consumers ops (fold (insert_consumer ops c) entries m) k = consumers ops m k \<union> (if k \<in> set entries then {c} else {})"
  by (induction entries arbitrary: m) (auto simp: consumers_insert)

lemma consumers_erase:
  "consumers ops (erase_consumer ops c k' m) k = (if k = k' then consumers ops m k - {c} else consumers ops m k)"
  by (auto simp: consumers_def erase_consumer_def Let_def)

lemma consumers_fold_erase:
  "consumers ops (fold (erase_consumer ops c) ks m) k = (if k \<in> set ks then consumers ops m k - {c} else consumers ops m k)"
  by (induction ks arbitrary: m) (auto simp: consumers_erase)

lemma consumers_erase_all: "consumers ops (fold (erase_consumer ops c) (map fst m) m) k = consumers ops m k - {c}"
proof (cases "k \<in> set (map fst m)")
  case False
  then have "consumers ops m k = {}" by (simp add: consumers_def lookup_default_absent)
  with False show ?thesis unfolding consumers_fold_erase by simp
qed (simp only: consumers_fold_erase if_True)

lemma consumers_clean: "consumers ops (map (\<lambda>(k, s). (k, so_erase ops c s)) m) k = consumers ops m k - {c}"
proof (cases "map_of m k")
  case None
  then show ?thesis by (simp add: consumers_def lookup_default_def map_of_map)
next
  case (Some s)
  then show ?thesis by (simp add: consumers_def lookup_default_def map_of_map)
qed

lemma elems_set_append: "elems (set_append ops other s) = elems other \<union> elems s"
  by (simp add: set_append_def elems_fold_insert)

end

text \<open>The references updateMaps enters: the current ones and, with drift detection, its configuration.\<close>

definition watched_references :: "ref_env \<Rightarrow> cluster_summary \<Rightarrow> object_reference set \<Rightarrow> object_reference set" where
  "watched_references env cs refs =
     (if IsContinuousWithDriftDetection cs \<and> rf_DriftDetectionConfigMap env \<noteq> []
      then insert \<lparr>ref_Kind = rf_ConfigMapKind env, ref_Namespace = rf_SveltosNamespace env,
             ref_Name = rf_DriftDetectionConfigMap env, ref_APIVersion = core_version\<rparr> refs else refs)"


text \<open>The key under which an instance that is not the shard of a SveltosCluster enters its ClusterSummaries has the type
  of the cluster as its kind, so that no event of the cluster, whose key has its kind, finds them.\<close>

theorem refresh_key_never_found:
  assumes ops: "object_set ops" and kind: "rf_SveltosClusterKind env \<noteq> ''Sveltos''"
    and type: "css_ClusterType (cs_Spec cs) = ClusterTypeSveltos"
  shows "fst (requeueClusterSummaryForACluster ops (cluster_info env cs) (refresh_cluster_map ops env cs r)) =
    fst (requeueClusterSummaryForACluster ops (cluster_info env cs) r)"
proof -
  have "cluster_info env cs \<noteq> \<lparr>ref_Kind = ''Sveltos'', ref_Namespace = css_ClusterNamespace (cs_Spec cs),
      ref_Name = css_ClusterName (cs_Spec cs), ref_APIVersion = rf_SveltosVersion env\<rparr>"
    using kind type by (simp add: cluster_info_def)
  then show ?thesis
    using type by (simp add: requeueClusterSummaryForACluster_def refresh_cluster_map_def cluster_type_text_def
        insert_consumer_def map_for_entry_lookup Let_def)
qed

section \<open>Flux sources\<close>

lemma split_once_at: "(\<forall>i < length s. take 3 (drop i (s @ sep @ t)) \<noteq> sep) \<Longrightarrow> length sep = 3 \<Longrightarrow>
    split_once sep (s @ sep @ t) = Some (s, t)"
proof (induction s)
  case Nil
  then show ?case by (cases sep) auto
next
  case (Cons c s)
  have "take 3 (drop i (s @ sep @ t)) \<noteq> sep" if "i < length s" for i
    using Cons.prems(1) that by (metis Suc_less_eq append_Cons drop_Suc_Cons length_Cons)
  then have IH: "split_once sep (s @ sep @ t) = Some (s, t)" using Cons.IH Cons.prems(2) by blast
  have "take (length sep) (c # s @ sep @ t) \<noteq> sep"
    using Cons.prems(1) [rule_format, of 0] Cons.prems(2) by simp
  then show ?case by (simp add: IH)
qed

lemma no_separator:
  assumes "CHR '':'' \<notin> set s" and "i < length s"
  shows "take 3 (drop i (s @ ''://'' @ t)) \<noteq> ''://''"
proof -
  have "drop i (s @ ''://'' @ t) ! 0 = s ! i" using assms(2) by (simp add: nth_append)
  moreover have "s ! i \<in> set s" using assms(2) by simp
  ultimately have "drop i (s @ ''://'' @ t) ! 0 \<noteq> CHR '':''" using assms(1) by metis
  then show ?thesis by (cases "drop i (s @ ''://'' @ t)") auto
qed

lemma go_join_split: "go_join sep (go_split sep s) = s"
proof (induction s)
  case (Cons c s)
  show ?case
  proof (cases "go_split sep s")
    case (Cons w ws)
    with Cons.IH show ?thesis by (cases ws) auto
  qed simp
qed simp

text \<open>Parsing is the inverse of writing a Flux URL: the namespace, the name and the path, which may hold slashes, come
  back as they were written, and the kind in the spelling of Flux.\<close>

theorem flux_source_roundtrip:
  assumes "CHR ''/'' \<notin> set ns" and "CHR ''/'' \<notin> set name" and "CHR '':'' \<notin> set scheme"
    and "to_lower scheme = to_lower (rf_GitRepositoryKind env)"
    and "hc_RepositoryURL hc = scheme @ ''://'' @ ns @ ''/'' @ name @ ''/'' @ path"
  shows "getReferencedFluxSourceFromURL env hc =
    Inr (\<lparr>ref_Kind = rf_GitRepositoryKind env, ref_Namespace = ns, ref_Name = name, ref_APIVersion = rf_FluxVersion env\<rparr>, path)"
proof -
  have s: "split_once ''://'' (hc_RepositoryURL hc) = Some (scheme, ns @ ''/'' @ name @ ''/'' @ path)"
    unfolding assms(5) by (rule split_once_at) (use no_separator [OF assms(3)] in simp_all)
  have p: "go_split (CHR ''/'') (ns @ CHR ''/'' # name @ CHR ''/'' # path) = ns # name # go_split (CHR ''/'') path"
    by (simp only: go_split_append [OF assms(1)] go_split_append [OF assms(2)])
  have "length (go_split (CHR ''/'') path) \<noteq> 0" by simp
  then show ?thesis
    using assms(4) s p by (simp add: getReferencedFluxSourceFromURL_def Let_def go_join_split not_less_eq numeral_3_eq_3)
qed

section \<open>Witnesses\<close>

definition sample_ref_env :: ref_env where
  "sample_ref_env = \<lparr>rf_Namespace = (\<lambda>_ _ s _. Inr s), rf_Name = (\<lambda>_ _ s _. Inr s), rf_SecretKind = ''Secret'',
     rf_ConfigMapKind = ''ConfigMap'', rf_GitRepositoryKind = ''GitRepository'', rf_OCIRepositoryKind = ''OCIRepository'',
     rf_BucketKind = ''Bucket'', rf_FluxVersion = ''source.toolkit.fluxcd.io/v1'', rf_CAPIKind = ''Cluster'',
     rf_CAPIVersion = ''cluster.x-k8s.io/v1beta1'', rf_SveltosClusterKind = ''SveltosCluster'',
     rf_SveltosVersion = ''lib.projectsveltos.io/v1beta1'', rf_DriftDetectionConfigMap = [], rf_SveltosNamespace = ''projectsveltos''\<rparr>"

definition sample_flux_chart :: helm_chart where
  "sample_flux_chart = zero_helm_chart\<lparr>hc_RepositoryURL := ''gitrepository://'' @ ''flux'' @ ''/'' @ ''repo'' @ ''/'' @ ''charts/nginx''\<rparr>"

definition sample_sveltos_cs :: cluster_summary where
  "sample_sveltos_cs = (sample_cs ''one'' [sample_flux_chart])\<lparr>cs_Spec := (cs_Spec (sample_cs ''one'' [sample_flux_chart]))
     \<lparr>css_ClusterType := ClusterTypeSveltos\<rparr>\<rparr>"

lemma sample_references:
  "\<exists>refs. getCurrentReferences list_set_ops sample_ref_env (sample_cs ''one'' [sample_flux_chart]) = Inr refs \<and>
     \<lparr>ref_Kind = ''GitRepository'', ref_Namespace = ''flux'', ref_Name = ''repo'',
        ref_APIVersion = ''source.toolkit.fluxcd.io/v1''\<rparr> \<in> set (so_items list_set_ops refs)"
proof -
  let ?ref = "\<lparr>ref_Kind = ''GitRepository'', ref_Namespace = ''flux'', ref_Name = ''repo'',
     ref_APIVersion = ''source.toolkit.fluxcd.io/v1''\<rparr>"
  have "getCurrentReferences list_set_ops sample_ref_env (sample_cs ''one'' [sample_flux_chart]) = Inr [?ref]" by code_simp
  then show ?thesis by (auto simp: list_set_ops_def)
qed



theorem refresh_key_never_found_witness:
  "fst (requeueClusterSummaryForACluster list_set_ops (cluster_info sample_ref_env sample_sveltos_cs)
     (refresh_cluster_map list_set_ops sample_ref_env sample_sveltos_cs new_reconciler)) = []"
  using refresh_key_never_found [OF list_object_set.object_set_axioms, of sample_ref_env sample_sveltos_cs new_reconciler]
  by (simp add: sample_ref_env_def sample_sveltos_cs_def new_reconciler_def requeueClusterSummaryForACluster_def
      map_for_entry_def consumer_requests_def list_set_ops_def)

theorem flux_source_roundtrip_witness:
  "getReferencedFluxSourceFromURL sample_ref_env sample_flux_chart =
    Inr (\<lparr>ref_Kind = ''GitRepository'', ref_Namespace = ''flux'', ref_Name = ''repo'',
      ref_APIVersion = ''source.toolkit.fluxcd.io/v1''\<rparr>, ''charts/nginx'')"
proof -
  have v: "to_lower ''gitrepository'' = to_lower (rf_GitRepositoryKind sample_ref_env)"
    "hc_RepositoryURL sample_flux_chart = ''gitrepository'' @ ''://'' @ ''flux'' @ ''/'' @ ''repo'' @ ''/'' @ ''charts/nginx''"
    "rf_GitRepositoryKind sample_ref_env = ''GitRepository''" "rf_FluxVersion sample_ref_env = ''source.toolkit.fluxcd.io/v1''"
    by code_simp+
  show ?thesis
    using flux_source_roundtrip [OF _ _ _ v(1,2)] by (simp add: v(3,4))
qed

end
