(* ===== verification/Dependency_Gates.thy ===== *)
theory Dependency_Gates
  imports Feature_Status Cluster_Ops
begin

text \<open>
  The gates between profiles on one cluster (areDependenciesDeployed and areDependentsRemoved of
  controllers/clustersummary_controller.go, controllers/clustersummary_transition.go, selectorMatchesCluster of
  controllers/handlers_helm.go): a ClusterSummary is deployed after its prerequisites, undeployed after its dependents, and
  its teardown waits for the profiles that replace it.
\<close>

section \<open>Prerequisites and dependents\<close>

fun dependencies_deployed :: "summary_lister \<Rightarrow> string \<Rightarrow> cluster_summary \<Rightarrow> string list \<Rightarrow>
    api_error + (bool \<times> string) option" where
  "dependencies_deployed lister kind cs [] = Inr None"
| "dependencies_deployed lister kind cs (profileName # names) =
     (case GetClusterSummary lister kind profileName (css_ClusterNamespace (cs_Spec cs)) (css_ClusterName (cs_Spec cs))
             (css_ClusterType (cs_Spec cs)) of
        Inl ApiNotFound \<Rightarrow> Inr (Some (False, kind @ '' '' @ profileName @
          '' is a dependency. The ClusterSummary instance for this profile/cluster was not found''))
      | Inl err \<Rightarrow> Inl err
      | Inr prerequisite \<Rightarrow>
          if \<not> isCluterSummaryProvisioned prerequisite then
            Inr (Some (False, kind @ '' '' @ profileName @ '' is a dependency and it is not fully deployed yet''))
          else dependencies_deployed lister kind cs names)"

text \<open>The result is whether all dependencies are deployed, and the message. A \<open>nil\<close> list is an empty one here.\<close>

definition areDependenciesDeployed :: "summary_lister \<Rightarrow> (string \<Rightarrow> string option) \<Rightarrow> cluster_summary \<Rightarrow>
    api_error + bool \<times> string" where
  "areDependenciesDeployed lister group_of cs =
     (case GetProfileOwnerReference group_of cs of
        Inl err \<Rightarrow> Inl (ApiError (''failed to get profile owner: '' @ err_text err))
      | Inr profileReference \<Rightarrow>
          let dependsOn = ps_DependsOn (cs_ProfileSpec cs) in
          case dependencies_deployed lister (own_Kind profileReference) cs dependsOn of
            Inl err \<Rightarrow> Inl err
          | Inr (Some r) \<Rightarrow> Inr r
          | Inr None \<Rightarrow> Inr (True, if dependsOn = [] then ''no dependencies'' else ''All dependencies deployed''))"

definition cluster_options :: "cluster_summary \<Rightarrow> list_option list" where
  "cluster_options cs =
     [InNamespace (css_ClusterNamespace (cs_Spec cs)),
      MatchingLabels [(ClusterNameLabel, css_ClusterName (cs_Spec cs)),
        (ClusterTypeLabel, cluster_type_text (css_ClusterType (cs_Spec cs)))]]"

text \<open>The first other ClusterSummary of the cluster that still names the profile.\<close>

definition still_depends :: "string \<Rightarrow> cluster_summary \<Rightarrow> cluster_summary \<Rightarrow> bool" where
  "still_depends profileName cs other \<longleftrightarrow>
     cs_Name other \<noteq> cs_Name cs \<and> list_ex (\<lambda>d. d = profileName) (ps_DependsOn (cs_ProfileSpec other))"

definition areDependentsRemoved :: "summary_lister \<Rightarrow> (string \<Rightarrow> string option) \<Rightarrow> cluster_summary \<Rightarrow>
    api_error + bool \<times> string" where
  "areDependentsRemoved lister group_of cs =
     (case GetProfileOwnerReference group_of cs of
        Inl err \<Rightarrow> Inl (ApiError (''failed to get profile owner: '' @ err_text err))
      | Inr profileReference \<Rightarrow>
          (case lister (cluster_options cs) of
             Inl err \<Rightarrow> Inl err
           | Inr css \<Rightarrow>
               (case List.find (still_depends (own_Name profileReference) cs) css of
                  Some other \<Rightarrow> Inr (False, cs_Name other @ '' still depends on this profile and has not been removed yet'')
                | None \<Rightarrow> Inr (True, []))))"

section \<open>Transitions\<close>

record transition_successor =
  ts_kind :: string
  ts_name :: string
  ts_clusterSelector :: serialized
  ts_clusterRefs :: "object_reference list"

definition containsName :: "string list \<Rightarrow> string \<Rightarrow> bool" where
  "containsName names target = list_ex (\<lambda>n. n = target) names"

text \<open>\<open>list_profiles kind namespace\<close> answers the list calls; ClusterProfiles are listed with an empty namespace.\<close>

definition getTransitionSuccessors :: "(string \<Rightarrow> string \<Rightarrow> api_error + profile list) \<Rightarrow> string \<Rightarrow> string \<Rightarrow> string \<Rightarrow>
    api_error + transition_successor list" where
  "getTransitionSuccessors list_profiles predecessorKind predecessorName predecessorNamespace =
     (let kind = (if predecessorKind = ProfileKind then ProfileKind else ClusterProfileKind);
          namespace = (if predecessorKind = ProfileKind then predecessorNamespace else [])
      in case list_profiles kind namespace of
           Inl err \<Rightarrow> Inl err
         | Inr profiles \<Rightarrow> Inr (map (\<lambda>p. \<lparr>ts_kind = kind, ts_name = om_Name (prof_Meta p),
               ts_clusterSelector = ps_ClusterSelector (prof_Spec p), ts_clusterRefs = ps_ClusterRefs (prof_Spec p)\<rparr>)
             (filter (\<lambda>p. containsName (ps_TransitionFrom (prof_Spec p)) predecessorName) profiles)))"

definition isChartTransitioningFrom :: "(string \<Rightarrow> string option) \<Rightarrow> cluster_summary \<Rightarrow> cluster_summary \<Rightarrow> bool" where
  "isChartTransitioningFrom group_of currentHelmManager claimingHelmManager =
     (let transitionFrom = ps_TransitionFrom (cs_ProfileSpec claimingHelmManager) in
      if transitionFrom = [] then False
      else case GetProfileOwnerReference group_of currentHelmManager of
        Inl _ \<Rightarrow> False
      | Inr currentOwner \<Rightarrow>
          (case GetProfileOwnerReference group_of claimingHelmManager of
             Inl _ \<Rightarrow> False
           | Inr claimingOwner \<Rightarrow>
               if own_Kind currentOwner \<noteq> own_Kind claimingOwner then False
               else containsName transitionFrom (own_Name currentOwner)))"

text \<open>\<open>ToSelector\<close> of libsveltos: \<open>None\<close> its error, else whether the selector is empty and what it matches.\<close>

type_synonym to_selector = "serialized \<Rightarrow> (bool \<times> ((string \<times> string) list \<Rightarrow> bool)) option"

definition selectorMatchesCluster :: "to_selector \<Rightarrow> serialized \<Rightarrow> object_reference list \<Rightarrow> cluster_summary \<Rightarrow>
    (string \<times> string) list \<Rightarrow> bool" where
  "selectorMatchesCluster toSelector clusterSelector clusterRefs cs clusterLabels =
     (if (case toSelector clusterSelector of
            None \<Rightarrow> False | Some (isEmpty, matches) \<Rightarrow> \<not> isEmpty \<and> matches clusterLabels) then True
      else list_ex (\<lambda>ref. ref_Namespace ref = css_ClusterNamespace (cs_Spec cs) \<and>
             ref_Name ref = css_ClusterName (cs_Spec cs)) clusterRefs)"

record transition_env =
  te_list_profiles :: "string \<Rightarrow> string \<Rightarrow> api_error + profile list"
  te_cluster_labels :: "api_error + (string \<times> string) list"
  te_toSelector :: to_selector

fun successors_provisioned :: "summary_lister \<Rightarrow> to_selector \<Rightarrow> cluster_summary \<Rightarrow> (string \<times> string) list \<Rightarrow>
    transition_successor list \<Rightarrow> api_error + bool \<times> string" where
  "successors_provisioned lister toSelector cs labels [] = Inr (True, ''all transitioning successors are provisioned'')"
| "successors_provisioned lister toSelector cs labels (s # ss) =
     (if \<not> selectorMatchesCluster toSelector (ts_clusterSelector s) (ts_clusterRefs s) cs labels
      then successors_provisioned lister toSelector cs labels ss
      else case GetClusterSummary lister (ts_kind s) (ts_name s) (css_ClusterNamespace (cs_Spec cs))
                  (css_ClusterName (cs_Spec cs)) (css_ClusterType (cs_Spec cs)) of
        Inl ApiNotFound \<Rightarrow> Inr (False, ts_kind s @ '' '' @ ts_name s @
          '' is replacing this profile on this cluster but has not deployed yet'')
      | Inl err \<Rightarrow> Inl err
      | Inr successorClusterSummary \<Rightarrow>
          if \<not> isCluterSummaryProvisioned successorClusterSummary then
            Inr (False, ts_kind s @ '' '' @ ts_name s @
              '' is replacing this profile on this cluster but is not fully deployed yet'')
          else successors_provisioned lister toSelector cs labels ss)"

definition areSuccessorsProvisioned :: "summary_lister \<Rightarrow> (string \<Rightarrow> string option) \<Rightarrow> transition_env \<Rightarrow>
    cluster_summary \<Rightarrow> api_error + bool \<times> string" where
  "areSuccessorsProvisioned lister group_of env cs =
     (case GetProfileOwnerReference group_of cs of
        Inl err \<Rightarrow> Inl (ApiError (''failed to get profile owner: '' @ err_text err))
      | Inr profileReference \<Rightarrow>
          (case getTransitionSuccessors (te_list_profiles env) (own_Kind profileReference) (own_Name profileReference)
                  (cs_Namespace cs) of
             Inl err \<Rightarrow> Inl err
           | Inr [] \<Rightarrow> Inr (True, ''no transitions pending'')
           | Inr successors \<Rightarrow>
               (case te_cluster_labels env of
                  Inl ApiNotFound \<Rightarrow> Inr (True, ''cluster not found'')
                | Inl err \<Rightarrow> Inl err
                | Inr clusterLabels \<Rightarrow> successors_provisioned lister (te_toSelector env) cs clusterLabels successors)))"

end
