(* ===== verification/Profile_Controller.thy ===== *)
theory Profile_Controller
  imports Cluster_Configuration Profile_Cleanup Dependency_Manager Reconcile_Maps Cluster_Selection Dependency_Gates
begin

text \<open>
  The controllers of ClusterProfile and Profile (controllers/clusterprofile_controller.go, profile_controller.go, the common
  part in profile_utils.go and the requests in profile_transformation_common.go): which clusters a profile matches, the maps that wake it up, the
  references a tenant may use, and the order of the steps when a profile is reconciled and when it is removed.

  The two controllers differ in the scope of what they look up and in where the changed object is written back. A run works on the object in
  memory and on a \<open>profile_world\<close>: the maps, the dependency manager, the ClusterConfigurations, the writes of the
  rollout and the clean-up, and the object the API server stores.
\<close>

section \<open>The references of a Profile\<close>

definition limit_value :: "string \<Rightarrow> value_from \<Rightarrow> value_from" where
  "limit_value ns v = v\<lparr>vf_Namespace := ns\<rparr>"

definition limit_secret :: "string \<Rightarrow> secret_reference option \<Rightarrow> secret_reference option" where
  "limit_secret ns = map_option (\<lambda>s. s\<lparr>sec_Namespace := ns\<rparr>)"

definition limit_policy :: "string \<Rightarrow> policy_ref \<Rightarrow> policy_ref" where
  "limit_policy ns pr = pr\<lparr>pr_Namespace := ns,
     pr_RemoteURL := map_option (\<lambda>u. u\<lparr>ru_SecretRef := limit_secret ns (ru_SecretRef u)\<rparr>) (pr_RemoteURL pr)\<rparr>"

definition limitKustomizationRefsToNamespace :: "string \<Rightarrow> kustomization_ref \<Rightarrow> kustomization_ref" where
  "limitKustomizationRefsToNamespace ns kr = kr\<lparr>kr_ValuesFrom := map (limit_value ns) (kr_ValuesFrom kr)\<rparr>"

definition limit_kustomization :: "string \<Rightarrow> kustomization_ref \<Rightarrow> kustomization_ref" where
  "limit_kustomization ns kr = limitKustomizationRefsToNamespace ns (kr\<lparr>kr_Namespace := ns\<rparr>)"

definition limit_chart :: "string \<Rightarrow> helm_chart \<Rightarrow> helm_chart" where
  "limit_chart ns hc = hc
     \<lparr>hc_RegistryCredentialsConfig := map_option (\<lambda>c. c\<lparr>rcc_CredentialsSecretRef := limit_secret ns (rcc_CredentialsSecretRef c),
        rcc_CASecretRef := limit_secret ns (rcc_CASecretRef c)\<rparr>) (hc_RegistryCredentialsConfig hc),
      hc_ValuesFrom := map (limit_value ns) (hc_ValuesFrom hc),
      hc_SignatureVerification := map_option (\<lambda>v. v\<lparr>cv_SecretRef := limit_secret ns (cv_SecretRef v)\<rparr>) (hc_SignatureVerification hc),
      hc_ProvenanceVerification := map_option (\<lambda>v. v\<lparr>pv_KeyringSecretRef := (pv_KeyringSecretRef v)\<lparr>sec_Namespace := ns\<rparr>\<rparr>)
        (hc_ProvenanceVerification hc)\<rparr>"

definition limit_spec :: "string \<Rightarrow> profile_spec \<Rightarrow> profile_spec" where
  "limit_spec ns s = s
     \<lparr>ps_ClusterRefs := map (\<lambda>r. r\<lparr>ref_Namespace := ns\<rparr>) (ps_ClusterRefs s),
      ps_PolicyRefs := map_option (map (limit_policy ns)) (ps_PolicyRefs s),
      ps_KustomizationRefs := map_option (map (limit_kustomization ns)) (ps_KustomizationRefs s),
      ps_HelmCharts := map_option (map (limit_chart ns)) (ps_HelmCharts s),
      ps_PatchesFrom := map (limit_value ns) (ps_PatchesFrom s),
      ps_TemplateResourceRefs := map (\<lambda>t. t\<lparr>trr_Resource := (trr_Resource t)\<lparr>ref_Namespace := ns\<rparr>\<rparr>) (ps_TemplateResourceRefs s)\<rparr>"

definition limitReferencesToNamespace :: "profile \<Rightarrow> profile" where
  "limitReferencesToNamespace p = p\<lparr>prof_Spec := limit_spec (om_Namespace (prof_Meta p)) (prof_Spec p)\<rparr>"

section \<open>State and environment\<close>

record 's profile_reconciler =
  pc_SetMap :: "(object_reference \<times> 's) list"
  pc_ClusterMap :: "(object_reference \<times> 's) list"
  pc_Profiles :: "(object_reference \<times> serialized) list"
  pc_ClusterLabels :: "(object_reference \<times> (string \<times> string) list) list"

record 's profile_world =
  pw_Reconciler :: "'s profile_reconciler"
  pw_Deps :: "'s dependency_manager option"
  pw_Configs :: configs
  pw_Writes :: "cleanup_write list"
  pw_Stored :: "profile option"

text \<open>\<open>pe_GetMatchingClusters\<close> is the lookup of libsveltos by selector and namespace, \<open>pe_GetSet\<close> the clusters a Set or ClusterSet has
  selected. \<open>pe_Patch\<close> is the fault of the patch calls, in their order.\<close>

record profile_env =
  pe_Cleanup :: cleanup_env
  pe_Config :: config_env
  pe_Get :: "api_error option"
  pe_Scope :: "string option"
  pe_Patch :: "nat \<Rightarrow> string option"
  pe_GetMatchingClusters :: "serialized \<Rightarrow> string \<Rightarrow> string + object_reference list"
  pe_GetSet :: "string \<Rightarrow> string \<Rightarrow> api_error + object_reference list"
  pe_SetKind :: string
  pe_ClusterSetKind :: string

datatype profile_error =
    ConfigurationsFailed dep_error
  | ReportsFailed api_error
  | SummariesFailed rollout_error
  | CleanupError cleanup_error
  | ManagerUnavailable string
  | WaitingForPausedClustersError "object_reference list"
  | NotAllSummariesGone
  | CannotRemoveFinalizer

definition getKeyFromObject :: "profile \<Rightarrow> object_reference" where
  "getKeyFromObject p = \<lparr>ref_Kind = prof_Kind p, ref_Namespace = om_Namespace (prof_Meta p), ref_Name = prof_Name p,
     ref_APIVersion = ''config.projectsveltos.io/v1beta1''\<rparr>"

text \<open>The patch helper writes what changed since the scope was made. A Profile is limited to its namespace before that, so its stored
  specification stays as it is. The API server drops a deleted object that has no finalizer left.\<close>

definition patch_object :: "profile_env \<Rightarrow> nat \<Rightarrow> profile \<Rightarrow> 's profile_world \<Rightarrow> string option \<times> 's profile_world" where
  "patch_object env n p w =
     (case pe_Patch env n of
        Some e \<Rightarrow> (Some e, w)
      | None \<Rightarrow> (None, w\<lparr>pw_Stored :=
          (if om_DeletionTimestamp (prof_Meta p) \<noteq> None \<and> om_Finalizers (prof_Meta p) = [] then None
           else map_option (\<lambda>stored. stored\<lparr>prof_Meta := prof_Meta p, prof_Status := prof_Status p\<rparr>) (pw_Stored w))\<rparr>))"

section \<open>Maps\<close>

definition getConsumersForEntry :: "'s set_ops \<Rightarrow> (object_reference \<times> 's) list \<Rightarrow> object_reference \<Rightarrow>
    's \<times> (object_reference \<times> 's) list" where
  "getConsumersForEntry ops currentMap entry = map_for_entry ops entry currentMap"

definition set_info :: "profile_env \<Rightarrow> string \<Rightarrow> string \<Rightarrow> string \<Rightarrow> object_reference" where
  "set_info env kind namespace name = \<lparr>ref_Kind = kind, ref_Namespace = namespace, ref_Name = name,
     ref_APIVersion = re_SveltosAPIVersion (ce_Rollout (pe_Cleanup env))\<rparr>"

definition clean_maps :: "'s set_ops \<Rightarrow> object_reference \<Rightarrow> 's profile_reconciler \<Rightarrow> 's profile_reconciler" where
  "clean_maps ops key r =
     (let erase = map (\<lambda>(k, s). (k, so_erase ops key s))
      in r\<lparr>pc_Profiles := AList.delete key (pc_Profiles r), pc_ClusterMap := erase (pc_ClusterMap r), pc_SetMap := erase (pc_SetMap r)\<rparr>)"

definition track_clusters :: "'s set_ops \<Rightarrow> object_reference \<Rightarrow> object_reference list \<Rightarrow> 's profile_reconciler \<Rightarrow> 's profile_reconciler" where
  "track_clusters ops key clusters r =
     r\<lparr>pc_ClusterMap := fold (insert_consumer ops key) clusters (pc_ClusterMap r)\<rparr>"

definition renew_maps :: "'s set_ops \<Rightarrow> object_reference \<Rightarrow> object_reference list \<Rightarrow> profile \<Rightarrow> 's profile_reconciler \<Rightarrow>
    's profile_reconciler" where
  "renew_maps ops key sets p r =
     (let drop = (\<lambda>m. fold (erase_consumer ops key) (map fst m) m)
      in r\<lparr>pc_ClusterMap := fold (insert_consumer ops key) (matching_refs p) (drop (pc_ClusterMap r)),
           pc_SetMap := fold (insert_consumer ops key) sets (drop (pc_SetMap r)),
           pc_Profiles := AList.update key (ps_ClusterSelector (prof_Spec p)) (pc_Profiles r)\<rparr>)"

definition clusterprofile_cleanMaps :: "'s set_ops \<Rightarrow> profile \<Rightarrow> 's profile_reconciler \<Rightarrow> 's profile_reconciler" where
  "clusterprofile_cleanMaps ops p = clean_maps ops (getKeyFromObject p)"

definition profile_cleanMaps :: "'s set_ops \<Rightarrow> profile \<Rightarrow> 's profile_reconciler \<Rightarrow> 's profile_reconciler" where
  "profile_cleanMaps ops p = clean_maps ops (getKeyFromObject p)"

definition clusterprofile_trackClusters :: "'s set_ops \<Rightarrow> profile \<Rightarrow> object_reference list \<Rightarrow> 's profile_reconciler \<Rightarrow>
    's profile_reconciler" where
  "clusterprofile_trackClusters ops p = track_clusters ops (getKeyFromObject p)"

definition profile_trackClusters :: "'s set_ops \<Rightarrow> profile \<Rightarrow> object_reference list \<Rightarrow> 's profile_reconciler \<Rightarrow>
    's profile_reconciler" where
  "profile_trackClusters ops p = track_clusters ops (getKeyFromObject p)"

definition clusterprofile_updateMaps :: "'s set_ops \<Rightarrow> profile_env \<Rightarrow> profile \<Rightarrow> 's profile_reconciler \<Rightarrow> 's profile_reconciler" where
  "clusterprofile_updateMaps ops env p =
     renew_maps ops (getKeyFromObject p) (map (set_info env (pe_ClusterSetKind env) []) (ps_SetRefs (prof_Spec p))) p"

definition profile_updateMaps :: "'s set_ops \<Rightarrow> profile_env \<Rightarrow> profile \<Rightarrow> 's profile_reconciler \<Rightarrow> 's profile_reconciler" where
  "profile_updateMaps ops env p =
     renew_maps ops (getKeyFromObject p)
       (map (set_info env (pe_SetKind env) (om_Namespace (prof_Meta p))) (ps_SetRefs (prof_Spec p))) p"

section \<open>Requests\<close>

text \<open>The order of \<open>pc_Profiles\<close> is the order in which \<open>range\<close> visits the map.\<close>

definition requeueForCluster :: "'s set_ops \<Rightarrow> to_selector \<Rightarrow> object_reference \<Rightarrow> (string \<times> string) list \<Rightarrow> 's profile_reconciler \<Rightarrow>
    request list \<times> 's profile_reconciler" where
  "requeueForCluster ops toSelector clusterInfo clusterLabels r =
     (let e = getConsumersForEntry ops (pc_ClusterMap r) clusterInfo;
          r = r\<lparr>pc_ClusterMap := snd e, pc_ClusterLabels := AList.update clusterInfo clusterLabels (pc_ClusterLabels r)\<rparr>;
          now_matching = filter (\<lambda>(k, selector). case toSelector selector of
            None \<Rightarrow> False | Some (_, matches) \<Rightarrow> matches clusterLabels) (pc_Profiles r)
      in (consumer_requests ops (fst e) @ map (\<lambda>(k, _). (ref_Namespace k, ref_Name k)) now_matching, r))"

definition requeueForSet :: "'s set_ops \<Rightarrow> object_reference \<Rightarrow> 's profile_reconciler \<Rightarrow> request list \<times> 's profile_reconciler" where
  "requeueForSet ops setInfo r =
     (let e = getConsumersForEntry ops (pc_SetMap r) setInfo
      in (consumer_requests ops (fst e), r\<lparr>pc_SetMap := snd e\<rparr>))"

section \<open>The clusters a profile matches\<close>

definition getMatchingClusters :: "profile_env \<Rightarrow> string \<Rightarrow> serialized \<Rightarrow> object_reference list \<Rightarrow> string + object_reference list" where
  "getMatchingClusters env namespace clusterSelector clusterRefs =
     (case pe_GetMatchingClusters env clusterSelector namespace of
        Inl err \<Rightarrow> Inl err | Inr matchingCluster \<Rightarrow> Inr (matchingCluster @ clusterRefs))"

fun clusters_from_sets :: "profile_env \<Rightarrow> string \<Rightarrow> string list \<Rightarrow> api_error + object_reference list" where
  "clusters_from_sets env namespace [] = Inr []"
| "clusters_from_sets env namespace (name # names) =
     (case pe_GetSet env namespace name of
        Inl ApiNotFound \<Rightarrow> clusters_from_sets env namespace names
      | Inl err \<Rightarrow> Inl err
      | Inr selected \<Rightarrow>
          (case clusters_from_sets env namespace names of Inl err \<Rightarrow> Inl err | Inr clusters \<Rightarrow> Inr (selected @ clusters)))"

definition getClustersFromClusterSets :: "profile_env \<Rightarrow> string list \<Rightarrow> api_error + object_reference list" where
  "getClustersFromClusterSets env = clusters_from_sets env []"

definition getClustersFromSets :: "profile_env \<Rightarrow> string \<Rightarrow> string list \<Rightarrow> api_error + object_reference list" where
  "getClustersFromSets env = clusters_from_sets env"

definition removeDuplicates :: "'s set_ops \<Rightarrow> object_reference list \<Rightarrow> object_reference list" where
  "removeDuplicates ops references = so_items ops (fold (so_insert ops) references (so_empty ops))"

section \<open>Steps common to both controllers\<close>

definition isProfilePaused :: "profile \<Rightarrow> bool" where
  "isProfilePaused p \<longleftrightarrow> map_of (om_Annotations (prof_Meta p)) ProfilePausedAnnotation \<noteq> None"

definition on_profile_meta :: "(object_meta \<Rightarrow> object_meta) \<Rightarrow> profile \<Rightarrow> profile" where
  "on_profile_meta g p = p\<lparr>prof_Meta := g (prof_Meta p)\<rparr>"

definition add_finalizer :: "string \<Rightarrow> profile \<Rightarrow> profile" where
  "add_finalizer f = on_profile_meta (\<lambda>m. if f \<in> set (om_Finalizers m) then m else m\<lparr>om_Finalizers := om_Finalizers m @ [f]\<rparr>)"

definition remove_finalizer :: "string \<Rightarrow> profile \<Rightarrow> profile" where
  "remove_finalizer f = on_profile_meta (\<lambda>m. m\<lparr>om_Finalizers := filter (\<lambda>x. x \<noteq> f) (om_Finalizers m)\<rparr>)"

definition addFinalizer :: "profile_env \<Rightarrow> nat \<Rightarrow> string \<Rightarrow> profile \<Rightarrow> 's profile_world \<Rightarrow> profile \<times> string option \<times> 's profile_world" where
  "addFinalizer env n finalizer p w = (let p = add_finalizer finalizer p in (p, patch_object env n p w))"

definition add_writes :: "cleanup_write list \<Rightarrow> 's profile_world \<Rightarrow> 's profile_world" where
  "add_writes ws w = w\<lparr>pw_Writes := pw_Writes w @ ws\<rparr>"

definition update_deps :: "'s set_ops \<Rightarrow> object_reference \<Rightarrow> object_reference list \<Rightarrow> object_reference list \<Rightarrow> 's dependency_manager \<Rightarrow>
    's profile_world \<Rightarrow> 's profile_world" where
  "update_deps ops dependent matchingClusters prerequisites m w =
     w\<lparr>pw_Deps := Some (UpdateDependencies ops dependent matchingClusters prerequisites m)\<rparr>"

definition reconcileDeleteCommon :: "'s set_ops \<Rightarrow> profile_env \<Rightarrow> string \<Rightarrow> profile \<Rightarrow> 's profile_world \<Rightarrow>
    profile \<times> profile_error option \<times> 's profile_world" where
  "reconcileDeleteCommon ops env finalizer p w =
     (let p = SetMatchingClusterRefs [] p in
      case GetManagerInstance (pw_Deps w) of
        Inl err \<Rightarrow> (p, Some (ManagerUnavailable err), w)
      | Inr depManager \<Rightarrow>
          let w = update_deps ops (getKeyFromObject p) [] [] depManager w;
              (ws, err) = cleanClusterSummaries (pe_Cleanup env) 0 p;
              w = add_writes ws w
          in case err of
               Some err \<Rightarrow>
                 (case (if err = ClusterSummariesStillPresent then getWaitingForPausedClustersError (pe_Cleanup env) 1 p else None) of
                    Some clusters \<Rightarrow> (p, Some (WaitingForPausedClustersError clusters), w)
                  | None \<Rightarrow> (p, Some (CleanupError err), w))
             | None \<Rightarrow>
                 if \<not> allClusterSummariesGone (pe_Cleanup env) 2 p then (p, Some NotAllSummariesGone, w)
                 else
                   let (err, configs) = cleanClusterConfigurations (pe_Config env) p (pw_Configs w);
                       w = w\<lparr>pw_Configs := configs\<rparr>
                   in case err of
                        Some err \<Rightarrow> (p, Some (ConfigurationsFailed err), w)
                      | None \<Rightarrow>
                          let (ws, err) = cleanClusterReports (pe_Cleanup env) p; w = add_writes ws w
                          in case err of
                               Some err \<Rightarrow> (p, Some (ReportsFailed err), w)
                             | None \<Rightarrow>
                                 if \<not> canRemoveProfileFinalizer (pe_Cleanup env) 3 p then (p, Some CannotRemoveFinalizer, w)
                                 else (remove_finalizer finalizer p, None, w))"

definition reconcileNormalCommon :: "'s set_ops \<Rightarrow> profile_env \<Rightarrow> profile \<Rightarrow> 's profile_world \<Rightarrow>
    profile \<times> profile_error option \<times> 's profile_world" where
  "reconcileNormalCommon ops env p w =
     (let (err, configs) = updateClusterConfigurations (pe_Config env) p (pw_Configs w);
          w = w\<lparr>pw_Configs := configs\<rparr>
      in case err of
           Some err \<Rightarrow> (p, Some (ConfigurationsFailed err), w)
         | None \<Rightarrow>
             let (ws, err) = updateClusterReports (pe_Cleanup env) p; w = add_writes ws w
             in case err of
                  Some err \<Rightarrow> (p, Some (ReportsFailed err), w)
                | None \<Rightarrow>
                    let (err, ws, p) = updateClusterSummaries ops (ce_Rollout (pe_Cleanup env)) p;
                        w = add_writes (map SummaryWrite ws) w
                    in case err of
                         Some err \<Rightarrow> (p, Some (SummariesFailed err), w)
                       | None \<Rightarrow>
                           let (ws, err) = cleanClusterSummaries (pe_Cleanup env) 0 p; w = add_writes ws w
                           in case err of
                                Some err \<Rightarrow> (p, Some (CleanupError err), w)
                              | None \<Rightarrow>
                                  let (err, configs) = cleanClusterConfigurations (pe_Config env) p (pw_Configs w);
                                      w = w\<lparr>pw_Configs := configs\<rparr>
                                  in case err of
                                       Some err \<Rightarrow> (p, Some (ConfigurationsFailed err), w)
                                     | None \<Rightarrow>
                                         (case GetManagerInstance (pw_Deps w) of
                                            Inl err \<Rightarrow> (p, Some (ManagerUnavailable err), w)
                                          | Inr depManager \<Rightarrow>
                                              (p, None, update_deps ops (getKeyFromObject p) (matching_refs p)
                                                 (getPrerequesites (prof_Kind p) (om_Namespace (prof_Meta p))
                                                    (ps_DependsOn (prof_Spec p))) depManager w)))"

section \<open>The reconcilers\<close>

definition pausedClustersRequeueAfter :: time where "pausedClustersRequeueAfter = 600"

definition ClusterProfileFinalizer :: string where "ClusterProfileFinalizer = ''clusterprofilefinalizer.projectsveltos.io''"
definition ProfileFinalizer :: string where "ProfileFinalizer = ''profilefinalizer.projectsveltos.io''"

definition on_maps :: "('s profile_reconciler \<Rightarrow> 's profile_reconciler) \<Rightarrow> 's profile_world \<Rightarrow> 's profile_world" where
  "on_maps g w = w\<lparr>pw_Reconciler := g (pw_Reconciler w)\<rparr>"

definition clusterprofile_reconcileDelete :: "'s set_ops \<Rightarrow> profile_env \<Rightarrow> profile \<Rightarrow> 's profile_world \<Rightarrow>
    profile \<times> time \<times> 's profile_world" where
  "clusterprofile_reconcileDelete ops env p w =
     (case reconcileDeleteCommon ops env ClusterProfileFinalizer p w of
        (p, Some (WaitingForPausedClustersError clusters), w) \<Rightarrow>
          (p, pausedClustersRequeueAfter, on_maps (clusterprofile_trackClusters ops p clusters) w)
      | (p, Some _, w) \<Rightarrow> (p, deleteRequeueAfter, w)
      | (p, None, w) \<Rightarrow> (p, 0, on_maps (clusterprofile_cleanMaps ops p) w))"

definition profile_reconcileDelete :: "'s set_ops \<Rightarrow> profile_env \<Rightarrow> profile \<Rightarrow> 's profile_world \<Rightarrow> profile \<times> time \<times> 's profile_world" where
  "profile_reconcileDelete ops env p w =
     (case reconcileDeleteCommon ops env ProfileFinalizer p w of
        (p, Some (WaitingForPausedClustersError clusters), w) \<Rightarrow>
          (p, pausedClustersRequeueAfter, on_maps (profile_trackClusters ops p clusters) w)
      | (p, Some _, w) \<Rightarrow> (p, deleteRequeueAfter, w)
      | (p, None, w) \<Rightarrow> (p, 0, on_maps (profile_cleanMaps ops p) w))"

text \<open>The clusters of the selector, of the references, of the sets and of the dependents, in this order.\<close>

definition matching_clusters :: "'s set_ops \<Rightarrow> profile_env \<Rightarrow> string \<Rightarrow> (string list \<Rightarrow> api_error + object_reference list) \<Rightarrow> profile \<Rightarrow>
    's dependency_manager \<Rightarrow> object_reference list option" where
  "matching_clusters ops env namespace from_sets p depManager =
     (case getMatchingClusters env namespace (ps_ClusterSelector (prof_Spec p)) (ps_ClusterRefs (prof_Spec p)) of
        Inl _ \<Rightarrow> None
      | Inr matchingCluster \<Rightarrow>
          (case from_sets (ps_SetRefs (prof_Spec p)) of
             Inl _ \<Rightarrow> None
           | Inr setClusters \<Rightarrow> Some (removeDuplicates ops (matchingCluster @ setClusters @
               slice (GetClusterDeployments (getKeyFromObject p) depManager)))))"

definition reconcile_matching :: "'s set_ops \<Rightarrow> profile_env \<Rightarrow> string \<Rightarrow>
    ('s dependency_manager \<Rightarrow> profile \<Rightarrow> object_reference list option) \<Rightarrow>
    (profile \<Rightarrow> 's profile_reconciler \<Rightarrow> 's profile_reconciler) \<Rightarrow> profile \<Rightarrow> 's profile_world \<Rightarrow> profile \<times> time \<times> 's profile_world" where
  "reconcile_matching ops env finalizer matching record_maps p w =
     (case (if finalizer \<in> set (om_Finalizers (prof_Meta p)) then (p, None, w) else addFinalizer env 0 finalizer p w) of
        (p, Some _, w) \<Rightarrow> (p, normalRequeueAfter, w)
      | (p, None, w) \<Rightarrow>
          (case GetManagerInstance (pw_Deps w) of
             Inl _ \<Rightarrow> (p, normalRequeueAfter, w)
           | Inr depManager \<Rightarrow>
               (case matching depManager p of
                  None \<Rightarrow> (p, normalRequeueAfter, w)
                | Some matchingClusters \<Rightarrow>
                    let p = SetMatchingClusterRefs matchingClusters p; w = on_maps (record_maps p) w
                    in case reconcileNormalCommon ops env p w of
                         (p, Some _, w) \<Rightarrow> (p, normalRequeueAfter, w)
                       | (p, None, w) \<Rightarrow> (p, 0, w))))"

definition clusterprofile_reconcileNormal :: "'s set_ops \<Rightarrow> profile_env \<Rightarrow> profile \<Rightarrow> 's profile_world \<Rightarrow>
    profile \<times> time \<times> 's profile_world" where
  "clusterprofile_reconcileNormal ops env = reconcile_matching ops env ClusterProfileFinalizer
     (\<lambda>depManager p. matching_clusters ops env [] (getClustersFromClusterSets env) p depManager) (clusterprofile_updateMaps ops env)"

definition profile_reconcileNormal :: "'s set_ops \<Rightarrow> profile_env \<Rightarrow> profile \<Rightarrow> 's profile_world \<Rightarrow> profile \<times> time \<times> 's profile_world" where
  "profile_reconcileNormal ops env = reconcile_matching ops env ProfileFinalizer
     (\<lambda>depManager p. matching_clusters ops env (om_Namespace (prof_Meta p)) (getClustersFromSets env (om_Namespace (prof_Meta p))) p depManager)
     (profile_updateMaps ops env)"

definition suspend_profile :: "string option \<Rightarrow> profile \<Rightarrow> profile" where
  "suspend_profile reason = on_status (\<lambda>st. st\<lparr>pst_ReconciliationSuspended := (reason \<noteq> None), pst_SuspensionReason := reason\<rparr>)"

text \<open>The result is the time after which to requeue, the error, and the world. The deferred call of \<open>Close\<close> is a patch, and its
  error replaces the one of the function. The ClusterProfile controller defers it before it looks at the annotation, the Profile controller
  after.\<close>

definition close_profile :: "profile_env \<Rightarrow> profile \<times> time \<times> 's profile_world \<Rightarrow> time \<times> string option \<times> 's profile_world" where
  "close_profile env r = (case r of (p, wait, w) \<Rightarrow> (case patch_object env 1 p w of (err, w) \<Rightarrow> (wait, err, w)))"

definition clusterprofile_Reconcile :: "'s set_ops \<Rightarrow> profile_env \<Rightarrow> 's profile_world \<Rightarrow> time \<times> string option \<times> 's profile_world" where
  "clusterprofile_Reconcile ops env w =
     (case (case pe_Get env of Some err \<Rightarrow> Inl err | None \<Rightarrow> (case pw_Stored w of None \<Rightarrow> Inl ApiNotFound | Some p \<Rightarrow> Inr p)) of
        Inl ApiNotFound \<Rightarrow> (0, None, w)
      | Inl err \<Rightarrow> (0, Some (err_text err), w)
      | Inr p \<Rightarrow>
          (case pe_Scope env of
             Some err \<Rightarrow> (0, Some err, w)
           | None \<Rightarrow>
               close_profile env
                 (if isProfilePaused p then (suspend_profile (Some ''ClusterProfile is paused'') p, 0, w)
                  else
                    let p = suspend_profile None p in
                    if om_DeletionTimestamp (prof_Meta p) \<noteq> None then clusterprofile_reconcileDelete ops env p w
                    else clusterprofile_reconcileNormal ops env p w)))"

definition profile_Reconcile :: "'s set_ops \<Rightarrow> profile_env \<Rightarrow> 's profile_world \<Rightarrow> time \<times> string option \<times> 's profile_world" where
  "profile_Reconcile ops env w =
     (case (case pe_Get env of Some err \<Rightarrow> Inl err | None \<Rightarrow> (case pw_Stored w of None \<Rightarrow> Inl ApiNotFound | Some p \<Rightarrow> Inr p)) of
        Inl ApiNotFound \<Rightarrow> (0, None, w)
      | Inl err \<Rightarrow> (0, Some (err_text err), w)
      | Inr p \<Rightarrow>
          let p = limitReferencesToNamespace p in
          (case pe_Scope env of
             Some err \<Rightarrow> (0, Some err, w)
           | None \<Rightarrow>
               if isProfilePaused p then (0, None, w)
               else
                 let p = suspend_profile None p in
                 close_profile env
                   (if om_DeletionTimestamp (prof_Meta p) \<noteq> None then profile_reconcileDelete ops env p w
                    else profile_reconcileNormal ops env p w)))"

section \<open>What a run leaves unchanged\<close>

lemma update_loop_same: "same_rollout (ra_Profile acc) (ra_Profile (snd (update_loop ops env U clusters acc)))"
proof (induction clusters arbitrary: acc)
  case (Cons c clusters)
  obtain r ws q where call: "updateClusterSummaryInstanceForCluster ops env c (ra_Updating acc) (ra_Profile acc) = (r, ws, q)"
    by (cases "updateClusterSummaryInstanceForCluster ops env c (ra_Updating acc) (ra_Profile acc)") auto
  note q = update_instance_step(1) [OF call]
  have rest: "same_rollout (ra_Profile acc) (ra_Profile (snd (update_loop ops env U clusters acc')))"
    if "same_rollout (ra_Profile acc) (ra_Profile acc')" for acc'
    using that Cons.IH by (rule same_rollout_trans)
  show ?case
    by (auto simp: call Let_def q intro!: rest intro: same_rollout_trans [OF q] split: sum.splits patch_error.splits update_outcome.splits)
qed simp

lemma updateClusterSummaries_same:
  assumes "object_set ops" and "updateClusterSummaries ops env p = (err, ws, q)"
  shows "same_rollout p q"
proof -
  obtain r p1 where start: "pass_start ops env p = (r, p1)" by (cases "pass_start ops env p") auto
  note same = pass_start_updating(2) [OF assms(1) start]
  have frame: "same_rollout p1 (on_status g q) \<longleftrightarrow> same_rollout p1 q" if "\<And>st. pst_MatchingClusterRefs (g st) = pst_MatchingClusterRefs st" for g q
    using that by (simp add: same_rollout_def on_status_def)
  have loop: "same_rollout p1 (ra_Profile (snd (update_loop ops env U (matching_refs p1) (start_acc ops p1))))" for U
    using update_loop_same [of "start_acc ops p1"] by (simp add: start_acc_def)
  have "same_rollout p1 q"
    using assms(2) loop by (auto simp: updateClusterSummaries_pass start Let_def pass_end_def frame split: option.splits if_splits)
  then show ?thesis by (rule same_rollout_trans [OF same])
qed

lemma world_simps [simp]:
  "pw_Reconciler (add_writes ws w) = pw_Reconciler w" "pw_Deps (add_writes ws w) = pw_Deps w"
  "pw_Configs (add_writes ws w) = pw_Configs w" "pw_Stored (add_writes ws w) = pw_Stored w"
  "pw_Reconciler (update_deps ops d cs ps m w) = pw_Reconciler w" "pw_Configs (update_deps ops d cs ps m w) = pw_Configs w"
  "pw_Stored (update_deps ops d cs ps m w) = pw_Stored w"
  "pw_Deps (update_deps ops d cs ps m w) = Some (UpdateDependencies ops d cs ps m)"
  "pw_Reconciler (on_maps g w) = g (pw_Reconciler w)" "pw_Deps (on_maps g w) = pw_Deps w"
  "pw_Configs (on_maps g w) = pw_Configs w" "pw_Stored (on_maps g w) = pw_Stored w"
  by (simp_all add: add_writes_def update_deps_def on_maps_def)

lemma manager_instance: "GetManagerInstance d = Inr m \<Longrightarrow> d = Some m"
  by (auto simp: GetManagerInstance_def split: option.splits if_splits)

lemma normal_common:
  assumes "object_set ops" and "reconcileNormalCommon ops env p w = (q, err, w')"
  shows "same_rollout p q" and "pw_Reconciler w' = pw_Reconciler w" and "pw_Stored w' = pw_Stored w"
    and "(pw_Deps w' = pw_Deps w \<and> err \<noteq> None) \<or> (\<exists>m. pw_Deps w = Some m \<and> pw_Deps w' = Some (UpdateDependencies ops (getKeyFromObject p)
       (matching_refs p) (getPrerequesites (prof_Kind p) (om_Namespace (prof_Meta p)) (ps_DependsOn (prof_Spec p))) m))"
proof -
  obtain e1 cfg1 where cfg1: "updateClusterConfigurations (pe_Config env) p (pw_Configs w) = (e1, cfg1)"
    by (cases "updateClusterConfigurations (pe_Config env) p (pw_Configs w)") auto
  obtain e2 ws q' where sums: "updateClusterSummaries ops (ce_Rollout (pe_Cleanup env)) p = (e2, ws, q')"
    by (cases "updateClusterSummaries ops (ce_Rollout (pe_Cleanup env)) p") auto
  note same = updateClusterSummaries_same [OF assms(1) sums]
  then have key: "getKeyFromObject q' = getKeyFromObject p" "prof_Kind q' = prof_Kind p" "prof_Meta q' = prof_Meta p"
    "prof_Spec q' = prof_Spec p" "matching_refs q' = matching_refs p"
    by (simp_all add: same_rollout_def getKeyFromObject_def)
  have run: "same_rollout p q \<and> pw_Reconciler w' = pw_Reconciler w \<and> pw_Stored w' = pw_Stored w \<and>
     ((pw_Deps w' = pw_Deps w \<and> err \<noteq> None) \<or> (\<exists>m. pw_Deps w = Some m \<and> pw_Deps w' = Some (UpdateDependencies ops (getKeyFromObject p)
       (matching_refs p) (getPrerequesites (prof_Kind p) (om_Namespace (prof_Meta p)) (ps_DependsOn (prof_Spec p))) m)))"
    using assms(2) same
    by (auto simp: reconcileNormalCommon_def cfg1 sums Let_def key dest!: manager_instance split: option.splits prod.splits sum.splits)
  then show "same_rollout p q" and "pw_Reconciler w' = pw_Reconciler w" and "pw_Stored w' = pw_Stored w"
    and "(pw_Deps w' = pw_Deps w \<and> err \<noteq> None) \<or> (\<exists>m. pw_Deps w = Some m \<and> pw_Deps w' = Some (UpdateDependencies ops (getKeyFromObject p)
       (matching_refs p) (getPrerequesites (prof_Kind p) (om_Namespace (prof_Meta p)) (ps_DependsOn (prof_Spec p))) m))"
    by blast+
qed

text \<open>The profile a deletion works on has no matching clusters. The finalizer is the only other thing that can change.\<close>

definition deleting :: "profile \<Rightarrow> profile" where
  "deleting p = SetMatchingClusterRefs [] p"

lemma deleting_simps [simp]:
  "prof_Kind (deleting p) = prof_Kind p" "prof_Meta (deleting p) = prof_Meta p" "prof_Spec (deleting p) = prof_Spec p"
  "getKeyFromObject (deleting p) = getKeyFromObject p" "matching_refs (deleting p) = []"
  by (simp_all add: deleting_def SetMatchingClusterRefs_def on_status_def getKeyFromObject_def)

lemma remove_finalizer_simps [simp]:
  "prof_Kind (remove_finalizer f p) = prof_Kind p" "prof_Spec (remove_finalizer f p) = prof_Spec p"
  "prof_Status (remove_finalizer f p) = prof_Status p" "getKeyFromObject (remove_finalizer f p) = getKeyFromObject p"
  "matching_refs (remove_finalizer f p) = matching_refs p"
  "om_Namespace (prof_Meta (remove_finalizer f p)) = om_Namespace (prof_Meta p)"
  "om_DeletionTimestamp (prof_Meta (remove_finalizer f p)) = om_DeletionTimestamp (prof_Meta p)"
  "om_Finalizers (prof_Meta (remove_finalizer f p)) = filter (\<lambda>x. x \<noteq> f) (om_Finalizers (prof_Meta p))"
  by (simp_all add: remove_finalizer_def on_profile_meta_def getKeyFromObject_def)

lemma delete_common:
  assumes "reconcileDeleteCommon ops env f p w = (q, err, w')"
  shows "pw_Reconciler w' = pw_Reconciler w" and "pw_Stored w' = pw_Stored w"
    and "err \<noteq> None \<Longrightarrow> q = deleting p"
    and "(w' = w \<and> err \<noteq> None) \<or> (\<exists>m. pw_Deps w = Some m \<and> pw_Deps w' = Some (UpdateDependencies ops (getKeyFromObject p) [] [] m))"
    and "err = None \<Longrightarrow> q = remove_finalizer f (deleting p) \<and> snd (cleanClusterSummaries (pe_Cleanup env) 0 (deleting p)) = None \<and>
       allClusterSummariesGone (pe_Cleanup env) 2 (deleting p) \<and> canRemoveProfileFinalizer (pe_Cleanup env) 3 (deleting p) \<and>
       cleanClusterConfigurations (pe_Config env) (deleting p) (pw_Configs w) = (None, pw_Configs w') \<and>
       snd (cleanClusterReports (pe_Cleanup env) (deleting p)) = None"
    and "err = Some (WaitingForPausedClustersError clusters) \<Longrightarrow>
       getWaitingForPausedClustersError (pe_Cleanup env) 1 (deleting p) = Some clusters"
  using assms
  by (auto simp: reconcileDeleteCommon_def Let_def deleting_def [symmetric] dest!: manager_instance
      split: option.splits prod.splits sum.splits if_splits)

text \<open>The maps after the operations on them.\<close>

context object_set
begin

lemma clean_maps_exact:
  "consumers ops (pc_ClusterMap (clean_maps ops c r)) k = consumers ops (pc_ClusterMap r) k - {c}"
  "consumers ops (pc_SetMap (clean_maps ops c r)) k = consumers ops (pc_SetMap r) k - {c}"
  "map_of (pc_Profiles (clean_maps ops c r)) = (map_of (pc_Profiles r))(c := None)"
  by (simp_all add: clean_maps_def Let_def consumers_clean delete_conv')

lemma track_clusters_exact:
  "consumers ops (pc_ClusterMap (track_clusters ops c clusters r)) k = consumers ops (pc_ClusterMap r) k \<union> (if k \<in> set clusters then {c} else {})"
  by (simp add: track_clusters_def consumers_fold_insert)

lemma renew_maps_exact:
  "consumers ops (pc_ClusterMap (renew_maps ops c sets p r)) k =
     consumers ops (pc_ClusterMap r) k - {c} \<union> (if k \<in> set (matching_refs p) then {c} else {})"
  "consumers ops (pc_SetMap (renew_maps ops c sets p r)) k = consumers ops (pc_SetMap r) k - {c} \<union> (if k \<in> set sets then {c} else {})"
  "map_of (pc_Profiles (renew_maps ops c sets p r)) = (map_of (pc_Profiles r))(c \<mapsto> ps_ClusterSelector (prof_Spec p))"
  by (simp_all add: renew_maps_def Let_def consumers_fold_insert consumers_erase_all update_conv')

lemma consumer_requested:
  "c \<in> consumers ops (pc_ClusterMap r) k \<Longrightarrow> (ref_Namespace c, ref_Name c) \<in> set (fst (requeueForCluster ops sel k lbls r))"
  "c \<in> consumers ops (pc_SetMap r) k \<Longrightarrow> (ref_Namespace c, ref_Name c) \<in> set (fst (requeueForSet ops k r))"
  by (auto simp: requeueForCluster_def requeueForSet_def Let_def getConsumersForEntry_def map_for_entry_lookup consumer_requests_def consumers_def)

end

section \<open>The references of a tenant\<close>

text \<open>The namespaces a specification names. The secret of the URL of a kustomization is listed apart.\<close>

definition secret_namespaces :: "secret_reference option \<Rightarrow> string set" where
  "secret_namespaces s = sec_Namespace ` set_option s"

definition chart_namespaces :: "helm_chart \<Rightarrow> string set" where
  "chart_namespaces hc = vf_Namespace ` set (hc_ValuesFrom hc) \<union>
     (\<Union>c \<in> set_option (hc_RegistryCredentialsConfig hc). secret_namespaces (rcc_CredentialsSecretRef c) \<union> secret_namespaces (rcc_CASecretRef c)) \<union>
     (\<Union>v \<in> set_option (hc_SignatureVerification hc). secret_namespaces (cv_SecretRef v)) \<union>
     (\<lambda>v. sec_Namespace (pv_KeyringSecretRef v)) ` set_option (hc_ProvenanceVerification hc)"

definition referenced_namespaces :: "profile_spec \<Rightarrow> string set" where
  "referenced_namespaces s = ref_Namespace ` set (ps_ClusterRefs s) \<union>
     (\<Union>pr \<in> set (slice (ps_PolicyRefs s)). insert (pr_Namespace pr) (\<Union>u \<in> set_option (pr_RemoteURL pr). secret_namespaces (ru_SecretRef u))) \<union>
     (\<Union>kr \<in> set (slice (ps_KustomizationRefs s)). insert (kr_Namespace kr) (vf_Namespace ` set (kr_ValuesFrom kr))) \<union>
     (\<Union>hc \<in> set (slice (ps_HelmCharts s)). chart_namespaces hc) \<union>
     vf_Namespace ` set (ps_PatchesFrom s) \<union> (\<lambda>t. ref_Namespace (trr_Resource t)) ` set (ps_TemplateResourceRefs s)"

definition kustomize_secrets :: "profile_spec \<Rightarrow> string list" where
  "kustomize_secrets s = concat (map (\<lambda>kr. case kr_RemoteURL kr of
     None \<Rightarrow> [] | Some u \<Rightarrow> (case rku_SecretRef u of None \<Rightarrow> [] | Some r \<Rightarrow> [sec_Namespace r])) (slice (ps_KustomizationRefs s)))"

lemma limit_secret_namespaces [dest]: "x \<in> secret_namespaces (limit_secret ns s) \<Longrightarrow> x = ns"
  by (cases s) (auto simp: secret_namespaces_def limit_secret_def)

lemma limit_chart_namespaces: "chart_namespaces (limit_chart ns hc) \<subseteq> {ns}"
  by (auto simp: chart_namespaces_def limit_chart_def limit_value_def elim!: option.set_cases split: option.splits)

lemma slice_map: "slice (map_option (map f) l) = map f (slice l)"
  by (cases l) (simp_all add: slice_def)

lemma limit_spec_namespaces: "referenced_namespaces (limit_spec ns s) \<subseteq> {ns}"
proof -
  have "(\<Union>hc \<in> set (slice (ps_HelmCharts (limit_spec ns s))). chart_namespaces hc) \<subseteq> {ns}"
    using limit_chart_namespaces by (auto simp: limit_spec_def slice_map)
  moreover have "secret_namespaces (ru_SecretRef u) \<subseteq> {ns}" if "pr_RemoteURL (limit_policy ns pr) = Some u" for pr u
    using that by (auto simp: limit_policy_def)
  ultimately show ?thesis
    by (auto simp: referenced_namespaces_def limit_spec_def slice_map limit_policy_def limit_kustomization_def
        limitKustomizationRefsToNamespace_def limit_value_def)
qed

text \<open>A Profile acts on references of its own namespace: whatever namespaces its specification names, the reconciler replaces them. There is
  one exception: the namespace of the secret a kustomization fetches its URL with is used as the tenant wrote it.\<close>

theorem tenant_references:
  "referenced_namespaces (prof_Spec (limitReferencesToNamespace p)) \<subseteq> {om_Namespace (prof_Meta p)} \<and>
   kustomize_secrets (prof_Spec (limitReferencesToNamespace p)) = kustomize_secrets (prof_Spec p)"
proof
  show "referenced_namespaces (prof_Spec (limitReferencesToNamespace p)) \<subseteq> {om_Namespace (prof_Meta p)}"
    by (simp add: limitReferencesToNamespace_def limit_spec_namespaces)
  show "kustomize_secrets (prof_Spec (limitReferencesToNamespace p)) = kustomize_secrets (prof_Spec p)"
    by (simp add: limitReferencesToNamespace_def kustomize_secrets_def limit_spec_def slice_map o_def limit_kustomization_def
        limitKustomizationRefsToNamespace_def)
qed

section \<open>A paused profile\<close>

text \<open>The status of a paused Profile does not say so: the reconciler returns before it registers the call that writes the object, so the
  suspension it set is lost. The status of a paused ClusterProfile is written.\<close>

theorem paused_profile_status_lost:
  assumes "pw_Stored w = Some p" and "isProfilePaused p" and "pe_Get env = None" and "pe_Scope env = None" and "pe_Patch env 1 = None"
    and "om_DeletionTimestamp (prof_Meta p) = None"
  shows "profile_Reconcile ops env w = (0, None, w) \<and>
     (case clusterprofile_Reconcile ops env w of (wait, err, w') \<Rightarrow> wait = 0 \<and> err = None \<and>
        (\<exists>p'. pw_Stored w' = Some p' \<and> pst_ReconciliationSuspended (prof_Status p') \<and>
           pst_SuspensionReason (prof_Status p') = Some ''ClusterProfile is paused''))"
  using assms
  by (simp add: profile_Reconcile_def clusterprofile_Reconcile_def isProfilePaused_def limitReferencesToNamespace_def close_profile_def
      patch_object_def suspend_profile_def on_status_def)

section \<open>The removal of a profile\<close>

text \<open>The two controllers, with the finalizer each of them keeps.\<close>

type_synonym 's profile_controller = "'s set_ops \<Rightarrow> profile_env \<Rightarrow> 's profile_world \<Rightarrow> time \<times> string option \<times> 's profile_world"

definition controllers :: "('s profile_controller \<times> string) list" where
  "controllers = [(clusterprofile_Reconcile, ClusterProfileFinalizer), (profile_Reconcile, ProfileFinalizer)]"

lemma limit_references_simps [simp]:
  "prof_Meta (limitReferencesToNamespace p) = prof_Meta p" "prof_Kind (limitReferencesToNamespace p) = prof_Kind p"
  "getKeyFromObject (limitReferencesToNamespace p) = getKeyFromObject p"
  "prof_Status (limitReferencesToNamespace p) = prof_Status p" "isProfilePaused (limitReferencesToNamespace p) = isProfilePaused p"
  by (simp_all add: limitReferencesToNamespace_def getKeyFromObject_def isProfilePaused_def)

lemma suspend_simps [simp]:
  "prof_Meta (suspend_profile r p) = prof_Meta p" "prof_Kind (suspend_profile r p) = prof_Kind p"
  "prof_Spec (suspend_profile r p) = prof_Spec p" "getKeyFromObject (suspend_profile r p) = getKeyFromObject p"
  "isProfilePaused (suspend_profile r p) = isProfilePaused p"
  by (simp_all add: suspend_profile_def on_status_def getKeyFromObject_def isProfilePaused_def)

lemma patch_world:
  assumes "patch_object env n p w = (err, w')"
  shows "pw_Reconciler w' = pw_Reconciler w" "pw_Deps w' = pw_Deps w" "pw_Configs w' = pw_Configs w"
    "pw_Stored w' = pw_Stored w \<or> pw_Stored w' = None \<or>
     (\<exists>s. pw_Stored w = Some s \<and> pw_Stored w' = Some (s\<lparr>prof_Meta := prof_Meta p, prof_Status := prof_Status p\<rparr>))"
    "pw_Stored w' = None \<Longrightarrow> pw_Stored w = None \<or> om_Finalizers (prof_Meta p) = []"
  using assms by (auto simp: patch_object_def split: option.splits if_splits)

text \<open>Both deletions are the same function of the finalizer, and both runs on an object that is being deleted are that function and a patch.\<close>

definition delete_with :: "'s set_ops \<Rightarrow> profile_env \<Rightarrow> string \<Rightarrow> profile \<Rightarrow> 's profile_world \<Rightarrow> profile \<times> time \<times> 's profile_world" where
  "delete_with ops env f p w =
     (case reconcileDeleteCommon ops env f p w of
        (p, Some (WaitingForPausedClustersError clusters), w) \<Rightarrow>
          (p, pausedClustersRequeueAfter, on_maps (track_clusters ops (getKeyFromObject p) clusters) w)
      | (p, Some _, w) \<Rightarrow> (p, deleteRequeueAfter, w)
      | (p, None, w) \<Rightarrow> (p, 0, on_maps (clean_maps ops (getKeyFromObject p)) w))"

lemma deletes_same:
  "clusterprofile_reconcileDelete ops env = delete_with ops env ClusterProfileFinalizer"
  "profile_reconcileDelete ops env = delete_with ops env ProfileFinalizer"
  by (intro ext; simp add: clusterprofile_reconcileDelete_def profile_reconcileDelete_def delete_with_def
      clusterprofile_trackClusters_def profile_trackClusters_def clusterprofile_cleanMaps_def profile_cleanMaps_def
      split: prod.splits option.splits profile_error.splits)+

lemma delete_run:
  assumes "(run, f) \<in> set controllers" and "run ops env w = (wait, err, w')" and "pw_Stored w = Some p"
    and "\<not> isProfilePaused p" and "om_DeletionTimestamp (prof_Meta p) \<noteq> None" and "pe_Get env = None" and "pe_Scope env = None"
  obtains q where "prof_Meta q = prof_Meta p" "prof_Kind q = prof_Kind p" "ps_SyncMode (prof_Spec q) = ps_SyncMode (prof_Spec p)"
    "close_profile env (delete_with ops env f q w) = (wait, err, w')"
proof -
  from assms(1) consider "run = clusterprofile_Reconcile" "f = ClusterProfileFinalizer" | "run = profile_Reconcile" "f = ProfileFinalizer"
    by (auto simp: controllers_def)
  then show thesis
  proof cases
    case 1
    with assms(2-) show thesis
      by (intro that [of "suspend_profile None p"]) (simp_all add: clusterprofile_Reconcile_def deletes_same)
  next
    case 2
    have "ps_SyncMode (prof_Spec (limitReferencesToNamespace p)) = ps_SyncMode (prof_Spec p)"
      by (simp add: limitReferencesToNamespace_def limit_spec_def)
    with 2 assms(2-) show thesis
      by (intro that [of "suspend_profile None (limitReferencesToNamespace p)"]) (simp_all add: profile_Reconcile_def deletes_same)
  qed
qed

text \<open>The object of a removal, as the functions of the clean-up see it.\<close>

lemma options_frame:
  assumes "prof_Meta q = prof_Meta p" and "prof_Kind q = prof_Kind p"
  shows "getClusterSummaryListOptions q = getClusterSummaryListOptions p"
  using assms by (simp add: getClusterSummaryListOptions_def)

lemma idle_run:
  assumes "(run, f) \<in> set controllers" and "run ops env w = (wait, err, w')" and "pw_Stored w = Some p"
    and "isProfilePaused p \<or> pe_Get env \<noteq> None \<or> pe_Scope env \<noteq> None" and "f \<in> set (om_Finalizers (prof_Meta p))"
  shows "\<exists>p'. pw_Stored w' = Some p' \<and> f \<in> set (om_Finalizers (prof_Meta p'))"
  using assms
  by (auto simp: controllers_def clusterprofile_Reconcile_def profile_Reconcile_def close_profile_def patch_object_def Let_def
      split: option.splits api_error.splits if_splits)

lemma profile_view:
  assumes "prof_Meta q = prof_Meta p" and "prof_Kind q = prof_Kind p"
  shows "in_scope q cc = in_scope p cc" "has_section q cc = has_section p cc" "configs_ok one_each q store = configs_ok one_each p store"
    "profile_owner_ref q = profile_owner_ref p"
  using assms by (simp_all add: in_scope_def has_section_def configs_ok_def sections_wf_def profile_owner_ref_def)

lemma configs_left:
  assumes "config_quiet env" and "owner_references (cfe_Owned env) (cfe_EnsureOwnerRef env) (cfe_RemoveOwnerRef env) same one_each"
    and "configs_ok one_each p store" and "ps_SyncMode (prof_Spec p) \<noteq> SyncModeDryRun"
    and "matching_infos env p = []" and run: "cleanClusterConfigurations env p store = (None, store')"
  shows "\<forall>cc \<in> set store'. in_scope p cc \<longrightarrow> \<not> cfe_Owned env (cc_owners cc) (profile_owner_ref p) \<and> \<not> has_section p cc"
proof (intro ballI impI)
  fix cc assume cc: "cc \<in> set store'" "in_scope p cc"
  have "distinct (map config_key store)" using assms(3) by (simp add: configs_ok_def)
  from clean_all_quiet [OF assms(1,4) this] obtain s' where "cleanClusterConfigurations env p store = (None, s')"
    "distinct (map config_key s')" "\<forall>k. config_at s' k = (case config_at store k of None \<Rightarrow> None
       | Some cc \<Rightarrow> if in_scope p cc \<and> configuration_info (fst k) (snd k) \<notin> set (matching_infos env p) then left_by env p cc else Some cc)"
    by blast
  moreover from this(1) run have "s' = store'" by simp
  ultimately have s: "distinct (map config_key store')" "\<forall>k. config_at store' k = (case config_at store k of None \<Rightarrow> None
       | Some cc \<Rightarrow> if in_scope p cc \<and> configuration_info (fst k) (snd k) \<notin> set (matching_infos env p) then left_by env p cc else Some cc)"
    by blast+
  have at: "config_at store' (config_key cc) = Some cc" using config_at_mem [OF s(1)] cc(1) by blast
  then obtain x where x: "config_at store (config_key cc) = Some x"
    using s(2) [rule_format, of "config_key cc"] by (auto split: option.splits)
  have "in_scope p x" using cc(2) config_at_key [OF x] by (simp add: in_scope_def config_key_def)
  then have left: "left_by env p x = Some cc" using s(2) [rule_format, of "config_key cc"] x at assms(5) by simp
  have "one_each (cc_owners x)" "sections_wf p x" using assms(3) x unfolding configs_ok_at by blast+
  from left_facts(1) [OF assms(2) this left]
  show "\<not> cfe_Owned env (cc_owners cc) (profile_owner_ref p) \<and> \<not> has_section p cc" .
qed


text \<open>A profile whose deletion waits for paused clusters is woken by them: a later change of any of these clusters, such as the end of
  the pause, requeues it, also when it was not in the maps before (after a restart).\<close>

theorem waiting_deletion_woken:
  assumes ops: "object_set ops" and run: "(run, f) \<in> set controllers" "run ops env w = (wait, err, w')"
    and p: "pw_Stored w = Some p" "om_DeletionTimestamp (prof_Meta p) \<noteq> None"
    and live: "\<not> isProfilePaused p" "pe_Get env = None" "pe_Scope env = None"
    and waits: "wait = pausedClustersRequeueAfter"
  shows "\<exists>clusters. clusters \<noteq> [] \<and> getWaitingForPausedClustersError (pe_Cleanup env) 1 p = Some clusters \<and>
    (\<forall>c \<in> set clusters. \<forall>sel lbls. (om_Namespace (prof_Meta p), prof_Name p) \<in> set (fst (requeueForCluster ops sel c lbls (pw_Reconciler w'))))"
proof -
  obtain q where q: "prof_Meta q = prof_Meta p" "prof_Kind q = prof_Kind p"
    and closed: "close_profile env (delete_with ops env f q w) = (wait, err, w')"
    by (rule delete_run [OF run p(1) live(1) p(2) live(2,3)])
  obtain q' e w1 where del: "reconcileDeleteCommon ops env f q w = (q', e, w1)"
    by (cases "reconcileDeleteCommon ops env f q w") auto
  obtain clusters where e: "e = Some (WaitingForPausedClustersError clusters)"
    and r: "pw_Reconciler w' = track_clusters ops (getKeyFromObject q') clusters (pw_Reconciler w1)"
    using closed waits
    by (auto simp: close_profile_def delete_with_def del pausedClustersRequeueAfter_def deleteRequeueAfter_def
        dest: patch_world(1) split: prod.splits option.splits profile_error.splits)
  have q': "q' = deleting q" using delete_common(3) [OF del] e by simp
  have "getClusterSummaryListOptions (deleting q) = getClusterSummaryListOptions p" by (rule options_frame) (simp_all add: q)
  then have wait_p: "getWaitingForPausedClustersError (pe_Cleanup env) 1 p = Some clusters"
    using delete_common(6) [OF del e]
    by (simp add: getWaitingForPausedClustersError_def getPausedClustersBlockingDeletion_def)
  then have "clusters \<noteq> []"
    by (auto simp: getWaitingForPausedClustersError_def slice_def split: sum.splits if_splits option.splits)
  moreover have "(om_Namespace (prof_Meta p), prof_Name p) \<in> set (fst (requeueForCluster ops sel c lbls (pw_Reconciler w')))"
    if "c \<in> set clusters" for c sel lbls
    using object_set.consumer_requested(1) [OF ops, of "getKeyFromObject q'" "pw_Reconciler w'" c sel lbls] that q
      object_set.track_clusters_exact [OF ops, of "getKeyFromObject q'" clusters "pw_Reconciler w1" c]
    by (simp add: r q' getKeyFromObject_def)
  ultimately show ?thesis using wait_p by blast
qed

section \<open>Tenants are kept apart\<close>

definition deps_confined :: "'s dependency_manager \<Rightarrow> bool" where
  "deps_confined m \<longleftrightarrow> (\<forall>p c e. needs m p c e \<longrightarrow> ref_Kind p = ProfileKind \<longrightarrow> ref_Namespace c = ref_Namespace p)"

definition refs_confined :: "profile \<Rightarrow> bool" where
  "refs_confined p \<longleftrightarrow> prof_Kind p = ProfileKind \<longrightarrow> (\<forall>c \<in> set (matching_refs p). ref_Namespace c = om_Namespace (prof_Meta p))"

definition deps_ok :: "'s set_ops \<Rightarrow> 's profile_world \<Rightarrow> bool" where
  "deps_ok ops w \<longleftrightarrow> (\<forall>m. pw_Deps w = Some m \<longrightarrow> dm_enabled m \<and> object_set.dep_inv ops m \<and> deps_confined m)"

text \<open>The object stored and the dependency manager, for the controller of one kind.\<close>

definition stored_ok :: "string \<Rightarrow> profile option \<Rightarrow> bool" where
  "stored_ok kind stored \<longleftrightarrow> pred_option (\<lambda>p. refs_confined p \<and> prof_Kind p = kind) stored"

definition tenant_inv :: "'s set_ops \<Rightarrow> string \<Rightarrow> 's profile_world \<Rightarrow> bool" where
  "tenant_inv ops kind w \<longleftrightarrow> stored_ok kind (pw_Stored w) \<and> deps_ok ops w"

lemma stored_ok_simps [simp]: "stored_ok kind None" "stored_ok kind (Some p) \<longleftrightarrow> refs_confined p \<and> prof_Kind p = kind"
  by (simp_all add: stored_ok_def)

lemma deps_ok_frame: "pw_Deps w' = pw_Deps w \<Longrightarrow> deps_ok ops w' = deps_ok ops w"
  by (simp add: deps_ok_def)

lemma update_confined:
  assumes ops: "object_set ops" and m: "dm_enabled m" "object_set.dep_inv ops m" "deps_confined m"
    and new: "\<And>p c. p \<in> set ps \<Longrightarrow> c \<in> set cs \<Longrightarrow> ref_Kind p = ProfileKind \<Longrightarrow> ref_Namespace c = ref_Namespace p"
    and w': "pw_Deps w' = Some (UpdateDependencies ops d cs ps m)"
  shows "deps_ok ops w'"
proof -
  note upd = object_set.update_dependencies(1,2,4) [OF ops m(1,2), of d cs ps]
  have "deps_confined (UpdateDependencies ops d cs ps m)"
    using m(3) new unfolding deps_confined_def upd(1) by metis
  then show ?thesis using upd(2,3) by (simp add: deps_ok_def w')
qed

text \<open>A patch keeps the invariant when the object written is confined.\<close>

lemma patch_confined:
  assumes patch: "patch_object env n p w = (err, w')" and inv: "tenant_inv ops (prof_Kind p) w" and p: "refs_confined p"
  shows "tenant_inv ops (prof_Kind p) w'"
proof -
  have "stored_ok (prof_Kind p) (pw_Stored w')"
    using patch_world(4) [OF patch]
  proof (elim disjE exE conjE)
    assume "pw_Stored w' = pw_Stored w"
    then show ?thesis using inv by (simp add: tenant_inv_def)
  next
    fix s assume s: "pw_Stored w = Some s" "pw_Stored w' = Some (s\<lparr>prof_Meta := prof_Meta p, prof_Status := prof_Status p\<rparr>)"
    define s' where "s' = s\<lparr>prof_Meta := prof_Meta p, prof_Status := prof_Status p\<rparr>"
    have "prof_Kind s' = prof_Kind p" using inv s(1) by (simp add: tenant_inv_def s'_def)
    moreover have "prof_Meta s' = prof_Meta p" "prof_Status s' = prof_Status p" by (simp_all add: s'_def)
    ultimately show ?thesis using p s(2) unfolding s'_def [symmetric] by (simp add: refs_confined_def)
  qed simp
  then show ?thesis
    using inv deps_ok_frame [OF patch_world(2) [OF patch], of ops] by (simp add: tenant_inv_def)
qed

lemma delete_with_confined:
  assumes ops: "object_set ops" and run: "delete_with ops env f p w = (q, wait, w')" and "deps_ok ops w"
  shows "deps_ok ops w'" "pw_Stored w' = pw_Stored w" "refs_confined q" "prof_Kind q = prof_Kind p"
proof -
  obtain q' e w1 where del: "reconcileDeleteCommon ops env f p w = (q', e, w1)"
    by (cases "reconcileDeleteCommon ops env f p w") auto
  have f: "q = q'" "pw_Deps w' = pw_Deps w1" "pw_Stored w' = pw_Stored w1"
    using run by (auto simp: delete_with_def del split: prod.splits option.splits profile_error.splits)
  have "deps_ok ops w1"
    using delete_common(4) [OF del] assms(3) update_confined [OF ops, where ps = "[]" and cs = "[]" and w' = w1]
    by (auto simp: deps_ok_def)
  then show "deps_ok ops w'" using deps_ok_frame [OF f(2)] by blast
  show "pw_Stored w' = pw_Stored w" using f(3) delete_common(2) [OF del] by simp
  have "q = deleting p \<or> q = remove_finalizer f (deleting p)" using f(1) delete_common(3,5) [OF del] by blast
  then show "refs_confined q" "prof_Kind q = prof_Kind p" by (auto simp: refs_confined_def)
qed

text \<open>The matching clusters, when the lookups keep to the namespace they are asked for.\<close>

definition lookups_confined :: "profile_env \<Rightarrow> bool" where
  "lookups_confined env \<longleftrightarrow> (\<forall>sel ns cs c. ns \<noteq> [] \<longrightarrow> c \<in> set cs \<longrightarrow>
     (pe_GetMatchingClusters env sel ns = Inr cs \<or> (\<exists>name. pe_GetSet env ns name = Inr cs)) \<longrightarrow> ref_Namespace c = ns)"

lemma lookups_confinedD:
  assumes "lookups_confined env" and "ns \<noteq> []" and "c \<in> set cs"
  shows "pe_GetMatchingClusters env sel ns = Inr cs \<Longrightarrow> ref_Namespace c = ns" "pe_GetSet env ns name = Inr cs \<Longrightarrow> ref_Namespace c = ns"
  using assms unfolding lookups_confined_def by blast+

lemma set_clusters_confined:
  assumes "lookups_confined env" and "ns \<noteq> []"
  shows "clusters_from_sets env ns names = Inr cs \<Longrightarrow> c \<in> set cs \<Longrightarrow> ref_Namespace c = ns"
proof (induction names arbitrary: cs)
  case (Cons name names)
  then show ?case using lookups_confinedD(2) [OF assms] by (auto split: sum.splits api_error.splits)
qed simp

lemma dependents_confined:
  assumes ops: "object_set ops" and "deps_ok ops w" and "pw_Deps w = Some m" and "ref_Kind p = ProfileKind"
    and "c \<in> set (slice (GetClusterDeployments p m))"
  shows "ref_Namespace c = ref_Namespace p"
proof -
  have m: "dm_enabled m" "object_set.dep_inv ops m" "deps_confined m" using assms(2,3) by (auto simp: deps_ok_def)
  have "c \<in> cluster_keys m p" using assms(5) m(1) by (simp add: GetClusterDeployments_def cluster_keys_def)
  then obtain d where "needs m p c d" using object_set.cluster_keys_needs [OF ops m(2)] by blast
  then show ?thesis using m(3) assms(4) unfolding deps_confined_def by blast
qed

lemma matching_confined:
  assumes ops: "object_set ops" and env: "lookups_confined env" and m: "deps_ok ops w" "pw_Deps w = Some m"
    and p: "prof_Kind p = ProfileKind" "om_Namespace (prof_Meta p) \<noteq> []"
    and own: "\<forall>c \<in> set (ps_ClusterRefs (prof_Spec p)). ref_Namespace c = om_Namespace (prof_Meta p)"
    and run: "matching_clusters ops env (om_Namespace (prof_Meta p)) (getClustersFromSets env (om_Namespace (prof_Meta p))) p m = Some cs"
  shows "\<forall>c \<in> set cs. ref_Namespace c = om_Namespace (prof_Meta p)"
proof -
  have "ref_Namespace c = om_Namespace (prof_Meta p)" if "c \<in> set (slice (GetClusterDeployments (getKeyFromObject p) m))" for c
    using dependents_confined [OF ops m _ that] p by (simp add: getKeyFromObject_def)
  moreover have "\<forall>c \<in> set sel. ref_Namespace c = om_Namespace (prof_Meta p)"
    if "pe_GetMatchingClusters env (ps_ClusterSelector (prof_Spec p)) (om_Namespace (prof_Meta p)) = Inr sel" for sel
    using lookups_confinedD(1) [OF env p(2)] that by blast
  ultimately show ?thesis
    using run own set_clusters_confined [OF env p(2)]
    by (auto simp: matching_clusters_def getMatchingClusters_def getClustersFromSets_def removeDuplicates_def
        object_set.elems_fold_insert [OF ops] object_set.items_empty [OF ops] split: sum.splits)
qed

text \<open>A run that matches clusters, for an object \<open>p\<close> in memory.\<close>

lemma matching_run_confined:
  assumes ops: "object_set ops" and run: "reconcile_matching ops env f matching recorded p w = (q, wait, w')"
    and inv: "tenant_inv ops (prof_Kind p) w" "refs_confined p"
    and matches: "\<And>m r cs c. pw_Deps w = Some m \<Longrightarrow> prof_Kind r = prof_Kind p \<Longrightarrow> prof_Spec r = prof_Spec p \<Longrightarrow>
       om_Namespace (prof_Meta r) = om_Namespace (prof_Meta p) \<Longrightarrow> matching m r = Some cs \<Longrightarrow> c \<in> set cs \<Longrightarrow>
       prof_Kind p = ProfileKind \<Longrightarrow> ref_Namespace c = om_Namespace (prof_Meta p)"
  shows "tenant_inv ops (prof_Kind p) w' \<and> refs_confined q \<and> prof_Kind q = prof_Kind p"
proof -
  obtain p1 e1 w1 where a: "(if f \<in> set (om_Finalizers (prof_Meta p)) then (p, None, w) else addFinalizer env 0 f p w) = (p1, e1, w1)"
    by (cases "if f \<in> set (om_Finalizers (prof_Meta p)) then (p, None, w) else addFinalizer env 0 f p w") auto
  have p1: "prof_Kind p1 = prof_Kind p" "prof_Spec p1 = prof_Spec p" "om_Namespace (prof_Meta p1) = om_Namespace (prof_Meta p)"
    "matching_refs p1 = matching_refs p" "pw_Deps w1 = pw_Deps w"
    using a by (auto simp: addFinalizer_def add_finalizer_def on_profile_meta_def Let_def dest: patch_world(2) split: if_splits)
  have conf1: "refs_confined p1" using inv(2) p1 by (simp add: refs_confined_def)
  have "w1 = w \<or> patch_object env 0 p1 w = (e1, w1)" using a by (auto simp: addFinalizer_def Let_def split: if_splits)
  then have inv1: "tenant_inv ops (prof_Kind p) w1" using patch_confined [of env 0 p1 w e1 w1 ops] inv(1) conf1 p1(1) by auto
  note start = reconcile_matching_def [of ops env f matching recorded p w, unfolded a]
  show ?thesis
  proof (cases "e1 = None \<and> (\<exists>m cs. GetManagerInstance (pw_Deps w1) = Inr m \<and> matching m p1 = Some cs)")
    case False
    then have "q = p1 \<and> w' = w1" using run by (auto simp: start split: option.splits sum.splits)
    then show ?thesis using inv1 conf1 p1 by simp
  next
    case True
    then obtain m cs where m: "e1 = None" "GetManagerInstance (pw_Deps w1) = Inr m" "matching m p1 = Some cs" by blast
    define p2 where "p2 = SetMatchingClusterRefs cs p1"
    define w2 where "w2 = on_maps (recorded p2) w1"
    obtain q3 e3 w3 where common: "reconcileNormalCommon ops env p2 w2 = (q3, e3, w3)"
      by (cases "reconcileNormalCommon ops env p2 w2") auto
    have q: "q = q3" "w' = w3" using run common m by (auto simp: start p2_def w2_def Let_def split: option.splits)
    have p2: "prof_Kind p2 = prof_Kind p" "om_Namespace (prof_Meta p2) = om_Namespace (prof_Meta p)" "matching_refs p2 = cs"
      using p1 by (simp_all add: p2_def SetMatchingClusterRefs_def on_status_def)
    have conf2: "refs_confined p2" unfolding refs_confined_def p2
      using matches [of m p1 cs] manager_instance [OF m(2)] m(3) p1 by simp
    note n = normal_common [OF ops common]
    have "deps_ok ops w3"
    proof -
      have confined_ps: "ref_Namespace c = ref_Namespace x"
        if "x \<in> set (getPrerequesites (prof_Kind p2) (om_Namespace (prof_Meta p2)) (ps_DependsOn (prof_Spec p2)))"
          "c \<in> set (matching_refs p2)" "ref_Kind x = ProfileKind" for x c
        using that conf2 by (auto simp: getPrerequesites_def refs_confined_def)
      show ?thesis
        using n(4)
      proof (elim disjE exE conjE)
        assume "pw_Deps w3 = pw_Deps w2"
        then show ?thesis using inv1 deps_ok_frame [of w3 w1 ops] by (simp add: w2_def tenant_inv_def)
      next
        fix m assume d: "pw_Deps w2 = Some m" "pw_Deps w3 = Some (UpdateDependencies ops (getKeyFromObject p2) (matching_refs p2)
            (getPrerequesites (prof_Kind p2) (om_Namespace (prof_Meta p2)) (ps_DependsOn (prof_Spec p2))) m)"
        then have "dm_enabled m \<and> object_set.dep_inv ops m \<and> deps_confined m"
          using inv1 by (simp add: w2_def tenant_inv_def deps_ok_def)
        then show ?thesis using confined_ps update_confined [OF ops _ _ _ _ d(2)] by blast
      qed
    qed
    then have "tenant_inv ops (prof_Kind p) w3" using inv1 n(3) by (simp add: tenant_inv_def w2_def)
    then show ?thesis using n(1) conf2 p2 by (simp add: q same_rollout_def refs_confined_def)
  qed
qed

text \<open>The patch at the end of a run.\<close>

lemma close_confined:
  assumes "close_profile env (q, wait, w1) = (wait, err, w')" "tenant_inv ops kind w1" "refs_confined q" "prof_Kind q = kind"
  shows "tenant_inv ops kind w'"
  using assms patch_confined [of env 1 q w1 err w' ops] by (auto simp: close_profile_def split: prod.splits)

lemma close_deleted:
  assumes ops: "object_set ops" and run: "close_profile env (delete_with ops env f p w) = (wait, err, w')"
    and p: "prof_Kind p = kind" and inv: "tenant_inv ops kind w"
  shows "tenant_inv ops kind w'"
proof -
  obtain q t w1 where d: "delete_with ops env f p w = (q, t, w1)" by (cases "delete_with ops env f p w") auto
  then have "t = wait" using run by (auto simp: close_profile_def split: prod.splits)
  moreover have "tenant_inv ops kind w1" "refs_confined q" "prof_Kind q = kind"
    using p delete_with_confined [OF ops d] inv by (simp_all add: tenant_inv_def)
  ultimately show ?thesis using close_confined run d by (metis (no_types))
qed

lemma close_matched:
  assumes ops: "object_set ops" and run: "close_profile env (reconcile_matching ops env f matching recorded p w) = (wait, err, w')"
    and p: "prof_Kind p = kind" "refs_confined p" and inv: "tenant_inv ops kind w"
    and m: "\<And>m r cs c. pw_Deps w = Some m \<Longrightarrow> prof_Kind r = prof_Kind p \<Longrightarrow> prof_Spec r = prof_Spec p \<Longrightarrow>
      om_Namespace (prof_Meta r) = om_Namespace (prof_Meta p) \<Longrightarrow> matching m r = Some cs \<Longrightarrow> c \<in> set cs \<Longrightarrow>
      prof_Kind p = ProfileKind \<Longrightarrow> ref_Namespace c = om_Namespace (prof_Meta p)"
  shows "tenant_inv ops kind w'"
proof -
  obtain q t w1 where d: "reconcile_matching ops env f matching recorded p w = (q, t, w1)"
    by (cases "reconcile_matching ops env f matching recorded p w") auto
  then have "t = wait" using run by (auto simp: close_profile_def split: prod.splits)
  moreover have "tenant_inv ops kind w1 \<and> refs_confined q \<and> prof_Kind q = kind"
    using matching_run_confined [OF ops d _ p(2) m] inv p(1) by simp
  ultimately show ?thesis using close_confined [of env q wait w1 err w'] run d by simp
qed

text \<open>C9. Tenants are kept apart. When the lookups by namespace answer with clusters of that namespace, every run of a controller keeps this: the
  clusters a Profile matches are in its own namespace, although it may name others and other profiles may ask for it to be
  deployed; and what the dependency manager records for Profiles stays in their namespaces.\<close>

theorem tenants_apart:
  assumes ops: "object_set ops" and env: "lookups_confined env" and run: "run ops env w = (wait, err, w')"
    and c: "(run, f, kind) \<in> {(clusterprofile_Reconcile, ClusterProfileFinalizer, ClusterProfileKind), (profile_Reconcile, ProfileFinalizer, ProfileKind)}"
    and ns: "\<forall>p. pw_Stored w = Some p \<longrightarrow> kind = ProfileKind \<longrightarrow> om_Namespace (prof_Meta p) \<noteq> []"
    and inv: "tenant_inv ops kind w"
  shows "tenant_inv ops kind w'"
proof (cases "pe_Get env = None \<and> pe_Scope env = None \<and> pw_Stored w \<noteq> None")
  case False
  then have "w' = w" using run c
    by (auto simp: clusterprofile_Reconcile_def profile_Reconcile_def split: option.splits api_error.splits)
  then show ?thesis using inv by simp
next
  case True
  then obtain s where s: "pw_Stored w = Some s" "pe_Get env = None" "pe_Scope env = None" by blast
  then have s_ok: "refs_confined s" "prof_Kind s = kind" using inv by (simp_all add: tenant_inv_def)
  have suspended: "refs_confined (suspend_profile r x) = refs_confined x" for r x
    by (simp add: refs_confined_def suspend_profile_def on_status_def)
  have limited: "refs_confined (limitReferencesToNamespace s)" using s_ok(1) by (simp add: refs_confined_def)
  note deleted = close_deleted [OF ops, of env f _ w wait err w' kind]
  from c consider "run = clusterprofile_Reconcile" "f = ClusterProfileFinalizer" "kind = ClusterProfileKind"
    | "run = profile_Reconcile" "f = ProfileFinalizer" "kind = ProfileKind" by auto
  then show ?thesis
  proof cases
    case 1
    have "kind \<noteq> ProfileKind" using 1 by (simp add: ClusterProfileKind_def ProfileKind_def)
    then show ?thesis
      using run 1 s s_ok inv close_confined [of env "suspend_profile (Some ''ClusterProfile is paused'') s" wait w err w' ops kind]
        deleted [of "suspend_profile None s"] close_matched [OF ops, of env f _ _ "suspend_profile None s" w wait err w' kind]
      by (auto simp: clusterprofile_Reconcile_def deletes_same clusterprofile_reconcileNormal_def Let_def suspended
          close_profile_def split: if_splits prod.splits)
  next
    case 2
    define p where "p = suspend_profile None (limitReferencesToNamespace s)"
    have p: "prof_Kind p = ProfileKind" "refs_confined p" "om_Namespace (prof_Meta p) \<noteq> []"
      using s_ok s(1) 2 ns limited by (simp_all add: p_def suspended)
    have own: "\<forall>c \<in> set (ps_ClusterRefs (prof_Spec p)). ref_Namespace c = om_Namespace (prof_Meta p)"
      by (auto simp: p_def limitReferencesToNamespace_def limit_spec_def)
    have m: "ref_Namespace c = om_Namespace (prof_Meta p)"
      if "pw_Deps w = Some m" "prof_Kind r = prof_Kind p" "prof_Spec r = prof_Spec p" "om_Namespace (prof_Meta r) = om_Namespace (prof_Meta p)"
        "matching_clusters ops env (om_Namespace (prof_Meta r)) (getClustersFromSets env (om_Namespace (prof_Meta r))) r m = Some cs"
        "c \<in> set cs" for m r cs c
      using matching_confined [OF ops env _ that(1) _ _ _ that(5)] that p own inv by (simp add: tenant_inv_def)
    show ?thesis
    proof (cases "isProfilePaused s")
      case True
      then show ?thesis using run 2 s inv by (simp add: profile_Reconcile_def)
    next
      case False
      then have "close_profile env (if om_DeletionTimestamp (prof_Meta p) \<noteq> None then profile_reconcileDelete ops env p w
          else profile_reconcileNormal ops env p w) = (wait, err, w')"
        using run 2 s by (simp add: profile_Reconcile_def p_def Let_def split: if_splits)
      then consider "close_profile env (delete_with ops env f p w) = (wait, err, w')"
        | "close_profile env (reconcile_matching ops env f (\<lambda>m r. matching_clusters ops env (om_Namespace (prof_Meta r))
             (getClustersFromSets env (om_Namespace (prof_Meta r))) r m) (profile_updateMaps ops env) p w) = (wait, err, w')"
        using 2 by (auto simp: deletes_same profile_reconcileNormal_def split: if_splits)
      then show ?thesis
      proof cases
        case 1
        then show ?thesis using deleted p 2 inv by blast
      next
        case matched: 2
        show ?thesis by (rule close_matched [OF ops matched _ p(2) inv]) (use p 2 m in blast)+
      qed
    qed
  qed
qed

section \<open>The hypotheses can hold\<close>

text \<open>The API server lists the ClusterSummaries \<open>css\<close>, of clusters that are paused or not; every lookup finds one cluster.\<close>

definition sample_controller_env :: "cluster_summary list \<Rightarrow> bool \<Rightarrow> profile_env" where
  "sample_controller_env css paused = \<lparr>pe_Cleanup = (sample_cleanup_env css)
       \<lparr>ce_Rollout := (sample_env [])\<lparr>re_IsClusterPaused := (\<lambda>_ _ _. Inr paused)\<rparr>\<rparr>,
     pe_Config = sample_config_env, pe_Get = None, pe_Scope = None, pe_Patch = (\<lambda>_. None),
     pe_GetMatchingClusters = (\<lambda>_ ns. Inr [(sample_ref ''a'')\<lparr>ref_Namespace := ns\<rparr>]), pe_GetSet = (\<lambda>_ _. Inl ApiNotFound),
     pe_SetKind = ''Set'', pe_ClusterSetKind = ''ClusterSet''\<rparr>"

definition sample_controller_world :: "profile \<Rightarrow> object_reference list profile_world" where
  "sample_controller_world p = \<lparr>pw_Reconciler = \<lparr>pc_SetMap = [], pc_ClusterMap = [], pc_Profiles = [], pc_ClusterLabels = []\<rparr>,
     pw_Deps = Some ((InitializeManagerInstance True)\<lparr>dm_initialized := True\<rparr>), pw_Configs = [], pw_Writes = [], pw_Stored = Some p\<rparr>"

definition sample_deleted :: profile where
  "sample_deleted = Rollout.sample_profile\<lparr>prof_Meta := zero_object_meta\<lparr>om_Name := ''p'', om_DeletionTimestamp := Some 0,
     om_Finalizers := [ClusterProfileFinalizer]\<rparr>\<rparr>"

text \<open>A Profile that names a cluster of another namespace.\<close>

definition sample_tenant :: profile where
  "sample_tenant = Rollout.sample_profile\<lparr>prof_Kind := ProfileKind, prof_Meta := zero_object_meta\<lparr>om_Name := ''p'', om_Namespace := ''ns''\<rparr>,
     prof_Spec := zero_profile_spec\<lparr>ps_ClusterRefs := [(sample_ref ''b'')\<lparr>ref_Namespace := ''other''\<rparr>]\<rparr>\<rparr>"

definition sample_paused :: profile where
  "sample_paused = Rollout.sample_profile\<lparr>prof_Meta := zero_object_meta\<lparr>om_Annotations := [(ProfilePausedAnnotation, ''ok'')]\<rparr>\<rparr>"

lemma sample_manager:
  "pw_Deps (sample_controller_world p) = Some ((InitializeManagerInstance True)\<lparr>dm_initialized := True\<rparr>)"
  "dm_enabled ((InitializeManagerInstance True)\<lparr>dm_initialized := True\<rparr>)"
  "object_set.dep_inv list_set_ops ((InitializeManagerInstance True)\<lparr>dm_initialized := True\<rparr>)"
  "deps_confined ((InitializeManagerInstance True)\<lparr>dm_initialized := True\<rparr>)"
  by (simp_all add: sample_controller_world_def InitializeManagerInstance_def list_object_set.dep_inv_def requests_wf_def needs_def
      deps_confined_def getClusterDeployments_def)

theorem paused_profile_status_lost_witness:
  "profile_Reconcile list_set_ops (sample_controller_env [] False) (sample_controller_world sample_paused) =
     (0, None, sample_controller_world sample_paused)"
  using paused_profile_status_lost [of "sample_controller_world sample_paused" sample_paused "sample_controller_env [] False" list_set_ops]
  by (simp add: sample_controller_world_def sample_controller_env_def sample_paused_def isProfilePaused_def zero_object_meta_def)


theorem waiting_deletion_woken_witness:
  "\<exists>clusters. clusters \<noteq> [] \<and> getWaitingForPausedClustersError
     (pe_Cleanup (sample_controller_env [sample_cs ''x'' []] True)) 1 sample_deleted = Some clusters"
proof -
  define env where "env = sample_controller_env [sample_cs ''x'' []] True"
  obtain wait err w' where run: "clusterprofile_Reconcile list_set_ops env (sample_controller_world sample_deleted) = (wait, err, w')"
    by (cases "clusterprofile_Reconcile list_set_ops env (sample_controller_world sample_deleted)") auto
  have "fst (clusterprofile_Reconcile list_set_ops env (sample_controller_world sample_deleted)) = pausedClustersRequeueAfter"
    unfolding env_def by code_simp
  then have waits: "wait = pausedClustersRequeueAfter" by (simp add: run)
  have c: "(clusterprofile_Reconcile, ClusterProfileFinalizer) \<in> set controllers" by (simp add: controllers_def)
  from waiting_deletion_woken [OF list_object_set.object_set_axioms c run _ _ _ _ _ waits, of sample_deleted]
  show ?thesis
    by (auto simp: env_def sample_controller_world_def sample_controller_env_def sample_deleted_def zero_object_meta_def isProfilePaused_def)
qed

theorem tenants_apart_witness:
  "tenant_inv list_set_ops ProfileKind
     (snd (snd (profile_Reconcile list_set_ops (sample_controller_env [] False) (sample_controller_world sample_tenant))))"
proof -
  obtain wait err w' where run: "profile_Reconcile list_set_ops (sample_controller_env [] False)
      (sample_controller_world sample_tenant) = (wait, err, w')"
    by (cases "profile_Reconcile list_set_ops (sample_controller_env [] False) (sample_controller_world sample_tenant)") auto
  have env: "lookups_confined (sample_controller_env [] False)" by (simp add: lookups_confined_def sample_controller_env_def)
  have inv: "tenant_inv list_set_ops ProfileKind (sample_controller_world sample_tenant)"
    using sample_manager
    by (simp add: tenant_inv_def deps_ok_def sample_controller_world_def sample_tenant_def refs_confined_def Rollout.sample_profile_def sample_ref_def)
  have c: "(profile_Reconcile, ProfileFinalizer, ProfileKind) \<in> {(clusterprofile_Reconcile, ClusterProfileFinalizer, ClusterProfileKind),
      (profile_Reconcile, ProfileFinalizer, ProfileKind)}" by simp
  from tenants_apart [OF list_object_set.object_set_axioms env run c _ inv]
  show ?thesis unfolding run by (simp add: sample_controller_world_def sample_tenant_def)
qed

end
