(* ===== verification/Summary_Reconcile.thy ===== *)
theory Summary_Reconcile
  imports Feature_Deployer License_Manager Watchers Dependency_Gates Reconcile_Maps
begin

text \<open>
  The reconciliation of a ClusterSummary (controllers/clustersummary_controller.go): Reconcile with its gates, the
  normal path (prepareForDeployment, proceedDeployingClusterSummary) and the delete path (reconcileDelete,
  cleanupBeforeFinalizerRemoval, postFinalizerCleanup). It composes the components modelled elsewhere: the
  maps and the cool-down (Reconcile_Maps), the registrations of helm charts (Chart_Manager), the watches of
  referenced resources (Watchers), the gates between profiles (Dependency_Gates), the features (Feature_Deployer) and the
  licenses (License_Manager).

  A \<open>reconcile_env\<close> holds the answers of everything outside: the API server, the cluster proxy, sharding,
  licenses, the functions that talk to the managed cluster. A reconciliation returns the delay after which it wants to be
  repeated (0 for none) and its error.
\<close>

section \<open>The environment and the state\<close>

record cluster_object =
  co_Deleted :: bool
  co_Labels :: "(string \<times> string) list"

datatype removal_answer = Removed | RemovalNotFound | RemovalNoMatch | RemovalFailed string

datatype close_answer = Closed | CloseConflict | CloseFailed string

record reconcile_env =
  ev_now :: time
  ev_Get :: "api_error + cluster_summary"
  ev_group_of :: "string \<Rightarrow> string option"
  ev_get_profile :: "string \<Rightarrow> string \<Rightarrow> string \<Rightarrow> api_error + profile"
  ev_list_profiles :: "string \<Rightarrow> string \<Rightarrow> api_error + profile list"
  ev_lister :: summary_lister
  ev_toSelector :: to_selector
  ev_cluster :: "api_error + cluster_object"
  ev_IsShardAMatch :: bool
  ev_RegisterClusterShard :: "api_error + bool"
  ev_UnregisterClusterShard :: "api_error option"
  ev_IsClusterReady :: "api_error + bool"
  ev_IsClusterPaused :: "api_error + bool"
  ev_HasPaused :: "(string \<times> string) list \<Rightarrow> bool"
  ev_IsClusterInPullMode :: "api_error + bool"
  ev_IsAgentTimeout :: "api_error + bool"
  ev_GetPublicKey :: "string option"
  ev_license :: license_result
  ev_licenses :: license_manager
  ev_reconcileHealthMonitoring :: "string option"
  ev_removeHealthMonitoring :: "string option"
  ev_PatchObject :: "string option"
  ev_Close :: close_answer
  ev_chartManager :: "string option"
  ev_collectTemplateResourceRefs :: "string option"
  ev_instantiatedCharts :: "string + helm_chart list"
  ev_unDeployResourceSummary :: removal_answer
  ev_removeStaleResourceSummary :: "string option"
  ev_leaveDriftDetectionGroups :: "string option"
  ev_removeDriftDetectionManager :: "string option"
  ev_deploy :: "feature_id \<Rightarrow> deploy_env"
  ev_undeploy :: "feature_id \<Rightarrow> deploy_env"
  ev_random :: "int \<Rightarrow> int option"
  ev_ConflictRetryTime :: time
  ev_HealthErrorRetryTime :: time
  ev_refs :: ref_env
  ev_watch :: watch_env

text \<open>What a reconciliation asks of the outside.\<close>

datatype reconcile_op =
    RFeature feature_id "deployer_op list"
  | RCleanupEntries feature_id
  | RRemoveHealthMonitoring
  | RReconcileHealthMonitoring
  | RRemoveResourceSummary
  | RPatchFinalizer
  | RRestart
  | RRemoveStaleResourceSummaries
  | RLeaveDriftDetectionGroups
  | RRemoveDriftDetectionManager

record 's controller =
  ct_R :: "'s reconciler"
  ct_Charts :: chart_manager
  ct_Watch :: "'s watch_manager"
  ct_CS :: cluster_summary
  ct_Ops :: "reconcile_op list"

type_synonym result = "time \<times> string option"

definition on_CS :: "(cluster_summary \<Rightarrow> cluster_summary) \<Rightarrow> 's controller \<Rightarrow> 's controller" where
  "on_CS g c = c\<lparr>ct_CS := g (ct_CS c)\<rparr>"

definition r_op :: "reconcile_op \<Rightarrow> 's controller \<Rightarrow> 's controller" where
  "r_op a c = c\<lparr>ct_Ops := ct_Ops c @ [a]\<rparr>"

definition next_time :: "reconcile_env \<Rightarrow> time \<Rightarrow> 's controller \<Rightarrow> 's controller" where
  "next_time env d c =
     (let s = setNextReconcileTime (ev_now env) d (ct_CS c) (ct_R c) in c\<lparr>ct_CS := fst s, ct_R := snd s\<rparr>)"

definition update_maps :: "'s set_ops \<Rightarrow> reconcile_env \<Rightarrow> 's controller \<Rightarrow> 's controller" where
  "update_maps ops env c = c\<lparr>ct_R := snd (updateMaps ops (ev_refs env) (ct_CS c) (ct_R c))\<rparr>"

definition set_failure_message :: "string option \<Rightarrow> cluster_summary \<Rightarrow> cluster_summary" where
  "set_failure_message m cs = cs\<lparr>cs_Status := (cs_Status cs)\<lparr>cst_FailureMessage := m\<rparr>\<rparr>"

definition set_suspended :: "string option \<Rightarrow> cluster_summary \<Rightarrow> cluster_summary" where
  "set_suspended reason cs = cs\<lparr>cs_Status := (cs_Status cs)
     \<lparr>cst_ReconciliationSuspended := reason \<noteq> None, cst_SuspensionReason := reason\<rparr>\<rparr>"

definition clusterPausedMessage :: string where
  "clusterPausedMessage = ''Cluster is paused''"

definition ClusterSummaryFinalizer :: string where
  "ClusterSummaryFinalizer = ''clustersummaryfinalizer.projectsveltos.io''"

definition has_finalizer :: "cluster_summary \<Rightarrow> bool" where
  "has_finalizer cs \<longleftrightarrow> ClusterSummaryFinalizer \<in> set (om_Finalizers (cs_Meta cs))"

definition with_finalizers :: "(string list \<Rightarrow> string list) \<Rightarrow> cluster_summary \<Rightarrow> cluster_summary" where
  "with_finalizers g cs = cs\<lparr>cs_Meta := (cs_Meta cs)\<lparr>om_Finalizers := g (om_Finalizers (cs_Meta cs))\<rparr>\<rparr>"

section \<open>Questions about the cluster\<close>

definition isReady :: "reconcile_env \<Rightarrow> api_error + bool" where
  "isReady env = (case ev_IsClusterReady env of
     Inl ApiNotFound \<Rightarrow> Inr False | Inl err \<Rightarrow> Inl err | Inr ready \<Rightarrow> Inr ready)"

definition isPaused :: "reconcile_env \<Rightarrow> cluster_summary \<Rightarrow> api_error + bool" where
  "isPaused env cs = (case ev_IsClusterPaused env of
     Inl ApiNotFound \<Rightarrow> Inr False
   | Inl err \<Rightarrow> Inl err
   | Inr paused \<Rightarrow> if paused then Inr True else Inr (ev_HasPaused env (om_Annotations (cs_Meta cs))))"

text \<open>\<open>ev_IsAgentTimeout\<close> is the answer to the get call of the SveltosCluster with what \<open>IsAgentTimeoutError\<close> says of it.\<close>

definition isAgentHealthy :: "reconcile_env \<Rightarrow> cluster_summary \<Rightarrow> api_error + bool" where
  "isAgentHealthy env cs =
     (if css_ClusterType (cs_Spec cs) \<noteq> ClusterTypeSveltos then Inr True
      else case ev_IsClusterInPullMode env of
        Inl err \<Rightarrow> Inl err
      | Inr isPullMode \<Rightarrow>
          if \<not> isPullMode then Inr True
          else (case ev_IsAgentTimeout env of
                  Inl ApiNotFound \<Rightarrow> Inr False
                | Inl err \<Rightarrow> Inl err
                | Inr timeout \<Rightarrow> if timeout then Inr False else Inr True))"

text \<open>Whether the cluster is present, and whether it is being deleted.\<close>

definition isClusterPresent :: "reconcile_env \<Rightarrow> api_error + bool \<times> bool" where
  "isClusterPresent env = (case ev_cluster env of
     Inl ApiNotFound \<Rightarrow> Inr (False, False) | Inl err \<Rightarrow> Inl err | Inr cluster \<Rightarrow> Inr (True, co_Deleted cluster))"

definition isClusterAShardMatch :: "reconcile_env \<Rightarrow> api_error + bool" where
  "isClusterAShardMatch env = (case ev_cluster env of
     Inl ApiNotFound \<Rightarrow> Inr True
   | Inl err \<Rightarrow> Inl err
   | Inr cluster \<Rightarrow> if \<not> ev_IsShardAMatch env then Inr False else Inr True)"

definition updateClusterShardPair :: "reconcile_env \<Rightarrow> 's controller \<Rightarrow> api_error option \<times> 's controller" where
  "updateClusterShardPair env c = (case ev_cluster env of
     Inl ApiNotFound \<Rightarrow> (None, c)
   | Inl err \<Rightarrow> (Some err, c)
   | Inr _ \<Rightarrow> (case ev_RegisterClusterShard env of
       Inl err \<Rightarrow> (Some err, c)
     | Inr hasShardChanged \<Rightarrow> if hasShardChanged then (None, r_op RRestart c) else (None, c)))"

definition verifyPullModeEligibility :: "reconcile_env \<Rightarrow> cluster_summary \<Rightarrow> string + bool" where
  "verifyPullModeEligibility env cs =
     (case ev_IsClusterInPullMode env of
        Inl err \<Rightarrow> Inl (err_text err)
      | Inr isPullMode \<Rightarrow>
          if \<not> isPullMode then Inr True
          else case ev_GetPublicKey env of
            Some err \<Rightarrow> Inl err
          | None \<Rightarrow> Inr (grantsPullModeEligibility (ev_license env) (css_ClusterNamespace (cs_Spec cs))
              (css_ClusterName (cs_Spec cs)) (ev_licenses env)))"

definition handleClusterNotUsable :: "'s set_ops \<Rightarrow> reconcile_env \<Rightarrow> string \<Rightarrow> 's controller \<Rightarrow> 's controller" where
  "handleClusterNotUsable ops env msg c =
     update_maps ops env (on_CS (resetFeatureStatus FeatureStatusFailed) (on_CS (setFailureMessage msg) c))"

definition checkClusterHealth :: "'s set_ops \<Rightarrow> reconcile_env \<Rightarrow> 's controller \<Rightarrow> (api_error + bool) \<times> 's controller" where
  "checkClusterHealth ops env c =
     (case isReady env of
        Inl err \<Rightarrow> (Inl err, c)
      | Inr ready \<Rightarrow>
          if \<not> ready then (Inr False, handleClusterNotUsable ops env ''cluster is not ready'' c)
          else case isAgentHealthy env (ct_CS c) of
            Inl err \<Rightarrow> (Inl err, c)
          | Inr healthy \<Rightarrow>
              if \<not> healthy then
                (Inr False, handleClusterNotUsable ops env ''agent in managed cluster is not healthy.'' c)
              else (Inr True, c))"

section \<open>Deploying\<close>

definition with_deploy :: "feature_id \<Rightarrow> dep_outcome \<Rightarrow> 's controller \<Rightarrow> dep_error option \<times> 's controller" where
  "with_deploy f out c = (fst out, r_op (RFeature f (dst_Ops (snd out))) (c\<lparr>ct_CS := dst_CS (snd out)\<rparr>))"

text \<open>\<open>deployResources\<close>, \<open>deployHelm\<close> and \<open>deployKustomizeRefs\<close>.\<close>

definition deploy_feature :: "reconcile_env \<Rightarrow> feature_id \<Rightarrow> 's controller \<Rightarrow> dep_error option \<times> 's controller" where
  "deploy_feature env f c =
     (if \<not> spec_mentions (ct_CS c) f \<and> \<not> isFeatureStatusPresent (ct_CS c) f then (None, c)
      else with_deploy f (deployFeature (ev_deploy env f) f (ct_CS c)) c)"

definition join_errors :: "dep_error list \<Rightarrow> dep_error" where
  "join_errors es = \<lparr>err_Msg = go_join (CHR 0x0A) (map err_Msg es), err_Chain = concat (map err_Chain es)\<rparr>"

definition wrap_error :: "string \<Rightarrow> dep_error option \<Rightarrow> dep_error list" where
  "wrap_error msg e = (case e of None \<Rightarrow> [] | Some e \<Rightarrow> [e\<lparr>err_Msg := msg @ '': '' @ err_Msg e\<rparr>])"

definition deploy :: "reconcile_env \<Rightarrow> 's controller \<Rightarrow> dep_error option \<times> 's controller" where
  "deploy env c =
     (let resources = deploy_feature env FeatureResources c;
          helm = deploy_feature env FeatureHelm (snd resources);
          kustomize = deploy_feature env FeatureKustomize (snd helm);
          errs = wrap_error ''deploying resources failed'' (fst resources) @
                 wrap_error ''deploying helm charts failed'' (fst helm) @
                 wrap_error ''deploying kustomize resources failed'' (fst kustomize)
      in (if errs \<noteq> [] then Some (join_errors errs) else None, snd kustomize))"

definition undeploy :: "reconcile_env \<Rightarrow> 's controller \<Rightarrow> dep_error option \<times> 's controller" where
  "undeploy env c =
     (let one = (\<lambda>f c. with_deploy f (undeployFeature (ev_undeploy env f) f (ct_CS c)) c);
          resources = one FeatureResources c;
          kustomize = one FeatureKustomize (snd resources);
          helm = one FeatureHelm (snd kustomize)
      in (case fst resources of
            Some e \<Rightarrow> Some e
          | None \<Rightarrow> (case fst kustomize of Some e \<Rightarrow> Some e | None \<Rightarrow> fst helm), snd helm))"

text \<open>\<open>getClusterSummaryWithInstantiatedCharts\<close> copies the name and the specification of the ClusterSummary; the charts it
  instantiates are \<open>ev_instantiatedCharts\<close>.\<close>

definition updateChartMap :: "reconcile_env \<Rightarrow> 's controller \<Rightarrow> string option \<times> 's controller" where
  "updateChartMap env c =
     (if ps_SyncMode (cs_ProfileSpec (ct_CS c)) = SyncModeDryRun then (None, c)
      else case ev_chartManager env of
        Some err \<Rightarrow> (Some err, c)
      | None \<Rightarrow>
          (case ev_collectTemplateResourceRefs env of
             Some err \<Rightarrow> (Some err, c)
           | None \<Rightarrow>
               (case ev_instantiatedCharts env of
                  Inl err \<Rightarrow> (Some err, c)
                | Inr charts \<Rightarrow>
                    let csCopy = \<lparr>cs_Meta = zero_object_meta\<lparr>om_Namespace := cs_Namespace (ct_CS c), om_Name := cs_Name (ct_CS c)\<rparr>,
                          cs_Spec = (cs_Spec (ct_CS c))\<lparr>css_ClusterProfileSpec :=
                            (cs_ProfileSpec (ct_CS c))\<lparr>ps_HelmCharts := Some charts\<rparr>\<rparr>,
                          cs_Status = zero_cluster_summary_status\<rparr>
                    in (None, c\<lparr>ct_Charts := RegisterClusterSummaryForCharts csCopy (ct_Charts c)\<rparr>))))"

definition deleteChartMap :: "reconcile_env \<Rightarrow> 's controller \<Rightarrow> string option \<times> 's controller" where
  "deleteChartMap env c =
     (case ev_chartManager env of
        Some err \<Rightarrow> (Some err, c)
      | None \<Rightarrow> (None, c\<lparr>ct_Charts := RemoveAllRegistrations (ct_CS c) (ct_Charts c)\<rparr>))"

definition removeResourceSummary :: "reconcile_env \<Rightarrow> 's controller \<Rightarrow> string option \<times> 's controller" where
  "removeResourceSummary env c =
     (case ev_unDeployResourceSummary env of
        RemovalFailed err \<Rightarrow> (Some err, r_op RRemoveResourceSummary c)
      | _ \<Rightarrow> (None, r_op RRemoveResourceSummary c))"

fun start_watchers :: "'s set_ops \<Rightarrow> watch_env \<Rightarrow> cluster_summary \<Rightarrow> template_resource_ref list \<Rightarrow> 's watch_manager \<Rightarrow>
    string option \<times> 's watch_manager" where
  "start_watchers ops env cs [] m = (None, m)"
| "start_watchers ops env cs (ref # refs) m =
     (let r = startWatcherForTemplateResourceRef ops env (resource_gvk env (trr_Resource ref)) ref cs m in
      case fst r of Some err \<Rightarrow> r | None \<Rightarrow> start_watchers ops env cs refs (snd r))"

definition startWatcherForTemplateResourceRefs :: "'s set_ops \<Rightarrow> reconcile_env \<Rightarrow> 's controller \<Rightarrow>
    string option \<times> 's controller" where
  "startWatcherForTemplateResourceRefs ops env c =
     (let r = start_watchers ops (ev_watch env) (ct_CS c) (ps_TemplateResourceRefs (cs_ProfileSpec (ct_CS c))) (ct_Watch c) in
      case fst r of
        Some err \<Rightarrow> (Some err, c\<lparr>ct_Watch := snd r\<rparr>)
      | None \<Rightarrow> let s = stopStaleWatchForTemplateResourceRef ops (ev_watch env) (ct_CS c) False (snd r) in
          (None, c\<lparr>ct_Watch := fst s, ct_CS := snd s\<rparr>))"

text \<open>\<open>prepareForDeployment\<close>: the delay it asks for, 0 to go on.\<close>

definition prepareForDeployment :: "'s set_ops \<Rightarrow> reconcile_env \<Rightarrow> 's controller \<Rightarrow> time \<times> 's controller" where
  "prepareForDeployment ops env c =
     (let w = startWatcherForTemplateResourceRefs ops env c; c = snd w in
      if fst w \<noteq> None then (deleteRequeueAfter, next_time env deleteRequeueAfter c)
      else case areDependenciesDeployed (ev_lister env) (ev_group_of env) (ct_CS c) of
        Inl err \<Rightarrow> (normalRequeueAfter, next_time env normalRequeueAfter c)
      | Inr (allDeployed, msg) \<Rightarrow>
          let c = on_CS (SetDependenciesMessage (Some msg)) c in
          if \<not> allDeployed then
            (normalRequeueAfter, next_time env normalRequeueAfter (on_CS (resetFeatureStatus FeatureStatusBlocked) c))
          else
            let u = updateChartMap env c; c = snd u in
            case fst u of
              Some err \<Rightarrow> (normalRequeueAfter, next_time env normalRequeueAfter
                (on_CS (resetFeatureStatus FeatureStatusFailedNonRetriable) (on_CS (setFailureMessage err) c)))
            | None \<Rightarrow>
                if \<not> IsContinuousWithDriftDetection (ct_CS c) \<and> anyFeatureNeedsResourceSummaryRemoval (ct_CS c) then
                  (let rm = removeResourceSummary env c; c = snd rm in
                   case fst rm of
                     Some err \<Rightarrow> (normalRequeueAfter, next_time env normalRequeueAfter
                       (on_CS (resetFeatureStatus FeatureStatusFailed) (on_CS (setFailureMessage err) c)))
                   | None \<Rightarrow> (0, on_CS markResourceSummaryRemovedForAllFeatures c))
                else (0, c))"

definition defaultURLInterval :: duration where
  "defaultURLInterval = 300"

definition shorter_interval :: "duration option \<Rightarrow> duration \<Rightarrow> duration" where
  "shorter_interval configured result =
     (let interval = (case configured of Some d \<Rightarrow> if d > 0 then d else defaultURLInterval | None \<Rightarrow> defaultURLInterval)
      in if result = 0 \<or> interval < result then interval else result)"

definition minURLInterval :: "policy_ref list \<Rightarrow> duration" where
  "minURLInterval refs = fold (\<lambda>ref result. case pr_RemoteURL ref of
     None \<Rightarrow> result | Some url \<Rightarrow> shorter_interval (ru_Interval url) result) refs 0"

definition minKustomizeURLInterval :: "kustomization_ref list \<Rightarrow> duration" where
  "minKustomizeURLInterval refs = fold (\<lambda>ref result. case kr_RemoteURL ref of
     None \<Rightarrow> result | Some url \<Rightarrow> shorter_interval (rku_Interval url) result) refs 0"

text \<open>The delay after a failed deployment. \<open>ev_random n\<close> is a random number below \<open>n\<close>, \<open>None\<close> its error.\<close>

definition failure_backoff :: "reconcile_env \<Rightarrow> 64 word \<Rightarrow> time" where
  "failure_backoff env maxFailures =
     (if maxFailures > 1 then
        (let currentMax = (if maxFailures < 6 then uint maxFailures else 6);
             delta = currentMax - 2 + 1;
             multiplier = (if delta > 0 then (case ev_random env delta of Some n \<Rightarrow> n + 2 | None \<Rightarrow> 2) else 2)
         in multiplier * normalRequeueAfter)
      else normalRequeueAfter)"

definition dryRunRequeueAfter :: time where "dryRunRequeueAfter = 60"

definition proceedDeployingClusterSummary :: "reconcile_env \<Rightarrow> 's controller \<Rightarrow> result \<times> 's controller" where
  "proceedDeployingClusterSummary env c =
     (let d = deploy env c; c = snd d in
      case fst d of
        Some e \<Rightarrow>
          let requeueAfter =
                (if errors_As e ConflictError then ev_ConflictRetryTime env
                 else if errors_As e HealthCheckError then ev_HealthErrorRetryTime env
                 else failure_backoff env (getMaxConsecutiveFailures (ct_CS c)))
          in ((requeueAfter, None), next_time env requeueAfter c)
      | None \<Rightarrow>
          if IsDryRunSync (ct_CS c) then
            ((dryRunRequeueAfter, None), next_time env dryRunRequeueAfter (on_CS resetFeatureStatusToProvisioning c))
          else
            let policyRefInterval = minURLInterval (slice (ps_PolicyRefs (cs_ProfileSpec (ct_CS c))));
                kustomizeRefInterval = minKustomizeURLInterval (slice (ps_KustomizationRefs (cs_ProfileSpec (ct_CS c))));
                interval = (if policyRefInterval = 0 \<or> kustomizeRefInterval > 0 \<and> kustomizeRefInterval < policyRefInterval
                            then kustomizeRefInterval else policyRefInterval)
            in if interval > 0 then ((interval, None), c) else ((0, None), c))"

definition licenseRequeueAfter :: time where "licenseRequeueAfter = 60"

definition errPullModeLicenseRequired :: string where
  "errPullModeLicenseRequired = ''license is required to manage SveltosCluster in pull mode''"

definition updateStatusWithMissingLicenseError :: "reconcile_env \<Rightarrow> cluster_summary \<Rightarrow> cluster_summary" where
  "updateStatusWithMissingLicenseError env =
     fold (\<lambda>f. updateFeatureStatus (ev_now env) f (Some FeatureStatusFailed) None (Some errPullModeLicenseRequired))
       [FeatureHelm, FeatureKustomize, FeatureResources]"

definition reconcileNormal :: "'s set_ops \<Rightarrow> reconcile_env \<Rightarrow> 's controller \<Rightarrow> result \<times> 's controller" where
  "reconcileNormal ops env c =
     (let f = (if has_finalizer (ct_CS c) then (None, c)
               else (ev_PatchObject env, r_op RPatchFinalizer (on_CS (with_finalizers (\<lambda>fs. fs @ [ClusterSummaryFinalizer])) c)));
          c = snd f
      in case fst f of
        Some err \<Rightarrow> ((0, Some (''failed to add finalizer for '' @ cs_Name (ct_CS c) @ '': '' @ err)), c)
      | None \<Rightarrow>
        let c = r_op RReconcileHealthMonitoring c in
        if ev_reconcileHealthMonitoring env \<noteq> None then ((normalRequeueAfter, None), next_time env normalRequeueAfter c)
        else if \<not> shouldReconcile (ct_CS c) then ((0, None), c)
        else case verifyPullModeEligibility env (ct_CS c) of
          Inl err \<Rightarrow> ((0, Some err), c)
        | Inr isEligible \<Rightarrow>
          if \<not> isEligible then ((licenseRequeueAfter, None), on_CS (updateStatusWithMissingLicenseError env) c)
          else
            let c = update_maps ops env c in
            case isPaused env (ct_CS c) of
              Inl err \<Rightarrow> ((0, Some (err_text err)), c)
            | Inr paused \<Rightarrow>
                if paused then ((0, None), on_CS (set_suspended (Some clusterPausedMessage)) c)
                else
                  let c = on_CS (set_suspended None) c;
                      p = prepareForDeployment ops env c
                  in if fst p > 0 then ((fst p, None), snd p) else proceedDeployingClusterSummary env (snd p))"

section \<open>Deleting\<close>

definition handleDeletedCluster :: "reconcile_env \<Rightarrow> 's controller \<Rightarrow> string option \<times> 's controller" where
  "handleDeletedCluster env c =
     (let c = fold (\<lambda>f. r_op (RCleanupEntries f)) [FeatureHelm, FeatureKustomize, FeatureResources] c;
          c = r_op RRemoveStaleResourceSummaries c
      in case ev_removeStaleResourceSummary env of
           Some err \<Rightarrow> (Some err, c)
         | None \<Rightarrow>
             let c = r_op RLeaveDriftDetectionGroups c in
             case ev_leaveDriftDetectionGroups env of
               Some err \<Rightarrow> (Some err, c)
             | None \<Rightarrow> (ev_removeDriftDetectionManager env, r_op RRemoveDriftDetectionManager c))"

definition deleteHandOverRequeueAfter :: time where "deleteHandOverRequeueAfter = 120"

definition processUndeployError :: "reconcile_env \<Rightarrow> cluster_summary \<Rightarrow> dep_error \<Rightarrow> result" where
  "processUndeployError env cs e =
     (if errors_As e WaitForProfileProcessingError then (deleteRequeueAfter, None)
      else if \<not> IsDryRunSync cs then (deleteRequeueAfter, None)
      else if errors_As e NonRetriableError then (deleteHandOverRequeueAfter, None)
      else if errors_As e TemplateInstantiationError then (deleteHandOverRequeueAfter, None)
      else if errors_As e HealthCheckError then (ev_HealthErrorRetryTime env, None)
      else (deleteRequeueAfter, None))"

definition cluster_lookup_of :: "reconcile_env \<Rightarrow> cluster_lookup" where
  "cluster_lookup_of env = (case ev_cluster env of
     Inl ApiNotFound \<Rightarrow> ClusterNotFound | Inl _ \<Rightarrow> ClusterLookupError | Inr _ \<Rightarrow> ClusterFound)"

definition owner_lookup_of :: "reconcile_env \<Rightarrow> cluster_summary \<Rightarrow> string + profile option" where
  "owner_lookup_of env cs = (case GetProfileOwnerAndTier (ev_group_of env) (ev_get_profile env) cs of
     Inl err \<Rightarrow> Inl (err_text err) | Inr owner \<Rightarrow> Inr (map_option fst owner))"

definition transition_of :: "reconcile_env \<Rightarrow> transition_env" where
  "transition_of env = \<lparr>te_list_profiles = ev_list_profiles env,
     te_cluster_labels = (case ev_cluster env of Inl err \<Rightarrow> Inl err | Inr cluster \<Rightarrow> Inr (co_Labels cluster)),
     te_toSelector = ev_toSelector env\<rparr>"

text \<open>\<open>Some\<close> is the result \<open>reconcileDelete\<close> returns at once (done is true), \<open>None\<close> lets it go on to the finalizer.\<close>

definition cleanup_resource_summary :: "reconcile_env \<Rightarrow> bool \<Rightarrow> 's controller \<Rightarrow> result option \<times> 's controller" where
  "cleanup_resource_summary env isDeleted c =
     (if \<not> isDeleted \<and> anyFeatureNeedsResourceSummaryRemoval (ct_CS c) then
        (let rm = removeResourceSummary env c; c = snd rm in
         case fst rm of
           Some err \<Rightarrow> (Some (deleteRequeueAfter, None),
             on_CS (resetFeatureStatus FeatureStatusFailed) (on_CS (setFailureMessage err) c))
         | None \<Rightarrow> (None, on_CS markResourceSummaryRemovedForAllFeatures c))
      else (None, c))"

text \<open>The undeployment and the last test, behind the gate of the successors, behind the gate of the dependents.\<close>

definition undeploy_and_check :: "reconcile_env \<Rightarrow> 's controller \<Rightarrow> result option \<times> 's controller" where
  "undeploy_and_check env c =
     (let u = undeploy env c; c = snd u in
      case fst u of
        Some e \<Rightarrow> (Some (processUndeployError env (ct_CS c) e), c)
      | None \<Rightarrow>
          if \<not> canRemoveFinalizer (cluster_lookup_of env) (owner_lookup_of env (ct_CS c)) (ct_CS c)
          then (Some (deleteRequeueAfter, None), c)
          else (None, c))"

definition successors_gate :: "reconcile_env \<Rightarrow> 's controller \<Rightarrow> result option \<times> 's controller" where
  "successors_gate env c =
     (case areSuccessorsProvisioned (ev_lister env) (ev_group_of env) (transition_of env) (ct_CS c) of
        Inl err \<Rightarrow> (Some (deleteRequeueAfter, None), c)
      | Inr (allProvisioned, transitionMsg) \<Rightarrow>
          let c = on_CS (SetDependenciesMessage (Some transitionMsg)) c in
          if \<not> allProvisioned then (Some (deleteRequeueAfter, None), on_CS (resetFeatureStatus FeatureStatusBlocked) c)
          else undeploy_and_check env c)"

definition dependents_gate :: "reconcile_env \<Rightarrow> 's controller \<Rightarrow> result option \<times> 's controller" where
  "dependents_gate env c =
     (case areDependentsRemoved (ev_lister env) (ev_group_of env) (ct_CS c) of
        Inl err \<Rightarrow> (Some (deleteRequeueAfter, None), c)
      | Inr (allRemoved, dependentMsg) \<Rightarrow>
          let c = on_CS (SetDependenciesMessage (Some dependentMsg)) c in
          if \<not> allRemoved then (Some (deleteRequeueAfter, None), on_CS (resetFeatureStatus FeatureStatusBlocked) c)
          else successors_gate env c)"

definition cleanupBeforeFinalizerRemoval :: "reconcile_env \<Rightarrow> bool \<Rightarrow> 's controller \<Rightarrow> result option \<times> 's controller" where
  "cleanupBeforeFinalizerRemoval env isDeleted c =
     (case isPaused env (ct_CS c) of
        Inl err \<Rightarrow> (Some (0, Some (err_text err)), c)
      | Inr paused \<Rightarrow>
          if paused then (Some (0, None), on_CS (set_suspended (Some clusterPausedMessage)) c)
          else
            let s = cleanup_resource_summary env isDeleted (on_CS (set_suspended None) c); c = snd s in
            case fst s of
              Some r \<Rightarrow> (Some r, c)
            | None \<Rightarrow> dependents_gate env c)"

definition removeFinalizer :: "cluster_summary \<Rightarrow> cluster_summary" where
  "removeFinalizer = with_finalizers (filter (\<lambda>f. f \<noteq> ClusterSummaryFinalizer))"

definition postFinalizerCleanup :: "'s set_ops \<Rightarrow> reconcile_env \<Rightarrow> 's controller \<Rightarrow> string option \<times> 's controller" where
  "postFinalizerCleanup ops env c =
     (let d = deleteChartMap env c; c = snd d in
      case fst d of
        Some err \<Rightarrow> (Some err, c)
      | None \<Rightarrow>
          let c = c\<lparr>ct_R := cleanMaps ops (ct_CS c) (ct_R c)\<rparr> in
          case ev_UnregisterClusterShard env of
            Some err \<Rightarrow> (Some (err_text err), c)
          | None \<Rightarrow> let s = stopStaleWatchForTemplateResourceRef ops (ev_watch env) (ct_CS c) True (ct_Watch c) in
              (None, c\<lparr>ct_Watch := fst s, ct_CS := snd s\<rparr>))"

definition finish_delete :: "'s set_ops \<Rightarrow> reconcile_env \<Rightarrow> bool \<Rightarrow> bool \<Rightarrow> 's controller \<Rightarrow> result \<times> 's controller" where
  "finish_delete ops env isPresent isDeleted c =
     (let h = (if \<not> isPresent \<or> isDeleted then handleDeletedCluster env c else (None, c)); c = snd h in
      if fst h \<noteq> None then ((deleteRequeueAfter, None), c)
      else
        let p = postFinalizerCleanup ops env (on_CS removeFinalizer c) in ((0, fst p), snd p))"

definition reconcileDelete :: "'s set_ops \<Rightarrow> reconcile_env \<Rightarrow> 's controller \<Rightarrow> result \<times> 's controller" where
  "reconcileDelete ops env c =
     (let c = c\<lparr>ct_R := updateDeletedInstancs (ev_now env) (ct_CS c) (ct_R c)\<rparr>;
          c = r_op RRemoveHealthMonitoring c
      in if ev_removeHealthMonitoring env \<noteq> None then ((deleteRequeueAfter, None), c)
         else case isReady env of
           Inl err \<Rightarrow> ((deleteRequeueAfter, None), c)
         | Inr ready \<Rightarrow>
           (case isClusterPresent env of
              Inl err \<Rightarrow> ((deleteRequeueAfter, None), c)
            | Inr (isPresent, isDeleted) \<Rightarrow>
              if isPresent \<and> ready then
                (let cleanup = cleanupBeforeFinalizerRemoval env isDeleted c in
                 case fst cleanup of
                   Some r \<Rightarrow> (r, snd cleanup)
                 | None \<Rightarrow> finish_delete ops env isPresent isDeleted (snd cleanup))
              else if isPresent \<and> \<not> isDeleted then ((deleteRequeueAfter, None), c)
              else finish_delete ops env isPresent isDeleted c))"

section \<open>Reconcile\<close>

definition refreshInternalState :: "'s set_ops \<Rightarrow> reconcile_env \<Rightarrow> 's controller \<Rightarrow> string option \<times> 's controller" where
  "refreshInternalState ops env c =
     (let d = deleteChartMap env c; c = snd d in
      case fst d of
        Some err \<Rightarrow> (Some err, c)
      | None \<Rightarrow> (None, c\<lparr>ct_R := refresh_cluster_map ops (ev_refs env) (ct_CS c) (ct_R c)\<rparr>))"

text \<open>Closing the scope writes the status back; a conflict delays the next reconciliation by a minute.\<close>

definition close_scope :: "reconcile_env \<Rightarrow> result \<times> 's controller \<Rightarrow> result \<times> 's controller" where
  "close_scope env rc =
     (case ev_Close env of
        Closed \<Rightarrow> rc
      | CloseConflict \<Rightarrow> ((60, snd (fst rc)), next_time env 60 (snd rc))
      | CloseFailed err \<Rightarrow> ((fst (fst rc), Some err), snd rc))"

definition reconcile_matched :: "'s set_ops \<Rightarrow> reconcile_env \<Rightarrow> 's controller \<Rightarrow> result \<times> 's controller" where
  "reconcile_matched ops env c =
     (if om_DeletionTimestamp (cs_Meta (ct_CS c)) \<noteq> None then reconcileDelete ops env c
      else
        let h = checkClusterHealth ops env c; c = snd h in
        case fst h of
          Inl err \<Rightarrow> ((normalRequeueAfter, None), on_CS (set_failure_message (Some (err_text err))) c)
        | Inr proceed \<Rightarrow>
            if \<not> proceed then ((0, None), c)
            else reconcileNormal ops env (on_CS (set_failure_message None) c))"

definition Reconcile :: "'s set_ops \<Rightarrow> reconcile_env \<Rightarrow> request \<Rightarrow> 's controller \<Rightarrow> result \<times> 's controller" where
  "Reconcile ops env req c =
     (case ev_Get env of
        Inl ApiNotFound \<Rightarrow> ((0, None), c)
      | Inl err \<Rightarrow> ((0, Some (err_text err)), c)
      | Inr cs \<Rightarrow>
        let c = c\<lparr>ct_CS := cs\<rparr> in
        case owner_lookup_of env cs of
          Inl err \<Rightarrow> ((0, Some err), c)
        | Inr None \<Rightarrow> ((0, Some ''failed to get owner (Cluster)Profile''), on_CS (set_failure_message
            (Some ''Failed to get owner (Cluster)Profile'')) c)
        | Inr (Some _) \<Rightarrow>
          let s = skipReconciliation (ev_now env) (ct_CS c) req (ct_R c);
              c = c\<lparr>ct_CS := fst (snd s), ct_R := snd (snd s)\<rparr>
          in if fst s then ((remainingCooldown (ev_now env) (ct_CS c) req (ct_R c), None), c)
             else case isClusterAShardMatch env of
               Inl err \<Rightarrow> ((normalRequeueAfter, None), on_CS (set_failure_message (Some (err_text err))) c)
             | Inr isMatch \<Rightarrow>
               if \<not> isMatch then (let r = refreshInternalState ops env c in ((0, fst r), snd r))
               else
                 let u = updateClusterShardPair env c; c = snd u in
                 case fst u of
                   Some err \<Rightarrow> ((normalRequeueAfter, None), on_CS (set_failure_message (Some (err_text err))) c)
                 | None \<Rightarrow> close_scope env (reconcile_matched ops env c))"

section \<open>What the steps leave alone\<close>

text \<open>The metadata and the specification: deploying and removing features changes only the status.\<close>

definition object_of :: "cluster_summary \<Rightarrow> object_meta \<times> cluster_summary_spec" where
  "object_of cs = (cs_Meta cs, cs_Spec cs)"

named_theorems object_frame

lemma object_setters [object_frame]:
  "object_of (updateFeatureStatus now f st h e cs) = object_of cs"
  "object_of (SetFeatureStatus f st' h b cs) = object_of cs"
  "object_of (SetFailureMessage f m cs) = object_of cs"
  "object_of (SetFailureReason f m cs) = object_of cs"
  "object_of (SetLastAppliedTime f t cs) = object_of cs"
  "object_of (ResetConsecutiveFailures f cs) = object_of cs"
  "object_of (SetDependenciesMessage d cs) = object_of cs"
  "object_of (SetResourceSummaryDeployed f deployed cs) = object_of cs"
  "object_of (markMaxConsecutiveFailuresReached now f h cs) = object_of cs"
  "object_of (markUndeployFailureRetriable now f m' cs) = object_of cs"
  "object_of (set_suspended reason cs) = object_of cs"
  "object_of (set_failure_message fm cs) = object_of cs"
  "object_of (set_next_time t cs) = object_of cs"
  "object_of (cs\<lparr>cs_Status := s\<rparr>) = object_of cs"
  by (simp_all add: object_of_def SetFailureReason_def SetDependenciesMessage_def SetResourceSummaryDeployed_def
      markMaxConsecutiveFailuresReached_def markUndeployFailureRetriable_def set_suspended_def set_failure_message_def
      set_next_time_def)

lemma object_resets [object_frame]:
  "object_of (resetFeatureStatus st cs) = object_of cs"
  "object_of (setFailureMessage m cs) = object_of cs"
  "object_of (markResourceSummaryRemovedForAllFeatures cs) = object_of cs"
  "object_of (resetFeatureStatusToProvisioning cs) = object_of cs"
  "object_of (updateStatusWithMissingLicenseError env cs) = object_of cs"
  by (simp_all add: resetFeatureStatus_def setFailureMessage_def markResourceSummaryRemovedForAllFeatures_def
      resetFeatureStatusToProvisioning_def updateStatusWithMissingLicenseError_def object_frame)
    (simp_all add: object_of_def)

lemma object_deploy_steps [object_frame]:
  "object_of (dst_CS (snd (proceesAgentDeploymentStatus env f s))) = object_of (dst_CS s)"
  "object_of (dst_CS (snd (handlePullModeProvisioned env f h s))) = object_of (dst_CS s)"
  "object_of (dst_CS (snd (snd (handleDeployerError env e f h s)))) = object_of (dst_CS s)"
  "object_of (dst_CS (snd (cleanPreviousActiveTracking env s))) = object_of (dst_CS s)"
  "object_of (dst_CS (snd (processUndeployResultInPullMode env f s))) = object_of (dst_CS s)"
  by (simp_all add: proceesAgentDeploymentStatus_def handlePullModeProvisioned_def handleDeployerError_def
      cleanPreviousActiveTracking_def processUndeployResultInPullMode_def Let_def object_frame
      split: option.splits sum.splits bool.splits)

lemma object_pull_mode [object_frame]:
  "object_of (dst_CS (snd (proceedDeployingFeatureInPullMode env f same h s))) = object_of (dst_CS s)"
  by (simp add: proceedDeployingFeatureInPullMode_def Let_def object_frame split: option.splits sum.splits)

lemma object_proceed [object_frame]:
  "object_of (dst_CS (snd (proceedDeployingFeature env f pm same h s))) = object_of (dst_CS s)"
  by (simp add: proceedDeployingFeature_def Let_def object_frame split: option.splits)

lemma object_undeploy_result [object_frame]:
  "object_of (dst_CS (snd (processUndeployResult env f pm s))) = object_of (dst_CS s)"
  by (simp add: processUndeployResult_def Let_def object_frame split: option.splits)

lemma object_features [object_frame]:
  "object_of (dst_CS (snd (deployFeature env f cs))) = object_of cs"
  "object_of (dst_CS (snd (undeployFeature env f cs))) = object_of cs"
  by (simp_all add: deployFeature_def undeployFeature_def Let_def object_frame split: option.splits sum.splits)

lemma object_deploy [object_frame]:
  "object_of (ct_CS (snd (deploy env c))) = object_of (ct_CS c)"
  "object_of (ct_CS (snd (undeploy env c))) = object_of (ct_CS c)"
  by (simp_all add: deploy_def undeploy_def deploy_feature_def with_deploy_def r_op_def Let_def object_frame)

lemma object_of_eq: "object_of a = object_of b \<Longrightarrow> cs_Meta a = cs_Meta b \<and> cs_Spec a = cs_Spec b"
  by (simp add: object_of_def)

section \<open>When the finalizer goes\<close>

lemma gates_object:
  assumes "object_of a = object_of b"
  shows "areDependentsRemoved l g a = areDependentsRemoved l g b"
    and "areSuccessorsProvisioned l g t a = areSuccessorsProvisioned l g t b"
    and "areDependenciesDeployed l g a = areDependenciesDeployed l g b"
    and "GetProfileOwnerReference g a = GetProfileOwnerReference g b"
    and "IsDryRunSync a = IsDryRunSync b" and "has_finalizer a = has_finalizer b"
proof -
  have e: "cs_Meta a = cs_Meta b" "cs_Spec a = cs_Spec b" using object_of_eq [OF assms] by simp_all
  have d: "dependencies_deployed l k a ns = dependencies_deployed l k b ns" for k ns
  proof (induction ns)
    case (Cons n ns)
    show ?case unfolding dependencies_deployed.simps e Cons.IH ..
  qed simp
  have sel: "selectorMatchesCluster ts s refs a ls = selectorMatchesCluster ts s refs b ls" for ts s refs ls
    by (simp add: selectorMatchesCluster_def e)
  have succ: "successors_provisioned l ts a ls ss = successors_provisioned l ts b ls ss" for ts ls ss
  proof (induction ss)
    case (Cons s ss)
    show ?case unfolding successors_provisioned.simps e sel Cons.IH ..
  qed simp
  have opts: "cluster_options a = cluster_options b" by (simp add: cluster_options_def e)
  have still: "still_depends n a = still_depends n b" for n by (rule ext) (simp add: still_depends_def e)
  show "areDependentsRemoved l g a = areDependentsRemoved l g b"
    unfolding areDependentsRemoved_def GetProfileOwnerReference_def opts still e ..
  show "areSuccessorsProvisioned l g t a = areSuccessorsProvisioned l g t b"
    unfolding areSuccessorsProvisioned_def GetProfileOwnerReference_def e succ ..
  show "areDependenciesDeployed l g a = areDependenciesDeployed l g b"
    unfolding areDependenciesDeployed_def GetProfileOwnerReference_def e d ..
  show "GetProfileOwnerReference g a = GetProfileOwnerReference g b" by (simp add: GetProfileOwnerReference_def e)
  show "IsDryRunSync a = IsDryRunSync b" by (simp add: IsDryRunSync_def e)
  show "has_finalizer a = has_finalizer b" by (simp add: has_finalizer_def e)
qed

lemma ct_simps [simp]:
  "ct_CS (on_CS g c) = g (ct_CS c)" "ct_CS (r_op a c) = ct_CS c" "ct_CS (next_time env d c) = set_next_time
     (Some (ev_now env + d)) (ct_CS c)" "ct_CS (update_maps ops env c) = ct_CS c"
  by (simp_all add: on_CS_def r_op_def next_time_def update_maps_def setNextReconcileTime_def Let_def)

lemma removeResourceSummary_CS: "ct_CS (snd (removeResourceSummary env c)) = ct_CS c"
  by (simp add: removeResourceSummary_def split: removal_answer.splits)

lemma cleanup_resource_summary_object:
  "object_of (ct_CS (snd (cleanup_resource_summary env d c))) = object_of (ct_CS c)"
  by (simp add: cleanup_resource_summary_def Let_def object_frame removeResourceSummary_CS split: option.splits)

text \<open>The cleanup on a usable cluster: it changes only the status, and lets the finalizer go only behind all its gates.\<close>

definition check_passed :: "reconcile_env \<Rightarrow> 's controller \<Rightarrow> bool" where
  "check_passed env c \<longleftrightarrow> canRemoveFinalizer (cluster_lookup_of env) (owner_lookup_of env (ct_CS c)) (ct_CS c)"

definition successors_passed :: "reconcile_env \<Rightarrow> cluster_summary \<Rightarrow> bool" where
  "successors_passed env cs \<longleftrightarrow>
     (\<exists>m. areSuccessorsProvisioned (ev_lister env) (ev_group_of env) (transition_of env) cs = Inr (True, m))"

definition dependents_passed :: "reconcile_env \<Rightarrow> cluster_summary \<Rightarrow> bool" where
  "dependents_passed env cs \<longleftrightarrow> (\<exists>m. areDependentsRemoved (ev_lister env) (ev_group_of env) cs = Inr (True, m))"

lemma passed_object:
  assumes "object_of a = object_of b"
  shows "successors_passed env a = successors_passed env b" "dependents_passed env a = dependents_passed env b"
  using gates_object [OF assms] by (simp_all add: successors_passed_def dependents_passed_def)

lemma undeploy_and_check_gate:
  assumes "undeploy_and_check env c = (r, c')"
  shows "object_of (ct_CS c') = object_of (ct_CS c) \<and> (r = None \<longrightarrow> check_passed env c')"
  using assms object_deploy(2) [of env c]
  by (auto simp: undeploy_and_check_def check_passed_def Let_def split: option.splits if_splits)

lemma successors_gate_gate:
  assumes "successors_gate env c = (r, c')"
  shows "object_of (ct_CS c') = object_of (ct_CS c) \<and> (r = None \<longrightarrow> successors_passed env (ct_CS c) \<and> check_passed env c')"
proof (cases "areSuccessorsProvisioned (ev_lister env) (ev_group_of env) (transition_of env) (ct_CS c)")
  case (Inr b)
  obtain ok msg where b: "b = (ok, msg)" by (cases b)
  have o: "object_of (ct_CS (on_CS (SetDependenciesMessage (Some msg)) c)) = object_of (ct_CS c)"
    by (simp add: object_frame)
  show ?thesis
  proof (cases ok)
    case True
    then have "undeploy_and_check env (on_CS (SetDependenciesMessage (Some msg)) c) = (r, c')"
      using assms Inr b by (simp add: successors_gate_def Let_def)
    from undeploy_and_check_gate [OF this] o show ?thesis using Inr b True by (auto simp: successors_passed_def)
  next
    case False
    with assms Inr b show ?thesis by (auto simp: successors_gate_def object_frame Let_def)
  qed
qed (use assms in \<open>auto simp: successors_gate_def\<close>)

lemma dependents_gate_gate:
  assumes "dependents_gate env c = (r, c')"
  shows "object_of (ct_CS c') = object_of (ct_CS c) \<and>
    (r = None \<longrightarrow> dependents_passed env (ct_CS c) \<and> successors_passed env (ct_CS c) \<and> check_passed env c')"
proof (cases "areDependentsRemoved (ev_lister env) (ev_group_of env) (ct_CS c)")
  case (Inr b)
  obtain ok msg where b: "b = (ok, msg)" by (cases b)
  have o: "object_of (ct_CS (on_CS (SetDependenciesMessage (Some msg)) c)) = object_of (ct_CS c)"
    by (simp add: object_frame)
  show ?thesis
  proof (cases ok)
    case True
    then have "successors_gate env (on_CS (SetDependenciesMessage (Some msg)) c) = (r, c')"
      using assms Inr b by (simp add: dependents_gate_def Let_def)
    from successors_gate_gate [OF this] o passed_object [OF o] show ?thesis
      using Inr b True by (auto simp: dependents_passed_def)
  next
    case False
    with assms Inr b show ?thesis by (auto simp: dependents_gate_def object_frame Let_def)
  qed
qed (use assms in \<open>auto simp: dependents_gate_def\<close>)

lemma cleanup_gate:
  assumes "cleanupBeforeFinalizerRemoval env d c = (r, c')"
  shows "object_of (ct_CS c') = object_of (ct_CS c) \<and> (r = None \<longrightarrow> isPaused env (ct_CS c) = Inr False \<and>
    dependents_passed env (ct_CS c) \<and> successors_passed env (ct_CS c) \<and> check_passed env c')"
proof (cases "isPaused env (ct_CS c)")
  case (Inr paused)
  define s where "s = cleanup_resource_summary env d (on_CS (set_suspended None) c)"
  have s: "object_of (ct_CS (snd s)) = object_of (ct_CS c)"
    by (simp add: s_def cleanup_resource_summary_object object_frame)
  note run = assms [unfolded cleanupBeforeFinalizerRemoval_def Inr sum.case Let_def, folded s_def]
  show ?thesis
  proof (cases paused)
    case True
    with run have "r = Some (0, None)" "c' = on_CS (set_suspended (Some clusterPausedMessage)) c" by simp_all
    then show ?thesis by (simp add: object_frame)
  next
    case unpaused: False
    show ?thesis
    proof (cases "fst s")
      case None
      then have "dependents_gate env (snd s) = (r, c')" using run unpaused by simp
      from dependents_gate_gate [OF this] s passed_object [OF s] unpaused Inr show ?thesis by auto
    next
      case (Some x)
      with run unpaused have "r = Some x" "c' = snd s" by simp_all
      with s show ?thesis by simp
    qed
  qed
qed (use assms in \<open>auto simp: cleanupBeforeFinalizerRemoval_def\<close>)

lemma postFinalizerCleanup_CS:
  "cs_Status (ct_CS (snd (postFinalizerCleanup ops env c))) = cs_Status (ct_CS c)"
  "cs_Meta (ct_CS (snd (postFinalizerCleanup ops env c))) = cs_Meta (ct_CS c)"
  by (simp_all add: postFinalizerCleanup_def deleteChartMap_def stopStaleWatchForTemplateResourceRef_def Let_def
      split: option.splits)

lemma finish_delete_CS:
  "cs_FeatureSummaries (ct_CS (snd (finish_delete ops env present deleted c))) = cs_FeatureSummaries (ct_CS c)"
  "has_finalizer (ct_CS (snd (finish_delete ops env present deleted c))) \<Longrightarrow> present \<longrightarrow> deleted"
proof -
  have h: "ct_CS (snd (handleDeletedCluster env c)) = ct_CS c"
    by (simp add: handleDeletedCluster_def Let_def split: option.splits)
  show "cs_FeatureSummaries (ct_CS (snd (finish_delete ops env present deleted c))) = cs_FeatureSummaries (ct_CS c)"
    by (simp add: finish_delete_def Let_def h postFinalizerCleanup_CS removeFinalizer_def with_finalizers_def)
  show "has_finalizer (ct_CS (snd (finish_delete ops env present deleted c))) \<Longrightarrow> present \<longrightarrow> deleted"
    by (auto simp: finish_delete_def Let_def h postFinalizerCleanup_CS removeFinalizer_def with_finalizers_def
        has_finalizer_def split: if_splits)
qed

text \<open>C3. While its cluster exists and is not being deleted, the finalizer of a deleted ClusterSummary goes only when the
  cluster is ready and not paused, no ClusterSummary of the cluster depends on its profile any more, the profiles that
  replace it are provisioned, and, outside DryRun mode, every feature it had is removed.\<close>

theorem finalizer_removed_when_clean:
  assumes "has_finalizer (ct_CS c)" and "reconcileDelete ops env c = (res, c')" and "\<not> has_finalizer (ct_CS c')"
    and "ev_cluster env = Inr cluster" and "\<not> co_Deleted cluster"
  shows "isReady env = Inr True \<and> isPaused env (ct_CS c) = Inr False \<and> dependents_passed env (ct_CS c) \<and>
    successors_passed env (ct_CS c) \<and>
    (\<not> IsDryRunSync (ct_CS c) \<longrightarrow> list_all (\<lambda>s. fs_Status s = Some FeatureStatusRemoved) (cs_FeatureSummaries (ct_CS c')))"
proof -
  define c0 where "c0 = r_op RRemoveHealthMonitoring
     (c\<lparr>ct_R := updateDeletedInstancs (ev_now env) (ct_CS c) (ct_R c)\<rparr>)"
  have c0: "ct_CS c0 = ct_CS c" by (simp add: c0_def)
  note run = assms(2) [unfolded reconcileDelete_def Let_def, folded c0_def]
  have present: "isClusterPresent env = Inr (True, False)" using assms(4,5) by (simp add: isClusterPresent_def)
  have ready: "isReady env = Inr True"
  proof (cases "isReady env")
    case (Inl e)
    with run assms(1,3) c0 show ?thesis
      by (cases "ev_removeHealthMonitoring env = None") (auto simp: c0_def)
  next
    case (Inr b)
    with run assms(1,3) c0 present show ?thesis
      by (cases "ev_removeHealthMonitoring env = None"; cases b) (auto simp: c0_def)
  qed
  obtain r c1 where cleanup: "cleanupBeforeFinalizerRemoval env False c0 = (r, c1)"
    by (cases "cleanupBeforeFinalizerRemoval env False c0")
  note gate = cleanup_gate [OF cleanup, unfolded c0]
  have nohm: "ev_removeHealthMonitoring env = None"
    using run assms(1,3) c0 by (cases "ev_removeHealthMonitoring env = None") (auto simp: c0_def)
  have r: "r = None"
  proof (rule ccontr)
    assume "r \<noteq> None"
    with run ready present cleanup nohm have "c' = c1" by auto
    with gate gates_object(6) assms(1,3) show False by blast
  qed
  with run ready present cleanup nohm have "c' = snd (finish_delete ops env True False c1)" by auto
  then have "cs_FeatureSummaries (ct_CS c') = cs_FeatureSummaries (ct_CS c1)" by (simp only: finish_delete_CS)
  then show ?thesis
    using gate r ready gates_object(5) [of "ct_CS c1" "ct_CS c"] assms(4)
    by (auto simp: check_passed_def canRemoveFinalizer_def cluster_lookup_of_def split: if_splits)
qed

section \<open>When features are deployed\<close>

definition feature_work :: "'s controller \<Rightarrow> reconcile_op list" where
  "feature_work c = filter (\<lambda>a. case a of RFeature _ _ \<Rightarrow> True | _ \<Rightarrow> False) (ct_Ops c)"

named_theorems work_frame

lemma work_basic [work_frame]:
  "feature_work (on_CS g c) = feature_work c" "feature_work (next_time env d c) = feature_work c"
  "feature_work (update_maps ops env c) = feature_work c" "feature_work (c\<lparr>ct_CS := cs\<rparr>) = feature_work c"
  "feature_work (c\<lparr>ct_R := r\<rparr>) = feature_work c" "feature_work (c\<lparr>ct_Watch := w\<rparr>) = feature_work c"
  "feature_work (c\<lparr>ct_Charts := m\<rparr>) = feature_work c"
  "feature_work (r_op a c) = feature_work c @ (case a of RFeature f d \<Rightarrow> [a] | _ \<Rightarrow> [])"
  by (simp_all add: feature_work_def on_CS_def next_time_def update_maps_def r_op_def Let_def split: reconcile_op.splits)

lemma work_steps [work_frame]:
  "feature_work (snd (startWatcherForTemplateResourceRefs ops env c)) = feature_work c"
  "feature_work (snd (updateChartMap env c)) = feature_work c"
  "feature_work (snd (removeResourceSummary env c)) = feature_work c"
  "feature_work (handleClusterNotUsable ops env msg c) = feature_work c"
  "feature_work (snd (updateClusterShardPair env c)) = feature_work c"
  "feature_work (snd (refreshInternalState ops env c)) = feature_work c"
  by (simp_all add: startWatcherForTemplateResourceRefs_def updateChartMap_def removeResourceSummary_def
      handleClusterNotUsable_def updateClusterShardPair_def refreshInternalState_def deleteChartMap_def work_frame Let_def
      split: option.splits sum.splits removal_answer.splits api_error.splits)

lemma checkClusterHealth_step:
  assumes "checkClusterHealth ops env c = (r, c')"
  shows "feature_work c' = feature_work c \<and>
    (r = Inr True \<longrightarrow> c' = c \<and> isReady env = Inr True \<and> isAgentHealthy env (ct_CS c) = Inr True)"
  using assms by (auto simp: checkClusterHealth_def work_frame split: sum.splits if_splits)

lemma close_scope_work [work_frame]: "feature_work (snd (close_scope env rc)) = feature_work (snd rc)"
  by (simp add: close_scope_def work_frame split: close_answer.splits)

lemma close_scope_Meta: "cs_Meta (ct_CS (snd (close_scope env rc))) = cs_Meta (ct_CS (snd rc))"
  by (simp add: close_scope_def set_next_time_def split: close_answer.splits)

text \<open>The gates read the owners, the position of the cluster and the names of the prerequisites.\<close>

definition gate_of :: "cluster_summary \<Rightarrow> owner_reference list \<times> string \<times> string \<times> cluster_type \<times> string list" where
  "gate_of cs = (om_OwnerReferences (cs_Meta cs), css_ClusterNamespace (cs_Spec cs), css_ClusterName (cs_Spec cs),
     css_ClusterType (cs_Spec cs), ps_DependsOn (cs_ProfileSpec cs))"

lemma dependencies_gate_of:
  assumes "gate_of a = gate_of b"
  shows "areDependenciesDeployed l g a = areDependenciesDeployed l g b"
proof -
  have e: "om_OwnerReferences (cs_Meta a) = om_OwnerReferences (cs_Meta b)" "css_ClusterNamespace (cs_Spec a) = css_ClusterNamespace (cs_Spec b)"
    "css_ClusterName (cs_Spec a) = css_ClusterName (cs_Spec b)" "css_ClusterType (cs_Spec a) = css_ClusterType (cs_Spec b)"
    "ps_DependsOn (cs_ProfileSpec a) = ps_DependsOn (cs_ProfileSpec b)"
    using assms by (simp_all add: gate_of_def)
  have d: "dependencies_deployed l k a ns = dependencies_deployed l k b ns" for k ns
  proof (induction ns)
    case (Cons n ns)
    show ?case unfolding dependencies_deployed.simps e Cons.IH ..
  qed simp
  show ?thesis unfolding areDependenciesDeployed_def GetProfileOwnerReference_def e d ..
qed

lemma gate_of_object: "object_of a = object_of b \<Longrightarrow> gate_of a = gate_of b"
  by (simp add: object_of_def gate_of_def)

lemma watchers_gate_of:
  "gate_of (ct_CS (snd (startWatcherForTemplateResourceRefs ops env c))) = gate_of (ct_CS c)"
  "cs_Meta (ct_CS (snd (startWatcherForTemplateResourceRefs ops env c))) = cs_Meta (ct_CS c)"
  by (simp_all add: startWatcherForTemplateResourceRefs_def stopStaleWatchForTemplateResourceRef_def gate_of_def Let_def
      split: option.splits)

lemma updateChartMap_CS: "ct_CS (snd (updateChartMap env c)) = ct_CS c"
  by (simp add: updateChartMap_def Let_def split: option.splits sum.splits)

lemma prepared:
  assumes "prepareForDeployment ops env c = (d, c')"
  shows "feature_work c' = feature_work c \<and> cs_Meta (ct_CS c') = cs_Meta (ct_CS c) \<and>
    (\<not> d > 0 \<longrightarrow> (\<exists>m. areDependenciesDeployed (ev_lister env) (ev_group_of env) (ct_CS c) = Inr (True, m)))"
proof -
  define w where "w = startWatcherForTemplateResourceRefs ops env c"
  have g: "gate_of (ct_CS (snd w)) = gate_of (ct_CS c)" and wf: "feature_work (snd w) = feature_work c"
    and m: "cs_Meta (ct_CS (snd w)) = cs_Meta (ct_CS c)"
    by (simp_all add: w_def watchers_gate_of work_frame)
  note dep = dependencies_gate_of [OF g, of "ev_lister env" "ev_group_of env"]
  have meta: "object_of a = object_of b \<Longrightarrow> cs_Meta a = cs_Meta b" for a b using object_of_eq by blast
  have frames: "cs_Meta (SetDependenciesMessage x cs) = cs_Meta cs" "cs_Meta (resetFeatureStatus st cs) = cs_Meta cs"
    "cs_Meta (setFailureMessage y cs) = cs_Meta cs" "cs_Meta (set_next_time t cs) = cs_Meta cs"
    "cs_Meta (markResourceSummaryRemovedForAllFeatures cs) = cs_Meta cs" for x y t st cs
    by (rule meta, simp add: object_frame)+
  show ?thesis
    using assms [unfolded prepareForDeployment_def Let_def, folded w_def] m wf
    by (auto simp: dep frames work_frame updateChartMap_CS removeResourceSummary_CS normalRequeueAfter_def
        deleteRequeueAfter_def split: option.splits sum.splits if_splits prod.splits)
qed

lemma reconcile_questions_Meta:
  "shouldReconcile (cs\<lparr>cs_Meta := m\<rparr>) = shouldReconcile cs"
  "verifyPullModeEligibility env (cs\<lparr>cs_Meta := m\<rparr>) = verifyPullModeEligibility env cs"
proof -
  have "isFeatureDeployed (cs\<lparr>cs_Meta := m\<rparr>) f = isFeatureDeployed cs f" for f
    by (simp add: isFeatureDeployed_def has_status_def getFeatureSummaryForFeatureID_def)
  moreover have "spec_lists (cs\<lparr>cs_Meta := m\<rparr>) f = spec_lists cs f" for f
    by (simp add: spec_lists_def split: feature_id.splits)
  ultimately show "shouldReconcile (cs\<lparr>cs_Meta := m\<rparr>) = shouldReconcile cs" by (simp add: shouldReconcile_def)
qed (simp add: verifyPullModeEligibility_def split: sum.splits option.splits)

lemma questions_with_finalizers:
  "shouldReconcile (with_finalizers h cs) = shouldReconcile cs"
  "verifyPullModeEligibility env (with_finalizers h cs) = verifyPullModeEligibility env cs"
  "isPaused env (with_finalizers h cs) = isPaused env cs" "gate_of (with_finalizers h cs) = gate_of cs"
  by (simp_all add: with_finalizers_def reconcile_questions_Meta isPaused_def gate_of_def split: sum.splits api_error.splits)

lemma normal_work:
  assumes "reconcileNormal ops env c = (res, c')" and "feature_work c' \<noteq> feature_work c"
  shows "shouldReconcile (ct_CS c) \<and> verifyPullModeEligibility env (ct_CS c) = Inr True \<and>
    isPaused env (ct_CS c) = Inr False \<and>
    (\<exists>m. areDependenciesDeployed (ev_lister env) (ev_group_of env) (ct_CS c) = Inr (True, m)) \<and> has_finalizer (ct_CS c')"
proof -
  define f where "f = (if has_finalizer (ct_CS c) then (None, c)
    else (ev_PatchObject env, r_op RPatchFinalizer (on_CS (with_finalizers (\<lambda>fs. fs @ [ClusterSummaryFinalizer])) c)))"
  define c1 where "c1 = r_op RReconcileHealthMonitoring (snd f)"
  define c2 where "c2 = on_CS (set_suspended None) (update_maps ops env c1)"
  define p where "p = prepareForDeployment ops env c2"
  have w1: "feature_work c1 = feature_work c" by (simp add: c1_def f_def work_frame)
  have w2: "feature_work c2 = feature_work c" by (simp add: c2_def w1 work_frame)
  note run = assms(1) [unfolded reconcileNormal_def Let_def, folded f_def, folded c1_def, folded c2_def, folded p_def]
  have fin: "has_finalizer (ct_CS c1)"
    by (simp add: c1_def f_def has_finalizer_def with_finalizers_def)
  have same: "shouldReconcile (ct_CS c1) = shouldReconcile (ct_CS c)"
    "verifyPullModeEligibility env (ct_CS c1) = verifyPullModeEligibility env (ct_CS c)"
    "isPaused env (ct_CS c1) = isPaused env (ct_CS c)" "gate_of (ct_CS c1) = gate_of (ct_CS c)"
    by (simp_all add: c1_def f_def questions_with_finalizers)
  have c2: "ct_CS c2 = set_suspended None (ct_CS c1)" by (simp add: c2_def)
  have g2: "gate_of (ct_CS c2) = gate_of (ct_CS c)" "cs_Meta (ct_CS c2) = cs_Meta (ct_CS c1)"
    using same(4) by (simp_all add: c2 set_suspended_def gate_of_def)
  obtain d c3 where p: "p = (d, c3)" by (cases p)
  note prep = prepared [OF p [unfolded p_def]]
  have go: "fst f = None" "ev_reconcileHealthMonitoring env = None" "shouldReconcile (ct_CS c1)"
    using run assms(2) w1 by (auto simp: work_frame f_def split: option.splits if_splits)
  have elig: "verifyPullModeEligibility env (ct_CS c1) = Inr True"
    using run assms(2) w1 go
    by (cases "verifyPullModeEligibility env (ct_CS c1)") (auto simp: work_frame split: if_splits)
  have up: "ct_CS (update_maps ops env c1) = ct_CS c1" by simp
  have paused: "isPaused env (ct_CS c1) = Inr False"
    using run assms(2) w1 go elig
    by (cases "isPaused env (ct_CS c1)") (auto simp: work_frame split: if_splits)
  have d0: "\<not> d > 0" using run assms(2) prep w2 go elig paused by (auto simp: p)
  have proceed: "c' = snd (proceedDeployingClusterSummary env c3)"
    using run go elig paused d0 by (simp add: p)
  have "object_of (ct_CS c') = object_of (ct_CS c3)"
    by (simp add: proceed proceedDeployingClusterSummary_def Let_def object_frame split: option.splits)
  then have "cs_Meta (ct_CS c') = cs_Meta (ct_CS c1)" using prep g2(2) object_of_eq by metis
  then have "has_finalizer (ct_CS c')" using fin by (simp add: has_finalizer_def)
  then show ?thesis
    using go(3) elig paused prep d0 dependencies_gate_of [OF g2(1)] by (simp add: same)
qed

lemma cleanup_resource_summary_work [work_frame]:
  "feature_work (snd (cleanup_resource_summary env d c)) = feature_work c"
  by (simp add: cleanup_resource_summary_def work_frame Let_def split: option.splits)

lemma cleanup_work:
  assumes "cleanupBeforeFinalizerRemoval env d c = (r, c')" and "feature_work c' \<noteq> feature_work c"
  shows "isPaused env (ct_CS c) = Inr False \<and> dependents_passed env (ct_CS c) \<and> successors_passed env (ct_CS c)"
proof -
  define s where "s = cleanup_resource_summary env d (on_CS (set_suspended None) c)"
  have o: "object_of (ct_CS (snd s)) = object_of (ct_CS c)"
    by (simp add: s_def cleanup_resource_summary_object object_frame)
  have w: "feature_work (snd s) = feature_work c" by (simp add: s_def work_frame)
  note run = assms(1) [unfolded cleanupBeforeFinalizerRemoval_def Let_def, folded s_def]
  have unpaused: "isPaused env (ct_CS c) = Inr False"
    using run assms(2) by (cases "isPaused env (ct_CS c)") (auto simp: work_frame split: if_splits)
  with run have "(case fst s of Some r \<Rightarrow> (Some r, snd s) | None \<Rightarrow> dependents_gate env (snd s)) = (r, c')" by simp
  with assms(2) w have gate: "dependents_gate env (snd s) = (r, c')" by (cases "fst s") auto
  have "dependents_passed env (ct_CS (snd s)) \<and> successors_passed env (ct_CS (snd s))"
  proof (cases "areDependentsRemoved (ev_lister env) (ev_group_of env) (ct_CS (snd s))")
    case (Inr b)
    obtain removed msg where b: "b = (removed, msg)" by (cases b)
    define m where "m = on_CS (SetDependenciesMessage (Some msg)) (snd s)"
    have om: "object_of (ct_CS m) = object_of (ct_CS (snd s))" and wm: "feature_work m = feature_work c"
      by (simp_all add: m_def object_frame work_frame w)
    note run = gate [unfolded dependents_gate_def Inr b sum.case prod.case Let_def, folded m_def]
    have removed: removed using run assms(2) wm by (cases removed) (auto simp: work_frame)
    with run have "successors_gate env m = (r, c')" by simp
    then have "successors_passed env (ct_CS m)" using assms(2) wm
      by (auto simp: successors_gate_def successors_passed_def Let_def work_frame split: sum.splits prod.splits if_splits)
    then show ?thesis using Inr b removed passed_object [OF om] by (auto simp: dependents_passed_def)
  qed (use gate assms(2) w in \<open>auto simp: dependents_gate_def\<close>)
  with unpaused passed_object [OF o] show ?thesis by simp
qed

lemma finish_delete_work [work_frame]: "feature_work (snd (finish_delete ops env p d c)) = feature_work c"
proof -
  have h: "feature_work (snd (handleDeletedCluster env c)) = feature_work c"
    by (simp add: handleDeletedCluster_def work_frame Let_def split: option.splits)
  have p: "feature_work (snd (postFinalizerCleanup ops env c)) = feature_work c" for c
    by (simp add: postFinalizerCleanup_def deleteChartMap_def work_frame Let_def split: option.splits)
  show ?thesis by (simp add: finish_delete_def h p work_frame Let_def)
qed

lemma delete_work:
  assumes "reconcileDelete ops env c = (res, c')" and "feature_work c' \<noteq> feature_work c"
  shows "isReady env = Inr True \<and> isPaused env (ct_CS c) = Inr False \<and> dependents_passed env (ct_CS c) \<and>
    successors_passed env (ct_CS c)"
proof -
  define c0 where "c0 = r_op RRemoveHealthMonitoring
     (c\<lparr>ct_R := updateDeletedInstancs (ev_now env) (ct_CS c) (ct_R c)\<rparr>)"
  have c0: "ct_CS c0 = ct_CS c" "feature_work c0 = feature_work c" by (simp_all add: c0_def work_frame)
  note run = assms(1) [unfolded reconcileDelete_def Let_def, folded c0_def]
  have fin: "feature_work c' = feature_work x" if "finish_delete ops env p d x = (res, c')" for p d x
    using finish_delete_work [of ops env p d x] that by simp
  have ready: "isReady env = Inr True"
    using run assms(2) c0
    by (cases "isReady env"; cases "isClusterPresent env") (auto dest!: fin split: if_splits)
  obtain r c1 where cleanup: "cleanupBeforeFinalizerRemoval env (snd (projr (isClusterPresent env))) c0 = (r, c1)"
    by fastforce
  have "feature_work c1 \<noteq> feature_work c0"
    using run assms(2) c0 ready cleanup
    by (cases "isClusterPresent env") (auto dest!: fin split: if_splits option.splits prod.splits)
  from cleanup_work [OF cleanup this] ready c0 show ?thesis by simp
qed

lemma questions_set_status:
  "shouldReconcile (set_next_time t cs) = shouldReconcile cs"
  "verifyPullModeEligibility env (set_next_time t cs) = verifyPullModeEligibility env cs"
  "isPaused env (set_next_time t cs) = isPaused env cs" "isAgentHealthy env (set_next_time t cs) = isAgentHealthy env cs"
  "shouldReconcile (set_failure_message m cs) = shouldReconcile cs"
  "verifyPullModeEligibility env (set_failure_message m cs) = verifyPullModeEligibility env cs"
  "isPaused env (set_failure_message m cs) = isPaused env cs"
  by (simp_all add: set_next_time_def set_failure_message_def verifyPullModeEligibility_def isPaused_def isAgentHealthy_def
      shouldReconcile_def isFeatureDeployed_def has_status_def getFeatureSummaryForFeatureID_def spec_lists_def
      split: sum.splits option.splits api_error.splits feature_id.splits)

lemma matched_work:
  assumes "reconcile_matched ops env c = (res, c')" and "feature_work c' \<noteq> feature_work c"
  shows "isReady env = Inr True \<and> isPaused env (ct_CS c) = Inr False \<and>
    (if om_DeletionTimestamp (cs_Meta (ct_CS c)) = None
     then isAgentHealthy env (ct_CS c) = Inr True \<and> shouldReconcile (ct_CS c) \<and>
       verifyPullModeEligibility env (ct_CS c) = Inr True \<and>
       (\<exists>m. areDependenciesDeployed (ev_lister env) (ev_group_of env) (ct_CS c) = Inr (True, m)) \<and> has_finalizer (ct_CS c')
     else dependents_passed env (ct_CS c) \<and> successors_passed env (ct_CS c))"
proof (cases "om_DeletionTimestamp (cs_Meta (ct_CS c)) = None")
  case True
  obtain h c1 where h: "checkClusterHealth ops env c = (h, c1)" by fastforce
  note health = checkClusterHealth_step [OF h]
  have "h = Inr True"
    using assms True h health
    by (cases h) (auto simp: reconcile_matched_def work_frame split: if_splits)
  then have c1: "c1 = c" and ok: "isReady env = Inr True" "isAgentHealthy env (ct_CS c) = Inr True" using health by simp_all
  let ?c = "on_CS (set_failure_message None) c"
  have run: "reconcileNormal ops env ?c = (res, c')"
    using assms(1) True h \<open>h = Inr True\<close> c1 by (simp add: reconcile_matched_def)
  have g: "gate_of (ct_CS ?c) = gate_of (ct_CS c)" by (simp add: gate_of_def set_failure_message_def)
  from normal_work [OF run] assms(2) True ok dependencies_gate_of [OF g] show ?thesis
    by (simp add: work_frame questions_set_status)
next
  case False
  with assms(1) have "reconcileDelete ops env c = (res, c')" by (simp add: reconcile_matched_def)
  from delete_work [OF this assms(2)] False show ?thesis by (simp del: not_None_eq)
qed

lemma updateClusterShardPair_CS: "ct_CS (snd (updateClusterShardPair env c)) = ct_CS c"
  by (simp add: updateClusterShardPair_def split: sum.splits api_error.splits)

lemma skip_CS: "\<not> fst (skipReconciliation now cs req r) \<Longrightarrow> fst (snd (skipReconciliation now cs req r)) = set_next_time None cs"
  by (auto simp: skipReconciliation_def split: option.splits if_splits)

text \<open>C2. Features are deployed on a cluster, or removed from it, only behind every gate: the cool-down is over, the cluster
  belongs to this controller, is ready and is not paused. A deployment waits for the agent, for a license and for every
  prerequisite, and the finalizer is on the object by then; a removal waits until no profile depends on this
  one and its successors are provisioned.\<close>

theorem feature_work_gated:
  assumes "ev_Get env = Inr cs" and "Reconcile ops env req c = (res, c')" and "feature_work c' \<noteq> feature_work c"
  shows "\<not> fst (skipReconciliation (ev_now env) cs req (ct_R c)) \<and> isClusterAShardMatch env = Inr True \<and>
    isReady env = Inr True \<and> isPaused env cs = Inr False \<and>
    (if om_DeletionTimestamp (cs_Meta cs) = None
     then isAgentHealthy env cs = Inr True \<and> shouldReconcile cs \<and> verifyPullModeEligibility env cs = Inr True \<and>
       (\<exists>m. areDependenciesDeployed (ev_lister env) (ev_group_of env) cs = Inr (True, m)) \<and> has_finalizer (ct_CS c')
     else dependents_passed env cs \<and> successors_passed env cs)"
proof -
  define s where "s = skipReconciliation (ev_now env) cs req (ct_R c)"
  define c1 where "c1 = c\<lparr>ct_CS := fst (snd s), ct_R := snd (snd s)\<rparr>"
  have c1: "c\<lparr>ct_CS := cs, ct_CS := fst (snd s), ct_R := snd (snd s)\<rparr> = c1" "feature_work c1 = feature_work c"
    "ct_CS c1 = fst (snd s)"
    by (simp_all add: c1_def work_frame)
  have sel: "ct_CS (c\<lparr>ct_CS := cs\<rparr>) = cs" "ct_R (c\<lparr>ct_CS := cs\<rparr>) = ct_R c" by simp_all
  note run = assms(2) [unfolded Reconcile_def assms(1) sum.case Let_def sel, folded s_def, unfolded c1(1)]
  obtain owner where owner: "owner_lookup_of env cs = Inr (Some owner)"
    using run assms(3)
    by (cases "owner_lookup_of env cs") (auto simp: work_frame split: option.splits)
  have skip: "\<not> fst s" using run owner assms(3) c1 by auto
  have shard: "isClusterAShardMatch env = Inr True"
    using run owner skip assms(3) c1
    by (cases "isClusterAShardMatch env") (auto simp: work_frame split: if_splits)
  define u where "u = updateClusterShardPair env c1"
  have u: "ct_CS (snd u) = set_next_time None cs" "feature_work (snd u) = feature_work c"
    using c1 skip_CS [OF skip [unfolded s_def], folded s_def] by (simp_all add: u_def work_frame updateClusterShardPair_CS)
  have "fst u = None" using run owner skip shard assms(3) u by (cases "fst u") (auto simp: work_frame u_def)
  obtain r2 c2 where m: "reconcile_matched ops env (snd u) = (r2, c2)" by fastforce
  have c: "close_scope env (r2, c2) = (res, c')" using run owner skip shard \<open>fst u = None\<close> m by (simp add: u_def)
  have w: "feature_work c2 = feature_work c'" "cs_Meta (ct_CS c2) = cs_Meta (ct_CS c')"
    using close_scope_work [of env "(r2, c2)"] close_scope_Meta [of env "(r2, c2)"] by (simp_all add: c)
  have g: "gate_of (set_next_time None cs) = gate_of cs" "object_of (set_next_time None cs) = object_of cs"
    by (simp_all add: gate_of_def object_of_def set_next_time_def)
  have "feature_work c2 \<noteq> feature_work (snd u)" using w u assms(3) by simp
  from matched_work [OF m this, unfolded u(1)] have "isReady env = Inr True \<and> isPaused env cs = Inr False \<and>
    (if om_DeletionTimestamp (cs_Meta cs) = None
     then isAgentHealthy env cs = Inr True \<and> shouldReconcile cs \<and> verifyPullModeEligibility env cs = Inr True \<and>
       (\<exists>m. areDependenciesDeployed (ev_lister env) (ev_group_of env) cs = Inr (True, m)) \<and> has_finalizer (ct_CS c2)
     else dependents_passed env cs \<and> successors_passed env cs)"
    by (simp add: questions_set_status dependencies_gate_of [OF g(1)] passed_object [OF g(2)] cong: if_cong)
  moreover have "has_finalizer (ct_CS c2) = has_finalizer (ct_CS c')" using w(2) by (simp add: has_finalizer_def)
  ultimately show ?thesis using skip [unfolded s_def] shard by argo
qed

section \<open>One-time ClusterSummaries on a paused cluster\<close>

text \<open>The reconciliation of a OneTime ClusterSummary on a paused cluster asks for no requeue and enters nothing into the
  maps: the events of the cluster wake the same ClusterSummaries as before it, so a new one is not
  deployed when the cluster is resumed.\<close>

theorem paused_one_time_not_requeued:
  assumes "ps_SyncMode (cs_ProfileSpec (ct_CS c)) = SyncModeOneTime" and "om_DeletionTimestamp (cs_Meta (ct_CS c)) = None"
    and "isReady env = Inr True" and "isAgentHealthy env (ct_CS c) = Inr True" and "shouldReconcile (ct_CS c)"
    and "ev_PatchObject env = None" and "ev_reconcileHealthMonitoring env = None"
    and "verifyPullModeEligibility env (ct_CS c) = Inr True" and "isPaused env (ct_CS c) = Inr True"
    and "reconcile_matched ops env c = (res, c')"
  shows "res = (0, None) \<and> ct_R c' = ct_R c \<and> feature_work c' = feature_work c \<and>
    fst (requeueClusterSummaryForACluster ops cluster (ct_R c')) = fst (requeueClusterSummaryForACluster ops cluster (ct_R c))"
proof -
  define c0 where "c0 = on_CS (set_failure_message None) c"
  define f where "f = (if has_finalizer (ct_CS c0) then (None, c0)
    else (ev_PatchObject env, r_op RPatchFinalizer (on_CS (with_finalizers (\<lambda>fs. fs @ [ClusterSummaryFinalizer])) c0)))"
  define c1 where "c1 = r_op RReconcileHealthMonitoring (snd f)"
  have health: "checkClusterHealth ops env c = (Inr True, c)" using assms(3,4) by (simp add: checkClusterHealth_def)
  have run: "reconcileNormal ops env c0 = (res, c')"
    using assms(2,10) health by (simp add: reconcile_matched_def c0_def)
  note run = run [unfolded reconcileNormal_def Let_def, folded f_def, folded c1_def]
  have "fst f = None" using assms(6) by (simp add: f_def)
  have same: "shouldReconcile (ct_CS c1)" "verifyPullModeEligibility env (ct_CS c1) = Inr True" "isPaused env (ct_CS c1) = Inr True"
    using assms(5,8,9) by (simp_all add: c1_def f_def c0_def questions_with_finalizers questions_set_status)
  have R: "ct_R c1 = ct_R c" "feature_work c1 = feature_work c"
    by (simp_all add: c1_def f_def c0_def r_op_def on_CS_def feature_work_def)
  have "ps_SyncMode (cs_ProfileSpec (ct_CS c1)) = SyncModeOneTime"
    using assms(1) by (simp add: c1_def f_def c0_def with_finalizers_def set_failure_message_def)
  then have maps: "update_maps ops env c1 = c1" by (simp add: update_maps_def updateMaps_def)
  have "res = (0, None)" "c' = on_CS (set_suspended (Some clusterPausedMessage)) c1"
    using run \<open>fst f = None\<close> assms(7) same by (simp_all add: maps)
  then show ?thesis using R by (simp add: on_CS_def feature_work_def)
qed

section \<open>Witnesses\<close>

definition sample_removed_env :: deploy_env where
  "sample_removed_env = sample_env\<lparr>env_result := \<lparr>dres_ResultStatus = Res_Removed, dres_Err = None\<rparr>\<rparr>"

definition sample_reconcile_env :: reconcile_env where
  "sample_reconcile_env = \<lparr>ev_now = 0, ev_Get = Inl ApiNotFound, ev_group_of = (\<lambda>_. Some config_group),
     ev_get_profile = (\<lambda>kind ns n. Inr \<lparr>prof_Kind = kind, prof_Meta = zero_object_meta, prof_Spec = zero_profile_spec,
        prof_Status = \<lparr>pst_MatchingClusterRefs = [], pst_UpdatingClusters = \<lparr>cl_Hash = None, cl_Clusters = []\<rparr>,
          pst_UpdatedClusters = \<lparr>cl_Hash = None, cl_Clusters = []\<rparr>, pst_FailedClusters = [], pst_DependenciesHash = None,
          pst_ReconciliationSuspended = False, pst_SuspensionReason = None\<rparr>\<rparr>),
     ev_list_profiles = (\<lambda>_ _. Inr []), ev_lister = (\<lambda>_. Inr []), ev_toSelector = (\<lambda>_. None),
     ev_cluster = Inr \<lparr>co_Deleted = False, co_Labels = []\<rparr>, ev_IsShardAMatch = True,
     ev_RegisterClusterShard = Inr False, ev_UnregisterClusterShard = None, ev_IsClusterReady = Inr True,
     ev_IsClusterPaused = Inr False, ev_HasPaused = (\<lambda>_. False), ev_IsClusterInPullMode = Inr False,
     ev_IsAgentTimeout = Inr False, ev_GetPublicKey = None,
     ev_license = \<lparr>lic_IsValid = False, lic_IsInGracePeriod = False, lic_Payload = None\<rparr>,
     ev_licenses = \<lparr>lm_clusters = [], lm_clusterpromotions = [], lm_clusterMap = [], lm_clusterPromotionMap = []\<rparr>,
     ev_reconcileHealthMonitoring = None, ev_removeHealthMonitoring = None, ev_PatchObject = None, ev_Close = Closed,
     ev_chartManager = None, ev_collectTemplateResourceRefs = None, ev_instantiatedCharts = Inr [],
     ev_unDeployResourceSummary = Removed, ev_removeStaleResourceSummary = None, ev_leaveDriftDetectionGroups = None,
     ev_removeDriftDetectionManager = None, ev_deploy = (\<lambda>_. sample_env), ev_undeploy = (\<lambda>_. sample_removed_env),
     ev_random = (\<lambda>_. None), ev_ConflictRetryTime = 30, ev_HealthErrorRetryTime = 30, ev_refs = sample_ref_env,
     ev_watch = sample_watch_env\<rparr>"

definition sample_owner :: "string \<Rightarrow> owner_reference" where
  "sample_owner p = \<lparr>own_APIVersion = ''config.projectsveltos.io/v1beta1'', own_Kind = ClusterProfileKind, own_Name = p,
     own_UID = []\<rparr>"

text \<open>A ClusterSummary of profile \<open>p\<close> that depends on other profiles, live or being deleted.\<close>

definition sample_summary :: "string \<Rightarrow> string list \<Rightarrow> time option \<Rightarrow> cluster_summary" where
  "sample_summary p deps deletion = zero_cluster_summary
     \<lparr>cs_Meta := zero_object_meta\<lparr>om_Name := p @ ''-capi-c'', om_Namespace := ''ns'', om_OwnerReferences := [sample_owner p],
        om_Labels := [(ClusterNameLabel, ''c''), (ClusterTypeLabel, ''Capi''), (ClusterProfileLabelName, p)],
        om_Finalizers := [ClusterSummaryFinalizer], om_DeletionTimestamp := deletion\<rparr>,
      cs_Spec := \<lparr>css_ClusterNamespace = ''ns'', css_ClusterName = ''c'', css_ClusterType = ClusterTypeCapi,
        css_ClusterProfileSpec = zero_profile_spec\<lparr>ps_DependsOn := deps, ps_HelmCharts := Some [sample_chart ''a'']\<rparr>\<rparr>\<rparr>"

definition sample_controller :: "cluster_summary \<Rightarrow> object_reference list controller" where
  "sample_controller cs = \<lparr>ct_R = new_reconciler, ct_Charts = \<lparr>perClusterChartMap = [], perClusterChartVersionMap = []\<rparr>,
     ct_Watch = initializeManager, ct_CS = cs, ct_Ops = []\<rparr>"

theorem finalizer_removed_when_clean_witness:
  "dependents_passed sample_reconcile_env (sample_summary ''p'' [] (Some 5)) \<and>
   \<not> has_finalizer (ct_CS (snd (reconcileDelete list_set_ops sample_reconcile_env
      (sample_controller (sample_summary ''p'' [] (Some 5))))))"
proof -
  let ?c = "sample_controller (sample_summary ''p'' [] (Some 5))"
  obtain res c' where run: "reconcileDelete list_set_ops sample_reconcile_env ?c = (res, c')" by fastforce
  have "has_finalizer (ct_CS ?c)" by code_simp
  moreover have gone: "\<not> has_finalizer (ct_CS (snd (reconcileDelete list_set_ops sample_reconcile_env ?c)))" by code_simp
  moreover have "ev_cluster sample_reconcile_env = Inr \<lparr>co_Deleted = False, co_Labels = []\<rparr>"
    by (simp add: sample_reconcile_env_def)
  ultimately have "dependents_passed sample_reconcile_env (ct_CS ?c)"
    using finalizer_removed_when_clean [OF _ run] run by simp
  with gone show ?thesis by (simp add: sample_controller_def)
qed

theorem feature_work_gated_witness:
  "feature_work (snd (Reconcile list_set_ops (sample_reconcile_env\<lparr>ev_Get := Inr (sample_summary ''p'' [] None)\<rparr>)
     (''ns'', ''p-capi-c'') (sample_controller zero_cluster_summary))) \<noteq> [] \<and>
   shouldReconcile (sample_summary ''p'' [] None)"
proof -
  let ?env = "sample_reconcile_env\<lparr>ev_Get := Inr (sample_summary ''p'' [] None)\<rparr>"
  let ?c = "sample_controller zero_cluster_summary"
  obtain res c' where run: "Reconcile list_set_ops ?env (''ns'', ''p-capi-c'') ?c = (res, c')" by fastforce
  have work: "feature_work (snd (Reconcile list_set_ops ?env (''ns'', ''p-capi-c'') ?c)) \<noteq> []" by code_simp
  have "feature_work ?c = []" "om_DeletionTimestamp (cs_Meta (sample_summary ''p'' [] None)) = None" by code_simp+
  with feature_work_gated [of ?env _ list_set_ops _ ?c, OF _ run] work run show ?thesis by simp
qed

theorem paused_one_time_not_requeued_witness:
  "fst (reconcile_matched list_set_ops (sample_reconcile_env\<lparr>ev_IsClusterPaused := Inr True\<rparr>) (sample_controller
     ((sample_summary ''p'' [] None)\<lparr>cs_Spec := (cs_Spec (sample_summary ''p'' [] None))\<lparr>css_ClusterProfileSpec :=
        (cs_ProfileSpec (sample_summary ''p'' [] None))\<lparr>ps_SyncMode := SyncModeOneTime\<rparr>\<rparr>\<rparr>))) = (0, None)"
proof -
  let ?cs = "(sample_summary ''p'' [] None)\<lparr>cs_Spec := (cs_Spec (sample_summary ''p'' [] None))\<lparr>css_ClusterProfileSpec :=
     (cs_ProfileSpec (sample_summary ''p'' [] None))\<lparr>ps_SyncMode := SyncModeOneTime\<rparr>\<rparr>\<rparr>"
  let ?env = "sample_reconcile_env\<lparr>ev_IsClusterPaused := Inr True\<rparr>"
  let ?c = "sample_controller ?cs"
  obtain res c' where run: "reconcile_matched list_set_ops ?env ?c = (res, c')" by fastforce
  have "ps_SyncMode (cs_ProfileSpec (ct_CS ?c)) = SyncModeOneTime" "om_DeletionTimestamp (cs_Meta (ct_CS ?c)) = None"
    "isReady ?env = Inr True" "isAgentHealthy ?env (ct_CS ?c) = Inr True" "shouldReconcile (ct_CS ?c)"
    "ev_PatchObject ?env = None" "ev_reconcileHealthMonitoring ?env = None"
    "verifyPullModeEligibility ?env (ct_CS ?c) = Inr True" "isPaused ?env (ct_CS ?c) = Inr True"
    by code_simp+
  from paused_one_time_not_requeued [OF this run] run show ?thesis by simp
qed

end
