(* ===== verification/Teardown.thy ===== *)
theory Teardown
  imports Summary_Reconcile
begin

text \<open>
  The deletion of all the ClusterSummaries of the profiles of a cluster (controllers/clustersummary_controller.go),
  as a system: the API server keeps a store of ClusterSummaries, each pass reconciles every one of them, and one
  whose finalizer is gone leaves the store. Every reconciliation sees the store as the previous one left it, because the
  gate of the dependents lists it. The API server enters through the interface \<open>summary_store\<close> of Cluster_Ops.
\<close>

section \<open>Passes\<close>

text \<open>The ClusterSummary with a given key, the store after one of them is reconciled.\<close>

definition find_summary :: "request \<Rightarrow> cluster_summary list \<Rightarrow> cluster_summary option" where
  "find_summary req store = List.find (\<lambda>cs. request_of cs = req) store"

definition put_back :: "cluster_summary \<Rightarrow> cluster_summary list \<Rightarrow> cluster_summary list" where
  "put_back cs store =
     (if has_finalizer cs then map (\<lambda>x. if request_of x = request_of cs then cs else x) store
      else filter (\<lambda>x. request_of x \<noteq> request_of cs) store)"

definition teardown_step :: "(cluster_summary list \<Rightarrow> summary_lister) \<Rightarrow> 's set_ops \<Rightarrow> reconcile_env \<Rightarrow> request \<Rightarrow>
    cluster_summary list \<times> 's controller \<Rightarrow> cluster_summary list \<times> 's controller" where
  "teardown_step answer ops env req sc =
     (case find_summary req (fst sc) of
        None \<Rightarrow> sc
      | Some cs \<Rightarrow>
          let c = snd (reconcileDelete ops (env\<lparr>ev_lister := answer (fst sc)\<rparr>) ((snd sc)\<lparr>ct_CS := cs\<rparr>))
          in (put_back (ct_CS c) (fst sc), c))"

definition teardown_pass :: "(cluster_summary list \<Rightarrow> summary_lister) \<Rightarrow> 's set_ops \<Rightarrow> reconcile_env \<Rightarrow>
    cluster_summary list \<times> 's controller \<Rightarrow> cluster_summary list \<times> 's controller" where
  "teardown_pass answer ops env sc = fold (teardown_step answer ops env) (map request_of (fst sc)) sc"

text \<open>Nothing outside stands in the way: the cluster is there, ready and not paused, its API answers and has removed what
  each feature deployed, and no profile is declared to replace another.\<close>

definition feature_removed :: "deploy_env \<Rightarrow> bool" where
  "feature_removed env \<longleftrightarrow> \<not> env_inProgress env \<and> env_pullMode env = Inr False \<and>
     env_result env = \<lparr>dres_ResultStatus = Res_Removed, dres_Err = None\<rparr>"

definition teardown_env :: "reconcile_env \<Rightarrow> bool" where
  "teardown_env env \<longleftrightarrow> ev_removeHealthMonitoring env = None \<and> isReady env = Inr True \<and>
     isClusterPresent env = Inr (True, False) \<and> (\<forall>cs. isPaused env cs = Inr False) \<and>
     ev_unDeployResourceSummary env = Removed \<and> (\<forall>kind ns. ev_list_profiles env kind ns = Inr []) \<and>
     (\<forall>f. feature_removed (ev_undeploy env f))"

text \<open>A ClusterSummary being deleted, with an owner.\<close>

definition doomed :: "reconcile_env \<Rightarrow> cluster_summary \<Rightarrow> bool" where
  "doomed env cs \<longleftrightarrow> om_DeletionTimestamp (cs_Meta cs) \<noteq> None \<and> has_finalizer cs \<and> \<not> IsDryRunSync cs \<and>
     features_wf cs \<and> (\<exists>owner. GetProfileOwnerReference (ev_group_of env) cs = Inr owner)"

definition profile_of :: "reconcile_env \<Rightarrow> cluster_summary \<Rightarrow> string" where
  "profile_of env cs = own_Name (projr (GetProfileOwnerReference (ev_group_of env) cs))"

section \<open>Feature summaries stay well formed\<close>

lemma features_wf_setters [inv_intros]:
  "features_wf cs \<Longrightarrow> features_wf (SetFeatureStatus f st h b cs)"
  "features_wf cs \<Longrightarrow> features_wf (SetFailureMessage f m cs)"
  "features_wf cs \<Longrightarrow> features_wf (SetResourceSummaryDeployed f d cs)"
  "features_wf (SetDependenciesMessage x cs) = features_wf cs" "features_wf (set_suspended y cs) = features_wf cs"
proof -
  show "features_wf (SetFeatureStatus f st h b cs)" if "features_wf cs"
    unfolding SetFeatureStatus_def using that
    by (rule features_wf_upsert) (auto simp: Let_def split: option.splits bool.splits)
  show "features_wf (SetFailureMessage f m cs)" if "features_wf cs"
    unfolding SetFailureMessage_def using that by (rule features_wf_upsert) auto
  show "features_wf (SetResourceSummaryDeployed f d cs)" if "features_wf cs"
    using that by (simp add: features_wf_def SetResourceSummaryDeployed_def map_id_update_feature)
qed (simp_all add: features_wf_def SetDependenciesMessage_def set_suspended_def)

lemma features_wf_resets [inv_intros]:
  "features_wf cs \<Longrightarrow> features_wf (resetFeatureStatus st cs)"
  "features_wf cs \<Longrightarrow> features_wf (setFailureMessage m cs)"
  "features_wf cs \<Longrightarrow> features_wf (markResourceSummaryRemovedForAllFeatures cs)"
  by (auto simp: resetFeatureStatus_def setFailureMessage_def markResourceSummaryRemovedForAllFeatures_def
      intro!: features_wf_setters(1-3))

section \<open>One ClusterSummary\<close>

lemma undeployed_feature:
  assumes "feature_removed env"
  shows "fst (undeployFeature env f cs) = None \<and> isFeatureRemoved (dst_CS (snd (undeployFeature env f cs))) f \<and>
    (g \<noteq> f \<longrightarrow> getFeatureSummaryForFeatureID (dst_CS (snd (undeployFeature env f cs))) g = getFeatureSummaryForFeatureID cs g) \<and>
    (features_wf cs \<longrightarrow> features_wf (dst_CS (snd (undeployFeature env f cs))))"
  using assms
  by (auto simp: undeployFeature_def processUndeployResult_def feature_removed_def convertResultStatus_def Let_def
      isFeatureRemoved_def status_simps intro: features_wf_updateFeatureStatus)

lemma undeployed:
  assumes "teardown_env env" and "features_wf (ct_CS c)"
  shows "fst (undeploy env c) = None \<and>
    list_all (\<lambda>s. fs_Status s = Some FeatureStatusRemoved) (cs_FeatureSummaries (ct_CS (snd (undeploy env c))))"
proof -
  have env: "feature_removed (ev_undeploy env f)" for f using assms(1) by (simp add: teardown_env_def)
  note step = undeployed_feature [OF env]
  define u1 where "u1 = undeployFeature (ev_undeploy env FeatureResources) FeatureResources (ct_CS c)"
  define u2 where "u2 = undeployFeature (ev_undeploy env FeatureKustomize) FeatureKustomize (dst_CS (snd u1))"
  define u3 where "u3 = undeployFeature (ev_undeploy env FeatureHelm) FeatureHelm (dst_CS (snd u2))"
  have u: "fst (undeploy env c) = None" "ct_CS (snd (undeploy env c)) = dst_CS (snd u3)"
    using step by (simp_all add: undeploy_def with_deploy_def r_op_def Let_def u1_def u2_def u3_def)
  have wf: "features_wf (dst_CS (snd u3))" using step assms(2) by (simp add: u1_def u2_def u3_def)
  have "isFeatureRemoved (dst_CS (snd u3)) f" for f
    using step by (cases f) (simp_all add: isFeatureRemoved_def has_status_def u1_def u2_def u3_def)
  then have "fs_Status s = Some FeatureStatusRemoved" if "s \<in> set (cs_FeatureSummaries (dst_CS (snd u3)))" for s
    using features_wf_find [OF wf, of "fs_FeatureID s" s] that by (metis isFeatureRemoved_def has_status_find option.inject)
  then show ?thesis using u by (simp add: list_all_iff)
qed

lemma finish_delete_finalizer:
  "\<not> has_finalizer (ct_CS (snd (finish_delete ops env True False c))) \<and>
   request_of (ct_CS (snd (finish_delete ops env True False c))) = request_of (ct_CS c)"
  by (simp add: finish_delete_def Let_def postFinalizerCleanup_CS removeFinalizer_def with_finalizers_def has_finalizer_def
      request_of_def)

lemma request_object: "object_of a = object_of b \<Longrightarrow> request_of a = request_of b"
  by (simp add: object_of_def request_of_def)

lemma doomed_object:
  assumes "object_of a = object_of b" and "features_wf a" and "doomed env b"
  shows "doomed env a"
proof -
  have meta: "cs_Meta a = cs_Meta b" using object_of_eq [OF assms(1)] by simp
  note same = gates_object(4-6) [OF assms(1)]
  show ?thesis using assms(2,3) unfolding doomed_def same unfolding meta by blast
qed

lemma no_successors:
  assumes "teardown_env env" and "doomed env cs"
  shows "\<exists>m. areSuccessorsProvisioned l (ev_group_of env) (transition_of env) cs = Inr (True, m)"
  using assms by (auto simp: teardown_env_def doomed_def areSuccessorsProvisioned_def getTransitionSuccessors_def
      transition_of_def Let_def)

lemma resource_summary_cleaned:
  assumes "teardown_env env" and "features_wf (ct_CS c)"
  shows "fst (cleanup_resource_summary env False c) = None \<and> features_wf (ct_CS (snd (cleanup_resource_summary env False c)))"
  using assms by (simp add: teardown_env_def cleanup_resource_summary_def removeResourceSummary_def inv_intros Let_def)

text \<open>The delete path in this environment: the gate of the dependents decides.\<close>

lemma teardown_delete:
  assumes env: "teardown_env env" and cs: "doomed env (ct_CS c)" and run: "reconcileDelete ops env c = (res, c')"
    and dep: "areDependentsRemoved (ev_lister env) (ev_group_of env) (ct_CS c) = Inr (removed, msg)"
  shows "request_of (ct_CS c') = request_of (ct_CS c) \<and> (if removed then \<not> has_finalizer (ct_CS c')
    else object_of (ct_CS c') = object_of (ct_CS c) \<and> features_wf (ct_CS c'))"
proof -
  define c0 where "c0 = r_op RRemoveHealthMonitoring (c\<lparr>ct_R := updateDeletedInstancs (ev_now env) (ct_CS c) (ct_R c)\<rparr>)"
  define s where "s = cleanup_resource_summary env False (on_CS (set_suspended None) c0)"
  have wf: "features_wf (set_suspended None (ct_CS c0))" using cs by (simp add: c0_def doomed_def inv_intros)
  have s: "fst s = None" "features_wf (ct_CS (snd s))" using resource_summary_cleaned [OF env, of "on_CS (set_suspended None) c0"] wf
    by (simp_all add: s_def)
  have os: "object_of (ct_CS (snd s)) = object_of (ct_CS c)"
    by (simp add: s_def cleanup_resource_summary_object object_frame c0_def)
  have cleanup: "cleanupBeforeFinalizerRemoval env False c0 = dependents_gate env (snd s)"
    using env s(1) by (simp add: cleanupBeforeFinalizerRemoval_def teardown_env_def s_def Let_def)
  have del: "(case fst (dependents_gate env (snd s)) of Some r \<Rightarrow> (r, snd (dependents_gate env (snd s)))
      | None \<Rightarrow> finish_delete ops env True False (snd (dependents_gate env (snd s)))) = (res, c')"
    unfolding cleanup [symmetric] using run [unfolded reconcileDelete_def Let_def, folded c0_def] env
    by (simp add: teardown_env_def)
  define m where "m = on_CS (SetDependenciesMessage (Some msg)) (snd s)"
  have m: "object_of (ct_CS m) = object_of (ct_CS c)" "features_wf (ct_CS m)"
    using os s(2) by (simp_all add: m_def object_frame inv_intros)
  have gate: "dependents_gate env (snd s) = (if \<not> removed
      then (Some (deleteRequeueAfter, None), on_CS (resetFeatureStatus FeatureStatusBlocked) m) else successors_gate env m)"
    using dep gates_object(1) [OF os, of "ev_lister env"] by (simp add: dependents_gate_def m_def Let_def)
  show ?thesis
  proof (cases removed)
    case False
    have "c' = on_CS (resetFeatureStatus FeatureStatusBlocked) m" using del gate False by simp
    then have "object_of (ct_CS c') = object_of (ct_CS c)" "features_wf (ct_CS c')"
      using m by (simp_all add: object_frame inv_intros)
    with False show ?thesis using request_object [of "ct_CS c'" "ct_CS c"] by simp
  next
    case True
    have dm: "doomed env (ct_CS m)" by (rule doomed_object [OF m cs])
    obtain msg' where succ: "areSuccessorsProvisioned (ev_lister env) (ev_group_of env) (transition_of env) (ct_CS m) = Inr (True, msg')"
      using no_successors [OF env dm] by blast
    define n where "n = on_CS (SetDependenciesMessage (Some msg')) m"
    define u where "u = undeploy env n"
    have on: "object_of (ct_CS (snd u)) = object_of (ct_CS c)" using m by (simp add: n_def u_def object_frame)
    have "features_wf (ct_CS n)" using m by (simp add: n_def inv_intros)
    note und = undeployed [OF env this, folded u_def]
    have "cluster_lookup_of env = ClusterFound"
      using env by (auto simp: cluster_lookup_of_def teardown_env_def isClusterPresent_def split: sum.splits api_error.splits)
    moreover have "om_DeletionTimestamp (cs_Meta (ct_CS (snd u))) \<noteq> None" "\<not> IsDryRunSync (ct_CS (snd u))"
      using cs gates_object(5) [OF on] object_of_eq [OF on] by (simp_all add: doomed_def)
    ultimately have "canRemoveFinalizer (cluster_lookup_of env) (owner_lookup_of env (ct_CS (snd u))) (ct_CS (snd u))"
      using und by (simp add: canRemoveFinalizer_def)
    then have "undeploy_and_check env n = (None, snd u)" using und by (simp add: undeploy_and_check_def Let_def u_def)
    then have "dependents_gate env (snd s) = (None, snd u)"
      using gate True succ by (simp add: successors_gate_def n_def Let_def)
    then have "c' = snd (finish_delete ops env True False (snd u))" using del by simp
    then show ?thesis using True finish_delete_finalizer [of ops env "snd u"] request_object [OF on] by simp
  qed
qed

section \<open>Passes\<close>

text \<open>The stores the theorem is about. \<open>rank\<close> orders the profiles along the DependsOn lists, which are thus acyclic.\<close>

definition teardown_store :: "reconcile_env \<Rightarrow> (string \<Rightarrow> nat) \<Rightarrow> nat \<Rightarrow> cluster_summary list \<Rightarrow> bool" where
  "teardown_store env rank n store \<longleftrightarrow> distinct (map request_of store) \<and>
     (\<forall>cs \<in> set store. doomed env cs \<and> rank (profile_of env cs) < n \<and>
        (\<forall>d \<in> set (ps_DependsOn (cs_ProfileSpec cs)). rank d < rank (profile_of env cs)))"

lemma find_summary_Some:
  "find_summary req store = Some cs \<Longrightarrow> cs \<in> set store \<and> request_of cs = req"
  by (auto simp: find_summary_def find_Some_iff)

lemma profile_of_object: "object_of a = object_of b \<Longrightarrow> profile_of env a = profile_of env b"
  unfolding profile_of_def by (drule gates_object(4) [where g = "ev_group_of env"]) simp

lemma put_back_Meta: "has_finalizer cs \<Longrightarrow> map request_of (put_back cs store) = map request_of store"
  unfolding put_back_def by (simp add: comp_def if_distrib [of request_of] cong: if_cong)

lemma env_with_lister:
  "teardown_env (env\<lparr>ev_lister := l\<rparr>) = teardown_env env" "doomed (env\<lparr>ev_lister := l\<rparr>) cs = doomed env cs"
proof -
  have "isPaused (env\<lparr>ev_lister := l\<rparr>) cs = isPaused env cs" for cs
    by (simp add: isPaused_def split: sum.splits api_error.splits)
  then show "teardown_env (env\<lparr>ev_lister := l\<rparr>) = teardown_env env" by (simp add: teardown_env_def isReady_def isClusterPresent_def)
qed (simp add: doomed_def)

context summary_store
begin

lemma dependents_decided:
  assumes "teardown_store env rank n store" and "cs \<in> set store"
  shows "\<exists>removed msg. areDependentsRemoved (answer store) (ev_group_of env) cs = Inr (removed, msg) \<and>
    (Suc (rank (profile_of env cs)) = n \<longrightarrow> removed)"
proof -
  obtain owner where owner: "GetProfileOwnerReference (ev_group_of env) cs = Inr owner"
    using assms by (auto simp: teardown_store_def doomed_def)
  define css where "css = filter (\<lambda>cs'. list_all (\<lambda>opt. option_matches opt cs') (cluster_options cs)) store"
  have "List.find (still_depends (own_Name owner) cs) css = None" if "Suc (rank (profile_of env cs)) = n"
  proof -
    have "\<not> still_depends (own_Name owner) cs other" if "other \<in> set css" for other
    proof
      assume "still_depends (own_Name owner) cs other"
      then have "rank (own_Name owner) < rank (profile_of env other)" "rank (profile_of env other) < n"
        using assms that by (auto simp: teardown_store_def css_def still_depends_def list_ex_iff)
      then show False using \<open>Suc (rank (profile_of env cs)) = n\<close> by (simp add: profile_of_def owner)
    qed
    then show ?thesis by (simp add: find_None_iff)
  qed
  then show ?thesis
    by (cases "List.find (still_depends (own_Name owner) cs) css")
      (auto simp: areDependentsRemoved_def owner answer css_def)
qed

lemma step_store:
  assumes env: "teardown_env env" and store: "teardown_store env rank n store"
    and step: "teardown_step answer ops env req (store, c) = (store', c')"
  shows "teardown_store env rank n store' \<and>
    (\<lambda>cs. (request_of cs, profile_of env cs)) ` set store' \<subseteq> (\<lambda>cs. (request_of cs, profile_of env cs)) ` set store \<and>
    (\<forall>cs \<in> set store'. request_of cs = req \<longrightarrow> Suc (rank (profile_of env cs)) \<noteq> n)"
proof (cases "find_summary req store")
  case None
  then have "store' = store" using step by (simp add: teardown_step_def)
  moreover have "request_of cs \<noteq> req" if "cs \<in> set store" for cs
    using None that by (auto simp: find_summary_def find_None_iff)
  ultimately show ?thesis using store by auto
next
  case (Some cs)
  note cs = find_summary_Some [OF Some]
  let ?env = "env\<lparr>ev_lister := answer store\<rparr>"
  obtain res c1 where run: "reconcileDelete ops ?env (c\<lparr>ct_CS := cs\<rparr>) = (res, c1)" by fastforce
  with step Some have c1: "c1 = c'" and store': "store' = put_back (ct_CS c') store" by (auto simp: teardown_step_def Let_def)
  obtain removed msg where dep: "areDependentsRemoved (answer store) (ev_group_of env) cs = Inr (removed, msg)"
    and top: "Suc (rank (profile_of env cs)) = n \<Longrightarrow> removed"
    using dependents_decided [OF store] cs by blast
  have d: "doomed env cs" using store cs by (simp add: teardown_store_def)
  have "request_of (ct_CS c') = req \<and> (if removed then \<not> has_finalizer (ct_CS c')
      else object_of (ct_CS c') = object_of cs \<and> features_wf (ct_CS c'))"
    using teardown_delete [OF _ _ run [unfolded c1], of removed msg] env d dep cs by (simp add: env_with_lister)
  note del = this
  show ?thesis
  proof (cases removed)
    case True
    then show ?thesis using del store
      by (auto simp: store' put_back_def teardown_store_def distinct_map_filter)
  next
    case False
    then have o: "object_of (ct_CS c') = object_of cs" and wf: "features_wf (ct_CS c')" using del by simp_all
    have d': "doomed env (ct_CS c')" by (rule doomed_object [OF o wf d])
    then have fin: "has_finalizer (ct_CS c')" by (simp add: doomed_def)
    have same: "profile_of env (ct_CS c') = profile_of env cs" "cs_ProfileSpec (ct_CS c') = cs_ProfileSpec cs"
      using profile_of_object [OF o] object_of_eq [OF o] by simp_all
    have mem: "x \<in> set store \<or> x = ct_CS c'" if "x \<in> set store'" for x
      using that by (auto simp: store' put_back_def fin split: if_splits)
    have only: "x = ct_CS c'" if "x \<in> set store'" "request_of x = req" for x
      using that del by (auto simp: store' put_back_def fin split: if_splits)
    have "rank (profile_of env cs) < n \<and> (\<forall>d \<in> set (ps_DependsOn (cs_ProfileSpec cs)). rank d < rank (profile_of env cs))"
      using store cs by (auto simp: teardown_store_def)
    note ranks = this
    have each: "doomed env x \<and> rank (profile_of env x) < n \<and>
        (\<forall>d \<in> set (ps_DependsOn (cs_ProfileSpec x)). rank d < rank (profile_of env x))" if "x \<in> set store'" for x
    proof (cases "x \<in> set store")
      case True
      with store show ?thesis by (simp add: teardown_store_def)
    next
      case False
      then have x: "x = ct_CS c'" using mem that by blast
      show ?thesis using ranks d' unfolding x same by blast
    qed
    have "distinct (map request_of store')" using store by (simp add: teardown_store_def store' put_back_Meta [OF fin])
    with each have "teardown_store env rank n store'" unfolding teardown_store_def by blast
    moreover have "(request_of x, profile_of env x) \<in> (\<lambda>cs. (request_of cs, profile_of env cs)) ` set store" if "x \<in> set store'" for x
      using mem [OF that] cs del by (auto simp: same)
    moreover have "Suc (rank (profile_of env x)) \<noteq> n" if "x \<in> set store'" "request_of x = req" for x
      using only [OF that] top False same(1) by auto
    ultimately show ?thesis by blast
  qed
qed

end

context summary_store
begin

lemma steps_store:
  assumes env: "teardown_env env" and "teardown_store env rank n store"
    and "fold (teardown_step answer ops env) reqs (store, c) = (store', c')"
  shows "teardown_store env rank n store' \<and>
    (\<lambda>cs. (request_of cs, profile_of env cs)) ` set store' \<subseteq> (\<lambda>cs. (request_of cs, profile_of env cs)) ` set store \<and>
    (\<forall>cs \<in> set store'. request_of cs \<in> set reqs \<longrightarrow> Suc (rank (profile_of env cs)) \<noteq> n)"
  using assms(2,3)
proof (induction reqs arbitrary: store c)
  case (Cons req reqs)
  obtain store1 c1 where step: "teardown_step answer ops env req (store, c) = (store1, c1)" by fastforce
  note s1 = step_store [OF env Cons.prems(1) step]
  have "fold (teardown_step answer ops env) reqs (store1, c1) = (store', c')" using Cons.prems(2) step by simp
  from Cons.IH [OF _ this] s1 have IH: "teardown_store env rank n store'"
    "(\<lambda>cs. (request_of cs, profile_of env cs)) ` set store' \<subseteq> (\<lambda>cs. (request_of cs, profile_of env cs)) ` set store1"
    "\<And>cs. cs \<in> set store' \<Longrightarrow> request_of cs \<in> set reqs \<Longrightarrow> Suc (rank (profile_of env cs)) \<noteq> n"
    by blast+
  have "Suc (rank (profile_of env cs)) \<noteq> n" if cs: "cs \<in> set store'" "request_of cs = req" for cs
  proof -
    have "(request_of cs, profile_of env cs) \<in> (\<lambda>cs. (request_of cs, profile_of env cs)) ` set store1" using IH(2) cs by blast
    then obtain cs1 where "cs1 \<in> set store1" "request_of cs1 = request_of cs" "profile_of env cs1 = profile_of env cs" by auto
    then show ?thesis using s1 cs(2) by metis
  qed
  then have "\<forall>cs \<in> set store'. request_of cs \<in> set (req # reqs) \<longrightarrow> Suc (rank (profile_of env cs)) \<noteq> n"
    using IH(3) unfolding list.set by blast
  moreover have "(\<lambda>cs. (request_of cs, profile_of env cs)) ` set store' \<subseteq> (\<lambda>cs. (request_of cs, profile_of env cs)) ` set store"
    by (rule subset_trans [OF IH(2)]) (use s1 in blast)
  ultimately show ?case using IH(1) by blast
qed simp

lemma pass_store:
  assumes "teardown_env env" and "teardown_store env rank (Suc n) store"
    and "teardown_pass answer ops env (store, c) = (store', c')"
  shows "teardown_store env rank n store'"
proof -
  note s = steps_store [OF assms(1,2) assms(3) [unfolded teardown_pass_def fst_conv]]
  have "rank (profile_of env cs) < n" if "cs \<in> set store'" for cs
  proof -
    have "request_of cs \<in> set (map request_of store)" using s that by auto
    then have "Suc (rank (profile_of env cs)) \<noteq> Suc n" using s that by blast
    moreover have "rank (profile_of env cs) < Suc n" using s that by (simp add: teardown_store_def)
    ultimately show ?thesis by simp
  qed
  then show ?thesis using s by (simp add: teardown_store_def)
qed

lemma passes_empty:
  assumes "teardown_env env"
  shows "teardown_store env rank n store \<Longrightarrow> fst ((teardown_pass answer ops env ^^ n) (store, c)) = []"
proof (induction n arbitrary: store c)
  case 0
  then show ?case by (cases store) (auto simp: teardown_store_def)
next
  case (Suc n)
  obtain store' c' where pass: "teardown_pass answer ops env (store, c) = (store', c')" by fastforce
  from Suc.IH [OF pass_store [OF assms Suc.prems pass], of c'] show ?case
    by (simp add: funpow_Suc_right pass del: funpow.simps)
qed

end

text \<open>The store of an API server that keeps the objects in a list.\<close>

text \<open>C4. Deleting everything terminates: when the profiles of the ClusterSummaries do not depend on each other in a
  circle and nothing outside stands in the way, as many passes as the longest chain of dependencies has profiles remove
  every finalizer, in whatever order the ClusterSummaries are reconciled.\<close>

theorem teardown_completes:
  assumes "summary_store answer" and "teardown_env env" and "teardown_store env rank n store"
  shows "fst ((teardown_pass answer ops env ^^ n) (store, c)) = []"
  using assms summary_store.passes_empty by blast

section \<open>Witness\<close>

theorem teardown_completes_witness:
  "fst ((teardown_pass list_store list_set_ops sample_reconcile_env ^^ 2)
     ([sample_summary ''p'' [] (Some 5), sample_summary ''q'' [''p''] (Some 5)], sample_controller zero_cluster_summary)) = []"
proof (rule teardown_completes)
  show "summary_store list_store" by (rule list_summary_store.summary_store_axioms)
  show "teardown_env sample_reconcile_env"
    by (simp add: teardown_env_def sample_reconcile_env_def isReady_def isClusterPresent_def isPaused_def feature_removed_def
        sample_removed_env_def sample_env_def)
  have "profile_of sample_reconcile_env (sample_summary p deps t) = p" "doomed sample_reconcile_env (sample_summary p deps (Some 5))"
    for p deps t
    by (simp_all add: profile_of_def doomed_def GetProfileOwnerReference_def sample_summary_def sample_owner_def
        sample_reconcile_env_def has_finalizer_def IsDryRunSync_def features_wf_def zero_defs)
  then show "teardown_store sample_reconcile_env (\<lambda>p. if p = ''q'' then 1 else 0) 2
      [sample_summary ''p'' [] (Some 5), sample_summary ''q'' [''p''] (Some 5)]"
    by (simp add: teardown_store_def) (simp add: sample_summary_def request_of_def)
qed

end
