(* ===== verification/Helm_Values.thy ===== *)
theory Helm_Values
  imports Feature_Deployer
begin

text \<open>
  The helm vocabulary of the controller (controllers/handlers_helm.go): the options of a chart with their defaults, chart and
  repository names, the values of a release and when the wanted values are already in it, and what is known of a release.
\<close>

section \<open>Options of a chart\<close>

text \<open>One definition per getter of the source; an absent option has the default. Durations are seconds.\<close>

definition getEnableClientCacheValue :: "helm_options option \<Rightarrow> bool" where
  "getEnableClientCacheValue options = (case options of None \<Rightarrow> False | Some opts \<Rightarrow> ho_EnableClientCache opts)"

definition getWaitHelmValue :: "helm_options option \<Rightarrow> bool" where
  "getWaitHelmValue options = (case options of None \<Rightarrow> False | Some opts \<Rightarrow> ho_Wait opts)"

definition getWaitForJobsHelmValue :: "helm_options option \<Rightarrow> bool" where
  "getWaitForJobsHelmValue options = (case options of None \<Rightarrow> False | Some opts \<Rightarrow> ho_WaitForJobs opts)"

definition getSkipCRDsHelmValue :: "helm_options option \<Rightarrow> bool" where
  "getSkipCRDsHelmValue options = (case options of None \<Rightarrow> False | Some opts \<Rightarrow> ho_SkipCRDs opts)"

definition getPassCredentialsToAllValue :: "helm_options option \<Rightarrow> bool" where
  "getPassCredentialsToAllValue options = (case options of None \<Rightarrow> False | Some opts \<Rightarrow> ho_PassCredentialsAll opts)"

definition getAtomicHelmValue :: "helm_options option \<Rightarrow> bool" where
  "getAtomicHelmValue options = (case options of None \<Rightarrow> False | Some opts \<Rightarrow> ho_Atomic opts)"

definition getDisableOpenAPIValidationValue :: "helm_options option \<Rightarrow> bool" where
  "getDisableOpenAPIValidationValue options = (case options of None \<Rightarrow> False | Some opts \<Rightarrow> ho_DisableOpenAPIValidation opts)"

definition getSkipSchemaValidation :: "helm_options option \<Rightarrow> bool" where
  "getSkipSchemaValidation options = (case options of None \<Rightarrow> False | Some opts \<Rightarrow> ho_SkipSchemaValidation opts)"

definition getDependenciesUpdateValue :: "helm_options option \<Rightarrow> bool" where
  "getDependenciesUpdateValue options = (case options of None \<Rightarrow> False | Some opts \<Rightarrow> ho_DependencyUpdate opts)"

definition getRunTestsValue :: "helm_options option \<Rightarrow> bool" where
  "getRunTestsValue options = (case options of None \<Rightarrow> False | Some opts \<Rightarrow> ho_RunTests opts)"

definition getForceValue :: "helm_options option \<Rightarrow> bool" where
  "getForceValue options = (case options of None \<Rightarrow> False | Some opts \<Rightarrow> huo_Force (ho_UpgradeOptions opts))"

definition getReuseValues :: "helm_options option \<Rightarrow> bool" where
  "getReuseValues options = (case options of None \<Rightarrow> False | Some opts \<Rightarrow> huo_ReuseValues (ho_UpgradeOptions opts))"

definition getResetValues :: "helm_options option \<Rightarrow> bool" where
  "getResetValues options = (case options of None \<Rightarrow> False | Some opts \<Rightarrow> huo_ResetValues (ho_UpgradeOptions opts))"

definition getResetThenReuseValues :: "helm_options option \<Rightarrow> bool" where
  "getResetThenReuseValues options = (case options of None \<Rightarrow> False | Some opts \<Rightarrow> huo_ResetThenReuseValues (ho_UpgradeOptions opts))"

definition getUpgradeCRDs :: "helm_options option \<Rightarrow> bool" where
  "getUpgradeCRDs options = (case options of None \<Rightarrow> False | Some opts \<Rightarrow> huo_UpgradeCRDs (ho_UpgradeOptions opts))"

definition getCleanupOnFailValue :: "helm_options option \<Rightarrow> bool" where
  "getCleanupOnFailValue options = (case options of None \<Rightarrow> False | Some opts \<Rightarrow> huo_CleanupOnFail (ho_UpgradeOptions opts))"

definition getSubNotesValue :: "helm_options option \<Rightarrow> bool" where
  "getSubNotesValue options = (case options of None \<Rightarrow> False | Some opts \<Rightarrow> huo_SubNotes (ho_UpgradeOptions opts))"

definition getKeepHistoryValue :: "helm_options option \<Rightarrow> bool" where
  "getKeepHistoryValue options = (case options of None \<Rightarrow> False | Some opts \<Rightarrow> hno_KeepHistory (ho_UninstallOptions opts))"


definition getPostRenderStrategyValue :: "helm_options option \<Rightarrow> post_render_strategy option" where
  "getPostRenderStrategyValue options = (case options of None \<Rightarrow> None | Some opts \<Rightarrow> ho_PostRenderStrategy opts)"

definition getTakeOwnershipHelmValue :: "helm_options option \<Rightarrow> bool \<Rightarrow> bool" where
  "getTakeOwnershipHelmValue options isUpgrade =
     (case options of
        None \<Rightarrow> False
      | Some opts \<Rightarrow> if isUpgrade then huo_TakeOwnership (ho_UpgradeOptions opts)
                    else hio_TakeOwnership (ho_InstallOptions opts))"

definition getExistingCRDsPolicy :: "helm_options option \<Rightarrow> existing_crds_policy" where
  "getExistingCRDsPolicy options =
     (case options of
        None \<Rightarrow> ExistingCRDsPolicyFail
      | Some opts \<Rightarrow> (case hio_ExistingCRDs (ho_InstallOptions opts) of None \<Rightarrow> ExistingCRDsPolicyFail | Some p \<Rightarrow> p))"

definition getCreateNamespaceHelmValue :: "helm_options option \<Rightarrow> bool" where
  "getCreateNamespaceHelmValue options =
     (case options of
        None \<Rightarrow> True
      | Some opts \<Rightarrow> (case hio_CreateNamespace (ho_InstallOptions opts) of None \<Rightarrow> True | Some b \<Rightarrow> b))"

definition getDisableHooksHelmInstallValue :: "helm_options option \<Rightarrow> bool" where
  "getDisableHooksHelmInstallValue options =
     (case options of
        None \<Rightarrow> False
      | Some opts \<Rightarrow> if hio_DisableHooks (ho_InstallOptions opts) then True else ho_DisableHooks opts)"

definition getDisableHooksHelmUninstallValue :: "helm_options option \<Rightarrow> bool" where
  "getDisableHooksHelmUninstallValue options =
     (case options of
        None \<Rightarrow> False
      | Some opts \<Rightarrow> if hno_DisableHooks (ho_UninstallOptions opts) then True else ho_DisableHooks opts)"

definition getDisableHooksHelmUpgradeValue :: "helm_options option \<Rightarrow> bool" where
  "getDisableHooksHelmUpgradeValue options =
     (case options of
        None \<Rightarrow> False
      | Some opts \<Rightarrow> if huo_DisableHooks (ho_UpgradeOptions opts) then True else ho_DisableHooks opts)"

definition getTimeoutValue :: "helm_options option \<Rightarrow> duration" where
  "getTimeoutValue options =
     (case options of
        None \<Rightarrow> 300
      | Some opts \<Rightarrow> (case ho_Timeout opts of None \<Rightarrow> 300 | Some d \<Rightarrow> d))"

definition getLabelsValue :: "helm_options option \<Rightarrow> (string \<times> string) list" where
  "getLabelsValue options = (case options of None \<Rightarrow> [] | Some opts \<Rightarrow> ho_Labels opts)"

definition getReplaceValue :: "helm_options option \<Rightarrow> bool" where
  "getReplaceValue options =
     (case options of
        None \<Rightarrow> True
      | Some opts \<Rightarrow> (case hio_Replace (ho_InstallOptions opts) of None \<Rightarrow> True | Some b \<Rightarrow> b))"

definition getDescriptionValue :: "helm_options option \<Rightarrow> string" where
  "getDescriptionValue options = (case options of None \<Rightarrow> [] | Some opts \<Rightarrow> ho_Description opts)"

definition getDeletionPropagation :: "helm_options option \<Rightarrow> string" where
  "getDeletionPropagation options =
     (case options of None \<Rightarrow> ''background'' | Some opts \<Rightarrow> hno_DeletionPropagation (ho_UninstallOptions opts))"

definition getMaxHistoryValue :: "helm_options option \<Rightarrow> int" where
  "getMaxHistoryValue options =
     (case options of
        None \<Rightarrow> 2
      | Some opts \<Rightarrow> let maxHistory = huo_MaxHistory (ho_UpgradeOptions opts) in if maxHistory \<le> 0 then 1 else maxHistory)"

definition getRecoverAfterConsecutiveFailuresValue :: "helm_options option \<Rightarrow> 64 word" where
  "getRecoverAfterConsecutiveFailuresValue options =
     (case options of
        None \<Rightarrow> 5
      | Some opts \<Rightarrow>
          if hio_RecoverAfterConsecutiveFailures (ho_InstallOptions opts) > 0
          then word_of_int (hio_RecoverAfterConsecutiveFailures (ho_InstallOptions opts)) else 5)"

definition getInsecureSkipTLSVerify :: "helm_chart \<Rightarrow> bool" where
  "getInsecureSkipTLSVerify currentChart =
     (case hc_RegistryCredentialsConfig currentChart of None \<Rightarrow> False | Some c \<Rightarrow> rcc_InsecureSkipTLSVerify c)"

definition getPlainHTTP :: "helm_chart \<Rightarrow> bool" where
  "getPlainHTTP currentChart =
     (case hc_RegistryCredentialsConfig currentChart of None \<Rightarrow> False | Some c \<Rightarrow> rcc_PlainHTTP c)"

definition isLeavePolicies :: "cluster_summary \<Rightarrow> bool" where
  "isLeavePolicies clusterSummary \<longleftrightarrow> om_DeletionTimestamp (cs_Meta clusterSummary) \<noteq> None \<and>
     ps_StopMatchingBehavior (cs_ProfileSpec clusterSummary) = LeavePolicies"

text \<open>The number of failures tolerated before an uninstall is never zero, so the remainder by it is defined.\<close>

lemma recover_after_positive:
  assumes "\<forall>opts. options = Some opts \<longrightarrow> hio_RecoverAfterConsecutiveFailures (ho_InstallOptions opts) < 2 ^ 63"
  shows "getRecoverAfterConsecutiveFailuresValue options \<noteq> 0"
proof (cases options)
  case (Some opts)
  define n where "n = hio_RecoverAfterConsecutiveFailures (ho_InstallOptions opts)"
  have "n < 2 ^ 63" using assms Some by (simp add: n_def)
  then have "word_of_int n \<noteq> (0 :: 64 word)" if "n > 0"
    using that by (auto simp: word_of_int_eq_0_iff dest!: zdvd_imp_le)
  then show ?thesis by (simp add: getRecoverAfterConsecutiveFailuresValue_def Some flip: n_def)
qed (simp add: getRecoverAfterConsecutiveFailuresValue_def)

section \<open>Chart and repository names\<close>

definition chartNameContainsRepositoryName :: "string \<Rightarrow> string \<Rightarrow> bool" where
  "chartNameContainsRepositoryName chartName repositoryName = has_prefix (repositoryName @ ''/'') chartName"

definition removeRepositoryNameFromChartName :: "string \<Rightarrow> string \<Rightarrow> string" where
  "removeRepositoryNameFromChartName chartName repositoryName =
     (if has_prefix (repositoryName @ ''/'') chartName then drop (length (repositoryName @ ''/'')) chartName else chartName)"

definition ensureRepositoryNamePrefix :: "string \<Rightarrow> string \<Rightarrow> string" where
  "ensureRepositoryNamePrefix chartName repositoryName =
     (if repositoryName = [] then chartName
      else if chartNameContainsRepositoryName chartName repositoryName then chartName
      else repositoryName @ ''/'' @ chartName)"

lemma ensure_prefix_idem:
  "ensureRepositoryNamePrefix (ensureRepositoryNamePrefix chartName r) r = ensureRepositoryNamePrefix chartName r"
  by (simp add: ensureRepositoryNamePrefix_def chartNameContainsRepositoryName_def)

lemma remove_ensured_prefix:
  "r \<noteq> [] \<Longrightarrow> \<not> chartNameContainsRepositoryName chartName r \<Longrightarrow>
     removeRepositoryNameFromChartName (ensureRepositoryNamePrefix chartName r) r = chartName"
  by (simp add: ensureRepositoryNamePrefix_def removeRepositoryNameFromChartName_def)

lemma ensure_removed_prefix:
  "r \<noteq> [] \<Longrightarrow> chartNameContainsRepositoryName chartName r \<Longrightarrow>
     \<not> chartNameContainsRepositoryName (removeRepositoryNameFromChartName chartName r) r \<Longrightarrow>
     ensureRepositoryNamePrefix (removeRepositoryNameFromChartName chartName r) r = chartName"
  by (simp add: ensureRepositoryNamePrefix_def removeRepositoryNameFromChartName_def chartNameContainsRepositoryName_def
      has_prefix_def)
    (metis append_assoc append_Cons append_Nil append_take_drop_id)

section \<open>Values\<close>

text \<open>A decoded YAML document; the keys of a map are distinct.\<close>

datatype go_value =
    VMap "(string \<times> go_value) list"
  | VList "go_value list"
  | VString string
  | VNumber int
  | VBool bool
  | VNull

type_synonym go_values = "(string \<times> go_value) list"

text \<open>\<open>reflect.DeepEqual\<close>: maps are equal when they have as many keys and equal values under each.\<close>

fun deep_equal :: "go_value \<Rightarrow> go_value \<Rightarrow> bool" and
  map_equal :: "go_values \<Rightarrow> go_values \<Rightarrow> bool" and
  list_equal :: "go_value list \<Rightarrow> go_value list \<Rightarrow> bool" where
  "deep_equal (VMap m) (VMap m') = (length m = length m' \<and> map_equal m m')"
| "deep_equal (VList xs) (VList ys) = list_equal xs ys"
| "deep_equal (VString s) (VString s') = (s = s')"
| "deep_equal (VNumber n) (VNumber n') = (n = n')"
| "deep_equal (VBool b) (VBool b') = (b = b')"
| "deep_equal VNull VNull = True"
| "deep_equal _ _ = False"
| "map_equal [] m' = True"
| "map_equal ((k, v) # m) m' = ((case map_of m' k of None \<Rightarrow> False | Some v' \<Rightarrow> deep_equal v v') \<and> map_equal m m')"
| "list_equal [] [] = True"
| "list_equal (x # xs) (y # ys) = (deep_equal x y \<and> list_equal xs ys)"
| "list_equal _ _ = False"

fun is_map :: "go_value \<Rightarrow> bool" where
  "is_map (VMap m) = True"
| "is_map _ = False"

text \<open>One wanted value against the value the release has: two maps are compared key by key, anything else as a whole.\<close>

fun desiredValuesAreSubset :: "go_values \<Rightarrow> go_values \<Rightarrow> bool" and
  value_covered :: "go_value \<Rightarrow> go_value \<Rightarrow> bool" where
  "desiredValuesAreSubset [] full = True"
| "desiredValuesAreSubset ((k, dv) # desired) full =
     ((case map_of full k of None \<Rightarrow> False | Some fv \<Rightarrow> value_covered dv fv) \<and> desiredValuesAreSubset desired full)"
| "value_covered (VMap dm) (VMap fm) = desiredValuesAreSubset dm fm"
| "value_covered dv fv = deep_equal dv fv"

text \<open>The value at a path of keys.\<close>

fun value_at :: "go_values \<Rightarrow> string list \<Rightarrow> go_value option" where
  "value_at m [] = Some (VMap m)"
| "value_at m (k # ks) =
     (case map_of m k of
        None \<Rightarrow> None
      | Some v \<Rightarrow> (case v of VMap m' \<Rightarrow> value_at m' ks | _ \<Rightarrow> if ks = [] then Some v else None))"

fun wf_value :: "go_value \<Rightarrow> bool" and wf_values :: "go_values \<Rightarrow> bool" and wf_list :: "go_value list \<Rightarrow> bool" where
  "wf_value (VMap m) = wf_values m"
| "wf_value (VList xs) = wf_list xs"
| "wf_value _ = True"
| "wf_list [] = True"
| "wf_list (x # xs) = (wf_value x \<and> wf_list xs)"
| "wf_values [] = True"
| "wf_values ((k, v) # m) = (k \<notin> set (map fst m) \<and> wf_value v \<and> wf_values m)"

lemma subset_entry:
  "desiredValuesAreSubset desired full \<Longrightarrow> map_of desired k = Some dv \<Longrightarrow>
     \<exists>fv. map_of full k = Some fv \<and> value_covered dv fv"
  by (induction desired) (auto split: if_splits option.splits)

text \<open>Every path of the wanted values that does not end in a map ends in an equal value of the release.\<close>

lemma subset_value_at:
  "desiredValuesAreSubset desired full \<Longrightarrow> value_at desired path = Some v \<Longrightarrow> \<not> is_map v \<Longrightarrow>
     \<exists>w. value_at full path = Some w \<and> deep_equal v w"
proof (induction path arbitrary: desired full)
  case (Cons k ks)
  from Cons.prems(2) obtain dv where dv: "map_of desired k = Some dv"
    by (auto split: option.splits)
  from subset_entry [OF Cons.prems(1) dv] obtain fv where fv: "map_of full k = Some fv"
    and sub: "value_covered dv fv" by blast
  show ?case
  proof (cases dv)
    case (VMap dm)
    with sub obtain fm where fm: "fv = VMap fm" "desiredValuesAreSubset dm fm"
      by (cases fv) auto
    have "value_at dm ks = Some v" using Cons.prems(2) dv VMap by simp
    from Cons.IH [OF fm(2) this Cons.prems(3)] show ?thesis using fv fm(1) by simp
  qed (use Cons.prems sub dv fv in \<open>cases fv; auto split: if_splits\<close>)+
qed auto

lemma wf_values_lookup: "wf_values m \<Longrightarrow> (k, v) \<in> set m \<Longrightarrow> map_of m k = Some v"
  by (induction m) (auto simp: rev_image_eqI)

lemma covered_refl:
  "wf_value v \<Longrightarrow> deep_equal v v \<and> value_covered v v"
  "wf_values m \<Longrightarrow> \<forall>k v. (k, v) \<in> set m \<longrightarrow> map_of full k = Some v \<Longrightarrow> map_equal m full \<and> desiredValuesAreSubset m full"
  "wf_list xs \<Longrightarrow> list_equal xs xs"
proof (induction v and m and xs arbitrary: and full and rule: wf_value_wf_values_wf_list.induct)
  case (1 m)
  then show ?case by (auto dest: wf_values_lookup)
qed auto

lemma subset_refl: "wf_values m \<Longrightarrow> desiredValuesAreSubset m m"
  using covered_refl(2) wf_values_lookup by blast

section \<open>Releases\<close>

record release_info =
  rel_ReleaseName :: string
  rel_ReleaseNamespace :: string
  rel_Revision :: string
  rel_Updated :: time
  rel_Status :: string
  rel_Chart :: string
  rel_ChartVersion :: string
  rel_AppVersion :: string
  rel_ReleaseLabels :: "(string \<times> string) list"
  rel_Icon :: string
  rel_Values :: go_values
  rel_FullValues :: go_values
  rel_applyHash :: "bytes option"
  rel_skipApply :: bool

end
