(* ===== verification/Helm_Ownership.thy ===== *)
theory Helm_Ownership
  imports Chart_Manager Dependency_Gates Helm_Values Reconcile_Maps
begin

text \<open>
  Which ClusterSummary manages a helm release (controllers/handlers_helm.go, controllers/conflicts.go): ownership of a chart and its
  handover by tier or transition, the requeue of the ClusterSummaries that lose or may take a release, and the
  conditions under which a release may be uninstalled.

  The world is the chart manager of the process, the store of ClusterSummaries of the API server, and the releases of the managed
  cluster. \<open>ownership_env\<close> holds the answers of what lies outside: the faults of the API calls (by attempt), the deployer's
  queue, the tier comparison of libsveltos, the cluster and the profiles.
\<close>

section \<open>World and environment\<close>

datatype helm_op =
    HInstall string string
  | HUpgrade string string
  | HUninstall string string
  | HTest string string
  | HExtraMetadata string string
  | HDiscardResult request
  | HRequeue request
  | HCommitStaged bool
  | HDiscardStaged
  | HStage string string bool

record helm_world =
  hw_Mgr :: chart_manager
  hw_Store :: "cluster_summary list"
  hw_Releases :: "((string \<times> string) \<times> release_info) list"
  hw_Ops :: "helm_op list"

record ownership_env =
  oe_chartManager :: "dep_error option"
  oe_Get :: "nat \<Rightarrow> request \<Rightarrow> dep_error option"
  oe_StatusUpdate :: "nat \<Rightarrow> request \<Rightarrow> dep_error option"
  oe_List :: "cluster_summary list \<Rightarrow> summary_lister"
  oe_IsInProgress :: "string \<Rightarrow> string \<Rightarrow> string \<Rightarrow> feature_id \<Rightarrow> cluster_type \<Rightarrow> bool"
  oe_group_of :: "string \<Rightarrow> string option"
  oe_HasHigherOwnershipPriority :: "int \<Rightarrow> int \<Rightarrow> bool"
  oe_GetCluster :: "api_error + bool \<times> (string \<times> string) list"
  oe_list_profiles :: "string \<Rightarrow> api_error + profile list"
  oe_toSelector :: to_selector
  oe_HasPaused :: "(string \<times> string) list \<Rightarrow> bool"

definition api_err :: "api_error \<Rightarrow> dep_error" where
  "api_err e = \<lparr>err_Msg = err_text e, err_Chain = (case e of ApiNotFound \<Rightarrow> [NotFoundError] | ApiError _ \<Rightarrow> [])\<rparr>"

definition helm_op :: "helm_op \<Rightarrow> helm_world \<Rightarrow> helm_world" where
  "helm_op a w = w\<lparr>hw_Ops := hw_Ops w @ [a]\<rparr>"

text \<open>The calls \<open>c.Get\<close> and \<open>c.Status().Update\<close> on a ClusterSummary; the latter replaces the status alone.\<close>

definition get_summary :: "'e ownership_env_scheme \<Rightarrow> nat \<Rightarrow> request \<Rightarrow> helm_world \<Rightarrow> dep_error + cluster_summary" where
  "get_summary env attempt req w =
     (case oe_Get env attempt req of
        Some e \<Rightarrow> Inl e
      | None \<Rightarrow>
          (case List.find (\<lambda>cs. request_of cs = req) (hw_Store w) of
             None \<Rightarrow> Inl (api_err ApiNotFound)
           | Some cs \<Rightarrow> Inr cs))"

definition store_status :: "cluster_summary \<Rightarrow> helm_world \<Rightarrow> helm_world" where
  "store_status cs w = w\<lparr>hw_Store :=
     map (\<lambda>x. if request_of x = request_of cs then x\<lparr>cs_Status := cs_Status cs\<rparr> else x) (hw_Store w)\<rparr>"

definition update_status :: "'e ownership_env_scheme \<Rightarrow> nat \<Rightarrow> cluster_summary \<Rightarrow> helm_world \<Rightarrow> dep_error option \<times> helm_world" where
  "update_status env attempt cs w =
     (case oe_StatusUpdate env attempt (request_of cs) of
        Some e \<Rightarrow> (Some e, w)
      | None \<Rightarrow>
          if list_ex (\<lambda>x. request_of x = request_of cs) (hw_Store w) then (None, store_status cs w)
          else (Some (api_err ApiNotFound), w))"

section \<open>Requeueing a ClusterSummary\<close>

definition requeueClusterSummary :: "'e ownership_env_scheme \<Rightarrow> feature_id \<Rightarrow> cluster_summary \<Rightarrow> helm_world \<Rightarrow>
    dep_error option \<times> helm_world" where
  "requeueClusterSummary env featureID clusterSummary w =
     (if oe_IsInProgress env (css_ClusterNamespace (cs_Spec clusterSummary)) (css_ClusterName (cs_Spec clusterSummary))
           (cs_Name clusterSummary) featureID (css_ClusterType (cs_Spec clusterSummary))
      then (Some (plain_error ''profile with conflict is still in progress''), w)
      else
        let w = helm_op (HDiscardResult (request_of clusterSummary)) w;
            cs = SetFeatureStatus featureID FeatureStatusProvisioning None None clusterSummary
        in update_status env 0 cs w)"

fun requeueAllOtherClusterSummaries :: "'e ownership_env_scheme \<Rightarrow> string \<Rightarrow> string list \<Rightarrow> helm_world \<Rightarrow>
    dep_error option \<times> helm_world" where
  "requeueAllOtherClusterSummaries env namespace [] w = (None, w)"
| "requeueAllOtherClusterSummaries env namespace (name # names) w =
     (case get_summary env 0 (namespace, name) w of
        Inl e \<Rightarrow>
          if errors_As e NotFoundError then requeueAllOtherClusterSummaries env namespace names w else (Some e, w)
      | Inr cs \<Rightarrow>
          (case requeueClusterSummary env FeatureHelm cs w of
             (Some e, w) \<Rightarrow> (Some e, w)
           | (None, w) \<Rightarrow> requeueAllOtherClusterSummaries env namespace names w))"

section \<open>Ownership of a chart\<close>

definition cs_Tier :: "cluster_summary \<Rightarrow> int" where
  "cs_Tier cs = ps_Tier (cs_ProfileSpec cs)"

definition chart_manager_of :: "cluster_summary \<Rightarrow> helm_chart \<Rightarrow> helm_world \<Rightarrow> string + string" where
  "chart_manager_of cs chart w = GetManagerForChart (css_ClusterNamespace (cs_Spec cs)) (css_ClusterName (cs_Spec cs))
     (css_ClusterType (cs_Spec cs)) chart (hw_Mgr w)"

definition with_summaries :: "helm_chart_summary list \<Rightarrow> cluster_summary \<Rightarrow> cluster_summary" where
  "with_summaries ss cs = cs\<lparr>cs_Status := (cs_Status cs)\<lparr>cst_HelmReleaseSummaries := ss\<rparr>\<rparr>"

definition chart_entry :: "helm_chart \<Rightarrow> helm_chart_summary \<Rightarrow> bool" where
  "chart_entry chart hr \<longleftrightarrow> hs_ReleaseNamespace hr = hc_ReleaseNamespace chart \<and> hs_ReleaseName hr = hc_ReleaseName chart"

definition drop_summary :: "helm_chart \<Rightarrow> cluster_summary \<Rightarrow> cluster_summary" where
  "drop_summary chart cs = with_summaries (swap_remove_first (chart_entry chart) (cs_HelmReleaseSummaries cs)) cs"

text \<open>The call also changes the object in memory, which is the first component of the result.\<close>

definition resetHelmReleaseSummaries :: "'e ownership_env_scheme \<Rightarrow> cluster_summary \<Rightarrow> helm_chart \<Rightarrow> helm_world \<Rightarrow>
    cluster_summary \<times> dep_error option \<times> helm_world" where
  "resetHelmReleaseSummaries env clusterSummary currentChart w =
     (let cs = drop_summary currentChart clusterSummary in (cs, update_status env 0 cs w))"

definition wins_ownership :: "'e ownership_env_scheme \<Rightarrow> cluster_summary \<Rightarrow> cluster_summary \<Rightarrow> bool" where
  "wins_ownership env currentHelmManager claimingHelmManager \<longleftrightarrow>
     oe_HasHigherOwnershipPriority env (cs_Tier currentHelmManager) (cs_Tier claimingHelmManager) \<or>
     isChartTransitioningFrom (oe_group_of env) currentHelmManager claimingHelmManager"

definition take_over :: "'e ownership_env_scheme \<Rightarrow> cluster_summary \<Rightarrow> cluster_summary \<Rightarrow> helm_chart \<Rightarrow> helm_world \<Rightarrow>
    (dep_error + bool) \<times> helm_world" where
  "take_over env currentHelmManager claimingHelmManager chart w =
     (case resetHelmReleaseSummaries env currentHelmManager chart w of
        (currentHelmManager, Some e, w) \<Rightarrow> (Inl e, w)
      | (currentHelmManager, None, w) \<Rightarrow>
          (case requeueClusterSummary env FeatureHelm currentHelmManager w of
             (Some e, w) \<Rightarrow> (Inl e, w)
           | (None, w) \<Rightarrow> (Inr True, w\<lparr>hw_Mgr := SetManagerForChart claimingHelmManager chart (hw_Mgr w)\<rparr>)))"

definition determineChartOwnership :: "'e ownership_env_scheme \<Rightarrow> cluster_summary \<Rightarrow> helm_chart \<Rightarrow> helm_world \<Rightarrow>
    (dep_error + bool) \<times> helm_world" where
  "determineChartOwnership env claimingHelmManager instantiatedChart w =
     (case oe_chartManager env of
        Some e \<Rightarrow> (Inl e, w)
      | None \<Rightarrow>
          if \<not> CanManageChart claimingHelmManager instantiatedChart (hw_Mgr w) then
            (case chart_manager_of claimingHelmManager instantiatedChart w of
               Inl err \<Rightarrow> (Inl (plain_error err), w)
             | Inr clusterSummaryManaging \<Rightarrow>
                 (case get_summary env 0 (css_ClusterNamespace (cs_Spec claimingHelmManager), clusterSummaryManaging) w of
                    Inl e \<Rightarrow> (Inl e, w)
                  | Inr currentHelmManager \<Rightarrow>
                      if wins_ownership env currentHelmManager claimingHelmManager then
                        if ps_SyncMode (cs_ProfileSpec claimingHelmManager) = SyncModeDryRun then (Inr True, w)
                        else take_over env currentHelmManager claimingHelmManager instantiatedChart w
                      else (Inr False, w)))
          else (Inr True, w))"

definition canManageChart :: "'e ownership_env_scheme \<Rightarrow> cluster_summary \<Rightarrow> helm_chart \<Rightarrow> helm_world \<Rightarrow>
    (dep_error + bool) \<times> helm_world" where
  "canManageChart env clusterSummary instantiatedChart w =
     (case oe_chartManager env of
        Some e \<Rightarrow> (Inl e, w)
      | None \<Rightarrow>
          if CanManageChart clusterSummary instantiatedChart (hw_Mgr w) then (Inr True, w)
          else determineChartOwnership env clusterSummary instantiatedChart w)"

definition generateConflictForHelmChart :: "'e ownership_env_scheme \<Rightarrow> cluster_summary \<Rightarrow> helm_chart \<Rightarrow> helm_world \<Rightarrow> string" where
  "generateConflictForHelmChart env clusterSummary instantiatedChart w =
     (let message = ''cannot manage chart '' @ hc_ReleaseNamespace instantiatedChart @ ''/'' @
            hc_ReleaseName instantiatedChart @ ''.''
      in case oe_chartManager env of
           Some _ \<Rightarrow> message
         | None \<Rightarrow>
             (case chart_manager_of clusterSummary instantiatedChart w of
                Inl _ \<Rightarrow> message
              | Inr managerName \<Rightarrow> message @ '' ClusterSummary '' @ managerName @ '' managing it.\<newline>''))"

section \<open>Challengers\<close>

fun requeue_challengers :: "'e ownership_env_scheme \<Rightarrow> cluster_summary \<Rightarrow> helm_chart \<Rightarrow> bool \<Rightarrow> string list \<Rightarrow> bool \<Rightarrow>
    helm_world \<Rightarrow> (dep_error + bool) \<times> helm_world" where
  "requeue_challengers env mgr helmChart transferOwnership [] requeued w = (Inr requeued, w)"
| "requeue_challengers env mgr helmChart transferOwnership (csName # registered) requeued w =
     (if csName = cs_Name mgr then requeue_challengers env mgr helmChart transferOwnership registered requeued w
      else case get_summary env 0 (cs_Namespace mgr, csName) w of
        Inl e \<Rightarrow>
          if errors_As e NotFoundError then requeue_challengers env mgr helmChart transferOwnership registered requeued w
          else (Inl e, w)
      | Inr challenger \<Rightarrow>
          if oe_HasHigherOwnershipPriority env (cs_Tier mgr) (cs_Tier challenger) then
            (case requeueClusterSummary env FeatureHelm challenger w of
               (Some e, w) \<Rightarrow> requeue_challengers env mgr helmChart transferOwnership registered requeued w
             | (None, w) \<Rightarrow>
                 let w = (if transferOwnership
                          then w\<lparr>hw_Mgr := SetManagerForChart challenger helmChart (hw_Mgr w)\<rparr> else w)
                 in requeue_challengers env mgr helmChart transferOwnership registered True w)
          else requeue_challengers env mgr helmChart transferOwnership registered requeued w)"

definition registered_for :: "cluster_summary \<Rightarrow> helm_chart \<Rightarrow> helm_world \<Rightarrow> string list" where
  "registered_for cs chart w = GetRegisteredClusterSummariesForChart (css_ClusterNamespace (cs_Spec cs))
     (css_ClusterName (cs_Spec cs)) (css_ClusterType (cs_Spec cs)) chart (hw_Mgr w)"

text \<open>The slice the loop ranges over is the one the chart manager holds. A handover inside the loop overwrites only the position
  the loop has just read and then gives the chart manager a new slice, so the loop reads the names as they were.\<close>

definition requeueLowerTierChallengers :: "'e ownership_env_scheme \<Rightarrow> cluster_summary \<Rightarrow> helm_chart \<Rightarrow> bool \<Rightarrow>
    helm_world \<Rightarrow> (dep_error + bool) \<times> helm_world" where
  "requeueLowerTierChallengers env mgr helmChart transferOwnership w =
     (case oe_chartManager env of
        Some e \<Rightarrow> (Inl e, w)
      | None \<Rightarrow> requeue_challengers env mgr helmChart transferOwnership (registered_for mgr helmChart w) False w)"

text \<open>\<open>panic_error\<close> stands for the index out of range of \<open>GetManagedHelmReleases\<close>, which the invariant of the
  chart manager excludes.\<close>

definition panic_error :: dep_error where
  "panic_error = plain_error ''panic: index out of range''"

definition release_chart :: "helm_release_info \<Rightarrow> helm_chart" where
  "release_chart r = zero_helm_chart\<lparr>hc_ReleaseNamespace := hri_Namespace r, hc_ReleaseName := hri_Name r\<rparr>"

fun requeue_for_releases :: "'e ownership_env_scheme \<Rightarrow> cluster_summary \<Rightarrow> helm_release_info list \<Rightarrow> bool \<Rightarrow>
    helm_world \<Rightarrow> (dep_error + bool) \<times> helm_world" where
  "requeue_for_releases env clusterSummary [] requeued w = (Inr requeued, w)"
| "requeue_for_releases env clusterSummary (r # rs) requeued w =
     (case requeueLowerTierChallengers env clusterSummary (release_chart r) True w of
        (Inl e, w) \<Rightarrow> (Inl e, w)
      | (Inr b, w) \<Rightarrow> requeue_for_releases env clusterSummary rs (if b then True else requeued) w)"

definition requeueLowerTierChallengersForProfile :: "'e ownership_env_scheme \<Rightarrow> cluster_summary \<Rightarrow>
    helm_world \<Rightarrow> (dep_error + bool) \<times> helm_world" where
  "requeueLowerTierChallengersForProfile env clusterSummary w =
     (case oe_chartManager env of
        Some e \<Rightarrow> (Inl e, w)
      | None \<Rightarrow>
          (case GetManagedHelmReleases clusterSummary (hw_Mgr w) of
             None \<Rightarrow> (Inl panic_error, w)
           | Some managedReleases \<Rightarrow> requeue_for_releases env clusterSummary managedReleases False w))"

section \<open>Waiting for other profiles before an uninstall\<close>

definition isProfileFullyProcessed :: "'e ownership_env_scheme \<Rightarrow> string \<Rightarrow> string \<Rightarrow> cluster_summary \<Rightarrow> nat \<Rightarrow>
    helm_world \<Rightarrow> dep_error + bool" where
  "isProfileFullyProcessed env profileName profileLabelKey clusterSummary expectedCount w =
     (case oe_chartManager env of
        Some e \<Rightarrow> Inl e
      | None \<Rightarrow>
          (case oe_List env (hw_Store w) [InNamespace (css_ClusterNamespace (cs_Spec clusterSummary)),
                  MatchingLabels [(profileLabelKey, profileName), (ClusterNameLabel, css_ClusterName (cs_Spec clusterSummary)),
                    (ClusterTypeLabel, cluster_type_text (css_ClusterType (cs_Spec clusterSummary)))]] of
             Inl err \<Rightarrow> Inl (api_err err)
           | Inr [] \<Rightarrow> Inr False
           | Inr (cs # _) \<Rightarrow>
               if oe_HasPaused env (om_Annotations (cs_Meta cs)) then Inr True
               else Inr (expectedCount \<le> GetRegisteredChartsCount cs (hw_Mgr w))))"

definition profile_processed :: "'e ownership_env_scheme \<Rightarrow> string \<Rightarrow> profile \<Rightarrow> string \<Rightarrow> cluster_summary \<Rightarrow>
    (string \<times> string) list \<Rightarrow> helm_world \<Rightarrow> dep_error + bool" where
  "profile_processed env profileLabelKey p ownerName clusterSummary clusterLabels w =
     (if om_Name (prof_Meta p) = ownerName \<or> slice (ps_HelmCharts (prof_Spec p)) = [] then Inr True
      else if om_DeletionTimestamp (prof_Meta p) \<noteq> None then Inr True
      else if (case om_DeletionTimestamp (cs_Meta clusterSummary) of
                 None \<Rightarrow> False | Some deletionTime \<Rightarrow> om_CreationTimestamp (prof_Meta p) > deletionTime) then Inr True
      else if \<not> selectorMatchesCluster (oe_toSelector env) (ps_ClusterSelector (prof_Spec p)) (ps_ClusterRefs (prof_Spec p))
                clusterSummary clusterLabels then Inr True
      else isProfileFullyProcessed env (om_Name (prof_Meta p)) profileLabelKey clusterSummary
             (length (slice (ps_HelmCharts (prof_Spec p)))) w)"

definition isClusterProfileProcessed :: "'e ownership_env_scheme \<Rightarrow> profile \<Rightarrow> string \<Rightarrow> cluster_summary \<Rightarrow>
    (string \<times> string) list \<Rightarrow> helm_world \<Rightarrow> dep_error + bool" where
  "isClusterProfileProcessed env = profile_processed env ClusterProfileLabelName"

definition isProfileProcessed :: "'e ownership_env_scheme \<Rightarrow> profile \<Rightarrow> string \<Rightarrow> cluster_summary \<Rightarrow>
    (string \<times> string) list \<Rightarrow> helm_world \<Rightarrow> dep_error + bool" where
  "isProfileProcessed env = profile_processed env ProfileLabelName"

text \<open>The loops stop at the first error and at the first profile that is not processed.\<close>

fun all_processed :: "(profile \<Rightarrow> dep_error + bool) \<Rightarrow> profile list \<Rightarrow> dep_error + bool" where
  "all_processed processed [] = Inr True"
| "all_processed processed (p # ps) =
     (case processed p of
        Inl e \<Rightarrow> Inl e
      | Inr False \<Rightarrow> Inr False
      | Inr True \<Rightarrow> all_processed processed ps)"

definition label_value :: "cluster_summary \<Rightarrow> string \<Rightarrow> string" where
  "label_value cs k = lookup_default [] (om_Labels (cs_Meta cs)) k"

definition allMatchingProfilesProcessed :: "'e ownership_env_scheme \<Rightarrow> cluster_summary \<Rightarrow> helm_world \<Rightarrow> dep_error + bool" where
  "allMatchingProfilesProcessed env clusterSummary w =
     (case oe_GetCluster env of
        Inl ApiNotFound \<Rightarrow> Inr True
      | Inl err \<Rightarrow> Inl (api_err err)
      | Inr (deleted, clusterLabels) \<Rightarrow>
          if deleted then Inr True
          else case oe_list_profiles env ClusterProfileKind of
            Inl err \<Rightarrow> Inl (api_err err)
          | Inr clusterProfiles \<Rightarrow>
              (case all_processed (\<lambda>cp. isClusterProfileProcessed env cp (label_value clusterSummary ClusterProfileLabelName)
                        clusterSummary clusterLabels w)
                      (filter (\<lambda>cp. ps_SyncMode (prof_Spec cp) \<noteq> SyncModeDryRun) clusterProfiles) of
                 Inl e \<Rightarrow> Inl e
               | Inr False \<Rightarrow> Inr False
               | Inr True \<Rightarrow>
                   (case oe_list_profiles env ProfileKind of
                      Inl err \<Rightarrow> Inl (api_err err)
                    | Inr profiles \<Rightarrow>
                        all_processed (\<lambda>p. isProfileProcessed env p (label_value clusterSummary ProfileLabelName)
                            clusterSummary clusterLabels w) profiles)))"

section \<open>May a release be uninstalled\<close>

text \<open>
  \<open>GetRegisteredClusterSummariesForChart\<close> returns the slice of the chart manager itself, and unregistering moves the last element of
  that slice over the removed one before shortening it. The caller's slice keeps its length and so reads the names with the
  removed one overwritten by the last.
\<close>

definition aliased_after_removal :: "string \<Rightarrow> string list \<Rightarrow> string list" where
  "aliased_after_removal name names =
     (case first_index ((=) name) names of None \<Rightarrow> names | Some i \<Rightarrow> names[i := last names])"

definition yield_registration :: "'e ownership_env_scheme \<Rightarrow> cluster_summary \<Rightarrow> helm_chart \<Rightarrow> string list \<Rightarrow> helm_world \<Rightarrow>
    dep_error option \<times> helm_world" where
  "yield_registration env clusterSummary chart registered w =
     requeueAllOtherClusterSummaries env (css_ClusterNamespace (cs_Spec clusterSummary))
       (aliased_after_removal (cs_Name clusterSummary) registered)
       (w\<lparr>hw_Mgr := UnregisterClusterSummaryForChart clusterSummary chart (hw_Mgr w)\<rparr>)"

definition wait_error :: "cluster_summary \<Rightarrow> dep_error" where
  "wait_error cs = \<lparr>err_Msg = ''waiting for other profiles to process charts for cluster '' @
     css_ClusterNamespace (cs_Spec cs) @ ''/'' @ css_ClusterName (cs_Spec cs), err_Chain = [WaitForProfileProcessingError]\<rparr>"

definition canUninstallHelmChart :: "'e ownership_env_scheme \<Rightarrow> cluster_summary \<Rightarrow> helm_chart \<Rightarrow> helm_world \<Rightarrow>
    (dep_error + bool) \<times> helm_world" where
  "canUninstallHelmChart env clusterSummary instantiatedChart w =
     (case oe_chartManager env of
        Some e \<Rightarrow> (Inl e, w)
      | None \<Rightarrow>
          (case determineChartOwnership env clusterSummary instantiatedChart w of
             (Inl e, w) \<Rightarrow> (Inl e, w)
           | (Inr False, w) \<Rightarrow> (Inr False, w)
           | (Inr True, w) \<Rightarrow>
               let registered = registered_for clusterSummary instantiatedChart w in
               if length registered > 1 then
                 (case yield_registration env clusterSummary instantiatedChart registered w of
                    (Some e, w) \<Rightarrow> (Inl e, w)
                  | (None, w) \<Rightarrow> (Inr False, w))
               else case allMatchingProfilesProcessed env clusterSummary w of
                 Inl e \<Rightarrow> (Inl e, w)
               | Inr False \<Rightarrow> (Inl (wait_error clusterSummary), w)
               | Inr True \<Rightarrow> (Inr True, w)))"

section \<open>What the calls leave alone\<close>

definition objects :: "helm_world \<Rightarrow> (object_meta \<times> cluster_summary_spec) list" where
  "objects w = map (\<lambda>cs. (cs_Meta cs, cs_Spec cs)) (hw_Store w)"

lemma objects_requests: "objects w' = objects w \<Longrightarrow> map request_of (hw_Store w') = map request_of (hw_Store w)"
proof -
  have "map request_of (hw_Store v) = map (\<lambda>(m, s). (om_Namespace m, om_Name m)) (objects v)" for v
    by (simp add: objects_def request_of_def)
  then show "objects w' = objects w \<Longrightarrow> ?thesis" by simp
qed

lemma helm_op_frame [simp]:
  "hw_Mgr (helm_op a w) = hw_Mgr w" "hw_Store (helm_op a w) = hw_Store w" "hw_Releases (helm_op a w) = hw_Releases w"
  "objects (helm_op a w) = objects w"
  by (simp_all add: helm_op_def objects_def)

lemma store_status_frame [simp]:
  "hw_Mgr (store_status cs w) = hw_Mgr w" "hw_Releases (store_status cs w) = hw_Releases w"
  "objects (store_status cs w) = objects w"
  by (simp_all add: store_status_def objects_def)

text \<open>Calls that change statuses only.\<close>

definition status_only :: "helm_world \<Rightarrow> helm_world \<Rightarrow> bool" where
  "status_only w w' \<longleftrightarrow> hw_Mgr w' = hw_Mgr w \<and> hw_Releases w' = hw_Releases w \<and> objects w' = objects w"

lemma status_only_refl [simp]: "status_only w w"
  by (simp add: status_only_def)

lemma status_only_trans: "status_only w v \<Longrightarrow> status_only v u \<Longrightarrow> status_only w u"
  by (simp add: status_only_def)

lemma update_status_frame: "update_status env i cs w = (r, w') \<Longrightarrow> status_only w w'"
  by (auto simp: update_status_def status_only_def split: option.splits if_splits)

definition in_progress :: "'e ownership_env_scheme \<Rightarrow> feature_id \<Rightarrow> cluster_summary \<Rightarrow> bool" where
  "in_progress env f cs \<longleftrightarrow> oe_IsInProgress env (css_ClusterNamespace (cs_Spec cs)) (css_ClusterName (cs_Spec cs))
     (cs_Name cs) f (css_ClusterType (cs_Spec cs))"

lemma requeue_eq:
  "requeueClusterSummary env f cs w =
     (if in_progress env f cs then (Some (plain_error ''profile with conflict is still in progress''), w)
      else update_status env 0 (SetFeatureStatus f FeatureStatusProvisioning None None cs)
             (helm_op (HDiscardResult (request_of cs)) w))"
  by (simp add: requeueClusterSummary_def in_progress_def Let_def)

lemma requeue_frame:
  assumes "requeueClusterSummary env f cs w = (r, w')"
  shows "status_only w w'"
  using assms by (auto simp: requeue_eq status_only_def split: if_splits dest!: update_status_frame)

lemma requeue_all_frame:
  "requeueAllOtherClusterSummaries env ns names w = (r, w') \<Longrightarrow> status_only w w'"
proof (induction names arbitrary: w)
  case (Cons name names)
  show ?case
  proof (cases "get_summary env 0 (ns, name) w")
    case (Inl e)
    with Cons show ?thesis by (auto split: if_splits)
  next
    case (Inr cs)
    obtain q v where q: "requeueClusterSummary env FeatureHelm cs w = (q, v)" by fastforce
    from requeue_frame [OF q] have v: "status_only w v" .
    show ?thesis
    proof (cases q)
      case None
      with Cons.prems Inr q have "requeueAllOtherClusterSummaries env ns names v = (r, w')" by simp
      from Cons.IH [OF this] v show ?thesis by (rule status_only_trans [rotated])
    qed (use Cons.prems Inr q v in simp)
  qed
qed simp

definition ownership_key :: "cluster_summary \<Rightarrow> helm_chart \<Rightarrow> string \<times> string" where
  "ownership_key cs chart = (cs_ClusterKey cs, chart_ReleaseKey chart)"

definition queue :: "cluster_summary \<Rightarrow> helm_chart \<Rightarrow> helm_world \<Rightarrow> string list" where
  "queue cs chart w = registrants (hw_Mgr w) (cs_ClusterKey cs) (chart_ReleaseKey chart)"

lemma registered_for_queue: "registered_for cs chart w = queue cs chart w"
  by (simp add: registered_for_def GetRegisteredClusterSummariesForChart_def queue_def cs_ClusterKey_def)

lemma CanManage_queue: "CanManageChart cs chart (hw_Mgr w) \<longleftrightarrow> queue cs chart w = [] \<or> hd (queue cs chart w) = cs_Name cs"
  by (auto simp: CanManageChart_iff manager_def queue_def split: list.splits)

lemma chart_manager_of_queue:
  "chart_manager_of cs chart w = Inr name \<longleftrightarrow> queue cs chart w \<noteq> [] \<and> hd (queue cs chart w) = name"
  by (auto simp: chart_manager_of_def GetManagerForChart_manager manager_Some_iff queue_def cs_ClusterKey_def
      neq_Nil_conv)

lemma take_over_cases:
  assumes "take_over env current claiming chart w = (r, w')"
  shows "hw_Releases w' = hw_Releases w \<and> objects w' = objects w \<and>
    (if r = Inr True then hw_Mgr w' = SetManagerForChart claiming chart (hw_Mgr w) else hw_Mgr w' = hw_Mgr w) \<and> r \<noteq> Inr False"
proof -
  obtain e v where v: "update_status env 0 (drop_summary chart current) w = (e, v)" by fastforce
  obtain q u where u: "requeueClusterSummary env FeatureHelm (drop_summary chart current) v = (q, u)" by fastforce
  show ?thesis
    using assms update_status_frame [OF v] requeue_frame [OF u]
    by (cases e; cases q) (auto simp: take_over_def resetHelmReleaseSummaries_def v u status_only_def objects_def)
qed

text \<open>A claim either leaves the world as it is or takes the chart over from its manager.\<close>

lemma ownership_cases:
  assumes "determineChartOwnership env cs chart w = (r, w')"
  shows "w' = w \<and> (r = Inr True \<longrightarrow> CanManageChart cs chart (hw_Mgr w) \<or> ps_SyncMode (cs_ProfileSpec cs) = SyncModeDryRun) \<or>
    (\<exists>current. \<not> CanManageChart cs chart (hw_Mgr w) \<and>
       get_summary env 0 (css_ClusterNamespace (cs_Spec cs), hd (queue cs chart w)) w = Inr current \<and>
       wins_ownership env current cs \<and> ps_SyncMode (cs_ProfileSpec cs) \<noteq> SyncModeDryRun \<and>
       take_over env current cs chart w = (r, w'))"
  using assms
  by (auto simp: determineChartOwnership_def chart_manager_of_queue split: option.splits if_splits sum.splits)

text \<open>The frame of an ownership claim: the releases of the cluster, the objects of the store and every other queue stay; a
  claim that is lost changes nothing and one that fails leaves the chart manager as it is.\<close>

lemma queue_other:
  "hw_Mgr w' = SetManagerForChart cs chart (hw_Mgr w) \<Longrightarrow> ownership_key cs' chart' \<noteq> ownership_key cs chart \<Longrightarrow>
     queue cs' chart' w' = queue cs' chart' w"
  by (auto simp: queue_def queue_simps ownership_key_def)

lemma queue_mgr: "hw_Mgr w' = hw_Mgr w \<Longrightarrow> queue cs chart w' = queue cs chart w"
  by (simp add: queue_def)

lemma ownership_frame:
  assumes "determineChartOwnership env cs chart w = (r, w')"
  shows "hw_Releases w' = hw_Releases w \<and> objects w' = objects w \<and>
    (\<forall>cs' chart'. ownership_key cs' chart' \<noteq> ownership_key cs chart \<longrightarrow> queue cs' chart' w' = queue cs' chart' w) \<and>
    (r = Inr False \<longrightarrow> w' = w) \<and> (r \<noteq> Inr True \<longrightarrow> hw_Mgr w' = hw_Mgr w)"
proof -
  from ownership_cases [OF assms] consider "w' = w" | current where "take_over env current cs chart w = (r, w')"
    by blast
  then show ?thesis
  proof cases
    case 2
    from take_over_cases [OF 2] show ?thesis by (metis queue_mgr queue_other)
  qed simp
qed

lemma queue_take_over:
  "hw_Mgr w' = SetManagerForChart cs chart (hw_Mgr w) \<Longrightarrow>
     queue cs chart w' = cs_Name cs # swap_remove_first ((=) (cs_Name cs)) (queue cs chart w)"
  by (simp add: queue_def queue_simps)

lemma ownership_managed:
  assumes "determineChartOwnership env cs chart w = (Inr True, w')" and "ps_SyncMode (cs_ProfileSpec cs) \<noteq> SyncModeDryRun"
  shows "CanManageChart cs chart (hw_Mgr w')"
proof -
  from ownership_cases [OF assms(1)] assms(2) consider "w' = w" "CanManageChart cs chart (hw_Mgr w)"
    | current where "take_over env current cs chart w = (Inr True, w')" by blast
  then show ?thesis
  proof cases
    case 2
    then have "hw_Mgr w' = SetManagerForChart cs chart (hw_Mgr w)" using take_over_cases by fastforce
    from queue_take_over [OF this] show ?thesis by (simp add: CanManage_queue)
  qed simp
qed

section \<open>The store after a handover\<close>

definition stored :: "helm_world \<Rightarrow> request \<Rightarrow> cluster_summary option" where
  "stored w req = List.find (\<lambda>cs. request_of cs = req) (hw_Store w)"

lemma find_map_same:
  "(\<And>x. p (g x) = p x) \<Longrightarrow> List.find p (map g xs) = map_option g (List.find p xs)"
  by (induction xs) auto

lemma stored_store_status:
  "stored (store_status cs w) req = map_option (\<lambda>x. if req = request_of cs then x\<lparr>cs_Status := cs_Status cs\<rparr> else x) (stored w req)"
proof -
  define g where "g = (\<lambda>x. if request_of x = request_of cs then x\<lparr>cs_Status := cs_Status cs\<rparr> else x)"
  have "stored (store_status cs w) req = map_option g (stored w req)"
    unfolding stored_def store_status_def using find_map_same [of "\<lambda>x. request_of x = req" g "hw_Store w"]
    by (simp add: g_def request_of_def)
  moreover have "request_of x = req" if "stored w req = Some x" for x
    using that by (auto simp: stored_def find_Some_iff)
  ultimately show ?thesis by (cases "stored w req") (auto simp: g_def)
qed

lemma stored_helm_op [simp]: "stored (helm_op a w) = stored w"
  by (intro ext) (simp add: stored_def)

lemma stored_mgr [simp]: "stored (w\<lparr>hw_Mgr := m\<rparr>) = stored w"
  by (intro ext) (simp add: stored_def)

lemma get_summary_stored: "oe_Get env i req = None \<Longrightarrow> get_summary env i req w = Inr cs \<longleftrightarrow> stored w req = Some cs"
  by (simp add: get_summary_def stored_def split: option.splits)

lemma update_status_ok:
  assumes "oe_StatusUpdate env i (request_of cs) = None" and "stored w (request_of cs) \<noteq> None"
  shows "update_status env i cs w = (None, store_status cs w)"
proof -
  have "list_ex (\<lambda>x. request_of x = request_of cs) (hw_Store w)"
    using assms(2) by (auto simp: stored_def find_None_iff list_ex_iff)
  with assms(1) show ?thesis by (simp add: update_status_def)
qed

lemma SetFeatureStatus_object:
  "cs_Meta (SetFeatureStatus f st h b cs) = cs_Meta cs" "cs_Spec (SetFeatureStatus f st h b cs) = cs_Spec cs"
  by (simp_all add: SetFeatureStatus_def with_features_def)

lemma drop_summary_object [simp]: "cs_Meta (drop_summary chart cs) = cs_Meta cs" "cs_Spec (drop_summary chart cs) = cs_Spec cs"
  by (simp_all add: drop_summary_def with_summaries_def)

lemma status_of_same_object:
  fixes a b :: cluster_summary
  shows "cs_Meta a = cs_Meta b \<Longrightarrow> cs_Spec a = cs_Spec b \<Longrightarrow> b\<lparr>cs_Status := cs_Status a\<rparr> = a"
  by (cases a; cases b) simp

text \<open>Nothing outside fails and nothing is being deployed; the tier comparison is the documented one.\<close>

definition quiet :: "'e ownership_env_scheme \<Rightarrow> bool" where
  "quiet env \<longleftrightarrow> oe_chartManager env = None \<and> (\<forall>i req. oe_Get env i req = None \<and> oe_StatusUpdate env i req = None) \<and>
     (\<forall>f cs. \<not> in_progress env f cs)"

lemma quietD:
  assumes "quiet env"
  shows "oe_chartManager env = None" "oe_Get env i req = None" "oe_StatusUpdate env i req = None" "\<not> in_progress env f cs"
  using assms unfolding quiet_def by blast+

definition lower_tier_first :: "'e ownership_env_scheme \<Rightarrow> bool" where
  "lower_tier_first env \<longleftrightarrow> (\<forall>current new. oe_HasHigherOwnershipPriority env current new \<longleftrightarrow> new < current)"

definition yielded :: "helm_chart \<Rightarrow> cluster_summary \<Rightarrow> cluster_summary" where
  "yielded chart cs = SetFeatureStatus FeatureHelm FeatureStatusProvisioning None None (drop_summary chart cs)"

lemma take_over_quiet:
  assumes "quiet env" and "stored w (request_of current) = Some current"
  shows "\<exists>w'. take_over env current claiming chart w = (Inr True, w') \<and>
    hw_Mgr w' = SetManagerForChart claiming chart (hw_Mgr w) \<and>
    (\<forall>req. stored w' req = (if req = request_of current then Some (yielded chart current) else stored w req))"
proof -
  define c where "c = drop_summary chart current"
  define w1 where "w1 = store_status c w"
  define w2 where "w2 = store_status (yielded chart current) (helm_op (HDiscardResult (request_of current)) w1)"
  have rc: "request_of c = request_of current" "request_of (yielded chart current) = request_of current"
    by (simp_all add: request_of_def c_def yielded_def SetFeatureStatus_object)
  have u1: "update_status env 0 c w = (None, w1)"
    using update_status_ok [of env 0 c w] assms rc by (simp add: quietD w1_def)
  have s1: "stored w1 req = (if req = request_of current then Some c else stored w req)" for req
    using assms(2) rc status_of_same_object [of c current]
    by (cases "stored w req") (auto simp: w1_def stored_store_status c_def)
  have u2: "requeueClusterSummary env FeatureHelm c w1 = (None, w2)"
    using update_status_ok [of env 0 "yielded chart current" "helm_op (HDiscardResult (request_of current)) w1"] assms(1) rc s1
    by (simp add: quietD w2_def requeue_eq yielded_def c_def)
  have s2: "stored w2 req = (if req = request_of current then Some (yielded chart current) else stored w req)" for req
    using rc s1 status_of_same_object [of "yielded chart current" c]
    by (cases "stored w req") (auto simp: w2_def stored_store_status yielded_def SetFeatureStatus_object c_def)
  have m: "hw_Mgr w2 = hw_Mgr w" by (simp add: w2_def w1_def)
  show ?thesis
    using u1 u2 s2 m by (simp add: take_over_def resetHelmReleaseSummaries_def Let_def c_def [symmetric])
qed

section \<open>Who ends up with the chart\<close>

lemma ownership_claim:
  assumes "quiet env" and "queue cs chart w = name # rest" and "name \<noteq> cs_Name cs"
    and "stored w (css_ClusterNamespace (cs_Spec cs), name) = Some current"
    and "ps_SyncMode (cs_ProfileSpec cs) \<noteq> SyncModeDryRun"
  shows "determineChartOwnership env cs chart w =
    (if wins_ownership env current cs then take_over env current cs chart w else (Inr False, w))"
proof -
  have "\<not> CanManageChart cs chart (hw_Mgr w)" using assms(2,3) by (simp add: CanManage_queue)
  moreover have "chart_manager_of cs chart w = Inr name" using assms(2) by (simp add: chart_manager_of_queue)
  moreover have "get_summary env 0 (css_ClusterNamespace (cs_Spec cs), name) w = Inr current"
    using get_summary_stored [OF quietD(2) [OF assms(1)]] assms(4) by simp
  ultimately show ?thesis using assms(1,5) by (simp add: determineChartOwnership_def quietD)
qed

text \<open>Two ClusterSummaries of the same cluster that want the same release: \<open>a\<close> manages it, \<open>b\<close> claims it.\<close>

definition rivals :: "'e ownership_env_scheme \<Rightarrow> cluster_summary \<Rightarrow> cluster_summary \<Rightarrow> helm_chart \<Rightarrow> helm_world \<Rightarrow> bool" where
  "rivals env a b chart w \<longleftrightarrow> quiet env \<and> lower_tier_first env \<and> cs_Name a \<noteq> cs_Name b \<and> cs_ClusterKey a = cs_ClusterKey b \<and>
     (\<forall>c \<in> {a, b}. cs_Namespace c = css_ClusterNamespace (cs_Spec c) \<and> css_ClusterNamespace (cs_Spec c) = cs_Namespace a \<and>
        stored w (request_of c) = Some c \<and> ps_SyncMode (cs_ProfileSpec c) \<noteq> SyncModeDryRun) \<and>
     queue a chart w \<noteq> [] \<and> hd (queue a chart w) = cs_Name a"

lemma rivalsD:
  assumes "rivals env a b chart w"
  shows "quiet env" "lower_tier_first env" "cs_Name a \<noteq> cs_Name b" "cs_ClusterKey a = cs_ClusterKey b"
    "css_ClusterNamespace (cs_Spec a) = cs_Namespace a" "css_ClusterNamespace (cs_Spec b) = cs_Namespace a"
    "cs_Namespace b = cs_Namespace a"
    "stored w (request_of a) = Some a" "stored w (request_of b) = Some b"
    "ps_SyncMode (cs_ProfileSpec a) \<noteq> SyncModeDryRun" "ps_SyncMode (cs_ProfileSpec b) \<noteq> SyncModeDryRun"
    "queue a chart w \<noteq> []" "hd (queue a chart w) = cs_Name a"
proof -
  note r = assms [unfolded rivals_def ball_simps]
  show "quiet env" "lower_tier_first env" "cs_Name a \<noteq> cs_Name b" "cs_ClusterKey a = cs_ClusterKey b"
    "stored w (request_of a) = Some a" "stored w (request_of b) = Some b"
    "ps_SyncMode (cs_ProfileSpec a) \<noteq> SyncModeDryRun" "ps_SyncMode (cs_ProfileSpec b) \<noteq> SyncModeDryRun"
    "queue a chart w \<noteq> []" "hd (queue a chart w) = cs_Name a"
    "css_ClusterNamespace (cs_Spec a) = cs_Namespace a" "css_ClusterNamespace (cs_Spec b) = cs_Namespace a"
    using r by blast+
  have "cs_Namespace b = css_ClusterNamespace (cs_Spec b)" using r by blast
  also have "\<dots> = cs_Namespace a" using r by blast
  finally show "cs_Namespace b = cs_Namespace a" .
qed

lemma rival_wins:
  assumes "rivals env a b chart w" and "wins_ownership env a b"
  shows "\<exists>w1 rest. determineChartOwnership env b chart w = (Inr True, w1) \<and> queue b chart w1 = cs_Name b # rest \<and>
    (\<forall>req. stored w1 req = (if req = request_of a then Some (yielded chart a) else stored w req))"
proof -
  note r = rivalsD [OF assms(1)]
  have same: "queue b chart w = queue a chart w" by (simp add: r(4) queue_def)
  then obtain rest where q: "queue b chart w = cs_Name a # rest"
    using r(12,13) by (cases "queue a chart w") simp_all
  have st: "stored w (css_ClusterNamespace (cs_Spec b), cs_Name a) = Some a"
    using r(8) by (simp only: r(6) request_of_def)
  obtain w1 where w1: "take_over env a b chart w = (Inr True, w1)" "hw_Mgr w1 = SetManagerForChart b chart (hw_Mgr w)"
    "\<forall>req. stored w1 req = (if req = request_of a then Some (yielded chart a) else stored w req)"
    using take_over_quiet [OF r(1) r(8)] by blast
  have "determineChartOwnership env b chart w = (Inr True, w1)"
    using ownership_claim [OF r(1) q r(3) st r(11)] assms(2) w1(1) by simp
  then show ?thesis using w1 queue_take_over [OF w1(2)] by blast
qed

text \<open>After the handover the loser claims: the comparison goes between the winner as stored and the loser.\<close>

lemma rival_claims_back:
  assumes "rivals env a b chart w" and "wins_ownership env a b"
  shows "\<exists>w1. determineChartOwnership env b chart w = (Inr True, w1) \<and> hd (queue b chart w1) = cs_Name b \<and>
    (if wins_ownership env b a
     then \<exists>w2 rest. determineChartOwnership env a chart w1 = (Inr True, w2) \<and> queue a chart w2 = cs_Name a # rest
     else determineChartOwnership env a chart w1 = (Inr False, w1))"
proof -
  obtain w1 rest where w1: "determineChartOwnership env b chart w = (Inr True, w1)" "queue b chart w1 = cs_Name b # rest"
    "\<forall>req. stored w1 req = (if req = request_of a then Some (yielded chart a) else stored w req)"
    using rival_wins [OF assms] by blast
  note r = rivalsD [OF assms(1)]
  have q: "queue a chart w1 = cs_Name b # rest" using w1(2) by (simp add: r(4) queue_def)
  have key: "(css_ClusterNamespace (cs_Spec a), cs_Name b) = request_of b" "request_of b \<noteq> request_of a"
    using r(3) by (simp_all add: r(5,7) request_of_def)
  have sb: "stored w1 (request_of b) = Some b" using w1(3) [THEN spec, of "request_of b"] key(2) r(9) by simp
  have claim: "determineChartOwnership env a chart w1 =
      (if wins_ownership env b a then take_over env b a chart w1 else (Inr False, w1))"
    by (rule ownership_claim [OF r(1) q r(3) [symmetric] _ r(10)]) (simp only: key sb)
  show ?thesis
  proof (cases "wins_ownership env b a")
    case True
    obtain w2 where w2: "take_over env b a chart w1 = (Inr True, w2)" "hw_Mgr w2 = SetManagerForChart a chart (hw_Mgr w1)"
      using take_over_quiet [OF r(1) sb] by blast
    show ?thesis using w1 claim True w2 queue_take_over [OF w2(2)] by simp
  next
    case False
    then show ?thesis using w1 claim by simp
  qed
qed

text \<open>C17. A chart that is taken over by a lower tier stays with the winner: the ClusterSummary with the lower tier becomes the
  manager and the claim of the former manager is refused, unless that one declares a transition.\<close>

theorem lower_tier_keeps_chart:
  assumes "rivals env a b chart w" and "cs_Tier b < cs_Tier a" and "\<not> isChartTransitioningFrom (oe_group_of env) b a"
  shows "\<exists>w1. determineChartOwnership env b chart w = (Inr True, w1) \<and> hd (queue b chart w1) = cs_Name b \<and>
    determineChartOwnership env a chart w1 = (Inr False, w1)"
proof -
  have "lower_tier_first env" by (rule rivalsD [OF assms(1)])
  then have "wins_ownership env a b" "\<not> wins_ownership env b a"
    using assms(2,3) by (auto simp: wins_ownership_def lower_tier_first_def)
  then show ?thesis using rival_claims_back [OF assms(1)] by auto
qed

text \<open>A transition to a profile of a higher tier does not last: the successor takes the chart from the profile it replaces, which
  takes it back with its next claim because the tier comparison does not know of the transition.\<close>

theorem transition_undone_by_tier:
  assumes "rivals env a b chart w" and "isChartTransitioningFrom (oe_group_of env) a b" and "cs_Tier a < cs_Tier b"
  shows "\<exists>w1 w2. determineChartOwnership env b chart w = (Inr True, w1) \<and> hd (queue b chart w1) = cs_Name b \<and>
    determineChartOwnership env a chart w1 = (Inr True, w2) \<and> hd (queue a chart w2) = cs_Name a"
proof -
  have "lower_tier_first env" by (rule rivalsD [OF assms(1)])
  then have "wins_ownership env a b" "wins_ownership env b a"
    using assms(2,3) by (auto simp: wins_ownership_def lower_tier_first_def)
  then show ?thesis using rival_claims_back [OF assms(1)] by fastforce
qed

section \<open>Yielding a chart on removal\<close>

definition requeued :: "cluster_summary \<Rightarrow> cluster_summary" where
  "requeued cs = SetFeatureStatus FeatureHelm FeatureStatusProvisioning None None cs"

lemma requeued_object [simp]: "cs_Meta (requeued cs) = cs_Meta cs" "cs_Spec (requeued cs) = cs_Spec cs"
  "request_of (requeued cs) = request_of cs"
  by (simp_all add: requeued_def SetFeatureStatus_object request_of_def)

lemma requeued_idem [simp]: "requeued (requeued cs) = requeued cs"
proof -
  define g :: "feature_summary \<Rightarrow> feature_summary" where
    "g = (\<lambda>s. s\<lparr>fs_Status := Some FeatureStatusProvisioning, fs_Hash := None\<rparr>)"
  define i where "i = (zero_feature_summary FeatureHelm)\<lparr>fs_Status := Some FeatureStatusProvisioning, fs_Hash := None,
    fs_ConsecutiveFailures := 0\<rparr>"
  have r: "requeued c = with_features (upsert_feature FeatureHelm g i) c" for c
    by (simp add: requeued_def SetFeatureStatus_def g_def i_def Let_def cong: if_cong)
  have g: "g i = i" "fs_FeatureID i = FeatureHelm" "g (g s) = g s" "fs_FeatureID (g s) = fs_FeatureID s" for s
    by (simp_all add: g_def i_def zero_feature_summary_def)
  have "upsert_feature FeatureHelm g i (upsert_feature FeatureHelm g i xs) = upsert_feature FeatureHelm g i xs" for xs
    using g
    by (induction xs) (auto simp: upsert_feature_def)
  then show ?thesis by (simp add: r with_features_def)
qed

text \<open>Requeueing a list of names moves exactly the stored ClusterSummaries of these names back to provisioning.\<close>

lemma requeue_quiet:
  assumes "quiet env" and "stored w (request_of cs) = Some cs"
  shows "\<exists>w'. requeueClusterSummary env FeatureHelm cs w = (None, w') \<and> hw_Mgr w' = hw_Mgr w \<and>
    (\<forall>req. stored w' req = (if req = request_of cs then Some (requeued cs) else stored w req))"
proof -
  define w' where "w' = store_status (requeued cs) (helm_op (HDiscardResult (request_of cs)) w)"
  have "requeueClusterSummary env FeatureHelm cs w = (None, w')"
    using update_status_ok [of env 0 "requeued cs" "helm_op (HDiscardResult (request_of cs)) w"] assms
    by (simp add: requeue_eq quietD w'_def requeued_def [symmetric])
  moreover have "stored w' req = (if req = request_of cs then Some (requeued cs) else stored w req)" for req
    using assms(2) status_of_same_object [of "requeued cs" cs]
    by (cases "stored w req") (auto simp: w'_def stored_store_status)
  ultimately show ?thesis by (simp add: w'_def)
qed

definition requeued_in :: "string \<Rightarrow> string list \<Rightarrow> helm_world \<Rightarrow> request \<Rightarrow> cluster_summary option" where
  "requeued_in ns names w req =
     (if fst req = ns \<and> snd req \<in> set names then map_option requeued (stored w req) else stored w req)"

lemma stored_request: "stored w req = Some cs \<Longrightarrow> request_of cs = req"
  by (auto simp: stored_def find_Some_iff)

lemma requeue_all_quiet:
  assumes "quiet env"
  shows "\<exists>w'. requeueAllOtherClusterSummaries env ns names w = (None, w') \<and> hw_Mgr w' = hw_Mgr w \<and>
    (\<forall>req. stored w' req = requeued_in ns names w req)"
proof (induction names arbitrary: w)
  case (Cons name names)
  show ?case
  proof (cases "stored w (ns, name)")
    case None
    then have "get_summary env 0 (ns, name) w = Inl (api_err ApiNotFound)"
      using quietD(2) [OF assms] by (simp add: get_summary_def stored_def)
    then have "requeueAllOtherClusterSummaries env ns (name # names) w = requeueAllOtherClusterSummaries env ns names w"
      by (simp add: api_err_def errors_As_def)
    moreover have "requeued_in ns (name # names) w req = requeued_in ns names w req" for req
      using None by (cases req) (auto simp: requeued_in_def)
    ultimately show ?thesis using Cons.IH [of w] by simp
  next
    case (Some cs)
    have rc: "request_of cs = (ns, name)" using Some by (rule stored_request)
    obtain v where v: "requeueClusterSummary env FeatureHelm cs w = (None, v)" "hw_Mgr v = hw_Mgr w"
      "\<forall>req. stored v req = (if req = request_of cs then Some (requeued cs) else stored w req)"
      using requeue_quiet [OF assms, of w cs] Some rc by auto
    obtain w' where w': "requeueAllOtherClusterSummaries env ns names v = (None, w')" "hw_Mgr w' = hw_Mgr v"
      "\<forall>req. stored w' req = requeued_in ns names v req" using Cons.IH [of v] by blast
    have "get_summary env 0 (ns, name) w = Inr cs" using get_summary_stored [OF quietD(2) [OF assms]] Some by simp
    then have "requeueAllOtherClusterSummaries env ns (name # names) w = (None, w')" using v(1) w'(1) by simp
    moreover have "stored w' req = requeued_in ns (name # names) w req" for req
      using w'(3) [rule_format, of req] v(3) [rule_format, of req] Some rc by (cases req) (auto simp: requeued_in_def)
    ultimately show ?thesis using w'(2) v(2) by auto
  qed
qed (simp add: requeued_in_def)

lemma aliased_head: "ys \<noteq> [] \<Longrightarrow> set (aliased_after_removal x (x # ys)) = set ys"
  by (auto simp: aliased_after_removal_def)

text \<open>C19. On removal a chart that others want is handed over, not uninstalled: the ClusterSummary leaves the queue, the last one in
  line becomes the manager, and exactly the others are sent back to provisioning, the leaving one is not. That it is not depends on
  the slice the chart manager shares with the caller. The synchronisation mode plays no part: a dry run hands over as well.\<close>

theorem removal_yields_to_others:
  assumes "quiet env" and "queue cs chart w = cs_Name cs # others" and "others \<noteq> []"
  shows "\<exists>w'. canUninstallHelmChart env cs chart w = (Inr False, w') \<and> queue cs chart w' = last others # butlast others \<and>
    (\<forall>req. stored w' req = requeued_in (css_ClusterNamespace (cs_Spec cs)) others w req)"
proof -
  define v where "v = w\<lparr>hw_Mgr := UnregisterClusterSummaryForChart cs chart (hw_Mgr w)\<rparr>"
  define names where "names = aliased_after_removal (cs_Name cs) (cs_Name cs # others)"
  have names: "set names = set others" unfolding names_def by (rule aliased_head [OF assms(3)])
  obtain w' where w': "requeueAllOtherClusterSummaries env (css_ClusterNamespace (cs_Spec cs)) names v = (None, w')"
    "hw_Mgr w' = hw_Mgr v" "\<forall>req. stored w' req = requeued_in (css_ClusterNamespace (cs_Spec cs)) names v req"
    using requeue_all_quiet [OF assms(1)] by blast
  have det: "determineChartOwnership env cs chart w = (Inr True, w)"
    using assms(1,2) by (simp add: determineChartOwnership_def CanManage_queue quietD)
  have "1 < length (queue cs chart w)" using assms(2,3) by (cases others) simp_all
  then have "canUninstallHelmChart env cs chart w = (Inr False, w')"
    using w'(1) by (simp add: canUninstallHelmChart_def det registered_for_queue yield_registration_def assms(1,2) quietD
        flip: v_def names_def)
  moreover have "queue cs chart w' = last others # butlast others"
    using w'(2) assms(2,3) by (simp add: v_def queue_def queue_simps swap_remove_head)
  moreover have "requeued_in ns names v req = requeued_in ns others w req" for ns req
    using names by (simp add: requeued_in_def v_def)
  ultimately show ?thesis using w'(3) by auto
qed

lemma all_processed_iff: "all_processed f ps = Inr True \<longleftrightarrow> (\<forall>p \<in> set ps. f p = Inr True)"
  by (induction ps) (auto split: sum.splits bool.splits)

lemma canUninstall_true:
  assumes "canUninstallHelmChart env cs chart w = (Inr True, w')"
  shows "determineChartOwnership env cs chart w = (Inr True, w') \<and> length (queue cs chart w') \<le> 1 \<and>
    allMatchingProfilesProcessed env cs w' = Inr True"
  using assms
  by (auto simp: canUninstallHelmChart_def registered_for_queue Let_def split: option.splits prod.splits sum.splits
      bool.splits if_splits)

lemma fully_processed_true:
  assumes "isProfileFullyProcessed env name k cs n w = Inr True" and "summary_store (oe_List env)"
  shows "\<exists>c \<in> set (hw_Store w). map_of (om_Labels (cs_Meta c)) k = Some name \<and>
    (oe_HasPaused env (om_Annotations (cs_Meta c)) \<or> n \<le> GetRegisteredChartsCount c (hw_Mgr w))"
proof -
  define opts where "opts = [InNamespace (css_ClusterNamespace (cs_Spec cs)),
    MatchingLabels [(k, name), (ClusterNameLabel, css_ClusterName (cs_Spec cs)),
      (ClusterTypeLabel, cluster_type_text (css_ClusterType (cs_Spec cs)))]]"
  obtain c rest where c: "oe_List env (hw_Store w) opts = Inr (c # rest)"
    "oe_HasPaused env (om_Annotations (cs_Meta c)) \<or> n \<le> GetRegisteredChartsCount c (hw_Mgr w)"
    using assms(1) by (auto simp: isProfileFullyProcessed_def opts_def split: option.splits sum.splits list.splits if_splits)
  have "c # rest = filter (\<lambda>cs. list_all (\<lambda>opt. option_matches opt cs) opts) (hw_Store w)"
    using c(1) summary_store.answer [OF assms(2), of "hw_Store w" opts] by simp
  then have "c \<in> set (filter (\<lambda>cs. list_all (\<lambda>opt. option_matches opt cs) opts) (hw_Store w))"
    by (metis list.set_intros(1))
  then have "c \<in> set (hw_Store w)" "map_of (om_Labels (cs_Meta c)) k = Some name"
    by (auto simp: opts_def option_matches_def)
  then show ?thesis using c(2) by blast
qed


text \<open>A profile of another namespace blocks an uninstall: profiles are listed in all namespaces and their own namespace is never
  compared with the cluster's, so one whose selector matches is waited for although it never gets a ClusterSummary there.\<close>

theorem foreign_profile_blocks_uninstall:
  assumes "summary_store (oe_List env)" and "oe_GetCluster env = Inr (False, labels)"
    and "oe_list_profiles env ProfileKind = Inr ps" and "p \<in> set ps"
    and "om_Namespace (prof_Meta p) \<noteq> css_ClusterNamespace (cs_Spec cs)"
    and "om_Name (prof_Meta p) \<noteq> label_value cs ProfileLabelName"
    and "slice (ps_HelmCharts (prof_Spec p)) \<noteq> []" and "om_DeletionTimestamp (prof_Meta p) = None"
    and "om_DeletionTimestamp (cs_Meta cs) = Some t" and "om_CreationTimestamp (prof_Meta p) \<le> t"
    and "selectorMatchesCluster (oe_toSelector env) (ps_ClusterSelector (prof_Spec p)) (ps_ClusterRefs (prof_Spec p)) cs labels"
    and "\<forall>c \<in> set (hw_Store w). map_of (om_Labels (cs_Meta c)) ProfileLabelName \<noteq> Some (om_Name (prof_Meta p))"
  shows "allMatchingProfilesProcessed env cs w \<noteq> Inr True"
proof
  assume "allMatchingProfilesProcessed env cs w = Inr True"
  then have "all_processed (\<lambda>p. isProfileProcessed env p (label_value cs ProfileLabelName) cs labels w) ps = Inr True"
    using assms(2,3) by (auto simp: allMatchingProfilesProcessed_def split: sum.splits bool.splits)
  then have "isProfileProcessed env p (label_value cs ProfileLabelName) cs labels w = Inr True"
    using assms(4) by (simp add: all_processed_iff)
  then have "isProfileFullyProcessed env (om_Name (prof_Meta p)) ProfileLabelName cs
      (length (slice (ps_HelmCharts (prof_Spec p)))) w = Inr True"
    using assms(6-11) by (simp add: isProfileProcessed_def profile_processed_def)
  from fully_processed_true [OF this assms(1)] assms(12) show False by blast
qed

text \<open>A takeover that fails half way forgets the manager: while the manager is being deployed the claim is refused with an error and the
  chart manager keeps it, but its status no longer lists the release, and the status is what a restart rebuilds the chart
  manager from.\<close>

theorem failed_takeover_forgets_manager:
  assumes "oe_chartManager env = None" and "\<forall>i req. oe_Get env i req = None \<and> oe_StatusUpdate env i req = None"
    and "in_progress env FeatureHelm a" and "queue b chart w = cs_Name a # rest" and "cs_Name a \<noteq> cs_Name b"
    and "stored w (css_ClusterNamespace (cs_Spec b), cs_Name a) = Some a"
    and "ps_SyncMode (cs_ProfileSpec b) \<noteq> SyncModeDryRun" and "wins_ownership env a b"
  shows "\<exists>e w'. determineChartOwnership env b chart w = (Inl e, w') \<and> queue b chart w' = cs_Name a # rest \<and>
    stored w' (request_of a) = Some (drop_summary chart a)"
proof -
  define c where "c = drop_summary chart a"
  define e where "e = plain_error ''profile with conflict is still in progress''"
  have ra: "request_of a = (css_ClusterNamespace (cs_Spec b), cs_Name a)" using assms(6) by (rule stored_request)
  then have sa: "stored w (request_of a) = Some a" using assms(6) by simp
  have rc: "request_of c = request_of a" by (simp add: c_def request_of_def)
  have up: "update_status env 0 c w = (None, store_status c w)"
    using assms(2) [rule_format, of 0 "request_of a"] rc sa by (intro update_status_ok) simp_all
  have rq: "requeueClusterSummary env FeatureHelm c (store_status c w) = (Some e, store_status c w)"
    using assms(3) by (simp add: requeue_eq in_progress_def c_def e_def)
  have "take_over env a b chart w = (Inl e, store_status c w)"
    using up rq by (simp add: take_over_def resetHelmReleaseSummaries_def c_def [symmetric])
  moreover have "\<not> CanManageChart b chart (hw_Mgr w)" using assms(4,5) by (simp add: CanManage_queue)
  moreover have "chart_manager_of b chart w = Inr (cs_Name a)" using assms(4) by (simp add: chart_manager_of_queue)
  moreover have "get_summary env 0 (css_ClusterNamespace (cs_Spec b), cs_Name a) w = Inr a"
    using assms(2,6) by (simp add: get_summary_stored)
  ultimately have "determineChartOwnership env b chart w = (Inl e, store_status c w)"
    using assms(1,7,8) by (simp add: determineChartOwnership_def)
  moreover have "queue b chart (store_status c w) = cs_Name a # rest" using assms(4) by (simp add: queue_def)
  moreover have "stored (store_status c w) (request_of a) = Some c"
    using sa rc status_of_same_object [of c a] by (simp add: stored_store_status c_def)
  ultimately show ?thesis by (auto simp: c_def)
qed

section \<open>Samples\<close>

definition sample_claimant :: "string \<Rightarrow> int \<Rightarrow> string list \<Rightarrow> cluster_summary" where
  "sample_claimant n tier from = zero_cluster_summary
     \<lparr>cs_Meta := zero_object_meta\<lparr>om_Name := n, om_Namespace := ''ns'',
        om_OwnerReferences := [\<lparr>own_APIVersion = ''v'', own_Kind = ClusterProfileKind, own_Name = n, own_UID = []\<rparr>],
        om_Labels := [(ClusterProfileLabelName, n), (ClusterNameLabel, ''c''), (ClusterTypeLabel, ''Capi'')],
        om_DeletionTimestamp := Some 9\<rparr>,
      cs_Spec := \<lparr>css_ClusterNamespace = ''ns'', css_ClusterName = ''c'', css_ClusterType = ClusterTypeCapi,
        css_ClusterProfileSpec = zero_profile_spec\<lparr>ps_HelmCharts := Some [sample_chart ''r''], ps_Tier := tier,
          ps_TransitionFrom := from\<rparr>\<rparr>\<rparr>"

definition sample_wanting_profile :: "string \<Rightarrow> string \<Rightarrow> profile" where
  "sample_wanting_profile kind n = \<lparr>prof_Kind = kind, prof_Meta = zero_object_meta\<lparr>om_Name := n, om_Namespace := ''other''\<rparr>,
     prof_Spec = zero_profile_spec\<lparr>ps_HelmCharts := Some [sample_chart ''r''], ps_ClusterRefs :=
       [\<lparr>ref_Kind = ''Cluster'', ref_Namespace = ''ns'', ref_Name = ''c'', ref_APIVersion = []\<rparr>]\<rparr>,
     prof_Status = \<lparr>pst_MatchingClusterRefs = [], pst_UpdatingClusters = \<lparr>cl_Hash = None, cl_Clusters = []\<rparr>,
       pst_UpdatedClusters = \<lparr>cl_Hash = None, cl_Clusters = []\<rparr>, pst_FailedClusters = [], pst_DependenciesHash = None,
       pst_ReconciliationSuspended = False, pst_SuspensionReason = None\<rparr>\<rparr>"

definition sample_ownership_env :: "string list \<Rightarrow> profile list \<Rightarrow> profile list \<Rightarrow> ownership_env" where
  "sample_ownership_env busy cps ps = \<lparr>oe_chartManager = None, oe_Get = (\<lambda>_ _. None), oe_StatusUpdate = (\<lambda>_ _. None),
     oe_List = list_store, oe_IsInProgress = (\<lambda>_ _ n _ _. n \<in> set busy), oe_group_of = (\<lambda>_. Some config_group),
     oe_HasHigherOwnershipPriority = (\<lambda>current new. new < current), oe_GetCluster = Inr (False, []),
     oe_list_profiles = (\<lambda>kind. Inr (if kind = ClusterProfileKind then cps else ps)),
     oe_toSelector = (\<lambda>_. None), oe_HasPaused = (\<lambda>_. False)\<rparr>"

definition sample_world :: "cluster_summary list \<Rightarrow> helm_world" where
  "sample_world css = \<lparr>hw_Mgr = fold RegisterClusterSummaryForCharts css new_chart_manager, hw_Store = css,
     hw_Releases = [], hw_Ops = []\<rparr>"

lemma sample_env_quiet: "quiet (sample_ownership_env [] cps ps)" "lower_tier_first (sample_ownership_env busy cps ps)"
  by (auto simp: quiet_def sample_ownership_env_def in_progress_def lower_tier_first_def)

lemma sample_rivals:
  assumes "a = sample_claimant ''a'' t from" and "b = sample_claimant ''b'' t' from'"
  shows "rivals (sample_ownership_env [] cps ps) a b (sample_chart ''r'') (sample_world [a, b])"
proof -
  have "queue a (sample_chart ''r'') (sample_world [a, b]) = [''a'', ''b'']"
    unfolding queue_def sample_world_def
    by (simp add: queue_simps enqueue_def assms sample_claimant_def cs_ClusterKey_def)
  then show ?thesis
    by (auto simp: rivals_def sample_env_quiet assms sample_claimant_def zero_defs cs_ClusterKey_def stored_def
        sample_world_def request_of_def)
qed

section \<open>Witnesses\<close>

theorem lower_tier_keeps_chart_witness:
  "\<exists>w1. determineChartOwnership (sample_ownership_env [] [] []) (sample_claimant ''b'' 10 []) (sample_chart ''r'')
       (sample_world [sample_claimant ''a'' 100 [], sample_claimant ''b'' 10 []]) = (Inr True, w1) \<and>
     hd (queue (sample_claimant ''b'' 10 []) (sample_chart ''r'') w1) = cs_Name (sample_claimant ''b'' 10 []) \<and>
     determineChartOwnership (sample_ownership_env [] [] []) (sample_claimant ''a'' 100 []) (sample_chart ''r'') w1 = (Inr False, w1)"
proof -
  have t: "cs_Tier (sample_claimant ''b'' 10 []) < cs_Tier (sample_claimant ''a'' 100 [])" by code_simp
  have f: "\<not> isChartTransitioningFrom (oe_group_of (sample_ownership_env [] [] [])) (sample_claimant ''b'' 10 [])
      (sample_claimant ''a'' 100 [])" by code_simp
  show ?thesis by (rule lower_tier_keeps_chart [OF sample_rivals [OF refl refl] t f])
qed

theorem transition_undone_by_tier_witness:
  "\<exists>w1 w2. determineChartOwnership (sample_ownership_env [] [] []) (sample_claimant ''b'' 100 [''a'']) (sample_chart ''r'')
       (sample_world [sample_claimant ''a'' 10 [], sample_claimant ''b'' 100 [''a'']]) = (Inr True, w1) \<and>
     hd (queue (sample_claimant ''b'' 100 [''a'']) (sample_chart ''r'') w1) = cs_Name (sample_claimant ''b'' 100 [''a'']) \<and>
     determineChartOwnership (sample_ownership_env [] [] []) (sample_claimant ''a'' 10 []) (sample_chart ''r'') w1 = (Inr True, w2) \<and>
     hd (queue (sample_claimant ''a'' 10 []) (sample_chart ''r'') w2) = cs_Name (sample_claimant ''a'' 10 [])"
proof -
  have t: "cs_Tier (sample_claimant ''a'' 10 []) < cs_Tier (sample_claimant ''b'' 100 [''a''])" by code_simp
  have f: "isChartTransitioningFrom (oe_group_of (sample_ownership_env [] [] [])) (sample_claimant ''a'' 10 [])
      (sample_claimant ''b'' 100 [''a''])" by code_simp
  show ?thesis by (rule transition_undone_by_tier [OF sample_rivals [OF refl refl] f t])
qed

theorem removal_yields_to_others_witness:
  "\<exists>w'. canUninstallHelmChart (sample_ownership_env [] [] []) (sample_claimant ''a'' 1 []) (sample_chart ''r'')
       (sample_world [sample_claimant ''a'' 1 [], sample_claimant ''b'' 2 [], sample_claimant ''c'' 3 []]) = (Inr False, w') \<and>
     queue (sample_claimant ''a'' 1 []) (sample_chart ''r'') w' = last [''b'', ''c''] # butlast [''b'', ''c''] \<and>
     (\<forall>req. stored w' req = requeued_in (css_ClusterNamespace (cs_Spec (sample_claimant ''a'' 1 []))) [''b'', ''c'']
        (sample_world [sample_claimant ''a'' 1 [], sample_claimant ''b'' 2 [], sample_claimant ''c'' 3 []]) req)"
proof -
  have q: "queue (sample_claimant ''a'' 1 []) (sample_chart ''r'')
      (sample_world [sample_claimant ''a'' 1 [], sample_claimant ''b'' 2 [], sample_claimant ''c'' 3 []]) =
      cs_Name (sample_claimant ''a'' 1 []) # [''b'', ''c'']" by code_simp
  show ?thesis by (rule removal_yields_to_others [OF sample_env_quiet(1) q]) simp
qed

lemma list_store_law: "summary_store (oe_List (sample_ownership_env busy cps ps))"
  by (simp add: sample_ownership_env_def list_summary_store.summary_store_axioms)


theorem foreign_profile_blocks_uninstall_witness:
  "allMatchingProfilesProcessed (sample_ownership_env [] [] [sample_wanting_profile ProfileKind ''q'']) (sample_claimant ''a'' 1 [])
     (sample_world [sample_claimant ''a'' 1 []]) \<noteq> Inr True"
proof -
  have ne: "\<forall>c \<in> set (hw_Store (sample_world [sample_claimant ''a'' 1 []])). map_of (om_Labels (cs_Meta c)) ProfileLabelName \<noteq>
      Some (om_Name (prof_Meta (sample_wanting_profile ProfileKind ''q'')))"
    by (simp add: sample_world_def sample_claimant_def ProfileLabelName_def ClusterProfileLabelName_def ClusterNameLabel_def
        ClusterTypeLabel_def zero_defs)
  show ?thesis
  proof (rule foreign_profile_blocks_uninstall [OF list_store_law, where labels = "[]" and ps = "[sample_wanting_profile ProfileKind ''q'']"
        and p = "sample_wanting_profile ProfileKind ''q''" and t = 9])
  qed (rule ne | code_simp)+
qed

theorem failed_takeover_forgets_manager_witness:
  "\<exists>e w'. determineChartOwnership (sample_ownership_env [''a''] [] []) (sample_claimant ''b'' 10 []) (sample_chart ''r'')
       (sample_world [sample_claimant ''a'' 100 [], sample_claimant ''b'' 10 []]) = (Inl e, w') \<and>
     queue (sample_claimant ''b'' 10 []) (sample_chart ''r'') w' = cs_Name (sample_claimant ''a'' 100 []) # [''b''] \<and>
     stored w' (request_of (sample_claimant ''a'' 100 [])) = Some (drop_summary (sample_chart ''r'') (sample_claimant ''a'' 100 []))"
proof -
  define env where "env = sample_ownership_env [''a''] [] []"
  define w where "w = sample_world [sample_claimant ''a'' 100 [], sample_claimant ''b'' 10 []]"
  have "oe_chartManager env = None" "\<forall>i req. oe_Get env i req = None \<and> oe_StatusUpdate env i req = None"
    by (simp_all add: env_def sample_ownership_env_def)
  moreover have "in_progress env FeatureHelm (sample_claimant ''a'' 100 [])" unfolding env_def by code_simp
  moreover have "queue (sample_claimant ''b'' 10 []) (sample_chart ''r'') w = cs_Name (sample_claimant ''a'' 100 []) # [''b'']"
    unfolding w_def by code_simp
  moreover have "cs_Name (sample_claimant ''a'' 100 []) \<noteq> cs_Name (sample_claimant ''b'' 10 [])" by code_simp
  moreover have "stored w (css_ClusterNamespace (cs_Spec (sample_claimant ''b'' 10 [])), cs_Name (sample_claimant ''a'' 100 [])) =
      Some (sample_claimant ''a'' 100 [])" unfolding w_def
    by (simp add: stored_def sample_world_def sample_claimant_def request_of_def zero_defs)
  moreover have "ps_SyncMode (cs_ProfileSpec (sample_claimant ''b'' 10 [])) \<noteq> SyncModeDryRun" by code_simp
  moreover have "wins_ownership env (sample_claimant ''a'' 100 []) (sample_claimant ''b'' 10 [])" unfolding env_def by code_simp
  ultimately show ?thesis unfolding env_def w_def by (rule failed_takeover_forgets_manager)
qed

end
