(* ===== verification/Apply_Tracking.thy ===== *)
theory Apply_Tracking
  imports Helm_Values
begin

text \<open>
  Which charts of a cluster in pull mode the agent is told not to apply (controllers/helm_apply_tracking.go). The hash of what is staged for a chart is
  recorded in the status entry of the release, becomes the applied hash once the agent confirms, and a later pass skips the
  chart only if nothing is unconfirmed or drifted and the hash is the same.

  The last section runs this protocol against the agent: \<open>tracking\<close> holds one status entry beside what the agent
  was last handed and what it really applied.
\<close>

section \<open>The hash of what applying a chart does\<close>

record chart_apply_inputs =
  cai_ResourcesHash :: string
  cai_Tier :: int
  cai_Timeout :: duration
  cai_SkipNamespaceCreation :: bool
  cai_ChartVersion :: string

text \<open>\<open>json\<close> is \<open>json.Marshal\<close>, \<open>None\<close> its error; \<open>hex\<close> is \<open>hex.EncodeToString\<close>. A resource is
  given by its object.\<close>

fun resource_hashes :: "(bytes \<Rightarrow> bytes) \<Rightarrow> (bytes \<Rightarrow> string) \<Rightarrow> ('r \<Rightarrow> string + bytes) \<Rightarrow> 'r list \<Rightarrow>
    string + string list" where
  "resource_hashes sha hex json [] = Inr []"
| "resource_hashes sha hex json (r # rs) =
     (case json r of
        Inl err \<Rightarrow> Inl err
      | Inr data \<Rightarrow> (case resource_hashes sha hex json rs of Inl err \<Rightarrow> Inl err | Inr hs \<Rightarrow> Inr (hex (sha data) # hs)))"

definition getResourcesHash :: "(bytes \<Rightarrow> bytes) \<Rightarrow> (bytes \<Rightarrow> string) \<Rightarrow> ('r \<Rightarrow> string + bytes) \<Rightarrow> 'r list \<Rightarrow> string + string" where
  "getResourcesHash sha hex json resources =
     (case resource_hashes sha hex json resources of
        Inl err \<Rightarrow> Inl err
      | Inr hashes \<Rightarrow> Inr (hex (sha (concat (sort hashes)))))"

definition getChartApplyHash :: "(bytes \<Rightarrow> bytes) \<Rightarrow> (bytes \<Rightarrow> string) \<Rightarrow> ('r \<Rightarrow> string + bytes) \<Rightarrow>
    (chart_apply_inputs \<Rightarrow> string + bytes) \<Rightarrow> cluster_summary \<Rightarrow> helm_chart \<Rightarrow> string \<Rightarrow> 'r list \<Rightarrow> string + bytes" where
  "getChartApplyHash sha hex json json_inputs clusterSummary chart chartVersion resources =
     (case getResourcesHash sha hex json resources of
        Inl err \<Rightarrow> Inl err
      | Inr resourcesHash \<Rightarrow>
          (case json_inputs \<lparr>cai_ResourcesHash = resourcesHash, cai_Tier = ps_Tier (cs_ProfileSpec clusterSummary),
                  cai_Timeout = getTimeoutValue (hc_Options chart),
                  cai_SkipNamespaceCreation = (\<not> getCreateNamespaceHelmValue (hc_Options chart)),
                  cai_ChartVersion = chartVersion\<rparr> of
             Inl err \<Rightarrow> Inl err
           | Inr data \<Rightarrow> Inr (sha data)))"

section \<open>The entry of a release in the status\<close>

definition same_release :: "helm_chart \<Rightarrow> helm_chart_summary \<Rightarrow> bool" where
  "same_release chart rs \<longleftrightarrow> hs_ReleaseName rs = hc_ReleaseName chart \<and> hs_ReleaseNamespace rs = hc_ReleaseNamespace chart"

definition getHelmChartSummary :: "helm_chart \<Rightarrow> cluster_summary \<Rightarrow> helm_chart_summary option" where
  "getHelmChartSummary chart clusterSummary = List.find (same_release chart) (cs_HelmReleaseSummaries clusterSummary)"

definition isApplyTracked :: "cluster_summary \<Rightarrow> helm_chart \<Rightarrow> bool \<Rightarrow> bool" where
  "isApplyTracked clusterSummary chart isUninstall \<longleftrightarrow>
     \<not> isUninstall \<and> hc_HelmChartAction chart \<noteq> HelmChartActionUninstall \<and>
     om_DeletionTimestamp (cs_Meta clusterSummary) = None \<and>
     ps_SyncMode (cs_ProfileSpec clusterSummary) \<noteq> SyncModeDryRun"

definition hash_set :: "bytes option \<Rightarrow> bool" where
  "hash_set h \<longleftrightarrow> h \<noteq> None \<and> h \<noteq> Some []"

definition skip_allowed :: "helm_chart_summary \<Rightarrow> bytes \<Rightarrow> bool" where
  "skip_allowed summary applyHash =
     (if hs_NeedsRedeploy summary \<or> hash_set (hs_StagedContentHash summary) \<or> \<not> hash_set (hs_AppliedContentHash summary)
      then False else hs_AppliedContentHash summary = Some applyHash)"

definition shouldSkipApply :: "cluster_summary \<Rightarrow> helm_chart \<Rightarrow> bytes \<Rightarrow> bool" where
  "shouldSkipApply clusterSummary chart applyHash =
     (case getHelmChartSummary chart clusterSummary of None \<Rightarrow> False | Some summary \<Rightarrow> skip_allowed summary applyHash)"

definition recordHelmChartApply :: "release_info option \<Rightarrow> helm_chart_summary \<Rightarrow> helm_chart_summary" where
  "recordHelmChartApply release summary =
     (if (case release of None \<Rightarrow> False | Some r \<Rightarrow> rel_skipApply r) then summary
      else
        let summary = summary\<lparr>hs_NeedsRedeploy := False\<rparr> in
        case release of
          None \<Rightarrow> summary
        | Some r \<Rightarrow> if hash_set (rel_applyHash r) then summary\<lparr>hs_StagedContentHash := rel_applyHash r\<rparr> else summary)"

definition confirm_applied :: "helm_chart_summary \<Rightarrow> helm_chart_summary" where
  "confirm_applied summary =
     (if \<not> hash_set (hs_StagedContentHash summary) then summary
      else summary\<lparr>hs_AppliedContentHash := hs_StagedContentHash summary, hs_StagedContentHash := None\<rparr>)"

text \<open>The entries after the confirmation, and whether one changed.\<close>

definition confirm_entries :: "helm_chart_summary list \<Rightarrow> helm_chart_summary list \<times> bool" where
  "confirm_entries summaries =
     (map confirm_applied summaries, list_ex (\<lambda>s. hash_set (hs_StagedContentHash s)) summaries)"

section \<open>Facts\<close>

lemma resource_hashes_all:
  "\<forall>r \<in> set rs. \<not> isl (json r) \<Longrightarrow> resource_hashes sha hex json rs = Inr (map (\<lambda>r. hex (sha (projr (json r)))) rs)"
  by (induction rs) (auto split: sum.splits)

lemma resource_hashes_ok: "resource_hashes sha hex json rs = Inr hs \<Longrightarrow> \<forall>r \<in> set rs. \<not> isl (json r)"
  by (induction rs arbitrary: hs) (auto split: sum.splits)

text \<open>The order in which helm lists the resources does not matter.\<close>

lemma resources_hash_permuted:
  assumes "mset resources = mset resources'" and "getResourcesHash sha hex json resources = Inr h"
  shows "getResourcesHash sha hex json resources' = Inr h"
proof -
  define g where "g = (\<lambda>r. hex (sha (projr (json r))))"
  have ok: "resource_hashes sha hex json resources = Inr (map g resources)" "h = hex (sha (concat (sort (map g resources))))"
    using assms(2) resource_hashes_all [OF resource_hashes_ok, of sha hex json resources _ sha hex]
    by (auto simp: getResourcesHash_def g_def split: sum.splits)
  have "set resources = set resources'" using assms(1) by (rule mset_eq_setD)
  then have ok': "resource_hashes sha hex json resources' = Inr (map g resources')"
    using resource_hashes_ok [OF ok(1)] by (simp add: resource_hashes_all g_def)
  have "mset (sort (map g resources)) = mset (sort (map g resources'))" using assms(1) by simp
  then have "sort (map g resources') = sort (map g resources)" by (metis mset_sort properties_for_sort sorted_sort)
  then show ?thesis using ok(2) ok' by (simp add: getResourcesHash_def)
qed

lemma confirm_applied_idem [simp]: "confirm_applied (confirm_applied s) = confirm_applied s"
  by (simp add: confirm_applied_def hash_set_def)

lemma confirm_entries_changed: "snd (confirm_entries ss) = False \<Longrightarrow> fst (confirm_entries ss) = ss"
  by (simp add: confirm_entries_def confirm_applied_def list_ex_iff map_idI)

section \<open>The protocol with the agent\<close>

text \<open>
  \<open>trk_Handed\<close> is the content of the chart in the committed bundles, \<open>None\<close> before the first, \<open>trk_Live\<close> what the cluster
  holds, \<open>None\<close> when it is unknown or drifted. A pass renders content \<open>h\<close>: unless it is skipped the agent is handed \<open>h\<close>.
  The agent applies what it was handed at any time, \<open>trk_Done\<close> records that it has applied the last of it, and only then a
  confirmation comes. Drift changes what is live at any time and drift detection flags it in the entry.
\<close>

record tracking =
  trk_Entry :: helm_chart_summary
  trk_Handed :: "bytes option"
  trk_Done :: bool
  trk_Live :: "bytes option"

definition tracked_release :: "bytes \<Rightarrow> bool \<Rightarrow> release_info" where
  "tracked_release h skip = \<lparr>rel_ReleaseName = [], rel_ReleaseNamespace = [], rel_Revision = [], rel_Updated = 0,
     rel_Status = [], rel_Chart = [], rel_ChartVersion = [], rel_AppVersion = [], rel_ReleaseLabels = [], rel_Icon = [],
     rel_Values = [], rel_FullValues = [], rel_applyHash = Some h, rel_skipApply = skip\<rparr>"

definition tracking_pass :: "bool \<Rightarrow> bytes \<Rightarrow> tracking \<Rightarrow> tracking" where
  "tracking_pass allowSkipApply h t =
     (let skip = allowSkipApply \<and> skip_allowed (trk_Entry t) h
      in t\<lparr>trk_Entry := recordHelmChartApply (Some (tracked_release h skip)) (trk_Entry t),
           trk_Handed := (if skip then trk_Handed t else Some h), trk_Done := (if skip then trk_Done t else False)\<rparr>)"

text \<open>A pass whose staged content is dropped before it is committed is no step: the agent never sees it, and a confirmation is taken only
  for the content of the request that was committed.\<close>

inductive tracking_step :: "tracking \<Rightarrow> tracking \<Rightarrow> bool" where
  pass: "h \<noteq> [] \<Longrightarrow> tracking_step t (tracking_pass allowSkipApply h t)"
| agent_applies: "trk_Handed t = Some h \<Longrightarrow> tracking_step t (t\<lparr>trk_Done := True, trk_Live := Some h\<rparr>)"
| confirmed: "trk_Done t \<Longrightarrow> tracking_step t (t\<lparr>trk_Entry := confirm_applied (trk_Entry t)\<rparr>)"
| drift: "tracking_step t (t\<lparr>trk_Entry := (trk_Entry t)\<lparr>hs_NeedsRedeploy := True\<rparr>, trk_Live := live\<rparr>)"

inductive_cases tracking_stepE: "tracking_step t t'"

definition tracking_init :: "tracking \<Rightarrow> bool" where
  "tracking_init t \<longleftrightarrow> hs_AppliedContentHash (trk_Entry t) = None \<and> hs_StagedContentHash (trk_Entry t) = None \<and>
     trk_Handed t = None \<and> \<not> trk_Done t"

text \<open>What is staged is what the agent was handed; once nothing is staged, the applied hash is what the agent was handed and has
  applied; what it has applied is live until the drift flag is raised.\<close>

definition tracking_inv :: "tracking \<Rightarrow> bool" where
  "tracking_inv t \<longleftrightarrow>
     (let e = trk_Entry t in
      hs_StagedContentHash e \<noteq> Some [] \<and> hs_AppliedContentHash e \<noteq> Some [] \<and>
      (\<forall>h. hs_StagedContentHash e = Some h \<longrightarrow> trk_Handed t = Some h) \<and>
      (hs_StagedContentHash e = None \<and> hs_AppliedContentHash e \<noteq> None \<longrightarrow>
         trk_Done t \<and> trk_Handed t = hs_AppliedContentHash e) \<and>
      (trk_Done t \<and> \<not> hs_NeedsRedeploy e \<longrightarrow> trk_Live t = trk_Handed t))"

lemma tracking_inv_init: "tracking_init t \<Longrightarrow> tracking_inv t"
  by (simp add: tracking_init_def tracking_inv_def Let_def)

lemma tracking_inv_step: "tracking_step t t' \<Longrightarrow> tracking_inv t \<Longrightarrow> tracking_inv t'"
  by (erule tracking_stepE)
    (auto simp: tracking_inv_def tracking_pass_def recordHelmChartApply_def tracked_release_def skip_allowed_def
      confirm_applied_def hash_set_def Let_def)

lemma tracking_inv_reachable: "tracking_step\<^sup>*\<^sup>* t0 t \<Longrightarrow> tracking_inv t0 \<Longrightarrow> tracking_inv t"
  by (induction rule: rtranclp_induct) (auto intro: tracking_inv_step)


definition sample_tracking :: tracking where
  "sample_tracking = \<lparr>trk_Entry = zero_helm_chart_summary, trk_Handed = None, trk_Done = False, trk_Live = None\<rparr>"

definition sample_tracked :: tracking where
  "sample_tracked = \<lparr>trk_Entry = zero_helm_chart_summary\<lparr>hs_AppliedContentHash := Some ''x''\<rparr>,
     trk_Handed = Some ''x'', trk_Done = True, trk_Live = Some ''x''\<rparr>"

lemma sample_tracked_reachable: "tracking_step\<^sup>*\<^sup>* sample_tracking sample_tracked"
proof -
  define t1 where "t1 = tracking_pass True ''x'' sample_tracking"
  define t2 where "t2 = t1\<lparr>trk_Done := True, trk_Live := Some ''x''\<rparr>"
  have handed: "trk_Handed t1 = Some ''x''" unfolding t1_def by code_simp
  have "tracking_step sample_tracking t1" unfolding t1_def by (rule pass) simp
  moreover have "tracking_step t1 t2" unfolding t2_def using handed by (rule agent_applies)
  moreover have "tracking_step t2 (t2\<lparr>trk_Entry := confirm_applied (trk_Entry t2)\<rparr>)"
    by (rule confirmed) (simp add: t2_def handed)
  moreover have "t2\<lparr>trk_Entry := confirm_applied (trk_Entry t2)\<rparr> = sample_tracked"
    unfolding t2_def t1_def by code_simp
  ultimately show ?thesis by (metis rtranclp.simps)
qed


end
