(* ===== verification/Helm_Decisions.thy ===== *)
theory Helm_Decisions
  imports Helm_Ownership Apply_Tracking
begin

text \<open>
  What is done to one helm release of a managed cluster in push mode (controllers/handlers_helm.go): the decisions to install, upgrade
  or uninstall, the actions with their dry run guards and their recovery, the reports, and \<open>deployHelmChart\<close>, which
  joins them.

  The helm SDK, repositories, registries, templates and the validation of checks answer through \<open>helm_env\<close>: an action gets the chart
  and the record of its release and yields an error, the release after the attempt and the chart version it resolved. Helm
  acts on the release it is given and on no other, which is why the world is changed at one key only.
\<close>

section \<open>Environment and reports\<close>

record helm_env = ownership_env +
  hv_instantiate :: "helm_chart \<Rightarrow> string + helm_chart"
  hv_clusterObjects :: "dep_error option"
  hv_registryOptions :: "helm_chart \<Rightarrow> dep_error option"
  hv_login :: "helm_chart \<Rightarrow> dep_error option"
  hv_actionConfig :: "string \<Rightarrow> dep_error option"
  hv_query :: "string \<Rightarrow> string \<Rightarrow> dep_error option"
  hv_repoAddOrUpdate :: "helm_chart \<Rightarrow> dep_error option"
  hv_prepare :: "helm_chart \<Rightarrow> dep_error option"
  hv_install :: "helm_chart \<Rightarrow> release_info option \<Rightarrow> dep_error option \<times> release_info option \<times> string"
  hv_upgrade :: "helm_chart \<Rightarrow> release_info option \<Rightarrow> dep_error option \<times> release_info option \<times> string"
  hv_uninstall :: "string \<Rightarrow> string \<Rightarrow> release_info \<Rightarrow> dep_error option \<times> release_info option"
  hv_purge :: "string \<Rightarrow> string \<Rightarrow> dep_error option \<times> release_info option"
  hv_tests :: "helm_chart \<Rightarrow> dep_error option"
  hv_updateResources :: "helm_chart \<Rightarrow> dep_error option"
  hv_preDelete :: "dep_error option"
  hv_postDelete :: "dep_error option"
  hv_values :: "helm_chart \<Rightarrow> dep_error + go_values"
  hv_yaml :: "go_values \<Rightarrow> dep_error + string"
  hv_sha256 :: "bytes \<Rightarrow> bytes"
  hv_patchesHash :: "dep_error + string"
  hv_version :: "string \<Rightarrow> int option"
  hv_valuesDiff :: "helm_chart \<Rightarrow> go_values \<Rightarrow> dep_error + string"

text \<open>\<open>hv_version\<close> is \<open>semver.NewVersion\<close>: the rank of a version in the order of precedence, \<open>None\<close> its error.\<close>

datatype helm_action =
    NoHelmAction | UpdateHelmValuesAction | InstallHelmAction | UpgradeHelmAction | UninstallHelmAction | ConflictHelmAction

record release_report =
  rr_ReleaseName :: string
  rr_ReleaseNamespace :: string
  rr_ChartVersion :: string
  rr_Action :: helm_action
  rr_Message :: string

definition report_for :: "helm_chart \<Rightarrow> string \<Rightarrow> helm_action \<Rightarrow> string \<Rightarrow> release_report" where
  "report_for chart version action message = \<lparr>rr_ReleaseName = hc_ReleaseName chart, rr_ReleaseNamespace = hc_ReleaseNamespace chart,
     rr_ChartVersion = version, rr_Action = action, rr_Message = message\<rparr>"

definition notInstalledMessage :: string where
  "notInstalledMessage = ''Not installed yet and action is uninstall''"

definition StatusDeployed :: string where "StatusDeployed = ''deployed''"
definition StatusUninstalled :: string where "StatusUninstalled = ''uninstalled''"

definition is_dry_run :: "cluster_summary \<Rightarrow> bool" where
  "is_dry_run cs \<longleftrightarrow> ps_SyncMode (cs_ProfileSpec cs) = SyncModeDryRun"

section \<open>Releases of the cluster\<close>

definition release_at :: "string \<Rightarrow> string \<Rightarrow> helm_world \<Rightarrow> release_info option" where
  "release_at namespace name w = map_of (hw_Releases w) (namespace, name)"

definition put_release :: "string \<Rightarrow> string \<Rightarrow> release_info option \<Rightarrow> helm_world \<Rightarrow> helm_world" where
  "put_release namespace name r w = w\<lparr>hw_Releases :=
     (case r of None \<Rightarrow> AList.delete (namespace, name) (hw_Releases w)
      | Some rel \<Rightarrow> AList.update (namespace, name) rel (hw_Releases w))\<rparr>"

definition release_not_found :: dep_error where
  "release_not_found = \<lparr>err_Msg = ''release: not found'', err_Chain = [ErrReleaseNotFound]\<rparr>"

definition getReleaseInfo :: "'e helm_env_scheme \<Rightarrow> string \<Rightarrow> string \<Rightarrow> helm_world \<Rightarrow> dep_error + release_info" where
  "getReleaseInfo env releaseName releaseNamespace w =
     (case hv_query env releaseNamespace releaseName of
        Some e \<Rightarrow> Inl e
      | None \<Rightarrow> (case release_at releaseNamespace releaseName w of None \<Rightarrow> Inl release_not_found | Some r \<Rightarrow> Inr r))"

text \<open>The call and the test that ignores \<open>ErrReleaseNotFound\<close>.\<close>

definition current_release :: "'e helm_env_scheme \<Rightarrow> helm_chart \<Rightarrow> helm_world \<Rightarrow> dep_error + release_info option" where
  "current_release env chart w =
     (case getReleaseInfo env (hc_ReleaseName chart) (hc_ReleaseNamespace chart) w of
        Inl e \<Rightarrow> if errors_As e ErrReleaseNotFound then Inr None else Inl e
      | Inr r \<Rightarrow> Inr (Some r))"

section \<open>Uninstalling\<close>

definition uninstallRelease :: "'e helm_env_scheme \<Rightarrow> cluster_summary \<Rightarrow> string \<Rightarrow> string \<Rightarrow> helm_world \<Rightarrow>
    dep_error option \<times> helm_world" where
  "uninstallRelease env clusterSummary releaseName releaseNamespace w =
     (if is_dry_run clusterSummary then (None, w)
      else case oe_GetCluster env of
        Inl ApiNotFound \<Rightarrow> (None, w)
      | Inl err \<Rightarrow> (Some (api_err err), w)
      | Inr (deleted, _) \<Rightarrow>
          if deleted then (None, w)
          else case hv_preDelete env of
            Some e \<Rightarrow> (Some e, w)
          | None \<Rightarrow>
              (case hv_actionConfig env releaseNamespace of
                 Some e \<Rightarrow> (Some e, w)
               | None \<Rightarrow>
                   (case release_at releaseNamespace releaseName w of
                      None \<Rightarrow> (Some release_not_found, w)
                    | Some r \<Rightarrow>
                        let (err, after) = hv_uninstall env releaseNamespace releaseName r;
                            w = helm_op (HUninstall releaseNamespace releaseName) (put_release releaseNamespace releaseName after w)
                        in case err of
                             Some e \<Rightarrow> (Some e, w)
                           | None \<Rightarrow> (hv_postDelete env, w))))"

definition doUninstallRelease :: "'e helm_env_scheme \<Rightarrow> cluster_summary \<Rightarrow> helm_chart \<Rightarrow> helm_world \<Rightarrow>
    dep_error option \<times> helm_world" where
  "doUninstallRelease env clusterSummary requestedChart w =
     (if is_dry_run clusterSummary then (None, w)
      else uninstallRelease env clusterSummary (hc_ReleaseName requestedChart) (hc_ReleaseNamespace requestedChart) w)"

section \<open>Installing and upgrading\<close>

definition is_pending :: "string \<Rightarrow> bool" where
  "is_pending status \<longleftrightarrow> status = ''pending-install'' \<or> status = ''pending-upgrade'' \<or> status = ''pending-rollback''"

definition StatusUninstalling :: string where "StatusUninstalling = ''uninstalling''"

definition recoverRelease :: "'e helm_env_scheme \<Rightarrow> cluster_summary \<Rightarrow> helm_chart \<Rightarrow> helm_world \<Rightarrow>
    dep_error option \<times> helm_world" where
  "recoverRelease env clusterSummary requestedChart w =
     (case hv_actionConfig env (hc_ReleaseNamespace requestedChart) of
        Some e \<Rightarrow> (Some e, w)
      | None \<Rightarrow>
          (case getReleaseInfo env (hc_ReleaseName requestedChart) (hc_ReleaseNamespace requestedChart) w of
             Inl e \<Rightarrow> if contains_text (err_Msg e) ''not found'' then (None, w) else (Some e, w)
           | Inr lastRelease \<Rightarrow>
               let status = rel_Status lastRelease in
               if status = StatusUninstalling \<or> is_pending status then
                 let (err, after) = hv_purge env (hc_ReleaseNamespace requestedChart) (hc_ReleaseName requestedChart)
                 in (err, put_release (hc_ReleaseNamespace requestedChart) (hc_ReleaseName requestedChart) after w)
               else uninstallRelease env clusterSummary (hc_ReleaseName requestedChart) (hc_ReleaseNamespace requestedChart) w))"

definition handleUpgradeError :: "'e helm_env_scheme \<Rightarrow> dep_error \<Rightarrow> cluster_summary \<Rightarrow> helm_chart \<Rightarrow> helm_world \<Rightarrow>
    dep_error \<times> helm_world" where
  "handleUpgradeError env err clusterSummary requestedChart w =
     (case getReleaseInfo env (hc_ReleaseName requestedChart) (hc_ReleaseNamespace requestedChart) w of
        Inl _ \<Rightarrow> (err, w)
      | Inr currentRelease \<Rightarrow>
          if is_pending (rel_Status currentRelease) \<or> rel_Status currentRelease = StatusUninstalling \<or>
             contains_text (err_Msg err) ''has no deployed releases''
          then (plain_error ''tried recovering by uninstalling first'', snd (recoverRelease env clusterSummary requestedChart w))
          else (err, w))"

text \<open>\<open>hv_prepare\<close> covers the steps before the SDK call that change nothing in the cluster: chart and registry, signatures, patches,
  the chart itself and its CRDs. A successful call returns the version the chart resolved to.\<close>

definition upgradeRelease :: "'e helm_env_scheme \<Rightarrow> cluster_summary \<Rightarrow> helm_chart \<Rightarrow> helm_world \<Rightarrow>
    (dep_error + string) \<times> helm_world" where
  "upgradeRelease env clusterSummary requestedChart w =
     (if is_dry_run clusterSummary then (Inr (hc_ChartVersion requestedChart), w)
      else if \<not> isReferencingFluxSource requestedChart \<and> hc_ChartName requestedChart = [] then
        (Inl (plain_error ''chart name can not be empty''), w)
      else case hv_prepare env requestedChart of
        Some e \<Rightarrow> (Inl e, w)
      | None \<Rightarrow>
          let ns = hc_ReleaseNamespace requestedChart; n = hc_ReleaseName requestedChart;
              (err, after, version) = hv_upgrade env requestedChart (release_at ns n w);
              w = helm_op (HUpgrade ns n) (put_release ns n after w)
          in case err of
               None \<Rightarrow> (Inr version, w)
             | Some e \<Rightarrow> let (e, w) = handleUpgradeError env e clusterSummary requestedChart w in (Inl e, w))"

definition installRelease :: "'e helm_env_scheme \<Rightarrow> cluster_summary \<Rightarrow> helm_chart \<Rightarrow> helm_world \<Rightarrow>
    (dep_error + string) \<times> helm_world" where
  "installRelease env clusterSummary requestedChart w =
     (if \<not> isReferencingFluxSource requestedChart \<and> hc_ChartName requestedChart = [] then
        (Inl (plain_error ''chart name can not be empty''), w)
      else case hv_prepare env requestedChart of
        Some e \<Rightarrow> (Inl e, w)
      | None \<Rightarrow>
          let ns = hc_ReleaseNamespace requestedChart; n = hc_ReleaseName requestedChart;
              (err, after, version) = hv_install env requestedChart (release_at ns n w);
              w = helm_op (HInstall ns n) (put_release ns n after w)
          in case err of
               None \<Rightarrow> (Inr version, w)
             | Some e \<Rightarrow>
                 if contains_text (err_Msg e) ''cannot reuse a name that is still in use''
                 then upgradeRelease env clusterSummary requestedChart w
                 else (Inl e, w))"

text \<open>In push mode \<open>templateOnly\<close> is false.\<close>

definition doInstallRelease :: "'e helm_env_scheme \<Rightarrow> cluster_summary \<Rightarrow> helm_chart \<Rightarrow> helm_world \<Rightarrow>
    (dep_error + string) \<times> helm_world" where
  "doInstallRelease env clusterSummary requestedChart w =
     (if is_dry_run clusterSummary then (Inr (hc_ChartVersion requestedChart), w)
      else case (if isReferencingFluxSource requestedChart then None else hv_repoAddOrUpdate env requestedChart) of
        Some e \<Rightarrow> (Inl e, w)
      | None \<Rightarrow>
          (case hv_values env requestedChart of
             Inl e \<Rightarrow> (Inl e, w)
           | Inr _ \<Rightarrow> installRelease env clusterSummary requestedChart w))"

definition doUpgradeRelease :: "'e helm_env_scheme \<Rightarrow> cluster_summary \<Rightarrow> helm_chart \<Rightarrow> helm_world \<Rightarrow>
    (dep_error + string) \<times> helm_world" where
  "doUpgradeRelease env clusterSummary requestedChart w =
     (if is_dry_run clusterSummary then (Inr (hc_ChartVersion requestedChart), w)
      else case (if isReferencingFluxSource requestedChart then None else hv_repoAddOrUpdate env requestedChart) of
        Some e \<Rightarrow> (Inl e, w)
      | None \<Rightarrow>
          (case hv_values env requestedChart of
             Inl e \<Rightarrow> (Inl e, w)
           | Inr _ \<Rightarrow> upgradeRelease env clusterSummary requestedChart w))"

section \<open>The decisions\<close>

definition shouldInstall :: "release_info option \<Rightarrow> helm_chart \<Rightarrow> bool" where
  "shouldInstall currentRelease requestedChart =
     (if hc_HelmChartAction requestedChart = HelmChartActionUninstall then False
      else case currentRelease of None \<Rightarrow> True | Some r \<Rightarrow> rel_Status r = StatusUninstalled)"

definition getValuesHashFromHelmChartSummary :: "helm_chart \<Rightarrow> cluster_summary \<Rightarrow> bytes option" where
  "getValuesHashFromHelmChartSummary requestedChart clusterSummary =
     (case List.find (same_release requestedChart) (cs_HelmReleaseSummaries clusterSummary) of
        None \<Rightarrow> None | Some rs \<Rightarrow> hs_ValuesHash rs)"

definition getPatchesHashFromHelmChartSummary :: "helm_chart \<Rightarrow> cluster_summary \<Rightarrow> bytes option" where
  "getPatchesHashFromHelmChartSummary requestedChart clusterSummary =
     (case List.find (same_release requestedChart) (cs_HelmReleaseSummaries clusterSummary) of
        None \<Rightarrow> None | Some rs \<Rightarrow> hs_PatchesHash rs)"

definition getFailureMessageFromHelmChartSummary :: "helm_chart \<Rightarrow> cluster_summary \<Rightarrow> string option" where
  "getFailureMessageFromHelmChartSummary requestedChart clusterSummary =
     (case List.find (same_release requestedChart) (cs_HelmReleaseSummaries clusterSummary) of
        None \<Rightarrow> None | Some rs \<Rightarrow> hs_FailureMessage rs)"

definition getNeedsRedeployFromHelmChartSummary :: "helm_chart \<Rightarrow> cluster_summary \<Rightarrow> bool" where
  "getNeedsRedeployFromHelmChartSummary requestedChart clusterSummary =
     (case List.find (same_release requestedChart) (cs_HelmReleaseSummaries clusterSummary) of
        None \<Rightarrow> False | Some rs \<Rightarrow> hs_NeedsRedeploy rs)"

definition needsRedeployForDrift :: "helm_chart \<Rightarrow> cluster_summary \<Rightarrow> bool" where
  "needsRedeployForDrift instantiatedChart clusterSummary =
     (case List.find (same_release instantiatedChart) (cs_HelmReleaseSummaries clusterSummary) of
        None \<Rightarrow> False | Some summary \<Rightarrow> hs_NeedsRedeploy summary)"

definition getHelmChartValuesHash :: "'e helm_env_scheme \<Rightarrow> helm_chart \<Rightarrow> dep_error + bytes" where
  "getHelmChartValuesHash env instantiatedChart =
     (case hv_values env instantiatedChart of
        Inl e \<Rightarrow> Inl e
      | Inr values \<Rightarrow> (case hv_yaml env values of Inl e \<Rightarrow> Inl e | Inr text \<Rightarrow> Inr (hv_sha256 env text)))"

definition getHelmChartPatchesHash :: "'e helm_env_scheme \<Rightarrow> dep_error + bytes" where
  "getHelmChartPatchesHash env = hv_patchesHash env"

definition getHelmChartHashes :: "'e helm_env_scheme \<Rightarrow> helm_chart \<Rightarrow> dep_error + bytes \<times> bytes" where
  "getHelmChartHashes env requestedChart =
     (case getHelmChartValuesHash env requestedChart of
        Inl e \<Rightarrow> Inl e
      | Inr valuesHash \<Rightarrow>
          (case getHelmChartPatchesHash env of Inl e \<Rightarrow> Inl e | Inr patchesHash \<Rightarrow> Inr (valuesHash, patchesHash)))"

text \<open>A hash that cannot be computed counts as the empty one. The comparison is \<open>reflect.DeepEqual\<close>, for which \<open>nil\<close> and the
  empty slice differ.\<close>

definition hash_or_empty :: "dep_error + bytes \<Rightarrow> bytes" where
  "hash_or_empty h = (case h of Inl _ \<Rightarrow> [] | Inr b \<Rightarrow> b)"

definition version_differs :: "'e helm_env_scheme \<Rightarrow> string \<Rightarrow> string \<Rightarrow> bool" where
  "version_differs env current expected =
     (case hv_version env current of
        None \<Rightarrow> True
      | Some c \<Rightarrow> (case hv_version env expected of None \<Rightarrow> True | Some e \<Rightarrow> c \<noteq> e))"

definition known_value_hash :: "'e helm_env_scheme \<Rightarrow> cluster_summary \<Rightarrow> helm_chart \<Rightarrow> release_info option \<Rightarrow> bytes option" where
  "known_value_hash env cs chart currentRelease =
     (case getValuesHashFromHelmChartSummary chart cs of
        Some h \<Rightarrow> Some h
      | None \<Rightarrow>
          (case currentRelease of
             None \<Rightarrow> None
           | Some r \<Rightarrow>
               if rel_Status r = StatusDeployed \<and>
                  (case hv_values env chart of Inl _ \<Rightarrow> False | Inr desired \<Rightarrow> desiredValuesAreSubset desired (rel_FullValues r))
               then Some (hash_or_empty (getHelmChartValuesHash env chart)) else None))"

definition shouldUpgradeForContinuousMode :: "'e helm_env_scheme \<Rightarrow> cluster_summary \<Rightarrow> helm_chart \<Rightarrow> release_info option \<Rightarrow>
    bytes \<Rightarrow> bool" where
  "shouldUpgradeForContinuousMode env cs instantiatedChart currentRelease currentPatchesHash =
     (let oldValueHash = known_value_hash env cs instantiatedChart currentRelease;
          oldPatchesHash = (case getPatchesHashFromHelmChartSummary instantiatedChart cs of
            None \<Rightarrow> if currentPatchesHash = [] then Some currentPatchesHash else None | Some h \<Rightarrow> Some h)
      in if \<not> is_dry_run cs \<and> oldValueHash \<noteq> Some (hash_or_empty (getHelmChartValuesHash env instantiatedChart)) then True
         else if \<not> is_dry_run cs \<and> oldPatchesHash \<noteq> Some currentPatchesHash then True
         else case currentRelease of
           None \<Rightarrow> False
         | Some r \<Rightarrow>
             if rel_Status r \<noteq> StatusDeployed then True
             else version_differs env (rel_ChartVersion r) (hc_ChartVersion instantiatedChart))"

definition shouldUpgrade :: "'e helm_env_scheme \<Rightarrow> cluster_summary \<Rightarrow> helm_chart \<Rightarrow> release_info option \<Rightarrow> bool" where
  "shouldUpgrade env cs instantiatedChart currentRelease =
     (if hc_HelmChartAction instantiatedChart = HelmChartActionUninstall then False
      else
        let currentPatchesHash = hash_or_empty (getHelmChartPatchesHash env) in
        if ps_SyncMode (cs_ProfileSpec cs) \<noteq> SyncModeContinuousWithDriftDetection
        then shouldUpgradeForContinuousMode env cs instantiatedChart currentRelease currentPatchesHash
        else if needsRedeployForDrift instantiatedChart cs then True
        else shouldUpgradeForContinuousMode env cs instantiatedChart currentRelease currentPatchesHash)"

definition shouldUninstall :: "release_info option \<Rightarrow> helm_chart \<Rightarrow> bool" where
  "shouldUninstall currentRelease requestedChart =
     (case currentRelease of
        None \<Rightarrow> False
      | Some r \<Rightarrow>
          if rel_Status r = StatusUninstalled then False
          else if hc_HelmChartAction requestedChart \<noteq> HelmChartActionUninstall then False else True)"

section \<open>The actions\<close>

definition recover_first :: "'e helm_env_scheme \<Rightarrow> cluster_summary \<Rightarrow> helm_chart \<Rightarrow> helm_world \<Rightarrow> dep_error option \<times> helm_world" where
  "recover_first env cs currentChart w =
     (case getFeatureSummaryForFeatureID cs FeatureHelm of
        None \<Rightarrow> (None, w)
      | Some fs \<Rightarrow>
          if fs_ConsecutiveFailures fs mod getRecoverAfterConsecutiveFailuresValue (hc_Options currentChart) = 0 \<and>
             fs_FailureMessage fs \<noteq> None
          then (case doUninstallRelease env cs currentChart w of
                  (None, w) \<Rightarrow> (None, w)
                | (Some e, w) \<Rightarrow>
                    if errors_As e ErrReleaseNotFound \<or> contains_text (err_Msg e) ''release: not found'' then (None, w)
                    else (Some e, w))
          else (None, w))"

definition handleInstall :: "'e helm_env_scheme \<Rightarrow> cluster_summary \<Rightarrow> helm_chart \<Rightarrow> helm_world \<Rightarrow>
    (dep_error + release_report) \<times> helm_world" where
  "handleInstall env cs currentChart w =
     (case recover_first env cs currentChart w of
        (Some e, w) \<Rightarrow> (Inl e, w)
      | (None, w) \<Rightarrow>
          (case doInstallRelease env cs currentChart w of
             (Inl e, w) \<Rightarrow> (Inl e, w)
           | (Inr version, w) \<Rightarrow> (Inr (report_for currentChart version InstallHelmAction []), w)))"

text \<open>The verb \<open>%q\<close>, on texts without characters to escape.\<close>

definition quoted :: "string \<Rightarrow> string" where
  "quoted s = CHR 0x22 # s @ [CHR 0x22]"

definition handleUpgrade :: "'e helm_env_scheme \<Rightarrow> cluster_summary \<Rightarrow> helm_chart \<Rightarrow> release_info \<Rightarrow> helm_world \<Rightarrow>
    (dep_error + release_report) \<times> helm_world" where
  "handleUpgrade env cs currentChart currentRelease w =
     (case doUpgradeRelease env cs currentChart w of
        (Inl e, w) \<Rightarrow> (Inl e, w)
      | (Inr version, w) \<Rightarrow>
          (case hv_version env (rel_ChartVersion currentRelease) of
             None \<Rightarrow> (Inl (plain_error ''Invalid Semantic Version''), w)
           | Some current \<Rightarrow>
               (case hv_version env version of
                  None \<Rightarrow> (Inl (plain_error ''Invalid Semantic Version''), w)
                | Some expected \<Rightarrow>
                    let message = (if current \<noteq> expected
                          then ''Current version: '' @ quoted (rel_ChartVersion currentRelease) @ ''. Would move to version: '' @ quoted version
                          else ''No op, already at version: '' @ rel_ChartVersion currentRelease)
                    in (Inr (report_for currentChart version UpgradeHelmAction message), w))))"

definition handleUninstall :: "'e helm_env_scheme \<Rightarrow> cluster_summary \<Rightarrow> helm_chart \<Rightarrow> helm_world \<Rightarrow>
    (dep_error + release_report) \<times> helm_world" where
  "handleUninstall env cs currentChart w =
     (case doUninstallRelease env cs currentChart w of
        (Some e, w) \<Rightarrow> (Inl e, w)
      | (None, w) \<Rightarrow> (Inr (report_for currentChart [] UninstallHelmAction []), w))"

definition generateReportForSameVersion :: "'e helm_env_scheme \<Rightarrow> cluster_summary \<Rightarrow> go_values \<Rightarrow> helm_chart \<Rightarrow>
    dep_error + release_report" where
  "generateReportForSameVersion env cs currentValues currentChart =
     (let defaultMessage = ''Already managing this helm release and specified version already installed'' in
      if \<not> is_dry_run cs then Inr (report_for currentChart (hc_ChartVersion currentChart) NoHelmAction defaultMessage)
      else case hv_valuesDiff env currentChart currentValues of
        Inl e \<Rightarrow> Inl e
      | Inr diff \<Rightarrow>
          if diff \<noteq> [] then Inr (report_for currentChart (hc_ChartVersion currentChart) UpdateHelmValuesAction diff)
          else Inr (report_for currentChart (hc_ChartVersion currentChart) NoHelmAction defaultMessage))"

text \<open>\<open>hv_updateResources\<close> covers the update of the resources of the release, one by one. An absent map of labels
  is an empty one.\<close>

definition addExtraMetadata :: "'e helm_env_scheme \<Rightarrow> helm_chart \<Rightarrow> cluster_summary \<Rightarrow> helm_world \<Rightarrow> dep_error option \<times> helm_world" where
  "addExtraMetadata env requestedChart cs w =
     (if is_dry_run cs then (None, w)
      else if ps_ExtraLabels (cs_ProfileSpec cs) = [] \<and> ps_ExtraAnnotations (cs_ProfileSpec cs) = [] then (None, w)
      else case hv_actionConfig env (hc_ReleaseNamespace requestedChart) of
        Some e \<Rightarrow> (Some e, w)
      | None \<Rightarrow>
          (case release_at (hc_ReleaseNamespace requestedChart) (hc_ReleaseName requestedChart) w of
             None \<Rightarrow> (Some release_not_found, w)
           | Some _ \<Rightarrow> (hv_updateResources env requestedChart,
               helm_op (HExtraMetadata (hc_ReleaseNamespace requestedChart) (hc_ReleaseName requestedChart)) w)))"

section \<open>One chart\<close>

text \<open>The action on the release: whether something was deployed, the report, the error.\<close>

definition act_on_release :: "'e helm_env_scheme \<Rightarrow> cluster_summary \<Rightarrow> helm_chart \<Rightarrow> release_info option \<Rightarrow> helm_world \<Rightarrow>
    (dep_error + bool \<times> release_report) \<times> helm_world" where
  "act_on_release env cs chart currentRelease w =
     (if shouldInstall currentRelease chart then
        (case handleInstall env cs chart w of (Inl e, w) \<Rightarrow> (Inl e, w) | (Inr report, w) \<Rightarrow> (Inr (True, report), w))
      else if shouldUpgrade env cs chart currentRelease then
        (case currentRelease of
           None \<Rightarrow> (Inl panic_error, w)
         | Some r \<Rightarrow>
             (case handleUpgrade env cs chart r w of (Inl e, w) \<Rightarrow> (Inl e, w) | (Inr report, w) \<Rightarrow> (Inr (True, report), w)))
      else if shouldUninstall currentRelease chart then
        (case handleUninstall env cs chart w of
           (Inl e, w) \<Rightarrow> (Inl e, w)
         | (Inr report, w) \<Rightarrow>
             (Inr (False, report\<lparr>rr_ChartVersion := (case currentRelease of None \<Rightarrow> [] | Some r \<Rightarrow> rel_ChartVersion r)\<rparr>), w))
      else case currentRelease of
        None \<Rightarrow> (Inr (False, report_for chart (hc_ChartVersion chart) NoHelmAction notInstalledMessage), w)
      | Some r \<Rightarrow>
          (case generateReportForSameVersion env cs (rel_Values r) chart of
             Inl e \<Rightarrow> (Inl e, w)
           | Inr report \<Rightarrow> (Inr (False, report), w)))"

definition run_tests :: "'e helm_env_scheme \<Rightarrow> cluster_summary \<Rightarrow> helm_chart \<Rightarrow> bool \<Rightarrow> helm_world \<Rightarrow> dep_error option \<times> helm_world" where
  "run_tests env cs chart deployed w =
     (if deployed \<and> getRunTestsValue (hc_Options chart) \<and> \<not> is_dry_run cs
      then (hv_tests env chart, helm_op (HTest (hc_ReleaseNamespace chart) (hc_ReleaseName chart)) w)
      else (None, w))"

definition deployHelmChart :: "'e helm_env_scheme \<Rightarrow> cluster_summary \<Rightarrow> helm_chart \<Rightarrow> helm_world \<Rightarrow>
    (dep_error + release_info option \<times> release_report) \<times> helm_world" where
  "deployHelmChart env cs instantiatedChart w =
     (case current_release env instantiatedChart w of
        Inl e \<Rightarrow> (Inl e, w)
      | Inr currentRelease \<Rightarrow>
          (case act_on_release env cs instantiatedChart currentRelease w of
             (Inl e, w) \<Rightarrow> (Inl e, w)
           | (Inr (deployed, report), w) \<Rightarrow>
               (case run_tests env cs instantiatedChart deployed w of
                  (Some e, w) \<Rightarrow> (Inl e, w)
                | (None, w) \<Rightarrow>
                    (case (if currentRelease \<noteq> None then addExtraMetadata env instantiatedChart cs w else (None, w)) of
                       (Some e, w) \<Rightarrow> (Inl e, w)
                     | (None, w) \<Rightarrow>
                         (case current_release env instantiatedChart w of
                            Inl e \<Rightarrow> (Inl e, w)
                          | Inr current \<Rightarrow> (Inr (current, report), w))))))"

section \<open>Dry runs\<close>

lemma dry_run_actions:
  assumes "is_dry_run cs"
  shows "doUninstallRelease env cs chart w = (None, w)" "doInstallRelease env cs chart w = (Inr (hc_ChartVersion chart), w)"
    "doUpgradeRelease env cs chart w = (Inr (hc_ChartVersion chart), w)" "uninstallRelease env cs n ns w = (None, w)"
    "addExtraMetadata env chart cs w = (None, w)" "run_tests env cs chart b w = (None, w)"
  using assms by (simp_all add: doUninstallRelease_def doInstallRelease_def doUpgradeRelease_def uninstallRelease_def
      addExtraMetadata_def run_tests_def)

lemma dry_run_handlers:
  assumes "is_dry_run cs"
  shows "handleInstall env cs chart w = (q, v) \<Longrightarrow> v = w" "handleUpgrade env cs chart r w = (q, v) \<Longrightarrow> v = w"
    "handleUninstall env cs chart w = (q, v) \<Longrightarrow> v = w"
  by (auto simp: handleInstall_def handleUpgrade_def handleUninstall_def recover_first_def dry_run_actions [OF assms] Let_def
      split: option.splits if_splits)

lemma dry_run_act:
  assumes "is_dry_run cs" and "act_on_release env cs chart current w = (q, v)"
  shows "v = w"
  using assms(2)
  by (auto simp: act_on_release_def split: option.splits prod.splits sum.splits if_splits dest: dry_run_handlers [OF assms(1)])

lemma deploy_dry_run:
  assumes "is_dry_run cs" and "deployHelmChart env cs chart w = (r, w')"
  shows "w' = w"
proof -
  show ?thesis using assms(2)
    by (auto simp: deployHelmChart_def dry_run_actions [OF assms(1)] split: sum.splits prod.splits if_splits
        dest: dry_run_act [OF assms(1)])
qed

section \<open>Convergence\<close>

definition deployed_as :: "'e helm_env_scheme \<Rightarrow> helm_chart \<Rightarrow> release_info \<Rightarrow> bool" where
  "deployed_as env chart r \<longleftrightarrow> rel_Status r = StatusDeployed \<and> \<not> version_differs env (rel_ChartVersion r) (hc_ChartVersion chart)"

text \<open>Helm and the cluster do what they are asked: the documented outcome of each action, and no failure before it.\<close>

definition helm_works :: "'e helm_env_scheme \<Rightarrow> helm_chart \<Rightarrow> bool" where
  "helm_works env chart \<longleftrightarrow> (\<forall>ns n. hv_query env ns n = None \<and> hv_actionConfig env ns = None) \<and>
     hv_repoAddOrUpdate env chart = None \<and> hv_prepare env chart = None \<and> hc_ChartName chart \<noteq> [] \<and>
     hv_preDelete env = None \<and> hv_postDelete env = None \<and> hv_tests env chart = None \<and> hv_updateResources env chart = None \<and>
     (\<exists>vs. hv_values env chart = Inr vs) \<and> (\<exists>labels. oe_GetCluster env = Inr (False, labels)) \<and>
     hv_version env (hc_ChartVersion chart) \<noteq> None \<and>
     (\<forall>r. \<exists>rel. hv_install env chart r = (None, Some rel, hc_ChartVersion chart) \<and> deployed_as env chart rel) \<and>
     (\<forall>r. \<exists>rel. hv_upgrade env chart r = (None, Some rel, hc_ChartVersion chart) \<and> deployed_as env chart rel) \<and>
     (\<forall>ns n r. \<exists>after. hv_uninstall env ns n r = (None, after) \<and> (\<forall>r'. after = Some r' \<longrightarrow> rel_Status r' = StatusUninstalled))"

lemma helm_worksD:
  assumes "helm_works env chart"
  shows "hv_query env ns n = None" "hv_actionConfig env ns = None" "hv_repoAddOrUpdate env chart = None"
    "hv_prepare env chart = None" "hc_ChartName chart \<noteq> []" "hv_preDelete env = None" "hv_postDelete env = None"
    "hv_tests env chart = None" "hv_updateResources env chart = None" "\<exists>vs. hv_values env chart = Inr vs"
    "\<exists>labels. oe_GetCluster env = Inr (False, labels)" "hv_version env (hc_ChartVersion chart) \<noteq> None"
    "\<exists>rel. hv_install env chart r = (None, Some rel, hc_ChartVersion chart) \<and> deployed_as env chart rel"
    "\<exists>rel. hv_upgrade env chart r = (None, Some rel, hc_ChartVersion chart) \<and> deployed_as env chart rel"
    "\<exists>after. hv_uninstall env ns n r0 = (None, after) \<and> (\<forall>r'. after = Some r' \<longrightarrow> rel_Status r' = StatusUninstalled)"
  using assms unfolding helm_works_def by blast+

abbreviation release_of :: "helm_chart \<Rightarrow> helm_world \<Rightarrow> release_info option" where
  "release_of chart \<equiv> release_at (hc_ReleaseNamespace chart) (hc_ReleaseName chart)"

lemma release_at_put [simp]:
  "release_at ns n (put_release ns' n' r w) = (if ns = ns' \<and> n = n' then r else release_at ns n w)"
  by (cases r) (auto simp: release_at_def put_release_def delete_conv update_conv)

lemma release_at_op [simp]: "release_at ns n (helm_op a w) = release_at ns n w"
  by (simp add: release_at_def)

lemma current_release_works: "helm_works env chart \<Longrightarrow> current_release env chart w = Inr (release_of chart w)"
  by (simp add: current_release_def getReleaseInfo_def helm_worksD errors_As_def release_not_found_def split: option.splits)

lemma uninstall_works:
  assumes "helm_works env chart" and "\<not> is_dry_run cs" and "release_of chart w = Some r"
  shows "\<exists>w' after. doUninstallRelease env cs chart w = (None, w') \<and> release_of chart w' = after \<and>
    hv_uninstall env (hc_ReleaseNamespace chart) (hc_ReleaseName chart) r = (None, after) \<and>
    (\<forall>r'. after = Some r' \<longrightarrow> rel_Status r' = StatusUninstalled)"
proof -
  obtain labels where "oe_GetCluster env = Inr (False, labels)" using helm_worksD(11) [OF assms(1)] by blast
  moreover obtain after where "hv_uninstall env (hc_ReleaseNamespace chart) (hc_ReleaseName chart) r = (None, after)"
    "\<forall>r'. after = Some r' \<longrightarrow> rel_Status r' = StatusUninstalled" using helm_worksD(15) [OF assms(1)] by blast
  ultimately show ?thesis using assms helm_worksD [OF assms(1)]
    by (simp add: doUninstallRelease_def uninstallRelease_def Let_def)
qed

lemma uninstall_absent:
  assumes "helm_works env chart" and "release_of chart w = None"
  shows "\<exists>e. doUninstallRelease env cs chart w = (e, w) \<and> (\<forall>x. e = Some x \<longrightarrow> errors_As x ErrReleaseNotFound)"
proof -
  obtain labels where "oe_GetCluster env = Inr (False, labels)" using helm_worksD(11) [OF assms(1)] by blast
  then show ?thesis using assms helm_worksD [OF assms(1)]
    by (simp add: doUninstallRelease_def uninstallRelease_def release_not_found_def errors_As_def)
qed

lemma recover_works:
  assumes "helm_works env chart" and "\<not> is_dry_run cs"
  shows "\<exists>w'. recover_first env cs chart w = (None, w')"
proof (cases "release_of chart w")
  case None
  obtain e where "doUninstallRelease env cs chart w = (e, w)" "\<forall>x. e = Some x \<longrightarrow> errors_As x ErrReleaseNotFound"
    using uninstall_absent [OF assms(1) None] by blast
  then show ?thesis by (cases e) (auto simp: recover_first_def split: option.splits)
next
  case (Some r)
  from uninstall_works [OF assms Some] show ?thesis by (auto simp: recover_first_def split: option.splits)
qed

lemma install_works:
  assumes "helm_works env chart" and "\<not> is_dry_run cs"
  shows "\<exists>w' rel report. handleInstall env cs chart w = (Inr report, w') \<and> release_of chart w' = Some rel \<and> deployed_as env chart rel"
proof -
  obtain v where v: "recover_first env cs chart w = (None, v)" using recover_works [OF assms] by blast
  obtain rel where rel: "hv_install env chart (release_of chart v) = (None, Some rel, hc_ChartVersion chart)"
    "deployed_as env chart rel" using helm_worksD(13) [OF assms(1)] by blast
  obtain vs where "hv_values env chart = Inr vs" using helm_worksD(10) [OF assms(1)] by blast
  then have "doInstallRelease env cs chart v = (Inr (hc_ChartVersion chart),
      helm_op (HInstall (hc_ReleaseNamespace chart) (hc_ReleaseName chart))
        (put_release (hc_ReleaseNamespace chart) (hc_ReleaseName chart) (Some rel) v))"
    using assms(2) rel(1) helm_worksD [OF assms(1)] by (simp add: doInstallRelease_def installRelease_def Let_def)
  then show ?thesis using v rel(2) by (simp add: handleInstall_def)
qed

lemma upgrade_works:
  assumes "helm_works env chart" and "\<not> is_dry_run cs" and "hv_version env (rel_ChartVersion r) \<noteq> None"
  shows "\<exists>w' rel report. handleUpgrade env cs chart r w = (Inr report, w') \<and> release_of chart w' = Some rel \<and> deployed_as env chart rel"
proof -
  obtain rel where rel: "hv_upgrade env chart (release_of chart w) = (None, Some rel, hc_ChartVersion chart)"
    "deployed_as env chart rel" using helm_worksD(14) [OF assms(1)] by blast
  obtain vs where "hv_values env chart = Inr vs" using helm_worksD(10) [OF assms(1)] by blast
  then have "doUpgradeRelease env cs chart w = (Inr (hc_ChartVersion chart),
      helm_op (HUpgrade (hc_ReleaseNamespace chart) (hc_ReleaseName chart))
        (put_release (hc_ReleaseNamespace chart) (hc_ReleaseName chart) (Some rel) w))"
    using assms(2) rel(1) helm_worksD [OF assms(1)] by (simp add: doUpgradeRelease_def upgradeRelease_def Let_def)
  then show ?thesis using rel(2) assms(3) helm_worksD(12) [OF assms(1)] by (auto simp: handleUpgrade_def Let_def)
qed

definition converged :: "'e helm_env_scheme \<Rightarrow> helm_chart \<Rightarrow> release_info option \<Rightarrow> bool" where
  "converged env chart r =
     (case hc_HelmChartAction chart of
        HelmChartActionInstall \<Rightarrow> (case r of None \<Rightarrow> False | Some rel \<Rightarrow> deployed_as env chart rel)
      | HelmChartActionUninstall \<Rightarrow> (case r of None \<Rightarrow> True | Some rel \<Rightarrow> rel_Status rel = StatusUninstalled))"

definition no_extras :: "cluster_summary \<Rightarrow> bool" where
  "no_extras cs \<longleftrightarrow> ps_ExtraLabels (cs_ProfileSpec cs) = [] \<and> ps_ExtraAnnotations (cs_ProfileSpec cs) = []"

text \<open>The hashes of the last deployment are in the status and drift detection has nothing to report.\<close>

definition hashes_recorded :: "'e helm_env_scheme \<Rightarrow> helm_chart \<Rightarrow> cluster_summary \<Rightarrow> bool" where
  "hashes_recorded env chart cs \<longleftrightarrow>
     getValuesHashFromHelmChartSummary chart cs = Some (hash_or_empty (getHelmChartValuesHash env chart)) \<and>
     (getPatchesHashFromHelmChartSummary chart cs = Some (hash_or_empty (getHelmChartPatchesHash env)) \<or>
      getPatchesHashFromHelmChartSummary chart cs = None \<and> hash_or_empty (getHelmChartPatchesHash env) = []) \<and>
     \<not> needsRedeployForDrift chart cs"

lemma statuses_differ [simp]: "StatusDeployed \<noteq> StatusUninstalled" "StatusUninstalled \<noteq> StatusDeployed"
  by (simp_all add: StatusDeployed_def StatusUninstalled_def)

lemma not_upgraded_deployed:
  assumes "\<not> shouldUpgrade env cs chart (Some r)" and "hc_HelmChartAction chart = HelmChartActionInstall"
  shows "deployed_as env chart r"
  using assms
  by (simp add: shouldUpgrade_def shouldUpgradeForContinuousMode_def Let_def deployed_as_def split: if_splits)

lemma settled_not_upgraded:
  assumes "hashes_recorded env chart cs" and "deployed_as env chart r"
  shows "\<not> shouldUpgrade env cs chart (Some r)"
  using assms
  by (auto simp: shouldUpgrade_def shouldUpgradeForContinuousMode_def Let_def deployed_as_def hashes_recorded_def known_value_hash_def)

lemma same_version_report:
  "\<not> is_dry_run cs \<Longrightarrow> \<exists>report. generateReportForSameVersion env cs vs chart = Inr report \<and> rr_Action report = NoHelmAction"
  by (simp add: generateReportForSameVersion_def report_for_def Let_def)

lemma act_works:
  assumes "helm_works env chart" and "\<not> is_dry_run cs"
    and "\<forall>r. release_of chart w = Some r \<longrightarrow> hv_version env (rel_ChartVersion r) \<noteq> None"
  shows "\<exists>b report w'. act_on_release env cs chart (release_of chart w) w = (Inr (b, report), w') \<and>
    converged env chart (release_of chart w')"
proof (cases "hc_HelmChartAction chart")
  case HelmChartActionInstall
  show ?thesis
  proof (cases "shouldInstall (release_of chart w) chart")
    case True
    with install_works [OF assms(1,2), of w] HelmChartActionInstall show ?thesis
      by (fastforce simp: act_on_release_def converged_def)
  next
    case False
    then obtain r where r: "release_of chart w = Some r"
      using HelmChartActionInstall by (auto simp: shouldInstall_def split: option.splits)
    show ?thesis
    proof (cases "shouldUpgrade env cs chart (Some r)")
      case True
      obtain w' rel report where "handleUpgrade env cs chart r w = (Inr report, w')" "release_of chart w' = Some rel"
        "deployed_as env chart rel" using upgrade_works [OF assms(1,2)] assms(3) r by blast
      then show ?thesis using True False r HelmChartActionInstall by (auto simp: act_on_release_def converged_def)
    next
      case F: False
      have "\<not> shouldUninstall (Some r) chart" using HelmChartActionInstall by (simp add: shouldUninstall_def)
      then show ?thesis
        using F False r HelmChartActionInstall not_upgraded_deployed [OF F] same_version_report [OF assms(2), of env "rel_Values r" chart]
        by (auto simp: act_on_release_def converged_def)
    qed
  qed
next
  case HelmChartActionUninstall
  then have n: "\<not> shouldInstall x chart" "\<not> shouldUpgrade env cs chart x" for x
    by (simp_all add: shouldInstall_def shouldUpgrade_def)
  show ?thesis
  proof (cases "shouldUninstall (release_of chart w) chart")
    case True
    then obtain r where r: "release_of chart w = Some r" by (auto simp: shouldUninstall_def split: option.splits)
    obtain w' after where "doUninstallRelease env cs chart w = (None, w')" "release_of chart w' = after"
      "\<forall>r'. after = Some r' \<longrightarrow> rel_Status r' = StatusUninstalled" using uninstall_works [OF assms(1,2) r] by blast
    then show ?thesis using True n HelmChartActionUninstall
      by (auto simp: act_on_release_def handleUninstall_def converged_def split: option.splits)
  next
    case False
    show ?thesis
    proof (cases "release_of chart w")
      case None
      then show ?thesis using n HelmChartActionUninstall
        by (auto simp: act_on_release_def converged_def shouldUninstall_def)
    next
      case (Some r)
      obtain report where "generateReportForSameVersion env cs (rel_Values r) chart = Inr report"
        using same_version_report [OF assms(2)] by blast
      then show ?thesis using n HelmChartActionUninstall False Some
        by (auto simp: act_on_release_def converged_def shouldUninstall_def split: if_splits)
    qed
  qed
qed

lemma settled_deploy:
  assumes "helm_works env chart" and "\<not> is_dry_run cs" and "no_extras cs" and "hashes_recorded env chart cs"
    and "converged env chart (release_of chart w)"
  shows "\<exists>report. deployHelmChart env cs chart w = (Inr (release_of chart w, report), w) \<and> rr_Action report = NoHelmAction"
proof -
  have act: "\<exists>report. act_on_release env cs chart (release_of chart w) w = (Inr (False, report), w) \<and> rr_Action report = NoHelmAction"
  proof (cases "release_of chart w")
    case None
    then show ?thesis using assms(5)
      by (auto simp: act_on_release_def converged_def shouldInstall_def shouldUpgrade_def shouldUninstall_def report_for_def
          split: helm_chart_action.splits)
  next
    case (Some r)
    have "\<not> shouldInstall (Some r) chart \<and> \<not> shouldUpgrade env cs chart (Some r) \<and> \<not> shouldUninstall (Some r) chart"
      using assms(5) Some settled_not_upgraded [OF assms(4), of r]
      by (cases "hc_HelmChartAction chart")
        (auto simp: converged_def shouldInstall_def shouldUninstall_def deployed_as_def shouldUpgrade_def)
    then show ?thesis using Some same_version_report [OF assms(2), of env "rel_Values r" chart]
      by (auto simp: act_on_release_def)
  qed
  then show ?thesis using assms(1,3)
    by (auto simp: deployHelmChart_def current_release_works run_tests_def addExtraMetadata_def no_extras_def)
qed


section \<open>Extra labels and the release as it was\<close>

text \<open>Extra labels and annotations follow the release as it was before the pass: an uninstall that removes the release with its
  history then fails because the metadata are still to be added to it.\<close>

theorem uninstall_with_labels_fails:
  assumes "helm_works env chart" and "\<not> is_dry_run cs" and "\<not> no_extras cs"
    and "hc_HelmChartAction chart = HelmChartActionUninstall" and "release_of chart w = Some r" and "rel_Status r \<noteq> StatusUninstalled"
    and "hv_uninstall env (hc_ReleaseNamespace chart) (hc_ReleaseName chart) r = (None, None)"
  shows "\<exists>w'. deployHelmChart env cs chart w = (Inl release_not_found, w') \<and> release_of chart w' = None"
proof -
  have n: "\<not> shouldInstall x chart" "\<not> shouldUpgrade env cs chart x" for x
    using assms(4) by (simp_all add: shouldInstall_def shouldUpgrade_def)
  have u: "shouldUninstall (Some r) chart" using assms(4,6) by (simp add: shouldUninstall_def)
  obtain v where v: "doUninstallRelease env cs chart w = (None, v)" "release_of chart v = None"
    using uninstall_works [OF assms(1,2,5)] assms(7) by auto
  have "addExtraMetadata env chart cs v = (Some release_not_found, v)"
    using assms(2,3) v(2) helm_worksD(2) [OF assms(1)] by (simp add: addExtraMetadata_def no_extras_def)
  then have "deployHelmChart env cs chart w = (Inl release_not_found, v)"
    using n u v assms(5) by (simp add: deployHelmChart_def current_release_works [OF assms(1)] act_on_release_def handleUninstall_def run_tests_def)
  then show ?thesis using v(2) by blast
qed

section \<open>Samples\<close>

definition sample_release :: "string \<Rightarrow> release_info" where
  "sample_release version = \<lparr>rel_ReleaseName = ''r'', rel_ReleaseNamespace = ''rel'', rel_Revision = ''1'', rel_Updated = 0,
     rel_Status = StatusDeployed, rel_Chart = ''ch'', rel_ChartVersion = version, rel_AppVersion = [], rel_ReleaseLabels = [],
     rel_Icon = [], rel_Values = [], rel_FullValues = [], rel_applyHash = None, rel_skipApply = False\<rparr>"

definition sample_helm_env :: helm_env where
  "sample_helm_env = ownership_env.extend (sample_ownership_env [] [] [])
     (helm_env.fields (\<lambda>c. Inr (c\<lparr>hc_Values := []\<rparr>)) None (\<lambda>_. None) (\<lambda>_. None) (\<lambda>_. None) (\<lambda>_ _. None) (\<lambda>_. None) (\<lambda>_. None)
       (\<lambda>c _. (None, Some (sample_release (hc_ChartVersion c)), hc_ChartVersion c))
       (\<lambda>c _. (None, Some (sample_release (hc_ChartVersion c)), hc_ChartVersion c))
       (\<lambda>_ _ _. (None, None)) (\<lambda>_ _. (None, None)) (\<lambda>_. None) (\<lambda>_. None) None None (\<lambda>_. Inr []) (\<lambda>_. Inr []) (\<lambda>b. ''h'' @ b)
       (Inr []) (\<lambda>v. Some (int (length v))) (\<lambda>_ _. Inr []))"

definition sample_helm_chart :: "string \<Rightarrow> helm_chart_action \<Rightarrow> helm_chart" where
  "sample_helm_chart version action = (sample_chart ''r'')\<lparr>hc_ChartName := ''ch'', hc_ChartVersion := version, hc_HelmChartAction := action\<rparr>"

lemma sample_helm_works: "helm_works sample_helm_env (sample_helm_chart version action)"
  by (simp add: helm_works_def sample_helm_env_def sample_ownership_env_def ownership_env.defs helm_env.defs sample_helm_chart_def
      deployed_as_def version_differs_def sample_release_def)

section \<open>Witnesses\<close>

definition sample_recorded :: "helm_chart_summary" where
  "sample_recorded = zero_helm_chart_summary\<lparr>hs_ReleaseName := ''r'', hs_ReleaseNamespace := ''rel'', hs_ValuesHash := Some ''h''\<rparr>"


definition sample_labelled :: cluster_summary where
  "sample_labelled = (let cs = sample_claimant ''a'' 1 [] in cs\<lparr>cs_Spec := (cs_Spec cs)
     \<lparr>css_ClusterProfileSpec := (cs_ProfileSpec cs)\<lparr>ps_ExtraLabels := [(''k'', ''v'')]\<rparr>\<rparr>\<rparr>)"

theorem uninstall_with_labels_fails_witness:
  "\<exists>w'. deployHelmChart sample_helm_env
       sample_labelled
       (sample_helm_chart ''1.2'' HelmChartActionUninstall)
       (put_release ''rel'' ''r'' (Some (sample_release ''1.2'')) (sample_world [])) = (Inl release_not_found, w') \<and>
     release_of (sample_helm_chart ''1.2'' HelmChartActionUninstall) w' = None"
  by (rule uninstall_with_labels_fails [OF sample_helm_works, where r = "sample_release ''1.2''"]; code_simp)

end
