(* ===== verification/Helm_Registry.thy ===== *)
theory Helm_Registry
  imports Helm_Decisions
begin

text \<open>
  Credentials of the registry of a chart (controllers/handlers_helm.go): the temporary files with the credentials and the
  certificate authority, the user and password from a Secret, the options of the registry client.

  \<open>registry_env\<close> holds the answers of the API server, of the templates that name a Secret, of the URL parser and the docker
  configuration reader, and of the file system. The state is the set of temporary files on disk, as a list of paths; what
  is in a file is the data the code writes and is not kept.
\<close>

section \<open>Secrets and files\<close>

record k8s_secret =
  sct_Name :: string
  sct_Type :: string
  sct_Data :: "(string \<times> bytes) list option"

record registry_env =
  rg_Namespace :: "string \<Rightarrow> dep_error + string"
  rg_Secret :: "string \<times> string \<Rightarrow> dep_error + k8s_secret"
  rg_ParseHost :: "string \<Rightarrow> dep_error + string"
  rg_LoadDocker :: "bytes \<Rightarrow> dep_error option"
  rg_GetAuth :: "bytes \<Rightarrow> string \<Rightarrow> dep_error + string \<times> string \<times> string"
  rg_CreateTemp :: "string \<Rightarrow> string list \<Rightarrow> dep_error + string"
  rg_Write :: "string \<Rightarrow> dep_error option"
  rg_IsOCI :: "string \<Rightarrow> bool"
  rg_Login :: "string \<Rightarrow> dep_error option"

text \<open>\<open>rg_GetAuth\<close> yields the host of the server address, the user and the password. \<open>rg_CreateTemp\<close> sees the pattern and the files
  that exist; \<open>rg_Write\<close> is the error of writing to the file.\<close>

definition SecretTypeDockerConfigJson :: string where
  "SecretTypeDockerConfigJson = ''kubernetes.io/dockerconfigjson''"

definition createTemporaryFile :: "registry_env \<Rightarrow> string \<Rightarrow> bytes \<Rightarrow> string list \<Rightarrow> (dep_error + string) \<times> string list" where
  "createTemporaryFile env pat data files =
     (case rg_CreateTemp env pat files of
        Inl e \<Rightarrow> (Inl e, files)
      | Inr path \<Rightarrow> (case rg_Write env path of Some e \<Rightarrow> (Inl e, path # files) | None \<Rightarrow> (Inr path, path # files)))"

text \<open>The Secret a reference names; the namespace is a template.\<close>

definition referenced_secret :: "registry_env \<Rightarrow> secret_reference \<Rightarrow> dep_error + k8s_secret" where
  "referenced_secret env ref =
     (case rg_Namespace env (sec_Namespace ref) of
        Inl e \<Rightarrow> Inl e
      | Inr namespace \<Rightarrow> rg_Secret env (namespace, sec_Name ref))"

text \<open>The last case ranges over a Go map and takes the key it meets first.\<close>

definition createFileWithCredentials :: "registry_env \<Rightarrow> helm_chart \<Rightarrow> string list \<Rightarrow> (dep_error + string) \<times> string list" where
  "createFileWithCredentials env requestedChart files =
     (case hc_RegistryCredentialsConfig requestedChart of
        None \<Rightarrow> (Inr [], files)
      | Some config \<Rightarrow>
          (case rcc_CredentialsSecretRef config of
             None \<Rightarrow> (Inr [], files)
           | Some credSecretRef \<Rightarrow>
               (case referenced_secret env credSecretRef of
                  Inl e \<Rightarrow> (Inl e, files)
                | Inr secret \<Rightarrow>
                    if sct_Type secret \<noteq> SecretTypeDockerConfigJson then (Inr [], files)
                    else case sct_Data secret of
                      None \<Rightarrow> (Inl (plain_error ''secret referenced in HelmChart section contains no data''), files)
                    | Some data \<Rightarrow>
                        if rcc_Key config \<noteq> [] then
                          (case map_of data (rcc_Key config) of
                             None \<Rightarrow> (Inl (plain_error ''secret referenced in HelmChart has no key''), files)
                           | Some content \<Rightarrow> createTemporaryFile env (rcc_Key config) content files)
                        else case data of
                          [] \<Rightarrow> (Inr [], files)
                        | (_, content) # _ \<Rightarrow> createTemporaryFile env ''config-*.json'' content files)))"

definition createFileWithCA :: "registry_env \<Rightarrow> helm_chart \<Rightarrow> string list \<Rightarrow> (dep_error + string) \<times> string list" where
  "createFileWithCA env requestedChart files =
     (case hc_RegistryCredentialsConfig requestedChart of
        None \<Rightarrow> (Inr [], files)
      | Some config \<Rightarrow>
          (case rcc_CASecretRef config of
             None \<Rightarrow> (Inr [], files)
           | Some caSecretRef \<Rightarrow>
               (case referenced_secret env caSecretRef of
                  Inl e \<Rightarrow> (Inl e, files)
                | Inr secret \<Rightarrow>
                    (case sct_Data secret of
                       None \<Rightarrow> (Inl (plain_error ''secret referenced in HelmChart section contains no data''), files)
                     | Some data \<Rightarrow>
                         (case map_of data ''ca.crt'' of
                            None \<Rightarrow> (Inl (plain_error ''secret referenced in HelmChart section contains no key ca.crt''), files)
                          | Some content \<Rightarrow> createTemporaryFile env ''ca-*.crt'' content files)))))"

definition getCredentialsAndCAFiles :: "registry_env \<Rightarrow> helm_chart \<Rightarrow> string list \<Rightarrow> (dep_error + string \<times> string) \<times> string list" where
  "getCredentialsAndCAFiles env requestedChart files =
     (case createFileWithCredentials env requestedChart files of
        (Inl e, files) \<Rightarrow> (Inl e, files)
      | (Inr credentialsPath, files) \<Rightarrow>
          (case createFileWithCA env requestedChart files of
             (Inl e, files) \<Rightarrow> (Inl e, files)
           | (Inr caPath, files) \<Rightarrow> (Inr (credentialsPath, caPath), files)))"

section \<open>Options of the registry client\<close>

text \<open>The user and the password; both may be absent, one alone may not.\<close>

definition secret_value :: "k8s_secret \<Rightarrow> string \<Rightarrow> bytes" where
  "secret_value secret key = lookup_default [] (slice (sct_Data secret)) key"

definition getUsernameAndPasswordFromSecret :: "registry_env \<Rightarrow> string \<Rightarrow> k8s_secret \<Rightarrow> dep_error + string \<times> string" where
  "getUsernameAndPasswordFromSecret env hostname secret =
     (let login =
        (if sct_Type secret = SecretTypeDockerConfigJson then
           let config = secret_value secret ''.dockerconfigjson'' in
           case rg_LoadDocker env config of
             Some e \<Rightarrow> Inl e
           | None \<Rightarrow>
               (case rg_GetAuth env config hostname of
                  Inl e \<Rightarrow> Inl e
                | Inr (host, username, password) \<Rightarrow>
                    if host \<noteq> hostname then Inl (plain_error ''no auth config for the host in the docker-registry Secret'')
                    else Inr (username, password))
         else Inr (secret_value secret ''username'', secret_value secret ''password''))
      in case login of
           Inl e \<Rightarrow> Inl e
         | Inr (username, password) \<Rightarrow>
             if username = [] \<and> password = [] then Inr ([], [])
             else if username = [] \<or> password = []
             then Inl (plain_error ''invalid secret data: required fields username and password'')
             else Inr (username, password))"

record registry_options =
  ro_credentialsPath :: string
  ro_caPath :: string
  ro_skipTLSVerify :: bool
  ro_plainHTTP :: bool
  ro_hostname :: string
  ro_username :: string
  ro_password :: string

definition zero_registry_options :: registry_options where
  "zero_registry_options = \<lparr>ro_credentialsPath = [], ro_caPath = [], ro_skipTLSVerify = False, ro_plainHTTP = False,
     ro_hostname = [], ro_username = [], ro_password = []\<rparr>"

text \<open>On an error the caller drops the options.\<close>

definition createRegistryClientOptions :: "registry_env \<Rightarrow> helm_chart \<Rightarrow> string list \<Rightarrow>
    (dep_error + registry_options) \<times> string list" where
  "createRegistryClientOptions env currentChart files =
     (case hc_RegistryCredentialsConfig currentChart of
        None \<Rightarrow> (Inr zero_registry_options, files)
      | Some config \<Rightarrow>
          (case getCredentialsAndCAFiles env currentChart files of
             (Inl e, files) \<Rightarrow> (Inl e, files)
           | (Inr (credentialsPath, caPath), files) \<Rightarrow>
               (let registryOptions = zero_registry_options\<lparr>ro_credentialsPath := credentialsPath, ro_caPath := caPath,
                  ro_plainHTTP := getPlainHTTP currentChart, ro_skipTLSVerify := getInsecureSkipTLSVerify currentChart\<rparr>
                in case rg_ParseHost env (hc_RepositoryURL currentChart) of
                     Inl e \<Rightarrow> (Inl e, files)
                   | Inr host \<Rightarrow>
                       let registryOptions = registryOptions\<lparr>ro_hostname := host\<rparr> in
                       (case rcc_CredentialsSecretRef config of
                          None \<Rightarrow> (Inr registryOptions, files)
                        | Some ref \<Rightarrow>
                            (case referenced_secret env ref of
                               Inl e \<Rightarrow> (Inl e, files)
                             | Inr secret \<Rightarrow>
                                 (case getUsernameAndPasswordFromSecret env host secret of
                                    Inl e \<Rightarrow> (Inl e, files)
                                  | Inr (username, password) \<Rightarrow>
                                      (Inr (registryOptions\<lparr>ro_username := username, ro_password := password\<rparr>), files)))))))"

definition doLogin :: "registry_env \<Rightarrow> string \<Rightarrow> dep_error option" where
  "doLogin env registryURL = (if rg_IsOCI env registryURL then rg_Login env registryURL else None)"

text \<open>The deferred removals, in the opposite order of the statements.\<close>

definition remove_files :: "registry_options \<Rightarrow> string list \<Rightarrow> string list" where
  "remove_files ro files =
     (let files = (if ro_caPath ro \<noteq> [] then filter (\<lambda>p. p \<noteq> ro_caPath ro) files else files)
      in if ro_credentialsPath ro \<noteq> [] then filter (\<lambda>p. p \<noteq> ro_credentialsPath ro) files else files)"

section \<open>What is left on disk\<close>

text \<open>\<open>os.CreateTemp\<close> makes a file that did not exist.\<close>

definition fresh_files :: "registry_env \<Rightarrow> bool" where
  "fresh_files env \<longleftrightarrow> (\<forall>pat files path. rg_CreateTemp env pat files = Inr path \<longrightarrow> path \<noteq> [] \<and> path \<notin> set files)"

lemma temporary_file:
  assumes "fresh_files env" and "createTemporaryFile env pat data files = (Inr path, files')"
  shows "files' = path # files \<and> path \<noteq> [] \<and> path \<notin> set files"
  using assms by (auto simp: createTemporaryFile_def fresh_files_def split: sum.splits option.splits)

lemma credentials_file:
  assumes "fresh_files env" and "createFileWithCredentials env chart files = (Inr path, files')"
  shows "path = [] \<and> files' = files \<or> path \<noteq> [] \<and> path \<notin> set files \<and> files' = path # files"
  using assms(2)
  by (auto simp: createFileWithCredentials_def split: sum.splits option.splits if_splits list.splits
      dest!: temporary_file [OF assms(1)])

lemma ca_file:
  assumes "fresh_files env" and "createFileWithCA env chart files = (Inr path, files')"
  shows "path = [] \<and> files' = files \<or> path \<noteq> [] \<and> path \<notin> set files \<and> files' = path # files"
  using assms(2)
  by (auto simp: createFileWithCA_def split: sum.splits option.splits dest!: temporary_file [OF assms(1)])

lemma options_paths:
  assumes "createRegistryClientOptions env chart files = (Inr ro, files')" and "hc_RegistryCredentialsConfig chart \<noteq> None"
  shows "getCredentialsAndCAFiles env chart files = (Inr (ro_credentialsPath ro, ro_caPath ro), files')"
  using assms by (auto simp: createRegistryClientOptions_def Let_def split: option.splits sum.splits prod.splits)

text \<open>Once the options are made, removing the files they name leaves the disk as it was.\<close>

lemma options_removed:
  assumes "fresh_files env" and "createRegistryClientOptions env chart files = (Inr ro, files')"
  shows "remove_files ro files' = files"
proof (cases "hc_RegistryCredentialsConfig chart")
  case None
  then show ?thesis
    using assms(2) by (auto simp: createRegistryClientOptions_def remove_files_def zero_registry_options_def)
next
  case (Some config)
  have made: "getCredentialsAndCAFiles env chart files = (Inr (ro_credentialsPath ro, ro_caPath ro), files')"
    using assms(2) Some by (auto intro: options_paths)
  then obtain mid where cred: "createFileWithCredentials env chart files = (Inr (ro_credentialsPath ro), mid)"
    and ca: "createFileWithCA env chart mid = (Inr (ro_caPath ro), files')"
    by (auto simp: getCredentialsAndCAFiles_def split: sum.splits prod.splits)
  show ?thesis
    using credentials_file [OF assms(1) cred] ca_file [OF assms(1) ca] by (auto simp: remove_files_def intro!: filter_True)
qed

end
