(* ===== verification/Helm_Content.thy ===== *)
theory Helm_Content
  imports Apply_Tracking
begin

text \<open>
  What is staged for the agent when a chart is deployed in pull mode (controllers/handlers_helm.go): the resources collected from a
  rendered release and its hooks, and the bundles they are split into, which the agent applies one after another.

  A resource is an object of the rendered manifest, of which the code reads the group and version, the kind, the namespace
  and the annotations. \<open>content_env\<close> holds the answers of libsveltos (splitting and decoding YAML), of the conversion of lists and
  of the staging client. \<open>sort.Slice\<close> promises an ordered permutation and no stability: it is the locale \<open>slice_sort\<close>.
\<close>

section \<open>Standard library\<close>

text \<open>\<open>strconv.Atoi\<close> with 64 bit integers, \<open>None\<close> for its error, and \<open>strings.TrimSpace\<close> on ASCII strings.\<close>

definition digit_of :: "char \<Rightarrow> int option" where
  "digit_of c = (let n = of_char c :: int in if 48 \<le> n \<and> n \<le> 57 then Some (n - 48) else None)"

fun digits_value :: "int \<Rightarrow> string \<Rightarrow> int option" where
  "digits_value acc [] = Some acc"
| "digits_value acc (c # cs) = (case digit_of c of None \<Rightarrow> None | Some d \<Rightarrow> digits_value (acc * 10 + d) cs)"

definition atoi :: "string \<Rightarrow> int option" where
  "atoi s =
     (let (neg, ds) = (case s of [] \<Rightarrow> (False, []) | c # cs \<Rightarrow>
            if c = CHR ''-'' then (True, cs) else if c = CHR ''+'' then (False, cs) else (False, s))
      in if ds = [] then None
         else case digits_value 0 ds of
           None \<Rightarrow> None
         | Some n \<Rightarrow> let v = (if neg then - n else n) in if - (2 ^ 63) \<le> v \<and> v < 2 ^ 63 then Some v else None)"

definition is_space :: "char \<Rightarrow> bool" where
  "is_space c \<longleftrightarrow> (let n = of_char c :: nat in n = 32 \<or> (9 \<le> n \<and> n \<le> 13))"

definition trim_space :: "string \<Rightarrow> string" where
  "trim_space s = rev (dropWhile is_space (rev (dropWhile is_space s)))"

section \<open>Resources and hooks\<close>

record unstructured =
  un_APIVersion :: string
  un_Kind :: string
  un_Namespace :: string
  un_Name :: string
  un_Annotations :: "(string \<times> string) list"
  un_Content :: string

datatype hook_event =
    HookPreInstall | HookPostInstall | HookPreDelete | HookPostDelete | HookPreUpgrade | HookPostUpgrade
  | HookPreRollback | HookPostRollback | HookTest | HookOther string

record helm_hook =
  hk_Kind :: string
  hk_Manifest :: string
  hk_Events :: "hook_event list"

record helm_rendered =
  hr_Manifest :: string
  hr_Hooks :: "helm_hook list"

text \<open>The loop over the events of a hook: the wanted event is found, any other event of the list of known ones ends the search.\<close>

fun hook_relevant :: "hook_event \<Rightarrow> hook_event list \<Rightarrow> bool" where
  "hook_relevant wanted [] = False"
| "hook_relevant wanted (event # events) =
     (if event = wanted then True
      else case event of HookOther _ \<Rightarrow> hook_relevant wanted events | _ \<Rightarrow> False)"

definition isHookRelevantForPreInstall :: "helm_hook \<Rightarrow> bool" where
  "isHookRelevantForPreInstall hook = hook_relevant HookPreInstall (hk_Events hook)"

definition isHookRelevantForPreUpgrade :: "helm_hook \<Rightarrow> bool" where
  "isHookRelevantForPreUpgrade hook = hook_relevant HookPreUpgrade (hk_Events hook)"

definition isHookRelevantForPostInstall :: "helm_hook \<Rightarrow> bool" where
  "isHookRelevantForPostInstall hook = hook_relevant HookPostInstall (hk_Events hook)"

definition isHookRelevantForPostUpgrade :: "helm_hook \<Rightarrow> bool" where
  "isHookRelevantForPostUpgrade hook = hook_relevant HookPostUpgrade (hk_Events hook)"

definition isHookRelevantForPreRollback :: "helm_hook \<Rightarrow> bool" where
  "isHookRelevantForPreRollback hook = hook_relevant HookPreRollback (hk_Events hook)"

definition isHookRelevantForPostRollback :: "helm_hook \<Rightarrow> bool" where
  "isHookRelevantForPostRollback hook = hook_relevant HookPostRollback (hk_Events hook)"

definition isHookRelevantForPreDelete :: "helm_hook \<Rightarrow> bool" where
  "isHookRelevantForPreDelete hook = hook_relevant HookPreDelete (hk_Events hook)"

definition isHookRelevantForPostDelete :: "helm_hook \<Rightarrow> bool" where
  "isHookRelevantForPostDelete hook = hook_relevant HookPostDelete (hk_Events hook)"

text \<open>The first key has a trailing blank in the source.\<close>

definition hasHookAnnotation :: "unstructured \<Rightarrow> bool" where
  "hasHookAnnotation obj \<longleftrightarrow> map_of (un_Annotations obj) ''helm.sh/hook '' \<noteq> None"

definition hasHookDeleteAnnotation :: "unstructured \<Rightarrow> bool" where
  "hasHookDeleteAnnotation obj \<longleftrightarrow> map_of (un_Annotations obj) ''helm.sh/hook-delete-policy'' \<noteq> None"

definition isHookResource :: "unstructured \<Rightarrow> string \<Rightarrow> bool" where
  "isHookResource u hookType =
     (case map_of (un_Annotations u) ''helm.sh/hook'' of
        None \<Rightarrow> False
      | Some hook \<Rightarrow> list_ex (\<lambda>h. trim_space h = hookType) (go_split CHR '','' hook))"

definition getHookWeight :: "unstructured \<Rightarrow> int" where
  "getHookWeight obj =
     (case map_of (un_Annotations obj) ''helm.sh/hook-weight'' of
        None \<Rightarrow> 0
      | Some weightStr \<Rightarrow> (case atoi weightStr of None \<Rightarrow> 0 | Some weight \<Rightarrow> weight))"

section \<open>Collecting the content of a release\<close>

record content_env =
  ce_CustomSplit :: "string \<Rightarrow> dep_error + string list"
  ce_GetUnstructured :: "string \<Rightarrow> dep_error + unstructured"
  ce_List :: "unstructured \<Rightarrow> dep_error + unstructured list"
  ce_Stage :: "nat \<Rightarrow> dep_error option"

text \<open>\<open>ce_List\<close> is the conversion of a \<open>v1\<close> List and of its items; its error is the first that occurs.\<close>

fun parse_objects :: "content_env \<Rightarrow> string list \<Rightarrow> dep_error + unstructured list" where
  "parse_objects env [] = Inr []"
| "parse_objects env (obj # objs) =
     (case ce_GetUnstructured env obj of
        Inl e \<Rightarrow> Inl e
      | Inr policy \<Rightarrow>
          (case (if un_Kind policy = ''List'' \<and> un_APIVersion policy = ''v1'' then ce_List env policy else Inr [policy]) of
             Inl e \<Rightarrow> Inl e
           | Inr us \<Rightarrow> (case parse_objects env objs of Inl e \<Rightarrow> Inl e | Inr rest \<Rightarrow> Inr (us @ rest))))"

definition parseAndAppendResources :: "content_env \<Rightarrow> string \<Rightarrow> dep_error + unstructured list" where
  "parseAndAppendResources env yamlStr =
     (case ce_CustomSplit env yamlStr of Inl e \<Rightarrow> Inl e | Inr objs \<Rightarrow> parse_objects env objs)"

datatype pull_action = ActInstall | ActUpgrade | ActDowngrade | ActUninstall

text \<open>The resources of the hooks that satisfy a test, in the order of the hooks.\<close>

fun collect_hooks :: "content_env \<Rightarrow> (helm_hook \<Rightarrow> bool) \<Rightarrow> helm_hook list \<Rightarrow> dep_error + unstructured list" where
  "collect_hooks env relevant [] = Inr []"
| "collect_hooks env relevant (hook # hooks) =
     (if \<not> relevant hook then collect_hooks env relevant hooks
      else case parseAndAppendResources env (hk_Manifest hook) of
        Inl e \<Rightarrow> Inl e
      | Inr us \<Rightarrow> (case collect_hooks env relevant hooks of Inl e \<Rightarrow> Inl e | Inr rest \<Rightarrow> Inr (us @ rest)))"

fun pre_relevant :: "pull_action \<Rightarrow> helm_hook \<Rightarrow> bool" where
  "pre_relevant ActInstall hook = isHookRelevantForPreInstall hook"
| "pre_relevant ActUpgrade hook = isHookRelevantForPreUpgrade hook"
| "pre_relevant ActDowngrade hook = isHookRelevantForPreRollback hook"
| "pre_relevant ActUninstall hook = False"

fun post_relevant :: "pull_action \<Rightarrow> helm_hook \<Rightarrow> bool" where
  "post_relevant ActInstall hook = isHookRelevantForPostInstall hook"
| "post_relevant ActUpgrade hook = isHookRelevantForPostUpgrade hook"
| "post_relevant ActDowngrade hook = isHookRelevantForPostRollback hook"
| "post_relevant ActUninstall hook = False"

definition collectPreHooks :: "content_env \<Rightarrow> helm_rendered \<Rightarrow> pull_action \<Rightarrow> dep_error + unstructured list" where
  "collectPreHooks env result action = collect_hooks env (pre_relevant action) (hr_Hooks result)"

definition collectPostHooks :: "content_env \<Rightarrow> helm_rendered \<Rightarrow> pull_action \<Rightarrow> dep_error + unstructured list" where
  "collectPostHooks env result action = collect_hooks env (post_relevant action) (hr_Hooks result)"

definition collectTestHooks :: "content_env \<Rightarrow> helm_rendered \<Rightarrow> dep_error + unstructured list" where
  "collectTestHooks env result = collect_hooks env (\<lambda>hook. list_ex (\<lambda>event. event = HookTest) (hk_Events hook)) (hr_Hooks result)"

definition collectHelmDeleteHooks :: "content_env \<Rightarrow> helm_rendered \<Rightarrow> dep_error + unstructured list" where
  "collectHelmDeleteHooks env result =
     (case collect_hooks env isHookRelevantForPreDelete (hr_Hooks result) of
        Inl e \<Rightarrow> Inl e
      | Inr pre \<Rightarrow>
          (case collect_hooks env isHookRelevantForPostDelete (hr_Hooks result) of Inl e \<Rightarrow> Inl e | Inr post \<Rightarrow> Inr (pre @ post)))"

definition delete_policy_only :: "unstructured \<Rightarrow> bool" where
  "delete_policy_only r \<longleftrightarrow> \<not> hasHookAnnotation r \<and> hasHookDeleteAnnotation r"

definition collectHelmContent :: "content_env \<Rightarrow> helm_rendered \<Rightarrow> pull_action \<Rightarrow> bool \<Rightarrow> bool \<Rightarrow> dep_error + unstructured list" where
  "collectHelmContent env result action includeHookResources includeTestResources =
     (if action = ActUninstall then
        (case parseAndAppendResources env (hr_Manifest result) of
           Inl e \<Rightarrow> Inl e
         | Inr mainResources \<Rightarrow>
             (case collectHelmDeleteHooks env result of
                Inl e \<Rightarrow> Inl e
              | Inr hooks \<Rightarrow> Inr (filter delete_policy_only mainResources @ hooks)))
      else
        (case (if includeHookResources then collectPreHooks env result action else Inr []) of
           Inl e \<Rightarrow> Inl e
         | Inr pre \<Rightarrow>
             (case parseAndAppendResources env (hr_Manifest result) of
                Inl e \<Rightarrow> Inl e
              | Inr mainResources \<Rightarrow>
                  (case (if includeHookResources then collectPostHooks env result action else Inr []) of
                     Inl e \<Rightarrow> Inl e
                   | Inr post \<Rightarrow>
                       (case (if includeTestResources then collectTestHooks env result else Inr []) of
                          Inl e \<Rightarrow> Inl e
                        | Inr tests \<Rightarrow>
                            Inr (pre @ filter (\<lambda>r. \<not> delete_policy_only r) mainResources @ post @ tests))))))"

section \<open>Bundles\<close>

type_synonym slice_sorter = "(unstructured \<Rightarrow> int) \<Rightarrow> unstructured list \<Rightarrow> unstructured list"

definition limit :: nat where "limit = 15"

fun chunks :: "'a list \<Rightarrow> 'a list list" where
  "chunks [] = []"
| "chunks (x # xs) = (x # take (limit - 1) xs) # chunks (drop (limit - 1) xs)"

definition appendResources :: "slice_sorter \<Rightarrow> unstructured list list \<Rightarrow> unstructured list \<Rightarrow> unstructured list list" where
  "appendResources sort_slice result resources = result @ chunks (sort_slice getHookWeight resources)"

definition setNamespace :: "unstructured \<Rightarrow> string \<Rightarrow> unstructured" where
  "setNamespace resource releaseNamespace =
     (if un_Namespace resource = [] then resource\<lparr>un_Namespace := releaseNamespace\<rparr> else resource)"

text \<open>The group each resource is put in, by the chain of tests of the loop.\<close>

datatype bundle_group =
    G_CRD | G_PreInstall | G_PostInstall | G_PreRollback | G_PostRollback | G_PreDelete | G_PostDelete | G_Test
  | G_DeletePolicy | G_Other

definition is_crd :: "unstructured \<Rightarrow> bool" where
  "is_crd r \<longleftrightarrow> un_APIVersion r = ''apiextensions.k8s.io/v1'' \<and> un_Kind r = ''CustomResourceDefinition''"

definition group_of_resource :: "unstructured \<Rightarrow> bundle_group" where
  "group_of_resource r =
     (if is_crd r then G_CRD
      else if isHookResource r ''pre-install'' then G_PreInstall
      else if isHookResource r ''pre-upgrade'' then G_PreInstall
      else if isHookResource r ''post-install'' then G_PostInstall
      else if isHookResource r ''post-upgrade'' then G_PostInstall
      else if isHookResource r ''pre-rollback'' then G_PreRollback
      else if isHookResource r ''post-rollback'' then G_PostRollback
      else if isHookResource r ''pre-delete'' then G_PreDelete
      else if isHookResource r ''post-delete'' then G_PostDelete
      else if isHookResource r ''test'' then G_Test
      else if hasHookDeleteAnnotation r then G_DeletePolicy
      else G_Other)"

definition placed :: "string \<Rightarrow> unstructured \<Rightarrow> unstructured" where
  "placed releaseNamespace r = (if is_crd r then r else setNamespace r releaseNamespace)"

definition group_members :: "string \<Rightarrow> bundle_group \<Rightarrow> unstructured list \<Rightarrow> unstructured list" where
  "group_members releaseNamespace g resources =
     map (placed releaseNamespace) (filter (\<lambda>r. group_of_resource r = g) resources)"

definition splitResources :: "slice_sorter \<Rightarrow> unstructured list \<Rightarrow> string \<Rightarrow> unstructured list list" where
  "splitResources sort_slice resources releaseNamespace =
     (let members = (\<lambda>g. group_members releaseNamespace g resources);
          result = appendResources sort_slice [] (members G_PreInstall);
          result = appendResources sort_slice result (members G_PreRollback);
          result = appendResources sort_slice result (members G_DeletePolicy);
          result = appendResources sort_slice result (members G_PreDelete);
          result = result @ map (\<lambda>crd. [crd]) (members G_CRD);
          result = appendResources sort_slice result (members G_Other);
          result = appendResources sort_slice result (members G_PostInstall);
          result = appendResources sort_slice result (members G_PostRollback);
          result = appendResources sort_slice result (members G_PostDelete)
      in appendResources sort_slice result (members G_Test))"

section \<open>Staging\<close>

record bundle_setters =
  bs_Timeout :: duration
  bs_ReleaseNamespace :: string
  bs_ReleaseName :: string
  bs_RepositoryURL :: string
  bs_ChartVersion :: string
  bs_Icon :: string
  bs_IsUninstall :: bool
  bs_IsLast :: bool
  bs_SkipNamespaceCreation :: bool
  bs_SkipApply :: bool

record staged_bundle =
  sb_Key :: string
  sb_Resources :: "unstructured list"
  sb_Setters :: bundle_setters

definition prepareBundleSettersWithHelmInfo :: "helm_chart \<Rightarrow> bool \<Rightarrow> bool \<Rightarrow> release_info \<Rightarrow> bundle_setters" where
  "prepareBundleSettersWithHelmInfo currentChart isUninstall isLast rInfo =
     \<lparr>bs_Timeout = getTimeoutValue (hc_Options currentChart), bs_ReleaseNamespace = hc_ReleaseNamespace currentChart,
      bs_ReleaseName = hc_ReleaseName currentChart, bs_RepositoryURL = hc_RepositoryURL currentChart,
      bs_ChartVersion = rel_ChartVersion rInfo, bs_Icon = rel_Icon rInfo, bs_IsUninstall = isUninstall, bs_IsLast = isLast,
      bs_SkipNamespaceCreation = (\<not> getCreateNamespaceHelmValue (hc_Options currentChart)),
      bs_SkipApply = rel_skipApply rInfo\<rparr>"

text \<open>A decimal numeral, as \<open>%d\<close> prints it.\<close>

fun nat_text :: "nat \<Rightarrow> string" where
  "nat_text n = (if n < 10 then [char_of (48 + n)] else nat_text (n div 10) @ [char_of (48 + n mod 10)])"

declare nat_text.simps [simp del]

fun stage_bundles :: "content_env \<Rightarrow> (nat \<Rightarrow> unstructured list \<Rightarrow> staged_bundle) \<Rightarrow> nat \<Rightarrow> unstructured list list \<Rightarrow>
    staged_bundle list \<Rightarrow> dep_error option \<times> staged_bundle list" where
  "stage_bundles env mk i [] staged = (None, staged)"
| "stage_bundles env mk i (b # bs) staged =
     (case ce_Stage env i of
        Some e \<Rightarrow> (Some e, staged)
      | None \<Rightarrow> stage_bundles env mk (Suc i) bs (staged @ [mk i b]))"

definition chart_bundle :: "helm_chart \<Rightarrow> pull_action \<Rightarrow> release_info \<Rightarrow> nat \<Rightarrow> nat \<Rightarrow> unstructured list \<Rightarrow> staged_bundle" where
  "chart_bundle currentChart action rInfo n i resources =
     (let baseKey = hc_ReleaseNamespace currentChart @ ''-'' @ hc_ReleaseName currentChart @ ''-'' @ hc_RepositoryName currentChart
      in \<lparr>sb_Key = baseKey @ ''-'' @ nat_text i, sb_Resources = resources,
          sb_Setters = prepareBundleSettersWithHelmInfo currentChart (action = ActUninstall) (Suc i = n) rInfo\<rparr>)"

definition stageHelmResourcesForDeployment :: "content_env \<Rightarrow> slice_sorter \<Rightarrow> helm_chart \<Rightarrow> unstructured list \<Rightarrow> pull_action \<Rightarrow>
    release_info \<Rightarrow> staged_bundle list \<Rightarrow> dep_error option \<times> staged_bundle list" where
  "stageHelmResourcesForDeployment env sort_slice currentChart resources action rInfo staged =
     (let bundles = splitResources sort_slice resources (hc_ReleaseNamespace currentChart)
      in stage_bundles env (chart_bundle currentChart action rInfo (length bundles)) 0 bundles staged)"

section \<open>The contract of sort.Slice\<close>

lemma concat_chunks [simp]: "concat (chunks xs) = xs"
  by (induction xs rule: chunks.induct) simp_all

text \<open>The groups are ordered as the agent gets them.\<close>

fun group_rank :: "bundle_group \<Rightarrow> nat" where
  "group_rank G_PreInstall = 0" | "group_rank G_PreRollback = 1" | "group_rank G_DeletePolicy = 2" | "group_rank G_PreDelete = 3"
| "group_rank G_CRD = 4" | "group_rank G_Other = 5" | "group_rank G_PostInstall = 6" | "group_rank G_PostRollback = 7"
| "group_rank G_PostDelete = 8" | "group_rank G_Test = 9"

lemma group_rank_inject: "group_rank g = group_rank h \<Longrightarrow> g = h"
  by (cases g; cases h; simp)

instantiation bundle_group :: linorder
begin

definition less_eq_bundle_group :: "bundle_group \<Rightarrow> bundle_group \<Rightarrow> bool" where
  "less_eq_bundle_group g h \<longleftrightarrow> group_rank g \<le> group_rank h"

definition less_bundle_group :: "bundle_group \<Rightarrow> bundle_group \<Rightarrow> bool" where
  "less_bundle_group g h \<longleftrightarrow> group_rank g < group_rank h"

instance
  by standard (auto simp: less_eq_bundle_group_def less_bundle_group_def intro: group_rank_inject)

end

lemma placed_keeps [simp]:
  "un_Annotations (placed ns r) = un_Annotations r" "un_Kind (placed ns r) = un_Kind r"
  "un_APIVersion (placed ns r) = un_APIVersion r" "un_Name (placed ns r) = un_Name r"
  by (simp_all add: placed_def setNamespace_def)

lemma placed_group [simp]: "group_of_resource (placed ns r) = group_of_resource r"
  by (simp add: group_of_resource_def is_crd_def isHookResource_def hasHookDeleteAnnotation_def)

lemma placed_weight [simp]: "getHookWeight (placed ns r) = getHookWeight r"
  by (simp add: getHookWeight_def)

lemma chunk_size: "b \<in> set (chunks xs) \<Longrightarrow> b \<noteq> [] \<and> length b \<le> limit"
  by (induction xs rule: chunks.induct) (auto simp: limit_def)

text \<open>The bundles of one group.\<close>

definition group_bundles :: "slice_sorter \<Rightarrow> unstructured list \<Rightarrow> string \<Rightarrow> bundle_group \<Rightarrow> unstructured list list" where
  "group_bundles sort_slice resources ns g =
     (let members = group_members ns g resources
      in if g = G_CRD then map (\<lambda>crd. [crd]) members else chunks (sort_slice getHookWeight members))"

definition group_order :: "bundle_group list" where
  "group_order = [G_PreInstall, G_PreRollback, G_DeletePolicy, G_PreDelete, G_CRD, G_Other, G_PostInstall, G_PostRollback,
     G_PostDelete, G_Test]"

locale slice_sort =
  fixes sort_slice :: slice_sorter
  assumes permutes: "mset (sort_slice key xs) = mset xs"
    and ordered: "sorted (map key (sort_slice key xs))"
begin

lemma sorted_set: "set (sort_slice key xs) = set xs"
  using permutes [of key xs] by (metis set_mset_mset)

lemma group_bundles_mset: "mset (concat (group_bundles sort_slice rs ns g)) = mset (group_members ns g rs)"
proof -
  have "concat (map (\<lambda>x. [x]) ys) = ys" for ys :: "unstructured list" by (induction ys) simp_all
  then show ?thesis by (simp add: group_bundles_def permutes Let_def)
qed

lemma group_bundles_group: "r \<in> set (concat (group_bundles sort_slice rs ns g)) \<Longrightarrow> group_of_resource r = g"
proof -
  assume "r \<in> set (concat (group_bundles sort_slice rs ns g))"
  then have "r \<in> set (group_members ns g rs)"
    using group_bundles_mset [of rs ns g] by (metis set_mset_mset)
  then show ?thesis by (auto simp: group_members_def)
qed

lemma group_bundles_weights: "g \<noteq> G_CRD \<Longrightarrow> sorted (map getHookWeight (concat (group_bundles sort_slice rs ns g)))"
  by (simp add: group_bundles_def Let_def ordered)

lemma group_bundles_sizes: "b \<in> set (group_bundles sort_slice rs ns g) \<Longrightarrow> b \<noteq> [] \<and> length b \<le> limit"
  by (auto simp: group_bundles_def Let_def limit_def chunk_size split: if_splits dest: chunk_size)

end

interpretation key_sort: slice_sort sort_key
  by unfold_locales simp_all

lemma split_by_groups: "splitResources sort_slice resources ns = concat (map (group_bundles sort_slice resources ns) group_order)"
  by (simp add: splitResources_def appendResources_def group_bundles_def group_order_def Let_def)

lemma group_order_all: "set group_order = UNIV" and group_order_distinct: "distinct group_order"
proof -
  have "g \<in> set group_order" for g by (cases g) (simp_all add: group_order_def)
  then show "set group_order = UNIV" by blast
qed (simp add: group_order_def)

lemma group_order_sorted: "sorted group_order"
  by (simp add: group_order_def less_eq_bundle_group_def)

lemma mset_by_group:
  "distinct gs \<Longrightarrow> mset (concat (map (\<lambda>g. filter (\<lambda>r. f r = g) rs) gs)) = mset (filter (\<lambda>r. f r \<in> set gs) rs)"
proof (induction gs)
  case (Cons g gs)
  have "mset (filter (\<lambda>r. f r = g \<or> f r \<in> set gs) rs) = mset (filter (\<lambda>r. f r = g) rs) + mset (filter (\<lambda>r. f r \<in> set gs) rs)"
    using Cons.prems by (induction rs) auto
  with Cons show ?case by simp
qed simp

context slice_sort
begin

lemma split_mset: "mset (concat (splitResources sort_slice rs ns)) = mset (map (placed ns) rs)"
proof -
  have step: "mset (concat (concat (map (group_bundles sort_slice rs ns) gs))) =
      image_mset (placed ns) (mset (concat (map (\<lambda>g. filter (\<lambda>r. group_of_resource r = g) rs) gs)))" for gs
    by (induction gs) (simp_all add: group_bundles_mset group_members_def)
  show ?thesis
    by (simp add: split_by_groups step mset_by_group group_order_distinct group_order_all del: mset_concat mset_filter)
qed

lemma split_groups_sorted:
  "sorted gs \<Longrightarrow> sorted (map group_of_resource (concat (concat (map (group_bundles sort_slice rs ns) gs))))"
proof (induction gs)
  case (Cons g gs)
  define here where "here = concat (group_bundles sort_slice rs ns g)"
  have here: "\<forall>r \<in> set here. group_of_resource r = g"
    unfolding here_def using group_bundles_group by blast
  then have "sorted (map group_of_resource here)" by (induction here) auto
  moreover have "group_of_resource r \<in> set gs"
    if "r \<in> set (concat (concat (map (group_bundles sort_slice rs ns) gs)))" for r
    using that group_bundles_group by fastforce
  moreover have "\<forall>h \<in> set gs. g \<le> h" "sorted gs" using Cons.prems by auto
  ultimately show ?case using Cons.IH here by (auto simp: sorted_append here_def [symmetric])
qed simp

lemma split_weights:
  assumes "g \<noteq> G_CRD"
  shows "sorted (map getHookWeight (filter (\<lambda>r. group_of_resource r = g) (concat (splitResources sort_slice rs ns))))"
proof -
  have only: "filter (\<lambda>r. group_of_resource r = g) (concat (concat (map (group_bundles sort_slice rs ns) gs))) =
      (if g \<in> set gs then concat (group_bundles sort_slice rs ns g) else [])" if "distinct gs" for gs
    using that
  proof (induction gs)
    case (Cons h gs)
    define here where "here = concat (group_bundles sort_slice rs ns h)"
    have "\<forall>r \<in> set here. group_of_resource r = h"
      unfolding here_def using group_bundles_group by blast
    then have "filter (\<lambda>r. group_of_resource r = g) here = (if h = g then here else [])"
      by (auto simp: filter_empty_conv intro!: filter_True)
    with Cons show ?case by (auto simp: here_def [symmetric])
  qed simp
  show ?thesis
    using assms by (simp add: split_by_groups only [OF group_order_distinct] group_order_all group_bundles_weights
        del: filter_concat)
qed

lemma split_sizes: "b \<in> set (splitResources sort_slice rs ns) \<Longrightarrow> b \<noteq> [] \<and> length b \<le> limit"
  by (auto simp: split_by_groups dest: group_bundles_sizes)

end

lemma stage_bundles_done:
  "stage_bundles env mk i bs staged = (None, st) \<Longrightarrow>
     st = staged @ map (\<lambda>k. mk (i + k) (bs ! k)) [0..<length bs]"
proof (induction bs arbitrary: i staged)
  case (Cons b bs)
  have "[0..<length (b # bs)] = 0 # map Suc [0..<length bs]"
    by (simp only: map_Suc_upt length_Cons) (rule upt_conv_Cons, simp)
  then have "map (\<lambda>k. mk (i + k) ((b # bs) ! k)) [0..<length (b # bs)] =
      mk i b # map (\<lambda>k. mk (Suc i + k) (bs ! k)) [0..<length bs]"
    by (simp only: list.map map_map comp_def nth_Cons_0 nth_Cons_Suc add_0_right add_Suc_right add_Suc)
  moreover have "st = staged @ [mk i b] @ map (\<lambda>k. mk (Suc i + k) (bs ! k)) [0..<length bs]"
    using Cons.IH [of "Suc i" "staged @ [mk i b]"] Cons.prems by (simp split: option.splits)
  ultimately show ?case by (simp only: append_Cons append_Nil)
qed simp

lemma staged_resources:
  assumes "stageHelmResourcesForDeployment env sort_slice chart rs action rInfo [] = (None, staged)"
  shows "map sb_Resources staged = splitResources sort_slice rs (hc_ReleaseNamespace chart)"
    and "map (bs_IsLast \<circ> sb_Setters) staged = map (\<lambda>k. Suc k = length staged) [0..<length staged]"
proof -
  define bs where "bs = splitResources sort_slice rs (hc_ReleaseNamespace chart)"
  have st: "staged = map (\<lambda>k. chart_bundle chart action rInfo (length bs) k (bs ! k)) [0..<length bs]"
    using stage_bundles_done [OF assms [unfolded stageHelmResourcesForDeployment_def Let_def]] by (simp add: bs_def)
  have b: "sb_Resources (chart_bundle chart action rInfo n k r) = r"
    "bs_IsLast (sb_Setters (chart_bundle chart action rInfo n k r)) = (Suc k = n)" for n k r
    by (simp_all add: chart_bundle_def prepareBundleSettersWithHelmInfo_def)
  show "map sb_Resources staged = splitResources sort_slice rs (hc_ReleaseNamespace chart)"
    by (simp add: st b comp_def map_nth flip: bs_def)
  show "map (bs_IsLast \<circ> sb_Setters) staged = map (\<lambda>k. Suc k = length staged) [0..<length staged]"
    by (simp add: st b)
qed

lemma collect_hooks_skip:
  "\<not> relevant hook \<Longrightarrow> collect_hooks env relevant (hs @ hook # hs') = collect_hooks env relevant (hs @ hs')"
  by (induction hs) (simp_all split: sum.splits)

lemma first_event_decides:
  "\<forall>s. first \<noteq> HookOther s \<Longrightarrow> hook_relevant wanted (first # events) \<longleftrightarrow> first = wanted"
  by (cases first) auto

definition action_events :: "pull_action \<Rightarrow> hook_event list" where
  "action_events action =
     (case action of
        ActInstall \<Rightarrow> [HookPreInstall, HookPostInstall]
      | ActUpgrade \<Rightarrow> [HookPreUpgrade, HookPostUpgrade]
      | ActDowngrade \<Rightarrow> [HookPreRollback, HookPostRollback]
      | ActUninstall \<Rightarrow> [HookPreDelete, HookPostDelete])"

lemmas relevance_defs = isHookRelevantForPreInstall_def isHookRelevantForPreUpgrade_def isHookRelevantForPostInstall_def
  isHookRelevantForPostUpgrade_def isHookRelevantForPreRollback_def isHookRelevantForPostRollback_def
  isHookRelevantForPreDelete_def isHookRelevantForPostDelete_def

section \<open>Properties\<close>

text \<open>C32. When the content of a chart is staged without an error, the bundles together hold exactly the rendered resources, each in the namespace
  of the release if it had none; a bundle has at least one resource and at most fifteen; hooks before the release, its CRDs, its
  resources and the hooks after it come in this order, by weight within each group but that of the CRDs; and the last bundle
  alone is marked as such.\<close>

theorem chart_bundles:
  assumes "slice_sort sort_slice"
    and "stageHelmResourcesForDeployment env sort_slice chart rs action rInfo [] = (None, staged)"
  shows "mset (concat (map sb_Resources staged)) = mset (map (placed (hc_ReleaseNamespace chart)) rs) \<and>
     (\<forall>b \<in> set staged. 1 \<le> length (sb_Resources b) \<and> length (sb_Resources b) \<le> 15) \<and>
     sorted (map group_of_resource (concat (map sb_Resources staged))) \<and>
     (\<forall>g. g = G_CRD \<or> sorted (map getHookWeight (filter (\<lambda>r. group_of_resource r = g) (concat (map sb_Resources staged))))) \<and>
     map (bs_IsLast \<circ> sb_Setters) staged = map (\<lambda>k. Suc k = length staged) [0..<length staged]"
proof -
  note res = staged_resources [OF assms(2)]
  have sizes: "1 \<le> length (sb_Resources b) \<and> length (sb_Resources b) \<le> 15" if "b \<in> set staged" for b
  proof -
    have "sb_Resources b \<in> set (splitResources sort_slice rs (hc_ReleaseNamespace chart))"
      using that by (metis res(1) image_eqI list.set_map)
    then show ?thesis using slice_sort.split_sizes [OF assms(1)] by (fastforce simp: limit_def Suc_le_eq)
  qed
  have "sorted (map group_of_resource (concat (splitResources sort_slice rs (hc_ReleaseNamespace chart))))"
    unfolding split_by_groups by (rule slice_sort.split_groups_sorted [OF assms(1) group_order_sorted])
  then show ?thesis
    using sizes res slice_sort.split_mset [OF assms(1)] slice_sort.split_weights [OF assms(1)] by metis
qed

definition sample_object :: "string \<Rightarrow> (string \<times> string) list \<Rightarrow> unstructured" where
  "sample_object name annotations = \<lparr>un_APIVersion = ''v1'', un_Kind = ''ConfigMap'', un_Namespace = [], un_Name = name,
     un_Annotations = annotations, un_Content = []\<rparr>"

definition sample_content_env :: content_env where
  "sample_content_env = \<lparr>ce_CustomSplit = (\<lambda>m. Inr (if m = [] then [] else [m])), ce_GetUnstructured = (\<lambda>n. Inr (sample_object n [])),
     ce_List = (\<lambda>u. Inr []), ce_Stage = (\<lambda>i. None)\<rparr>"

definition sample_rendered_release :: release_info where
  "sample_rendered_release = \<lparr>rel_ReleaseName = ''r'', rel_ReleaseNamespace = ''ns'', rel_Revision = ''1'', rel_Updated = 0,
     rel_Status = ''pending-install'', rel_Chart = ''c'', rel_ChartVersion = ''1.0.0'', rel_AppVersion = [], rel_ReleaseLabels = [],
     rel_Icon = [], rel_Values = [], rel_FullValues = [], rel_applyHash = None, rel_skipApply = False\<rparr>"

definition content_chart :: "string \<Rightarrow> helm_chart" where
  "content_chart ns = zero_helm_chart\<lparr>hc_ReleaseNamespace := ns, hc_ReleaseName := ''r''\<rparr>"

definition sample_content :: "unstructured list" where
  "sample_content = [sample_object ''main'' [], sample_object ''late'' [(''helm.sh/hook'', ''post-install''), (''helm.sh/hook-weight'', ''5'')],
     sample_object ''early'' [(''helm.sh/hook'', ''post-upgrade, post-install''), (''helm.sh/hook-weight'', ''-3'')]]"

lemma chart_bundles_witness:
  "\<exists>staged. stageHelmResourcesForDeployment sample_content_env sort_key (content_chart ''ns'') sample_content ActInstall
       sample_rendered_release [] = (None, staged) \<and>
     map (\<lambda>b. map un_Name (sb_Resources b)) staged = [[''main''], [''early'', ''late'']] \<and>
     sorted (map group_of_resource (concat (map sb_Resources staged)))"
proof -
  define staged where "staged = snd (stageHelmResourcesForDeployment sample_content_env sort_key (content_chart ''ns'')
     sample_content ActInstall sample_rendered_release [])"
  have "fst (stageHelmResourcesForDeployment sample_content_env sort_key (content_chart ''ns'') sample_content ActInstall
      sample_rendered_release []) = None"
    by code_simp
  then have st: "stageHelmResourcesForDeployment sample_content_env sort_key (content_chart ''ns'') sample_content ActInstall
       sample_rendered_release [] = (None, staged)"
    by (simp add: staged_def prod_eq_iff)
  have "map (\<lambda>b. map un_Name (sb_Resources b)) staged = [[''main''], [''early'', ''late'']]"
    unfolding staged_def by code_simp
  moreover have "sorted (map group_of_resource (concat (map sb_Resources staged)))"
    using chart_bundles [OF key_sort.slice_sort_axioms st] by (elim conjE)
  ultimately show ?thesis using st by (intro exI [of _ staged] conjI)
qed

text \<open>Only the first event of a hook counts in pull mode: a hook whose first event is not one of those of the action is dropped,
  whatever other events it lists. A hook of \<open>pre-install,pre-upgrade\<close> never runs on an upgrade.\<close>

theorem later_events_ignored:
  assumes "hk_Events hook = first # events" and "\<forall>s. first \<noteq> HookOther s" and "first \<notin> set (action_events action)"
  shows "collectHelmContent env \<lparr>hr_Manifest = m, hr_Hooks = hooks @ hook # hooks'\<rparr> action includeHooks False =
     collectHelmContent env \<lparr>hr_Manifest = m, hr_Hooks = hooks @ hooks'\<rparr> action includeHooks False"
proof -
  have rel: "hook_relevant wanted (hk_Events hook) \<longleftrightarrow> first = wanted" for wanted
    by (simp only: assms(1) first_event_decides [OF assms(2)])
  show ?thesis
    using assms(3)
    by (cases action) (auto simp: collectHelmContent_def collectPreHooks_def collectPostHooks_def collectHelmDeleteHooks_def
        collect_hooks_skip relevance_defs rel action_events_def cong: sum.case_cong)
qed

definition sample_hook :: helm_hook where
  "sample_hook = \<lparr>hk_Kind = ''Job'', hk_Manifest = ''job'', hk_Events = [HookPreInstall, HookPreUpgrade]\<rparr>"

lemma later_events_ignored_witness:
  "collectHelmContent sample_content_env \<lparr>hr_Manifest = ''main'', hr_Hooks = [sample_hook]\<rparr> ActUpgrade True False =
      Inr [sample_object ''main'' []] \<and>
   collectHelmContent sample_content_env \<lparr>hr_Manifest = ''main'', hr_Hooks = [sample_hook]\<rparr> ActInstall True False =
      Inr [sample_object ''job'' [], sample_object ''main'' []]"
proof
  have "collectHelmContent sample_content_env \<lparr>hr_Manifest = ''main'', hr_Hooks = []\<rparr> ActUpgrade True False =
      Inr [sample_object ''main'' []]" by code_simp
  then show "collectHelmContent sample_content_env \<lparr>hr_Manifest = ''main'', hr_Hooks = [sample_hook]\<rparr> ActUpgrade True False =
      Inr [sample_object ''main'' []]"
    using later_events_ignored [of sample_hook HookPreInstall "[HookPreUpgrade]" ActUpgrade sample_content_env "''main''" "[]" "[]" True]
    by (simp add: sample_hook_def action_events_def)
  show "collectHelmContent sample_content_env \<lparr>hr_Manifest = ''main'', hr_Hooks = [sample_hook]\<rparr> ActInstall True False =
      Inr [sample_object ''job'' [], sample_object ''main'' []]" by code_simp
qed

end
