(* ===== verification/Helm_Status.thy ===== *)
theory Helm_Status
  imports Helm_Registry Helm_Content Cluster_Configuration
begin

text \<open>
  The entries of helm releases in the status of a ClusterSummary (controllers/handlers_helm.go, handlers_utils.go,
  helm_apply_tracking.go): building the entries of the charts of the spec, dropping those of charts that are gone, the failure
  message, the hashes and the identity recorded after a deployment, the kinds deployed, and the confirmation by the agent.

  Each write is a read, a change and a status update under \<open>retry.RetryOnConflict\<close>. The object that is read lives outside the retried
  function, so it is part of the state of the loop: a read that fails leaves it as it was.
\<close>

section \<open>Identity of a chart\<close>

text \<open>The values are left out of the instantiation.\<close>

definition getInstantiatedChartIdentity :: "'e helm_env_scheme \<Rightarrow> helm_chart \<Rightarrow> dep_error + helm_chart" where
  "getInstantiatedChartIdentity env currentChart =
     (case hv_instantiate env (currentChart\<lparr>hc_Values := []\<rparr>) of
        Inl err \<Rightarrow> Inl \<lparr>err_Msg = ''failed to instantiated template: '' @ err, err_Chain = [TemplateInstantiationError]\<rparr>
      | Inr chart \<Rightarrow> Inr (chart\<lparr>hc_Values := hc_Values currentChart\<rparr>))"

fun instantiate_all :: "'e helm_env_scheme \<Rightarrow> helm_chart list \<Rightarrow> dep_error + helm_chart list" where
  "instantiate_all env [] = Inr []"
| "instantiate_all env (chart # charts) =
     (case getInstantiatedChartIdentity env chart of
        Inl e \<Rightarrow> Inl e
      | Inr c \<Rightarrow> (case instantiate_all env charts of Inl e \<Rightarrow> Inl e | Inr cs \<Rightarrow> Inr (c # cs)))"

lemma instantiate_all_length: "instantiate_all env charts = Inr cs \<Longrightarrow> length cs = length charts"
  by (induction charts arbitrary: cs) (auto split: sum.splits)

text \<open>The summary with its charts instantiated; its status and most of its metadata are left out.\<close>

definition getClusterSummaryWithInstantiatedCharts :: "'e helm_env_scheme \<Rightarrow> cluster_summary \<Rightarrow> dep_error + cluster_summary" where
  "getClusterSummaryWithInstantiatedCharts env cs =
     (case hv_clusterObjects env of
        Some e \<Rightarrow> Inl e
      | None \<Rightarrow>
          (case instantiate_all env (cs_HelmCharts cs) of
             Inl e \<Rightarrow> Inl e
           | Inr charts \<Rightarrow> Inr \<lparr>cs_Meta = zero_object_meta\<lparr>om_Namespace := cs_Namespace cs, om_Name := cs_Name cs\<rparr>,
               cs_Spec = (cs_Spec cs)\<lparr>css_ClusterProfileSpec := (cs_ProfileSpec cs)\<lparr>ps_HelmCharts := Some charts\<rparr>\<rparr>,
               cs_Status = zero_cluster_summary_status\<rparr>))"

definition helmInfo :: "string \<Rightarrow> string \<Rightarrow> string" where
  "helmInfo releaseNamespace releaseName = releaseNamespace @ ''/'' @ releaseName"

definition entry_info :: "helm_chart_summary \<Rightarrow> string" where
  "entry_info s = helmInfo (hs_ReleaseNamespace s) (hs_ReleaseName s)"

definition chart_info :: "helm_chart \<Rightarrow> string" where
  "chart_info chart = helmInfo (hc_ReleaseNamespace chart) (hc_ReleaseName chart)"

section \<open>Entries of the charts of the spec\<close>

definition managing_entry :: "helm_chart \<Rightarrow> cluster_summary \<Rightarrow> helm_chart_summary" where
  "managing_entry chart clusterSummary =
     (let entry = zero_helm_chart_summary\<lparr>hs_ReleaseName := hc_ReleaseName chart, hs_ReleaseNamespace := hc_ReleaseNamespace chart,
            hs_Status := HelmChartStatusManaging,
            hs_FailureMessage := getFailureMessageFromHelmChartSummary chart clusterSummary,
            hs_PatchesHash := getPatchesHashFromHelmChartSummary chart clusterSummary,
            hs_ValuesHash := getValuesHashFromHelmChartSummary chart clusterSummary,
            hs_NeedsRedeploy := getNeedsRedeployFromHelmChartSummary chart clusterSummary\<rparr>
      in case getHelmChartSummary chart clusterSummary of
           None \<Rightarrow> entry
         | Some current \<Rightarrow> entry\<lparr>hs_AppliedContentHash := hs_AppliedContentHash current,
             hs_StagedContentHash := hs_StagedContentHash current\<rparr>)"

definition conflict_entry :: "helm_chart \<Rightarrow> string \<Rightarrow> helm_chart_summary" where
  "conflict_entry chart managerName = zero_helm_chart_summary\<lparr>hs_ReleaseName := hc_ReleaseName chart,
     hs_ReleaseNamespace := hc_ReleaseNamespace chart, hs_Status := HelmChartStatusConflict,
     hs_ConflictMessage := ''ClusterSummary '' @ managerName @ '' managing it''\<rparr>"

text \<open>The loop over the charts: the entries, the releases this summary may manage, and whether there was a conflict.\<close>

fun referenced_entries :: "'e helm_env_scheme \<Rightarrow> cluster_summary \<Rightarrow> cluster_summary \<Rightarrow> helm_chart list \<Rightarrow> helm_world \<Rightarrow>
    (dep_error + helm_chart_summary list \<times> string list \<times> bool) \<times> helm_world" where
  "referenced_entries env clusterSummary current [] w = (Inr ([], [], False), w)"
| "referenced_entries env clusterSummary current (chart # charts) w =
     (case getInstantiatedChartIdentity env chart of
        Inl e \<Rightarrow> (Inl e, w)
      | Inr c \<Rightarrow>
          (case determineChartOwnership env clusterSummary c w of
             (Inl e, w) \<Rightarrow> (Inl e, w)
           | (Inr True, w) \<Rightarrow>
               (case referenced_entries env clusterSummary current charts w of
                  (Inl e, w) \<Rightarrow> (Inl e, w)
                | (Inr (es, refs, conflict), w) \<Rightarrow> (Inr (managing_entry c clusterSummary # es, chart_info c # refs, conflict), w))
           | (Inr False, w) \<Rightarrow>
               (case chart_manager_of current c w of
                  Inl err \<Rightarrow> (Inl (plain_error err), w)
                | Inr managerName \<Rightarrow>
                    (case referenced_entries env clusterSummary current charts w of
                       (Inl e, w) \<Rightarrow> (Inl e, w)
                     | (Inr (es, refs, conflict), w) \<Rightarrow> (Inr (conflict_entry c managerName # es, refs, True), w)))))"

definition buildReferencedHelmReleaseSummaries :: "'e helm_env_scheme \<Rightarrow> cluster_summary \<Rightarrow> cluster_summary \<Rightarrow> helm_world \<Rightarrow>
    (dep_error + helm_chart_summary list \<times> bool) \<times> helm_world" where
  "buildReferencedHelmReleaseSummaries env clusterSummary current w =
     (case referenced_entries env clusterSummary current (cs_HelmCharts current) w of
        (Inl e, w) \<Rightarrow> (Inl e, w)
      | (Inr (summaries, currentlyReferenced, conflict), w) \<Rightarrow>
          (Inr (summaries @ filter (\<lambda>s. hs_Status s = HelmChartStatusManaging \<and> entry_info s \<notin> set currentlyReferenced)
             (cs_HelmReleaseSummaries current), conflict), w))"

text \<open>The state of the retried function: the object it reads into, the conflict flag and the world.\<close>

type_synonym status_state = "cluster_summary \<times> bool \<times> helm_world"

definition referenced_attempt :: "'e helm_env_scheme \<Rightarrow> cluster_summary \<Rightarrow> nat \<Rightarrow> status_state \<Rightarrow> dep_error option \<times> status_state" where
  "referenced_attempt env clusterSummary attempt st =
     (case st of (current, conflict, w) \<Rightarrow>
        case get_summary env attempt (request_of clusterSummary) w of
          Inl e \<Rightarrow> (Some e, current, conflict, w)
        | Inr current \<Rightarrow>
            (case hv_clusterObjects env of
               Some e \<Rightarrow> (Some e, current, conflict, w)
             | None \<Rightarrow>
                 (case buildReferencedHelmReleaseSummaries env clusterSummary current w of
                    (Inl e, w) \<Rightarrow> (Some e, current, False, w)
                  | (Inr (summaries, conflict), w) \<Rightarrow>
                      let current = with_summaries summaries current in
                      (case update_status env attempt current w of (err, w) \<Rightarrow> (err, current, conflict, w)))))"

definition updateStatusForReferencedHelmReleases :: "'e helm_env_scheme \<Rightarrow> cluster_summary \<Rightarrow> helm_world \<Rightarrow>
    dep_error option \<times> status_state" where
  "updateStatusForReferencedHelmReleases env clusterSummary w =
     (if is_dry_run clusterSummary then (None, clusterSummary, False, w)
      else if cs_HelmCharts clusterSummary = [] \<and> cs_HelmReleaseSummaries clusterSummary = [] then (None, clusterSummary, False, w)
      else case oe_chartManager env of
        Some _ \<Rightarrow> (None, clusterSummary, False, w)
      | None \<Rightarrow> RetryOnConflict (referenced_attempt env clusterSummary) (zero_cluster_summary, False, w))"

section \<open>Entries of charts that are gone\<close>

definition inMemoryFailure :: "cluster_summary \<Rightarrow> (string \<times> string option) list" where
  "inMemoryFailure cs = fold (\<lambda>s. AList.update (entry_info s) (hs_FailureMessage s)) (cs_HelmReleaseSummaries cs) []"

definition kept_entries :: "string list \<Rightarrow> (string \<times> string option) list \<Rightarrow> helm_chart_summary list \<Rightarrow> helm_chart_summary list" where
  "kept_entries currentlyReferenced failures summaries =
     map (\<lambda>s. case map_of failures (entry_info s) of None \<Rightarrow> s | Some msg \<Rightarrow> s\<lparr>hs_FailureMessage := msg\<rparr>)
       (filter (\<lambda>s. entry_info s \<in> set currentlyReferenced) summaries)"

definition unreferenced_attempt :: "'e helm_env_scheme \<Rightarrow> cluster_summary \<Rightarrow> string list \<Rightarrow> nat \<Rightarrow> cluster_summary \<times> helm_world \<Rightarrow>
    dep_error option \<times> cluster_summary \<times> helm_world" where
  "unreferenced_attempt env cs currentlyReferenced attempt st =
     (case st of (current, w) \<Rightarrow>
        case get_summary env attempt (request_of cs) w of
          Inl e \<Rightarrow> (Some e, current, w)
        | Inr current \<Rightarrow>
            let current = with_summaries (kept_entries currentlyReferenced (inMemoryFailure cs) (cs_HelmReleaseSummaries current))
                  current
            in (case update_status env attempt current w of (err, w) \<Rightarrow> (err, current, w)))"

definition updateStatusForNonReferencedHelmReleases :: "'e helm_env_scheme \<Rightarrow> cluster_summary \<Rightarrow> helm_world \<Rightarrow>
    dep_error option \<times> cluster_summary \<times> helm_world" where
  "updateStatusForNonReferencedHelmReleases env cs w =
     (if is_dry_run cs then (None, cs, w)
      else case instantiate_all env (cs_HelmCharts cs) of
        Inl e \<Rightarrow> (Some e, cs, w)
      | Inr charts \<Rightarrow>
          (case RetryOnConflict (unreferenced_attempt env cs (map chart_info charts)) (zero_cluster_summary, w) of
             (Some e, _, w) \<Rightarrow> (Some e, cs, w)
           | (None, current, w) \<Rightarrow> (None, current, w)))"

section \<open>After a chart was handled\<close>

fun set_first :: "('a \<Rightarrow> bool) \<Rightarrow> ('a \<Rightarrow> 'a) \<Rightarrow> 'a list \<Rightarrow> 'a list" where
  "set_first p f [] = []"
| "set_first p f (x # xs) = (if p x then f x # xs else x # set_first p f xs)"

text \<open>Changes the object in memory only.\<close>

definition setHelmFailureMessageOnHelmChartSummary :: "cluster_summary \<Rightarrow> helm_chart \<Rightarrow> dep_error option \<Rightarrow> cluster_summary" where
  "setHelmFailureMessageOnHelmChartSummary clusterSummary instantiatedChart err =
     with_summaries (set_first (chart_entry instantiatedChart) (\<lambda>hr. hr\<lparr>hs_FailureMessage := map_option err_Msg err\<rparr>)
       (cs_HelmReleaseSummaries clusterSummary)) clusterSummary"

text \<open>The metric that goes with the outdated version is not modelled.\<close>

definition clearStaleOutdatedVersionInfo :: "helm_chart_summary \<Rightarrow> helm_chart_summary" where
  "clearStaleOutdatedVersionInfo rs = rs\<lparr>hs_LatestVersion := None, hs_LatestPatchVersion := None, hs_LastCheckedTime := None\<rparr>"

definition setResolvedHelmChartIdentity :: "registry_env \<Rightarrow> helm_chart \<Rightarrow> release_info option \<Rightarrow> helm_chart_summary \<Rightarrow> helm_chart_summary" where
  "setResolvedHelmChartIdentity rg requestedChart currentRelease rs =
     (if isReferencingFluxSource requestedChart then rs
      else
        let previousChartVersion = hs_ChartVersion rs;
            rs = rs\<lparr>hs_ChartName := hc_ChartName requestedChart, hs_RepositoryName := hc_RepositoryName requestedChart,
              hs_RepoURL := hc_RepositoryURL requestedChart\<rparr>;
            rs = (case currentRelease of None \<Rightarrow> rs | Some r \<Rightarrow> rs\<lparr>hs_ChartVersion := rel_ChartVersion r\<rparr>);
            rs = (if hs_ChartVersion rs \<noteq> previousChartVersion then clearStaleOutdatedVersionInfo rs else rs);
            rs = rs\<lparr>hs_CredentialsSecretRef := None\<rparr>
        in case hc_RegistryCredentialsConfig requestedChart of
             None \<Rightarrow> rs
           | Some config \<Rightarrow>
               (case rcc_CredentialsSecretRef config of
                  None \<Rightarrow> rs
                | Some secretRef \<Rightarrow>
                    (case rg_Namespace rg (sec_Namespace secretRef) of
                       Inl _ \<Rightarrow> rs
                     | Inr resolvedNamespace \<Rightarrow>
                         rs\<lparr>hs_CredentialsSecretRef := Some \<lparr>sec_Name = sec_Name secretRef, sec_Namespace = resolvedNamespace\<rparr>\<rparr>)))"

definition handled_entry :: "registry_env \<Rightarrow> helm_chart \<Rightarrow> release_info option \<Rightarrow> bytes \<Rightarrow> bytes \<Rightarrow> bool \<Rightarrow> helm_chart_summary \<Rightarrow>
    helm_chart_summary" where
  "handled_entry rg requestedChart currentRelease valuesHash patchesHash isManager rs =
     (let rs = recordHelmChartApply currentRelease (rs\<lparr>hs_ValuesHash := Some valuesHash, hs_PatchesHash := Some patchesHash\<rparr>);
          rs = (if isManager then rs\<lparr>hs_Status := HelmChartStatusManaging, hs_ConflictMessage := []\<rparr> else rs)
      in setResolvedHelmChartIdentity rg requestedChart currentRelease rs)"

definition value_hash_attempt :: "'e helm_env_scheme \<Rightarrow> registry_env \<Rightarrow> cluster_summary \<Rightarrow> helm_chart \<Rightarrow> release_info option \<Rightarrow> bytes \<Rightarrow>
    bytes \<Rightarrow> nat \<Rightarrow> helm_world \<Rightarrow> dep_error option \<times> helm_world" where
  "value_hash_attempt env rg cs requestedChart currentRelease valuesHash patchesHash attempt w =
     (case get_summary env attempt (request_of cs) w of
        Inl e \<Rightarrow> (Some e, w)
      | Inr current \<Rightarrow>
          let isManager = (\<not> is_dry_run cs \<and> CanManageChart cs requestedChart (hw_Mgr w));
              entries = map (\<lambda>rs. if same_release requestedChart rs
                then handled_entry rg requestedChart currentRelease valuesHash patchesHash isManager rs else rs)
                (cs_HelmReleaseSummaries current)
          in update_status env attempt (with_summaries entries current) w)"

definition updateValueHashOnHelmChartSummary :: "'e helm_env_scheme \<Rightarrow> registry_env \<Rightarrow> cluster_summary \<Rightarrow> helm_chart \<Rightarrow> release_info option \<Rightarrow>
    bytes \<Rightarrow> bytes \<Rightarrow> helm_world \<Rightarrow> dep_error option \<times> helm_world" where
  "updateValueHashOnHelmChartSummary env rg cs requestedChart currentRelease valuesHash patchesHash w =
     (case oe_chartManager env of
        Some e \<Rightarrow> (Some e, w)
      | None \<Rightarrow> RetryOnConflict (value_hash_attempt env rg cs requestedChart currentRelease valuesHash patchesHash) w)"

section \<open>The agent's confirmation\<close>

definition confirm_attempt :: "'e ownership_env_scheme \<Rightarrow> request \<Rightarrow> nat \<Rightarrow> helm_world \<Rightarrow> dep_error option \<times> helm_world" where
  "confirm_attempt env req attempt w =
     (case get_summary env attempt req w of
        Inl e \<Rightarrow> (if errors_As e NotFoundError then None else Some e, w)
      | Inr current \<Rightarrow>
          (case confirm_entries (cs_HelmReleaseSummaries current) of
             (entries, changed) \<Rightarrow>
               if \<not> changed then (None, w) else update_status env attempt (with_summaries entries current) w))"

definition confirmAppliedHelmCharts :: "'e ownership_env_scheme \<Rightarrow> cluster_summary \<Rightarrow> helm_world \<Rightarrow> dep_error option \<times> helm_world" where
  "confirmAppliedHelmCharts env clusterSummary w = RetryOnConflict (confirm_attempt env (request_of clusterSummary)) w"

section \<open>Deployed kinds\<close>

text \<open>\<open>GroupVersionKind()\<close> of an object; an API version with two slashes yields the empty one.\<close>

definition gvk_of :: "unstructured \<Rightarrow> gvk" where
  "gvk_of r =
     (case go_split CHR ''/'' (un_APIVersion r) of
        [v] \<Rightarrow> \<lparr>gvk_Group = [], gvk_Version = v, gvk_Kind = un_Kind r\<rparr>
      | [g, v] \<Rightarrow> \<lparr>gvk_Group = g, gvk_Version = v, gvk_Kind = un_Kind r\<rparr>
      | _ \<Rightarrow> \<lparr>gvk_Group = [], gvk_Version = [], gvk_Kind = []\<rparr>)"

record helm_resource_report =
  hrr_Name :: string
  hrr_Namespace :: string
  hrr_Kind :: string
  hrr_Group :: string
  hrr_Version :: string

definition prepareReports :: "unstructured list \<Rightarrow> helm_resource_report list" where
  "prepareReports resources = map (\<lambda>r. \<lparr>hrr_Name = un_Name r, hrr_Namespace = un_Namespace r, hrr_Kind = un_Kind r,
     hrr_Group = gvk_Group (gvk_of r), hrr_Version = gvk_Version (gvk_of r)\<rparr>) resources"

definition distinct_in_order :: "'a list \<Rightarrow> 'a list" where
  "distinct_in_order xs = fold (\<lambda>x acc. if x \<in> set acc then acc else acc @ [x]) xs []"

definition gvk_text :: "gvk \<Rightarrow> string" where
  "gvk_text g = gvk_Kind g @ ''.'' @ gvk_Version g @ ''.'' @ gvk_Group g"

definition tranformGroupVersionKindToString :: "gvk list \<Rightarrow> string list" where
  "tranformGroupVersionKindToString gvks = distinct_in_order (map gvk_text gvks)"

definition appendDeployedGroupVersionKinds :: "cluster_summary \<Rightarrow> gvk list \<Rightarrow> feature_id \<Rightarrow> cluster_summary" where
  "appendDeployedGroupVersionKinds cs gvks featureID =
     (let gs = cst_DeployedGVKs (cs_Status cs);
          texts = tranformGroupVersionKindToString gvks;
          gs = (if list_ex (\<lambda>d. fdi_FeatureID d = featureID) gs
            then set_first (\<lambda>d. fdi_FeatureID d = featureID)
              (\<lambda>d. d\<lparr>fdi_DeployedGroupVersionKind := unique_list (fdi_DeployedGroupVersionKind d @ texts)\<rparr>) gs
            else gs @ [\<lparr>fdi_FeatureID = featureID, fdi_DeployedGroupVersionKind = texts\<rparr>])
      in cs\<lparr>cs_Status := (cs_Status cs)\<lparr>cst_DeployedGVKs := gs\<rparr>\<rparr>)"

definition report_gvk :: "helm_resource_report \<Rightarrow> gvk" where
  "report_gvk r = \<lparr>gvk_Group = hrr_Group r, gvk_Version = hrr_Version r, gvk_Kind = hrr_Kind r\<rparr>"

definition deployed_kinds_attempt :: "'e ownership_env_scheme \<Rightarrow> cluster_summary \<Rightarrow> feature_id \<Rightarrow> helm_resource_report list \<Rightarrow> nat \<Rightarrow>
    cluster_summary \<times> helm_world \<Rightarrow> dep_error option \<times> cluster_summary \<times> helm_world" where
  "deployed_kinds_attempt env cs featureID reports attempt st =
     (case st of (current, w) \<Rightarrow>
        case get_summary env attempt (request_of cs) w of
          Inl e \<Rightarrow> (Some e, current, w)
        | Inr current \<Rightarrow>
            let current = appendDeployedGroupVersionKinds current (distinct_in_order (map report_gvk reports)) featureID
            in (case update_status env attempt current w of (err, w) \<Rightarrow> (err, current, w)))"

definition updateDeployedGroupVersionKind :: "'e ownership_env_scheme \<Rightarrow> cluster_summary \<Rightarrow> feature_id \<Rightarrow> helm_resource_report list \<Rightarrow>
    helm_resource_report list \<Rightarrow> helm_world \<Rightarrow> dep_error option \<times> cluster_summary \<times> helm_world" where
  "updateDeployedGroupVersionKind env cs featureID localResourceReports remoteResourceReports w =
     (let reports = localResourceReports @ remoteResourceReports in
      if reports = [] then (None, cs, w)
      else RetryOnConflict (deployed_kinds_attempt env cs featureID reports) (zero_cluster_summary, w))"

end
