(* ===== verification/Helm_Agent.thy ===== *)
theory Helm_Agent
  imports Helm_Status
begin

text \<open>
  One chart and the whole commit in pull mode (controllers/handlers_helm.go, handlers_utils.go): the action the version on record
  asks for, the content staged for the chart, the stale releases, and what is committed for the agent.

  \<open>charts_world\<close> is the world of a run over all charts: the world of one chart, the temporary files, what is staged and what was last
  committed for the agent, the ClusterConfigurations and the reports of the ClusterReport. Staging, committing and
  discarding are calls of libsveltos: staging appends, a commit replaces what the agent sees by what is staged, and discarding
  drops what is staged.
\<close>

section \<open>World of a run\<close>

record commit_setters =
  cms_DriftDetection :: bool
  cms_Reloader :: bool
  cms_DryRun :: bool
  cms_MaxConsecutiveFailures :: "64 word option"
  cms_LeavePolicies :: bool
  cms_SourceDeleted :: bool
  cms_RequestorHash :: "bytes option"
  cms_Tier :: int
  cms_ContinueOnConflict :: bool
  cms_ContinueOnError :: bool
  cms_DeployChecks :: bool
  cms_DeleteChecks :: bool

record charts_world =
  kw_Helm :: helm_world
  kw_Files :: "string list"
  kw_Staged :: "staged_bundle list"
  kw_Committed :: "(commit_setters \<times> staged_bundle list) option"
  kw_Configs :: configs
  kw_Reports :: "((string \<times> string) \<times> release_report list) list"
  kw_Removing :: bool

record charts_env = helm_env +
  cv_Registry :: registry_env
  cv_Content :: content_env
  cv_sort :: slice_sorter
  cv_Config :: config_env
  cv_Render :: "helm_chart \<Rightarrow> dep_error + helm_rendered \<times> release_info"
  cv_hex :: "bytes \<Rightarrow> string"
  cv_json :: "unstructured \<Rightarrow> string + bytes"
  cv_json_inputs :: "chart_apply_inputs \<Rightarrow> string + bytes"
  cv_TemplateRefs :: "dep_error option"
  cv_DeployJobs :: "dep_error option"
  cv_DeleteJobs :: "dep_error option"
  cv_Commit :: "dep_error option"
  cv_Discard :: "dep_error option"
  cv_Report :: "nat \<Rightarrow> dep_error option"
  cv_Reloader :: "dep_error option"
  cv_PullMode :: "dep_error + bool"
  cv_PreDeploy :: "dep_error option"
  cv_DriftManager :: "dep_error option"
  cv_Connect :: "dep_error option"
  cv_AgentStatus :: "dep_error + agent_status option"
  cv_RemoveDeployed :: "dep_error option"
  cv_UpdateSpec :: "dep_error option"

text \<open>
  \<open>cv_Render\<close> is helm's install in client only mode. \<open>cv_TemplateRefs\<close> is the error of fetching the template resources,
  \<open>cv_DeployJobs\<close> and \<open>cv_DeleteJobs\<close> those of resolving the jobs of checks, \<open>cv_Report\<close> the faults of the calls on the
  ClusterReport by attempt, \<open>cv_Reloader\<close> of the Reloader, \<open>cv_DriftManager\<close> of deploying the drift detection manager and \<open>cv_Connect\<close> of reaching
  the managed cluster. \<open>cv_AgentStatus\<close> is the answer of \<open>GetDeploymentStatus\<close>, \<open>cv_RemoveDeployed\<close> the error of
  \<open>RemoveDeployedResources\<close>, which sets \<open>kw_Removing\<close>, and \<open>cv_UpdateSpec\<close> that of updating a ClusterSummary.
\<close>

definition in_helm :: "(helm_world \<Rightarrow> 'a \<times> helm_world) \<Rightarrow> charts_world \<Rightarrow> 'a \<times> charts_world" where
  "in_helm f kw = (case f (kw_Helm kw) of (r, w) \<Rightarrow> (r, kw\<lparr>kw_Helm := w\<rparr>))"

lemma in_helm_frame:
  assumes "in_helm f kw = (r, kw')"
  shows "kw_Staged kw' = kw_Staged kw" "kw_Committed kw' = kw_Committed kw" "kw_Configs kw' = kw_Configs kw"
    "kw_Reports kw' = kw_Reports kw" "kw_Files kw' = kw_Files kw" "f (kw_Helm kw) = (r, kw_Helm kw')"
  using assms by (auto simp: in_helm_def split: prod.splits)

definition discard_staged :: "'e charts_env_scheme \<Rightarrow> charts_world \<Rightarrow> dep_error option \<times> charts_world" where
  "discard_staged env kw = (case cv_Discard env of Some e \<Rightarrow> (Some e, kw) | None \<Rightarrow> (None, kw\<lparr>kw_Staged := []\<rparr>))"

definition commit_staged :: "'e charts_env_scheme \<Rightarrow> commit_setters \<Rightarrow> charts_world \<Rightarrow> dep_error option \<times> charts_world" where
  "commit_staged env setters kw =
     (case cv_Commit env of
        Some e \<Rightarrow> (Some e, kw)
      | None \<Rightarrow> (None, kw\<lparr>kw_Committed := Some (setters, kw_Staged kw), kw_Staged := []\<rparr>))"

section \<open>Staging one chart\<close>

definition getHelmActionInPullMode :: "'e charts_env_scheme \<Rightarrow> cluster_summary \<Rightarrow> helm_chart \<Rightarrow> helm_world \<Rightarrow> dep_error + pull_action" where
  "getHelmActionInPullMode env clusterSummary instantiatedChart w =
     (case oe_chartManager env of
        Some e \<Rightarrow> Inl e
      | None \<Rightarrow>
          let currentVersion = GetVersionForChart (css_ClusterNamespace (cs_Spec clusterSummary))
                (css_ClusterName (cs_Spec clusterSummary)) instantiatedChart (hw_Mgr w)
          in if currentVersion = [] then Inr ActInstall
             else case hv_version env currentVersion of
               None \<Rightarrow> Inl (plain_error ''invalid semantic version (cached)'')
             | Some currVer \<Rightarrow>
                 (case hv_version env (hc_ChartVersion instantiatedChart) of
                    None \<Rightarrow> Inl (plain_error ''invalid semantic version (spec chartVersion)'')
                  | Some newVer \<Rightarrow>
                      if newVer > currVer then Inr ActUpgrade else if newVer < currVer then Inr ActDowngrade else Inr ActUpgrade))"

text \<open>\<open>handleInstall\<close> with \<open>templateOnly\<close>: the steps of an install that precede the call of helm, then its rendering.\<close>

definition render_release :: "'e charts_env_scheme \<Rightarrow> helm_chart \<Rightarrow> dep_error + helm_rendered \<times> release_info" where
  "render_release env chart =
     (case (if isReferencingFluxSource chart then None else hv_repoAddOrUpdate env chart) of
        Some e \<Rightarrow> Inl e
      | None \<Rightarrow>
          (case hv_values env chart of
             Inl e \<Rightarrow> Inl e
           | Inr _ \<Rightarrow>
               if \<not> isReferencingFluxSource chart \<and> hc_ChartName chart = [] then Inl (plain_error ''chart name can not be empty'')
               else case hv_prepare env chart of Some e \<Rightarrow> Inl e | None \<Rightarrow> cv_Render env chart))"

definition is_deleted :: "cluster_summary \<Rightarrow> bool" where
  "is_deleted cs \<longleftrightarrow> om_DeletionTimestamp (cs_Meta cs) \<noteq> None"

definition agent_uninstall :: "cluster_summary \<Rightarrow> helm_chart \<Rightarrow> bool" where
  "agent_uninstall cs chart \<longleftrightarrow> hc_HelmChartAction chart = HelmChartActionUninstall \<or> is_deleted cs"

definition agent_report :: "cluster_summary \<Rightarrow> helm_chart \<Rightarrow> release_info \<Rightarrow> release_report" where
  "agent_report cs chart helmRelease =
     \<lparr>rr_ReleaseName = rel_ReleaseName helmRelease, rr_ReleaseNamespace = rel_ReleaseNamespace helmRelease,
      rr_ChartVersion = (if agent_uninstall cs chart then hc_ChartVersion chart else []),
      rr_Action = (if agent_uninstall cs chart then UninstallHelmAction else UpgradeHelmAction), rr_Message = []\<rparr>"

definition agent_resources :: "'e charts_env_scheme \<Rightarrow> cluster_summary \<Rightarrow> helm_chart \<Rightarrow> helm_rendered \<Rightarrow> pull_action \<Rightarrow>
    dep_error + unstructured list" where
  "agent_resources env cs chart rendered action =
     (if action = ActUninstall \<and> is_dry_run cs then Inr []
      else collectHelmContent (cv_Content env) rendered action True (getRunTestsValue (hc_Options chart)))"

text \<open>The hash of what is staged and whether the agent may leave the chart alone.\<close>

definition tracked_info :: "'e charts_env_scheme \<Rightarrow> cluster_summary \<Rightarrow> helm_chart \<Rightarrow> pull_action \<Rightarrow> bool \<Rightarrow> unstructured list \<Rightarrow>
    release_info \<Rightarrow> dep_error + release_info" where
  "tracked_info env cs chart action allowSkipApply resources rInfo =
     (if isApplyTracked cs chart (action = ActUninstall) then
        (case getChartApplyHash (hv_sha256 env) (cv_hex env) (cv_json env) (cv_json_inputs env) cs chart (rel_ChartVersion rInfo)
                resources of
           Inl err \<Rightarrow> Inl (plain_error err)
         | Inr h \<Rightarrow> Inr (rInfo\<lparr>rel_applyHash := Some h, rel_skipApply := allowSkipApply \<and> shouldSkipApply cs chart h\<rparr>))
      else Inr rInfo)"

definition stage_chart :: "'e charts_env_scheme \<Rightarrow> helm_chart \<Rightarrow> unstructured list \<Rightarrow> pull_action \<Rightarrow> release_info \<Rightarrow> charts_world \<Rightarrow>
    dep_error option \<times> charts_world" where
  "stage_chart env chart resources action rInfo kw =
     (case stageHelmResourcesForDeployment (cv_Content env) (cv_sort env) chart resources action rInfo (kw_Staged kw) of
        (err, staged) \<Rightarrow> (err, kw\<lparr>kw_Staged := staged\<rparr>))"

definition prepareChartForAgent :: "'e charts_env_scheme \<Rightarrow> cluster_summary \<Rightarrow> helm_chart \<Rightarrow> bool \<Rightarrow> charts_world \<Rightarrow>
    (dep_error + release_info \<times> release_report) \<times> charts_world" where
  "prepareChartForAgent env cs instantiatedChart allowSkipApply kw =
     (case render_release env instantiatedChart of
        Inl e \<Rightarrow> (Inl e, kw)
      | Inr (rendered, helmRelease) \<Rightarrow>
          (case getHelmActionInPullMode env cs instantiatedChart (kw_Helm kw) of
             Inl e \<Rightarrow> (Inl e, kw)
           | Inr helmActionVar \<Rightarrow>
               let rInfo = helmRelease\<lparr>rel_Updated := 0, rel_FullValues := [], rel_applyHash := None, rel_skipApply := False\<rparr>;
                   action = (if agent_uninstall cs instantiatedChart then ActUninstall else helmActionVar)
               in case agent_resources env cs instantiatedChart rendered action of
                    Inl e \<Rightarrow> (Inl e, kw)
                  | Inr resources \<Rightarrow>
                      (case in_helm (\<lambda>w. case updateDeployedGroupVersionKind env cs FeatureHelm [] (prepareReports resources) w of
                              (err, _, w) \<Rightarrow> (err, w)) kw of
                         (Some e, kw) \<Rightarrow> (Inl e, kw)
                       | (None, kw) \<Rightarrow>
                           (case tracked_info env cs instantiatedChart action allowSkipApply resources rInfo of
                              Inl e \<Rightarrow> (Inl e, kw)
                            | Inr rInfo \<Rightarrow>
                                (case stage_chart env instantiatedChart resources action rInfo kw of
                                   (Some e, kw) \<Rightarrow> (Inl e, kw)
                                 | (None, kw) \<Rightarrow> (Inr (rInfo, agent_report cs instantiatedChart helmRelease), kw))))))"

section \<open>Committing\<close>

text \<open>The setters that carry checks and kinds to the agent are represented by whether they are sent.\<close>

definition prepareSetters :: "'e charts_env_scheme \<Rightarrow> cluster_summary \<Rightarrow> bytes option \<Rightarrow> bool \<Rightarrow> bool \<Rightarrow> dep_error + commit_setters" where
  "prepareSetters env cs configurationHash includeDeployChecks includeDeleteChecks =
     (let setters = \<lparr>cms_DriftDetection = (ps_SyncMode (cs_ProfileSpec cs) = SyncModeContinuousWithDriftDetection),
            cms_Reloader = ps_Reloader (cs_ProfileSpec cs), cms_DryRun = is_dry_run cs,
            cms_MaxConsecutiveFailures = ps_MaxConsecutiveFailures (cs_ProfileSpec cs),
            cms_LeavePolicies = (ps_StopMatchingBehavior (cs_ProfileSpec cs) = LeavePolicies), cms_SourceDeleted = is_deleted cs,
            cms_RequestorHash = configurationHash, cms_Tier = cs_Tier cs,
            cms_ContinueOnConflict = ps_ContinueOnConflict (cs_ProfileSpec cs),
            cms_ContinueOnError = ps_ContinueOnError (cs_ProfileSpec cs),
            cms_DeployChecks = includeDeployChecks, cms_DeleteChecks = includeDeleteChecks\<rparr>
      in case (if includeDeployChecks then cv_DeployJobs env else None) of
           Some e \<Rightarrow> Inl e
         | None \<Rightarrow> (case (if includeDeleteChecks then cv_DeleteJobs env else None) of Some e \<Rightarrow> Inl e | None \<Rightarrow> Inr setters))"

text \<open>The managed releases no chart of the spec names.\<close>

definition getStaleReleases :: "'e helm_env_scheme \<Rightarrow> cluster_summary \<Rightarrow> helm_world \<Rightarrow> dep_error + helm_release_info list" where
  "getStaleReleases env clusterSummary w =
     (case oe_chartManager env of
        Some e \<Rightarrow> Inl e
      | None \<Rightarrow>
          (case GetManagedHelmReleases clusterSummary (hw_Mgr w) of
             None \<Rightarrow> Inl panic_error
           | Some managed \<Rightarrow>
               (case hv_clusterObjects env of
                  Some e \<Rightarrow> Inl e
                | None \<Rightarrow>
                    (case instantiate_all env (cs_HelmCharts clusterSummary) of
                       Inl e \<Rightarrow> Inl e
                     | Inr charts \<Rightarrow>
                         Inr (filter (\<lambda>r. GetReleaseKey (hri_Namespace r) (hri_Name r) \<notin> chart_ReleaseKey ` set charts) managed)))))"

definition GetProfileRef :: "'e ownership_env_scheme \<Rightarrow> cluster_summary \<Rightarrow> dep_error + owner_reference" where
  "GetProfileRef env cs = (case GetProfileOwnerReference (oe_group_of env) cs of Inl e \<Rightarrow> Inl (api_err e) | Inr ref \<Rightarrow> Inr ref)"

definition commitStagedResourcesForDeployment :: "'e charts_env_scheme \<Rightarrow> cluster_summary \<Rightarrow> bytes option \<Rightarrow> bool \<Rightarrow> charts_world \<Rightarrow>
    dep_error option \<times> charts_world" where
  "commitStagedResourcesForDeployment env cs configurationHash includeDeployChecks kw =
     (case GetProfileRef env cs of
        Inl e \<Rightarrow> (Some e, kw)
      | Inr _ \<Rightarrow>
          (case getStaleReleases env cs (kw_Helm kw) of
             Inl e \<Rightarrow> (Some e, kw)
           | Inr stale \<Rightarrow>
               (case prepareSetters env cs configurationHash includeDeployChecks (stale \<noteq> []) of
                  Inl e \<Rightarrow> (Some e, kw)
                | Inr setters \<Rightarrow> commit_staged env setters kw)))"

section \<open>One chart\<close>

definition registers_version :: "cluster_summary \<Rightarrow> helm_chart \<Rightarrow> helm_world \<Rightarrow> helm_world" where
  "registers_version cs chart w = w\<lparr>hw_Mgr := RegisterVersionForChart (css_ClusterNamespace (cs_Spec cs))
     (css_ClusterName (cs_Spec cs)) chart (hw_Mgr w)\<rparr>"

text \<open>What follows the registry options, before the deferred removal of the files.\<close>

definition handle_with_options :: "'e charts_env_scheme \<Rightarrow> cluster_summary \<Rightarrow> helm_chart \<Rightarrow> bool \<Rightarrow> bool \<Rightarrow> charts_world \<Rightarrow>
    (dep_error + release_info option \<times> release_report) \<times> charts_world" where
  "handle_with_options env cs instantiatedChart isPullMode allowSkipApply kw =
     (case (case hc_RegistryCredentialsConfig instantiatedChart of
              None \<Rightarrow> None
            | Some config \<Rightarrow>
                if rcc_CredentialsSecretRef config = None then None
                else doLogin (cv_Registry env) (hc_RepositoryURL instantiatedChart)) of
        Some e \<Rightarrow> (Inl e, kw)
      | None \<Rightarrow>
          if isPullMode then
            (case prepareChartForAgent env cs instantiatedChart allowSkipApply kw of
               (Inl e, kw) \<Rightarrow> (Inl e, kw)
             | (Inr (rInfo, report), kw) \<Rightarrow>
                 (case oe_chartManager env of
                    Some e \<Rightarrow> (Inl e, kw)
                  | None \<Rightarrow> (Inr (Some rInfo, report), kw\<lparr>kw_Helm := registers_version cs instantiatedChart (kw_Helm kw)\<rparr>)))
          else in_helm (deployHelmChart env cs instantiatedChart) kw)"

definition handleChart :: "'e charts_env_scheme \<Rightarrow> cluster_summary \<Rightarrow> helm_chart \<Rightarrow> bool \<Rightarrow> bool \<Rightarrow> charts_world \<Rightarrow>
    (dep_error + release_info option \<times> release_report) \<times> charts_world" where
  "handleChart env cs instantiatedChart isPullMode allowSkipApply kw =
     (case createRegistryClientOptions (cv_Registry env) instantiatedChart (kw_Files kw) of
        (Inl e, files) \<Rightarrow> (Inl e, kw\<lparr>kw_Files := files\<rparr>)
      | (Inr ro, files) \<Rightarrow>
          (case handle_with_options env cs instantiatedChart isPullMode allowSkipApply (kw\<lparr>kw_Files := files\<rparr>) of
             (r, kw) \<Rightarrow> (r, kw\<lparr>kw_Files := remove_files ro (kw_Files kw)\<rparr>)))"

end
