(* ===== verification/Helm_Charts.thy ===== *)
theory Helm_Charts
  imports Helm_Agent
begin

text \<open>
  All charts of a ClusterSummary (controllers/handlers_helm.go): the walk that deploys them one by one, with conflicts and errors
  that stop it or are collected, the stale releases, the status, reports and configurations written around it, and the removal
  of the charts in push and in pull mode.

  The object of the ClusterSummary in memory is an argument that is returned where the code changes it.
\<close>

section \<open>Reports\<close>

text \<open>\<open>oe_Get\<close> answers for the manager's ClusterSummary.\<close>

definition getHelmChartConflictManager :: "'e ownership_env_scheme \<Rightarrow> string \<Rightarrow> string \<Rightarrow> helm_world \<Rightarrow> string" where
  "getHelmChartConflictManager env clusterNamespace clusterSummaryManagerName w =
     (let defaultMessage = ''Cannot manage it. Currently managed by different ClusterProfile'' in
      case get_summary env 0 (clusterNamespace, clusterSummaryManagerName) w of
        Inl _ \<Rightarrow> defaultMessage
      | Inr manager_summary \<Rightarrow>
          (case GetProfileOwnerReference (oe_group_of env) manager_summary of
             Inl _ \<Rightarrow> defaultMessage
           | Inr ref \<Rightarrow> ''Cannot manage it. Currently managed by '' @ own_Kind ref @ '' '' @ own_Name ref))"

definition createReportForUnmanagedHelmRelease :: "'e ownership_env_scheme \<Rightarrow> cluster_summary \<Rightarrow> helm_chart \<Rightarrow> helm_world \<Rightarrow>
    dep_error + release_report" where
  "createReportForUnmanagedHelmRelease env clusterSummary currentChart w =
     (case oe_chartManager env of
        Some e \<Rightarrow> Inl e
      | None \<Rightarrow>
          let report = report_for currentChart (hc_ChartVersion currentChart) NoHelmAction [] in
          Inr (case chart_manager_of clusterSummary currentChart w of
                 Inr managerName \<Rightarrow> report\<lparr>rr_Message := getHelmChartConflictManager env
                   (css_ClusterNamespace (cs_Spec clusterSummary)) managerName w, rr_Action := ConflictHelmAction\<rparr>
               | Inl _ \<Rightarrow>
                   if hc_HelmChartAction currentChart = HelmChartActionInstall then report\<lparr>rr_Action := InstallHelmAction\<rparr>
                   else report\<lparr>rr_Message := notInstalledMessage\<rparr>))"

text \<open>The ClusterReport exists if it has an entry in \<open>kw_Reports\<close>; an attempt makes a read and a status update.\<close>

definition report_attempt :: "'e charts_env_scheme \<Rightarrow> string \<times> string \<Rightarrow> release_report list \<Rightarrow> nat \<Rightarrow> charts_world \<Rightarrow>
    dep_error option \<times> charts_world" where
  "report_attempt env key reports attempt kw =
     (case cv_Report env attempt of
        Some e \<Rightarrow> (Some e, kw)
      | None \<Rightarrow>
          (case map_of (kw_Reports kw) key of
             None \<Rightarrow> (Some (api_err ApiNotFound), kw)
           | Some _ \<Rightarrow> (None, kw\<lparr>kw_Reports := AList.update key reports (kw_Reports kw)\<rparr>)))"

definition updateClusterReportWithHelmReports :: "'e charts_env_scheme \<Rightarrow> cluster_summary \<Rightarrow> release_report list \<Rightarrow> charts_world \<Rightarrow>
    dep_error option \<times> charts_world" where
  "updateClusterReportWithHelmReports env cs releaseReports kw =
     (if \<not> is_dry_run cs then (None, kw)
      else case GetProfileRef env cs of
        Inl e \<Rightarrow> (Some e, kw)
      | Inr ref \<Rightarrow>
          let clusterReportName = GetClusterReportName (own_Kind ref) (own_Name ref) (css_ClusterName (cs_Spec cs))
                (css_ClusterType (cs_Spec cs))
          in RetryOnConflict (report_attempt env (css_ClusterNamespace (cs_Spec cs), clusterReportName) releaseReports) kw)"

definition write_charts :: "'e charts_env_scheme \<Rightarrow> cluster_summary \<Rightarrow> owner_reference \<Rightarrow> chart_resource list \<Rightarrow> charts_world \<Rightarrow>
    dep_error option \<times> charts_world" where
  "write_charts env cs profileRef charts kw =
     (case UpdateClusterConfiguration (cv_Config env) (is_dry_run cs) (is_deleted cs) (css_ClusterNamespace (cs_Spec cs))
             (css_ClusterName (cs_Spec cs)) (css_ClusterType (cs_Spec cs)) profileRef FeatureHelm None (Some charts) (kw_Configs kw) of
        (err, store) \<Rightarrow> (err, kw\<lparr>kw_Configs := store\<rparr>))"

definition updateChartsInClusterConfiguration :: "'e charts_env_scheme \<Rightarrow> cluster_summary \<Rightarrow> chart_resource list \<Rightarrow> charts_world \<Rightarrow>
    dep_error option \<times> charts_world" where
  "updateChartsInClusterConfiguration env cs chartDeployed kw =
     (if is_dry_run cs then (None, kw)
      else case GetProfileRef env cs of Inl e \<Rightarrow> (Some e, kw) | Inr ref \<Rightarrow> write_charts env cs ref chartDeployed kw)"

section \<open>One chart of the walk\<close>

record chart_step =
  stp_report :: "release_report option"
  stp_deployedChart :: "chart_resource option"
  stp_conflictMsg :: string
  stp_accumErr :: string

definition wrap_error :: "string \<Rightarrow> dep_error \<Rightarrow> dep_error" where
  "wrap_error prefix e = e\<lparr>err_Msg := prefix @ err_Msg e\<rparr>"

definition conflict_error :: "string \<Rightarrow> dep_error" where
  "conflict_error msg = \<lparr>err_Msg = msg, err_Chain = [NonRetriableError]\<rparr>"

definition unmanaged_step :: "'e charts_env_scheme \<Rightarrow> cluster_summary \<Rightarrow> helm_chart \<Rightarrow> helm_world \<Rightarrow> dep_error + chart_step" where
  "unmanaged_step env cs chart w =
     (case createReportForUnmanagedHelmRelease env cs chart w of
        Inl e \<Rightarrow> Inl e
      | Inr report \<Rightarrow>
          let conflictMsg = generateConflictForHelmChart env cs chart w in
          if ps_ContinueOnConflict (cs_ProfileSpec cs) \<or> is_dry_run cs
          then Inr \<lparr>stp_report = Some report, stp_deployedChart = None, stp_conflictMsg = conflictMsg, stp_accumErr = []\<rparr>
          else Inl (conflict_error conflictMsg))"

definition deployed_chart :: "helm_chart \<Rightarrow> release_info option \<Rightarrow> chart_resource option" where
  "deployed_chart chart currentRelease =
     (case currentRelease of
        None \<Rightarrow> None
      | Some r \<Rightarrow>
          if rel_Status r = StatusDeployed
          then Some \<lparr>ch_RepoURL = hc_RepositoryURL chart, ch_ReleaseName = rel_ReleaseName r, ch_Namespace = rel_ReleaseNamespace r,
                 ch_ChartVersion = rel_ChartVersion r, ch_AppVersion = rel_AppVersion r, ch_Icon = rel_Icon r,
                 ch_LastAppliedTime = Some (rel_Updated r)\<rparr>
          else None)"

text \<open>Taking the hashes and handling the chart, then the outcome in the object in memory and in the status.\<close>

definition manage_step :: "'e charts_env_scheme \<Rightarrow> cluster_summary \<Rightarrow> helm_chart \<Rightarrow> bool \<Rightarrow> bool \<Rightarrow> charts_world \<Rightarrow>
    (dep_error + chart_step) \<times> cluster_summary \<times> charts_world" where
  "manage_step env cs chart isPullMode handover kw =
     (let (outcome, kw) = (case getHelmChartHashes env chart of
            Inl e \<Rightarrow> (Inl e, kw)
          | Inr hashes \<Rightarrow>
              (case handleChart env cs chart isPullMode (\<not> handover) kw of
                 (Inl e, kw) \<Rightarrow> (Inl e, kw)
               | (Inr (currentRelease, report), kw) \<Rightarrow> (Inr (hashes, currentRelease, report), kw)));
          cs = setHelmFailureMessageOnHelmChartSummary cs chart (case outcome of Inl e \<Rightarrow> Some e | Inr _ \<Rightarrow> None)
      in case outcome of
           Inl e \<Rightarrow>
             let e = wrap_error (''chart='' @ hc_ChartName chart @ '', releaseNamespace='' @ hc_ReleaseNamespace chart @
                   '', releaseName='' @ hc_ReleaseName chart @ '': '') e
             in if ps_ContinueOnError (cs_ProfileSpec cs)
                then (Inr \<lparr>stp_report = None, stp_deployedChart = None, stp_conflictMsg = [], stp_accumErr = err_Msg e @ [CHR 0x0A]\<rparr>,
                      cs, kw)
                else (Inl e, cs, kw)
         | Inr ((valueHash, patchesHash), currentRelease, report) \<Rightarrow>
             (case in_helm (updateValueHashOnHelmChartSummary env (cv_Registry env) cs chart currentRelease valueHash patchesHash) kw of
                (Some e, kw) \<Rightarrow> (Inl e, cs, kw)
              | (None, kw) \<Rightarrow>
                  (Inr \<lparr>stp_report = Some report, stp_deployedChart = deployed_chart chart currentRelease, stp_conflictMsg = [],
                     stp_accumErr = []\<rparr>, cs, kw)))"

definition yielded_error :: "helm_chart \<Rightarrow> dep_error" where
  "yielded_error chart = plain_error (''chart '' @ hc_ReleaseNamespace chart @ ''/'' @ hc_ReleaseName chart @
     '' yielded to lower-tier profile; will re-evaluate ownership after handover'')"

definition deploySingleChart :: "'e charts_env_scheme \<Rightarrow> cluster_summary \<Rightarrow> helm_chart \<Rightarrow> bool \<Rightarrow> charts_world \<Rightarrow>
    (dep_error + chart_step) \<times> cluster_summary \<times> charts_world" where
  "deploySingleChart env cs currentChart isPullMode kw =
     (case getInstantiatedChartIdentity env currentChart of
        Inl e \<Rightarrow> (Inl e, cs, kw)
      | Inr chart \<Rightarrow>
          (case in_helm (canManageChart env cs chart) kw of
             (Inl e, kw) \<Rightarrow> (Inl e, cs, kw)
           | (Inr False, kw) \<Rightarrow> (unmanaged_step env cs chart (kw_Helm kw), cs, kw)
           | (Inr True, kw) \<Rightarrow>
               (case in_helm (requeueLowerTierChallengers env cs chart False) kw of
                  (Inl e, kw) \<Rightarrow> (Inl e, cs, kw)
                | (Inr handover, kw) \<Rightarrow>
                    if handover \<and> \<not> isPullMode then (Inl (yielded_error chart), cs, kw)
                    else manage_step env cs chart isPullMode handover kw)))"

section \<open>The walk\<close>

record walk_result =
  wk_Reports :: "release_report list"
  wk_Deployed :: "chart_resource list"
  wk_ErrorMsg :: string
  wk_ConflictMsg :: string
  wk_Fatal :: "dep_error option"

definition add_step :: "chart_step \<Rightarrow> walk_result \<Rightarrow> walk_result" where
  "add_step step res = res\<lparr>wk_Reports := wk_Reports res @ (case stp_report step of None \<Rightarrow> [] | Some r \<Rightarrow> [r]),
     wk_Deployed := wk_Deployed res @ (case stp_deployedChart step of None \<Rightarrow> [] | Some c \<Rightarrow> [c]),
     wk_ConflictMsg := wk_ConflictMsg res @ stp_conflictMsg step, wk_ErrorMsg := wk_ErrorMsg res @ stp_accumErr step\<rparr>"

fun walk_charts :: "'e charts_env_scheme \<Rightarrow> bool \<Rightarrow> helm_chart list \<Rightarrow> walk_result \<Rightarrow> cluster_summary \<Rightarrow> charts_world \<Rightarrow>
    walk_result \<times> cluster_summary \<times> charts_world" where
  "walk_charts env isPullMode [] res cs kw = (res, cs, kw)"
| "walk_charts env isPullMode (chart # charts) res cs kw =
     (case deploySingleChart env cs chart isPullMode kw of
        (Inl e, cs, kw) \<Rightarrow> (res\<lparr>wk_Fatal := Some e\<rparr>, cs, kw)
      | (Inr step, cs, kw) \<Rightarrow> walk_charts env isPullMode charts (add_step step res) cs kw)"

definition walk_error :: "walk_result \<Rightarrow> dep_error option" where
  "walk_error res =
     (case wk_Fatal res of
        Some e \<Rightarrow> Some e
      | None \<Rightarrow>
          if wk_ErrorMsg res \<noteq> [] then Some (plain_error (wk_ErrorMsg res))
          else if wk_ConflictMsg res \<noteq> [] then Some (conflict_error (wk_ConflictMsg res)) else None)"

definition empty_walk :: walk_result where
  "empty_walk = \<lparr>wk_Reports = [], wk_Deployed = [], wk_ErrorMsg = [], wk_ConflictMsg = [], wk_Fatal = None\<rparr>"

definition walkChartsAndDeploy :: "'e charts_env_scheme \<Rightarrow> cluster_summary \<Rightarrow> bool \<Rightarrow> charts_world \<Rightarrow>
    (release_report list \<times> chart_resource list \<times> dep_error option) \<times> cluster_summary \<times> charts_world" where
  "walkChartsAndDeploy env cs isPullMode kw =
     (case walk_charts env isPullMode (cs_HelmCharts cs) empty_walk cs kw of
        (res, cs, kw) \<Rightarrow> ((wk_Reports res, wk_Deployed res, walk_error res), cs, kw))"

section \<open>Stale releases\<close>

definition uninstall_report :: "string \<Rightarrow> string \<Rightarrow> release_report" where
  "uninstall_report namespace name = \<lparr>rr_ReleaseName = name, rr_ReleaseNamespace = namespace, rr_ChartVersion = [],
     rr_Action = UninstallHelmAction, rr_Message = []\<rparr>"

fun undeploy_releases :: "'e helm_env_scheme \<Rightarrow> cluster_summary \<Rightarrow> helm_release_info list \<Rightarrow> helm_world \<Rightarrow>
    (dep_error + release_report list) \<times> helm_world" where
  "undeploy_releases env cs [] w = (Inr [], w)"
| "undeploy_releases env cs (r # rs) w =
     (case getReleaseInfo env (hri_Name r) (hri_Namespace r) w of
        Inl e \<Rightarrow> if errors_As e ErrReleaseNotFound then undeploy_releases env cs rs w else (Inl e, w)
      | Inr _ \<Rightarrow>
          let registered = registered_for cs (release_chart r) w in
          if \<not> is_dry_run cs \<and> length registered > 1 then
            (case yield_registration env cs (release_chart r) registered w of
               (Some e, w) \<Rightarrow> (Inl e, w)
             | (None, w) \<Rightarrow> undeploy_releases env cs rs w)
          else
            (case uninstallRelease env cs (hri_Name r) (hri_Namespace r) w of
               (Some e, w) \<Rightarrow> (Inl e, w)
             | (None, w) \<Rightarrow>
                 (case undeploy_releases env cs rs w of
                    (Inl e, w) \<Rightarrow> (Inl e, w)
                  | (Inr reports, w) \<Rightarrow> (Inr (uninstall_report (hri_Namespace r) (hri_Name r) # reports), w))))"

definition undeployStaleReleases :: "'e helm_env_scheme \<Rightarrow> cluster_summary \<Rightarrow> helm_world \<Rightarrow>
    (dep_error + release_report list) \<times> helm_world" where
  "undeployStaleReleases env cs w =
     (case getStaleReleases env cs w of Inl e \<Rightarrow> (Inl e, w) | Inr stale \<Rightarrow> undeploy_releases env cs stale w)"

section \<open>Deploying all charts\<close>

text \<open>The tail of the run in push mode: stale releases, registrations, configurations, reports.\<close>

definition finish_push :: "'e charts_env_scheme \<Rightarrow> cluster_summary \<Rightarrow> release_report list \<Rightarrow> chart_resource list \<Rightarrow> charts_world \<Rightarrow>
    dep_error option \<times> charts_world" where
  "finish_push env cs releaseReports chartDeployed kw =
     (case in_helm (undeployStaleReleases env cs) kw of
        (Inl e, kw) \<Rightarrow> (Some e, kw)
      | (Inr undeployedReports, kw) \<Rightarrow>
          (case (if is_dry_run cs then (None, kw)
                 else case oe_chartManager env of
                   Some e \<Rightarrow> (Some e, kw)
                 | None \<Rightarrow>
                     (case getClusterSummaryWithInstantiatedCharts env cs of
                        Inl e \<Rightarrow> (Some e, kw)
                      | Inr csCopy \<Rightarrow> (None, kw\<lparr>kw_Helm := (kw_Helm kw)\<lparr>hw_Mgr := RemoveStaleRegistrations csCopy (hw_Mgr (kw_Helm kw))\<rparr>\<rparr>))) of
             (Some e, kw) \<Rightarrow> (Some e, kw)
           | (None, kw) \<Rightarrow>
               (case updateChartsInClusterConfiguration env cs chartDeployed kw of
                  (Some e, kw) \<Rightarrow> (Some e, kw)
                | (None, kw) \<Rightarrow> updateClusterReportWithHelmReports env cs (releaseReports @ undeployedReports) kw)))"

definition finish_pull :: "'e charts_env_scheme \<Rightarrow> cluster_summary \<Rightarrow> bytes option \<Rightarrow> dep_error option \<Rightarrow> release_report list \<Rightarrow>
    charts_world \<Rightarrow> dep_error option \<times> charts_world" where
  "finish_pull env cs configurationHash deployError releaseReports kw =
     (case (if deployError = None \<or> is_dry_run cs then commitStagedResourcesForDeployment env cs configurationHash True kw
            else (None, snd (discard_staged env kw))) of
        (Some e, kw) \<Rightarrow> (Some e, kw)
      | (None, kw) \<Rightarrow> updateClusterReportWithHelmReports env cs releaseReports kw)"

definition dry_run_error :: dep_error where
  "dry_run_error = \<lparr>err_Msg = ''mode is DryRun. Nothing is reconciled'', err_Chain = [DryRunReconciliationError]\<rparr>"

text \<open>What follows the walk, with its reports, the deployed charts and its error.\<close>

definition finish_charts :: "'e charts_env_scheme \<Rightarrow> cluster_summary \<Rightarrow> bool \<Rightarrow> bytes option \<Rightarrow>
    release_report list \<times> chart_resource list \<times> dep_error option \<Rightarrow> charts_world \<Rightarrow> dep_error option \<times> charts_world" where
  "finish_charts env cs isPullMode configurationHash walked kw =
     (case walked of (releaseReports, chartDeployed, deployError) \<Rightarrow>
        case in_helm (\<lambda>w. case updateStatusForNonReferencedHelmReleases env cs w of (err, cs, w) \<Rightarrow> ((err, cs), w)) kw of
          ((Some e, _), kw) \<Rightarrow> (Some e, kw)
        | ((None, cs), kw) \<Rightarrow>
            (case (if isPullMode then finish_pull env cs configurationHash deployError releaseReports kw
                   else finish_push env cs releaseReports chartDeployed kw) of
               (Some e, kw) \<Rightarrow> (Some e, kw)
             | (None, kw) \<Rightarrow> (if is_dry_run cs then Some dry_run_error else deployError, kw)))"

definition handleCharts :: "'e charts_env_scheme \<Rightarrow> cluster_summary \<Rightarrow> bool \<Rightarrow> bytes option \<Rightarrow> charts_world \<Rightarrow>
    dep_error option \<times> charts_world" where
  "handleCharts env clusterSummary isPullMode configurationHash kw =
     (case in_helm (\<lambda>w. case updateStatusForReferencedHelmReleases env clusterSummary w of (err, cs, _, w) \<Rightarrow> ((err, cs), w)) kw of
        ((Some e, _), kw) \<Rightarrow> (Some e, kw)
      | ((None, cs), kw) \<Rightarrow>
          (case hv_clusterObjects env of
             Some e \<Rightarrow> (Some e, kw)
           | None \<Rightarrow>
               (case walkChartsAndDeploy env cs isPullMode kw of
                  (walked, cs, kw) \<Rightarrow> finish_charts env cs isPullMode configurationHash walked kw)))"

text \<open>The ClusterSummary is read with the client of the manager, then the cluster is looked up. The steps that follow the charts in push
  mode concern resource summaries and health checks and are not modelled; \<open>post\<close> is their error.\<close>

definition getClusterSummaryAndClusterClient :: "'e charts_env_scheme \<Rightarrow> request \<Rightarrow> helm_world \<Rightarrow> dep_error + cluster_summary" where
  "getClusterSummaryAndClusterClient env req w =
     (case get_summary env 0 req w of
        Inl e \<Rightarrow> Inl e
      | Inr cs \<Rightarrow>
          if is_deleted cs then Inl (plain_error ''clustersummary is marked for deletion'')
          else case oe_GetCluster env of
            Inl err \<Rightarrow> Inl (api_err err)
          | Inr (deleted, _) \<Rightarrow>
              if deleted then Inl (plain_error ''cluster is marked for deletion'')
              else case cv_Connect env of Some e \<Rightarrow> Inl e | None \<Rightarrow> Inr cs)"

definition deployHelmCharts :: "'e charts_env_scheme \<Rightarrow> (cluster_summary \<Rightarrow> dep_error option) \<Rightarrow> request \<Rightarrow> bytes option \<Rightarrow> charts_world \<Rightarrow>
    dep_error option \<times> charts_world" where
  "deployHelmCharts env post req configurationHash kw =
     (case getClusterSummaryAndClusterClient env req (kw_Helm kw) of
        Inl e \<Rightarrow> (Some e, kw)
      | Inr cs \<Rightarrow>
          (case cv_PullMode env of
             Inl e \<Rightarrow> (Some e, kw)
           | Inr isPullMode \<Rightarrow>
               (case (if isPullMode then discard_staged env kw else (cv_Connect env, kw)) of
                  (Some e, kw) \<Rightarrow> (Some e, kw)
                | (None, kw) \<Rightarrow>
                    (case (if ps_SyncMode (cs_ProfileSpec cs) = SyncModeContinuousWithDriftDetection then cv_DriftManager env else None) of
                       Some e \<Rightarrow> (Some e, kw)
                     | None \<Rightarrow>
                         (case cv_TemplateRefs env of
                            Some e \<Rightarrow> (Some e, kw)
                          | None \<Rightarrow>
                              (case (if isPullMode then None else cv_PreDeploy env) of
                                 Some e \<Rightarrow> (Some (wrap_error ''failed to validate preDeployChecks: '' e), kw)
                               | None \<Rightarrow>
                                   (case handleCharts env cs isPullMode configurationHash kw of
                                      (Some e, kw) \<Rightarrow> (Some e, kw)
                                    | (None, kw) \<Rightarrow> (if isPullMode then None else post cs, kw))))))))"

section \<open>Removing all charts in push mode\<close>

text \<open>The release is looked up with the credentials of the chart; their files are not removed. An error \<open>ErrReleaseNotFound\<close> counts as
  no release and as removed.\<close>

definition remove_release :: "'e charts_env_scheme \<Rightarrow> cluster_summary \<Rightarrow> helm_chart \<Rightarrow> charts_world \<Rightarrow> dep_error option \<times> charts_world" where
  "remove_release env cs chart kw =
     (case getCredentialsAndCAFiles (cv_Registry env) chart (kw_Files kw) of
        (Inl e, files) \<Rightarrow> (Some e, kw\<lparr>kw_Files := files\<rparr>)
      | (Inr _, files) \<Rightarrow>
          (let kw = kw\<lparr>kw_Files := files\<rparr> in
           case current_release env chart (kw_Helm kw) of
             Inl e \<Rightarrow> (Some e, kw)
           | Inr None \<Rightarrow> (None, kw)
           | Inr (Some r) \<Rightarrow>
               if rel_Status r = StatusUninstalled then (None, kw)
               else (case in_helm (doUninstallRelease env cs chart) kw of
                  (None, kw) \<Rightarrow> (None, kw)
                | (Some e, kw) \<Rightarrow> (if errors_As e ErrReleaseNotFound then None else Some e, kw))))"

definition managed_elsewhere :: string where
  "managed_elsewhere = ''Currently managed by another ClusterProfile''"

fun uninstall_charts :: "'e charts_env_scheme \<Rightarrow> cluster_summary \<Rightarrow> helm_chart list \<Rightarrow> charts_world \<Rightarrow>
    (dep_error + release_report list) \<times> charts_world" where
  "uninstall_charts env cs [] kw = (Inr [], kw)"
| "uninstall_charts env cs (currentChart # charts) kw =
     (case getInstantiatedChartIdentity env currentChart of
        Inl e \<Rightarrow> (Inl e, kw)
      | Inr chart \<Rightarrow>
          (case in_helm (canUninstallHelmChart env cs chart) kw of
             (Inl e, kw) \<Rightarrow> (Inl e, kw)
           | (Inr canUninstall, kw) \<Rightarrow>
               (case (if canUninstall \<and> \<not> isLeavePolicies cs then remove_release env cs chart kw else (None, kw)) of
                  (Some e, kw) \<Rightarrow> (Inl e, kw)
                | (None, kw) \<Rightarrow>
                    (case uninstall_charts env cs charts kw of
                       (Inl e, kw) \<Rightarrow> (Inl e, kw)
                     | (Inr reports, kw) \<Rightarrow>
                         (Inr ((if canUninstall then uninstall_report (hc_ReleaseNamespace chart) (hc_ReleaseName chart)
                            else (uninstall_report (hc_ReleaseNamespace chart) (hc_ReleaseName chart))
                              \<lparr>rr_Action := NoHelmAction, rr_Message := managed_elsewhere\<rparr>) # reports), kw)))))"

definition template_refs_needed :: "'e charts_env_scheme \<Rightarrow> dep_error option" where
  "template_refs_needed env =
     (case cv_TemplateRefs env of None \<Rightarrow> None | Some e \<Rightarrow> if errors_As e NotFoundError then None else Some e)"

text \<open>The charts are removed in the reverse of their order.\<close>

definition uninstallHelmCharts :: "'e charts_env_scheme \<Rightarrow> cluster_summary \<Rightarrow> charts_world \<Rightarrow>
    (dep_error + release_report list) \<times> charts_world" where
  "uninstallHelmCharts env cs kw =
     (case template_refs_needed env of
        Some e \<Rightarrow> (Inl e, kw)
      | None \<Rightarrow>
          (case oe_chartManager env of
             Some e \<Rightarrow> (Inl e, kw)
           | None \<Rightarrow>
               (case GetManagedHelmReleases cs (hw_Mgr (kw_Helm kw)) of
                  None \<Rightarrow> (Inl panic_error, kw)
                | Some [] \<Rightarrow> (Inr [], kw\<lparr>kw_Helm := (kw_Helm kw)\<lparr>hw_Mgr := RemoveAllRegistrations cs (hw_Mgr (kw_Helm kw))\<rparr>\<rparr>)
                | Some _ \<Rightarrow>
                    (case hv_clusterObjects env of
                       Some e \<Rightarrow> (Inl e, kw)
                     | None \<Rightarrow> uninstall_charts env cs (rev (cs_HelmCharts cs)) kw))))"

text \<open>The registrations of the charts are dropped only when everything before succeeded.\<close>

definition finish_undeploy :: "'e charts_env_scheme \<Rightarrow> cluster_summary \<Rightarrow> release_report list \<Rightarrow> charts_world \<Rightarrow>
    dep_error option \<times> charts_world" where
  "finish_undeploy env cs releaseReports kw =
     (case GetProfileRef env cs of
        Inl e \<Rightarrow> (Some e, kw)
      | Inr ref \<Rightarrow>
          (case cv_Reloader env of
             Some e \<Rightarrow> (Some e, kw)
           | None \<Rightarrow>
               (case write_charts env cs ref [] kw of
                  (Some e, kw) \<Rightarrow> (Some e, kw)
                | (None, kw) \<Rightarrow>
                    (case updateClusterReportWithHelmReports env cs releaseReports kw of
                       (Some e, kw) \<Rightarrow> (Some e, kw)
                     | (None, kw) \<Rightarrow>
                         (case oe_chartManager env of
                            Some e \<Rightarrow> (Some e, kw)
                          | None \<Rightarrow>
                              (case getClusterSummaryWithInstantiatedCharts env cs of
                                 Inl e \<Rightarrow> (Some e, kw)
                               | Inr csCopy \<Rightarrow>
                                   if \<not> is_dry_run cs
                                   then (None, kw\<lparr>kw_Helm := (kw_Helm kw)\<lparr>hw_Mgr := RemoveStaleRegistrations csCopy (hw_Mgr (kw_Helm kw))\<rparr>\<rparr>)
                                   else (Some dry_run_error, kw)))))))"

definition undeployHelmChartResources :: "'e charts_env_scheme \<Rightarrow> cluster_summary \<Rightarrow> charts_world \<Rightarrow> dep_error option \<times> charts_world" where
  "undeployHelmChartResources env cs kw =
     (case hv_preDelete env of
        Some e \<Rightarrow> (Some e, kw)
      | None \<Rightarrow>
          (case uninstallHelmCharts env cs kw of
             (Inl e, kw) \<Rightarrow> (Some e, kw)
           | (Inr releaseReports, kw) \<Rightarrow>
               (case hv_postDelete env of
                  Some e \<Rightarrow> (Some e, kw)
                | None \<Rightarrow>
                    (case in_helm (undeployStaleReleases env cs) kw of
                       (Inl e, kw) \<Rightarrow> (Some e, kw)
                     | (Inr undeployedReports, kw) \<Rightarrow> finish_undeploy env cs (releaseReports @ undeployedReports) kw))))"

section \<open>Removing all charts in pull mode\<close>

definition clearRegisteredChartVersions :: "'e ownership_env_scheme \<Rightarrow> cluster_summary \<Rightarrow> helm_world \<Rightarrow> dep_error option \<times> helm_world" where
  "clearRegisteredChartVersions env cs w =
     (case oe_chartManager env of
        Some e \<Rightarrow> (Some e, w)
      | None \<Rightarrow>
          (case GetManagedHelmReleases cs (hw_Mgr w) of
             None \<Rightarrow> (Some panic_error, w)
           | Some managed \<Rightarrow> (None, w\<lparr>hw_Mgr := fold (\<lambda>r. UnregisterVersionForChart (css_ClusterNamespace (cs_Spec cs))
               (css_ClusterName (cs_Spec cs)) (hri_Namespace r) (hri_Name r)) managed (hw_Mgr w)\<rparr>)))"

definition MaxTier :: int where "MaxTier = 2147483647"

definition with_tier :: "int \<Rightarrow> cluster_summary \<Rightarrow> cluster_summary" where
  "with_tier tier cs = cs\<lparr>cs_Spec := (cs_Spec cs)\<lparr>css_ClusterProfileSpec := (cs_ProfileSpec cs)\<lparr>ps_Tier := tier\<rparr>\<rparr>\<rparr>"

text \<open>The update writes the spec of the object to the store.\<close>

definition raise_tier :: "'e charts_env_scheme \<Rightarrow> cluster_summary \<Rightarrow> charts_world \<Rightarrow> dep_error option \<times> cluster_summary \<times> charts_world" where
  "raise_tier env cs kw =
     (if cs_Tier cs = MaxTier then (None, cs, kw)
      else
        let cs = with_tier MaxTier cs in
        case cv_UpdateSpec env of
          Some e \<Rightarrow> (Some e, cs, kw)
        | None \<Rightarrow> (None, cs, kw\<lparr>kw_Helm := (kw_Helm kw)\<lparr>hw_Store :=
            map (\<lambda>x. if request_of x = request_of cs then x\<lparr>cs_Spec := cs_Spec cs\<rparr> else x) (hw_Store (kw_Helm kw))\<rparr>\<rparr>))"

text \<open>A chart that others are registered for is handed over; the error of requeueing them is only logged.\<close>

definition hand_over_chart :: "'e charts_env_scheme \<Rightarrow> cluster_summary \<Rightarrow> helm_chart \<Rightarrow> string list \<Rightarrow> charts_world \<Rightarrow>
    dep_error option \<times> cluster_summary \<times> charts_world" where
  "hand_over_chart env cs chart registered kw =
     (case raise_tier env cs kw of
        (Some e, cs, kw) \<Rightarrow> (Some e, cs, kw)
      | (None, cs, kw) \<Rightarrow>
          (case handleChart env cs chart True False kw of
             (Inl e, kw) \<Rightarrow> (Some e, cs, kw)
           | (Inr _, kw) \<Rightarrow> (None, cs, snd (in_helm (yield_registration env cs chart registered) kw))))"

fun walk_undeploy :: "'e charts_env_scheme \<Rightarrow> helm_chart list \<Rightarrow> bool \<Rightarrow> cluster_summary \<Rightarrow> charts_world \<Rightarrow>
    (dep_error + bool) \<times> cluster_summary \<times> charts_world" where
  "walk_undeploy env [] handover cs kw = (Inr handover, cs, kw)"
| "walk_undeploy env (currentChart # charts) handover cs kw =
     (case getInstantiatedChartIdentity env currentChart of
        Inl e \<Rightarrow> (Inl e, cs, kw)
      | Inr chart \<Rightarrow>
          (case in_helm (determineChartOwnership env cs chart) kw of
             (Inl e, kw) \<Rightarrow> (Inl e, cs, kw)
           | (Inr False, kw) \<Rightarrow> walk_undeploy env charts handover cs kw
           | (Inr True, kw) \<Rightarrow>
               let registered = registered_for cs chart (kw_Helm kw) in
               if length registered > 1 then
                 (case hand_over_chart env cs chart registered kw of
                    (Some e, cs, kw) \<Rightarrow> (Inl e, cs, kw)
                  | (None, cs, kw) \<Rightarrow> walk_undeploy env charts True cs kw)
               else
                 (case handleChart env cs chart True False kw of
                    (Inl e, kw) \<Rightarrow> (Inl e, cs, kw)
                  | (Inr _, kw) \<Rightarrow> walk_undeploy env charts handover cs kw)))"

definition hand_over_error :: dep_error where
  "hand_over_error = \<lparr>err_Msg = ''ClusterSummary tier adjusted to yield Helm chart management. Conflicting ClusterSummaries requeued.'',
     err_Chain = [HandOverError]\<rparr>"

definition finalizeHelmUndeploy :: "'e charts_env_scheme \<Rightarrow> cluster_summary \<Rightarrow> bool \<Rightarrow> charts_world \<Rightarrow> dep_error option \<times> charts_world" where
  "finalizeHelmUndeploy env cs handover kw =
     (case commitStagedResourcesForDeployment env cs None False kw of
        (Some e, kw) \<Rightarrow> (Some e, kw)
      | (None, kw) \<Rightarrow> (if handover then Some hand_over_error else None, kw))"

definition walkAndUndeployHelmChartsInPullMode :: "'e charts_env_scheme \<Rightarrow> cluster_summary \<Rightarrow> charts_world \<Rightarrow>
    dep_error option \<times> charts_world" where
  "walkAndUndeployHelmChartsInPullMode env cs kw =
     (case oe_chartManager env of
        Some e \<Rightarrow> (Some e, kw)
      | None \<Rightarrow>
          (case hv_clusterObjects env of
             Some e \<Rightarrow> (Some e, kw)
           | None \<Rightarrow>
               (case walk_undeploy env (cs_HelmCharts cs) False cs kw of
                  (Inl e, cs, kw) \<Rightarrow> (Some e, kw)
                | (Inr handover, cs, kw) \<Rightarrow> finalizeHelmUndeploy env cs handover kw)))"

definition handleProvisionedStatusInPullMode :: "'e charts_env_scheme \<Rightarrow> cluster_summary \<Rightarrow> charts_world \<Rightarrow>
    dep_error option \<times> charts_world" where
  "handleProvisionedStatusInPullMode env cs kw =
     (case in_helm (clearRegisteredChartVersions env cs) kw of
        (Some e, kw) \<Rightarrow> (Some e, kw)
      | (None, kw) \<Rightarrow>
          (case cv_RemoveDeployed env of Some e \<Rightarrow> (Some e, kw) | None \<Rightarrow> (None, kw\<lparr>kw_Removing := True\<rparr>)))"

definition undeployHelmChartsInPullMode :: "'e charts_env_scheme \<Rightarrow> cluster_summary \<Rightarrow> charts_world \<Rightarrow> dep_error option \<times> charts_world" where
  "undeployHelmChartsInPullMode env cs kw =
     (case discard_staged env kw of
        (Some e, kw) \<Rightarrow> (Some e, kw)
      | (None, kw) \<Rightarrow>
          (case GetProfileRef env cs of
             Inl e \<Rightarrow> (Some e, kw)
           | Inr _ \<Rightarrow>
               (case prepareSetters env cs None False True of
                  Inl e \<Rightarrow> (Some e, kw)
                | Inr _ \<Rightarrow>
                    (case cv_AgentStatus env of
                       Inl e \<Rightarrow>
                         if errors_As e NotFoundError then walkAndUndeployHelmChartsInPullMode env cs kw
                         else if errors_As e ActionNotSetToDeploy then (None, kw) else (Some e, kw)
                     | Inr status \<Rightarrow>
                         (case Option.bind status ags_DeploymentStatus of
                            Some FeatureStatusProvisioned \<Rightarrow> handleProvisionedStatusInPullMode env cs kw
                          | Some FeatureStatusProvisioning \<Rightarrow> (None, kw)
                          | _ \<Rightarrow> walkAndUndeployHelmChartsInPullMode env cs kw)))))"

definition undeployHelmCharts :: "'e charts_env_scheme \<Rightarrow> request \<Rightarrow> charts_world \<Rightarrow> dep_error option \<times> charts_world" where
  "undeployHelmCharts env req kw =
     (case get_summary env 0 req (kw_Helm kw) of
        Inl e \<Rightarrow> (if errors_As e NotFoundError then None else Some e, kw)
      | Inr cs \<Rightarrow>
          (case cv_PullMode env of
             Inl e \<Rightarrow> (Some e, kw)
           | Inr isPullMode \<Rightarrow>
               (case (if isPullMode then None else cv_Connect env) of
                  Some e \<Rightarrow> (Some e, kw)
                | None \<Rightarrow>
                    (case template_refs_needed env of
                       Some e \<Rightarrow> (Some e, kw)
                     | None \<Rightarrow> if isPullMode then undeployHelmChartsInPullMode env cs kw else undeployHelmChartResources env cs kw))))"

end
