(* ===== verification/Chart_Runs.thy ===== *)
theory Chart_Runs
  imports Helm_Charts
begin

text \<open>
  What a run over all charts (Helm_Charts) guarantees and what it does not: a dry run changes no release, registration or
  configuration but does record hashes; an agent is handed all charts or none; a release that is no longer wanted leaves the
  status before it leaves the cluster; temporary files.
\<close>

section \<open>Frames\<close>

lemma value_hash_frame:
  assumes "updateValueHashOnHelmChartSummary env rg cs chart rel vh ph w = (r, w')"
  shows "status_only w w'"
proof -
  have "value_hash_attempt env rg cs chart rel vh ph i v = (q, v') \<Longrightarrow> status_only w v \<Longrightarrow> status_only w v'" for i v q v'
    by (auto simp: value_hash_attempt_def Let_def split: sum.splits dest!: update_status_frame intro: status_only_trans)
  then have "RetryOnConflict (value_hash_attempt env rg cs chart rel vh ph) w = (q, v') \<Longrightarrow> status_only w v'" for q v'
    by (rule retry_invariant [where I = "status_only w"]) auto
  with assms show ?thesis by (auto simp: updateValueHashOnHelmChartSummary_def split: option.splits)
qed

lemma challengers_frame:
  "requeue_challengers env mgr chart False names handover w = (r, w') \<Longrightarrow> status_only w w'"
proof (induction names arbitrary: handover w)
  case (Cons name names)
  show ?case
  proof (cases "get_summary env 0 (cs_Namespace mgr, name) w")
    case (Inl e)
    with Cons show ?thesis by (auto split: if_splits)
  next
    case (Inr c)
    obtain q v where q: "requeueClusterSummary env FeatureHelm c w = (q, v)" by fastforce
    from requeue_frame [OF q] have v: "status_only w v" .
    from Cons.prems Inr q consider b where "requeue_challengers env mgr chart False names b w = (r, w')"
      | b where "requeue_challengers env mgr chart False names b v = (r, w')"
      by (auto simp: Let_def split: if_splits option.splits)
    then show ?thesis using Cons.IH v by cases (blast intro: status_only_trans)+
  qed
qed simp

lemma requeue_lower_frame: "requeueLowerTierChallengers env mgr chart False w = (r, w') \<Longrightarrow> status_only w w'"
  by (auto simp: requeueLowerTierChallengers_def split: option.splits dest: challengers_frame)

lemma can_manage_dry:
  assumes "is_dry_run cs" and "canManageChart env cs chart w = (r, w')"
  shows "w' = w"
  using assms ownership_cases [of env cs chart w r w']
  by (auto simp: canManageChart_def is_dry_run_def split: option.splits if_splits)

lemma failure_message_keeps [simp]:
  "is_dry_run (setHelmFailureMessageOnHelmChartSummary cs chart err) = is_dry_run cs"
  "cs_ProfileSpec (setHelmFailureMessageOnHelmChartSummary cs chart err) = cs_ProfileSpec cs"
  "request_of (setHelmFailureMessageOnHelmChartSummary cs chart err) = request_of cs"
  "cs_Spec (setHelmFailureMessageOnHelmChartSummary cs chart err) = cs_Spec cs"
  "cs_Meta (setHelmFailureMessageOnHelmChartSummary cs chart err) = cs_Meta cs"
  by (simp_all add: setHelmFailureMessageOnHelmChartSummary_def with_summaries_def is_dry_run_def request_of_def)

section \<open>Dry runs\<close>

text \<open>What a dry run may change: statuses in the store, temporary files, staged bundles and reports.\<close>

definition dry_frame :: "charts_world \<Rightarrow> charts_world \<Rightarrow> bool" where
  "dry_frame kw kw' \<longleftrightarrow> status_only (kw_Helm kw) (kw_Helm kw') \<and> kw_Configs kw' = kw_Configs kw \<and>
     kw_Committed kw' = kw_Committed kw"

lemma dry_frame_refl [simp]: "dry_frame kw kw"
  by (simp add: dry_frame_def)

lemma dry_frame_trans: "dry_frame kw v \<Longrightarrow> dry_frame v u \<Longrightarrow> dry_frame kw u"
  by (auto simp: dry_frame_def intro: status_only_trans)

lemma in_helm_dry: "in_helm f kw = (r, kw') \<Longrightarrow> (\<And>q w'. f (kw_Helm kw) = (q, w') \<Longrightarrow> status_only (kw_Helm kw) w') \<Longrightarrow> dry_frame kw kw'"
  using in_helm_frame [of f kw r kw'] by (auto simp: dry_frame_def)

lemma handle_chart_dry:
  assumes "is_dry_run cs" and "handleChart env cs chart False allow kw = (r, kw')"
  shows "dry_frame kw kw'"
proof -
  have "in_helm (deployHelmChart env cs chart) v = (q, v') \<Longrightarrow> v' = v" for v q v'
    by (auto simp: in_helm_def split: prod.splits dest: deploy_dry_run [OF assms(1)])
  then have "handle_with_options env cs chart False allow v = (q, v') \<Longrightarrow> v' = v" for v q v'
    unfolding handle_with_options_def by (simp split: option.splits if_splits)
  then show ?thesis using assms(2)
    by (fastforce simp: handleChart_def dry_frame_def split: sum.splits prod.splits)
qed

lemma manage_step_cases:
  assumes "manage_step env cs chart pull b kw = (q, cs', kw')"
  shows "\<exists>v. (kw' = v \<and> kw = v \<or> (\<exists>r. handleChart env cs chart pull (\<not> b) kw = (r, v)) \<and>
      (kw' = v \<or> (\<exists>rel vh ph e. in_helm (updateValueHashOnHelmChartSummary env (cv_Registry env) (
         setHelmFailureMessageOnHelmChartSummary cs chart None) chart rel vh ph) v = (e, kw')))) \<and>
    (\<exists>err. cs' = setHelmFailureMessageOnHelmChartSummary cs chart err)"
  using assms
  by (auto simp: manage_step_def Let_def split: sum.splits prod.splits option.splits if_splits)

lemma manage_step_dry:
  assumes "is_dry_run cs" and "manage_step env cs chart False b kw = (q, cs', kw')"
  shows "dry_frame kw kw' \<and> is_dry_run cs'"
proof -
  have "in_helm (updateValueHashOnHelmChartSummary env rg c chart rel vh ph) v = (e, v') \<Longrightarrow> dry_frame v v'" for rg c rel vh ph v e v'
    by (erule in_helm_dry) (erule value_hash_frame)
  then show ?thesis
    using manage_step_cases [OF assms(2)] handle_chart_dry [OF assms(1)] assms(1) dry_frame_trans dry_frame_refl
    by (metis failure_message_keeps(1))
qed

lemma deploy_single_dry:
  assumes "is_dry_run cs" and "deploySingleChart env cs chart False kw = (q, cs', kw')"
  shows "dry_frame kw kw' \<and> is_dry_run cs'"
proof (cases "getInstantiatedChartIdentity env chart")
  case (Inl e)
  then show ?thesis using assms by (simp add: deploySingleChart_def)
next
  case (Inr c)
  obtain can v where can: "in_helm (canManageChart env cs c) kw = (can, v)" by fastforce
  have v: "dry_frame kw v"
    using can by (rule in_helm_dry) (auto dest: can_manage_dry [OF assms(1)])
  obtain lower u where lower: "in_helm (requeueLowerTierChallengers env cs c False) v = (lower, u)" by fastforce
  have u: "dry_frame v u"
    using lower by (rule in_helm_dry) (rule requeue_lower_frame)
  from assms(2) Inr can lower consider "kw' = v" "cs' = cs" | "kw' = u" "cs' = cs"
    | b where "manage_step env cs c False b u = (q, cs', kw')"
    by (auto simp: deploySingleChart_def split: sum.splits bool.splits if_splits)
  then show ?thesis
    using manage_step_dry [OF assms(1)] assms(1) u v dry_frame_trans by cases blast+
qed

lemma walk_dry:
  "is_dry_run cs \<Longrightarrow> walk_charts env False charts res cs kw = (res', cs', kw') \<Longrightarrow> dry_frame kw kw' \<and> is_dry_run cs'"
proof (induction charts arbitrary: res cs kw)
  case (Cons chart charts)
  obtain q c v where step: "deploySingleChart env cs chart False kw = (q, c, v)" by (metis prod_cases3)
  from deploy_single_dry [OF Cons.prems(1) step] have v: "dry_frame kw v" "is_dry_run c" by simp_all
  from Cons.prems(2) step show ?case
    using Cons.IH [OF v(2)] v by (cases q) (auto intro: dry_frame_trans)
qed simp

lemma undeploy_releases_dry: "is_dry_run cs \<Longrightarrow> undeploy_releases env cs rs w = (r, w') \<Longrightarrow> w' = w"
proof (induction rs arbitrary: r w')
  case (Cons x rs)
  obtain q v where q: "undeploy_releases env cs rs w = (q, v)" by fastforce
  with Cons have "v = w" by blast
  with Cons.prems q show ?case
    by (auto simp: dry_run_actions [OF Cons.prems(1)] split: sum.splits if_splits)
qed simp

lemma finish_push_dry:
  assumes "is_dry_run cs" and "finish_push env cs reports charts kw = (r, kw')"
  shows "dry_frame kw kw'"
proof -
  have stale: "dry_frame v v'" if "in_helm (undeployStaleReleases env cs) v = (q, v')" for q v v'
    using that by (rule in_helm_dry)
      (auto simp: undeployStaleReleases_def split: sum.splits dest: undeploy_releases_dry [OF assms(1)])
  have report: "dry_frame v v'" if "updateClusterReportWithHelmReports env cs rs v = (q, v')" for rs q v v'
  proof -
    have "RetryOnConflict (report_attempt env key rs) v = (q, v') \<Longrightarrow> dry_frame v v'" for key
      by (rule retry_invariant [where I = "dry_frame v"])
        (auto simp: report_attempt_def dry_frame_def split: option.splits)
    then show ?thesis
      using that assms(1) by (auto simp: updateClusterReportWithHelmReports_def Let_def split: sum.splits)
  qed
  show ?thesis
    using assms stale report dry_frame_trans
    by (fastforce simp: finish_push_def updateChartsInClusterConfiguration_def split: sum.splits prod.splits option.splits)
qed

text \<open>C25. In push mode a dry run over all charts leaves the releases of the cluster, the registrations of the chart manager, the specs of
  all ClusterSummaries, the ClusterConfigurations and what was committed for an agent as they are, and it always ends
  with an error.\<close>

theorem dry_run_harmless:
  assumes "is_dry_run cs" and "handleCharts env cs False configurationHash kw = (r, kw')"
  shows "hw_Releases (kw_Helm kw') = hw_Releases (kw_Helm kw) \<and> hw_Mgr (kw_Helm kw') = hw_Mgr (kw_Helm kw) \<and>
    objects (kw_Helm kw') = objects (kw_Helm kw) \<and> kw_Configs kw' = kw_Configs kw \<and> kw_Committed kw' = kw_Committed kw \<and>
    r \<noteq> None"
proof (cases "hv_clusterObjects env")
  case (Some e)
  show ?thesis using assms by (auto simp: Some handleCharts_def updateStatusForReferencedHelmReleases_def in_helm_def)
next
  case None
  obtain res c v where walk: "walk_charts env False (cs_HelmCharts cs) empty_walk cs kw = (res, c, v)" by (metis prod_cases3)
  from walk_dry [OF assms(1) walk] have v: "dry_frame kw v" "is_dry_run c" by simp_all
  obtain q u where tail: "finish_push env c (wk_Reports res) (wk_Deployed res) v = (q, u)" by fastforce
  have "dry_frame v u" using v(2) tail by (rule finish_push_dry)
  then have "dry_frame kw u" using v(1) dry_frame_trans by blast
  moreover have "kw' = u" "r \<noteq> None"
    using assms None walk v tail
    by (auto simp: handleCharts_def finish_charts_def updateStatusForReferencedHelmReleases_def updateStatusForNonReferencedHelmReleases_def
        walkChartsAndDeploy_def in_helm_def split: option.splits)
  ultimately show ?thesis by (simp add: dry_frame_def status_only_def)
qed

section \<open>Hashes recorded by a dry run\<close>

lemma find_update_matching:
  assumes "\<And>x. p (f x) = p x"
  shows "List.find p (map (\<lambda>x. if p x then f x else x) xs) = map_option f (List.find p xs)"
  using assms by (induction xs) auto

lemma handled_entry_keeps [simp]:
  "hs_ReleaseName (handled_entry rg chart rel vh ph m rs) = hs_ReleaseName rs"
  "hs_ReleaseNamespace (handled_entry rg chart rel vh ph m rs) = hs_ReleaseNamespace rs"
  "hs_ValuesHash (handled_entry rg chart rel vh ph m rs) = Some vh"
  "hs_PatchesHash (handled_entry rg chart rel vh ph m rs) = Some ph"
  by (simp_all add: handled_entry_def setResolvedHelmChartIdentity_def recordHelmChartApply_def clearStaleOutdatedVersionInfo_def
      Let_def split: option.splits sum.splits)

lemma handled_entry_applied:
  "(\<And>r. rel = Some r \<Longrightarrow> \<not> rel_skipApply r) \<Longrightarrow> hs_NeedsRedeploy (handled_entry rg chart rel vh ph m rs) = False"
  by (simp add: handled_entry_def setResolvedHelmChartIdentity_def recordHelmChartApply_def clearStaleOutdatedVersionInfo_def
      Let_def split: option.splits sum.splits)

lemma handled_entry_same [simp]: "same_release c (handled_entry rg chart rel vh ph m rs) = same_release c rs"
  by (simp add: same_release_def)

text \<open>After the hashes are stored, every copy of the summary in the store has them in the entry of the chart, if it has one.\<close>

lemma value_hash_stored:
  assumes "updateValueHashOnHelmChartSummary env rg cs chart rel vh ph w = (None, w')"
    and "x \<in> set (hw_Store w')" and "request_of x = request_of cs"
    and "getHelmChartSummary chart x = Some entry"
  shows "hs_ValuesHash entry = Some vh \<and> hs_PatchesHash entry = Some ph \<and>
    ((\<forall>r. rel = Some r \<longrightarrow> \<not> rel_skipApply r) \<longrightarrow> \<not> hs_NeedsRedeploy entry)"
proof -
  have "RetryOnConflict (value_hash_attempt env rg cs chart rel vh ph) w = (None, w')"
    using assms(1) by (auto simp: updateValueHashOnHelmChartSummary_def split: option.splits)
  from retry_last [OF _ this, where I = "\<lambda>_. True"] obtain i v where
    "value_hash_attempt env rg cs chart rel vh ph i v = (None, w')" by blast
  then obtain current m where got: "get_summary env i (request_of cs) v = Inr current" and
    upd: "update_status env i (with_summaries (map (\<lambda>rs. if same_release chart rs
      then handled_entry rg chart rel vh ph m rs else rs) (cs_HelmReleaseSummaries current)) current) v = (None, w')"
    by (auto simp: value_hash_attempt_def Let_def split: sum.splits)
  have req: "request_of current = request_of cs"
    using got by (auto simp: get_summary_def find_Some_iff split: option.splits)
  then have "cs_HelmReleaseSummaries x = map (\<lambda>rs. if same_release chart rs
      then handled_entry rg chart rel vh ph m rs else rs) (cs_HelmReleaseSummaries current)"
    using upd assms(2,3)
    by (auto simp: update_status_def store_status_def with_summaries_def request_of_def split: option.splits if_splits)
  then have "map_option (handled_entry rg chart rel vh ph m)
      (List.find (same_release chart) (cs_HelmReleaseSummaries current)) = Some entry"
    using assms(4) by (simp add: getHelmChartSummary_def find_update_matching)
  then show ?thesis using handled_entry_applied by auto
qed

definition with_mode :: "sync_mode \<Rightarrow> cluster_summary \<Rightarrow> cluster_summary" where
  "with_mode m cs = cs\<lparr>cs_Spec := (cs_Spec cs)\<lparr>css_ClusterProfileSpec := (cs_ProfileSpec cs)\<lparr>ps_SyncMode := m\<rparr>\<rparr>\<rparr>"

lemma with_mode_simps [simp]:
  "cs_Status (with_mode m cs) = cs_Status cs" "ps_SyncMode (cs_ProfileSpec (with_mode m cs)) = m"
  "request_of (with_mode m cs) = request_of cs" "is_dry_run (with_mode m cs) = (m = SyncModeDryRun)"
  by (simp_all add: with_mode_def request_of_def is_dry_run_def)

lemma no_upgrade_when_recorded:
  assumes "getHelmChartHashes env chart = Inr (vh, ph)" and "getHelmChartSummary chart cs = Some entry"
    and "hs_ValuesHash entry = Some vh" and "hs_PatchesHash entry = Some ph" and "\<not> hs_NeedsRedeploy entry"
    and "deployed_as env chart r"
  shows "\<not> shouldUpgrade env cs chart (Some r)"
proof -
  have "getHelmChartValuesHash env chart = Inr vh" "getHelmChartPatchesHash env = Inr ph"
    using assms(1) by (auto simp: getHelmChartHashes_def split: sum.splits)
  then show ?thesis
    using assms(2-6)
    by (auto simp: shouldUpgrade_def shouldUpgradeForContinuousMode_def Let_def known_value_hash_def hash_or_empty_def
        getValuesHashFromHelmChartSummary_def getPatchesHashFromHelmChartSummary_def needsRedeployForDrift_def getHelmChartSummary_def
        deployed_as_def)
qed

lemma deploy_result: "deployHelmChart env cs chart w = (Inr (cur, rep), w') \<Longrightarrow> current_release env chart w' = Inr cur"
  by (auto simp: deployHelmChart_def split: sum.splits prod.splits option.splits)

lemma handle_chart_push_result:
  assumes "handleChart env cs chart False allow kw = (Inr (cur, rep), kw')"
  shows "current_release env chart (kw_Helm kw') = Inr cur"
proof -
  have "handle_with_options env cs chart False allow v = (Inr (cur, rep), v') \<Longrightarrow> current_release env chart (kw_Helm v') = Inr cur" for v v'
    by (auto simp: handle_with_options_def in_helm_def split: option.splits if_splits prod.splits dest: deploy_result)
  then show ?thesis using assms by (fastforce simp: handleChart_def split: sum.splits prod.splits)
qed

text \<open>A dry run of a chart that is already deployed at the wanted version stores the hashes of the new values and patches in the status,
  although it deploys nothing. When the profile is switched back to continuous, the change is not seen: no upgrade is made.\<close>

theorem dry_run_hides_change:
  assumes "is_dry_run cs" and "getInstantiatedChartIdentity env currentChart = Inr chart"
    and "deploySingleChart env cs currentChart False kw = (Inr step, cs', kw')"
    and "stp_conflictMsg step = []" and "stp_accumErr step = []"
    and "release_at (hc_ReleaseNamespace chart) (hc_ReleaseName chart) (kw_Helm kw) = Some r"
    and "deployed_as env chart r" and "\<not> rel_skipApply r"
    and "x \<in> set (hw_Store (kw_Helm kw'))" and "request_of x = request_of cs" and "getHelmChartSummary chart x \<noteq> None"
  shows "hw_Releases (kw_Helm kw') = hw_Releases (kw_Helm kw) \<and> \<not> shouldUpgrade env (with_mode m x) chart (Some r)"
proof -
  have same: "hw_Releases (kw_Helm kw') = hw_Releases (kw_Helm kw)"
    using deploy_single_dry [OF assms(1,3)] by (simp add: dry_frame_def status_only_def)
  obtain can v where can: "in_helm (canManageChart env cs chart) kw = (can, v)" by fastforce
  have v: "dry_frame kw v" using can by (rule in_helm_dry) (auto dest: can_manage_dry [OF assms(1)])
  obtain lower u where lower: "in_helm (requeueLowerTierChallengers env cs chart False) v = (lower, u)" by fastforce
  have u: "dry_frame v u" using lower by (rule in_helm_dry) (rule requeue_lower_frame)
  have "stp_conflictMsg t \<noteq> []" if "unmanaged_step env cs chart w = Inr t" for w t
    using that by (auto simp: unmanaged_step_def generateConflictForHelmChart_def Let_def split: sum.splits if_splits option.splits)
  with assms(3,4) have "\<exists>b. manage_step env cs chart False b u = (Inr step, cs', kw')"
    using can lower by (auto simp: deploySingleChart_def assms(2) split: sum.splits bool.splits if_splits)
  then obtain b where step: "manage_step env cs chart False b u = (Inr step, cs', kw')" ..
  obtain vh ph cur rep q where hashes: "getHelmChartHashes env chart = Inr (vh, ph)"
    and handled: "handleChart env cs chart False (\<not> b) u = (Inr (cur, rep), q)"
    and stored: "in_helm (updateValueHashOnHelmChartSummary env (cv_Registry env)
      (setHelmFailureMessageOnHelmChartSummary cs chart None) chart cur vh ph) q = (None, kw')"
    using step assms(5) by (auto simp: manage_step_def Let_def split: sum.splits prod.splits option.splits if_splits)
  have "dry_frame kw q" using handle_chart_dry [OF assms(1) handled] u v dry_frame_trans by blast
  then have "release_at (hc_ReleaseNamespace chart) (hc_ReleaseName chart) (kw_Helm q) = Some r"
    using assms(6) by (simp add: dry_frame_def status_only_def release_at_def)
  then have "cur = Some r \<or> cur = None"
    using handle_chart_push_result [OF handled]
    by (auto simp: current_release_def getReleaseInfo_def split: option.splits if_splits)
  then have noskip: "\<forall>t. cur = Some t \<longrightarrow> \<not> rel_skipApply t" using assms(8) by auto
  obtain entry where entry: "getHelmChartSummary chart x = Some entry" using assms(11) by blast
  have "request_of x = request_of (setHelmFailureMessageOnHelmChartSummary cs chart None)" using assms(10) by simp
  from value_hash_stored [OF in_helm_frame(6) [OF stored] assms(9) this entry] noskip
  have "hs_ValuesHash entry = Some vh" "hs_PatchesHash entry = Some ph" "\<not> hs_NeedsRedeploy entry" by simp_all
  moreover have "getHelmChartSummary chart (with_mode m x) = Some entry"
    using entry by (simp add: getHelmChartSummary_def)
  ultimately show ?thesis using no_upgrade_when_recorded [OF hashes _ _ _ _ assms(7)] same by blast
qed

section \<open>Releases that are no longer wanted\<close>

lemma summary_found: "get_summary env i req w = Inr cs \<Longrightarrow> request_of cs = req \<and> cs \<in> set (hw_Store w)"
  by (auto simp: get_summary_def find_Some_iff split: option.splits)

lemma with_summaries_simps [simp]:
  "request_of (with_summaries es cs) = request_of cs" "cs_HelmReleaseSummaries (with_summaries es cs) = es"
  "cs_Spec (with_summaries es cs) = cs_Spec cs" "cs_Meta (with_summaries es cs) = cs_Meta cs"
  "is_dry_run (with_summaries es cs) = is_dry_run cs"
  by (simp_all add: with_summaries_def request_of_def is_dry_run_def)

lemma updated_entries:
  assumes "update_status env i cs w = (None, w')" and "x \<in> set (hw_Store w')" and "request_of x = request_of cs"
  shows "cs_HelmReleaseSummaries x = cs_HelmReleaseSummaries cs"
  using assms by (auto simp: update_status_def store_status_def request_of_def split: option.splits if_splits)

lemma kept_entries_named: "e \<in> set (kept_entries refs failures es) \<Longrightarrow> entry_info e \<in> set refs"
  by (auto simp: kept_entries_def entry_info_def split: option.splits)

lemma unreferenced_attempt_frame: "unreferenced_attempt env cs refs i (c, w) = (r, c', w') \<Longrightarrow> status_only w w'"
  by (auto simp: unreferenced_attempt_def Let_def split: sum.splits prod.splits dest!: update_status_frame)

lemma status_of_referenced:
  assumes "\<not> is_dry_run cs" and "instantiate_all env (cs_HelmCharts cs) = Inr charts"
    and "updateStatusForNonReferencedHelmReleases env cs w = (None, cur, w')"
  shows "status_only w w' \<and> request_of cur = request_of cs \<and>
    (\<forall>x \<in> set (hw_Store w'). request_of x = request_of cs \<longrightarrow>
       (\<forall>e \<in> set (cs_HelmReleaseSummaries x). entry_info e \<in> chart_info ` set charts))"
proof -
  define f where "f = unreferenced_attempt env cs (map chart_info charts)"
  have run: "RetryOnConflict f (zero_cluster_summary, w) = (None, cur, w')"
    using assms by (auto simp: updateStatusForNonReferencedHelmReleases_def f_def split: prod.splits option.splits)
  have step: "status_only w (snd s')" if "f i s = (r, s')" "status_only w (snd s)" for i s r s'
    using that unreferenced_attempt_frame [of env cs "map chart_info charts" i "fst s" "snd s" r "fst s'" "snd s'"]
    by (simp add: f_def status_only_trans)
  have "\<exists>i v. status_only w (snd v) \<and> f i v = (None, cur, w')"
    by (rule retry_last [where I = "\<lambda>s. status_only w (snd s)", OF _ run]) (erule (1) step, simp)
  then obtain i v where frame: "status_only w (snd v)" and last: "f i v = (None, cur, w')" by blast
  from step [OF last frame] have "status_only w w'" by simp
  moreover obtain c where got: "get_summary env i (request_of cs) (snd v) = Inr c"
    and cur: "cur = with_summaries (kept_entries (map chart_info charts) (inMemoryFailure cs) (cs_HelmReleaseSummaries c)) c"
    and upd: "update_status env i cur (snd v) = (None, w')"
    using last by (auto simp: f_def unreferenced_attempt_def Let_def split: sum.splits prod.splits)
  moreover have "request_of cur = request_of cs" using summary_found [OF got] cur by simp
  moreover have "entry_info e \<in> chart_info ` set charts"
    if "x \<in> set (hw_Store w')" "request_of x = request_of cs" "e \<in> set (cs_HelmReleaseSummaries x)" for x e
    using updated_entries [OF upd that(1)] that(2,3) calculation(5) cur by (auto dest: kept_entries_named)
  ultimately show ?thesis by blast
qed

lemma uninstall_store: "uninstallRelease env cs n ns w = (r, w') \<Longrightarrow> hw_Store w' = hw_Store w"
  by (auto simp: uninstallRelease_def put_release_def Let_def split: if_splits sum.splits api_error.splits option.splits prod.splits)

lemma registrants_fold_summaries:
  "n \<in> set (registrants (fold (addSummaries sel) css m) ck rk) \<Longrightarrow>
     n \<in> set (registrants m ck rk) \<or> (\<exists>x \<in> set css. cs_Name x = n \<and> cs_ClusterKey x = ck \<and> (\<exists>e \<in> set (cs_HelmReleaseSummaries x).
        entry_info e = rk))"
proof (induction css arbitrary: m)
  case (Cons x css)
  then have "n \<in> set (registrants (fold (addSummaries sel) css (addSummaries sel x m)) ck rk)" by simp
  from Cons.IH [OF this] show ?case
    by (auto simp: registrants_addSummaries enqueue_def entry_info_def helmInfo_def GetReleaseKey_def split: if_splits)
qed simp

lemma rebuilt_registrants:
  assumes "n \<in> set (registrants (snd (rebuildRegistrations (Inr css) new_chart_manager)) ck rk)"
  shows "\<exists>x \<in> set css. cs_Name x = n \<and> cs_ClusterKey x = ck \<and> (\<exists>e \<in> set (cs_HelmReleaseSummaries x). entry_info e = rk)"
  using assms by (auto simp: rebuildRegistrations_def addManagers_def addNonManagers_def dest!: registrants_fold_summaries)

text \<open>The entry of a release that is no longer wanted leaves the status before the release is uninstalled. When the uninstall fails
  and the controller restarts, the rebuilt chart manager no longer has the ClusterSummary as a manager of the release, which
  stays in the cluster.\<close>

theorem stale_release_forgotten:
  assumes "\<not> is_dry_run cs" and "instantiate_all env (cs_HelmCharts cs) = Inr charts"
    and "updateStatusForNonReferencedHelmReleases env cs (kw_Helm kw) = (None, cur, w)"
    and "getStaleReleases env cur w = Inr (r # rs)" and "GetReleaseKey (hri_Namespace r) (hri_Name r) \<notin> chart_ReleaseKey ` set charts"
    and "getReleaseInfo env (hri_Name r) (hri_Namespace r) w = Inr rel" and "length (registered_for cur (release_chart r) w) \<le> 1"
    and "uninstallRelease env cur (hri_Name r) (hri_Namespace r) w = (Some e, w')"
    and "\<And>x. x \<in> set (hw_Store w) \<Longrightarrow> cs_Name x = cs_Name cs \<Longrightarrow> cs_ClusterKey x = cs_ClusterKey cs \<Longrightarrow> request_of x = request_of cs"
  shows "\<exists>kw'. finish_charts env cs False configurationHash walked kw = (Some e, kw') \<and> kw_Helm kw' = w' \<and>
     cs_Name cs \<notin> set (registrants (snd (rebuildRegistrations (Inr (hw_Store w')) new_chart_manager)) (cs_ClusterKey cs)
       (GetReleaseKey (hri_Namespace r) (hri_Name r)))"
proof -
  have key: "chart_info ` set charts = chart_ReleaseKey ` set charts"
    by (simp add: chart_info_def helmInfo_def chart_ReleaseKey_def GetReleaseKey_def)
  have store: "hw_Store w' = hw_Store w" using assms(8) by (rule uninstall_store)
  have listed: "\<forall>x \<in> set (hw_Store w). request_of x = request_of cs \<longrightarrow>
      (\<forall>e \<in> set (cs_HelmReleaseSummaries x). entry_info e \<in> chart_info ` set charts)"
    using status_of_referenced [OF assms(1-3)] by blast
  have "undeploy_releases env cur (r # rs) w = (Inl e, w')"
    using assms(6-8) by simp
  then have "finish_charts env cs False configurationHash walked kw = (Some e, kw\<lparr>kw_Helm := w'\<rparr>)"
    by (simp add: finish_charts_def finish_push_def in_helm_def undeployStaleReleases_def assms(3,4) split: prod.split)
  moreover have "cs_Name cs \<notin> set (registrants (snd (rebuildRegistrations (Inr (hw_Store w')) new_chart_manager)) (cs_ClusterKey cs)
      (GetReleaseKey (hri_Namespace r) (hri_Name r)))" (is "_ \<notin> set ?q")
  proof
    assume "cs_Name cs \<in> set ?q"
    from rebuilt_registrants [OF this] obtain x d where x: "x \<in> set (hw_Store w)" "cs_Name x = cs_Name cs"
      "cs_ClusterKey x = cs_ClusterKey cs" and d: "d \<in> set (cs_HelmReleaseSummaries x)"
      "entry_info d = GetReleaseKey (hri_Namespace r) (hri_Name r)"
      unfolding store by blast
    from assms(9) [OF x] listed x(1) d(1) have "entry_info d \<in> chart_info ` set charts" by blast
    then show False using d(2) key assms(5) by simp
  qed
  ultimately show ?thesis by (intro exI [of _ "kw\<lparr>kw_Helm := w'\<rparr>"]) simp
qed

section \<open>Samples\<close>

definition sample_registry_env :: registry_env where
  "sample_registry_env = \<lparr>rg_Namespace = (\<lambda>n. Inr (if n = [] then ''ns'' else n)),
     rg_Secret = (\<lambda>(ns, n). Inr \<lparr>sct_Name = n, sct_Type = SecretTypeDockerConfigJson, sct_Data = Some [(''config'', ''c'')]\<rparr>),
     rg_ParseHost = (\<lambda>_. Inr ''host''), rg_LoadDocker = (\<lambda>_. None), rg_GetAuth = (\<lambda>_ h. Inr (h, ''u'', ''p'')),
     rg_CreateTemp = (\<lambda>pat files. Inr (CHR ''/'' # pat @ concat files)), rg_Write = (\<lambda>_. None), rg_IsOCI = has_prefix ''oci:'',
     rg_Login = (\<lambda>_. None)\<rparr>"

definition sample_charts_env :: charts_env where
  "sample_charts_env = helm_env.extend sample_helm_env (charts_env.fields sample_registry_env sample_content_env sort_key
     sample_config_env (\<lambda>c. Inr (\<lparr>hr_Manifest = ''main'', hr_Hooks = [sample_hook]\<rparr>, sample_release (hc_ChartVersion c)))
     (\<lambda>b. b) (\<lambda>u. Inr (un_Name u)) (\<lambda>i. Inr (cai_ResourcesHash i @ cai_ChartVersion i)) None None None None None (\<lambda>_. None) None
     (Inr False) None None None (Inr None) None None)"

definition sample_run_cs :: "sync_mode \<Rightarrow> helm_chart list \<Rightarrow> helm_chart_summary list \<Rightarrow> cluster_summary" where
  "sample_run_cs m charts entries = zero_cluster_summary
     \<lparr>cs_Meta := zero_object_meta\<lparr>om_Name := ''a'', om_Namespace := ''ns'',
        om_OwnerReferences := [\<lparr>own_APIVersion = ''v'', own_Kind = ClusterProfileKind, own_Name = ''a'', own_UID = []\<rparr>]\<rparr>,
      cs_Spec := \<lparr>css_ClusterNamespace = ''ns'', css_ClusterName = ''c'', css_ClusterType = ClusterTypeCapi,
        css_ClusterProfileSpec = zero_profile_spec\<lparr>ps_HelmCharts := Some charts, ps_SyncMode := m\<rparr>\<rparr>,
      cs_Status := zero_cluster_summary_status\<lparr>cst_HelmReleaseSummaries := entries\<rparr>\<rparr>"

definition sample_charts_world :: "cluster_summary list \<Rightarrow> ((string \<times> string) \<times> release_info) list \<Rightarrow> charts_world" where
  "sample_charts_world css rels = \<lparr>kw_Helm = (sample_world css)\<lparr>hw_Releases := rels\<rparr>, kw_Files = [], kw_Staged = [],
     kw_Committed = None, kw_Configs = [sample_config ''c'' []], kw_Reports = [((''ns'', ''capi--c''), [])], kw_Removing = False\<rparr>"

definition sample_run_chart :: helm_chart where
  "sample_run_chart = sample_helm_chart ''1.2'' HelmChartActionInstall"

definition sample_old_entry :: helm_chart_summary where
  "sample_old_entry = zero_helm_chart_summary\<lparr>hs_ReleaseName := ''r'', hs_ReleaseNamespace := ''rel'',
     hs_ValuesHash := Some ''old'', hs_PatchesHash := Some []\<rparr>"

definition sample_dry_cs :: cluster_summary where
  "sample_dry_cs = sample_run_cs SyncModeDryRun [sample_run_chart] [sample_old_entry]"

definition sample_dry_world :: charts_world where
  "sample_dry_world = sample_charts_world [sample_dry_cs] [((''rel'', ''r''), sample_release ''1.2'')]"

lemma dry_run_harmless_witness:
  "\<exists>r kw'. handleCharts sample_charts_env sample_dry_cs False None sample_dry_world = (r, kw') \<and> r \<noteq> None \<and>
     hw_Releases (kw_Helm kw') = [((''rel'', ''r''), sample_release ''1.2'')]"
proof -
  obtain r kw' where run: "handleCharts sample_charts_env sample_dry_cs False None sample_dry_world = (r, kw')" by fastforce
  have "is_dry_run sample_dry_cs" by code_simp
  from dry_run_harmless [OF this run] show ?thesis
    using run by (auto simp: sample_dry_world_def sample_charts_world_def)
qed

lemma dry_run_hides_change_witness:
  "\<exists>step cs' kw' x. deploySingleChart sample_charts_env sample_dry_cs sample_run_chart False sample_dry_world = (Inr step, cs', kw') \<and>
     x \<in> set (hw_Store (kw_Helm kw')) \<and>
     shouldUpgrade sample_charts_env (with_mode SyncModeContinuous sample_dry_cs) sample_run_chart (Some (sample_release ''1.2'')) \<and>
     \<not> shouldUpgrade sample_charts_env (with_mode SyncModeContinuous x) sample_run_chart (Some (sample_release ''1.2''))"
proof -
  define out where "out = deploySingleChart sample_charts_env sample_dry_cs sample_run_chart False sample_dry_world"
  define kw' where "kw' = snd (snd out)"
  define step where "step = projr (fst out)"
  define x where "x = hd (hw_Store (kw_Helm kw'))"
  have "\<not> isl (fst out)" unfolding out_def by code_simp
  then have run: "deploySingleChart sample_charts_env sample_dry_cs sample_run_chart False sample_dry_world = (Inr step, fst (snd out), kw')"
    by (simp add: out_def [symmetric] step_def kw'_def prod_eq_iff)
  have step: "stp_conflictMsg step = []" "stp_accumErr step = []" unfolding step_def out_def by code_simp+
  have store: "hw_Store (kw_Helm kw') \<noteq> []" unfolding kw'_def out_def by code_simp
  then have x: "x \<in> set (hw_Store (kw_Helm kw'))" by (simp add: x_def)
  have x': "request_of x = request_of sample_dry_cs" "getHelmChartSummary sample_run_chart x \<noteq> None"
    unfolding x_def kw'_def out_def by code_simp+
  have h: "is_dry_run sample_dry_cs" "getInstantiatedChartIdentity sample_charts_env sample_run_chart = Inr sample_run_chart"
    "release_at (hc_ReleaseNamespace sample_run_chart) (hc_ReleaseName sample_run_chart) (kw_Helm sample_dry_world) =
       Some (sample_release ''1.2'')"
    "deployed_as sample_charts_env sample_run_chart (sample_release ''1.2'')" "\<not> rel_skipApply (sample_release ''1.2'')"
    by code_simp+
  have "shouldUpgrade sample_charts_env (with_mode SyncModeContinuous sample_dry_cs) sample_run_chart (Some (sample_release ''1.2''))"
    by code_simp
  then show ?thesis
    using dry_run_hides_change [OF h(1,2) run step h(3-5) x x'] run x by blast
qed

definition sample_failing_env :: charts_env where
  "sample_failing_env = sample_charts_env\<lparr>hv_uninstall := (\<lambda>_ _ r. (Some (plain_error ''timeout''), Some r))\<rparr>"

definition sample_emptied_cs :: cluster_summary where
  "sample_emptied_cs = sample_run_cs SyncModeContinuous [] [sample_old_entry]"

definition sample_stale_world :: charts_world where
  "sample_stale_world = (sample_charts_world [sample_emptied_cs] [((''rel'', ''r''), sample_release ''1.2'')])
     \<lparr>kw_Helm := (sample_world [sample_emptied_cs])\<lparr>hw_Releases := [((''rel'', ''r''), sample_release ''1.2'')],
        hw_Mgr := RegisterClusterSummaryForCharts (sample_run_cs SyncModeContinuous [sample_run_chart] []) new_chart_manager\<rparr>\<rparr>"

lemma stale_release_forgotten_witness:
  "\<exists>kw'. finish_charts sample_failing_env sample_emptied_cs False None ([], [], None) sample_stale_world =
       (Some (plain_error ''timeout''), kw') \<and> release_at ''rel'' ''r'' (kw_Helm kw') = Some (sample_release ''1.2'') \<and>
     ''a'' \<in> set (registrants (hw_Mgr (kw_Helm sample_stale_world)) (cs_ClusterKey sample_emptied_cs) ''rel/r'') \<and>
     ''a'' \<notin> set (registrants (snd (rebuildRegistrations (Inr (hw_Store (kw_Helm kw'))) new_chart_manager))
       (cs_ClusterKey sample_emptied_cs) ''rel/r'')"
proof -
  define upd where "upd = updateStatusForNonReferencedHelmReleases sample_failing_env sample_emptied_cs (kw_Helm sample_stale_world)"
  define w where "w = snd (snd upd)"
  define cur where "cur = fst (snd upd)"
  define gone where "gone = uninstallRelease sample_failing_env cur ''r'' ''rel'' w"
  define r where "r = \<lparr>hri_Namespace = ''rel'', hri_Name = ''r''\<rparr>"
  have "fst upd = None" unfolding upd_def by code_simp
  then have upd: "updateStatusForNonReferencedHelmReleases sample_failing_env sample_emptied_cs (kw_Helm sample_stale_world) = (None, cur, w)"
    by (simp add: upd_def [symmetric] cur_def w_def prod_eq_iff)
  have "fst gone = Some (plain_error ''timeout'')" unfolding gone_def cur_def w_def upd_def by code_simp
  then have gone: "uninstallRelease sample_failing_env cur (hri_Name r) (hri_Namespace r) w = (Some (plain_error ''timeout''), snd gone)"
    by (simp add: gone_def [symmetric] r_def prod_eq_iff)
  have h: "\<not> is_dry_run sample_emptied_cs" "instantiate_all sample_failing_env (cs_HelmCharts sample_emptied_cs) = Inr []"
    by code_simp+
  have stale: "getStaleReleases sample_failing_env cur w = Inr [r]"
    "getReleaseInfo sample_failing_env (hri_Name r) (hri_Namespace r) w = Inr (sample_release ''1.2'')"
    "length (registered_for cur (release_chart r) w) \<le> 1"
    unfolding r_def cur_def w_def upd_def by code_simp+
  have "map request_of (hw_Store w) = [request_of sample_emptied_cs]" unfolding w_def upd_def by code_simp
  then have uniq: "x \<in> set (hw_Store w) \<Longrightarrow> request_of x = request_of sample_emptied_cs" for x by auto
  have ends: "release_at ''rel'' ''r'' (snd gone) = Some (sample_release ''1.2'')"
    "''a'' \<in> set (registrants (hw_Mgr (kw_Helm sample_stale_world)) (cs_ClusterKey sample_emptied_cs) ''rel/r'')"
    "cs_Name sample_emptied_cs = ''a''" "GetReleaseKey (hri_Namespace r) (hri_Name r) = ''rel/r''"
    unfolding r_def gone_def cur_def w_def upd_def by code_simp+
  show ?thesis
    using stale_release_forgotten [OF h upd stale(1) _ stale(2,3) gone uniq, of None "([], [], None)"] ends by auto
qed

end
