(* ===== verification/Agent_Runs.thy ===== *)
theory Agent_Runs
  imports Chart_Runs
begin

text \<open>
  What a run over all charts hands to the agent of a cluster in pull mode, what it leaves on disk, and when a chart counts as
  installed.
\<close>

section \<open>Frames\<close>

text \<open>What no run changes: metadata and specs of the ClusterSummaries. What only a commit changes: the content the agent sees.\<close>

definition agent_frame :: "charts_world \<Rightarrow> charts_world \<Rightarrow> bool" where
  "agent_frame kw kw' \<longleftrightarrow> objects (kw_Helm kw') = objects (kw_Helm kw) \<and> kw_Committed kw' = kw_Committed kw"

lemma agent_frame_refl [simp]: "agent_frame kw kw"
  by (simp add: agent_frame_def)

lemma agent_frame_trans: "agent_frame kw v \<Longrightarrow> agent_frame v u \<Longrightarrow> agent_frame kw u"
  by (simp add: agent_frame_def)

lemma in_helm_agent:
  "in_helm f kw = (r, kw') \<Longrightarrow> (\<And>q w'. f (kw_Helm kw) = (q, w') \<Longrightarrow> objects w' = objects (kw_Helm kw)) \<Longrightarrow> agent_frame kw kw'"
  using in_helm_frame [of f kw r kw'] by (auto simp: agent_frame_def)

lemma status_objects: "status_only w w' \<Longrightarrow> objects w' = objects w"
  by (simp add: status_only_def)

lemma ownership_objects: "determineChartOwnership env cs chart w = (r, w') \<Longrightarrow> objects w' = objects w"
  using ownership_frame by blast

lemma can_manage_objects: "canManageChart env cs chart w = (r, w') \<Longrightarrow> objects w' = objects w"
  by (auto simp: canManageChart_def split: option.splits if_splits dest: ownership_objects)

lemma referenced_entries_objects: "referenced_entries env cs cur charts w = (r, w') \<Longrightarrow> objects w' = objects w"
proof (induction charts arbitrary: r w w')
  case (Cons chart charts)
  show ?case
  proof (cases "getInstantiatedChartIdentity env chart")
    case (Inl e)
    with Cons.prems show ?thesis by simp
  next
    case (Inr c)
    obtain q v where q: "determineChartOwnership env cs c w = (q, v)" by fastforce
    obtain t u where t: "referenced_entries env cs cur charts v = (t, u)" by fastforce
    have "w' = v \<or> w' = u"
      using Cons.prems Inr q t by (auto split: sum.splits bool.splits prod.splits)
    then show ?thesis using ownership_objects [OF q] Cons.IH [OF t] by auto
  qed
qed simp

lemma update_status_objects: "update_status env i cs w = (r, w') \<Longrightarrow> objects w' = objects w"
  using update_status_frame status_objects by blast

lemma referenced_attempt_objects:
  "referenced_attempt env cs i (c, b, w) = (r, c', b', w') \<Longrightarrow> objects w' = objects w"
  by (auto simp: referenced_attempt_def buildReferencedHelmReleaseSummaries_def Let_def
      split: sum.splits prod.splits option.splits dest!: referenced_entries_objects update_status_objects)

definition listed_object :: "cluster_summary \<Rightarrow> helm_world \<Rightarrow> bool" where
  "listed_object cs w \<longleftrightarrow> (cs_Meta cs, cs_Spec cs) \<in> set (objects w)"

lemma summary_listed: "get_summary env i req w = Inr cs \<Longrightarrow> listed_object cs w"
  by (auto simp: listed_object_def objects_def dest!: summary_found)

lemma referenced_result:
  assumes "updateStatusForReferencedHelmReleases env cs w = (None, cur, b, w')"
  shows "objects w' = objects w \<and> request_of cur = request_of cs \<and> (cur = cs \<or> listed_object cur w)"
proof (cases "(cur, b, w') = (cs, False, w)")
  case False
  define f where "f = referenced_attempt env cs"
  have run: "RetryOnConflict f (zero_cluster_summary, False, w) = (None, cur, b, w')"
    using assms False by (auto simp: updateStatusForReferencedHelmReleases_def f_def split: if_splits option.splits)
  have step: "objects (snd (snd s')) = objects w" if "f i s = (r, s')" "objects (snd (snd s)) = objects w" for i s r s'
    using that referenced_attempt_objects [of env cs i "fst s" "fst (snd s)" "snd (snd s)" r "fst s'" "fst (snd s')" "snd (snd s')"]
    by (simp add: f_def)
  have "\<exists>i v. objects (snd (snd v)) = objects w \<and> f i v = (None, cur, b, w')"
    by (rule retry_last [where I = "\<lambda>s. objects (snd (snd s)) = objects w", OF _ run]) (erule (1) step, simp)
  then obtain i v where frame: "objects (snd (snd v)) = objects w" and last: "f i v = (None, cur, b, w')" by blast
  from step [OF last frame] have "objects w' = objects w" by simp
  moreover obtain c es where got: "get_summary env i (request_of cs) (snd (snd v)) = Inr c" and cur: "cur = with_summaries es c"
    using last by (auto simp: f_def referenced_attempt_def Let_def split: sum.splits prod.splits option.splits)
  moreover have "listed_object cur w"
    using summary_listed [OF got] frame cur by (simp add: listed_object_def)
  ultimately show ?thesis using summary_found [OF got] by simp
qed simp

lemma unreferenced_result:
  assumes "updateStatusForNonReferencedHelmReleases env cs w = (r, cur, w')"
  shows "objects w' = objects w \<and> request_of cur = request_of cs \<and> (cur = cs \<or> listed_object cur w)"
proof (cases "instantiate_all env (cs_HelmCharts cs)")
  case (Inl e)
  with assms show ?thesis by (auto simp: updateStatusForNonReferencedHelmReleases_def split: if_splits)
next
  case (Inr charts)
  show ?thesis
  proof (cases "is_dry_run cs")
    case True
    with assms show ?thesis by (simp add: updateStatusForNonReferencedHelmReleases_def)
  next
    case False
    define f where "f = unreferenced_attempt env cs (map chart_info charts)"
    obtain q c where run: "RetryOnConflict f (zero_cluster_summary, w) = (q, c, w')"
      and res: "q \<noteq> None \<and> cur = cs \<or> q = None \<and> cur = c"
      using assms Inr False by (auto simp: updateStatusForNonReferencedHelmReleases_def f_def split: prod.splits option.splits)
    have step: "objects (snd s') = objects w" if "f i s = (p, s')" "objects (snd s) = objects w" for i s p s'
      using that status_objects [OF unreferenced_attempt_frame [of env cs "map chart_info charts" i "fst s" "snd s" p "fst s'" "snd s'"]]
      by (simp add: f_def)
    have "\<exists>i v. objects (snd v) = objects w \<and> f i v = (q, c, w')"
      by (rule retry_last [where I = "\<lambda>s. objects (snd s) = objects w", OF _ run]) (erule (1) step, simp)
    then obtain i v where frame: "objects (snd v) = objects w" and last: "f i v = (q, c, w')" by blast
    from step [OF last frame] have objs: "objects w' = objects w" by simp
    have "request_of c = request_of cs \<and> listed_object c w" if "q = None"
    proof -
      have "f i v = (None, c, w')" using last that by simp
      then obtain d es where got: "get_summary env i (request_of cs) (snd v) = Inr d" and c: "c = with_summaries es d"
        by (auto simp: f_def unreferenced_attempt_def Let_def split: sum.splits prod.splits)
      show ?thesis using summary_found [OF got] summary_listed [OF got] c frame by (simp add: listed_object_def)
    qed
    with objs res show ?thesis by auto
  qed
qed

lemma deployed_kinds_frame:
  assumes "updateDeployedGroupVersionKind env cs f l rs w = (r, c, w')"
  shows "status_only w w'"
proof (cases "l @ rs = []")
  case True
  with assms show ?thesis by (simp add: updateDeployedGroupVersionKind_def)
next
  case False
  have step: "status_only w (snd s')" if "deployed_kinds_attempt env cs f (l @ rs) i s = (q, s')" "status_only w (snd s)" for i s q s'
    using that by (cases s)
      (auto simp: deployed_kinds_attempt_def Let_def split: sum.splits prod.splits dest!: update_status_frame intro: status_only_trans)
  have "RetryOnConflict (deployed_kinds_attempt env cs f (l @ rs)) (zero_cluster_summary, w) = (r, c, w')"
    using assms False by (simp add: updateDeployedGroupVersionKind_def Let_def del: append_is_Nil_conv)
  then have "status_only w (snd (c, w'))"
    by (rule retry_invariant [where I = "\<lambda>s. status_only w (snd s)", rotated]) (simp, erule (1) step)
  then show ?thesis by simp
qed

lemma prepare_frame:
  assumes "prepareChartForAgent env cs chart allow kw = (r, kw')"
  shows "agent_frame kw kw' \<and> kw_Files kw' = kw_Files kw \<and> hw_Mgr (kw_Helm kw') = hw_Mgr (kw_Helm kw)"
proof -
  have kinds: "status_only (kw_Helm v) (kw_Helm v') \<and> kw_Committed v' = kw_Committed v \<and> kw_Files v' = kw_Files v"
    if "in_helm (\<lambda>w. case updateDeployedGroupVersionKind env cs FeatureHelm [] rs w of (err, _, w) \<Rightarrow> (err, w)) v = (q, v')" for rs v q v'
    using in_helm_frame [OF that] by (auto split: prod.splits dest: deployed_kinds_frame)
  have stage: "kw_Helm v' = kw_Helm v \<and> kw_Committed v' = kw_Committed v \<and> kw_Files v' = kw_Files v"
    if "stage_chart env chart us a ri v = (q, v')" for us a ri v q v'
    using that by (auto simp: stage_chart_def split: prod.splits)
  show ?thesis
    using assms
    by (auto simp: prepareChartForAgent_def Let_def agent_frame_def status_only_def split: sum.splits prod.splits option.splits if_splits
        dest!: kinds stage)
qed

lemma push_frame:
  assumes "in_helm (deployHelmChart env cs chart) kw = (r, kw')"
  shows "kw_Files kw' = kw_Files kw"
  using in_helm_frame [OF assms] by simp

lemma helm_options_frame:
  assumes "handle_with_options env cs chart pull allow kw = (r, kw')"
  shows "kw_Files kw' = kw_Files kw \<and> (pull \<longrightarrow> agent_frame kw kw')"
  using assms
  by (auto simp: handle_with_options_def registers_version_def objects_def agent_frame_def split: option.splits if_splits sum.splits prod.splits
      dest!: prepare_frame push_frame)

lemma handle_chart_agent:
  assumes "handleChart env cs chart True allow kw = (r, kw')"
  shows "agent_frame kw kw'"
proof (cases "createRegistryClientOptions (cv_Registry env) chart (kw_Files kw)")
  case (Pair q files)
  show ?thesis
  proof (cases q)
    case (Inl e)
    with Pair assms show ?thesis by (auto simp: handleChart_def agent_frame_def)
  next
    case (Inr ro)
    obtain s v where v: "handle_with_options env cs chart True allow (kw\<lparr>kw_Files := files\<rparr>) = (s, v)" by fastforce
    from helm_options_frame [OF v] Pair Inr v assms show ?thesis by (auto simp: handleChart_def agent_frame_def)
  qed
qed

lemma manage_step_agent:
  assumes "manage_step env cs chart True b kw = (q, cs', kw')"
  shows "agent_frame kw kw' \<and> cs_Spec cs' = cs_Spec cs \<and> request_of cs' = request_of cs"
proof -
  have "in_helm (updateValueHashOnHelmChartSummary env rg c chart rel vh ph) v = (e, v') \<Longrightarrow> agent_frame v v'" for rg c rel vh ph v e v'
    by (erule in_helm_agent) (rule status_objects, erule value_hash_frame)
  then show ?thesis
    using manage_step_cases [OF assms] handle_chart_agent agent_frame_trans agent_frame_refl
    by (metis failure_message_keeps(3,4))
qed

lemma deploy_single_agent:
  assumes "deploySingleChart env cs chart True kw = (q, cs', kw')"
  shows "agent_frame kw kw' \<and> cs_Spec cs' = cs_Spec cs \<and> request_of cs' = request_of cs"
proof (cases "getInstantiatedChartIdentity env chart")
  case (Inl e)
  then show ?thesis using assms by (simp add: deploySingleChart_def)
next
  case (Inr c)
  obtain can v where can: "in_helm (canManageChart env cs c) kw = (can, v)" by fastforce
  have v: "agent_frame kw v" using can by (rule in_helm_agent) (rule can_manage_objects)
  obtain lower u where lower: "in_helm (requeueLowerTierChallengers env cs c False) v = (lower, u)" by fastforce
  have u: "agent_frame v u" using lower by (rule in_helm_agent) (rule status_objects, erule requeue_lower_frame)
  from assms Inr can lower consider "kw' = v" "cs' = cs" | "kw' = u" "cs' = cs"
    | b where "manage_step env cs c True b u = (q, cs', kw')"
    by (auto simp: deploySingleChart_def split: sum.splits bool.splits if_splits)
  moreover have "agent_frame kw u" using v u by (rule agent_frame_trans)
  ultimately show ?thesis
    using v by cases (auto dest!: manage_step_agent intro: agent_frame_trans)
qed

lemma walk_agent:
  "walk_charts env True charts res cs kw = (res', cs', kw') \<Longrightarrow>
     agent_frame kw kw' \<and> cs_Spec cs' = cs_Spec cs \<and> request_of cs' = request_of cs"
proof (induction charts arbitrary: res cs kw)
  case (Cons chart charts)
  obtain q c v where step: "deploySingleChart env cs chart True kw = (q, c, v)" by (metis prod_cases3)
  note frame = deploy_single_agent [OF step]
  show ?case
  proof (cases q)
    case (Inl e)
    with Cons.prems step frame show ?thesis by simp
  next
    case (Inr st)
    with Cons.prems step have "walk_charts env True charts (add_step st res) c v = (res', cs', kw')" by simp
    from Cons.IH [OF this] frame show ?thesis by (auto intro: agent_frame_trans)
  qed
qed simp

section \<open>All charts or none\<close>

lemma commit_cases:
  assumes "commitStagedResourcesForDeployment env cs h b kw = (r, kw')"
  shows "kw_Helm kw' = kw_Helm kw \<and> (r \<noteq> None \<longrightarrow> kw' = kw) \<and>
    (r = None \<longrightarrow> (\<exists>setters. kw_Committed kw' = Some (setters, kw_Staged kw)) \<and> kw_Staged kw' = [])"
  using assms
  by (auto simp: commitStagedResourcesForDeployment_def commit_staged_def split: sum.splits option.splits)

lemma finish_pull_cases:
  assumes "\<not> is_dry_run cs" and "finish_pull env cs h err reports kw = (r, kw')"
  shows "if err = None \<and> r = None then \<exists>setters. kw_Committed kw' = Some (setters, kw_Staged kw) else kw_Committed kw' = kw_Committed kw"
  using assms
  by (auto simp: finish_pull_def updateClusterReportWithHelmReports_def discard_staged_def split: prod.splits option.splits if_splits
      dest!: commit_cases)


section \<open>When a chart counts as installed\<close>

lemma registered_version:
  "GetVersionForChart ns n chart (RegisterVersionForChart ns n chart m) = hc_ChartVersion chart"
  by (simp add: GetVersionForChart_def RegisterVersionForChart_def getChartVersion_def setChartVersion_def update_conv')

text \<open>Staging a chart records its version as the one installed, before anything is committed for the agent and in dry runs and
  removals alike: the next pass over the same chart is an upgrade, so that the hooks of an installation are left out.\<close>

theorem staged_counts_as_installed:
  assumes "handleChart env cs chart True allow kw = (Inr res, kw')" and "hc_ChartVersion chart \<noteq> []"
    and "css_ClusterNamespace (cs_Spec later) = css_ClusterNamespace (cs_Spec cs)"
    and "css_ClusterName (cs_Spec later) = css_ClusterName (cs_Spec cs)"
    and "getHelmActionInPullMode env later chart (kw_Helm kw') = Inr action"
  shows "action = ActUpgrade \<and> kw_Committed kw' = kw_Committed kw"
proof -
  obtain ro files v where v: "handle_with_options env cs chart True allow (kw\<lparr>kw_Files := files\<rparr>) = (Inr res, v)"
    and kw': "kw_Helm kw' = kw_Helm v"
    using assms(1) by (auto simp: handleChart_def split: sum.splits prod.splits)
  have "\<exists>w. kw_Helm v = registers_version cs chart w"
    using v by (auto simp: handle_with_options_def split: option.splits if_splits sum.splits prod.splits)
  then have "action = ActUpgrade"
    using assms(2-5)
    by (auto simp: kw' getHelmActionInPullMode_def registers_version_def registered_version Let_def split: option.splits if_splits)
  then show ?thesis using handle_chart_agent [OF assms(1)] by (simp add: agent_frame_def)
qed

section \<open>Temporary files\<close>

lemma temporary_keeps: "createTemporaryFile env pat data files = (r, files') \<Longrightarrow> set files \<subseteq> set files'"
  by (auto simp: createTemporaryFile_def split: sum.splits option.splits)

lemma ca_keeps: "createFileWithCA env chart files = (r, files') \<Longrightarrow> set files \<subseteq> set files'"
  unfolding createFileWithCA_def by (auto split: option.splits sum.splits dest: temporary_keeps)

text \<open>Handling a chart removes the temporary files it made, unless the registry options cannot be completed: then the file with the
  credentials stays on disk.\<close>

theorem credential_files:
  assumes "fresh_files (cv_Registry env)" and "handleChart env cs chart isPullMode allow kw = (r, kw')"
    and "createFileWithCredentials (cv_Registry env) chart (kw_Files kw) = (Inr path, files)" and "path \<noteq> []"
  shows "if \<exists>ro fs. createRegistryClientOptions (cv_Registry env) chart (kw_Files kw) = (Inr ro, fs)
    then kw_Files kw' = kw_Files kw else path \<in> set (kw_Files kw')"
proof (cases "createRegistryClientOptions (cv_Registry env) chart (kw_Files kw)")
  case (Pair q fs)
  show ?thesis
  proof (cases q)
    case (Inr ro)
    obtain s v where v: "handle_with_options env cs chart isPullMode allow (kw\<lparr>kw_Files := fs\<rparr>) = (s, v)" by fastforce
    have "kw_Files v = fs" using helm_options_frame [OF v] by simp
    then show ?thesis
      using assms(2) v Pair Inr options_removed [OF assms(1)] by (auto simp: handleChart_def)
  next
    case (Inl e)
    have "path \<in> set files" using credentials_file [OF assms(1,3)] assms(4) by auto
    moreover have "set files \<subseteq> set fs"
      using Pair assms(3,4) ca_keeps
      by (auto simp: Inl createRegistryClientOptions_def getCredentialsAndCAFiles_def createFileWithCredentials_def Let_def
          split: option.splits sum.splits prod.splits)
    ultimately show ?thesis using assms(2) Pair Inl by (auto simp: handleChart_def)
  qed
qed

section \<open>Witnesses\<close>

definition sample_broken_env :: charts_env where
  "sample_broken_env = sample_charts_env\<lparr>cv_Render := (\<lambda>c. if hc_ReleaseName c = ''q'' then Inl (plain_error ''render'')
     else cv_Render sample_charts_env c)\<rparr>"

definition sample_pull_cs :: cluster_summary where
  "sample_pull_cs = (let cs = sample_run_cs SyncModeContinuous [sample_run_chart, sample_run_chart\<lparr>hc_ReleaseName := ''q''\<rparr>] [] in
     cs\<lparr>cs_Spec := (cs_Spec cs)\<lparr>css_ClusterProfileSpec := (cs_ProfileSpec cs)\<lparr>ps_ContinueOnError := True\<rparr>\<rparr>\<rparr>)"


lemma staged_counts_as_installed_witness:
  "\<exists>res kw'. getHelmActionInPullMode sample_charts_env sample_dry_cs sample_run_chart (kw_Helm sample_dry_world) = Inr ActInstall \<and>
     handleChart sample_charts_env sample_dry_cs sample_run_chart True True sample_dry_world = (Inr res, kw') \<and>
     getHelmActionInPullMode sample_charts_env (with_mode SyncModeContinuous sample_dry_cs) sample_run_chart (kw_Helm kw') = Inr ActUpgrade"
proof -
  define out where "out = handleChart sample_charts_env sample_dry_cs sample_run_chart True True sample_dry_world"
  have "\<not> isl (fst out)" unfolding out_def by code_simp
  then have run: "handleChart sample_charts_env sample_dry_cs sample_run_chart True True sample_dry_world = (Inr (projr (fst out)), snd out)"
    by (simp add: out_def [symmetric] prod_eq_iff)
  have same: "hc_ChartVersion sample_run_chart \<noteq> []"
    "css_ClusterNamespace (cs_Spec (with_mode SyncModeContinuous sample_dry_cs)) = css_ClusterNamespace (cs_Spec sample_dry_cs)"
    "css_ClusterName (cs_Spec (with_mode SyncModeContinuous sample_dry_cs)) = css_ClusterName (cs_Spec sample_dry_cs)"
    by code_simp+
  obtain a where a: "getHelmActionInPullMode sample_charts_env (with_mode SyncModeContinuous sample_dry_cs) sample_run_chart (kw_Helm (snd out)) =
      Inr a"
  proof -
    have "\<not> isl (getHelmActionInPullMode sample_charts_env (with_mode SyncModeContinuous sample_dry_cs) sample_run_chart (kw_Helm (snd out)))"
      unfolding out_def by code_simp
    then show thesis using that by (metis sum.collapse(2))
  qed
  have "getHelmActionInPullMode sample_charts_env sample_dry_cs sample_run_chart (kw_Helm sample_dry_world) = Inr ActInstall"
    by code_simp
  with staged_counts_as_installed [OF run same a] run a show ?thesis by blast
qed

lemma sample_fresh: "fresh_files sample_registry_env"
proof -
  have "length p \<le> length (concat files)" if "p \<in> set files" for p :: string and files
    using that by (induction files) auto
  then show ?thesis by (fastforce simp: fresh_files_def sample_registry_env_def)
qed

definition sample_private_chart :: helm_chart where
  "sample_private_chart = sample_run_chart\<lparr>hc_RegistryCredentialsConfig := Some
     \<lparr>rcc_CredentialsSecretRef = Some \<lparr>sec_Name = ''s'', sec_Namespace = []\<rparr>, rcc_Key = [],
      rcc_CASecretRef = Some \<lparr>sec_Name = ''t'', sec_Namespace = []\<rparr>, rcc_InsecureSkipTLSVerify = False, rcc_PlainHTTP = False\<rparr>\<rparr>"

lemma credential_files_witness:
  "\<exists>r kw'. handleChart sample_charts_env sample_dry_cs sample_private_chart False True sample_dry_world = (r, kw') \<and>
     ''/config-*.json'' \<in> set (kw_Files kw')"
proof -
  obtain r kw' where run: "handleChart sample_charts_env sample_dry_cs sample_private_chart False True sample_dry_world = (r, kw')"
    by fastforce
  have fresh: "fresh_files (cv_Registry sample_charts_env)"
    using sample_fresh by (simp add: sample_charts_env_def helm_env.defs charts_env.defs)
  have made: "createFileWithCredentials (cv_Registry sample_charts_env) sample_private_chart (kw_Files sample_dry_world) =
      (Inr ''/config-*.json'', [''/config-*.json''])" by code_simp
  have "isl (fst (createRegistryClientOptions (cv_Registry sample_charts_env) sample_private_chart (kw_Files sample_dry_world)))"
    by code_simp
  then have "\<not> (\<exists>ro fs. createRegistryClientOptions (cv_Registry sample_charts_env) sample_private_chart (kw_Files sample_dry_world) = (Inr ro, fs))"
    by auto
  with credential_files [OF fresh run made] run show ?thesis by simp
qed

end
