(* ===== verification/Reference_Content.thy ===== *)
theory Reference_Content
  imports Reconcile_Maps Helm_Ownership Helm_Values Helm_Content
begin

text \<open>
  The objects a profile refers to, and the values read from them: ConfigMaps, Secrets and Flux sources (controllers/handlers_utils.go,
  handlers_kustomize.go, flux_source.go), template resources (templateresourcedef_utils.go), the values of charts, patches and kustomizations
  with their templates (handlers_helm.go, template_instantiation.go), and the text that stands for the data of an object in a hash
  (utils.go).

  \<open>refs_env\<close> holds the answers of the API server and of the libraries: the template engine with the functions of Sveltos, YAML,
  mergo, the accessors of nested fields. A template that changes a template resource while it runs (setField and its kin) is
  represented by its result alone.
\<close>

section \<open>Objects\<close>

record config_map =
  cfm_Name :: string
  cfm_Annotations :: "(string \<times> string) list option"
  cfm_Data :: "(string \<times> string) list"
  cfm_BinaryData :: "(string \<times> bytes) list"

record secret_object =
  sco_Name :: string
  sco_Annotations :: "(string \<times> string) list option"
  sco_Type :: string
  sco_Data :: "(string \<times> bytes) list"
  sco_StringData :: "(string \<times> string) list"

record flux_artifact =
  art_Revision :: string
  art_URL :: string
  art_Digest :: string

record flux_source =
  fls_Name :: string
  fls_Annotations :: "(string \<times> string) list option"
  fls_Artifact :: "flux_artifact option"

record cluster_objects =
  co_Cluster :: go_values
  co_KubeadmControlPlane :: "go_values option"
  co_InfrastructureProvider :: "go_values option"
  co_MgmtResources :: "(string \<times> go_values) list option"

text \<open>The reference to another object in the specification of a cluster of Cluster API.\<close>

record contract_reference =
  ctr_APIGroup :: string
  ctr_Kind :: string
  ctr_Name :: string

record generic_cluster =
  gc_Namespace :: string
  gc_InfrastructureRef :: contract_reference
  gc_ControlPlaneRef :: contract_reference

type_synonym mgmt_resources = "(string \<times> go_values) list option"

record refs_env =
  fe_Ref :: ref_env
  fe_ConfigMap :: "string \<times> string \<Rightarrow> api_error + config_map"
  fe_Secret :: "string \<times> string \<Rightarrow> api_error + secret_object"
  fe_SecretType :: string
  fe_Source :: "string \<Rightarrow> string \<times> string \<Rightarrow> api_error + flux_source"
  fe_TemplateAnnotation :: string
  fe_LuaAnnotation :: string
  fe_Cluster :: "string \<Rightarrow> string \<Rightarrow> cluster_type \<Rightarrow> dep_error + generic_cluster"
  fe_Contract :: "contract_reference \<Rightarrow> string \<Rightarrow> dep_error + go_values"
  fe_Unstructured :: "generic_cluster \<Rightarrow> dep_error + go_values"
  fe_Execute :: "cluster_objects \<Rightarrow> string \<Rightarrow> string \<Rightarrow> dep_error + string"
  fe_ResourceInterface :: "object_reference \<Rightarrow> dep_error option"
  fe_Resource :: "object_reference \<Rightarrow> api_error + go_values"
  fe_NestedField :: "go_values \<Rightarrow> string list \<Rightarrow> string + go_value option"
  fe_SetNestedField :: "go_values \<Rightarrow> go_value \<Rightarrow> string list \<Rightarrow> go_values"
  fe_RemoveNestedField :: "go_values \<Rightarrow> string list \<Rightarrow> go_values"
  fe_Values :: "string \<Rightarrow> dep_error + go_values"
  fe_Merge :: "go_values \<Rightarrow> go_values \<Rightarrow> dep_error + go_values"
  fe_Patch :: "string \<Rightarrow> dep_error + patch"
  fe_Stringify :: "(string \<times> string) list \<Rightarrow> dep_error + string"
  fe_ParseMap :: "string \<Rightarrow> dep_error + (string \<times> string) list"
  fe_AsCode :: "string \<Rightarrow> string"
  fe_ClusterAnnotations :: "string \<Rightarrow> string \<Rightarrow> cluster_type \<Rightarrow> api_error + (string \<times> string) list option"

text \<open>
  \<open>fe_Source\<close> takes the kind first. \<open>fe_Execute\<close> parses and runs a template of a given name on the objs. \<open>fe_AsCode\<close> is
  \<open>render.AsCode\<close> on a string and on a slice of bytes.
\<close>

section \<open>Annotations and data\<close>

definition annotated :: "string \<Rightarrow> (string \<times> string) list option \<Rightarrow> bool" where
  "annotated key annotations = (case annotations of None \<Rightarrow> False | Some al \<Rightarrow> map_of al key \<noteq> None)"

definition instantiateTemplate :: "'e refs_env_scheme \<Rightarrow> (string \<times> string) list option \<Rightarrow> bool" where
  "instantiateTemplate env annotations = annotated (fe_TemplateAnnotation env) annotations"

definition instantiateWithLua :: "'e refs_env_scheme \<Rightarrow> (string \<times> string) list option \<Rightarrow> bool" where
  "instantiateWithLua env annotations = annotated (fe_LuaAnnotation env) annotations"

definition subresourcesAnnotation :: string where
  "subresourcesAnnotation = ''projectsveltos.io/subresources''"

definition getSubresources :: "(string \<times> string) list option \<Rightarrow> string list option" where
  "getSubresources annotations =
     (case annotations of
        None \<Rightarrow> None
      | Some al \<Rightarrow> map_option (go_split (CHR '','')) (map_of al subresourcesAnnotation))"

definition getSortedKeys :: "(string \<times> 'v) list \<Rightarrow> string list" where
  "getSortedKeys m = sort (map fst m)"

definition values_in_order :: "(string \<times> string) list \<Rightarrow> string list" where
  "values_in_order m = map (lookup_default [] m) (getSortedKeys m)"

definition getDataSectionHash :: "'e refs_env_scheme \<Rightarrow> (string \<times> string) list \<Rightarrow> string" where
  "getDataSectionHash env data = concat (map (fe_AsCode env) (values_in_order data))"

definition annotations_hash :: "'e refs_env_scheme \<Rightarrow> (string \<times> string) list option \<Rightarrow> string" where
  "annotations_hash env annotations = (case annotations of None \<Rightarrow> [] | Some al \<Rightarrow> getDataSectionHash env al)"

definition getConfigMapHash :: "'e refs_env_scheme \<Rightarrow> config_map \<Rightarrow> string" where
  "getConfigMapHash env configmap =
     annotations_hash env (cfm_Annotations configmap) @ getDataSectionHash env (cfm_Data configmap) @
     getDataSectionHash env (cfm_BinaryData configmap)"

definition getSecretHash :: "'e refs_env_scheme \<Rightarrow> secret_object \<Rightarrow> string" where
  "getSecretHash env secret =
     annotations_hash env (sco_Annotations secret) @ getDataSectionHash env (sco_Data secret) @
     getDataSectionHash env (sco_StringData secret)"

section \<open>Fetching an object\<close>

definition getConfigMap :: "'e refs_env_scheme \<Rightarrow> string \<times> string \<Rightarrow> dep_error + config_map" where
  "getConfigMap env name = (case fe_ConfigMap env name of Inl e \<Rightarrow> Inl (api_err e) | Inr cm \<Rightarrow> Inr cm)"

definition getSecret :: "'e refs_env_scheme \<Rightarrow> string \<times> string \<Rightarrow> dep_error + secret_object" where
  "getSecret env name =
     (case fe_Secret env name of
        Inl e \<Rightarrow> Inl (api_err e)
      | Inr secret \<Rightarrow>
          if sco_Type secret \<noteq> fe_SecretType env then Inl (plain_error ''secret type not supported'') else Inr secret)"

text \<open>A source that does not exist is \<open>None\<close> and no error.\<close>

definition get_source_kind :: "'e refs_env_scheme \<Rightarrow> string \<Rightarrow> string \<times> string \<Rightarrow> dep_error + flux_source option" where
  "get_source_kind env kind name =
     (case fe_Source env kind name of
        Inl ApiNotFound \<Rightarrow> Inr None
      | Inl (ApiError msg) \<Rightarrow> Inl (plain_error (''unable to get source: '' @ msg))
      | Inr s \<Rightarrow> Inr (Some s))"

definition getSource :: "'e refs_env_scheme \<Rightarrow> string \<Rightarrow> string \<times> string \<Rightarrow> dep_error + flux_source option" where
  "getSource env sourceKind name =
     (if sourceKind = rf_GitRepositoryKind (fe_Ref env) then get_source_kind env sourceKind name
      else if sourceKind = rf_OCIRepositoryKind (fe_Ref env) then get_source_kind env sourceKind name
      else if sourceKind = rf_BucketKind (fe_Ref env) then get_source_kind env sourceKind name
      else Inl (plain_error (''source `'' @ snd name @ ''` kind '' @ sourceKind @ '' not supported'')))"

definition handleReferenceError :: "dep_error \<Rightarrow> string \<Rightarrow> string \<Rightarrow> string \<Rightarrow> bool \<Rightarrow> dep_error option" where
  "handleReferenceError err kind namespace name optional =
     (let msg = ''Referenced resource: '' @ kind @ '' '' @ namespace @ ''/'' @ name
      in if errors_As err NotFoundError then
           (if optional then None
            else Some \<lparr>err_Msg = msg @ '' does not exist'', err_Chain = [NonRetriableError]\<rparr>)
         else Some (err\<lparr>err_Msg := msg @ '': '' @ err_Msg err\<rparr>))"

definition addToMap :: "(string \<times> string) list \<Rightarrow> string \<Rightarrow> string \<Rightarrow> (string \<times> string) list" where
  "addToMap m key value =
     (case map_of m key of
        Some existingValue \<Rightarrow> AList.update key (existingValue @ [char_of (10 :: nat)] @ value) m
      | None \<Rightarrow> AList.update key value m)"

section \<open>Objects of the cluster and templates\<close>

definition fetch_contract :: "'e refs_env_scheme \<Rightarrow> contract_reference \<Rightarrow> string \<Rightarrow> dep_error + go_values option" where
  "fetch_contract env ref namespace =
     (if ctr_APIGroup ref \<noteq> [] \<and> ctr_Kind ref \<noteq> [] then
        (case fe_Contract env ref namespace of Inl e \<Rightarrow> Inl e | Inr u \<Rightarrow> Inr (Some u))
      else Inr None)"

definition fetchInfrastructureProvider :: "'e refs_env_scheme \<Rightarrow> generic_cluster \<Rightarrow> dep_error + go_values option" where
  "fetchInfrastructureProvider env cluster = fetch_contract env (gc_InfrastructureRef cluster) (gc_Namespace cluster)"

definition fetchKubeadmControlPlane :: "'e refs_env_scheme \<Rightarrow> generic_cluster \<Rightarrow> dep_error + go_values option" where
  "fetchKubeadmControlPlane env cluster = fetch_contract env (gc_ControlPlaneRef cluster) (gc_Namespace cluster)"

definition fetch_capi :: "'e refs_env_scheme \<Rightarrow> cluster_type \<Rightarrow> generic_cluster \<Rightarrow> dep_error + go_values option \<times> go_values option" where
  "fetch_capi env clusterType cluster =
     (if clusterType = ClusterTypeCapi then
        (case fetchInfrastructureProvider env cluster of
           Inl e \<Rightarrow> Inl e
         | Inr provider \<Rightarrow>
             (case fetchKubeadmControlPlane env cluster of
                Inl e \<Rightarrow> Inl e
              | Inr controlPlane \<Rightarrow> Inr (provider, controlPlane)))
      else Inr (None, None))"

definition fetchClusterObjects :: "'e refs_env_scheme \<Rightarrow> cluster_summary \<Rightarrow> dep_error + cluster_objects" where
  "fetchClusterObjects env cs =
     (case fe_Cluster env (css_ClusterNamespace (cs_Spec cs)) (css_ClusterName (cs_Spec cs)) (css_ClusterType (cs_Spec cs)) of
        Inl e \<Rightarrow> Inl e
      | Inr cluster \<Rightarrow>
          (case fetch_capi env (css_ClusterType (cs_Spec cs)) cluster of
             Inl e \<Rightarrow> Inl e
           | Inr (provider, controlPlane) \<Rightarrow>
               (case fe_Unstructured env cluster of
                  Inl e \<Rightarrow> Inl e
                | Inr u \<Rightarrow> Inr \<lparr>co_Cluster = u, co_KubeadmControlPlane = controlPlane,
                    co_InfrastructureProvider = provider, co_MgmtResources = None\<rparr>)))"

definition agentWatchNamespacesAnnotation :: string where
  "agentWatchNamespacesAnnotation = ''agent.projectsveltos.io/watch-namespaces''"

definition getAgentWatchNamespaces :: "'e refs_env_scheme \<Rightarrow> cluster_summary \<Rightarrow> dep_error + string list" where
  "getAgentWatchNamespaces env cs =
     (case fe_ClusterAnnotations env (css_ClusterNamespace (cs_Spec cs)) (css_ClusterName (cs_Spec cs)) (css_ClusterType (cs_Spec cs)) of
        Inl ApiNotFound \<Rightarrow> Inr []
      | Inl e \<Rightarrow> Inl (api_err e)
      | Inr None \<Rightarrow> Inr []
      | Inr (Some annotations) \<Rightarrow>
          let val = lookup_default [] annotations agentWatchNamespacesAnnotation
          in if val = [] then Inr []
             else Inr (filter (\<lambda>ns. ns \<noteq> []) (map trim_space (go_split (CHR '','') val))))"

definition getTemplateName :: "string \<Rightarrow> string \<Rightarrow> string \<Rightarrow> string" where
  "getTemplateName clusterNamespace clusterName requestorName = clusterNamespace @ ''-'' @ clusterName @ ''-'' @ requestorName"

definition use_mgmt_resources :: "mgmt_resources \<Rightarrow> cluster_objects \<Rightarrow> cluster_objects" where
  "use_mgmt_resources mgmtResources objs =
     (if mgmtResources = None then objs else objs\<lparr>co_MgmtResources := mgmtResources\<rparr>)"

definition instantiateTemplateValues :: "'e refs_env_scheme \<Rightarrow> cluster_summary \<Rightarrow> string \<Rightarrow> string \<Rightarrow> cluster_objects \<Rightarrow>
    mgmt_resources \<Rightarrow> dep_error + string" where
  "instantiateTemplateValues env cs requestorName text objs mgmtResources =
     fe_Execute env (use_mgmt_resources mgmtResources objs)
       (getTemplateName (css_ClusterNamespace (cs_Spec cs)) (css_ClusterName (cs_Spec cs)) requestorName) text"

section \<open>Template resources\<close>

text \<open>The loop over the watched fields; a path that is absent or cannot be read is skipped.\<close>

definition extractWatchedFields :: "'e refs_env_scheme \<Rightarrow> go_values \<Rightarrow> string list \<Rightarrow> go_values" where
  "extractWatchedFields env u watchFields =
     foldl (\<lambda>extracted path. let parts = go_split (CHR ''.'') path in
         case fe_NestedField env u parts of
           Inr (Some val) \<Rightarrow> fe_SetNestedField env extracted val parts
         | _ \<Rightarrow> extracted) [] watchFields"

definition trimmed_resource :: "'e refs_env_scheme \<Rightarrow> template_resource_ref \<Rightarrow> go_values \<Rightarrow> go_values" where
  "trimmed_resource env ref u =
     (if trr_WatchFields ref \<noteq> [] then extractWatchedFields env u (trr_WatchFields ref)
      else if trr_IgnoreStatusChanges ref then
        fe_RemoveNestedField env (fe_RemoveNestedField env (fe_RemoveNestedField env u [''status''])
          [''metadata'', ''resourceVersion'']) [''metadata'', ''managedFields'']
      else u)"

text \<open>One template resource: \<open>None\<close> for an optional one that does not exist.\<close>

definition fetch_template_ref :: "'e refs_env_scheme \<Rightarrow> cluster_summary \<Rightarrow> template_resource_ref \<Rightarrow> dep_error + go_values option" where
  "fetch_template_ref env cs ref =
     (case instantiate_ref (fe_Ref env) cs (ref_Namespace (trr_Resource ref)) (ref_Name (trr_Resource ref)) of
        Inl msg \<Rightarrow> Inl (plain_error msg)
      | Inr (ns, n) \<Rightarrow>
          let res = (trr_Resource ref)\<lparr>ref_Namespace := ns, ref_Name := n\<rparr> in
          (case fe_ResourceInterface env res of
             Some e \<Rightarrow> Inl e
           | None \<Rightarrow>
               (case fe_Resource env res of
                  Inl ApiNotFound \<Rightarrow>
                    if trr_Optional ref then Inr None
                    else Inl \<lparr>err_Msg = ''referenced resource: '' @ ref_Kind res @ '' '' @ ns @ ''/'' @ n @
                      '' does not exist: '' @ err_text ApiNotFound, err_Chain = [NotFoundError]\<rparr>
                | Inl (ApiError msg) \<Rightarrow> Inl (plain_error msg)
                | Inr u \<Rightarrow> Inr (Some (trimmed_resource env ref u)))))"

fun collect_template_refs :: "'e refs_env_scheme \<Rightarrow> cluster_summary \<Rightarrow> template_resource_ref list \<Rightarrow> (string \<times> go_values) list \<Rightarrow>
    dep_error + (string \<times> go_values) list" where
  "collect_template_refs env cs [] result = Inr result"
| "collect_template_refs env cs (ref # refs) result =
     (case fetch_template_ref env cs ref of
        Inl e \<Rightarrow> Inl e
      | Inr None \<Rightarrow> collect_template_refs env cs refs result
      | Inr (Some u) \<Rightarrow> collect_template_refs env cs refs (AList.update (trr_Identifier ref) u result))"

text \<open>A profile without template resources has no map of them.\<close>

definition collectTemplateResourceRefs :: "'e refs_env_scheme \<Rightarrow> cluster_summary \<Rightarrow> dep_error + mgmt_resources" where
  "collectTemplateResourceRefs env cs =
     (if ps_TemplateResourceRefs (cs_ProfileSpec cs) = [] then Inr None
      else case collect_template_refs env cs (ps_TemplateResourceRefs (cs_ProfileSpec cs)) [] of
        Inl e \<Rightarrow> Inl e
      | Inr m \<Rightarrow> Inr (Some m))"

section \<open>Values from ConfigMaps and Secrets\<close>

text \<open>
  The content one reference yields: whether it is to be instantiated, and its data. \<open>Inr None\<close> is a reference that is skipped: an
  optional one that does not exist, or one of another kind.
\<close>

definition referenced_data :: "'e refs_env_scheme \<Rightarrow> cluster_summary \<Rightarrow> value_from \<Rightarrow>
    dep_error + (bool \<times> (string \<times> string) list) option" where
  "referenced_data env cs vf =
     (case instantiate_ref (fe_Ref env) cs (vf_Namespace vf) (vf_Name vf) of
        Inl msg \<Rightarrow> Inl (plain_error msg)
      | Inr (namespace, name) \<Rightarrow>
          let missing = (\<lambda>e. case handleReferenceError e (vf_Kind vf) namespace name (vf_Optional vf) of
                None \<Rightarrow> Inr None | Some e' \<Rightarrow> Inl e')
          in if vf_Kind vf = rf_ConfigMapKind (fe_Ref env) then
               (case getConfigMap env (namespace, name) of
                  Inl e \<Rightarrow> missing e
                | Inr cm \<Rightarrow> Inr (Some (instantiateTemplate env (cfm_Annotations cm), cfm_Data cm)))
             else if vf_Kind vf = rf_SecretKind (fe_Ref env) then
               (case getSecret env (namespace, name) of
                  Inl e \<Rightarrow> missing e
                | Inr s \<Rightarrow> Inr (Some (instantiateTemplate env (sco_Annotations s), sco_Data s)))
             else Inr None)"

text \<open>The values to be instantiated and those used as they are.\<close>

fun values_from :: "'e refs_env_scheme \<Rightarrow> cluster_summary \<Rightarrow> value_from list \<Rightarrow> string list \<times> string list \<Rightarrow>
    dep_error + string list \<times> string list" where
  "values_from env cs [] acc = Inr acc"
| "values_from env cs (vf # vfs) (toInstantiate, toUse) =
     (case referenced_data env cs vf of
        Inl e \<Rightarrow> Inl e
      | Inr None \<Rightarrow> values_from env cs vfs (toInstantiate, toUse)
      | Inr (Some (templated, data)) \<Rightarrow>
          if templated then values_from env cs vfs (toInstantiate @ values_in_order data, toUse)
          else values_from env cs vfs (toInstantiate, toUse @ values_in_order data))"

definition getValuesFrom :: "'e refs_env_scheme \<Rightarrow> cluster_summary \<Rightarrow> value_from list \<Rightarrow>
    dep_error + string list \<times> string list" where
  "getValuesFrom env cs valuesFrom = values_from env cs valuesFrom ([], [])"

definition getPatchesFromContent :: "'e refs_env_scheme \<Rightarrow> cluster_summary \<Rightarrow> dep_error + string list \<times> string list" where
  "getPatchesFromContent env cs = getValuesFrom env cs (ps_PatchesFrom (cs_ProfileSpec cs))"

definition getHelmChartValuesFrom :: "'e refs_env_scheme \<Rightarrow> cluster_summary \<Rightarrow> helm_chart \<Rightarrow>
    dep_error + string list \<times> string list" where
  "getHelmChartValuesFrom env cs helmChart = getValuesFrom env cs (hc_ValuesFrom helmChart)"

text \<open>The same for a kustomization, whose values are maps; a key of a later reference replaces the earlier one or is appended to it.\<close>

definition put_values :: "bool \<Rightarrow> (string \<times> string) list \<Rightarrow> (string \<times> string) list \<Rightarrow> (string \<times> string) list" where
  "put_values overrideKeys data m =
     foldl (\<lambda>m (key, value). if overrideKeys then AList.update key value m else addToMap m key value) m data"

fun kustomize_values :: "'e refs_env_scheme \<Rightarrow> cluster_summary \<Rightarrow> bool \<Rightarrow> value_from list \<Rightarrow>
    (string \<times> string) list \<times> (string \<times> string) list \<Rightarrow> dep_error + (string \<times> string) list \<times> (string \<times> string) list" where
  "kustomize_values env cs overrideKeys [] acc = Inr acc"
| "kustomize_values env cs overrideKeys (vf # vfs) (dynamicValues, staticValues) =
     (case referenced_data env cs vf of
        Inl e \<Rightarrow> Inl e
      | Inr None \<Rightarrow> kustomize_values env cs overrideKeys vfs (dynamicValues, staticValues)
      | Inr (Some (templated, data)) \<Rightarrow>
          if templated then kustomize_values env cs overrideKeys vfs (put_values overrideKeys data dynamicValues, staticValues)
          else kustomize_values env cs overrideKeys vfs (dynamicValues, put_values overrideKeys data staticValues))"

definition getKustomizeValuesFrom :: "'e refs_env_scheme \<Rightarrow> cluster_summary \<Rightarrow> value_from list \<Rightarrow> bool \<Rightarrow>
    dep_error + (string \<times> string) list \<times> (string \<times> string) list" where
  "getKustomizeValuesFrom env cs valuesFrom overrideKeys = kustomize_values env cs overrideKeys valuesFrom ([], [])"

definition getKustomizeSubstituteValuesFrom :: "'e refs_env_scheme \<Rightarrow> cluster_summary \<Rightarrow> kustomization_ref \<Rightarrow>
    dep_error + (string \<times> string) list \<times> (string \<times> string) list" where
  "getKustomizeSubstituteValuesFrom env cs kustomizationRef = getKustomizeValuesFrom env cs (kr_ValuesFrom kustomizationRef) True"

definition getKustomizeSubstituteValues :: "'e refs_env_scheme \<Rightarrow> cluster_summary \<Rightarrow> kustomization_ref \<Rightarrow>
    dep_error + (string \<times> string) list \<times> (string \<times> string) list" where
  "getKustomizeSubstituteValues env cs kustomizationRef =
     (case getKustomizeSubstituteValuesFrom env cs kustomizationRef of
        Inl e \<Rightarrow> Inl e
      | Inr (dynamicValues, staticValues) \<Rightarrow> Inr (put_values True dynamicValues (kr_Values kustomizationRef), staticValues))"

definition instantiateKustomizeSubstituteValues :: "'e refs_env_scheme \<Rightarrow> cluster_summary \<Rightarrow> cluster_objects \<Rightarrow> mgmt_resources \<Rightarrow>
    (string \<times> string) list \<Rightarrow> dep_error + (string \<times> string) list" where
  "instantiateKustomizeSubstituteValues env cs objs mgmtResources vals =
     (case fe_Stringify env vals of
        Inl e \<Rightarrow> Inl e
      | Inr stringified \<Rightarrow>
          (case instantiateTemplateValues env cs (om_Namespace (cs_Meta cs) @ om_Name (cs_Meta cs) @ ''kustomize'') stringified
                  objs mgmtResources of
             Inl e \<Rightarrow> Inl e
           | Inr instantiatedValue \<Rightarrow> fe_ParseMap env instantiatedValue))"

text \<open>The static values replace instantiated ones of the same key.\<close>

definition substitute_values :: "'e refs_env_scheme \<Rightarrow> cluster_summary \<Rightarrow> kustomization_ref \<Rightarrow> cluster_objects \<Rightarrow>
    dep_error + (string \<times> string) list" where
  "substitute_values env cs kr clusterObjects =
     (case collectTemplateResourceRefs env cs of
        Inl e \<Rightarrow> Inl e
      | Inr mgmtResources \<Rightarrow>
          (case getKustomizeSubstituteValues env cs kr of
             Inl e \<Rightarrow> Inl e
           | Inr (templated, static) \<Rightarrow>
               (case instantiateKustomizeSubstituteValues env cs clusterObjects mgmtResources templated of
                  Inl e \<Rightarrow> Inl e
                | Inr instantiated \<Rightarrow> Inr (put_values True static instantiated))))"

section \<open>Patches\<close>

fun instantiate_patches :: "'e refs_env_scheme \<Rightarrow> cluster_summary \<Rightarrow> string \<Rightarrow> cluster_objects \<Rightarrow> mgmt_resources \<Rightarrow> patch list \<Rightarrow>
    dep_error + patch list" where
  "instantiate_patches env cs requestor objs mgmt [] = Inr []"
| "instantiate_patches env cs requestor objs mgmt (p # ps) =
     (case instantiateTemplateValues env cs requestor (pt_Patch p) objs mgmt of
        Inl e \<Rightarrow> Inl e
      | Inr s \<Rightarrow>
          (case instantiate_patches env cs requestor objs mgmt ps of
             Inl e \<Rightarrow> Inl e
           | Inr qs \<Rightarrow> Inr (\<lparr>pt_Target = pt_Target p, pt_Patch = s\<rparr> # qs)))"

fun templated_patches :: "'e refs_env_scheme \<Rightarrow> cluster_summary \<Rightarrow> cluster_objects \<Rightarrow> mgmt_resources \<Rightarrow> string list \<Rightarrow>
    dep_error + patch list" where
  "templated_patches env cs objs mgmt [] = Inr []"
| "templated_patches env cs objs mgmt (v # vs) =
     (case instantiateTemplateValues env cs (om_Name (cs_Meta cs)) v objs mgmt of
        Inl e \<Rightarrow> Inl e
      | Inr s \<Rightarrow>
          (case fe_Patch env s of
             Inl e \<Rightarrow> Inl e
           | Inr p \<Rightarrow> (case templated_patches env cs objs mgmt vs of Inl e \<Rightarrow> Inl e | Inr qs \<Rightarrow> Inr (p # qs))))"

fun plain_patches :: "'e refs_env_scheme \<Rightarrow> string list \<Rightarrow> dep_error + patch list" where
  "plain_patches env [] = Inr []"
| "plain_patches env (v # vs) =
     (case fe_Patch env v of
        Inl e \<Rightarrow> Inl (e\<lparr>err_Msg := ''failed to unmarshal patch '' @ v @ '': '' @ err_Msg e\<rparr>)
      | Inr p \<Rightarrow> (case plain_patches env vs of Inl e \<Rightarrow> Inl e | Inr qs \<Rightarrow> Inr (p # qs)))"

definition instantiatedPatches :: "'e refs_env_scheme \<Rightarrow> cluster_summary \<Rightarrow> string \<Rightarrow> mgmt_resources \<Rightarrow> dep_error + patch list" where
  "instantiatedPatches env cs requestor mgmtResources =
     (if ps_Patches (cs_ProfileSpec cs) = [] \<and> ps_PatchesFrom (cs_ProfileSpec cs) = [] then Inr []
      else case fetchClusterObjects env cs of
        Inl e \<Rightarrow> Inl e
      | Inr objs \<Rightarrow>
          (case instantiate_patches env cs requestor objs mgmtResources (ps_Patches (cs_ProfileSpec cs)) of
             Inl e \<Rightarrow> Inl e
           | Inr inline \<Rightarrow>
               (case getPatchesFromContent env cs of
                  Inl e \<Rightarrow> Inl e
                | Inr (toInstantiate, toUse) \<Rightarrow>
                    (case templated_patches env cs objs mgmtResources toInstantiate of
                       Inl e \<Rightarrow> Inl e
                     | Inr templated \<Rightarrow>
                         (case plain_patches env toUse of
                            Inl e \<Rightarrow> Inl e
                          | Inr plain \<Rightarrow> Inr (inline @ templated @ plain))))))"

section \<open>Values of a chart\<close>

fun merge_plain :: "'e refs_env_scheme \<Rightarrow> string list \<Rightarrow> go_values \<Rightarrow> dep_error + go_values" where
  "merge_plain env [] result = Inr result"
| "merge_plain env (v # vs) result =
     (case fe_Values env v of
        Inl e \<Rightarrow> Inl e
      | Inr m \<Rightarrow> (case fe_Merge env result m of Inl e \<Rightarrow> Inl e | Inr result' \<Rightarrow> merge_plain env vs result'))"

fun merge_templated :: "'e refs_env_scheme \<Rightarrow> cluster_summary \<Rightarrow> string \<Rightarrow> cluster_objects \<Rightarrow> mgmt_resources \<Rightarrow> string list \<Rightarrow>
    go_values \<Rightarrow> dep_error + go_values" where
  "merge_templated env cs requestor objs mgmt [] result = Inr result"
| "merge_templated env cs requestor objs mgmt (v # vs) result =
     (case instantiateTemplateValues env cs requestor v objs mgmt of
        Inl e \<Rightarrow> Inl e
      | Inr s \<Rightarrow>
          (case fe_Values env s of
             Inl e \<Rightarrow> Inl e
           | Inr m \<Rightarrow>
               (case fe_Merge env result m of
                  Inl e \<Rightarrow> Inl e
                | Inr result' \<Rightarrow> merge_templated env cs requestor objs mgmt vs result')))"

definition own_values :: "'e refs_env_scheme \<Rightarrow> string \<Rightarrow> dep_error + go_values" where
  "own_values env instantiatedValues =
     (if instantiatedValues = [] then Inr []
      else case fe_Values env instantiatedValues of
        Inl e \<Rightarrow> Inl (e\<lparr>err_Msg := ''failed to unmarshal main chart values (check if it is a valid YAML map): '' @ err_Msg e\<rparr>)
      | Inr m \<Rightarrow> Inr m)"

definition getHelmChartInstantiatedValues :: "'e refs_env_scheme \<Rightarrow> cluster_summary \<Rightarrow> mgmt_resources \<Rightarrow> helm_chart \<Rightarrow>
    dep_error + go_values" where
  "getHelmChartInstantiatedValues env cs mgmtResources requestedChart =
     (case fetchClusterObjects env cs of
        Inl e \<Rightarrow> Inl e
      | Inr objs \<Rightarrow>
          (case instantiateTemplateValues env cs (hc_ChartName requestedChart) (hc_Values requestedChart) objs mgmtResources of
             Inl e \<Rightarrow> Inl e
           | Inr instantiatedValues \<Rightarrow>
               (case own_values env instantiatedValues of
                  Inl e \<Rightarrow> Inl e
                | Inr result \<Rightarrow>
                    (case getHelmChartValuesFrom env cs requestedChart of
                       Inl e \<Rightarrow> Inl e
                     | Inr (toInstantiate, toUse) \<Rightarrow>
                         (case merge_plain env toUse result of
                            Inl e \<Rightarrow> Inl e
                          | Inr result' \<Rightarrow>
                              merge_templated env cs (hc_ChartName requestedChart) objs mgmtResources toInstantiate result')))))"

end
