(* ===== verification/Url_Source.thy ===== *)
theory Url_Source
  imports Reference_Content
begin

text \<open>
  Content fetched from a URL (controllers/url_source.go): the credentials and the TLS settings of a request, the layers of an OCI
  artifact, and the manifests found in an archive.

  The HTTP client, the OCI registry, decompression and the reader of tar archives are fields of \<open>url_env\<close>. A
  tar archive is the sequence of answers its reader gives, a \<open>tar_stream\<close>.
\<close>

section \<open>Requests\<close>

datatype http_auth = NoAuth | BearerAuth string | BasicAuth string string

datatype tls_setting = TLS_Default | TLS_RootCAs bytes | TLS_InsecureSkipVerify

record http_request =
  hq_URL :: string
  hq_Auth :: http_auth
  hq_TLS :: tls_setting

record oci_client =
  oc_Registry :: string
  oc_PlainHTTP :: bool
  oc_Credential :: http_auth
  oc_TLS :: tls_setting

record remote_fetch_options =
  rfo_secretRef :: "secret_reference option"
  rfo_insecureSkipTLSVerify :: bool
  rfo_plainHTTP :: bool

datatype tar_type = TypeReg | TypeDir | TypeOther

datatype tar_stream = Tar_EOF | Tar_Error dep_error | Tar_Entry tar_type string "dep_error + bytes" tar_stream

record url_env = refs_env +
  ue_RenderText :: "string \<Rightarrow> string \<Rightarrow> string \<Rightarrow> cluster_type \<Rightarrow> dep_error + string"
  ue_NewRequest :: "string \<Rightarrow> dep_error option"
  ue_Do :: "http_request \<Rightarrow> dep_error + nat \<times> (dep_error + bytes)"
  ue_IsCertPool :: "bytes \<Rightarrow> bool"
  ue_NewRepository :: "string \<Rightarrow> dep_error + string"
  ue_FetchReference :: "oci_client \<Rightarrow> string \<Rightarrow> dep_error + (dep_error + bytes)"
  ue_Manifest :: "bytes \<Rightarrow> dep_error + string list"
  ue_FetchLayer :: "oci_client \<Rightarrow> string \<Rightarrow> dep_error + (dep_error + bytes)"
  ue_Gunzip :: "bytes \<Rightarrow> dep_error + bytes"
  ue_Untar :: "bytes \<Rightarrow> tar_stream"

text \<open>
  \<open>ue_Do\<close> yields the status of the response and what reading its body yields. \<open>ue_NewRepository\<close> yields the host of the registry,
  \<open>ue_Manifest\<close> the layers a manifest lists.
\<close>

definition prefixed :: "string \<Rightarrow> dep_error \<Rightarrow> dep_error" where
  "prefixed msg e = e\<lparr>err_Msg := msg @ '': '' @ err_Msg e\<rparr>"

definition instantiateRemoteURL :: "'e url_env_scheme \<Rightarrow> cluster_summary \<Rightarrow> string \<Rightarrow> dep_error + string" where
  "instantiateRemoteURL env cs rawURL =
     ue_RenderText env (css_ClusterNamespace (cs_Spec cs)) (css_ClusterName (cs_Spec cs)) rawURL (css_ClusterType (cs_Spec cs))"

definition secret_auth :: "(string \<times> bytes) list \<Rightarrow> http_auth" where
  "secret_auth data =
     (case map_of data ''token'' of
        Some token \<Rightarrow> BearerAuth (trim_space token)
      | None \<Rightarrow>
          (case map_of data ''username'' of
             None \<Rightarrow> NoAuth
           | Some username \<Rightarrow>
               (case map_of data ''password'' of
                  None \<Rightarrow> NoAuth
                | Some password \<Rightarrow> BasicAuth (trim_space username) (trim_space password))))"

definition secret_roots :: "'e url_env_scheme \<Rightarrow> string \<times> string \<Rightarrow> (string \<times> bytes) list \<Rightarrow> dep_error + bytes option" where
  "secret_roots env name data =
     (case map_of data ''caFile'' of
        None \<Rightarrow> Inr None
      | Some caFile \<Rightarrow>
          if ue_IsCertPool env caFile then Inr (Some caFile)
          else Inl (plain_error (''failed to parse caFile from secret '' @ fst name @ ''/'' @ snd name)))"

text \<open>The credentials and the certificate authority of the Secret an option refers to.\<close>

definition fetch_credentials :: "'e url_env_scheme \<Rightarrow> cluster_summary \<Rightarrow> string \<Rightarrow> secret_reference option \<Rightarrow>
    dep_error + http_auth \<times> bytes option" where
  "fetch_credentials env cs rawURL secretRef =
     (case secretRef of
        None \<Rightarrow> Inr (NoAuth, None)
      | Some ref \<Rightarrow>
          (case instantiate_ref (fe_Ref env) cs (sec_Namespace ref) (sec_Name ref) of
             Inl msg \<Rightarrow> Inl (prefixed (''failed to instantiate secret for URL '' @ rawURL) (plain_error msg))
           | Inr name \<Rightarrow>
               (case getSecret env name of
                  Inl e \<Rightarrow> Inl (prefixed (''failed to get auth secret '' @ fst name @ ''/'' @ snd name @ '' for URL '' @ rawURL) e)
                | Inr secret \<Rightarrow>
                    (case secret_roots env name (sco_Data secret) of
                       Inl e \<Rightarrow> Inl e
                     | Inr roots \<Rightarrow> Inr (secret_auth (sco_Data secret), roots)))))"

definition tls_for :: "bytes option \<Rightarrow> remote_fetch_options \<Rightarrow> tls_setting" where
  "tls_for roots opts =
     (case roots of
        Some ca \<Rightarrow> TLS_RootCAs ca
      | None \<Rightarrow> if rfo_insecureSkipTLSVerify opts then TLS_InsecureSkipVerify else TLS_Default)"

definition fetchURL :: "'e url_env_scheme \<Rightarrow> cluster_summary \<Rightarrow> string \<Rightarrow> remote_fetch_options \<Rightarrow> dep_error + bytes" where
  "fetchURL env cs rawURL opts =
     (case ue_NewRequest env rawURL of
        Some e \<Rightarrow> Inl (prefixed (''failed to build HTTP request for '' @ rawURL) e)
      | None \<Rightarrow>
          (case fetch_credentials env cs rawURL (rfo_secretRef opts) of
             Inl e \<Rightarrow> Inl e
           | Inr (auth, roots) \<Rightarrow>
               (case ue_Do env \<lparr>hq_URL = rawURL, hq_Auth = auth, hq_TLS = tls_for roots opts\<rparr> of
                  Inl e \<Rightarrow> Inl (prefixed (''failed to fetch '' @ rawURL) e)
                | Inr (status, content) \<Rightarrow>
                    if status \<noteq> 200 then Inl (plain_error (''unexpected HTTP status '' @ nat_text status @ '' fetching '' @ rawURL))
                    else case content of
                      Inl e \<Rightarrow> Inl (prefixed (''failed to read response body from '' @ rawURL) e)
                    | Inr body \<Rightarrow> Inr body)))"

section \<open>OCI artifacts\<close>

definition buildOCIAuthClient :: "'e url_env_scheme \<Rightarrow> cluster_summary \<Rightarrow> string \<Rightarrow> string \<Rightarrow> remote_fetch_options \<Rightarrow>
    dep_error + oci_client" where
  "buildOCIAuthClient env cs rawURL registryHost opts =
     (case fetch_credentials env cs rawURL (rfo_secretRef opts) of
        Inl e \<Rightarrow> Inl e
      | Inr (auth, roots) \<Rightarrow>
          Inr \<lparr>oc_Registry = registryHost, oc_PlainHTTP = False, oc_Credential = auth, oc_TLS = tls_for roots opts\<rparr>)"

fun pull_layers :: "'e url_env_scheme \<Rightarrow> oci_client \<Rightarrow> string \<Rightarrow> string list \<Rightarrow> bytes list \<Rightarrow> dep_error + bytes list" where
  "pull_layers env repo rawURL [] layers = Inr layers"
| "pull_layers env repo rawURL (layer # rest) layers =
     (case ue_FetchLayer env repo layer of
        Inl e \<Rightarrow> Inl (prefixed (''failed to fetch OCI layer from '' @ rawURL) e)
      | Inr (Inl e) \<Rightarrow> Inl (prefixed (''failed to read OCI layer from '' @ rawURL) e)
      | Inr (Inr raw) \<Rightarrow> pull_layers env repo rawURL rest (layers @ [raw]))"

definition oci_prefix :: string where
  "oci_prefix = ''oci://''"

definition trim_prefix :: "string \<Rightarrow> string \<Rightarrow> string" where
  "trim_prefix p s = (if has_prefix p s then drop (length p) s else s)"

definition pullOCIArtifactLayers :: "'e url_env_scheme \<Rightarrow> cluster_summary \<Rightarrow> string \<Rightarrow> remote_fetch_options \<Rightarrow>
    dep_error + bytes list" where
  "pullOCIArtifactLayers env cs rawURL opts =
     (let ref = trim_prefix oci_prefix rawURL in
      case ue_NewRepository env ref of
        Inl e \<Rightarrow> Inl (prefixed (''failed to parse OCI reference '' @ rawURL) e)
      | Inr registry \<Rightarrow>
          (case buildOCIAuthClient env cs rawURL registry opts of
             Inl e \<Rightarrow> Inl e
           | Inr authClient \<Rightarrow>
               let repo = authClient\<lparr>oc_PlainHTTP := rfo_plainHTTP opts\<rparr> in
               (case ue_FetchReference env repo ref of
                  Inl e \<Rightarrow> Inl (prefixed (''failed to pull OCI artifact '' @ rawURL) e)
                | Inr (Inl e) \<Rightarrow> Inl (prefixed (''failed to read OCI manifest '' @ rawURL) e)
                | Inr (Inr manifestBytes) \<Rightarrow>
                    (case ue_Manifest env manifestBytes of
                       Inl e \<Rightarrow> Inl (prefixed (''failed to parse OCI manifest '' @ rawURL) e)
                     | Inr layers \<Rightarrow> pull_layers env repo rawURL layers []))))"

section \<open>Manifests in an archive\<close>

definition gzipMagicBytes :: bytes where
  "gzipMagicBytes = [char_of (31 :: nat), char_of (139 :: nat)]"

definition isGzip :: "bytes \<Rightarrow> bool" where
  "isGzip raw = has_prefix gzipMagicBytes raw"

text \<open>\<open>filepath.Base\<close> and \<open>filepath.Ext\<close>.\<close>

definition path_base :: "string \<Rightarrow> string" where
  "path_base name =
     (if name = [] then ''.''
      else let stripped = rev (dropWhile (\<lambda>c. c = CHR ''/'') (rev name))
           in if stripped = [] then ''/'' else last (go_split (CHR ''/'') stripped))"

definition path_ext :: "string \<Rightarrow> string" where
  "path_ext name =
     (let w = last (go_split (CHR ''/'') name)
      in if CHR ''.'' \<in> set w then CHR ''.'' # rev (takeWhile (\<lambda>c. c \<noteq> CHR ''.'') (rev w)) else [])"

definition isSkippableTarEntry :: "string \<Rightarrow> bool" where
  "isSkippableTarEntry name = (has_prefix ''._'' (path_base name) \<or> contains_text name ''PaxHeader'')"

definition isYAMLManifestEntry :: "string \<Rightarrow> bool" where
  "isYAMLManifestEntry name =
     (if isSkippableTarEntry name then False
      else let ext = to_lower (path_ext name) in ext = ''.yaml'' \<or> ext = ''.yml'' \<or> ext = ''.json'')"

definition document_end :: string where
  "document_end = [char_of (10 :: nat)] @ ''---'' @ [char_of (10 :: nat)]"

fun tar_manifests :: "string \<Rightarrow> tar_stream \<Rightarrow> bytes \<Rightarrow> dep_error + bytes" where
  "tar_manifests rawURL Tar_EOF buf = Inr buf"
| "tar_manifests rawURL (Tar_Error e) buf = Inl (prefixed (''failed to read tar from OCI artifact '' @ rawURL) e)"
| "tar_manifests rawURL (Tar_Entry typ name content rest) buf =
     (if typ = TypeReg \<and> isYAMLManifestEntry name then
        (case content of
           Inl e \<Rightarrow> Inl (prefixed (''failed to read '' @ name @ '' from OCI artifact '' @ rawURL) e)
         | Inr text \<Rightarrow> tar_manifests rawURL rest (buf @ text @ document_end))
      else tar_manifests rawURL rest buf)"

definition extractYAMLFromLayer :: "'e url_env_scheme \<Rightarrow> bytes \<Rightarrow> string \<Rightarrow> dep_error + bytes" where
  "extractYAMLFromLayer env raw rawURL =
     (case (if isGzip raw then ue_Gunzip env raw else Inr raw) of
        Inl _ \<Rightarrow> Inr raw
      | Inr content \<Rightarrow>
          (case ue_Untar env content of
             Tar_EOF \<Rightarrow> Inr []
           | Tar_Error _ \<Rightarrow> Inr content
           | Tar_Entry typ name entry rest \<Rightarrow> tar_manifests rawURL (Tar_Entry typ name entry rest) []))"

fun extract_layers :: "'e url_env_scheme \<Rightarrow> string \<Rightarrow> bytes list \<Rightarrow> bytes \<Rightarrow> dep_error + bytes" where
  "extract_layers env rawURL [] buf = Inr buf"
| "extract_layers env rawURL (raw # layers) buf =
     (case extractYAMLFromLayer env raw rawURL of
        Inl e \<Rightarrow> Inl e
      | Inr content \<Rightarrow> extract_layers env rawURL layers (buf @ content))"

definition fetchOCI :: "'e url_env_scheme \<Rightarrow> cluster_summary \<Rightarrow> string \<Rightarrow> remote_fetch_options \<Rightarrow> dep_error + bytes" where
  "fetchOCI env cs rawURL opts =
     (case pullOCIArtifactLayers env cs rawURL opts of
        Inl e \<Rightarrow> Inl e
      | Inr layers \<Rightarrow> extract_layers env rawURL layers [])"

definition fetchContent :: "'e url_env_scheme \<Rightarrow> cluster_summary \<Rightarrow> string \<Rightarrow> remote_fetch_options \<Rightarrow> dep_error + bytes" where
  "fetchContent env cs rawURL opts =
     (if has_prefix oci_prefix rawURL then fetchOCI env cs rawURL opts
      else case fetchURL env cs rawURL opts of
        Inl e \<Rightarrow> Inl e
      | Inr body \<Rightarrow> extractYAMLFromLayer env body rawURL)"

definition fetchContentForHash :: "'e url_env_scheme \<Rightarrow> cluster_summary \<Rightarrow> string \<Rightarrow> remote_fetch_options \<Rightarrow> dep_error + bytes" where
  "fetchContentForHash env cs rawURL opts =
     (if has_prefix oci_prefix rawURL then
        (case pullOCIArtifactLayers env cs rawURL opts of Inl e \<Rightarrow> Inl e | Inr layers \<Rightarrow> Inr (concat layers))
      else fetchURL env cs rawURL opts)"

section \<open>What is found in an archive\<close>

text \<open>The manifests of an archive, in order.\<close>

fun manifest_entries :: "tar_stream \<Rightarrow> (string \<times> (dep_error + bytes)) list" where
  "manifest_entries (Tar_Entry typ name content rest) =
     (if typ = TypeReg \<and> isYAMLManifestEntry name then (name, content) # manifest_entries rest else manifest_entries rest)"
| "manifest_entries _ = []"

fun reads_to_end :: "tar_stream \<Rightarrow> bool" where
  "reads_to_end Tar_EOF = True"
| "reads_to_end (Tar_Error _) = False"
| "reads_to_end (Tar_Entry typ name content rest) =
     ((typ = TypeReg \<and> isYAMLManifestEntry name \<longrightarrow> (\<exists>b. content = Inr b)) \<and> reads_to_end rest)"

lemma tar_manifests_ok:
  "reads_to_end s \<Longrightarrow>
     tar_manifests u s buf = Inr (buf @ concat (map (\<lambda>(n, c). projr c @ document_end) (manifest_entries s)))"
  by (induction s arbitrary: buf) (auto split: sum.splits)

lemma tar_manifests_error: "\<not> reads_to_end s \<Longrightarrow> \<exists>e. tar_manifests u s buf = Inl e"
proof (induction s arbitrary: buf)
  case (Tar_Entry ty name content rest)
  then show ?case by (cases content) auto
qed simp_all

text \<open>A body that is neither compressed nor an archive is used as it is.\<close>

lemma raw_body_kept:
  "\<not> isGzip body \<Longrightarrow> ue_Untar env body = Tar_Error e \<Longrightarrow> extractYAMLFromLayer env body u = Inr body"
  by (simp add: extractYAMLFromLayer_def)

text \<open>A certificate authority in the Secret wins over the option that turns verification off.\<close>

lemma roots_checked:
  "fetch_credentials env cs u ref = Inr (auth, Some ca) \<Longrightarrow> tls_for (Some ca) opts = TLS_RootCAs ca \<and> ue_IsCertPool env ca"
  by (auto simp: fetch_credentials_def tls_for_def secret_roots_def split: option.splits sum.splits if_splits)

end
