(* ===== verification/Kustomize_Files.thy ===== *)
theory Kustomize_Files
  imports Url_Source
begin

text \<open>
  The directory a kustomization is built from (controllers/handlers_kustomize.go, url_source.go, flux_source.go): temporary directories,
  archives and their extraction.

  The disk is the list of directories the code made and the contents of the files. \<open>files_env\<close> adds the faults of the file
  system, the stream of a compressed archive and the fetcher of Flux. Of a file whose content cannot be read to its end the
  model keeps what was there before.
\<close>

section \<open>Paths\<close>

text \<open>The components \<open>filepath.Clean\<close> keeps, with the ones already kept in reverse.\<close>

fun clean_parts :: "bool \<Rightarrow> string list \<Rightarrow> string list \<Rightarrow> string list" where
  "clean_parts rooted kept [] = rev kept"
| "clean_parts rooted kept (w # ws) =
     (if w = [] \<or> w = ''.'' then clean_parts rooted kept ws
      else if w = ''..'' then
        (case kept of
           [] \<Rightarrow> if rooted then clean_parts rooted [] ws else clean_parts rooted [w] ws
         | k # ks \<Rightarrow> if k = ''..'' then clean_parts rooted (w # kept) ws else clean_parts rooted ks ws)
      else clean_parts rooted (w # kept) ws)"

definition path_clean :: "string \<Rightarrow> string" where
  "path_clean p =
     (if p = [] then ''.''
      else let rooted = (hd p = CHR ''/'');
               parts = go_join (CHR ''/'') (clean_parts rooted [] (go_split (CHR ''/'') p))
           in if rooted then CHR ''/'' # parts else if parts = [] then ''.'' else parts)"

definition path_join :: "string \<Rightarrow> string \<Rightarrow> string" where
  "path_join a b =
     (if a = [] then (if b = [] then [] else path_clean b)
      else if b = [] then path_clean a else path_clean (a @ CHR ''/'' # b))"

section \<open>The disk\<close>

record disk =
  dk_Dirs :: "string list"
  dk_Files :: "(string \<times> bytes) list"

record files_env = url_env +
  te_MkdirTemp :: "string \<Rightarrow> disk \<Rightarrow> dep_error + string"
  te_Write :: "string \<Rightarrow> dep_error option"
  te_Read :: "string \<Rightarrow> dep_error option"
  te_Mkdir :: "string \<Rightarrow> dep_error option"
  te_Open :: "string \<Rightarrow> disk \<Rightarrow> dep_error option"
  te_GunzipTar :: "bytes \<Rightarrow> dep_error + tar_stream"
  te_FetchArtifact :: "flux_artifact \<Rightarrow> string \<Rightarrow> disk \<Rightarrow> dep_error option \<times> disk"

definition make_temp :: "'e files_env_scheme \<Rightarrow> string \<Rightarrow> disk \<Rightarrow> (dep_error + string) \<times> disk" where
  "make_temp env pat d =
     (case te_MkdirTemp env pat d of Inl e \<Rightarrow> (Inl e, d) | Inr dir \<Rightarrow> (Inr dir, d\<lparr>dk_Dirs := dir # dk_Dirs d\<rparr>))"

definition below :: "string \<Rightarrow> string \<Rightarrow> bool" where
  "below dir p \<longleftrightarrow> p = dir \<or> has_prefix (dir @ ''/'') p"

definition remove_all :: "string \<Rightarrow> disk \<Rightarrow> disk" where
  "remove_all dir d =
     d\<lparr>dk_Dirs := filter (\<lambda>p. \<not> below dir p) (dk_Dirs d), dk_Files := filter (\<lambda>(p, _). \<not> below dir p) (dk_Files d)\<rparr>"

definition remove_file :: "string \<Rightarrow> disk \<Rightarrow> disk" where
  "remove_file p d = d\<lparr>dk_Files := AList.delete p (dk_Files d)\<rparr>"

text \<open>\<open>os.WriteFile\<close> truncates the file.\<close>

definition write_file :: "'e files_env_scheme \<Rightarrow> string \<Rightarrow> bytes \<Rightarrow> disk \<Rightarrow> dep_error option \<times> disk" where
  "write_file env p content d =
     (case te_Write env p of Some e \<Rightarrow> (Some e, d) | None \<Rightarrow> (None, d\<lparr>dk_Files := AList.update p content (dk_Files d)\<rparr>))"

section \<open>Extraction\<close>

definition maxSize :: nat where
  "maxSize = 20 * 1024 * 1024"

text \<open>Writing from the start of a file that is opened without being truncated.\<close>

definition overwritten :: "bytes \<Rightarrow> bytes \<Rightarrow> bytes" where
  "overwritten old new = new @ drop (length new) old"

definition file_at :: "disk \<Rightarrow> string \<Rightarrow> bytes" where
  "file_at d p = lookup_default [] (dk_Files d) p"

definition extract_file :: "'e files_env_scheme \<Rightarrow> string \<Rightarrow> dep_error + bytes \<Rightarrow> disk \<Rightarrow> dep_error option \<times> disk" where
  "extract_file env target content d =
     (case te_Open env target d of
        Some e \<Rightarrow> (Some e, d)
      | None \<Rightarrow>
          (case content of
             Inl e \<Rightarrow> (Some e, d\<lparr>dk_Files := AList.update target (file_at d target) (dk_Files d)\<rparr>)
           | Inr text \<Rightarrow>
               (None, d\<lparr>dk_Files := AList.update target (overwritten (file_at d target) (take maxSize text)) (dk_Files d)\<rparr>)))"

definition extract_target :: "string \<Rightarrow> string \<Rightarrow> string" where
  "extract_target dest name = path_join dest (path_clean name)"

fun extract_entries :: "'e files_env_scheme \<Rightarrow> string \<Rightarrow> tar_stream \<Rightarrow> disk \<Rightarrow> dep_error option \<times> disk" where
  "extract_entries env dest Tar_EOF d = (None, d)"
| "extract_entries env dest (Tar_Error e) d = (Some e, d)"
| "extract_entries env dest (Tar_Entry typ name content rest) d =
     (if isSkippableTarEntry name then extract_entries env dest rest d
      else let target = extract_target dest name in
        if \<not> has_prefix dest target then
          (Some (plain_error (''tar archive entry '' @ name @ '' is outside of destination directory'')), d)
        else case typ of
          TypeDir \<Rightarrow>
            (case te_Mkdir env target of
               Some e \<Rightarrow> (Some e, d)
             | None \<Rightarrow> extract_entries env dest rest (d\<lparr>dk_Dirs := target # dk_Dirs d\<rparr>))
        | TypeReg \<Rightarrow>
            (case extract_file env target content d of
               (Some e, d') \<Rightarrow> (Some e, d')
             | (None, d') \<Rightarrow> extract_entries env dest rest d')
        | TypeOther \<Rightarrow> extract_entries env dest rest d)"

definition extractTarGz :: "'e files_env_scheme \<Rightarrow> string \<Rightarrow> string \<Rightarrow> disk \<Rightarrow> dep_error option \<times> disk" where
  "extractTarGz env src dest d =
     (case te_Read env src of
        Some e \<Rightarrow> (Some e, d)
      | None \<Rightarrow>
          let content = take maxSize (file_at d src) in
          (case (if isGzip content then te_GunzipTar env content else Inr (ue_Untar env content)) of
             Inl e \<Rightarrow> (Some e, d)
           | Inr stream \<Rightarrow> extract_entries env dest stream d))"

definition extractTarGzBytes :: "'e files_env_scheme \<Rightarrow> bytes \<Rightarrow> string \<Rightarrow> nat \<Rightarrow> disk \<Rightarrow> dep_error option \<times> disk" where
  "extractTarGzBytes env raw destDir index d =
     (let filePath = path_join destDir (''remote-'' @ nat_text index @ ''.tar.gz'') in
      case write_file env filePath raw d of
        (Some e, d1) \<Rightarrow> (Some (prefixed (''failed to write archive to '' @ filePath) e), d1)
      | (None, d1) \<Rightarrow> (case extractTarGz env filePath destDir d1 of (r, d2) \<Rightarrow> (r, remove_file filePath d2)))"

fun extract_each :: "'e files_env_scheme \<Rightarrow> string \<Rightarrow> string \<Rightarrow> nat \<Rightarrow> bytes list \<Rightarrow> disk \<Rightarrow> dep_error option \<times> disk" where
  "extract_each env rawURL destDir i [] d = (None, d)"
| "extract_each env rawURL destDir i (raw # layers) d =
     (case extractTarGzBytes env raw destDir i d of
        (Some e, d') \<Rightarrow> (Some (prefixed (''failed to extract OCI layer from '' @ rawURL) e), d')
      | (None, d') \<Rightarrow> extract_each env rawURL destDir (Suc i) layers d')"

definition fetchContentToDir :: "'e files_env_scheme \<Rightarrow> cluster_summary \<Rightarrow> string \<Rightarrow> remote_fetch_options \<Rightarrow> string \<Rightarrow> disk \<Rightarrow>
    dep_error option \<times> disk" where
  "fetchContentToDir env cs rawURL opts destDir d =
     (if has_prefix oci_prefix rawURL then
        (case pullOCIArtifactLayers env cs rawURL opts of
           Inl e \<Rightarrow> (Some e, d)
         | Inr layers \<Rightarrow> extract_each env rawURL destDir 0 layers d)
      else case fetchURL env cs rawURL opts of
        Inl e \<Rightarrow> (Some e, d)
      | Inr body \<Rightarrow> extractTarGzBytes env body destDir 0 d)"

section \<open>The file system of a kustomization\<close>

definition template_error :: "string \<Rightarrow> dep_error" where
  "template_error msg = \<lparr>err_Msg = msg, err_Chain = [TemplateInstantiationError]\<rparr>"

definition prepareFileSystemWithFluxSource :: "'e files_env_scheme \<Rightarrow> flux_source \<Rightarrow> disk \<Rightarrow> (dep_error + string) \<times> disk" where
  "prepareFileSystemWithFluxSource env source d =
     (case fls_Artifact source of
        None \<Rightarrow> (Inl (plain_error ''prepareFileSystemWithFluxSource: Source is not ready, artifact not found''), d)
      | Some artifact \<Rightarrow>
          let sanitized = map (\<lambda>c. if c \<in> set ''/:@'' then CHR ''-'' else c) (art_Revision artifact) in
          (case make_temp env (''kustomization-'' @ sanitized) d of
             (Inl e, d1) \<Rightarrow> (Inl (prefixed ''prepareFileSystemWithFluxSource: tmp dir error'' e), d1)
           | (Inr tmpDir, d1) \<Rightarrow>
               (case te_FetchArtifact env artifact tmpDir d1 of
                  (Some e, d2) \<Rightarrow> (Inl e, d2)
                | (None, d2) \<Rightarrow> (Inr tmpDir, d2))))"

definition prepareFileSystemWithRemoteURL :: "'e files_env_scheme \<Rightarrow> cluster_summary \<Rightarrow> remote_kustomize_url \<Rightarrow> disk \<Rightarrow>
    (dep_error + string) \<times> disk" where
  "prepareFileSystemWithRemoteURL env cs remoteURL d =
     (case instantiateRemoteURL env cs (rku_URL remoteURL) of
        Inl e \<Rightarrow> (Inl (template_error (''failed to instantiate URL '' @ rku_URL remoteURL @ '': '' @ err_Msg e)), d)
      | Inr url \<Rightarrow>
          (case make_temp env (''kustomization-'' @ css_ClusterNamespace (cs_Spec cs) @ ''-'' @ css_ClusterName (cs_Spec cs)) d of
             (Inl e, d1) \<Rightarrow> (Inl (prefixed ''tmp dir error'' e), d1)
           | (Inr tmpDir, d1) \<Rightarrow>
               (case fetchContentToDir env cs url \<lparr>rfo_secretRef = rku_SecretRef remoteURL,
                       rfo_insecureSkipTLSVerify = rku_InsecureSkipTLSVerify remoteURL,
                       rfo_plainHTTP = rku_PlainHTTP remoteURL\<rparr> tmpDir d1 of
                  (Some e, d2) \<Rightarrow> (Inl e, remove_all tmpDir d2)
                | (None, d2) \<Rightarrow> (Inr tmpDir, d2))))"

definition archive_key :: string where
  "archive_key = ''kustomize.tar.gz''"

definition prepareFileSystemWithData :: "'e files_env_scheme \<Rightarrow> (string \<times> bytes) list \<Rightarrow> kustomization_ref \<Rightarrow> disk \<Rightarrow>
    (dep_error + string) \<times> disk" where
  "prepareFileSystemWithData env binaryData kustomizationRef d =
     (case map_of binaryData archive_key of
        None \<Rightarrow> (Inl (plain_error (archive_key @ '' missing'')), d)
      | Some binaryTarGz \<Rightarrow>
          (case make_temp env (''kustomization-'' @ kr_Namespace kustomizationRef @ ''-'' @ kr_Name kustomizationRef) d of
             (Inl e, d1) \<Rightarrow> (Inl (prefixed ''tmp dir error'' e), d1)
           | (Inr tmpDir, d1) \<Rightarrow>
               let filePath = path_join tmpDir archive_key in
               (case write_file env filePath binaryTarGz d1 of
                  (Some e, d2) \<Rightarrow> (Inl e, d2)
                | (None, d2) \<Rightarrow>
                    (case extractTarGz env filePath tmpDir d2 of
                       (Some e, d3) \<Rightarrow> (Inl e, d3)
                     | (None, d3) \<Rightarrow> (Inr tmpDir, d3)))))"

definition prepareFileSystemWithConfigMap :: "'e files_env_scheme \<Rightarrow> cluster_summary \<Rightarrow> kustomization_ref \<Rightarrow> disk \<Rightarrow>
    (dep_error + string) \<times> disk" where
  "prepareFileSystemWithConfigMap env cs kr d =
     (case instantiate_ref (fe_Ref env) cs (kr_Namespace kr) (kr_Name kr) of
        Inl msg \<Rightarrow> (Inl (plain_error msg), d)
      | Inr name \<Rightarrow>
          (case getConfigMap env name of
             Inl e \<Rightarrow> (Inl e, d)
           | Inr configMap \<Rightarrow> prepareFileSystemWithData env (cfm_BinaryData configMap) kr d))"

definition prepareFileSystemWithSecret :: "'e files_env_scheme \<Rightarrow> cluster_summary \<Rightarrow> kustomization_ref \<Rightarrow> disk \<Rightarrow>
    (dep_error + string) \<times> disk" where
  "prepareFileSystemWithSecret env cs kr d =
     (case instantiate_ref (fe_Ref env) cs (kr_Namespace kr) (kr_Name kr) of
        Inl msg \<Rightarrow> (Inl (plain_error msg), d)
      | Inr name \<Rightarrow>
          (case getSecret env name of
             Inl e \<Rightarrow> (Inl e, d)
           | Inr secret \<Rightarrow> prepareFileSystemWithData env (sco_Data secret) kr d))"

definition prepareFileSystem :: "'e files_env_scheme \<Rightarrow> cluster_summary \<Rightarrow> kustomization_ref \<Rightarrow> disk \<Rightarrow>
    (dep_error + string) \<times> disk" where
  "prepareFileSystem env cs kr d =
     (case kr_RemoteURL kr of
        Some remoteURL \<Rightarrow> prepareFileSystemWithRemoteURL env cs remoteURL d
      | None \<Rightarrow>
          if kr_Kind kr = rf_ConfigMapKind (fe_Ref env) then prepareFileSystemWithConfigMap env cs kr d
          else if kr_Kind kr = rf_SecretKind (fe_Ref env) then prepareFileSystemWithSecret env cs kr d
          else case instantiate_ref (fe_Ref env) cs (kr_Namespace kr) (kr_Name kr) of
            Inl msg \<Rightarrow> (Inl (template_error msg), d)
          | Inr (namespace, name) \<Rightarrow>
              (case getSource env (kr_Kind kr) (namespace, name) of
                 Inl e \<Rightarrow> (Inl e, d)
               | Inr None \<Rightarrow> (Inl (plain_error (''source '' @ kr_Kind kr @ '' '' @ namespace @ ''/'' @ name @ '' not found'')), d)
               | Inr (Some source) \<Rightarrow> prepareFileSystemWithFluxSource env source d))"

section \<open>Absolute paths\<close>

definition normal_part :: "string \<Rightarrow> bool" where
  "normal_part w \<longleftrightarrow> w \<noteq> [] \<and> w \<noteq> ''.'' \<and> w \<noteq> ''..'' \<and> CHR ''/'' \<notin> set w"

definition abs_path :: "string list \<Rightarrow> string" where
  "abs_path ws = CHR ''/'' # go_join (CHR ''/'') ws"

lemma go_split_join: "ws \<noteq> [] \<Longrightarrow> \<forall>w \<in> set ws. sep \<notin> set w \<Longrightarrow> go_split sep (go_join sep ws) = ws"
  by (induction sep ws rule: go_join.induct) (simp_all add: go_split_notin go_split_append)

lemma go_join_snoc: "ws \<noteq> [] \<Longrightarrow> go_join sep (ws @ [w]) = go_join sep ws @ sep # w"
  by (induction sep ws rule: go_join.induct) simp_all

lemma clean_parts_normal: "list_all normal_part ws \<Longrightarrow> clean_parts rooted kept (ws @ vs) = clean_parts rooted (rev ws @ kept) vs"
  by (induction ws arbitrary: kept) (simp_all add: normal_part_def)

lemma path_clean_abs:
  assumes "\<forall>w \<in> set ws. CHR ''/'' \<notin> set w"
  shows "path_clean (abs_path ws) = abs_path (clean_parts True [] ws)"
proof (cases ws)
  case Nil
  then show ?thesis by (simp add: path_clean_def abs_path_def)
next
  case (Cons w vs)
  then have "go_split (CHR ''/'') (abs_path ws) = [] # ws"
    using assms by (simp add: abs_path_def go_split_join)
  moreover have "abs_path ws = CHR ''/'' # go_join (CHR ''/'') ws" by (simp add: abs_path_def)
  ultimately show ?thesis by (simp add: path_clean_def Let_def abs_path_def)
qed

lemma path_join_abs:
  assumes "ws \<noteq> []" "vs \<noteq> []" "hd vs \<noteq> []" "\<forall>w \<in> set (ws @ vs). CHR ''/'' \<notin> set w"
  shows "path_join (abs_path ws) (go_join (CHR ''/'') vs) = abs_path (clean_parts True [] (ws @ vs))"
proof -
  have join: "go_join (CHR ''/'') ws @ CHR ''/'' # go_join (CHR ''/'') vs = go_join (CHR ''/'') (ws @ vs)"
    using assms(1,2)
    by (induction "CHR ''/''" ws rule: go_join.induct) (simp_all, cases vs, simp_all)
  have "go_join (CHR ''/'') vs \<noteq> []" 
  proof (cases vs)
    case (Cons v us)
    then show ?thesis using assms(3) by (cases us) simp_all
  qed (use assms(2) in simp)
  then have "path_join (abs_path ws) (go_join (CHR ''/'') vs) = path_clean (abs_path (ws @ vs))"
    using join by (simp add: path_join_def abs_path_def)
  then show ?thesis using assms(4) by (simp add: path_clean_abs)
qed

lemma abs_path_prefix: "ws \<noteq> [] \<Longrightarrow> abs_path (ws @ [w]) = abs_path ws @ CHR ''/'' # w"
  by (simp add: abs_path_def go_join_snoc)

text \<open>Where the entry of an archive goes that leaves the directory for one beside it.\<close>

lemma sibling_target:
  assumes "list_all normal_part (ps @ [b, f])" "normal_part (b @ s)" "ps \<noteq> []"
  shows "extract_target (abs_path (ps @ [b])) (''../'' @ b @ s @ CHR ''/'' # f) = abs_path (ps @ [b @ s, f])"
proof -
  have n: "normal_part b" "normal_part f" "list_all normal_part ps" using assms(1) by simp_all
  have slashless: "normal_part w \<Longrightarrow> CHR ''/'' \<notin> set w" for w by (simp add: normal_part_def)
  have name: "''../'' @ b @ s @ CHR ''/'' # f = go_join (CHR ''/'') [''..'', b @ s, f]" by simp
  have split: "go_split (CHR ''/'') (go_join (CHR ''/'') [''..'', b @ s, f]) = [''..'', b @ s, f]"
    using slashless [OF assms(2)] slashless [OF n(2)] by (intro go_split_join) auto
  have clean: "path_clean (''../'' @ b @ s @ CHR ''/'' # f) = go_join (CHR ''/'') [''..'', b @ s, f]"
    using split assms(2) n(2) by (simp add: name path_clean_def Let_def normal_part_def)
  have "\<forall>w \<in> set ((ps @ [b]) @ [''..'', b @ s, f]). CHR ''/'' \<notin> set w"
    using n slashless slashless [OF assms(2)] by (auto simp: list_all_iff)
  then have "extract_target (abs_path (ps @ [b])) (''../'' @ b @ s @ CHR ''/'' # f) =
      abs_path (clean_parts True [] ((ps @ [b]) @ [''..'', b @ s, f]))"
    unfolding extract_target_def clean by (intro path_join_abs) auto
  also have "clean_parts True [] ((ps @ [b]) @ [''..'', b @ s, f]) = ps @ [b @ s, f]"
    using clean_parts_normal [of "ps @ [b]" True "[]"] n assms(2) by (simp add: normal_part_def)
  finally show ?thesis .
qed

section \<open>Leaving the directory\<close>

lemma file_at_update: "file_at (d\<lparr>dk_Files := AList.update p c (dk_Files d)\<rparr>) q = (if q = p then c else file_at d q)"
  by (simp add: file_at_def)

lemma file_at_dirs [simp]: "file_at (d\<lparr>dk_Dirs := x\<rparr>) q = file_at d q"
  by (simp add: file_at_def)

lemma extract_file_frame: "extract_file env target content d = (r, d') \<Longrightarrow> q \<noteq> target \<Longrightarrow> file_at d' q = file_at d q"
  by (auto simp: extract_file_def file_at_update split: option.splits sum.splits)

text \<open>What an extraction changes starts with the path of the directory, as a string.\<close>

lemma extraction_prefixed:
  "extract_entries env dest s d = (r, d') \<Longrightarrow> \<not> has_prefix dest q \<Longrightarrow> file_at d' q = file_at d q"
proof (induction env dest s d arbitrary: r d' rule: extract_entries.induct)
  case (3 env dest ty name content rest d)
  show ?case
  proof (cases "isSkippableTarEntry name \<or> \<not> has_prefix dest (extract_target dest name)")
    case True
    then show ?thesis using 3 by (auto split: if_splits)
  next
    case False
    then have other: "q \<noteq> extract_target dest name" using 3(6) by auto
    show ?thesis
    proof (cases ty)
      case TypeDir
      then show ?thesis using 3 False by (auto simp: Let_def split: option.splits)
    next
      case TypeReg
      obtain e d1 where x: "extract_file env (extract_target dest name) content d = (e, d1)" by fastforce
      then show ?thesis using 3 False TypeReg extract_file_frame [OF x other] by (cases e) (auto simp: Let_def)
    next
      case TypeOther
      then show ?thesis using 3 False by (auto simp: Let_def)
    qed
  qed
qed auto

lemma has_prefix_iff: "has_prefix p s \<longleftrightarrow> (\<exists>t. s = p @ t)"
  unfolding has_prefix_def by (metis append_eq_conv_conj append_take_drop_id)

text \<open>
  The check on the target of an entry compares strings, not components: an entry \<open>../<dir><suffix>/<file>\<close> of an archive
  that is extracted into \<open><dir>\<close> passes and is written to the directory \<open><dir><suffix>\<close> beside it.
\<close>

theorem sibling_escape:
  assumes normal: "list_all normal_part (ps @ [b, f])" "normal_part (b @ s)" and ps: "ps \<noteq> []" and s: "s \<noteq> []"
    and name: "name = ''../'' @ b @ s @ CHR ''/'' # f" and skip: "\<not> isSkippableTarEntry name"
    and target: "target = abs_path (ps @ [b @ s, f])" and opened: "te_Open env target d = None"
  shows "\<exists>d'. extract_entries env (abs_path (ps @ [b])) (Tar_Entry TypeReg name (Inr text) Tar_EOF) d = (None, d') \<and>
      file_at d' target = overwritten (file_at d target) (take maxSize text) \<and> \<not> below (abs_path (ps @ [b])) target"
proof -
  have t: "extract_target (abs_path (ps @ [b])) name = target"
    using sibling_target [OF normal ps] by (simp add: name target)
  have "target = (abs_path ps @ CHR ''/'' # b @ s) @ CHR ''/'' # f"
    using abs_path_prefix [OF ps] abs_path_prefix [of "ps @ [b @ s]" f] by (simp add: target)
  then have shape: "target = abs_path (ps @ [b]) @ s @ CHR ''/'' # f" using abs_path_prefix [OF ps] by simp
  then have prefixed: "has_prefix (abs_path (ps @ [b])) target" by simp
  have "hd s \<noteq> CHR ''/''" using normal(2) s by (cases s) (auto simp: normal_part_def)
  then have outside: "\<not> below (abs_path (ps @ [b])) target"
    using s by (cases s) (auto simp: below_def shape has_prefix_iff)
  show ?thesis using t prefixed outside skip opened by (simp add: extract_file_def file_at_update Let_def)
qed

section \<open>Layers\<close>

text \<open>
  A file is opened without being truncated. When a later layer of an artifact replaces a file by a shorter one, the
  end of the earlier content stays behind the new content.
\<close>

theorem layer_leaves_tail:
  assumes oci: "has_prefix oci_prefix url" "pullOCIArtifactLayers env cs url opts = Inr [raw1, raw2]"
    and plain: "\<not> isGzip raw1" "\<not> isGzip raw2" "length raw1 \<le> maxSize" "length raw2 \<le> maxSize"
    and layers: "ue_Untar env raw1 = Tar_Entry TypeReg name (Inr text1) Tar_EOF"
      "ue_Untar env raw2 = Tar_Entry TypeReg name (Inr text2) Tar_EOF"
    and sizes: "length text2 < length text1" "length text1 \<le> maxSize"
    and works: "te_Write env = (\<lambda>_. None)" "te_Read env = (\<lambda>_. None)" "te_Open env = (\<lambda>_ _. None)"
    and entry: "\<not> isSkippableTarEntry name" "has_prefix dest (extract_target dest name)"
    and fresh: "file_at d (extract_target dest name) = []"
      "extract_target dest name \<noteq> path_join dest ''remote-0.tar.gz''" "extract_target dest name \<noteq> path_join dest ''remote-1.tar.gz''"
  shows "\<exists>d'. fetchContentToDir env cs url opts dest d = (None, d') \<and>
      file_at d' (extract_target dest name) = text2 @ drop (length text2) text1"
proof -
  have numerals: "nat_text 0 = ''0''" "nat_text 1 = ''1''" by code_simp+
  have one: "\<exists>d2. extractTarGzBytes env raw dest i d1 = (None, d2) \<and>
      file_at d2 (extract_target dest name) = overwritten (file_at d1 (extract_target dest name)) content"
    if "\<not> isGzip raw" "length raw \<le> maxSize" "ue_Untar env raw = Tar_Entry TypeReg name (Inr content) Tar_EOF"
      "length content \<le> maxSize" "i < 2" for raw content i d1
    using that works entry fresh(2,3) numerals
    by (cases "i = 0") (simp_all add: less_2_cases_iff extractTarGzBytes_def extractTarGz_def write_file_def extract_file_def file_at_def remove_file_def Let_def)
  obtain d1 where d1: "extractTarGzBytes env raw1 dest 0 d = (None, d1)" "file_at d1 (extract_target dest name) = text1"
    using one [OF plain(1,3) layers(1) sizes(2), of 0 d] fresh(1) by (auto simp: overwritten_def)
  obtain d2 where "extractTarGzBytes env raw2 dest 1 d1 = (None, d2)"
      "file_at d2 (extract_target dest name) = text2 @ drop (length text2) text1"
    using one [OF plain(2,4) layers(2), of 1 d1] sizes d1(2) by (auto simp: overwritten_def)
  then show ?thesis using oci d1(1) by (simp add: fetchContentToDir_def)
qed

section \<open>Samples\<close>

definition sample_ref_env :: ref_env where
  "sample_ref_env = \<lparr>rf_Namespace = (\<lambda>_ _ ns _. Inr ns), rf_Name = (\<lambda>_ _ n _. Inr n), rf_SecretKind = ''Secret'',
     rf_ConfigMapKind = ''ConfigMap'', rf_GitRepositoryKind = ''GitRepository'', rf_OCIRepositoryKind = ''OCIRepository'',
     rf_BucketKind = ''Bucket'', rf_FluxVersion = ''source.toolkit.fluxcd.io/v1'', rf_CAPIKind = ''Cluster'',
     rf_CAPIVersion = ''cluster.x-k8s.io/v1beta2'', rf_SveltosClusterKind = ''SveltosCluster'',
     rf_SveltosVersion = ''lib.projectsveltos.io/v1beta1'', rf_DriftDetectionConfigMap = [], rf_SveltosNamespace = ''projectsveltos''\<rparr>"

definition sample_cluster_refs :: generic_cluster where
  "sample_cluster_refs = \<lparr>gc_Namespace = ''ns'', gc_InfrastructureRef = \<lparr>ctr_APIGroup = [], ctr_Kind = [], ctr_Name = []\<rparr>,
     gc_ControlPlaneRef = \<lparr>ctr_APIGroup = [], ctr_Kind = [], ctr_Name = []\<rparr>\<rparr>"

definition sample_refs_env :: refs_env where
  "sample_refs_env = \<lparr>fe_Ref = sample_ref_env, fe_ConfigMap = (\<lambda>_. Inl ApiNotFound), fe_Secret = (\<lambda>_. Inl ApiNotFound),
     fe_SecretType = ''addons.projectsveltos.io/cluster-profile'', fe_Source = (\<lambda>_ _. Inl ApiNotFound),
     fe_TemplateAnnotation = ''projectsveltos.io/template'', fe_LuaAnnotation = ''projectsveltos.io/lua'',
     fe_Cluster = (\<lambda>_ _ _. Inr sample_cluster_refs), fe_Contract = (\<lambda>_ _. Inr []), fe_Unstructured = (\<lambda>_. Inr []),
     fe_Execute = (\<lambda>_ _ s. Inr s), fe_ResourceInterface = (\<lambda>_. None), fe_Resource = (\<lambda>_. Inl ApiNotFound),
     fe_NestedField = (\<lambda>_ _. Inr None), fe_SetNestedField = (\<lambda>u _ _. u), fe_RemoveNestedField = (\<lambda>u _. u),
     fe_Values = (\<lambda>_. Inr []), fe_Merge = (\<lambda>_ m. Inr m), fe_Patch = (\<lambda>s. Inr \<lparr>pt_Target = None, pt_Patch = s\<rparr>),
     fe_Stringify = (\<lambda>_. Inr []), fe_ParseMap = (\<lambda>_. Inr []), fe_AsCode = (\<lambda>s. char_of (34 :: nat) # s @ [char_of (34 :: nat)]),
     fe_ClusterAnnotations = (\<lambda>_ _ _. Inr None)\<rparr>"

definition sample_url_env :: url_env where
  "sample_url_env = refs_env.extend sample_refs_env
     (url_env.fields (\<lambda>_ _ s _. Inr s) (\<lambda>_. None) (\<lambda>_. Inr (200, Inr [])) (\<lambda>_. True) (\<lambda>_. Inr ''registry'')
        (\<lambda>_ _. Inr (Inr [])) (\<lambda>_. Inr [''a'', ''b'']) (\<lambda>_ layer. Inr (Inr (if layer = ''a'' then ''first'' else ''second'')))
        Inr (\<lambda>raw. if raw = ''first'' then Tar_Entry TypeReg ''app/cm.yaml'' (Inr ''replicas: 100'') Tar_EOF
             else if raw = ''second'' then Tar_Entry TypeReg ''app/cm.yaml'' (Inr ''replicas: 2'') Tar_EOF
             else Tar_Error (plain_error ''no archive'')))"

definition sample_files_env :: files_env where
  "sample_files_env = url_env.extend sample_url_env
     (files_env.fields (\<lambda>_ _. Inr ''/tmp/k'') (\<lambda>_. None) (\<lambda>_. None) (\<lambda>_. None) (\<lambda>_ _. None) (\<lambda>_. Inr Tar_EOF) (\<lambda>_ _ d. (None, d)))"

definition empty_disk :: disk where
  "empty_disk = \<lparr>dk_Dirs = [], dk_Files = []\<rparr>"

theorem sibling_escape_witness:
  "\<exists>d'. extract_entries sample_files_env ''/tmp/k'' (Tar_Entry TypeReg ''../k-other/f.yaml'' (Inr ''x'') Tar_EOF) empty_disk = (None, d') \<and>
     file_at d' ''/tmp/k-other/f.yaml'' = ''x'' \<and> \<not> below ''/tmp/k'' ''/tmp/k-other/f.yaml''"
proof -
  have "te_Open sample_files_env p d = None" for p d
    by (simp add: sample_files_env_def url_env.defs files_env.defs)
  moreover have "file_at empty_disk p = []" for p by (simp add: file_at_def empty_disk_def)
  moreover have "\<not> isSkippableTarEntry ''../k-other/f.yaml''" by code_simp
  ultimately show ?thesis
    using sibling_escape [of "[''tmp'']" "''k''" "''f.yaml''" "''-other''" "''../k-other/f.yaml''" "''/tmp/k-other/f.yaml''"
        sample_files_env empty_disk "''x''"]
    by (simp add: normal_part_def abs_path_def overwritten_def maxSize_def)
qed

theorem layer_leaves_tail_witness:
  "\<exists>d'. fetchContentToDir sample_files_env (sample_cs [] []) ''oci://r/a''
       \<lparr>rfo_secretRef = None, rfo_insecureSkipTLSVerify = False, rfo_plainHTTP = False\<rparr> ''/tmp/k'' empty_disk = (None, d') \<and>
     file_at d' ''/tmp/k/app/cm.yaml'' = ''replicas: 200''"
proof -
  let ?opts = "\<lparr>rfo_secretRef = None, rfo_insecureSkipTLSVerify = False, rfo_plainHTTP = False\<rparr>"
  have target: "extract_target ''/tmp/k'' ''app/cm.yaml'' = ''/tmp/k/app/cm.yaml''" by code_simp
  have pulled: "pullOCIArtifactLayers sample_files_env (sample_cs [] []) ''oci://r/a'' ?opts = Inr [''first'', ''second'']" by code_simp
  have works: "te_Write sample_files_env = (\<lambda>_. None)" "te_Read sample_files_env = (\<lambda>_. None)"
      "te_Open sample_files_env = (\<lambda>_ _. None)"
      "ue_Untar sample_files_env ''first'' = Tar_Entry TypeReg ''app/cm.yaml'' (Inr ''replicas: 100'') Tar_EOF"
      "ue_Untar sample_files_env ''second'' = Tar_Entry TypeReg ''app/cm.yaml'' (Inr ''replicas: 2'') Tar_EOF"
    by (simp_all add: sample_files_env_def sample_url_env_def url_env.defs files_env.defs refs_env.defs)
  have plain: "\<not> isGzip ''first''" "\<not> isGzip ''second''" "\<not> isSkippableTarEntry ''app/cm.yaml''"
      "has_prefix oci_prefix ''oci://r/a''" "has_prefix ''/tmp/k'' ''/tmp/k/app/cm.yaml''"
      "''/tmp/k/app/cm.yaml'' \<noteq> path_join ''/tmp/k'' ''remote-0.tar.gz''" "''/tmp/k/app/cm.yaml'' \<noteq> path_join ''/tmp/k'' ''remote-1.tar.gz''"
      "file_at empty_disk ''/tmp/k/app/cm.yaml'' = []"
    by code_simp+
  show ?thesis
    using layer_leaves_tail [of "''oci://r/a''" sample_files_env "sample_cs [] []" ?opts "''first''" "''second''" "''app/cm.yaml''" "''replicas: 100''"
        "''replicas: 2''" "''/tmp/k''" empty_disk] pulled works plain
    by (simp add: target maxSize_def)
qed

end
