(* ===== verification/Spec_Hash.thy ===== *)
theory Spec_Hash
  imports Kustomize_Files
begin

text \<open>
  The hashes that decide whether anything has changed: of the specification of a profile (controllers/profile_utils.go, sort.go) and of what
  each feature of a ClusterSummary deploys (handlers_utils.go, handlers_helm.go, handlers_resources.go,
  handlers_kustomize.go).

  \<open>hash_env\<close> adds sha256, the hexadecimal encoding, JSON, and Go's \<open>sort.Sort\<close> on each type of slice. \<open>sort.Sort\<close> is not
  stable: theorems ask of it that it permutes the slice and orders the keys (the locale \<open>sorter\<close>), and the stable
  \<open>sort_key\<close> is one interpretation. \<open>sort.SliceStable\<close> is \<open>sort_key\<close>.
\<close>

type_synonym 'a keyed_sort = "('a \<Rightarrow> string list) \<Rightarrow> 'a list \<Rightarrow> 'a list"

record hash_env = url_env +
  he_Sha :: "bytes \<Rightarrow> bytes"
  he_Hex :: "bytes \<Rightarrow> string"
  he_SortCharts :: "helm_chart keyed_sort"
  he_SortPolicies :: "policy_ref keyed_sort"
  he_SortKustomizations :: "kustomization_ref keyed_sort"
  he_SortTemplateRefs :: "template_resource_ref keyed_sort"
  he_SortChecks :: "validate_health keyed_sort"
  he_SortPatches :: "patch keyed_sort"
  he_SortValueFroms :: "value_from keyed_sort"
  he_SortRefs :: "object_reference keyed_sort"
  he_JsonSpec :: "profile_spec \<Rightarrow> dep_error + bytes"
  he_JsonChart :: "helm_chart \<Rightarrow> dep_error + bytes"
  he_JsonPolicies :: "policy_ref list \<Rightarrow> dep_error + bytes"
  he_JsonKustomizations :: "kustomization_ref list \<Rightarrow> dep_error + bytes"
  he_JsonCheck :: "validate_health \<Rightarrow> dep_error + bytes"
  he_JsonPatches :: "patch list \<Rightarrow> dep_error + bytes"
  he_JsonExclusions :: "drift_exclusion list \<Rightarrow> dep_error + bytes"
  he_JsonObject :: "go_values \<Rightarrow> dep_error + bytes"
  he_JsonMap :: "(string \<times> string) list \<Rightarrow> dep_error + bytes"
  he_Yaml :: "go_values \<Rightarrow> dep_error + string"
  he_Agentless :: bool

section \<open>Sorting\<close>

definition policy_key :: "policy_ref \<Rightarrow> string list" where
  "policy_key r = [pr_Kind r, pr_Namespace r, pr_Name r]"

definition chart_key :: "helm_chart \<Rightarrow> string list" where
  "chart_key c = [hc_RepositoryURL c, hc_ReleaseNamespace c, hc_ReleaseName c]"

definition kustomization_key :: "kustomization_ref \<Rightarrow> string list" where
  "kustomization_key r = [kr_Kind r, kr_Namespace r, kr_Name r]"

definition template_ref_key :: "template_resource_ref \<Rightarrow> string list" where
  "template_ref_key r = [trr_Identifier r]"

definition check_key :: "validate_health \<Rightarrow> string list" where
  "check_key h = [vh_Name h]"

definition patch_key :: "patch \<Rightarrow> string list" where
  "patch_key p = [pt_Patch p]"

definition value_from_key :: "value_from \<Rightarrow> string list" where
  "value_from_key v = [vf_Kind v, vf_Namespace v, vf_Name v]"

definition reference_key :: "object_reference \<Rightarrow> string list" where
  "reference_key r = [ref_Kind r, ref_Namespace r, ref_Name r]"

definition getSortedPolicyRefs :: "'e hash_env_scheme \<Rightarrow> policy_ref list \<Rightarrow> policy_ref list" where
  "getSortedPolicyRefs env xs = he_SortPolicies env policy_key xs"

definition getSortedHelmCharts :: "'e hash_env_scheme \<Rightarrow> helm_chart list \<Rightarrow> helm_chart list" where
  "getSortedHelmCharts env xs = he_SortCharts env chart_key xs"

definition getSortedKustomizationRefs :: "'e hash_env_scheme \<Rightarrow> kustomization_ref list \<Rightarrow> kustomization_ref list" where
  "getSortedKustomizationRefs env xs = he_SortKustomizations env kustomization_key xs"

definition getSortedTemplateResourceRefs :: "'e hash_env_scheme \<Rightarrow> template_resource_ref list \<Rightarrow> template_resource_ref list" where
  "getSortedTemplateResourceRefs env xs = he_SortTemplateRefs env template_ref_key xs"

definition getSortedValidateHealths :: "'e hash_env_scheme \<Rightarrow> validate_health list \<Rightarrow> validate_health list" where
  "getSortedValidateHealths env xs = he_SortChecks env check_key xs"

definition getSortedPatches :: "'e hash_env_scheme \<Rightarrow> patch list \<Rightarrow> patch list" where
  "getSortedPatches env xs = he_SortPatches env patch_key xs"

definition getSortedValueFroms :: "'e hash_env_scheme \<Rightarrow> value_from list \<Rightarrow> value_from list" where
  "getSortedValueFroms env xs = he_SortValueFroms env value_from_key xs"

text \<open>The key of a drift exclusion: its sorted paths, and the fields of its target if it has one.\<close>

definition exclusion_key :: "drift_exclusion \<Rightarrow> string" where
  "exclusion_key x =
     go_join (char_of (0 :: nat)) (sort (dx_Paths x)) @
     (case dx_Target x of
        None \<Rightarrow> []
      | Some t \<Rightarrow> char_of (1 :: nat) # go_join (char_of (0 :: nat))
          [psel_Group t, psel_Version t, psel_Kind t, psel_Namespace t, psel_Name t])"

definition getSortedDriftExclusions :: "drift_exclusion list \<Rightarrow> drift_exclusion list" where
  "getSortedDriftExclusions xs = sort_key exclusion_key xs"

section \<open>The specification of a profile\<close>

definition sorted_spec :: "'e hash_env_scheme \<Rightarrow> profile_spec \<Rightarrow> profile_spec" where
  "sorted_spec env s = s\<lparr>
     ps_HelmCharts := Some (getSortedHelmCharts env (slice (ps_HelmCharts s))),
     ps_PolicyRefs := Some (getSortedPolicyRefs env (slice (ps_PolicyRefs s))),
     ps_KustomizationRefs := Some (getSortedKustomizationRefs env (slice (ps_KustomizationRefs s))),
     ps_TemplateResourceRefs := getSortedTemplateResourceRefs env (ps_TemplateResourceRefs s),
     ps_ValidateHealths := getSortedValidateHealths env (ps_ValidateHealths s),
     ps_PreDeployChecks := getSortedValidateHealths env (ps_PreDeployChecks s),
     ps_PreDeleteChecks := getSortedValidateHealths env (ps_PreDeleteChecks s),
     ps_PostDeleteChecks := getSortedValidateHealths env (ps_PostDeleteChecks s),
     ps_Patches := getSortedPatches env (ps_Patches s),
     ps_PatchesFrom := getSortedValueFroms env (ps_PatchesFrom s),
     ps_DriftExclusions := Some (getSortedDriftExclusions (slice (ps_DriftExclusions s))),
     ps_DependsOn := sort (ps_DependsOn s),
     ps_TransitionFrom := sort (ps_TransitionFrom s)\<rparr>"

definition getProfileSpecHash :: "'e hash_env_scheme \<Rightarrow> profile_spec \<Rightarrow> bytes" where
  "getProfileSpecHash env s = (case he_JsonSpec env (sorted_spec env s) of Inl _ \<Rightarrow> he_Sha env [] | Inr data \<Rightarrow> he_Sha env data)"

section \<open>What all features hash\<close>

definition int_text :: "int \<Rightarrow> string" where
  "int_text i = (if i < 0 then CHR ''-'' # nat_text (nat (- i)) else nat_text (nat i))"

definition bool_text :: "bool \<Rightarrow> string" where
  "bool_text b = (if b then ''true'' else ''false'')"

definition sync_mode_text :: "sync_mode \<Rightarrow> string" where
  "sync_mode_text m =
     (case m of
        SyncModeOneTime \<Rightarrow> ''OneTime''
      | SyncModeContinuous \<Rightarrow> ''Continuous''
      | SyncModeContinuousWithDriftDetection \<Rightarrow> ''ContinuousWithDriftDetection''
      | SyncModeDryRun \<Rightarrow> ''DryRun'')"

definition ProfileRedeployAnnotation :: string where
  "ProfileRedeployAnnotation = ''profile.projectsveltos.io/redeploy''"

definition json_hash :: "'e hash_env_scheme \<Rightarrow> dep_error + bytes \<Rightarrow> dep_error + string" where
  "json_hash env json = (case json of Inl e \<Rightarrow> Inl e | Inr raw \<Rightarrow> Inr (he_Hex env (he_Sha env raw)))"

definition getUnstructuredHash :: "'e hash_env_scheme \<Rightarrow> go_values \<Rightarrow> dep_error + string" where
  "getUnstructuredHash env u = json_hash env (he_JsonObject env u)"

fun object_hashes :: "'e hash_env_scheme \<Rightarrow> (string \<times> go_values) list \<Rightarrow> string list \<Rightarrow> string \<Rightarrow> dep_error + string" where
  "object_hashes env m [] config = Inr config"
| "object_hashes env m (k # ks) config =
     (case getUnstructuredHash env (lookup_default [] m k) of
        Inl e \<Rightarrow> Inl e
      | Inr h \<Rightarrow> object_hashes env m ks (config @ h))"

definition getTemplateResourceRefHash :: "'e hash_env_scheme \<Rightarrow> cluster_summary \<Rightarrow> dep_error + bytes" where
  "getTemplateResourceRefHash env cs =
     (case collectTemplateResourceRefs env cs of
        Inl e \<Rightarrow> Inl e
      | Inr mgmtResources \<Rightarrow>
          let m = slice mgmtResources
          in if m = [] then Inr []
             else case object_hashes env m (sort (map fst m)) [] of
               Inl e \<Rightarrow> Inl e
             | Inr config \<Rightarrow> Inr (he_Sha env config))"

definition getPatchesHash :: "'e hash_env_scheme \<Rightarrow> cluster_summary \<Rightarrow> dep_error + string" where
  "getPatchesHash env cs =
     (case collectTemplateResourceRefs env cs of
        Inl e \<Rightarrow> Inl e
      | Inr mgmtResources \<Rightarrow>
          (case instantiatedPatches env cs (om_Name (cs_Meta cs)) mgmtResources of
             Inl e \<Rightarrow> Inl e
           | Inr patches \<Rightarrow>
               if patches = [] then Inr []
               else case json_hash env (he_JsonPatches env patches) of
                 Inl e \<Rightarrow> Inl (prefixed ''failed to marshal patches'' e)
               | Inr h \<Rightarrow> Inr h))"

definition drift_namespaces :: "'e hash_env_scheme \<Rightarrow> cluster_summary \<Rightarrow> dep_error + string" where
  "drift_namespaces env cs =
     (if ps_SyncMode (cs_ProfileSpec cs) = SyncModeContinuousWithDriftDetection then
        (case getAgentWatchNamespaces env cs of Inl e \<Rightarrow> Inl e | Inr nss \<Rightarrow> Inr (''v1.0.1'' @ go_join (CHR '','') nss))
      else Inr [])"

definition collectDriftDetectionConfigMap :: "'e hash_env_scheme \<Rightarrow> dep_error + config_map" where
  "collectDriftDetectionConfigMap env =
     (case fe_ConfigMap env (rf_SveltosNamespace (fe_Ref env), rf_DriftDetectionConfigMap (fe_Ref env)) of
        Inl e \<Rightarrow> Inl (api_err e)
      | Inr cm \<Rightarrow> Inr cm)"

definition drift_config_hash :: "'e hash_env_scheme \<Rightarrow> dep_error + string" where
  "drift_config_hash env =
     (if rf_DriftDetectionConfigMap (fe_Ref env) = [] then Inr []
      else case collectDriftDetectionConfigMap env of
        Inl e \<Rightarrow> Inl e
      | Inr configMap \<Rightarrow> Inr (getDataSectionHash env (cfm_Data configMap)))"

definition exclusions_hash :: "'e hash_env_scheme \<Rightarrow> cluster_summary \<Rightarrow> dep_error + string" where
  "exclusions_hash env cs =
     (case ps_DriftExclusions (cs_ProfileSpec cs) of
        None \<Rightarrow> Inr []
      | Some xs \<Rightarrow> json_hash env (he_JsonExclusions env xs))"

definition spec_prefix :: "'e hash_env_scheme \<Rightarrow> cluster_summary \<Rightarrow> string" where
  "spec_prefix env cs =
     (let s = cs_ProfileSpec cs
      in sync_mode_text (ps_SyncMode s) @
         (if ps_SyncMode s = SyncModeContinuousWithDriftDetection \<and> he_Agentless env then ''agentless'' else []) @
         bool_text (ps_Reloader s) @ int_text (ps_Tier s) @ bool_text (ps_ContinueOnConflict s) @
         lookup_default [] (om_Annotations (cs_Meta cs)) ProfileRedeployAnnotation)"

definition getClusterProfileSpecHash :: "'e hash_env_scheme \<Rightarrow> cluster_summary \<Rightarrow> dep_error + string" where
  "getClusterProfileSpecHash env cs =
     (case drift_namespaces env cs of
        Inl e \<Rightarrow> Inl e
      | Inr namespaces \<Rightarrow>
          (case getTemplateResourceRefHash env cs of
             Inl e \<Rightarrow> Inl e
           | Inr mgmtResourceHash \<Rightarrow>
               (case getPatchesHash env cs of
                  Inl e \<Rightarrow> Inl e
                | Inr patchesHash \<Rightarrow>
                    (case drift_config_hash env of
                       Inl e \<Rightarrow> Inl e
                     | Inr driftConfig \<Rightarrow>
                         (case exclusions_hash env cs of
                            Inl e \<Rightarrow> Inl e
                          | Inr exclusions \<Rightarrow>
                              Inr (spec_prefix env cs @ namespaces @ mgmtResourceHash @ patchesHash @ driftConfig @ exclusions))))))"

text \<open>The health checks of a feature.\<close>

fun checks_hash :: "'e hash_env_scheme \<Rightarrow> feature_id \<Rightarrow> validate_health list \<Rightarrow> string \<Rightarrow> dep_error + string" where
  "checks_hash env f [] config = Inr config"
| "checks_hash env f (h # hs) config =
     (if vh_FeatureID h = f then
        (case json_hash env (he_JsonCheck env h) of
           Inl e \<Rightarrow> Inl e
         | Inr s \<Rightarrow> checks_hash env f hs (config @ s))
      else checks_hash env f hs config)"

section \<open>Helm charts\<close>

text \<open>The revision and the path of the Flux source of a chart. \<open>Inr None\<close> ends the hash of the chart early.\<close>

definition flux_chart_part :: "'e hash_env_scheme \<Rightarrow> cluster_summary \<Rightarrow> helm_chart \<Rightarrow> dep_error + string option" where
  "flux_chart_part env cs currentChart =
     (if \<not> isReferencingFluxSource currentChart then Inr (Some [])
      else case getReferencedFluxSourceFromURL (fe_Ref env) currentChart of
        Inl msg \<Rightarrow> Inl (plain_error msg)
      | Inr (sourceRef, repoPath) \<Rightarrow>
          (case instantiate_ref (fe_Ref env) cs (ref_Namespace sourceRef) (ref_Name sourceRef) of
             Inl _ \<Rightarrow> Inr None
           | Inr name \<Rightarrow>
               (case getSource env (ref_Kind sourceRef) name of
                  Inl e \<Rightarrow> Inl e
                | Inr None \<Rightarrow> Inr None
                | Inr (Some source) \<Rightarrow>
                    (case fls_Artifact source of
                       None \<Rightarrow> Inr (Some [])
                     | Some artifact \<Rightarrow> Inr (Some (art_Revision artifact @ repoPath))))))"

definition getHelmChartHash :: "'e hash_env_scheme \<Rightarrow> cluster_summary \<Rightarrow> helm_chart \<Rightarrow> mgmt_resources \<Rightarrow> dep_error + string" where
  "getHelmChartHash env cs currentChart mgmtResources =
     (case json_hash env (he_JsonChart env currentChart) of
        Inl e \<Rightarrow> Inl e
      | Inr config \<Rightarrow>
          (case flux_chart_part env cs currentChart of
             Inl e \<Rightarrow> Inl e
           | Inr None \<Rightarrow> Inr config
           | Inr (Some flux) \<Rightarrow>
               (case getHelmChartInstantiatedValues env cs mgmtResources currentChart of
                  Inl e \<Rightarrow> Inl e
                | Inr vals \<Rightarrow>
                    (case he_Yaml env vals of
                       Inl e \<Rightarrow> Inl e
                     | Inr valuesAsString \<Rightarrow> Inr (config @ flux @ valuesAsString)))))"

fun chart_hashes :: "'e hash_env_scheme \<Rightarrow> cluster_summary \<Rightarrow> mgmt_resources \<Rightarrow> helm_chart list \<Rightarrow> string \<Rightarrow>
    dep_error + string" where
  "chart_hashes env cs mgmt [] config = Inr config"
| "chart_hashes env cs mgmt (c # charts) config =
     (case getHelmChartHash env cs c mgmt of
        Inl e \<Rightarrow> Inl e
      | Inr h \<Rightarrow> chart_hashes env cs mgmt charts (config @ h))"

definition charts_mgmt_resources :: "'e hash_env_scheme \<Rightarrow> cluster_summary \<Rightarrow> dep_error + mgmt_resources" where
  "charts_mgmt_resources env cs =
     (case collectTemplateResourceRefs env cs of
        Inl e \<Rightarrow> if errors_As e NotFoundError then Inr None else Inl e
      | Inr m \<Rightarrow> Inr m)"

definition helmHash :: "'e hash_env_scheme \<Rightarrow> cluster_summary \<Rightarrow> dep_error + bytes" where
  "helmHash env cs =
     (case getClusterProfileSpecHash env cs of
        Inl e \<Rightarrow> Inl e
      | Inr config \<Rightarrow>
          (case ps_HelmCharts (cs_ProfileSpec cs) of
             None \<Rightarrow> Inr (he_Sha env [])
           | Some helmCharts \<Rightarrow>
               (case charts_mgmt_resources env cs of
                  Inl e \<Rightarrow> Inl e
                | Inr mgmtResources \<Rightarrow>
                    (case chart_hashes env cs mgmtResources (getSortedHelmCharts env helmCharts) config of
                       Inl e \<Rightarrow> Inl e
                     | Inr config' \<Rightarrow>
                         (case checks_hash env FeatureHelm (ps_ValidateHealths (cs_ProfileSpec cs)) config' of
                            Inl e \<Rightarrow> Inl e
                          | Inr config'' \<Rightarrow> Inr (he_Sha env config''))))))"

section \<open>Policies\<close>

text \<open>The references to objects with their tiers; a later reference to the same object decides the tier.\<close>

fun policy_ref_info :: "'e hash_env_scheme \<Rightarrow> cluster_summary \<Rightarrow> policy_ref list \<Rightarrow>
    object_reference list \<times> (object_reference \<times> int) list \<Rightarrow> object_reference list \<times> (object_reference \<times> int) list" where
  "policy_ref_info env cs [] acc = acc"
| "policy_ref_info env cs (reference # rs) (refs, tiers) =
     (if pr_RemoteURL reference \<noteq> None then policy_ref_info env cs rs (refs, tiers)
      else case instantiate_ref (fe_Ref env) cs (pr_Namespace reference) (pr_Name reference) of
        Inl _ \<Rightarrow> policy_ref_info env cs rs (refs, tiers)
      | Inr (namespace, name) \<Rightarrow>
          let obj = \<lparr>ref_Kind = pr_Kind reference, ref_Namespace = namespace, ref_Name = name, ref_APIVersion = []\<rparr>
          in policy_ref_info env cs rs (refs @ [obj], AList.update obj (pr_Tier reference) tiers))"

definition getInstantiatedPolicyRefInfo :: "'e hash_env_scheme \<Rightarrow> cluster_summary \<Rightarrow> policy_ref list \<Rightarrow>
    object_reference list \<times> (object_reference \<times> int) list" where
  "getInstantiatedPolicyRefInfo env cs sortedPolicyRefs = policy_ref_info env cs sortedPolicyRefs ([], [])"

text \<open>The content of one reference; \<open>None\<close> for an object that does not exist.\<close>

definition reference_hash :: "'e hash_env_scheme \<Rightarrow> (object_reference \<times> int) list \<Rightarrow> object_reference \<Rightarrow> dep_error + string option" where
  "reference_hash env tiers reference =
     (let tier = int_text (lookup_default 0 tiers reference); name = (ref_Namespace reference, ref_Name reference);
          absent = (\<lambda>e. if errors_As e NotFoundError then Inr None else Inl e)
      in if ref_Kind reference = rf_ConfigMapKind (fe_Ref env) then
           (case fe_ConfigMap env name of
              Inl e \<Rightarrow> absent (api_err e)
            | Inr cm \<Rightarrow> Inr (Some (getConfigMapHash env cm @ tier)))
         else if ref_Kind reference = rf_SecretKind (fe_Ref env) then
           (case fe_Secret env name of
              Inl e \<Rightarrow> absent (api_err e)
            | Inr s \<Rightarrow> Inr (Some (getSecretHash env s @ tier)))
         else
           (case getSource env (ref_Kind reference) name of
              Inl e \<Rightarrow> absent e
            | Inr None \<Rightarrow> Inr (Some [])
            | Inr (Some source) \<Rightarrow>
                Inr (Some ((case fls_Artifact source of None \<Rightarrow> [] | Some a \<Rightarrow> art_Revision a) @
                  annotations_hash env (fls_Annotations source) @ tier))))"

fun reference_hashes :: "'e hash_env_scheme \<Rightarrow> (object_reference \<times> int) list \<Rightarrow> object_reference list \<Rightarrow> string \<Rightarrow> dep_error + string" where
  "reference_hashes env tiers [] config = Inr config"
| "reference_hashes env tiers (r # rs) config =
     (case reference_hash env tiers r of
        Inl e \<Rightarrow> Inl e
      | Inr None \<Rightarrow> reference_hashes env tiers rs config
      | Inr (Some s) \<Rightarrow> reference_hashes env tiers rs (config @ s))"

definition policy_fetch_options :: "remote_url \<Rightarrow> remote_fetch_options" where
  "policy_fetch_options u = \<lparr>rfo_secretRef = ru_SecretRef u, rfo_insecureSkipTLSVerify = ru_InsecureSkipTLSVerify u,
     rfo_plainHTTP = ru_PlainHTTP u\<rparr>"

fun url_hashes :: "'e hash_env_scheme \<Rightarrow> cluster_summary \<Rightarrow> policy_ref list \<Rightarrow> string \<Rightarrow> dep_error + string" where
  "url_hashes env cs [] result = Inr result"
| "url_hashes env cs (ref # refs) result =
     (case pr_RemoteURL ref of
        None \<Rightarrow> url_hashes env cs refs result
      | Some remote \<Rightarrow>
          (case instantiateRemoteURL env cs (ru_URL remote) of
             Inl _ \<Rightarrow> url_hashes env cs refs result
           | Inr url \<Rightarrow>
               (case fetchContent env cs url (policy_fetch_options remote) of
                  Inl e \<Rightarrow> if pr_Optional ref then url_hashes env cs refs result else Inl e
                | Inr body \<Rightarrow>
                    url_hashes env cs refs (result @ he_Hex env (he_Sha env body) @ int_text (pr_Tier ref) @
                      bool_text (ru_Template remote)))))"

definition urlPolicyRefsHash :: "'e hash_env_scheme \<Rightarrow> cluster_summary \<Rightarrow> dep_error + string" where
  "urlPolicyRefsHash env cs = url_hashes env cs (slice (ps_PolicyRefs (cs_ProfileSpec cs))) []"

definition resourcesHash :: "'e hash_env_scheme \<Rightarrow> cluster_summary \<Rightarrow> dep_error + bytes" where
  "resourcesHash env cs =
     (case getClusterProfileSpecHash env cs of
        Inl e \<Rightarrow> Inl e
      | Inr config \<Rightarrow>
          let sortedPolicyRefs = getSortedPolicyRefs env (slice (ps_PolicyRefs (cs_ProfileSpec cs))) in
          (case json_hash env (he_JsonPolicies env sortedPolicyRefs) of
             Inl e \<Rightarrow> Inl e
           | Inr refsHash \<Rightarrow>
               (case getInstantiatedPolicyRefInfo env cs sortedPolicyRefs of (refs, tiers) \<Rightarrow>
                 (case reference_hashes env tiers (he_SortRefs env reference_key refs) (config @ refsHash) of
                    Inl e \<Rightarrow> Inl e
                  | Inr config' \<Rightarrow>
                      (case checks_hash env FeatureResources (ps_ValidateHealths (cs_ProfileSpec cs)) config' of
                         Inl e \<Rightarrow> Inl e
                       | Inr config'' \<Rightarrow>
                           (case urlPolicyRefsHash env cs of
                              Inl e \<Rightarrow> Inl e
                            | Inr urlHash \<Rightarrow> Inr (he_Sha env (config'' @ urlHash))))))))"

section \<open>Kustomizations\<close>

definition getHashFromRemoteKustomizeURL :: "'e hash_env_scheme \<Rightarrow> cluster_summary \<Rightarrow> remote_kustomize_url \<Rightarrow> dep_error + bytes option" where
  "getHashFromRemoteKustomizeURL env cs remoteURL =
     (case instantiateRemoteURL env cs (rku_URL remoteURL) of
        Inl _ \<Rightarrow> Inr None
      | Inr url \<Rightarrow>
          (case fetchContentForHash env cs url \<lparr>rfo_secretRef = rku_SecretRef remoteURL,
                  rfo_insecureSkipTLSVerify = rku_InsecureSkipTLSVerify remoteURL, rfo_plainHTTP = rku_PlainHTTP remoteURL\<rparr> of
             Inl e \<Rightarrow> Inl e
           | Inr body \<Rightarrow> Inr (Some (he_Hex env (he_Sha env body)))))"

definition getHashFromKustomizationRef :: "'e hash_env_scheme \<Rightarrow> cluster_summary \<Rightarrow> kustomization_ref \<Rightarrow> dep_error + bytes option" where
  "getHashFromKustomizationRef env cs kr =
     (case kr_RemoteURL kr of
        Some remoteURL \<Rightarrow> getHashFromRemoteKustomizeURL env cs remoteURL
      | None \<Rightarrow>
          (case instantiate_ref (fe_Ref env) cs (kr_Namespace kr) (kr_Name kr) of
             Inl _ \<Rightarrow> Inr None
           | Inr name \<Rightarrow>
               if kr_Kind kr = rf_ConfigMapKind (fe_Ref env) then
                 (case getConfigMap env name of Inl e \<Rightarrow> Inl e | Inr cm \<Rightarrow> Inr (Some (getConfigMapHash env cm)))
               else if kr_Kind kr = rf_SecretKind (fe_Ref env) then
                 (case getSecret env name of Inl e \<Rightarrow> Inl e | Inr s \<Rightarrow> Inr (Some (getSecretHash env s)))
               else
                 (case getSource env (kr_Kind kr) name of
                    Inl e \<Rightarrow> Inl e
                  | Inr None \<Rightarrow> Inr None
                  | Inr (Some source) \<Rightarrow>
                      Inr (Some ((case fls_Artifact source of None \<Rightarrow> [] | Some a \<Rightarrow> art_Revision a) @
                        annotations_hash env (fls_Annotations source))))))"

definition getKustomizeReferenceResourceHash :: "'e hash_env_scheme \<Rightarrow> cluster_summary \<Rightarrow> kustomization_ref \<Rightarrow> cluster_objects \<Rightarrow>
    dep_error + string" where
  "getKustomizeReferenceResourceHash env cs kr clusterObjects =
     (case substitute_values env cs kr clusterObjects of
        Inl e \<Rightarrow> Inl e
      | Inr vals \<Rightarrow>
          if vals = [] then Inr []
          else case json_hash env (he_JsonMap env vals) of
            Inl e \<Rightarrow> Inl (prefixed ''failed to marshal kustomize substitute values'' e)
          | Inr h \<Rightarrow> Inr h)"

fun kustomization_hashes :: "'e hash_env_scheme \<Rightarrow> cluster_summary \<Rightarrow> cluster_objects \<Rightarrow> kustomization_ref list \<Rightarrow> string \<Rightarrow>
    dep_error + string" where
  "kustomization_hashes env cs objs [] config = Inr config"
| "kustomization_hashes env cs objs (kr # krs) config =
     (case getHashFromKustomizationRef env cs kr of
        Inl e \<Rightarrow> Inl e
      | Inr None \<Rightarrow> kustomization_hashes env cs objs krs config
      | Inr (Some result) \<Rightarrow>
          (case getKustomizeReferenceResourceHash env cs kr objs of
             Inl e \<Rightarrow> Inl e
           | Inr valueFromHash \<Rightarrow>
               kustomization_hashes env cs objs krs (config @ result @ int_text (kr_Tier kr) @ valueFromHash)))"

definition kustomizationHash :: "'e hash_env_scheme \<Rightarrow> cluster_summary \<Rightarrow> dep_error + bytes" where
  "kustomizationHash env cs =
     (case getClusterProfileSpecHash env cs of
        Inl e \<Rightarrow> Inl e
      | Inr config \<Rightarrow>
          let sortedRefs = getSortedKustomizationRefs env (slice (ps_KustomizationRefs (cs_ProfileSpec cs))) in
          (case json_hash env (he_JsonKustomizations env sortedRefs) of
             Inl e \<Rightarrow> Inl e
           | Inr refsHash \<Rightarrow>
               (case fetchClusterObjects env cs of
                  Inl e \<Rightarrow> Inl e
                | Inr clusterObjects \<Rightarrow>
                    (case kustomization_hashes env cs clusterObjects sortedRefs (config @ refsHash) of
                       Inl e \<Rightarrow> Inl e
                     | Inr config' \<Rightarrow>
                         (case checks_hash env FeatureKustomize (ps_ValidateHealths (cs_ProfileSpec cs)) config' of
                            Inl e \<Rightarrow> Inl e
                          | Inr config'' \<Rightarrow> Inr (he_Sha env config''))))))"

section \<open>The order of the items\<close>

locale sorter =
  fixes srt :: "'a keyed_sort"
  assumes permutes: "mset (srt key xs) = mset xs"
    and ordered: "sorted (map key (srt key xs))"
begin

lemma sorted_items: "set (srt key xs) = set xs"
  using permutes [of key xs] by (metis set_mset_mset)

lemma is_sort_key: "distinct (map key xs) \<Longrightarrow> srt key xs = sort_key key xs"
  by (rule sort_key_inj_key_eq [symmetric]) (simp_all add: permutes ordered distinct_map)

lemma canonical: "mset xs = mset ys \<Longrightarrow> distinct (map key xs) \<Longrightarrow> srt key xs = srt key ys"
proof -
  assume perm: "mset xs = mset ys" and d: "distinct (map key xs)"
  have "mset (map key xs) = mset (map key ys)" by (simp add: perm)
  then have d': "distinct (map key ys)" using d by (metis mset_eq_imp_distinct_iff)
  have "sort_key key xs = sort_key key ys"
    by (rule sort_key_inj_key_eq) (use perm d in \<open>simp_all add: distinct_map\<close>)
  then show "srt key xs = srt key ys" by (simp add: is_sort_key d d')
qed

end

interpretation stable_sort: sorter sort_key
  by unfold_locales simp_all

definition sorts_ok :: "'e hash_env_scheme \<Rightarrow> bool" where
  "sorts_ok env \<longleftrightarrow> sorter (he_SortCharts env) \<and> sorter (he_SortPolicies env) \<and> sorter (he_SortKustomizations env) \<and>
     sorter (he_SortTemplateRefs env) \<and> sorter (he_SortChecks env) \<and> sorter (he_SortPatches env) \<and> sorter (he_SortValueFroms env)"

text \<open>Two specifications that list the same items, each list in an order of its own, and specifications without two items of one key.\<close>

definition without_lists :: "profile_spec \<Rightarrow> profile_spec" where
  "without_lists s = s\<lparr>ps_HelmCharts := None, ps_PolicyRefs := None, ps_KustomizationRefs := None, ps_TemplateResourceRefs := [],
     ps_ValidateHealths := [], ps_PreDeployChecks := [], ps_PreDeleteChecks := [], ps_PostDeleteChecks := [], ps_Patches := [],
     ps_PatchesFrom := [], ps_DriftExclusions := None, ps_DependsOn := [], ps_TransitionFrom := []\<rparr>"

definition same_items :: "profile_spec \<Rightarrow> profile_spec \<Rightarrow> bool" where
  "same_items s t \<longleftrightarrow> without_lists s = without_lists t \<and>
     mset (slice (ps_HelmCharts s)) = mset (slice (ps_HelmCharts t)) \<and> mset (slice (ps_PolicyRefs s)) = mset (slice (ps_PolicyRefs t)) \<and>
     mset (slice (ps_KustomizationRefs s)) = mset (slice (ps_KustomizationRefs t)) \<and>
     mset (ps_TemplateResourceRefs s) = mset (ps_TemplateResourceRefs t) \<and> mset (ps_ValidateHealths s) = mset (ps_ValidateHealths t) \<and>
     mset (ps_PreDeployChecks s) = mset (ps_PreDeployChecks t) \<and> mset (ps_PreDeleteChecks s) = mset (ps_PreDeleteChecks t) \<and>
     mset (ps_PostDeleteChecks s) = mset (ps_PostDeleteChecks t) \<and> mset (ps_Patches s) = mset (ps_Patches t) \<and>
     mset (ps_PatchesFrom s) = mset (ps_PatchesFrom t) \<and>
     mset (slice (ps_DriftExclusions s)) = mset (slice (ps_DriftExclusions t)) \<and>
     mset (ps_DependsOn s) = mset (ps_DependsOn t) \<and> mset (ps_TransitionFrom s) = mset (ps_TransitionFrom t)"

definition unambiguous :: "profile_spec \<Rightarrow> bool" where
  "unambiguous s \<longleftrightarrow> distinct (map chart_key (slice (ps_HelmCharts s))) \<and> distinct (map policy_key (slice (ps_PolicyRefs s))) \<and>
     distinct (map kustomization_key (slice (ps_KustomizationRefs s))) \<and> distinct (map template_ref_key (ps_TemplateResourceRefs s)) \<and>
     distinct (map check_key (ps_ValidateHealths s)) \<and> distinct (map check_key (ps_PreDeployChecks s)) \<and>
     distinct (map check_key (ps_PreDeleteChecks s)) \<and> distinct (map check_key (ps_PostDeleteChecks s)) \<and>
     distinct (map patch_key (ps_Patches s)) \<and> distinct (map value_from_key (ps_PatchesFrom s)) \<and>
     distinct (map exclusion_key (slice (ps_DriftExclusions s)))"

lemma sorted_spec_same:
  assumes "sorts_ok env" "same_items s t" "unambiguous s"
  shows "sorted_spec env s = sorted_spec env t"
proof -
  have "getSortedDriftExclusions (slice (ps_DriftExclusions s)) = getSortedDriftExclusions (slice (ps_DriftExclusions t))"
    unfolding getSortedDriftExclusions_def
    by (rule sort_key_inj_key_eq) (use assms(2,3) in \<open>auto simp: same_items_def unambiguous_def distinct_map\<close>)
  moreover have "sort (ps_DependsOn s) = sort (ps_DependsOn t)" "sort (ps_TransitionFrom s) = sort (ps_TransitionFrom t)"
    using assms(2) by (simp_all add: same_items_def properties_for_sort)
  moreover have "without_lists s = without_lists t" using assms(2) by (simp add: same_items_def)
  moreover have "getSortedHelmCharts env (slice (ps_HelmCharts s)) = getSortedHelmCharts env (slice (ps_HelmCharts t))"
      "getSortedPolicyRefs env (slice (ps_PolicyRefs s)) = getSortedPolicyRefs env (slice (ps_PolicyRefs t))"
      "getSortedKustomizationRefs env (slice (ps_KustomizationRefs s)) = getSortedKustomizationRefs env (slice (ps_KustomizationRefs t))"
      "getSortedTemplateResourceRefs env (ps_TemplateResourceRefs s) = getSortedTemplateResourceRefs env (ps_TemplateResourceRefs t)"
      "getSortedValidateHealths env (ps_ValidateHealths s) = getSortedValidateHealths env (ps_ValidateHealths t)"
      "getSortedValidateHealths env (ps_PreDeployChecks s) = getSortedValidateHealths env (ps_PreDeployChecks t)"
      "getSortedValidateHealths env (ps_PreDeleteChecks s) = getSortedValidateHealths env (ps_PreDeleteChecks t)"
      "getSortedValidateHealths env (ps_PostDeleteChecks s) = getSortedValidateHealths env (ps_PostDeleteChecks t)"
      "getSortedPatches env (ps_Patches s) = getSortedPatches env (ps_Patches t)"
      "getSortedValueFroms env (ps_PatchesFrom s) = getSortedValueFroms env (ps_PatchesFrom t)"
    unfolding getSortedHelmCharts_def getSortedPolicyRefs_def getSortedKustomizationRefs_def getSortedTemplateResourceRefs_def
      getSortedValidateHealths_def getSortedPatches_def getSortedValueFroms_def
    using assms by (auto simp: sorts_ok_def same_items_def unambiguous_def intro: sorter.canonical)
  ultimately show ?thesis
    by (cases s; cases t) (simp add: sorted_spec_def without_lists_def)
qed

text \<open>
  C36. The hash of the specification of a profile does not depend on the order in which its charts, references, checks,
  patches, exclusions and dependencies are listed, if no two of a list have the same key.
\<close>

theorem spec_hash_order_free:
  assumes "sorts_ok env" "same_items s t" "unambiguous s"
  shows "getProfileSpecHash env s = getProfileSpecHash env t"
  using sorted_spec_same [OF assms] by (simp add: getProfileSpecHash_def)

text \<open>Items of one key keep the order they are listed in under a stable sort, and insertion sort, which Go uses up to
  twelve items, is stable: two references to a URL have the same empty key.\<close>

lemma tied_refs_keep_order:
  assumes "he_SortPolicies env = sort_key" "policy_key a = policy_key b" "a \<noteq> b"
  shows "sorted_spec env (s\<lparr>ps_PolicyRefs := Some [a, b]\<rparr>) \<noteq> sorted_spec env (s\<lparr>ps_PolicyRefs := Some [b, a]\<rparr>)"
  using assms by (cases s) (simp add: sorted_spec_def getSortedPolicyRefs_def)

section \<open>What a change of an object does to a hash\<close>

lemmas case_congs = sum.case_cong option.case_cong prod.case_cong api_error.case_cong if_cong

text \<open>Nothing of the hash but the references reads a ConfigMap, when there are no patches.\<close>

lemma collect_config_map_frame: "collectTemplateResourceRefs (env\<lparr>fe_ConfigMap := g\<rparr>) cs = collectTemplateResourceRefs env cs"
proof -
  have one: "fetch_template_ref (env\<lparr>fe_ConfigMap := g\<rparr>) cs ref = fetch_template_ref env cs ref" for ref
    by (simp add: fetch_template_ref_def trimmed_resource_def extractWatchedFields_def Let_def cong: case_congs)
  have "collect_template_refs (env\<lparr>fe_ConfigMap := g\<rparr>) cs refs m = collect_template_refs env cs refs m" for refs m
    by (induction refs arbitrary: m) (simp_all add: one cong: case_congs)
  then show ?thesis by (simp add: collectTemplateResourceRefs_def Let_def cong: case_congs)
qed

lemma object_hashes_frame: "object_hashes (env\<lparr>fe_ConfigMap := g\<rparr>) m ks c = object_hashes env m ks c"
  by (induction ks arbitrary: c) (simp_all add: getUnstructuredHash_def json_hash_def cong: case_congs)

lemma checks_hash_frame: "checks_hash (env\<lparr>fe_ConfigMap := g\<rparr>) f hs c = checks_hash env f hs c"
  by (induction hs arbitrary: c) (simp_all add: json_hash_def cong: case_congs)

lemma data_hash_frame [simp]: "getDataSectionHash (env\<lparr>fe_ConfigMap := g\<rparr>) = getDataSectionHash env"
  by (simp add: fun_eq_iff getDataSectionHash_def)

lemma annotations_hash_frame [simp]: "annotations_hash (env\<lparr>fe_ConfigMap := g\<rparr>) = annotations_hash env"
  by (simp add: fun_eq_iff annotations_hash_def cong: case_congs)

lemma policy_ref_info_frame: "policy_ref_info (env\<lparr>fe_ConfigMap := g\<rparr>) cs rs acc = policy_ref_info env cs rs acc"
  by (induction env cs rs acc rule: policy_ref_info.induct) (simp_all add: Let_def cong: case_congs)

lemma fetch_frame:
  "fetchContent (env\<lparr>fe_ConfigMap := g\<rparr>) cs u opts = fetchContent env cs u opts"
proof -
  have creds: "fetch_credentials (env\<lparr>fe_ConfigMap := g\<rparr>) cs u ref = fetch_credentials env cs u ref" for ref u
    by (simp add: fetch_credentials_def getSecret_def secret_roots_def cong: case_congs)
  have url: "fetchURL (env\<lparr>fe_ConfigMap := g\<rparr>) cs u opts = fetchURL env cs u opts"
    by (simp add: fetchURL_def creds Let_def cong: case_congs)
  have "pull_layers (env\<lparr>fe_ConfigMap := g\<rparr>) repo u ls acc = pull_layers env repo u ls acc" for repo ls acc
    by (induction ls arbitrary: acc) (simp_all cong: case_congs)
  then have layers: "pullOCIArtifactLayers (env\<lparr>fe_ConfigMap := g\<rparr>) cs u opts = pullOCIArtifactLayers env cs u opts"
    by (simp add: pullOCIArtifactLayers_def buildOCIAuthClient_def creds Let_def cong: case_congs)
  have from_layer: "extractYAMLFromLayer (env\<lparr>fe_ConfigMap := g\<rparr>) raw u = extractYAMLFromLayer env raw u" for raw
    by (simp add: extractYAMLFromLayer_def Let_def cong: case_congs)
  have "extract_layers (env\<lparr>fe_ConfigMap := g\<rparr>) u ls buf = extract_layers env u ls buf" for ls buf
    by (induction ls arbitrary: buf) (simp_all add: from_layer cong: case_congs)
  then show ?thesis by (simp add: fetchContent_def fetchOCI_def url layers from_layer Let_def cong: case_congs)
qed

lemma url_hashes_frame: "url_hashes (env\<lparr>fe_ConfigMap := g\<rparr>) cs rs c = url_hashes env cs rs c"
  by (induction rs arbitrary: c) (simp_all add: instantiateRemoteURL_def fetch_frame cong: case_congs)

lemma patches_hash_none: "ps_Patches (cs_ProfileSpec cs) = [] \<Longrightarrow> ps_PatchesFrom (cs_ProfileSpec cs) = [] \<Longrightarrow>
    getPatchesHash env cs = (case collectTemplateResourceRefs env cs of Inl e \<Rightarrow> Inl e | Inr _ \<Rightarrow> Inr [])"
  by (simp add: getPatchesHash_def instantiatedPatches_def cong: case_congs)

definition same_data :: "api_error + config_map \<Rightarrow> api_error + config_map \<Rightarrow> bool" where
  "same_data a b \<longleftrightarrow> (case a of
      Inl e \<Rightarrow> b = Inl e
    | Inr cm \<Rightarrow> (case b of Inl _ \<Rightarrow> False | Inr cm' \<Rightarrow> cfm_Data cm' = cfm_Data cm))"

lemma spec_hash_frame:
  assumes "ps_Patches (cs_ProfileSpec cs) = []" "ps_PatchesFrom (cs_ProfileSpec cs) = []" "\<And>n. same_data (fe_ConfigMap env n) (g n)"
  shows "getClusterProfileSpecHash (env\<lparr>fe_ConfigMap := g\<rparr>) cs = getClusterProfileSpecHash env cs"
proof -
  have "drift_config_hash (env\<lparr>fe_ConfigMap := g\<rparr>) = drift_config_hash env"
    using assms(3) [of "(rf_SveltosNamespace (fe_Ref env), rf_DriftDetectionConfigMap (fe_Ref env))"]
    by (auto simp: drift_config_hash_def collectDriftDetectionConfigMap_def same_data_def split: sum.splits)
  moreover have "getPatchesHash (env\<lparr>fe_ConfigMap := g\<rparr>) cs = getPatchesHash env cs"
    by (simp add: patches_hash_none [OF assms(1,2)] collect_config_map_frame)
  moreover have "getTemplateResourceRefHash (env\<lparr>fe_ConfigMap := g\<rparr>) cs = getTemplateResourceRefHash env cs"
    by (simp add: getTemplateResourceRefHash_def collect_config_map_frame object_hashes_frame Let_def cong: case_congs)
  moreover have "drift_namespaces (env\<lparr>fe_ConfigMap := g\<rparr>) cs = drift_namespaces env cs"
    by (simp add: drift_namespaces_def getAgentWatchNamespaces_def cong: case_congs)
  moreover have "exclusions_hash (env\<lparr>fe_ConfigMap := g\<rparr>) cs = exclusions_hash env cs"
    by (simp add: exclusions_hash_def json_hash_def cong: case_congs)
  moreover have "spec_prefix (env\<lparr>fe_ConfigMap := g\<rparr>) cs = spec_prefix env cs" by (simp add: spec_prefix_def)
  ultimately show ?thesis by (simp add: getClusterProfileSpecHash_def cong: case_congs)
qed

lemma reference_hashes_frame:
  assumes "\<And>r. reference_hash (env\<lparr>fe_ConfigMap := g\<rparr>) tiers r = reference_hash env tiers r"
  shows "reference_hashes (env\<lparr>fe_ConfigMap := g\<rparr>) tiers rs c = reference_hashes env tiers rs c"
  by (induction rs arbitrary: c) (simp_all add: assms cong: case_congs)

lemma single_value: "getDataSectionHash env [(k, v)] = fe_AsCode env v"
  by (simp add: getDataSectionHash_def values_in_order_def getSortedKeys_def lookup_default_def)

text \<open>
  The hash of an object takes the values of its annotations and leaves out their keys. When the annotation that makes a ConfigMap a
  template is replaced by the one that makes it a Lua script, with the same value, the hash of the feature stays the
  same, so that nothing is deployed again.
\<close>

theorem renamed_annotation_unnoticed:
  assumes cm: "fe_ConfigMap env name = Inr cm" "cfm_Annotations cm = Some [(fe_TemplateAnnotation env, v)]"
    and renamed: "cm' = cm\<lparr>cfm_Annotations := Some [(fe_LuaAnnotation env, v)]\<rparr>" "fe_LuaAnnotation env \<noteq> fe_TemplateAnnotation env"
    and env': "env' = env\<lparr>fe_ConfigMap := (fe_ConfigMap env)(name := Inr cm')\<rparr>"
    and plain: "ps_Patches (cs_ProfileSpec cs) = []" "ps_PatchesFrom (cs_ProfileSpec cs) = []"
  shows "resourcesHash env' cs = resourcesHash env cs \<and>
    instantiateTemplate env (cfm_Annotations cm) \<and> \<not> instantiateTemplate env' (cfm_Annotations cm') \<and>
    instantiateWithLua env' (cfm_Annotations cm')"
proof -
  let ?g = "(fe_ConfigMap env)(name := Inr cm')"
  have data: "same_data (fe_ConfigMap env n) (?g n)" for n
    by (cases "n = name") (auto simp: same_data_def cm renamed split: sum.splits)
  have text_same: "getConfigMapHash env cm' = getConfigMapHash env cm"
    by (simp add: getConfigMapHash_def annotations_hash_def renamed(1) cm(2) single_value)
  have one: "reference_hash (env\<lparr>fe_ConfigMap := ?g\<rparr>) tiers r = reference_hash env tiers r" for tiers r
  proof (cases "(ref_Namespace r, ref_Name r) = name")
    case True
    then show ?thesis
      using text_same by (simp add: reference_hash_def getConfigMapHash_def cm(1) getSecretHash_def getSource_def get_source_kind_def
          Let_def cong: case_congs)
  next
    case False
    then show ?thesis
      by (simp add: reference_hash_def getConfigMapHash_def getSecretHash_def getSource_def get_source_kind_def Let_def
          cong: case_congs)
  qed
  have "resourcesHash env' cs = resourcesHash env cs"
    using spec_hash_frame [of cs env ?g, OF plain data]
    by (simp add: env' resourcesHash_def getSortedPolicyRefs_def json_hash_def getInstantiatedPolicyRefInfo_def policy_ref_info_frame
        reference_hashes_frame [OF one] checks_hash_frame urlPolicyRefsHash_def url_hashes_frame Let_def cong: case_congs)
  then show ?thesis
    using renamed(2) by (simp add: env' instantiateTemplate_def instantiateWithLua_def annotated_def cm(2) renamed(1))
qed

section \<open>Optional references\<close>

lemma kustomization_hashes_fail:
  "kr \<in> set krs \<Longrightarrow> getHashFromKustomizationRef env cs kr = Inl e \<Longrightarrow> \<exists>e'. kustomization_hashes env cs objs krs c = Inl e'"
  by (induction krs arbitrary: c) (auto split: sum.splits option.splits)

text \<open>
  A KustomizationRef to a ConfigMap that does not exist fails the hash of the feature, so that nothing of the
  feature is deployed, whether or not the reference is optional. The hash of the policies skips such a reference.
\<close>

theorem optional_kustomization_blocks:
  assumes "sorter (he_SortKustomizations env)" and kr: "kr \<in> set (slice (ps_KustomizationRefs (cs_ProfileSpec cs)))"
    and "kr_Optional kr" "kr_RemoteURL kr = None" "kr_Kind kr = rf_ConfigMapKind (fe_Ref env)"
    and "instantiate_ref (fe_Ref env) cs (kr_Namespace kr) (kr_Name kr) = Inr (ns, n)"
    and "fe_ConfigMap env (ns, n) = Inl ApiNotFound"
  shows "(\<exists>e. kustomizationHash env cs = Inl e) \<and>
    reference_hash env tiers \<lparr>ref_Kind = kr_Kind kr, ref_Namespace = ns, ref_Name = n, ref_APIVersion = []\<rparr> = Inr None"
proof
  have "getHashFromKustomizationRef env cs kr = Inl (api_err ApiNotFound)"
    using assms by (simp add: getHashFromKustomizationRef_def getConfigMap_def)
  moreover have "kr \<in> set (getSortedKustomizationRefs env (slice (ps_KustomizationRefs (cs_ProfileSpec cs))))"
    using kr sorter.sorted_items [OF assms(1)] by (simp add: getSortedKustomizationRefs_def)
  ultimately have failing: "\<exists>e. kustomization_hashes env cs objs (getSortedKustomizationRefs env
      (slice (ps_KustomizationRefs (cs_ProfileSpec cs)))) c = Inl e" for objs c
    by (rule kustomization_hashes_fail [rotated])
  then show "\<exists>e. kustomizationHash env cs = Inl e"
    by (auto simp: kustomizationHash_def Let_def split: sum.splits) (metis failing sum.distinct(1))
next
  show "reference_hash env tiers \<lparr>ref_Kind = kr_Kind kr, ref_Namespace = ns, ref_Name = n, ref_APIVersion = []\<rparr> = Inr None"
    using assms(5,7) by (simp add: reference_hash_def api_err_def errors_As_def)
qed

section \<open>Samples\<close>

definition sample_hash_env :: hash_env where
  "sample_hash_env = url_env.extend sample_url_env
     (hash_env.fields id id sort_key sort_key sort_key sort_key sort_key sort_key sort_key sort_key
        (\<lambda>s. Inr (concat (ps_DependsOn s))) (\<lambda>c. Inr (hc_ReleaseName c)) (\<lambda>rs. Inr (concat (map pr_Name rs)))
        (\<lambda>rs. Inr (concat (map kr_Name rs))) (\<lambda>h. Inr (vh_Name h)) (\<lambda>ps. Inr (concat (map pt_Patch ps))) (\<lambda>_. Inr [])
        (\<lambda>_. Inr []) (\<lambda>_. Inr []) (\<lambda>_. Inr []) False)"

lemma sample_hash_sorts: "he_SortCharts sample_hash_env = sort_key" "he_SortPolicies sample_hash_env = sort_key"
    "he_SortKustomizations sample_hash_env = sort_key" "he_SortTemplateRefs sample_hash_env = sort_key"
    "he_SortChecks sample_hash_env = sort_key" "he_SortPatches sample_hash_env = sort_key" "he_SortValueFroms sample_hash_env = sort_key"
  by (simp_all add: sample_hash_env_def hash_env.defs url_env.defs)

definition sample_policy :: "string \<Rightarrow> policy_ref" where
  "sample_policy n = \<lparr>pr_Namespace = ''default'', pr_Name = n, pr_Kind = ''ConfigMap'', pr_Path = [], pr_DeploymentType = DeploymentTypeRemote,
     pr_Optional = True, pr_Tier = 100, pr_SkipNamespaceCreation = False, pr_Force = False, pr_RemoteURL = None\<rparr>"

theorem spec_hash_order_free_witness:
  "getProfileSpecHash sample_hash_env (zero_profile_spec\<lparr>ps_PolicyRefs := Some [sample_policy ''a'', sample_policy ''b''], ps_DependsOn := [''x'', ''y'']\<rparr>) =
   getProfileSpecHash sample_hash_env (zero_profile_spec\<lparr>ps_PolicyRefs := Some [sample_policy ''b'', sample_policy ''a''], ps_DependsOn := [''y'', ''x'']\<rparr>)"
proof -
  let ?s = "zero_profile_spec\<lparr>ps_PolicyRefs := Some [sample_policy ''a'', sample_policy ''b''], ps_DependsOn := [''x'', ''y'']\<rparr>"
  let ?t = "zero_profile_spec\<lparr>ps_PolicyRefs := Some [sample_policy ''b'', sample_policy ''a''], ps_DependsOn := [''y'', ''x'']\<rparr>"
  have "sorts_ok sample_hash_env" by (simp add: sorts_ok_def sample_hash_sorts stable_sort.sorter_axioms)
  moreover have "same_items ?s ?t" by (simp add: same_items_def without_lists_def add_mset_commute)
  moreover have "unambiguous ?s" unfolding unambiguous_def by code_simp
  ultimately show ?thesis by (rule spec_hash_order_free)
qed

definition sample_config_map :: config_map where
  "sample_config_map = \<lparr>cfm_Name = ''cm'', cfm_Annotations = Some [(''projectsveltos.io/template'', ''ok'')],
     cfm_Data = [(''policy.yaml'', ''kind: Namespace'')], cfm_BinaryData = []\<rparr>"

definition sample_template_env :: hash_env where
  "sample_template_env = sample_hash_env\<lparr>fe_ConfigMap := (\<lambda>_. Inl ApiNotFound)((''default'', ''cm'') := Inr sample_config_map)\<rparr>"

definition sample_script_env :: hash_env where
  "sample_script_env = sample_template_env\<lparr>fe_ConfigMap := (fe_ConfigMap sample_template_env)((''default'', ''cm'') :=
     Inr (sample_config_map\<lparr>cfm_Annotations := Some [(''projectsveltos.io/lua'', ''ok'')]\<rparr>))\<rparr>"

definition sample_with_spec :: "(profile_spec \<Rightarrow> profile_spec) \<Rightarrow> cluster_summary" where
  "sample_with_spec f = (sample_cs ''cs'' [])\<lparr>cs_Spec := (cs_Spec (sample_cs ''cs'' []))\<lparr>css_ClusterProfileSpec := f zero_profile_spec\<rparr>\<rparr>"

definition sample_policy_cs :: cluster_summary where
  "sample_policy_cs = sample_with_spec (\<lambda>s. s\<lparr>ps_PolicyRefs := Some [sample_policy ''cm'']\<rparr>)"

theorem renamed_annotation_unnoticed_witness:
  "resourcesHash sample_script_env sample_policy_cs = resourcesHash sample_template_env sample_policy_cs"
proof -
  have "fe_ConfigMap sample_template_env (''default'', ''cm'') = Inr sample_config_map"
    by (simp add: sample_template_env_def)
  moreover have "fe_TemplateAnnotation sample_template_env = ''projectsveltos.io/template''"
      "fe_LuaAnnotation sample_template_env = ''projectsveltos.io/lua''"
    by (simp_all add: sample_template_env_def sample_hash_env_def sample_url_env_def sample_refs_env_def hash_env.defs url_env.defs
        refs_env.defs)
  moreover have "ps_Patches (cs_ProfileSpec sample_policy_cs) = []" "ps_PatchesFrom (cs_ProfileSpec sample_policy_cs) = []"
    by (code_simp, code_simp)
  ultimately show ?thesis
    using renamed_annotation_unnoticed [of sample_template_env "(''default'', ''cm'')" sample_config_map "''ok''" _ sample_script_env
        sample_policy_cs]
    by (simp add: sample_script_env_def sample_config_map_def)
qed

definition sample_kustomization :: kustomization_ref where
  "sample_kustomization = \<lparr>kr_Namespace = ''default'', kr_Name = ''gone'', kr_Kind = ''ConfigMap'', kr_Path = [], kr_Components = [],
     kr_Optional = True, kr_TargetNamespace = [], kr_DeploymentType = DeploymentTypeRemote, kr_Values = [], kr_ValuesFrom = [],
     kr_Tier = 100, kr_SkipNamespaceCreation = False, kr_Force = False, kr_RemoteURL = None\<rparr>"

definition sample_kustomize_cs :: cluster_summary where
  "sample_kustomize_cs = sample_with_spec (\<lambda>s. s\<lparr>ps_KustomizationRefs := Some [sample_kustomization]\<rparr>)"

theorem optional_kustomization_blocks_witness:
  "\<exists>e. kustomizationHash sample_hash_env sample_kustomize_cs = Inl e"
proof -
  have "sample_kustomization \<in> set (slice (ps_KustomizationRefs (cs_ProfileSpec sample_kustomize_cs)))"
    by (simp add: sample_kustomize_cs_def sample_with_spec_def)
  moreover have "fe_Ref sample_hash_env = sample_ref_env" "fe_ConfigMap sample_hash_env = (\<lambda>_. Inl ApiNotFound)"
    by (simp_all add: sample_hash_env_def sample_url_env_def sample_refs_env_def hash_env.defs url_env.defs refs_env.defs)
  ultimately show ?thesis
    using optional_kustomization_blocks [of sample_hash_env sample_kustomization sample_kustomize_cs "''default''" "''gone''" "[]"]
    by (simp add: sample_hash_sorts stable_sort.sorter_axioms sample_kustomization_def sample_ref_env_def instantiate_ref_def)
qed

end
