(* ===== verification/Drift_Collection.thy ===== *)
theory Drift_Collection
  imports Cluster_Configuration Reconcile_Maps
begin

text \<open>
  Collection of configuration drifts (controllers/resourcesummary_collection.go): drift detection reports in a ResourceSummary that resources
  of a ClusterSummary have changed; the controller records it in the status of the ClusterSummary, so that the feature is
  deployed again, and clears the ResourceSummary.

  ResourceSummaries are in the management cluster or in the managed clusters: \<open>dw_Resources\<close> gives the list of each place. An update
  of a ResourceSummary carries its resource version and fails with a conflict when the stored one has another. \<open>drift_env\<close> holds the
  answers of the API server, of the cluster proxy and of the caches of clients, and the constants of libsveltos. The clusters a
  worker pool shares out are visited one after the other.
\<close>

section \<open>ResourceSummaries\<close>

record helm_chart_ref =
  hcr_ReleaseNamespace :: string
  hcr_ReleaseName :: string

record drifted_resource =
  dfr_FeatureID :: feature_id
  dfr_Group :: string
  dfr_Kind :: string
  dfr_Namespace :: string
  dfr_Name :: string
  dfr_HelmChartRef :: "helm_chart_ref option"
  dfr_DetectedTime :: time

record resource_summary =
  rs_Meta :: object_meta
  rs_ResourceVersion :: nat
  rs_ResourcesChanged :: bool
  rs_HelmResourcesChanged :: bool
  rs_KustomizeResourcesChanged :: bool
  rs_DriftedHelmCharts :: "helm_chart_ref list"
  rs_DriftedResources :: "drifted_resource list"
  rs_DriftedResourcesTruncated :: bool

type_synonym place = "object_reference option"

record drift_world =
  dw_Summaries :: "cluster_summary list"
  dw_Resources :: "place \<Rightarrow> resource_summary list"
  dw_Tracked :: "(request \<times> feature_id) list"
  dw_Installed :: "object_reference list"

record drift_env =
  de_Get :: "nat \<Rightarrow> request \<Rightarrow> dep_error option"
  de_StatusUpdate :: "nat \<Rightarrow> request \<Rightarrow> dep_error option"
  de_ResetRS :: "string \<times> string \<Rightarrow> dep_error option"
  de_ListRS :: "place \<Rightarrow> dep_error option"
  de_MaxDriftedResources :: nat
  de_Now :: time
  de_NameAnnotation :: string
  de_NamespaceAnnotation :: string
  de_NameLabel :: string
  de_NamespaceLabel :: string
  de_ClusterNameLabel :: string
  de_ClusterTypeLabel :: string
  de_IsPullMode :: "string \<Rightarrow> string \<Rightarrow> cluster_type \<Rightarrow> dep_error + bool"
  de_GetClusterType :: "object_reference \<Rightarrow> cluster_type"
  de_IsReady :: "object_reference \<Rightarrow> dep_error + bool"
  de_IsPaused :: "string \<Rightarrow> string \<Rightarrow> cluster_type \<Rightarrow> dep_error + bool"
  de_Agentless :: bool
  de_Client :: "object_reference \<Rightarrow> dep_error + bool"
  de_CRD :: "object_reference \<Rightarrow> api_error option"
  de_Compatible :: "object_reference \<Rightarrow> bool"
  de_ClusterProfiles :: "dep_error + profile list"
  de_Profiles :: "dep_error + profile list"
  de_Clusters :: "dep_error + object_reference list"

text \<open>\<open>de_Client\<close> is the client the cache has for a managed cluster: \<open>False\<close> stands for none, which is how a cluster in pull mode is
  told. \<open>de_CRD\<close> is the error of reading the definition of ResourceSummaries there.\<close>

definition rs_key :: "resource_summary \<Rightarrow> string \<times> string" where
  "rs_key rs = (om_Namespace (rs_Meta rs), om_Name (rs_Meta rs))"

definition annotation_or_label :: "string \<Rightarrow> string \<Rightarrow> resource_summary \<Rightarrow> string option" where
  "annotation_or_label annotation label rs =
     (case map_of (om_Annotations (rs_Meta rs)) annotation of
        Some v \<Rightarrow> Some v
      | None \<Rightarrow> map_of (om_Labels (rs_Meta rs)) label)"

definition getClusterSummaryNameFromResourceSummary :: "drift_env \<Rightarrow> resource_summary \<Rightarrow> string option" where
  "getClusterSummaryNameFromResourceSummary env rs = annotation_or_label (de_NameAnnotation env) (de_NameLabel env) rs"

definition getClusterSummaryNamespaceFromResourceSummary :: "drift_env \<Rightarrow> resource_summary \<Rightarrow> string option" where
  "getClusterSummaryNamespaceFromResourceSummary env rs = annotation_or_label (de_NamespaceAnnotation env) (de_NamespaceLabel env) rs"

definition has_drift :: "resource_summary \<Rightarrow> bool" where
  "has_drift rs \<longleftrightarrow> rs_ResourcesChanged rs \<or> rs_HelmResourcesChanged rs \<or> rs_KustomizeResourcesChanged rs"

section \<open>The history of drifts\<close>

definition containsDriftedResource :: "drifted_resource_ref list \<Rightarrow> drifted_resource_ref \<Rightarrow> bool" where
  "containsDriftedResource resources r =
     list_ex (\<lambda>x. dr_Group x = dr_Group r \<and> dr_Kind x = dr_Kind r \<and> dr_Namespace x = dr_Namespace r \<and> dr_Name x = dr_Name r \<and>
       dr_HelmReleaseNamespace x = dr_HelmReleaseNamespace r \<and> dr_HelmReleaseName x = dr_HelmReleaseName r) resources"

text \<open>The stable sort that puts the latest first.\<close>

definition latest_first :: "drifted_resource_ref list \<Rightarrow> drifted_resource_ref list" where
  "latest_first xs = sort_key (\<lambda>x. - dr_DetectedTime x) xs"

definition mergeDriftedResources :: "drift_env \<Rightarrow> drifted_resource_ref list \<Rightarrow> drifted_resource_ref list \<Rightarrow> drifted_resource_ref list" where
  "mergeDriftedResources env reported previous =
     take (de_MaxDriftedResources env) (latest_first (reported @ filter (\<lambda>p. \<not> containsDriftedResource reported p) previous))"

definition drifted_ref :: "drifted_resource \<Rightarrow> drifted_resource_ref" where
  "drifted_ref d = \<lparr>dr_Group = dfr_Group d, dr_Kind = dfr_Kind d, dr_Namespace = dfr_Namespace d, dr_Name = dfr_Name d,
     dr_HelmReleaseNamespace = (case dfr_HelmChartRef d of None \<Rightarrow> [] | Some c \<Rightarrow> hcr_ReleaseNamespace c),
     dr_HelmReleaseName = (case dfr_HelmChartRef d of None \<Rightarrow> [] | Some c \<Rightarrow> hcr_ReleaseName c),
     dr_DetectedTime = dfr_DetectedTime d\<rparr>"

definition getReportedDriftedResources :: "resource_summary \<Rightarrow> feature_id \<Rightarrow> drifted_resource_ref list" where
  "getReportedDriftedResources rs featureID =
     map drifted_ref (filter (\<lambda>d. dfr_FeatureID d = featureID) (rs_DriftedResources rs))"

definition getLastDetectedTime :: "drift_env \<Rightarrow> drifted_resource_ref list \<Rightarrow> time" where
  "getLastDetectedTime env reported =
     (case reported of
        [] \<Rightarrow> de_Now env
      | r # _ \<Rightarrow> foldl (\<lambda>last x. if last < dr_DetectedTime x then dr_DetectedTime x else last) (dr_DetectedTime r) reported)"

definition newDriftHistory :: "drift_env \<Rightarrow> drift_history option \<Rightarrow> resource_summary \<Rightarrow> feature_id \<Rightarrow> drift_history" where
  "newDriftHistory env history rs featureID =
     (let previous = (case history of None \<Rightarrow> [] | Some h \<Rightarrow> dh_Resources h);
          reported = getReportedDriftedResources rs featureID
      in \<lparr>dh_LastDetectedTime = getLastDetectedTime env reported, dh_Resources = mergeDriftedResources env reported previous,
          dh_Truncated = rs_DriftedResourcesTruncated rs\<rparr>)"

section \<open>Charts to redeploy\<close>

definition chart_drifted :: "helm_chart_ref list \<Rightarrow> helm_chart_summary \<Rightarrow> bool" where
  "chart_drifted driftedCharts s =
     list_ex (\<lambda>c. hs_ReleaseName s = hcr_ReleaseName c \<and> hs_ReleaseNamespace s = hcr_ReleaseNamespace c) driftedCharts"

definition mark_charts :: "(helm_chart_summary \<Rightarrow> bool) \<Rightarrow> cluster_summary_status \<Rightarrow> cluster_summary_status" where
  "mark_charts sel st = st\<lparr>cst_HelmReleaseSummaries :=
     map (\<lambda>s. if sel s then s\<lparr>hs_NeedsRedeploy := True\<rparr> else s) (cst_HelmReleaseSummaries st)\<rparr>"

definition markAllHelmChartsForRedeploy :: "cluster_summary_status \<Rightarrow> cluster_summary_status" where
  "markAllHelmChartsForRedeploy st = mark_charts (\<lambda>_. True) st"

definition markDriftedHelmCharts :: "helm_chart_ref list \<Rightarrow> cluster_summary_status \<Rightarrow> cluster_summary_status" where
  "markDriftedHelmCharts driftedCharts st =
     (if driftedCharts = [] then markAllHelmChartsForRedeploy st
      else if list_ex (chart_drifted driftedCharts) (cst_HelmReleaseSummaries st) then mark_charts (chart_drifted driftedCharts) st
      else markAllHelmChartsForRedeploy st)"

section \<open>Processing a ResourceSummary\<close>

definition feature_drifted :: "resource_summary \<Rightarrow> feature_id \<Rightarrow> bool" where
  "feature_drifted rs f =
     (case f of FeatureHelm \<Rightarrow> rs_HelmResourcesChanged rs | FeatureResources \<Rightarrow> rs_ResourcesChanged rs
      | FeatureKustomize \<Rightarrow> rs_KustomizeResourcesChanged rs)"

definition drifted_summary :: "drift_env \<Rightarrow> resource_summary \<Rightarrow> feature_summary \<Rightarrow> feature_summary" where
  "drifted_summary env rs fs =
     (if feature_drifted rs (fs_FeatureID fs) then
        fs\<lparr>fs_Hash := None, fs_Status := Some FeatureStatusProvisioning,
           fs_DriftHistory := Some (newDriftHistory env (fs_DriftHistory fs) rs (fs_FeatureID fs))\<rparr>
      else fs)"

definition drifted_features :: "resource_summary \<Rightarrow> cluster_summary \<Rightarrow> feature_id list" where
  "drifted_features rs cs = filter (feature_drifted rs) (map fs_FeatureID (cst_FeatureSummaries (cs_Status cs)))"

definition with_drift :: "drift_env \<Rightarrow> resource_summary \<Rightarrow> cluster_summary \<Rightarrow> cluster_summary" where
  "with_drift env rs cs =
     (let st = cs_Status cs;
          st1 = (if FeatureHelm \<in> set (drifted_features rs cs) then markDriftedHelmCharts (rs_DriftedHelmCharts rs) st else st)
      in cs\<lparr>cs_Status := st1\<lparr>cst_FeatureSummaries := map (drifted_summary env rs) (cst_FeatureSummaries st)\<rparr>\<rparr>)"

definition find_summary :: "drift_world \<Rightarrow> request \<Rightarrow> cluster_summary option" where
  "find_summary w req = List.find (\<lambda>cs. request_of cs = req) (dw_Summaries w)"

definition store_summary :: "cluster_summary \<Rightarrow> drift_world \<Rightarrow> drift_world" where
  "store_summary cs w = w\<lparr>dw_Summaries :=
     map (\<lambda>x. if request_of x = request_of cs then x\<lparr>cs_Status := cs_Status cs\<rparr> else x) (dw_Summaries w)\<rparr>"

text \<open>One attempt: the error, and the ClusterSummary that was updated with its drifted features.\<close>

type_synonym drift_update = "(cluster_summary \<times> feature_id list) option"

definition drift_attempt :: "drift_env \<Rightarrow> resource_summary \<Rightarrow> request \<Rightarrow> nat \<Rightarrow> drift_update \<times> drift_world \<Rightarrow>
    dep_error option \<times> drift_update \<times> drift_world" where
  "drift_attempt env rs req attempt s =
     (let w = snd s in
      case de_Get env attempt req of
        Some e \<Rightarrow> if errors_As e NotFoundError then (None, None, w) else (Some e, None, w)
      | None \<Rightarrow>
          (case find_summary w req of
             None \<Rightarrow> (None, None, w)
           | Some cs \<Rightarrow>
               if om_DeletionTimestamp (cs_Meta cs) \<noteq> None then (None, None, w)
               else case de_StatusUpdate env attempt req of
                 Some e \<Rightarrow> (Some e, None, w)
               | None \<Rightarrow> (None, Some (with_drift env rs cs, drifted_features rs cs), store_summary (with_drift env rs cs) w)))"

definition trackDriftedFeatures :: "drift_update \<Rightarrow> drift_world \<Rightarrow> drift_world" where
  "trackDriftedFeatures updated w =
     (case updated of
        None \<Rightarrow> w
      | Some (cs, features) \<Rightarrow> w\<lparr>dw_Tracked := dw_Tracked w @ map (\<lambda>f. (request_of cs, f)) features\<rparr>)"

definition cleared :: "resource_summary \<Rightarrow> resource_summary" where
  "cleared rs = rs\<lparr>rs_ResourcesChanged := False, rs_KustomizeResourcesChanged := False, rs_HelmResourcesChanged := False,
     rs_DriftedHelmCharts := [], rs_DriftedResources := [], rs_DriftedResourcesTruncated := False\<rparr>"

definition conflict_error :: dep_error where
  "conflict_error = \<lparr>err_Msg = ''the object has been modified'', err_Chain = [ConflictError]\<rparr>"

text \<open>\<open>c.Status().Update\<close> on a ResourceSummary in one place.\<close>

definition update_rs :: "drift_env \<Rightarrow> place \<Rightarrow> resource_summary \<Rightarrow> drift_world \<Rightarrow> dep_error option \<times> drift_world" where
  "update_rs env p rs w =
     (case de_ResetRS env (rs_key rs) of
        Some e \<Rightarrow> (Some e, w)
      | None \<Rightarrow>
          (case List.find (\<lambda>x. rs_key x = rs_key rs) (dw_Resources w p) of
             None \<Rightarrow> (Some \<lparr>err_Msg = ''not found'', err_Chain = [NotFoundError]\<rparr>, w)
           | Some x \<Rightarrow>
               if rs_ResourceVersion x \<noteq> rs_ResourceVersion rs then (Some conflict_error, w)
               else (None, w\<lparr>dw_Resources := (dw_Resources w)(p := map (\<lambda>x. if rs_key x = rs_key rs
                   then rs\<lparr>rs_Meta := rs_Meta x, rs_ResourceVersion := Suc (rs_ResourceVersion x)\<rparr> else x) (dw_Resources w p))\<rparr>)))"

definition resetResourceSummaryStatus :: "drift_env \<Rightarrow> place \<Rightarrow> resource_summary \<Rightarrow> drift_world \<Rightarrow> dep_error option \<times> drift_world" where
  "resetResourceSummaryStatus env p rs w =
     (case update_rs env p (cleared rs) w of
        (Some e, w') \<Rightarrow> if errors_As e NotFoundError then (None, w') else (Some e, w')
      | (None, w') \<Rightarrow> (None, w'))"

definition rs_request :: "drift_env \<Rightarrow> resource_summary \<Rightarrow> request option" where
  "rs_request env rs =
     (case getClusterSummaryNameFromResourceSummary env rs of
        None \<Rightarrow> None
      | Some name \<Rightarrow> map_option (\<lambda>ns. (ns, name)) (getClusterSummaryNamespaceFromResourceSummary env rs))"

definition processResourceSummary :: "drift_env \<Rightarrow> place \<Rightarrow> resource_summary \<Rightarrow> drift_world \<Rightarrow> dep_error option \<times> drift_world" where
  "processResourceSummary env p rs w =
     (case rs_request env rs of
        None \<Rightarrow> (None, w)
      | Some req \<Rightarrow>
          (case RetryOnConflict (drift_attempt env rs req) (None, w) of
             (Some e, updated, w') \<Rightarrow> (Some e, w')
           | (None, updated, w') \<Rightarrow> resetResourceSummaryStatus env p rs (trackDriftedFeatures updated w')))"

section \<open>Clusters\<close>

record cluster_key =
  ck_ns :: string
  ck_name :: string
  ck_clusterType :: string

text \<open>The type of a cluster in lower case, as the labels have it.\<close>

definition type_label :: "cluster_type \<Rightarrow> string" where
  "type_label t = (case t of ClusterTypeCapi \<Rightarrow> ''capi'' | ClusterTypeSveltos \<Rightarrow> ''sveltos'')"

definition getClusterKeyOfPullModeCluster :: "drift_env \<Rightarrow> drift_world \<Rightarrow> resource_summary \<Rightarrow> cluster_key option" where
  "getClusterKeyOfPullModeCluster env w rs =
     (case rs_request env rs of
        None \<Rightarrow> None
      | Some req \<Rightarrow>
          (case de_Get env 0 req of
             Some _ \<Rightarrow> None
           | None \<Rightarrow>
               (case find_summary w req of
                  None \<Rightarrow> None
                | Some cs \<Rightarrow>
                    (case de_IsPullMode env (css_ClusterNamespace (cs_Spec cs)) (css_ClusterName (cs_Spec cs))
                            (css_ClusterType (cs_Spec cs)) of
                       Inr True \<Rightarrow> Some \<lparr>ck_ns = css_ClusterNamespace (cs_Spec cs), ck_name = css_ClusterName (cs_Spec cs),
                         ck_clusterType = type_label (css_ClusterType (cs_Spec cs))\<rparr>
                     | _ \<Rightarrow> None))))"

definition getClusterKeyForResourceSummary :: "drift_env \<Rightarrow> drift_world \<Rightarrow> resource_summary \<Rightarrow> cluster_key option" where
  "getClusterKeyForResourceSummary env w rs =
     (let clusterName = lookup_default [] (om_Labels (rs_Meta rs)) (de_ClusterNameLabel env);
          clusterType = lookup_default [] (om_Labels (rs_Meta rs)) (de_ClusterTypeLabel env)
      in if clusterName \<noteq> [] \<and> clusterType \<noteq> [] then
           map_option (\<lambda>ns. \<lparr>ck_ns = ns, ck_name = clusterName, ck_clusterType = clusterType\<rparr>)
             (getClusterSummaryNamespaceFromResourceSummary env rs)
         else getClusterKeyOfPullModeCluster env w rs)"

definition skipCollecting :: "drift_env \<Rightarrow> object_reference \<Rightarrow> dep_error option \<times> bool" where
  "skipCollecting env cluster =
     (case de_IsReady env cluster of
        Inl e \<Rightarrow> (Some e, True)
      | Inr ready \<Rightarrow>
          if \<not> ready then (None, True)
          else case de_IsPaused env (ref_Namespace cluster) (ref_Name cluster) (de_GetClusterType env cluster) of
            Inl e \<Rightarrow> (Some e, True)
          | Inr paused \<Rightarrow> (None, paused))"

section \<open>Collection from the management cluster\<close>

definition local_clusters :: "drift_env \<Rightarrow> object_reference list \<Rightarrow> object_reference list \<Rightarrow> (cluster_key \<times> object_reference) list" where
  "local_clusters env clusterList clustersWithDD =
     foldl (\<lambda>m ref. AList.update \<lparr>ck_ns = ref_Namespace ref, ck_name = ref_Name ref,
         ck_clusterType = type_label (de_GetClusterType env ref)\<rparr> ref m) []
       (filter (\<lambda>ref. ref \<in> set clustersWithDD) clusterList)"

definition changed_by_cluster :: "drift_env \<Rightarrow> drift_world \<Rightarrow> (cluster_key \<times> object_reference) list \<Rightarrow> resource_summary list \<Rightarrow>
    (cluster_key \<times> resource_summary list) list" where
  "changed_by_cluster env w local rss =
     foldl (\<lambda>m rs.
         if om_DeletionTimestamp (rs_Meta rs) \<noteq> None \<or> \<not> has_drift rs then m
         else case getClusterKeyForResourceSummary env w rs of
           None \<Rightarrow> m
         | Some key \<Rightarrow> if map_of local key = None then m else AList.update key (lookup_default [] m key @ [rs]) m) [] rss"

text \<open>Errors are logged and the loop goes on.\<close>

fun process_each :: "drift_env \<Rightarrow> place \<Rightarrow> resource_summary list \<Rightarrow> drift_world \<Rightarrow> drift_world" where
  "process_each env p [] w = w"
| "process_each env p (rs # rss) w = process_each env p rss (snd (processResourceSummary env p rs w))"

fun process_changed :: "drift_env \<Rightarrow> (cluster_key \<times> object_reference) list \<Rightarrow> (cluster_key \<times> resource_summary list) list \<Rightarrow>
    drift_world \<Rightarrow> drift_world" where
  "process_changed env local [] w = w"
| "process_changed env local ((key, changed) # rest) w =
     (case map_of local key of
        None \<Rightarrow> process_changed env local rest w
      | Some ref \<Rightarrow>
          (case skipCollecting env ref of
             (None, False) \<Rightarrow> process_changed env local rest (process_each env None changed w)
           | _ \<Rightarrow> process_changed env local rest w))"

definition collectAndProcessAllResourceSummaries :: "drift_env \<Rightarrow> object_reference list \<Rightarrow> object_reference list \<Rightarrow> drift_world \<Rightarrow>
    dep_error option \<times> drift_world" where
  "collectAndProcessAllResourceSummaries env clusterList clustersWithDD w =
     (case de_ListRS env None of
        Some e \<Rightarrow> (Some e, w)
      | None \<Rightarrow>
          let local = local_clusters env clusterList clustersWithDD
          in (None, process_changed env local (changed_by_cluster env w local (dw_Resources w None)) w))"

section \<open>Collection from one cluster\<close>

definition isResourceSummaryInstalled :: "drift_env \<Rightarrow> object_reference \<Rightarrow> dep_error + bool" where
  "isResourceSummaryInstalled env cluster =
     (case de_CRD env cluster of
        None \<Rightarrow> Inr True
      | Some ApiNotFound \<Rightarrow> Inr False
      | Some (ApiError msg) \<Rightarrow> Inl (plain_error msg))"

definition isResourceSummaryInstalledCached :: "drift_env \<Rightarrow> object_reference \<Rightarrow> drift_world \<Rightarrow> (dep_error + bool) \<times> drift_world" where
  "isResourceSummaryInstalledCached env cluster w =
     (if cluster \<in> set (dw_Installed w) then (Inr True, w)
      else case isResourceSummaryInstalled env cluster of
        Inl e \<Rightarrow> (Inl e, w)
      | Inr installed \<Rightarrow> (Inr installed, if installed then w\<lparr>dw_Installed := cluster # dw_Installed w\<rparr> else w))"

text \<open>The client of the place the ResourceSummaries are in; \<open>None\<close> for a cluster in pull mode.\<close>

definition getResourceSummaryClient :: "drift_env \<Rightarrow> object_reference \<Rightarrow> dep_error + place option" where
  "getResourceSummaryClient env cluster =
     (if de_Agentless env then Inr (Some None)
      else case de_Client env cluster of
        Inl e \<Rightarrow> Inl e
      | Inr reachable \<Rightarrow> Inr (if reachable then Some (Some cluster) else None))"

text \<open>The place to list from once the checks have passed, or an error, or nothing to do.\<close>

definition collection_place :: "drift_env \<Rightarrow> object_reference \<Rightarrow> drift_world \<Rightarrow> (dep_error + place option) \<times> drift_world" where
  "collection_place env cluster w =
     (case getResourceSummaryClient env cluster of
        Inl e \<Rightarrow> (Inl e, w)
      | Inr None \<Rightarrow> (Inr (Some None), w)
      | Inr (Some p) \<Rightarrow>
          (case isResourceSummaryInstalledCached env cluster w of
             (Inl e, w') \<Rightarrow> (Inl e, w')
           | (Inr False, w') \<Rightarrow> (Inr None, w')
           | (Inr True, w') \<Rightarrow>
               if de_Compatible env cluster then (Inr (Some p), w')
               else (Inl (plain_error ''compatibility checks failed''), w')))"

text \<open>The client is set by then, so that only the agentless mode restricts the list to the cluster.\<close>

definition listed_summaries :: "drift_env \<Rightarrow> object_reference \<Rightarrow> place \<Rightarrow> drift_world \<Rightarrow> resource_summary list" where
  "listed_summaries env cluster p w =
     (if de_Agentless env then
        filter (\<lambda>rs. map_of (om_Labels (rs_Meta rs)) (de_ClusterNameLabel env) = Some (ref_Name cluster) \<and>
          om_Namespace (rs_Meta rs) = ref_Namespace cluster) (dw_Resources w p)
      else dw_Resources w p)"

fun process_listed :: "drift_env \<Rightarrow> object_reference \<Rightarrow> place \<Rightarrow> resource_summary list \<Rightarrow> drift_world \<Rightarrow>
    dep_error option \<times> drift_world" where
  "process_listed env cluster p [] w = (None, w)"
| "process_listed env cluster p (rs # rss) w =
     (if getClusterSummaryNamespaceFromResourceSummary env rs \<noteq> Some (ref_Namespace cluster) \<or>
         om_DeletionTimestamp (rs_Meta rs) \<noteq> None \<or> \<not> has_drift rs
      then process_listed env cluster p rss w
      else case processResourceSummary env p rs w of
        (Some e, w') \<Rightarrow> (Some e, w')
      | (None, w') \<Rightarrow> process_listed env cluster p rss w')"

definition collectResourceSummariesFromCluster :: "drift_env \<Rightarrow> object_reference \<Rightarrow> drift_world \<Rightarrow> dep_error option \<times> drift_world" where
  "collectResourceSummariesFromCluster env cluster w =
     (case skipCollecting env cluster of
        (Some e, _) \<Rightarrow> (Some e, w)
      | (None, True) \<Rightarrow> (None, w)
      | (None, False) \<Rightarrow>
          (case collection_place env cluster w of
             (Inl e, w') \<Rightarrow> (Some e, w')
           | (Inr None, w') \<Rightarrow> (None, w')
           | (Inr (Some p), w') \<Rightarrow>
               (case de_ListRS env p of
                  Some e \<Rightarrow> (Some e, w')
                | None \<Rightarrow> process_listed env cluster p (listed_summaries env cluster p w') w')))"

fun processShardLocalDDClusters :: "drift_env \<Rightarrow> object_reference list \<Rightarrow> drift_world \<Rightarrow> drift_world" where
  "processShardLocalDDClusters env [] w = w"
| "processShardLocalDDClusters env (cluster # clusters) w =
     processShardLocalDDClusters env clusters (snd (collectResourceSummariesFromCluster env cluster w))"

section \<open>One round\<close>

definition addMatchingClusters :: "object_reference list \<Rightarrow> object_reference list \<Rightarrow> object_reference list" where
  "addMatchingClusters refs clusters = foldl (\<lambda>m ref. List.insert ref m) clusters refs"

definition add_profiles :: "profile list \<Rightarrow> object_reference list \<Rightarrow> object_reference list" where
  "add_profiles ps clusters =
     foldl (\<lambda>m p. if ps_SyncMode (prof_Spec p) \<noteq> SyncModeContinuousWithDriftDetection then m
         else addMatchingClusters (pst_MatchingClusterRefs (prof_Status p)) m) clusters ps"

definition getListOfClusterWithDriftDetectionDeployed :: "drift_env \<Rightarrow> dep_error + object_reference list" where
  "getListOfClusterWithDriftDetectionDeployed env =
     (case de_ClusterProfiles env of
        Inl e \<Rightarrow> Inl e
      | Inr clusterProfiles \<Rightarrow>
          (case de_Profiles env of
             Inl e \<Rightarrow> Inl e
           | Inr profiles \<Rightarrow> Inr (add_profiles profiles (add_profiles clusterProfiles []))))"

definition collectAndProcessResourceSummaries :: "drift_env \<Rightarrow> drift_world \<Rightarrow> drift_world" where
  "collectAndProcessResourceSummaries env w =
     (case de_Clusters env of
        Inl _ \<Rightarrow> w
      | Inr clusterList \<Rightarrow>
          (case getListOfClusterWithDriftDetectionDeployed env of
             Inl _ \<Rightarrow> w
           | Inr clustersWithDD \<Rightarrow>
               if de_Agentless env then snd (collectAndProcessAllResourceSummaries env clusterList clustersWithDD w)
               else processShardLocalDDClusters env (filter (\<lambda>c. c \<in> set clustersWithDD) clusterList) w))"

end
