(* ===== verification/Drift_Runs.thy ===== *)
theory Drift_Runs
  imports Drift_Collection
begin

text \<open>
  Theorems on the collection of drifts: the history is the same when a ResourceSummary is processed twice, a drift is recorded before it
  is cleared, and in pull mode the pause of a cluster does not keep its drifts from being processed.
\<close>

section \<open>Histories\<close>

lemma contains_self: "r \<in> set rs \<Longrightarrow> containsDriftedResource rs r"
  by (auto simp: containsDriftedResource_def list_ex_iff)

lemma split_by_test:
  assumes "u @ v = xs @ ys" "\<forall>x \<in> set xs. \<not> p x" "\<forall>y \<in> set ys. p y"
  shows "u @ filter (\<lambda>x. \<not> p x) v = filter (\<lambda>x. \<not> p x) u @ filter (\<lambda>x. \<not> p x) v @ filter p u"
proof -
  have none: "filter p zs = []" "filter (\<lambda>x. \<not> p x) zs = zs" if "\<forall>z \<in> set zs. \<not> p z" for zs
    using that by (auto simp: filter_empty_conv filter_id_conv)
  have all: "filter p zs = zs" "filter (\<lambda>x. \<not> p x) zs = []" if "\<forall>z \<in> set zs. p z" for zs
    using that by (auto simp: filter_empty_conv filter_id_conv)
  from assms(1) obtain us where "u = xs @ us \<and> us @ v = ys \<or> u @ us = xs \<and> v = us @ ys"
    by (auto simp: append_eq_append_conv2)
  then show ?thesis using assms(2,3) none all by (elim disjE conjE) (auto simp: none all)
qed

text \<open>Stable sorting, cutting and merging once more: the entries that are cut off do not come back.\<close>

lemma merge_again:
  fixes f :: "'a \<Rightarrow> 'k :: linorder"
  assumes "\<forall>x \<in> set rs. \<not> p x"
  shows "take n (sort_key f (rs @ filter p (take n (sort_key f (rs @ filter p ps))))) = take n (sort_key f (rs @ filter p ps))"
proof -
  define s where "s = sort_key f (rs @ filter p ps)"
  define t where "t = take n s"
  define d where "d = drop n s"
  have td: "s = t @ d" by (simp add: t_def d_def)
  have rs: "filter (\<lambda>x. \<not> p x) (rs @ filter p ps) = rs" using assms by (auto simp: filter_id_conv)
  have np: "filter (\<lambda>x. \<not> p x) s = sort_key f rs" by (simp only: s_def filter_sort rs)
  have "sort_key f (rs @ filter p t) = t @ filter (\<lambda>x. \<not> p x) d"
  proof (rule properties_for_sort_key)
    have "mset (sort_key f rs) = mset (filter (\<lambda>x. \<not> p x) t) + mset (filter (\<lambda>x. \<not> p x) d)"
      by (simp only: np [symmetric] td filter_append mset_append)
    then have a: "mset rs = mset (filter (\<lambda>x. \<not> p x) t) + mset (filter (\<lambda>x. \<not> p x) d)" by simp
    have b: "mset t = mset (filter p t) + mset (filter (\<lambda>x. \<not> p x) t)" by (induction t) simp_all
    show "mset (t @ filter (\<lambda>x. \<not> p x) d) = mset (rs @ filter p t)"
      unfolding mset_append a b by (simp only: ac_simps)
    have "sorted (map f s)" by (simp add: s_def)
    then show "sorted (map f (t @ filter (\<lambda>x. \<not> p x) d))"
      by (auto simp: td sorted_append intro: sorted_filter)
  next
    fix k
    let ?k = "\<lambda>x. f k = f x"
    have fs: "filter ?k s = filter ?k rs @ filter ?k (filter p ps)"
      using sort_key_stable [of f "f k" "rs @ filter p ps"] by (simp add: s_def eq_commute)
    then have "filter ?k t @ filter ?k d = filter ?k rs @ filter ?k (filter p ps)" by (simp add: td)
    from split_by_test [OF this] assms
    have "filter ?k t @ filter (\<lambda>x. \<not> p x) (filter ?k d) =
        filter (\<lambda>x. \<not> p x) (filter ?k t) @ filter (\<lambda>x. \<not> p x) (filter ?k d) @ filter p (filter ?k t)" by simp
    moreover have "filter ?k rs = filter (\<lambda>x. \<not> p x) (filter ?k s)"
      using assms by (auto simp: fs filter_empty_conv intro: filter_cong)
    ultimately show "filter ?k (t @ filter (\<lambda>x. \<not> p x) d) = filter ?k (rs @ filter p t)"
      by (simp add: td conj_commute filter_filter cong: conj_cong)
  qed
  then show ?thesis unfolding s_def [symmetric] t_def [symmetric]
    by (cases "n \<le> length s") (simp_all add: t_def d_def)
qed

text \<open>
  Processing the same ResourceSummary a second time leaves the history of a feature as it is, whatever the history held before and
  however many entries are kept.
\<close>

theorem drift_history_idempotent:
  assumes "getReportedDriftedResources rs f \<noteq> []"
  shows "newDriftHistory env (Some (newDriftHistory env h rs f)) rs f = newDriftHistory env h rs f"
proof -
  have "getLastDetectedTime env (getReportedDriftedResources rs f) = getLastDetectedTime env' (getReportedDriftedResources rs f)" for env'
    using assms by (cases "getReportedDriftedResources rs f") (simp_all add: getLastDetectedTime_def)
  then show ?thesis
    by (simp add: newDriftHistory_def Let_def mergeDriftedResources_def latest_first_def merge_again contains_self)
qed

section \<open>Drifts are recorded before they are cleared\<close>

lemma request_with_drift [simp]: "request_of (with_drift env rs cs) = request_of cs"
  by (simp add: with_drift_def request_of_def Let_def)

lemma find_stored: "find_summary w (request_of cs) \<noteq> None \<Longrightarrow>
    find_summary (store_summary cs w) (request_of cs) = map_option (\<lambda>x. x\<lparr>cs_Status := cs_Status cs\<rparr>) (find_summary w (request_of cs))"
proof -
  have "List.find (\<lambda>x. request_of x = q) (map (\<lambda>x. if request_of x = q then g x else x) xs) =
      map_option g (List.find (\<lambda>x. request_of x = q) xs)" if "\<And>x. request_of (g x) = request_of x" for q g xs
    using that by (induction xs) auto
  moreover have "request_of (x\<lparr>cs_Status := cs_Status cs\<rparr>) = request_of x" for x by (simp add: request_of_def)
  ultimately show ?thesis unfolding find_summary_def store_summary_def by simp
qed

text \<open>The attempts do not touch the ResourceSummaries, and fail or update the summary that is stored.\<close>

lemma process_attempts:
  assumes run: "RetryOnConflict (drift_attempt env rs req) (None, w) = (r, u, w')"
  shows "r \<noteq> None \<and> u = None \<and> w' = w \<or>
    r = None \<and> (\<exists>i. drift_attempt env rs req i (None, w) = (None, u, w'))"
proof -
  have fail_keeps: "drift_attempt env rs req i s = (Some e, s') \<Longrightarrow> s' = (None, snd s)" for i s e s'
    by (auto simp: drift_attempt_def Let_def split: option.splits if_splits)
  have first: "drift_attempt env rs req i (q, w) = drift_attempt env rs req i (None, w)" for i q
    by (simp add: drift_attempt_def)
  have "retry_on_conflict (Suc n) i (drift_attempt env rs req) (None, w) = (r, u, w') \<Longrightarrow>
      r \<noteq> None \<and> u = None \<and> w' = w \<or> r = None \<and> (\<exists>j. drift_attempt env rs req j (None, w) = (None, u, w'))" for n i
  proof (induction n arbitrary: i)
    case 0
    then show ?case
      by (cases "drift_attempt env rs req i (None, w)") (auto split: option.splits dest: fail_keeps)
  next
    case (Suc n)
    obtain q v where q: "drift_attempt env rs req i (None, w) = (q, v)" by (metis surj_pair)
    show ?case
    proof (cases q)
      case None
      then show ?thesis using Suc.prems q by auto
    next
      case (Some e)
      then have "v = (None, w)" using fail_keeps q by fastforce
      then show ?thesis using Suc q Some by (auto split: if_splits)
    qed
  qed
  from this [of 4 0] show ?thesis using run by (simp add: RetryOnConflict_def eval_nat_numeral)
qed

lemma update_rs_frame: "update_rs env p rs w = (r, w') \<Longrightarrow> dw_Summaries w' = dw_Summaries w \<and> dw_Tracked w' = dw_Tracked w"
  by (auto simp: update_rs_def split: option.splits if_splits)

lemma reset_frame:
  "resetResourceSummaryStatus env p rs w = (r, w') \<Longrightarrow> dw_Summaries w' = dw_Summaries w \<and> dw_Tracked w' = dw_Tracked w"
  by (auto simp: resetResourceSummaryStatus_def dest!: update_rs_frame split: prod.splits option.splits if_splits)

lemma track_frame [simp]: "dw_Resources (trackDriftedFeatures u w) = dw_Resources w" "dw_Summaries (trackDriftedFeatures u w) = dw_Summaries w"
  by (auto simp: trackDriftedFeatures_def split: option.splits)

text \<open>
  C35. If processing a ResourceSummary changes what is stored of ResourceSummaries, then before that the ClusterSummary it reports on has
  been updated: every drifted feature has no hash and is provisioning again, so that it is deployed.
\<close>

theorem drift_recorded_before_cleared:
  assumes run: "processResourceSummary env p rs w = (r, w')" and changed: "dw_Resources w' \<noteq> dw_Resources w"
    and req: "rs_request env rs = Some req" and cs: "find_summary w req = Some cs" "om_DeletionTimestamp (cs_Meta cs) = None"
    and api: "\<And>i e. de_Get env i req = Some e \<Longrightarrow> \<not> errors_As e NotFoundError"
  shows "find_summary w' req = Some (with_drift env rs cs) \<and>
    (\<forall>fs \<in> set (cst_FeatureSummaries (cs_Status (with_drift env rs cs))).
       feature_drifted rs (fs_FeatureID fs) \<longrightarrow> fs_Hash fs = None \<and> fs_Status fs = Some FeatureStatusProvisioning)"
proof
  obtain q u v where loop: "RetryOnConflict (drift_attempt env rs req) (None, w) = (q, u, v)" by (metis prod_cases3)
  have name: "request_of cs = req" using cs(1) by (auto simp: find_summary_def find_Some_iff)
  have ok: "q = None"
    using run changed req loop process_attempts [OF loop] by (cases q) (auto simp: processResourceSummary_def)
  then obtain i where "drift_attempt env rs req i (None, w) = (None, u, v)" using process_attempts [OF loop] by auto
  then have v: "v = store_summary (with_drift env rs cs) w"
    using cs api by (auto simp: drift_attempt_def Let_def split: option.splits if_splits)
  have "resetResourceSummaryStatus env p rs (trackDriftedFeatures u v) = (r, w')"
    using run req loop ok by (simp add: processResourceSummary_def)
  then have "dw_Summaries w' = dw_Summaries v" using reset_frame by fastforce
  moreover have "cs\<lparr>cs_Status := cs_Status (with_drift env rs cs)\<rparr> = with_drift env rs cs" by (simp add: with_drift_def Let_def)
  ultimately show "find_summary w' req = Some (with_drift env rs cs)"
    using find_stored [of w "with_drift env rs cs"] cs(1) name by (simp add: find_summary_def v)
next
  show "\<forall>fs \<in> set (cst_FeatureSummaries (cs_Status (with_drift env rs cs))).
       feature_drifted rs (fs_FeatureID fs) \<longrightarrow> fs_Hash fs = None \<and> fs_Status fs = Some FeatureStatusProvisioning"
    by (auto simp: with_drift_def Let_def drifted_summary_def)
qed

text \<open>A report that arrives while the ResourceSummary is processed is not cleared with it: the update fails and the collection is
  repeated with the new one.\<close>

lemma newer_report_kept:
  assumes "List.find (\<lambda>x. rs_key x = rs_key rs) (dw_Resources w p) = Some x" "rs_ResourceVersion x \<noteq> rs_ResourceVersion rs"
  shows "\<exists>e. resetResourceSummaryStatus env p rs w = (Some e, w) \<or> resetResourceSummaryStatus env p rs w = (None, w)"
proof -
  have "rs_key (cleared rs) = rs_key rs" "rs_ResourceVersion (cleared rs) = rs_ResourceVersion rs"
    by (simp_all add: cleared_def rs_key_def)
  then show ?thesis using assms
    by (auto simp: resetResourceSummaryStatus_def update_rs_def split: option.splits)
qed

section \<open>Pull mode\<close>

text \<open>
  In pull mode the collection for one cluster lists the ResourceSummaries of all clusters, and leaves out only those of other
  namespaces. The drift of a paused cluster is processed, and its add-ons are deployed again, when another cluster of the
  namespace is collected.
\<close>

theorem paused_cluster_drift_processed:
  assumes mode: "\<not> de_Agentless env" "de_Client env a = Inr False" "de_ListRS env None = None"
    and a: "skipCollecting env a = (None, False)" and b: "skipCollecting env b = (None, True)"
    and listed: "dw_Resources w None = [rs]" "has_drift rs" "om_DeletionTimestamp (rs_Meta rs) = None"
    and req: "rs_request env rs = Some req" "fst req = ref_Namespace a"
    and cs: "find_summary w req = Some cs" "om_DeletionTimestamp (cs_Meta cs) = None"
      "css_ClusterNamespace (cs_Spec cs) = ref_Namespace b" "css_ClusterName (cs_Spec cs) = ref_Name b"
    and api: "\<And>i. de_Get env i req = None" "\<And>i. de_StatusUpdate env i req = None" "de_ResetRS env (rs_key rs) = None"
  shows "collectResourceSummariesFromCluster env b w = (None, w) \<and>
    (\<exists>w'. collectResourceSummariesFromCluster env a w = (None, w') \<and> find_summary w' req = Some (with_drift env rs cs))"
proof
  show "collectResourceSummariesFromCluster env b w = (None, w)" by (simp add: collectResourceSummariesFromCluster_def b)
next
  have ns: "getClusterSummaryNamespaceFromResourceSummary env rs = Some (ref_Namespace a)"
    using req by (auto simp: rs_request_def split: option.splits)
  obtain r w' where run: "processResourceSummary env None rs w = (r, w')" by fastforce
  have "drift_attempt env rs req 0 (None, w) =
      (None, Some (with_drift env rs cs, drifted_features rs cs), store_summary (with_drift env rs cs) w)"
    using api cs by (simp add: drift_attempt_def)
  then have "RetryOnConflict (drift_attempt env rs req) (None, w) =
      (None, Some (with_drift env rs cs, drifted_features rs cs), store_summary (with_drift env rs cs) w)"
    by (intro retry_no_conflict) auto
  then have p: "processResourceSummary env None rs w = resetResourceSummaryStatus env None rs
      (trackDriftedFeatures (Some (with_drift env rs cs, drifted_features rs cs)) (store_summary (with_drift env rs cs) w))"
    by (simp add: processResourceSummary_def req)
  have key: "rs_key (cleared rs) = rs_key rs" "rs_ResourceVersion (cleared rs) = rs_ResourceVersion rs"
    by (simp_all add: cleared_def rs_key_def)
  have "dw_Resources (store_summary (with_drift env rs cs) w) None = [rs]" by (simp add: store_summary_def listed)
  then have r: "r = None"
    using run p api(3) key by (simp add: resetResourceSummaryStatus_def update_rs_def split: prod.splits)
  have name: "request_of cs = req" using cs(1) by (auto simp: find_summary_def find_Some_iff)
  have "dw_Summaries w' = dw_Summaries (store_summary (with_drift env rs cs) w)"
    using run p reset_frame by fastforce
  moreover have "cs\<lparr>cs_Status := cs_Status (with_drift env rs cs)\<rparr> = with_drift env rs cs" by (simp add: with_drift_def Let_def)
  ultimately have "find_summary w' req = Some (with_drift env rs cs)"
    using find_stored [of w "with_drift env rs cs"] cs(1) name by (simp add: find_summary_def)
  moreover have "collectResourceSummariesFromCluster env a w = (None, w')"
    using mode a run r listed ns
    by (simp add: collectResourceSummariesFromCluster_def collection_place_def getResourceSummaryClient_def listed_summaries_def)
  ultimately show "\<exists>w'. collectResourceSummariesFromCluster env a w = (None, w') \<and> find_summary w' req = Some (with_drift env rs cs)"
    by blast
qed

section \<open>Samples\<close>

definition drift_cluster :: "string \<Rightarrow> object_reference" where
  "drift_cluster n = \<lparr>ref_Kind = ''SveltosCluster'', ref_Namespace = ''ns'', ref_Name = n, ref_APIVersion = ''v1''\<rparr>"

definition sample_drift_env :: drift_env where
  "sample_drift_env = \<lparr>de_Get = (\<lambda>_ _. None), de_StatusUpdate = (\<lambda>_ _. None), de_ResetRS = (\<lambda>_. None), de_ListRS = (\<lambda>_. None),
     de_MaxDriftedResources = 2, de_Now = 50, de_NameAnnotation = ''name'', de_NamespaceAnnotation = ''namespace'', de_NameLabel = ''name'',
     de_NamespaceLabel = ''namespace'', de_ClusterNameLabel = ''cluster-name'', de_ClusterTypeLabel = ''cluster-type'',
     de_IsPullMode = (\<lambda>_ _ _. Inr True), de_GetClusterType = (\<lambda>_. ClusterTypeSveltos), de_IsReady = (\<lambda>_. Inr True),
     de_IsPaused = (\<lambda>_ n _. Inr (n = ''c'')), de_Agentless = False, de_Client = (\<lambda>_. Inr False), de_CRD = (\<lambda>_. None),
     de_Compatible = (\<lambda>_. True), de_ClusterProfiles = Inr [], de_Profiles = Inr [], de_Clusters = Inr []\<rparr>"

definition sample_drifted :: "string \<Rightarrow> time \<Rightarrow> drifted_resource" where
  "sample_drifted n t = \<lparr>dfr_FeatureID = FeatureHelm, dfr_Group = ''apps'', dfr_Kind = ''Deployment'', dfr_Namespace = ''d'', dfr_Name = n,
     dfr_HelmChartRef = Some \<lparr>hcr_ReleaseNamespace = ''rel'', hcr_ReleaseName = ''r''\<rparr>, dfr_DetectedTime = t\<rparr>"

definition sample_rs :: resource_summary where
  "sample_rs = \<lparr>rs_Meta = zero_object_meta\<lparr>om_Name := ''rs'', om_Namespace := ''ns'',
       om_Annotations := [(''name'', ''cs''), (''namespace'', ''ns'')]\<rparr>,
     rs_ResourceVersion = 7, rs_ResourcesChanged = False, rs_HelmResourcesChanged = True, rs_KustomizeResourcesChanged = False,
     rs_DriftedHelmCharts = [], rs_DriftedResources = [sample_drifted ''a'' 10, sample_drifted ''b'' 20, sample_drifted ''c'' 20],
     rs_DriftedResourcesTruncated = False\<rparr>"

definition sample_drift_cs :: cluster_summary where
  "sample_drift_cs = (sample_cs ''cs'' [])\<lparr>cs_Status := zero_cluster_summary_status\<lparr>
     cst_FeatureSummaries := [(zero_feature_summary FeatureHelm)\<lparr>fs_Hash := Some ''h'', fs_Status := Some FeatureStatusProvisioned\<rparr>],
     cst_HelmReleaseSummaries := [zero_helm_chart_summary\<lparr>hs_ReleaseName := ''r'', hs_ReleaseNamespace := ''rel''\<rparr>]\<rparr>\<rparr>"

definition sample_drift_world :: drift_world where
  "sample_drift_world = \<lparr>dw_Summaries = [sample_drift_cs], dw_Resources = (\<lambda>p. if p = None then [sample_rs] else []),
     dw_Tracked = [], dw_Installed = []\<rparr>"

lemma sample_drift_facts:
  "rs_request sample_drift_env sample_rs = Some (''ns'', ''cs'')" "find_summary sample_drift_world (''ns'', ''cs'') = Some sample_drift_cs"
  "om_DeletionTimestamp (cs_Meta sample_drift_cs) = None"
  by code_simp+

theorem drift_history_idempotent_witness:
  "newDriftHistory sample_drift_env (Some (newDriftHistory sample_drift_env None sample_rs FeatureHelm)) sample_rs FeatureHelm =
     newDriftHistory sample_drift_env None sample_rs FeatureHelm \<and>
   map dr_Name (dh_Resources (newDriftHistory sample_drift_env None sample_rs FeatureHelm)) = [''b'', ''c'']"
proof
  have "getReportedDriftedResources sample_rs FeatureHelm \<noteq> []" by code_simp
  then show "newDriftHistory sample_drift_env (Some (newDriftHistory sample_drift_env None sample_rs FeatureHelm)) sample_rs FeatureHelm =
     newDriftHistory sample_drift_env None sample_rs FeatureHelm" by (rule drift_history_idempotent)
qed code_simp

theorem drift_recorded_before_cleared_witness:
  "\<exists>w'. processResourceSummary sample_drift_env None sample_rs sample_drift_world = (None, w') \<and>
     find_summary w' (''ns'', ''cs'') = Some (with_drift sample_drift_env sample_rs sample_drift_cs)"
proof -
  obtain r w' where run: "processResourceSummary sample_drift_env None sample_rs sample_drift_world = (r, w')" by fastforce
  have "fst (processResourceSummary sample_drift_env None sample_rs sample_drift_world) = None" by code_simp
  then have r: "r = None" using run by simp
  have "map rs_HelmResourcesChanged (dw_Resources (snd (processResourceSummary sample_drift_env None sample_rs sample_drift_world)) None) =
      [False]" by code_simp
  moreover have "map rs_HelmResourcesChanged (dw_Resources sample_drift_world None) = [True]" by code_simp
  ultimately have "dw_Resources w' \<noteq> dw_Resources sample_drift_world" using run by auto
  moreover have "de_Get sample_drift_env i req = None" for i req by (simp add: sample_drift_env_def)
  ultimately show ?thesis
    using drift_recorded_before_cleared [OF run _ sample_drift_facts] run r by auto
qed

theorem paused_cluster_drift_processed_witness:
  "collectResourceSummariesFromCluster sample_drift_env (drift_cluster ''c'') sample_drift_world = (None, sample_drift_world) \<and>
   (\<exists>w'. collectResourceSummariesFromCluster sample_drift_env (drift_cluster ''d'') sample_drift_world = (None, w') \<and>
      find_summary w' (''ns'', ''cs'') = Some (with_drift sample_drift_env sample_rs sample_drift_cs))"
proof -
  have "skipCollecting sample_drift_env (drift_cluster ''d'') = (None, False)"
      "skipCollecting sample_drift_env (drift_cluster ''c'') = (None, True)"
      "has_drift sample_rs" "om_DeletionTimestamp (rs_Meta sample_rs) = None"
      "css_ClusterNamespace (cs_Spec sample_drift_cs) = ref_Namespace (drift_cluster ''c'')"
      "css_ClusterName (cs_Spec sample_drift_cs) = ref_Name (drift_cluster ''c'')"
    by code_simp+
  moreover have "dw_Resources sample_drift_world None = [sample_rs]" by (simp add: sample_drift_world_def)
  ultimately show ?thesis
    using paused_cluster_drift_processed [of sample_drift_env "drift_cluster ''d''" "drift_cluster ''c''" sample_drift_world sample_rs
        "(''ns'', ''cs'')" sample_drift_cs] sample_drift_facts
    by (simp add: sample_drift_env_def drift_cluster_def)
qed

end
