(* ===== verification/Reloaders.thy ===== *)
theory Reloaders
  imports Cluster_Configuration
begin

text \<open>
  Reloaders (lib/clusterops/reloader.go, controllers/handlers_utils.go): for each profile and feature, the list of the workloads that the agent
  restarts when a ConfigMap or Secret they mount changes.

  A Reloader is in the managed cluster or, when the agents run in the management cluster, there; \<open>None\<close> is the management
  cluster. A ConfigMap for each cluster then names the Reloaders that apply to it. \<open>reloader_env\<close> holds the faults of the calls
  and the names libsveltos gives.
\<close>

section \<open>Reloaders in a cluster\<close>

record reloader_info =
  rli_Namespace :: string
  rli_Name :: string
  rli_Kind :: string

record reloader =
  rl_Name :: string
  rl_Labels :: "(string \<times> string) list"
  rl_Annotations :: "(string \<times> string) list"
  rl_Info :: "reloader_info list"

type_synonym reloader_place = "(string \<times> string \<times> cluster_type) option"

record reloader_world =
  rlw_Reloaders :: "reloader_place \<Rightarrow> reloader list"
  rlw_ConfigMaps :: "((string \<times> string) \<times> (string \<times> string) list) list"

record reloader_env =
  rle_AgentInMgmt :: bool
  rle_Client :: "dep_error option"
  rle_CRD :: "reloader_place \<Rightarrow> api_error option"
  rle_List :: "reloader_place \<Rightarrow> dep_error option"
  rle_Write :: "reloader_place \<Rightarrow> dep_error option"
  rle_GetMap :: "nat \<Rightarrow> string \<times> string \<Rightarrow> dep_error option"
  rle_WriteMap :: "nat \<Rightarrow> string \<times> string \<Rightarrow> dep_error option"
  rle_ConfigMapName :: "string \<Rightarrow> cluster_type \<Rightarrow> string"
  rle_Key :: "string \<Rightarrow> string"
  rle_DeployedBySveltosAnnotation :: string

text \<open>\<open>rle_CRD\<close> is the error of reading the definition of Reloaders, \<open>rle_Write\<close> that of creating, updating or deleting one.
  \<open>rle_GetMap\<close> is an error other than that the ConfigMap does not exist, which \<open>rlw_ConfigMaps\<close> tells.\<close>

definition GetReloaderName :: "string \<Rightarrow> feature_id \<Rightarrow> string" where
  "GetReloaderName profileName feature = profileName @ ''--'' @ map fold_char (feature_name feature)"

definition getReloaderLabels :: "string \<Rightarrow> feature_id \<Rightarrow> (string \<times> string) list" where
  "getReloaderLabels profileName feature = [(''clusterprofile'', profileName), (''feature'', feature_name feature)]"

definition getReloaderAnnotations :: "reloader_env \<Rightarrow> (string \<times> string) list" where
  "getReloaderAnnotations env = [(rle_DeployedBySveltosAnnotation env, ''ok'')]"

definition getReloader :: "reloader_env \<Rightarrow> string \<Rightarrow> feature_id \<Rightarrow> reloader_info list \<Rightarrow> reloader" where
  "getReloader env profileName feature info = \<lparr>rl_Name = GetReloaderName profileName feature,
     rl_Labels = getReloaderLabels profileName feature, rl_Annotations = getReloaderAnnotations env, rl_Info = info\<rparr>"

definition watchForRollingUpgrade :: "object_reference \<Rightarrow> bool" where
  "watchForRollingUpgrade resource \<longleftrightarrow> ref_Kind resource \<in> {''Deployment'', ''StatefulSet'', ''DaemonSet''}"

definition has_labels :: "(string \<times> string) list \<Rightarrow> reloader \<Rightarrow> bool" where
  "has_labels labels r = list_all (\<lambda>(k, v). map_of (rl_Labels r) k = Some v) labels"

definition getReloaderInstance :: "reloader_env \<Rightarrow> reloader_place \<Rightarrow> string \<Rightarrow> feature_id \<Rightarrow> reloader_world \<Rightarrow>
    dep_error + reloader option" where
  "getReloaderInstance env p profileName feature w =
     (case rle_List env p of
        Some e \<Rightarrow> Inl e
      | None \<Rightarrow>
          (case filter (has_labels (getReloaderLabels profileName feature)) (rlw_Reloaders w p) of
             [] \<Rightarrow> Inr None
           | [r] \<Rightarrow> Inr (Some r)
           | rs \<Rightarrow> Inl (plain_error ''found more than one match'')))"

definition set_reloaders :: "reloader_place \<Rightarrow> (reloader list \<Rightarrow> reloader list) \<Rightarrow> reloader_world \<Rightarrow> reloader_world" where
  "set_reloaders p f w = w\<lparr>rlw_Reloaders := (rlw_Reloaders w)(p := f (rlw_Reloaders w p))\<rparr>"

definition write_reloaders :: "reloader_env \<Rightarrow> reloader_place \<Rightarrow> (reloader list \<Rightarrow> reloader list) \<Rightarrow> reloader_world \<Rightarrow>
    dep_error option \<times> reloader_world" where
  "write_reloaders env p f w = (case rle_Write env p of Some e \<Rightarrow> (Some e, w) | None \<Rightarrow> (None, set_reloaders p f w))"

definition createReloaderInstance :: "reloader_env \<Rightarrow> reloader_place \<Rightarrow> string \<Rightarrow> feature_id \<Rightarrow> reloader_info list \<Rightarrow> reloader_world \<Rightarrow>
    dep_error option \<times> reloader_world" where
  "createReloaderInstance env p profileName feature info w =
     (let r = getReloader env profileName feature info in
      if list_ex (\<lambda>x. rl_Name x = rl_Name r) (rlw_Reloaders w p) then (Some (plain_error ''already exists''), w)
      else write_reloaders env p (\<lambda>rs. rs @ [r]) w)"

definition reloader_infos :: "object_reference list \<Rightarrow> reloader_info list" where
  "reloader_infos resources = map (\<lambda>r. \<lparr>rli_Namespace = ref_Namespace r, rli_Name = ref_Name r, rli_Kind = ref_Kind r\<rparr>)
     (filter (\<lambda>r. watchForRollingUpgrade r \<and> ref_Namespace r \<noteq> []) resources)"

definition deployReloaderInstance :: "reloader_env \<Rightarrow> reloader_place \<Rightarrow> string \<Rightarrow> feature_id \<Rightarrow> object_reference list \<Rightarrow> reloader_world \<Rightarrow>
    dep_error option \<times> reloader_world" where
  "deployReloaderInstance env p profileName feature resources w =
     (case getReloaderInstance env p profileName feature w of
        Inl e \<Rightarrow> (Some e, w)
      | Inr None \<Rightarrow> createReloaderInstance env p profileName feature (reloader_infos resources) w
      | Inr (Some r) \<Rightarrow>
          write_reloaders env p (map (\<lambda>x. if rl_Name x = rl_Name r then r\<lparr>rl_Info := reloader_infos resources\<rparr> else x)) w)"

definition IsReloaderInstalled :: "reloader_env \<Rightarrow> reloader_place \<Rightarrow> dep_error + bool" where
  "IsReloaderInstalled env p =
     (case rle_CRD env p of None \<Rightarrow> Inr True | Some ApiNotFound \<Rightarrow> Inr False | Some (ApiError msg) \<Rightarrow> Inl (plain_error msg))"

definition removeReloaderInstance :: "reloader_env \<Rightarrow> reloader_place \<Rightarrow> string \<Rightarrow> feature_id \<Rightarrow> reloader_world \<Rightarrow>
    dep_error option \<times> reloader_world" where
  "removeReloaderInstance env p profileName feature w =
     (case IsReloaderInstalled env p of
        Inl e \<Rightarrow> (Some e, w)
      | Inr False \<Rightarrow> (None, w)
      | Inr True \<Rightarrow>
          (case getReloaderInstance env p profileName feature w of
             Inl e \<Rightarrow> (Some e, w)
           | Inr None \<Rightarrow> (None, w)
           | Inr (Some r) \<Rightarrow> write_reloaders env p (filter (\<lambda>x. rl_Name x \<noteq> rl_Name r)) w))"

definition UpdateReloaderWithDeployedResources :: "reloader_env \<Rightarrow> reloader_place \<Rightarrow> string \<Rightarrow> feature_id \<Rightarrow> object_reference list \<Rightarrow>
    bool \<Rightarrow> reloader_world \<Rightarrow> dep_error option \<times> reloader_world" where
  "UpdateReloaderWithDeployedResources env p profileName feature resources removeReloader w =
     (if removeReloader then removeReloaderInstance env p profileName feature w
      else deployReloaderInstance env p profileName feature resources w)"

section \<open>The ConfigMap of a cluster\<close>

definition add_attempt :: "reloader_env \<Rightarrow> string \<times> string \<Rightarrow> string \<Rightarrow> string \<Rightarrow> nat \<Rightarrow> reloader_world \<Rightarrow>
    dep_error option \<times> reloader_world" where
  "add_attempt env name key reloaderName attempt w =
     (case rle_GetMap env attempt name of
        Some e \<Rightarrow> (Some e, w)
      | None \<Rightarrow>
          (case rle_WriteMap env attempt name of
             Some e \<Rightarrow> (Some e, w)
           | None \<Rightarrow>
               (case map_of (rlw_ConfigMaps w) name of
                  None \<Rightarrow> (None, w\<lparr>rlw_ConfigMaps := (name, [(key, reloaderName)]) # rlw_ConfigMaps w\<rparr>)
                | Some data \<Rightarrow>
                    (None, w\<lparr>rlw_ConfigMaps := AList.update name (AList.update key reloaderName data) (rlw_ConfigMaps w)\<rparr>))))"

definition addReloaderToConfigMap :: "reloader_env \<Rightarrow> string \<Rightarrow> string \<Rightarrow> cluster_type \<Rightarrow> string \<Rightarrow> reloader_world \<Rightarrow>
    dep_error option \<times> reloader_world" where
  "addReloaderToConfigMap env clusterNamespace clusterName clusterType reloaderName w =
     RetryOnConflict (add_attempt env (clusterNamespace, rle_ConfigMapName env clusterName clusterType) (rle_Key env reloaderName)
       reloaderName) w"

definition remove_attempt :: "reloader_env \<Rightarrow> string \<times> string \<Rightarrow> string \<Rightarrow> nat \<Rightarrow> reloader_world \<Rightarrow>
    dep_error option \<times> reloader_world" where
  "remove_attempt env name key attempt w =
     (case rle_GetMap env attempt name of
        Some e \<Rightarrow> (Some e, w)
      | None \<Rightarrow>
          (case map_of (rlw_ConfigMaps w) name of
             None \<Rightarrow> (None, w)
           | Some data \<Rightarrow>
               if map_of data key = None then (None, w)
               else case rle_WriteMap env attempt name of
                 Some e \<Rightarrow> (Some e, w)
               | None \<Rightarrow> (None, w\<lparr>rlw_ConfigMaps := AList.update name (AList.delete key data) (rlw_ConfigMaps w)\<rparr>)))"

definition removeReloaderFromConfigMap :: "reloader_env \<Rightarrow> string \<Rightarrow> string \<Rightarrow> cluster_type \<Rightarrow> string \<Rightarrow> reloader_world \<Rightarrow>
    dep_error option \<times> reloader_world" where
  "removeReloaderFromConfigMap env clusterNamespace clusterName clusterType reloaderName w =
     RetryOnConflict (remove_attempt env (clusterNamespace, rle_ConfigMapName env clusterName clusterType) (rle_Key env reloaderName)) w"

section \<open>Updating a Reloader\<close>

definition getReloaderClient :: "reloader_env \<Rightarrow> cluster_summary \<Rightarrow> dep_error + reloader_place" where
  "getReloaderClient env cs =
     (if rle_AgentInMgmt env then Inr None
      else case rle_Client env of
        Some e \<Rightarrow> Inl e
      | None \<Rightarrow> Inr (Some (css_ClusterNamespace (cs_Spec cs), css_ClusterName (cs_Spec cs), css_ClusterType (cs_Spec cs))))"

definition updateReloaderWithDeployedResources :: "reloader_env \<Rightarrow> cluster_summary \<Rightarrow> owner_reference \<Rightarrow> feature_id \<Rightarrow>
    object_reference list \<Rightarrow> bool \<Rightarrow> reloader_world \<Rightarrow> dep_error option \<times> reloader_world" where
  "updateReloaderWithDeployedResources env cs profileRef feature resources removeReloader w =
     (case getReloaderClient env cs of
        Inl e \<Rightarrow> (Some e, w)
      | Inr p \<Rightarrow>
          (case UpdateReloaderWithDeployedResources env p (own_Name profileRef) feature resources removeReloader w of
             (Some e, w) \<Rightarrow> (Some e, w)
           | (None, w) \<Rightarrow>
               if \<not> rle_AgentInMgmt env then (None, w)
               else (if removeReloader then removeReloaderFromConfigMap else addReloaderToConfigMap) env
                 (css_ClusterNamespace (cs_Spec cs)) (css_ClusterName (cs_Spec cs)) (css_ClusterType (cs_Spec cs))
                 (GetReloaderName (own_Name profileRef) feature) w))"

section \<open>What a Reloader lists\<close>

definition matching_reloaders :: "reloader_place \<Rightarrow> string \<Rightarrow> feature_id \<Rightarrow> reloader_world \<Rightarrow> reloader list" where
  "matching_reloaders p profileName feature w = filter (has_labels (getReloaderLabels profileName feature)) (rlw_Reloaders w p)"

text \<open>Reloaders have one name each.\<close>

definition reloaders_ok :: "reloader_place \<Rightarrow> reloader_world \<Rightarrow> bool" where
  "reloaders_ok p w \<longleftrightarrow> distinct (map rl_Name (rlw_Reloaders w p))"

lemma has_own_labels [simp]: "has_labels (getReloaderLabels n f) (getReloader env n f info)"
  by (simp add: has_labels_def getReloader_def getReloaderLabels_def)

lemma set_reloaders_at [simp]: "rlw_Reloaders (set_reloaders p f w) q = (if q = p then f (rlw_Reloaders w p) else rlw_Reloaders w q)"
  "rlw_ConfigMaps (set_reloaders p f w) = rlw_ConfigMaps w"
  by (simp_all add: set_reloaders_def)

lemma write_reloaders_result: "write_reloaders env p f w = (None, w') \<Longrightarrow> w' = set_reloaders p f w"
  by (simp add: write_reloaders_def split: option.splits)

lemma single_update:
  assumes "filter P xs = [r]" "distinct (map h xs)" "P r'" "\<And>x. h x = h r \<Longrightarrow> x \<in> set xs \<Longrightarrow> x = r"
  shows "filter P (map (\<lambda>x. if h x = h r then r' else x) xs) = [r']"
  using assms
proof (induction xs)
  case (Cons x xs)
  show ?case
  proof (cases "h x = h r")
    case True
    then have x: "x = r" using Cons.prems(4) by simp
    have "r \<in> set (filter P (x # xs))" using Cons.prems(1) by simp
    then have "P r" unfolding set_filter by blast
    then have "filter P xs = []" using Cons.prems(1) x by simp
    moreover have "\<forall>y \<in> set xs. h y \<noteq> h r" using Cons.prems(2) x by (auto simp: image_iff)
    then have "map (\<lambda>x. if h x = h r then r' else x) xs = xs" by (induction xs) auto
    ultimately show ?thesis using True Cons.prems(3) by simp
  next
    case False
    have "\<not> P x" using Cons.prems(1) False by (auto split: if_splits)
    then show ?thesis using Cons False by auto
  qed
qed simp

lemma reloader_deployed:
  assumes "deployReloaderInstance env p n f resources w = (None, w')" "reloaders_ok p w"
  shows "map rl_Info (matching_reloaders p n f w') = [reloader_infos resources] \<and> rlw_ConfigMaps w' = rlw_ConfigMaps w \<and> reloaders_ok p w'"
proof -
  consider (create) "matching_reloaders p n f w = []" "createReloaderInstance env p n f (reloader_infos resources) w = (None, w')"
    | (update) r where "matching_reloaders p n f w = [r]"
        "write_reloaders env p (map (\<lambda>x. if rl_Name x = rl_Name r then r\<lparr>rl_Info := reloader_infos resources\<rparr> else x)) w = (None, w')"
    using assms(1)
    by (auto simp: deployReloaderInstance_def getReloaderInstance_def matching_reloaders_def split: option.splits list.splits)
  then show ?thesis
  proof cases
    case create
    let ?r = "getReloader env n f (reloader_infos resources)"
    have new: "rl_Name ?r \<notin> rl_Name ` set (rlw_Reloaders w p)" and w': "w' = set_reloaders p (\<lambda>rs. rs @ [?r]) w"
      using create(2) by (auto simp: createReloaderInstance_def Let_def list_ex_iff dest: write_reloaders_result split: if_splits)
    have "rl_Info ?r = reloader_infos resources" by (simp add: getReloader_def)
    then show ?thesis using new assms(2) create(1) by (simp add: w' matching_reloaders_def reloaders_ok_def)
  next
    case update
    let ?r = "r\<lparr>rl_Info := reloader_infos resources\<rparr>"
    have w': "w' = set_reloaders p (map (\<lambda>x. if rl_Name x = rl_Name r then ?r else x)) w" using update(2) by (rule write_reloaders_result)
    have "r \<in> set (matching_reloaders p n f w)" using update(1) by simp
    then have r: "r \<in> set (rlw_Reloaders w p)" "has_labels (getReloaderLabels n f) r" by (simp_all add: matching_reloaders_def)
    then have "matching_reloaders p n f w' = [?r]"
      using single_update [of "has_labels (getReloaderLabels n f)" "rlw_Reloaders w p" r rl_Name ?r] update(1) assms(2) w'
      by (auto simp: matching_reloaders_def reloaders_ok_def has_labels_def distinct_map inj_on_def)
    moreover have "map rl_Name (rlw_Reloaders w' p) = map rl_Name (rlw_Reloaders w p)" by (auto simp: w')
    then have "reloaders_ok p w'" using assms(2) by (simp only: reloaders_ok_def)
    moreover have "rlw_ConfigMaps w' = rlw_ConfigMaps w" by (simp add: w')
    ultimately show ?thesis by simp
  qed
qed

lemma reloader_removed:
  assumes "removeReloaderInstance env p n f w = (None, w')" "rle_CRD env p = None"
  shows "matching_reloaders p n f w' = [] \<and> rlw_ConfigMaps w' = rlw_ConfigMaps w"
proof -
  consider "matching_reloaders p n f w = []" "w' = w"
    | r where "matching_reloaders p n f w = [r]" "write_reloaders env p (filter (\<lambda>x. rl_Name x \<noteq> rl_Name r)) w = (None, w')"
    using assms
    by (auto simp: removeReloaderInstance_def IsReloaderInstalled_def getReloaderInstance_def matching_reloaders_def
        split: option.splits list.splits)
  then show ?thesis
  proof cases
    case 2
    have "x = r" if "x \<in> set (rlw_Reloaders w p)" "has_labels (getReloaderLabels n f) x" for x
    proof -
      have "x \<in> set (matching_reloaders p n f w)" using that by (simp add: matching_reloaders_def)
      then show ?thesis using 2(1) by simp
    qed
    then show ?thesis using 2 by (auto simp: matching_reloaders_def filter_empty_conv dest!: write_reloaders_result)
  qed simp
qed

lemma update_reloader_cases:
  assumes "updateReloaderWithDeployedResources env cs ref f rs rm w = (None, w')" "rle_AgentInMgmt env"
  obtains w1 where "UpdateReloaderWithDeployedResources env None (own_Name ref) f rs rm w = (None, w1)"
    "(if rm then removeReloaderFromConfigMap else addReloaderToConfigMap) env
       (css_ClusterNamespace (cs_Spec cs)) (css_ClusterName (cs_Spec cs)) (css_ClusterType (cs_Spec cs))
       (GetReloaderName (own_Name ref) f) w1 = (None, w')"
  using assms
  by (auto simp: updateReloaderWithDeployedResources_def getReloaderClient_def split: prod.splits option.splits)

definition map_of_cluster :: "reloader_env \<Rightarrow> cluster_summary \<Rightarrow> string \<times> string" where
  "map_of_cluster env cs = (css_ClusterNamespace (cs_Spec cs), rle_ConfigMapName env (css_ClusterName (cs_Spec cs)) (css_ClusterType (cs_Spec cs)))"

definition names_reloader :: "reloader_env \<Rightarrow> cluster_summary \<Rightarrow> string \<Rightarrow> feature_id \<Rightarrow> reloader_world \<Rightarrow> bool" where
  "names_reloader env cs profileName f w \<longleftrightarrow>
     map_of (lookup_default [] (rlw_ConfigMaps w) (map_of_cluster env cs)) (rle_Key env (GetReloaderName profileName f)) =
       Some (GetReloaderName profileName f)"

lemma add_attempt_result:
  "add_attempt env name key r i w = (None, w') \<Longrightarrow>
     rlw_Reloaders w' = rlw_Reloaders w \<and> map_of (lookup_default [] (rlw_ConfigMaps w') name) key = Some r"
  by (auto simp: add_attempt_def lookup_default_def update_conv split: option.splits)

lemma remove_attempt_frame:
  "remove_attempt env name key i w = (r, w') \<Longrightarrow> rlw_Reloaders w' = rlw_Reloaders w \<and>
     (\<forall>other. other \<noteq> name \<longrightarrow> lookup_default [] (rlw_ConfigMaps w') other = lookup_default [] (rlw_ConfigMaps w) other)"
  by (auto simp: remove_attempt_def lookup_default_def update_conv split: option.splits if_splits)

lemma reloader_added:
  assumes "addReloaderToConfigMap env ns n t r w = (None, w')"
  shows "rlw_Reloaders w' = rlw_Reloaders w \<and>
    map_of (lookup_default [] (rlw_ConfigMaps w') (ns, rle_ConfigMapName env n t)) (rle_Key env r) = Some r"
proof -
  let ?f = "add_attempt env (ns, rle_ConfigMapName env n t) (rle_Key env r) r"
  have loop: "RetryOnConflict ?f w = (None, w')" using assms by (simp add: addReloaderToConfigMap_def)
  have "\<exists>i v. rlw_Reloaders v = rlw_Reloaders w \<and> ?f i v = (None, w')"
  proof (rule retry_last [OF _ loop])
    fix i v q v'
    assume "?f i v = (q, v')" and "rlw_Reloaders v = rlw_Reloaders w"
    then show "rlw_Reloaders v' = rlw_Reloaders w" by (auto simp: add_attempt_def split: option.splits)
  qed simp
  then obtain i v where v: "rlw_Reloaders v = rlw_Reloaders w" and last: "?f i v = (None, w')" by auto
  show ?thesis using add_attempt_result [OF last] v by simp
qed

lemma reloader_unlisted:
  assumes "removeReloaderFromConfigMap env ns n t r w = (q, w')"
  shows "rlw_Reloaders w' = rlw_Reloaders w \<and> (\<forall>other. other \<noteq> (ns, rle_ConfigMapName env n t) \<longrightarrow>
    lookup_default [] (rlw_ConfigMaps w') other = lookup_default [] (rlw_ConfigMaps w) other)"
proof -
  let ?I = "\<lambda>v. rlw_Reloaders v = rlw_Reloaders w \<and> (\<forall>other. other \<noteq> (ns, rle_ConfigMapName env n t) \<longrightarrow>
    lookup_default [] (rlw_ConfigMaps v) other = lookup_default [] (rlw_ConfigMaps w) other)"
  show ?thesis
  proof (rule retry_invariant [where I = ?I])
    show "RetryOnConflict (remove_attempt env (ns, rle_ConfigMapName env n t) (rle_Key env r)) w = (q, w')"
      using assms by (simp add: removeReloaderFromConfigMap_def)
  next
    fix i v x v'
    assume step: "remove_attempt env (ns, rle_ConfigMapName env n t) (rle_Key env r) i v = (x, v')" and "?I v"
    then show "?I v'" using remove_attempt_frame [OF step] by simp
  qed simp
qed

text \<open>
  C40. With the agents in the management cluster the Reloader of a profile and a feature is one for all clusters. After
  the profile stops matching one of two clusters there is none, and the other cluster, whose workloads it listed, still names it.
\<close>

theorem agents_share_reloader:
  assumes shared: "rle_AgentInMgmt env" "rle_CRD env None = None" "map_of_cluster env a \<noteq> map_of_cluster env b"
    and deployed: "updateReloaderWithDeployedResources env a ref f rs False w = (None, w1)" "reloaders_ok None w"
    and left: "updateReloaderWithDeployedResources env b ref f [] True w1 = (None, w2)"
  shows "map rl_Info (matching_reloaders None (own_Name ref) f w1) = [reloader_infos rs] \<and> names_reloader env a (own_Name ref) f w1 \<and>
    matching_reloaders None (own_Name ref) f w2 = [] \<and> names_reloader env a (own_Name ref) f w2"
proof -
  obtain v1 where v1: "deployReloaderInstance env None (own_Name ref) f rs w = (None, v1)"
      "addReloaderToConfigMap env (css_ClusterNamespace (cs_Spec a)) (css_ClusterName (cs_Spec a)) (css_ClusterType (cs_Spec a))
         (GetReloaderName (own_Name ref) f) v1 = (None, w1)"
    using update_reloader_cases [OF deployed(1) shared(1)] by (auto simp: UpdateReloaderWithDeployedResources_def)
  obtain v2 where v2: "removeReloaderInstance env None (own_Name ref) f w1 = (None, v2)"
      "removeReloaderFromConfigMap env (css_ClusterNamespace (cs_Spec b)) (css_ClusterName (cs_Spec b)) (css_ClusterType (cs_Spec b))
         (GetReloaderName (own_Name ref) f) v2 = (None, w2)"
    using update_reloader_cases [OF left shared(1)] by (auto simp: UpdateReloaderWithDeployedResources_def)
  note d = reloader_deployed [OF v1(1) deployed(2)] reloader_added [OF v1(2)]
  note r = reloader_removed [OF v2(1) shared(2)] reloader_unlisted [OF v2(2)]
  have "names_reloader env a (own_Name ref) f w1" using d by (simp add: names_reloader_def map_of_cluster_def)
  moreover from this have "names_reloader env a (own_Name ref) f w2"
    using r shared(3) by (simp add: names_reloader_def map_of_cluster_def)
  ultimately show ?thesis using d r by (simp add: matching_reloaders_def)
qed

definition sample_reloader_env :: reloader_env where
  "sample_reloader_env = \<lparr>rle_AgentInMgmt = True, rle_Client = None, rle_CRD = (\<lambda>_. None), rle_List = (\<lambda>_. None), rle_Write = (\<lambda>_. None),
     rle_GetMap = (\<lambda>_ _. None), rle_WriteMap = (\<lambda>_ _. None), rle_ConfigMapName = (\<lambda>n _. n), rle_Key = id,
     rle_DeployedBySveltosAnnotation = ''deployed-by-sveltos''\<rparr>"

definition sample_reloader_cs :: "string \<Rightarrow> cluster_summary" where
  "sample_reloader_cs n = (sample_cs [] [])\<lparr>cs_Spec := (cs_Spec (sample_cs [] []))\<lparr>css_ClusterName := n\<rparr>\<rparr>"

definition sample_reloader_ref :: owner_reference where
  "sample_reloader_ref = \<lparr>own_APIVersion = [], own_Kind = ClusterProfileKind, own_Name = ''web'', own_UID = []\<rparr>"

definition no_reloaders :: reloader_world where
  "no_reloaders = \<lparr>rlw_Reloaders = (\<lambda>_. []), rlw_ConfigMaps = []\<rparr>"

definition sample_workload :: object_reference where
  "sample_workload = \<lparr>ref_Kind = ''Deployment'', ref_Namespace = ''shop'', ref_Name = ''front'', ref_APIVersion = []\<rparr>"

definition sample_reloader_step :: "string \<Rightarrow> bool \<Rightarrow> reloader_world \<Rightarrow> dep_error option \<times> reloader_world" where
  "sample_reloader_step n rm w = updateReloaderWithDeployedResources sample_reloader_env (sample_reloader_cs n) sample_reloader_ref
     FeatureResources (if rm then [] else [sample_workload]) rm w"

theorem agents_share_reloader_witness:
  "let w1 = snd (sample_reloader_step ''a'' False no_reloaders); w2 = snd (sample_reloader_step ''b'' True w1) in
     length (matching_reloaders None ''web'' FeatureResources w1) = 1 \<and> matching_reloaders None ''web'' FeatureResources w2 = [] \<and>
     names_reloader sample_reloader_env (sample_reloader_cs ''a'') ''web'' FeatureResources w2"
proof -
  let ?w1 = "snd (sample_reloader_step ''a'' False no_reloaders)"
  let ?w2 = "snd (sample_reloader_step ''b'' True ?w1)"
  have "fst (sample_reloader_step ''a'' False no_reloaders) = None" "fst (sample_reloader_step ''b'' True ?w1) = None" by code_simp+
  then have steps: "sample_reloader_step ''a'' False no_reloaders = (None, ?w1)" "sample_reloader_step ''b'' True ?w1 = (None, ?w2)"
    by (metis prod.collapse)+
  have "map_of_cluster sample_reloader_env (sample_reloader_cs ''a'') \<noteq> map_of_cluster sample_reloader_env (sample_reloader_cs ''b'')"
    by code_simp
  moreover have "rle_AgentInMgmt sample_reloader_env" "rle_CRD sample_reloader_env None = None" "reloaders_ok None no_reloaders"
    by (simp_all add: sample_reloader_env_def reloaders_ok_def no_reloaders_def)
  moreover have "own_Name sample_reloader_ref = ''web''" by (simp add: sample_reloader_ref_def)
  ultimately show ?thesis
    using agents_share_reloader [of sample_reloader_env "sample_reloader_cs ''a''" "sample_reloader_cs ''b''" sample_reloader_ref FeatureResources
        "[sample_workload]" no_reloaders ?w1 ?w2] steps
    by (auto simp: sample_reloader_step_def Let_def dest: arg_cong [of _ _ length])
qed

end
