(* ===== verification/Resource_Deploy.thy ===== *)
theory Resource_Deploy
  imports Kustomize_Files Helm_Charts Watchers Reloaders
begin

text \<open>
  Deploying the resources of a profile (controllers/handlers_utils.go, handlers_resources.go, url_source.go): the references of a profile and what
  they hold, the resources in it, and the loop that puts each resource into the management cluster or the managed one.

  \<open>resource_world\<close> holds what the code changes: the ClusterSummaries, the temporary files, the objects of the clusters, the
  ClusterConfigurations, the reports, what is staged and committed for the agent, the watchers. The managed cluster can be the
  management cluster itself (\<open>sv_SelfManaged\<close>); \<open>rw_Objects True\<close> are the objects of the management cluster. \<open>resource_env\<close>
  holds the answers of the API servers and of the deployer of libsveltos; \<open>sv_Charts\<close> are those the helm feature uses too.
\<close>

section \<open>World\<close>

record policy_resource =
  plr_Name :: string
  plr_Namespace :: string
  plr_Kind :: string
  plr_Group :: string
  plr_Version :: string
  plr_IgnoreForConfigurationDrift :: bool
  plr_LastAppliedTime :: "time option"

record resource_report =
  rrp_Resource :: policy_resource
  rrp_Action :: string
  rrp_Message :: string

record resource_info =
  rin_ResourceVersion :: string
  rin_OwnerReferences :: "(string \<times> string) list"
  rin_Annotations :: "(string \<times> string) list"

datatype can_deploy = Can_Deploy resource_info bool | Deploy_Conflict | Deploy_Refused dep_error

datatype mapping_answer = Mapped bool | No_Match dep_error | Mapping_Error dep_error

datatype fate = Spared | Removed | Released unstructured

record bundle_info =
  bui_Kind :: string
  bui_Namespace :: string
  bui_Name :: string
  bui_Tier :: int
  bui_SkipNamespaceCreation :: bool
  bui_Force :: bool

type_synonym staged_resources = "(string \<times> bundle_info \<times> unstructured list) list"

record 's resource_world =
  rw_Helm :: helm_world
  rw_Disk :: disk
  rw_Objects :: "bool \<Rightarrow> unstructured list"
  rw_Configs :: configs
  rw_Reports :: "((string \<times> string) \<times> (feature_id \<times> resource_report list) list) list"
  rw_Staged :: staged_resources
  rw_Committed :: "(commit_setters \<times> staged_resources) option"
  rw_Removing :: bool
  rw_Watch :: "'s watch_manager"
  rw_Tracked :: "(feature_id \<times> policy_resource list) list"
  rw_Reloaders :: reloader_world

text \<open>The user a client impersonates, empty for none; \<open>None\<close> is a configuration that is nil.\<close>

type_synonym rest_config = string

record resource_env = files_env +
  sv_Charts :: charts_env
  sv_Watch :: watch_env
  sv_SelfManaged :: bool
  sv_Now :: time
  sv_AdminNamespaceLabel :: string
  sv_AdminNameLabel :: string
  sv_get_profile :: "string \<Rightarrow> string \<Rightarrow> string \<Rightarrow> api_error + profile"
  sv_SourceKind :: "string \<Rightarrow> string"
  sv_Lua :: "cluster_summary \<Rightarrow> string \<Rightarrow> mgmt_resources \<Rightarrow> dep_error + string"
  sv_Split :: "string \<Rightarrow> dep_error + string list"
  sv_GetUnstructured :: "string \<Rightarrow> dep_error + unstructured list option"
  sv_Patch :: "patch list \<Rightarrow> unstructured list \<Rightarrow> dep_error + unstructured list"
  sv_Stat :: "string \<Rightarrow> disk \<Rightarrow> dep_error option"
  sv_OpenRoot :: "string \<Rightarrow> disk \<Rightarrow> dep_error option"
  sv_Mapper :: "dep_error option"
  sv_Mapping :: "bool \<Rightarrow> nat \<Rightarrow> gvk \<Rightarrow> mapping_answer"
  sv_IgnoreDrift :: "unstructured \<Rightarrow> bool"
  sv_GetResource :: "unstructured \<Rightarrow> bool \<Rightarrow> object_reference \<Rightarrow> profile \<Rightarrow> int \<Rightarrow> int \<Rightarrow> feature_id \<Rightarrow> policy_resource \<times> string"
  sv_CreateNamespace :: "bool \<Rightarrow> bool \<Rightarrow> string \<Rightarrow> dep_error option"
  sv_Interface :: "rest_config option \<Rightarrow> gvk \<Rightarrow> string \<Rightarrow> dep_error option"
  sv_CanDeploy :: "unstructured list \<Rightarrow> unstructured \<Rightarrow> object_reference \<Rightarrow> profile \<Rightarrow> int \<Rightarrow> int \<Rightarrow> string list \<Rightarrow> can_deploy"
  sv_ConflictReport :: "unstructured list \<Rightarrow> policy_resource \<Rightarrow> resource_report"
  sv_ConflictError :: "string \<Rightarrow> dep_error"
  sv_AddMetadata :: "string \<Rightarrow> profile \<Rightarrow> (string \<times> string) list \<Rightarrow> (string \<times> string) list \<Rightarrow> unstructured \<Rightarrow> unstructured"
  sv_AddAnnotation :: "string \<Rightarrow> string \<Rightarrow> unstructured \<Rightarrow> unstructured"
  sv_Update :: "rest_config option \<Rightarrow> unstructured list \<Rightarrow> bool \<Rightarrow> bool \<Rightarrow> bool \<Rightarrow> drift_exclusion list \<Rightarrow> unstructured \<Rightarrow>
    string list \<Rightarrow> unstructured option \<times> dep_error option"
  sv_Report :: "string \<Rightarrow> resource_info \<Rightarrow> unstructured \<Rightarrow> policy_resource \<Rightarrow> resource_report"
  sv_ErrorReport :: "policy_resource \<Rightarrow> dep_error \<Rightarrow> resource_report"
  sv_HandleErrors :: "string \<Rightarrow> string \<Rightarrow> bool \<Rightarrow> dep_error option"
  sv_OwnerName :: string
  sv_OwnerKind :: string
  sv_Stage :: "string \<Rightarrow> dep_error option"
  sv_PolicyInfo :: "policy_resource \<Rightarrow> string"
  sv_Reloader :: reloader_env
  sv_NewClient :: "dep_error option"
  sv_AdminClient :: "dep_error option"
  sv_RestConfig :: "bool \<Rightarrow> dep_error + rest_config option"
  sv_Discovery :: "dep_error option"
  sv_List :: "gvk \<Rightarrow> string option \<Rightarrow> dep_error option"
  sv_Listed :: "feature_id \<Rightarrow> gvk \<Rightarrow> unstructured \<Rightarrow> bool"
  sv_Undeploy :: "string \<Rightarrow> string \<Rightarrow> profile option \<Rightarrow> bool \<Rightarrow> bool \<Rightarrow> unstructured \<Rightarrow> string list \<Rightarrow>
    dep_error + resource_report option \<times> fate"
  sv_ParseKind :: "string \<Rightarrow> gvk"
  sv_ResourceSummary :: "dep_error option"
  sv_ValidateHealth :: "feature_id \<Rightarrow> dep_error option"
  sv_RemoveStatus :: "dep_error + feature_status option \<times> string option"
  sv_IsNoKindMatch :: "dep_error \<Rightarrow> bool"

text \<open>
  \<open>sv_SourceKind\<close> is the kind that reading a Flux source of a kind leaves in it. \<open>sv_CanDeploy\<close>, \<open>sv_Update\<close> and their kin are \<open>CanDeployResource\<close> and
  \<open>UpdateResource\<close> on the objects of the cluster: the object that is stored, and the error. \<open>sv_Mapping\<close> is the answer of the mapper of the
  management cluster or of the managed one, by attempt: whether the kind has a namespace. \<open>sv_Listed\<close> tells whether an object is of a
  kind and has the label of the feature, \<open>sv_List\<close> the error of listing, in one namespace or in all. \<open>sv_Undeploy\<close> is
  \<open>UndeployStaleResource\<close>: its report and what becomes of the object. \<open>sv_IsNoKindMatch\<close> is what \<open>errors.Is\<close> says of an error of the mapper and
  a new \<open>NoKindMatchError\<close>. \<open>sv_RestConfig True\<close> is the configuration for the administrator
  of the profile, \<open>sv_RestConfig False\<close> that of the controller itself, which is nil in pull mode.
\<close>

abbreviation own_env :: "'e resource_env_scheme \<Rightarrow> charts_env" where
  "own_env env \<equiv> sv_Charts env"

definition in_resource :: "(helm_world \<Rightarrow> 'a \<times> helm_world) \<Rightarrow> 's resource_world \<Rightarrow> 'a \<times> 's resource_world" where
  "in_resource f w = (case f (rw_Helm w) of (r, h) \<Rightarrow> (r, w\<lparr>rw_Helm := h\<rparr>))"

text \<open>The cluster a deployment goes to.\<close>

definition physical :: "'e resource_env_scheme \<Rightarrow> bool \<Rightarrow> bool" where
  "physical env mgmt \<longleftrightarrow> mgmt \<or> sv_SelfManaged env"

definition objects_at :: "'e resource_env_scheme \<Rightarrow> bool \<Rightarrow> 's resource_world \<Rightarrow> unstructured list" where
  "objects_at env mgmt w = rw_Objects w (physical env mgmt)"

definition set_objects :: "'e resource_env_scheme \<Rightarrow> bool \<Rightarrow> unstructured list \<Rightarrow> 's resource_world \<Rightarrow> 's resource_world" where
  "set_objects env mgmt xs w = w\<lparr>rw_Objects := (rw_Objects w)(physical env mgmt := xs)\<rparr>"

definition object_id :: "unstructured \<Rightarrow> string \<times> string \<times> string \<times> string" where
  "object_id u = (gvk_Group (gvk_of u), un_Kind u, un_Namespace u, un_Name u)"

definition put_object :: "unstructured \<Rightarrow> unstructured list \<Rightarrow> unstructured list" where
  "put_object u xs =
     (if list_ex (\<lambda>x. object_id x = object_id u) xs then map (\<lambda>x. if object_id x = object_id u then u else x) xs else xs @ [u])"

section \<open>References\<close>

record referenced_object =
  ro_Reference :: object_reference
  ro_Tier :: int
  ro_SkipNamespaceCreation :: bool
  ro_Force :: bool
  ro_Optional :: bool
  ro_Path :: string
  ro_URL :: string
  ro_IsTemplate :: bool
  ro_SecretRef :: "secret_reference option"
  ro_InsecureSkipTLSVerify :: bool
  ro_PlainHTTP :: bool

definition no_reference :: referenced_object where
  "no_reference = \<lparr>ro_Reference = \<lparr>ref_Kind = [], ref_Namespace = [], ref_Name = [], ref_APIVersion = []\<rparr>, ro_Tier = 0,
     ro_SkipNamespaceCreation = False, ro_Force = False, ro_Optional = False, ro_Path = [], ro_URL = [], ro_IsTemplate = False,
     ro_SecretRef = None, ro_InsecureSkipTLSVerify = False, ro_PlainHTTP = False\<rparr>"

definition setCommonReferencedObjectFields :: "policy_ref \<Rightarrow> referenced_object \<Rightarrow> referenced_object" where
  "setCommonReferencedObjectFields reference obj =
     obj\<lparr>ro_Tier := pr_Tier reference, ro_Optional := pr_Optional reference,
       ro_SkipNamespaceCreation := pr_SkipNamespaceCreation reference, ro_Force := pr_Force reference\<rparr>"

definition url_reference :: "policy_ref \<Rightarrow> remote_url \<Rightarrow> referenced_object" where
  "url_reference reference url = setCommonReferencedObjectFields reference
     (no_reference\<lparr>ro_Reference := \<lparr>ref_Kind = ''URL'', ref_Namespace = [], ref_Name = ru_URL url, ref_APIVersion = []\<rparr>,
        ro_URL := ru_URL url, ro_IsTemplate := ru_Template url, ro_SecretRef := ru_SecretRef url,
        ro_InsecureSkipTLSVerify := ru_InsecureSkipTLSVerify url, ro_PlainHTTP := ru_PlainHTTP url\<rparr>)"

definition object_of_kind :: "string \<Rightarrow> string \<Rightarrow> string \<Rightarrow> policy_ref \<Rightarrow> referenced_object" where
  "object_of_kind apiVersion kind path reference = setCommonReferencedObjectFields reference
     (no_reference\<lparr>ro_Reference := \<lparr>ref_Kind = kind, ref_Namespace = pr_Namespace reference, ref_Name = pr_Name reference,
        ref_APIVersion = apiVersion\<rparr>, ro_Path := path\<rparr>)"

text \<open>A reference of another kind stays an empty object.\<close>

definition object_reference_of :: "'e refs_env_scheme \<Rightarrow> policy_ref \<Rightarrow> referenced_object" where
  "object_reference_of env reference =
     (let k = pr_Kind reference; r = fe_Ref env in
      if k = rf_ConfigMapKind r then object_of_kind ''v1'' (rf_ConfigMapKind r) [] reference
      else if k = rf_SecretKind r then object_of_kind ''v1'' (rf_SecretKind r) [] reference
      else if k = rf_GitRepositoryKind r then object_of_kind (rf_FluxVersion r) (rf_GitRepositoryKind r) (pr_Path reference) reference
      else if k = rf_OCIRepositoryKind r then object_of_kind (rf_FluxVersion r) (rf_OCIRepositoryKind r) (pr_Path reference) reference
      else if k = rf_BucketKind r then object_of_kind (rf_FluxVersion r) (rf_BucketKind r) (pr_Path reference) reference
      else no_reference)"

definition collect_reference :: "'e refs_env_scheme \<Rightarrow> policy_ref \<Rightarrow> referenced_object" where
  "collect_reference env reference =
     (case pr_RemoteURL reference of Some url \<Rightarrow> url_reference reference url | None \<Rightarrow> object_reference_of env reference)"

definition collectReferencedObjects :: "'e refs_env_scheme \<Rightarrow> policy_ref list \<Rightarrow> referenced_object list \<times> referenced_object list" where
  "collectReferencedObjects env references =
     (map (collect_reference env) (filter (\<lambda>r. pr_DeploymentType r = DeploymentTypeLocal) references),
      map (collect_reference env) (filter (\<lambda>r. pr_DeploymentType r \<noteq> DeploymentTypeLocal) references))"

text \<open>The object behind a reference, with the name it was fetched under. A source carries the path of its reference.\<close>

datatype content_object = Content_ConfigMap config_map | Content_Secret secret_object | Content_Source flux_source

definition missing_reference :: "referenced_object \<Rightarrow> string \<Rightarrow> dep_error + 'a option" where
  "missing_reference reference name =
     (if ro_Optional reference then Inr None
      else Inl \<lparr>err_Msg = ''Referenced resource: '' @ ref_Kind (ro_Reference reference) @ '' '' @
          ref_Namespace (ro_Reference reference) @ ''/'' @ name @ '' does not exist'', err_Chain = [NonRetriableError]\<rparr>)"

definition fetch_content :: "'e refs_env_scheme \<Rightarrow> string \<Rightarrow> string \<times> string \<Rightarrow> dep_error + content_object option" where
  "fetch_content env kind name =
     (if kind = rf_ConfigMapKind (fe_Ref env) then map_sum id (Some \<circ> Content_ConfigMap) (getConfigMap env name)
      else if kind = rf_SecretKind (fe_Ref env) then map_sum id (Some \<circ> Content_Secret) (getSecret env name)
      else map_sum id (map_option Content_Source) (getSource env kind name))"

definition getReferencedObject :: "'e refs_env_scheme \<Rightarrow> cluster_summary \<Rightarrow> referenced_object \<Rightarrow>
    dep_error + ((string \<times> string) \<times> content_object) option" where
  "getReferencedObject env cs reference =
     (let ref = ro_Reference reference in
      case instantiate_ref (fe_Ref env) cs (ref_Namespace ref) (ref_Name ref) of
        Inl msg \<Rightarrow> Inl (template_error (''failed to instantiate '' @ ref_Kind ref @ '' '' @ ref_Namespace ref @ ''/'' @
          ref_Name ref @ '': '' @ msg))
      | Inr (namespace, name) \<Rightarrow>
          (case fetch_content env (ref_Kind ref) (namespace, name) of
             Inl e \<Rightarrow> if errors_As e NotFoundError then missing_reference reference name else Inl e
           | Inr None \<Rightarrow> Inr None
           | Inr (Some obj) \<Rightarrow> Inr (Some ((namespace, name), obj))))"

section \<open>Resources in the content\<close>

text \<open>\<open>k\<close> runs over the sections in the order the map is walked in.\<close>

definition instantiate_section :: "'e resource_env_scheme \<Rightarrow> cluster_summary \<Rightarrow> cluster_objects \<Rightarrow> mgmt_resources \<Rightarrow> bool \<Rightarrow> bool \<Rightarrow>
    string \<Rightarrow> dep_error + string" where
  "instantiate_section env cs objs mgmtResources templated lua section =
     (case (if templated then instantiateTemplateValues env cs (om_Name (cs_Meta cs)) section objs mgmtResources
            else if lua then sv_Lua env cs section mgmtResources
            else Inr section) of
        Inl e \<Rightarrow> Inl (prefixed (''failed to instantiate policy from Data '' @ take 100 section) e)
      | Inr s \<Rightarrow> Inr s)"

fun section_policies :: "'e resource_env_scheme \<Rightarrow> string list \<Rightarrow> dep_error + unstructured list" where
  "section_policies env [] = Inr []"
| "section_policies env (element # elements) =
     (case sv_GetUnstructured env element of
        Inl e \<Rightarrow> Inl (prefixed (''failed to get policy from Data '' @ take 100 element) e)
      | Inr policy \<Rightarrow>
          (case section_policies env elements of Inl e \<Rightarrow> Inl e | Inr ps \<Rightarrow> Inr (slice policy @ ps)))"

fun collectContent :: "'e resource_env_scheme \<Rightarrow> cluster_summary \<Rightarrow> cluster_objects \<Rightarrow> mgmt_resources \<Rightarrow> bool \<Rightarrow> bool \<Rightarrow>
    (string \<times> string) list \<Rightarrow> dep_error + unstructured list" where
  "collectContent env cs objs mgmtResources templated lua [] = Inr []"
| "collectContent env cs objs mgmtResources templated lua ((k, section) # data) =
     (case instantiate_section env cs objs mgmtResources templated lua section of
        Inl e \<Rightarrow> Inl e
      | Inr s \<Rightarrow>
          (case sv_Split env s of
             Inl e \<Rightarrow> Inl (prefixed (''failed to split Data '' @ take 100 s) e)
           | Inr elements \<Rightarrow>
               (case section_policies env elements of
                  Inl e \<Rightarrow> Inl e
                | Inr ps \<Rightarrow>
                    (case collectContent env cs objs mgmtResources templated lua data of
                       Inl e \<Rightarrow> Inl e | Inr qs \<Rightarrow> Inr (ps @ qs)))))"

definition applyPatches :: "'e resource_env_scheme \<Rightarrow> cluster_summary \<Rightarrow> mgmt_resources \<Rightarrow> unstructured list \<Rightarrow>
    dep_error + unstructured list" where
  "applyPatches env cs mgmtResources referencedUnstructured =
     (case instantiatedPatches env cs ''patch'' mgmtResources of
        Inl e \<Rightarrow> Inl e
      | Inr patches \<Rightarrow> if patches \<noteq> [] then sv_Patch env patches referencedUnstructured else Inr referencedUnstructured)"

definition isCustomResourceDefinition :: "unstructured \<Rightarrow> bool" where
  "isCustomResourceDefinition r \<longleftrightarrow> un_APIVersion r = ''apiextensions.k8s.io/v1'' \<and> un_Kind r = ''CustomResourceDefinition''"

fun partition_crds :: "unstructured list \<Rightarrow> unstructured list \<Rightarrow> unstructured list \<Rightarrow> unstructured list" where
  "partition_crds crds others [] = crds @ others"
| "partition_crds crds others (r # rs) =
     (if isCustomResourceDefinition r then partition_crds (crds @ [r]) others rs else partition_crds crds (others @ [r]) rs)"

definition partitionCRDsFirst :: "unstructured list \<Rightarrow> unstructured list" where
  "partitionCRDsFirst resources = partition_crds [] [] resources"

section \<open>Namespaces\<close>

text \<open>The mapper is asked once and, as long as it does not know the kind, three times more after a refresh.\<close>

fun ask_mapper :: "nat \<Rightarrow> nat \<Rightarrow> (nat \<Rightarrow> mapping_answer) \<Rightarrow> dep_error \<Rightarrow> dep_error + bool" where
  "ask_mapper 0 attempt f err = Inl err"
| "ask_mapper (Suc n) attempt f err =
     (case f attempt of
        Mapped namespaced \<Rightarrow> Inr namespaced
      | No_Match e \<Rightarrow> ask_mapper n (Suc attempt) f e
      | Mapping_Error e \<Rightarrow> Inl e)"

definition isNamespaced :: "'e resource_env_scheme \<Rightarrow> bool \<Rightarrow> unstructured \<Rightarrow> dep_error + bool" where
  "isNamespaced env mgmt r =
     (case (if mgmt then None else sv_Mapper env) of
        Some e \<Rightarrow> Inl e
      | None \<Rightarrow>
          (case sv_Mapping env mgmt 0 (gvk_of r) of
             Mapped namespaced \<Rightarrow> Inr namespaced
           | Mapping_Error e \<Rightarrow> Inl e
           | No_Match e \<Rightarrow>
               map_sum (prefixed (''GVK '' @ gvk_text (gvk_of r) @ '' not found on remote cluster'')) id
                 (ask_mapper 3 1 (\<lambda>i. sv_Mapping env mgmt i (gvk_of r)) e)))"

definition adjustNamespace :: "'e resource_env_scheme \<Rightarrow> bool \<Rightarrow> unstructured \<Rightarrow> dep_error + unstructured" where
  "adjustNamespace env mgmt policy =
     (case isNamespaced env mgmt policy of
        Inl e \<Rightarrow> Inl e
      | Inr True \<Rightarrow> Inr (if un_Namespace policy = [] then policy\<lparr>un_Namespace := ''default''\<rparr> else policy)
      | Inr False \<Rightarrow> Inr (if un_Namespace policy \<noteq> [] then policy\<lparr>un_Namespace := []\<rparr> else policy))"

definition isResourceNamespaceValid :: "profile \<Rightarrow> unstructured \<Rightarrow> bool \<Rightarrow> bool" where
  "isResourceNamespaceValid profile policy deployingToMgmtCluster =
     (if prof_Kind profile = ProfileKind then
        (if deployingToMgmtCluster \<and> un_Namespace policy \<noteq> om_Namespace (prof_Meta profile) then False else True)
      else True)"

section \<open>Annotations that scope the clean-up\<close>

definition clusterAnnotation :: string where "clusterAnnotation = ''projectsveltos.io/cluster''"
definition clusterSummaryAnnotation :: string where "clusterSummaryAnnotation = ''projectsveltos.io/clustersummary''"
definition deploymentTypeAnnotation :: string where "deploymentTypeAnnotation = ''projectsveltos.io/deploymenttype''"

definition getClusterAnnotationValue :: "cluster_summary \<Rightarrow> string" where
  "getClusterAnnotationValue cs = GetPrefix (css_ClusterType (cs_Spec cs)) @ ''/'' @ css_ClusterNamespace (cs_Spec cs) @ ''/'' @
     css_ClusterName (cs_Spec cs)"

definition getClusterSummaryAnnotationValue :: "cluster_summary \<Rightarrow> string" where
  "getClusterSummaryAnnotationValue cs = GetPrefix (css_ClusterType (cs_Spec cs)) @ ''-'' @ css_ClusterNamespace (cs_Spec cs) @ ''-'' @
     css_ClusterName (cs_Spec cs)"

definition deployment_text :: "bool \<Rightarrow> string" where
  "deployment_text mgmt = (if mgmt then ''Local'' else ''Remote'')"

definition addStaleResourceScopingAnnotations :: "'e resource_env_scheme \<Rightarrow> bool \<Rightarrow> cluster_summary \<Rightarrow> unstructured \<Rightarrow> unstructured" where
  "addStaleResourceScopingAnnotations env deployingToMgmtCluster cs policy =
     sv_AddAnnotation env deploymentTypeAnnotation (deployment_text deployingToMgmtCluster)
       (sv_AddAnnotation env clusterAnnotation (getClusterAnnotationValue cs) policy)"

definition getClusterScopingAnnotation :: "unstructured \<Rightarrow> bool \<Rightarrow> cluster_summary \<Rightarrow> string \<times> string" where
  "getClusterScopingAnnotation resource isMgmtCluster cs =
     (if map_of (un_Annotations resource) clusterAnnotation \<noteq> None then (clusterAnnotation, getClusterAnnotationValue cs)
      else if map_of (un_Annotations resource) clusterSummaryAnnotation \<noteq> None \<or> isMgmtCluster
      then (clusterSummaryAnnotation, getClusterSummaryAnnotationValue cs)
      else ([], []))"

section \<open>Earlier owners\<close>

fun requeue_owners :: "'e ownership_env_scheme \<Rightarrow> feature_id \<Rightarrow> cluster_summary \<Rightarrow> (string \<times> string) list \<Rightarrow> helm_world \<Rightarrow>
    dep_error option \<times> helm_world" where
  "requeue_owners env featureID cs [] w = (None, w)"
| "requeue_owners env featureID cs ((kind, name) # owners) w =
     (if kind \<noteq> ClusterProfileKind \<and> kind \<noteq> ProfileKind then requeue_owners env featureID cs owners w
      else case GetClusterSummary (oe_List env (hw_Store w)) kind name (css_ClusterNamespace (cs_Spec cs))
                  (css_ClusterName (cs_Spec cs)) (css_ClusterType (cs_Spec cs)) of
        Inl ApiNotFound \<Rightarrow> requeue_owners env featureID cs owners w
      | Inl e \<Rightarrow> (Some (api_err e), w)
      | Inr owner \<Rightarrow>
          (case requeueClusterSummary env featureID owner w of
             (Some e, w) \<Rightarrow> (Some e, w)
           | (None, w) \<Rightarrow> requeue_owners env featureID cs owners w))"

definition requeueAllOldOwners :: "'e resource_env_scheme \<Rightarrow> resource_info \<Rightarrow> feature_id \<Rightarrow> cluster_summary \<Rightarrow> helm_world \<Rightarrow>
    dep_error option \<times> helm_world" where
  "requeueAllOldOwners env info featureID cs w =
     (let annotations = rin_Annotations info;
          named = lookup_default [] annotations (sv_OwnerName env);
          profileOwners = rin_OwnerReferences info @
            (if named \<noteq> [] then [(lookup_default [] annotations (sv_OwnerKind env), named)] else [])
      in requeue_owners (own_env env) featureID cs profileOwners w)"

section \<open>Deploying resources\<close>

record deploy_target =
  dt_Mgmt :: bool
  dt_Config :: "rest_config option"
  dt_Ref :: object_reference
  dt_Tier :: int
  dt_SkipNamespaceCreation :: bool
  dt_Force :: bool
  dt_Feature :: feature_id
  dt_Subresources :: "string list"

record deploy_sums =
  ds_Reports :: "resource_report list"
  ds_ConflictMsg :: string
  ds_ErrorMsg :: string

text \<open>A step of the loop goes on with what was collected so far, or the function returns reports and an error.\<close>

datatype deploy_step = Next deploy_sums | Return "resource_report list" dep_error

definition bool_word :: "bool \<Rightarrow> string" where
  "bool_word b = (if b then ''true'' else ''false'')"

definition deploy_error_prefix :: "bool \<Rightarrow> unstructured \<Rightarrow> string" where
  "deploy_error_prefix mgmt policy = ''deploying resource '' @ un_Kind policy @ '' '' @ un_Namespace policy @ ''/'' @ un_Name policy @
     '' (deploy to management cluster: '' @ bool_word mgmt @ '') failed''"

definition recordResourceApplyError :: "'e resource_env_scheme \<Rightarrow> resource_report list \<Rightarrow> sync_mode \<Rightarrow> policy_resource \<Rightarrow> dep_error \<Rightarrow>
    resource_report list" where
  "recordResourceApplyError env reports syncMode resource err =
     (if syncMode \<noteq> SyncModeDryRun then reports else reports @ [sv_ErrorReport env resource err])"

text \<open>The calls before \<open>CanDeployResource\<close> that end the function.\<close>

definition prepare_target :: "'e resource_env_scheme \<Rightarrow> deploy_target \<Rightarrow> cluster_summary \<Rightarrow> unstructured \<Rightarrow> dep_error option" where
  "prepare_target env t cs policy =
     (case (if dt_SkipNamespaceCreation t then None
            else sv_CreateNamespace env (dt_Mgmt t) (is_dry_run cs) (un_Namespace policy)) of
        Some e \<Rightarrow> Some e
      | None \<Rightarrow> sv_Interface env (dt_Config t) (gvk_of policy) (un_Namespace policy))"

definition conflict_step :: "'e resource_env_scheme \<Rightarrow> deploy_target \<Rightarrow> cluster_summary \<Rightarrow> policy_resource \<Rightarrow> deploy_sums \<Rightarrow> 's resource_world \<Rightarrow>
    deploy_step" where
  "conflict_step env t cs resource sums w =
     (let report = sv_ConflictReport env (objects_at env (dt_Mgmt t) w) resource in
      if is_dry_run cs then Next (sums\<lparr>ds_Reports := ds_Reports sums @ [report]\<rparr>)
      else
        let conflictErrorMsg = ds_ConflictMsg sums @ rrp_Message report in
        if ps_ContinueOnConflict (cs_ProfileSpec cs) then Next (sums\<lparr>ds_ConflictMsg := conflictErrorMsg\<rparr>)
        else Return (ds_Reports sums) (sv_ConflictError env conflictErrorMsg))"

definition with_metadata :: "'e resource_env_scheme \<Rightarrow> deploy_target \<Rightarrow> cluster_summary \<Rightarrow> profile \<Rightarrow> resource_info \<Rightarrow> unstructured \<Rightarrow>
    unstructured" where
  "with_metadata env t cs profile info policy =
     addStaleResourceScopingAnnotations env (dt_Mgmt t) cs
       (sv_AddMetadata env (rin_ResourceVersion info) profile (ps_ExtraLabels (cs_ProfileSpec cs))
          (ps_ExtraAnnotations (cs_ProfileSpec cs)) policy)"

definition UpdateResource :: "'e resource_env_scheme \<Rightarrow> deploy_target \<Rightarrow> cluster_summary \<Rightarrow> unstructured \<Rightarrow> 's resource_world \<Rightarrow>
    (unstructured option \<times> dep_error option) \<times> 's resource_world" where
  "UpdateResource env t cs policy w =
     (case sv_Update env (dt_Config t) (objects_at env (dt_Mgmt t) w)
             (ps_SyncMode (cs_ProfileSpec cs) = SyncModeContinuousWithDriftDetection) (is_dry_run cs) (dt_Force t)
             (slice (ps_DriftExclusions (cs_ProfileSpec cs))) policy (dt_Subresources t) of
        (None, err) \<Rightarrow> ((None, err), w)
      | (Some u, err) \<Rightarrow>
          ((Some u, err),
           if is_dry_run cs then w else set_objects env (dt_Mgmt t) (put_object u (objects_at env (dt_Mgmt t) w)) w))"

definition apply_step :: "'e resource_env_scheme \<Rightarrow> deploy_target \<Rightarrow> cluster_summary \<Rightarrow> unstructured \<Rightarrow> string \<Rightarrow> policy_resource \<Rightarrow> string \<Rightarrow>
    resource_info \<Rightarrow> deploy_sums \<Rightarrow> 's resource_world \<Rightarrow> deploy_step \<times> 's resource_world" where
  "apply_step env t cs policy errorPrefix resource policyHash info sums w =
     (case UpdateResource env t cs policy w of
        ((updatedPolicy, err), w) \<Rightarrow>
          let resource1 = (if updatedPolicy = None then resource else resource\<lparr>plr_LastAppliedTime := Some (sv_Now env)\<rparr>);
              reports = ds_Reports sums @ (case updatedPolicy of None \<Rightarrow> [] | Some u \<Rightarrow> [sv_Report env policyHash info u resource1])
          in (case err of
                None \<Rightarrow> Next (sums\<lparr>ds_Reports := reports\<rparr>)
              | Some e \<Rightarrow>
                  let reports = recordResourceApplyError env reports (ps_SyncMode (cs_ProfileSpec cs)) resource1 e in
                  if ps_ContinueOnError (cs_ProfileSpec cs) then
                    Next (sums\<lparr>ds_Reports := reports, ds_ErrorMsg := ds_ErrorMsg sums @ errorPrefix @ '': '' @ err_Msg e\<rparr>)
                  else Return reports (prefixed errorPrefix e), w))"

definition take_and_apply :: "'e resource_env_scheme \<Rightarrow> deploy_target \<Rightarrow> cluster_summary \<Rightarrow> profile \<Rightarrow> int \<Rightarrow> string \<Rightarrow> unstructured \<Rightarrow>
    deploy_sums \<Rightarrow> 's resource_world \<Rightarrow> deploy_step \<times> 's resource_world" where
  "take_and_apply env t cs profile profileTier errorPrefix policy sums w =
     (case sv_GetResource env policy (sv_IgnoreDrift env policy) (dt_Ref t) profile profileTier (dt_Tier t) (dt_Feature t) of
        (resource, policyHash) \<Rightarrow>
          (case prepare_target env t cs policy of
             Some e \<Rightarrow> (Return [] (prefixed errorPrefix e), w)
           | None \<Rightarrow>
               (case sv_CanDeploy env (objects_at env (dt_Mgmt t) w) policy (dt_Ref t) profile profileTier (dt_Tier t)
                       (ps_TransitionFrom (cs_ProfileSpec cs)) of
                  Deploy_Refused e \<Rightarrow> (Return (ds_Reports sums) (prefixed errorPrefix e), w)
                | Deploy_Conflict \<Rightarrow> (conflict_step env t cs resource sums w, w)
                | Can_Deploy info requeue \<Rightarrow>
                    (case (if requeue \<and> \<not> is_dry_run cs then in_resource (requeueAllOldOwners env info (dt_Feature t) cs) w
                           else (None, w)) of
                       (Some e, w) \<Rightarrow> (Return (ds_Reports sums) (prefixed errorPrefix e), w)
                     | (None, w) \<Rightarrow>
                         apply_step env t cs (with_metadata env t cs profile info policy) errorPrefix resource policyHash info sums w))))"

text \<open>A profile that is gone is a nil pointer: reading its kind panics.\<close>

definition deploy_resource :: "'e resource_env_scheme \<Rightarrow> deploy_target \<Rightarrow> cluster_summary \<Rightarrow> (profile \<times> int) option \<Rightarrow> unstructured \<Rightarrow>
    deploy_sums \<Rightarrow> 's resource_world \<Rightarrow> deploy_step \<times> 's resource_world" where
  "deploy_resource env t cs owner policy sums w =
     (let errorPrefix = deploy_error_prefix (dt_Mgmt t) policy in
      case adjustNamespace env (dt_Mgmt t) policy of
        Inl e \<Rightarrow>
          if ps_ContinueOnError (cs_ProfileSpec cs) then (Next (sums\<lparr>ds_ErrorMsg := ds_ErrorMsg sums @ err_Msg e\<rparr>), w)
          else (Return [] (prefixed errorPrefix e), w)
      | Inr policy \<Rightarrow>
          (case owner of
             None \<Rightarrow> (Return [] panic_error, w)
           | Some (profile, profileTier) \<Rightarrow>
               if \<not> isResourceNamespaceValid profile policy (dt_Mgmt t)
               then (Return [] (plain_error ''profile can only deploy resource in same namespace in the management cluster''), w)
               else take_and_apply env t cs profile profileTier errorPrefix policy sums w))"

fun deploy_resources :: "'e resource_env_scheme \<Rightarrow> deploy_target \<Rightarrow> cluster_summary \<Rightarrow> (profile \<times> int) option \<Rightarrow> unstructured list \<Rightarrow>
    deploy_sums \<Rightarrow> 's resource_world \<Rightarrow> (resource_report list \<times> dep_error option) \<times> 's resource_world" where
  "deploy_resources env t cs owner [] sums w =
     ((ds_Reports sums, sv_HandleErrors env (ds_ConflictMsg sums) (ds_ErrorMsg sums) (is_dry_run cs)), w)"
| "deploy_resources env t cs owner (policy # policies) sums w =
     (case deploy_resource env t cs owner policy sums w of
        (Next sums, w) \<Rightarrow> deploy_resources env t cs owner policies sums w
      | (Return reports e, w) \<Rightarrow> ((reports, Some e), w))"

definition owner_of :: "'e resource_env_scheme \<Rightarrow> cluster_summary \<Rightarrow> api_error + (profile \<times> int) option" where
  "owner_of env cs = GetProfileOwnerAndTier (oe_group_of (own_env env)) (sv_get_profile env) cs"

definition deployUnstructured :: "'e resource_env_scheme \<Rightarrow> deploy_target \<Rightarrow> unstructured list \<Rightarrow> cluster_summary \<Rightarrow> 's resource_world \<Rightarrow>
    (resource_report list \<times> dep_error option) \<times> 's resource_world" where
  "deployUnstructured env t referencedUnstructured cs w =
     (case owner_of env cs of
        Inl e \<Rightarrow> (([], Some (api_err e)), w)
      | Inr owner \<Rightarrow>
          deploy_resources env t cs owner referencedUnstructured \<lparr>ds_Reports = [], ds_ConflictMsg = [], ds_ErrorMsg = []\<rparr> w)"

section \<open>Deploying the content of a reference\<close>

record deployment_context =
  dc_Objects :: cluster_objects
  dc_MgmtResources :: mgmt_resources

definition empty_resource :: policy_resource where
  "empty_resource = \<lparr>plr_Name = [], plr_Namespace = [], plr_Kind = [], plr_Group = [], plr_Version = [],
     plr_IgnoreForConfigurationDrift = False, plr_LastAppliedTime = None\<rparr>"

text \<open>The reports of \<open>prepareReports\<close> in the type of the reports of resources: of each only the resource is set.\<close>

definition staged_reports :: "unstructured list \<Rightarrow> resource_report list" where
  "staged_reports resources = map (\<lambda>r. \<lparr>rrp_Resource = empty_resource\<lparr>plr_Name := hrr_Name r, plr_Namespace := hrr_Namespace r,
     plr_Kind := hrr_Kind r, plr_Group := hrr_Group r, plr_Version := hrr_Version r\<rparr>, rrp_Action = [], rrp_Message = []\<rparr>)
     (prepareReports resources)"

definition prepareBundleSettersWithResourceInfo :: "string \<Rightarrow> string \<Rightarrow> string \<Rightarrow> int \<Rightarrow> bool \<Rightarrow> bool \<Rightarrow> bundle_info" where
  "prepareBundleSettersWithResourceInfo referenceKind referenceNamespace referenceName tier skipNamespaceCreation force =
     \<lparr>bui_Kind = referenceKind, bui_Namespace = referenceNamespace, bui_Name = referenceName, bui_Tier = tier,
       bui_SkipNamespaceCreation = skipNamespaceCreation, bui_Force = force\<rparr>"

definition stage_resources :: "'e resource_env_scheme \<Rightarrow> deploy_target \<Rightarrow> unstructured list \<Rightarrow> 's resource_world \<Rightarrow>
    dep_error option \<times> 's resource_world" where
  "stage_resources env t resources w =
     (let ref = dt_Ref t; key = ref_Kind ref @ ''-'' @ ref_Namespace ref @ ''-'' @ ref_Name ref;
          info = prepareBundleSettersWithResourceInfo (ref_Kind ref) (ref_Namespace ref) (ref_Name ref) (dt_Tier t)
            (dt_SkipNamespaceCreation t) (dt_Force t) in
      case sv_Stage env key of Some e \<Rightarrow> (Some e, w) | None \<Rightarrow> (None, w\<lparr>rw_Staged := rw_Staged w @ [(key, info, resources)]\<rparr>))"

definition target_of :: "bool \<Rightarrow> rest_config option \<Rightarrow> referenced_object \<Rightarrow> object_reference \<Rightarrow> string list \<Rightarrow> deploy_target" where
  "target_of mgmt config reference ref subresources = \<lparr>dt_Mgmt = mgmt, dt_Config = config, dt_Ref = ref, dt_Tier = ro_Tier reference,
     dt_SkipNamespaceCreation = ro_SkipNamespaceCreation reference, dt_Force = ro_Force reference, dt_Feature = FeatureResources,
     dt_Subresources = subresources\<rparr>"

definition collected_resources :: "'e resource_env_scheme \<Rightarrow> cluster_summary \<Rightarrow> deployment_context \<Rightarrow> (string \<times> string) list option \<Rightarrow>
    (string \<times> string) list \<Rightarrow> dep_error + unstructured list" where
  "collected_resources env cs ctx annotations data =
     (case collectContent env cs (dc_Objects ctx) (dc_MgmtResources ctx) (instantiateTemplate env annotations)
             (instantiateWithLua env annotations) data of
        Inl e \<Rightarrow> Inl e
      | Inr resources \<Rightarrow> map_sum id partitionCRDsFirst (applyPatches env cs (dc_MgmtResources ctx) resources))"

definition deployContent :: "'e resource_env_scheme \<Rightarrow> bool \<Rightarrow> rest_config option \<Rightarrow> object_reference \<Rightarrow> (string \<times> string) list option \<Rightarrow>
    (string \<times> string) list \<Rightarrow> referenced_object \<Rightarrow> cluster_summary \<Rightarrow> deployment_context \<Rightarrow> 's resource_world \<Rightarrow>
    (resource_report list \<times> dep_error option) \<times> 's resource_world" where
  "deployContent env mgmt config ref annotations data reference cs ctx w =
     (case collected_resources env cs ctx annotations data of
        Inl e \<Rightarrow> (([], Some e), w)
      | Inr resources \<Rightarrow>
          (let t = target_of mgmt config reference ref (slice (getSubresources annotations)) in
           if config = None \<and> \<not> mgmt then
             (case stage_resources env t resources w of (err, w) \<Rightarrow> ((staged_reports resources, err), w))
           else deployUnstructured env t resources cs w))"

definition content_reference :: "string \<Rightarrow> string \<times> string \<Rightarrow> object_reference" where
  "content_reference kind name = \<lparr>ref_Kind = kind, ref_Namespace = fst name, ref_Name = snd name, ref_APIVersion = []\<rparr>"

definition prefix_error :: "string \<Rightarrow> (resource_report list \<times> dep_error option) \<times> 's resource_world \<Rightarrow>
    (resource_report list \<times> dep_error option) \<times> 's resource_world" where
  "prefix_error msg r = (case r of ((reports, err), w) \<Rightarrow> ((reports, map_option (prefixed msg) err), w))"

definition deployContentOfConfigMap :: "'e resource_env_scheme \<Rightarrow> bool \<Rightarrow> rest_config option \<Rightarrow> string \<times> string \<Rightarrow> config_map \<Rightarrow>
    referenced_object \<Rightarrow> cluster_summary \<Rightarrow> deployment_context \<Rightarrow> 's resource_world \<Rightarrow>
    (resource_report list \<times> dep_error option) \<times> 's resource_world" where
  "deployContentOfConfigMap env mgmt config name configMap reference cs ctx w =
     prefix_error (''processing ConfigMap '' @ fst name @ ''/'' @ snd name)
       (deployContent env mgmt config (content_reference (rf_ConfigMapKind (fe_Ref env)) name) (cfm_Annotations configMap)
          (cfm_Data configMap) reference cs ctx w)"

definition deployContentOfSecret :: "'e resource_env_scheme \<Rightarrow> bool \<Rightarrow> rest_config option \<Rightarrow> string \<times> string \<Rightarrow> secret_object \<Rightarrow>
    referenced_object \<Rightarrow> cluster_summary \<Rightarrow> deployment_context \<Rightarrow> 's resource_world \<Rightarrow>
    (resource_report list \<times> dep_error option) \<times> 's resource_world" where
  "deployContentOfSecret env mgmt config name secret reference cs ctx w =
     prefix_error (''processing Secret '' @ fst name @ ''/'' @ snd name)
       (deployContent env mgmt config (content_reference (rf_SecretKind (fe_Ref env)) name) (sco_Annotations secret)
          (sco_Data secret) reference cs ctx w)"

text \<open>The files below a directory, by their path relative to it.\<close>

definition files_below :: "string \<Rightarrow> disk \<Rightarrow> (string \<times> bytes) list" where
  "files_below dir d = map (\<lambda>(p, content). (drop (length dir + 1) p, content))
     (filter (\<lambda>(p, _). has_prefix (dir @ ''/'') p) (dk_Files d))"

definition readFiles :: "'e resource_env_scheme \<Rightarrow> string \<Rightarrow> disk \<Rightarrow> dep_error + (string \<times> string) list" where
  "readFiles env dir d = (case sv_OpenRoot env dir d of Some e \<Rightarrow> Inl e | None \<Rightarrow> Inr (files_below dir d))"

text \<open>The path is joined to the directory as it is: one with \<open>..\<close> leaves the directory.\<close>

definition source_content :: "'e resource_env_scheme \<Rightarrow> cluster_summary \<Rightarrow> deployment_context \<Rightarrow> string \<Rightarrow> string \<Rightarrow> disk \<Rightarrow>
    dep_error + (string \<times> string) list" where
  "source_content env cs ctx tmpDir path d =
     (case instantiateTemplateValues env cs (om_Name (cs_Meta cs)) path (dc_Objects ctx) (dc_MgmtResources ctx) of
        Inl e \<Rightarrow> Inl e
      | Inr instantiatedPath \<Rightarrow>
          (let dirPath = path_join tmpDir instantiatedPath in
           case sv_Stat env dirPath d of Some e \<Rightarrow> Inl e | None \<Rightarrow> readFiles env dirPath d))"

definition in_disk :: "(disk \<Rightarrow> 'a \<times> disk) \<Rightarrow> 's resource_world \<Rightarrow> 'a \<times> 's resource_world" where
  "in_disk f w = (case f (rw_Disk w) of (r, d) \<Rightarrow> (r, w\<lparr>rw_Disk := d\<rparr>))"

definition deployContentOfSource :: "'e resource_env_scheme \<Rightarrow> bool \<Rightarrow> rest_config option \<Rightarrow> string \<times> string \<Rightarrow> flux_source \<Rightarrow>
    referenced_object \<Rightarrow> cluster_summary \<Rightarrow> deployment_context \<Rightarrow> 's resource_world \<Rightarrow>
    (resource_report list \<times> dep_error option) \<times> 's resource_world" where
  "deployContentOfSource env mgmt config name source reference cs ctx w =
     (case in_disk (prepareFileSystemWithFluxSource env source) w of
        (Inl e, w) \<Rightarrow> (([], Some e), w)
      | (Inr tmpDir, w) \<Rightarrow>
          if tmpDir = [] then (([], None), w)
          else
            (case (case source_content env cs ctx tmpDir (ro_Path reference) (rw_Disk w) of
                     Inl e \<Rightarrow> (([], Some e), w)
                   | Inr content \<Rightarrow>
                       deployContent env mgmt config
                         (content_reference (sv_SourceKind env (ref_Kind (ro_Reference reference))) name)
                         (Some (AList.update ''path'' (ro_Path reference) (slice (fls_Annotations source)))) content reference cs ctx w) of
               (r, w) \<Rightarrow> (r, w\<lparr>rw_Disk := remove_all tmpDir (rw_Disk w)\<rparr>)))"

definition deployContentOfURL :: "'e resource_env_scheme \<Rightarrow> bool \<Rightarrow> rest_config option \<Rightarrow> referenced_object \<Rightarrow> cluster_summary \<Rightarrow>
    deployment_context \<Rightarrow> 's resource_world \<Rightarrow> (resource_report list \<times> dep_error option) \<times> 's resource_world" where
  "deployContentOfURL env mgmt config reference cs ctx w =
     (case instantiateRemoteURL env cs (ro_URL reference) of
        Inl e \<Rightarrow> (([], Some (template_error (''failed to instantiate URL '' @ ro_URL reference @ '': '' @ err_Msg e))), w)
      | Inr url \<Rightarrow>
          (case fetchContent env cs url \<lparr>rfo_secretRef = ro_SecretRef reference,
                  rfo_insecureSkipTLSVerify = ro_InsecureSkipTLSVerify reference, rfo_plainHTTP = ro_PlainHTTP reference\<rparr> of
             Inl e \<Rightarrow> (([], if ro_Optional reference then None else Some e), w)
           | Inr body \<Rightarrow>
               deployContent env mgmt config (content_reference [] ([], url))
                 (if ro_IsTemplate reference then Some [(fe_TemplateAnnotation env, ''ok'')] else None)
                 [(''content.yaml'', body)] reference cs ctx w))"

section \<open>Deploying references\<close>

definition deploy_content :: "'e resource_env_scheme \<Rightarrow> bool \<Rightarrow> rest_config option \<Rightarrow> string \<times> string \<Rightarrow> content_object \<Rightarrow> referenced_object \<Rightarrow>
    cluster_summary \<Rightarrow> deployment_context \<Rightarrow> 's resource_world \<Rightarrow> (resource_report list \<times> dep_error option) \<times> 's resource_world" where
  "deploy_content env mgmt config name obj reference cs ctx w =
     (case obj of
        Content_ConfigMap cm \<Rightarrow> deployContentOfConfigMap env mgmt config name cm reference cs ctx w
      | Content_Secret s \<Rightarrow> deployContentOfSecret env mgmt config name s reference cs ctx w
      | Content_Source s \<Rightarrow> deployContentOfSource env mgmt config name s reference cs ctx w)"

text \<open>An error of fetching a reference returns no reports at all, one of deploying it returns those made so far.\<close>

fun deploy_each :: "'e resource_env_scheme \<Rightarrow> bool \<Rightarrow> rest_config option \<Rightarrow> cluster_summary \<Rightarrow> deployment_context \<Rightarrow>
    referenced_object list \<Rightarrow> resource_report list \<Rightarrow> 's resource_world \<Rightarrow>
    (resource_report list \<times> dep_error option) \<times> 's resource_world" where
  "deploy_each env mgmt config cs ctx [] reports w = ((reports, None), w)"
| "deploy_each env mgmt config cs ctx (reference # references) reports w =
     (if ro_URL reference \<noteq> [] then
        (case deployContentOfURL env mgmt config reference cs ctx w of
           ((tmp, Some e), w) \<Rightarrow> ((reports @ tmp, Some e), w)
         | ((tmp, None), w) \<Rightarrow> deploy_each env mgmt config cs ctx references (reports @ tmp) w)
      else
        case getReferencedObject env cs reference of
          Inl e \<Rightarrow> (([], Some e), w)
        | Inr None \<Rightarrow> deploy_each env mgmt config cs ctx references reports w
        | Inr (Some (name, obj)) \<Rightarrow>
            (case deploy_content env mgmt config name obj reference cs ctx w of
               ((tmp, Some e), w) \<Rightarrow> ((reports @ tmp, Some e), w)
             | ((tmp, None), w) \<Rightarrow> deploy_each env mgmt config cs ctx references (reports @ tmp) w))"

definition deployObjects :: "'e resource_env_scheme \<Rightarrow> bool \<Rightarrow> rest_config option \<Rightarrow> referenced_object list \<Rightarrow> cluster_summary \<Rightarrow>
    mgmt_resources \<Rightarrow> 's resource_world \<Rightarrow> (resource_report list \<times> dep_error option) \<times> 's resource_world" where
  "deployObjects env mgmt config referencedObjects cs mgmtResources w =
     (case fetchClusterObjects env cs of
        Inl e \<Rightarrow> (([], Some e), w)
      | Inr objs \<Rightarrow> deploy_each env mgmt config cs \<lparr>dc_Objects = objs, dc_MgmtResources = mgmtResources\<rparr> referencedObjects [] w)"

definition getClusterSummaryAdmin :: "'e resource_env_scheme \<Rightarrow> cluster_summary \<Rightarrow> string \<times> string" where
  "getClusterSummaryAdmin env cs =
     (lookup_default [] (om_Labels (cs_Meta cs)) (sv_AdminNamespaceLabel env), lookup_default [] (om_Labels (cs_Meta cs)) (sv_AdminNameLabel env))"

definition local_config :: "'e resource_env_scheme \<Rightarrow> cluster_summary \<Rightarrow> rest_config" where
  "local_config env cs =
     (case getClusterSummaryAdmin env cs of
        (adminNamespace, adminName) \<Rightarrow>
          if adminName \<noteq> [] then ''system:serviceaccount:'' @ adminNamespace @ '':'' @ adminName else [])"

definition deployReferencedObjects :: "'e resource_env_scheme \<Rightarrow> rest_config option \<Rightarrow> cluster_summary \<Rightarrow> referenced_object list \<Rightarrow>
    referenced_object list \<Rightarrow> 's resource_world \<Rightarrow>
    (resource_report list \<times> resource_report list \<times> dep_error option) \<times> 's resource_world" where
  "deployReferencedObjects env remoteConfig cs objectsToDeployLocally objectsToDeployRemotely w =
     (case collectTemplateResourceRefs env cs of
        Inl e \<Rightarrow>
          (([], [], Some (if errors_As e NotFoundError then e\<lparr>err_Chain := [NonRetriableError]\<rparr> else e)), w)
      | Inr mgmtResources \<Rightarrow>
          (case deployObjects env True (Some (local_config env cs)) objectsToDeployLocally cs mgmtResources w of
             ((localReports, Some e), w) \<Rightarrow> ((localReports, [], Some e), w)
           | ((localReports, None), w) \<Rightarrow>
               (case deployObjects env False remoteConfig objectsToDeployRemotely cs mgmtResources w of
                  ((remoteReports, err), w) \<Rightarrow> ((localReports, remoteReports, err), w))))"

text \<open>\<open>getRefs\<close> of the feature is \<open>getResourceRefs\<close>.\<close>

definition getResourceRefs :: "cluster_summary \<Rightarrow> policy_ref list" where
  "getResourceRefs cs = slice (ps_PolicyRefs (cs_ProfileSpec cs))"

definition deployPolicyRefs :: "'e resource_env_scheme \<Rightarrow> rest_config option \<Rightarrow> cluster_summary \<Rightarrow> 's resource_world \<Rightarrow>
    (resource_report list \<times> resource_report list \<times> dep_error option) \<times> 's resource_world" where
  "deployPolicyRefs env remoteConfig cs w =
     (case collectReferencedObjects env (getResourceRefs cs) of
        (objectsToDeployLocally, objectsToDeployRemotely) \<Rightarrow>
          deployReferencedObjects env remoteConfig cs objectsToDeployLocally objectsToDeployRemotely w)"

end
