(* ===== verification/Resource_Cleanup.thy ===== *)
theory Resource_Cleanup
  imports Resource_Deploy
begin

text \<open>
  Removing what a profile no longer deploys (controllers/handlers_utils.go, handlers_resources.go, handlers_kustomize.go): the objects of
  every kind the feature deployed are listed and those that are stale are removed, in the management cluster and in the
  managed one.
\<close>

section \<open>Kinds\<close>

text \<open>\<open>getDeployedGroupVersionKinds\<close>, with the kinds parsed.\<close>

definition deployed_kinds :: "'e resource_env_scheme \<Rightarrow> cluster_summary \<Rightarrow> feature_id \<Rightarrow> gvk list" where
  "deployed_kinds env cs featureID =
     map (sv_ParseKind env)
       ((case getFeatureSummaryForFeatureID cs featureID of None \<Rightarrow> [] | Some fs \<Rightarrow> fs_DeployedGroupVersionKind fs) @
        (case List.find (\<lambda>d. fdi_FeatureID d = featureID) (cst_DeployedGVKs (cs_Status cs)) of
           None \<Rightarrow> [] | Some d \<Rightarrow> fdi_DeployedGroupVersionKind d))"

section \<open>The objects of a kind\<close>

definition listed_in :: "'e resource_env_scheme \<Rightarrow> feature_id \<Rightarrow> gvk \<Rightarrow> string option \<Rightarrow> unstructured list \<Rightarrow> unstructured list" where
  "listed_in env featureID g ns xs =
     filter (\<lambda>u. sv_Listed env featureID g u \<and> (case ns of None \<Rightarrow> True | Some n \<Rightarrow> un_Namespace u = n)) xs"

fun list_namespaces :: "'e resource_env_scheme \<Rightarrow> feature_id \<Rightarrow> gvk \<Rightarrow> string list \<Rightarrow> unstructured list \<Rightarrow>
    dep_error + unstructured list" where
  "list_namespaces env featureID g [] xs = Inr []"
| "list_namespaces env featureID g (ns # nss) xs =
     (case sv_List env g (Some ns) of
        Some e \<Rightarrow> Inl e
      | None \<Rightarrow> map_sum id (\<lambda>rest. listed_in env featureID g (Some ns) xs @ rest) (list_namespaces env featureID g nss xs))"

definition listDeployedResources :: "'e resource_env_scheme \<Rightarrow> feature_id \<Rightarrow> gvk \<Rightarrow> bool \<Rightarrow> string list \<Rightarrow> unstructured list \<Rightarrow>
    dep_error + unstructured list" where
  "listDeployedResources env featureID g namespaced watchNamespaces xs =
     (if \<not> namespaced \<or> watchNamespaces = [] then
        (case sv_List env g None of Some e \<Rightarrow> Inl e | None \<Rightarrow> Inr (listed_in env featureID g None xs))
      else list_namespaces env featureID g watchNamespaces xs)"

section \<open>Removing stale objects\<close>

definition isManagedClusterDeleted :: "'e resource_env_scheme \<Rightarrow> bool \<Rightarrow> dep_error + bool" where
  "isManagedClusterDeleted env isMgmtCluster =
     (if isMgmtCluster then Inr False
      else case oe_GetCluster (own_env env) of
        Inl ApiNotFound \<Rightarrow> Inr True
      | Inl e \<Rightarrow> Inl (api_err e)
      | Inr (deleted, _) \<Rightarrow> Inr deleted)"

definition setupRemoteConfigAndClient :: "'e resource_env_scheme \<Rightarrow> bool \<Rightarrow> rest_config \<Rightarrow> cluster_summary \<Rightarrow> dep_error + rest_config" where
  "setupRemoteConfigAndClient env isMgmtCluster remoteConfig cs =
     (if isMgmtCluster then (case sv_NewClient env of Some e \<Rightarrow> Inl e | None \<Rightarrow> Inr (local_config env cs)) else Inr remoteConfig)"

definition settle :: "fate \<Rightarrow> unstructured \<Rightarrow> unstructured list \<Rightarrow> unstructured list" where
  "settle f u xs =
     (case f of
        Spared \<Rightarrow> xs
      | Removed \<Rightarrow> filter (\<lambda>x. object_id x \<noteq> object_id u) xs
      | Released v \<Rightarrow> map (\<lambda>x. if object_id x = object_id u then v else x) xs)"

text \<open>What a pass works with: the cluster, the feature, the ClusterSummary, its profile and the keys of what is to stay.\<close>

record cleanup_pass =
  cup_Mgmt :: bool
  cup_Feature :: feature_id
  cup_CS :: cluster_summary
  cup_Profile :: "profile option"
  cup_Current :: "string list"

definition other_deployment :: "bool \<Rightarrow> unstructured \<Rightarrow> bool" where
  "other_deployment isMgmtCluster r =
     (case map_of (un_Annotations r) deploymentTypeAnnotation of None \<Rightarrow> False | Some v \<Rightarrow> v \<noteq> deployment_text isMgmtCluster)"

definition undeploy_item :: "'e resource_env_scheme \<Rightarrow> cleanup_pass \<Rightarrow> unstructured \<Rightarrow> 's resource_world \<Rightarrow>
    (dep_error + resource_report list) \<times> 's resource_world" where
  "undeploy_item env p r w =
     (if other_deployment (cup_Mgmt p) r then (Inr [], w)
      else case getClusterScopingAnnotation r (cup_Mgmt p) (cup_CS p) of
        (key, v) \<Rightarrow>
          (case sv_Undeploy env key v (cup_Profile p) (isLeavePolicies (cup_CS p)) (is_dry_run (cup_CS p)) r (cup_Current p) of
             Inl e \<Rightarrow> (Inl e, w)
           | Inr (report, f) \<Rightarrow>
               (Inr (case report of None \<Rightarrow> [] | Some rr \<Rightarrow> [rr]),
                set_objects env (cup_Mgmt p) (settle f r (objects_at env (cup_Mgmt p) w)) w)))"

fun undeploy_items :: "'e resource_env_scheme \<Rightarrow> cleanup_pass \<Rightarrow> unstructured list \<Rightarrow> resource_report list \<Rightarrow> 's resource_world \<Rightarrow>
    (dep_error + resource_report list) \<times> 's resource_world" where
  "undeploy_items env p [] undeployed w = (Inr undeployed, w)"
| "undeploy_items env p (r # rs) undeployed w =
     (case undeploy_item env p r w of
        (Inl e, w) \<Rightarrow> (Inl e, w)
      | (Inr reports, w) \<Rightarrow> undeploy_items env p rs (undeployed @ reports) w)"

text \<open>A kind that does not exist any more is skipped, provided its error counts as a \<open>NoKindMatchError\<close>.\<close>

fun undeploy_kinds :: "'e resource_env_scheme \<Rightarrow> cleanup_pass \<Rightarrow> string list \<Rightarrow> gvk list \<Rightarrow> resource_report list \<Rightarrow> 's resource_world \<Rightarrow>
    (dep_error + resource_report list) \<times> 's resource_world" where
  "undeploy_kinds env p watchNamespaces [] undeployed w = (Inr undeployed, w)"
| "undeploy_kinds env p watchNamespaces (g # gs) undeployed w =
     (case sv_Mapping env (cup_Mgmt p) 0 g of
        No_Match e \<Rightarrow> if sv_IsNoKindMatch env e then undeploy_kinds env p watchNamespaces gs undeployed w else (Inl e, w)
      | Mapping_Error e \<Rightarrow> (Inl e, w)
      | Mapped namespaced \<Rightarrow>
          (case listDeployedResources env (cup_Feature p) g namespaced watchNamespaces (objects_at env (cup_Mgmt p) w) of
             Inl e \<Rightarrow> (Inl e, w)
           | Inr items \<Rightarrow>
               (case undeploy_items env p items undeployed w of
                  (Inl e, w) \<Rightarrow> (Inl e, w)
                | (Inr undeployed, w) \<Rightarrow> undeploy_kinds env p watchNamespaces gs undeployed w)))"

definition processDeployedGVKs :: "'e resource_env_scheme \<Rightarrow> rest_config \<Rightarrow> gvk list \<Rightarrow> cleanup_pass \<Rightarrow> 's resource_world \<Rightarrow>
    (dep_error + resource_report list) \<times> 's resource_world" where
  "processDeployedGVKs env remoteConfig deployedGVKs p w =
     (case setupRemoteConfigAndClient env (cup_Mgmt p) remoteConfig (cup_CS p) of
        Inl e \<Rightarrow> (Inl e, w)
      | Inr _ \<Rightarrow>
          (case sv_Discovery env of
             Some e \<Rightarrow> (Inl e, w)
           | None \<Rightarrow>
               (case (if cup_Mgmt p then Inr [] else getAgentWatchNamespaces env (cup_CS p)) of
                  Inl e \<Rightarrow> (Inl e, w)
                | Inr watchNamespaces \<Rightarrow> undeploy_kinds env p watchNamespaces deployedGVKs [] w)))"

definition undeployStaleResources :: "'e resource_env_scheme \<Rightarrow> bool \<Rightarrow> rest_config \<Rightarrow> feature_id \<Rightarrow> cluster_summary \<Rightarrow> gvk list \<Rightarrow>
    string list \<Rightarrow> 's resource_world \<Rightarrow> (dep_error + resource_report list) \<times> 's resource_world" where
  "undeployStaleResources env isMgmtCluster remoteConfig featureID cs deployedGVKs currentPolicies w =
     (case isManagedClusterDeleted env isMgmtCluster of
        Inl e \<Rightarrow> (Inl e, w)
      | Inr True \<Rightarrow> (Inr [], w)
      | Inr False \<Rightarrow>
          (case owner_of env cs of
             Inl e \<Rightarrow> (Inl (api_err e), w)
           | Inr owner \<Rightarrow>
               processDeployedGVKs env remoteConfig deployedGVKs \<lparr>cup_Mgmt = isMgmtCluster, cup_Feature = featureID, cup_CS = cs,
                 cup_Profile = map_option fst owner, cup_Current = currentPolicies\<rparr> w))"

section \<open>Both clusters\<close>

definition current_policies :: "'e resource_env_scheme \<Rightarrow> resource_report list \<Rightarrow> string list" where
  "current_policies env reports = map (\<lambda>r. sv_PolicyInfo env (rrp_Resource r)) reports"

definition clean_feature :: "'e resource_env_scheme \<Rightarrow> feature_id \<Rightarrow> bool \<Rightarrow> rest_config option \<Rightarrow> cluster_summary \<Rightarrow> resource_report list \<Rightarrow>
    's resource_world \<Rightarrow> (dep_error + resource_report list) \<times> 's resource_world" where
  "clean_feature env featureID isMgmtCluster destRestConfig cs resourceReports w =
     (case destRestConfig of
        None \<Rightarrow> (Inr [], w)
      | Some config \<Rightarrow>
          undeployStaleResources env isMgmtCluster config featureID cs (deployed_kinds env cs featureID)
            (current_policies env resourceReports) w)"

definition cleanPolicyRefResources :: "'e resource_env_scheme \<Rightarrow> bool \<Rightarrow> rest_config option \<Rightarrow> cluster_summary \<Rightarrow> resource_report list \<Rightarrow>
    's resource_world \<Rightarrow> (dep_error + resource_report list) \<times> 's resource_world" where
  "cleanPolicyRefResources env = clean_feature env FeatureResources"

definition cleanKustomizeResources :: "'e resource_env_scheme \<Rightarrow> bool \<Rightarrow> rest_config option \<Rightarrow> cluster_summary \<Rightarrow> resource_report list \<Rightarrow>
    's resource_world \<Rightarrow> (dep_error + resource_report list) \<times> 's resource_world" where
  "cleanKustomizeResources env = clean_feature env FeatureKustomize"

text \<open>The client and the configuration are those of the controller, whoever created the profile.\<close>

definition clean_both :: "'e resource_env_scheme \<Rightarrow> (bool \<Rightarrow> rest_config option \<Rightarrow> cluster_summary \<Rightarrow> resource_report list \<Rightarrow>
    's resource_world \<Rightarrow> (dep_error + resource_report list) \<times> 's resource_world) \<Rightarrow> cluster_summary \<Rightarrow> resource_report list \<Rightarrow>
    resource_report list \<Rightarrow> 's resource_world \<Rightarrow> (dep_error + resource_report list \<times> resource_report list) \<times> 's resource_world" where
  "clean_both env clean cs localReports remoteReports w =
     (case sv_AdminClient env of
        Some e \<Rightarrow> (Inl e, w)
      | None \<Rightarrow>
          (case sv_RestConfig env False of
             Inl e \<Rightarrow> (Inl e, w)
           | Inr remoteRestConfig \<Rightarrow>
               (case clean True (Some []) cs localReports w of
                  (Inl e, w) \<Rightarrow> (Inl e, w)
                | (Inr localUndeployed, w) \<Rightarrow>
                    (case clean False remoteRestConfig cs remoteReports w of
                       (Inl e, w) \<Rightarrow> (Inl e, w)
                     | (Inr remoteUndeployed, w) \<Rightarrow> (Inr (localUndeployed, remoteUndeployed), w)))))"

definition cleanStaleResources :: "'e resource_env_scheme \<Rightarrow> cluster_summary \<Rightarrow> resource_report list \<Rightarrow> resource_report list \<Rightarrow>
    's resource_world \<Rightarrow> (dep_error + resource_report list \<times> resource_report list) \<times> 's resource_world" where
  "cleanStaleResources env = clean_both env (cleanPolicyRefResources env)"

definition cleanStaleKustomizeResources :: "'e resource_env_scheme \<Rightarrow> cluster_summary \<Rightarrow> resource_report list \<Rightarrow> resource_report list \<Rightarrow>
    's resource_world \<Rightarrow> (dep_error + resource_report list \<times> resource_report list) \<times> 's resource_world" where
  "cleanStaleKustomizeResources env = clean_both env (cleanKustomizeResources env)"

section \<open>What a pass may not touch\<close>

text \<open>
  What libsveltos promises of \<open>UndeployStaleResource\<close>: an object that lacks the annotation it is asked for, one that is to stay and
  every object in a dry run are spared, and an object released keeps its name. \<open>key_of\<close> is the key of an object.
\<close>

definition undeploy_laws :: "'e resource_env_scheme \<Rightarrow> (unstructured \<Rightarrow> string) \<Rightarrow> bool" where
  "undeploy_laws env key_of \<longleftrightarrow>
     (\<forall>k v p leave dry r current report f. sv_Undeploy env k v p leave dry r current = Inr (report, f) \<longrightarrow>
        (k \<noteq> [] \<and> map_of (un_Annotations r) k \<noteq> Some v \<or> key_of r \<in> set current \<or> dry \<longrightarrow> f = Spared) \<and>
        (\<forall>u. f = Released u \<longrightarrow> object_id u = object_id r))"

text \<open>The objects a pass over a cluster has no right to: of the other deployment type, of another managed cluster, without the
  mark of this one in the management cluster, or still wanted.\<close>

definition protected :: "cleanup_pass \<Rightarrow> (unstructured \<Rightarrow> string) \<Rightarrow> unstructured \<Rightarrow> bool" where
  "protected p key_of u \<longleftrightarrow>
     other_deployment (cup_Mgmt p) u \<or>
     (\<exists>v. map_of (un_Annotations u) clusterAnnotation = Some v \<and> v \<noteq> getClusterAnnotationValue (cup_CS p)) \<or>
     map_of (un_Annotations u) clusterAnnotation = None \<and> cup_Mgmt p \<and>
       map_of (un_Annotations u) clusterSummaryAnnotation \<noteq> Some (getClusterSummaryAnnotationValue (cup_CS p)) \<or>
     key_of u \<in> set (cup_Current p) \<or> is_dry_run (cup_CS p)"

lemma annotation_names_distinct [simp]:
  "clusterAnnotation \<noteq> []" "clusterSummaryAnnotation \<noteq> []" "clusterAnnotation \<noteq> clusterSummaryAnnotation"
  "deploymentTypeAnnotation \<noteq> clusterAnnotation"
  by (simp_all add: clusterAnnotation_def clusterSummaryAnnotation_def deploymentTypeAnnotation_def)

lemma protected_spared:
  assumes laws: "undeploy_laws env key_of" and u: "protected p key_of u"
    and run: "undeploy_item env p u w = (r, w')"
  shows "objects_at env (cup_Mgmt p) w' = objects_at env (cup_Mgmt p) w"
proof (cases "other_deployment (cup_Mgmt p) u")
  case True
  then show ?thesis using run by (simp add: undeploy_item_def)
next
  case False
  obtain key v where kv: "getClusterScopingAnnotation u (cup_Mgmt p) (cup_CS p) = (key, v)" by fastforce
  show ?thesis
  proof (cases "sv_Undeploy env key v (cup_Profile p) (isLeavePolicies (cup_CS p)) (is_dry_run (cup_CS p)) u (cup_Current p)")
    case (Inl e)
    then show ?thesis using run False kv by (simp add: undeploy_item_def)
  next
    case (Inr answer)
    obtain report f where answer: "answer = (report, f)" by fastforce
    have "f = Spared"
    proof -
      have "key \<noteq> [] \<and> map_of (un_Annotations u) key \<noteq> Some v \<or> key_of u \<in> set (cup_Current p) \<or> is_dry_run (cup_CS p)"
        using u False kv by (auto simp: protected_def getClusterScopingAnnotation_def split: if_splits)
      then show ?thesis using laws Inr answer by (auto simp: undeploy_laws_def)
    qed
    then show ?thesis using run False kv Inr answer by (auto simp: undeploy_item_def settle_def objects_at_def set_objects_def)
  qed
qed

definition one_each :: "unstructured list \<Rightarrow> bool" where
  "one_each xs \<longleftrightarrow> distinct (map object_id xs)"

lemma one_each_same: "one_each xs \<Longrightarrow> u \<in> set xs \<Longrightarrow> v \<in> set xs \<Longrightarrow> object_id u = object_id v \<Longrightarrow> u = v"
  by (auto simp: one_each_def distinct_map inj_on_def)

lemma settle_keeps:
  assumes "one_each xs" "u \<in> set xs" "object_id r \<noteq> object_id u \<or> f = Spared" "\<And>v. f = Released v \<Longrightarrow> object_id v = object_id r"
  shows "one_each (settle f r xs) \<and> u \<in> set (settle f r xs)"
proof (cases f)
  case Removed
  then show ?thesis using assms by (auto simp: settle_def one_each_def distinct_map inj_on_def)
next
  case (Released v)
  have "map object_id (map (\<lambda>x. if object_id x = object_id r then v else x) xs) = map object_id xs"
    using assms(4) [OF Released] by simp
  then have "one_each (settle f r xs)" using assms(1) Released by (simp only: one_each_def settle_def fate.case)
  moreover have "u \<in> set (settle f r xs)" using assms(2,3) Released by (force simp: settle_def)
  ultimately show ?thesis ..
qed (use assms in \<open>simp add: settle_def\<close>)

definition kept :: "'e resource_env_scheme \<Rightarrow> bool \<Rightarrow> unstructured \<Rightarrow> 's resource_world \<Rightarrow> bool" where
  "kept env mgmt u w \<longleftrightarrow> one_each (objects_at env mgmt w) \<and> u \<in> set (objects_at env mgmt w)"

lemma objects_set [simp]: "objects_at env mgmt (set_objects env mgmt xs w) = xs"
  by (simp add: objects_at_def set_objects_def)

lemma item_keeps:
  assumes laws: "undeploy_laws env key_of" and u: "protected p key_of u" and k: "kept env (cup_Mgmt p) u w"
    and r: "object_id r = object_id u \<longrightarrow> r = u" and run: "undeploy_item env p r w = (res, w')"
  shows "kept env (cup_Mgmt p) u w'"
proof (cases "r = u")
  case True
  then have "objects_at env (cup_Mgmt p) w' = objects_at env (cup_Mgmt p) w" using protected_spared [OF laws u] run by blast
  then show ?thesis using k by (simp add: kept_def)
next
  case False
  obtain key v where kv: "getClusterScopingAnnotation r (cup_Mgmt p) (cup_CS p) = (key, v)" by fastforce
  show ?thesis
  proof (cases "\<exists>report f. \<not> other_deployment (cup_Mgmt p) r \<and> sv_Undeploy env key v (cup_Profile p) (isLeavePolicies (cup_CS p))
      (is_dry_run (cup_CS p)) r (cup_Current p) = Inr (report, f)")
    case True
    then obtain report f where answer: "\<not> other_deployment (cup_Mgmt p) r"
        "sv_Undeploy env key v (cup_Profile p) (isLeavePolicies (cup_CS p)) (is_dry_run (cup_CS p)) r (cup_Current p) = Inr (report, f)"
      by auto
    then have "w' = set_objects env (cup_Mgmt p) (settle f r (objects_at env (cup_Mgmt p) w)) w"
      using run kv by (auto simp: undeploy_item_def)
    moreover have ids: "object_id y = object_id r" if "f = Released y" for y
      using laws answer(2) that unfolding undeploy_laws_def by blast
    have "object_id r \<noteq> object_id u" using r False by blast
    then have "one_each (settle f r (objects_at env (cup_Mgmt p) w)) \<and> u \<in> set (settle f r (objects_at env (cup_Mgmt p) w))"
      using settle_keeps [OF _ _ _ ids] k unfolding kept_def by blast
    ultimately show ?thesis by (simp add: kept_def)
  next
    case no: False
    then have "w' = w" using run kv by (auto simp: undeploy_item_def split: sum.splits if_splits prod.splits)
    then show ?thesis using k by simp
  qed
qed

lemma items_keep:
  assumes laws: "undeploy_laws env key_of" and u: "protected p key_of u"
  shows "undeploy_items env p rs acc w = (res, w') \<Longrightarrow> kept env (cup_Mgmt p) u w \<Longrightarrow> \<forall>r \<in> set rs. object_id r = object_id u \<longrightarrow> r = u \<Longrightarrow>
    kept env (cup_Mgmt p) u w'"
proof (induction rs arbitrary: acc w)
  case (Cons r rs)
  obtain q v where q: "undeploy_item env p r w = (q, v)" by fastforce
  then have v: "kept env (cup_Mgmt p) u v" using item_keeps [OF laws u Cons.prems(2) _ q] Cons.prems(3) by simp
  then show ?case using Cons.IH [of "acc @ projr q" v] Cons.prems(1,3) q by (cases q) auto
qed simp

lemma map_sum_case: "map_sum id g x = (case x of Inl e \<Rightarrow> Inl e | Inr y \<Rightarrow> Inr (g y))"
  by (cases x) simp_all

lemma listed_subset:
  "listDeployedResources env f g namespaced nss xs = Inr items \<Longrightarrow> set items \<subseteq> set xs"
proof -
  have "list_namespaces env f g nss xs = Inr items \<Longrightarrow> set items \<subseteq> set xs" for nss items
    by (induction nss arbitrary: items) (auto simp: listed_in_def map_sum_case split: option.splits sum.splits)
  then show "listDeployedResources env f g namespaced nss xs = Inr items \<Longrightarrow> set items \<subseteq> set xs"
    by (auto simp: listDeployedResources_def listed_in_def split: if_splits option.splits)
qed

lemma kinds_keep:
  assumes laws: "undeploy_laws env key_of" and u: "protected p key_of u"
  shows "undeploy_kinds env p nss gs acc w = (res, w') \<Longrightarrow> kept env (cup_Mgmt p) u w \<Longrightarrow> kept env (cup_Mgmt p) u w'"
proof (induction gs arbitrary: acc w)
  case (Cons g gs)
  show ?case
  proof (cases "sv_Mapping env (cup_Mgmt p) 0 g")
    case (Mapped namespaced)
    show ?thesis
    proof (cases "listDeployedResources env (cup_Feature p) g namespaced nss (objects_at env (cup_Mgmt p) w)")
      case (Inr items)
      obtain q v where q: "undeploy_items env p items acc w = (q, v)" by fastforce
      have "object_id r = object_id u \<longrightarrow> r = u" if "r \<in> set items" for r
        using listed_subset [OF Inr] that Cons.prems(2) one_each_same unfolding kept_def by blast
      then have "kept env (cup_Mgmt p) u v" using items_keep [OF laws u q Cons.prems(2)] by blast
      then show ?thesis using Cons.IH [of "projr q" v] Cons.prems(1) q Mapped Inr by (cases q) auto
    qed (use Cons.prems Mapped in auto)
  qed (use Cons in \<open>auto split: if_splits\<close>)
qed simp

text \<open>A whole clean-up.\<close>

lemma undeploy_pass:
  assumes "undeployStaleResources env mgmt config f cs gvks current w = (r, w')"
  obtains "w' = w"
  | owner :: "(profile \<times> int) option" and nss where "undeploy_kinds env \<lparr>cup_Mgmt = mgmt, cup_Feature = f, cup_CS = cs,
      cup_Profile = map_option fst owner, cup_Current = current\<rparr> nss gvks [] w = (r, w')" "owner_of env cs = Inr owner"
      "(if mgmt then Inr [] else getAgentWatchNamespaces env cs) = Inr nss"
  using assms
  by (auto simp: undeployStaleResources_def processDeployedGVKs_def split: sum.splits bool.splits if_splits option.splits)

lemma undeploy_keeps:
  assumes laws: "undeploy_laws env key_of"
    and run: "undeployStaleResources env mgmt config f cs gvks current w = (r, w')"
    and k: "kept env mgmt u w"
    and u: "protected \<lparr>cup_Mgmt = mgmt, cup_Feature = f, cup_CS = cs, cup_Profile = None, cup_Current = current\<rparr> key_of u"
  shows "kept env mgmt u w'"
  using run
proof (cases rule: undeploy_pass)
  case (2 owner nss)
  show ?thesis using kinds_keep [OF laws _ 2(1)] u k by (simp add: protected_def)
qed (use k in simp)

lemma undeploy_elsewhere:
  assumes "undeployStaleResources env mgmt config f cs gvks current w = (r, w')"
  shows "rw_Objects w' (\<not> physical env mgmt) = rw_Objects w (\<not> physical env mgmt)"
proof -
  have item: "undeploy_item env p x v = (q, v') \<Longrightarrow> rw_Objects v' (\<not> physical env (cup_Mgmt p)) = rw_Objects v (\<not> physical env (cup_Mgmt p))"
    for p x v q v' by (auto simp: undeploy_item_def set_objects_def split: if_splits prod.splits sum.splits)
  have items: "undeploy_items env p xs acc v = (q, v') \<Longrightarrow>
      rw_Objects v' (\<not> physical env (cup_Mgmt p)) = rw_Objects v (\<not> physical env (cup_Mgmt p))" for p xs acc v q v'
    by (induction xs arbitrary: acc v) (auto split: prod.splits sum.splits dest!: item)
  have kinds: "undeploy_kinds env p nss gs acc v = (q, v') \<Longrightarrow>
      rw_Objects v' (\<not> physical env (cup_Mgmt p)) = rw_Objects v (\<not> physical env (cup_Mgmt p))" for p nss gs acc v q v'
    by (induction gs arbitrary: acc v) (auto split: prod.splits sum.splits mapping_answer.splits if_splits dest!: items)
  show ?thesis
    using assms by (auto simp: undeployStaleResources_def processDeployedGVKs_def split: sum.splits bool.splits if_splits option.splits
        dest!: kinds)
qed


section \<open>What a pass removes\<close>

definition gone :: "'e resource_env_scheme \<Rightarrow> bool \<Rightarrow> unstructured \<Rightarrow> 's resource_world \<Rightarrow> bool" where
  "gone env mgmt u w \<longleftrightarrow> one_each (objects_at env mgmt w) \<and> object_id u \<notin> object_id ` set (objects_at env mgmt w)"

definition in_charge :: "'e resource_env_scheme \<Rightarrow> cleanup_pass \<Rightarrow> unstructured \<Rightarrow> bool" where
  "in_charge env p u \<longleftrightarrow> \<not> other_deployment (cup_Mgmt p) u \<and>
     (\<exists>report. (case getClusterScopingAnnotation u (cup_Mgmt p) (cup_CS p) of (key, v) \<Rightarrow>
        sv_Undeploy env key v (cup_Profile p) (isLeavePolicies (cup_CS p)) (is_dry_run (cup_CS p)) u (cup_Current p)) = Inr (report, Removed))"

lemma settle_ids:
  assumes "\<And>v. f = Released v \<Longrightarrow> object_id v = object_id r"
  shows "object_id ` set (settle f r xs) \<subseteq> object_id ` set xs \<and> (one_each xs \<longrightarrow> one_each (settle f r xs))"
proof (cases f)
  case (Released v)
  have "map object_id (map (\<lambda>x. if object_id x = object_id r then v else x) xs) = map object_id xs"
    using assms [OF Released] by simp
  then show ?thesis using Released by (simp only: settle_def one_each_def fate.case flip: set_map) simp
qed (auto simp: settle_def one_each_def distinct_map inj_on_def)

lemma item_cases:
  assumes "undeploy_item env p r w = (res, w')" "undeploy_laws env key_of"
  obtains "w' = w" | f where "w' = set_objects env (cup_Mgmt p) (settle f r (objects_at env (cup_Mgmt p) w)) w"
    "\<And>v. f = Released v \<Longrightarrow> object_id v = object_id r"
proof -
  obtain key v where kv: "getClusterScopingAnnotation r (cup_Mgmt p) (cup_CS p) = (key, v)" by fastforce
  show thesis
  proof (cases "\<exists>report f. \<not> other_deployment (cup_Mgmt p) r \<and> sv_Undeploy env key v (cup_Profile p) (isLeavePolicies (cup_CS p))
      (is_dry_run (cup_CS p)) r (cup_Current p) = Inr (report, f)")
    case True
    then obtain report f where answer: "\<not> other_deployment (cup_Mgmt p) r"
        "sv_Undeploy env key v (cup_Profile p) (isLeavePolicies (cup_CS p)) (is_dry_run (cup_CS p)) r (cup_Current p) = Inr (report, f)"
      by blast
    have "object_id x = object_id r" if "f = Released x" for x
      using assms(2) answer(2) that unfolding undeploy_laws_def by blast
    then show thesis using that(2) [of f] assms(1) answer kv by (auto simp: undeploy_item_def)
  next
    case False
    then show thesis using that(1) assms(1) kv by (auto simp: undeploy_item_def split: sum.splits if_splits prod.splits)
  qed
qed

lemma item_gone:
  assumes run: "undeploy_item env p r w = (res, w')" and laws: "undeploy_laws env key_of" and "gone env (cup_Mgmt p) u w"
  shows "gone env (cup_Mgmt p) u w'"
  using run laws
proof (cases rule: item_cases)
  case (2 f)
  then show ?thesis using assms(3) settle_ids [of f r "objects_at env (cup_Mgmt p) w"] by (auto simp: gone_def)
qed (use assms(3) in simp)

lemma item_kept:
  assumes run: "undeploy_item env p r w = (res, w')" and laws: "undeploy_laws env key_of" and "kept env (cup_Mgmt p) u w"
    and "object_id r \<noteq> object_id u"
  shows "kept env (cup_Mgmt p) u w'"
  using run laws
proof (cases rule: item_cases)
  case (2 f)
  then show ?thesis using assms(3,4) settle_keeps [of "objects_at env (cup_Mgmt p) w" u r f] by (simp add: kept_def)
qed (use assms(3) in simp)

lemma item_removed:
  assumes "undeploy_item env p u w = (res, w')" "in_charge env p u" "kept env (cup_Mgmt p) u w"
  shows "gone env (cup_Mgmt p) u w'"
proof -
  have "one_each (filter (\<lambda>x. object_id x \<noteq> object_id u) xs)" if "one_each xs" for xs
    using settle_ids [of Removed u xs] that by (simp add: settle_def)
  then show ?thesis
    using assms by (auto simp: undeploy_item_def in_charge_def gone_def kept_def settle_def simp del: split_paired_Ex split: prod.splits)
qed

lemma items_gone:
  assumes "undeploy_laws env key_of"
  shows "undeploy_items env p rs acc w = (res, w') \<Longrightarrow> gone env (cup_Mgmt p) u w \<Longrightarrow> gone env (cup_Mgmt p) u w'"
proof (induction rs arbitrary: acc w)
  case (Cons r rs)
  obtain q v where q: "undeploy_item env p r w = (q, v)" by fastforce
  show ?case using Cons q item_gone [OF q assms Cons.prems(2)] by (cases q) auto
qed simp

lemma items_remove:
  assumes "undeploy_laws env key_of" "in_charge env p u"
  shows "undeploy_items env p rs acc w = (Inr res, w') \<Longrightarrow> kept env (cup_Mgmt p) u w \<Longrightarrow> \<forall>r \<in> set rs. object_id r = object_id u \<longrightarrow> r = u \<Longrightarrow>
    if u \<in> set rs then gone env (cup_Mgmt p) u w' else kept env (cup_Mgmt p) u w'"
proof (induction rs arbitrary: acc w)
  case (Cons r rs)
  obtain q v where q: "undeploy_item env p r w = (q, v)" by fastforce
  then obtain reports where reports: "q = Inr reports" using Cons.prems(1) by (cases q) auto
  have rest: "undeploy_items env p rs (acc @ reports) v = (Inr res, w')" using Cons.prems(1) q reports by simp
  show ?case
  proof (cases "r = u")
    case True
    then have "gone env (cup_Mgmt p) u v" using item_removed [OF _ assms(2) Cons.prems(2)] q by blast
    then show ?thesis using items_gone [OF assms(1) rest] True by simp
  next
    case False
    then have "kept env (cup_Mgmt p) u v" using item_kept [OF q assms(1) Cons.prems(2)] Cons.prems(3) by auto
    then show ?thesis using Cons.IH [OF rest] Cons.prems(3) False by auto
  qed
qed simp

text \<open>Whether the list of a kind holds an object.\<close>

definition listed_by :: "'e resource_env_scheme \<Rightarrow> cleanup_pass \<Rightarrow> string list \<Rightarrow> gvk \<Rightarrow> unstructured \<Rightarrow> bool" where
  "listed_by env p nss g u \<longleftrightarrow> sv_Listed env (cup_Feature p) g u \<and>
     (\<exists>namespaced. sv_Mapping env (cup_Mgmt p) 0 g = Mapped namespaced \<and> (namespaced \<and> nss \<noteq> [] \<longrightarrow> un_Namespace u \<in> set nss))"

lemma list_namespaces_all:
  "list_namespaces env f g nss xs = Inr items \<Longrightarrow> u \<in> set xs \<Longrightarrow> sv_Listed env f g u \<Longrightarrow> un_Namespace u \<in> set nss \<Longrightarrow> u \<in> set items"
  by (induction nss arbitrary: items) (auto simp: listed_in_def map_sum_case split: option.splits sum.splits)

lemma listed_complete:
  assumes "listDeployedResources env (cup_Feature p) g namespaced nss xs = Inr items" "u \<in> set xs" "listed_by env p nss g u"
    "sv_Mapping env (cup_Mgmt p) 0 g = Mapped namespaced"
  shows "u \<in> set items"
  using assms list_namespaces_all [of env "cup_Feature p" g nss xs items u]
  by (auto simp: listDeployedResources_def listed_by_def listed_in_def split: if_splits option.splits)

lemma kinds_remove:
  assumes laws: "undeploy_laws env key_of" and charge: "in_charge env p u"
  shows "undeploy_kinds env p nss gs acc w = (Inr res, w') \<Longrightarrow> kept env (cup_Mgmt p) u w \<or> gone env (cup_Mgmt p) u w \<Longrightarrow>
    (kept env (cup_Mgmt p) u w' \<or> gone env (cup_Mgmt p) u w') \<and>
    (gone env (cup_Mgmt p) u w \<or> (\<exists>g \<in> set gs. listed_by env p nss g u) \<longrightarrow> gone env (cup_Mgmt p) u w')"
proof (induction gs arbitrary: acc w)
  case (Cons g gs)
  show ?case
  proof (cases "\<exists>e. sv_Mapping env (cup_Mgmt p) 0 g = No_Match e")
    case True
    then have "\<not> listed_by env p nss g u" by (auto simp: listed_by_def)
    moreover have "undeploy_kinds env p nss gs acc w = (Inr res, w')" using Cons.prems(1) True by (auto split: if_splits)
    ultimately show ?thesis using Cons.IH Cons.prems(2) by (metis list.set_cases set_ConsD)
  next
    case False
    then obtain namespaced items v reports where m: "sv_Mapping env (cup_Mgmt p) 0 g = Mapped namespaced"
      and items: "listDeployedResources env (cup_Feature p) g namespaced nss (objects_at env (cup_Mgmt p) w) = Inr items"
      and run: "undeploy_items env p items acc w = (Inr reports, v)" and rest: "undeploy_kinds env p nss gs reports v = (Inr res, w')"
      using Cons.prems(1) by (auto split: mapping_answer.splits sum.splits prod.splits)
    have step: "(kept env (cup_Mgmt p) u v \<or> gone env (cup_Mgmt p) u v) \<and>
        (gone env (cup_Mgmt p) u w \<or> listed_by env p nss g u \<longrightarrow> gone env (cup_Mgmt p) u v)"
    proof (cases "gone env (cup_Mgmt p) u w")
      case True
      then show ?thesis using items_gone [OF laws run] by blast
    next
      case False
      then have k: "kept env (cup_Mgmt p) u w" using Cons.prems(2) by blast
      then have "\<forall>r \<in> set items. object_id r = object_id u \<longrightarrow> r = u"
        using listed_subset [OF items] one_each_same unfolding kept_def by blast
      then show ?thesis
        using items_remove [OF laws charge run k] listed_complete [OF items _ _ m, of u] k False by (auto simp: kept_def split: if_splits)
    qed
    then show ?thesis using Cons.IH [OF rest] by auto
  qed
qed auto

text \<open>
  C12. A clean-up that ends without an error has removed every object of a recorded kind that bears the label of the feature, is
  in a namespace the controller looks at, belongs to this deployment and is stale for libsveltos.
\<close>

theorem stale_cleanup_removes:
  assumes laws: "undeploy_laws env key_of"
    and run: "undeployStaleResources env mgmt config f cs gvks current w = (Inr reports, w')"
    and alive: "isManagedClusterDeleted env mgmt = Inr False"
    and here: "one_each (objects_at env mgmt w)" "u \<in> set (objects_at env mgmt w)"
    and owner: "owner_of env cs = Inr owner" and watched: "(if mgmt then Inr [] else getAgentWatchNamespaces env cs) = Inr nss"
    and p: "p = \<lparr>cup_Mgmt = mgmt, cup_Feature = f, cup_CS = cs, cup_Profile = map_option fst owner, cup_Current = current\<rparr>"
    and u: "in_charge env p u" "g \<in> set gvks" "listed_by env p nss g u"
  shows "object_id u \<notin> object_id ` set (objects_at env mgmt w')"
proof -
  have kinds: "undeploy_kinds env p nss gvks [] w = (Inr reports, w')"
    using run alive owner watched
    by (auto simp: p undeployStaleResources_def processDeployedGVKs_def split: sum.splits option.splits if_splits)
  have "kept env (cup_Mgmt p) u w" using here by (simp add: p kept_def)
  then have "gone env (cup_Mgmt p) u w'" using kinds_remove [OF laws u(1) kinds] u(2,3) by blast
  then show ?thesis by (simp add: p gone_def)
qed

end
