(* ===== verification/Resource_Feature.thy ===== *)
theory Resource_Feature
  imports Resource_Cleanup
begin

text \<open>
  The feature of plain resources (controllers/handlers_resources.go): what is recorded after a deployment, the clean-up, watchers and
  reports around it, and the removal, in push and in pull mode. Kustomize uses most of it.

  Deploying the drift detection manager (\<open>cv_DriftManager\<close>) and checking the health of resources (\<open>cv_PreDeploy\<close>, \<open>hv_preDelete\<close>,
  \<open>hv_postDelete\<close>, \<open>sv_ValidateHealth\<close>) are calls that may fail. The object of the ClusterSummary in memory is returned where the code changes it.
\<close>

section \<open>Records of a deployment\<close>

definition kind_report :: "resource_report \<Rightarrow> helm_resource_report" where
  "kind_report r = (let p = rrp_Resource r in \<lparr>hrr_Name = plr_Name p, hrr_Namespace = plr_Namespace p, hrr_Kind = plr_Kind p,
     hrr_Group = plr_Group p, hrr_Version = plr_Version p\<rparr>)"

definition record_kinds :: "'e resource_env_scheme \<Rightarrow> cluster_summary \<Rightarrow> feature_id \<Rightarrow> resource_report list \<Rightarrow> resource_report list \<Rightarrow>
    's resource_world \<Rightarrow> (dep_error option \<times> cluster_summary) \<times> 's resource_world" where
  "record_kinds env cs featureID localReports remoteReports =
     in_resource (\<lambda>h. case updateDeployedGroupVersionKind (own_env env) cs featureID (map kind_report localReports)
         (map kind_report remoteReports) h of (err, cs, h) \<Rightarrow> ((err, cs), h))"

definition resourceToDeployedResource :: "deployment_type \<Rightarrow> policy_resource \<Rightarrow> deployed_resource" where
  "resourceToDeployedResource deploymentType r = \<lparr>dpr_Name = plr_Name r, dpr_Namespace = plr_Namespace r, dpr_Group = plr_Group r,
     dpr_Kind = plr_Kind r, dpr_Version = plr_Version r, dpr_LastAppliedTime = plr_LastAppliedTime r,
     dpr_DeploymentType = Some deploymentType\<rparr>"

definition deployed_resources :: "resource_report list \<Rightarrow> resource_report list \<Rightarrow> deployed_resource list" where
  "deployed_resources localReports remoteReports =
     map (\<lambda>r. resourceToDeployedResource DeploymentTypeRemote (rrp_Resource r)) remoteReports @
     map (\<lambda>r. resourceToDeployedResource DeploymentTypeLocal (rrp_Resource r)) localReports"

definition ConvertResourceReportsToObjectReference :: "resource_report list \<Rightarrow> object_reference list" where
  "ConvertResourceReportsToObjectReference reports = map (\<lambda>r. \<lparr>ref_Kind = plr_Kind (rrp_Resource r),
     ref_Namespace = plr_Namespace (rrp_Resource r), ref_Name = plr_Name (rrp_Resource r), ref_APIVersion = []\<rparr>) reports"

definition update_reloader :: "'e resource_env_scheme \<Rightarrow> cluster_summary \<Rightarrow> owner_reference \<Rightarrow> feature_id \<Rightarrow> object_reference list \<Rightarrow>
    bool \<Rightarrow> 's resource_world \<Rightarrow> dep_error option \<times> 's resource_world" where
  "update_reloader env cs profileRef featureID resources removeReloader w =
     (case updateReloaderWithDeployedResources (sv_Reloader env) cs profileRef featureID resources removeReloader (rw_Reloaders w) of
        (err, r) \<Rightarrow> (err, w\<lparr>rw_Reloaders := r\<rparr>))"

definition update_configuration :: "'e resource_env_scheme \<Rightarrow> cluster_summary \<Rightarrow> bool \<Rightarrow> owner_reference \<Rightarrow> feature_id \<Rightarrow>
    deployed_resource list \<Rightarrow> 's resource_world \<Rightarrow> dep_error option \<times> 's resource_world" where
  "update_configuration env cs clean profileRef featureID resources w =
     (case UpdateClusterConfiguration (cv_Config (own_env env)) (is_dry_run cs) clean (css_ClusterNamespace (cs_Spec cs))
             (css_ClusterName (cs_Spec cs)) (css_ClusterType (cs_Spec cs)) profileRef featureID (Some resources) None (rw_Configs w) of
        (err, store) \<Rightarrow> (err, w\<lparr>rw_Configs := store\<rparr>))"

definition reports_attempt :: "'e resource_env_scheme \<Rightarrow> string \<times> string \<Rightarrow> feature_id \<Rightarrow> resource_report list \<Rightarrow> nat \<Rightarrow> 's resource_world \<Rightarrow>
    dep_error option \<times> 's resource_world" where
  "reports_attempt env key featureID reports attempt w =
     (case cv_Report (own_env env) attempt of
        Some e \<Rightarrow> (Some e, w)
      | None \<Rightarrow>
          (case map_of (rw_Reports w) key of
             None \<Rightarrow> (Some (api_err ApiNotFound), w)
           | Some sections \<Rightarrow> (None, w\<lparr>rw_Reports := AList.update key (AList.update featureID reports sections) (rw_Reports w)\<rparr>)))"

definition UpdateClusterReportWithResourceReports :: "'e resource_env_scheme \<Rightarrow> cluster_summary \<Rightarrow> bool \<Rightarrow> owner_reference \<Rightarrow>
    resource_report list \<Rightarrow> feature_id \<Rightarrow> 's resource_world \<Rightarrow> dep_error option \<times> 's resource_world" where
  "UpdateClusterReportWithResourceReports env cs isDryRun profileRef reports featureID w =
     (if \<not> isDryRun then (None, w)
      else RetryOnConflict (reports_attempt env (css_ClusterNamespace (cs_Spec cs), GetClusterReportName (own_Kind profileRef)
             (own_Name profileRef) (css_ClusterName (cs_Spec cs)) (css_ClusterType (cs_Spec cs))) featureID reports) w)"

definition updateClusterReportWithResourceReports :: "'e resource_env_scheme \<Rightarrow> cluster_summary \<Rightarrow> bool \<Rightarrow> resource_report list \<Rightarrow>
    feature_id \<Rightarrow> 's resource_world \<Rightarrow> dep_error option \<times> 's resource_world" where
  "updateClusterReportWithResourceReports env cs pullMode reports featureID w =
     (if pullMode then (None, w)
      else case GetProfileRef (own_env env) cs of
        Inl e \<Rightarrow> (Some e, w)
      | Inr ref \<Rightarrow> UpdateClusterReportWithResourceReports env cs (is_dry_run cs) ref reports featureID w)"

definition persistResourceReportsOnError :: "'e resource_env_scheme \<Rightarrow> cluster_summary \<Rightarrow> bool \<Rightarrow> resource_report list \<Rightarrow> feature_id \<Rightarrow>
    dep_error \<Rightarrow> 's resource_world \<Rightarrow> dep_error option \<times> 's resource_world" where
  "persistResourceReportsOnError env cs isPullMode remoteReports featureID deployError w =
     (case updateClusterReportWithResourceReports env cs isPullMode remoteReports featureID w of
        (Some e, w) \<Rightarrow> (Some e, w)
      | (None, w) \<Rightarrow> (Some deployError, w))"

section \<open>Watchers\<close>

text \<open>\<open>ToAPIVersionAndKind\<close>.\<close>

definition api_version_text :: "gvk \<Rightarrow> string" where
  "api_version_text g = (if gvk_Group g = [] then gvk_Version g else gvk_Group g @ ''/'' @ gvk_Version g)"

definition deployed_gvk :: "resource_report \<Rightarrow> gvk" where
  "deployed_gvk r = \<lparr>gvk_Group = plr_Group (rrp_Resource r), gvk_Version = plr_Version (rrp_Resource r), gvk_Kind = plr_Kind (rrp_Resource r)\<rparr>"

definition deployed_ref :: "resource_report \<Rightarrow> object_reference" where
  "deployed_ref r = \<lparr>ref_Kind = plr_Kind (rrp_Resource r), ref_Namespace = plr_Namespace (rrp_Resource r),
     ref_Name = plr_Name (rrp_Resource r), ref_APIVersion = api_version_text (deployed_gvk r)\<rparr>"

fun watch_deployed :: "'s set_ops \<Rightarrow> watch_env \<Rightarrow> cluster_summary \<Rightarrow> feature_id \<Rightarrow> resource_report list \<Rightarrow> 's watch_manager \<Rightarrow>
    dep_error option \<times> 's watch_manager" where
  "watch_deployed ops env cs featureID [] m = (None, m)"
| "watch_deployed ops env cs featureID (r # rs) m =
     (case startWatcherForMgmtResource ops env (deployed_gvk r) (deployed_ref r) cs featureID m of
        None \<Rightarrow> (Some panic_error, m)
      | Some (Some err, m) \<Rightarrow> (Some (plain_error err), m)
      | Some (None, m) \<Rightarrow> watch_deployed ops env cs featureID rs m)"

definition stop_watchers :: "'s set_ops \<Rightarrow> 'e resource_env_scheme \<Rightarrow> object_reference list \<Rightarrow> cluster_summary \<Rightarrow> feature_id \<Rightarrow>
    's resource_world \<Rightarrow> dep_error option \<times> 's resource_world" where
  "stop_watchers ops env current cs featureID w =
     (case stopStaleWatchForMgmtResource ops (sv_Watch env) (map (\<lambda>r. (r, True)) (remdups current)) cs featureID (rw_Watch w) of
        None \<Rightarrow> (Some panic_error, w)
      | Some m \<Rightarrow> (None, w\<lparr>rw_Watch := m\<rparr>))"

definition handleWatchers :: "'s set_ops \<Rightarrow> 'e resource_env_scheme \<Rightarrow> cluster_summary \<Rightarrow> resource_report list \<Rightarrow> feature_id \<Rightarrow>
    's resource_world \<Rightarrow> dep_error option \<times> 's resource_world" where
  "handleWatchers ops env cs localReports featureID w =
     (if ps_SyncMode (cs_ProfileSpec cs) = SyncModeContinuousWithDriftDetection then
        (case watch_deployed ops (sv_Watch env) cs featureID localReports (rw_Watch w) of
           (Some e, m) \<Rightarrow> (Some e, w\<lparr>rw_Watch := m\<rparr>)
         | (None, m) \<Rightarrow> stop_watchers ops env (map deployed_ref localReports) cs featureID (w\<lparr>rw_Watch := m\<rparr>))
      else stop_watchers ops env [] cs featureID w)"

section \<open>Drift detection\<close>

text \<open>The section of the feature in the ResourceSummary.\<close>

definition tracked_resource :: "policy_resource \<Rightarrow> policy_resource" where
  "tracked_resource r = r\<lparr>plr_LastAppliedTime := None\<rparr>"

definition put_section :: "'e resource_env_scheme \<Rightarrow> feature_id \<Rightarrow> policy_resource list \<Rightarrow> 's resource_world \<Rightarrow>
    dep_error option \<times> 's resource_world" where
  "put_section env featureID resources w =
     (case sv_ResourceSummary env of
        Some e \<Rightarrow> (Some e, w)
      | None \<Rightarrow> (None, w\<lparr>rw_Tracked := AList.update featureID resources (rw_Tracked w)\<rparr>))"

definition deployResourceSummary :: "'e resource_env_scheme \<Rightarrow> policy_resource list \<Rightarrow> 's resource_world \<Rightarrow>
    dep_error option \<times> 's resource_world" where
  "deployResourceSummary env deployed = put_section env FeatureResources (map tracked_resource deployed)"

text \<open>The flag is set in the object in memory, which is not written back.\<close>

definition with_summary_flag :: "feature_id \<Rightarrow> cluster_summary \<Rightarrow> cluster_summary" where
  "with_summary_flag featureID cs = SetResourceSummaryDeployed featureID True cs"

definition track_section :: "(policy_resource list \<Rightarrow> 's resource_world \<Rightarrow> dep_error option \<times> 's resource_world) \<Rightarrow> feature_id \<Rightarrow>
    cluster_summary \<Rightarrow> bool \<Rightarrow> policy_resource list \<Rightarrow> 's resource_world \<Rightarrow>
    dep_error option \<times> cluster_summary \<times> 's resource_world" where
  "track_section deploy featureID cs pullMode deployed w =
     (if ps_SyncMode (cs_ProfileSpec cs) \<noteq> SyncModeContinuousWithDriftDetection \<or> pullMode then (None, cs, w)
      else case deploy deployed w of
        (Some e, w) \<Rightarrow> (Some e, cs, w)
      | (None, w) \<Rightarrow> (None, with_summary_flag featureID cs, w))"

definition handleResourceSummaryDeployment :: "'e resource_env_scheme \<Rightarrow> cluster_summary \<Rightarrow> bool \<Rightarrow> policy_resource list \<Rightarrow>
    's resource_world \<Rightarrow> dep_error option \<times> cluster_summary \<times> 's resource_world" where
  "handleResourceSummaryDeployment env = track_section (deployResourceSummary env) FeatureResources"

definition handleDriftDetectionManagerDeployment :: "'e resource_env_scheme \<Rightarrow> cluster_summary \<Rightarrow> bool \<Rightarrow> 's resource_world \<Rightarrow>
    dep_error option \<times> cluster_summary \<times> 's resource_world" where
  "handleDriftDetectionManagerDeployment env cs isPullMode w =
     (if ps_SyncMode (cs_ProfileSpec cs) = SyncModeContinuousWithDriftDetection then
        (case cv_DriftManager (own_env env) of
           Some e \<Rightarrow> (Some e, cs, w)
         | None \<Rightarrow> handleResourceSummaryDeployment env cs isPullMode [] w)
      else (None, cs, w))"

section \<open>Committing for the agent\<close>

definition discard_feature :: "'e resource_env_scheme \<Rightarrow> 's resource_world \<Rightarrow> dep_error option \<times> 's resource_world" where
  "discard_feature env w = (case cv_Discard (own_env env) of Some e \<Rightarrow> (Some e, w) | None \<Rightarrow> (None, w\<lparr>rw_Staged := []\<rparr>))"

definition commit_feature :: "'e resource_env_scheme \<Rightarrow> cluster_summary \<Rightarrow> bytes option \<Rightarrow> 's resource_world \<Rightarrow>
    dep_error option \<times> 's resource_world" where
  "commit_feature env cs configurationHash w =
     (case prepareSetters (own_env env) cs configurationHash True False of
        Inl e \<Rightarrow> (Some e, w)
      | Inr setters \<Rightarrow>
          (case cv_Commit (own_env env) of
             Some e \<Rightarrow> (Some e, w)
           | None \<Rightarrow> (None, w\<lparr>rw_Committed := Some (setters, rw_Staged w), rw_Staged := []\<rparr>)))"

definition commitPullModeResourcesStaging :: "'e resource_env_scheme \<Rightarrow> cluster_summary \<Rightarrow> bytes option \<Rightarrow> 's resource_world \<Rightarrow>
    dep_error option \<times> 's resource_world" where
  "commitPullModeResourcesStaging = commit_feature"

section \<open>After the resources\<close>

text \<open>What the handlers of the two features do differently.\<close>

record 's feature_calls =
  fcl_Feature :: feature_id
  fcl_Clean :: "cluster_summary \<Rightarrow> resource_report list \<Rightarrow> resource_report list \<Rightarrow> 's resource_world \<Rightarrow>
    (dep_error + resource_report list \<times> resource_report list) \<times> 's resource_world"
  fcl_Commit :: "cluster_summary \<Rightarrow> bytes option \<Rightarrow> 's resource_world \<Rightarrow> dep_error option \<times> 's resource_world"
  fcl_Track :: "cluster_summary \<Rightarrow> bool \<Rightarrow> policy_resource list \<Rightarrow> 's resource_world \<Rightarrow> dep_error option \<times> cluster_summary \<times> 's resource_world"
  fcl_NoReport :: bool
  fcl_OnError :: "cluster_summary \<Rightarrow> resource_report list \<Rightarrow> dep_error \<Rightarrow> 's resource_world \<Rightarrow> dep_error option \<times> 's resource_world"

text \<open>The Reloader and the ClusterConfiguration, in push mode.\<close>

definition record_push :: "'e resource_env_scheme \<Rightarrow> feature_id \<Rightarrow> cluster_summary \<Rightarrow> owner_reference \<Rightarrow> resource_report list \<Rightarrow>
    resource_report list \<Rightarrow> 's resource_world \<Rightarrow> dep_error option \<times> 's resource_world" where
  "record_push env featureID cs profileRef localReports remoteReports w =
     (case update_reloader env cs profileRef featureID (ConvertResourceReportsToObjectReference remoteReports)
             (\<not> ps_Reloader (cs_ProfileSpec cs)) w of
        (Some e, w) \<Rightarrow> (Some e, w)
      | (None, w) \<Rightarrow>
          update_configuration env cs (is_deleted cs) profileRef featureID (deployed_resources localReports remoteReports) w)"

definition finish_feature :: "'s set_ops \<Rightarrow> 'e resource_env_scheme \<Rightarrow> 's feature_calls \<Rightarrow> cluster_summary \<Rightarrow> resource_report list \<Rightarrow>
    resource_report list \<Rightarrow> bool \<Rightarrow> bytes option \<Rightarrow> 's resource_world \<Rightarrow> dep_error option \<times> 's resource_world" where
  "finish_feature ops env calls cs localReports remoteReports isPullMode configurationHash w =
     (case fcl_Clean calls cs localReports remoteReports w of
        (Inl e, w) \<Rightarrow> (Some e, w)
      | (Inr (_, undeployed), w) \<Rightarrow>
          (case handleWatchers ops env cs localReports (fcl_Feature calls) w of
             (Some e, w) \<Rightarrow> (Some e, w)
           | (None, w) \<Rightarrow>
               (case updateClusterReportWithResourceReports env cs (fcl_NoReport calls) (remoteReports @ undeployed) (fcl_Feature calls) w of
                  (Some e, w) \<Rightarrow> (Some e, w)
                | (None, w) \<Rightarrow>
                    if isPullMode then fcl_Commit calls cs configurationHash w
                    else
                      (case fcl_Track calls cs isPullMode (map rrp_Resource remoteReports) w of
                         (Some e, _, w) \<Rightarrow> (Some e, w)
                       | (None, _, w) \<Rightarrow> (sv_ValidateHealth env (fcl_Feature calls), w)))))"

definition post_process :: "'s set_ops \<Rightarrow> 'e resource_env_scheme \<Rightarrow> 's feature_calls \<Rightarrow> cluster_summary \<Rightarrow> resource_report list \<Rightarrow>
    resource_report list \<Rightarrow> dep_error option \<Rightarrow> bool \<Rightarrow> bytes option \<Rightarrow> 's resource_world \<Rightarrow> dep_error option \<times> 's resource_world" where
  "post_process ops env calls cs localReports remoteReports deployError isPullMode configurationHash w =
     (case record_kinds env cs (fcl_Feature calls) localReports remoteReports w of
        ((Some e, _), w) \<Rightarrow> (Some e, w)
      | ((None, cs), w) \<Rightarrow>
          (case GetProfileRef (own_env env) cs of
             Inl e \<Rightarrow> (Some e, w)
           | Inr profileRef \<Rightarrow>
               (case (if isPullMode then (None, w) else record_push env (fcl_Feature calls) cs profileRef localReports remoteReports w) of
                  (Some e, w) \<Rightarrow> (Some e, w)
                | (None, w) \<Rightarrow>
                    (case deployError of
                       Some e \<Rightarrow> fcl_OnError calls cs remoteReports e w
                     | None \<Rightarrow> finish_feature ops env calls cs localReports remoteReports isPullMode configurationHash w))))"

definition resources_calls :: "'e resource_env_scheme \<Rightarrow> bool \<Rightarrow> 's feature_calls" where
  "resources_calls env isPullMode = \<lparr>fcl_Feature = FeatureResources, fcl_Clean = cleanStaleResources env,
     fcl_Commit = commitPullModeResourcesStaging env, fcl_Track = handleResourceSummaryDeployment env,
     fcl_NoReport = isPullMode,
     fcl_OnError = (\<lambda>cs remoteReports. persistResourceReportsOnError env cs isPullMode remoteReports FeatureResources)\<rparr>"

definition postProcessDeployedResources :: "'s set_ops \<Rightarrow> 'e resource_env_scheme \<Rightarrow> cluster_summary \<Rightarrow> resource_report list \<Rightarrow>
    resource_report list \<Rightarrow> dep_error option \<Rightarrow> bool \<Rightarrow> bytes option \<Rightarrow> 's resource_world \<Rightarrow> dep_error option \<times> 's resource_world" where
  "postProcessDeployedResources ops env cs localReports remoteReports deployError isPullMode configurationHash w =
     post_process ops env (resources_calls env isPullMode) cs localReports remoteReports deployError isPullMode configurationHash w"

section \<open>Deploying\<close>

text \<open>\<open>deployResources\<close> and \<open>deployKustomizeRefs\<close> ask for the mode and the configuration in a different order: \<open>modeFirst\<close>.\<close>

definition start_feature :: "'e resource_env_scheme \<Rightarrow> bool \<Rightarrow> request \<Rightarrow> 's resource_world \<Rightarrow>
    dep_error + cluster_summary \<times> bool \<times> rest_config option" where
  "start_feature env modeFirst req w =
     (case getClusterSummaryAndClusterClient (own_env env) req (rw_Helm w) of
        Inl e \<Rightarrow> Inl e
      | Inr cs \<Rightarrow>
          (case (if modeFirst then cv_PullMode (own_env env) else map_sum id (\<lambda>_. False) (sv_RestConfig env True)) of
             Inl e \<Rightarrow> Inl e
           | Inr _ \<Rightarrow>
               (case sv_RestConfig env True of
                  Inl e \<Rightarrow> Inl e
                | Inr config \<Rightarrow> map_sum id (\<lambda>isPullMode. (cs, isPullMode, config)) (cv_PullMode (own_env env)))))"

definition getRestConfig :: "'e resource_env_scheme \<Rightarrow> dep_error + rest_config option" where
  "getRestConfig env = sv_RestConfig env True"

definition deployResources :: "'s set_ops \<Rightarrow> 'e resource_env_scheme \<Rightarrow> request \<Rightarrow> bytes option \<Rightarrow> 's resource_world \<Rightarrow>
    dep_error option \<times> 's resource_world" where
  "deployResources ops env req configurationHash w =
     (case start_feature env True req w of
        Inl e \<Rightarrow> (Some e, w)
      | Inr (cs, isPullMode, remoteRestConfig) \<Rightarrow>
          (case (if isPullMode then discard_feature env w else (None, w)) of
             (Some e, w) \<Rightarrow> (Some e, w)
           | (None, w) \<Rightarrow>
               (case handleDriftDetectionManagerDeployment env cs isPullMode w of
                  (Some e, _, w) \<Rightarrow> (Some e, w)
                | (None, cs, w) \<Rightarrow>
                    (case (if isPullMode then None else cv_PreDeploy (own_env env)) of
                       Some e \<Rightarrow> (Some (wrap_error ''failed to validate preDeployChecks '' e), w)
                     | None \<Rightarrow>
                         (case deployPolicyRefs env remoteRestConfig cs w of
                            ((localReports, remoteReports, deployError), w) \<Rightarrow>
                              postProcessDeployedResources ops env cs localReports remoteReports deployError isPullMode
                                configurationHash w)))))"

section \<open>Removing\<close>

definition remove_reports :: "'e resource_env_scheme \<Rightarrow> cluster_summary \<Rightarrow> feature_id \<Rightarrow> bool \<Rightarrow> resource_report list \<Rightarrow> 's resource_world \<Rightarrow>
    dep_error option \<times> 's resource_world" where
  "remove_reports env cs featureID noConfig reports w =
     (case GetProfileRef (own_env env) cs of
        Inl e \<Rightarrow> (Some e, w)
      | Inr profileRef \<Rightarrow>
          (case update_reloader env cs profileRef featureID [] True w of
             (Some e, w) \<Rightarrow> (Some e, w)
           | (None, w) \<Rightarrow>
               (case update_configuration env cs True profileRef featureID [] w of
                  (Some e, w) \<Rightarrow> (Some e, w)
                | (None, w) \<Rightarrow> updateClusterReportWithResourceReports env cs noConfig reports featureID w)))"

definition remote_config :: "rest_config option \<Rightarrow> rest_config" where
  "remote_config config = (case config of None \<Rightarrow> [] | Some c \<Rightarrow> c)"

definition pushModeUndeployResources :: "'e resource_env_scheme \<Rightarrow> cluster_summary \<Rightarrow> feature_id \<Rightarrow> 's resource_world \<Rightarrow>
    dep_error option \<times> 's resource_world" where
  "pushModeUndeployResources env cs featureID w =
     (case hv_preDelete (own_env env) of
        Some e \<Rightarrow> (Some e, w)
      | None \<Rightarrow>
          (case sv_RestConfig env False of
             Inl e \<Rightarrow> (Some e, w)
           | Inr remoteRestConfig \<Rightarrow>
               (case sv_AdminClient env of
                  Some e \<Rightarrow> (Some e, w)
                | None \<Rightarrow>
                    (case undeployStaleResources env False (remote_config remoteRestConfig) featureID cs
                            (deployed_kinds env cs featureID) [] w of
                       (Inl e, w) \<Rightarrow> (Some e, w)
                     | (Inr reports, w) \<Rightarrow>
                         (case hv_postDelete (own_env env) of
                            Some e \<Rightarrow> (Some e, w)
                          | None \<Rightarrow> remove_reports env cs featureID (remoteRestConfig = None) reports w)))))"

definition pullModeUndeployResources :: "'e resource_env_scheme \<Rightarrow> cluster_summary \<Rightarrow> 's resource_world \<Rightarrow>
    dep_error option \<times> 's resource_world" where
  "pullModeUndeployResources env cs w =
     (case GetProfileRef (own_env env) cs of
        Inl e \<Rightarrow> (Some e, w)
      | Inr _ \<Rightarrow>
          (case prepareSetters (own_env env) cs None False True of
             Inl e \<Rightarrow> (Some e, w)
           | Inr _ \<Rightarrow>
               (case cv_RemoveDeployed (own_env env) of
                  Some e \<Rightarrow> (Some e, w)
                | None \<Rightarrow>
                    (let w = w\<lparr>rw_Removing := True, rw_Staged := []\<rparr> in
                     case sv_RemoveStatus env of
                       Inl e \<Rightarrow> (Some e, w)
                     | Inr (status, message) \<Rightarrow>
                         (if status \<noteq> Some FeatureStatusRemoved
                          then Some (plain_error (''resources are still being removed.'' @ (case message of None \<Rightarrow> [] | Some m \<Rightarrow> m)))
                          else None, w)))))"

definition errors_join :: "dep_error option \<Rightarrow> dep_error option \<Rightarrow> dep_error option" where
  "errors_join a b =
     (case (a, b) of
        (None, _) \<Rightarrow> b
      | (Some e, None) \<Rightarrow> Some e
      | (Some e, Some e') \<Rightarrow> Some \<lparr>err_Msg = err_Msg e @ [char_of (10 :: nat)] @ err_Msg e', err_Chain = err_Chain e @ err_Chain e'\<rparr>)"

definition undeploy_locally :: "'e resource_env_scheme \<Rightarrow> cluster_summary \<Rightarrow> feature_id \<Rightarrow> 's resource_world \<Rightarrow>
    (dep_error + resource_report list) \<times> 's resource_world" where
  "undeploy_locally env cs featureID w =
     undeployStaleResources env True [] featureID cs (deployed_kinds env cs featureID) [] w"

definition end_undeploy :: "'s set_ops \<Rightarrow> 'e resource_env_scheme \<Rightarrow> cluster_summary \<Rightarrow> feature_id \<Rightarrow> 's resource_world \<Rightarrow>
    dep_error option \<times> 's resource_world" where
  "end_undeploy ops env cs featureID w =
     (if is_dry_run cs then (Some dry_run_error, w) else stop_watchers ops env [] cs featureID w)"

definition undeploy_remotely :: "'e resource_env_scheme \<Rightarrow> cluster_summary \<Rightarrow> feature_id \<Rightarrow> bool \<Rightarrow> 's resource_world \<Rightarrow>
    dep_error option \<times> 's resource_world" where
  "undeploy_remotely env cs featureID isPullMode w =
     (if isPullMode then pullModeUndeployResources env cs w else pushModeUndeployResources env cs featureID w)"

definition undeployResources :: "'s set_ops \<Rightarrow> 'e resource_env_scheme \<Rightarrow> request \<Rightarrow> 's resource_world \<Rightarrow> dep_error option \<times> 's resource_world" where
  "undeployResources ops env req w =
     (case get_summary (own_env env) 0 req (rw_Helm w) of
        Inl e \<Rightarrow> (if errors_As e NotFoundError then None else Some e, w)
      | Inr cs \<Rightarrow>
          (case cv_PullMode (own_env env) of
             Inl e \<Rightarrow> (Some e, w)
           | Inr isPullMode \<Rightarrow>
               (case undeploy_locally env cs FeatureResources w of
                  (localResult, w) \<Rightarrow>
                    (case undeploy_remotely env cs FeatureResources isPullMode w of
                       (err, w) \<Rightarrow>
                         (case errors_join (case localResult of Inl e \<Rightarrow> Some e | Inr _ \<Rightarrow> None) err of
                            Some e \<Rightarrow> (Some e, w)
                          | None \<Rightarrow> end_undeploy ops env cs FeatureResources w)))))"

end
