(* ===== verification/Kustomize_Feature.thy ===== *)
theory Kustomize_Feature
  imports Resource_Feature
begin

text \<open>
  The feature of kustomizations (controllers/handlers_kustomize.go): building the directory of a reference, the resources that come out of it, where
  they go, what is recorded after it, and the removal.

  \<open>kustomize_env\<close> adds the YAML of a kustomization file, the builder of kustomize and the template engine that substitutes values.
  The reports and the clean-up are those of Resource_Feature.
\<close>

section \<open>Building\<close>

text \<open>A kustomization file as a map: the field of the components, and the rest. An empty file is a map that is nil.\<close>

datatype yaml_field = Yaml_List "string list" | Yaml_Other string

record kustomization_file =
  kfi_Components :: "yaml_field option"
  kfi_Rest :: string

record kustomize_env = resource_env +
  ke_Unmarshal :: "bytes \<Rightarrow> dep_error + kustomization_file option"
  ke_Marshal :: "kustomization_file option \<Rightarrow> dep_error + bytes"
  ke_Build :: "string \<Rightarrow> disk \<Rightarrow> dep_error + (dep_error + string) list"
  ke_Template :: "cluster_summary \<Rightarrow> string \<Rightarrow> string \<Rightarrow> dep_error + ((string \<times> string) list \<Rightarrow> dep_error + string)"
  ke_GetUnstructured :: "string \<Rightarrow> dep_error + unstructured"

fun instantiate_components :: "'e kustomize_env_scheme \<Rightarrow> cluster_summary \<Rightarrow> deployment_context \<Rightarrow> string list \<Rightarrow> dep_error + string list" where
  "instantiate_components env cs ctx [] = Inr []"
| "instantiate_components env cs ctx (c # cs') =
     (case instantiateTemplateValues env cs (om_Name (cs_Meta cs)) c (dc_Objects ctx) (dc_MgmtResources ctx) of
        Inl e \<Rightarrow> Inl e
      | Inr s \<Rightarrow> map_sum id (\<lambda>rest. s # rest) (instantiate_components env cs ctx cs'))"

text \<open>Writing to a map that is nil panics.\<close>

definition add_components :: "string list \<Rightarrow> kustomization_file option \<Rightarrow> dep_error + kustomization_file option" where
  "add_components components existing =
     (if components = [] then Inr existing
      else case existing of
        None \<Rightarrow> Inl panic_error
      | Some k \<Rightarrow>
          Inr (Some (k\<lparr>kfi_Components := Some (Yaml_List
            (case kfi_Components k of Some (Yaml_List cs) \<Rightarrow> cs @ components | _ \<Rightarrow> components))\<rparr>)))"

definition read_file :: "'e files_env_scheme \<Rightarrow> string \<Rightarrow> disk \<Rightarrow> dep_error + bytes" where
  "read_file env p d =
     (case te_Read env p of
        Some e \<Rightarrow> Inl e
      | None \<Rightarrow> (case map_of (dk_Files d) p of None \<Rightarrow> Inl (plain_error ''no such file or directory'') | Some c \<Rightarrow> Inr c))"

definition rewrite_kustomization :: "'e kustomize_env_scheme \<Rightarrow> string \<Rightarrow> string list \<Rightarrow> disk \<Rightarrow> dep_error option \<times> disk" where
  "rewrite_kustomization env dirPath components d =
     (let kustFilePath = path_join dirPath ''kustomization.yaml'' in
      case read_file env kustFilePath d of
        Inl e \<Rightarrow> (Some (prefixed ''failed to read kustomization.yaml'' e), d)
      | Inr kustData \<Rightarrow>
          (case ke_Unmarshal env kustData of
             Inl e \<Rightarrow> (Some (prefixed ''failed to unmarshal kustomization.yaml'' e), d)
           | Inr existingKust \<Rightarrow>
               (case add_components components existingKust of
                  Inl e \<Rightarrow> (Some e, d)
                | Inr modified \<Rightarrow>
                    (case ke_Marshal env modified of
                       Inl e \<Rightarrow> (Some (prefixed ''failed to marshal modified kustomization'' e), d)
                     | Inr modifiedKustData \<Rightarrow>
                         (case write_file env kustFilePath modifiedKustData d of
                            (Some e, d) \<Rightarrow> (Some (prefixed ''failed to write modified kustomization.yaml'' e), d)
                          | (None, d) \<Rightarrow> (None, d))))))"

definition buildKustomization :: "'e kustomize_env_scheme \<Rightarrow> string \<Rightarrow> disk \<Rightarrow> dep_error + (dep_error + string) list" where
  "buildKustomization env dirPath d = ke_Build env dirPath d"

definition build_directory :: "'e kustomize_env_scheme \<Rightarrow> kustomization_ref \<Rightarrow> cluster_summary \<Rightarrow> deployment_context \<Rightarrow> string \<Rightarrow> disk \<Rightarrow>
    (dep_error + (dep_error + string) list) \<times> disk" where
  "build_directory env kr cs ctx tmpDir d =
     (case instantiateTemplateValues env cs (om_Name (cs_Meta cs)) (kr_Path kr) (dc_Objects ctx) (dc_MgmtResources ctx) of
        Inl e \<Rightarrow> (Inl e, d)
      | Inr instantiatedPath \<Rightarrow>
          (case instantiate_components env cs ctx (kr_Components kr) of
             Inl e \<Rightarrow> (Inl e, d)
           | Inr instantiatedComponents \<Rightarrow>
               (let dirPath = path_join tmpDir instantiatedPath in
                case sv_Stat env dirPath d of
                  Some e \<Rightarrow> (Inl (prefixed ''kustomization path not found'' e), d)
                | None \<Rightarrow>
                    (case rewrite_kustomization env dirPath instantiatedComponents d of
                       (Some e, d) \<Rightarrow> (Inl e, d)
                     | (None, d) \<Rightarrow> (buildKustomization env dirPath d, d)))))"

section \<open>The resources\<close>

definition instantiateResourceWithSubstituteValues :: "'e kustomize_env_scheme \<Rightarrow> cluster_summary \<Rightarrow> string \<Rightarrow> string \<Rightarrow>
    (string \<times> string) list \<Rightarrow> dep_error + string" where
  "instantiateResourceWithSubstituteValues env cs templateName resource substituteValues =
     (case ke_Template env cs templateName resource of
        Inl e \<Rightarrow> Inl e
      | Inr execute \<Rightarrow> map_sum (prefixed (''error executing template '' @ resource)) id (execute substituteValues))"

definition kustomized_resource :: "'e kustomize_env_scheme \<Rightarrow> cluster_summary \<Rightarrow> kustomization_ref \<Rightarrow> (string \<times> string) list \<Rightarrow>
    dep_error + string \<Rightarrow> dep_error + unstructured" where
  "kustomized_resource env cs kr vals resource =
     (case resource of
        Inl e \<Rightarrow> Inl e
      | Inr yaml \<Rightarrow>
          (case (if vals = [] then Inr yaml
                 else instantiateResourceWithSubstituteValues env cs (om_Name (cs_Meta cs) @ ''-substitutevalues'') yaml vals) of
             Inl e \<Rightarrow> Inl (prefixed ''failed to instantiate resource with substitute values'' e)
           | Inr resourceYAML \<Rightarrow>
               map_sum id (\<lambda>u. if kr_TargetNamespace kr \<noteq> [] then u\<lparr>un_Namespace := kr_TargetNamespace kr\<rparr> else u)
                 (ke_GetUnstructured env resourceYAML)))"

fun kustomized_resources :: "'e kustomize_env_scheme \<Rightarrow> cluster_summary \<Rightarrow> kustomization_ref \<Rightarrow> (string \<times> string) list \<Rightarrow>
    (dep_error + string) list \<Rightarrow> dep_error + unstructured list" where
  "kustomized_resources env cs kr vals [] = Inr []"
| "kustomized_resources env cs kr vals (r # rs) =
     (case kustomized_resource env cs kr vals r of
        Inl e \<Rightarrow> Inl e
      | Inr u \<Rightarrow> map_sum id (\<lambda>us. u # us) (kustomized_resources env cs kr vals rs))"

text \<open>First the objects for the management cluster, then those for the managed one.\<close>

definition getKustomizedResources :: "'e kustomize_env_scheme \<Rightarrow> cluster_summary \<Rightarrow> (dep_error + string) list \<Rightarrow> kustomization_ref \<Rightarrow>
    cluster_objects \<Rightarrow> dep_error + unstructured list \<times> unstructured list" where
  "getKustomizedResources env cs resMap kr objs =
     (case substitute_values env cs kr objs of
        Inl e \<Rightarrow> Inl e
      | Inr vals \<Rightarrow>
          map_sum id (\<lambda>us. if kr_DeploymentType kr = DeploymentTypeLocal then (us, []) else ([], us))
            (kustomized_resources env cs kr vals resMap))"

section \<open>Deploying\<close>

definition kustomize_ref :: "kustomization_ref \<Rightarrow> object_reference" where
  "kustomize_ref kr = \<lparr>ref_Kind = kr_Kind kr, ref_Namespace = kr_Namespace kr, ref_Name = kr_Name kr, ref_APIVersion = []\<rparr>"

definition kustomize_target :: "bool \<Rightarrow> rest_config option \<Rightarrow> kustomization_ref \<Rightarrow> deploy_target" where
  "kustomize_target mgmt config kr = \<lparr>dt_Mgmt = mgmt, dt_Config = config, dt_Ref = kustomize_ref kr, dt_Tier = kr_Tier kr,
     dt_SkipNamespaceCreation = kr_SkipNamespaceCreation kr, dt_Force = kr_Force kr, dt_Feature = FeatureKustomize,
     dt_Subresources = []\<rparr>"

definition deployKustomizeResources :: "'e kustomize_env_scheme \<Rightarrow> rest_config option \<Rightarrow> kustomization_ref \<Rightarrow> (dep_error + string) list \<Rightarrow>
    cluster_summary \<Rightarrow> deployment_context \<Rightarrow> 's resource_world \<Rightarrow>
    (resource_report list \<times> resource_report list \<times> dep_error option) \<times> 's resource_world" where
  "deployKustomizeResources env remoteRestConfig kr resMap cs ctx w =
     (case getKustomizedResources env cs resMap kr (dc_Objects ctx) of
        Inl e \<Rightarrow> (([], [], Some e), w)
      | Inr (objectsToDeployLocally, objectsToDeployRemotely) \<Rightarrow>
          (case deployUnstructured env (kustomize_target True (Some (local_config env cs)) kr) objectsToDeployLocally cs w of
             ((localReports, Some e), w) \<Rightarrow> ((localReports, [], Some e), w)
           | ((localReports, None), w) \<Rightarrow>
               if remoteRestConfig = None then
                 (case stage_resources env (kustomize_target False None kr) objectsToDeployRemotely w of
                    (err, w) \<Rightarrow> ((localReports, [], err), w))
               else
                 (case sv_NewClient env of
                    Some e \<Rightarrow> (([], [], Some e), w)
                  | None \<Rightarrow>
                      (case deployUnstructured env (kustomize_target False remoteRestConfig kr) objectsToDeployRemotely cs w of
                         ((remoteReports, err), w) \<Rightarrow> ((localReports, remoteReports, err), w)))))"

definition deployKustomizeRef :: "'e kustomize_env_scheme \<Rightarrow> rest_config option \<Rightarrow> kustomization_ref \<Rightarrow> cluster_summary \<Rightarrow>
    deployment_context \<Rightarrow> 's resource_world \<Rightarrow> (resource_report list \<times> resource_report list \<times> dep_error option) \<times> 's resource_world" where
  "deployKustomizeRef env remoteRestConfig kr cs ctx w =
     (case in_disk (prepareFileSystem env cs kr) w of
        (Inl e, w) \<Rightarrow> (([], [], Some e), w)
      | (Inr tmpDir, w) \<Rightarrow>
          if tmpDir = [] then (([], [], None), w)
          else
            (case (case in_disk (build_directory env kr cs ctx tmpDir) w of
                     (Inl e, w) \<Rightarrow> (([], [], Some e), w)
                   | (Inr resMap, w) \<Rightarrow> deployKustomizeResources env remoteRestConfig kr resMap cs ctx w) of
               (r, w) \<Rightarrow> (r, w\<lparr>rw_Disk := remove_all tmpDir (rw_Disk w)\<rparr>)))"

text \<open>An error of one reference returns no reports at all, not even those of the references before it.\<close>

fun deploy_kustomizations :: "'e kustomize_env_scheme \<Rightarrow> rest_config option \<Rightarrow> cluster_summary \<Rightarrow> deployment_context \<Rightarrow>
    kustomization_ref list \<Rightarrow> resource_report list \<Rightarrow> resource_report list \<Rightarrow> 's resource_world \<Rightarrow>
    (resource_report list \<times> resource_report list \<times> dep_error option) \<times> 's resource_world" where
  "deploy_kustomizations env config cs ctx [] localReports remoteReports w = ((localReports, remoteReports, None), w)"
| "deploy_kustomizations env config cs ctx (kr # krs) localReports remoteReports w =
     (case deployKustomizeRef env config kr cs ctx w of
        ((_, _, Some e), w) \<Rightarrow> (([], [], Some e), w)
      | ((tmpLocal, tmpRemote, None), w) \<Rightarrow>
          deploy_kustomizations env config cs ctx krs (localReports @ tmpLocal) (remoteReports @ tmpRemote) w)"

definition deployEachKustomizeRefs :: "'e kustomize_env_scheme \<Rightarrow> rest_config option \<Rightarrow> cluster_summary \<Rightarrow> 's resource_world \<Rightarrow>
    (resource_report list \<times> resource_report list \<times> dep_error option) \<times> 's resource_world" where
  "deployEachKustomizeRefs env remoteRestConfig cs w =
     (case fetchClusterObjects env cs of
        Inl e \<Rightarrow> (([], [], Some e), w)
      | Inr objs \<Rightarrow>
          (case collectTemplateResourceRefs env cs of
             Inl e \<Rightarrow> (([], [], Some e), w)
           | Inr mgmtResources \<Rightarrow>
               deploy_kustomizations env remoteRestConfig cs \<lparr>dc_Objects = objs, dc_MgmtResources = mgmtResources\<rparr>
                 (slice (ps_KustomizationRefs (cs_ProfileSpec cs))) [] [] w))"

section \<open>After the resources\<close>

text \<open>The section of the ResourceSummary: what is to be ignored for drift is not copied.\<close>

definition kustomize_tracked :: "policy_resource \<Rightarrow> policy_resource" where
  "kustomize_tracked r = r\<lparr>plr_LastAppliedTime := None, plr_IgnoreForConfigurationDrift := False\<rparr>"

definition deployResourceSummaryWithKustomizeResources :: "'e resource_env_scheme \<Rightarrow> policy_resource list \<Rightarrow> 's resource_world \<Rightarrow>
    dep_error option \<times> 's resource_world" where
  "deployResourceSummaryWithKustomizeResources env deployed = put_section env FeatureKustomize (map kustomize_tracked deployed)"

definition handleKustomizeResourceSummaryDeployment :: "'e resource_env_scheme \<Rightarrow> cluster_summary \<Rightarrow> bool \<Rightarrow> policy_resource list \<Rightarrow>
    's resource_world \<Rightarrow> dep_error option \<times> cluster_summary \<times> 's resource_world" where
  "handleKustomizeResourceSummaryDeployment env = track_section (deployResourceSummaryWithKustomizeResources env) FeatureKustomize"

definition handleDriftDetectionManagerDeploymentForKustomize :: "'e resource_env_scheme \<Rightarrow> cluster_summary \<Rightarrow> bool \<Rightarrow> 's resource_world \<Rightarrow>
    dep_error option \<times> cluster_summary \<times> 's resource_world" where
  "handleDriftDetectionManagerDeploymentForKustomize env cs isPullMode w =
     (if ps_SyncMode (cs_ProfileSpec cs) = SyncModeContinuousWithDriftDetection then
        (case cv_DriftManager (own_env env) of
           Some e \<Rightarrow> (Some e, cs, w)
         | None \<Rightarrow> handleKustomizeResourceSummaryDeployment env cs isPullMode [] w)
      else (None, cs, w))"

definition commitPullModeKustomizeStaging :: "'e resource_env_scheme \<Rightarrow> cluster_summary \<Rightarrow> bytes option \<Rightarrow> 's resource_world \<Rightarrow>
    dep_error option \<times> 's resource_world" where
  "commitPullModeKustomizeStaging = commit_feature"

definition kustomize_calls :: "'e resource_env_scheme \<Rightarrow> rest_config option \<Rightarrow> 's feature_calls" where
  "kustomize_calls env remoteRestConfig = \<lparr>fcl_Feature = FeatureKustomize, fcl_Clean = cleanStaleKustomizeResources env,
     fcl_Commit = commitPullModeKustomizeStaging env, fcl_Track = handleKustomizeResourceSummaryDeployment env,
     fcl_NoReport = (remoteRestConfig = None), fcl_OnError = (\<lambda>_ _ deployError w. (Some deployError, w))\<rparr>"

definition processKustomizeDeployment :: "'s set_ops \<Rightarrow> 'e resource_env_scheme \<Rightarrow> rest_config option \<Rightarrow> cluster_summary \<Rightarrow>
    resource_report list \<Rightarrow> resource_report list \<Rightarrow> dep_error option \<Rightarrow> bool \<Rightarrow> bytes option \<Rightarrow> 's resource_world \<Rightarrow>
    dep_error option \<times> 's resource_world" where
  "processKustomizeDeployment ops env remoteRestConfig cs localReports remoteReports deployError isPullMode configurationHash w =
     post_process ops env (kustomize_calls env remoteRestConfig) cs localReports remoteReports deployError isPullMode configurationHash w"

definition deployKustomizeRefs :: "'s set_ops \<Rightarrow> 'e kustomize_env_scheme \<Rightarrow> request \<Rightarrow> bytes option \<Rightarrow> 's resource_world \<Rightarrow>
    dep_error option \<times> 's resource_world" where
  "deployKustomizeRefs ops env req configurationHash w =
     (case start_feature env False req w of
        Inl e \<Rightarrow> (Some e, w)
      | Inr (cs, isPullMode, remoteRestConfig) \<Rightarrow>
          (case (if isPullMode then discard_feature env w else (None, w)) of
             (Some e, w) \<Rightarrow> (Some e, w)
           | (None, w) \<Rightarrow>
               (case handleDriftDetectionManagerDeploymentForKustomize env cs isPullMode w of
                  (Some e, _, w) \<Rightarrow> (Some e, w)
                | (None, cs, w) \<Rightarrow>
                    (case (if isPullMode then None else cv_PreDeploy (own_env env)) of
                       Some e \<Rightarrow> (Some (wrap_error ''failed to validate preDeployChecks: '' e), w)
                     | None \<Rightarrow>
                         (case deployEachKustomizeRefs env remoteRestConfig cs w of
                            ((localReports, remoteReports, deployError), w) \<Rightarrow>
                              processKustomizeDeployment ops env remoteRestConfig cs localReports remoteReports deployError isPullMode
                                configurationHash w)))))"

section \<open>Removing\<close>

text \<open>Unlike the removal of plain resources, an error in the management cluster ends it.\<close>

definition undeployKustomizeRefs :: "'s set_ops \<Rightarrow> 'e resource_env_scheme \<Rightarrow> request \<Rightarrow> 's resource_world \<Rightarrow> dep_error option \<times> 's resource_world" where
  "undeployKustomizeRefs ops env req w =
     (case cv_PullMode (own_env env) of
        Inl e \<Rightarrow> (Some e, w)
      | Inr isPullMode \<Rightarrow>
          (case get_summary (own_env env) 0 req (rw_Helm w) of
             Inl e \<Rightarrow> (if errors_As e NotFoundError then None else Some e, w)
           | Inr cs \<Rightarrow>
               (case undeploy_locally env cs FeatureKustomize w of
                  (Inl e, w) \<Rightarrow> (Some e, w)
                | (Inr _, w) \<Rightarrow>
                    (case undeploy_remotely env cs FeatureKustomize isPullMode w of
                       (Some e, w) \<Rightarrow> (Some e, w)
                     | (None, w) \<Rightarrow> end_undeploy ops env cs FeatureKustomize w))))"

end
