(* ===== verification/Resource_Frames.thy ===== *)
theory Resource_Frames
  imports Kustomize_Feature Agent_Runs
begin

text \<open>
  What a pass of the features of plain resources and kustomizations does to the clusters: a dry run and a pass for the agent leave them
  alone, a Profile stays in its namespace, a clean-up keeps what was just deployed and removes the rest, and what
  is lost when a reference fails.
\<close>

section \<open>Passes that leave a cluster alone\<close>

text \<open>What the management cluster (\<open>True\<close>) or the managed one holds, the ClusterConfigurations, and the ClusterSummaries but for
  their status.\<close>

abbreviation seen :: "bool \<Rightarrow> 's resource_world \<Rightarrow> unstructured list \<times> configs \<times> (object_meta \<times> cluster_summary_spec) list" where
  "seen b w \<equiv> (rw_Objects w b, rw_Configs w, objects (rw_Helm w))"

text \<open>A deployment that changes nothing of a cluster: a dry run, one that goes to the other cluster, one that is staged.\<close>

definition idle :: "'e resource_env_scheme \<Rightarrow> cluster_summary \<Rightarrow> bool \<Rightarrow> rest_config option \<Rightarrow> bool \<Rightarrow> bool" where
  "idle env cs mgmt config b \<longleftrightarrow> is_dry_run cs \<or> physical env mgmt \<noteq> b \<or> \<not> mgmt \<and> config = None"

definition idle_target :: "'e resource_env_scheme \<Rightarrow> cluster_summary \<Rightarrow> bool \<Rightarrow> bool \<Rightarrow> bool" where
  "idle_target env cs mgmt b \<longleftrightarrow> is_dry_run cs \<or> physical env mgmt \<noteq> b"

lemma in_resource_seen:
  "in_resource f w = (r, w') \<Longrightarrow> (\<And>q h. f (rw_Helm w) = (q, h) \<Longrightarrow> status_only (rw_Helm w) h) \<Longrightarrow> seen b w' = seen b w"
  by (auto simp: in_resource_def status_only_def split: prod.splits)

lemma requeue_owners_frame: "requeue_owners env f cs owners w = (r, w') \<Longrightarrow> status_only w w'"
proof (induction env f cs owners w rule: requeue_owners.induct)
  case (2 env f cs kind name owners w)
  show ?case
  proof (cases "kind \<noteq> ClusterProfileKind \<and> kind \<noteq> ProfileKind")
    case False
    show ?thesis
    proof (cases "GetClusterSummary (oe_List env (hw_Store w)) kind name (css_ClusterNamespace (cs_Spec cs))
        (css_ClusterName (cs_Spec cs)) (css_ClusterType (cs_Spec cs))")
      case (Inr owner)
      obtain q v where q: "requeueClusterSummary env f owner w = (q, v)" by fastforce
      show ?thesis using 2 False Inr q requeue_frame [OF q] by (cases q) (auto intro: status_only_trans)
    qed (use 2 False in \<open>auto split: api_error.splits\<close>)
  qed (use 2 in auto)
qed simp

lemma requeue_owners_seen: "in_resource (requeueAllOldOwners env info f cs) w = (r, w') \<Longrightarrow> seen b w' = seen b w"
  by (erule in_resource_seen) (auto simp: requeueAllOldOwners_def Let_def dest: requeue_owners_frame)

lemma update_resource_seen:
  "UpdateResource env t cs policy w = (r, w') \<Longrightarrow> idle_target env cs (dt_Mgmt t) b \<Longrightarrow> seen b w' = seen b w"
  by (auto simp: UpdateResource_def idle_target_def set_objects_def split: prod.splits option.splits)

lemma apply_step_seen:
  assumes "apply_step env t cs policy pre resource h info sums w = (r, w')" "idle_target env cs (dt_Mgmt t) b"
  shows "seen b w' = seen b w"
  using assms by (auto simp: apply_step_def Let_def split: prod.splits dest!: update_resource_seen)

lemma deploy_resource_seen:
  assumes "deploy_resource env t cs owner policy sums w = (r, w')" "idle_target env cs (dt_Mgmt t) b"
  shows "seen b w' = seen b w"
proof -
  have take: "seen b v' = seen b v" if "take_and_apply env t cs profile tier pre u sums v = (q, v')" for profile tier pre u v q v'
    using that assms(2)
    by (auto simp: take_and_apply_def split: prod.splits option.splits can_deploy.splits if_splits
        dest!: requeue_owners_seen [where b = b] apply_step_seen [where b = b])
  show ?thesis
    using assms(1) by (auto simp: deploy_resource_def Let_def split: sum.splits option.splits if_splits dest!: take)
qed

lemma deploy_resources_seen:
  "deploy_resources env t cs owner policies sums w = (r, w') \<Longrightarrow> idle_target env cs (dt_Mgmt t) b \<Longrightarrow> seen b w' = seen b w"
proof (induction policies arbitrary: sums w)
  case (Cons policy policies)
  obtain q v where q: "deploy_resource env t cs owner policy sums w = (q, v)" by fastforce
  show ?case using Cons.IH [of _ v] Cons.prems q deploy_resource_seen [OF q Cons.prems(2)] by (cases q) auto
qed simp

lemma deploy_unstructured_seen:
  "deployUnstructured env t policies cs w = (r, w') \<Longrightarrow> idle_target env cs (dt_Mgmt t) b \<Longrightarrow> seen b w' = seen b w"
  by (auto simp: deployUnstructured_def split: sum.splits dest: deploy_resources_seen)


text \<open>
  An observation of the world that deploying lists of objects keeps, for the targets \<open>ok\<close> admits, and that does not depend on temporary
  files and on what is staged, is kept by deploying references and kustomizations.
\<close>

locale deployment_frame =
  fixes env :: "'e kustomize_env_scheme" and cs :: cluster_summary and ok :: "bool \<Rightarrow> rest_config option \<Rightarrow> bool"
    and obs :: "'s resource_world \<Rightarrow> 'o"
  assumes deploys: "ok mgmt config \<Longrightarrow> \<not> (config = None \<and> \<not> mgmt) \<Longrightarrow> dt_Mgmt t = mgmt \<Longrightarrow> dt_Config t = config \<Longrightarrow>
      deployUnstructured env t us cs w = (r, w') \<Longrightarrow> obs w' = obs w"
    and disk: "obs (w\<lparr>rw_Disk := d\<rparr>) = obs w"
    and staged: "obs (w\<lparr>rw_Staged := x\<rparr>) = obs w"
begin

lemma deployed:
  "deployUnstructured env t us cs w = (r, w') \<Longrightarrow> ok (dt_Mgmt t) (dt_Config t) \<and> (dt_Config t = None \<longrightarrow> dt_Mgmt t) \<Longrightarrow> obs w' = obs w"
  by (rule deploys [OF _ _ refl refl, rotated 2]) auto

lemma stage: "stage_resources env t us w = (r, w') \<Longrightarrow> obs w' = obs w"
  by (auto simp: stage_resources_def Let_def staged split: option.splits)

lemma temporary: "in_disk f w = (r, w') \<Longrightarrow> obs w' = obs w"
  by (auto simp: in_disk_def disk split: prod.splits)

lemma content:
  assumes "deployContent env mgmt config ref ann data reference cs ctx w = (r, w')" "ok mgmt config"
  shows "obs w' = obs w"
  using assms
  by (auto simp: deployContent_def Let_def target_of_def split: sum.splits prod.splits if_splits dest!: stage deployed)

lemma source:
  assumes "deployContentOfSource env mgmt config name s reference cs ctx w = (r, w')" "ok mgmt config"
  shows "obs w' = obs w"
  using assms
  by (auto simp: deployContentOfSource_def disk split: prod.splits sum.splits if_splits dest!: temporary content)

lemma reference:
  assumes "deploy_content env mgmt config name x reference cs ctx w = (r, w')" "ok mgmt config"
  shows "obs w' = obs w"
  using assms
  by (cases x) (auto simp: deploy_content_def deployContentOfConfigMap_def deployContentOfSecret_def prefix_error_def
      split: prod.splits dest!: content dest: source)

lemma url:
  assumes "deployContentOfURL env mgmt config reference cs ctx w = (r, w')" "ok mgmt config"
  shows "obs w' = obs w"
  using assms by (auto simp: deployContentOfURL_def split: sum.splits dest: content)

lemma each:
  "deploy_each env mgmt config cs ctx references reports w = (r, w') \<Longrightarrow> ok mgmt config \<Longrightarrow> obs w' = obs w"
proof (induction references arbitrary: reports w)
  case (Cons ref refs)
  show ?case
  proof (cases "ro_URL ref = []")
    case False
    obtain tmp e v where q: "deployContentOfURL env mgmt config ref cs ctx w = ((tmp, e), v)" by (metis surj_pair)
    show ?thesis using Cons False q url [OF q Cons.prems(2)] by (cases e) auto
  next
    case True
    show ?thesis
    proof (cases "\<exists>name x. getReferencedObject env cs ref = Inr (Some (name, x))")
      case found: True
      then obtain name x where x: "getReferencedObject env cs ref = Inr (Some (name, x))" by blast
      obtain tmp e v where q: "deploy_content env mgmt config name x ref cs ctx w = ((tmp, e), v)" by (metis surj_pair)
      show ?thesis using Cons True x q reference [OF q Cons.prems(2)] by (cases e) auto
    next
      case False
      then show ?thesis using Cons True by (auto split: sum.splits option.splits)
    qed
  qed
qed simp

lemma referenced:
  "deployObjects env mgmt config references cs m w = (r, w') \<Longrightarrow> ok mgmt config \<Longrightarrow> obs w' = obs w"
  by (auto simp: deployObjects_def split: sum.splits dest: each)

lemma policies:
  assumes "deployPolicyRefs env config cs w = (r, w')" and "ok True (Some (local_config env cs))" "ok False config"
  shows "obs w' = obs w"
  using assms
  by (auto simp: deployPolicyRefs_def deployReferencedObjects_def split: prod.splits sum.splits option.splits dest!: referenced)

lemma kustomized:
  assumes "deployKustomizeResources env config kr resMap cs ctx w = (r, w')"
    and ok: "ok True (Some (local_config env cs))" "ok False config"
  shows "obs w' = obs w"
  using assms
  by (auto simp: deployKustomizeResources_def kustomize_target_def split: sum.splits prod.splits option.splits if_splits
      dest!: stage deployed)

lemma kustomization:
  assumes "deployKustomizeRef env config kr cs ctx w = (r, w')" and "ok True (Some (local_config env cs))" "ok False config"
  shows "obs w' = obs w"
  using assms
  by (auto simp: deployKustomizeRef_def disk split: prod.splits sum.splits if_splits dest!: temporary kustomized)

lemma kustomizations:
  assumes ok: "ok True (Some (local_config env cs))" "ok False config"
  shows "deploy_kustomizations env config cs ctx krs l rm w = (r, w') \<Longrightarrow> obs w' = obs w"
proof (induction krs arbitrary: l rm w)
  case (Cons kr krs)
  obtain tl tr e u where k: "deployKustomizeRef env config kr cs ctx w = ((tl, tr, e), u)" by (metis surj_pair)
  show ?case using Cons k kustomization [OF k ok] by (cases e) auto
qed simp

lemma each_kustomization:
  assumes ok: "ok True (Some (local_config env cs))" "ok False config"
  shows "deployEachKustomizeRefs env config cs w = (r, w') \<Longrightarrow> obs w' = obs w"
  by (auto simp: deployEachKustomizeRefs_def split: sum.splits dest: kustomizations [OF ok])

end

lemma idle_deployment: "idle env cs mgmt config b \<Longrightarrow> \<not> (config = None \<and> \<not> mgmt) \<Longrightarrow> idle_target env cs mgmt b"
  by (auto simp: idle_def idle_target_def)

interpretation idle_frame: deployment_frame env cs "\<lambda>mgmt config. idle env cs mgmt config b" "seen b" for env cs b
  by unfold_locales (auto dest: deploy_unstructured_seen [where b = b] idle_deployment)

section \<open>Clean-up and reports\<close>

lemma settle_spared [simp]: "settle Spared u xs = xs"
  by (simp add: settle_def)

lemma undeploy_item_seen:
  assumes laws: "undeploy_laws env key_of" and run: "undeploy_item env p u w = (r, w')" and idle: "idle_target env (cup_CS p) (cup_Mgmt p) b"
  shows "seen b w' = seen b w"
proof (cases "is_dry_run (cup_CS p)")
  case True
  then have "protected p key_of u" by (simp add: protected_def)
  then have same: "objects_at env (cup_Mgmt p) w' = objects_at env (cup_Mgmt p) w" using protected_spared [OF laws _ run] by blast
  then have "rw_Objects w' = rw_Objects w"
    using run by (auto simp: undeploy_item_def set_objects_def objects_at_def split: if_splits prod.splits sum.splits)
  then show ?thesis using run by (auto simp: undeploy_item_def set_objects_def split: if_splits prod.splits sum.splits)
next
  case False
  then show ?thesis using run idle
    by (auto simp: undeploy_item_def idle_target_def set_objects_def split: if_splits prod.splits sum.splits)
qed

lemma undeploy_items_seen:
  assumes "undeploy_laws env key_of" "idle_target env (cup_CS p) (cup_Mgmt p) b"
  shows "undeploy_items env p us acc w = (r, w') \<Longrightarrow> seen b w' = seen b w"
proof (induction us arbitrary: acc w)
  case (Cons u us)
  obtain q v where q: "undeploy_item env p u w = (q, v)" by fastforce
  show ?case using Cons q undeploy_item_seen [OF assms(1) q assms(2)] by (cases q) auto
qed simp

lemma undeploy_kinds_seen:
  assumes "undeploy_laws env key_of" "idle_target env (cup_CS p) (cup_Mgmt p) b"
  shows "undeploy_kinds env p nss gs acc w = (r, w') \<Longrightarrow> seen b w' = seen b w"
proof (induction gs arbitrary: acc w)
  case (Cons g gs)
  show ?case
  proof (cases "\<exists>n items. sv_Mapping env (cup_Mgmt p) 0 g = Mapped n \<and>
      listDeployedResources env (cup_Feature p) g n nss (objects_at env (cup_Mgmt p) w) = Inr items")
    case True
    then obtain n items where m: "sv_Mapping env (cup_Mgmt p) 0 g = Mapped n"
        "listDeployedResources env (cup_Feature p) g n nss (objects_at env (cup_Mgmt p) w) = Inr items" by blast
    obtain q v where q: "undeploy_items env p items acc w = (q, v)" by fastforce
    show ?thesis using Cons q m undeploy_items_seen [OF assms q] by (cases q) auto
  qed (use Cons in \<open>auto split: mapping_answer.splits sum.splits if_splits\<close>)
qed simp

lemma undeploy_seen:
  assumes "undeployStaleResources env mgmt c f cs gvks current w = (r, w')" "undeploy_laws env key_of" "idle_target env cs mgmt b"
  shows "seen b w' = seen b w"
  using assms(1,3)
  by (auto simp: undeployStaleResources_def processDeployedGVKs_def split: sum.splits bool.splits if_splits option.splits
      dest!: undeploy_kinds_seen [OF assms(2), rotated, where b = b])

text \<open>The clean-up uses the configuration of the controller, which is nil for an agent.\<close>

lemma clean_feature_seen:
  assumes "clean_feature env f mgmt config cs reports w = (r, w')" "undeploy_laws env key_of" "idle env cs mgmt config b"
  shows "seen b w' = seen b w"
  using assms
  by (cases config) (auto simp: clean_feature_def idle_def idle_target_def dest!: undeploy_seen [where b = b])

lemma clean_both_seen:
  assumes "clean_both env (clean_feature env f) cs l rm w = (r, w')" "undeploy_laws env key_of"
    and "idle env cs True (Some []) b" "\<And>config. sv_RestConfig env False = Inr config \<Longrightarrow> idle env cs False config b"
  shows "seen b w' = seen b w"
  using assms
  by (auto simp: clean_both_def split: option.splits sum.splits prod.splits dest!: clean_feature_seen [where b = b])

lemma stop_watchers_seen: "stop_watchers ops env refs cs f w = (r, w') \<Longrightarrow> seen b w' = seen b w"
  by (auto simp: stop_watchers_def split: option.splits)

lemma handle_watchers_seen: "handleWatchers ops env cs reports f w = (r, w') \<Longrightarrow> seen b w' = seen b w"
  by (auto simp: handleWatchers_def split: if_splits prod.splits option.splits dest!: stop_watchers_seen [where b = b])

lemma report_seen:
  assumes "updateClusterReportWithResourceReports env cs pull reports f w = (r, w')"
  shows "seen b w' = seen b w"
proof -
  have "RetryOnConflict (reports_attempt env key f reports) w = (q, v) \<Longrightarrow> seen b v = seen b w" for key q v
    by (rule retry_invariant [where I = "\<lambda>v. seen b v = seen b w"]) (auto simp: reports_attempt_def split: option.splits)
  then show ?thesis
    using assms
    by (auto simp: updateClusterReportWithResourceReports_def UpdateClusterReportWithResourceReports_def split: sum.splits if_splits)
qed

lemma put_section_seen: "put_section env f rs w = (r, w') \<Longrightarrow> seen b w' = seen b w"
  by (auto simp: put_section_def split: option.splits)

lemma track_seen:
  "handleResourceSummaryDeployment env cs pull rs w = (r, c, w') \<Longrightarrow> seen b w' = seen b w"
  "handleKustomizeResourceSummaryDeployment env cs pull rs w = (r, c, w') \<Longrightarrow> seen b w' = seen b w"
  by (auto simp: handleResourceSummaryDeployment_def handleKustomizeResourceSummaryDeployment_def track_section_def deployResourceSummary_def
      deployResourceSummaryWithKustomizeResources_def split: if_splits prod.splits option.splits dest!: put_section_seen [where b = b])

lemma commit_seen: "commit_feature env cs h w = (r, w') \<Longrightarrow> seen b w' = seen b w"
  by (auto simp: commit_feature_def split: sum.splits option.splits)

lemma reloader_seen: "update_reloader env cs ref f rs rm w = (r, w') \<Longrightarrow> seen b w' = seen b w"
  by (auto simp: update_reloader_def split: prod.splits)


section \<open>Whole passes\<close>

text \<open>A ClusterSummary whose passes leave a cluster alone: a dry run, or, for the managed cluster, pull mode.\<close>

definition calm :: "'e resource_env_scheme \<Rightarrow> bool \<Rightarrow> cluster_summary \<Rightarrow> bool" where
  "calm env b cs \<longleftrightarrow> is_dry_run cs \<or> \<not> b \<and> cv_PullMode (own_env env) = Inr True \<and> (\<forall>x. sv_RestConfig env x = Inr None)"

lemma calm_idle:
  "calm env b cs \<Longrightarrow> idle env cs True c b"
  "calm env b cs \<Longrightarrow> sv_RestConfig env x = Inr config \<Longrightarrow> idle env cs False config b"
  "calm env b cs \<Longrightarrow> idle_target env cs True b"
  by (auto simp: calm_def idle_def idle_target_def physical_def)

lemma calm_spec: "calm env b cs \<Longrightarrow> cs_Spec cs' = cs_Spec cs \<Longrightarrow> calm env b cs'"
  by (simp add: calm_def is_dry_run_def)

definition all_calm :: "'e resource_env_scheme \<Rightarrow> bool \<Rightarrow> request \<Rightarrow> 's resource_world \<Rightarrow> bool" where
  "all_calm env b req w \<longleftrightarrow> (\<forall>(m, s) \<in> set (objects (rw_Helm w)).
     (om_Namespace m, om_Name m) = req \<longrightarrow> (\<forall>cs. cs_Spec cs = s \<longrightarrow> calm env b cs))"

lemma listed_calm:
  assumes "all_calm env b (request_of cs) w" "listed_object cs (rw_Helm w)"
  shows "calm env b cs"
  using assms unfolding all_calm_def listed_object_def request_of_def by auto

lemma summary_calm:
  assumes "get_summary e i req (rw_Helm w) = Inr cs" "all_calm env b req w"
  shows "calm env b cs \<and> request_of cs = req"
  using assms summary_listed [OF assms(1)] summary_found [OF assms(1)] listed_calm [of env b cs w] by simp

lemma all_calm_seen: "all_calm env b req w \<Longrightarrow> seen b w' = seen b w \<Longrightarrow> all_calm env b req w'"
  by (simp add: all_calm_def)

lemma record_kinds_seen:
  assumes "record_kinds env cs f l rm w = ((err, c), w')"
  shows "seen b w' = seen b w"
  using assms unfolding record_kinds_def
  by (rule in_resource_seen) (auto split: prod.splits dest: deployed_kinds_frame)

lemma record_kinds_result:
  assumes "record_kinds env cs f l rm w = ((None, c), w')"
  shows "c = cs \<or> request_of c = request_of cs \<and> listed_object c (rw_Helm w)"
proof -
  define reports where "reports = map kind_report l @ map kind_report rm"
  obtain h where run: "updateDeployedGroupVersionKind (own_env env) cs f (map kind_report l) (map kind_report rm) (rw_Helm w) = (None, c, h)"
    using assms by (auto simp: record_kinds_def in_resource_def split: prod.splits)
  show ?thesis
  proof (cases "reports = []")
    case True
    then show ?thesis using run by (simp add: updateDeployedGroupVersionKind_def reports_def)
  next
    case False
    let ?f = "deployed_kinds_attempt (own_env env) cs f reports"
    have loop: "RetryOnConflict ?f (zero_cluster_summary, rw_Helm w) = (None, c, h)"
      using run False by (auto simp: updateDeployedGroupVersionKind_def reports_def Let_def split: if_splits)
    have "\<exists>i v. objects (snd v) = objects (rw_Helm w) \<and> ?f i v = (None, c, h)"
    proof (rule retry_last [where I = "\<lambda>s. objects (snd s) = objects (rw_Helm w)", OF _ loop])
      fix i v q v'
      assume "?f i v = (q, v')" "objects (snd v) = objects (rw_Helm w)"
      then show "objects (snd v') = objects (rw_Helm w)"
        by (cases v) (auto simp: deployed_kinds_attempt_def Let_def status_only_def split: sum.splits prod.splits dest!: update_status_frame)
    qed simp
    then obtain i v where v: "objects (snd v) = objects (rw_Helm w)" and last: "?f i v = (None, c, h)" by blast
    from last obtain d where got: "get_summary (own_env env) i (request_of cs) (snd v) = Inr d"
      and c: "cs_Meta c = cs_Meta d" "cs_Spec c = cs_Spec d"
      by (cases v) (auto simp: deployed_kinds_attempt_def Let_def appendDeployedGroupVersionKinds_def split: sum.splits prod.splits)
    have "request_of c = request_of d" using c by (simp add: request_of_def)
    then show ?thesis using summary_found [OF got] summary_listed [OF got] v c by (simp add: listed_object_def)
  qed
qed

lemma record_kinds_calm:
  assumes "record_kinds env cs f l rm w = ((None, c), w')" "calm env b cs" "all_calm env b (request_of cs) w"
  shows "calm env b c \<and> request_of c = request_of cs"
  using record_kinds_result [OF assms(1)] assms(2,3) listed_calm [of env b c w] by auto

lemma configuration_seen:
  assumes "update_configuration env cs clean ref f rs w = (r, w')" "is_dry_run cs"
  shows "seen b w' = seen b w"
  using assms by (simp add: update_configuration_def UpdateClusterConfiguration_def)

lemma record_push_seen:
  assumes "record_push env f cs ref l rm w = (r, w')" "is_dry_run cs"
  shows "seen b w' = seen b w"
  using assms
  by (auto simp: record_push_def split: prod.splits option.splits dest!: reloader_seen [where b = b] configuration_seen [where b = b])

lemma finish_seen:
  assumes run: "finish_feature ops env calls cs l rm pull h w = (r, w')"
    and clean: "\<And>l rm v q v'. fcl_Clean calls cs l rm v = (q, v') \<Longrightarrow> seen b v' = seen b v"
    and commit: "\<And>v q v'. fcl_Commit calls cs h v = (q, v') \<Longrightarrow> seen b v' = seen b v"
    and track: "\<And>p rs v q c v'. fcl_Track calls cs p rs v = (q, c, v') \<Longrightarrow> seen b v' = seen b v"
  shows "seen b w' = seen b w"
  using run
  by (auto simp: finish_feature_def split: prod.splits sum.splits option.splits if_splits
      dest!: clean commit track handle_watchers_seen [where b = b] report_seen [where b = b])

lemma post_seen:
  assumes run: "post_process ops env calls cs l rm err pull h w = (r, w')"
    and calm: "calm env b cs" "all_calm env b (request_of cs) w" "\<not> pull \<Longrightarrow> cv_PullMode (own_env env) = Inr False"
    and clean: "\<And>c l rm v q v'. fcl_Clean calls c l rm v = (q, v') \<Longrightarrow> calm env b c \<Longrightarrow> seen b v' = seen b v"
    and commit: "\<And>c v q v'. fcl_Commit calls c h v = (q, v') \<Longrightarrow> seen b v' = seen b v"
    and track: "\<And>c p rs v q d v'. fcl_Track calls c p rs v = (q, d, v') \<Longrightarrow> seen b v' = seen b v"
    and onerror: "\<And>c e v q v'. fcl_OnError calls c rm e v = (q, v') \<Longrightarrow> seen b v' = seen b v"
  shows "seen b w' = seen b w"
proof -
  obtain e c v where k: "record_kinds env cs (fcl_Feature calls) l rm w = ((e, c), v)" by (metis surj_pair)
  have v: "seen b v = seen b w" using k by (rule record_kinds_seen)
  show ?thesis
  proof (cases "\<exists>ref. e = None \<and> GetProfileRef (own_env env) c = Inr ref")
    case False
    then show ?thesis using run k v by (auto simp: post_process_def split: option.splits sum.splits)
  next
    case True
    then obtain ref where ref: "GetProfileRef (own_env env) c = Inr ref" and e: "e = None" by blast
    have c: "calm env b c" using record_kinds_calm [OF _ calm(1,2)] k e by blast
    obtain q u where pushed: "(if pull then (None, v) else record_push env (fcl_Feature calls) c ref l rm v) = (q, u)" by fastforce
    have u: "seen b u = seen b v"
      using pushed c calm(3) by (auto simp: calm_def split: if_splits dest: record_push_seen)
    have rest: "(case q of Some e \<Rightarrow> (Some e, u) | None \<Rightarrow>
        (case err of Some e \<Rightarrow> fcl_OnError calls c rm e u | None \<Rightarrow> finish_feature ops env calls c l rm pull h u)) = (r, w')"
      using run k e ref pushed by (simp add: post_process_def)
    have fin: "seen b x = seen b u" if "finish_feature ops env calls c l rm pull h u = (p, x)" for p x
      by (rule finish_seen [OF that]) (erule clean [OF _ c] commit track)+
    have "seen b w' = seen b u"
      using rest by (auto split: option.splits dest!: onerror fin)
    then show ?thesis using u v by simp
  qed
qed


lemma on_error_seen: "persistResourceReportsOnError env cs pull rm f e w = (r, w') \<Longrightarrow> seen b w' = seen b w"
  by (auto simp: persistResourceReportsOnError_def split: prod.splits option.splits dest!: report_seen [where b = b])

lemma clean_calm_seen:
  assumes "clean_both env (clean_feature env f) cs l rm w = (r, w')" "undeploy_laws env key_of" "calm env b cs"
  shows "seen b w' = seen b w"
  using clean_both_seen [OF assms(1,2) calm_idle(1) [OF assms(3)] calm_idle(2) [OF assms(3)]] .

lemma resources_post_seen:
  assumes run: "postProcessDeployedResources ops env cs l rm err pull h w = (r, w')" and laws: "undeploy_laws env key_of"
    and calm: "calm env b cs" "all_calm env b (request_of cs) w" "\<not> pull \<Longrightarrow> cv_PullMode (own_env env) = Inr False"
  shows "seen b w' = seen b w"
  using run unfolding postProcessDeployedResources_def
  by (rule post_seen [OF _ calm])
    (auto simp: resources_calls_def cleanStaleResources_def commitPullModeResourcesStaging_def cleanPolicyRefResources_def
      dest: clean_calm_seen [OF _ laws, where b = b] commit_seen [where b = b] track_seen [where b = b] on_error_seen [where b = b])

lemma kustomize_post_seen:
  assumes run: "processKustomizeDeployment ops env config cs l rm err pull h w = (r, w')" and laws: "undeploy_laws env key_of"
    and calm: "calm env b cs" "all_calm env b (request_of cs) w" "\<not> pull \<Longrightarrow> cv_PullMode (own_env env) = Inr False"
  shows "seen b w' = seen b w"
  using run unfolding processKustomizeDeployment_def
  by (rule post_seen [OF _ calm])
    (auto simp: kustomize_calls_def cleanStaleKustomizeResources_def commitPullModeKustomizeStaging_def cleanKustomizeResources_def
      dest: clean_calm_seen [OF _ laws, where b = b] commit_seen [where b = b] track_seen [where b = b])

lemma start_result:
  assumes "start_feature env m req w = Inr (cs, pull, config)"
  shows "getClusterSummaryAndClusterClient (own_env env) req (rw_Helm w) = Inr cs" "cv_PullMode (own_env env) = Inr pull"
    "sv_RestConfig env True = Inr config"
  using assms by (auto simp: start_feature_def map_sum_case split: sum.splits if_splits)

lemma client_summary: "getClusterSummaryAndClusterClient e req h = Inr cs \<Longrightarrow> get_summary e 0 req h = Inr cs"
  by (auto simp: getClusterSummaryAndClusterClient_def split: sum.splits if_splits option.splits)

lemma discard_seen: "discard_feature env w = (r, w') \<Longrightarrow> seen b w' = seen b w"
  by (auto simp: discard_feature_def split: option.splits)

lemma flag_object [simp]: "cs_Spec (with_summary_flag f cs) = cs_Spec cs" "cs_Meta (with_summary_flag f cs) = cs_Meta cs"
  by (simp_all add: with_summary_flag_def SetResourceSummaryDeployed_def)

lemma drift_manager_seen:
  "handleDriftDetectionManagerDeployment env cs pull w = (r, c, w') \<Longrightarrow>
     seen b w' = seen b w \<and> cs_Spec c = cs_Spec cs \<and> request_of c = request_of cs"
  "handleDriftDetectionManagerDeploymentForKustomize env cs pull w = (r, c, w') \<Longrightarrow>
     seen b w' = seen b w \<and> cs_Spec c = cs_Spec cs \<and> request_of c = request_of cs"
  by (auto simp: handleDriftDetectionManagerDeployment_def handleDriftDetectionManagerDeploymentForKustomize_def
      handleResourceSummaryDeployment_def handleKustomizeResourceSummaryDeployment_def track_section_def deployResourceSummary_def
      deployResourceSummaryWithKustomizeResources_def request_of_def
      split: if_splits prod.splits option.splits dest!: put_section_seen [where b = b])


lemma deploy_resources_pass_seen:
  fixes env :: "'e kustomize_env_scheme"
  assumes run: "deployResources ops env req h w = (r, w')" and laws: "undeploy_laws env key_of" and calm: "all_calm env b req w"
  shows "seen b w' = seen b w"
proof (cases "start_feature env True req w")
  case (Inl e)
  then show ?thesis using run by (simp add: deployResources_def)
next
  case (Inr x)
  then obtain cs pull config where start: "start_feature env True req w = Inr (cs, pull, config)" by (cases x) auto
  note s = start_result [OF start]
  have cs: "calm env b cs" "request_of cs = req" using summary_calm [OF client_summary [OF s(1)] calm] by simp_all
  obtain e v where discard: "(if pull then discard_feature env w else (None, w)) = (e, v)" by fastforce
  have v: "seen b v = seen b w" using discard by (auto split: if_splits dest: discard_seen)
  obtain e' c u where drift: "handleDriftDetectionManagerDeployment env cs pull v = (e', c, u)" by (metis prod_cases3)
  have u: "seen b u = seen b v" and c: "cs_Spec c = cs_Spec cs" "request_of c = req"
    using drift_manager_seen(1) [OF drift] cs(2) by auto
  have c': "calm env b c" using calm_spec cs(1) c(1) by blast
  obtain l rm err t where refs: "deployPolicyRefs env config c u = ((l, rm, err), t)" by (metis surj_pair)
  have t: "seen b t = seen b u" using idle_frame.policies [OF refs calm_idle(1) [OF c'] calm_idle(2) [OF c' s(3)]] .
  have "seen b x = seen b t" if "postProcessDeployedResources ops env c l rm err pull h t = (q, x)" for q x
    using resources_post_seen [OF that laws c'] all_calm_seen [OF calm, of t] c(2) s(2) t u v by simp
  then show ?thesis
    using run start discard drift refs t u v by (auto simp: deployResources_def split: option.splits if_splits)
qed

lemma deploy_kustomize_pass_seen:
  assumes run: "deployKustomizeRefs ops env req h w = (r, w')" and laws: "undeploy_laws env key_of" and calm: "all_calm env b req w"
  shows "seen b w' = seen b w"
proof (cases "start_feature env False req w")
  case (Inl e)
  then show ?thesis using run by (simp add: deployKustomizeRefs_def)
next
  case (Inr x)
  then obtain cs pull config where start: "start_feature env False req w = Inr (cs, pull, config)" by (cases x) auto
  note s = start_result [OF start]
  have cs: "calm env b cs" "request_of cs = req" using summary_calm [OF client_summary [OF s(1)] calm] by simp_all
  obtain e v where discard: "(if pull then discard_feature env w else (None, w)) = (e, v)" by fastforce
  have v: "seen b v = seen b w" using discard by (auto split: if_splits dest: discard_seen)
  obtain e' c u where drift: "handleDriftDetectionManagerDeploymentForKustomize env cs pull v = (e', c, u)" by (metis prod_cases3)
  have u: "seen b u = seen b v" and c: "cs_Spec c = cs_Spec cs" "request_of c = req"
    using drift_manager_seen(2) [OF drift] cs(2) by auto
  have c': "calm env b c" using calm_spec cs(1) c(1) by blast
  obtain l rm err t where refs: "deployEachKustomizeRefs env config c u = ((l, rm, err), t)" by (metis surj_pair)
  have t: "seen b t = seen b u" using idle_frame.each_kustomization [OF calm_idle(1) [OF c'] calm_idle(2) [OF c' s(3)] refs] .
  have "seen b x = seen b t" if "processKustomizeDeployment ops env config c l rm err pull h t = (q, x)" for q x
    using kustomize_post_seen [OF that laws c'] all_calm_seen [OF calm, of t] c(2) s(2) t u v by simp
  then show ?thesis
    using run start discard drift refs t u v by (auto simp: deployKustomizeRefs_def split: option.splits if_splits)
qed

lemma remove_reports_seen:
  assumes "remove_reports env cs f n rs w = (r, w')" "is_dry_run cs"
  shows "seen b w' = seen b w"
  using assms
  by (auto simp: remove_reports_def split: sum.splits prod.splits option.splits
      dest!: reloader_seen [where b = b] configuration_seen [where b = b] report_seen [where b = b])

lemma dry_undeploy_seen:
  assumes "undeployStaleResources env mgmt c f cs gvks current w = (r, w')" "undeploy_laws env key_of" "is_dry_run cs"
  shows "seen b w' = seen b w"
  using undeploy_seen [OF assms(1,2)] assms(3) by (simp add: idle_target_def)

lemma push_undeploy_seen:
  assumes "pushModeUndeployResources env cs f w = (r, w')" "undeploy_laws env key_of" "is_dry_run cs"
  shows "seen b w' = seen b w"
  using assms(1,3)
  by (auto simp: pushModeUndeployResources_def split: option.splits sum.splits prod.splits
      dest!: dry_undeploy_seen [OF _ assms(2), where b = b] remove_reports_seen [where b = b])

lemma pull_undeploy_seen: "pullModeUndeployResources env cs w = (r, w') \<Longrightarrow> seen b w' = seen b w"
  by (auto simp: pullModeUndeployResources_def Let_def split: sum.splits option.splits prod.splits)

lemma undeploy_remotely_seen:
  assumes "undeploy_remotely env cs f pull w = (r, w')" "undeploy_laws env key_of" "calm env b cs" "cv_PullMode (own_env env) = Inr pull"
  shows "seen b w' = seen b w"
  using assms pull_undeploy_seen [of env cs w r w' b] push_undeploy_seen [of env cs f w r w' key_of b]
  by (auto simp: undeploy_remotely_def calm_def split: if_splits)

lemma undeploy_locally_seen:
  assumes "undeploy_locally env cs f w = (r, w')" "undeploy_laws env key_of" "calm env b cs"
  shows "seen b w' = seen b w"
  using undeploy_seen [OF _ assms(2) calm_idle(3) [OF assms(3)]] assms(1) by (simp add: undeploy_locally_def)

lemma end_undeploy_seen: "end_undeploy ops env cs f w = (r, w') \<Longrightarrow> seen b w' = seen b w"
  by (auto simp: end_undeploy_def split: if_splits dest: stop_watchers_seen [where b = b])

lemma undeploy_pass_seen:
  assumes laws: "undeploy_laws env key_of" and calm: "all_calm env b req w"
  shows "undeployResources ops env req w = (r, w') \<Longrightarrow> seen b w' = seen b w"
    and "undeployKustomizeRefs ops env req w = (r, w') \<Longrightarrow> seen b w' = seen b w"
proof -
  note frames = undeploy_remotely_seen [OF _ laws, where b = b] undeploy_locally_seen [OF _ laws, where b = b]
    end_undeploy_seen [where b = b] summary_calm [OF _ calm]
  show "undeployResources ops env req w = (r, w') \<Longrightarrow> seen b w' = seen b w"
    by (auto simp: undeployResources_def split: sum.splits prod.splits option.splits if_splits dest!: frames)
  show "undeployKustomizeRefs ops env req w = (r, w') \<Longrightarrow> seen b w' = seen b w"
    by (auto simp: undeployKustomizeRefs_def split: sum.splits prod.splits option.splits if_splits dest!: frames)
qed

end
