(* ===== verification/Resource_Runs.thy ===== *)
theory Resource_Runs
  imports Resource_Frames Spec_Hash
begin

text \<open>
  What a pass of the features of plain resources and kustomizations does: a dry run and a pass for the agent leave clusters alone, a
  Profile stays in its namespace, a clean-up keeps what was just deployed and removes the rest; and what is lost on the way: the
  resources deployed before a reference that fails, the flag of a ResourceSummary, the Reloader in a dry run.
\<close>

section \<open>Clusters left alone\<close>

text \<open>The passes of both features, with the result and the world after it.\<close>

definition passes :: "'s set_ops \<Rightarrow> 'e kustomize_env_scheme \<Rightarrow> request \<Rightarrow> bytes option \<Rightarrow> 's resource_world \<Rightarrow>
    (dep_error option \<times> 's resource_world) list" where
  "passes ops env req configurationHash w =
     [deployResources ops env req configurationHash w, deployKustomizeRefs ops env req configurationHash w,
      undeployResources ops env req w, undeployKustomizeRefs ops env req w]"

lemma pass_seen:
  assumes "(r, w') \<in> set (passes ops env req h w)" "undeploy_laws env key_of" "all_calm env b req w"
  shows "seen b w' = seen b w"
  using assms(1) deploy_resources_pass_seen [OF _ assms(2,3)] deploy_kustomize_pass_seen [OF _ assms(2,3)]
    undeploy_pass_seen [OF assms(2,3)]
  by (auto simp: passes_def dest: sym)



section \<open>Namespaces of a Profile\<close>

text \<open>What Kubernetes and libsveltos promise of the objects that are stored: they have the namespace they were asked for.\<close>

definition namespace_laws :: "'e resource_env_scheme \<Rightarrow> bool" where
  "namespace_laws env \<longleftrightarrow>
     (\<forall>c xs d dry force ex u sub v e. sv_Update env c xs d dry force ex u sub = (Some v, e) \<longrightarrow> un_Namespace v = un_Namespace u) \<and>
     (\<forall>rv p l a u. un_Namespace (sv_AddMetadata env rv p l a u) = un_Namespace u) \<and>
     (\<forall>k v u. un_Namespace (sv_AddAnnotation env k v u) = un_Namespace u)"

abbreviation outside :: "string \<Rightarrow> 's resource_world \<Rightarrow> unstructured list" where
  "outside ns w \<equiv> filter (\<lambda>u. un_Namespace u \<noteq> ns) (rw_Objects w True)"

lemma put_inside:
  assumes "un_Namespace u = ns"
  shows "filter (\<lambda>x. un_Namespace x \<noteq> ns) (put_object u xs) = filter (\<lambda>x. un_Namespace x \<noteq> ns) xs"
proof -
  have "filter (\<lambda>x. un_Namespace x \<noteq> ns) (map (\<lambda>x. if object_id x = object_id u then u else x) xs) = filter (\<lambda>x. un_Namespace x \<noteq> ns) xs"
    using assms by (induction xs) (auto simp: object_id_def)
  then show ?thesis using assms by (simp add: put_object_def)
qed

lemma update_inside:
  assumes "UpdateResource env t cs u w = (r, w')" "namespace_laws env" "\<not> physical env (dt_Mgmt t) \<or> un_Namespace u = ns"
  shows "outside ns w' = outside ns w"
proof -
  obtain v e where answer: "sv_Update env (dt_Config t) (objects_at env (dt_Mgmt t) w)
      (ps_SyncMode (cs_ProfileSpec cs) = SyncModeContinuousWithDriftDetection) (is_dry_run cs) (dt_Force t)
      (slice (ps_DriftExclusions (cs_ProfileSpec cs))) u (dt_Subresources t) = (v, e)" by fastforce
  have "un_Namespace x = un_Namespace u" if "v = Some x" for x
    using assms(2) answer that unfolding namespace_laws_def by blast
  then show ?thesis
    using assms(1,3) answer
    by (cases v) (auto simp: UpdateResource_def set_objects_def objects_at_def put_inside)
qed

lemma step_inside:
  assumes "deploy_resource env t cs (Some (p, tier)) u sums w = (r, w')" "namespace_laws env" "\<not> physical env (dt_Mgmt t) \<or> dt_Mgmt t"
    and p: "prof_Kind p = ProfileKind" "om_Namespace (prof_Meta p) = ns"
  shows "outside ns w' = outside ns w"
proof (cases "\<exists>v. adjustNamespace env (dt_Mgmt t) u = Inr v \<and> isResourceNamespaceValid p v (dt_Mgmt t)")
  case False
  then show ?thesis using assms(1) by (auto simp: deploy_resource_def Let_def split: sum.splits if_splits)
next
  case True
  then obtain v where v: "adjustNamespace env (dt_Mgmt t) u = Inr v" "isResourceNamespaceValid p v (dt_Mgmt t)" by blast
  have same: "un_Namespace (with_metadata env t cs p info v) = un_Namespace v" for info
    using assms(2) by (simp add: namespace_laws_def with_metadata_def addStaleResourceScopingAnnotations_def)
  have ns: "\<not> physical env (dt_Mgmt t) \<or> un_Namespace (with_metadata env t cs p info v) = ns" for info
    using v(2) assms(3) p by (auto simp: isResourceNamespaceValid_def same split: if_splits)
  have run: "take_and_apply env t cs p tier (deploy_error_prefix (dt_Mgmt t) u) v sums w = (r, w')"
    using assms(1) v by (simp add: deploy_resource_def Let_def)
  show ?thesis
    using run
    by (auto simp: take_and_apply_def apply_step_def Let_def in_resource_def split: prod.splits option.splits can_deploy.splits if_splits
        dest!: update_inside [OF _ assms(2) ns])
qed

lemma unstructured_inside:
  assumes "deployUnstructured env t us cs w = (r, w')" "namespace_laws env" "\<not> physical env (dt_Mgmt t) \<or> dt_Mgmt t"
    and owner: "owner_of env cs = Inr (Some (p, tier))" and p: "prof_Kind p = ProfileKind" "om_Namespace (prof_Meta p) = ns"
  shows "outside ns w' = outside ns w"
proof -
  have "deploy_resources env t cs (Some (p, tier)) us sums v = (q, v') \<Longrightarrow> outside ns v' = outside ns v" for sums v q v'
  proof (induction us arbitrary: sums v)
    case (Cons u us)
    obtain s x where s: "deploy_resource env t cs (Some (p, tier)) u sums v = (s, x)" by fastforce
    show ?case using Cons s step_inside [OF s assms(2,3) p] by (cases s) auto
  qed simp
  then show ?thesis using assms(1) owner by (simp add: deployUnstructured_def)
qed

text \<open>What a Profile deploys with its owner known; otherwise nothing is asked.\<close>

definition own_namespace :: "'e resource_env_scheme \<Rightarrow> cluster_summary \<Rightarrow> string \<Rightarrow> bool" where
  "own_namespace env cs ns \<longleftrightarrow> (\<exists>p tier. owner_of env cs = Inr (Some (p, tier)) \<and> prof_Kind p = ProfileKind \<and>
     om_Namespace (prof_Meta p) = ns)"

interpretation profile_frame: deployment_frame env cs
  "\<lambda>mgmt _. namespace_laws env \<and> own_namespace env cs ns \<and> (mgmt \<or> \<not> sv_SelfManaged env)" "outside ns" for env cs ns
  by unfold_locales (auto simp: own_namespace_def physical_def dest: unstructured_inside)

text \<open>
  C16. What a Profile (not a ClusterProfile) deploys to the management cluster is in its own namespace: the objects of the other
  namespaces and those without one stay as they are, as long as the managed cluster is not the management cluster.
\<close>

theorem profile_stays_in_namespace:
  assumes "namespace_laws env" "\<not> sv_SelfManaged env" and "owner_of env cs = Inr (Some (p, tier))" "prof_Kind p = ProfileKind"
    and "deployPolicyRefs env config cs w = (r, w') \<or> deployEachKustomizeRefs env config cs w = (r, w')"
  shows "filter (\<lambda>u. un_Namespace u \<noteq> om_Namespace (prof_Meta p)) (rw_Objects w' True) =
    filter (\<lambda>u. un_Namespace u \<noteq> om_Namespace (prof_Meta p)) (rw_Objects w True)"
proof -
  have "own_namespace env cs (om_Namespace (prof_Meta p))" using assms(3,4) by (auto simp: own_namespace_def)
  then show ?thesis
    using assms(1,2,5) profile_frame.policies [of env config cs w r w'] profile_frame.each_kustomization [of env cs _ config w r w'] by auto
qed

section \<open>Cleaning up after a deployment\<close>

lemma clean_keeps:
  assumes run: "clean_feature env f mgmt config cs reports w = (r, w')" and laws: "undeploy_laws env key_of"
    and k: "kept env m u w" and mark: "map_of (un_Annotations u) deploymentTypeAnnotation = Some (deployment_text m)"
    and key: "mgmt = m \<Longrightarrow> key_of u \<in> set (current_policies env reports)"
  shows "kept env m u w'"
proof (cases config)
  case (Some c)
  then have run: "undeployStaleResources env mgmt c f cs (deployed_kinds env cs f) (current_policies env reports) w = (r, w')"
    using run by (simp add: clean_feature_def)
  show ?thesis
  proof (cases "mgmt = m")
    case True
    then show ?thesis using undeploy_keeps [OF laws run] k key by (simp add: protected_def)
  next
    case False
    then have other: "other_deployment mgmt u" using mark by (cases m) (auto simp: other_deployment_def deployment_text_def)
    show ?thesis
    proof (cases "physical env mgmt = physical env m")
      case True
      then have "objects_at env mgmt w = objects_at env m w" "objects_at env mgmt w' = objects_at env m w'"
        by (simp_all add: objects_at_def)
      then show ?thesis using undeploy_keeps [OF laws run, of u] k other by (simp add: protected_def kept_def)
    next
      case False
      then have "physical env m \<longleftrightarrow> \<not> physical env mgmt" by blast
      then have "objects_at env m w' = objects_at env m w" using undeploy_elsewhere [OF run] by (simp add: objects_at_def)
      then show ?thesis using k by (simp add: kept_def)
    qed
  qed
qed (use run k in \<open>simp add: clean_feature_def\<close>)

lemma clean_both_keeps:
  assumes run: "clean_both env (clean_feature env f) cs l rm w = (r, w')" and laws: "undeploy_laws env key_of" and k: "kept env m u w"
    and mark: "map_of (un_Annotations u) deploymentTypeAnnotation = Some (deployment_text m)"
    and key: "key_of u \<in> set (current_policies env (if m then l else rm))"
  shows "kept env m u w'"
proof -
  have keep: "kept env m u v'" if "clean_feature env f mgmt config cs (if mgmt then l else rm) v = (q, v')" "kept env m u v" for mgmt config v q v'
    using clean_keeps [OF that(1) laws that(2) mark] key by simp
  show ?thesis
    using run k keep [of True] keep [of False] by (fastforce simp: clean_both_def split: option.splits sum.splits prod.splits)
qed

text \<open>
  C13. Cleaning up after a deployment keeps what was just deployed: an object that bears the mark of its deployment type and is in
  the reports of that type survives both passes, over the management cluster and over the managed one, even where the two are
  the same cluster.
\<close>

theorem deployed_survive_cleanup:
  assumes "undeploy_laws env key_of"
    and "cleanStaleResources env cs l rm w = (r, w') \<or> cleanStaleKustomizeResources env cs l rm w = (r, w')"
    and "one_each (objects_at env m w)" "u \<in> set (objects_at env m w)"
    and "map_of (un_Annotations u) deploymentTypeAnnotation = Some (deployment_text m)"
    and "key_of u \<in> set (current_policies env (if m then l else rm))"
  shows "u \<in> set (objects_at env m w')"
proof -
  obtain f where "clean_both env (clean_feature env f) cs l rm w = (r, w')"
    using assms(2)
    by (auto simp: cleanStaleResources_def cleanStaleKustomizeResources_def cleanPolicyRefResources_def cleanKustomizeResources_def)
  moreover have "kept env m u w" using assms(3,4) by (simp add: kept_def)
  ultimately have "kept env m u w'" using clean_both_keeps [OF _ assms(1)] assms(5,6) by blast
  then show ?thesis by (simp add: kept_def)
qed

section \<open>What is lost\<close>

lemma deploy_each_append:
  "deploy_each env mgmt config cs ctx (xs @ ys) reports w =
     (case deploy_each env mgmt config cs ctx xs reports w of
        ((rs, Some e), w) \<Rightarrow> ((rs, Some e), w)
      | ((rs, None), w) \<Rightarrow> deploy_each env mgmt config cs ctx ys rs w)"
  by (induction xs arbitrary: reports w) (auto split: prod.splits option.splits sum.splits)

lemma nothing_recorded: "deployed_kinds env cs f = [] \<Longrightarrow>
    undeployStaleResources env mgmt config f cs (deployed_kinds env cs f) [] w = (r, w') \<Longrightarrow> w' = w"
  by (auto simp: undeployStaleResources_def processDeployedGVKs_def split: sum.splits bool.splits if_splits option.splits)

text \<open>
  When a reference cannot be fetched, the reports of the references before it, whose resources are already in the cluster, are
  dropped. Nothing is recorded for them: if nothing was recorded before, a later removal finds nothing to remove.
\<close>

theorem missing_reference_leaks:
  assumes "fetchClusterObjects env cs = Inr objs"
    and "deploy_each env mgmt config cs \<lparr>dc_Objects = objs, dc_MgmtResources = m\<rparr> earlier [] w = ((reports, None), w1)"
    and "ro_URL missing = []" "getReferencedObject env cs missing = Inl e"
    and "deployed_kinds env cs FeatureResources = []"
  shows "deployObjects env mgmt config (earlier @ missing # later) cs m w = (([], Some e), w1) \<and>
    record_kinds env cs FeatureResources [] [] w1 = ((None, cs), w1) \<and>
    rw_Objects (snd (undeploy_locally env cs FeatureResources w1)) = rw_Objects w1 \<and>
    rw_Objects (snd (undeployStaleResources env False c FeatureResources cs (deployed_kinds env cs FeatureResources) [] w1)) =
      rw_Objects w1"
proof -
  have "snd (undeployStaleResources env b c FeatureResources cs (deployed_kinds env cs FeatureResources) [] w1) = w1" for b c
    using nothing_recorded [OF assms(5) prod.collapse [symmetric]] .
  moreover have "record_kinds env cs FeatureResources [] [] w1 = ((None, cs), w1)"
    by (simp add: record_kinds_def in_resource_def updateDeployedGroupVersionKind_def)
  ultimately show ?thesis using assms by (simp add: deployObjects_def deploy_each_append undeploy_locally_def)
qed

text \<open>
  A Flux source that does not exist is skipped, even when the reference to it is not optional: the deployment goes on without an error, and
  the clean-up after it takes what the source brought for stale.
\<close>

lemma missing_source_skipped:
  assumes "ro_URL ref = []" "instantiate_ref (fe_Ref env) cs (ref_Namespace (ro_Reference ref)) (ref_Name (ro_Reference ref)) = Inr name"
    and "ref_Kind (ro_Reference ref) \<in> {rf_GitRepositoryKind (fe_Ref env), rf_OCIRepositoryKind (fe_Ref env), rf_BucketKind (fe_Ref env)}"
    and "ref_Kind (ro_Reference ref) \<notin> {rf_ConfigMapKind (fe_Ref env), rf_SecretKind (fe_Ref env)}"
    and "fe_Source env (ref_Kind (ro_Reference ref)) name = Inl ApiNotFound"
  shows "deploy_each env mgmt config cs ctx (ref # refs) reports w = deploy_each env mgmt config cs ctx refs reports w"
proof -
  have "getReferencedObject env cs ref = Inr None"
    using assms(2-5) by (cases name) (auto simp: getReferencedObject_def Let_def fetch_content_def getSource_def get_source_kind_def)
  then show ?thesis using assms(1) by simp
qed

text \<open>
  The path of a reference to a source is joined to the directory of its content unchecked: with \<open>..\<close> in front it names a directory
  beside it, whose files become the content.
\<close>

lemma source_path_leaves_directory:
  assumes "list_all normal_part (ps @ [dir, q])" "ps \<noteq> []"
    and "instantiateTemplateValues env cs (om_Name (cs_Meta cs)) path (dc_Objects ctx) (dc_MgmtResources ctx) = Inr (''../'' @ q)"
    and "sv_Stat env (abs_path (ps @ [q])) d = None" "sv_OpenRoot env (abs_path (ps @ [q])) d = None"
  shows "source_content env cs ctx (abs_path (ps @ [dir])) path d = Inr (files_below (abs_path (ps @ [q])) d)"
proof -
  have n: "list_all normal_part (ps @ [dir])" "normal_part q" using assms(1) by simp_all
  have "path_join (abs_path (ps @ [dir])) (go_join (CHR ''/'') [''..'', q]) = abs_path (clean_parts True [] ((ps @ [dir]) @ [''..'', q]))"
    using n by (intro path_join_abs) (auto simp: normal_part_def list_all_iff)
  also have "clean_parts True [] ((ps @ [dir]) @ [''..'', q]) = ps @ [q]"
    using clean_parts_normal [OF n(1), of True "[]"] n by (simp add: normal_part_def)
  finally show ?thesis using assms(3-5) by (simp add: source_content_def readFiles_def Let_def)
qed

text \<open>A ClusterSummary of a request that says the ResourceSummary of a feature was removed.\<close>

definition marked_removed :: "feature_id \<Rightarrow> request \<Rightarrow> helm_world \<Rightarrow> bool" where
  "marked_removed f req h \<longleftrightarrow> list_all (\<lambda>c. request_of c = req \<longrightarrow> \<not> ShouldRemoveResourceSummary f c) (hw_Store h)"

lemma store_status_marked:
  assumes "marked_removed f req h" "request_of c = req \<longrightarrow> \<not> ShouldRemoveResourceSummary f c"
  shows "marked_removed f req (store_status c h)"
proof -
  have "\<not> ShouldRemoveResourceSummary f (x\<lparr>cs_Status := cs_Status c\<rparr>)" if "request_of c = req" for x
    using assms(2) that by (simp add: ShouldRemoveResourceSummary_def getFeatureSummaryForFeatureID_def cong: option.case_cong)
  then show ?thesis using assms(1) by (auto simp: marked_removed_def store_status_def list_all_iff request_of_def)
qed

lemma record_kinds_marked:
  assumes "record_kinds env cs f l rm w = (r, w')" "marked_removed g req (rw_Helm w)"
  shows "marked_removed g req (rw_Helm w')"
proof -
  define reports where "reports = map kind_report l @ map kind_report rm"
  let ?f = "deployed_kinds_attempt (own_env env) cs f reports"
  let ?I = "\<lambda>s. marked_removed g req (snd s)"
  have step: "?I v'" if "?f i v = (q, v')" "?I v" for i v q v'
  proof (cases "get_summary (own_env env) i (request_of cs) (snd v)")
    case (Inl e)
    then show ?thesis using that by (cases v) (auto simp: deployed_kinds_attempt_def)
  next
    case (Inr d)
    let ?d = "appendDeployedGroupVersionKinds d (distinct_in_order (map Helm_Status.report_gvk reports)) f"
    have same: "request_of ?d = request_of d" "ShouldRemoveResourceSummary g ?d = ShouldRemoveResourceSummary g d"
      by (simp_all add: appendDeployedGroupVersionKinds_def Let_def request_of_def ShouldRemoveResourceSummary_def
          getFeatureSummaryForFeatureID_def cong: option.case_cong)
    have "request_of d = req \<longrightarrow> \<not> ShouldRemoveResourceSummary g d"
      using summary_found [OF Inr] that(2) by (auto simp: marked_removed_def list_all_iff)
    then have "marked_removed g req (store_status ?d (snd v))" using store_status_marked [OF that(2)] same by simp
    then show ?thesis
      using that Inr by (cases v) (auto simp: deployed_kinds_attempt_def Let_def update_status_def split: prod.splits option.splits if_splits)
  qed
  have "marked_removed g req h" if "RetryOnConflict ?f (c, rw_Helm w) = (q, c', h)" for c q c' h
  proof -
    have "?I (c', h)" by (rule retry_invariant [where I = ?I, OF _ that]) (erule (1) step, simp add: assms(2))
    then show ?thesis by simp
  qed
  then show ?thesis
    using assms by (auto simp: record_kinds_def in_resource_def updateDeployedGroupVersionKind_def Let_def reports_def
        split: prod.splits if_splits)
qed

lemma undeploy_items_helm: "undeploy_items env p us acc w = (r, w') \<Longrightarrow> rw_Helm w' = rw_Helm w"
proof (induction us arbitrary: acc w)
  case (Cons u us)
  obtain q v where q: "undeploy_item env p u w = (q, v)" by fastforce
  then have "rw_Helm v = rw_Helm w" by (auto simp: undeploy_item_def set_objects_def split: if_splits prod.splits sum.splits)
  then show ?case using Cons q by (cases q) auto
qed simp

lemma undeploy_kinds_helm: "undeploy_kinds env p nss gs acc w = (r, w') \<Longrightarrow> rw_Helm w' = rw_Helm w"
  by (induction gs arbitrary: acc w) (auto split: prod.splits sum.splits mapping_answer.splits if_splits dest!: undeploy_items_helm)

lemma clean_helm: "clean_feature env f mgmt config cs reports w = (r, w') \<Longrightarrow> rw_Helm w' = rw_Helm w"
  by (auto simp: clean_feature_def undeployStaleResources_def processDeployedGVKs_def
      split: option.splits sum.splits bool.splits if_splits dest!: undeploy_kinds_helm)

lemma report_helm:
  assumes "updateClusterReportWithResourceReports env cs pull reports f w = (r, w')"
  shows "rw_Helm w' = rw_Helm w"
proof -
  have "RetryOnConflict (reports_attempt env key f reports) w = (q, v) \<Longrightarrow> rw_Helm v = rw_Helm w" for key q v
    by (rule retry_invariant [where I = "\<lambda>v. rw_Helm v = rw_Helm w"]) (auto simp: reports_attempt_def split: option.splits)
  then show ?thesis
    using assms
    by (auto simp: updateClusterReportWithResourceReports_def UpdateClusterReportWithResourceReports_def split: sum.splits if_splits)
qed

lemma watchers_helm: "handleWatchers ops env cs reports f w = (r, w') \<Longrightarrow> rw_Helm w' = rw_Helm w"
  by (auto simp: handleWatchers_def stop_watchers_def split: if_splits prod.splits option.splits)

lemma push_helm: "record_push env f cs ref l rm w = (r, w') \<Longrightarrow> rw_Helm w' = rw_Helm w"
  by (auto simp: record_push_def update_reloader_def update_configuration_def split: prod.splits option.splits)

text \<open>In drift detection mode the section is written.\<close>

lemma finish_tracks:
  assumes run: "finish_feature ops env (resources_calls env False) cs l rm False h w = (None, w')"
    and mode: "ps_SyncMode (cs_ProfileSpec cs) = SyncModeContinuousWithDriftDetection"
  shows "rw_Helm w' = rw_Helm w \<and> map_of (rw_Tracked w') FeatureResources = Some (map (tracked_resource \<circ> rrp_Resource) rm)"
proof -
  have clean: "rw_Helm v' = rw_Helm v" if "clean_both env (clean_feature env f) c l rm v = (q, v')"
    for f c l rm q and v v' :: "'c resource_world"
    using that by (auto simp: clean_both_def split: option.splits sum.splits prod.splits dest!: clean_helm)
  have track: "rw_Helm v' = rw_Helm v \<and> map_of (rw_Tracked v') FeatureResources = Some (map tracked_resource rs)"
    if "handleResourceSummaryDeployment env cs False rs v = (None, c, v')" for rs c and v v' :: "'c resource_world"
    using that mode by (auto simp: handleResourceSummaryDeployment_def track_section_def deployResourceSummary_def put_section_def
        update_conv split: option.splits prod.splits)
  show ?thesis
    using run
    by (auto simp: finish_feature_def resources_calls_def cleanStaleResources_def cleanPolicyRefResources_def
        split: prod.splits sum.splits option.splits if_splits
        dest!: clean track watchers_helm report_helm)
qed

text \<open>
  The flag that a ResourceSummary was deployed is never stored. If the stored ClusterSummary says it was removed, it still says so after a
  deployment that wrote the section of the feature, and the ResourceSummary is not removed when drift detection ends.
\<close>

theorem summary_flag_not_stored:
  assumes run: "postProcessDeployedResources ops env cs l rm None False h w = (None, w')"
    and mode: "list_all (\<lambda>c. request_of c = request_of cs \<longrightarrow>
        ps_SyncMode (cs_ProfileSpec c) = SyncModeContinuousWithDriftDetection) (cs # hw_Store (rw_Helm w))"
    and removed: "marked_removed FeatureResources (request_of cs) (rw_Helm w)"
  shows "map_of (rw_Tracked w') FeatureResources = Some (map (tracked_resource \<circ> rrp_Resource) rm) \<and>
    marked_removed FeatureResources (request_of cs) (rw_Helm w')"
proof -
  have post: "post_process ops env (resources_calls env False) cs l rm None False h w = (None, w')"
    using run by (simp add: postProcessDeployedResources_def)
  obtain e c v where k: "record_kinds env cs FeatureResources l rm w = ((e, c), v)" by (metis surj_pair)
  have "e = None" using post k by (cases e) (auto simp: post_process_def resources_calls_def)
  then have k': "record_kinds env cs FeatureResources l rm w = ((None, c), v)" using k by simp
  have marked: "marked_removed FeatureResources (request_of cs) (rw_Helm v)" using record_kinds_marked [OF k removed] .
  have c: "ps_SyncMode (cs_ProfileSpec c) = SyncModeContinuousWithDriftDetection"
    using record_kinds_result [OF k'] mode
    by (auto simp: list_all_iff listed_object_def objects_def request_of_def)
  obtain ref where ref: "GetProfileRef (own_env env) c = Inr ref"
    using post k' by (cases "GetProfileRef (own_env env) c") (auto simp: post_process_def resources_calls_def)
  obtain q u where push: "record_push env FeatureResources c ref l rm v = (q, u)" by fastforce
  have fin: "finish_feature ops env (resources_calls env False) c l rm False h u = (None, w')"
    using post k' ref push by (cases q) (auto simp: post_process_def resources_calls_def)
  then show ?thesis using finish_tracks [OF fin c] push_helm [OF push] marked by simp
qed

section \<open>The Reloader in a dry run\<close>

text \<open>
  A dry run rewrites the Reloader of the feature with the resources it did not deploy.
\<close>

theorem dry_run_rewrites_reloader:
  assumes "is_dry_run cs" and "rle_AgentInMgmt (sv_Reloader env) = False" "rle_Client (sv_Reloader env) = None"
    and "ps_Reloader (cs_ProfileSpec cs)" and "reloaders_ok place (rw_Reloaders w)"
    and "place = Some (css_ClusterNamespace (cs_Spec cs), css_ClusterName (cs_Spec cs), css_ClusterType (cs_Spec cs))"
    and "record_push env f cs ref l rm w = (None, w')"
  shows "map rl_Info (matching_reloaders place (own_Name ref) f (rw_Reloaders w')) =
      [reloader_infos (ConvertResourceReportsToObjectReference rm)] \<and> rw_Configs w' = rw_Configs w"
proof -
  obtain v where v: "deployReloaderInstance (sv_Reloader env) place (own_Name ref) f (ConvertResourceReportsToObjectReference rm)
      (rw_Reloaders w) = (None, v)" and w': "w' = w\<lparr>rw_Reloaders := v\<rparr>"
    using assms
    by (auto simp: record_push_def update_reloader_def updateReloaderWithDeployedResources_def getReloaderClient_def
        UpdateReloaderWithDeployedResources_def update_configuration_def UpdateClusterConfiguration_def
        split: prod.splits option.splits)
  show ?thesis using reloader_deployed [OF v assms(5)] by (simp add: w')
qed

section \<open>Samples\<close>

definition sample_deployed :: "string \<Rightarrow> unstructured" where
  "sample_deployed n = \<lparr>un_APIVersion = ''v1'', un_Kind = ''ConfigMap'', un_Namespace = ''shop'', un_Name = n, un_Annotations = [],
     un_Content = []\<rparr>"

definition sample_report_of :: "string \<Rightarrow> resource_report" where
  "sample_report_of n = \<lparr>rrp_Resource = empty_resource\<lparr>plr_Name := n, plr_Namespace := ''shop'', plr_Kind := ''ConfigMap'',
     plr_Version := ''v1''\<rparr>, rrp_Action = ''created'', rrp_Message = []\<rparr>"

definition sample_undeploy :: "string \<Rightarrow> string \<Rightarrow> profile option \<Rightarrow> bool \<Rightarrow> bool \<Rightarrow> unstructured \<Rightarrow> string list \<Rightarrow>
    dep_error + resource_report option \<times> fate" where
  "sample_undeploy key v p leave dry u current =
     Inr (None, if dry \<or> un_Name u \<in> set current \<or> key \<noteq> [] \<and> map_of (un_Annotations u) key \<noteq> Some v then Spared else Removed)"

text \<open>The content of a section is the name of the object in it.\<close>

definition sample_resource_env :: resource_env where
  "sample_resource_env = files_env.extend
     (sample_files_env\<lparr>fe_ConfigMap := (\<lambda>n. if n = (''default'', ''cm'')
        then Inr \<lparr>cfm_Name = ''cm'', cfm_Annotations = None, cfm_Data = [(''a'', ''conf'')], cfm_BinaryData = []\<rparr> else Inl ApiNotFound)\<rparr>)
     (resource_env.fields sample_charts_env sample_watch_env False 7 ''sa-ns'' ''sa-name'' (\<lambda>kind _ n. Inr (sample_wanting_profile kind n))
        id (\<lambda>_ s _. Inr s) (\<lambda>s. Inr [s]) (\<lambda>s. Inr (Some [sample_deployed s])) (\<lambda>_ us. Inr us) (\<lambda>_ _. None) (\<lambda>_ _. None) None
        (\<lambda>_ _ _. Mapped True) (\<lambda>_. False)
        (\<lambda>u _ _ _ _ _ _. (rrp_Resource (sample_report_of (un_Name u)), [])) (\<lambda>_ _ _. None) (\<lambda>_ _ _. None)
        (\<lambda>_ _ _ _ _ _ _. Can_Deploy \<lparr>rin_ResourceVersion = [], rin_OwnerReferences = [], rin_Annotations = []\<rparr> False)
        (\<lambda>_ r. \<lparr>rrp_Resource = r, rrp_Action = ''conflict'', rrp_Message = []\<rparr>) plain_error (\<lambda>_ _ _ _ u. u)
        (\<lambda>k v u. u\<lparr>un_Annotations := AList.update k v (un_Annotations u)\<rparr>) (\<lambda>_ _ _ _ _ _ u _. (Some u, None))
        (\<lambda>_ _ _ r. \<lparr>rrp_Resource = r, rrp_Action = ''created'', rrp_Message = []\<rparr>)
        (\<lambda>r _. \<lparr>rrp_Resource = r, rrp_Action = ''error'', rrp_Message = []\<rparr>)
        (\<lambda>conflict err _. if conflict @ err = [] then None else Some (plain_error err))
        ''owner-name'' ''owner-kind'' (\<lambda>_. None) plr_Name (sample_reloader_env\<lparr>rle_AgentInMgmt := False\<rparr>) None None (\<lambda>_. Inr (Some []))
        None (\<lambda>_ _. None) (\<lambda>_ _ _. True) sample_undeploy
        (\<lambda>s. \<lparr>gvk_Group = [], gvk_Version = ''v1'', gvk_Kind = ''ConfigMap''\<rparr>) None (\<lambda>_. None) (Inr (Some FeatureStatusRemoved, None)) (\<lambda>_. True))"

definition sample_kustomize_env :: kustomize_env where
  "sample_kustomize_env = resource_env.extend sample_resource_env
     (kustomize_env.fields (\<lambda>s. Inr (Some \<lparr>kfi_Components = None, kfi_Rest = s\<rparr>)) (\<lambda>k. Inr (case k of None \<Rightarrow> [] | Some f \<Rightarrow> kfi_Rest f))
        (\<lambda>_ _. Inr [Inr ''conf'']) (\<lambda>_ _ s. Inr (\<lambda>_. Inr s)) (\<lambda>s. Inr (sample_deployed s)))"

definition sample_feature_cs :: "sync_mode \<Rightarrow> policy_ref list \<Rightarrow> cluster_summary" where
  "sample_feature_cs m refs = (let cs = sample_run_cs m [] [] in
     cs\<lparr>cs_Spec := (cs_Spec cs)\<lparr>css_ClusterProfileSpec := (cs_ProfileSpec cs)\<lparr>ps_PolicyRefs := Some refs, ps_Reloader := True\<rparr>\<rparr>\<rparr>)"

definition sample_feature_config :: cluster_configuration where
  "sample_feature_config = (sample_config ''c'' [])\<lparr>cc_Status := \<lparr>ccst_ClusterProfileResources =
     [\<lparr>cpres_ClusterProfileName = ''a'', cpres_Features = []\<rparr>], ccst_ProfileResources = []\<rparr>\<rparr>"

definition sample_resource_world :: "cluster_summary list \<Rightarrow> unstructured list \<Rightarrow> object_reference list resource_world" where
  "sample_resource_world css us = \<lparr>rw_Helm = sample_world css, rw_Disk = empty_disk, rw_Objects = (\<lambda>mgmt. if mgmt then [] else us),
     rw_Configs = [sample_feature_config], rw_Reports = [((''ns'', GetClusterReportName ClusterProfileKind ''a'' ''c'' ClusterTypeCapi), [])], rw_Staged = [], rw_Committed = None,
     rw_Removing = False, rw_Watch = initializeManager, rw_Tracked = [], rw_Reloaders = no_reloaders\<rparr>"

definition sample_pass :: "sync_mode \<Rightarrow> policy_ref list \<Rightarrow> dep_error option \<times> object_reference list resource_world" where
  "sample_pass m refs = deployResources list_set_ops sample_kustomize_env (''ns'', ''a'') None
     (sample_resource_world [sample_feature_cs m refs] [])"

lemma sample_undeploy_laws: "sv_Undeploy env = sample_undeploy \<Longrightarrow> undeploy_laws env un_Name"
  by (auto simp: undeploy_laws_def sample_undeploy_def)

lemma sample_env_simps: "sv_Undeploy sample_kustomize_env = sample_undeploy"
  "undeploy_laws sample_kustomize_env un_Name"
  by (simp_all add: sample_kustomize_env_def sample_resource_env_def resource_env.defs kustomize_env.defs files_env.defs url_env.defs
      sample_files_env_def sample_url_env_def refs_env.defs sample_refs_env_def sample_undeploy_laws)

definition sample_dry_report :: resource_report where
  "sample_dry_report = (sample_report_of ''conf'')\<lparr>rrp_Resource := (rrp_Resource (sample_report_of ''conf''))\<lparr>plr_LastAppliedTime := Some 7\<rparr>\<rparr>"


definition sample_pull_env :: kustomize_env where
  "sample_pull_env = sample_kustomize_env\<lparr>sv_Charts := sample_charts_env\<lparr>cv_PullMode := Inr True\<rparr>, sv_RestConfig := (\<lambda>_. Inr None)\<rparr>"

definition sample_pull_pass :: "dep_error option \<times> object_reference list resource_world" where
  "sample_pull_pass = deployResources list_set_ops sample_pull_env (''ns'', ''a'') (Some ''hash'')
     (sample_resource_world [sample_feature_cs SyncModeContinuous [sample_policy ''cm'']] [])"


definition sample_profile_cs :: cluster_summary where
  "sample_profile_cs = (let cs = sample_feature_cs SyncModeContinuous [(sample_policy ''cm'')\<lparr>pr_DeploymentType := DeploymentTypeLocal\<rparr>] in
     cs\<lparr>cs_Meta := (cs_Meta cs)\<lparr>om_OwnerReferences := [\<lparr>own_APIVersion = ''v'', own_Kind = ProfileKind, own_Name = ''a'', own_UID = []\<rparr>]\<rparr>\<rparr>)"

definition sample_local_world :: "object_reference list resource_world" where
  "sample_local_world = (sample_resource_world [sample_profile_cs] [])\<lparr>rw_Objects := (\<lambda>mgmt. if mgmt then [sample_deployed ''conf''] else [])\<rparr>"

theorem profile_stays_in_namespace_witness:
  "\<exists>r w'. deployPolicyRefs sample_kustomize_env (Some []) sample_profile_cs sample_local_world = (r, w') \<and>
     filter (\<lambda>u. un_Namespace u \<noteq> ''other'') (rw_Objects w' True) = [sample_deployed ''conf'']"
proof -
  let ?p = "sample_wanting_profile ProfileKind ''a''"
  obtain r w' where run: "deployPolicyRefs sample_kustomize_env (Some []) sample_profile_cs sample_local_world = (r, w')" by fastforce
  have "owner_of sample_kustomize_env sample_profile_cs = Inr (Some (?p, 0))" by code_simp
  moreover have "namespace_laws sample_kustomize_env" "\<not> sv_SelfManaged sample_kustomize_env"
    by (simp_all add: namespace_laws_def sample_kustomize_env_def sample_resource_env_def resource_env.defs kustomize_env.defs
        files_env.defs url_env.defs sample_files_env_def sample_url_env_def refs_env.defs sample_refs_env_def)
  moreover have "prof_Kind ?p = ProfileKind" "om_Namespace (prof_Meta ?p) = ''other''" by (simp_all add: sample_wanting_profile_def)
  ultimately have "filter (\<lambda>u. un_Namespace u \<noteq> ''other'') (rw_Objects w' True) =
      filter (\<lambda>u. un_Namespace u \<noteq> ''other'') (rw_Objects sample_local_world True)"
    using profile_stays_in_namespace [of sample_kustomize_env sample_profile_cs ?p 0 "Some []" sample_local_world r w'] run by simp
  moreover have "filter (\<lambda>u. un_Namespace u \<noteq> ''other'') (rw_Objects sample_local_world True) = [sample_deployed ''conf'']" by code_simp
  ultimately show ?thesis using run by (intro exI [of _ r] exI [of _ w'] conjI) simp_all
qed

text \<open>Two objects of the feature: one that is still wanted and one that is not.\<close>

definition sample_marked :: "string \<Rightarrow> unstructured" where
  "sample_marked n = (sample_deployed n)\<lparr>un_Annotations := [(deploymentTypeAnnotation, ''Remote''), (clusterAnnotation, ''capi/ns/c'')]\<rparr>"

definition sample_clean_cs :: cluster_summary where
  "sample_clean_cs = (sample_feature_cs SyncModeContinuous [])\<lparr>cs_Status := zero_cluster_summary_status
     \<lparr>cst_DeployedGVKs := [\<lparr>fdi_FeatureID = FeatureResources, fdi_DeployedGroupVersionKind = [''ConfigMap.v1.'']\<rparr>]\<rparr>\<rparr>"

definition sample_clean_world :: "object_reference list resource_world" where
  "sample_clean_world = sample_resource_world [sample_clean_cs] [sample_marked ''keep'', sample_marked ''old'']"

definition sample_undeployed :: "(dep_error + resource_report list) \<times> object_reference list resource_world" where
  "sample_undeployed = undeployStaleResources sample_kustomize_env False [] FeatureResources sample_clean_cs
     (deployed_kinds sample_kustomize_env sample_clean_cs FeatureResources) [''keep''] sample_clean_world"

lemma sample_clean_objects:
  "one_each (objects_at sample_kustomize_env False sample_clean_world)"
  "sample_marked ''keep'' \<in> set (objects_at sample_kustomize_env False sample_clean_world)"
  "sample_marked ''old'' \<in> set (objects_at sample_kustomize_env False sample_clean_world)"
  by (code_simp)+


theorem stale_cleanup_removes_witness:
  "object_id (sample_marked ''old'') \<notin> object_id ` set (objects_at sample_kustomize_env False (snd sample_undeployed))"
proof -
  let ?owner = "Some (sample_wanting_profile ClusterProfileKind ''a'', 0 :: int)"
  let ?p = "\<lparr>cup_Mgmt = False, cup_Feature = FeatureResources, cup_CS = sample_clean_cs, cup_Profile = map_option fst ?owner,
    cup_Current = [''keep'']\<rparr>"
  let ?g = "\<lparr>gvk_Group = [], gvk_Version = ''v1'', gvk_Kind = ''ConfigMap''\<rparr>"
  have run: "sample_undeployed = (Inr [], snd sample_undeployed)"
  proof -
    have "fst sample_undeployed = Inr []" by code_simp
    then show ?thesis by (metis prod.collapse)
  qed
  have owner: "owner_of sample_kustomize_env sample_clean_cs = Inr ?owner" by code_simp
  have alive: "isManagedClusterDeleted sample_kustomize_env False = Inr False" by code_simp
  have watched: "(if False then Inr [] else getAgentWatchNamespaces sample_kustomize_env sample_clean_cs) = Inr []" by code_simp
  have "getClusterScopingAnnotation (sample_marked ''old'') False sample_clean_cs = (clusterAnnotation, ''capi/ns/c'')"
    "is_dry_run sample_clean_cs = False" "other_deployment False (sample_marked ''old'') = False" by code_simp+
  then have charge: "in_charge sample_kustomize_env ?p (sample_marked ''old'')"
    by (simp add: in_charge_def sample_env_simps sample_undeploy_def)
      (simp add: sample_marked_def sample_deployed_def deploymentTypeAnnotation_def clusterAnnotation_def)
  have kind: "?g \<in> set (deployed_kinds sample_kustomize_env sample_clean_cs FeatureResources)"
    and listed: "sv_Mapping sample_kustomize_env False 0 ?g = Mapped True" "sv_Listed sample_kustomize_env FeatureResources ?g (sample_marked ''old'')"
    by code_simp+
  then have "listed_by sample_kustomize_env ?p [] ?g (sample_marked ''old'')" by (auto simp: listed_by_def)
  then show ?thesis
    using stale_cleanup_removes [OF sample_env_simps(2) _ alive sample_clean_objects(1,3) owner watched refl charge kind]
      run by (simp add: sample_undeployed_def)
qed

theorem deployed_survive_cleanup_witness:
  "\<exists>r w'. cleanStaleResources sample_kustomize_env sample_clean_cs [] [sample_report_of ''keep''] sample_clean_world = (r, w') \<and>
     sample_marked ''keep'' \<in> set (objects_at sample_kustomize_env False w')"
proof -
  obtain r w' where run: "cleanStaleResources sample_kustomize_env sample_clean_cs [] [sample_report_of ''keep''] sample_clean_world = (r, w')"
    by fastforce
  have "map_of (un_Annotations (sample_marked ''keep'')) deploymentTypeAnnotation = Some (deployment_text False)" by code_simp
  moreover have "un_Name (sample_marked ''keep'') \<in> set (current_policies sample_kustomize_env [sample_report_of ''keep''])" by code_simp
  ultimately show ?thesis
    using deployed_survive_cleanup [OF sample_env_simps(2) _ sample_clean_objects(1,2), of sample_clean_cs "[]" "[sample_report_of ''keep'']" r w'] run
    by auto
qed

definition sample_refs_pair :: "policy_ref list" where
  "sample_refs_pair = [sample_policy ''cm'', (sample_policy ''no'')\<lparr>pr_Optional := False\<rparr>]"

definition sample_pair_cs :: cluster_summary where
  "sample_pair_cs = sample_feature_cs SyncModeContinuous sample_refs_pair"

definition sample_pair_context :: deployment_context where
  "sample_pair_context = \<lparr>dc_Objects = projr (fetchClusterObjects sample_kustomize_env sample_pair_cs), dc_MgmtResources = None\<rparr>"

definition sample_first :: "(resource_report list \<times> dep_error option) \<times> object_reference list resource_world" where
  "sample_first = deploy_each sample_kustomize_env False (Some []) sample_pair_cs sample_pair_context
     [collect_reference sample_kustomize_env (sample_policy ''cm'')] [] (sample_resource_world [sample_pair_cs] [])"

theorem missing_reference_leaks_witness:
  "fst (deployObjects sample_kustomize_env False (Some []) (map (collect_reference sample_kustomize_env) sample_refs_pair) sample_pair_cs None
     (sample_resource_world [sample_pair_cs] [])) =
     ([], Some \<lparr>err_Msg = ''Referenced resource: ConfigMap default/no does not exist'', err_Chain = [NonRetriableError]\<rparr>) \<and>
   map un_Name (rw_Objects (snd (undeploy_locally sample_kustomize_env sample_pair_cs FeatureResources (snd sample_first))) False) = [''conf'']"
proof -
  let ?e = "\<lparr>err_Msg = ''Referenced resource: ConfigMap default/no does not exist'', err_Chain = [NonRetriableError]\<rparr>"
  let ?refs = "map (collect_reference sample_kustomize_env) sample_refs_pair"
  have ctx: "fetchClusterObjects sample_kustomize_env sample_pair_cs = Inr (dc_Objects sample_pair_context)"
    "dc_MgmtResources sample_pair_context = None" by code_simp+
  have "snd (fst sample_first) = None" "map un_Name (rw_Objects (snd sample_first) False) = [''conf'']" by code_simp+
  moreover from this have first: "sample_first = ((fst (fst sample_first), None), snd sample_first)" by (metis prod.collapse)
  have split: "?refs = [collect_reference sample_kustomize_env (sample_policy ''cm'')] @ ?refs ! 1 # []" by (simp add: sample_refs_pair_def)
  have "ro_URL (?refs ! 1) = []" "getReferencedObject sample_kustomize_env sample_pair_cs (?refs ! 1) = Inl ?e"
    "deployed_kinds sample_kustomize_env sample_pair_cs FeatureResources = []" by code_simp+
  ultimately show ?thesis
    using missing_reference_leaks [OF ctx(1), of False "Some []" None "[collect_reference sample_kustomize_env (sample_policy ''cm'')]"
        "sample_resource_world [sample_pair_cs] []" "fst (fst sample_first)" "snd sample_first" "?refs ! 1" ?e "[]"] first split ctx(2)
    by (simp add: sample_first_def sample_pair_context_def)
qed

definition sample_tracked_cs :: cluster_summary where
  "sample_tracked_cs = (sample_feature_cs SyncModeContinuousWithDriftDetection [sample_policy ''cm''])\<lparr>cs_Status := zero_cluster_summary_status
     \<lparr>cst_FeatureSummaries := [(zero_feature_summary FeatureResources)\<lparr>fs_ResourceSummaryDeployed := Some False\<rparr>]\<rparr>\<rparr>"

definition sample_tracked_run :: "dep_error option \<times> object_reference list resource_world" where
  "sample_tracked_run = postProcessDeployedResources list_set_ops sample_kustomize_env sample_tracked_cs [] [sample_report_of ''conf''] None False None
     (sample_resource_world [sample_tracked_cs] [])"

theorem summary_flag_not_stored_witness:
  "map_of (rw_Tracked (snd sample_tracked_run)) FeatureResources = Some [rrp_Resource (sample_report_of ''conf'')] \<and>
   \<not> anyFeatureNeedsResourceSummaryRemoval (hd (hw_Store (rw_Helm (snd sample_tracked_run))))"
proof -
  have "fst sample_tracked_run = None" by code_simp
  then have run: "sample_tracked_run = (None, snd sample_tracked_run)" by (metis prod.collapse)
  have mode: "list_all (\<lambda>c. request_of c = request_of sample_tracked_cs \<longrightarrow>
      ps_SyncMode (cs_ProfileSpec c) = SyncModeContinuousWithDriftDetection)
      (sample_tracked_cs # hw_Store (rw_Helm (sample_resource_world [sample_tracked_cs] [])))" by code_simp
  have "marked_removed FeatureResources (request_of sample_tracked_cs) (rw_Helm (sample_resource_world [sample_tracked_cs] []))" by code_simp
  then have "map_of (rw_Tracked (snd sample_tracked_run)) FeatureResources = Some [tracked_resource (rrp_Resource (sample_report_of ''conf''))]"
    using summary_flag_not_stored [OF _ mode, of list_set_ops sample_kustomize_env "[]" "[sample_report_of ''conf'']" None "snd sample_tracked_run"] run
    by (simp add: sample_tracked_run_def)
  moreover have "\<not> anyFeatureNeedsResourceSummaryRemoval (hd (hw_Store (rw_Helm (snd sample_tracked_run))))" by code_simp
  ultimately show ?thesis by (simp add: tracked_resource_def sample_report_of_def empty_resource_def)
qed

definition sample_workload_report :: resource_report where
  "sample_workload_report = (sample_report_of ''front'')\<lparr>rrp_Resource := (rrp_Resource (sample_report_of ''front''))\<lparr>plr_Kind := ''Deployment''\<rparr>\<rparr>"

definition sample_dry_push :: "dep_error option \<times> object_reference list resource_world" where
  "sample_dry_push = record_push sample_kustomize_env FeatureResources (sample_feature_cs SyncModeDryRun []) sample_reloader_ref []
     [sample_workload_report] (sample_resource_world [] [])"

theorem dry_run_rewrites_reloader_witness:
  "map (map rli_Name \<circ> rl_Info) (matching_reloaders (Some (''ns'', ''c'', ClusterTypeCapi)) ''web'' FeatureResources (rw_Reloaders (snd sample_dry_push))) =
     [[''front'']]"
proof -
  let ?cs = "sample_feature_cs SyncModeDryRun []"
  let ?place = "Some (''ns'', ''c'', ClusterTypeCapi)"
  have "fst sample_dry_push = None" by code_simp
  then have run: "sample_dry_push = (None, snd sample_dry_push)" by (metis prod.collapse)
  have place: "?place = Some (css_ClusterNamespace (cs_Spec ?cs), css_ClusterName (cs_Spec ?cs), css_ClusterType (cs_Spec ?cs))" by code_simp
  have h: "is_dry_run ?cs" "rle_AgentInMgmt (sv_Reloader sample_kustomize_env) = False" "rle_Client (sv_Reloader sample_kustomize_env) = None"
    "ps_Reloader (cs_ProfileSpec ?cs)" by code_simp+
  have ok: "reloaders_ok ?place (rw_Reloaders (sample_resource_world [] []))"
    by (simp add: reloaders_ok_def sample_resource_world_def no_reloaders_def)
  have "map rl_Info (matching_reloaders ?place (own_Name sample_reloader_ref) FeatureResources (rw_Reloaders (snd sample_dry_push))) =
      [reloader_infos (ConvertResourceReportsToObjectReference [sample_workload_report])]"
    using dry_run_rewrites_reloader [OF h ok place, of FeatureResources sample_reloader_ref "[]" "[sample_workload_report]" "snd sample_dry_push"] run
    by (simp add: sample_dry_push_def)
  moreover have "map rli_Name (reloader_infos (ConvertResourceReportsToObjectReference [sample_workload_report])) = [''front'']" by code_simp
  ultimately have "map (map rli_Name \<circ> rl_Info) (matching_reloaders ?place (own_Name sample_reloader_ref) FeatureResources
      (rw_Reloaders (snd sample_dry_push))) = [[''front'']]" by (metis (no_types, lifting) list.simps(8,9) map_map)
  then show ?thesis by (simp add: sample_reloader_ref_def)
qed

end
