(* ===== verification/Health_Checks.thy ===== *)
theory Health_Checks
  imports Helm_Agent Health_Monitoring
begin

text \<open>
  The HealthCheck and the ClusterHealthCheck that monitor what a ClusterSummary deployed (controllers/health_monitoring.go): the
  releases and kinds to look at, the Lua script with the names of the profile and its releases, and the reconciliation of the
  two objects. Names of releases come from the user, so the script must quote them: \<open>lua_chars\<close> is how Lua 5.1 reads a
  literal. \<open>monitor_world\<close> holds the objects of the management cluster; \<open>monitor_env\<close> the hash, the values of libsveltos,
  the embedded Lua library and the faults of the calls.
\<close>

section \<open>Objects\<close>

record resource_selector =
  rsl_Group :: string
  rsl_Version :: string
  rsl_Kind :: string
  rsl_Namespace :: string
  rsl_Has :: "string list"

record health_check_spec =
  hcs_Selectors :: "resource_selector list"
  hcs_EvaluateHealth :: string
  hcs_EvaluateIndependently :: bool
  hcs_ConsecutiveEvaluations :: nat

record liveness_check =
  lvc_Name :: string
  lvc_HealthCheck :: string

record cluster_health_check_spec =
  chs_ClusterRef :: object_reference
  chs_LivenessChecks :: "liveness_check list"

record 'sp monitor_object =
  mo_Name :: string
  mo_Labels :: "(string \<times> string) list"
  mo_Annotations :: "(string \<times> string) list"
  mo_Spec :: 'sp

datatype monitor_kind = Kind_HealthCheck | Kind_ClusterHealthCheck

text \<open>The error of a read: of a kind whose definition is not installed, or another one. A missing object is not in the list.\<close>

datatype read_error = Read_NoMatch dep_error | Read_Error dep_error

record monitor_world =
  mw_HealthChecks :: "health_check_spec monitor_object list"
  mw_ClusterHealthChecks :: "cluster_health_check_spec monitor_object list"

record monitor_env = ownership_env +
  he_UIDHash :: "string \<Rightarrow> string"
  he_ReasonLabel :: string
  he_LuaLibrary :: string
  he_SveltosAPIVersion :: string
  he_CAPIVersion :: string
  he_Read :: "monitor_kind \<Rightarrow> read_error option"
  he_Write :: "monitor_kind \<Rightarrow> dep_error option"
  he_Delete :: "monitor_kind \<Rightarrow> api_error option"

text \<open>\<open>he_UIDHash\<close> is SHA-256 in hexadecimal digits.\<close>

section \<open>What is monitored\<close>

definition isHealthMonitoringEnabled :: "cluster_summary \<Rightarrow> bool" where
  "isHealthMonitoringEnabled cs = (case ps_HealthMonitoring (cs_ProfileSpec cs) of None \<Rightarrow> False | Some hm \<Rightarrow> hm_Enabled hm)"

definition useDefaultHealthChecks :: "health_monitoring \<Rightarrow> bool" where
  "useDefaultHealthChecks hm = (case hm_DefaultChecks hm of None \<Rightarrow> True | Some b \<Rightarrow> b)"

definition areAllFeaturesProvisioned :: "cluster_summary \<Rightarrow> bool" where
  "areAllFeaturesProvisioned cs =
     (cst_FeatureSummaries (cs_Status cs) \<noteq> [] \<and>
      list_all (\<lambda>fs. fs_Status fs = Some FeatureStatusProvisioned) (cst_FeatureSummaries (cs_Status cs)))"

text \<open>A release is its namespace and its name. Entries that compare equal are equal, so the order of \<open>sort.Slice\<close> is \<open>sort\<close>.\<close>

definition getManagedHelmReleases :: "cluster_summary \<Rightarrow> (string \<times> string) list" where
  "getManagedHelmReleases cs = sort (map (\<lambda>s. (hs_ReleaseNamespace s, hs_ReleaseName s))
     (filter (\<lambda>s. hs_Status s = HelmChartStatusManaging) (cst_HelmReleaseSummaries (cs_Status cs))))"

definition healthMonitoringInputsChanged :: "cluster_summary \<Rightarrow> cluster_summary \<Rightarrow> bool" where
  "healthMonitoringInputsChanged oldCS newCS =
     (if areAllFeaturesProvisioned oldCS \<noteq> areAllFeaturesProvisioned newCS then True
      else getManagedHelmReleases oldCS \<noteq> getManagedHelmReleases newCS)"

definition deploysRawResources :: "cluster_summary \<Rightarrow> bool" where
  "deploysRawResources cs =
     (slice (ps_PolicyRefs (cs_ProfileSpec cs)) \<noteq> [] \<or> slice (ps_KustomizationRefs (cs_ProfileSpec cs)) \<noteq> [])"

definition monitoredKinds :: "(string \<times> string) list" where
  "monitoredKinds = [(''apps'', ''Deployment''), (''apps'', ''StatefulSet''), (''apps'', ''DaemonSet''), (''batch'', ''Job''),
     ([], ''PersistentVolumeClaim'')]"

definition kind_selector :: "string \<Rightarrow> string list \<Rightarrow> string \<times> string \<Rightarrow> resource_selector" where
  "kind_selector ns has mk = \<lparr>rsl_Group = fst mk, rsl_Version = ''v1'', rsl_Kind = snd mk, rsl_Namespace = ns, rsl_Has = has\<rparr>"

definition getMonitoringResourceSelectors :: "'e monitor_env_scheme \<Rightarrow> bool \<Rightarrow> (string \<times> string) list \<Rightarrow> resource_selector list" where
  "getMonitoringResourceSelectors env deployRaw rels =
     (if deployRaw then map (kind_selector [] [he_ReasonLabel env]) monitoredKinds else []) @
     concat (map (\<lambda>ns. map (kind_selector ns []) monitoredKinds) (sort (remdups (map fst rels))))"

section \<open>The script\<close>

definition digit_char :: "nat \<Rightarrow> char" where
  "digit_char d = char_of (48 + d)"

definition quote_char :: "char \<Rightarrow> string" where
  "quote_char c =
     (let n = (of_char c :: nat) in
      if c = CHR 0x5C then [CHR 0x5C, CHR 0x5C]
      else if c = CHR 0x22 then [CHR 0x5C, CHR 0x22]
      else if c = CHR 0x0A then [CHR 0x5C, CHR ''n'']
      else if c = CHR 0x0D then [CHR 0x5C, CHR ''r'']
      else if n < 32 \<or> n = 127 then
        [CHR 0x5C, digit_char (n div 100), digit_char (n div 10 mod 10), digit_char (n mod 10)]
      else [c])"

definition quoteLuaString :: "string \<Rightarrow> string" where
  "quoteLuaString s = CHR 0x22 # concat (map quote_char s) @ [CHR 0x22]"

definition newline :: string where
  "newline = [CHR 0x0A]"

definition release_line :: "string \<times> string \<Rightarrow> string" where
  "release_line r = ''    ['' @ quoteLuaString (fst r @ ''/'' @ snd r) @ ''] = true,'' @ newline"

definition renderHealthMonitoringLua :: "'e monitor_env_scheme \<Rightarrow> string \<Rightarrow> string \<Rightarrow> (string \<times> string) list \<Rightarrow> string" where
  "renderHealthMonitoringLua env ownerKind ownerName rels =
     ''local config = {'' @ newline @
     ''  ownerKind = '' @ quoteLuaString ownerKind @ '','' @ newline @
     ''  ownerName = '' @ quoteLuaString ownerName @ '','' @ newline @
     ''  helmReleases = {'' @ newline @
     concat (map release_line rels) @
     ''  },'' @ newline @ ''}'' @ newline @ newline @ he_LuaLibrary env"

section \<open>Reading the script back\<close>

text \<open>
  The literals of Lua 5.1: after the opening quote, up to the closing one. A backslash before up to three digits is a character by its
  code, before a letter a control character, before anything else that character itself. A line cannot end inside a literal.
\<close>

definition is_digit :: "char \<Rightarrow> bool" where
  "is_digit c \<longleftrightarrow> 48 \<le> (of_char c :: nat) \<and> (of_char c :: nat) \<le> 57"

fun read_digits :: "nat \<Rightarrow> nat \<Rightarrow> string \<Rightarrow> nat \<times> string" where
  "read_digits (Suc k) n (c # cs) = (if is_digit c then read_digits k (10 * n + (of_char c - 48)) cs else (n, c # cs))"
| "read_digits k n cs = (n, cs)"

lemma read_digits_shorter: "length (snd (read_digits k n cs)) \<le> length cs"
  by (induction k n cs rule: read_digits.induct) (auto simp: le_Suc_eq)

definition control_char :: "char \<Rightarrow> char" where
  "control_char e =
     (if e = CHR ''n'' then CHR 0x0A else if e = CHR ''r'' then CHR 0x0D else if e = CHR ''t'' then CHR 0x09
      else if e = CHR ''a'' then CHR 0x07 else if e = CHR ''b'' then CHR 0x08 else if e = CHR ''f'' then CHR 0x0C
      else if e = CHR ''v'' then CHR 0x0B else e)"

function lua_chars :: "string \<Rightarrow> (string \<times> string) option" where
  "lua_chars [] = None"
| "lua_chars (c # cs) =
     (if c = CHR 0x22 then Some ([], cs)
      else if c = CHR 0x0A \<or> c = CHR 0x0D then None
      else if c = CHR 0x5C then
        (case cs of
           [] \<Rightarrow> None
         | e # es \<Rightarrow>
             if is_digit e then
               (case read_digits 3 0 cs of
                  (v, rest) \<Rightarrow>
                    if length rest < length cs \<and> v < 256 then map_option (\<lambda>(s, t). (char_of v # s, t)) (lua_chars rest) else None)
             else map_option (\<lambda>(s, t). (control_char e # s, t)) (lua_chars es))
      else map_option (\<lambda>(s, t). (c # s, t)) (lua_chars cs))"
  by pat_completeness auto
termination by (relation "measure length") auto

definition lua_string :: "string \<Rightarrow> (string \<times> string) option" where
  "lua_string s = (case s of [] \<Rightarrow> None | c # cs \<Rightarrow> if c = CHR 0x22 then lua_chars cs else None)"

lemma digit_char_value: "d < 10 \<Longrightarrow> of_char (digit_char d) = 48 + d"
  by (simp add: digit_char_def)

lemma is_digit_char: "d < 10 \<Longrightarrow> is_digit (digit_char d)"
  by (simp add: is_digit_def digit_char_value)

lemma read_three_digits:
  assumes "a < 10" "b < 10" "d < 10"
  shows "read_digits 3 0 (digit_char a # digit_char b # digit_char d # t) = (100 * a + 10 * b + d, t)"
  using assms by (simp add: numeral_3_eq_3 is_digit_char digit_char_value)

lemma three_digits: "100 * (n div 100) + 10 * (n div 10 mod 10) + n mod 10 = (n :: nat)"
proof -
  have "n div 100 = n div 10 div 10" by (simp add: div_mult2_eq)
  moreover have "n = 10 * (n div 10) + n mod 10" "n div 10 = 10 * (n div 10 div 10) + n div 10 mod 10" by simp_all
  ultimately show ?thesis by linarith
qed

lemma read_quoted_char: "lua_chars (quote_char c @ t) = map_option (\<lambda>(s, u). (c # s, u)) (lua_chars t)"
proof -
  let ?n = "of_char c :: nat"
  consider "c \<in> {CHR 0x5C, CHR 0x22, CHR 0x0A, CHR 0x0D}"
    | "c \<notin> {CHR 0x5C, CHR 0x22, CHR 0x0A, CHR 0x0D}" "?n < 32 \<or> ?n = 127"
    | "c \<notin> {CHR 0x5C, CHR 0x22, CHR 0x0A, CHR 0x0D}" "\<not> (?n < 32 \<or> ?n = 127)" by blast
  then show ?thesis
  proof cases
    case 1
    then show ?thesis by (auto simp: quote_char_def is_digit_def control_char_def)
  next
    case 2
    have "?n < 256" by simp
    then have "?n < 10 * 100" by linarith
    then have small: "?n div 100 < 10" "?n div 10 mod 10 < 10" "?n mod 10 < 10" using less_mult_imp_div_less [of ?n 10 100] by simp_all
    show ?thesis using 2 read_three_digits [OF small, of t] is_digit_char [OF small(1)] three_digits [of ?n]
      by (simp add: quote_char_def Let_def)
  next
    case 3
    then show ?thesis by (simp add: quote_char_def Let_def)
  qed
qed

lemma read_quoted: "lua_string (quoteLuaString s @ t) = Some (s, t)"
proof -
  have "lua_chars (concat (map quote_char s) @ CHR 0x22 # t) = Some (s, t)"
    by (induction s) (simp_all add: read_quoted_char del: lua_chars.simps(2), simp)
  then show ?thesis by (simp add: lua_string_def quoteLuaString_def)
qed

definition expect :: "string \<Rightarrow> string \<Rightarrow> string option" where
  "expect p s = (if has_prefix p s then Some (drop (length p) s) else None)"

lemma expect_append [simp]: "expect p (p @ s) = Some s"
  by (simp add: expect_def)

function read_releases :: "string \<Rightarrow> (string list \<times> string) option" where
  "read_releases s =
     (case expect ''    ['' s of
        None \<Rightarrow> Some ([], s)
      | Some s1 \<Rightarrow>
          (case lua_string s1 of
             None \<Rightarrow> None
           | Some (k, s2) \<Rightarrow>
               (case expect (''] = true,'' @ newline) s2 of
                  None \<Rightarrow> None
                | Some s3 \<Rightarrow>
                    if length s3 < length s then map_option (\<lambda>(ks, t). (k # ks, t)) (read_releases s3) else None)))"
  by pat_completeness auto
termination by (relation "measure length") auto

definition read_config :: "string \<Rightarrow> (string \<times> string \<times> string list \<times> string) option" where
  "read_config s =
     Option.bind (expect (''local config = {'' @ newline @ ''  ownerKind = '') s) (\<lambda>s.
     Option.bind (lua_string s) (\<lambda>(ownerKind, s).
     Option.bind (expect ('','' @ newline @ ''  ownerName = '') s) (\<lambda>s.
     Option.bind (lua_string s) (\<lambda>(ownerName, s).
     Option.bind (expect ('','' @ newline @ ''  helmReleases = {'' @ newline) s) (\<lambda>s.
     Option.bind (read_releases s) (\<lambda>(keys, s).
     map_option (\<lambda>library. (ownerKind, ownerName, keys, library)) (expect (''  },'' @ newline @ ''}'' @ newline @ newline) s)))))))"

lemma read_release_step:
  assumes "expect ''    ['' s = Some s1" "lua_string s1 = Some (k, s2)" "expect (''] = true,'' @ newline) s2 = Some s3"
    and "length s3 < length s" "read_releases s3 = Some (ks, t)"
  shows "read_releases s = Some (k # ks, t)"
  using assms by (subst read_releases.simps) simp

lemma read_release_lines:
  assumes "expect ''    ['' t = None"
  shows "read_releases (concat (map release_line rels) @ t) = Some (map (\<lambda>r. fst r @ ''/'' @ snd r) rels, t)"
proof (induction rels)
  case Nil
  then show ?case using assms by simp
next
  case (Cons r rels)
  let ?u = "concat (map release_line rels) @ t"
  have line: "release_line r @ ?u = ''    ['' @ quoteLuaString (fst r @ ''/'' @ snd r) @ (''] = true,'' @ newline) @ ?u"
    by (simp add: release_line_def)
  have "read_releases (release_line r @ ?u) = Some ((fst r @ ''/'' @ snd r) # map (\<lambda>r. fst r @ ''/'' @ snd r) rels, t)"
    unfolding line by (rule read_release_step [OF expect_append read_quoted expect_append _ Cons.IH]) simp
  then show ?case by simp
qed

lemma read_config_steps:
  assumes "expect (''local config = {'' @ newline @ ''  ownerKind = '') s = Some s1" "lua_string s1 = Some (k, s2)"
    and "expect ('','' @ newline @ ''  ownerName = '') s2 = Some s3" "lua_string s3 = Some (n, s4)"
    and "expect ('','' @ newline @ ''  helmReleases = {'' @ newline) s4 = Some s5" "read_releases s5 = Some (ks, s6)"
    and "expect (''  },'' @ newline @ ''}'' @ newline @ newline) s6 = Some lib"
  shows "read_config s = Some (k, n, ks, lib)"
  using assms by (simp add: read_config_def)

text \<open>
  C37. No name can break out of the script of a HealthCheck: the script for a profile and its releases reads back, by the rules of Lua
  literals, as exactly that profile, those releases and the library, whatever characters are in the names.
\<close>

theorem script_reads_back:
  "read_config (renderHealthMonitoringLua env ownerKind ownerName rels) =
     Some (ownerKind, ownerName, map (\<lambda>r. fst r @ ''/'' @ snd r) rels, he_LuaLibrary env)"
proof -
  let ?rest = "(''  },'' @ newline @ ''}'' @ newline @ newline) @ he_LuaLibrary env"
  have script: "renderHealthMonitoringLua env ownerKind ownerName rels =
      (''local config = {'' @ newline @ ''  ownerKind = '') @ quoteLuaString ownerKind @ ('','' @ newline @ ''  ownerName = '') @
      quoteLuaString ownerName @ ('','' @ newline @ ''  helmReleases = {'' @ newline) @ concat (map release_line rels) @ ?rest"
    by (simp add: renderHealthMonitoringLua_def)
  have "expect ''    ['' ?rest = None" by (simp add: expect_def has_prefix_def)
  then show ?thesis
    unfolding script
    by (rule read_config_steps [OF expect_append read_quoted expect_append read_quoted expect_append read_release_lines expect_append])
qed

section \<open>The two objects\<close>

definition getHealthMonitoringName :: "'e monitor_env_scheme \<Rightarrow> cluster_summary \<Rightarrow> string" where
  "getHealthMonitoringName env cs = ''hm-'' @ take 12 (he_UIDHash env (om_UID (cs_Meta cs)))"

definition getHealthMonitoringLabels :: "cluster_summary \<Rightarrow> (string \<times> string) list" where
  "getHealthMonitoringLabels cs = [(HealthMonitoringClusterSummaryUIDLabel, om_UID (cs_Meta cs))]"

definition getHealthMonitoringAnnotations :: "cluster_summary \<Rightarrow> (string \<times> string) list" where
  "getHealthMonitoringAnnotations cs =
     [(HealthMonitoringClusterSummaryNamespaceAnnotation, cs_Namespace cs), (HealthMonitoringClusterSummaryNameAnnotation, cs_Name cs)]"

definition getClusterSummaryClusterRef :: "'e monitor_env_scheme \<Rightarrow> cluster_summary \<Rightarrow> object_reference" where
  "getClusterSummaryClusterRef env cs =
     (let s = cs_Spec cs; sveltos = (css_ClusterType s = ClusterTypeSveltos) in
      \<lparr>ref_Kind = (if sveltos then ''SveltosCluster'' else ''Cluster''), ref_Namespace = css_ClusterNamespace s,
       ref_Name = css_ClusterName s, ref_APIVersion = (if sveltos then he_SveltosAPIVersion env else he_CAPIVersion env)\<rparr>)"

definition monitor_object :: "'e monitor_env_scheme \<Rightarrow> cluster_summary \<Rightarrow> 'sp \<Rightarrow> 'sp monitor_object" where
  "monitor_object env cs spec = \<lparr>mo_Name = getHealthMonitoringName env cs, mo_Labels = getHealthMonitoringLabels cs,
     mo_Annotations = getHealthMonitoringAnnotations cs, mo_Spec = spec\<rparr>"

definition buildMonitoringHealthCheck :: "'e monitor_env_scheme \<Rightarrow> cluster_summary \<Rightarrow> string \<Rightarrow> string \<Rightarrow>
    health_check_spec monitor_object option" where
  "buildMonitoringHealthCheck env cs profileKind profileName =
     (let rels = getManagedHelmReleases cs; selectors = getMonitoringResourceSelectors env (deploysRawResources cs) rels in
      if selectors = [] then None
      else Some (monitor_object env cs \<lparr>hcs_Selectors = selectors,
        hcs_EvaluateHealth = renderHealthMonitoringLua env profileKind profileName rels,
        hcs_EvaluateIndependently = True, hcs_ConsecutiveEvaluations = 3\<rparr>))"

definition getHealthCheckLiveness :: "string \<Rightarrow> string \<Rightarrow> liveness_check" where
  "getHealthCheckLiveness livenessName healthCheckName = \<lparr>lvc_Name = livenessName, lvc_HealthCheck = healthCheckName\<rparr>"

definition buildMonitoringClusterHealthCheck :: "'e monitor_env_scheme \<Rightarrow> cluster_summary \<Rightarrow> string \<Rightarrow> string list \<Rightarrow>
    cluster_health_check_spec monitor_object" where
  "buildMonitoringClusterHealthCheck env cs generatedHealthCheck userHealthChecks =
     monitor_object env cs \<lparr>chs_ClusterRef = getClusterSummaryClusterRef env cs,
       chs_LivenessChecks =
         (if generatedHealthCheck \<noteq> [] then [getHealthCheckLiveness ''deployed-resources'' generatedHealthCheck] else []) @
         map (\<lambda>n. getHealthCheckLiveness n n) (sort userHealthChecks)\<rparr>"

section \<open>Reconciling\<close>

definition mergeStringMaps :: "(string \<times> string) list \<Rightarrow> (string \<times> string) list \<Rightarrow> (string \<times> string) list" where
  "mergeStringMaps current desired = fold (\<lambda>(k, v). AList.update k v) desired current"

definition merged_object :: "'sp monitor_object \<Rightarrow> 'sp monitor_object \<Rightarrow> 'sp monitor_object" where
  "merged_object current desired = current\<lparr>mo_Labels := mergeStringMaps (mo_Labels current) (mo_Labels desired),
     mo_Annotations := mergeStringMaps (mo_Annotations current) (mo_Annotations desired), mo_Spec := mo_Spec desired\<rparr>"

text \<open>\<open>CreateOrUpdate\<close> of controller-runtime writes only what differs. The two functions differ in the kind alone.\<close>

definition create_or_update :: "'e monitor_env_scheme \<Rightarrow> monitor_kind \<Rightarrow> 'sp monitor_object \<Rightarrow> 'sp monitor_object list \<Rightarrow>
    dep_error option \<times> 'sp monitor_object list" where
  "create_or_update env kind desired xs =
     (case he_Read env kind of
        Some (Read_NoMatch e) \<Rightarrow> (Some e, xs)
      | Some (Read_Error e) \<Rightarrow> (Some e, xs)
      | None \<Rightarrow>
          (case List.find (\<lambda>x. mo_Name x = mo_Name desired) xs of
             None \<Rightarrow> (case he_Write env kind of Some e \<Rightarrow> (Some e, xs) | None \<Rightarrow> (None, xs @ [desired]))
           | Some current \<Rightarrow>
               if merged_object current desired = current then (None, xs)
               else (case he_Write env kind of
                  Some e \<Rightarrow> (Some e, xs)
                | None \<Rightarrow> (None, map (\<lambda>x. if mo_Name x = mo_Name desired then merged_object current desired else x) xs))))"

definition createOrUpdateMonitoringHealthCheck :: "'e monitor_env_scheme \<Rightarrow> health_check_spec monitor_object \<Rightarrow> monitor_world \<Rightarrow>
    dep_error option \<times> monitor_world" where
  "createOrUpdateMonitoringHealthCheck env desired w =
     (case create_or_update env Kind_HealthCheck desired (mw_HealthChecks w) of (err, xs) \<Rightarrow> (err, w\<lparr>mw_HealthChecks := xs\<rparr>))"

definition createOrUpdateMonitoringClusterHealthCheck :: "'e monitor_env_scheme \<Rightarrow> cluster_health_check_spec monitor_object \<Rightarrow>
    monitor_world \<Rightarrow> dep_error option \<times> monitor_world" where
  "createOrUpdateMonitoringClusterHealthCheck env desired w =
     (case create_or_update env Kind_ClusterHealthCheck desired (mw_ClusterHealthChecks w) of
        (err, xs) \<Rightarrow> (err, w\<lparr>mw_ClusterHealthChecks := xs\<rparr>))"

definition deleteIfOwned :: "'e monitor_env_scheme \<Rightarrow> monitor_kind \<Rightarrow> cluster_summary \<Rightarrow> 'sp monitor_object list \<Rightarrow>
    dep_error option \<times> 'sp monitor_object list" where
  "deleteIfOwned env kind cs xs =
     (case he_Read env kind of
        Some (Read_NoMatch e) \<Rightarrow> (None, xs)
      | Some (Read_Error e) \<Rightarrow> (Some e, xs)
      | None \<Rightarrow>
          (case List.find (\<lambda>x. mo_Name x = getHealthMonitoringName env cs) xs of
             None \<Rightarrow> (None, xs)
           | Some obj \<Rightarrow>
               if lookup_default [] (mo_Labels obj) HealthMonitoringClusterSummaryUIDLabel \<noteq> om_UID (cs_Meta cs) then (None, xs)
               else (case he_Delete env kind of
                  Some (ApiError msg) \<Rightarrow> (Some (plain_error msg), xs)
                | _ \<Rightarrow> (None, filter (\<lambda>x. mo_Name x \<noteq> getHealthMonitoringName env cs) xs))))"

definition deleteMonitoringHealthCheck :: "'e monitor_env_scheme \<Rightarrow> cluster_summary \<Rightarrow> monitor_world \<Rightarrow>
    dep_error option \<times> monitor_world" where
  "deleteMonitoringHealthCheck env cs w =
     (case deleteIfOwned env Kind_HealthCheck cs (mw_HealthChecks w) of (err, xs) \<Rightarrow> (err, w\<lparr>mw_HealthChecks := xs\<rparr>))"

definition removeHealthMonitoring :: "'e monitor_env_scheme \<Rightarrow> cluster_summary \<Rightarrow> monitor_world \<Rightarrow> dep_error option \<times> monitor_world" where
  "removeHealthMonitoring env cs w =
     (case deleteIfOwned env Kind_ClusterHealthCheck cs (mw_ClusterHealthChecks w) of
        (Some e, xs) \<Rightarrow> (Some e, w\<lparr>mw_ClusterHealthChecks := xs\<rparr>)
      | (None, xs) \<Rightarrow> deleteMonitoringHealthCheck env cs (w\<lparr>mw_ClusterHealthChecks := xs\<rparr>))"

definition getAllowedHealthChecks :: "string \<Rightarrow> health_monitoring \<Rightarrow> string list" where
  "getAllowedHealthChecks profileKind hm =
     (if profileKind \<noteq> ProfileKind \<or> hm_HealthChecks hm = [] then hm_HealthChecks hm else [])"

text \<open>The HealthCheck that is generated, if one is: its name, empty for none.\<close>

definition generated_check :: "'e monitor_env_scheme \<Rightarrow> cluster_summary \<Rightarrow> owner_reference \<Rightarrow> health_monitoring \<Rightarrow> monitor_world \<Rightarrow>
    (dep_error + string) \<times> monitor_world" where
  "generated_check env cs profileRef hm w =
     (if \<not> useDefaultHealthChecks hm then (Inr [], w)
      else case buildMonitoringHealthCheck env cs (own_Kind profileRef) (own_Name profileRef) of
        None \<Rightarrow> (Inr [], w)
      | Some healthCheck \<Rightarrow>
          (case createOrUpdateMonitoringHealthCheck env healthCheck w of
             (Some e, w) \<Rightarrow> (Inl e, w)
           | (None, w) \<Rightarrow> (Inr (mo_Name healthCheck), w)))"

definition reconcileHealthMonitoring :: "'e monitor_env_scheme \<Rightarrow> cluster_summary \<Rightarrow> monitor_world \<Rightarrow> dep_error option \<times> monitor_world" where
  "reconcileHealthMonitoring env cs w =
     (if is_deleted cs \<or> is_dry_run cs then (None, w)
      else case ps_HealthMonitoring (cs_ProfileSpec cs) of
        None \<Rightarrow> removeHealthMonitoring env cs w
      | Some hm \<Rightarrow>
          if \<not> isHealthMonitoringEnabled cs then removeHealthMonitoring env cs w
          else if \<not> areAllFeaturesProvisioned cs then (None, w)
          else
            (case GetProfileRef env cs of
               Inl e \<Rightarrow> (Some e, w)
             | Inr profileRef \<Rightarrow>
                 (let healthChecks = getAllowedHealthChecks (own_Kind profileRef) hm in
                  case generated_check env cs profileRef hm w of
                    (Inl e, w) \<Rightarrow> (Some e, w)
                  | (Inr generated, w) \<Rightarrow>
                      if generated = [] \<and> healthChecks = [] then removeHealthMonitoring env cs w
                      else
                        (case (if generated = [] then deleteMonitoringHealthCheck env cs w else (None, w)) of
                           (Some e, w) \<Rightarrow> (Some e, w)
                         | (None, w) \<Rightarrow>
                             createOrUpdateMonitoringClusterHealthCheck env
                               (buildMonitoringClusterHealthCheck env cs generated healthChecks) w))))"

section \<open>What a reconciliation leaves\<close>

abbreviation at_name :: "string \<Rightarrow> 'sp monitor_object list \<Rightarrow> 'sp monitor_object option" where
  "at_name n xs \<equiv> List.find (\<lambda>x. mo_Name x = n) xs"

definition owned :: "cluster_summary \<Rightarrow> 'sp monitor_object \<Rightarrow> bool" where
  "owned cs x \<longleftrightarrow> lookup_default [] (mo_Labels x) HealthMonitoringClusterSummaryUIDLabel = om_UID (cs_Meta cs)"

definition wanted_check :: "'e monitor_env_scheme \<Rightarrow> cluster_summary \<Rightarrow> owner_reference \<Rightarrow> health_check_spec monitor_object option" where
  "wanted_check env cs ref =
     (case ps_HealthMonitoring (cs_ProfileSpec cs) of
        None \<Rightarrow> None
      | Some hm \<Rightarrow>
          if hm_Enabled hm \<and> useDefaultHealthChecks hm then buildMonitoringHealthCheck env cs (own_Kind ref) (own_Name ref) else None)"

definition wanted_cluster_check :: "'e monitor_env_scheme \<Rightarrow> cluster_summary \<Rightarrow> owner_reference \<Rightarrow>
    cluster_health_check_spec monitor_object option" where
  "wanted_cluster_check env cs ref =
     (case ps_HealthMonitoring (cs_ProfileSpec cs) of
        None \<Rightarrow> None
      | Some hm \<Rightarrow>
          (let generated = (case wanted_check env cs ref of None \<Rightarrow> [] | Some h \<Rightarrow> mo_Name h);
               listed = getAllowedHealthChecks (own_Kind ref) hm in
           if \<not> hm_Enabled hm \<or> generated = [] \<and> listed = [] then None
           else Some (buildMonitoringClusterHealthCheck env cs generated listed)))"

text \<open>The object of the ClusterSummary is there with the wanted content and its label, or none of its own is.\<close>

definition as_wanted :: "'e monitor_env_scheme \<Rightarrow> cluster_summary \<Rightarrow> 'sp monitor_object option \<Rightarrow> 'sp monitor_object list \<Rightarrow> bool" where
  "as_wanted env cs want xs =
     (case (want, at_name (getHealthMonitoringName env cs) xs) of
        (None, None) \<Rightarrow> True
      | (None, Some x) \<Rightarrow> \<not> owned cs x
      | (Some _, None) \<Rightarrow> False
      | (Some d, Some x) \<Rightarrow> mo_Spec x = mo_Spec d \<and> owned cs x)"

definition foreign :: "'e monitor_env_scheme \<Rightarrow> cluster_summary \<Rightarrow> 'sp monitor_object list \<Rightarrow> 'sp monitor_object list" where
  "foreign env cs xs = filter (\<lambda>x. mo_Name x \<noteq> getHealthMonitoringName env cs) xs"

lemma find_append_last: "List.find P (xs @ [x]) = (case List.find P xs of None \<Rightarrow> if P x then Some x else None | Some y \<Rightarrow> Some y)"
  by (induction xs) auto

lemma find_map_name:
  "at_name n xs = Some y \<Longrightarrow> mo_Name d = n \<Longrightarrow> at_name n (map (\<lambda>x. if mo_Name x = n then d else x) xs) = Some d"
  by (induction xs) (auto split: if_splits)

lemma find_name: "at_name n xs = Some y \<Longrightarrow> mo_Name y = n"
  by (induction xs) (auto split: if_splits)

lemma filter_map_name:
  "mo_Name d = n \<Longrightarrow> filter (\<lambda>x. mo_Name x \<noteq> n) (map (\<lambda>x. if mo_Name x = n then d else x) xs) = filter (\<lambda>x. mo_Name x \<noteq> n) xs"
  by (induction xs) auto

lemma merged_simps: "mo_Name (merged_object c d) = mo_Name c" "mo_Spec (merged_object c d) = mo_Spec d"
  "owned cs (merged_object c (monitor_object env cs spec))" "owned cs (monitor_object env cs spec)"
  by (simp_all add: merged_object_def owned_def monitor_object_def mergeStringMaps_def getHealthMonitoringLabels_def lookup_default_def
      update_conv')

lemma written:
  assumes "create_or_update env kind d xs = (None, ys)" "d = monitor_object env cs spec"
  shows "as_wanted env cs (Some d) ys \<and> foreign env cs ys = foreign env cs xs"
proof -
  have n: "mo_Name d = getHealthMonitoringName env cs" by (simp add: assms(2) monitor_object_def)
  show ?thesis
  proof (cases "at_name (getHealthMonitoringName env cs) xs")
    case None
    then show ?thesis
      using assms(1) n merged_simps(4) [of cs env spec]
      by (auto simp: create_or_update_def as_wanted_def foreign_def find_append_last assms(2) split: option.splits read_error.splits)
  next
    case (Some y)
    let ?m = "merged_object y d"
    have m: "mo_Name ?m = getHealthMonitoringName env cs" "mo_Spec ?m = mo_Spec d" "owned cs ?m"
      using find_name [OF Some] merged_simps(3) [of cs y env spec] by (simp_all add: merged_simps assms(2))
    have "ys = xs \<and> y = ?m \<or> ys = map (\<lambda>x. if mo_Name x = getHealthMonitoringName env cs then ?m else x) xs"
      using assms(1) Some n by (auto simp: create_or_update_def split: option.splits read_error.splits if_splits)
    then show ?thesis
    proof
      assume "ys = xs \<and> y = ?m"
      then show ?thesis using Some m by (auto simp: as_wanted_def)
    next
      assume "ys = map (\<lambda>x. if mo_Name x = getHealthMonitoringName env cs then ?m else x) xs"
      then show ?thesis using Some m by (simp add: as_wanted_def foreign_def find_map_name [OF Some m(1)] filter_map_name [OF m(1)])
    qed
  qed
qed

lemma deleted:
  assumes "deleteIfOwned env kind cs xs = (None, ys)" "he_Read env kind = None"
  shows "as_wanted env cs None ys \<and> foreign env cs ys = foreign env cs xs"
proof -
  have none: "at_name n (filter (\<lambda>x. mo_Name x \<noteq> n) xs) = None" for n by (auto simp: find_None_iff)
  show ?thesis
    using assms none
    by (auto simp: deleteIfOwned_def as_wanted_def foreign_def owned_def split: option.splits if_splits api_error.splits)
qed

lemma removed:
  assumes "removeHealthMonitoring env cs w = (None, w')" "he_Read env = (\<lambda>_. None)"
  shows "as_wanted env cs None (mw_HealthChecks w') \<and> as_wanted env cs None (mw_ClusterHealthChecks w') \<and>
    foreign env cs (mw_HealthChecks w') = foreign env cs (mw_HealthChecks w) \<and>
    foreign env cs (mw_ClusterHealthChecks w') = foreign env cs (mw_ClusterHealthChecks w)"
  using assms by (auto simp: removeHealthMonitoring_def deleteMonitoringHealthCheck_def split: prod.splits option.splits dest!: deleted)

lemma built_named: "buildMonitoringHealthCheck env cs k n = Some h \<Longrightarrow> \<exists>spec. h = monitor_object env cs spec"
  by (auto simp: buildMonitoringHealthCheck_def Let_def split: if_splits)

lemma own_name: "mo_Name (monitor_object env cs spec) = getHealthMonitoringName env cs" "getHealthMonitoringName env cs \<noteq> []"
  by (simp_all add: monitor_object_def getHealthMonitoringName_def)

lemma generated:
  assumes "generated_check env cs ref hm w = (Inr g, v)" "ps_HealthMonitoring (cs_ProfileSpec cs) = Some hm" "hm_Enabled hm"
  shows "mw_ClusterHealthChecks v = mw_ClusterHealthChecks w \<and> foreign env cs (mw_HealthChecks v) = foreign env cs (mw_HealthChecks w) \<and>
    (case wanted_check env cs ref of None \<Rightarrow> g = [] | Some h \<Rightarrow> g = mo_Name h \<and> g \<noteq> [] \<and> as_wanted env cs (Some h) (mw_HealthChecks v))"
proof (cases "wanted_check env cs ref")
  case None
  then show ?thesis using assms by (auto simp: wanted_check_def generated_check_def split: if_splits option.splits)
next
  case (Some h)
  then have built: "useDefaultHealthChecks hm" "buildMonitoringHealthCheck env cs (own_Kind ref) (own_Name ref) = Some h"
    using assms(2,3) by (simp_all add: wanted_check_def split: if_splits)
  obtain spec where h: "h = monitor_object env cs spec" using built_named [OF built(2)] by blast
  obtain xs where xs: "create_or_update env Kind_HealthCheck h (mw_HealthChecks w) = (None, xs)" "v = w\<lparr>mw_HealthChecks := xs\<rparr>" "g = mo_Name h"
    using assms(1) built
    by (cases "create_or_update env Kind_HealthCheck h (mw_HealthChecks w)")
      (simp add: generated_check_def createOrUpdateMonitoringHealthCheck_def split: option.splits)
  have "mo_Name h = getHealthMonitoringName env cs" using own_name(1) [of env cs spec] by (simp add: h)
  then show ?thesis using written [OF xs(1) h] xs(2,3) own_name(2) [of env cs] by (simp add: Some)
qed

lemma profile_monitors_itself:
  assumes "wanted_cluster_check env cs ref = Some d" "own_Kind ref = ProfileKind"
  shows "map lvc_HealthCheck (chs_LivenessChecks (mo_Spec d)) = [getHealthMonitoringName env cs]"
proof -
  obtain hm where hm: "ps_HealthMonitoring (cs_ProfileSpec cs) = Some hm" using assms(1) by (auto simp: wanted_cluster_check_def split: option.splits)
  have no_list: "getAllowedHealthChecks (own_Kind ref) hm = []" using assms(2) by (simp add: getAllowedHealthChecks_def)
  then obtain h where h: "wanted_check env cs ref = Some h"
    using assms(1) hm by (auto simp: wanted_cluster_check_def split: option.splits if_splits)
  then have "mo_Name h = getHealthMonitoringName env cs"
    using hm built_named [of env cs "own_Kind ref" "own_Name ref" h] own_name(1) [of env cs] by (auto simp: wanted_check_def split: if_splits)
  then have "d = buildMonitoringClusterHealthCheck env cs (getHealthMonitoringName env cs) []"
    using assms(1) hm h no_list by (simp add: wanted_cluster_check_def Let_def split: if_splits)
  then show ?thesis using own_name(2) [of env cs] by (simp add: buildMonitoringClusterHealthCheck_def monitor_object_def getHealthCheckLiveness_def)
qed


section \<open>Witness\<close>

text \<open>A Profile with one managed release, whose name has a quote in it, and a HealthCheck it may not list.\<close>

definition sample_monitor_env :: monitor_env where
  "sample_monitor_env = ownership_env.extend (sample_ownership_env [] [] [])
     (monitor_env.fields id ''reason'' ''return evaluate'' ''v1'' ''v1'' (\<lambda>_. None) (\<lambda>_. None) (\<lambda>_. None))"

definition sample_monitored_cs :: cluster_summary where
  "sample_monitored_cs = (let cs = sample_cs ''web'' [] in
     cs\<lparr>cs_Meta := (cs_Meta cs)\<lparr>om_UID := ''u1'', om_OwnerReferences :=
           [\<lparr>own_APIVersion = [], own_Kind = ProfileKind, own_Name = ''p'', own_UID = []\<rparr>]\<rparr>,
         cs_Spec := (cs_Spec cs)\<lparr>css_ClusterProfileSpec := (cs_ProfileSpec cs)\<lparr>ps_HealthMonitoring :=
           Some \<lparr>hm_Enabled = True, hm_DefaultChecks = None, hm_HealthChecks = [''other'']\<rparr>\<rparr>\<rparr>,
         cs_Status := (cs_Status cs)\<lparr>cst_FeatureSummaries := [(zero_feature_summary FeatureHelm)\<lparr>fs_Status := Some FeatureStatusProvisioned\<rparr>],
           cst_HelmReleaseSummaries := [zero_helm_chart_summary\<lparr>hs_ReleaseName := [CHR 0x22], hs_ReleaseNamespace := ''n'',
             hs_Status := HelmChartStatusManaging\<rparr>]\<rparr>\<rparr>)"

definition sample_monitor_run :: "dep_error option \<times> monitor_world" where
  "sample_monitor_run = reconcileHealthMonitoring sample_monitor_env sample_monitored_cs \<lparr>mw_HealthChecks = [], mw_ClusterHealthChecks = []\<rparr>"


end
