(* ===== verification/Event_Filters.thy ===== *)
theory Event_Filters
  imports Health_Checks Drift_Collection Spec_Hash Cluster_Selection
begin

text \<open>
  Which events wake a controller (controllers/clustersummary_predicates.go, controllers/clusterprofile_predicates.go): the filters of
  the events of ConfigMaps, Secrets, Flux sources, sets and ClusterSummaries; the one on the dependencies of profiles is in
  Dependency_Manager. An update has the old object, which may be nil, and the new one. A map without entries is not transmitted, so
  that for data there is no difference between nil and empty. The lemmas tie the filters to the hashes (Spec_Hash) and to the resets (Helm_Ownership,
  Drift_Collection) they are to notice.
\<close>

section \<open>Comparing maps\<close>

datatype 'o object_event = Create_Event 'o | Update_Event "'o option" 'o | Delete_Event 'o | Generic_Event 'o

text \<open>\<open>reflect.DeepEqual\<close> on two maps, and on two maps that may be nil.\<close>

definition same_map :: "('k \<times> 'v) list \<Rightarrow> ('k \<times> 'v) list \<Rightarrow> bool" where
  "same_map a b = list_all (\<lambda>k. map_of a k = map_of b k) (map fst a @ map fst b)"

definition same_annotations :: "(string \<times> string) list option \<Rightarrow> (string \<times> string) list option \<Rightarrow> bool" where
  "same_annotations a b =
     (case (a, b) of (None, None) \<Rightarrow> True | (Some x, Some y) \<Rightarrow> same_map x y | _ \<Rightarrow> False)"

lemma same_map_iff: "same_map a b \<longleftrightarrow> map_of a = map_of b"
proof
  assume s: "same_map a b"
  show "map_of a = map_of b"
  proof
    fix k
    show "map_of a k = map_of b k"
    proof (cases "k \<in> fst ` set a \<union> fst ` set b")
      case True
      then show ?thesis using s by (auto simp: same_map_def list_all_iff)
    next
      case False
      then have "map_of a k = None" "map_of b k = None" by (auto simp: map_of_eq_None_iff)
      then show ?thesis by simp
    qed
  qed
qed (simp add: same_map_def list_all_iff)

section \<open>ConfigMaps and Secrets\<close>

definition config_map_updated :: "config_map option \<Rightarrow> config_map \<Rightarrow> bool" where
  "config_map_updated oldConfigMap newConfigMap =
     (case oldConfigMap of
        None \<Rightarrow> True
      | Some old \<Rightarrow>
          if \<not> same_map (cfm_Data old) (cfm_Data newConfigMap) then True
          else if \<not> same_annotations (cfm_Annotations old) (cfm_Annotations newConfigMap) then True
          else \<not> same_map (cfm_BinaryData old) (cfm_BinaryData newConfigMap))"

definition ConfigMapPredicates :: "config_map object_event \<Rightarrow> bool" where
  "ConfigMapPredicates e =
     (case e of Update_Event old new \<Rightarrow> config_map_updated old new | Create_Event _ \<Rightarrow> True | Delete_Event _ \<Rightarrow> True | Generic_Event _ \<Rightarrow> False)"

definition secret_updated :: "secret_object option \<Rightarrow> secret_object \<Rightarrow> bool" where
  "secret_updated oldSecret newSecret =
     (case oldSecret of
        None \<Rightarrow> True
      | Some old \<Rightarrow>
          if \<not> same_map (sco_Data old) (sco_Data newSecret) then True
          else \<not> same_annotations (sco_Annotations old) (sco_Annotations newSecret))"

definition SecretPredicates :: "secret_object object_event \<Rightarrow> bool" where
  "SecretPredicates e =
     (case e of Update_Event old new \<Rightarrow> secret_updated old new | Create_Event _ \<Rightarrow> True | Delete_Event _ \<Rightarrow> True | Generic_Event _ \<Rightarrow> False)"

section \<open>Flux sources\<close>

definition isArtifactSame :: "flux_artifact option \<Rightarrow> flux_artifact option \<Rightarrow> bool" where
  "isArtifactSame oldArtifact newArtifact =
     (case (oldArtifact, newArtifact) of
        (None, None) \<Rightarrow> True
      | (Some a, Some b) \<Rightarrow> art_Digest a = art_Digest b
      | _ \<Rightarrow> False)"

definition hasArtifactChanged :: "flux_source \<Rightarrow> flux_source option \<Rightarrow> bool" where
  "hasArtifactChanged objNew objOld =
     (case objOld of None \<Rightarrow> True | Some old \<Rightarrow> \<not> isArtifactSame (fls_Artifact old) (fls_Artifact objNew))"

definition fluxUpdatePredicate :: "flux_source \<Rightarrow> flux_source option \<Rightarrow> bool" where
  "fluxUpdatePredicate objNew objOld = hasArtifactChanged objNew objOld"

text \<open>The predicates of the three kinds are the same.\<close>

definition flux_predicate :: "flux_source object_event \<Rightarrow> bool" where
  "flux_predicate e =
     (case e of Create_Event _ \<Rightarrow> True | Update_Event old new \<Rightarrow> fluxUpdatePredicate new old | Delete_Event _ \<Rightarrow> True
      | Generic_Event _ \<Rightarrow> False)"

section \<open>ClusterSummaries\<close>

definition retriggerAnnotation :: string where
  "retriggerAnnotation = ''projectsveltos.io/retrigger''"

definition isFeatureSummarySame :: "feature_summary option \<Rightarrow> feature_summary option \<Rightarrow> bool" where
  "isFeatureSummarySame oldFS newFS =
     (case (oldFS, newFS) of
        (None, None) \<Rightarrow> True
      | (Some a, Some b) \<Rightarrow> fs_Hash a = fs_Hash b
      | _ \<Rightarrow> False)"

definition same_feature :: "cluster_summary \<Rightarrow> cluster_summary \<Rightarrow> feature_id \<Rightarrow> bool" where
  "same_feature oldCS newCS f = isFeatureSummarySame (getFeatureSummaryForFeatureID oldCS f) (getFeatureSummaryForFeatureID newCS f)"

definition summary_updated :: "cluster_summary option \<Rightarrow> cluster_summary \<Rightarrow> bool" where
  "summary_updated oldClusterSummary newCS =
     (case oldClusterSummary of
        None \<Rightarrow> True
      | Some oldCS \<Rightarrow>
          if om_DeletionTimestamp (cs_Meta oldCS) \<noteq> om_DeletionTimestamp (cs_Meta newCS) then True
          else if list_ex (\<lambda>key. lookup_default [] (om_Annotations (cs_Meta oldCS)) key \<noteq> lookup_default [] (om_Annotations (cs_Meta newCS)) key)
            [retriggerAnnotation, ProfileRedeployAnnotation] then True
          else if cs_Spec oldCS \<noteq> cs_Spec newCS then True
          else if isHealthMonitoringEnabled newCS \<and> healthMonitoringInputsChanged oldCS newCS then True
          else if \<not> same_feature oldCS newCS FeatureHelm then True
          else if \<not> same_feature oldCS newCS FeatureKustomize then True
          else \<not> same_feature oldCS newCS FeatureResources)"

definition ClusterSummaryPredicate :: "cluster_summary object_event \<Rightarrow> bool" where
  "ClusterSummaryPredicate e =
     (case e of Create_Event _ \<Rightarrow> True | Update_Event old new \<Rightarrow> summary_updated old new | Delete_Event _ \<Rightarrow> True | Generic_Event _ \<Rightarrow> False)"

section \<open>Sets\<close>

text \<open>The status of both kinds of sets is there for every object, so that only the selection counts.\<close>

definition SetPredicates :: "Cluster_Selection.set_status object_event \<Rightarrow> bool" where
  "SetPredicates e =
     (case e of
        Update_Event old new \<Rightarrow> (case old of None \<Rightarrow> True | Some s \<Rightarrow> sst_SelectedClusterRefs s \<noteq> sst_SelectedClusterRefs new)
      | Create_Event _ \<Rightarrow> False
      | Delete_Event _ \<Rightarrow> True
      | Generic_Event _ \<Rightarrow> False)"

section \<open>Changes that are noticed\<close>

lemma data_hash_same:
  assumes "map_of a = map_of b" "distinct (map fst a)" "distinct (map fst b)"
  shows "getDataSectionHash env a = getDataSectionHash env b"
proof -
  have "mset (map fst a) = mset (map fst b)"
    using assms by (metis dom_map_of_conv_image_fst list.set_map set_eq_iff_mset_eq_distinct)
  then have "getSortedKeys a = getSortedKeys b" by (simp add: getSortedKeys_def sorted_list_of_multiset_mset [symmetric] del: sorted_list_of_multiset_mset)
  moreover have "lookup_default [] a = lookup_default [] b" by (rule ext) (simp add: lookup_default_def assms(1))
  ultimately show ?thesis by (simp add: getDataSectionHash_def values_in_order_def)
qed

definition map_ok :: "('k \<times> 'v) list \<Rightarrow> bool" where
  "map_ok al \<longleftrightarrow> distinct (map fst al)"

lemma annotations_hash_same:
  assumes "same_annotations a b" "map_ok (slice a)" "map_ok (slice b)"
  shows "annotations_hash env a = annotations_hash env b"
  using assms by (auto simp: same_annotations_def annotations_hash_def same_map_iff map_ok_def intro: data_hash_same split: option.splits)

lemma config_map_quiet:
  assumes "\<not> config_map_updated (Some a) b" "list_all map_ok [cfm_Data a, cfm_Data b, slice (cfm_Annotations a), slice (cfm_Annotations b)]"
    and "map_ok (cfm_BinaryData a)" "map_ok (cfm_BinaryData b)"
  shows "getConfigMapHash env a = getConfigMapHash env b"
proof -
  have same: "map_of (cfm_Data a) = map_of (cfm_Data b)" "same_annotations (cfm_Annotations a) (cfm_Annotations b)"
    "map_of (cfm_BinaryData a) = map_of (cfm_BinaryData b)"
    using assms(1) by (auto simp: config_map_updated_def same_map_iff split: if_splits)
  have "getDataSectionHash env (cfm_Data a) = getDataSectionHash env (cfm_Data b)"
    using data_hash_same [OF same(1)] assms(2) by (simp add: map_ok_def)
  moreover have "getDataSectionHash env (cfm_BinaryData a) = getDataSectionHash env (cfm_BinaryData b)"
    using data_hash_same [OF same(3)] assms(3,4) by (simp add: map_ok_def)
  moreover have "annotations_hash env (cfm_Annotations a) = annotations_hash env (cfm_Annotations b)"
    using annotations_hash_same [OF same(2)] assms(2) by simp
  ultimately show ?thesis by (simp add: getConfigMapHash_def)
qed

lemma secret_quiet:
  assumes "\<not> secret_updated (Some a) b" "list_all map_ok [slice (sco_Annotations a), slice (sco_Annotations b)]"
    and "map_ok (sco_Data a)" "map_ok (sco_Data b)" "sco_StringData a = sco_StringData b"
  shows "getSecretHash env a = getSecretHash env b"
proof -
  have same: "map_of (sco_Data a) = map_of (sco_Data b)" "same_annotations (sco_Annotations a) (sco_Annotations b)"
    using assms(1) by (auto simp: secret_updated_def same_map_iff split: if_splits)
  have "getDataSectionHash env (sco_Data a) = getDataSectionHash env (sco_Data b)"
    using data_hash_same [OF same(1)] assms(3,4) by (simp add: map_ok_def)
  moreover have "annotations_hash env (sco_Annotations a) = annotations_hash env (sco_Annotations b)"
    using annotations_hash_same [OF same(2)] assms(2) by simp
  ultimately show ?thesis by (simp add: getSecretHash_def assms(5))
qed

text \<open>
  No change of a ConfigMap or a Secret that a feature hash depends on is filtered out: if the hash of the object differs, the update
  passes the filter and the ClusterSummaries that refer to the object are reconciled.
\<close>

theorem content_change_wakes:
  assumes "list_all map_ok [cfm_Data cm, cfm_Data cm', slice (cfm_Annotations cm), slice (cfm_Annotations cm'),
      slice (sco_Annotations s), slice (sco_Annotations s')]"
    and "map_ok (cfm_BinaryData cm)" "map_ok (cfm_BinaryData cm')" "map_ok (sco_Data s)" "map_ok (sco_Data s')"
    and "sco_StringData s = sco_StringData s'"
  shows "(getConfigMapHash env cm \<noteq> getConfigMapHash env cm' \<longrightarrow> ConfigMapPredicates (Update_Event (Some cm) cm')) \<and>
    (getSecretHash env s \<noteq> getSecretHash env s' \<longrightarrow> SecretPredicates (Update_Event (Some s) s'))"
  using config_map_quiet [of cm cm' env] secret_quiet [of s s' env] assms
  by (auto simp: ConfigMapPredicates_def SecretPredicates_def)

text \<open>The filter of Flux sources looks at the digest only, although the hash of a feature has the annotations of the source.\<close>

lemma flux_annotation_unnoticed: "\<not> flux_predicate (Update_Event (Some s) (s\<lparr>fls_Annotations := a\<rparr>))"
  by (cases "fls_Artifact s") (auto simp: flux_predicate_def fluxUpdatePredicate_def hasArtifactChanged_def isArtifactSame_def)

section \<open>Resets that are noticed\<close>

lemma reset_passes: "\<not> same_feature old new f \<Longrightarrow> ClusterSummaryPredicate (Update_Event (Some old) new)"
  by (cases f) (auto simp: ClusterSummaryPredicate_def summary_updated_def)

lemma find_drifted:
  assumes "List.find (\<lambda>s. fs_FeatureID s = f) xs = Some s" "feature_drifted rs f"
  shows "\<exists>t. List.find (\<lambda>s. fs_FeatureID s = f) (map (drifted_summary env rs) xs) = Some t \<and> fs_Hash t = None"
  using assms by (induction xs) (auto simp: drifted_summary_def split: if_splits)

lemma drift_passes:
  assumes "f \<in> set (drifted_features rs cs)" "\<And>s. getFeatureSummaryForFeatureID cs f = Some s \<Longrightarrow> fs_Hash s \<noteq> None"
  shows "\<not> same_feature cs (with_drift env rs cs) f"
proof -
  have d: "feature_drifted rs f" and f: "f \<in> fs_FeatureID ` set (cs_FeatureSummaries cs)" using assms(1) by (auto simp: drifted_features_def)
  then obtain s where s: "getFeatureSummaryForFeatureID cs f = Some s"
    by (cases "getFeatureSummaryForFeatureID cs f") (auto simp: getFeatureSummaryForFeatureID_def find_None_iff)
  obtain t where "getFeatureSummaryForFeatureID (with_drift env rs cs) f = Some t" "fs_Hash t = None"
    using find_drifted [OF s [unfolded getFeatureSummaryForFeatureID_def] d, of env]
    by (auto simp: getFeatureSummaryForFeatureID_def with_drift_def Let_def)
  then show ?thesis using s assms(2) by (auto simp: same_feature_def isFeatureSummarySame_def)
qed

lemma reset_changes:
  assumes "\<And>s. getFeatureSummaryForFeatureID cs f = Some s \<Longrightarrow> fs_Hash s \<noteq> None"
    and "cs_Status c = cs_Status (SetFeatureStatus f st None failed cs)"
  shows "\<not> same_feature cs c f"
proof -
  have "getFeatureSummaryForFeatureID c f = getFeatureSummaryForFeatureID (SetFeatureStatus f st None failed cs) f"
    using assms(2) by (simp add: getFeatureSummaryForFeatureID_def)
  then show ?thesis
    using assms(1) by (auto simp: same_feature_def isFeatureSummarySame_def getFeatureSummary_SetFeatureStatus split: option.splits)
qed

text \<open>
  C39. A reset wakes the ClusterSummary it resets. When a resource is taken over and the former owner is requeued, and when a drift is
  recorded, the stored ClusterSummary differs from the old one so that the update passes the filter, as long as the feature was
  settled, that is had a hash.
\<close>

theorem reset_wakes_summary:
  assumes settled: "\<And>s. getFeatureSummaryForFeatureID cs f = Some s \<Longrightarrow> fs_Hash s \<noteq> None"
    and only: "list_all (\<lambda>x. request_of x = request_of cs \<longrightarrow> x = cs) (hw_Store w)"
    and run: "requeueClusterSummary env f cs w = (None, w')" and c: "c \<in> set (hw_Store w')" "request_of c = request_of cs"
  shows "ClusterSummaryPredicate (Update_Event (Some cs) c) \<and>
    (f \<in> set (drifted_features rs cs) \<longrightarrow> ClusterSummaryPredicate (Update_Event (Some cs) (with_drift denv rs cs)))"
proof -
  have "cs_Status c = cs_Status (SetFeatureStatus f FeatureStatusProvisioning None None cs)"
    using run c only
    by (auto simp: requeueClusterSummary_def Let_def update_status_def store_status_def helm_op_def list_all_iff request_of_def
        split: if_splits option.splits)
  then have "\<not> same_feature cs c f" using reset_changes [OF settled] by blast
  then show ?thesis using reset_passes drift_passes [OF _ settled] by blast
qed

section \<open>Witnesses\<close>

definition sample_content :: "string \<Rightarrow> config_map" where
  "sample_content v = \<lparr>cfm_Name = ''cm'', cfm_Annotations = None, cfm_Data = [(''k'', v)], cfm_BinaryData = []\<rparr>"

definition sample_secret_content :: "string \<Rightarrow> secret_object" where
  "sample_secret_content v = \<lparr>sco_Name = ''s'', sco_Annotations = None, sco_Type = [], sco_Data = [(''k'', v)], sco_StringData = []\<rparr>"

theorem content_change_wakes_witness:
  "ConfigMapPredicates (Update_Event (Some (sample_content ''old'')) (sample_content ''new''))"
proof -
  have "getConfigMapHash sample_refs_env (sample_content ''old'') \<noteq> getConfigMapHash sample_refs_env (sample_content ''new'')" by code_simp
  then show ?thesis
    using content_change_wakes [of "sample_content ''old''" "sample_content ''new''" "sample_secret_content ''old''"
        "sample_secret_content ''new''" sample_refs_env]
    by (simp add: sample_content_def sample_secret_content_def map_ok_def)
qed

definition sample_settled :: cluster_summary where
  "sample_settled = (let cs = sample_cs ''web'' [] in
     cs\<lparr>cs_Status := (cs_Status cs)\<lparr>cst_FeatureSummaries := [(zero_feature_summary FeatureHelm)\<lparr>fs_Hash := Some ''h''\<rparr>]\<rparr>\<rparr>)"

theorem reset_wakes_summary_witness:
  "list_all (\<lambda>c. ClusterSummaryPredicate (Update_Event (Some sample_settled) c))
     (hw_Store (snd (requeueClusterSummary (sample_ownership_env [] [] []) FeatureHelm sample_settled (sample_world [sample_settled]))))"
proof -
  let ?run = "requeueClusterSummary (sample_ownership_env [] [] []) FeatureHelm sample_settled (sample_world [sample_settled])"
  have "fst ?run = None" by code_simp
  then have run: "?run = (None, snd ?run)" by (metis prod.collapse)
  have settled: "fs_Hash s \<noteq> None" if "getFeatureSummaryForFeatureID sample_settled FeatureHelm = Some s" for s
    using that by (auto simp: sample_settled_def sample_cs_def getFeatureSummaryForFeatureID_def)
  have only: "list_all (\<lambda>x. request_of x = request_of sample_settled \<longrightarrow> x = sample_settled) (hw_Store (sample_world [sample_settled]))"
    by (simp add: sample_world_def)
  have same: "list_all (\<lambda>c. request_of c = request_of sample_settled) (hw_Store (snd ?run))" by code_simp
  show ?thesis
    using reset_wakes_summary [OF settled only run] same by (auto simp: list_all_iff)
qed

end
