(* ===== verification/Set_Controllers.thy ===== *)
theory Set_Controllers
  imports Profile_Controller
begin

text \<open>
  The controllers of Set and ClusterSet (controllers/set_controller.go, clusterset_controller.go, set_transformations.go,
  clusterset_transformations.go and pkg/scope/set.go): which clusters a set matches and selects, and the maps that wake it up.

  The maps have the shape of those of the profile controllers: \<open>pc_ClusterMap\<close> has the sets that match a cluster,
  \<open>pc_Profiles\<close> the selector of each set, and \<open>pc_SetMap\<close>, the other way round, the clusters each set matches. The two
  controllers differ in the kind and in the namespace they look in.
\<close>

section \<open>State and environment\<close>

record set_object =
  sob_Meta :: object_meta
  sob_ClusterSelector :: serialized
  sob_ClusterRefs :: "object_reference list"
  sob_MaxReplicas :: nat
  sob_Status :: set_status

record 's set_world =
  swd_Maps :: "'s profile_reconciler"
  swd_Store :: "set_object list"

record set_env =
  se_Profile :: profile_env
  se_Connection :: connection_lookup

datatype set_controller = Set_Controller | ClusterSet_Controller

definition set_request :: "set_object \<Rightarrow> request" where
  "set_request s = (om_Namespace (sob_Meta s), om_Name (sob_Meta s))"

definition set_kind :: "set_controller \<Rightarrow> profile_env \<Rightarrow> string" where
  "set_kind ctl env = (case ctl of Set_Controller \<Rightarrow> pe_SetKind env | ClusterSet_Controller \<Rightarrow> pe_ClusterSetKind env)"

definition set_key :: "set_controller \<Rightarrow> set_env \<Rightarrow> request \<Rightarrow> object_reference" where
  "set_key ctl env req = set_info (se_Profile env) (set_kind ctl (se_Profile env)) (fst req) (snd req)"

definition set_limitReferencesToNamespace :: "set_object \<Rightarrow> set_object" where
  "set_limitReferencesToNamespace s =
     s\<lparr>sob_ClusterRefs := map (\<lambda>c. c\<lparr>ref_Namespace := om_Namespace (sob_Meta s)\<rparr>) (sob_ClusterRefs s)\<rparr>"

definition setMatchingClusterRefs :: "object_reference list \<Rightarrow> set_object \<Rightarrow> set_object" where
  "setMatchingClusterRefs matchingClusters s = s\<lparr>sob_Status := (sob_Status s)\<lparr>sst_MatchingClusterRefs := matchingClusters\<rparr>\<rparr>"

section \<open>Maps\<close>

definition getCurrentClusterSet :: "'s set_ops \<Rightarrow> object_reference list \<Rightarrow> 's" where
  "getCurrentClusterSet ops matchingClusterRefs = fold (so_insert ops) matchingClusterRefs (so_empty ops)"

definition drop_consumer :: "'s set_ops \<Rightarrow> object_reference \<Rightarrow> object_reference \<Rightarrow> (object_reference \<times> 's) list \<Rightarrow>
    (object_reference \<times> 's) list" where
  "drop_consumer ops consumer entry m =
     (let r = getConsumersForEntry ops m entry in AList.update entry (so_erase ops consumer (fst r)) (snd r))"

definition set_cleanMaps :: "'s set_ops \<Rightarrow> object_reference \<Rightarrow> 's profile_reconciler \<Rightarrow> 's profile_reconciler" where
  "set_cleanMaps ops setInfo r =
     r\<lparr>pc_SetMap := AList.delete setInfo (pc_SetMap r), pc_Profiles := AList.delete setInfo (pc_Profiles r),
       pc_ClusterMap := map (\<lambda>(k, s). (k, so_erase ops setInfo s)) (pc_ClusterMap r)\<rparr>"

definition set_updateMaps :: "'s set_ops \<Rightarrow> object_reference \<Rightarrow> set_object \<Rightarrow> 's profile_reconciler \<Rightarrow> 's profile_reconciler" where
  "set_updateMaps ops setInfo s r =
     (let matching = sst_MatchingClusterRefs (sob_Status s);
          currentClusters = getCurrentClusterSet ops matching;
          toBeRemoved = (case map_of (pc_SetMap r) setInfo of None \<Rightarrow> [] | Some v \<Rightarrow> so_difference ops v currentClusters)
      in r\<lparr>pc_ClusterMap := fold (drop_consumer ops setInfo) toBeRemoved
             (fold (insert_consumer ops setInfo) matching (pc_ClusterMap r)),
           pc_SetMap := AList.update setInfo currentClusters (pc_SetMap r),
           pc_Profiles := AList.update setInfo (sob_ClusterSelector s) (pc_Profiles r)\<rparr>)"

definition requeueSetForCluster :: "'s set_ops \<Rightarrow> to_selector \<Rightarrow> object_reference \<Rightarrow> (string \<times> string) list \<Rightarrow> 's set_world \<Rightarrow>
    request list \<times> 's set_world" where
  "requeueSetForCluster ops toSelector cluster labels w =
     (case requeueForCluster ops toSelector cluster labels (swd_Maps w) of (reqs, r) \<Rightarrow> (reqs, w\<lparr>swd_Maps := r\<rparr>))"

section \<open>Reconciling\<close>

definition set_reconcileNormal :: "'s set_ops \<Rightarrow> set_controller \<Rightarrow> set_env \<Rightarrow> set_object \<Rightarrow> 's set_world \<Rightarrow>
    set_object \<times> time \<times> 's set_world" where
  "set_reconcileNormal ops ctl env s w =
     (let namespace = (case ctl of Set_Controller \<Rightarrow> om_Namespace (sob_Meta s) | ClusterSet_Controller \<Rightarrow> []) in
      case getMatchingClusters (se_Profile env) namespace (sob_ClusterSelector s) (sob_ClusterRefs s) of
        Inl _ \<Rightarrow> (s, normalRequeueAfter, w)
      | Inr matchingCluster \<Rightarrow>
          (let s = setMatchingClusterRefs matchingCluster s in
           case selectClusters (se_Connection env) (sob_MaxReplicas s) (sob_Status s) of
             (Some _, st) \<Rightarrow> (s\<lparr>sob_Status := st\<rparr>, normalRequeueAfter, w)
           | (None, st) \<Rightarrow>
               (let s = s\<lparr>sob_Status := st\<rparr> in
                (s, 0, w\<lparr>swd_Maps := set_updateMaps ops (set_key ctl env (set_request s)) s (swd_Maps w)\<rparr>))))"

definition set_reconcileDelete :: "'s set_ops \<Rightarrow> set_controller \<Rightarrow> set_env \<Rightarrow> set_object \<Rightarrow> 's set_world \<Rightarrow> 's set_world" where
  "set_reconcileDelete ops ctl env s w = w\<lparr>swd_Maps := set_cleanMaps ops (set_key ctl env (set_request s)) (swd_Maps w)\<rparr>"

text \<open>\<open>Close\<close> patches what changed since the scope was made, which is the status: a Set is limited to its namespace before.\<close>

definition close_set :: "set_env \<Rightarrow> set_object \<times> time \<times> 's set_world \<Rightarrow> time \<times> string option \<times> 's set_world" where
  "close_set env r =
     (case r of (s, wait, w) \<Rightarrow>
        (case pe_Patch (se_Profile env) 0 of
           Some e \<Rightarrow> (wait, Some e, w)
         | None \<Rightarrow> (wait, None, w\<lparr>swd_Store :=
             map (\<lambda>x. if set_request x = set_request s then x\<lparr>sob_Status := sob_Status s\<rparr> else x) (swd_Store w)\<rparr>)))"

definition set_Reconcile :: "'s set_ops \<Rightarrow> set_controller \<Rightarrow> set_env \<Rightarrow> request \<Rightarrow> 's set_world \<Rightarrow> time \<times> string option \<times> 's set_world" where
  "set_Reconcile ops ctl env req w =
     (case (case pe_Get (se_Profile env) of
              Some err \<Rightarrow> Inl err
            | None \<Rightarrow> (case List.find (\<lambda>s. set_request s = req) (swd_Store w) of None \<Rightarrow> Inl ApiNotFound | Some s \<Rightarrow> Inr s)) of
        Inl ApiNotFound \<Rightarrow> (0, None, w)
      | Inl err \<Rightarrow> (0, Some (err_text err), w)
      | Inr s \<Rightarrow>
          (let s = (case ctl of Set_Controller \<Rightarrow> set_limitReferencesToNamespace s | ClusterSet_Controller \<Rightarrow> s) in
           case pe_Scope (se_Profile env) of
             Some err \<Rightarrow> (0, Some err, w)
           | None \<Rightarrow> close_set env
               (if om_DeletionTimestamp (sob_Meta s) \<noteq> None then (s, 0, set_reconcileDelete ops ctl env s w)
                else set_reconcileNormal ops ctl env s w)))"

section \<open>Runs of a controller\<close>

text \<open>What happens to a controller: a reconciliation, an event of a cluster, and any change of the stored sets by others.\<close>

datatype set_event =
    Reconcile_Set set_env request
  | Cluster_Changed to_selector object_reference "(string \<times> string) list"
  | Sets_Changed "set_object list"

definition set_step :: "'s set_ops \<Rightarrow> set_controller \<Rightarrow> set_event \<Rightarrow> 's set_world \<Rightarrow> 's set_world" where
  "set_step ops ctl e w =
     (case e of
        Reconcile_Set env req \<Rightarrow> snd (snd (set_Reconcile ops ctl env req w))
      | Cluster_Changed sel cluster labels \<Rightarrow> snd (requeueSetForCluster ops sel cluster labels w)
      | Sets_Changed xs \<Rightarrow> w\<lparr>swd_Store := xs\<rparr>)"

definition new_set_world :: "'s set_world" where
  "new_set_world = \<lparr>swd_Maps = \<lparr>pc_SetMap = [], pc_ClusterMap = [], pc_Profiles = [], pc_ClusterLabels = []\<rparr>, swd_Store = []\<rparr>"

definition set_run :: "'s set_ops \<Rightarrow> set_controller \<Rightarrow> set_event list \<Rightarrow> 's set_world" where
  "set_run ops ctl events = fold (set_step ops ctl) events new_set_world"

section \<open>The maps agree\<close>

definition tracked :: "'s set_ops \<Rightarrow> 's set_world \<Rightarrow> object_reference \<Rightarrow> object_reference set" where
  "tracked ops w k = consumers ops (pc_SetMap (swd_Maps w)) k"

definition set_maps_inv :: "'s set_ops \<Rightarrow> 's profile_reconciler \<Rightarrow> bool" where
  "set_maps_inv ops r \<longleftrightarrow> (\<forall>c k. k \<in> consumers ops (pc_ClusterMap r) c \<longleftrightarrow> c \<in> consumers ops (pc_SetMap r) k) \<and>
     distinct (map fst (pc_Profiles r))"

lemma lookup_update: "lookup_default d (AList.update k v m) x = (if x = k then v else lookup_default d m x)"
  by (simp add: lookup_default_def update_conv')

lemma stored_status:
  "List.find (\<lambda>s. set_request s = req) xs = Some s \<Longrightarrow>
    map_option sob_Status (List.find (\<lambda>s. set_request s = req)
      (map (\<lambda>x. if set_request x = req then x\<lparr>sob_Status := st\<rparr> else x) xs)) = Some st"
  by (induction xs) (auto simp: set_request_def)

lemma keys_filtered: "distinct (map fst xs) \<Longrightarrow> fst ` set (filter (\<lambda>(k, s). P s) xs) = {k. \<exists>s. map_of xs k = Some s \<and> P s}"
  by (auto simp: image_iff dest: map_of_SomeD intro: map_of_is_SomeI)

context object_set
begin

lemma current_cluster_set: "elems (getCurrentClusterSet ops cs) = set cs"
  by (simp add: getCurrentClusterSet_def elems_fold_insert)

lemma consumers_update: "consumers ops (AList.update k v m) x = (if x = k then elems v else consumers ops m x)"
  by (simp add: consumers_def lookup_update)

lemma consumers_drop:
  "consumers ops (drop_consumer ops c entry m) k = consumers ops m k - (if k = entry then {c} else {})"
  by (simp add: drop_consumer_def Let_def getConsumersForEntry_def map_for_entry_lookup consumers_def lookup_update)

lemma consumers_fold_drop:
  "consumers ops (fold (drop_consumer ops c) entries m) k = consumers ops m k - (if k \<in> set entries then {c} else {})"
  by (induction entries arbitrary: m) (auto simp: consumers_drop)

lemma removed_clusters:
  "set (case map_of m k of None \<Rightarrow> [] | Some v \<Rightarrow> so_difference ops v t) = consumers ops m k - elems t"
  by (simp add: consumers_def lookup_default_def set_diff_eq split: option.split)

lemma update_maps_exact:
  "consumers ops (pc_SetMap (set_updateMaps ops i s r)) k =
     (if k = i then set (sst_MatchingClusterRefs (sob_Status s)) else consumers ops (pc_SetMap r) k)"
  "consumers ops (pc_ClusterMap (set_updateMaps ops i s r)) c =
     (if c \<in> set (sst_MatchingClusterRefs (sob_Status s)) then insert i (consumers ops (pc_ClusterMap r) c)
      else if c \<in> consumers ops (pc_SetMap r) i then consumers ops (pc_ClusterMap r) c - {i}
      else consumers ops (pc_ClusterMap r) c)"
  by (auto simp: set_updateMaps_def Let_def consumers_update current_cluster_set consumers_fold_drop consumers_fold_insert
      removed_clusters)

lemma clean_set_exact:
  "consumers ops (pc_SetMap (set_cleanMaps ops i r)) k = (if k = i then {} else consumers ops (pc_SetMap r) k)"
  "consumers ops (pc_ClusterMap (set_cleanMaps ops i r)) c = consumers ops (pc_ClusterMap r) c - {i}"
  by (simp_all add: set_cleanMaps_def consumers_clean) (simp add: consumers_def lookup_default_def delete_conv')

lemma set_maps_inv_update: "set_maps_inv ops r \<Longrightarrow> set_maps_inv ops (set_updateMaps ops i s r)"
  unfolding set_maps_inv_def update_maps_exact
  by (auto simp: set_updateMaps_def Let_def distinct_update)

lemma set_maps_inv_clean: "set_maps_inv ops r \<Longrightarrow> set_maps_inv ops (set_cleanMaps ops i r)"
  unfolding set_maps_inv_def clean_set_exact
  by (auto simp: set_cleanMaps_def distinct_delete)

lemma requeue_consumers:
  "consumers ops (pc_ClusterMap (snd (requeueForCluster ops sel c lbls r))) k = consumers ops (pc_ClusterMap r) k"
  "pc_SetMap (snd (requeueForCluster ops sel c lbls r)) = pc_SetMap r"
  "pc_Profiles (snd (requeueForCluster ops sel c lbls r)) = pc_Profiles r"
  by (simp_all add: requeueForCluster_def Let_def getConsumersForEntry_def consumers_def map_for_entry_lookup)

lemma set_maps_inv_requeue: "set_maps_inv ops r \<Longrightarrow> set_maps_inv ops (snd (requeueForCluster ops sel c lbls r))"
  by (simp add: set_maps_inv_def requeue_consumers)

lemma set_normal_inv:
  "set_maps_inv ops (swd_Maps w) \<Longrightarrow> set_maps_inv ops (swd_Maps (snd (snd (set_reconcileNormal ops ctl env s w))))"
  by (auto simp: set_reconcileNormal_def Let_def set_maps_inv_update split: sum.split option.split prod.split)

lemma close_set_maps: "swd_Maps (snd (snd (close_set env r))) = swd_Maps (snd (snd r))"
  by (cases r) (simp add: close_set_def split: option.split)

lemma set_Reconcile_inv:
  assumes "set_maps_inv ops (swd_Maps w)"
  shows "set_maps_inv ops (swd_Maps (snd (snd (set_Reconcile ops ctl env req w))))"
proof -
  have "set_maps_inv ops (swd_Maps (set_reconcileDelete ops ctl env s w))" for s
    using assms by (simp add: set_reconcileDelete_def set_maps_inv_clean)
  then show ?thesis
    using assms unfolding set_Reconcile_def Let_def
    by (simp add: close_set_maps set_normal_inv split: sum.split option.split api_error.split)
qed

lemma set_step_inv: "set_maps_inv ops (swd_Maps w) \<Longrightarrow> set_maps_inv ops (swd_Maps (set_step ops ctl e w))"
  by (cases e) (simp_all add: set_step_def set_Reconcile_inv requeueSetForCluster_def set_maps_inv_requeue case_prod_unfold)

lemma set_run_inv: "set_maps_inv ops (swd_Maps (set_run ops ctl events))"
proof -
  have start: "set_maps_inv ops (swd_Maps (new_set_world :: 's set_world))"
    by (simp add: set_maps_inv_def new_set_world_def consumers_def lookup_default_def)
  have "set_maps_inv ops (swd_Maps w) \<Longrightarrow> set_maps_inv ops (swd_Maps (fold (set_step ops ctl) es w))" for es w
    by (induction es arbitrary: w) (simp_all add: set_step_inv)
  then show ?thesis using start by (simp add: set_run_def)
qed

lemma requests_by_maps:
  assumes "set_maps_inv ops (swd_Maps w)"
  shows "set (fst (requeueSetForCluster ops sel c lbls w)) = (\<lambda>k. (ref_Namespace k, ref_Name k)) `
    {k. c \<in> tracked ops w k \<or> (\<exists>s m. map_of (pc_Profiles (swd_Maps w)) k = Some s \<and> sel s = Some m \<and> snd m lbls)}"
proof -
  let ?r = "swd_Maps w"
  let ?name = "\<lambda>k. (ref_Namespace k, ref_Name k)"
  have "set (consumer_requests ops (fst (getConsumersForEntry ops (pc_ClusterMap ?r) c))) = ?name ` consumers ops (pc_ClusterMap ?r) c"
    by (simp add: consumer_requests_def getConsumersForEntry_def map_for_entry_lookup consumers_def)
  moreover have "consumers ops (pc_ClusterMap ?r) c = {k. c \<in> tracked ops w k}"
    using assms by (auto simp: set_maps_inv_def tracked_def)
  moreover have "fst ` set (filter (\<lambda>(k, s). case sel s of None \<Rightarrow> False | Some (_, matches) \<Rightarrow> matches lbls) (pc_Profiles ?r)) =
      {k. \<exists>s m. map_of (pc_Profiles ?r) k = Some s \<and> sel s = Some m \<and> snd m lbls}" (is "fst ` set ?now = ?N")
  proof -
    have P: "(case sel s of None \<Rightarrow> False | Some (_, matches) \<Rightarrow> matches lbls) \<longleftrightarrow> (\<exists>m. sel s = Some m \<and> snd m lbls)" for s
      by (auto split: option.split)
    have "distinct (map fst (pc_Profiles ?r))" using assms by (simp add: set_maps_inv_def)
    from keys_filtered [OF this, of "\<lambda>s. case sel s of None \<Rightarrow> False | Some (_, matches) \<Rightarrow> matches lbls"]
    show ?thesis unfolding P by simp
  qed
  moreover have "set (fst (requeueSetForCluster ops sel c lbls w)) =
      set (consumer_requests ops (fst (getConsumersForEntry ops (pc_ClusterMap ?r) c))) \<union> ?name ` (fst ` set ?now)"
    by (simp add: requeueSetForCluster_def requeueForCluster_def Let_def case_prod_unfold image_image)
  ultimately have "set (fst (requeueSetForCluster ops sel c lbls w)) = ?name ` {k. c \<in> tracked ops w k} \<union> ?name ` ?N"
    by simp
  also have "\<dots> = ?name ` {k. c \<in> tracked ops w k \<or> k \<in> ?N}" by blast
  finally show ?thesis by simp
qed


lemma normal_done:
  assumes "set_reconcileNormal ops ctl env s w = (t, 0, v)"
  shows "\<exists>m st. getMatchingClusters (se_Profile env)
        (case ctl of Set_Controller \<Rightarrow> om_Namespace (sob_Meta s) | ClusterSet_Controller \<Rightarrow> [])
        (sob_ClusterSelector s) (sob_ClusterRefs s) = Inr m \<and>
      selectClusters (se_Connection env) (sob_MaxReplicas s) ((sob_Status s)\<lparr>sst_MatchingClusterRefs := m\<rparr>) = (None, st) \<and>
      t = s\<lparr>sob_Status := st\<rparr> \<and> v = w\<lparr>swd_Maps := set_updateMaps ops (set_key ctl env (set_request s)) t (swd_Maps w)\<rparr>"
proof (cases "getMatchingClusters (se_Profile env)
    (case ctl of Set_Controller \<Rightarrow> om_Namespace (sob_Meta s) | ClusterSet_Controller \<Rightarrow> []) (sob_ClusterSelector s) (sob_ClusterRefs s)")
  case (Inl e)
  with assms show ?thesis by (simp add: set_reconcileNormal_def normalRequeueAfter_def)
next
  case (Inr m)
  with assms show ?thesis
    by (cases "selectClusters (se_Connection env) (sob_MaxReplicas s) ((sob_Status s)\<lparr>sst_MatchingClusterRefs := m\<rparr>)")
      (auto simp: set_reconcileNormal_def Let_def setMatchingClusterRefs_def normalRequeueAfter_def set_request_def split: option.splits)
qed

lemma pass_maps:
  assumes run: "set_Reconcile ops ctl env req w = (0, None, w')" and get: "pe_Get (se_Profile env) = None"
    and found: "List.find (\<lambda>s. set_request s = req) (swd_Store w) = Some s" and live: "om_DeletionTimestamp (sob_Meta s) = None"
  shows "\<exists>m st. getMatchingClusters (se_Profile env) (case ctl of Set_Controller \<Rightarrow> fst req | ClusterSet_Controller \<Rightarrow> [])
        (sob_ClusterSelector s) (case ctl of Set_Controller \<Rightarrow> map (\<lambda>c. c\<lparr>ref_Namespace := fst req\<rparr>) (sob_ClusterRefs s)
          | ClusterSet_Controller \<Rightarrow> sob_ClusterRefs s) = Inr m \<and>
      selectClusters (se_Connection env) (sob_MaxReplicas s) ((sob_Status s)\<lparr>sst_MatchingClusterRefs := m\<rparr>) = (None, st) \<and>
      tracked ops w' = (tracked ops w)(set_key ctl env req := set (sst_MatchingClusterRefs st)) \<and>
      map_of (pc_Profiles (swd_Maps w')) = (map_of (pc_Profiles (swd_Maps w)))(set_key ctl env req \<mapsto> sob_ClusterSelector s) \<and>
      map_option sob_Status (List.find (\<lambda>s. set_request s = req) (swd_Store w')) = Some st"
proof -
  have req: "set_request s = req" "om_Namespace (sob_Meta s) = fst req" using found by (auto simp: find_Some_iff set_request_def)
  let ?s = "case ctl of Set_Controller \<Rightarrow> set_limitReferencesToNamespace s | ClusterSet_Controller \<Rightarrow> s"
  have s: "sob_Meta ?s = sob_Meta s" "sob_MaxReplicas ?s = sob_MaxReplicas s" "sob_ClusterSelector ?s = sob_ClusterSelector s"
    "sob_Status ?s = sob_Status s" "set_request ?s = req"
    "sob_ClusterRefs ?s = (case ctl of Set_Controller \<Rightarrow> map (\<lambda>c. c\<lparr>ref_Namespace := fst req\<rparr>) (sob_ClusterRefs s)
       | ClusterSet_Controller \<Rightarrow> sob_ClusterRefs s)"
    using req by (cases ctl; simp add: set_limitReferencesToNamespace_def set_request_def)+
  have closed: "close_set env (set_reconcileNormal ops ctl env ?s w) = (0, None, w')"
    using run get found live s(1) by (simp add: set_Reconcile_def Let_def split: option.splits)
  then obtain t v where normal: "set_reconcileNormal ops ctl env ?s w = (t, 0, v)"
    and w': "w' = v\<lparr>swd_Store := map (\<lambda>x. if set_request x = set_request t then x\<lparr>sob_Status := sob_Status t\<rparr> else x) (swd_Store v)\<rparr>"
    by (auto simp: close_set_def split: prod.splits option.splits)
  obtain m st where m: "getMatchingClusters (se_Profile env) (case ctl of Set_Controller \<Rightarrow> fst req | ClusterSet_Controller \<Rightarrow> [])
        (sob_ClusterSelector s) (sob_ClusterRefs ?s) = Inr m"
      "selectClusters (se_Connection env) (sob_MaxReplicas s) ((sob_Status s)\<lparr>sst_MatchingClusterRefs := m\<rparr>) = (None, st)"
    and tv: "t = ?s\<lparr>sob_Status := st\<rparr>" "v = w\<lparr>swd_Maps := set_updateMaps ops (set_key ctl env req) t (swd_Maps w)\<rparr>"
    using normal_done [OF normal] unfolding s(1-5) req(2) by blast
  have "set_request t = set_request ?s" by (simp add: tv(1) set_request_def)
  then have t: "sob_Status t = st" "set_request t = req" "swd_Store v = swd_Store w"
      "swd_Maps v = set_updateMaps ops (set_key ctl env req) t (swd_Maps w)"
    using s(5) by (simp add: tv(1)) (simp_all add: \<open>set_request t = set_request ?s\<close> s(5) tv(2))
  have "tracked ops w' = (tracked ops w)(set_key ctl env req := set (sst_MatchingClusterRefs st))"
    by (rule ext) (simp add: tracked_def w' t update_maps_exact)
  moreover have "sob_ClusterSelector t = sob_ClusterSelector s" by (simp add: tv(1) s(3))
  then have "map_of (pc_Profiles (swd_Maps w')) = (map_of (pc_Profiles (swd_Maps w)))(set_key ctl env req \<mapsto> sob_ClusterSelector s)"
    by (simp add: w' t(4) set_updateMaps_def Let_def update_conv')
  moreover have "map_option sob_Status (List.find (\<lambda>s. set_request s = req) (swd_Store w')) = Some st"
    unfolding w' by (simp add: t stored_status [OF found] del: map_option_eq_Some)
  ultimately show ?thesis using m s(6) by auto
qed

end

section \<open>Exactness\<close>

lemma select_keeps_matching: "sst_MatchingClusterRefs (snd (selectClusters lookup n st)) = sst_MatchingClusterRefs st"
  by (simp add: selectClusters_def selectMoreClusters_def Let_def split: sum.split)

lemma selected_healthy:
  assumes "selectClusters lookup n st = (None, st')"
  shows "set (slice (sst_SelectedClusterRefs st')) \<subseteq>
      {c \<in> set (sst_MatchingClusterRefs st'). \<not> is_sveltos_cluster c \<or> lookup (ref_Namespace c) (ref_Name c) = Inr False}"
    "length (slice (sst_SelectedClusterRefs st')) \<le> n"
proof -
  obtain healthy where h: "pruneConnectionDownClusters lookup (sst_MatchingClusterRefs st) = Inr healthy"
    using assms by (cases "pruneConnectionDownClusters lookup (sst_MatchingClusterRefs st)") (auto simp: selectClusters_def)
  let ?cur = "filter (\<lambda>c. c \<in> set healthy) (slice (sst_SelectedClusterRefs st))"
  have sel: "slice (sst_SelectedClusterRefs st') = (if n < length ?cur then take (n - 1) ?cur
      else ?cur @ take (n - length ?cur) (filter (\<lambda>c. c \<notin> set ?cur) healthy))"
    using selectClusters_ok [OF h refl, of n] assms by simp
  have m: "sst_MatchingClusterRefs st' = sst_MatchingClusterRefs st"
    using select_keeps_matching [of lookup n st] assms by simp
  have "set (slice (sst_SelectedClusterRefs st')) \<subseteq> set healthy"
    unfolding sel by (auto dest: in_set_takeD)
  then show "set (slice (sst_SelectedClusterRefs st')) \<subseteq>
      {c \<in> set (sst_MatchingClusterRefs st'). \<not> is_sveltos_cluster c \<or> lookup (ref_Namespace c) (ref_Name c) = Inr False}"
    unfolding m prune_ok [OF h] by auto
  show "length (slice (sst_SelectedClusterRefs st')) \<le> n" unfolding sel by auto
qed

lemma set_matching_confined:
  assumes "getMatchingClusters env ns sel (map (\<lambda>c. c\<lparr>ref_Namespace := ns\<rparr>) refs) = Inr m"
    and "lookups_confined env" and "ns \<noteq> []" and "c \<in> set m"
  shows "ref_Namespace c = ns"
  using assms lookups_confinedD(1) [OF assms(2,3)] by (auto simp: getMatchingClusters_def split: sum.splits)

text \<open>
  C34. After any history of its controller, a pass over a Set or ClusterSet that ends well stores a selection of at most MaxReplicas
  clusters, each of them matching and not cut off; a Set matches clusters of its own namespace only. From then on a change of a cluster
  requests exactly the sets that matched it at their last good pass and those whose selector matches its labels now.
\<close>

theorem set_controller_exact:
  assumes ops: "object_set ops" and w: "w = set_run ops ctl events"
    and run: "set_Reconcile ops ctl env req w = (0, None, w')" and get: "pe_Get (se_Profile env) = None"
    and found: "List.find (\<lambda>s. set_request s = req) (swd_Store w) = Some s" and live: "om_DeletionTimestamp (sob_Meta s) = None"
  shows "\<exists>st. map_option sob_Status (List.find (\<lambda>s. set_request s = req) (swd_Store w')) = Some st \<and>
    set (slice (sst_SelectedClusterRefs st)) \<subseteq> {c \<in> set (sst_MatchingClusterRefs st).
      \<not> is_sveltos_cluster c \<or> se_Connection env (ref_Namespace c) (ref_Name c) = Inr False} \<and>
    length (slice (sst_SelectedClusterRefs st)) \<le> sob_MaxReplicas s \<and>
    (ctl = Set_Controller \<and> lookups_confined (se_Profile env) \<and> fst req \<noteq> [] \<longrightarrow>
      (\<forall>c \<in> set (sst_MatchingClusterRefs st). ref_Namespace c = fst req)) \<and>
    (\<forall>c sel lbls. set (fst (requeueSetForCluster ops sel c lbls w')) = (\<lambda>k. (ref_Namespace k, ref_Name k)) `
      {k. c \<in> ((tracked ops w)(set_key ctl env req := set (sst_MatchingClusterRefs st))) k \<or>
        (\<exists>t m. ((map_of (pc_Profiles (swd_Maps w)))(set_key ctl env req \<mapsto> sob_ClusterSelector s)) k = Some t \<and>
          sel t = Some m \<and> snd m lbls)})"
proof -
  obtain m st where m: "getMatchingClusters (se_Profile env) (case ctl of Set_Controller \<Rightarrow> fst req | ClusterSet_Controller \<Rightarrow> [])
        (sob_ClusterSelector s) (case ctl of Set_Controller \<Rightarrow> map (\<lambda>c. c\<lparr>ref_Namespace := fst req\<rparr>) (sob_ClusterRefs s)
          | ClusterSet_Controller \<Rightarrow> sob_ClusterRefs s) = Inr m"
      "selectClusters (se_Connection env) (sob_MaxReplicas s) ((sob_Status s)\<lparr>sst_MatchingClusterRefs := m\<rparr>) = (None, st)"
    and maps: "tracked ops w' = (tracked ops w)(set_key ctl env req := set (sst_MatchingClusterRefs st))"
      "map_of (pc_Profiles (swd_Maps w')) = (map_of (pc_Profiles (swd_Maps w)))(set_key ctl env req \<mapsto> sob_ClusterSelector s)"
    and st: "map_option sob_Status (List.find (\<lambda>s. set_request s = req) (swd_Store w')) = Some st"
    using object_set.pass_maps [OF ops run get found live] by blast
  have "sst_MatchingClusterRefs st = m"
    using select_keeps_matching [of "se_Connection env" "sob_MaxReplicas s" "(sob_Status s)\<lparr>sst_MatchingClusterRefs := m\<rparr>"] m(2)
    by simp
  then have "ctl = Set_Controller \<and> lookups_confined (se_Profile env) \<and> fst req \<noteq> [] \<longrightarrow>
      (\<forall>c \<in> set (sst_MatchingClusterRefs st). ref_Namespace c = fst req)"
    using m(1) set_matching_confined by auto
  moreover have "set_maps_inv ops (swd_Maps w')"
    using object_set.set_Reconcile_inv [OF ops object_set.set_run_inv [OF ops, of ctl events], of ctl env req] run w by simp
  then have "\<forall>c sel lbls. set (fst (requeueSetForCluster ops sel c lbls w')) = (\<lambda>k. (ref_Namespace k, ref_Name k)) `
      {k. c \<in> ((tracked ops w)(set_key ctl env req := set (sst_MatchingClusterRefs st))) k \<or>
        (\<exists>t m. ((map_of (pc_Profiles (swd_Maps w)))(set_key ctl env req \<mapsto> sob_ClusterSelector s)) k = Some t \<and>
          sel t = Some m \<and> snd m lbls)}"
    using object_set.requests_by_maps [OF ops] maps by simp
  ultimately show ?thesis using st selected_healthy [OF m(2)] by blast
qed

text \<open>The controllers give a set no finalizer, so that its deletion is seen only once it is gone, and its entries stay.\<close>

lemma removed_set_leaks:
  "List.find (\<lambda>s. set_request s = req) (swd_Store w) = None \<Longrightarrow> pe_Get (se_Profile env) = None \<Longrightarrow>
    set_Reconcile ops ctl env req w = (0, None, w)"
  by (simp add: set_Reconcile_def)

section \<open>Witness\<close>

definition sample_set :: set_object where
  "sample_set = \<lparr>sob_Meta = zero_object_meta\<lparr>om_Name := ''s'', om_Namespace := ''ns''\<rparr>, sob_ClusterSelector = ''env=prod'',
     sob_ClusterRefs = [sample_ref ''b''], sob_MaxReplicas = 1,
     sob_Status = \<lparr>sst_MatchingClusterRefs = [], sst_SelectedClusterRefs = None\<rparr>\<rparr>"

definition sample_set_env :: set_env where
  "sample_set_env = \<lparr>se_Profile = sample_controller_env [] False, se_Connection = (\<lambda>_ _. Inr False)\<rparr>"

definition sample_set_events :: "set_event list" where
  "sample_set_events = [Sets_Changed [sample_set], Cluster_Changed (\<lambda>_. None) (sample_ref ''c'') []]"

theorem set_controller_exact_witness:
  "let w = set_run list_set_ops Set_Controller sample_set_events;
       w' = snd (snd (set_Reconcile list_set_ops Set_Controller sample_set_env (''ns'', ''s'') w))
   in (''ns'', ''s'') \<in> set (fst (requeueSetForCluster list_set_ops (\<lambda>_. None) ((sample_ref ''b'')\<lparr>ref_Namespace := ''ns''\<rparr>) [] w'))"
proof -
  let ?w = "set_run list_set_ops Set_Controller sample_set_events"
  let ?r = "set_Reconcile list_set_ops Set_Controller sample_set_env (''ns'', ''s'') ?w"
  have "fst ?r = 0" "fst (snd ?r) = None" by code_simp+
  then have run: "?r = (0, None, snd (snd ?r))" by (metis prod.collapse)
  have get: "pe_Get (se_Profile sample_set_env) = None" by (simp add: sample_set_env_def sample_controller_env_def)
  have store: "swd_Store ?w = [sample_set]"
    by (simp add: set_run_def sample_set_events_def set_step_def requeueSetForCluster_def split_beta)
  have found: "List.find (\<lambda>s. set_request s = (''ns'', ''s'')) (swd_Store ?w) = Some sample_set"
    by (simp add: store) (simp add: set_request_def sample_set_def)
  have live: "om_DeletionTimestamp (sob_Meta sample_set) = None" by (simp add: sample_set_def zero_object_meta_def)
  have stored: "map_option (sst_MatchingClusterRefs \<circ> sob_Status) (List.find (\<lambda>s. set_request s = (''ns'', ''s'')) (swd_Store (snd (snd ?r)))) =
      Some [(sample_ref ''a'')\<lparr>ref_Namespace := ''ns''\<rparr>, (sample_ref ''b'')\<lparr>ref_Namespace := ''ns''\<rparr>]" by code_simp
  have key: "ref_Namespace (set_key Set_Controller sample_set_env (''ns'', ''s'')) = ''ns''"
    "ref_Name (set_key Set_Controller sample_set_env (''ns'', ''s'')) = ''s''" by (simp_all add: set_key_def set_info_def)
  let ?w' = "snd (snd ?r)" and ?key = "set_key Set_Controller sample_set_env (''ns'', ''s'')" and ?c = "(sample_ref ''b'')\<lparr>ref_Namespace := ''ns''\<rparr>"
  obtain st where st: "map_option sob_Status (List.find (\<lambda>s. set_request s = (''ns'', ''s'')) (swd_Store ?w')) = Some st"
    and reqs: "\<And>c sel lbls. set (fst (requeueSetForCluster list_set_ops sel c lbls ?w')) = (\<lambda>k. (ref_Namespace k, ref_Name k)) `
      {k. c \<in> ((tracked list_set_ops ?w)(?key := set (sst_MatchingClusterRefs st))) k \<or>
        (\<exists>t m. ((map_of (pc_Profiles (swd_Maps ?w)))(?key \<mapsto> sob_ClusterSelector sample_set)) k = Some t \<and>
          sel t = Some m \<and> snd m lbls)}"
    using set_controller_exact [OF list_object_set.object_set_axioms refl run get found live] by (elim exE conjE) blast
  have "?c \<in> set (sst_MatchingClusterRefs st)" using st stored by auto
  then have "(ref_Namespace ?key, ref_Name ?key) \<in> set (fst (requeueSetForCluster list_set_ops (\<lambda>_. None) ?c [] ?w'))"
    unfolding reqs by (intro imageI) simp
  then show ?thesis unfolding key Let_def .
qed

end
