(* ===== verification/Spec2Isabelle.thy ===== *)
theory Spec2Isabelle
  imports Feature_Deployer License_Manager Cluster_Selection Health_Monitoring Dependency_Manager Watchers
    Profile_Controller Teardown Agent_Runs Spec_Hash Drift_Runs Resource_Runs Event_Filters Set_Controllers
begin

text \<open>
  Addon controller of Sveltos (repository projectsveltos/addon-controller): a shallow embedding of its decision making.

  The program. A ClusterProfile or a Profile selects clusters and lists add-ons: helm charts, ConfigMaps and Secrets with
  resources, Kustomize directories. The profile controllers create one ClusterSummary for each selected cluster (profile_utils.go).
  The ClusterSummary controller (clustersummary_controller.go) decides when a summary may act, calls one deployer for each
  feature (clustersummary_deployer.go) and records the outcome in the status (pkg/scope/clustersummary.go). Deployers run
  in a worker pool (push mode) or hand over to an agent (pull mode). Charts wanted by several summaries are shared out by the
  chart manager (chartmanager/chartmanager.go) and deployed by handlers_helm.go. Side structures wake a summary up: reverse maps
  from references and clusters to summaries (clustersummary_transformations.go), watchers of the resources that templates read
  (clustersummary_watchers.go), and the dependency manager, which publishes prerequisite profiles to the clusters of their
  dependents (dependencymanager/manager.go).

  Theories and the code they model.
  \<^item> Prelude: strings, association lists as Go maps, slices that may be nil, shared rewriting rules.
  \<^item> Api_Types: api/v1beta1, one record for each struct, one datatype for each enumeration.
  \<^item> Object_Set: libsveltosset.Set as an interface (a locale) with the list model that provides it.
  \<^item> Chart_Manager: every operation of chartmanager.go on the maps of registrations and versions.
  \<^item> Feature_Status, Feature_Deployer: SetFeatureStatus and its kin; deployFeature, undeployFeature, pull mode and push mode.
  \<^item> License_Manager, Cluster_Selection: license_manager.go and grantsPullModeEligibility; set_utils.go.
  \<^item> Health_Monitoring: lib/healthmonitoring, the join of reports and checks.
  \<^item> Dependency_Manager: dependencymanager/manager.go and sort_v1reference.go.
  \<^item> Watchers: clustersummary_watchers.go.
  \<^item> Cluster_Ops: lib/clusterops, names, labels and the stores of ClusterSummaries (the locale of a store of objects).
  \<^item> Rollout, Profile_Cleanup: profile_utils.go, the rolling update with MaxUpdate and the removal of a profile.
  \<^item> Dependency_Gates, Reconcile_Maps, Summary_Reconcile, Teardown: clustersummary_controller.go: the gates between profiles, the
    reverse maps and the cool-down, Reconcile with reconcileNormal and reconcileDelete, and the removal of a summary as a run.
  \<^item> Helm_Values, Helm_Ownership, Helm_Decisions: handlers_helm.go: options and values, claims and their handover, what is done to
    one release. Apply_Tracking: helm_apply_tracking.go.
  \<^item> Cluster_Configuration: the ClusterConfiguration object that reports, for each profile, what is deployed in a cluster, and the
    retried updates of its owners and sections.
  \<^item> Profile_Controller: clusterprofile_controller.go, profile_controller.go and the rest of profile_utils.go: matching clusters,
    templates of ClusterSummaries, sets, requeue reasons.
  \<^item> Helm_Content, Helm_Registry, Helm_Status, Helm_Agent, Helm_Charts: the run of handleCharts: hooks and bundles staged for the
    agent, credentials and registry options, the HelmReleaseSummaries of the status, pull mode, the walk over the charts and
    the undeployment.
  \<^item> Chart_Runs, Agent_Runs: theorems on whole runs of deployHelmCharts, in push mode and in pull mode.
  \<^item> Reference_Content: the ConfigMaps, Secrets and Flux sources that values, patches and template data are taken from
    (handlers_utils.go, template_instantiation.go, templateresourcedef_utils.go, flux_source.go). Url_Source: url_source.go.
    Kustomize_Files: the directory a kustomization is built from, with the extraction of archives (handlers_kustomize.go).
  \<^item> Spec_Hash: sort.go and the hashes of the specification of a profile and of its features, which decide whether anything
    changed; sort.Sort is an interface (a locale).
  \<^item> Drift_Collection, Drift_Runs: resourcesummary_collection.go, from a reported configuration drift to the status of the
    ClusterSummary, and theorems on whole collections.
  \<^item> Reloaders: lib/clusterops/reloader.go and the ConfigMap that names the Reloaders of a cluster (handlers_utils.go).
  \<^item> Resource_Deploy: from the references of a profile to objects in the clusters or bundles for the agent (deployUnstructured,
    deployContent, deployObjects in handlers_utils.go, deployContentOfURL, isNamespaced). Resource_Cleanup: undeployStaleResources and
    the clean-up after a deployment. The world \<open>resource_world\<close> holds the objects of both clusters, which can be the same.
  \<^item> Resource_Feature, Kustomize_Feature: the handlers of handlers_resources.go and handlers_kustomize.go on that world;
    \<open>post_process\<close> is the code the two share, \<open>feature_calls\<close> what each does differently.
  \<^item> Resource_Frames, Resource_Runs: the locale \<open>deployment_frame\<close>: what the write of one list of objects leaves alone is left alone by
    a whole deployment; its interpretations, and theorems on passes of the two features.
  \<^item> Health_Checks: health_monitoring.go, the HealthCheck and the ClusterHealthCheck of a ClusterSummary and the script in them, with a
    reader of the script. Event_Filters: the predicates on events of clustersummary_predicates.go and clusterprofile_predicates.go,
    tied to the hashes and to the resets they are to notice.
  \<^item> Set_Controllers: the controllers of Set and ClusterSet (set_controller.go, clusterset_controller.go), on the maps of
    Profile_Controller and the selection of Cluster_Selection.

  How the model corresponds to the code. A Go struct is a record with the fields of the struct behind a short prefix; a Go map is an
  association list, because the code iterates over maps, and theorems about an iteration hold for every order or take the
  order as an argument; a pointer that may be nil is an option. A handler takes the state and returns the new state with an
  \<open>error option\<close> or a sum. Times are seconds. ConsecutiveFailures, an unsigned 64 bit counter, is a word. Locks are
  not modelled: an operation under a lock is one step, and code that releases a lock and takes it again is several steps.
  The log, events and metrics are dropped.

  What is a parameter. The API server, controller-runtime, libsveltos (the deployer client, clusterproxy, pull mode), the helm SDK,
  semver, sha256, YAML and templates are not in the repository. Their answers are fields of environment records (\<open>reconcile_env\<close>,
  \<open>ownership_env\<close>, \<open>helm_env\<close>, \<open>registry_env\<close>, \<open>charts_env\<close>, \<open>refs_env\<close>, \<open>url_env\<close>, \<open>files_env\<close>, \<open>hash_env\<close>, \<open>drift_env\<close>,
  \<open>reloader_env\<close>, \<open>resource_env\<close>, \<open>kustomize_env\<close>, \<open>monitor_env\<close>, \<open>set_env\<close>) or arguments, and what theorems need of them is a named hypothesis or a locale law.

  What the lemmas show. Each theory proves an invariant of its state and that every operation keeps it (the \<open>_wf\<close> and \<open>_ok\<close>
  lemmas), then what each operation returns on every branch. The properties, numbered C1 to C40, span: exclusive
  ownership of releases, gating of work and finalizers, termination of rollout and teardown (by measures, no fuel), exactness
  of the reverse maps, counters and retries, and the error behaviour of the corners in which the code departs from its
  comments.

  Bounds. Loops over lists are structural recursion. Runs of reconciliations are lists of environments: a theorem on
  convergence states how many passes are enough. The retries of client-go's retry.OnError (five attempts) are a counter.

  Not modelled. lib/crd and zz_generated.deepcopy.go are generated data; pkg/app, cmd, telemetry, metrics and events have no decision
  of the model's components; lua_instantiation.go and the engine behind template_instantiation.go run an interpreter that is not in
  the repository; validate_health.go, delete_checks.go and source_integrity.go are chains of client calls around such interpreters, and enter
  as calls that may fail; drift detection deploys manifests; the check for outdated charts (helmchart_outdated_check.go) only reports; ClusterPromotion is the stub of an enterprise feature. The
  manifest lists each with its reason.
\<close>

end
